(* ===== verification/Prelude.thy ===== *)
theory Prelude
  imports Main "HOL-Library.Word"
begin

text \<open>
  Shared vocabulary of the development: the machine integer types of the firmware, the idioms
  on \<open>millis()\<close> stamps that every timer of the code uses, C strings as lists of characters,
  and the interfaces (locales) that the state machines of the components share.

  Times are \<open>uint32_t\<close> millisecond counters that wrap after 49.7 days. The code compares
  them in two ways: \<open>now - since >= limit\<close> on unsigned differences, and
  \<open>(int32_t)(now - at) >= 0\<close> on a deadline. Both are kept as written, on \<open>32 word\<close>.
\<close>

section \<open>Machine integers and millisecond stamps\<close>

type_synonym u8 = "8 word"
type_synonym u16 = "16 word"
type_synonym u32 = "32 word"

named_theorems timer_simps "facts on wrapping millisecond stamps"

text \<open>\<open>(int32_t)(now - at) >= 0\<close>: the deadline is not in the future.\<close>

definition reached :: "u32 \<Rightarrow> u32 \<Rightarrow> bool" where
  "reached now deadline \<longleftrightarrow> 0 \<le> sint (now - deadline)"

lemma unat_u32_bound: "unat (x :: u32) < 2 ^ 32"
  using unsigned_less [of x, where ?'a = nat] by simp

lemma unat_u8_bound: "unat (x :: u8) < 256"
  using unsigned_less [of x, where ?'a = nat] by simp

lemma bit_31_iff: "bit (x :: u32) 31 \<longleftrightarrow> 2 ^ 31 \<le> unat x"
proof -
  have "unat x div 2 ^ 31 < 2"
    using unat_u32_bound [of x] by (simp add: less_mult_imp_div_less)
  moreover have "bit (unat x) 31 \<longleftrightarrow> bit x 31"
    by (simp add: bit_unsigned_iff)
  moreover have "bit (unat x) 31 \<longleftrightarrow> odd (unat x div 2 ^ 31)"
    by (rule bit_iff_odd)
  ultimately show ?thesis
    by (cases "unat x div 2 ^ 31") (auto simp: div_eq_0_iff)
qed

lemma sint_nonneg_iff: "0 \<le> sint (x :: u32) \<longleftrightarrow> unat x < 2 ^ 31"
  using bit_last_iff [of x] bit_31_iff [of x] by auto

lemma reached_iff: "reached now deadline \<longleftrightarrow> unat (now - deadline) < 2 ^ 31"
  by (simp add: reached_def sint_nonneg_iff)

lemma reached_refl [simp]: "reached t t"
  by (simp add: reached_iff)

lemma reached_after: "unat d < 2 ^ 31 \<Longrightarrow> reached (t + d) t"
  by (simp add: reached_iff)

text \<open>A deadline \<open>t + delay\<close> looked at \<open>d\<close> milliseconds after \<open>t\<close>.\<close>

lemma reached_deadline [timer_simps]:
  assumes "unat d < 2 ^ 31" "unat delay < 2 ^ 31"
  shows "reached (t + d) (t + delay) \<longleftrightarrow> delay \<le> d"
proof (cases "delay \<le> d")
  case True
  then have "unat (d - delay) = unat d - unat delay"
    by (simp add: unat_sub_if_size word_le_nat_alt)
  with True assms show ?thesis by (simp add: reached_iff)
next
  case False
  then have "unat (d - delay) = unat d + 2 ^ 32 - unat delay"
    by (simp add: unat_sub_if_size word_le_nat_alt word_size)
  with False assms show ?thesis by (simp add: reached_iff)
qed

text \<open>
  The stamp of a true time \<open>t\<close>, counted from the boot without wrap-around, is
  \<open>of_nat t\<close>. The unsigned difference of two stamps never exceeds the time that really
  passed, so a check \<open>now - since >= limit\<close> can fire late after a wrap, never early.
\<close>

lemma stamp_diff:
  assumes "s \<le> t"
  shows "unat (of_nat t - of_nat s :: u32) = (t - s) mod 2 ^ 32"
proof -
  have "of_nat t - of_nat s = (of_nat (t - s) :: u32)" using assms by simp
  then show ?thesis by (simp add: unat_of_nat)
qed

lemma stamp_diff_le: "s \<le> t \<Longrightarrow> unat (of_nat t - of_nat s :: u32) \<le> t - s"
  by (simp add: stamp_diff)

lemma stamp_diff_exact: "s \<le> t \<Longrightarrow> t - s < 2 ^ 32 \<Longrightarrow> unat (of_nat t - of_nat s :: u32) = t - s"
  by (simp add: stamp_diff)

text \<open>A counter below a ceiling of its own width does not wrap when it is incremented.\<close>

lemma unat_inc_u8 [timer_simps]: "unat (c :: u8) < unat (mx :: u8) \<Longrightarrow> unat (c + 1) = Suc (unat c)"
  using unat_u8_bound [of mx] by (simp add: unat_word_ariths)

lemma inc_le_u8: "(c :: u8) < mx \<Longrightarrow> c + 1 \<le> mx"
  by (simp add: word_less_nat_alt word_le_nat_alt unat_inc_u8)

text \<open>A saturating \<open>uint8_t\<close> counter below its ceiling.\<close>

lemma unat_Suc_u8: "unat (c :: u8) < 255 \<Longrightarrow> unat (c + 1) = Suc (unat c)"
  by (simp add: unat_word_ariths)

lemma unat_Suc_u32: "unat (c :: u32) < 2 ^ 32 - 1 \<Longrightarrow> unat (c + 1) = Suc (unat c)"
  by (simp add: unat_word_ariths)


section \<open>C strings\<close>

text \<open>
  A C string is the list of the bytes before its terminator; the code never puts a NUL byte
  inside one. A pointer that may be null is a \<open>string option\<close>.
\<close>

definition ord :: "char \<Rightarrow> nat" where
  "ord c = of_char c"

lemma ord_inject: "ord a = ord b \<longleftrightarrow> a = b"
  by (simp add: ord_def)

lemma ord_0 [simp]: "ord c = 0 \<longleftrightarrow> c = CHR 0x00"
  using ord_inject [of c "CHR 0x00"] by (simp add: ord_def)

definition in_range :: "char \<Rightarrow> char \<Rightarrow> char \<Rightarrow> bool" where
  "in_range lo hi c \<longleftrightarrow> ord lo \<le> ord c \<and> ord c \<le> ord hi"

abbreviation is_digit :: "char \<Rightarrow> bool" where
  "is_digit \<equiv> in_range (CHR ''0'') (CHR ''9'')"

text \<open>ASCII case folding, as every comparison of the code does it.\<close>

definition lower :: "char \<Rightarrow> char" where
  "lower c = (if in_range (CHR ''A'') (CHR ''Z'') c then char_of (ord c + 32) else c)"

definition upper :: "char \<Rightarrow> char" where
  "upper c = (if in_range (CHR ''a'') (CHR ''z'') c then char_of (ord c - 32) else c)"

lemma lower_lower [simp]: "lower (lower c) = lower c"
  by (auto simp: lower_def in_range_def ord_def)

text \<open>\<open>String::startsWith\<close>, \<open>strncmp(s, p, strlen(p)) == 0\<close>.\<close>

definition starts_with :: "string \<Rightarrow> string \<Rightarrow> bool" where
  "starts_with s p \<longleftrightarrow> take (length p) s = p"

lemma starts_with_append [simp]: "starts_with (p @ s) p"
  by (simp add: starts_with_def)

lemma starts_withE: "starts_with s p \<Longrightarrow> (\<And>t. s = p @ t \<Longrightarrow> P) \<Longrightarrow> P"
  unfolding starts_with_def by (metis append_take_drop_id)

text \<open>\<open>strstr(s, p) != nullptr\<close>\<close>

definition contains :: "string \<Rightarrow> string \<Rightarrow> bool" where
  "contains s p = list_ex (\<lambda>i. starts_with (drop i s) p) [0..<Suc (length s)]"

text \<open>Decimal text of a number, \<open>std::to_string\<close> and \<open>%u\<close>.\<close>

definition digit :: "nat \<Rightarrow> char" where
  "digit d = char_of (48 + d)"

fun dec :: "nat \<Rightarrow> string" where
  "dec n = (if n < 10 then [digit n] else dec (n div 10) @ [digit (n mod 10)])"

declare dec.simps [simp del]

definition dec_int :: "int \<Rightarrow> string" where
  "dec_int i = (if i < 0 then CHR ''-'' # dec (nat (- i)) else dec (nat i))"

lemma dec_nonempty [simp]: "dec n \<noteq> []"
  by (subst dec.simps) simp

lemma ord_digit [simp]: "d < 10 \<Longrightarrow> ord (digit d) = 48 + d"
  by (simp add: ord_def digit_def)

lemma is_digit_digit [simp]: "d < 10 \<Longrightarrow> is_digit (digit d)"
  by (simp add: in_range_def) (simp add: ord_def)

lemma dec_digits: "c \<in> set (dec n) \<Longrightarrow> is_digit c"
  by (induction n rule: dec.induct) (subst (asm) (2) dec.simps, auto split: if_splits)

text \<open>The value of a run of digits, most significant first.\<close>

definition digit_value :: "char \<Rightarrow> nat" where
  "digit_value c = ord c - 48"

definition digits_value :: "string \<Rightarrow> nat" where
  "digits_value s = foldl (\<lambda>v c. 10 * v + digit_value c) 0 s"

lemma digit_value_digit [simp]: "d < 10 \<Longrightarrow> digit_value (digit d) = d"
  by (simp add: digit_value_def)

lemma digits_value_snoc: "digits_value (s @ [c]) = 10 * digits_value s + digit_value c"
  by (simp add: digits_value_def)

lemma digits_value_dec [simp]: "digits_value (dec n) = n"
proof (induction n rule: dec.induct)
  case (1 n)
  show ?case
  proof (cases "n < 10")
    case True
    then show ?thesis by (subst dec.simps) (simp add: digits_value_def)
  next
    case False
    with 1 show ?thesis by (subst dec.simps) (simp add: digits_value_snoc)
  qed
qed


section \<open>State machines with outputs\<close>

text \<open>
  Most policies of the firmware are objects whose methods update the state and return a
  decision. \<open>run\<close> feeds a list of calls to such an object and collects the decisions.
\<close>

fun run :: "('s \<Rightarrow> 'e \<Rightarrow> 's \<times> 'a) \<Rightarrow> 's \<Rightarrow> 'e list \<Rightarrow> 's \<times> 'a list" where
  "run step s [] = (s, [])"
| "run step s (e # es) =
     (let (s', a) = step s e; (t, as) = run step s' es in (t, a # as))"

lemma run_Cons: "run step s (e # es) =
    (fst (run step (fst (step s e)) es), snd (step s e) # snd (run step (fst (step s e)) es))"
  by (simp add: split_beta Let_def)

lemma run_Cons_proj:
  "fst (run step s (e # es)) = fst (run step (fst (step s e)) es)"
  "snd (run step s (e # es)) = snd (step s e) # snd (run step (fst (step s e)) es)"
  by (simp_all only: run_Cons fst_conv snd_conv)

declare run.simps(2) [simp del]

lemma run_append:
  "run step s (xs @ ys) =
     (fst (run step (fst (run step s xs)) ys), snd (run step s xs) @ snd (run step (fst (run step s xs)) ys))"
  by (induction xs arbitrary: s) (simp_all add: run_Cons)

lemma length_run [simp]: "length (snd (run step s es)) = length es"
  by (induction es arbitrary: s) (simp_all add: run_Cons)

text \<open>An invariant that every call keeps holds after any sequence of calls.\<close>

locale machine =
  fixes step :: "'s \<Rightarrow> 'e \<Rightarrow> 's \<times> 'a"
    and inv :: "'s \<Rightarrow> bool"
  assumes inv_step: "inv s \<Longrightarrow> inv (fst (step s e))"
begin

lemma inv_run: "inv s \<Longrightarrow> inv (fst (run step s es))"
  by (induction es arbitrary: s) (simp_all add: run_Cons inv_step)

end

text \<open>
  An escalation ladder: a machine that climbs one rung for every decision of one kind, at
  most \<open>cap\<close> of them, until a call of a given kind puts it back on the ground.
\<close>

locale ladder = machine +
  fixes climbs :: "'c \<Rightarrow> bool"
    and level :: "'a \<Rightarrow> nat"
    and cap :: "'a \<Rightarrow> nat"
    and grounds :: "'b \<Rightarrow> bool"
  assumes cap_step: "cap (fst (step s e)) = cap s"
    and climb: "inv s \<Longrightarrow> climbs (snd (step s e)) \<Longrightarrow>
      level (fst (step s e)) = Suc (level s) \<and> level s < cap s"
    and stay: "inv s \<Longrightarrow> \<not> climbs (snd (step s e)) \<Longrightarrow> \<not> grounds e \<Longrightarrow>
      level (fst (step s e)) = level s"
begin

lemma climbs_counted:
  assumes "inv s" "\<not> (\<exists>e \<in> set es. grounds e)"
  shows "level (fst (run step s es)) = level s + length (filter climbs (snd (run step s es)))"
  using assms
proof (induction es arbitrary: s)
  case Nil
  then show ?case by simp
next
  case (Cons e es)
  then show ?case
    using climb [of s e] stay [of s e] by (auto simp: run_Cons inv_step)
qed

lemma cap_run: "cap (fst (run step s es)) = cap s"
  by (induction es arbitrary: s) (simp_all add: run_Cons cap_step)

lemma level_run_le:
  assumes "inv s" "level s \<le> cap s" "\<not> (\<exists>e \<in> set es. grounds e)"
  shows "level (fst (run step s es)) \<le> cap s"
  using assms
proof (induction es arbitrary: s)
  case Nil
  then show ?case by simp
next
  case (Cons e es)
  have "level (fst (step s e)) \<le> cap (fst (step s e))"
    using Cons.prems climb [of s e] stay [of s e] cap_step [of s e]
    by (cases "climbs (snd (step s e))") auto
  then show ?case
    using Cons.IH [of "fst (step s e)"] Cons.prems by (simp add: run_Cons inv_step cap_step)
qed

lemma climbs_bounded:
  assumes "inv s" "level s \<le> cap s" "\<not> (\<exists>e \<in> set es. grounds e)"
  shows "length (filter climbs (snd (run step s es))) \<le> cap s - level s"
  using climbs_counted [OF assms(1,3)] level_run_le [OF assms] by arith

end

end
