(* ===== verification/LinkMonitor.thy ===== *)
theory LinkMonitor
  imports Prelude
begin

text \<open>
  The two health trackers of \<open>lib/USBHostUPS/src/LinkMonitor.h\<close>. \<open>LinkMonitor\<close> watches the
  USB control pipe: link failures make the poll back off exponentially and climb a ladder of
  interface recoveries that ends with a restart. \<open>InputWatchdog\<close> learns the period of the
  INPUT reports and climbs the same kind of ladder when a periodic device falls silent.
  Every public method is one definition; a \<open>Config\<close> is part of the state, as in the code.
\<close>

section \<open>LinkMonitor\<close>

datatype link_action = ActNone | ActRecover | ActRestart

record lm_config =
  backoffBaseMs :: u32
  backoffMaxMs :: u32
  staleAfterMs :: u32
  linkTimeoutMs :: u32
  maxRecoveries :: u8
  stuckRestartMs :: u32

record link_monitor =
  lm_cfg :: lm_config
  lm_failures :: u8
  lm_recoveries :: u8
  lm_firstFailureMs :: u32
  lm_lastAliveMs :: u32
  lm_windowStartMs :: u32
  lm_backoffUntilMs :: u32
  lm_backoffActive :: bool

definition lm_defaultConfig :: lm_config where
  "lm_defaultConfig = \<lparr>backoffBaseMs = 2000, backoffMaxMs = 30000, staleAfterMs = 20000,
     linkTimeoutMs = 60000, maxRecoveries = 2, stuckRestartMs = 3000\<rparr>"

definition lm_reset :: "link_monitor \<Rightarrow> u32 \<Rightarrow> link_monitor" where
  "lm_reset m now = m\<lparr>lm_failures := 0, lm_firstFailureMs := now, lm_recoveries := 0,
     lm_lastAliveMs := now, lm_windowStartMs := now, lm_backoffUntilMs := now,
     lm_backoffActive := False\<rparr>"

definition lm_new :: "lm_config \<Rightarrow> link_monitor" where
  "lm_new cfg = lm_reset \<lparr>lm_cfg = cfg, lm_failures = 0, lm_recoveries = 0, lm_firstFailureMs = 0,
     lm_lastAliveMs = 0, lm_windowStartMs = 0, lm_backoffUntilMs = 0, lm_backoffActive = False\<rparr> 0"

definition lm_onAlive :: "link_monitor \<Rightarrow> u32 \<Rightarrow> link_monitor" where
  "lm_onAlive m now = m\<lparr>lm_failures := 0, lm_recoveries := 0, lm_lastAliveMs := now,
     lm_windowStartMs := now, lm_backoffActive := False\<rparr>"

text \<open>\<open>for (i = 1; i < _failures && backoff < max; i++) backoff *= 2\<close>, with the number
  of iterations that \<open>i < _failures\<close> still allows.\<close>

fun lm_double :: "nat \<Rightarrow> u32 \<Rightarrow> u32 \<Rightarrow> u32" where
  "lm_double 0 backoff mx = backoff"
| "lm_double (Suc n) backoff mx = (if backoff < mx then lm_double n (backoff * 2) mx else backoff)"

definition lm_backoff :: "lm_config \<Rightarrow> u8 \<Rightarrow> u32" where
  "lm_backoff cfg failures =
     (let b = lm_double (unat failures - 1) (backoffBaseMs cfg) (backoffMaxMs cfg)
      in if backoffMaxMs cfg < b then backoffMaxMs cfg else b)"

definition lm_onLinkFailure :: "link_monitor \<Rightarrow> u32 \<Rightarrow> link_monitor" where
  "lm_onLinkFailure m now =
     (let m1 = (if lm_failures m = 0 then m\<lparr>lm_firstFailureMs := now\<rparr> else m);
          m2 = (if lm_failures m1 < 255 then m1\<lparr>lm_failures := lm_failures m1 + 1\<rparr> else m1)
      in m2\<lparr>lm_backoffUntilMs := now + lm_backoff (lm_cfg m2) (lm_failures m2),
            lm_backoffActive := True\<rparr>)"

definition lm_canPoll :: "link_monitor \<Rightarrow> u32 \<Rightarrow> bool" where
  "lm_canPoll m now \<longleftrightarrow> \<not> lm_backoffActive m \<or> reached now (lm_backoffUntilMs m)"

definition lm_isStale :: "link_monitor \<Rightarrow> u32 \<Rightarrow> bool" where
  "lm_isStale m now \<longleftrightarrow> 0 < lm_failures m \<and> staleAfterMs (lm_cfg m) \<le> now - lm_lastAliveMs m"

definition lm_tick :: "link_monitor \<Rightarrow> u32 \<Rightarrow> bool \<Rightarrow> link_monitor \<times> link_action" where
  "lm_tick m now ctrlStuck =
     (if lm_failures m = 0 then (m, ActNone)
      else if ctrlStuck \<and> stuckRestartMs (lm_cfg m) \<le> now - lm_firstFailureMs m then (m, ActRestart)
      else if now - lm_windowStartMs m < linkTimeoutMs (lm_cfg m) then (m, ActNone)
      else if maxRecoveries (lm_cfg m) \<le> lm_recoveries m then (m, ActRestart)
      else (m\<lparr>lm_recoveries := lm_recoveries m + 1, lm_windowStartMs := now,
              lm_backoffActive := False\<rparr>, ActRecover))"

text \<open>The calls the poll loop makes on the monitor.\<close>

datatype lm_call = LmReset u32 | LmAlive u32 | LmFailure u32 | LmTick u32 bool

fun lm_step :: "link_monitor \<Rightarrow> lm_call \<Rightarrow> link_monitor \<times> link_action" where
  "lm_step m (LmReset now) = (lm_reset m now, ActNone)"
| "lm_step m (LmAlive now) = (lm_onAlive m now, ActNone)"
| "lm_step m (LmFailure now) = (lm_onLinkFailure m now, ActNone)"
| "lm_step m (LmTick now stuck) = lm_tick m now stuck"

lemmas lm_defs = lm_reset_def lm_onAlive_def lm_onLinkFailure_def lm_tick_def Let_def

subsection \<open>Backoff\<close>

text \<open>The doubling loop stops at the first value that reaches the maximum.\<close>

lemma lm_double_closed:
  assumes "unat mx < 2 ^ 31" "unat base \<le> unat mx" "0 < base"
  shows "min (unat (lm_double n base mx)) (unat mx) = min (2 ^ n * unat base) (unat mx)"
  using assms(2,3)
proof (induction n arbitrary: base)
  case 0
  then show ?case by simp
next
  case (Suc n)
  show ?case
  proof (cases "base < mx")
    case False
    with Suc.prems have "unat base = unat mx" by (simp add: word_less_nat_alt)
    then show ?thesis using False by simp
  next
    case True
    have dbl: "unat (base * 2) = 2 * unat base"
      using True assms(1) by (simp add: unat_word_ariths word_less_nat_alt)
    show ?thesis
    proof (cases "unat (base * 2) \<le> unat mx")
      case le: True
      have "0 < base * 2" using Suc.prems(2) dbl by (simp add: word_less_nat_alt)
      with le show ?thesis using Suc.IH [of "base * 2"] True dbl by simp
    next
      case False
      then have "lm_double n (base * 2) mx = base * 2"
        by (cases n) (auto simp: word_less_nat_alt)
      moreover have "unat mx \<le> 2 ^ Suc n * unat base"
      proof -
        have "unat mx < 2 * unat base" using False dbl by simp
        also have "\<dots> \<le> 2 ^ Suc n * unat base" by simp
        finally show ?thesis by simp
      qed
      ultimately show ?thesis using True False dbl by simp
    qed
  qed
qed

definition lm_config_ok :: "lm_config \<Rightarrow> bool" where
  "lm_config_ok cfg \<longleftrightarrow> 0 < backoffBaseMs cfg \<and> backoffBaseMs cfg \<le> backoffMaxMs cfg \<and>
     unat (backoffMaxMs cfg) < 2 ^ 31"

lemma lm_backoff_closed:
  assumes "lm_config_ok cfg" "0 < failures"
  shows "unat (lm_backoff cfg failures) =
    min (2 ^ (unat failures - 1) * unat (backoffBaseMs cfg)) (unat (backoffMaxMs cfg))"
proof -
  let ?b = "lm_double (unat failures - 1) (backoffBaseMs cfg) (backoffMaxMs cfg)"
  have "unat (lm_backoff cfg failures) = min (unat ?b) (unat (backoffMaxMs cfg))"
    by (simp add: lm_backoff_def Let_def word_less_nat_alt min_def)
  also have "\<dots> = min (2 ^ (unat failures - 1) * unat (backoffBaseMs cfg)) (unat (backoffMaxMs cfg))"
    using assms by (intro lm_double_closed) (simp_all add: lm_config_ok_def word_le_nat_alt)
  finally show ?thesis .
qed

lemma lm_failures_onLinkFailure:
  "unat (lm_failures (lm_onLinkFailure m now)) = min 255 (Suc (unat (lm_failures m)))"
  using unat_u8_bound [of "lm_failures m"]
  by (auto simp: lm_defs word_less_nat_alt unat_Suc_u8)

lemma lm_onLinkFailure_positive: "0 < lm_failures (lm_onLinkFailure m now)"
  using lm_failures_onLinkFailure [of m now] by (simp add: word_less_nat_alt)

lemma lm_cfg_onLinkFailure [simp]: "lm_cfg (lm_onLinkFailure m now) = lm_cfg m"
  by (simp add: lm_defs)

lemma lm_backoff_onLinkFailure:
  "lm_backoffUntilMs (lm_onLinkFailure m now) = now + lm_backoff (lm_cfg m) (lm_failures (lm_onLinkFailure m now))"
  "lm_backoffActive (lm_onLinkFailure m now)"
  by (simp_all add: lm_defs)

subsection \<open>The recovery ladder\<close>

definition lm_wf :: "link_monitor \<Rightarrow> bool" where
  "lm_wf m \<longleftrightarrow> lm_recoveries m \<le> maxRecoveries (lm_cfg m)"

definition lm_grounds :: "lm_call \<Rightarrow> bool" where
  "lm_grounds c = (case c of LmReset _ \<Rightarrow> True | LmAlive _ \<Rightarrow> True | _ \<Rightarrow> False)"

lemma lm_wf_step: "lm_wf m \<Longrightarrow> lm_wf (fst (lm_step m c))"
  by (cases c) (auto simp: lm_wf_def lm_defs not_le intro: inc_le_u8)

lemma lm_cfg_step: "lm_cfg (fst (lm_step m c)) = lm_cfg m"
  by (cases c) (auto simp: lm_defs)

lemma lm_climb:
  "snd (lm_step m c) = ActRecover \<Longrightarrow>
     unat (lm_recoveries (fst (lm_step m c))) = Suc (unat (lm_recoveries m)) \<and>
     unat (lm_recoveries m) < unat (maxRecoveries (lm_cfg m))"
  by (cases c) (auto simp: lm_defs word_le_nat_alt not_le timer_simps word_less_nat_alt split: if_splits)

lemma lm_stay:
  "snd (lm_step m c) \<noteq> ActRecover \<Longrightarrow> \<not> lm_grounds c \<Longrightarrow>
     lm_recoveries (fst (lm_step m c)) = lm_recoveries m"
  by (cases c) (auto simp: lm_defs lm_grounds_def split: if_splits)

interpretation lm: ladder lm_step lm_wf "\<lambda>a. a = ActRecover" "\<lambda>m. unat (lm_recoveries m)"
  "\<lambda>m. unat (maxRecoveries (lm_cfg m))" lm_grounds
  by unfold_locales (use lm_wf_step lm_cfg_step lm_climb lm_stay in auto)

lemma lm_wf_new: "lm_wf (lm_new cfg)"
  by (simp add: lm_wf_def lm_new_def lm_reset_def)

subsection \<open>Properties\<close>

text \<open>Backoff. After a link failure at time \<open>now\<close> with \<open>k\<close> consecutive failures so far,
  the poll may run again exactly from \<open>min (2 ^ (k - 1) * base) max\<close> milliseconds later,
  for every later instant within half a period of the counter.\<close>

theorem backoff_gate:
  assumes "lm_config_ok (lm_cfg m)" "unat d < 2 ^ 31"
    and "k = min 255 (Suc (unat (lm_failures m)))"
  shows "lm_canPoll (lm_onLinkFailure m now) (now + d) \<longleftrightarrow>
    min (2 ^ (k - 1) * unat (backoffBaseMs (lm_cfg m))) (unat (backoffMaxMs (lm_cfg m))) \<le> unat d"
proof -
  let ?f = "lm_failures (lm_onLinkFailure m now)"
  let ?b = "lm_backoff (lm_cfg m) ?f"
  have closed: "unat ?b = min (2 ^ (k - 1) * unat (backoffBaseMs (lm_cfg m))) (unat (backoffMaxMs (lm_cfg m)))"
    using lm_backoff_closed [OF assms(1) lm_onLinkFailure_positive] assms(3)
    by (simp add: lm_failures_onLinkFailure)
  moreover have "unat ?b < 2 ^ 31"
    using assms(1) unfolding closed by (simp add: lm_config_ok_def min_less_iff_disj)
  ultimately show ?thesis
    using assms(2) by (simp add: lm_canPoll_def lm_backoff_onLinkFailure reached_deadline word_le_nat_alt)
qed

theorem backoff_gate_witness:
  "lm_canPoll (lm_onLinkFailure (lm_onLinkFailure (lm_new lm_defaultConfig) 5000) 8000) (8000 + 3999) = False \<and>
   lm_canPoll (lm_onLinkFailure (lm_onLinkFailure (lm_new lm_defaultConfig) 5000) 8000) (8000 + 4000)"
proof -
  let ?m = "lm_onLinkFailure (lm_new lm_defaultConfig) 5000"
  have ok: "lm_config_ok (lm_cfg ?m)" and f: "unat (lm_failures ?m) = 1"
    and base: "unat (backoffBaseMs (lm_cfg ?m)) = 2000" and mx: "unat (backoffMaxMs (lm_cfg ?m)) = 30000"
    by (simp_all add: lm_new_def lm_defs lm_defaultConfig_def lm_config_ok_def)
  have k: "(2::nat) = min 255 (Suc (unat (lm_failures ?m)))" by (simp add: f)
  have d: "unat (3999 :: u32) < 2 ^ 31" "unat (4000 :: u32) < 2 ^ 31" by simp_all
  show ?thesis
    unfolding backoff_gate [OF ok d(1) k] backoff_gate [OF ok d(2) k] base mx by simp
qed

definition lm_is_failure :: "lm_call \<Rightarrow> bool" where
  "lm_is_failure c = (case c of LmFailure _ \<Rightarrow> True | _ \<Rightarrow> False)"

lemma lm_step_healthy:
  "lm_failures m = 0 \<Longrightarrow> \<not> lm_is_failure c \<Longrightarrow>
     snd (lm_step m c) = ActNone \<and> lm_failures (fst (lm_step m c)) = 0"
  by (cases c) (simp_all add: lm_defs lm_is_failure_def)

text \<open>A link that never fails is never disturbed. From a state without failures, no
  sequence of resets, answers and ticks, with or without a stuck control transfer, ever asks
  for a recovery or a restart.\<close>

lemma healthy_link_undisturbed:
  assumes "lm_failures m = 0" "\<not> (\<exists>c \<in> set cs. lm_is_failure c)"
  shows "snd (run lm_step m cs) = replicate (length cs) ActNone"
  using assms
proof (induction cs arbitrary: m)
  case Nil
  then show ?case by simp
next
  case (Cons c cs)
  then show ?case using lm_step_healthy [of m c] by (simp add: run_Cons)
qed

lemma healthy_link_example:
  "snd (run lm_step (lm_new lm_defaultConfig) [LmTick 70000 True, LmAlive 80000, LmTick 4000000000 True]) =
     [ActNone, ActNone, ActNone]"
  using healthy_link_undisturbed [of "lm_new lm_defaultConfig" "[LmTick 70000 True, LmAlive 80000, LmTick 4000000000 True]"]
  by (simp add: lm_new_def lm_reset_def lm_is_failure_def numeral_3_eq_3)

text \<open>The ladder is bounded. Until the device answers or is reset, whatever the order of
  failures and ticks, the monitor asks for at most \<open>maxRecoveries\<close> interface recoveries,
  less those already spent.\<close>

theorem recoveries_bounded:
  assumes "lm_wf m" "\<not> (\<exists>c \<in> set cs. lm_grounds c)"
  shows "length (filter (\<lambda>a. a = ActRecover) (snd (run lm_step m cs))) \<le>
    unat (maxRecoveries (lm_cfg m)) - unat (lm_recoveries m)"
  using assms by (intro lm.climbs_bounded) (simp_all add: lm_wf_def word_le_nat_alt)

theorem recoveries_bounded_witness:
  "length (filter (\<lambda>a. a = ActRecover) (snd (run lm_step (lm_new lm_defaultConfig)
     [LmFailure 1000, LmTick 60000 False, LmTick 120000 False, LmFailure 130000, LmTick 180000 False]))) \<le> 2"
  using recoveries_bounded [of "lm_new lm_defaultConfig"
     "[LmFailure 1000, LmTick 60000 False, LmTick 120000 False, LmFailure 130000, LmTick 180000 False]"]
  by (simp add: lm_wf_new lm_grounds_def) (simp add: lm_new_def lm_reset_def lm_defaultConfig_def)

lemma lm_ticks_climb:
  assumes "lm_failures m \<noteq> 0" "unat (maxRecoveries (lm_cfg m)) - unat (lm_recoveries m) = n" "lm_wf m"
  shows "snd (run lm_step m (map (\<lambda>k. LmTick (lm_windowStartMs m + of_nat (Suc k) * linkTimeoutMs (lm_cfg m)) False) [0..<Suc n]))
    = replicate n ActRecover @ [ActRestart]"
  using assms
proof (induction n arbitrary: m)
  case 0
  then have "maxRecoveries (lm_cfg m) \<le> lm_recoveries m" by (simp add: word_le_nat_alt)
  with 0 show ?case by (simp add: run_Cons lm_defs)
next
  case (Suc n)
  let ?t = "lm_windowStartMs m + linkTimeoutMs (lm_cfg m)"
  let ?m = "fst (lm_tick m ?t False)"
  have lt: "lm_recoveries m < maxRecoveries (lm_cfg m)"
    using Suc.prems(2) by (simp add: word_less_nat_alt)
  then have tick: "lm_tick m ?t False = (m\<lparr>lm_recoveries := lm_recoveries m + 1, lm_windowStartMs := ?t,
      lm_backoffActive := False\<rparr>, ActRecover)"
    using Suc.prems(1) by (simp add: lm_tick_def)
  have "unat (maxRecoveries (lm_cfg ?m)) - unat (lm_recoveries ?m) = n"
    using Suc.prems(2) lt by (simp add: tick unat_inc_u8 word_less_nat_alt)
  moreover have "lm_wf ?m" using lm_wf_step [OF Suc.prems(3), of "LmTick ?t False"] by simp
  ultimately have IH: "snd (run lm_step ?m (map (\<lambda>k. LmTick (?t + of_nat (Suc k) * linkTimeoutMs (lm_cfg m)) False) [0..<Suc n]))
      = replicate n ActRecover @ [ActRestart]"
    using Suc.IH [of ?m] Suc.prems(1) by (simp add: tick)
  have shift: "map (\<lambda>k. LmTick (lm_windowStartMs m + of_nat (Suc k) * linkTimeoutMs (lm_cfg m)) False) [0..<Suc (Suc n)]
     = LmTick ?t False # map (\<lambda>k. LmTick (?t + of_nat (Suc k) * linkTimeoutMs (lm_cfg m)) False) [0..<Suc n]"
    by (subst upt_conv_Cons) (simp_all add: map_Suc_upt [symmetric] algebra_simps del: upt_Suc)
  show ?case unfolding shift run_Cons using IH tick by simp
qed

text \<open>C30: the ladder is climbed to its end. While the link stays broken and the owner ticks
  once per \<open>linkTimeoutMs\<close> with no control transfer stuck, every tick asks for a recovery until the budget is
  spent, and the next one asks for the restart. A transfer that is stuck changes nothing for \<open>stuckRestartMs\<close>
  (three seconds) after the first failure; from then on a tick asks for the restart at once.\<close>

theorem broken_link_escalates:
  assumes "lm_failures m \<noteq> 0" "lm_wf m"
  shows "snd (run lm_step m (map (\<lambda>k. LmTick (lm_windowStartMs m + of_nat (Suc k) * linkTimeoutMs (lm_cfg m)) False)
      [0..<Suc (unat (maxRecoveries (lm_cfg m)) - unat (lm_recoveries m))]))
    = replicate (unat (maxRecoveries (lm_cfg m)) - unat (lm_recoveries m)) ActRecover @ [ActRestart] \<and>
    lm_step m (LmTick now True) =
      (if stuckRestartMs (lm_cfg m) \<le> now - lm_firstFailureMs m then (m, ActRestart) else lm_step m (LmTick now False))"
  using lm_ticks_climb [OF assms(1) refl assms(2)] assms(1) by (simp add: lm_tick_def)

theorem broken_link_escalates_witness:
  "snd (run lm_step (lm_onLinkFailure (lm_new lm_defaultConfig) 5000)
     [LmTick 60000 False, LmTick 120000 False, LmTick 180000 False]) = [ActRecover, ActRecover, ActRestart]"
proof -
  let ?m = "lm_onLinkFailure (lm_new lm_defaultConfig) 5000"
  have "lm_failures ?m \<noteq> 0" "lm_wf ?m" "lm_windowStartMs ?m = 0" "linkTimeoutMs (lm_cfg ?m) = 60000"
    "unat (maxRecoveries (lm_cfg ?m)) - unat (lm_recoveries ?m) = 2"
    by (simp_all add: lm_wf_def lm_new_def lm_defs lm_defaultConfig_def)
  then show ?thesis
    using broken_link_escalates [of ?m] by (simp add: numeral_2_eq_2 numeral_3_eq_3)
qed

end
