(* ===== verification/InputWatchdog.thy ===== *)
theory InputWatchdog
  imports LinkMonitor "HOL-Library.Multiset"
begin

text \<open>
  \<open>InputWatchdog\<close> of \<open>lib/USBHostUPS/src/LinkMonitor.h\<close>: it learns the period of the INPUT
  reports from a ring of eight intervals, and only a silence of a periodic device whose values
  the poll does not read again climbs the recovery ladder. The ring is a list of
  \<open>SAMPLES\<close> entries; the median is computed by the insertion sort of the code, on a copy.
\<close>

section \<open>State and insertion sort\<close>

definition iw_SAMPLES :: nat where
  "iw_SAMPLES = 8"

record iw_config =
  burstGapMs :: u32
  silenceFactor :: u32
  minSilenceMs :: u32
  retryMs :: u32
  iwMaxRecoveries :: u8

record input_watchdog =
  iw_cfg :: iw_config
  iw_samples :: "u32 list"
  iw_count :: nat
  iw_next :: nat
  iw_haveBurst :: bool
  iw_lastBurstMs :: u32
  iw_lastInputMs :: u32
  iw_silent :: bool
  iw_recoveries :: u8
  iw_windowStartMs :: u32
  iw_valuesPolled :: bool
  iw_noticed :: bool

definition iw_defaultConfig :: iw_config where
  "iw_defaultConfig = \<lparr>burstGapMs = 500, silenceFactor = 5, minSilenceMs = 30000,
     retryMs = 60000, iwMaxRecoveries = 2\<rparr>"

definition iw_reset :: "input_watchdog \<Rightarrow> u32 \<Rightarrow> input_watchdog" where
  "iw_reset w now = w\<lparr>iw_count := 0, iw_next := 0, iw_haveBurst := False, iw_lastBurstMs := now,
     iw_lastInputMs := now, iw_silent := False, iw_recoveries := 0, iw_windowStartMs := now,
     iw_valuesPolled := False, iw_noticed := False\<rparr>"

text \<open>The samples of a new object are not initialised: any eight values.\<close>

definition iw_new :: "iw_config \<Rightarrow> u32 list \<Rightarrow> input_watchdog" where
  "iw_new cfg garbage = iw_reset \<lparr>iw_cfg = cfg, iw_samples = garbage, iw_count = 0, iw_next = 0,
     iw_haveBurst = False, iw_lastBurstMs = 0, iw_lastInputMs = 0, iw_silent = False,
     iw_recoveries = 0, iw_windowStartMs = 0, iw_valuesPolled = False, iw_noticed = False\<rparr> 0"

definition iw_setValuesPolled :: "input_watchdog \<Rightarrow> bool \<Rightarrow> input_watchdog" where
  "iw_setValuesPolled w polled = w\<lparr>iw_valuesPolled := polled\<rparr>"

text \<open>\<open>while (j >= 0 && s[j] > v) { s[j + 1] = s[j]; j--; } s[j + 1] = v;\<close> with the argument
  \<open>j + 1\<close>, so that the index stays a natural number.\<close>

fun iw_shift :: "u32 list \<Rightarrow> u32 \<Rightarrow> nat \<Rightarrow> u32 list" where
  "iw_shift s v 0 = s[0 := v]"
| "iw_shift s v (Suc j) = (if v < s ! j then iw_shift (s[Suc j := s ! j]) v j else s[Suc j := v])"

text \<open>\<open>for (i = 1; i < n; i++)\<close>, counted by the iterations left.\<close>

fun iw_isort :: "nat \<Rightarrow> nat \<Rightarrow> u32 list \<Rightarrow> u32 list" where
  "iw_isort i 0 s = s"
| "iw_isort i (Suc k) s = iw_isort (Suc i) k (iw_shift s (s ! i) i)"

definition iw_median :: "input_watchdog \<Rightarrow> u32" where
  "iw_median w = (let n = iw_count w in iw_isort 1 (n - 1) (take n (iw_samples w)) ! (n div 2))"

fun iw_range :: "u32 \<Rightarrow> u32 \<Rightarrow> u32 list \<Rightarrow> u32 \<times> u32" where
  "iw_range lo hi [] = (lo, hi)"
| "iw_range lo hi (x # xs) = iw_range (if x < lo then x else lo) (if hi < x then x else hi) xs"

definition iw_isPeriodic :: "input_watchdog \<Rightarrow> bool" where
  "iw_isPeriodic w =
     (if iw_count w < iw_SAMPLES then False
      else let med = iw_median w in
        if med = 0 then False
        else let (lo, hi) = iw_range (iw_samples w ! 0) (iw_samples w ! 0) (take (iw_SAMPLES - 1) (drop 1 (iw_samples w)));
                 tol = med div 4
             in med - lo \<le> tol \<and> hi - med \<le> tol)"

definition iw_periodMs :: "input_watchdog \<Rightarrow> u32" where
  "iw_periodMs w = (if iw_count w \<noteq> 0 then iw_median w else 0)"

definition iw_silenceThresholdMs :: "input_watchdog \<Rightarrow> u32" where
  "iw_silenceThresholdMs w =
     (let t = iw_periodMs w * silenceFactor (iw_cfg w)
      in if minSilenceMs (iw_cfg w) < t then t else minSilenceMs (iw_cfg w))"

definition iw_isSilent :: "input_watchdog \<Rightarrow> u32 \<Rightarrow> bool" where
  "iw_isSilent w now \<longleftrightarrow> iw_isPeriodic w \<and> iw_silenceThresholdMs w \<le> now - iw_lastInputMs w"

definition iw_isStale :: "input_watchdog \<Rightarrow> u32 \<Rightarrow> bool" where
  "iw_isStale w now \<longleftrightarrow> \<not> iw_valuesPolled w \<and> iw_isSilent w now"

definition iw_record :: "input_watchdog \<Rightarrow> u32 \<Rightarrow> input_watchdog" where
  "iw_record w interval = w\<lparr>iw_samples := (iw_samples w)[iw_next w := interval],
     iw_next := (iw_next w + 1) mod iw_SAMPLES,
     iw_count := (if iw_count w < iw_SAMPLES then iw_count w + 1 else iw_count w)\<rparr>"

definition iw_onInput :: "input_watchdog \<Rightarrow> u32 \<Rightarrow> input_watchdog" where
  "iw_onInput w ts =
     (let periodic = iw_isPeriodic w; threshold = iw_silenceThresholdMs w;
          w1 = w\<lparr>iw_silent := False, iw_recoveries := 0, iw_noticed := False\<rparr>
      in if iw_haveBurst w1 \<and> ts - iw_lastInputMs w1 < burstGapMs (iw_cfg w1)
         then w1\<lparr>iw_lastInputMs := ts\<rparr>
         else let interval = ts - iw_lastBurstMs w1;
                  w2 = (if iw_haveBurst w1 \<and> \<not> (periodic \<and> threshold \<le> interval)
                        then iw_record w1 interval else w1)
              in w2\<lparr>iw_haveBurst := True, iw_lastBurstMs := ts, iw_lastInputMs := ts\<rparr>)"

definition iw_tick :: "input_watchdog \<Rightarrow> u32 \<Rightarrow> input_watchdog \<times> link_action" where
  "iw_tick w now =
     (if \<not> iw_isStale w now then (w, ActNone)
      else if iw_silent w \<and> now - iw_windowStartMs w < retryMs (iw_cfg w) then (w, ActNone)
      else let w1 = w\<lparr>iw_silent := True, iw_windowStartMs := now\<rparr>
           in if iwMaxRecoveries (iw_cfg w1) \<le> iw_recoveries w1 then (w1, ActRestart)
              else (w1\<lparr>iw_recoveries := iw_recoveries w1 + 1\<rparr>, ActRecover))"

definition iw_takeSilenceNotice :: "input_watchdog \<Rightarrow> u32 \<Rightarrow> input_watchdog \<times> bool" where
  "iw_takeSilenceNotice w now =
     (if \<not> iw_valuesPolled w \<or> iw_noticed w \<or> \<not> iw_isSilent w now then (w, False)
      else (w\<lparr>iw_noticed := True\<rparr>, True))"

section \<open>The median is the median\<close>

lemma iw_shift_spec:
  assumes "j < length s" "sorted (take j s)"
  shows "sorted (take (Suc j) (iw_shift s v j)) \<and> mset (take (Suc j) (iw_shift s v j)) = add_mset v (mset (take j s))
    \<and> drop (Suc j) (iw_shift s v j) = drop (Suc j) s \<and> length (iw_shift s v j) = length s"
  using assms
proof (induction j arbitrary: s)
  case 0
  then show ?case by (cases s) simp_all
next
  case (Suc j)
  have sj: "take (Suc j) s = take j s @ [s ! j]" using Suc.prems(1) by (simp add: take_Suc_conv_app_nth)
  with Suc.prems(2) have sorted_j: "sorted (take j s)" and top: "\<forall>x \<in> set (take j s). x \<le> s ! j"
    by (auto simp: sorted_append)
  show ?case
  proof (cases "v < s ! j")
    case False
    then have "sorted (take (Suc j) s @ [v])"
      using Suc.prems(2) top sj by (auto simp: sorted_append not_less intro: order_trans)
    with False Suc.prems(1) show ?thesis
      by (simp add: take_Suc_conv_app_nth [of "Suc j"])
  next
    case True
    let ?s = "s[Suc j := s ! j]"
    let ?r = "iw_shift ?s v j"
    have IH: "sorted (take (Suc j) ?r)" "mset (take (Suc j) ?r) = add_mset v (mset (take j s))"
      "drop (Suc j) ?r = drop (Suc j) ?s" "length ?r = length s"
      using Suc.IH [of ?s] Suc.prems(1) sorted_j by auto
    have nth: "?r ! Suc j = s ! j"
      using IH(3,4) Suc.prems(1) by (metis Cons_nth_drop_Suc length_list_update list.inject nth_list_update_eq)
    have take2: "take (Suc (Suc j)) ?r = take (Suc j) ?r @ [s ! j]"
      using IH(4) Suc.prems(1) nth by (simp add: take_Suc_conv_app_nth [of "Suc j"])
    have elems: "\<forall>x \<in> set (take (Suc j) ?r). x \<le> s ! j"
      using top True IH(2) by (metis add_mset_add_single insert_iff mset_eq_setD set_mset_add_mset_insert set_mset_mset order_less_imp_le)
    have "drop (Suc (Suc j)) ?r = drop (Suc (Suc j)) s"
      using IH(3) by (metis drop_Suc drop_drop drop_update_cancel lessI plus_1_eq_Suc tl_drop)
    moreover have "sorted (take (Suc (Suc j)) ?r)"
      unfolding take2 using IH(1) elems by (simp add: sorted_append)
    ultimately show ?thesis using True IH(2,4) sj take2 by simp
  qed
qed

lemma iw_isort_spec:
  assumes "i + k = length s" "sorted (take i s)"
  shows "sorted (iw_isort i k s) \<and> mset (iw_isort i k s) = mset s"
  using assms
proof (induction k arbitrary: i s)
  case 0
  then show ?case by simp
next
  case (Suc k)
  let ?r = "iw_shift s (s ! i) i"
  have r: "sorted (take (Suc i) ?r)" "mset (take (Suc i) ?r) = add_mset (s ! i) (mset (take i s))"
    "drop (Suc i) ?r = drop (Suc i) s" "length ?r = length s"
    using iw_shift_spec [of i s "s ! i"] Suc.prems by auto
  have "mset ?r = mset (take (Suc i) ?r) + mset (drop (Suc i) ?r)"
    by (metis append_take_drop_id mset_append)
  also have "\<dots> = mset (take i s @ s ! i # drop (Suc i) s)" using r(2,3) by simp
  also have "\<dots> = mset s" using Suc.prems(1) by (simp add: id_take_nth_drop [symmetric])
  finally show ?case using Suc.IH [of "Suc i" ?r] Suc.prems(1) r by simp
qed

lemma iw_isort_sort: "iw_isort 1 (length s - 1) s = sort s"
proof (cases s)
  case Nil
  then show ?thesis by simp
next
  case (Cons x xs)
  then have "sorted (iw_isort 1 (length s - 1) s) \<and> mset (iw_isort 1 (length s - 1) s) = mset s"
    by (intro iw_isort_spec) simp_all
  then show ?thesis using properties_for_sort by metis
qed

lemma iw_median_sort:
  assumes "iw_count w \<le> length (iw_samples w)"
  shows "iw_median w = sort (take (iw_count w) (iw_samples w)) ! (iw_count w div 2)"
  using iw_isort_sort [of "take (iw_count w) (iw_samples w)"] assms
  by (simp add: iw_median_def Let_def min_absorb2)

section \<open>The shape of the state\<close>

definition iw_wf :: "input_watchdog \<Rightarrow> bool" where
  "iw_wf w \<longleftrightarrow> length (iw_samples w) = iw_SAMPLES \<and> iw_count w \<le> iw_SAMPLES \<and> iw_next w < iw_SAMPLES \<and>
     (iw_count w < iw_SAMPLES \<longrightarrow> iw_next w = iw_count w) \<and> iw_recoveries w \<le> iwMaxRecoveries (iw_cfg w)"

text \<open>The calls of the owner.\<close>

datatype iw_call = IwReset u32 | IwPolled bool | IwInput u32 | IwTick u32 | IwNotice u32

fun iw_step :: "input_watchdog \<Rightarrow> iw_call \<Rightarrow> input_watchdog \<times> link_action" where
  "iw_step w (IwReset now) = (iw_reset w now, ActNone)"
| "iw_step w (IwPolled b) = (iw_setValuesPolled w b, ActNone)"
| "iw_step w (IwInput ts) = (iw_onInput w ts, ActNone)"
| "iw_step w (IwTick now) = iw_tick w now"
| "iw_step w (IwNotice now) = (fst (iw_takeSilenceNotice w now), ActNone)"

definition iw_grounds :: "iw_call \<Rightarrow> bool" where
  "iw_grounds c = (case c of IwReset _ \<Rightarrow> True | IwInput _ \<Rightarrow> True | _ \<Rightarrow> False)"

lemmas iw_defs = iw_reset_def iw_setValuesPolled_def iw_onInput_def iw_record_def iw_tick_def
  iw_takeSilenceNotice_def Let_def

lemma iw_wf_record: "iw_wf w \<Longrightarrow> iw_wf (iw_record w v)"
  by (auto simp: iw_wf_def iw_record_def iw_SAMPLES_def)

lemma iw_wf_onInput: "iw_wf w \<Longrightarrow> iw_wf (iw_onInput w ts)"
proof -
  assume "iw_wf w"
  then have "iw_wf (w\<lparr>iw_silent := False, iw_recoveries := 0, iw_noticed := False\<rparr>)" (is "iw_wf ?w")
    by (simp add: iw_wf_def)
  moreover from this have "iw_wf (iw_record ?w v)" for v by (rule iw_wf_record)
  ultimately show ?thesis by (simp add: iw_onInput_def Let_def) (simp add: iw_wf_def)
qed

lemma iw_wf_step: "iw_wf w \<Longrightarrow> iw_wf (fst (iw_step w c))"
proof (cases c)
  case (IwInput ts)
  then show "iw_wf w \<Longrightarrow> ?thesis" by (simp add: iw_wf_onInput)
next
  case (IwTick now)
  then show "iw_wf w \<Longrightarrow> ?thesis"
    by (simp add: iw_wf_def iw_tick_def Let_def not_le) (auto intro: inc_le_u8)
qed (auto simp: iw_wf_def iw_reset_def iw_setValuesPolled_def iw_takeSilenceNotice_def iw_SAMPLES_def)

lemma iw_wf_new: "length garbage = iw_SAMPLES \<Longrightarrow> iw_wf (iw_new cfg garbage)"
  by (simp add: iw_wf_def iw_new_def iw_reset_def iw_SAMPLES_def)

lemma iw_cfg_step: "iw_cfg (fst (iw_step w c)) = iw_cfg w"
  by (cases c) (auto simp: iw_defs)

lemma iw_climb:
  "snd (iw_step w c) = ActRecover \<Longrightarrow>
     unat (iw_recoveries (fst (iw_step w c))) = Suc (unat (iw_recoveries w)) \<and>
     unat (iw_recoveries w) < unat (iwMaxRecoveries (iw_cfg w))"
  by (cases c) (auto simp: iw_tick_def Let_def word_le_nat_alt not_le timer_simps word_less_nat_alt split: if_splits)

lemma iw_stay:
  "snd (iw_step w c) \<noteq> ActRecover \<Longrightarrow> \<not> iw_grounds c \<Longrightarrow>
     iw_recoveries (fst (iw_step w c)) = iw_recoveries w"
  by (cases c) (auto simp: iw_tick_def iw_setValuesPolled_def iw_takeSilenceNotice_def Let_def iw_grounds_def split: if_splits)

interpretation iw: ladder iw_step iw_wf "\<lambda>a. a = ActRecover" "\<lambda>w. unat (iw_recoveries w)"
  "\<lambda>w. unat (iwMaxRecoveries (iw_cfg w))" iw_grounds
  by unfold_locales (use iw_wf_step iw_cfg_step iw_climb iw_stay in auto)

section \<open>Periodic devices\<close>

lemma iw_range_spec:
  "iw_range lo hi xs = (l, h) \<Longrightarrow>
     (\<forall>x \<in> set (lo # xs). l \<le> x) \<and> (\<forall>x \<in> set (hi # xs). x \<le> h) \<and> l \<in> set (lo # xs) \<and> h \<in> set (hi # xs)"
proof (induction xs arbitrary: lo hi)
  case Nil
  then show ?case by simp
next
  case (Cons x xs)
  from Cons.IH [of "if x < lo then x else lo" "if hi < x then x else hi"] Cons.prems
  show ?case by (auto split: if_splits)
qed

lemma sorted_nth_mid:
  assumes "k < length xs"
  shows "sort xs ! k \<in> set xs"
  using assms by (metis length_sort nth_mem set_sort)

text \<open>All the eight intervals are within a quarter of their median.\<close>

definition iw_agree :: "u32 list \<Rightarrow> bool" where
  "iw_agree s \<longleftrightarrow> (let med = unat (sort s ! 4) in
     0 < med \<and> list_all (\<lambda>x. med \<le> unat x + med div 4 \<and> unat x \<le> med + med div 4) s)"

lemma iw_isPeriodic_agree:
  assumes "iw_wf w"
  shows "iw_isPeriodic w \<longleftrightarrow> iw_count w = iw_SAMPLES \<and> iw_agree (iw_samples w)"
proof (cases "iw_count w = iw_SAMPLES")
  case False
  with assms show ?thesis by (simp add: iw_isPeriodic_def iw_wf_def)
next
  case True
  let ?s = "iw_samples w"
  have len: "length ?s = 8" using assms by (simp add: iw_wf_def iw_SAMPLES_def)
  have med: "iw_median w = sort ?s ! 4"
    using iw_median_sort [of w] True len by (simp add: iw_SAMPLES_def)
  obtain l h where lh: "iw_range (?s ! 0) (?s ! 0) (take 7 (drop 1 ?s)) = (l, h)" by fastforce
  have set_s: "set (?s ! 0 # take 7 (drop 1 ?s)) = set ?s"
    using len by (cases ?s) simp_all
  from iw_range_spec [OF lh, unfolded set_s]
  have b: "\<And>x. x \<in> set ?s \<Longrightarrow> l \<le> x" "\<And>x. x \<in> set ?s \<Longrightarrow> x \<le> h" "l \<in> set ?s" "h \<in> set ?s" by auto
  have mid: "sort ?s ! 4 \<in> set ?s" using len by (intro sorted_nth_mid) simp
  let ?m = "sort ?s ! 4"
  have "unat (?m - l) = unat ?m - unat l" "unat (h - ?m) = unat h - unat ?m"
    using b(1,2) [OF mid] by (simp_all add: unat_sub)
  moreover have "unat (?m div 4) = unat ?m div 4" by (simp add: unat_div)
  ultimately have "(?m - l \<le> ?m div 4 \<and> h - ?m \<le> ?m div 4) \<longleftrightarrow>
      (unat ?m \<le> unat l + unat ?m div 4 \<and> unat h \<le> unat ?m + unat ?m div 4)"
    by (auto simp: word_le_nat_alt)
  also have "\<dots> \<longleftrightarrow> (\<forall>x \<in> set ?s. unat ?m \<le> unat x + unat ?m div 4 \<and> unat x \<le> unat ?m + unat ?m div 4)"
    using b unfolding word_le_nat_alt by (meson add_le_mono1 le_trans)
  finally have "(?m - l \<le> ?m div 4 \<and> h - ?m \<le> ?m div 4) \<longleftrightarrow>
    list_all (\<lambda>x. unat ?m \<le> unat x + unat ?m div 4 \<and> unat x \<le> unat ?m + unat ?m div 4) ?s"
    by (simp add: list_all_iff)
  with True lh show ?thesis
    by (simp add: iw_isPeriodic_def iw_SAMPLES_def med iw_agree_def Let_def unat_eq_0 [symmetric])
qed

section \<open>Properties\<close>

text \<open>C31: the watchdog acts only on a silence of a periodic device. A recovery or a restart
  is asked for only when the poll does not read the values, eight intervals are known, each of
  them lies within a quarter of their median, and the silence has lasted the threshold.\<close>

theorem watchdog_acts_only_when_periodic:
  assumes "iw_wf w" "snd (iw_tick w now) \<noteq> ActNone"
  shows "\<not> iw_valuesPolled w \<and> iw_count w = iw_SAMPLES \<and> iw_agree (iw_samples w) \<and>
    iw_silenceThresholdMs w \<le> now - iw_lastInputMs w"
  using assms(2) iw_isPeriodic_agree [OF assms(1)]
  by (auto simp: iw_tick_def iw_isStale_def iw_isSilent_def split: if_splits)

theorem watchdog_acts_only_when_periodic_witness:
  "let w = foldl iw_onInput (iw_new iw_defaultConfig (replicate 8 7)) [1000, 3000, 5000, 7010, 9000, 11000, 13000, 15000, 17000]
   in snd (iw_tick w 47000) = ActRecover \<and> iw_agree (iw_samples w)"
proof -
  let ?w = "foldl iw_onInput (iw_new iw_defaultConfig (replicate 8 7)) [1000, 3000, 5000, 7010, 9000, 11000, 13000, 15000, 17000]"
  have wf: "iw_wf ?w" by (simp add: iw_wf_onInput iw_wf_new iw_SAMPLES_def)
  have act: "snd (iw_tick ?w 47000) = ActRecover" by code_simp
  then show ?thesis using watchdog_acts_only_when_periodic [OF wf, of 47000] by (simp add: Let_def)
qed

text \<open>Until an INPUT report arrives or the device changes, the watchdog asks for at most
  \<open>maxRecoveries\<close> interface recoveries, less those already spent, whatever the order of
  ticks, notices and changes of the polled flag.\<close>

theorem watchdog_recoveries_bounded:
  assumes "iw_wf w" "\<not> (\<exists>c \<in> set cs. iw_grounds c)"
  shows "length (filter (\<lambda>a. a = ActRecover) (snd (run iw_step w cs))) \<le>
    unat (iwMaxRecoveries (iw_cfg w)) - unat (iw_recoveries w)"
  using assms by (intro iw.climbs_bounded) (simp_all add: iw_wf_def word_le_nat_alt)

theorem watchdog_recoveries_bounded_witness:
  "length (filter (\<lambda>a. a = ActRecover) (snd (run iw_step (iw_new iw_defaultConfig (replicate 8 7))
     [IwTick 100000, IwNotice 100001, IwTick 200000, IwPolled True, IwTick 300000]))) \<le> 2"
  using watchdog_recoveries_bounded [of "iw_new iw_defaultConfig (replicate 8 7)"
    "[IwTick 100000, IwNotice 100001, IwTick 200000, IwPolled True, IwTick 300000]"]
  by (simp add: iw_wf_new iw_SAMPLES_def iw_grounds_def)
    (simp add: iw_new_def iw_reset_def iw_defaultConfig_def)

text \<open>A silence is noticed once: a second notice needs an INPUT report or a reset in between.\<close>

lemma iw_notice_once:
  assumes "snd (iw_takeSilenceNotice w now)"
  shows "\<not> snd (iw_takeSilenceNotice (fst (iw_takeSilenceNotice w now)) later)"
  using assms by (simp add: iw_takeSilenceNotice_def split: if_splits)

end
