(* ===== verification/RecoveryPolicies.thy ===== *)
theory RecoveryPolicies
  imports Prelude
begin

text \<open>
  The policies around the link monitors, each one a header of pure logic:
  \<open>lib/USBHostUPS/src/RestartPolicy.h\<close> (delays and degraded mode of the controlled restarts),
  \<open>PortCyclePolicy.h\<close> (power cycles of the root port), \<open>EnumWatchdog.h\<close> (a device absent
  after a restart), \<open>DescriptorRetry.h\<close> (retries of the report descriptor) and
  \<open>OnlineDischargeLog.h\<close> (when to log OL+DISCHRG).
\<close>

section \<open>RestartPolicy\<close>

datatype restart_decision = RpNone | RpWait | RpRestart | RpDegraded

definition rp_MAX_RESTARTS :: u8 where
  "rp_MAX_RESTARTS = 4"

definition rp_HEALTHY_RESET_MS :: u32 where
  "rp_HEALTHY_RESET_MS = 120000"

definition rp_PROVEN_RESET_MS :: u32 where
  "rp_PROVEN_RESET_MS = 30000"

definition rp_delayMs :: "u8 \<Rightarrow> u32" where
  "rp_delayMs consecutive =
     (if consecutive < rp_MAX_RESTARTS then [0, 60000, 300000, 900000] ! unat consecutive else 0)"

record restart_policy =
  rp_consecutive :: u8
  rp_scheduled :: bool
  rp_restartAt :: u32
  rp_healthy :: bool
  rp_healthySince :: u32
  rp_cleared :: bool

definition rp_new :: "u8 \<Rightarrow> restart_policy" where
  "rp_new consecutive = \<lparr>rp_consecutive = consecutive, rp_scheduled = False, rp_restartAt = 0,
     rp_healthy = False, rp_healthySince = 0, rp_cleared = False\<rparr>"

definition rp_trackHealth :: "restart_policy \<Rightarrow> bool \<Rightarrow> bool \<Rightarrow> u32 \<Rightarrow> restart_policy" where
  "rp_trackHealth p healthy proven now =
     (if \<not> healthy then p\<lparr>rp_healthy := False\<rparr>
      else let p1 = (if \<not> rp_healthy p then p\<lparr>rp_healthy := True, rp_healthySince := now\<rparr> else p);
               needed = (if proven then rp_PROVEN_RESET_MS else rp_HEALTHY_RESET_MS)
           in if 0 < rp_consecutive p1 \<and> needed \<le> now - rp_healthySince p1
              then p1\<lparr>rp_consecutive := 0, rp_cleared := True\<rparr> else p1)"

definition rp_isDegraded :: "restart_policy \<Rightarrow> bool" where
  "rp_isDegraded p \<longleftrightarrow> rp_MAX_RESTARTS \<le> rp_consecutive p"

definition rp_update :: "restart_policy \<Rightarrow> bool \<Rightarrow> bool \<Rightarrow> u32 \<Rightarrow> bool \<Rightarrow> restart_policy \<times> restart_decision" where
  "rp_update p restartRequested healthy now proven =
     (let p = rp_trackHealth p healthy proven now
      in if \<not> restartRequested then (p\<lparr>rp_scheduled := False\<rparr>, RpNone)
         else if rp_isDegraded p then (p, RpDegraded)
         else let p = (if \<not> rp_scheduled p
                       then p\<lparr>rp_scheduled := True, rp_restartAt := now + rp_delayMs (rp_consecutive p)\<rparr> else p)
              in (p, if reached now (rp_restartAt p) then RpRestart else RpWait))"

definition rp_msUntilRestart :: "restart_policy \<Rightarrow> u32 \<Rightarrow> u32" where
  "rp_msUntilRestart p now =
     (if rp_scheduled p \<and> 0 < sint (rp_restartAt p - now) then rp_restartAt p - now else 0)"

definition rp_takeCleared :: "restart_policy \<Rightarrow> restart_policy \<times> bool" where
  "rp_takeCleared p = (p\<lparr>rp_cleared := False\<rparr>, rp_cleared p)"

section \<open>PortCyclePolicy\<close>

datatype cycle_decision = PcCyclePort | PcRestart

definition pc_BACK_TIMEOUT_MS :: u32 where
  "pc_BACK_TIMEOUT_MS = 30000"

definition pc_MAX_CYCLES_PER_WINDOW :: nat where
  "pc_MAX_CYCLES_PER_WINDOW = 12"

definition pc_WINDOW_MS :: u32 where
  "pc_WINDOW_MS = 3600000"

definition pc_STUCK_AGAIN_REASON :: string where
  "pc_STUCK_AGAIN_REASON = ''control transfer stuck again after the USB port power cycle''"

definition pc_TOO_MANY_REASON :: string where
  "pc_TOO_MANY_REASON = ''too many USB port power cycles in an hour''"

definition pc_NOT_BACK_REASON :: string where
  "pc_NOT_BACK_REASON = ''UPS not back after the USB port power cycle''"

record port_cycle_policy =
  pc_stamps :: "u32 list"
  pc_count :: nat
  pc_next :: nat
  pc_waiting :: bool
  pc_timeoutReported :: bool
  pc_cycleAt :: u32
  pc_cyclesSinceBoot :: u32
  pc_lastRestartReason :: "string option"

text \<open>The stamps of a new object are not initialised.\<close>

definition pc_new :: "u32 list \<Rightarrow> port_cycle_policy" where
  "pc_new garbage = \<lparr>pc_stamps = garbage, pc_count = 0, pc_next = 0, pc_waiting = False,
     pc_timeoutReported = False, pc_cycleAt = 0, pc_cyclesSinceBoot = 0, pc_lastRestartReason = None\<rparr>"

definition pc_onStuck :: "port_cycle_policy \<Rightarrow> u32 \<Rightarrow> port_cycle_policy \<times> cycle_decision" where
  "pc_onStuck p now =
     (if pc_waiting p then (p\<lparr>pc_lastRestartReason := Some pc_STUCK_AGAIN_REASON\<rparr>, PcRestart)
      else if pc_count p = pc_MAX_CYCLES_PER_WINDOW \<and> now - pc_stamps p ! pc_next p < pc_WINDOW_MS
        then (p\<lparr>pc_lastRestartReason := Some pc_TOO_MANY_REASON\<rparr>, PcRestart)
      else (p\<lparr>pc_stamps := (pc_stamps p)[pc_next p := now],
              pc_next := (pc_next p + 1) mod pc_MAX_CYCLES_PER_WINDOW,
              pc_count := (if pc_count p < pc_MAX_CYCLES_PER_WINDOW then pc_count p + 1 else pc_count p),
              pc_cyclesSinceBoot := (if pc_cyclesSinceBoot p < 0xFFFFFFFF then pc_cyclesSinceBoot p + 1
                                     else pc_cyclesSinceBoot p),
              pc_waiting := True, pc_timeoutReported := False, pc_cycleAt := now\<rparr>, PcCyclePort))"

definition pc_onProven :: "port_cycle_policy \<Rightarrow> port_cycle_policy" where
  "pc_onProven p = p\<lparr>pc_waiting := False\<rparr>"

definition pc_backTimedOut :: "port_cycle_policy \<Rightarrow> u32 \<Rightarrow> port_cycle_policy \<times> bool" where
  "pc_backTimedOut p now =
     (if \<not> pc_waiting p \<or> pc_timeoutReported p then (p, False)
      else if now - pc_cycleAt p < pc_BACK_TIMEOUT_MS then (p, False)
      else (p\<lparr>pc_timeoutReported := True\<rparr>, True))"

section \<open>EnumWatchdog\<close>

datatype enum_action = EwNone | EwCyclePort | EwRequestRestart

definition ew_FIRST_CYCLE_MS :: u32 where
  "ew_FIRST_CYCLE_MS = 60000"

definition ew_CYCLE_INTERVAL_MS :: u32 where
  "ew_CYCLE_INTERVAL_MS = 60000"

definition ew_MAX_PORT_CYCLES :: u8 where
  "ew_MAX_PORT_CYCLES = 2"

record enum_watchdog =
  ew_armed :: bool
  ew_armedAt :: u32
  ew_cycles :: u8
  ew_restartRequested :: bool

definition ew_new :: enum_watchdog where
  "ew_new = \<lparr>ew_armed = False, ew_armedAt = 0, ew_cycles = 0, ew_restartRequested = False\<rparr>"

definition ew_arm :: "u32 \<Rightarrow> enum_watchdog" where
  "ew_arm now = \<lparr>ew_armed = True, ew_armedAt = now, ew_cycles = 0, ew_restartRequested = False\<rparr>"

definition ew_tick :: "enum_watchdog \<Rightarrow> bool \<Rightarrow> u32 \<Rightarrow> enum_watchdog \<times> enum_action" where
  "ew_tick w enumerated now =
     (if \<not> ew_armed w then (w, EwNone)
      else if enumerated then (w\<lparr>ew_armed := False\<rparr>, EwNone)
      else let elapsed = now - ew_armedAt w
           in if ew_cycles w < ew_MAX_PORT_CYCLES
              then if ew_FIRST_CYCLE_MS + ucast (ew_cycles w) * ew_CYCLE_INTERVAL_MS \<le> elapsed
                   then (w\<lparr>ew_cycles := ew_cycles w + 1\<rparr>, EwCyclePort)
                   else (w, EwNone)
              else if \<not> ew_restartRequested w \<and>
                      ew_FIRST_CYCLE_MS + ucast ew_MAX_PORT_CYCLES * ew_CYCLE_INTERVAL_MS \<le> elapsed
                   then (w\<lparr>ew_restartRequested := True\<rparr>, EwRequestRestart)
              else (w, EwNone))"

section \<open>DescriptorRetry\<close>

definition dr_MAX_ATTEMPTS :: u8 where
  "dr_MAX_ATTEMPTS = 5"

definition dr_RETRY_DELAY_MS :: u32 where
  "dr_RETRY_DELAY_MS = 2000"

record descriptor_retry =
  dr_pending :: bool
  dr_attempts :: u8
  dr_retryAt :: u32

definition dr_clear :: descriptor_retry where
  "dr_clear = \<lparr>dr_pending = False, dr_attempts = 0, dr_retryAt = 0\<rparr>"

definition dr_onFailure :: "descriptor_retry \<Rightarrow> u32 \<Rightarrow> descriptor_retry \<times> bool" where
  "dr_onFailure r now =
     (let r = r\<lparr>dr_attempts := dr_attempts r + 1\<rparr>
      in if dr_MAX_ATTEMPTS \<le> dr_attempts r then (dr_clear, False)
         else (r\<lparr>dr_pending := True, dr_retryAt := now + dr_RETRY_DELAY_MS\<rparr>, True))"

definition dr_due :: "descriptor_retry \<Rightarrow> u32 \<Rightarrow> bool" where
  "dr_due r now \<longleftrightarrow> dr_pending r \<and> reached now (dr_retryAt r)"

section \<open>OnlineDischargeLog\<close>

definition od_HOVER_CHARGE :: int where
  "od_HOVER_CHARGE = 100"

record online_discharge_log =
  od_lastCharge :: int
  od_prevCharge :: int

definition od_new :: online_discharge_log where
  "od_new = \<lparr>od_lastCharge = -1, od_prevCharge = -1\<rparr>"

definition od_update :: "online_discharge_log \<Rightarrow> bool \<Rightarrow> bool \<Rightarrow> int \<Rightarrow> online_discharge_log \<times> bool" where
  "od_update l acPresent discharging charge =
     (if \<not> discharging then (l\<lparr>od_lastCharge := -1\<rparr>, False)
      else if \<not> acPresent then (l, False)
      else if 0 < charge \<and> charge \<noteq> od_lastCharge l \<and> charge < od_HOVER_CHARGE
        then (l\<lparr>od_prevCharge := od_lastCharge l, od_lastCharge := charge\<rparr>, True)
      else (l, False))"

section \<open>Controlled restarts\<close>

lemma rp_update_unhealthy:
  "rp_update p True False now proven =
     (if rp_isDegraded p then (p\<lparr>rp_healthy := False\<rparr>, RpDegraded)
      else let at = (if rp_scheduled p then rp_restartAt p else now + rp_delayMs (rp_consecutive p))
           in (p\<lparr>rp_healthy := False, rp_scheduled := True, rp_restartAt := at\<rparr>,
               if reached now at then RpRestart else RpWait))"
  by (simp add: rp_update_def rp_trackHealth_def rp_isDegraded_def Let_def)

text \<open>A call of \<open>update\<close> while the device stays broken: at a time, with or without a proven
  control pipe.\<close>

definition rp_broken_step :: "restart_policy \<Rightarrow> u32 \<times> bool \<Rightarrow> restart_policy \<times> restart_decision" where
  "rp_broken_step p c = rp_update p True False (fst c) (snd c)"

definition rp_waiting :: "u8 \<Rightarrow> u32 \<Rightarrow> restart_policy \<Rightarrow> bool" where
  "rp_waiting c at p \<longleftrightarrow> rp_consecutive p = c \<and> rp_scheduled p \<and> rp_restartAt p = at \<and> \<not> rp_isDegraded p"

interpretation rpw: machine rp_broken_step "rp_waiting c at"
  by unfold_locales (auto simp: rp_waiting_def rp_broken_step_def rp_update_unhealthy rp_isDegraded_def)

interpretation rpd: machine rp_broken_step rp_isDegraded
  by unfold_locales (simp add: rp_broken_step_def rp_update_unhealthy rp_isDegraded_def)

lemma rp_delayMs_bound: "unat (rp_delayMs c) \<le> 900000"
proof (cases "c < rp_MAX_RESTARTS")
  case True
  then have "unat c \<in> {0, 1, 2, 3}" by (auto simp: rp_MAX_RESTARTS_def word_less_nat_alt)
  with True show ?thesis by (auto simp: rp_delayMs_def)
qed (simp add: rp_delayMs_def)

text \<open>C32: the restarts are paced. Once a restart is requested at time \<open>now\<close> with \<open>c\<close>
  consecutive restarts behind, and however often the policy is asked meanwhile with the
  device still broken, it answers RESTART exactly from \<open>delayMs c\<close> milliseconds later and
  WAIT before.\<close>

theorem restart_paced:
  assumes "\<not> rp_isDegraded p" "\<not> rp_scheduled p" "unat d < 2 ^ 31"
  shows "snd (rp_broken_step (fst (run rp_broken_step (fst (rp_broken_step p (now, pr))) calls)) (now + d, pr')) =
    (if rp_delayMs (rp_consecutive p) \<le> d then RpRestart else RpWait)"
proof -
  let ?at = "now + rp_delayMs (rp_consecutive p)"
  let ?p = "fst (rp_broken_step p (now, pr))"
  have "rp_waiting (rp_consecutive p) ?at ?p"
    using assms(1,2) by (simp add: rp_waiting_def rp_broken_step_def rp_update_unhealthy rp_isDegraded_def Let_def)
  then have "rp_waiting (rp_consecutive p) ?at (fst (run rp_broken_step ?p calls))"
    by (rule rpw.inv_run)
  then have "snd (rp_broken_step (fst (run rp_broken_step ?p calls)) (now + d, pr')) =
      (if reached (now + d) ?at then RpRestart else RpWait)"
    unfolding rp_waiting_def rp_broken_step_def [of "fst (run rp_broken_step ?p calls)"] rp_update_unhealthy
    by (simp add: Let_def)
  moreover have "unat (rp_delayMs (rp_consecutive p)) < 2 ^ 31"
    using rp_delayMs_bound [of "rp_consecutive p"] by simp
  ultimately show ?thesis
    using assms(3) by (simp add: reached_deadline)
qed

theorem restart_paced_witness:
  "snd (rp_broken_step (fst (run rp_broken_step (fst (rp_broken_step (rp_new 2) (4294967000, False)))
     [(4294967100, False), (50000, False)])) (4294967000 + 300000, True)) = RpRestart"
  using restart_paced [of "rp_new 2" 300000 4294967000 False "[(4294967100, False), (50000, False)]" True]
  by (simp add: rp_new_def rp_isDegraded_def rp_MAX_RESTARTS_def rp_delayMs_def)

text \<open>Degraded mode. After \<open>MAX_RESTARTS\<close> consecutive restarts the board is never
  restarted again while the device stays broken.\<close>

theorem degraded_never_restarts:
  assumes "rp_isDegraded p"
  shows "snd (run rp_broken_step p calls) = replicate (length calls) RpDegraded"
  using assms
proof (induction calls arbitrary: p)
  case Nil
  then show ?case by simp
next
  case (Cons c cs)
  then show ?case
    using rpd.inv_step [of p c] by (simp add: run_Cons) (simp add: rp_broken_step_def rp_update_unhealthy)
qed

theorem degraded_never_restarts_witness:
  "snd (run rp_broken_step (rp_new 4) [(1000, False), (900000, True), (1800000, False)]) =
     [RpDegraded, RpDegraded, RpDegraded]"
  using degraded_never_restarts [of "rp_new 4" "[(1000, False), (900000, True), (1800000, False)]"]
  by (simp add: rp_new_def rp_isDegraded_def rp_MAX_RESTARTS_def numeral_3_eq_3)

text \<open>Fresh data for the time required clear the counter, which leaves degraded mode.\<close>

lemma rp_cleared_by_health:
  assumes "rp_healthy p" "(if proven then rp_PROVEN_RESET_MS else rp_HEALTHY_RESET_MS) \<le> now - rp_healthySince p"
    "0 < rp_consecutive p"
  shows "rp_consecutive (fst (rp_update p False True now proven)) = 0 \<and>
    snd (rp_takeCleared (fst (rp_update p False True now proven)))"
  using assms by (simp add: rp_update_def rp_trackHealth_def rp_takeCleared_def Let_def)

section \<open>Power cycles of the port\<close>

text \<open>The calls of the owner at true times, counted from the boot without wrap-around; the
  policy sees their \<open>uint32_t\<close> stamps. A call answers the time of the cycle it granted.\<close>

datatype pc_call = PcStuckAt nat | PcProven | PcAsk nat

fun pc_time :: "pc_call \<Rightarrow> nat list" where
  "pc_time (PcStuckAt t) = [t]"
| "pc_time PcProven = []"
| "pc_time (PcAsk t) = [t]"

fun pc_step :: "port_cycle_policy \<Rightarrow> pc_call \<Rightarrow> port_cycle_policy \<times> nat list" where
  "pc_step p (PcStuckAt t) =
     (let (p', d) = pc_onStuck p (of_nat t) in (p', if d = PcCyclePort then [t] else []))"
| "pc_step p PcProven = (pc_onProven p, [])"
| "pc_step p (PcAsk t) = (fst (pc_backTimedOut p (of_nat t)), [])"

text \<open>The ring against the list of all the cycles granted so far: it holds the last twelve.\<close>

definition pc_ring :: "nat list \<Rightarrow> port_cycle_policy \<Rightarrow> bool" where
  "pc_ring gs p \<longleftrightarrow> length (pc_stamps p) = 12 \<and> pc_count p = min 12 (length gs) \<and> pc_next p = length gs mod 12 \<and>
     (\<forall>i < length gs. length gs \<le> i + 12 \<longrightarrow> pc_stamps p ! (i mod 12) = of_nat (gs ! i))"

definition pc_spaced :: "nat list \<Rightarrow> bool" where
  "pc_spaced gs \<longleftrightarrow> (\<forall>i. i + 12 < length gs \<longrightarrow> gs ! i + 3600000 \<le> gs ! (i + 12))"

lemma pc_ring_push:
  assumes "pc_ring gs p"
  shows "pc_ring (gs @ [t]) (p\<lparr>pc_stamps := (pc_stamps p)[pc_next p := of_nat t],
      pc_next := (pc_next p + 1) mod pc_MAX_CYCLES_PER_WINDOW,
      pc_count := (if pc_count p < pc_MAX_CYCLES_PER_WINDOW then pc_count p + 1 else pc_count p),
      pc_cyclesSinceBoot := b, pc_waiting := True, pc_timeoutReported := False, pc_cycleAt := of_nat t\<rparr>)"
proof -
  have ne: "i mod 12 \<noteq> length gs mod 12" if "i < length gs" "length gs < i + 12" for i
  proof
    assume "i mod 12 = length gs mod 12"
    then have "12 dvd length gs - i" using that by (metis mod_eq_dvd_iff_nat less_imp_le_nat)
    with that show False by (auto dest: dvd_imp_le)
  qed
  have "(pc_stamps p)[length gs mod 12 := of_nat t] ! (i mod 12) = of_nat ((gs @ [t]) ! i)"
    if "i < Suc (length gs)" "Suc (length gs) \<le> i + 12" for i
  proof (cases "i = length gs")
    case True
    then show ?thesis using assms by (simp add: pc_ring_def)
  next
    case False
    with that have "i < length gs" "length gs < i + 12" by auto
    then show ?thesis using assms ne [of i] by (simp add: pc_ring_def nth_append nth_list_update)
  qed
  then show ?thesis
    using assms by (auto simp: pc_ring_def pc_MAX_CYCLES_PER_WINDOW_def mod_Suc_eq)
qed

lemma pc_granted_late:
  assumes "pc_ring gs p" "\<forall>g \<in> set gs. g \<le> t" "12 \<le> length gs"
    and "\<not> of_nat t - pc_stamps p ! pc_next p < pc_WINDOW_MS"
  shows "gs ! (length gs - 12) + 3600000 \<le> t"
proof -
  let ?i = "length gs - 12"
  have idx: "?i mod 12 = length gs mod 12" using assms(3) by (metis le_mod_geq)
  moreover have "?i < length gs" "length gs \<le> ?i + 12" using assms(3) by auto
  ultimately have "pc_stamps p ! pc_next p = of_nat (gs ! ?i)"
    using assms(1) unfolding pc_ring_def by metis
  then have "3600000 \<le> unat (of_nat t - of_nat (gs ! ?i) :: u32)"
    using assms(4) by (simp add: pc_WINDOW_MS_def not_less word_le_nat_alt)
  also have "\<dots> \<le> t - gs ! ?i" using assms(2,3) by (intro stamp_diff_le) simp
  finally show ?thesis by simp
qed

lemma pc_step_ring:
  assumes "pc_ring gs p" "pc_spaced gs" "\<forall>g \<in> set gs. \<forall>t \<in> set (pc_time c). g \<le> t"
  shows "pc_ring (gs @ snd (pc_step p c)) (fst (pc_step p c)) \<and> pc_spaced (gs @ snd (pc_step p c)) \<and>
    set (snd (pc_step p c)) \<subseteq> set (pc_time c)"
proof (cases c)
  case (PcStuckAt t)
  show ?thesis
  proof (cases "snd (pc_onStuck p (of_nat t)) = PcCyclePort")
    case False
    then have "pc_stamps (fst (pc_onStuck p (of_nat t))) = pc_stamps p" "pc_count (fst (pc_onStuck p (of_nat t))) = pc_count p"
        "pc_next (fst (pc_onStuck p (of_nat t))) = pc_next p"
      by (simp_all add: pc_onStuck_def split: if_splits)
    then have "pc_ring gs (fst (pc_onStuck p (of_nat t)))"
      using assms(1) unfolding pc_ring_def by simp
    with False assms(2) PcStuckAt show ?thesis by (simp add: split_beta)
  next
    case True
    then have g: "\<not> (pc_count p = 12 \<and> of_nat t - pc_stamps p ! pc_next p < pc_WINDOW_MS)"
      by (auto simp: pc_onStuck_def pc_MAX_CYCLES_PER_WINDOW_def split: if_splits)
    from True have st: "fst (pc_onStuck p (of_nat t)) = p\<lparr>pc_stamps := (pc_stamps p)[pc_next p := of_nat t],
      pc_next := (pc_next p + 1) mod pc_MAX_CYCLES_PER_WINDOW,
      pc_count := (if pc_count p < pc_MAX_CYCLES_PER_WINDOW then pc_count p + 1 else pc_count p),
      pc_cyclesSinceBoot := (if pc_cyclesSinceBoot p < 0xFFFFFFFF then pc_cyclesSinceBoot p + 1
                                     else pc_cyclesSinceBoot p),
      pc_waiting := True, pc_timeoutReported := False, pc_cycleAt := of_nat t\<rparr>"
      by (auto simp: pc_onStuck_def split: if_splits)
    have late: "12 \<le> length gs \<Longrightarrow> gs ! (length gs - 12) + 3600000 \<le> t"
      using g assms(1,3) PcStuckAt by (intro pc_granted_late [of gs p t]) (auto simp: pc_ring_def)
    have "pc_spaced (gs @ [t])"
      unfolding pc_spaced_def
    proof (intro allI impI)
      fix i assume "i + 12 < length (gs @ [t])"
      then consider "i + 12 < length gs" | "i + 12 = length gs" by fastforce
      then show "(gs @ [t]) ! i + 3600000 \<le> (gs @ [t]) ! (i + 12)"
      proof cases
        case 1
        then show ?thesis using assms(2) by (simp add: pc_spaced_def nth_append)
      next
        case 2
        then have "length gs - 12 = i" "12 \<le> length gs" by auto
        with late have "gs ! i + 3600000 \<le> t" by simp
        with 2 show ?thesis by (simp add: nth_append)
      qed
    qed
    with pc_ring_push [OF assms(1), of t] True PcStuckAt show ?thesis by (simp add: split_beta st)
  qed
next
  case PcProven
  then show ?thesis using assms by (simp add: pc_onProven_def pc_ring_def)
next
  case (PcAsk t)
  then show ?thesis using assms by (simp add: pc_backTimedOut_def pc_ring_def)
qed

definition pc_granted :: "port_cycle_policy \<Rightarrow> pc_call list \<Rightarrow> nat list" where
  "pc_granted p cs = concat (snd (run pc_step p cs))"

lemma pc_run_spaced:
  assumes "pc_ring gs p" "pc_spaced gs" "sorted (concat (map pc_time cs))"
    and "\<forall>g \<in> set gs. \<forall>t \<in> set (concat (map pc_time cs)). g \<le> t"
  shows "pc_spaced (gs @ pc_granted p cs)"
  using assms
proof (induction cs arbitrary: gs p)
  case Nil
  then show ?case by (simp add: pc_granted_def)
next
  case (Cons c cs)
  let ?g = "snd (pc_step p c)"
  let ?p = "fst (pc_step p c)"
  have "pc_ring (gs @ ?g) ?p" "pc_spaced (gs @ ?g)" and sub: "set ?g \<subseteq> set (pc_time c)"
    using pc_step_ring [OF Cons.prems(1,2), of c] Cons.prems(4) by auto
  moreover have "\<forall>g \<in> set (gs @ ?g). \<forall>t \<in> set (concat (map pc_time cs)). g \<le> t"
    using Cons.prems(3,4) sub by (auto simp: sorted_append)
  ultimately have "pc_spaced ((gs @ ?g) @ pc_granted ?p cs)"
    using Cons.prems(3) by (intro Cons.IH) (simp_all add: sorted_append)
  then show ?case by (simp add: pc_granted_def run_Cons)
qed

text \<open>C33: the power cycles are rare. Whatever the order of stuck transfers, proofs of life and
  timeouts since the boot, and however often the millisecond counter wraps, any two granted
  cycles with eleven others between them are at least an hour of true time apart: never more
  than \<open>MAX_CYCLES_PER_WINDOW\<close> cycles of this policy fall in an hour (\<open>EnumWatchdog\<close> has its own, two at most).\<close>

theorem cycles_per_hour_bounded:
  assumes "length garbage = 12" "sorted (concat (map pc_time cs))"
    and "i + 12 < length (pc_granted (pc_new garbage) cs)"
  shows "pc_granted (pc_new garbage) cs ! i + 3600000 \<le> pc_granted (pc_new garbage) cs ! (i + 12)"
proof -
  have "pc_ring [] (pc_new garbage)" using assms(1) by (simp add: pc_ring_def pc_new_def)
  then have "pc_spaced ([] @ pc_granted (pc_new garbage) cs)"
    using assms(2) by (intro pc_run_spaced) (simp_all add: pc_spaced_def)
  with assms(3) show ?thesis by (simp add: pc_spaced_def)
qed

text \<open>Thirteen stuck transfers, five minutes apart, the control pipe proven after each.\<close>

abbreviation pc_example :: "pc_call list" where
  "pc_example \<equiv> concat (map (\<lambda>k. [PcStuckAt (4294000000 + k * 300000), PcProven]) [0, 1, 2, 3, 4, 5, 6, 7, 8, 9, 10, 11, 12])"

lemma pc_example_granted:
  "pc_granted (pc_new [5, 5, 5, 5, 5, 5, 5, 5, 5, 5, 5, 5]) pc_example = map (\<lambda>k. 4294000000 + k * 300000) [0, 1, 2, 3, 4, 5, 6, 7, 8, 9, 10, 11, 12]"
  by (simp add: pc_granted_def run_Cons_proj pc_onStuck_def pc_onProven_def pc_new_def pc_MAX_CYCLES_PER_WINDOW_def
      pc_WINDOW_MS_def)

theorem cycles_per_hour_bounded_witness:
  "pc_granted (pc_new [5, 5, 5, 5, 5, 5, 5, 5, 5, 5, 5, 5]) pc_example ! 0 + 3600000 \<le> pc_granted (pc_new [5, 5, 5, 5, 5, 5, 5, 5, 5, 5, 5, 5]) pc_example ! 12"
proof -
  have "sorted (concat (map pc_time pc_example))" by simp
  moreover have "0 + 12 < length (pc_granted (pc_new [5, 5, 5, 5, 5, 5, 5, 5, 5, 5, 5, 5]) pc_example)"
    by (simp only: pc_example_granted) simp
  ultimately show ?thesis
    using cycles_per_hour_bounded [of "[5, 5, 5, 5, 5, 5, 5, 5, 5, 5, 5, 5]" pc_example 0] by simp
qed

text \<open>A timeout is reported once per cycle.\<close>

lemma pc_timeout_once:
  assumes "snd (pc_backTimedOut p now)"
  shows "\<not> snd (pc_backTimedOut (fst (pc_backTimedOut p now)) later)"
  using assms by (simp add: pc_backTimedOut_def split: if_splits)

section \<open>Absent after a restart\<close>

definition ew_step :: "enum_watchdog \<Rightarrow> bool \<times> u32 \<Rightarrow> enum_watchdog \<times> enum_action" where
  "ew_step w c = ew_tick w (fst c) (snd c)"

text \<open>The actions still to come.\<close>

definition ew_plan :: "enum_watchdog \<Rightarrow> enum_action list" where
  "ew_plan w = (if \<not> ew_armed w then []
     else replicate (2 - unat (ew_cycles w)) EwCyclePort @ (if ew_restartRequested w then [] else [EwRequestRestart]))"

definition ew_wf :: "enum_watchdog \<Rightarrow> bool" where
  "ew_wf w \<longleftrightarrow> ew_cycles w \<le> 2 \<and> (ew_cycles w < 2 \<longrightarrow> \<not> ew_restartRequested w)"

lemma replicate_2: "replicate 2 x = [x, x]"
  by (simp add: numeral_2_eq_2)

lemma ew_step_plan:
  assumes "ew_wf w"
  shows "ew_wf (fst (ew_step w c)) \<and> (snd (ew_step w c) = EwNone \<and> (ew_plan (fst (ew_step w c)) = ew_plan w \<or> ew_plan (fst (ew_step w c)) = [])
    \<or> snd (ew_step w c) \<noteq> EwNone \<and> ew_plan w = snd (ew_step w c) # ew_plan (fst (ew_step w c)))"
proof -
  have "unat (ew_cycles w) \<le> 2" using assms by (simp add: ew_wf_def word_le_nat_alt)
  then have "unat (ew_cycles w) \<in> {0, 1, 2}" by auto
  then have "ew_cycles w \<in> {0, 1, 2}"
    by (auto simp: word_unat_eq_iff)
  with assms show ?thesis
    by (auto simp: ew_step_def ew_tick_def ew_plan_def ew_wf_def ew_MAX_PORT_CYCLES_def Let_def replicate_2)
qed

lemma ew_run_plan:
  "ew_wf w \<Longrightarrow> \<exists>k. filter (\<lambda>a. a \<noteq> EwNone) (snd (run ew_step w cs)) = take k (ew_plan w)"
proof (induction cs arbitrary: w)
  case Nil
  then show ?case by (auto intro: exI [of _ 0])
next
  case (Cons c cs)
  let ?w = "fst (ew_step w c)"
  from ew_step_plan [OF Cons.prems, of c] obtain k where
    k: "filter (\<lambda>a. a \<noteq> EwNone) (snd (run ew_step ?w cs)) = take k (ew_plan ?w)"
    using Cons.IH by blast
  from ew_step_plan [OF Cons.prems, of c] consider
    "snd (ew_step w c) = EwNone" "ew_plan ?w = ew_plan w \<or> ew_plan ?w = []"
    | "snd (ew_step w c) \<noteq> EwNone" "ew_plan w = snd (ew_step w c) # ew_plan ?w" by blast
  then show ?case
  proof cases
    case 1
    then show ?thesis using k by (auto simp: run_Cons intro: exI [of _ 0])
  next
    case 2
    then have "filter (\<lambda>a. a \<noteq> EwNone) (snd (run ew_step w (c # cs))) = take (Suc k) (ew_plan w)"
      using k by (simp add: run_Cons)
    then show ?thesis by blast
  qed
qed

text \<open>A UPS absent after a restart gets two power cycles of its port, then one request
  for a restart, and nothing more. Whatever the ticks after the boot, the actions are a
  beginning of that list.\<close>

theorem absent_ups_plan:
  "\<exists>k. filter (\<lambda>a. a \<noteq> EwNone) (snd (run ew_step (ew_arm t) cs)) =
    take k [EwCyclePort, EwCyclePort, EwRequestRestart]"
proof -
  have "ew_wf (ew_arm t)" "ew_plan (ew_arm t) = [EwCyclePort, EwCyclePort, EwRequestRestart]"
    by (simp_all add: ew_wf_def ew_plan_def ew_arm_def numeral_2_eq_2)
  then show ?thesis using ew_run_plan by metis
qed

text \<open>The first enumeration disarms the watchdog for good.\<close>

lemma ew_disarmed: "\<not> ew_armed w \<Longrightarrow> snd (run ew_step w cs) = replicate (length cs) EwNone"
  by (induction cs) (simp_all add: run_Cons ew_step_def ew_tick_def)

lemma ew_enumerated_disarms: "\<not> ew_armed (fst (ew_tick w True now))"
  by (simp add: ew_tick_def)

section \<open>Descriptor reads\<close>

lemma dr_run:
  assumes "dr_attempts r = of_nat k" "k < 5"
  shows "snd (run dr_onFailure r ts) = map (\<lambda>i. (i + k) mod 5 \<noteq> 4) [0..<length ts]"
  using assms
proof (induction ts arbitrary: r k)
  case Nil
  then show ?case by simp
next
  case (Cons t ts)
  have att: "unat (dr_attempts r + 1) = Suc k"
    using Cons.prems by (simp add: unat_Suc_u8 unat_of_nat)
  have upt: "[0..<length (t # ts)] = 0 # map Suc [0..<length ts]" by (simp add: upt_conv_Cons map_Suc_upt del: upt_Suc)
  show ?case
  proof (cases "k = 4")
    case True
    then have step: "dr_onFailure r t = (dr_clear, False)"
      using att by (simp add: dr_onFailure_def dr_MAX_ATTEMPTS_def word_le_nat_alt Let_def)
    have "(Suc i + k) mod 5 = i mod 5" for i
      using True by simp
    then show ?thesis
      using Cons.IH [of dr_clear 0] True unfolding run_Cons step upt by (simp add: dr_clear_def)
  next
    case False
    then have lt: "\<not> dr_MAX_ATTEMPTS \<le> dr_attempts r + 1"
      using att Cons.prems(2) by (simp add: dr_MAX_ATTEMPTS_def word_le_nat_alt)
    then have out: "snd (dr_onFailure r t) = True" and a: "dr_attempts (fst (dr_onFailure r t)) = of_nat (Suc k)"
      using Cons.prems(1) by (simp_all add: dr_onFailure_def Let_def)
    have "Suc k < 5" using False Cons.prems(2) by simp
    then show ?thesis
      using Cons.IH [OF a] False unfolding run_Cons upt by (simp add: out)
  qed
qed

text \<open>A report descriptor is read five times at most. Of consecutive failures since the
  last success or disconnect, each of the first four asks for another read and the fifth
  gives up, and a new interface starts from the beginning.\<close>

theorem descriptor_attempts:
  "snd (run dr_onFailure dr_clear ts) = map (\<lambda>i. i mod 5 \<noteq> 4) [0..<length ts]"
  using dr_run [of dr_clear 0 ts] by (simp add: dr_clear_def)

text \<open>The retry is due 2 seconds after the failure.\<close>

lemma dr_due_after:
  assumes "snd (dr_onFailure r now)" "unat d < 2 ^ 31"
  shows "dr_due (fst (dr_onFailure r now)) (now + d) \<longleftrightarrow> 2000 \<le> unat d"
  using assms by (auto simp: dr_onFailure_def dr_due_def Let_def dr_RETRY_DELAY_MS_def reached_deadline word_le_nat_alt
      split: if_splits)

section \<open>The OL+DISCHRG message\<close>

lemma od_message:
  assumes "od_update l ac dis charge = (l', True)"
  shows "ac \<and> dis \<and> 0 < charge \<and> charge < 100 \<and> charge \<noteq> od_lastCharge l \<and>
    od_lastCharge l' = charge \<and> od_prevCharge l' = od_lastCharge l"
  using assms by (auto simp: od_update_def od_HOVER_CHARGE_def split: if_splits)

lemma od_quiet: "od_update l ac dis charge = (l', True) \<Longrightarrow> od_update l' ac' True charge = (l', False)"
  by (auto simp: od_update_def split: if_splits)

end
