(* ===== verification/KeyValue.thy ===== *)
theory KeyValue
  imports Prelude
begin

text \<open>
  The ordered association lists of the firmware: a vector of key/value pairs that is searched
  linearly, replaced in place and appended at the end. \<open>UPSData\<close> and the store of the
  driver-side variables (\<open>lib/USBHostUPS/src/DriverVarStore.h\<close>) keep their values that way.
  The locale \<open>kv_store\<close> is the contract that their clients rely on.
\<close>

section \<open>The loops over the vector\<close>

fun kv_set :: "(string \<times> string) list \<Rightarrow> string \<Rightarrow> string \<Rightarrow> (string \<times> string) list" where
  "kv_set [] k v = [(k, v)]"
| "kv_set (p # ps) k v = (if fst p = k then (fst p, v) # ps else p # kv_set ps k v)"

fun kv_del :: "(string \<times> string) list \<Rightarrow> string \<Rightarrow> (string \<times> string) list" where
  "kv_del [] k = []"
| "kv_del (p # ps) k = (if fst p = k then ps else p # kv_del ps k)"

fun kv_find :: "(string \<times> string) list \<Rightarrow> string \<Rightarrow> string option" where
  "kv_find [] k = None"
| "kv_find (p # ps) k = (if fst p = k then Some (snd p) else kv_find ps k)"

definition kv_keys :: "(string \<times> string) list \<Rightarrow> string list" where
  "kv_keys ps = map fst ps"

lemma kv_find_set: "kv_find (kv_set ps k v) k' = (if k' = k then Some v else kv_find ps k')"
  by (induction ps) auto

lemma kv_keys_set: "kv_keys (kv_set ps k v) = (if k \<in> set (kv_keys ps) then kv_keys ps else kv_keys ps @ [k])"
  by (induction ps) (auto simp: kv_keys_def)

lemma kv_find_None: "kv_find ps k = None \<longleftrightarrow> k \<notin> set (kv_keys ps)"
  by (induction ps) (auto simp: kv_keys_def)

lemma kv_keys_del: "distinct (kv_keys ps) \<Longrightarrow> kv_keys (kv_del ps k) = filter (\<lambda>x. x \<noteq> k) (kv_keys ps)"
proof (induction ps)
  case Nil
  then show ?case by (simp add: kv_keys_def)
next
  case (Cons p ps)
  have "fst p \<notin> set (kv_keys ps) \<Longrightarrow> filter (\<lambda>x. x \<noteq> fst p) (kv_keys ps) = kv_keys ps"
    by (rule filter_True) auto
  with Cons show ?case by (auto simp: kv_keys_def)
qed

lemma kv_find_del:
  "distinct (kv_keys ps) \<Longrightarrow> kv_find (kv_del ps k) k' = (if k' = k then None else kv_find ps k')"
proof (induction ps)
  case (Cons p ps)
  have "k = fst p \<Longrightarrow> kv_find ps k = None" using Cons.prems by (auto simp: kv_find_None kv_keys_def)
  with Cons show ?case by (auto simp: kv_keys_def)
qed simp

lemma kv_del_absent: "k \<notin> set (kv_keys ps) \<Longrightarrow> kv_del ps k = ps"
  by (induction ps) (auto simp: kv_keys_def)

lemma distinct_kv_set: "distinct (kv_keys ps) \<Longrightarrow> distinct (kv_keys (kv_set ps k v))"
  by (simp add: kv_keys_set)

lemma distinct_kv_del: "distinct (kv_keys ps) \<Longrightarrow> distinct (kv_keys (kv_del ps k))"
  by (simp add: kv_keys_del)

section \<open>The contract\<close>

locale kv_store =
  fixes ok :: "'s \<Rightarrow> bool"
    and lookup :: "'s \<Rightarrow> string \<Rightarrow> string option"
    and put :: "'s \<Rightarrow> string \<Rightarrow> string \<Rightarrow> 's"
    and del :: "'s \<Rightarrow> string \<Rightarrow> 's"
  assumes ok_put: "ok s \<Longrightarrow> ok (put s k v)"
    and ok_del: "ok s \<Longrightarrow> ok (del s k)"
    and lookup_put: "ok s \<Longrightarrow> lookup (put s k v) k' = (if k' = k then Some v else lookup s k')"
    and lookup_del: "ok s \<Longrightarrow> lookup (del s k) k' = (if k' = k then None else lookup s k')"
begin

definition publish :: "'s \<Rightarrow> string \<times> string option \<Rightarrow> 's" where
  "publish s c = (case snd c of Some v \<Rightarrow> put s (fst c) v | None \<Rightarrow> del s (fst c))"

lemma ok_publish: "ok s \<Longrightarrow> ok (publish s c)"
  by (simp add: publish_def ok_put ok_del split: option.splits)

lemma lookup_publish: "ok s \<Longrightarrow> lookup (publish s c) k = (if k = fst c then snd c else lookup s k)"
  by (simp add: publish_def lookup_put lookup_del split: option.splits)

lemma ok_foldl_publish: "ok s \<Longrightarrow> ok (foldl publish s cs)"
  by (induction cs arbitrary: s) (simp_all add: ok_publish)

text \<open>A sequence of publications and removals: the last one of a key decides.\<close>

lemma lookup_foldl_publish:
  "ok s \<Longrightarrow> lookup (foldl publish s cs) k =
     (case map_of (rev cs) k of Some r \<Rightarrow> r | None \<Rightarrow> lookup s k)"
proof (induction cs arbitrary: s)
  case (Cons c cs)
  then show ?case
    by (cases c) (auto simp: ok_publish lookup_publish map_add_def split: option.splits)
qed simp

lemma foldl_put_publish: "foldl (\<lambda>s p. put s (fst p) (snd p)) s ps = foldl publish s (map (\<lambda>(k, v). (k, Some v)) ps)"
  by (induction ps arbitrary: s) (auto simp: publish_def)

lemma lookup_foldl_put:
  assumes "ok s"
  shows "lookup (foldl (\<lambda>s p. put s (fst p) (snd p)) s ps) k =
    (case map_of (rev ps) k of Some v \<Rightarrow> Some v | None \<Rightarrow> lookup s k)"
proof -
  have "map_of (rev (map (\<lambda>(k, v). (k, Some v)) ps)) k = map_option Some (map_of (rev ps) k)"
    by (simp add: rev_map map_of_map)
  then show ?thesis
    using lookup_foldl_publish [OF assms, of "map (\<lambda>(k, v). (k, Some v)) ps" k]
    unfolding foldl_put_publish by (simp split: option.splits)
qed

end

section \<open>DriverVarStore\<close>

text \<open>The vector of saved \<open>(name, value)\<close> pairs. A null name changes nothing, a null value is
  the empty one.\<close>

definition dvs_upsert :: "(string \<times> string) list \<Rightarrow> string option \<Rightarrow> string option \<Rightarrow> (string \<times> string) list" where
  "dvs_upsert vars name value =
     (case name of None \<Rightarrow> vars
      | Some n \<Rightarrow> kv_set vars n (case value of Some v \<Rightarrow> v | None \<Rightarrow> ''''))"

definition dvs_remove :: "(string \<times> string) list \<Rightarrow> string option \<Rightarrow> (string \<times> string) list \<times> bool" where
  "dvs_remove vars name =
     (case name of None \<Rightarrow> (vars, False)
      | Some n \<Rightarrow> (kv_del vars n, kv_find vars n \<noteq> None))"

text \<open>JSON is a library of its own: \<open>print_obj\<close> serialises an object of strings,
  \<open>parse_obj\<close> gives the members of a document that is one object, \<open>None\<close> otherwise, and a
  member is \<open>None\<close> when its value is no string. An assignment to a member of a JSON object
  replaces an earlier one of the same name.\<close>

definition dvs_toJson :: "((string \<times> string) list \<Rightarrow> string) \<Rightarrow> (string \<times> string) list \<Rightarrow> string" where
  "dvs_toJson print_obj vars = print_obj (foldl (\<lambda>obj kv. kv_set obj (fst kv) (snd kv)) [] vars)"

fun dvs_members :: "(string \<times> string) list \<Rightarrow> (string \<times> string option) list \<Rightarrow> (string \<times> string) list option" where
  "dvs_members out [] = Some out"
| "dvs_members out ((k, v) # ms) =
     (case v of None \<Rightarrow> None | Some v \<Rightarrow> dvs_members (dvs_upsert out (Some k) (Some v)) ms)"

definition dvs_fromJson :: "(string \<Rightarrow> (string \<times> string option) list option) \<Rightarrow> string \<Rightarrow> (string \<times> string) list \<times> bool" where
  "dvs_fromJson parse_obj json =
     (case parse_obj json of None \<Rightarrow> ([], False)
      | Some ms \<Rightarrow> (case dvs_members [] ms of None \<Rightarrow> ([], False) | Some out \<Rightarrow> (out, True)))"

interpretation dvs: kv_store "\<lambda>vars. distinct (kv_keys vars)" kv_find
  "\<lambda>vars k v. dvs_upsert vars (Some k) (Some v)" "\<lambda>vars k. fst (dvs_remove vars (Some k))"
  by unfold_locales (simp_all add: dvs_upsert_def dvs_remove_def distinct_kv_set distinct_kv_del kv_find_set kv_find_del)

lemma kv_set_new: "k \<notin> set (kv_keys ps) \<Longrightarrow> kv_set ps k v = ps @ [(k, v)]"
  by (induction ps) (auto simp: kv_keys_def)

lemma kv_rebuild:
  "distinct (kv_keys (acc @ ps)) \<Longrightarrow> foldl (\<lambda>obj kv. kv_set obj (fst kv) (snd kv)) acc ps = acc @ ps"
proof (induction ps arbitrary: acc)
  case (Cons p ps)
  then have "kv_set acc (fst p) (snd p) = acc @ [p]"
    using kv_set_new [of "fst p" acc "snd p"] by (auto simp: kv_keys_def)
  then show ?case using Cons by simp
qed simp

lemma dvs_members_strings:
  "dvs_members out (map (\<lambda>(k, v). (k, Some v)) ms) = Some (foldl (\<lambda>obj kv. kv_set obj (fst kv) (snd kv)) out ms)"
  by (induction ms arbitrary: out) (auto simp: dvs_upsert_def)

text \<open>Saved values survive a restart, when the JSON library parses what it prints.\<close>

lemma dvs_roundtrip:
  assumes "\<And>obj. parse_obj (print_obj obj) = Some (map (\<lambda>(k, v). (k, Some v)) obj)"
    and "distinct (kv_keys vars)"
  shows "dvs_fromJson parse_obj (dvs_toJson print_obj vars) = (vars, True)"
  using kv_rebuild [of "[]" vars] assms(2)
  by (simp add: dvs_fromJson_def dvs_toJson_def assms(1) dvs_members_strings)

end
