(* ===== verification/UpsData.thy ===== *)
theory UpsData
  imports KeyValue Complex_Main "HOL-Library.Sublist"
begin

text \<open>
  \<open>UPSData\<close> of \<open>lib/USBHostUPS/src/UPSData.h\<close>: the published variables of the UPS, in the
  order they were first set, and the derived ones: \<open>ups.status\<close> with the token rules of
  usbhid-ups, \<open>ups.alarm\<close>, \<open>input.transfer.reason\<close> and the estimate of \<open>ups.realpower\<close>.

  \<open>String::toFloat\<close> belongs to the Arduino core: it is the parameter \<open>toFloat\<close>, a rational,
  since every finite float is one. A conversion to an unsigned type truncates; C++ leaves it
  undefined when the value does not fit, here it wraps.
\<close>

section \<open>The variables\<close>

record ups_data =
  ud_parameters :: "(string \<times> string) list"
  ud_realPowerMeasured :: bool
  ud_writes :: u32

definition ud_new :: ups_data where
  "ud_new = \<lparr>ud_parameters = [], ud_realPowerMeasured = False, ud_writes = 0\<rparr>"

definition ud_set :: "ups_data \<Rightarrow> string \<Rightarrow> string \<Rightarrow> ups_data" where
  "ud_set d key value = d\<lparr>ud_writes := ud_writes d + 1, ud_parameters := kv_set (ud_parameters d) key value\<rparr>"

definition ud_find :: "ups_data \<Rightarrow> string \<Rightarrow> string option" where
  "ud_find d key = kv_find (ud_parameters d) key"

definition ud_valueEquals :: "ups_data \<Rightarrow> string \<Rightarrow> string \<Rightarrow> bool" where
  "ud_valueEquals d key value = (case ud_find d key of Some v \<Rightarrow> v = value | None \<Rightarrow> False)"

definition ud_get :: "ups_data \<Rightarrow> string \<Rightarrow> string \<Rightarrow> string" where
  "ud_get d key defaultValue = (case kv_find (ud_parameters d) key of Some v \<Rightarrow> v | None \<Rightarrow> defaultValue)"

definition ud_hasKey :: "ups_data \<Rightarrow> string \<Rightarrow> bool" where
  "ud_hasKey d key = (kv_find (ud_parameters d) key \<noteq> None)"

definition ud_remove :: "ups_data \<Rightarrow> string \<Rightarrow> ups_data" where
  "ud_remove d key =
     (if kv_find (ud_parameters d) key = None then d
      else d\<lparr>ud_parameters := kv_del (ud_parameters d) key, ud_writes := ud_writes d + 1\<rparr>)"

definition ud_getFloat :: "(string \<Rightarrow> rat) \<Rightarrow> ups_data \<Rightarrow> string \<Rightarrow> rat \<Rightarrow> rat" where
  "ud_getFloat toFloat d key defaultVal = (if \<not> ud_hasKey d key then defaultVal else toFloat (ud_get d key ''''))"

definition ud_isTrue :: "string \<Rightarrow> bool" where
  "ud_isTrue v \<longleftrightarrow> v = ''1'' \<or> v = ''true'' \<or> v = ''yes'' \<or> v = ''enabled''"

definition ud_getBool :: "ups_data \<Rightarrow> string \<Rightarrow> bool \<Rightarrow> bool" where
  "ud_getBool d key defaultVal = (if \<not> ud_hasKey d key then defaultVal else ud_isTrue (ud_get d key ''''))"

definition ud_flagSet :: "ups_data \<Rightarrow> string \<Rightarrow> bool" where
  "ud_flagSet d key = (case ud_find d key of Some v \<Rightarrow> ud_isTrue v | None \<Rightarrow> False)"

definition ud_ok :: "ups_data \<Rightarrow> bool" where
  "ud_ok d \<longleftrightarrow> distinct (kv_keys (ud_parameters d))"

interpretation ud: kv_store ud_ok ud_find ud_set ud_remove
proof unfold_locales
  fix s k v k'
  assume ok: "ud_ok s"
  show "ud_ok (ud_set s k v)" using ok by (simp add: ud_ok_def ud_set_def distinct_kv_set)
  show "ud_ok (ud_remove s k)" using ok by (simp add: ud_ok_def ud_remove_def distinct_kv_del)
  show "ud_find (ud_set s k v) k' = (if k' = k then Some v else ud_find s k')"
    by (simp add: ud_find_def ud_set_def kv_find_set)
  show "ud_find (ud_remove s k) k' = (if k' = k then None else ud_find s k')"
    using ok by (auto simp: ud_find_def ud_remove_def ud_ok_def kv_find_del)
qed

lemma ud_ok_new: "ud_ok ud_new"
  by (simp add: ud_ok_def ud_new_def kv_keys_def)

lemma ud_getBool_flagSet [simp]: "ud_getBool d k False = ud_flagSet d k"
  by (simp add: ud_getBool_def ud_flagSet_def ud_find_def ud_hasKey_def ud_get_def split: option.splits)

lemma ud_hasKey_find: "ud_hasKey d k \<longleftrightarrow> ud_find d k \<noteq> None"
  by (simp add: ud_hasKey_def ud_find_def)

section \<open>ups.status\<close>

text \<open>\<open>String::trim\<close>: white space at both ends.\<close>

definition is_space :: "char \<Rightarrow> bool" where
  "is_space c \<longleftrightarrow> ord c = 32 \<or> (9 \<le> ord c \<and> ord c \<le> 13)"

definition trim :: "string \<Rightarrow> string" where
  "trim s = rev (dropWhile is_space (rev (dropWhile is_space s)))"

definition append_if :: "bool \<Rightarrow> string \<Rightarrow> string \<Rightarrow> string" where
  "append_if b t status = (if b then status @ t else status)"

definition computeUPSStatusString :: "(string \<Rightarrow> rat) \<Rightarrow> ups_data \<Rightarrow> string" where
  "computeUPSStatusString toFloat d =
     (let acPresent = ud_getBool d ''ups.status.ac_present'' False;
          discharging = ud_getBool d ''ups.status.discharging'' False;
          good = ud_getBool d ''ups.status.good'' False;
          charging = ud_getBool d ''ups.status.charging'' False;
          batteryCharge = ud_getFloat toFloat d ''battery.charge'' (-1);
          hasAc = ud_hasKey d ''ups.status.ac_present'';
          dischrg = (ud_hasKey d ''ups.status.discharging'' \<and> discharging);
          online = (if hasAc then acPresent else ud_hasKey d ''ups.status.good'' \<and> good \<and> \<not> dischrg);
          depleted = ud_getBool d ''ups.status.depleted'' False;
          timeLimitExpired = ud_getBool d ''ups.status.remaining_time_limit_expired'' False;
          noBattery = ud_getBool d ''ups.status.no_battery'' False;
          status = [];
          status = append_if (ud_flagSet d ''ups.status.cal'') ''CAL '' status;
          status = append_if online ''OL '' status;
          status = append_if (if hasAc then \<not> acPresent else dischrg) ''OB '' status;
          status = append_if (dischrg \<and> \<not> depleted) ''DISCHRG '' status;
          status = (if ud_hasKey d ''ups.status.charging'' \<and> charging
                    then if ud_hasKey d ''ups.status.fully_charged''
                         then append_if (\<not> ud_getBool d ''ups.status.fully_charged'' False) ''CHRG '' status
                         else append_if (0 < batteryCharge \<and> batteryCharge < 100) ''CHRG '' status
                    else status);
          shutdownImminent = ud_getBool d ''ups.status.shutdown_imminent'' False;
          status = append_if (ud_getBool d ''ups.status.battery_low'' False \<or> timeLimitExpired \<or> shutdownImminent) ''LB '' status;
          status = append_if (ud_getBool d ''ups.status.overload'' False) ''OVER '' status;
          status = append_if (ud_getBool d ''ups.status.replace_battery'' False \<or> noBattery) ''RB '' status;
          status = append_if (ud_flagSet d ''ups.status.trim'') ''TRIM '' status;
          status = append_if (ud_flagSet d ''ups.status.boost'') ''BOOST '' status;
          status = append_if (ud_flagSet d ''ups.status.bypassauto'' \<or> ud_flagSet d ''ups.status.bypassman'') ''BYPASS '' status;
          status = append_if (ud_flagSet d ''ups.status.off'') ''OFF '' status;
          status = trim status
      in if ud_find d ''ups.alarm'' \<noteq> None then (if status = [] then ''ALARM'' else ''ALARM '' @ status)
         else if status = [] then ''Unknown'' else status)"

section \<open>ups.alarm and input.transfer.reason\<close>

definition ud_alarmBits :: "(string \<times> string) list" where
  "ud_alarmBits =
    [(''ups.status.replace_battery'', ''Replace battery!''),
     (''ups.status.shutdown_imminent'', ''Shutdown imminent!''),
     (''ups.status.fanfail'', ''Fan failure!''),
     (''ups.status.no_battery'', ''No battery installed!''),
     (''ups.status.battvoltlo'', ''Battery voltage too low!''),
     (''ups.status.battvolthi'', ''Battery voltage too high!''),
     (''ups.status.chargerfail'', ''Battery charger fail!''),
     (''ups.status.overheat'', ''Temperature too high!''),
     (''ups.status.commfault'', ''Internal UPS fault!''),
     (''ups.status.awaitingpower'', ''Awaiting power!''),
     (''ups.status.bypassauto'', ''Automatic bypass mode!''),
     (''ups.status.bypassman'', ''Manual bypass mode!'')]"

fun ud_alarmLoop :: "ups_data \<Rightarrow> string \<Rightarrow> (string \<times> string) list \<Rightarrow> string" where
  "ud_alarmLoop d out [] = out"
| "ud_alarmLoop d out (b # bs) =
     (if \<not> ud_flagSet d (fst b) then ud_alarmLoop d out bs
      else ud_alarmLoop d ((if out \<noteq> [] then out @ '' '' else out) @ snd b) bs)"

definition ud_alarmText :: "ups_data \<Rightarrow> string \<Rightarrow> string" where
  "ud_alarmText d vendor = ud_alarmLoop d vendor ud_alarmBits"

definition ud_transferReason :: "ups_data \<Rightarrow> string option" where
  "ud_transferReason d =
     (if ud_flagSet d ''ups.status.vrange'' then Some ''input voltage out of range''
      else if ud_flagSet d ''ups.status.frange'' then Some ''input frequency out of range''
      else None)"

definition ud_applyAlarmVariables :: "ups_data \<Rightarrow> string \<Rightarrow> ups_data" where
  "ud_applyAlarmVariables d vendor =
     (let text = ud_alarmText d vendor;
          d1 = (if text = [] then (if ud_find d ''ups.alarm'' \<noteq> None then ud_remove d ''ups.alarm'' else d)
                else if \<not> ud_valueEquals d ''ups.alarm'' text then ud_set d ''ups.alarm'' text else d);
          reason = ud_transferReason d1;
          current = ud_find d1 ''input.transfer.reason''
      in case reason of
           None \<Rightarrow> (if current \<noteq> None then ud_remove d1 ''input.transfer.reason'' else d1)
         | Some r \<Rightarrow> (if current \<noteq> Some r then ud_set d1 ''input.transfer.reason'' r else d1))"

section \<open>ups.realpower\<close>

definition ud_markRealPowerMeasured :: "ups_data \<Rightarrow> ups_data" where
  "ud_markRealPowerMeasured d = d\<lparr>ud_realPowerMeasured := True\<rparr>"

text \<open>A conversion of a float to an unsigned integer type: towards zero.\<close>

definition trunc :: "rat \<Rightarrow> int" where
  "trunc q = (if 0 \<le> q then floor q else - floor (- q))"

definition ud_updateRealPower :: "(string \<Rightarrow> rat) \<Rightarrow> ups_data \<Rightarrow> ups_data" where
  "ud_updateRealPower toFloat d =
     (if ud_realPowerMeasured d then d
      else if \<not> ud_hasKey d ''ups.load'' then d
      else let loadPct = (of_int (trunc (ud_getFloat toFloat d ''ups.load'' 0)) :: u8)
           in if ud_hasKey d ''ups.realpower.nominal'' \<and> 0 < ud_getFloat toFloat d ''ups.realpower.nominal'' 0
              then let nominal = (of_int (trunc (ud_getFloat toFloat d ''ups.realpower.nominal'' 0)) :: u16)
                   in ud_set d ''ups.realpower'' (dec (unat (ucast ((ucast nominal * ucast loadPct :: u32) div 100) :: u16)))
              else if ud_hasKey d ''ups.power.nominal'' \<and> 0 < ud_getFloat toFloat d ''ups.power.nominal'' 0
              then let apparent = (of_int (trunc (ud_getFloat toFloat d ''ups.power.nominal'' 0)) :: u16)
                   in ud_set d ''ups.realpower'' (dec (unat (ucast ((ucast apparent * 60 * ucast loadPct :: u32) div 10000) :: u16)))
              else d)"

section \<open>The words of a line\<close>

function words :: "string \<Rightarrow> string list" where
  "words s = (let s = dropWhile is_space s in
     if s = [] then [] else takeWhile (\<lambda>c. \<not> is_space c) s # words (dropWhile (\<lambda>c. \<not> is_space c) s))"
  by pat_completeness auto
termination
proof (relation "measure length")
  fix s :: string and x
  assume x: "x = dropWhile is_space s" and ne: "x \<noteq> []"
  then obtain c cs where c: "x = c # cs" "\<not> is_space c" by (metis dropWhile_eq_Cons_conv list.exhaust)
  have "length (dropWhile (\<lambda>c. \<not> is_space c) x) < length x"
    using c by (simp add: le_imp_less_Suc length_dropWhile_le)
  also have "\<dots> \<le> length s" unfolding x by (rule length_dropWhile_le)
  finally show "(dropWhile (\<lambda>c. \<not> is_space c) x, s) \<in> measure length" by simp
qed simp

declare words.simps [simp del]

definition word :: "string \<Rightarrow> bool" where
  "word t \<longleftrightarrow> t \<noteq> [] \<and> list_all (\<lambda>c. \<not> is_space c) t"

text \<open>Each word followed by a blank, as the status is built.\<close>

definition blanked :: "string list \<Rightarrow> string" where
  "blanked ts = concat (map (\<lambda>t. t @ '' '') ts)"

lemma blanked_simps [simp]: "blanked [] = []" "blanked (t # ts) = t @ '' '' @ blanked ts"
  "blanked (xs @ ys) = blanked xs @ blanked ys"
  by (simp_all add: blanked_def)

lemma is_space_blank [simp]: "is_space (CHR '' '')"
  by (simp add: is_space_def ord_def)

lemma dropWhile_word: "word t \<Longrightarrow> dropWhile is_space (t @ s) = t @ s"
  by (cases t) (auto simp: word_def)

lemma span_word:
  assumes "word t" "s = [] \<or> is_space (hd s)"
  shows "takeWhile (\<lambda>c. \<not> is_space c) (t @ s) = t" "dropWhile (\<lambda>c. \<not> is_space c) (t @ s) = s"
  using assms by (cases s; auto simp: word_def list_all_iff takeWhile_append dropWhile_append)+

lemma words_word: "word t \<Longrightarrow> s = [] \<or> is_space (hd s) \<Longrightarrow> words (t @ s) = t # words s"
  by (subst words.simps) (auto simp: dropWhile_word span_word Let_def word_def)

lemma words_blank: "words (CHR '' '' # s) = words s"
  by (subst (1 2) words.simps) simp

lemma words_Nil: "words [] = []"
  by (subst words.simps) simp

lemma words_blanked: "list_all word ts \<Longrightarrow> words (blanked ts) = ts"
  by (induction ts) (simp_all add: words_Nil words_word words_blank)

lemma trim_blanked:
  assumes "list_all word ts"
  shows "trim (blanked ts) = butlast (blanked ts)"
proof (cases ts rule: rev_cases)
  case Nil
  then show ?thesis by (simp add: trim_def)
next
  case (snoc us t)
  then have w: "word t" using assms by simp
  have front: "dropWhile is_space (blanked ts) = blanked ts"
    using assms by (cases ts) (simp_all add: dropWhile_word)
  obtain c r where c: "rev t = c # r" "\<not> is_space c"
    using w by (cases "rev t") (auto simp: word_def list_all_iff)
  then have "rev (blanked ts) = CHR '' '' # c # r @ rev (blanked us)" using snoc by simp
  then show ?thesis unfolding trim_def front using c(2) snoc by (simp add: rev_swap [symmetric] butlast_append)
qed

lemma words_snoc_blank: "words (s @ '' '') = words s"
proof (induction s rule: words.induct)
  case (1 s)
  let ?t = "dropWhile is_space s"
  show ?case
  proof (cases "?t = []")
    case True
    then have "dropWhile is_space (s @ '' '') = []" by (simp add: dropWhile_append)
    with True show ?thesis by (subst (1 2) words.simps) simp
  next
    case False
    then have d: "dropWhile is_space (s @ '' '') = ?t @ '' ''" by (simp add: dropWhile_append)
    have "takeWhile (\<lambda>c. \<not> is_space c) (?t @ '' '') = takeWhile (\<lambda>c. \<not> is_space c) ?t"
      by (simp add: takeWhile_append takeWhile_eq_all_conv [THEN iffD2] words_Nil)
    moreover have "words (dropWhile (\<lambda>c. \<not> is_space c) (?t @ '' '')) = words (dropWhile (\<lambda>c. \<not> is_space c) ?t)"
    proof (cases "dropWhile (\<lambda>c. \<not> is_space c) ?t = []")
      case True
      then have "dropWhile (\<lambda>c. \<not> is_space c) (?t @ '' '') = '' ''"
        by (simp add: dropWhile_append)
      with True show ?thesis by (simp only: words_blank)
    next
      case rest: False
      then have "dropWhile (\<lambda>c. \<not> is_space c) (?t @ '' '') = dropWhile (\<lambda>c. \<not> is_space c) ?t @ '' ''"
        by (simp add: dropWhile_append)
      then show ?thesis using 1 [OF refl False] by simp
    qed
    ultimately show ?thesis using False unfolding words.simps [of "s @ '' ''"] words.simps [of s] d by (simp add: Let_def)
  qed
qed

lemma words_trim_blanked:
  assumes "list_all word ts"
  shows "words (trim (blanked ts)) = ts"
proof (cases ts rule: rev_cases)
  case Nil
  then show ?thesis by (simp add: trim_def words_Nil)
next
  case (snoc us t)
  then have "trim (blanked ts) @ '' '' = blanked ts"
    unfolding trim_blanked [OF assms] by (simp add: butlast_append)
  then show ?thesis using words_snoc_blank [of "trim (blanked ts)"] words_blanked [OF assms] by simp
qed

section \<open>The tokens of ups.status\<close>

text \<open>The order of the tokens upstream, and the condition of each one in terms of the flags.\<close>

definition ud_online :: "ups_data \<Rightarrow> bool" where
  "ud_online d = (if ud_hasKey d ''ups.status.ac_present'' then ud_flagSet d ''ups.status.ac_present''
     else ud_flagSet d ''ups.status.good'' \<and> \<not> ud_flagSet d ''ups.status.discharging'')"

definition ud_onbatt :: "ups_data \<Rightarrow> bool" where
  "ud_onbatt d = (if ud_hasKey d ''ups.status.ac_present'' then \<not> ud_flagSet d ''ups.status.ac_present''
     else ud_flagSet d ''ups.status.discharging'')"

definition ud_chrg :: "(string \<Rightarrow> rat) \<Rightarrow> ups_data \<Rightarrow> bool" where
  "ud_chrg toFloat d = (ud_flagSet d ''ups.status.charging'' \<and>
     (if ud_hasKey d ''ups.status.fully_charged'' then \<not> ud_flagSet d ''ups.status.fully_charged''
      else 0 < ud_getFloat toFloat d ''battery.charge'' (-1) \<and> ud_getFloat toFloat d ''battery.charge'' (-1) < 100))"

definition ud_lowbatt :: "ups_data \<Rightarrow> bool" where
  "ud_lowbatt d = (ud_flagSet d ''ups.status.battery_low'' \<or> ud_flagSet d ''ups.status.remaining_time_limit_expired'' \<or>
     ud_flagSet d ''ups.status.shutdown_imminent'')"

definition ud_conditions :: "(string \<Rightarrow> rat) \<Rightarrow> ups_data \<Rightarrow> (bool \<times> string) list" where
  "ud_conditions toFloat d =
    [(ud_flagSet d ''ups.status.cal'', ''CAL''), (ud_online d, ''OL''), (ud_onbatt d, ''OB''),
     (ud_flagSet d ''ups.status.discharging'' \<and> \<not> ud_flagSet d ''ups.status.depleted'', ''DISCHRG''),
     (ud_chrg toFloat d, ''CHRG''), (ud_lowbatt d, ''LB''), (ud_flagSet d ''ups.status.overload'', ''OVER''),
     (ud_flagSet d ''ups.status.replace_battery'' \<or> ud_flagSet d ''ups.status.no_battery'', ''RB''),
     (ud_flagSet d ''ups.status.trim'', ''TRIM''), (ud_flagSet d ''ups.status.boost'', ''BOOST''),
     (ud_flagSet d ''ups.status.bypassauto'' \<or> ud_flagSet d ''ups.status.bypassman'', ''BYPASS''),
     (ud_flagSet d ''ups.status.off'', ''OFF'')]"

definition ud_tokens :: "(string \<Rightarrow> rat) \<Rightarrow> ups_data \<Rightarrow> string list" where
  "ud_tokens toFloat d = map snd (filter fst (ud_conditions toFloat d))"

lemma flagSet_hasKey: "ud_flagSet d k \<Longrightarrow> ud_hasKey d k"
  by (simp add: ud_flagSet_def ud_hasKey_find split: option.splits)

lemma words_tokens: "list_all word (ud_tokens toFloat d)"
proof -
  have "list_all (\<lambda>c. word (snd c)) (ud_conditions toFloat d)"
    by (simp add: ud_conditions_def word_def is_space_def ord_def)
  then show ?thesis by (auto simp: ud_tokens_def list_all_iff)
qed

definition opt :: "bool \<Rightarrow> string \<Rightarrow> string" where
  "opt b t = (if b then t else [])"

lemma append_if_opt: "append_if b t s = s @ opt b t"
  by (simp add: append_if_def opt_def)

lemma filter_conditions:
  "blanked (map snd (filter fst ((b, t) # cs))) = opt b (t @ '' '') @ blanked (map snd (filter fst cs))"
  by (simp add: opt_def)

lemma computeUPSStatusString_tokens:
  "computeUPSStatusString toFloat d =
     (let status = trim (blanked (ud_tokens toFloat d))
      in if ud_find d ''ups.alarm'' \<noteq> None then (if status = [] then ''ALARM'' else ''ALARM '' @ status)
         else if status = [] then ''Unknown'' else status)"
proof -
  have dis: "(ud_hasKey d ''ups.status.discharging'' \<and> ud_flagSet d ''ups.status.discharging'') = ud_flagSet d ''ups.status.discharging''"
    "(ud_hasKey d ''ups.status.good'' \<and> ud_flagSet d ''ups.status.good'' \<and> x) = (ud_flagSet d ''ups.status.good'' \<and> x)"
    "(ud_hasKey d ''ups.status.charging'' \<and> ud_flagSet d ''ups.status.charging'') = ud_flagSet d ''ups.status.charging''" for x
    using flagSet_hasKey by blast+
  have chrg: "(if ud_flagSet d ''ups.status.charging''
                then if ud_hasKey d ''ups.status.fully_charged''
                     then append_if (\<not> ud_flagSet d ''ups.status.fully_charged'') ''CHRG '' s
                     else append_if (0 < ud_getFloat toFloat d ''battery.charge'' (-1) \<and> ud_getFloat toFloat d ''battery.charge'' (-1) < 100) ''CHRG '' s
                else s) = append_if (ud_chrg toFloat d) ''CHRG '' s" for s
    by (auto simp: ud_chrg_def append_if_def)
  have status: "blanked (ud_tokens toFloat d) =
    append_if (ud_flagSet d ''ups.status.off'') ''OFF '' (
    append_if (ud_flagSet d ''ups.status.bypassauto'' \<or> ud_flagSet d ''ups.status.bypassman'') ''BYPASS '' (
    append_if (ud_flagSet d ''ups.status.boost'') ''BOOST '' (append_if (ud_flagSet d ''ups.status.trim'') ''TRIM '' (
    append_if (ud_flagSet d ''ups.status.replace_battery'' \<or> ud_flagSet d ''ups.status.no_battery'') ''RB '' (
    append_if (ud_flagSet d ''ups.status.overload'') ''OVER '' (append_if (ud_lowbatt d) ''LB '' (
    append_if (ud_chrg toFloat d) ''CHRG '' (
    append_if (ud_flagSet d ''ups.status.discharging'' \<and> \<not> ud_flagSet d ''ups.status.depleted'') ''DISCHRG '' (
    append_if (ud_onbatt d) ''OB '' (append_if (ud_online d) ''OL '' (
    append_if (ud_flagSet d ''ups.status.cal'') ''CAL '' [])))))))))))"
    unfolding ud_tokens_def ud_conditions_def filter_conditions filter.simps(1) list.map(1) blanked_simps(1) append_if_opt
    by (simp only: append_assoc append_Nil append_Nil2 append_Cons)
  show ?thesis
    unfolding computeUPSStatusString_def Let_def ud_getBool_flagSet dis chrg status
      ud_online_def [symmetric] ud_onbatt_def [symmetric] ud_lowbatt_def [symmetric] by (rule refl)
qed

lemma words_status:
  "words (computeUPSStatusString toFloat d) =
     (case ((if ud_find d ''ups.alarm'' = None then [] else [''ALARM'']) @ ud_tokens toFloat d) of
        [] \<Rightarrow> [''Unknown''] | ts \<Rightarrow> ts)"
proof -
  let ?s = "trim (blanked (ud_tokens toFloat d))"
  have w: "words ?s = ud_tokens toFloat d" by (rule words_trim_blanked [OF words_tokens])
  have e: "?s = [] \<longleftrightarrow> ud_tokens toFloat d = []"
  proof
    show "?s = [] \<Longrightarrow> ud_tokens toFloat d = []" using w by (simp add: words_Nil)
    show "ud_tokens toFloat d = [] \<Longrightarrow> ?s = []" by (simp add: trim_def)
  qed
  have tok: "word ''ALARM''" "word ''Unknown''" by (simp_all add: word_def is_space_def ord_def)
  have alarm: "words (''ALARM'' @ '' '' @ ?s) = ''ALARM'' # words ?s" "words ''ALARM'' = [''ALARM'']" "words ''Unknown'' = [''Unknown'']"
    using words_word [OF tok(1), of "'' '' @ ?s"] words_word [OF tok(1), of "[]"] words_word [OF tok(2), of "[]"]
    by (simp_all add: words_blank words_Nil)
  show ?thesis
  proof (cases "ud_tokens toFloat d")
    case Nil
    then show ?thesis using e alarm by (simp add: computeUPSStatusString_tokens Let_def)
  next
    case (Cons t ts)
    then show ?thesis using e alarm w by (simp add: computeUPSStatusString_tokens Let_def)
  qed
qed

lemma ud_exclusive: "\<not> (ud_online d \<and> ud_onbatt d)"
  by (auto simp: ud_online_def ud_onbatt_def)

text \<open>C29: what \<open>ups.status\<close> says. Read word by word, it says OL and OB under the conditions
  of usbhid-ups and never both; LB exactly when the battery is low, its time limit expired
  or a shutdown is imminent; ALARM exactly when \<open>ups.alarm\<close> is published; and never FSD,
  which only the upsmon primary may set.\<close>

theorem ups_status_says:
  "let W = set (words (computeUPSStatusString toFloat d)) in
     (''OL'' \<in> W \<longleftrightarrow> ud_online d) \<and> (''OB'' \<in> W \<longleftrightarrow> ud_onbatt d) \<and> \<not> {''OL'', ''OB''} \<subseteq> W \<and>
     (''LB'' \<in> W \<longleftrightarrow> ud_lowbatt d) \<and> (''ALARM'' \<in> W \<longleftrightarrow> ud_hasKey d ''ups.alarm'') \<and> ''FSD'' \<notin> W"
proof -
  let ?T = "set (ud_tokens toFloat d)"
  have ex: "x \<in> ?T \<longleftrightarrow> list_ex (\<lambda>c. fst c \<and> snd c = x) (ud_conditions toFloat d)" for x
    by (auto simp: ud_tokens_def list_ex_iff)
  have t: "(''OL'' \<in> ?T) = ud_online d" "(''OB'' \<in> ?T) = ud_onbatt d" "(''LB'' \<in> ?T) = ud_lowbatt d"
    "''ALARM'' \<notin> ?T" "''FSD'' \<notin> ?T"
    by (simp_all add: ex ud_conditions_def)
  have W: "x \<in> set (words (computeUPSStatusString toFloat d)) \<longleftrightarrow> (ud_hasKey d ''ups.alarm'' \<and> x = ''ALARM'') \<or> x \<in> ?T"
    if "x \<noteq> ''Unknown''" for x
    using that unfolding words_status ud_hasKey_find
    by (cases "ud_find d ''ups.alarm''"; cases "ud_tokens toFloat d") simp_all
  have "''OL'' \<noteq> ''Unknown''" "''OB'' \<noteq> ''Unknown''" "''LB'' \<noteq> ''Unknown''" "''ALARM'' \<noteq> ''Unknown''" "''FSD'' \<noteq> ''Unknown''"
    by simp_all
  note M = this [THEN W]
  have [simp]: "''FSD'' \<noteq> ''ALARM''" "''OL'' \<noteq> ''ALARM''" "''OB'' \<noteq> ''ALARM''" "''LB'' \<noteq> ''ALARM''" by simp_all
  show ?thesis
    unfolding Let_def insert_subset M using t ud_exclusive [of d] by simp
qed

text \<open>The shape of \<open>ups.status\<close>. It is never empty: it is "Unknown", or its words are
  tokens of usbhid-ups, in its order and each at most once, with ALARM in front.\<close>

theorem ups_status_order:
  "computeUPSStatusString toFloat d \<noteq> [] \<and> (words (computeUPSStatusString toFloat d) = [''Unknown''] \<or>
     subseq (words (computeUPSStatusString toFloat d))
       [''ALARM'', ''CAL'', ''OL'', ''OB'', ''DISCHRG'', ''CHRG'', ''LB'', ''OVER'', ''RB'', ''TRIM'', ''BOOST'', ''BYPASS'', ''OFF''])"
proof -
  have "subseq (ud_tokens toFloat d) (map snd (ud_conditions toFloat d))"
    unfolding ud_tokens_def by (intro subseq_map subseq_filter_left)
  then have "subseq ((if ud_find d ''ups.alarm'' = None then [] else [''ALARM'']) @ ud_tokens toFloat d)
      ([''ALARM''] @ map snd (ud_conditions toFloat d))"
    by (intro list_emb_append_mono) auto
  moreover have "computeUPSStatusString toFloat d \<noteq> []"
    by (simp add: computeUPSStatusString_tokens Let_def)
  ultimately show ?thesis
    unfolding words_status ud_conditions_def list.map snd_conv append.simps
    by (cases "(if ud_find d ''ups.alarm'' = None then [] else [''ALARM'']) @ ud_tokens toFloat d")
      (simp_all only: list.case simp_thms)
qed

section \<open>Alarms are published as they are\<close>

lemma ud_flags_of_lookup:
  assumes "\<And>k. k \<noteq> ''ups.alarm'' \<Longrightarrow> k \<noteq> ''input.transfer.reason'' \<Longrightarrow> ud_find d' k = ud_find d k"
  shows "ud_alarmText d' vendor = ud_alarmText d vendor" "ud_transferReason d' = ud_transferReason d"
proof -
  have f: "k \<noteq> ''ups.alarm'' \<Longrightarrow> k \<noteq> ''input.transfer.reason'' \<Longrightarrow> ud_flagSet d' k = ud_flagSet d k" for k
    by (simp add: ud_flagSet_def assms)
  have "list_all (\<lambda>b. fst b \<noteq> ''ups.alarm'' \<and> fst b \<noteq> ''input.transfer.reason'') bs \<Longrightarrow>
      ud_alarmLoop d' out bs = ud_alarmLoop d out bs" for bs out
    by (induction bs arbitrary: out) (simp_all add: f)
  moreover have "list_all (\<lambda>b. fst b \<noteq> ''ups.alarm'' \<and> fst b \<noteq> ''input.transfer.reason'') ud_alarmBits"
    by (simp add: ud_alarmBits_def)
  ultimately show "ud_alarmText d' vendor = ud_alarmText d vendor"
    by (simp add: ud_alarmText_def)
  show "ud_transferReason d' = ud_transferReason d" by (simp add: ud_transferReason_def f)
qed

definition ud_alarm :: "ups_data \<Rightarrow> string \<Rightarrow> string option" where
  "ud_alarm d vendor = (if ud_alarmText d vendor = [] then None else Some (ud_alarmText d vendor))"

text \<open>A variable brought to a value, or to its absence, with a write only when it differs.\<close>

definition ud_sync :: "ups_data \<Rightarrow> string \<Rightarrow> string option \<Rightarrow> ups_data" where
  "ud_sync d k r = (if ud_find d k = r then d else ud.publish d (k, r))"

lemma ud_sync_text:
  "(if t = [] then (if ud_find d k \<noteq> None then ud_remove d k else d)
    else if \<not> ud_valueEquals d k t then ud_set d k t else d) = ud_sync d k (if t = [] then None else Some t)"
  by (auto simp: ud_sync_def ud.publish_def ud_valueEquals_def split: option.splits)

lemma ud_sync_option:
  "(case r of None \<Rightarrow> (if ud_find d k \<noteq> None then ud_remove d k else d)
     | Some v \<Rightarrow> (if ud_find d k \<noteq> Some v then ud_set d k v else d)) = ud_sync d k r"
  by (auto simp: ud_sync_def ud.publish_def split: option.splits)

lemma ud_find_sync: "ud_ok d \<Longrightarrow> ud_find (ud_sync d k r) k' = (if k' = k then r else ud_find d k')"
  by (simp add: ud_sync_def ud.lookup_publish)

lemma ud_ok_sync: "ud_ok d \<Longrightarrow> ud_ok (ud_sync d k r)"
  by (simp add: ud_sync_def ud.ok_publish)

lemma ud_sync_same: "ud_find d k = r \<Longrightarrow> ud_sync d k r = d"
  by (simp add: ud_sync_def)

lemma ud_apply_steps:
  "ud_applyAlarmVariables d vendor =
     (let d1 = ud_sync d ''ups.alarm'' (ud_alarm d vendor)
      in ud_sync d1 ''input.transfer.reason'' (ud_transferReason d1))"
  unfolding ud_applyAlarmVariables_def Let_def ud_sync_text ud_sync_option ud_alarm_def by (rule refl)

lemma ud_keys_differ: "''input.transfer.reason'' \<noteq> ''ups.alarm''"
  by simp

lemma ud_apply_lookup:
  assumes "ud_ok d"
  shows "ud_find (ud_applyAlarmVariables d vendor) k =
    (if k = ''ups.alarm'' then ud_alarm d vendor else if k = ''input.transfer.reason'' then ud_transferReason d
     else ud_find d k)"
proof -
  define d1 where "d1 = ud_sync d ''ups.alarm'' (ud_alarm d vendor)"
  have ok1: "ud_ok d1" using assms by (simp only: d1_def ud_ok_sync)
  have l1: "ud_find d1 k = (if k = ''ups.alarm'' then ud_alarm d vendor else ud_find d k)" for k
    unfolding d1_def by (rule ud_find_sync [OF assms])
  have r: "ud_transferReason d1 = ud_transferReason d"
    by (rule ud_flags_of_lookup) (simp only: l1 if_False)
  show ?thesis
    unfolding ud_apply_steps d1_def [symmetric] Let_def ud_find_sync [OF ok1] l1 r
    using ud_keys_differ by presburger
qed

lemma ud_apply_ok: "ud_ok d \<Longrightarrow> ud_ok (ud_applyAlarmVariables d vendor)"
  unfolding ud_apply_steps Let_def by (intro ud_ok_sync)

text \<open>The alarm variables follow the flags, and only they change. After
  \<open>applyAlarmVariables\<close>, \<open>ups.alarm\<close> holds the alarm text, or is absent when there is none,
  \<open>input.transfer.reason\<close> holds the reason, or is absent, every other variable is as it was,
  and applying it again writes nothing.\<close>

theorem alarm_variables_applied:
  assumes "ud_ok d"
  shows "ud_find (ud_applyAlarmVariables d vendor) k =
      (if k = ''ups.alarm'' then (if ud_alarmText d vendor = [] then None else Some (ud_alarmText d vendor))
       else if k = ''input.transfer.reason'' then ud_transferReason d else ud_find d k) \<and>
    ud_applyAlarmVariables (ud_applyAlarmVariables d vendor) vendor = ud_applyAlarmVariables d vendor"
proof
  let ?d = "ud_applyAlarmVariables d vendor"
  show "ud_find ?d k = (if k = ''ups.alarm'' then (if ud_alarmText d vendor = [] then None else Some (ud_alarmText d vendor))
       else if k = ''input.transfer.reason'' then ud_transferReason d else ud_find d k)"
    unfolding ud_apply_lookup [OF assms] ud_alarm_def by (rule refl)
  have same: "ud_alarm ?d vendor = ud_alarm d vendor" "ud_transferReason ?d = ud_transferReason d"
    unfolding ud_alarm_def by (simp_all only: ud_flags_of_lookup [of ?d d] ud_apply_lookup [OF assms] if_False)
  have "ud_find ?d ''ups.alarm'' = ud_alarm ?d vendor" "ud_find ?d ''input.transfer.reason'' = ud_transferReason ?d"
    unfolding same ud_apply_lookup [OF assms] by simp_all
  then show "ud_applyAlarmVariables ?d vendor = ?d"
    unfolding ud_apply_steps [of ?d] Let_def by (simp only: ud_sync_same)
qed

definition ud_sample :: ups_data where
  "ud_sample = ud_set (ud_set (ud_set ud_new ''ups.status.overheat'' ''1'') ''ups.status.frange'' ''true'') ''ups.alarm'' ''Fan failure!''"

theorem alarm_variables_applied_witness:
  "ud_find (ud_applyAlarmVariables ud_sample ''Fuse fault!'') ''ups.alarm'' = Some ''Fuse fault! Temperature too high!'' \<and>
   ud_find (ud_applyAlarmVariables ud_sample []) ''input.transfer.reason'' = Some ''input frequency out of range''"
proof -
  have ok: "ud_ok ud_sample" unfolding ud_sample_def by (intro ud.ok_put ud_ok_new)
  have "ud_alarmText ud_sample ''Fuse fault!'' = ''Fuse fault! Temperature too high!''" by code_simp
  moreover have "ud_transferReason ud_sample = Some ''input frequency out of range''" by code_simp
  ultimately show ?thesis
    using alarm_variables_applied [OF ok, of "''Fuse fault!''" "''ups.alarm''"]
      alarm_variables_applied [OF ok, of "[]" "''input.transfer.reason''"] by simp
qed

section \<open>The estimate of ups.realpower\<close>

lemma ud_realPower_measured: "ud_updateRealPower toFloat (ud_markRealPowerMeasured d) = ud_markRealPowerMeasured d"
  by (simp add: ud_updateRealPower_def ud_markRealPowerMeasured_def)

text \<open>With a load of at most 100 percent and a nominal power that fits 16 bits no step wraps.\<close>

lemma ud_realPower_nominal:
  assumes "\<not> ud_realPowerMeasured d" "ud_find d ''ups.load'' = Some l" "ud_find d ''ups.realpower.nominal'' = Some p"
    and "0 \<le> toFloat l" "floor (toFloat l) \<le> 100" "0 < toFloat p" "floor (toFloat p) < 65536"
  shows "ud_find (ud_updateRealPower toFloat d) ''ups.realpower'' =
    Some (dec (nat (floor (toFloat p)) * nat (floor (toFloat l)) div 100))"
proof -
  define n where "n = nat (floor (toFloat p))"
  define k where "k = nat (floor (toFloat l))"
  have n: "floor (toFloat p) = int n" "n < 65536" and k: "floor (toFloat l) = int k" "k \<le> 100"
    using assms by (simp_all add: n_def k_def) linarith+
  have "unat (of_nat n :: u16) = n" "unat (of_nat k :: u8) = k" using n(2) k(2) by (simp_all add: unat_of_nat)
  moreover have "n * k < 2 ^ 32" "n * k div 100 < 65536"
    using mult_le_mono [of n 65535 k 100] n(2) k(2) by auto
  ultimately have "unat (ucast ((ucast (of_nat n :: u16) * ucast (of_nat k :: u8) :: u32) div 100) :: u16) = n * k div 100"
    by (simp only: unsigned_ucast_eq take_bit_eq_mod unat_div unat_word_ariths) (simp add: mod_mult_eq unat_div)
  then show ?thesis
    using assms n(1) k(1)
    by (simp add: ud_updateRealPower_def ud_hasKey_find ud_getFloat_def ud_get_def ud_find_def [symmetric] trunc_def Let_def
        n_def [symmetric] k_def [symmetric])
      (simp add: ud_find_def ud_set_def kv_find_set)
qed

end
