(* ===== verification/HidReports.thy ===== *)
theory HidReports
  imports Prelude Complex_Main
begin

unbundle bit_operations_syntax

text \<open>
  Fields of HID reports: the field record of \<open>lib/USBHostUPS/src/HIDUsages.h\<close>, reading a field
  (\<open>HIDParser::extractUsage\<close>, \<open>toLogical\<close> of \<open>HIDParser.cpp\<close>), writing one into a report buffer
  (\<open>BeeperLogic.h\<close>), and rebuilding reports longer than one packet (\<open>InputReassembler.h\<close>).

  A buffer is the list of its bytes. A value of type \<open>double\<close> is a rational: the products with
  powers of ten are exact here, rounded in the code.
\<close>

section \<open>Fields\<close>

text \<open>The \<open>int32_t\<close> and \<open>int8_t\<close> members are the integers they hold.\<close>

record hid_usage_def =
  hu_usage :: u32
  hu_report_id :: u8
  hu_report_type :: u8
  hu_bit_offset :: u16
  hu_bit_size :: u16
  hu_found :: bool
  hu_logical_min :: int
  hu_logical_max :: int
  hu_exponent :: int
  hu_unit :: u32
  hu_path :: string
  hu_coll_index :: "u8 list"

definition hu_new :: hid_usage_def where
  "hu_new = \<lparr>hu_usage = 0, hu_report_id = 0, hu_report_type = 0, hu_bit_offset = 0, hu_bit_size = 0,
     hu_found = False, hu_logical_min = 0, hu_logical_max = 0, hu_exponent = 0, hu_unit = 0,
     hu_path = [], hu_coll_index = replicate 8 0\<rparr>"

section \<open>Writing a field\<close>

definition requiredLength :: "hid_usage_def \<Rightarrow> nat" where
  "requiredLength def = (if hu_report_id def \<noteq> 0 then 1 else 0) +
     (unat (hu_bit_offset def) + unat (hu_bit_size def) + 7) div 8"

fun reportHasOtherFields :: "hid_usage_def list \<Rightarrow> hid_usage_def \<Rightarrow> bool" where
  "reportHasOtherFields [] def = False"
| "reportHasOtherFields (u # us) def =
     (if hu_report_id u \<noteq> hu_report_id def \<or> hu_report_type u \<noteq> hu_report_type def
      then reportHasOtherFields us def
      else if hu_usage u = hu_usage def \<and> hu_bit_offset u = hu_bit_offset def \<and> hu_path u = hu_path def
      then reportHasOtherFields us def
      else True)"

definition canWriteBack :: "bool \<Rightarrow> hid_usage_def \<Rightarrow> bool \<Rightarrow> nat \<Rightarrow> bool" where
  "canWriteBack shared_report def fetched fetched_len \<longleftrightarrow>
     \<not> shared_report \<or> (fetched \<and> requiredLength def \<le> fetched_len)"

text \<open>The loop over the at most four bytes of the field, counted by the bytes left.\<close>

fun writeField_loop :: "nat \<Rightarrow> nat \<Rightarrow> u8 list \<Rightarrow> nat \<Rightarrow> nat \<Rightarrow> u32 \<Rightarrow> u32 \<Rightarrow> u8 list" where
  "writeField_loop 0 i buffer target fetched_len msk val = buffer"
| "writeField_loop (Suc k) i buffer target fetched_len msk val =
     (if target + i < fetched_len
      then let byte_mask = (ucast (drop_bit (i * 8) msk) :: u8)
           in if byte_mask = 0 \<and> 0 < i then buffer
              else writeField_loop k (Suc i)
                (buffer[target + i := ((buffer ! (target + i)) AND NOT byte_mask) OR
                                      (ucast (drop_bit (i * 8) val) AND byte_mask)])
                target fetched_len msk val
      else buffer)"

definition fieldMask :: "hid_usage_def \<Rightarrow> u32" where
  "fieldMask def = (if 32 \<le> hu_bit_size def then 0xFFFFFFFF
     else ucast (push_bit (unat (hu_bit_size def)) 1 - (1 :: 64 word)))"

text \<open>The new buffer and the length to send, 0 when the field lies beyond 256 bytes.\<close>

definition writeField :: "hid_usage_def \<Rightarrow> u32 \<Rightarrow> u8 list \<Rightarrow> nat \<Rightarrow> u8 list \<times> nat" where
  "writeField def raw buffer fetched_len =
     (let byte_index = (if hu_report_id def \<noteq> 0 then 1 else 0);
          needed = requiredLength def
      in if fetched_len < needed \<and> 256 < needed then (buffer, 0)
         else let fetched_len = (if fetched_len < needed then needed else fetched_len);
                  bit_shift = unat (hu_bit_offset def) mod 8;
                  val = push_bit bit_shift (raw AND fieldMask def);
                  mask = push_bit bit_shift (fieldMask def);
                  target_idx = byte_index + unat (hu_bit_offset def) div 8
              in (writeField_loop 4 0 buffer target_idx fetched_len mask val, fetched_len))"

text \<open>The driver's encoding of the beeper states, \<open>None\<close> without a driver.\<close>

definition encodeBeeperValue :: "bool \<Rightarrow> u16 \<Rightarrow> u8" where
  "encodeBeeperValue enable bit_size =
     (if bit_size = 1 then (if enable then 1 else 0) else (if enable then 2 else 1))"

definition manipulateBeeperBuffer ::
  "bool \<Rightarrow> hid_usage_def option \<Rightarrow> u8 list option \<Rightarrow> nat \<Rightarrow> (bool \<Rightarrow> u16 \<Rightarrow> u8) option \<Rightarrow> u8 list option \<times> nat" where
  "manipulateBeeperBuffer enable def buffer fetched_len driver =
     (case (def, buffer) of
        (Some def, Some buffer) \<Rightarrow>
          let val = (case driver of Some enc \<Rightarrow> (ucast (enc enable (hu_bit_size def)) :: u32)
                     | None \<Rightarrow> if hu_bit_size def = 1 then (if enable then 1 else 0) else (if enable then 2 else 1));
              (buffer', n) = writeField def val buffer fetched_len
          in (Some buffer', n)
      | _ \<Rightarrow> (buffer, 0))"

section \<open>Reading a field\<close>

text \<open>\<open>for (i = 0; i < n && byte_idx + i < length; i++) raw |= data[byte_idx + i] << (i * 8)\<close>\<close>

fun extract_loop :: "nat \<Rightarrow> nat \<Rightarrow> u8 list \<Rightarrow> nat \<Rightarrow> 64 word \<Rightarrow> 64 word" where
  "extract_loop 0 i data byte_idx raw = raw"
| "extract_loop (Suc k) i data byte_idx raw =
     (if byte_idx + i < length data
      then extract_loop k (Suc i) data byte_idx (raw OR push_bit (i * 8) (ucast (data ! (byte_idx + i))))
      else raw)"

definition extractRaw :: "hid_usage_def \<Rightarrow> u8 list \<Rightarrow> 64 word" where
  "extractRaw def data =
     (let bit_offset = hu_bit_offset def + (if hu_report_id def \<noteq> 0 then 8 else 0);
          bits = min 32 (unat (hu_bit_size def));
          byte_idx = unat bit_offset div 8;
          bit_shift = unat bit_offset mod 8;
          raw = extract_loop ((bits + bit_shift + 7) div 8) 0 data byte_idx 0
      in drop_bit bit_shift raw AND (if bits = 32 then 0xFFFFFFFF else push_bit bits 1 - 1))"

definition extractValue :: "hid_usage_def \<Rightarrow> 64 word \<Rightarrow> int" where
  "extractValue def raw =
     (let bits = min 32 (unat (hu_bit_size def))
      in if hu_logical_min def < 0 \<and> bit raw (bits - 1) then uint raw - 2 ^ bits else uint raw)"

definition pow10 :: "int \<Rightarrow> rat" where
  "pow10 e = (if 0 \<le> e then 10 ^ nat e else 1 / 10 ^ nat (- e))"

definition unitExponent :: "hid_usage_def \<Rightarrow> int" where
  "unitExponent def = (if hu_unit def = 0x00F0D121 \<or> hu_unit def = 0x0000D121 then hu_exponent def - 7 else hu_exponent def)"

definition physicalValue :: "hid_usage_def \<Rightarrow> int \<Rightarrow> rat" where
  "physicalValue def value =
     (if 1 < hu_bit_size def \<and> unitExponent def \<noteq> 0 then of_int value * pow10 (unitExponent def) else of_int value)"

text \<open>A report with an ID starts with it; \<open>None\<close> where the code reads the byte of an empty
  buffer.\<close>

definition extractUsage :: "hid_usage_def option \<Rightarrow> u8 list option \<Rightarrow> rat option" where
  "extractUsage def data =
     (case (def, data) of
        (Some def, Some data) \<Rightarrow>
          if \<not> hu_found def then Some 0
          else if hu_report_id def \<noteq> 0 \<and> data = [] then None
          else if hu_report_id def \<noteq> 0 \<and> hd data \<noteq> hu_report_id def then Some 0
          else if hu_bit_size def = 0 then Some 0
          else Some (physicalValue def (extractValue def (extractRaw def data)))
      | _ \<Rightarrow> Some 0)"

text \<open>\<open>llrint\<close>: to the nearest integer, ties to even.\<close>

definition llrint :: "rat \<Rightarrow> int" where
  "llrint q = (let f = floor q; r = q - of_int f
     in if r < 1 / 2 then f else if r = 1 / 2 then (if even f then f else f + 1) else f + 1)"

definition toLogical :: "hid_usage_def \<Rightarrow> rat \<Rightarrow> int option" where
  "toLogical def physical =
     (let val = (if 1 < hu_bit_size def \<and> unitExponent def \<noteq> 0 then physical * pow10 (- unitExponent def) else physical)
      in if \<not> \<bar>val\<bar> < 4000000000 then None
         else let v = llrint val
              in if hu_logical_min def < hu_logical_max def \<and> (v < hu_logical_min def \<or> hu_logical_max def < v) then None
                 else if hu_bit_size def = 0 then None
                 else let bits = min 32 (unat (hu_bit_size def));
                          (lo, hi) = (if hu_logical_min def < 0 then (- (2 ^ (bits - 1)), 2 ^ (bits - 1) - 1)
                                      else (0, 2 ^ bits - 1))
                      in if v < lo \<or> hi < v then None
                         else if v < - 2147483648 \<or> 2147483647 < v then None
                         else Some v)"

section \<open>Reports longer than one packet\<close>

definition ir_MAX_REPORT :: nat where
  "ir_MAX_REPORT = 256"

text \<open>\<open>_buf\<close> up to \<open>_len\<close> is the list of the bytes received so far.\<close>

record input_reassembler =
  ir_maxGapMs :: u32
  ir_buf :: "u8 list"
  ir_expected :: nat
  ir_ts :: u32
  ir_dropped :: u32

definition ir_reset :: "input_reassembler \<Rightarrow> input_reassembler" where
  "ir_reset r = r\<lparr>ir_buf := [], ir_expected := 0, ir_ts := 0\<rparr>"

definition ir_new :: "u32 \<Rightarrow> input_reassembler" where
  "ir_new maxGapMs = ir_reset \<lparr>ir_maxGapMs = maxGapMs, ir_buf = [], ir_expected = 0, ir_ts = 0, ir_dropped = 0\<rparr>"

definition ir_start :: "input_reassembler \<Rightarrow> u8 list \<Rightarrow> u32 \<Rightarrow> nat \<Rightarrow> nat \<Rightarrow> input_reassembler \<times> u8 list option" where
  "ir_start r pkt ts mps expected =
     (if 0 < mps \<and> length pkt = mps \<and> length pkt < expected \<and> expected \<le> ir_MAX_REPORT
      then (r\<lparr>ir_buf := pkt, ir_expected := expected, ir_ts := ts\<rparr>, None)
      else (r, Some pkt))"

definition ir_feed :: "input_reassembler \<Rightarrow> u8 list \<Rightarrow> u32 \<Rightarrow> nat \<Rightarrow> nat \<Rightarrow> input_reassembler \<times> u8 list option" where
  "ir_feed r pkt ts mps expected =
     (if ir_buf r \<noteq> []
      then if ir_maxGapMs r < ts - ir_ts r
           then ir_start (ir_reset (r\<lparr>ir_dropped := ir_dropped r + 1\<rparr>)) pkt ts mps expected
           else let room = ir_expected r - length (ir_buf r);
                    n = (if length pkt < room then length pkt else room);
                    buf = ir_buf r @ take n pkt;
                    r = r\<lparr>ir_buf := buf, ir_ts := ts\<rparr>
                in if ir_expected r \<le> length buf \<or> length pkt < mps then (r\<lparr>ir_buf := []\<rparr>, Some buf)
                   else (r, None)
      else ir_start r pkt ts mps expected)"

section \<open>Bits of a buffer\<close>

definition buf_bit :: "u8 list \<Rightarrow> nat \<Rightarrow> bool" where
  "buf_bit buffer n = bit (buffer ! (n div 8)) (n mod 8)"

lemma length_writeField_loop [simp]:
  "length (writeField_loop k i buffer target len msk val) = length buffer"
  by (induction k arbitrary: i buffer) (simp_all add: Let_def)

lemma bit_byte: "q < 8 \<Longrightarrow> bit (ucast (drop_bit (i * 8) (w :: u32)) :: u8) q = bit w (i * 8 + q)"
  by (simp add: bit_ucast_iff bit_drop_bit_eq)

lemma byte_zero:
  assumes "(ucast (drop_bit (i * 8) (w :: u32)) :: u8) = 0" "q < 8"
  shows "\<not> bit w (i * 8 + q)"
  using bit_byte [OF assms(2), of i w] assms(1) by simp

lemma writeField_loop_bits:
  assumes field: "\<And>n. bit msk n \<longleftrightarrow> s \<le> n \<and> n < e" and "s < 8"
  shows "k + i = 4 \<Longrightarrow> len \<le> length buffer \<Longrightarrow> p < length buffer \<Longrightarrow> q < 8 \<Longrightarrow>
    bit (writeField_loop k i buffer target len msk val ! p) q =
      (if target + i \<le> p \<and> p < target + 4 \<and> p < len \<and> bit msk ((p - target) * 8 + q)
       then bit val ((p - target) * 8 + q) else bit (buffer ! p) q)"
proof (induction k arbitrary: i buffer)
  case 0
  then show ?case by auto
next
  case (Suc k)
  let ?bm = "ucast (drop_bit (i * 8) msk) :: u8"
  let ?new = "((buffer ! (target + i)) AND NOT ?bm) OR (ucast (drop_bit (i * 8) val) AND ?bm)"
  show ?case
  proof (cases "target + i < len")
    case False
    then show ?thesis by auto
  next
    case True
    show ?thesis
    proof (cases "?bm = 0 \<and> 0 < i")
      case True
      have "\<not> bit msk ((p - target) * 8 + q)" if "target + i \<le> p"
      proof -
        have "\<not> bit msk (i * 8)" using byte_zero [of i msk 0] True by simp
        then have "e \<le> i * 8" using field [of "i * 8"] True assms(2) by linarith
        moreover have "i \<le> p - target" using that by simp
        ultimately have "e \<le> (p - target) * 8 + q" by linarith
        then show ?thesis using field by simp
      qed
      with True \<open>target + i < len\<close> show ?thesis by auto
    next
      case False
      let ?b = "buffer[target + i := ?new]"
      have IH: "bit (writeField_loop k (Suc i) ?b target len msk val ! p) q =
        (if target + Suc i \<le> p \<and> p < target + 4 \<and> p < len \<and> bit msk ((p - target) * 8 + q)
         then bit val ((p - target) * 8 + q) else bit (?b ! p) q)"
        using Suc.prems by (intro Suc.IH) simp_all
      have eq: "writeField_loop (Suc k) i buffer target len msk val = writeField_loop k (Suc i) ?b target len msk val"
        unfolding writeField_loop.simps Let_def using True False by (simp only: if_True if_False)
      show ?thesis
      proof (cases "p = target + i")
        case p: True
        then have "bit (?b ! p) q = (if bit msk (i * 8 + q) then bit val (i * 8 + q) else bit (buffer ! p) q)"
          using Suc.prems True by (simp add: bit_simps bit_byte)
        then show ?thesis unfolding eq IH using p True Suc.prems(1) by simp
      next
        case False
        then have "?b ! p = buffer ! p" by simp
        moreover have "target + Suc i \<le> p \<longleftrightarrow> target + i \<le> p" using False by auto
        ultimately show ?thesis unfolding eq IH by simp
      qed
    qed
  qed
qed

lemma bit_fieldMask: "bit (fieldMask def) n \<longleftrightarrow> n < min 32 (unat (hu_bit_size def))"
proof (cases "32 \<le> hu_bit_size def")
  case True
  then have "32 \<le> unat (hu_bit_size def)" by (simp add: word_le_nat_alt)
  moreover have "(0xFFFFFFFF :: u32) = mask 32" by (simp add: mask_eq_exp_minus_1)
  then have "bit (0xFFFFFFFF :: u32) n \<longleftrightarrow> n < 32" by (simp only: bit_mask_iff) auto
  ultimately show ?thesis using True by (simp add: fieldMask_def)
next
  case False
  then have "unat (hu_bit_size def) < 32" by (simp add: word_le_nat_alt)
  moreover have "push_bit (unat (hu_bit_size def)) 1 - (1 :: 64 word) = mask (unat (hu_bit_size def))"
    by (simp add: mask_eq_exp_minus_1)
  ultimately show ?thesis
    using False by (auto simp: fieldMask_def bit_ucast_iff bit_mask_iff)
qed

lemma extract_loop_bits:
  "k + i \<le> 8 \<Longrightarrow> bit (extract_loop k i data b raw) n \<longleftrightarrow> bit raw n \<or>
     (i * 8 \<le> n \<and> n < (k + i) * 8 \<and> b + n div 8 < length data \<and> bit (data ! (b + n div 8)) (n mod 8))"
proof (induction k arbitrary: i raw)
  case 0
  then show ?case by auto
next
  case (Suc k)
  show ?case
  proof (cases "b + i < length data")
    case False
    moreover have "i \<le> n div 8" if "i * 8 \<le> n" using that by (simp add: less_eq_div_iff_mult_less_eq)
    ultimately show ?thesis by fastforce
  next
    case True
    have byte: "bit (push_bit (i * 8) (ucast (data ! (b + i)) :: 64 word)) n \<longleftrightarrow>
      i * 8 \<le> n \<and> n < Suc i * 8 \<and> bit (data ! (b + n div 8)) (n mod 8)"
    proof (cases "i * 8 \<le> n \<and> n < Suc i * 8")
      case True
      then have "n div 8 = i" by (auto intro: div_nat_eqI)
      then have "n mod 8 = n - i * 8" using minus_mult_div_eq_mod [of n 8] by (simp add: mult.commute)
      with \<open>n div 8 = i\<close> True Suc.prems show ?thesis by (auto simp: bit_push_bit_iff bit_ucast_iff)
    next
      case False
      have "\<not> bit (data ! (b + i)) (n - i * 8)" if "\<not> n < Suc i * 8"
        using that bit_imp_le_length [of "data ! (b + i)" "n - i * 8"] by auto
      with False show ?thesis by (auto simp: bit_push_bit_iff bit_ucast_iff)
    qed
    have "i * 8 \<le> n \<and> n < Suc i * 8 \<Longrightarrow> n div 8 = i" by (auto simp: div_nat_eqI)
    then show ?thesis
      using True Suc.prems Suc.IH [of "Suc i" "raw OR push_bit (i * 8) (ucast (data ! (b + i)))"]
      by (auto simp: bit_or_iff byte)
  qed
qed

section \<open>A field is read back as it was written\<close>

text \<open>First bit of the field in the report, the ID byte included.\<close>

definition fieldStart :: "hid_usage_def \<Rightarrow> nat" where
  "fieldStart def = (if hu_report_id def \<noteq> 0 then 8 else 0) + unat (hu_bit_offset def)"

definition field_ok :: "hid_usage_def \<Rightarrow> bool" where
  "field_ok def \<longleftrightarrow> 0 < hu_bit_size def \<and> unat (hu_bit_offset def) mod 8 + unat (hu_bit_size def) \<le> 32 \<and>
     requiredLength def \<le> 256"

lemma fieldStart_requiredLength: "fieldStart def + unat (hu_bit_size def) \<le> 8 * requiredLength def"
proof -
  have "x \<le> 8 * ((x + 7) div 8)" for x :: nat by linarith
  then show ?thesis by (simp add: fieldStart_def requiredLength_def)
qed

lemma writeField_length:
  assumes "field_ok def"
  shows "snd (writeField def raw buffer n) = max n (requiredLength def)"
    and "length (fst (writeField def raw buffer n)) = length buffer"
  using assms by (simp_all add: writeField_def field_ok_def Let_def max_def)

lemma writeField_bits:
  assumes "field_ok def" "max n (requiredLength def) \<le> length buffer" "k < 8 * length buffer"
  shows "buf_bit (fst (writeField def raw buffer n)) k =
    (if fieldStart def \<le> k \<and> k < fieldStart def + unat (hu_bit_size def) then bit raw (k - fieldStart def)
     else buf_bit buffer k)"
proof -
  let ?o = "unat (hu_bit_offset def)" and ?z = "unat (hu_bit_size def)"
  define s where "s = ?o mod 8"
  define t where "t = (if hu_report_id def \<noteq> 0 then 1 else 0) + ?o div 8"
  let ?mask = "push_bit s (fieldMask def)" and ?val = "push_bit s (raw AND fieldMask def)"
  let ?len = "max n (requiredLength def)"
  have z: "s + ?z \<le> 32" "s < 8" using assms(1) by (simp_all add: field_ok_def s_def)
  have start: "fieldStart def = t * 8 + s" by (simp add: fieldStart_def s_def t_def)
  have msk: "bit ?mask j \<longleftrightarrow> s \<le> j \<and> j < s + ?z" for j
    using z by (auto simp: bit_push_bit_iff bit_fieldMask)
  have val: "s \<le> j \<Longrightarrow> j < s + ?z \<Longrightarrow> bit ?val j = bit raw (j - s)" for j
    using z by (auto simp: bit_push_bit_iff bit_and_iff bit_fieldMask)
  have res: "fst (writeField def raw buffer n) = writeField_loop 4 0 buffer t ?len ?mask ?val"
    using assms(1) by (simp add: writeField_def field_ok_def Let_def max_def s_def t_def)
  let ?p = "k div 8" and ?q = "k mod 8"
  have k: "k = ?p * 8 + ?q" by simp
  have "buf_bit (fst (writeField def raw buffer n)) k =
      (if t \<le> ?p \<and> ?p < t + 4 \<and> ?p < ?len \<and> bit ?mask ((?p - t) * 8 + ?q) then bit ?val ((?p - t) * 8 + ?q) else bit (buffer ! ?p) ?q)"
    unfolding res buf_bit_def using assms(2,3) writeField_loop_bits [OF msk z(2), of 4 0 ?len buffer ?p ?q t ?val]
    by (simp add: less_mult_imp_div_less mult.commute)
  also have "\<dots> = (if fieldStart def \<le> k \<and> k < fieldStart def + ?z then bit raw (k - fieldStart def) else buf_bit buffer k)"
  proof (cases "fieldStart def \<le> k \<and> k < fieldStart def + ?z")
    case True
    then have t: "t \<le> ?p" unfolding start by (metis k add_leD1 div_le_mono div_mult_self_is_m zero_less_numeral)
    have "k < 8 * requiredLength def" using True fieldStart_requiredLength [of def] by linarith
    then have p: "?p < ?len" by (simp add: less_mult_imp_div_less mult.commute less_max_iff_disj)
    have off: "(?p - t) * 8 + ?q + t * 8 = k" using t k by linarith
    then have "s \<le> (?p - t) * 8 + ?q" "(?p - t) * 8 + ?q < s + ?z" "(?p - t) * 8 + ?q - s = k - fieldStart def"
      using True unfolding start by linarith+
    moreover from this have "?p < t + 4" using z by linarith
    ultimately show ?thesis using t p True msk val by simp
  next
    case False
    have "\<not> bit ?mask ((?p - t) * 8 + ?q)" if "t \<le> ?p"
    proof -
      have "(?p - t) * 8 + ?q + t * 8 = k" using that k by linarith
      then show ?thesis using False unfolding msk start by linarith
    qed
    with False show ?thesis by (auto simp: buf_bit_def)
  qed
  finally show ?thesis .
qed

lemma extractRaw_bits:
  assumes "field_ok def" "requiredLength def \<le> length data"
  shows "bit (extractRaw def data) j \<longleftrightarrow> j < unat (hu_bit_size def) \<and> buf_bit data (fieldStart def + j)"
proof -
  let ?z = "unat (hu_bit_size def)"
  let ?r = "if hu_report_id def \<noteq> 0 then 8 else (0 :: nat)"
  have z: "0 < ?z" "?z \<le> 32" "unat (hu_bit_offset def) mod 8 + ?z \<le> 32"
    using assms(1) by (auto simp: field_ok_def word_greater_zero_iff unat_gt_0)
  have "unat (hu_bit_offset def) + 8 < 65536"
    using assms(1) fieldStart_requiredLength [of def] by (simp add: field_ok_def fieldStart_def split: if_splits)
  then have o: "unat (hu_bit_offset def + (if hu_report_id def \<noteq> 0 then 8 else 0)) = fieldStart def"
    by (simp add: fieldStart_def unat_word_ariths)
  let ?f = "fieldStart def"
  have fm: "?f mod 8 + ?z \<le> 32" using z(3) by (simp add: fieldStart_def)
  have last: "(if ?z = 32 then 0xFFFFFFFF else push_bit ?z 1 - 1 :: 64 word) = mask ?z"
    by (simp add: mask_eq_exp_minus_1)
  let ?n = "(?z + ?f mod 8 + 7) div 8"
  have n: "?n \<le> 8" using fm by simp
  have "bit (extractRaw def data) j \<longleftrightarrow> j < ?z \<and>
      bit (extract_loop ?n 0 data (?f div 8) 0) (?f mod 8 + j)"
    unfolding extractRaw_def Let_def o min_absorb2 [OF z(2)] last bit_and_iff bit_drop_bit_eq bit_mask_iff
    using z(2) by auto
  also have "\<dots> \<longleftrightarrow> j < ?z \<and> buf_bit data (?f + j)"
  proof (cases "j < ?z")
    case True
    have "?f + j < 8 * requiredLength def" using fieldStart_requiredLength [of def] True by linarith
    then have len: "(?f + j) div 8 < length data" using assms(2) by linarith
    have "(?f mod 8 + j) < ?n * 8" using True by linarith
    moreover have "f div 8 + (f mod 8 + j) div 8 = (f + j) div 8" "(f mod 8 + j) mod 8 = (f + j) mod 8" for f :: nat
      using div_mult_self3 [of 8 "f div 8" "f mod 8 + j"] by (simp_all add: mod_add_left_eq add.assoc [symmetric])
    note this [of ?f]
    ultimately show ?thesis using n len True by (simp add: extract_loop_bits buf_bit_def)
  qed simp
  finally show ?thesis .
qed

text \<open>C24: read-modify-write. For a field of at most 32 bits, the shift within its first byte included, in a report
  of at most 256 bytes (\<open>field_ok\<close>) and a buffer that holds it: the value written is read back from the report
  as its low \<open>bit_size\<close> bits, the length to send reaches the field, and every bit outside the field is
  as it was read from the device. A wider field loses its top bits (\<open>writeField_wide_field\<close>).\<close>

theorem field_roundtrip:
  assumes "field_ok def" "max n (requiredLength def) \<le> length buffer"
  shows "extractRaw def (fst (writeField def raw buffer n)) = take_bit (unat (hu_bit_size def)) (ucast raw) \<and>
    snd (writeField def raw buffer n) = max n (requiredLength def) \<and>
    (\<forall>k. k < 8 * length buffer \<and> \<not> (fieldStart def \<le> k \<and> k < fieldStart def + unat (hu_bit_size def)) \<longrightarrow>
       buf_bit (fst (writeField def raw buffer n)) k = buf_bit buffer k)"
proof -
  let ?b = "fst (writeField def raw buffer n)"
  have z: "unat (hu_bit_size def) \<le> 32" using assms(1) by (simp add: field_ok_def)
  have "extractRaw def ?b = take_bit (unat (hu_bit_size def)) (ucast raw)"
  proof (rule bit_word_eqI)
    fix j assume "j < LENGTH(64)"
    have "fieldStart def + j < 8 * length buffer" if "j < unat (hu_bit_size def)"
      using that fieldStart_requiredLength [of def] assms(2) by simp
    then show "bit (extractRaw def ?b) j = bit (take_bit (unat (hu_bit_size def)) (ucast raw) :: 64 word) j"
      using extractRaw_bits [OF assms(1), of ?b j] writeField_bits [OF assms, of "fieldStart def + j" raw] assms(2) z
      by (auto simp: writeField_length [OF assms(1)] bit_take_bit_iff bit_ucast_iff)
  qed
  then show ?thesis
    using writeField_length [OF assms(1)] writeField_bits [OF assms] by simp
qed

definition hu_sample :: hid_usage_def where
  "hu_sample = hu_new\<lparr>hu_report_id := 7, hu_bit_offset := 13, hu_bit_size := 10, hu_found := True\<rparr>"

theorem field_roundtrip_witness:
  "extractRaw hu_sample (fst (writeField hu_sample 0x355 [7, 255, 255, 255, 0] 2)) = 0x355 \<and>
   snd (writeField hu_sample 0x355 [7, 255, 255, 255, 0] 2) = 4"
proof -
  have ok: "field_ok hu_sample" and r: "requiredLength hu_sample = 4"
    by (simp_all add: field_ok_def hu_sample_def hu_new_def requiredLength_def)
  have "max 2 (requiredLength hu_sample) \<le> length [7, 255, 255, 255, 0 :: u8]" by (simp add: r)
  note rt = field_roundtrip [OF ok this, of "0x355"]
  have z: "unat (hu_bit_size hu_sample) = 10" by (simp add: hu_sample_def)
  have t: "take_bit 10 (ucast (0x355 :: u32)) = (0x355 :: 64 word)" by code_simp
  show ?thesis using rt [unfolded z t r] by simp
qed

text \<open>The bound of \<open>field_ok\<close> is needed: \<open>val\<close> and \<open>mask\<close> are 32 bits wide and shifted, so an
  unaligned field of 32 bits loses its top bits, while reading takes five bytes.\<close>

lemma writeField_wide_field:
  "let def = hu_new\<lparr>hu_bit_offset := 4, hu_bit_size := 32, hu_found := True\<rparr> in
     extractRaw def (fst (writeField def 0xF0000001 (replicate 5 0) 5)) = 1"
  by code_simp

section \<open>Physical and logical values\<close>

lemma pow10_inverse: "pow10 e * pow10 (- e) = 1"
  by (auto simp: pow10_def field_simps)

lemma llrint_int [simp]: "llrint (of_int v) = v"
  by (simp add: llrint_def)

lemma toLogical_physical:
  assumes "hu_bit_size def \<noteq> 0" "\<bar>v\<bar> < 2147483648"
    and "hu_logical_min def < hu_logical_max def \<Longrightarrow> hu_logical_min def \<le> v \<and> v \<le> hu_logical_max def"
    and "if hu_logical_min def < 0 then - (2 ^ (min 32 (unat (hu_bit_size def)) - 1)) \<le> v \<and> v < 2 ^ (min 32 (unat (hu_bit_size def)) - 1)
       else 0 \<le> v \<and> v < 2 ^ min 32 (unat (hu_bit_size def))"
  shows "toLogical def (physicalValue def v) = Some v"
proof -
  let ?val = "if 1 < hu_bit_size def \<and> unitExponent def \<noteq> 0 then physicalValue def v * pow10 (- unitExponent def) else physicalValue def v"
  have val: "?val = of_int v"
    by (simp add: physicalValue_def mult.assoc pow10_inverse)
  have "\<bar>of_int v :: rat\<bar> < 4000000000" using assms(2) by linarith
  then show ?thesis
    unfolding toLogical_def val Let_def using assms by (auto simp: split: if_splits)
qed

text \<open>A value fits the field it is written to. Whatever number \<open>toLogical\<close> accepts lies in
  the declared logical range, in the bits of the field, signed when the logical minimum is
  negative, and in an \<open>int32_t\<close>.\<close>

lemma toLogical_fits:
  assumes "toLogical def x = Some v"
  shows "(hu_logical_min def < hu_logical_max def \<longrightarrow> hu_logical_min def \<le> v \<and> v \<le> hu_logical_max def) \<and>
    0 < unat (hu_bit_size def) \<and> - 2147483648 \<le> v \<and> v \<le> 2147483647 \<and>
    (if hu_logical_min def < 0 then - (2 ^ (min 32 (unat (hu_bit_size def)) - 1)) \<le> v \<and> v < 2 ^ (min 32 (unat (hu_bit_size def)) - 1)
     else 0 \<le> v \<and> v < 2 ^ min 32 (unat (hu_bit_size def)))"
  using assms by (auto simp: toLogical_def Let_def unat_gt_0 split: if_splits)

section \<open>Reassembly\<close>

definition ir_wf :: "input_reassembler \<Rightarrow> bool" where
  "ir_wf r \<longleftrightarrow> length (ir_buf r) \<le> ir_MAX_REPORT \<and>
     (ir_buf r \<noteq> [] \<longrightarrow> length (ir_buf r) < ir_expected r \<and> ir_expected r \<le> ir_MAX_REPORT)"

definition ir_step :: "input_reassembler \<Rightarrow> u8 list \<times> u32 \<times> nat \<times> nat \<Rightarrow> input_reassembler \<times> u8 list option" where
  "ir_step r c = (case c of (pkt, ts, mps, expected) \<Rightarrow> ir_feed r pkt ts mps expected)"

lemma ir_wf_start: "ir_wf r \<Longrightarrow> ir_buf r = [] \<Longrightarrow> ir_wf (fst (ir_start r pkt ts mps expected))"
  by (auto simp: ir_start_def ir_wf_def)

lemma ir_wf_feed: "ir_wf r \<Longrightarrow> ir_wf (fst (ir_feed r pkt ts mps expected))"
proof (cases "ir_buf r \<noteq> []")
  case True
  assume wf: "ir_wf r"
  have "ir_wf (ir_reset (r\<lparr>ir_dropped := d\<rparr>))" "ir_buf (ir_reset (r\<lparr>ir_dropped := d\<rparr>)) = []" for d
    by (simp_all add: ir_wf_def ir_reset_def)
  with True wf show ?thesis
    by (auto simp: ir_feed_def Let_def intro!: ir_wf_start) (auto simp: ir_wf_def ir_MAX_REPORT_def)
next
  case False
  assume "ir_wf r"
  with False show ?thesis by (simp add: ir_feed_def ir_wf_start)
qed

interpretation ir: machine ir_step ir_wf
  by unfold_locales (auto simp: ir_step_def ir_wf_feed)

lemma ir_wf_new: "ir_wf (ir_new g)"
  by (simp add: ir_wf_def ir_new_def ir_reset_def)

text \<open>The packets of a report: full ones of \<open>mps\<close> bytes and the rest.\<close>

function packets :: "nat \<Rightarrow> u8 list \<Rightarrow> u8 list list" where
  "packets mps report = (if mps = 0 \<or> length report \<le> mps then [report]
     else take mps report # packets mps (drop mps report))"
  by pat_completeness auto
termination by (relation "measure (\<lambda>(mps, report). length report)") auto

declare packets.simps [simp del]

lemma length_packets: "0 < length (packets mps report)"
  by (subst packets.simps) simp

text \<open>The packets arrive one after the other, each within the gap.\<close>

definition ir_calls :: "nat \<Rightarrow> nat \<Rightarrow> u8 list list \<Rightarrow> u32 list \<Rightarrow> (u8 list \<times> u32 \<times> nat \<times> nat) list" where
  "ir_calls mps expected pkts ts = map (\<lambda>(p, t). (p, t, mps, expected)) (zip pkts ts)"

fun gaps_ok :: "u32 \<Rightarrow> u32 \<Rightarrow> u32 list \<Rightarrow> bool" where
  "gaps_ok g t [] = True"
| "gaps_ok g t (u # us) = (u - t \<le> g \<and> gaps_ok g u us)"

lemma ir_continue:
  assumes "ir_buf r = front" "front \<noteq> []" "rest \<noteq> []" "ir_expected r = length front + length rest"
    and "0 < mps" "gaps_ok (ir_maxGapMs r) (ir_ts r) ts" "length ts = length (packets mps rest)"
  shows "snd (run ir_step r (ir_calls mps e (packets mps rest) ts)) =
      replicate (length (packets mps rest) - 1) None @ [Some (front @ rest)] \<and>
    ir_buf (fst (run ir_step r (ir_calls mps e (packets mps rest) ts))) = []"
  using assms
proof (induction mps rest arbitrary: r front ts rule: packets.induct)
  case (1 mps rest)
  from 1(8) obtain u us where ts: "ts = u # us" using length_packets [of mps rest] by (cases ts) auto
  with 1(7) have gap: "\<not> ir_maxGapMs r < u - ir_ts r" "gaps_ok (ir_maxGapMs r) u us" by auto
  show ?case
  proof (cases "length rest \<le> mps")
    case True
    then have p: "packets mps rest = [rest]" by (subst packets.simps) simp
    with 1 ts gap show ?thesis
      by (simp add: ir_calls_def run_Cons ir_step_def ir_feed_def Let_def)
  next
    case False
    then have p: "packets mps rest = take mps rest # packets mps (drop mps rest)"
      using 1(6) by (subst packets.simps) simp
    let ?r = "r\<lparr>ir_buf := front @ take mps rest, ir_ts := u\<rparr>"
    have step: "ir_step r (take mps rest, u, mps, e) = (?r, None)"
      using 1(2-6) gap False by (simp add: ir_step_def ir_feed_def Let_def min_def)
    have "snd (run ir_step ?r (ir_calls mps e (packets mps (drop mps rest)) us)) =
        replicate (length (packets mps (drop mps rest)) - 1) None @ [Some ((front @ take mps rest) @ drop mps rest)] \<and>
      ir_buf (fst (run ir_step ?r (ir_calls mps e (packets mps (drop mps rest)) us))) = []"
      using 1(2-8) False gap p ts by (intro 1(1)) auto
    moreover obtain m where "length (packets mps (drop mps rest)) = Suc m"
      using length_packets [of mps "drop mps rest"] by (cases "length (packets mps (drop mps rest))") auto
    ultimately show ?thesis
      unfolding p ts by (simp add: ir_calls_def run_Cons step)
  qed
qed

text \<open>C34: long reports are rebuilt. A report longer than one packet, of at most 256 bytes, sent
  as its packets with no gap longer than \<open>maxGapMs\<close>, is delivered exactly once, whole, with
  the last packet, and nothing stays behind for the next one.\<close>

theorem report_reassembled:
  assumes "ir_buf r = []" "0 < mps" "mps < length report" "length report \<le> 256"
    and "length (u # us) = length (packets mps report)" "gaps_ok (ir_maxGapMs r) u us"
  shows "snd (run ir_step r (ir_calls mps (length report) (packets mps report) (u # us))) =
      replicate (length (packets mps report) - 1) None @ [Some report] \<and>
    ir_buf (fst (run ir_step r (ir_calls mps (length report) (packets mps report) (u # us)))) = []"
proof -
  have p: "packets mps report = take mps report # packets mps (drop mps report)"
    using assms(2,3) by (subst packets.simps) simp
  let ?r = "r\<lparr>ir_buf := take mps report, ir_expected := length report, ir_ts := u\<rparr>"
  have step: "ir_step r (take mps report, u, mps, length report) = (?r, None)"
    using assms by (simp add: ir_step_def ir_feed_def ir_start_def ir_MAX_REPORT_def)
  have "snd (run ir_step ?r (ir_calls mps (length report) (packets mps (drop mps report)) us)) =
      replicate (length (packets mps (drop mps report)) - 1) None @ [Some (take mps report @ drop mps report)] \<and>
    ir_buf (fst (run ir_step ?r (ir_calls mps (length report) (packets mps (drop mps report)) us))) = []"
  proof (rule ir_continue)
    show "take mps report \<noteq> []" "drop mps report \<noteq> []" "0 < mps" using assms(2,3) by auto
    show "ir_expected ?r = length (take mps report) + length (drop mps report)" using assms(3) by simp
    show "gaps_ok (ir_maxGapMs ?r) (ir_ts ?r) us" using assms(6) by simp
    show "length us = length (packets mps (drop mps report))" using assms(5) unfolding p by simp
  qed simp
  moreover obtain m where "length (packets mps (drop mps report)) = Suc m"
    using length_packets [of mps "drop mps report"] by (cases "length (packets mps (drop mps report))") auto
  ultimately show ?thesis
    unfolding p by (simp add: ir_calls_def run_Cons step)
qed

theorem report_reassembled_witness:
  "snd (run ir_step (ir_new 500) [([1, 2, 3, 4, 5, 6, 7, 8], 1000, 8, 10), ([9, 10], 1004, 8, 10)]) =
     [None, Some [1, 2, 3, 4, 5, 6, 7, 8, 9, 10]]"
proof -
  have p: "packets 8 [1, 2, 3, 4, 5, 6, 7, 8, 9, 10] = [[1, 2, 3, 4, 5, 6, 7, 8], [9, 10 :: u8]]"
    by (simp add: packets.simps)
  have l: "length [1, 2, 3, 4, 5, 6, 7, 8, 9, 10 :: u8] = 10" by simp
  show ?thesis
    using report_reassembled [of "ir_new 500" 8 "[1, 2, 3, 4, 5, 6, 7, 8, 9, 10]" 1000 "[1004]", unfolded p l]
    by (simp add: ir_calls_def) (simp add: ir_new_def ir_reset_def)
qed

text \<open>The buffer is never written past its 256 bytes, whatever the packets.\<close>

lemma ir_buffer_bounded: "length (ir_buf (fst (run ir_step (ir_new g) cs))) \<le> 256"
  using ir.inv_run [OF ir_wf_new, of g cs] by (simp add: ir_wf_def ir_MAX_REPORT_def)

end
