(* ===== verification/HidParser.thy ===== *)
theory HidParser
  imports HidReports "HOL-Library.Option_ord"
begin

text \<open>
  The parser of HID report descriptors, \<open>lib/USBHostUPS/src/HIDParser.cpp\<close>, with the names of the
  usages of \<open>NUTUsages.h\<close>. The position \<open>desc + i\<close> is the rest of the list of bytes. The state
  of the loop is a record: the global items, their stack, the local items, the open
  collections and the fields found so far.

  The loop that expands a usage range counts with a \<open>uint32_t\<close> up to and including its maximum.
  It does not end when that maximum is the largest \<open>uint32_t\<close>, so it is a partial function, and
  a parse is \<open>None\<close> when it does not return.
\<close>

section \<open>Names of the usages\<close>

definition nut_usages_ups :: "(string \<times> u32) list" where
  "nut_usages_ups =
    [(''Undefined'', 0x00840000),
     (''iName'', 0x00840001),
     (''PresentStatus'', 0x00840002),
     (''ChangedStatus'', 0x00840003),
     (''UPS'', 0x00840004),
     (''PowerSupply'', 0x00840005),
     (''BatterySystem'', 0x00840010),
     (''BatterySystemID'', 0x00840011),
     (''Battery'', 0x00840012),
     (''BatteryID'', 0x00840013),
     (''Charger'', 0x00840014),
     (''ChargerID'', 0x00840015),
     (''PowerConverter'', 0x00840016),
     (''PowerConverterID'', 0x00840017),
     (''OutletSystem'', 0x00840018),
     (''OutletSystemID'', 0x00840019),
     (''Input'', 0x0084001A),
     (''InputID'', 0x0084001B),
     (''Output'', 0x0084001C),
     (''OutputID'', 0x0084001D),
     (''Flow'', 0x0084001E),
     (''FlowID'', 0x0084001F),
     (''Outlet'', 0x00840020),
     (''OutletID'', 0x00840021),
     (''Gang'', 0x00840022),
     (''GangID'', 0x00840023),
     (''PowerSummary'', 0x00840024),
     (''PowerSummaryID'', 0x00840025),
     (''Voltage'', 0x00840030),
     (''Current'', 0x00840031),
     (''Frequency'', 0x00840032),
     (''ApparentPower'', 0x00840033),
     (''ActivePower'', 0x00840034),
     (''PercentLoad'', 0x00840035),
     (''Temperature'', 0x00840036),
     (''Humidity'', 0x00840037),
     (''BadCount'', 0x00840038),
     (''ConfigVoltage'', 0x00840040),
     (''ConfigCurrent'', 0x00840041),
     (''ConfigFrequency'', 0x00840042),
     (''ConfigApparentPower'', 0x00840043),
     (''ConfigActivePower'', 0x00840044),
     (''ConfigPercentLoad'', 0x00840045),
     (''ConfigTemperature'', 0x00840046),
     (''ConfigHumidity'', 0x00840047),
     (''SwitchOnControl'', 0x00840050),
     (''SwitchOffControl'', 0x00840051),
     (''ToggleControl'', 0x00840052),
     (''LowVoltageTransfer'', 0x00840053),
     (''HighVoltageTransfer'', 0x00840054),
     (''DelayBeforeReboot'', 0x00840055),
     (''DelayBeforeStartup'', 0x00840056),
     (''DelayBeforeShutdown'', 0x00840057),
     (''Test'', 0x00840058),
     (''ModuleReset'', 0x00840059),
     (''AudibleAlarmControl'', 0x0084005A),
     (''Present'', 0x00840060),
     (''Good'', 0x00840061),
     (''InternalFailure'', 0x00840062),
     (''VoltageOutOfRange'', 0x00840063),
     (''FrequencyOutOfRange'', 0x00840064),
     (''Overload'', 0x00840065),
     (''OverCharged'', 0x00840066),
     (''OverTemperature'', 0x00840067),
     (''ShutdownRequested'', 0x00840068),
     (''ShutdownImminent'', 0x00840069),
     (''SwitchOn/Off'', 0x0084006B),
     (''Switchable'', 0x0084006C),
     (''Used'', 0x0084006D),
     (''Boost'', 0x0084006E),
     (''Buck'', 0x0084006F),
     (''Initialized'', 0x00840070),
     (''Tested'', 0x00840071),
     (''AwaitingPower'', 0x00840072),
     (''CommunicationLost'', 0x00840073),
     (''iManufacturer'', 0x008400FD),
     (''iProduct'', 0x008400FE),
     (''iSerialNumber'', 0x008400FF)]"

definition nut_usages_battery :: "(string \<times> u32) list" where
  "nut_usages_battery =
    [(''Undefined'', 0x00850000),
     (''SMBBatteryMode'', 0x00850001),
     (''SMBBatteryStatus'', 0x00850002),
     (''SMBAlarmWarning'', 0x00850003),
     (''SMBChargerMode'', 0x00850004),
     (''SMBChargerStatus'', 0x00850005),
     (''SMBChargerSpecInfo'', 0x00850006),
     (''SMBSelectorState'', 0x00850007),
     (''SMBSelectorPresets'', 0x00850008),
     (''SMBSelectorInfo'', 0x00850009),
     (''OptionalMfgFunction1'', 0x00850010),
     (''OptionalMfgFunction2'', 0x00850011),
     (''OptionalMfgFunction3'', 0x00850012),
     (''OptionalMfgFunction4'', 0x00850013),
     (''OptionalMfgFunction5'', 0x00850014),
     (''ConnectionToSMBus'', 0x00850015),
     (''OutputConnection'', 0x00850016),
     (''ChargerConnection'', 0x00850017),
     (''BatteryInsertion'', 0x00850018),
     (''Usenext'', 0x00850019),
     (''OKToUse'', 0x0085001A),
     (''BatterySupported'', 0x0085001B),
     (''SelectorRevision'', 0x0085001C),
     (''ChargingIndicator'', 0x0085001D),
     (''ManufacturerAccess'', 0x00850028),
     (''RemainingCapacityLimit'', 0x00850029),
     (''RemainingTimeLimit'', 0x0085002A),
     (''AtRate'', 0x0085002B),
     (''CapacityMode'', 0x0085002C),
     (''BroadcastToCharger'', 0x0085002D),
     (''PrimaryBattery'', 0x0085002E),
     (''ChargeController'', 0x0085002F),
     (''TerminateCharge'', 0x00850040),
     (''TerminateDischarge'', 0x00850041),
     (''BelowRemainingCapacityLimit'', 0x00850042),
     (''RemainingTimeLimitExpired'', 0x00850043),
     (''Charging'', 0x00850044),
     (''Discharging'', 0x00850045),
     (''FullyCharged'', 0x00850046),
     (''FullyDischarged'', 0x00850047),
     (''ConditioningFlag'', 0x00850048),
     (''AtRateOK'', 0x00850049),
     (''SMBErrorCode'', 0x0085004A),
     (''NeedReplacement'', 0x0085004B),
     (''AtRateTimeToFull'', 0x00850060),
     (''AtRateTimeToEmpty'', 0x00850061),
     (''AverageCurrent'', 0x00850062),
     (''Maxerror'', 0x00850063),
     (''RelativeStateOfCharge'', 0x00850064),
     (''AbsoluteStateOfCharge'', 0x00850065),
     (''RemainingCapacity'', 0x00850066),
     (''FullChargeCapacity'', 0x00850067),
     (''RunTimeToEmpty'', 0x00850068),
     (''AverageTimeToEmpty'', 0x00850069),
     (''AverageTimeToFull'', 0x0085006A),
     (''CycleCount'', 0x0085006B),
     (''BattPackModelLevel'', 0x00850080),
     (''InternalChargeController'', 0x00850081),
     (''PrimaryBatterySupport'', 0x00850082),
     (''DesignCapacity'', 0x00850083),
     (''SpecificationInfo'', 0x00850084),
     (''ManufacturerDate'', 0x00850085),
     (''SerialNumber'', 0x00850086),
     (''iManufacturerName'', 0x00850087),
     (''iDevicename'', 0x00850088),
     (''iDeviceChemistry'', 0x00850089),
     (''ManufacturerData'', 0x0085008A),
     (''Rechargeable'', 0x0085008B),
     (''WarningCapacityLimit'', 0x0085008C),
     (''CapacityGranularity1'', 0x0085008D),
     (''CapacityGranularity2'', 0x0085008E),
     (''iOEMInformation'', 0x0085008F),
     (''InhibitCharge'', 0x008500C0),
     (''EnablePolling'', 0x008500C1),
     (''ResetToZero'', 0x008500C2),
     (''ACPresent'', 0x008500D0),
     (''BatteryPresent'', 0x008500D1),
     (''PowerFail'', 0x008500D2),
     (''AlarmInhibited'', 0x008500D3),
     (''ThermistorUnderRange'', 0x008500D4),
     (''ThermistorHot'', 0x008500D5),
     (''ThermistorCold'', 0x008500D6),
     (''ThermistorOverRange'', 0x008500D7),
     (''VoltageOutOfRange'', 0x008500D8),
     (''CurrentOutOfRange'', 0x008500D9),
     (''CurrentNotRegulated'', 0x008500DA),
     (''VoltageNotRegulated'', 0x008500DB),
     (''MasterMode'', 0x008500DC),
     (''ChargerSelectorSupport'', 0x008500F0),
     (''ChargerSpec'', 0x008500F1),
     (''Level2'', 0x008500F2),
     (''Level3'', 0x008500F3),
     (''APCBattReplaceDate'', 0xFF860016)]"

definition nut_usages :: "(string \<times> u32) list" where
  "nut_usages = nut_usages_ups @ nut_usages_battery"

fun nut_usage_find :: "u32 \<Rightarrow> (string \<times> u32) list \<Rightarrow> string option" where
  "nut_usage_find code [] = None"
| "nut_usage_find code (u # us) = (if snd u = code then Some (fst u) else nut_usage_find code us)"

definition nut_usage_lookup :: "u32 \<Rightarrow> string option" where
  "nut_usage_lookup code = nut_usage_find code nut_usages"

text \<open>\<open>%0nX\<close>: \<open>n\<close> upper case hexadecimal digits, most significant first.\<close>

definition hex_digit :: "nat \<Rightarrow> char" where
  "hex_digit d = (if d < 10 then char_of (48 + d) else char_of (55 + d))"

fun hex :: "nat \<Rightarrow> nat \<Rightarrow> string" where
  "hex 0 v = []"
| "hex (Suc n) v = hex n (v div 16) @ [hex_digit (v mod 16)]"

definition get_nut_usage_name :: "u32 \<Rightarrow> string" where
  "get_nut_usage_name code =
     (case nut_usage_lookup code of Some name \<Rightarrow> name | None \<Rightarrow> ''0x'' @ hex 8 (unat code))"

section \<open>State of the parser\<close>

record hid_global =
  gs_usage_page :: u32
  gs_report_id :: u8
  gs_report_size :: u16
  gs_report_count :: u16
  gs_exponent :: int
  gs_unit :: u32
  gs_logical_min :: int
  gs_logical_max :: int

text \<open>The three maps from a report ID to its length in bits.\<close>

type_synonym lengths = "(u8 \<times> u16) list"

record hid_state =
  hs_global :: hid_global
  hs_stack :: "hid_global list"
  hs_local_usages :: "u32 list"
  hs_collection_names :: "string list"
  hs_collection_indices :: "u8 list"
  hs_have_min :: bool
  hs_have_max :: bool
  hs_usage_min :: u32
  hs_usage_max :: u32
  hs_usages :: "hid_usage_def list"
  hs_input_lengths :: lengths
  hs_output_lengths :: lengths
  hs_feature_lengths :: lengths

definition hid_initial :: hid_state where
  "hid_initial = \<lparr>hs_global = \<lparr>gs_usage_page = 0, gs_report_id = 0, gs_report_size = 0, gs_report_count = 0,
       gs_exponent = 0, gs_unit = 0, gs_logical_min = 0, gs_logical_max = 0\<rparr>,
     hs_stack = [], hs_local_usages = [], hs_collection_names = [], hs_collection_indices = [],
     hs_have_min = False, hs_have_max = False, hs_usage_min = 0, hs_usage_max = 0,
     hs_usages = [], hs_input_lengths = [], hs_output_lengths = [], hs_feature_lengths = []\<rparr>"

text \<open>\<open>map[id]\<close>, which is 0 when the key is new, and \<open>map[id] += bits\<close>.\<close>

definition len_get :: "lengths \<Rightarrow> u8 \<Rightarrow> u16" where
  "len_get ls rid = (case map_of ls rid of Some n \<Rightarrow> n | None \<Rightarrow> 0)"

fun len_add :: "lengths \<Rightarrow> u8 \<Rightarrow> u16 \<Rightarrow> lengths" where
  "len_add [] rid bits = [(rid, bits)]"
| "len_add (p # ps) rid bits = (if fst p = rid then (rid, snd p + bits) # ps else p # len_add ps rid bits)"

section \<open>Items\<close>

text \<open>\<open>data |= ((uint32_t)desc[i++]) << (8 * j)\<close>\<close>

fun item_data :: "u8 list \<Rightarrow> nat \<Rightarrow> u32" where
  "item_data [] j = 0"
| "item_data (b # bs) j = push_bit (8 * j) (ucast b) OR item_data bs (Suc j)"

record hid_item =
  it_type :: nat
  it_tag :: nat
  it_size :: nat
  it_data :: u32

definition item_sdata :: "hid_item \<Rightarrow> int" where
  "item_sdata it = (if it_size it = 1 then sint (ucast (it_data it) :: u8)
     else if it_size it = 2 then sint (ucast (it_data it) :: u16)
     else sint (it_data it))"

definition item_size :: "u8 \<Rightarrow> nat" where
  "item_size b = (let n = unat (b AND 0x03) in if n = 3 then 4 else n)"

definition short_item :: "u8 \<Rightarrow> u8 list \<Rightarrow> hid_item" where
  "short_item b rest = \<lparr>it_type = unat (drop_bit 2 b AND 0x03), it_tag = unat (drop_bit 4 b AND 0x0F),
     it_size = item_size b, it_data = item_data (take (item_size b) rest) 0\<rparr>"

section \<open>Main items\<close>

text \<open>\<open>appendPathSegment\<close> with the capacity of \<open>HIDUsageDef::path\<close>. A segment may be null.\<close>

definition appendPathSegment :: "string \<Rightarrow> nat \<Rightarrow> string option \<Rightarrow> string" where
  "appendPathSegment path cap seg =
     (case seg of None \<Rightarrow> path
      | Some seg \<Rightarrow>
          let path = (if path \<noteq> [] then path @ take (cap - length path - 1) ''.'' else path)
          in path @ take (cap - length path - 1) seg)"

definition hid_path :: "string list \<Rightarrow> u32 \<Rightarrow> string" where
  "hid_path names usage =
     appendPathSegment (foldl (\<lambda>path n. appendPathSegment path 80 (Some n)) [] names) 80 (Some (get_nut_usage_name usage))"

definition hid_coll_index :: "u8 list \<Rightarrow> u8 list" where
  "hid_coll_index indices = take 8 (indices @ replicate 8 0)"

definition hid_def :: "hid_state \<Rightarrow> nat \<Rightarrow> u32 \<Rightarrow> u16 \<Rightarrow> hid_usage_def" where
  "hid_def s tag usage bit_offset = (let g = hs_global s in
     \<lparr>hu_usage = usage, hu_report_id = gs_report_id g,
      hu_report_type = (if tag = 8 then 1 else if tag = 9 then 2 else 3),
      hu_bit_offset = bit_offset, hu_bit_size = gs_report_size g, hu_found = True,
      hu_logical_min = gs_logical_min g, hu_logical_max = gs_logical_max g,
      hu_exponent = gs_exponent g, hu_unit = gs_unit g,
      hu_path = hid_path (hs_collection_names s) usage,
      hu_coll_index = hid_coll_index (hs_collection_indices s)\<rparr>)"

text \<open>The usage of field \<open>c\<close>, 0 when there is none or when it repeats the last one.\<close>

definition field_usage :: "u32 list \<Rightarrow> nat \<Rightarrow> u32 \<times> bool" where
  "field_usage lu c = (if c < length lu then (lu ! c, False)
     else if lu \<noteq> [] then (last lu, 0 < c) else (0, False))"

text \<open>The loop over the fields of an Input, Output or Feature item: the fields left, \<open>c\<close>, the
  lengths of the reports of that type and the fields found.\<close>

fun hid_fields :: "nat \<Rightarrow> nat \<Rightarrow> hid_state \<Rightarrow> nat \<Rightarrow> lengths \<Rightarrow> hid_usage_def list \<Rightarrow> lengths \<times> hid_usage_def list" where
  "hid_fields 0 c s tag ls us = (ls, us)"
| "hid_fields (Suc k) c s tag ls us =
     (let (usage, repeated) = field_usage (hs_local_usages s) c;
          rid = gs_report_id (hs_global s);
          us = (if usage \<noteq> 0 \<and> \<not> repeated then us @ [hid_def s tag usage (len_get ls rid)] else us)
      in hid_fields k (Suc c) s tag (len_add ls rid (gs_report_size (hs_global s))) us)"

definition lengths_of :: "nat \<Rightarrow> hid_state \<Rightarrow> lengths" where
  "lengths_of tag s = (if tag = 8 then hs_input_lengths s else if tag = 9 then hs_output_lengths s else hs_feature_lengths s)"

definition set_lengths :: "nat \<Rightarrow> lengths \<Rightarrow> hid_state \<Rightarrow> hid_state" where
  "set_lengths tag ls s = (if tag = 8 then s\<lparr>hs_input_lengths := ls\<rparr>
     else if tag = 9 then s\<lparr>hs_output_lengths := ls\<rparr> else s\<lparr>hs_feature_lengths := ls\<rparr>)"

definition clear_locals :: "hid_state \<Rightarrow> hid_state" where
  "clear_locals s = s\<lparr>hs_local_usages := [], hs_have_min := False, hs_have_max := False\<rparr>"

definition hid_main :: "hid_item \<Rightarrow> hid_state \<Rightarrow> hid_state" where
  "hid_main it s =
     (if it_tag it = 8 \<or> it_tag it = 9 \<or> it_tag it = 11
      then let (ls, us) = hid_fields (unat (gs_report_count (hs_global s))) 0 s (it_tag it) (lengths_of (it_tag it) s) (hs_usages s)
           in clear_locals (set_lengths (it_tag it) ls (s\<lparr>hs_usages := us\<rparr>))
      else if it_tag it = 10
      then let usage = (if hs_local_usages s \<noteq> [] then last (hs_local_usages s) else 0)
           in clear_locals (s\<lparr>hs_collection_names := hs_collection_names s @ [get_nut_usage_name usage],
                hs_collection_indices := hs_collection_indices s @
                  [if 0x80 \<le> it_data it then ucast ((it_data it AND 0x7F) + 1) else 0]\<rparr>)
      else if it_tag it = 12
      then if hs_collection_names s \<noteq> []
           then s\<lparr>hs_collection_names := butlast (hs_collection_names s),
                  hs_collection_indices := butlast (hs_collection_indices s)\<rparr>
           else s
      else s)"

section \<open>Global items\<close>

definition hid_global_item :: "hid_item \<Rightarrow> hid_state \<Rightarrow> hid_state" where
  "hid_global_item it s =
     (let g = hs_global s; data = it_data it; sdata = item_sdata it; tag = it_tag it
      in if tag = 0 then s\<lparr>hs_global := g\<lparr>gs_usage_page := data\<rparr>\<rparr>
         else if tag = 1 then s\<lparr>hs_global := g\<lparr>gs_logical_min := sdata\<rparr>\<rparr>
         else if tag = 2 then s\<lparr>hs_global := g\<lparr>gs_logical_max := (if sdata < gs_logical_min g then sint data else sdata)\<rparr>\<rparr>
         else if tag = 5 then s\<lparr>hs_global := g\<lparr>gs_exponent :=
           (let nibble = uint (data AND 0x0F) in if 7 < nibble then nibble - 16 else nibble)\<rparr>\<rparr>
         else if tag = 6 then s\<lparr>hs_global := g\<lparr>gs_unit := data\<rparr>\<rparr>
         else if tag = 7 then s\<lparr>hs_global := g\<lparr>gs_report_size := ucast data\<rparr>\<rparr>
         else if tag = 8 then s\<lparr>hs_global := g\<lparr>gs_report_id := ucast data\<rparr>\<rparr>
         else if tag = 9 then s\<lparr>hs_global := g\<lparr>gs_report_count := ucast data\<rparr>\<rparr>
         else if tag = 10 then s\<lparr>hs_stack := hs_stack s @ [g]\<rparr>
         else if tag = 11 then
           (if hs_stack s \<noteq> [] then s\<lparr>hs_global := last (hs_stack s), hs_stack := butlast (hs_stack s)\<rparr> else s)
         else s)"

section \<open>Local items\<close>

text \<open>\<open>for (uint32_t u = usage_min; u <= usage_max; u++) local_usages.push_back(u)\<close>; \<open>None\<close> is a
  loop that does not end.\<close>

partial_function (option) usage_range :: "u32 \<Rightarrow> u32 \<Rightarrow> u32 list \<Rightarrow> u32 list option" where
  "usage_range u usage_max acc =
     (if u \<le> usage_max then usage_range (u + 1) usage_max (acc @ [u]) else Some acc)"

definition MAX_USAGE_RANGE :: u32 where
  "MAX_USAGE_RANGE = 256"

definition hid_local :: "hid_item \<Rightarrow> hid_state \<Rightarrow> hid_state option" where
  "hid_local it s =
     (let full_usage = (if it_size it \<le> 2 then push_bit 16 (gs_usage_page (hs_global s)) OR it_data it else it_data it)
      in if it_tag it = 0 then Some (s\<lparr>hs_local_usages := hs_local_usages s @ [full_usage]\<rparr>)
         else if it_tag it = 1 \<or> it_tag it = 2
         then let s = (if it_tag it = 1 then s\<lparr>hs_usage_min := full_usage, hs_have_min := True\<rparr>
                       else s\<lparr>hs_usage_max := full_usage, hs_have_max := True\<rparr>)
              in if hs_have_min s \<and> hs_have_max s
                 then if drop_bit 16 (hs_usage_min s) = drop_bit 16 (hs_usage_max s) \<and> hs_usage_min s \<le> hs_usage_max s \<and>
                         hs_usage_max s - hs_usage_min s < MAX_USAGE_RANGE
                      then (case usage_range (hs_usage_min s) (hs_usage_max s) (hs_local_usages s) of
                              None \<Rightarrow> None
                            | Some lu \<Rightarrow> Some (s\<lparr>hs_local_usages := lu, hs_have_min := False, hs_have_max := False\<rparr>))
                      else Some (s\<lparr>hs_have_min := False, hs_have_max := False\<rparr>)
                 else Some s
         else Some s)"

definition hid_item_step :: "hid_item \<Rightarrow> hid_state \<Rightarrow> hid_state option" where
  "hid_item_step it s =
     (if it_type it = 0 then Some (hid_main it s)
      else if it_type it = 1 then Some (hid_global_item it s)
      else if it_type it = 2 then hid_local it s
      else Some s)"

section \<open>The descriptor\<close>

function hid_loop :: "u8 list \<Rightarrow> hid_state \<Rightarrow> hid_state option" where
  "hid_loop [] s = Some s"
| "hid_loop (b # rest) s =
     (if b = 0xFE
      then (case rest of [] \<Rightarrow> Some s | n # _ \<Rightarrow> hid_loop (drop (2 + unat n) rest) s)
      else (case hid_item_step (short_item b rest) s of
              None \<Rightarrow> None
            | Some s' \<Rightarrow> hid_loop (drop (item_size b) rest) s'))"
  by pat_completeness auto
termination by (relation "measure (\<lambda>(desc, s). length desc)") auto

definition parseReportDescriptor :: "u8 list \<Rightarrow> hid_state option" where
  "parseReportDescriptor desc = hid_loop desc hid_initial"

section \<open>Queries\<close>

definition bytes_of_bits :: "u16 \<Rightarrow> nat" where
  "bytes_of_bits bits = (unat bits + 7) div 8"

definition getExpectedLength :: "hid_state \<Rightarrow> u8 \<Rightarrow> u8 \<Rightarrow> nat" where
  "getExpectedLength s report_id report_type =
     (let bits = (if report_type = 1 then len_get (hs_input_lengths s) report_id
                  else if report_type = 2 then len_get (hs_output_lengths s) report_id
                  else if report_type = 3 then len_get (hs_feature_lengths s) report_id else 0)
      in if bits = 0 then 64 else bytes_of_bits bits + (if report_id \<noteq> 0 then 1 else 0))"

definition getInputLength :: "hid_state \<Rightarrow> u8 \<Rightarrow> nat" where
  "getInputLength s report_id =
     (case map_of (hs_input_lengths s) report_id of
        None \<Rightarrow> 0
      | Some bits \<Rightarrow> if bits = 0 then 0 else bytes_of_bits bits + (if report_id \<noteq> 0 then 1 else 0))"

definition usesReportIds :: "hid_state \<Rightarrow> bool" where
  "usesReportIds s = list_ex (\<lambda>m. list_ex (\<lambda>kv. fst kv \<noteq> 0) m)
     [hs_input_lengths s, hs_output_lengths s, hs_feature_lengths s]"

fun usage_def_find :: "u32 \<Rightarrow> hid_usage_def list \<Rightarrow> hid_usage_def option" where
  "usage_def_find usage [] = None"
| "usage_def_find usage (u # us) = (if hu_usage u = usage then Some u else usage_def_find usage us)"

definition getUsageDef :: "hid_state \<Rightarrow> u32 \<Rightarrow> hid_usage_def option" where
  "getUsageDef s usage = usage_def_find usage (hs_usages s)"

definition hasFeatureBeeperControl :: "hid_state \<Rightarrow> bool" where
  "hasFeatureBeeperControl s = list_ex (\<lambda>u. (hu_usage u = 0x0084005A \<or> hu_usage u = 0x0085005A \<or>
      contains (hu_path u) ''AudibleAlarmControl'') \<and> (hu_report_type u = 3 \<or> hu_report_type u = 2)) (hs_usages s)"

section \<open>Expanding a usage range\<close>

lemma usage_range_ends:
  assumes "usage_max \<noteq> 0xFFFFFFFF"
  shows "usage_range u usage_max acc = Some (acc @ map of_nat [unat u..<Suc (unat usage_max)])"
proof (induction "Suc (unat usage_max) - unat u" arbitrary: u acc)
  case 0
  then have "\<not> u \<le> usage_max" by (simp add: word_le_nat_alt)
  with 0 show ?case by (subst usage_range.simps) simp
next
  case (Suc n)
  then have le: "u \<le> usage_max" by (simp add: word_le_nat_alt)
  have "unat usage_max \<noteq> unat (0xFFFFFFFF :: u32)" using assms by (simp only: word_unat_eq_iff simp_thms)
  then have "unat usage_max < 2 ^ 32 - 1" using unat_u32_bound [of usage_max] by simp
  then have inc: "unat (u + 1) = Suc (unat u)"
    using le by (intro unat_Suc_u32) (simp add: word_le_nat_alt)
  have "usage_range (u + 1) usage_max (acc @ [u]) =
      Some ((acc @ [u]) @ map of_nat [unat (u + 1)..<Suc (unat usage_max)])"
    using Suc.hyps(2) by (intro Suc.hyps(1)) (simp add: inc)
  moreover have "[unat u..<Suc (unat usage_max)] = unat u # [Suc (unat u)..<Suc (unat usage_max)]"
    using le by (intro upt_conv_Cons) (simp add: word_le_nat_alt)
  ultimately show ?case using le by (subst usage_range.simps) (simp add: inc)
qed

lemma usage_range_diverges: "usage_range u 0xFFFFFFFF acc = None"
proof -
  have "m \<noteq> 0xFFFFFFFF" if "usage_range u m acc = Some y" for u m acc y
  proof (rule usage_range.raw_induct [where P = "\<lambda>u m acc y. m \<noteq> 0xFFFFFFFF", OF _ that])
    fix f :: "u32 \<Rightarrow> u32 \<Rightarrow> u32 list \<Rightarrow> u32 list option" and u m acc y
    assume IH: "\<And>u m acc y. f u m acc = Some y \<Longrightarrow> m \<noteq> 0xFFFFFFFF"
      and body: "(if u \<le> m then f (u + 1) m (acc @ [u]) else Some acc) = Some y"
    show "m \<noteq> 0xFFFFFFFF"
    proof (cases "u \<le> m")
      case True
      then show ?thesis using body IH [of "u + 1" m "acc @ [u]" y] by simp
    next
      case False
      have "u \<le> 0xFFFFFFFF" using unat_u32_bound [of u] by (simp add: word_le_nat_alt)
      with False show ?thesis by auto
    qed
  qed
  then show ?thesis by (metis option.exhaust)
qed

section \<open>The parse returns\<close>

text \<open>The items of a descriptor, in order.\<close>

function hid_items :: "u8 list \<Rightarrow> hid_item list" where
  "hid_items [] = []"
| "hid_items (b # rest) =
     (if b = 0xFE then (case rest of [] \<Rightarrow> [] | n # _ \<Rightarrow> hid_items (drop (2 + unat n) rest))
      else short_item b rest # hid_items (drop (item_size b) rest))"
  by pat_completeness auto
termination by (relation "measure length") auto

text \<open>A Usage Maximum whose low half is all ones: the only item that can make a range endless.\<close>

definition endless_item :: "hid_item \<Rightarrow> bool" where
  "endless_item it \<longleftrightarrow> it_type it = 2 \<and> it_tag it = 2 \<and> it_data it AND 0xFFFF = 0xFFFF"

definition max_known_finite :: "hid_state \<Rightarrow> bool" where
  "max_known_finite s \<longleftrightarrow> (hs_have_max s \<longrightarrow> hs_usage_max s \<noteq> 0xFFFFFFFF)"

lemma full_usage_low:
  assumes "(if sz \<le> (2::nat) then push_bit 16 (page :: u32) OR d else d) = 0xFFFFFFFF"
  shows "d AND 0xFFFF = 0xFFFF"
proof -
  have m: "(0xFFFF :: u32) = mask 16" by (simp add: mask_eq_exp_minus_1)
  have f: "(0xFFFFFFFF :: u32) = mask 32" by (simp add: mask_eq_exp_minus_1)
  have "bit d n" if "n < 16" for n
  proof -
    have "bit (if sz \<le> (2::nat) then push_bit 16 page OR d else d) n"
      using that unfolding assms f bit_mask_iff by simp
    then show ?thesis using that by (auto simp: bit_or_iff bit_push_bit_iff split: if_splits)
  qed
  then show ?thesis unfolding m by (intro bit_word_eqI) (auto simp: bit_and_iff bit_mask_iff)
qed

lemma clear_locals_finite [simp]: "max_known_finite (clear_locals s)"
  by (simp add: max_known_finite_def clear_locals_def)

lemma max_known_finite_set_lengths [simp]: "hs_have_max (set_lengths tag ls s) = hs_have_max s"
  by (simp add: set_lengths_def)

lemma hid_main_finite: "max_known_finite s \<Longrightarrow> max_known_finite (hid_main it s)"
  by (auto simp: hid_main_def Let_def split_beta) (auto simp: max_known_finite_def)

lemma hid_global_finite: "max_known_finite s \<Longrightarrow> max_known_finite (hid_global_item it s)"
  by (simp add: hid_global_item_def Let_def max_known_finite_def)

lemma hid_local_returns:
  assumes "max_known_finite s" "it_type it = 2" "\<not> endless_item it"
  shows "\<exists>s'. hid_local it s = Some s' \<and> max_known_finite s'"
proof -
  let ?full = "if it_size it \<le> 2 then push_bit 16 (gs_usage_page (hs_global s)) OR it_data it else it_data it"
  have fin: "it_tag it = 2 \<Longrightarrow> ?full \<noteq> 0xFFFFFFFF"
    using full_usage_low assms(2,3) unfolding endless_item_def by blast
  define t where "t = (if it_tag it = 1 then s\<lparr>hs_usage_min := ?full, hs_have_min := True\<rparr>
                       else s\<lparr>hs_usage_max := ?full, hs_have_max := True\<rparr>)"
  have t: "max_known_finite t" if "it_tag it = 1 \<or> it_tag it = 2"
    using that fin assms(1) unfolding t_def max_known_finite_def by auto
  then have "\<exists>lu. usage_range (hs_usage_min t) (hs_usage_max t) (hs_local_usages t) = Some lu"
    if "it_tag it = 1 \<or> it_tag it = 2" "hs_have_max t"
    using that usage_range_ends [of "hs_usage_max t"] by (simp add: max_known_finite_def)
  then show ?thesis
    unfolding hid_local_def Let_def t_def [symmetric] using t assms(1)
    by (auto simp: max_known_finite_def)
qed

lemma hid_item_step_returns:
  assumes "max_known_finite s" "\<not> endless_item it"
  shows "\<exists>s'. hid_item_step it s = Some s' \<and> max_known_finite s'"
  using assms hid_main_finite hid_global_finite hid_local_returns [of s it] by (auto simp: hid_item_step_def)

lemma hid_loop_returns:
  "max_known_finite s \<Longrightarrow> \<not> (\<exists>it \<in> set (hid_items desc). endless_item it) \<Longrightarrow> \<exists>s'. hid_loop desc s = Some s'"
proof (induction desc s rule: hid_loop.induct)
  case (1 s)
  then show ?case by simp
next
  case (2 b rest s)
  show ?case
  proof (cases "b = 0xFE")
    case True
    then show ?thesis using 2 by (cases rest) auto
  next
    case False
    then obtain s' where "hid_item_step (short_item b rest) s = Some s'" "max_known_finite s'"
      using hid_item_step_returns [OF 2(3), of "short_item b rest"] 2(4) by auto
    then show ?thesis using 2(2) [of s'] 2(4) False by simp
  qed
qed

text \<open>C35: the parser returns on every descriptor, however corrupt, that has no Usage Maximum
  whose low half is 0xFFFF.\<close>

theorem parse_returns:
  assumes "\<not> (\<exists>it \<in> set (hid_items desc). endless_item it)"
  shows "\<exists>s. parseReportDescriptor desc = Some s"
  unfolding parseReportDescriptor_def
  using assms by (intro hid_loop_returns) (simp_all add: max_known_finite_def hid_initial_def)

text \<open>A long item cut short, a Push, a Feature item without usages and a range of usages.\<close>

theorem parse_returns_witness:
  "\<exists>s. parseReportDescriptor [0x05, 0x84, 0x19, 0x10, 0x29, 0x30, 0x75, 0xFF, 0xA4, 0x95, 0x02, 0xB1, 0x02, 0xFE] = Some s"
proof -
  have "hid_items [0x05, 0x84, 0x19, 0x10, 0x29, 0x30, 0x75, 0xFF, 0xA4, 0x95, 0x02, 0xB1, 0x02, 0xFE] =
    [\<lparr>it_type = 1, it_tag = 0, it_size = 1, it_data = 0x84\<rparr>, \<lparr>it_type = 2, it_tag = 1, it_size = 1, it_data = 0x10\<rparr>,
     \<lparr>it_type = 2, it_tag = 2, it_size = 1, it_data = 0x30\<rparr>, \<lparr>it_type = 1, it_tag = 7, it_size = 1, it_data = 0xFF\<rparr>,
     \<lparr>it_type = 1, it_tag = 10, it_size = 0, it_data = 0\<rparr>, \<lparr>it_type = 1, it_tag = 9, it_size = 1, it_data = 2\<rparr>,
     \<lparr>it_type = 0, it_tag = 11, it_size = 1, it_data = 2\<rparr>]"
    by (simp add: short_item_def item_size_def Let_def)
  then show ?thesis by (intro parse_returns) (simp add: endless_item_def)
qed

text \<open>The condition is needed: on the vendor page 0xFFFF a range that ends at usage 0xFFFF, or any
  range up to 0xFFFFFFFF, never stops pushing usages, although the range is checked to be
  shorter than \<open>MAX_USAGE_RANGE\<close>.\<close>

lemma parse_diverges:
  "parseReportDescriptor [0x06, 0xFF, 0xFF, 0x1A, 0x00, 0xFF, 0x2A, 0xFF, 0xFF] = None"
  by (simp add: parseReportDescriptor_def hid_item_step_def short_item_def item_size_def hid_global_item_def
      hid_local_def hid_initial_def MAX_USAGE_RANGE_def usage_range_diverges Let_def)

section \<open>The fields are well formed and few\<close>

definition hid_def_ok :: "hid_usage_def \<Rightarrow> bool" where
  "hid_def_ok d \<longleftrightarrow> hu_usage d \<noteq> 0 \<and> hu_found d \<and> hu_report_type d \<in> {1, 2, 3} \<and>
     length (hu_path d) < 80 \<and> length (hu_coll_index d) = 8"

lemma length_appendPathSegment: "length path < cap \<Longrightarrow> length (appendPathSegment path cap seg) < cap"
  by (auto simp: appendPathSegment_def Let_def split: option.splits)

lemma length_hid_path: "length (hid_path names usage) < 80"
proof -
  have "length p < 80 \<Longrightarrow> length (foldl (\<lambda>path n. appendPathSegment path 80 (Some n)) p names) < 80" for p
    by (induction names arbitrary: p) (simp_all add: length_appendPathSegment)
  then show ?thesis by (simp add: hid_path_def length_appendPathSegment)
qed

lemma hid_def_ok_new: "usage \<noteq> 0 \<Longrightarrow> hid_def_ok (hid_def s tag usage bo)"
  by (simp add: hid_def_ok_def hid_def_def Let_def length_hid_path hid_coll_index_def)

text \<open>What the field loop does: one field for each usage, at consecutive offsets, and the
  length grows by all the fields, named or not.\<close>

lemma len_get_add: "len_get (len_add ls rid bits) r = len_get ls r + (if r = rid then bits else 0)"
  by (induction ls) (auto simp: len_get_def)

lemma hid_fields_closed:
  assumes "lu = hs_local_usages s" "rid = gs_report_id (hs_global s)" "bits = gs_report_size (hs_global s)"
  shows "snd (hid_fields k c s tag ls us) = us @ map (\<lambda>j. hid_def s tag (lu ! j) (len_get ls rid + of_nat (j - c) * bits))
      (filter (\<lambda>j. lu ! j \<noteq> 0) [c..<min (c + k) (length lu)]) \<and>
    len_get (fst (hid_fields k c s tag ls us)) r = len_get ls r + (if r = rid then of_nat k * bits else 0)"
proof (induction k arbitrary: c ls us)
  case 0
  then show ?case by simp
next
  case (Suc k)
  let ?ls = "len_add ls rid bits"
  have shift: "len_get ?ls rid + of_nat (j - Suc c) * bits = len_get ls rid + of_nat (j - c) * bits" if le: "Suc c \<le> j" for j
  proof -
    obtain i where "j = Suc c + i" using le_Suc_ex [OF le] by blast
    then have i: "j - Suc c = i" "j - c = Suc i" by simp_all
    have "of_nat (Suc i) * bits = bits + of_nat i * bits" by (simp add: distrib_right)
    then show ?thesis unfolding i by (simp only: len_get_add if_True add.assoc simp_thms)
  qed
  show ?case
  proof (cases "c < length lu")
    case True
    have "[c..<min (c + Suc k) (length lu)] = c # [Suc c..<min (Suc c + k) (length lu)]"
      using True by (simp add: upt_conv_Cons)
    then show ?thesis
      using Suc.IH [of "Suc c" ?ls "if lu ! c \<noteq> 0 then us @ [hid_def s tag (lu ! c) (len_get ls rid)] else us"] True assms
      by (auto simp: field_usage_def Let_def len_get_add shift algebra_simps)
  next
    case False
    have "hid_fields (Suc k) c s tag ls us = hid_fields k (Suc c) s tag ?ls us"
      using False assms by (cases "lu = []"; cases c) (auto simp: field_usage_def Let_def)
    then show ?thesis
      using Suc.IH [of "Suc c" ?ls us] False by (simp add: len_get_add algebra_simps)
  qed
qed

lemma hid_fields_count:
  "length (snd (hid_fields k 0 s tag ls us)) \<le> length us + length (hs_local_usages s)"
proof -
  have "length (filter P [0..<min k n]) \<le> n" for P and n :: nat
    by (rule le_trans [OF length_filter_le]) simp
  then show ?thesis
    using hid_fields_closed [OF refl refl refl, of k 0 s tag ls us] by simp
qed

lemma hid_fields_ok:
  "list_all hid_def_ok us \<Longrightarrow> list_all hid_def_ok (snd (hid_fields k 0 s tag ls us))"
  using hid_fields_closed [OF refl refl refl, of k 0 s tag ls us] by (auto simp: list_all_iff hid_def_ok_new)

text \<open>128 fields for every byte read: the bytes of the two ends of a range pay for it.\<close>

definition hid_credit :: "nat \<Rightarrow> hid_state \<Rightarrow> bool" where
  "hid_credit n s \<longleftrightarrow> list_all hid_def_ok (hs_usages s) \<and> length (hs_collection_names s) = length (hs_collection_indices s) \<and>
     length (hs_usages s) + length (hs_local_usages s) + (if hs_have_min s \<or> hs_have_max s then 128 else 0) \<le> 128 * n"

lemma set_lengths_other [simp]:
  "hs_usages (set_lengths tag ls s) = hs_usages s" "hs_local_usages (set_lengths tag ls s) = hs_local_usages s"
  "hs_collection_names (set_lengths tag ls s) = hs_collection_names s"
  "hs_collection_indices (set_lengths tag ls s) = hs_collection_indices s"
  by (simp_all add: set_lengths_def)

lemma hid_main_credit: "hid_credit n s \<Longrightarrow> hid_credit (Suc n) (hid_main it s)"
  using hid_fields_count [of "unat (gs_report_count (hs_global s))" s "it_tag it" "lengths_of (it_tag it) s" "hs_usages s"]
    hid_fields_ok [of "hs_usages s"]
  by (auto simp: hid_main_def Let_def split_beta hid_credit_def clear_locals_def)

lemma hid_global_credit: "hid_credit n s \<Longrightarrow> hid_credit (Suc n) (hid_global_item it s)"
  by (auto simp: hid_global_item_def Let_def hid_credit_def)

lemma usage_range_count:
  assumes "usage_range mn mx acc = Some lu" "mn \<le> mx" "mx - mn < MAX_USAGE_RANGE"
  shows "length lu \<le> length acc + 256"
proof -
  have "mx \<noteq> 0xFFFFFFFF" using assms(1) usage_range_diverges by auto
  then have "length lu = length acc + (Suc (unat mx) - unat mn)"
    using assms(1) usage_range_ends [of mx mn acc] by (simp del: upt_Suc) (auto simp del: upt_Suc)
  moreover have "unat mx - unat mn < 256"
    using assms(2,3) by (simp add: MAX_USAGE_RANGE_def word_less_nat_alt unat_sub)
  ultimately show ?thesis by simp
qed

lemma hid_local_credit:
  assumes "hid_credit n s" "hid_local it s = Some s'"
  shows "hid_credit (Suc n) s'"
proof -
  define full where "full = (if it_size it \<le> 2 then push_bit 16 (gs_usage_page (hs_global s)) OR it_data it else it_data it)"
  define t where "t = (if it_tag it = 1 then s\<lparr>hs_usage_min := full, hs_have_min := True\<rparr>
                       else s\<lparr>hs_usage_max := full, hs_have_max := True\<rparr>)"
  have t: "hs_usages t = hs_usages s" "hs_local_usages t = hs_local_usages s"
    "hs_collection_names t = hs_collection_names s" "hs_collection_indices t = hs_collection_indices s"
    by (simp_all add: t_def)
  have both: "hs_have_min t \<and> hs_have_max t \<Longrightarrow> hs_have_min s \<or> hs_have_max s"
    by (auto simp: t_def split: if_splits)
  have ht: "hid_credit (Suc n) t" using assms(1) t by (auto simp: hid_credit_def)
  consider "it_tag it = 0" "s' = s\<lparr>hs_local_usages := hs_local_usages s @ [full]\<rparr>"
    | "s' = s" | "s' = t" | "s' = t\<lparr>hs_have_min := False, hs_have_max := False\<rparr>"
    | lu where "hs_have_min t \<and> hs_have_max t" "s' = t\<lparr>hs_local_usages := lu, hs_have_min := False, hs_have_max := False\<rparr>"
      "usage_range (hs_usage_min t) (hs_usage_max t) (hs_local_usages t) = Some lu"
      "hs_usage_min t \<le> hs_usage_max t" "hs_usage_max t - hs_usage_min t < MAX_USAGE_RANGE"
    using assms(2) unfolding hid_local_def Let_def full_def [symmetric] t_def [symmetric]
    by (auto split: if_splits option.splits)
  then show ?thesis
  proof cases
    case 5
    then have "length lu \<le> length (hs_local_usages s) + 256" using usage_range_count t(2) by metis
    then show ?thesis using 5(1,2) both assms(1) t by (auto simp: hid_credit_def)
  qed (use assms(1) ht t in \<open>auto simp: hid_credit_def\<close>)
qed

lemma hid_loop_credit:
  "hid_credit n s \<Longrightarrow> hid_loop desc s = Some s' \<Longrightarrow> hid_credit (n + length desc) s'"
proof (induction desc s arbitrary: n rule: hid_loop.induct)
  case (1 s)
  then show ?case by simp
next
  case (2 b rest s)
  have mono: "hid_credit a t \<Longrightarrow> a \<le> a' \<Longrightarrow> hid_credit a' t" for a a' t
    unfolding hid_credit_def by (meson le_trans mult_le_mono2)
  show ?case
  proof (cases "b = 0xFE")
    case True
    show ?thesis
    proof (cases rest)
      case Nil
      with True 2 show ?thesis by (auto intro: mono)
    next
      case (Cons m ms)
      have "hid_credit (n + length (drop (2 + unat m) rest)) s'"
        using 2(1) [OF True Cons 2(3)] 2(4) True Cons by simp
      then show ?thesis by (rule mono) simp
    qed
  next
    case False
    then obtain t where t: "hid_item_step (short_item b rest) s = Some t" "hid_loop (drop (item_size b) rest) t = Some s'"
      using 2(4) by (auto split: option.splits)
    have "hid_credit (Suc n) t"
      using t(1) 2(3) hid_main_credit hid_global_credit hid_local_credit mono [of n s "Suc n"]
      by (auto simp: hid_item_step_def split: if_splits)
    from 2(2) [OF False t(1) this t(2)] show ?thesis by (rule mono) simp
  qed
qed

text \<open>C36: what a parse leaves behind is bounded and well formed. A descriptor of \<open>n\<close> bytes gives
  at most \<open>128 * n\<close> fields, each with a usage, one of the three report types and a path that
  fits its 80 bytes with the terminator.\<close>

theorem parsed_fields_bounded:
  assumes "parseReportDescriptor desc = Some s"
  shows "length (hs_usages s) \<le> 128 * length desc \<and> list_all hid_def_ok (hs_usages s)"
proof -
  have "hid_credit 0 hid_initial" by (simp add: hid_credit_def hid_initial_def)
  then have "hid_credit (0 + length desc) s"
    using assms unfolding parseReportDescriptor_def by (rule hid_loop_credit)
  then show ?thesis by (simp add: hid_credit_def)
qed

text \<open>One 8-bit Feature field, Battery.Voltage.\<close>

abbreviation hid_example :: "u8 list" where
  "hid_example \<equiv> [0x05, 0x84, 0x09, 0x12, 0xA1, 0x00, 0x85, 0x03, 0x75, 0x08, 0x95, 0x01, 0x09, 0x30, 0xB1, 0x02, 0xC0]"

lemma hid_example_parsed:
  "map_option (map hu_path \<circ> hs_usages) (parseReportDescriptor hid_example) = Some [''Battery.Voltage'']"
  by code_simp

theorem parsed_fields_bounded_witness:
  "\<exists>s. parseReportDescriptor hid_example = Some s \<and> length (hs_usages s) \<le> 128 * 17 \<and> list_all hid_def_ok (hs_usages s)"
proof -
  obtain s where "parseReportDescriptor hid_example = Some s" using hid_example_parsed by auto
  with parsed_fields_bounded [OF this] show ?thesis by simp
qed

section \<open>The layout of a report\<close>

definition field_end :: "hid_usage_def \<Rightarrow> nat" where
  "field_end d = unat (hu_bit_offset d) + unat (hu_bit_size d)"

text \<open>The fields of a report do not overlap. An Input, Output or Feature item whose fields
  still fit the 16-bit length of their report lays its new fields one after the other behind
  the old ones, inside the new length, which grows by all the fields of the item.\<close>

theorem main_item_layout:
  assumes "it_tag it \<in> {8, 9, 11}" "rid = gs_report_id (hs_global s)"
    and "unat (len_get (lengths_of (it_tag it) s) rid) +
      unat (gs_report_count (hs_global s)) * unat (gs_report_size (hs_global s)) < 65536"
  shows "let old = unat (len_get (lengths_of (it_tag it) s) rid);
      new = unat (len_get (lengths_of (it_tag it) (hid_main it s)) rid);
      fields = drop (length (hs_usages s)) (hs_usages (hid_main it s))
    in new = old + unat (gs_report_count (hs_global s)) * unat (gs_report_size (hs_global s)) \<and>
       sorted_wrt (\<lambda>d e. field_end d \<le> unat (hu_bit_offset e)) fields \<and>
       list_all (\<lambda>d. old \<le> unat (hu_bit_offset d) \<and> field_end d \<le> new) fields"
proof -
  let ?tag = "it_tag it" and ?g = "hs_global s"
  let ?ls = "lengths_of ?tag s" and ?n = "unat (gs_report_count ?g)" and ?bits = "gs_report_size ?g"
  let ?lu = "hs_local_usages s"
  let ?js = "filter (\<lambda>j. ?lu ! j \<noteq> 0) [0..<min ?n (length ?lu)]"
  define off where "off j = len_get ?ls rid + of_nat j * ?bits" for j :: nat
  have closed: "snd (hid_fields ?n 0 s ?tag ?ls (hs_usages s)) = hs_usages s @ map (\<lambda>j. hid_def s ?tag (?lu ! j) (off j)) ?js"
    "len_get (fst (hid_fields ?n 0 s ?tag ?ls (hs_usages s))) rid = off ?n"
    using hid_fields_closed [OF refl refl refl, of ?n 0 s ?tag ?ls "hs_usages s" rid] assms(2)
    by (simp_all add: off_def)
  have off: "unat (off j) = unat (len_get ?ls rid) + j * unat ?bits" if "j \<le> ?n" for j
  proof -
    have "j * unat ?bits \<le> ?n * unat ?bits" using that by simp
    then have lt: "unat (len_get ?ls rid) + j * unat ?bits < 65536" using assms(3) by linarith
    have "off j = of_nat (unat (len_get ?ls rid) + j * unat ?bits)" by (simp add: off_def)
    moreover have "unat (of_nat (unat (len_get ?ls rid) + j * unat ?bits) :: u16) = unat (len_get ?ls rid) + j * unat ?bits"
      unfolding unat_of_nat using lt by simp
    ultimately show ?thesis by (simp only:)
  qed
  have after: "hs_usages (hid_main it s) = hs_usages s @ map (\<lambda>j. hid_def s ?tag (?lu ! j) (off j)) ?js"
    "lengths_of ?tag (hid_main it s) = fst (hid_fields ?n 0 s ?tag ?ls (hs_usages s))"
    using assms(1) closed(1)
    by (auto simp: hid_main_def split_beta Let_def clear_locals_def set_lengths_def lengths_of_def)
  have fe: "field_end (hid_def s ?tag u (off j)) = unat (off j) + unat ?bits" "hu_bit_offset (hid_def s ?tag u (off j)) = off j" for u j
    by (simp_all add: field_end_def hid_def_def Let_def)
  have next_le: "unat (off i) + unat ?bits \<le> unat (off j)" if "i < j" "j \<le> ?n" for i j
  proof -
    have "Suc i * unat ?bits \<le> j * unat ?bits" using that by (intro mult_le_mono1) simp
    then show ?thesis using that by (simp add: off)
  qed
  have "sorted_wrt (<) ?js" by (intro sorted_wrt_filter) (simp add: sorted_wrt_upt)
  then have "sorted_wrt (\<lambda>i j. unat (off i) + unat ?bits \<le> unat (off j)) ?js"
    by (rule sorted_wrt_mono_rel [rotated]) (auto intro!: next_le)
  moreover have "old \<le> unat (off j) \<and> unat (off j) + unat ?bits \<le> unat (off ?n)"
    if "j \<in> set ?js" "old = unat (len_get ?ls rid)" for j old
    using that next_le [of j ?n] off [of j] by auto
  ultimately show ?thesis
    unfolding Let_def after(2) closed(2) using off [of ?n]
    by (simp add: after(1) sorted_wrt_map fe list_all_iff)
qed

definition hid_two_fields :: hid_state where
  "hid_two_fields = hid_initial\<lparr>hs_global := (hs_global hid_initial)\<lparr>gs_report_id := 3, gs_report_size := 12, gs_report_count := 5\<rparr>,
     hs_local_usages := [0x00840030, 0x00840031], hs_feature_lengths := [(3, 4)]\<rparr>"

theorem main_item_layout_witness:
  "unat (len_get (hs_feature_lengths (hid_main \<lparr>it_type = 0, it_tag = 11, it_size = 1, it_data = 2\<rparr> hid_two_fields)) 3) = 64"
proof -
  let ?it = "\<lparr>it_type = 0, it_tag = 11, it_size = 1, it_data = 2\<rparr>"
  have "it_tag ?it \<in> {8, 9, 11}" "3 = gs_report_id (hs_global hid_two_fields)"
    "unat (len_get (lengths_of (it_tag ?it) hid_two_fields) 3) +
      unat (gs_report_count (hs_global hid_two_fields)) * unat (gs_report_size (hs_global hid_two_fields)) < 65536"
    by (simp_all add: hid_two_fields_def lengths_of_def len_get_def)
  from main_item_layout [OF this] show ?thesis
    by (simp add: Let_def) (simp add: hid_two_fields_def lengths_of_def len_get_def)
qed

end
