(* ===== verification/UpsVariables.thy ===== *)
theory UpsVariables
  imports Prelude
begin

text \<open>
  Variables and commands as the NUT server and the web API see them, without HID:
  \<open>lib/USBHostUPS/src/UpsVariables.h\<close> (comparisons that ignore case, the checks of a SET VAR,
  the descriptions) and \<open>UpsCommands.h\<close> (the instant commands).
\<close>

section \<open>Comparisons that ignore case\<close>

text \<open>The end of a list is the terminator of the C string. A pointer may be null.\<close>

fun equalsIgnoreCase_loop :: "string \<Rightarrow> string \<Rightarrow> bool" where
  "equalsIgnoreCase_loop (a # as) (b # bs) = (if lower a \<noteq> lower b then False else equalsIgnoreCase_loop as bs)"
| "equalsIgnoreCase_loop [] [] = True"
| "equalsIgnoreCase_loop [] (b # bs) = False"
| "equalsIgnoreCase_loop (a # as) [] = False"

definition equalsIgnoreCase :: "string option \<Rightarrow> string option \<Rightarrow> bool" where
  "equalsIgnoreCase a b = (case (a, b) of (Some a, Some b) \<Rightarrow> equalsIgnoreCase_loop a b | _ \<Rightarrow> False)"

text \<open>The first \<open>n\<close> characters: the loop of \<open>equalsIgnoreCaseN\<close>, counted by the characters left;
  a terminator on both sides ends it.\<close>

fun equalsIgnoreCaseN :: "string \<Rightarrow> string \<Rightarrow> nat \<Rightarrow> bool" where
  "equalsIgnoreCaseN a b 0 = True"
| "equalsIgnoreCaseN (a # as) (b # bs) (Suc n) = (if lower a \<noteq> lower b then False else equalsIgnoreCaseN as bs n)"
| "equalsIgnoreCaseN [] [] (Suc n) = True"
| "equalsIgnoreCaseN [] (b # bs) (Suc n) = False"
| "equalsIgnoreCaseN (a # as) [] (Suc n) = False"

fun compareIgnoreCase :: "string \<Rightarrow> string \<Rightarrow> int" where
  "compareIgnoreCase (a # as) (b # bs) =
     (if ord (lower a) \<noteq> ord (lower b) then int (ord (lower a)) - int (ord (lower b)) else compareIgnoreCase as bs)"
| "compareIgnoreCase [] (b # bs) = - int (ord b)"
| "compareIgnoreCase (a # as) [] = int (ord a)"
| "compareIgnoreCase [] [] = 0"

lemma equalsIgnoreCase_lower: "equalsIgnoreCase (Some a) (Some b) \<longleftrightarrow> map lower a = map lower b"
proof -
  have "equalsIgnoreCase_loop a b \<longleftrightarrow> map lower a = map lower b"
    by (induction a b rule: equalsIgnoreCase_loop.induct) auto
  then show ?thesis by (simp add: equalsIgnoreCase_def)
qed

lemma equalsIgnoreCaseN_take: "equalsIgnoreCaseN a b n \<longleftrightarrow> map lower (take n a) = map lower (take n b)"
  by (induction a b n rule: equalsIgnoreCaseN.induct) auto

section \<open>The checks of a SET VAR\<close>

record rw_variable =
  rw_name :: string
  rw_aux :: u8
  rw_enums :: "string list"
  rw_driver_side :: bool

datatype set_status = SetOk | SetUnknown | SetConversionFailed | SetFailed | SetNotConnected

datatype set_check = CheckOk | CheckNotWritable | CheckInvalidAux | CheckTooLong | CheckInvalidValue

fun rw_find :: "rw_variable list \<Rightarrow> string option \<Rightarrow> rw_variable option" where
  "rw_find [] name = None"
| "rw_find (v # vs) name = (if equalsIgnoreCase (Some (rw_name v)) name then Some v else rw_find vs name)"

text \<open>The outcome and the entry found.\<close>

definition checkSetValue :: "rw_variable list \<Rightarrow> string option \<Rightarrow> string option \<Rightarrow> set_check \<times> rw_variable option" where
  "checkSetValue rw name value =
     (case rw_find rw name of
        None \<Rightarrow> (CheckNotWritable, None)
      | Some var \<Rightarrow>
          if rw_aux var < 1 then (CheckInvalidAux, Some var)
          else let value = (case value of None \<Rightarrow> [] | Some v \<Rightarrow> v)
               in if unat (rw_aux var) < length value then (CheckTooLong, Some var)
                  else if rw_enums var \<noteq> []
                  then (if list_ex (\<lambda>e. e = value) (rw_enums var) then (CheckOk, Some var) else (CheckInvalidValue, Some var))
                  else (CheckOk, Some var))"

section \<open>Descriptions and commands\<close>

text \<open>The rows of \<open>cmdvartab\<close>; \<open>None\<close> for a variable it does not describe.\<close>

definition descs :: "(string \<times> string option) list" where
  "descs =
    [(''battery.charge.low'', Some ''Remaining battery level when UPS switches to LB (percent)''),
     (''battery.charge.restart'', Some ''Minimum battery level for restart after power off (percent)''),
     (''battery.energysave'', Some ''Switch off when running on battery and no/low load''),
     (''battery.energysave.delay'', Some ''Delay before switch off UPS if on battery and load level low (min)''),
     (''battery.energysave.load'', Some ''Switch off UPS if on battery and load level lower (percent)''),
     (''battery.energysave.realpower'', Some ''Switch off UPS if on battery and load level lower (Watts)''),
     (''battery.mfr.date'', Some ''Battery manufacturing date''),
     (''battery.protection'', Some ''Prevent deep discharge of battery''),
     (''battery.runtime.low'', Some ''Remaining battery runtime when UPS switches to LB (seconds)''),
     (''input.bypass.switchable'', Some ''Input auto transfer on Bypass when overload or out of tolerance (enabled or disabled)''),
     (''input.frequency.extended'', Some ''Extended input frequency range''),
     (''input.sensitivity'', Some ''Input power sensitivity''),
     (''input.transfer.boost.high'', Some ''High voltage boosting transfer point (V)''),
     (''input.transfer.boost.low'', Some ''Low voltage boosting transfer point (V)''),
     (''input.transfer.bypass.forced'', Some ''Rule for allow auto Bypass switch (on/off) transfer modes (enabled or disabled)''),
     (''input.transfer.bypass.high'', Some ''High voltage Bypass transfer point (V)''),
     (''input.transfer.bypass.low'', Some ''Low voltage Bypass transfer point (V)''),
     (''input.transfer.bypass.outlimits'', Some ''Rule for auto transfer on Bypass when out of tolerance (enabled or disabled)''),
     (''input.transfer.bypass.overload'', Some ''Rule for auto transfer on Bypass when overload (enabled or disabled)''),
     (''input.transfer.eco.high'', Some ''High voltage ECO transfer point (V)''),
     (''input.transfer.eco.low'', Some ''Low voltage ECO transfer point (V)''),
     (''input.transfer.frequency.bypass.range'', Some ''Frequency range Bypass transfer point (percent of nominal Hz)''),
     (''input.transfer.frequency.eco.range'', Some ''Frequency range ECO transfer point (percent of nominal Hz)''),
     (''input.transfer.high'', Some ''High voltage transfer point (V)''),
     (''input.transfer.hysteresis'', Some ''Threshold of switching protection modes, voltage transfer point (V)''),
     (''input.transfer.low'', Some ''Low voltage transfer point (V)''),
     (''input.transfer.trim.high'', Some ''High voltage trimming transfer point (V)''),
     (''input.transfer.trim.low'', Some ''Low voltage trimming transfer point (V)''),
     (''input.voltage.extended'', Some ''Extended input voltage range''),
     (''outlet.1.autoswitch.charge.low'', Some ''Remaining battery level to power off this outlet (percent)''),
     (''outlet.1.delay.shutdown'', Some ''Interval to wait before shutting down this outlet (seconds)''),
     (''outlet.1.delay.start'', Some ''Interval to wait before restarting this outlet (seconds)''),
     (''outlet.1.desc'', Some ''Outlet description''),
     (''outlet.2.autoswitch.charge.low'', Some ''Remaining battery level to power off this outlet (percent)''),
     (''outlet.2.delay.shutdown'', Some ''Interval to wait before shutting down this outlet (seconds)''),
     (''outlet.2.delay.start'', Some ''Interval to wait before restarting this outlet (seconds)''),
     (''outlet.2.desc'', Some ''Outlet description''),
     (''outlet.2.switchable'', Some ''Outlet switch ability''),
     (''outlet.3.autoswitch.charge.low'', None),
     (''outlet.3.delay.shutdown'', None),
     (''outlet.3.delay.start'', None),
     (''outlet.3.desc'', None),
     (''outlet.3.switchable'', None),
     (''outlet.desc'', Some ''Outlet description''),
     (''outlet.power'', None),
     (''output.voltage.nominal'', Some ''Nominal output voltage (V)''),
     (''ups.date'', Some ''Internal UPS clock date''),
     (''ups.delay.shutdown'', Some ''Interval to wait after shutdown with delay command (seconds)''),
     (''ups.delay.start'', Some ''Interval to wait before (re)starting the load (seconds)''),
     (''ups.load.high'', Some ''Load when UPS switches to overload condition (percent)''),
     (''ups.shutdown'', Some ''Enable or disable UPS shutdown ability (poweroff)''),
     (''ups.start.auto'', Some ''UPS starts when mains is (re)applied''),
     (''ups.start.battery'', Some ''Allow to start UPS from battery''),
     (''ups.start.reboot'', Some ''UPS reboots when power returns during shutdown delay''),
     (''ups.test.interval'', Some ''Interval between self tests (seconds)''),
     (''ups.time'', Some ''Internal UPS clock time'')]"

fun desc_find :: "(string \<times> string option) list \<Rightarrow> string option \<Rightarrow> string option" where
  "desc_find [] name = None"
| "desc_find (d # ds) name = (if equalsIgnoreCase (Some (fst d)) name then snd d else desc_find ds name)"

definition describe :: "string option \<Rightarrow> string option" where
  "describe name = (case name of None \<Rightarrow> None | Some n \<Rightarrow> desc_find descs (Some n))"

record ups_command_info =
  ci_name :: string
  ci_description :: string
  ci_destructive :: bool

datatype command_result = CmdOk | CmdNotSupported | CmdNotConnected | CmdFailed | CmdInvalidArgument

definition ups_commands :: "ups_command_info list" where
  "ups_commands =
    [\<lparr>ci_name = ''beeper.enable'', ci_description = ''Enable the UPS beeper'', ci_destructive = False\<rparr>,
     \<lparr>ci_name = ''beeper.disable'', ci_description = ''Disable the UPS beeper'', ci_destructive = False\<rparr>,
     \<lparr>ci_name = ''beeper.toggle'', ci_description = ''Toggle the UPS beeper'', ci_destructive = False\<rparr>,
     \<lparr>ci_name = ''beeper.mute'', ci_description = ''Temporarily mute the UPS beeper'', ci_destructive = False\<rparr>,
     \<lparr>ci_name = ''test.battery.start'', ci_description = ''Start a battery test'', ci_destructive = False\<rparr>,
     \<lparr>ci_name = ''test.battery.start.quick'', ci_description = ''Start a quick battery test'', ci_destructive = False\<rparr>,
     \<lparr>ci_name = ''test.battery.start.deep'', ci_description = ''Start a deep battery test'', ci_destructive = False\<rparr>,
     \<lparr>ci_name = ''test.battery.stop'', ci_description = ''Stop the battery test'', ci_destructive = False\<rparr>,
     \<lparr>ci_name = ''test.panel.start'', ci_description = ''Start testing the UPS panel'', ci_destructive = False\<rparr>,
     \<lparr>ci_name = ''test.panel.stop'', ci_description = ''Stop a UPS panel test'', ci_destructive = False\<rparr>,
     \<lparr>ci_name = ''load.off'', ci_description = ''Turn off the load immediately'', ci_destructive = True\<rparr>,
     \<lparr>ci_name = ''load.on'', ci_description = ''Turn on the load immediately'', ci_destructive = True\<rparr>,
     \<lparr>ci_name = ''load.off.delay'', ci_description = ''Turn off the load with a delay (seconds)'', ci_destructive = True\<rparr>,
     \<lparr>ci_name = ''load.on.delay'', ci_description = ''Turn on the load with a delay (seconds)'', ci_destructive = True\<rparr>,
     \<lparr>ci_name = ''shutdown.return'', ci_description = ''Turn off the load and return when power is back'', ci_destructive = True\<rparr>,
     \<lparr>ci_name = ''shutdown.stayoff'', ci_description = ''Turn off the load and remain off'', ci_destructive = True\<rparr>,
     \<lparr>ci_name = ''shutdown.stop'', ci_description = ''Stop a shutdown in progress'', ci_destructive = True\<rparr>,
     \<lparr>ci_name = ''shutdown.reboot'', ci_description = ''Shut down the load briefly while rebooting the UPS'', ci_destructive = True\<rparr>,
     \<lparr>ci_name = ''shutdown.default'', ci_description = ''Run the driver-defined UPS shutdown sequence (as opposed to user-configured '' @ [CHR 0x27] @ ''sdcommands'' @ [CHR 0x27] @ '')'', ci_destructive = True\<rparr>]"

fun command_lookup :: "string \<Rightarrow> ups_command_info list \<Rightarrow> ups_command_info option" where
  "command_lookup name [] = None"
| "command_lookup name (c # cs) = (if ci_name c = name then Some c else command_lookup name cs)"

definition command_find :: "string option \<Rightarrow> ups_command_info option" where
  "command_find name = (case name of None \<Rightarrow> None | Some n \<Rightarrow> command_lookup n ups_commands)"

section \<open>Properties\<close>

lemma rw_find_Some:
  "rw_find rw (Some name) = Some v \<longleftrightarrow>
     (\<exists>xs ys. rw = xs @ v # ys \<and> map lower (rw_name v) = map lower name \<and>
        \<not> (\<exists>x \<in> set xs. map lower (rw_name x) = map lower name))"
proof (induction rw)
  case Nil
  then show ?case by simp
next
  case (Cons r rs)
  show ?case
  proof (cases "map lower (rw_name r) = map lower name")
    case True
    have "(\<exists>xs ys. r # rs = xs @ v # ys \<and> map lower (rw_name v) = map lower name \<and>
        \<not> (\<exists>x \<in> set xs. map lower (rw_name x) = map lower name)) \<longleftrightarrow> v = r"
    proof
      assume "\<exists>xs ys. r # rs = xs @ v # ys \<and> map lower (rw_name v) = map lower name \<and>
        \<not> (\<exists>x \<in> set xs. map lower (rw_name x) = map lower name)"
      then obtain xs ys where "r # rs = xs @ v # ys" "\<not> (\<exists>x \<in> set xs. map lower (rw_name x) = map lower name)" by blast
      then show "v = r" using True by (cases xs) auto
    next
      assume "v = r"
      then have "r # rs = [] @ v # rs" by simp
      then show "\<exists>xs ys. r # rs = xs @ v # ys \<and> map lower (rw_name v) = map lower name \<and>
        \<not> (\<exists>x \<in> set xs. map lower (rw_name x) = map lower name)" using True \<open>v = r\<close>
        by (intro exI [of _ "[]"] exI [of _ rs]) simp
    qed
    with True show ?thesis by (auto simp: equalsIgnoreCase_lower)
  next
    case False
    have "(\<exists>xs ys. r # rs = xs @ v # ys \<and> map lower (rw_name v) = map lower name \<and>
        \<not> (\<exists>x \<in> set xs. map lower (rw_name x) = map lower name)) \<longleftrightarrow>
      (\<exists>xs ys. rs = xs @ v # ys \<and> map lower (rw_name v) = map lower name \<and>
        \<not> (\<exists>x \<in> set xs. map lower (rw_name x) = map lower name))" (is "?L \<longleftrightarrow> ?R")
    proof
      assume ?L
      then obtain xs ys where L: "r # rs = xs @ v # ys" "map lower (rw_name v) = map lower name"
        "\<not> (\<exists>x \<in> set xs. map lower (rw_name x) = map lower name)" by blast
      then show ?R using False by (cases xs) auto
    next
      assume ?R
      then obtain xs ys where R: "rs = xs @ v # ys" "map lower (rw_name v) = map lower name"
        "\<not> (\<exists>x \<in> set xs. map lower (rw_name x) = map lower name)" by blast
      then show ?L using False by (intro exI [of _ "r # xs"] exI [of _ ys]) simp
    qed
    with Cons False show ?thesis by (simp add: equalsIgnoreCase_lower)
  qed
qed

lemma rw_find_in: "rw_find rw name = Some v \<Longrightarrow> v \<in> set rw"
  by (induction rw) (auto split: if_splits)

text \<open>What a SET VAR may write. The checks accept exactly the values whose variable, found
  ignoring case, is in the catalog, has a maximum length, is long enough for the text, and,
  when it has listed values, lists the text.\<close>

theorem set_value_accepted:
  "fst (checkSetValue rw (Some name) (Some text)) = CheckOk \<longleftrightarrow>
     (\<exists>v. snd (checkSetValue rw (Some name) (Some text)) = Some v \<and> v \<in> set rw \<and>
        map lower (rw_name v) = map lower name \<and> length text \<le> unat (rw_aux v) \<and> 0 < unat (rw_aux v) \<and>
        (rw_enums v = [] \<or> text \<in> set (rw_enums v)))"
proof (cases "rw_find rw (Some name)")
  case None
  then show ?thesis by (simp add: checkSetValue_def)
next
  case (Some v)
  then have v: "v \<in> set rw" "map lower (rw_name v) = map lower name"
    using rw_find_in rw_find_Some by blast+
  have aux: "rw_aux v < 1 \<longleftrightarrow> unat (rw_aux v) = 0" by (simp add: word_less_nat_alt)
  show ?thesis
    using v by (auto simp: checkSetValue_def Some Let_def aux list_ex_iff unat_gt_0 [symmetric] simp del: unat_gt_0)
qed

lemma zero_length_never_set:
  "rw_find rw (Some name) = Some v \<Longrightarrow> rw_aux v = 0 \<Longrightarrow> fst (checkSetValue rw (Some name) value) = CheckInvalidAux"
  by (simp add: checkSetValue_def Let_def)

lemma compareIgnoreCase_eq: "compareIgnoreCase a b = 0 \<Longrightarrow> map lower a = map lower b \<or> (CHR 0x00) \<in> set a \<union> set b"
  by (induction a b rule: compareIgnoreCase.induct) (auto simp: ord_inject split: if_splits)

text \<open>No two commands share a name, so the lookup finds each of them.\<close>

lemma command_names_distinct: "distinct (map ci_name ups_commands)"
  by (simp add: ups_commands_def)

lemma command_lookup_distinct:
  "distinct (map ci_name cs) \<Longrightarrow> c \<in> set cs \<Longrightarrow> command_lookup (ci_name c) cs = Some c"
  by (induction cs) auto

lemma command_found: "c \<in> set ups_commands \<Longrightarrow> command_find (Some (ci_name c)) = Some c"
  using command_lookup_distinct [OF command_names_distinct] by (simp add: command_find_def)

text \<open>Exactly the load and shutdown commands cut power.\<close>

lemma destructive_commands:
  "list_all (\<lambda>c. ci_destructive c \<longleftrightarrow> starts_with (ci_name c) ''load.'' \<or> starts_with (ci_name c) ''shutdown.'') ups_commands"
  by (simp add: ups_commands_def starts_with_def)

end
