(* ===== verification/CLib.thy ===== *)
theory CLib
  imports HidReports
begin

text \<open>
  The functions of the C library that the conversions of the NUT tables use: \<open>printf\<close> of fixed
  point and padded numbers, \<open>strtod\<close>, \<open>atoi\<close>, \<open>gmtime\<close> with \<open>strftime\<close>. A double is a rational;
  \<open>printf\<close> rounds its exact value to nearest, ties to even.
\<close>

section \<open>Numbers as text\<close>

definition pad0 :: "nat \<Rightarrow> string \<Rightarrow> string" where
  "pad0 n s = replicate (n - length s) (CHR ''0'') @ s"

text \<open>\<open>%.df\<close>\<close>

definition fmt_fixed :: "nat \<Rightarrow> rat \<Rightarrow> string" where
  "fmt_fixed d q =
     (let n = nat (llrint (\<bar>q\<bar> * 10 ^ d));
          text = (if d = 0 then dec n else dec (n div 10 ^ d) @ ''.'' @ pad0 d (dec (n mod 10 ^ d)))
      in if q < 0 then CHR ''-'' # text else text)"

text \<open>A conversion of a double to an integer type truncates towards zero.\<close>

definition to_int :: "rat \<Rightarrow> int" where
  "to_int q = (if 0 \<le> q then floor q else - floor (- q))"

lemma to_int_of_int [simp]: "to_int (of_int n) = n"
  by (simp add: to_int_def)

section \<open>Numbers from text\<close>

definition isSpaceChar :: "char \<Rightarrow> bool" where
  "isSpaceChar c \<longleftrightarrow> c = CHR '' '' \<or> c = CHR 0x09 \<or> c = CHR 0x0A \<or> c = CHR 0x0B \<or> c = CHR 0x0C \<or> c = CHR 0x0D"

definition skip_spaces :: "string \<Rightarrow> string" where
  "skip_spaces s = dropWhile isSpaceChar s"

definition read_sign :: "string \<Rightarrow> bool \<times> string" where
  "read_sign s = (case s of
      c # r \<Rightarrow> if c = CHR ''-'' then (True, r) else if c = CHR ''+'' then (False, r) else (False, s)
    | [] \<Rightarrow> (False, s))"

definition atoi :: "string \<Rightarrow> int" where
  "atoi s = (let (neg, r) = read_sign (skip_spaces s); v = int (digits_value (takeWhile is_digit r))
     in if neg then - v else v)"

definition read_exponent :: "string \<Rightarrow> int" where
  "read_exponent s = (case s of
      c # r \<Rightarrow> if c = CHR ''e'' \<or> c = CHR ''E''
        then let (neg, r) = read_sign r; v = int (digits_value (takeWhile is_digit r)) in if neg then - v else v
        else 0
    | [] \<Rightarrow> 0)"

text \<open>Decimal notation, with an optional exponent; 0 when there is no number.\<close>

definition strtod :: "string \<Rightarrow> rat" where
  "strtod s =
     (let (neg, r) = read_sign (skip_spaces s);
          whole = takeWhile is_digit r;
          r = dropWhile is_digit r;
          frac = (case r of c # r' \<Rightarrow> if c = CHR ''.'' then takeWhile is_digit r' else [] | [] \<Rightarrow> []);
          r = (case r of c # r' \<Rightarrow> if c = CHR ''.'' then dropWhile is_digit r' else r | [] \<Rightarrow> []);
          v = (if whole = [] \<and> frac = [] then 0
               else (of_nat (digits_value whole) + of_nat (digits_value frac) / 10 ^ length frac) * pow10 (read_exponent r))
      in if neg then - v else v)"

section \<open>The calendar\<close>

definition leap_year :: "int \<Rightarrow> bool" where
  "leap_year y \<longleftrightarrow> (y mod 4 = 0 \<and> y mod 100 \<noteq> 0) \<or> y mod 400 = 0"

definition year_days :: "int \<Rightarrow> nat" where
  "year_days y = (if leap_year y then 366 else 365)"

definition month_days :: "int \<Rightarrow> nat \<Rightarrow> nat" where
  "month_days y m = (if m = 2 then (if leap_year y then 29 else 28) else if m \<in> {4, 6, 9, 11} then 30 else 31)"

text \<open>The day of a 400-year cycle as year and day of the year, then as month and day.\<close>

function cal_year :: "int \<Rightarrow> nat \<Rightarrow> int \<times> nat" where
  "cal_year y d = (if d < year_days y then (y, d) else cal_year (y + 1) (d - year_days y))"
  by pat_completeness auto
termination by (relation "measure snd") (auto simp: year_days_def split: if_splits)

declare cal_year.simps [simp del]

text \<open>Months are counted down to December, so that the recursion is structural.\<close>

fun cal_month :: "nat \<Rightarrow> int \<Rightarrow> nat \<Rightarrow> nat \<times> nat" where
  "cal_month 0 y d = (12, d)"
| "cal_month (Suc k) y d = (if d < month_days y (12 - Suc k) then (12 - Suc k, d) else cal_month k y (d - month_days y (12 - Suc k)))"

record calendar =
  c_year :: int
  c_month :: nat
  c_day :: nat
  c_hour :: nat
  c_minute :: nat
  c_second :: nat

definition gmtime :: "int \<Rightarrow> calendar" where
  "gmtime sec =
     (let days = sec div 86400; rest = nat (sec mod 86400);
          (y, yday) = cal_year (1970 + 400 * (days div 146097)) (nat (days mod 146097));
          (m, d) = cal_month 11 y yday
      in \<lparr>c_year = y, c_month = m, c_day = d + 1,
          c_hour = rest div 3600, c_minute = rest div 60 mod 60, c_second = rest mod 60\<rparr>)"

definition two :: "nat \<Rightarrow> string" where
  "two n = pad0 2 (dec n)"

definition strftime_date :: "calendar \<Rightarrow> string" where
  "strftime_date t = dec_int (c_year t) @ ''/'' @ two (c_month t) @ ''/'' @ two (c_day t)"

definition strftime_time :: "calendar \<Rightarrow> string" where
  "strftime_time t = two (c_hour t) @ '':'' @ two (c_minute t) @ '':'' @ two (c_second t)"

end
