(* ===== verification/NutTable.thy ===== *)
theory NutTable
  imports CLib UpsData UpsVariables
begin

text \<open>
  The model of \<open>lib/USBHostUPS/src/NutTable.h\<close>: the rows of a HID to NUT table, their lookup
  tables, the status bits of the BOOL rows with the \<open>ups.status.*\<close> keys made from them, and the
  state that the internal rows keep. A value read from a report is a rational, like the result
  of \<open>extractUsage\<close>; \<open>(int)v\<close> and \<open>(long)v\<close> to_int it.
\<close>

section \<open>Rows\<close>

abbreviation (input) ST_FLAG_RW :: u16 where "ST_FLAG_RW \<equiv> 0x0001"
abbreviation (input) ST_FLAG_STRING :: u16 where "ST_FLAG_STRING \<equiv> 0x0002"
abbreviation (input) HU_FLAG_STATIC :: u16 where "HU_FLAG_STATIC \<equiv> 2"
abbreviation (input) HU_FLAG_SEMI_STATIC :: u16 where "HU_FLAG_SEMI_STATIC \<equiv> 4"
abbreviation (input) HU_FLAG_ABSENT :: u16 where "HU_FLAG_ABSENT \<equiv> 8"
abbreviation (input) HU_FLAG_QUICK_POLL :: u16 where "HU_FLAG_QUICK_POLL \<equiv> 16"
abbreviation (input) HU_TYPE_CMD :: u16 where "HU_TYPE_CMD \<equiv> 64"
abbreviation (input) HU_FLAG_ENUM :: u16 where "HU_FLAG_ENUM \<equiv> 128"
abbreviation (input) HU_FLAG_PARAM_REQUIRED :: u16 where "HU_FLAG_PARAM_REQUIRED \<equiv> 256"
abbreviation (input) HU_FLAG_ANY_INDEX :: u16 where "HU_FLAG_ANY_INDEX \<equiv> 0x8000"

datatype conv =
    CvNumber
  | CvLookup
  | CvBatteryDate
  | CvMgeDate
  | CvMgeTime
  | CvNominalVoltage
  | CvPegasusThreshold
  | CvPegasusYesNo
  | CvStringId
  | CvKelvinCelsius
  | CvMgeBatteryCapacity
  | CvMgeBatteryVoltage
  | CvMgeBatteryVoltageNominal
  | CvMgeCountry
  | CvAbmEnabled
  | CvAbmPathMode
  | CvAbmPathStatus
  | CvAbmStatus
  | CvAbmChrgDischrg
  | CvEatonDischarging
  | CvEatonCharging
  | CvEatonConverterOnline
  | CvMgePowerFactor
  | CvEatonComputeRealpower
  | CvCpsBattCharge
  | CvCpsBattStatus
  | CvCpsBattVolt
  | CvCpsInputFreq
  | CvCpsOutputFreq
  | CvApcDate
  | CvPowercomHackVoltage
  | CvPowercomVoltage
  | CvPowercomStartup
  | CvPowercomShutdown
  | CvPowercomUpsfail
  | CvPowercomReplacebatt
  | CvPowercomTest
  | CvPowercomShutdownimm
  | CvPowercomOnline
  | CvPowercomLowbatt
  | CvPowercomTrim
  | CvPowercomBoost
  | CvPowercomOverload
  | CvEcoflowRuntime
  | CvOpenupsVin
  | CvOpenupsVout
  | CvOpenupsCcharge
  | CvOpenupsCdischarge
  | CvOpenupsTemperature
  | CvOpenupsCharging
  | CvOpenupsDischarging
  | CvOpenupsOnline
  | CvOpenupsOff

text \<open>\<open>Lookup\<close>: HID value and NUT text. A row without a table has the empty one.\<close>

type_synonym lookup = "(int \<times> string) list"

record hid_info =
  hi_info_type :: string
  hi_info_flags :: u16
  hi_info_len :: u8
  hi_hidpath :: string
  hi_dfl :: "string option"
  hi_hidflags :: u16
  hi_conv :: conv
  hi_lkp :: lookup

text \<open>The row constructor, with the fields in the order of the tables.\<close>

definition row :: "string \<Rightarrow> u16 \<Rightarrow> u8 \<Rightarrow> string \<Rightarrow> string option \<Rightarrow> u16 \<Rightarrow> conv \<Rightarrow> lookup \<Rightarrow> hid_info" where
  "row t f n p d h c l = \<lparr>hi_info_type = t, hi_info_flags = f, hi_info_len = n, hi_hidpath = p,
     hi_dfl = d, hi_hidflags = h, hi_conv = c, hi_lkp = l\<rparr>"

section \<open>Lookup tables\<close>

definition kYesNo :: lookup where
  "kYesNo = [(0, ''no''), (1, ''yes'')]"

definition kEnableDisable :: lookup where
  "kEnableDisable = [(0, ''disabled''), (1, ''enabled'')]"

definition kApcSensitivity :: lookup where
  "kApcSensitivity = [(0, ''low''), (1, ''medium''), (2, ''high'')]"

definition kCpsSensitivity :: lookup where
  "kCpsSensitivity = [(0, ''low''), (1, ''normal''), (2, ''high'')]"

definition kMgeSensitivity :: lookup where
  "kMgeSensitivity = [(0, ''normal''), (1, ''high''), (2, ''low'')]"

definition kNominalOutputVoltage :: lookup where
  "kNominalOutputVoltage = [(200, ''200''), (208, ''208''), (220, ''220''), (230, ''230''), (240, ''240''), (100, ''100''), (110, ''110''), (120, ''120''), (127, ''127'')]"

definition kPegasusThreshold :: lookup where
  "kPegasusThreshold = [(10, ''10''), (25, ''25''), (60, ''60'')]"

definition kTestRead :: lookup where
  "kTestRead = [(1, ''Done and passed''), (2, ''Done and warning''), (3, ''Done and error''), (4, ''Aborted''), (5, ''In progress''), (6, ''No test initiated''), (7, ''Test scheduled'')]"

definition kEatonChargerType :: lookup where
  "kEatonChargerType = [(0, ''None''), (1, ''Extended (CLA)''), (2, ''Large extension''), (3, ''Extra large extension (XL)''), (4, ''ABM''), (5, ''Constant Charge (CC)'')]"

definition kOnlineInfo :: lookup where
  "kOnlineInfo = [(1, ''online''), (0, ''offline'')]"

definition kDischargingInfo :: lookup where
  "kDischargingInfo = [(1, ''dischrg''), (0, ''!dischrg'')]"

definition kChargingInfo :: lookup where
  "kChargingInfo = [(1, ''chrg''), (0, ''!chrg'')]"

definition kLowbattInfo :: lookup where
  "kLowbattInfo = [(1, ''lowbatt''), (0, ''!lowbatt'')]"

definition kOverloadInfo :: lookup where
  "kOverloadInfo = [(1, ''overload''), (0, ''!overload'')]"

definition kReplacebattInfo :: lookup where
  "kReplacebattInfo = [(1, ''replacebatt''), (0, ''!replacebatt'')]"

definition kTrimInfo :: lookup where
  "kTrimInfo = [(1, ''trim''), (0, ''!trim'')]"

definition kBoostInfo :: lookup where
  "kBoostInfo = [(1, ''boost''), (0, ''!boost'')]"

definition kBypassAutoInfo :: lookup where
  "kBypassAutoInfo = [(1, ''bypassauto''), (0, ''!bypassauto'')]"

definition kBypassManualInfo :: lookup where
  "kBypassManualInfo = [(1, ''bypassman''), (0, ''!bypassman'')]"

definition kEcoModeInfo :: lookup where
  "kEcoModeInfo = [(0, ''normal''), (1, ''ecomode''), (2, ''essmode'')]"

definition kOffInfo :: lookup where
  "kOffInfo = [(0, ''off''), (1, ''!off'')]"

definition kNobatteryInfo :: lookup where
  "kNobatteryInfo = [(1, ''!nobattery''), (0, ''nobattery'')]"

definition kFanfailInfo :: lookup where
  "kFanfailInfo = [(1, ''fanfail''), (0, ''!fanfail'')]"

definition kShutdownimmInfo :: lookup where
  "kShutdownimmInfo = [(1, ''shutdownimm''), (0, ''!shutdownimm'')]"

definition kOverheatInfo :: lookup where
  "kOverheatInfo = [(1, ''overheat''), (0, ''!overheat'')]"

definition kCommfaultInfo :: lookup where
  "kCommfaultInfo = [(1, ''commfault''), (0, ''!commfault'')]"

definition kBattvoltloInfo :: lookup where
  "kBattvoltloInfo = [(1, ''battvoltlo''), (0, ''!battvoltlo'')]"

definition kBattvolthiInfo :: lookup where
  "kBattvolthiInfo = [(1, ''battvolthi''), (0, ''!battvolthi'')]"

definition kChargerfailInfo :: lookup where
  "kChargerfailInfo = [(1, ''chargerfail''), (0, ''!chargerfail'')]"

definition kVrangeInfo :: lookup where
  "kVrangeInfo = [(0, ''!vrange''), (1, ''vrange'')]"

definition kFrangeInfo :: lookup where
  "kFrangeInfo = [(0, ''!frange''), (1, ''frange'')]"

definition kMgeOnbattInfo :: lookup where
  "kMgeOnbattInfo = [(1, ''!online''), (0, ''online'')]"

definition kFullychargedInfo :: lookup where
  "kFullychargedInfo = [(1, ''fullycharged''), (0, ''notfullycharged'')]"

definition kDepletedInfo :: lookup where
  "kDepletedInfo = [(1, ''depleted''), (0, ''!depleted'')]"

definition kTimelimitexpiredInfo :: lookup where
  "kTimelimitexpiredInfo = [(1, ''timelimitexp''), (0, ''!timelimitexp'')]"

definition kApcStatusFlag :: lookup where
  "kApcStatusFlag = [(8, ''!off''), (16, ''!off''), (0, ''off'')]"

definition kApcLineFailCauseVrange :: lookup where
  "kApcLineFailCauseVrange = [(1, ''vrange''), (2, ''vrange''), (4, ''vrange''), (8, ''vrange''), (9, ''vrange''), (0, ''!vrange'')]"

definition kApcLineFailCauseFrange :: lookup where
  "kApcLineFailCauseFrange = [(7, ''frange''), (0, ''!frange'')]"

definition kPowercomBeeperInfo :: lookup where
  "kPowercomBeeperInfo = [(1, ''enabled''), (2, ''disabled'')]"

definition kMgeEmergencyStop :: lookup where
  "kMgeEmergencyStop = [(1, ''Emergency stop!'')]"

definition kMgeWiringFault :: lookup where
  "kMgeWiringFault = [(1, ''Wiring fault!'')]"

definition kMgeConfigFailure :: lookup where
  "kMgeConfigFailure = [(1, ''Fatal EEPROM fault!'')]"

definition kMgeInverterVolthi :: lookup where
  "kMgeInverterVolthi = [(1, ''Inverter AC voltage too high!'')]"

definition kMgeInverterVoltlo :: lookup where
  "kMgeInverterVoltlo = [(1, ''Inverter AC voltage too low!'')]"

definition kMgeShortCircuit :: lookup where
  "kMgeShortCircuit = [(1, ''Output short circuit!'')]"

definition kBeeperInfo :: lookup where
  "kBeeperInfo = [(1, ''disabled''), (2, ''enabled''), (3, ''muted'')]"

definition kOnOff :: lookup where
  "kOnOff = [(0, ''off''), (1, ''on'')]"

definition kUpsType :: lookup where
  "kUpsType = [(1, ''offline / line interactive''), (2, ''online''), (3, ''online - unitary/parallel''), (4, ''online - parallel with hot standy''), (5, ''online - hot standby redundancy'')]"

definition kOutletProtection :: lookup where
  "kOutletProtection = [(0, ''not powered''), (1, ''not protected''), (2, ''protected'')]"

definition kOutletEco :: lookup where
  "kOutletEco = [(0, ''The outlet is not ECO controlled''), (1, ''The outlet is ECO controlled'')]"

section \<open>Constants of the conversions\<close>

abbreviation (input) MGE_DEFAULT_OFFLINE :: int where "MGE_DEFAULT_OFFLINE \<equiv> 0"
abbreviation (input) MGE_PEGASUS :: int where "MGE_PEGASUS \<equiv> 0x100"
abbreviation (input) MGE_3S :: int where "MGE_3S \<equiv> 0x110"
abbreviation (input) MGE_DEFAULT :: int where "MGE_DEFAULT \<equiv> 0x200"
abbreviation (input) MGE_EVOLUTION :: int where "MGE_EVOLUTION \<equiv> 0x300"
abbreviation (input) MGE_EVOLUTION_650 :: int where "MGE_EVOLUTION_650 \<equiv> 0x301"
abbreviation (input) MGE_EVOLUTION_850 :: int where "MGE_EVOLUTION_850 \<equiv> 0x302"
abbreviation (input) MGE_EVOLUTION_1150 :: int where "MGE_EVOLUTION_1150 \<equiv> 0x303"
abbreviation (input) MGE_EVOLUTION_S_1250 :: int where "MGE_EVOLUTION_S_1250 \<equiv> 0x304"
abbreviation (input) MGE_EVOLUTION_1550 :: int where "MGE_EVOLUTION_1550 \<equiv> 0x305"
abbreviation (input) MGE_EVOLUTION_S_1750 :: int where "MGE_EVOLUTION_S_1750 \<equiv> 0x306"
abbreviation (input) MGE_EVOLUTION_2000 :: int where "MGE_EVOLUTION_2000 \<equiv> 0x307"
abbreviation (input) MGE_EVOLUTION_S_2500 :: int where "MGE_EVOLUTION_S_2500 \<equiv> 0x308"
abbreviation (input) MGE_EVOLUTION_S_3000 :: int where "MGE_EVOLUTION_S_3000 \<equiv> 0x309"
abbreviation (input) MGE_PULSAR_M :: int where "MGE_PULSAR_M \<equiv> 0x400"
abbreviation (input) MGE_PULSAR_M_2200 :: int where "MGE_PULSAR_M_2200 \<equiv> 0x401"
abbreviation (input) MGE_PULSAR_M_3000 :: int where "MGE_PULSAR_M_3000 \<equiv> 0x402"
abbreviation (input) MGE_PULSAR_M_3000_XL :: int where "MGE_PULSAR_M_3000_XL \<equiv> 0x403"
abbreviation (input) EATON_5P :: int where "EATON_5P \<equiv> 0x500"
abbreviation (input) EATON_9E :: int where "EATON_9E \<equiv> 0x900"
abbreviation (input) COUNTRY_UNKNOWN :: int where "COUNTRY_UNKNOWN \<equiv> -1"
abbreviation (input) COUNTRY_EUROPE :: int where "COUNTRY_EUROPE \<equiv> 0"
abbreviation (input) ABM_UNKNOWN :: int where "ABM_UNKNOWN \<equiv> -1"
abbreviation (input) ABM_DISABLED :: int where "ABM_DISABLED \<equiv> 0"
abbreviation (input) ABM_ENABLED :: int where "ABM_ENABLED \<equiv> 1"
abbreviation (input) ABM_PATH_UNKNOWN :: int where "ABM_PATH_UNKNOWN \<equiv> -1"
abbreviation (input) ABM_PATH_STATUS :: int where "ABM_PATH_STATUS \<equiv> 0"
abbreviation (input) ABM_PATH_MODE :: int where "ABM_PATH_MODE \<equiv> 1"

section \<open>Status bits\<close>

record status_bits =
  sb_set :: u32
  sb_known :: u32

definition kStatusTokens :: "string list" where
  "kStatusTokens =
    [''online'', ''offline'', ''dischrg'', ''chrg'', ''lowbatt'', ''overload'', ''replacebatt'', ''shutdownimm'',
     ''trim'', ''boost'', ''bypassauto'', ''bypassman'', ''ecomode'', ''essmode'', ''off'', ''cal'',
     ''overheat'', ''commfault'', ''depleted'', ''timelimitexp'', ''fullycharged'', ''notfullycharged'',
     ''awaitingpower'', ''fanfail'', ''nobattery'', ''battvoltlo'', ''battvolthi'', ''chargerfail'',
     ''vrange'', ''frange'']"

abbreviation (input) ST_ONLINE :: nat where "ST_ONLINE \<equiv> 0"
abbreviation (input) ST_OFFLINE :: nat where "ST_OFFLINE \<equiv> 1"
abbreviation (input) ST_OFF :: nat where "ST_OFF \<equiv> 14"
abbreviation (input) ST_FULLYCHARGED :: nat where "ST_FULLYCHARGED \<equiv> 20"
abbreviation (input) ST_NOTFULLYCHARGED :: nat where "ST_NOTFULLYCHARGED \<equiv> 21"
abbreviation (input) ST_NOBATTERY :: nat where "ST_NOBATTERY \<equiv> 24"

definition statusBit :: "nat \<Rightarrow> u32" where
  "statusBit b = push_bit b 1"

fun token_index :: "string list \<Rightarrow> nat \<Rightarrow> string \<Rightarrow> nat option" where
  "token_index [] b token = None"
| "token_index (t # ts) b token =
     (if equalsIgnoreCase (Some t) (Some token) then Some b else token_index ts (Suc b) token)"

text \<open>The part of \<open>applyStatusToken\<close> after the opposites: "!" clears, an unknown token is ignored.\<close>

definition applyStatusToken_bit :: "status_bits \<Rightarrow> string \<Rightarrow> status_bits" where
  "applyStatusToken_bit s token =
     (let (clear, name) = (case token of c # r \<Rightarrow> if c = CHR ''!'' then (True, r) else (False, token) | [] \<Rightarrow> (False, token))
      in case token_index kStatusTokens 0 name of
           None \<Rightarrow> s
         | Some b \<Rightarrow> \<lparr>sb_set = (if clear then sb_set s AND NOT (statusBit b) else sb_set s OR statusBit b),
                      sb_known = sb_known s OR statusBit b\<rparr>)"

text \<open>The recursive calls get a token that starts with "!", so they go straight to the bit.\<close>

definition applyStatusToken :: "status_bits \<Rightarrow> string option \<Rightarrow> status_bits" where
  "applyStatusToken s token =
     (case token of
        None \<Rightarrow> s
      | Some t \<Rightarrow>
          let s = (if t = ''online'' then applyStatusToken_bit s ''!offline''
                   else if t = ''offline'' then applyStatusToken_bit s ''!online'' else s);
              s = (if t = ''fullycharged'' then applyStatusToken_bit s ''!notfullycharged''
                   else if t = ''notfullycharged'' then applyStatusToken_bit s ''!fullycharged'' else s)
          in applyStatusToken_bit s t)"

definition status_key_names :: "string option list" where
  "status_key_names =
    [None, None, Some ''ups.status.discharging'', Some ''ups.status.charging'', Some ''ups.status.battery_low'',
     Some ''ups.status.overload'', Some ''ups.status.replace_battery'', Some ''ups.status.shutdown_imminent'',
     Some ''ups.status.trim'', Some ''ups.status.boost'', Some ''ups.status.bypassauto'', Some ''ups.status.bypassman'',
     Some ''ups.status.ecomode'', Some ''ups.status.essmode'', Some ''ups.status.off'', Some ''ups.status.cal'',
     Some ''ups.status.overheat'', Some ''ups.status.commfault'', Some ''ups.status.depleted'',
     Some ''ups.status.remaining_time_limit_expired'', None, None, Some ''ups.status.awaitingpower'',
     Some ''ups.status.fanfail'', Some ''ups.status.no_battery'', Some ''ups.status.battvoltlo'', Some ''ups.status.battvolthi'',
     Some ''ups.status.chargerfail'', Some ''ups.status.vrange'', Some ''ups.status.frange'']"

text \<open>The calls \<open>f(key, value)\<close>, in order; the value is \<open>None\<close> when the key must not exist.\<close>

definition statusKeys :: "status_bits \<Rightarrow> (string \<times> string option) list" where
  "statusKeys s =
     (let power = statusBit ST_ONLINE OR statusBit ST_OFFLINE;
          full = statusBit ST_FULLYCHARGED OR statusBit ST_NOTFULLYCHARGED
      in (if sb_known s AND power \<noteq> 0
          then [(''ups.status.ac_present'',
                 if sb_set s AND statusBit ST_ONLINE \<noteq> 0 then Some ''1''
                 else if sb_set s AND statusBit ST_OFFLINE \<noteq> 0 then Some ''0'' else None)] else []) @
         (if sb_known s AND full \<noteq> 0
          then [(''ups.status.fully_charged'',
                 if sb_set s AND statusBit ST_FULLYCHARGED \<noteq> 0 then Some ''1''
                 else if sb_set s AND statusBit ST_NOTFULLYCHARGED \<noteq> 0 then Some ''0'' else None)] else []) @
         concat (map (\<lambda>(b, key). case key of
               None \<Rightarrow> []
             | Some k \<Rightarrow> if sb_known s AND statusBit b = 0 then []
                 else [(k, Some (if sb_set s AND statusBit b \<noteq> 0 then ''1'' else ''0''))])
           (zip [0..<length status_key_names] status_key_names)))"

section \<open>State of the conversions\<close>

record cps_scale =
  cs_might_need_scale :: bool
  cs_battery :: rat
  cs_battery_checked :: bool
  cs_input_freq :: rat
  cs_output_freq :: rat
  cs_input_checked :: bool
  cs_output_checked :: bool

record openups_scale =
  os_vin :: rat
  os_vout :: rat
  os_ccharge :: rat
  os_cdischarge :: rat

record nut_context =
  cx_nominal :: int
  cx_mge_type :: int
  cx_country :: int
  cx_country_seen :: bool
  cx_ready :: bool
  cx_abm :: int
  cx_abm_path :: int
  cx_status :: status_bits
  cx_cps :: cps_scale
  cx_powercom_battery_voltage :: string
  cx_openups :: openups_scale

definition initial_context :: nut_context where
  "initial_context = \<lparr>cx_nominal = -1, cx_mge_type = MGE_DEFAULT, cx_country = COUNTRY_UNKNOWN,
     cx_country_seen = False, cx_ready = True, cx_abm = ABM_UNKNOWN, cx_abm_path = ABM_PATH_UNKNOWN,
     cx_status = \<lparr>sb_set = 0, sb_known = 0\<rparr>,
     cx_cps = \<lparr>cs_might_need_scale = False, cs_battery = 1, cs_battery_checked = False, cs_input_freq = 1,
       cs_output_freq = 1, cs_input_checked = False, cs_output_checked = False\<rparr>,
     cx_powercom_battery_voltage = [],
     cx_openups = \<lparr>os_vin = 1, os_vout = 1, os_ccharge = 1, os_cdischarge = 1\<rparr>\<rparr>"

definition isCommandRow :: "hid_info \<Rightarrow> bool" where
  "isCommandRow info \<longleftrightarrow> hi_hidflags info AND HU_TYPE_CMD \<noteq> 0"

definition isAlarmRow :: "hid_info \<Rightarrow> bool" where
  "isAlarmRow info \<longleftrightarrow> hi_info_type info = ''ups.alarm''"

definition isInternalRow :: "hid_info \<Rightarrow> bool" where
  "isInternalRow info \<longleftrightarrow>
     (if hi_info_type info = ''BOOL'' then True
      else if isAlarmRow info then True
      else (case hi_conv info of
              CvMgeCountry \<Rightarrow> True | CvAbmEnabled \<Rightarrow> True | CvAbmPathMode \<Rightarrow> True | CvAbmPathStatus \<Rightarrow> True
            | _ \<Rightarrow> False))"

definition applyInternal_path :: "hid_info \<Rightarrow> nut_context \<Rightarrow> nut_context" where
  "applyInternal_path info ctx =
     (if cx_abm ctx \<noteq> ABM_ENABLED then ctx\<lparr>cx_abm_path := ABM_PATH_UNKNOWN\<rparr>
      else if cx_abm_path ctx = ABM_PATH_UNKNOWN
      then ctx\<lparr>cx_abm_path := (if hi_conv info = CvAbmPathMode then ABM_PATH_MODE else ABM_PATH_STATUS)\<rparr>
      else ctx)"

definition applyInternal :: "hid_info \<Rightarrow> rat \<Rightarrow> nut_context \<Rightarrow> nut_context" where
  "applyInternal info v ctx =
     (case hi_conv info of
        CvMgeCountry \<Rightarrow> ctx\<lparr>cx_country := to_int v, cx_country_seen := True\<rparr>
      | CvAbmEnabled \<Rightarrow>
          (let value = to_int v
           in ctx\<lparr>cx_abm := (if value = ABM_DISABLED \<or> value = ABM_ENABLED then value else ABM_UNKNOWN)\<rparr>)
      | CvAbmPathMode \<Rightarrow> applyInternal_path info ctx
      | CvAbmPathStatus \<Rightarrow> applyInternal_path info ctx
      | _ \<Rightarrow> ctx)"

fun lookup_text :: "lookup \<Rightarrow> int \<Rightarrow> string option" where
  "lookup_text [] v = None"
| "lookup_text (e # es) v = (if fst e = v then Some (snd e) else lookup_text es v)"

definition abmToken :: "nut_context \<Rightarrow> int \<Rightarrow> string option" where
  "abmToken ctx value =
     (if cx_abm_path ctx = ABM_PATH_STATUS
      then (if value = 1 \<or> value = 2 then Some ''chrg'' else if value = 4 then Some ''dischrg'' else None)
      else (if value = 1 \<or> value = 3 then Some ''chrg'' else if value = 2 then Some ''dischrg'' else None))"

text \<open>\<open>data\<close> is the published state, \<open>None\<close> without one.\<close>

definition statusToken :: "hid_info \<Rightarrow> rat \<Rightarrow> nut_context \<Rightarrow> ups_data option \<Rightarrow> string option" where
  "statusToken info v ctx data =
     (let value = to_int v; abm_on = (cx_abm ctx = ABM_ENABLED);
          flag = (\<lambda>m t f. if value AND m \<noteq> 0 then Some t else Some f)
      in case hi_conv info of
        CvLookup \<Rightarrow> lookup_text (hi_lkp info) value
      | CvEatonDischarging \<Rightarrow>
          (if abm_on then Some ''!dischrg'' else if v = 1 then Some ''dischrg'' else Some ''!dischrg'')
      | CvEatonCharging \<Rightarrow>
          (if abm_on then Some ''!chrg''
           else if v \<noteq> 1 then Some ''!chrg''
           else (case data of
                   None \<Rightarrow> Some ''chrg''
                 | Some d \<Rightarrow> (case ud_find d ''battery.charge'' of
                       None \<Rightarrow> Some ''chrg''
                     | Some charge \<Rightarrow> if 100 \<le> strtod charge then Some ''!chrg'' else Some ''chrg'')))
      | CvAbmChrgDischrg \<Rightarrow> (if \<not> abm_on then None else abmToken ctx value)
      | CvEatonConverterOnline \<Rightarrow>
          (if sb_set (cx_status ctx) AND statusBit ST_OFF \<noteq> 0 then None
           else if v = 0 then Some ''!online'' else Some ''online'')
      | CvPowercomUpsfail \<Rightarrow> flag 0x0001 ''fanfail'' ''!fanfail''
      | CvPowercomReplacebatt \<Rightarrow> flag 0x0002 ''replacebatt'' ''!replacebatt''
      | CvPowercomTest \<Rightarrow> flag 0x0004 ''cal'' ''!cal''
      | CvPowercomShutdownimm \<Rightarrow> flag 0x0010 ''shutdownimm'' ''!shutdownimm''
      | CvPowercomOnline \<Rightarrow> flag 0x0001 ''!online'' ''online''
      | CvPowercomLowbatt \<Rightarrow> flag 0x0002 ''lowbatt'' ''!lowbatt''
      | CvPowercomTrim \<Rightarrow> (if value AND 0x0018 = 0x0008 then Some ''trim'' else Some ''!trim'')
      | CvPowercomBoost \<Rightarrow> (if value AND 0x0018 = 0x0018 then Some ''boost'' else Some ''!boost'')
      | CvPowercomOverload \<Rightarrow> flag 0x0020 ''overload'' ''!overload''
      | CvOpenupsCharging \<Rightarrow> (if v \<noteq> 0 then Some ''chrg'' else Some ''!chrg'')
      | CvOpenupsDischarging \<Rightarrow> (if v \<noteq> 0 then Some ''dischrg'' else Some ''!dischrg'')
      | CvOpenupsOnline \<Rightarrow> (if v \<noteq> 0 then Some ''online'' else Some ''!online'')
      | CvOpenupsOff \<Rightarrow> (if v \<noteq> 0 then Some ''!off'' else Some ''off'')
      | _ \<Rightarrow> None)"

section \<open>Model dependent checks\<close>

definition mge_model_names :: "(string \<times> string \<times> int) list" where
  "mge_model_names =
    [(''ELLIPSE'', ''300'', MGE_DEFAULT_OFFLINE),
     (''ELLIPSE'', ''500'', MGE_DEFAULT_OFFLINE),
     (''ELLIPSE'', ''650'', MGE_DEFAULT_OFFLINE),
     (''ELLIPSE'', ''800'', MGE_DEFAULT_OFFLINE),
     (''ELLIPSE'', ''1200'', MGE_DEFAULT_OFFLINE),
     (''ellipse'', ''PR500'', MGE_DEFAULT_OFFLINE),
     (''ellipse'', ''PR650'', MGE_DEFAULT_OFFLINE),
     (''ellipse'', ''PR800'', MGE_DEFAULT_OFFLINE),
     (''ellipse'', ''PR1200'', MGE_DEFAULT_OFFLINE),
     (''ELLIPSE'', ''600'', MGE_DEFAULT_OFFLINE),
     (''ELLIPSE'', ''750'', MGE_DEFAULT_OFFLINE),
     (''ELLIPSE'', ''1000'', MGE_DEFAULT_OFFLINE),
     (''ELLIPSE'', ''1500'', MGE_DEFAULT_OFFLINE),
     (''Ellipse MAX'', ''600'', MGE_DEFAULT_OFFLINE),
     (''Ellipse MAX'', ''850'', MGE_DEFAULT_OFFLINE),
     (''Ellipse MAX'', ''1100'', MGE_DEFAULT_OFFLINE),
     (''Ellipse MAX'', ''1500'', MGE_DEFAULT_OFFLINE),
     (''PROTECTIONCENTER'', ''420'', MGE_DEFAULT_OFFLINE),
     (''PROTECTIONCENTER'', ''500'', MGE_DEFAULT_OFFLINE),
     (''PROTECTIONCENTER'', ''675'', MGE_DEFAULT_OFFLINE),
     (''Protection Station'', ''500'', MGE_PEGASUS),
     (''Protection Station'', ''650'', MGE_PEGASUS),
     (''Protection Station'', ''800'', MGE_PEGASUS),
     (''Ellipse ECO'', ''650'', MGE_PEGASUS),
     (''Ellipse ECO'', ''800'', MGE_PEGASUS),
     (''Ellipse ECO'', ''1200'', MGE_PEGASUS),
     (''Ellipse ECO'', ''1600'', MGE_PEGASUS),
     (''3S'', ''450'', MGE_DEFAULT_OFFLINE),
     (''3S'', ''550'', MGE_DEFAULT_OFFLINE),
     (''3S'', ''700'', MGE_3S),
     (''3S'', ''750'', MGE_3S),
     (''Evolution'', ''500'', MGE_DEFAULT),
     (''Evolution'', ''800'', MGE_DEFAULT),
     (''Evolution'', ''1100'', MGE_DEFAULT),
     (''Evolution'', ''1500'', MGE_DEFAULT),
     (''Evolution'', ''2200'', MGE_DEFAULT),
     (''Evolution'', ''3000'', MGE_DEFAULT),
     (''Evolution'', ''3000XL'', MGE_DEFAULT),
     (''Evolution'', ''650'', MGE_EVOLUTION_650),
     (''Evolution'', ''850'', MGE_EVOLUTION_850),
     (''Evolution'', ''1150'', MGE_EVOLUTION_1150),
     (''Evolution'', ''S 1250'', MGE_EVOLUTION_S_1250),
     (''Evolution'', ''1550'', MGE_EVOLUTION_1550),
     (''Evolution'', ''S 1750'', MGE_EVOLUTION_S_1750),
     (''Evolution'', ''2000'', MGE_EVOLUTION_2000),
     (''Evolution'', ''S 2500'', MGE_EVOLUTION_S_2500),
     (''Evolution'', ''S 3000'', MGE_EVOLUTION_S_3000),
     (''Eaton 5P'', ''650'', EATON_5P),
     (''Eaton 5P'', ''850'', EATON_5P),
     (''Eaton 5P'', ''1150'', EATON_5P),
     (''Eaton 5P'', ''1550'', EATON_5P),
     (''Eaton 5PX'', ''1500'', EATON_5P),
     (''Eaton 5PX'', ''2200'', EATON_5P),
     (''Eaton 5PX'', ''3000'', EATON_5P),
     (''Eaton 5SC'', ''500'', EATON_5P),
     (''Eaton 5SC'', ''750'', EATON_5P),
     (''Eaton 5SC'', ''1000'', EATON_5P),
     (''Eaton 5SC'', ''1500'', EATON_5P),
     (''Eaton 5SC'', ''2200'', EATON_5P),
     (''Eaton 5SC'', ''3000'', EATON_5P),
     (''Ellipse PRO'', ''1200 '', EATON_5P),
     (''Ellipse PRO'', ''1500 '', EATON_5P),
     (''Ellipse PRO'', ''1600 '', EATON_5P),
     (''Eaton 9E'', ''1000'', EATON_9E),
     (''Eaton 9E'', ''1000i'', EATON_9E),
     (''Eaton 9E'', ''1000iau'', EATON_9E),
     (''Eaton 9E'', ''1000ir'', EATON_9E),
     (''Eaton 9E'', ''2000'', EATON_9E),
     (''Eaton 9E'', ''2000i'', EATON_9E),
     (''Eaton 9E'', ''2000iau'', EATON_9E),
     (''Eaton 9E'', ''2000ir'', EATON_9E),
     (''Eaton 9E'', ''3000'', EATON_9E),
     (''Eaton 9E'', ''3000i'', EATON_9E),
     (''Eaton 9E'', ''3000iau'', EATON_9E),
     (''Eaton 9E'', ''3000ir'', EATON_9E),
     (''Eaton 9E'', ''3000ixl'', EATON_9E),
     (''Eaton 9E'', ''3000ixlau'', EATON_9E),
     (''unknown'', ''1000'', EATON_9E),
     (''unknown'', ''2000'', EATON_9E),
     (''unknown'', ''3000'', EATON_9E),
     (''Eaton 9SX'', ''700i'', EATON_9E),
     (''Eaton 9SX'', ''1000i'', EATON_9E),
     (''Eaton 9SX'', ''1000im'', EATON_9E),
     (''Eaton 9SX'', ''1500i'', EATON_9E),
     (''Eaton 9SX'', ''2000i'', EATON_9E),
     (''Eaton 9SX'', ''3000i'', EATON_9E),
     (''Eaton 9SX'', ''3000im'', EATON_9E),
     (''Eaton 9SX'', ''1000ir'', EATON_9E),
     (''Eaton 9SX'', ''1500ir'', EATON_9E),
     (''Eaton 9SX'', ''2000ir'', EATON_9E),
     (''Eaton 9SX'', ''3000ir'', EATON_9E),
     (''Eaton 9PX'', ''1000irt2u'', EATON_9E),
     (''Eaton 9PX'', ''1500irt2u'', EATON_9E),
     (''Eaton 9PX'', ''1500irtm'', EATON_9E),
     (''Eaton 9PX'', ''2200irt2u'', EATON_9E),
     (''Eaton 9PX'', ''2200irt3u'', EATON_9E),
     (''Eaton 9PX'', ''3000irt2u'', EATON_9E),
     (''Eaton 9PX'', ''3000irt3u'', EATON_9E),
     (''Eaton 9PX'', ''3000irtm'', EATON_9E),
     (''PULSAR M'', ''2200'', MGE_PULSAR_M_2200),
     (''PULSAR M'', ''3000'', MGE_PULSAR_M_3000),
     (''PULSAR M'', ''3000 XL'', MGE_PULSAR_M_3000_XL),
     (''EX'', ''2200'', MGE_PULSAR_M_2200),
     (''EX'', ''3000'', MGE_PULSAR_M_3000),
     (''EX'', ''3000 XL'', MGE_PULSAR_M_3000),
     (''PULSAR'', ''MX4000'', MGE_DEFAULT),
     (''PULSAR'', ''MX5000'', MGE_DEFAULT),
     (''NOVA AVR'', ''500'', MGE_DEFAULT),
     (''NOVA AVR'', ''600'', MGE_DEFAULT),
     (''NOVA AVR'', ''625'', MGE_DEFAULT),
     (''NOVA AVR'', ''1100'', MGE_DEFAULT),
     (''NOVA AVR'', ''1250'', MGE_DEFAULT),
     (''EXtreme'', ''700C'', MGE_DEFAULT),
     (''EXtreme'', ''1000C'', MGE_DEFAULT),
     (''EXtreme'', ''1500C'', MGE_DEFAULT),
     (''EXtreme'', ''1500CCLA'', MGE_DEFAULT),
     (''EXtreme'', ''2200C'', MGE_DEFAULT),
     (''EXtreme'', ''3200C'', MGE_DEFAULT),
     (''EX'', ''700RT'', MGE_DEFAULT),
     (''EX'', ''1000RT'', MGE_DEFAULT),
     (''EX'', ''1500RT'', MGE_DEFAULT),
     (''EX'', ''2200RT'', MGE_DEFAULT),
     (''EX'', ''3200RT'', MGE_DEFAULT),
     (''EX'', ''5RT31'', MGE_DEFAULT),
     (''EX'', ''7RT31'', MGE_DEFAULT),
     (''EX'', ''11RT31'', MGE_DEFAULT),
     (''EX'', ''5RT'', MGE_DEFAULT),
     (''EX'', ''7RT'', MGE_DEFAULT),
     (''EX'', ''11RT'', MGE_DEFAULT),
     (''GALAXY'', ''3000_10'', MGE_DEFAULT),
     (''GALAXY'', ''3000_15'', MGE_DEFAULT),
     (''GALAXY'', ''3000_20'', MGE_DEFAULT),
     (''GALAXY'', ''3000_30'', MGE_DEFAULT)]"

fun model_find :: "(string \<times> string \<times> int) list \<Rightarrow> string \<Rightarrow> string \<Rightarrow> int" where
  "model_find [] iProduct iModel = MGE_DEFAULT"
| "model_find ((p, m, t) # rs) iProduct iModel =
     (if iProduct = p \<and> iModel = m then t else model_find rs iProduct iModel)"

definition mgeModelType :: "string option \<Rightarrow> string option \<Rightarrow> int" where
  "mgeModelType iProduct iModel =
     (case (iProduct, iModel) of
        (Some p, Some m) \<Rightarrow> if m = [] then MGE_DEFAULT else model_find mge_model_names p m
      | _ \<Rightarrow> MGE_DEFAULT)"

definition pegasusValid :: "nut_context \<Rightarrow> bool" where
  "pegasusValid ctx =
     (let family = cx_mge_type ctx AND 0xFF00
      in if family = MGE_PEGASUS then True
         else if family = MGE_3S then cx_country ctx \<noteq> COUNTRY_EUROPE
         else False)"

definition nominalVoltageValid :: "int \<Rightarrow> nut_context \<Rightarrow> nut_context \<times> bool" where
  "nominalVoltageValid value ctx =
     (let ctx = (if cx_nominal ctx < 0 then ctx\<lparr>cx_nominal := value\<rparr> else ctx);
          n = cx_nominal ctx;
          interactive = (MGE_DEFAULT \<le> cx_mge_type ctx AND 0xFF00)
      in (ctx,
          if n \<in> {100, 110, 120, 127} then value \<in> {100, 110, 120, 127}
          else if n \<in> {200, 208}
          then (if value \<in> {200, 208} then True else if value \<in> {220, 230, 240} then interactive else False)
          else if n \<in> {220, 230, 240}
          then (if value \<in> {200, 208} then interactive else value \<in> {220, 230, 240})
          else True))"

end
