(* ===== verification/NutDecode.thy ===== *)
theory NutDecode
  imports NutTable "HOL-Library.Monad_Syntax"
begin

text \<open>
  The conversions of \<open>lib/USBHostUPS/src/NutTable.h\<close>: \<open>decode\<close> makes the NUT text of a HID value,
  \<open>encode\<close> the HID value of the text of a SET VAR. A conversion may change the context, so
  \<open>decode\<close> returns it. The arithmetic on doubles and floats is exact.
\<close>

section \<open>Formats\<close>

definition snprintf32 :: "string \<Rightarrow> string" where
  "snprintf32 s = take 31 s"

definition pad_int :: "nat \<Rightarrow> int \<Rightarrow> string" where
  "pad_int n i = (if i < 0 then CHR ''-'' # pad0 (n - 1) (dec (nat (- i))) else pad0 n (dec (nat i)))"

definition lround :: "rat \<Rightarrow> int" where
  "lround q = (if 0 \<le> q then floor (q + 1 / 2) else - floor (- q + 1 / 2))"

definition formatRounded :: "rat \<Rightarrow> string" where
  "formatRounded v = dec_int (llrint v)"

definition formatNumber :: "string option \<Rightarrow> rat \<Rightarrow> string option" where
  "formatNumber fmt v =
     (if fmt = None \<or> fmt = Some ''%.0f'' then Some (formatRounded v)
      else if fmt = Some ''%.1f'' then Some (snprintf32 (fmt_fixed 1 v))
      else if fmt = Some ''%.2f'' then Some (snprintf32 (fmt_fixed 2 v))
      else if fmt = Some ''%.3f'' then Some (snprintf32 (fmt_fixed 3 v))
      else None)"

section \<open>Helpers of the conversions\<close>

definition kCpsBatteryVoltageSanityCheck :: rat where
  "kCpsBatteryVoltageSanityCheck = 14 / 10"

definition cpsFrequencyScale :: "rat \<Rightarrow> rat \<Rightarrow> rat \<Rightarrow> rat \<Rightarrow> rat option" where
  "cpsFrequencyScale report nominal low high =
     (let nominal = (if nominal = 0
            then (if 45 < low \<and> low \<le> 50 then 50
                  else if 50 \<le> high \<and> high \<le> 55 then 50
                  else if 45 < report \<and> report \<le> 55 then 50
                  else if 450 < report \<and> report \<le> 550 then 50
                  else if 55 < low \<and> low \<le> 60 then 60
                  else if 60 \<le> high \<and> high \<le> 65 then 60
                  else if 55 < report \<and> report \<le> 65 then 60
                  else if 550 < report \<and> report \<le> 650 then 60
                  else nominal)
            else nominal);
          low = (if low = 0 then (if nominal = 0 then 45 else nominal * (95 / 100)) else low);
          high = (if high = 0 then (if nominal = 0 then 65 else nominal * (105 / 100)) else high)
      in if low \<le> report \<and> report \<le> high then Some 1
         else if low \<le> report / 10 \<and> report / 10 \<le> high then Some (1 / 10)
         else None)"

definition publishedNumber :: "ups_data option \<Rightarrow> string \<Rightarrow> rat" where
  "publishedNumber data key =
     (case data of None \<Rightarrow> 0 | Some d \<Rightarrow> (case ud_find d key of None \<Rightarrow> 0 | Some v \<Rightarrow> strtod v))"

definition abmText :: "nut_context \<Rightarrow> int \<Rightarrow> string option" where
  "abmText ctx value =
     (if value < 1 \<or> 6 < value then None
      else if cx_abm_path ctx = ABM_PATH_STATUS
      then [None, Some ''charging'', Some ''floating'', Some ''resting'', Some ''discharging'', None, Some ''off''] ! nat value
      else [None, Some ''charging'', Some ''discharging'', Some ''floating'', Some ''resting'', None, Some ''off''] ! nat value)"

definition staticText :: "hid_info \<Rightarrow> rat \<Rightarrow> nut_context \<Rightarrow> string option" where
  "staticText info v ctx =
     (case hi_conv info of
        CvLookup \<Rightarrow> lookup_text (hi_lkp info) (to_int v)
      | CvAbmStatus \<Rightarrow> (if cx_abm ctx \<noteq> ABM_ENABLED then None else abmText ctx (to_int v))
      | _ \<Rightarrow> None)"

definition kOpenupsThermTbl :: "nat list" where
  "kOpenupsThermTbl =
    [0x31, 0x40, 0x53, 0x68, 0x82, 0xA0, 0xC3, 0xE9, 0x113, 0x13F, 0x16E, 0x19F,
     0x1CF, 0x200, 0x22F, 0x25C, 0x286, 0x2AE, 0x2D3, 0x2F4, 0x312, 0x32D, 0x345,
     0x35A, 0x36D, 0x37E, 0x38C, 0x399, 0x3A5, 0x3AF, 0x3B7, 0x3BF, 0x3C6, 0x3CC]"

text \<open>\<open>for (i = size - 1; i >= 0; i--) if (thermistor >= tbl[i]) { pos = i; break; }\<close>\<close>

fun therm_pos :: "nat \<Rightarrow> nat \<Rightarrow> nat" where
  "therm_pos thermistor 0 = 0"
| "therm_pos thermistor (Suc i) = (if kOpenupsThermTbl ! i \<le> thermistor then i else therm_pos thermistor i)"

definition openupsTemperature :: "rat \<Rightarrow> string" where
  "openupsTemperature value =
     (let size = length kOpenupsThermTbl;
          thermistor = unat (of_int (to_int (value * 100)) :: u32)
      in if thermistor \<le> kOpenupsThermTbl ! 0 then ''-40''
         else if kOpenupsThermTbl ! (size - 1) \<le> thermistor then ''125''
         else let pos = therm_pos thermistor size
              in if thermistor = kOpenupsThermTbl ! pos then dec_int (int pos * 5 - 40)
                 else let t1 = int pos * 5 - 40; t2 = (int pos + 1) * 5 - 40;
                          d1 = kOpenupsThermTbl ! pos; d2 = kOpenupsThermTbl ! (pos + 1);
                          temp = of_nat (thermistor - d1) * of_int (t2 - t1) / of_nat (d2 - d1) + of_int t1
                      in snprintf32 (fmt_fixed 2 temp))"

section \<open>decode\<close>

datatype decode_result = DecOk string | DecFail | DecDefer | DecClear

definition decode_realpower :: "ups_data option \<Rightarrow> decode_result" where
  "decode_realpower data =
     (case data of
        None \<Rightarrow> DecDefer
      | Some d \<Rightarrow> (case (ud_find d ''ups.load'', ud_find d ''ups.power.nominal'') of
            (Some load, Some nominal) \<Rightarrow>
              let pf = (case ud_find d ''output.powerfactor'' of Some t \<Rightarrow> strtod t | None \<Rightarrow> 80 / 100)
              in DecOk (snprintf32 (dec_int (lround (of_int (atoi load) * (1 / 100) * of_int (atoi nominal) * pf))))
          | _ \<Rightarrow> DecDefer))"

definition decode_cps_voltage :: "rat \<Rightarrow> nut_context \<Rightarrow> ups_data option \<Rightarrow> nut_context \<times> decode_result" where
  "decode_cps_voltage v ctx data =
     (let cps = cx_cps ctx;
          cps = (if cs_might_need_scale cps \<and> \<not> cs_battery_checked cps
                 then let nominal = publishedNumber data ''battery.voltage.nominal''
                      in if nominal \<noteq> 0
                         then (if kCpsBatteryVoltageSanityCheck < v / nominal then cps\<lparr>cs_battery := 2 / 3\<rparr> else cps)
                                \<lparr>cs_battery_checked := True\<rparr>
                         else cps
                 else cps)
      in (ctx\<lparr>cx_cps := cps\<rparr>, DecOk (snprintf32 (fmt_fixed 1 (cs_battery cps * v)))))"

definition decode_cps_frequency :: "bool \<Rightarrow> rat \<Rightarrow> nut_context \<Rightarrow> ups_data option \<Rightarrow> nut_context \<times> decode_result" where
  "decode_cps_frequency input v ctx data =
     (let cps = cx_cps ctx;
          checked = (if input then cs_input_checked cps else cs_output_checked cps);
          cps = (if cs_might_need_scale cps \<and> \<not> checked
                 then (case cpsFrequencyScale v
                           (publishedNumber data (if input then ''input.frequency.nominal'' else ''output.frequency.nominal''))
                           (publishedNumber data (if input then ''input.frequency.low'' else ''output.frequency.low''))
                           (publishedNumber data (if input then ''input.frequency.high'' else ''output.frequency.high'')) of
                         None \<Rightarrow> cps
                       | Some s \<Rightarrow> (if input then cps\<lparr>cs_input_freq := s, cs_input_checked := True\<rparr>
                                   else cps\<lparr>cs_output_freq := s, cs_output_checked := True\<rparr>))
                 else cps);
          scale = (if input then cs_input_freq cps else cs_output_freq cps)
      in (ctx\<lparr>cx_cps := cps\<rparr>, DecOk (snprintf32 (fmt_fixed 1 (scale * v)))))"

text \<open>BCD 0xMMDDYY.\<close>

definition decode_apc_date :: "rat \<Rightarrow> decode_result" where
  "decode_apc_date v =
     (let value = to_int v
      in if value = 0 then DecOk ''not set''
         else let year = (value AND 0xf) + 10 * (drop_bit 4 value AND 0xf);
                  month = (drop_bit 16 value AND 0xf) + 10 * (drop_bit 20 value AND 0xf);
                  day = (drop_bit 8 value AND 0xf) + 10 * (drop_bit 12 value AND 0xf);
                  year = year + (if 70 \<le> year then 1900 else 2000)
              in DecOk (snprintf32 (pad_int 4 year @ ''/'' @ pad_int 2 month @ ''/'' @ pad_int 2 day)))"

definition decode_powercom :: "bool \<Rightarrow> rat \<Rightarrow> decode_result" where
  "decode_powercom startup v =
     (let i = unat (of_int (to_int v) :: u16)
      in DecOk (dec (if startup then 60 * ((i mod 256) * 256 + i div 256) else 60 * (i div 256) + i mod 256)))"

definition decode_mge_voltage :: "bool \<Rightarrow> rat \<Rightarrow> nut_context \<Rightarrow> decode_result" where
  "decode_mge_voltage nominal v ctx =
     (if \<not> cx_ready ctx then DecDefer
      else let family = cx_mge_type ctx AND 0xFF00;
               text = (\<lambda>v. DecOk (snprintf32 (if nominal then fmt_fixed 0 v else fmt_fixed 1 v)))
           in if family = MGE_EVOLUTION then text (if nominal \<and> cx_mge_type ctx = MGE_EVOLUTION_650 then 12 else v)
              else if family = MGE_PULSAR_M \<or> family = EATON_5P \<or> family = EATON_9E then text v
              else DecFail)"

definition decode_battery_date :: "rat \<Rightarrow> decode_result" where
  "decode_battery_date v =
     (let value = to_int v
      in if value = 0 then DecOk ''not set''
         else DecOk (snprintf32 (pad_int 4 (1980 + drop_bit 9 value) @ ''/'' @
                pad_int 2 (drop_bit 5 value AND 0x0f) @ ''/'' @ pad_int 2 (value AND 0x1f))))"

definition decode_mge_clock :: "bool \<Rightarrow> rat \<Rightarrow> decode_result" where
  "decode_mge_clock date v =
     (let text = (if date then strftime_date (gmtime (to_int v)) else strftime_time (gmtime (to_int v)))
      in if length text \<noteq> (if date then 10 else 8) then DecFail else DecOk text)"

definition decode :: "hid_info \<Rightarrow> rat \<Rightarrow> nut_context \<Rightarrow> ups_data option \<Rightarrow> nut_context \<times> decode_result" where
  "decode info v ctx data =
     (case hi_conv info of
        CvNumber \<Rightarrow> (ctx, case formatNumber (hi_dfl info) v of Some t \<Rightarrow> DecOk t | None \<Rightarrow> DecFail)
      | CvStringId \<Rightarrow> (ctx, if 1 \<le> v \<and> v \<le> 255 then DecDefer else DecFail)
      | CvKelvinCelsius \<Rightarrow> (ctx, DecOk (snprintf32 (fmt_fixed 1 (if 273 \<le> v \<and> v \<le> 373 then v - 27315 / 100 else v))))
      | CvMgePowerFactor \<Rightarrow> (ctx, DecOk (snprintf32 (fmt_fixed 2 (v / 100))))
      | CvEatonComputeRealpower \<Rightarrow> (ctx, decode_realpower data)
      | CvCpsBattCharge \<Rightarrow> (ctx, DecOk (snprintf32 (fmt_fixed 0 (if v < 100 then v else 100))))
      | CvCpsBattStatus \<Rightarrow> (ctx, DecOk (snprintf32 (fmt_fixed 0 v @ ''%'')))
      | CvCpsBattVolt \<Rightarrow> decode_cps_voltage v ctx data
      | CvCpsInputFreq \<Rightarrow> decode_cps_frequency True v ctx data
      | CvCpsOutputFreq \<Rightarrow> decode_cps_frequency False v ctx data
      | CvApcDate \<Rightarrow> (ctx, decode_apc_date v)
      | CvPowercomHackVoltage \<Rightarrow>
          (ctx, DecOk (if cx_powercom_battery_voltage ctx \<noteq> [] then cx_powercom_battery_voltage ctx else ''0.0''))
      | CvPowercomVoltage \<Rightarrow> (ctx, DecOk (snprintf32 (fmt_fixed 0 (v * 4))))
      | CvPowercomStartup \<Rightarrow> (ctx, decode_powercom True v)
      | CvPowercomShutdown \<Rightarrow> (ctx, decode_powercom False v)
      | CvEcoflowRuntime \<Rightarrow> (ctx, if v < 0 then DecFail else DecOk (snprintf32 (fmt_fixed 0 (v * 60))))
      | CvOpenupsVin \<Rightarrow> (ctx, DecOk (snprintf32 (fmt_fixed 2 (v * os_vin (cx_openups ctx)))))
      | CvOpenupsVout \<Rightarrow> (ctx, DecOk (snprintf32 (fmt_fixed 2 (v * os_vout (cx_openups ctx)))))
      | CvOpenupsCcharge \<Rightarrow> (ctx, DecOk (snprintf32 (fmt_fixed 3 (v * os_ccharge (cx_openups ctx)))))
      | CvOpenupsCdischarge \<Rightarrow> (ctx, DecOk (snprintf32 (fmt_fixed 3 (v * os_cdischarge (cx_openups ctx)))))
      | CvOpenupsTemperature \<Rightarrow> (ctx, DecOk (openupsTemperature v))
      | CvMgeBatteryCapacity \<Rightarrow> (ctx, DecOk (snprintf32 (fmt_fixed 2 (v / 3600))))
      | CvMgeBatteryVoltage \<Rightarrow> (ctx, decode_mge_voltage False v ctx)
      | CvMgeBatteryVoltageNominal \<Rightarrow> (ctx, decode_mge_voltage True v ctx)
      | CvAbmStatus \<Rightarrow>
          (ctx, if cx_abm ctx \<noteq> ABM_ENABLED then DecClear
                else (case staticText info v ctx of None \<Rightarrow> DecDefer | Some t \<Rightarrow> DecOk t))
      | CvLookup \<Rightarrow> (ctx, case staticText info v ctx of None \<Rightarrow> DecFail | Some t \<Rightarrow> DecOk t)
      | CvBatteryDate \<Rightarrow> (ctx, decode_battery_date v)
      | CvMgeDate \<Rightarrow> (ctx, decode_mge_clock True v)
      | CvMgeTime \<Rightarrow> (ctx, decode_mge_clock False v)
      | CvNominalVoltage \<Rightarrow>
          (if \<not> cx_ready ctx then (ctx, DecDefer)
           else let (ctx, ok) = nominalVoltageValid (to_int v) ctx
                in (ctx, if \<not> ok then DecFail else DecOk (formatRounded v)))
      | CvPegasusThreshold \<Rightarrow>
          (ctx, if \<not> cx_ready ctx then DecDefer else if \<not> pegasusValid ctx then DecFail else DecOk (formatRounded v))
      | CvPegasusYesNo \<Rightarrow>
          (ctx, if \<not> cx_ready ctx then DecDefer else if \<not> pegasusValid ctx then DecFail
                else DecOk (if v = 0 then ''no'' else ''yes''))
      | _ \<Rightarrow> (ctx, DecDefer))"

section \<open>encode\<close>

definition timegmUtc :: "int \<Rightarrow> int \<Rightarrow> int \<Rightarrow> int \<Rightarrow> int \<Rightarrow> int \<Rightarrow> int" where
  "timegmUtc year month day hour minute second =
     (let y = year - (if month \<le> 2 then 1 else 0);
          era = (if 0 \<le> y then y div 400 else - ((399 - y) div 400));
          yoe = y - era * 400;
          doy = (153 * (month + (if 2 < month then -3 else 9)) + 2) div 5 + day - 1;
          doe = yoe * 365 + yoe div 4 - yoe div 100 + doy;
          days = era * 146097 + doe - 719468
      in days * 86400 + hour * 3600 + minute * 60 + second)"

text \<open>The loop stops before the accumulator can overflow.\<close>

fun parse_number_digits :: "string \<Rightarrow> int \<Rightarrow> (int \<times> string) option" where
  "parse_number_digits [] v = Some (v, [])"
| "parse_number_digits (c # r) v =
     (if is_digit c
      then let v = v * 10 + int (digit_value c) in if 2147483648 < v then None else parse_number_digits r v
      else Some (v, c # r))"

definition parseTruncatedNumber :: "string option \<Rightarrow> int option" where
  "parseTruncatedNumber s =
     (case s of None \<Rightarrow> None
      | Some s \<Rightarrow>
          let (neg, p) = read_sign (skip_spaces s)
          in (case p of [] \<Rightarrow> None
              | c # _ \<Rightarrow> if \<not> is_digit c then None
                  else (case parse_number_digits p 0 of None \<Rightarrow> None
                        | Some (v, p) \<Rightarrow>
                            let p = (case p of d # q \<Rightarrow> if d = CHR ''.'' then dropWhile is_digit q else p | [] \<Rightarrow> []);
                                v = (if neg then - v else v)
                            in if skip_spaces p \<noteq> [] then None
                               else if v < -2147483648 \<or> 2147483647 < v then None
                               else Some v)))"

text \<open>Between \<open>lo\<close> and \<open>hi\<close> digits, and the rest of the text.\<close>

definition parseDigits :: "string \<Rightarrow> nat \<Rightarrow> nat \<Rightarrow> (int \<times> string) option" where
  "parseDigits p lo hi =
     (let ds = takeWhile is_digit (take hi p)
      in if length ds < lo then None else Some (int (digits_value ds), drop (length ds) p))"

definition expect :: "char \<Rightarrow> string \<Rightarrow> string option" where
  "expect c p = (case p of d # r \<Rightarrow> if d = c then Some r else None | [] \<Rightarrow> None)"

definition daysInMonth :: "int \<Rightarrow> int \<Rightarrow> int" where
  "daysInMonth year month =
     (let leap = (year mod 4 = 0 \<and> year mod 100 \<noteq> 0) \<or> year mod 400 = 0
      in if month = 2 \<and> leap then 29
         else [31, 28, 31, 30, 31, 30, 31, 31, 30, 31, 30, 31] ! nat (month - 1))"

definition parseMgeDateTime :: "string \<Rightarrow> int option" where
  "parseMgeDateTime p = do {
     (y, p) \<leftarrow> parseDigits p 4 4;
     p \<leftarrow> expect (CHR ''/'') p;
     (mo, p) \<leftarrow> parseDigits p 1 2;
     p \<leftarrow> expect (CHR ''/'') p;
     (d, p) \<leftarrow> parseDigits p 1 2;
     p \<leftarrow> (if p = [] \<or> \<not> isSpaceChar (hd p) then None else Some (skip_spaces p));
     (h, p) \<leftarrow> parseDigits p 1 2;
     p \<leftarrow> expect (CHR '':'') p;
     (mi, p) \<leftarrow> parseDigits p 1 2;
     p \<leftarrow> expect (CHR '':'') p;
     (sec, p) \<leftarrow> parseDigits p 1 2;
     if p \<noteq> [] then None
     else if y < 1970 \<or> mo < 1 \<or> 12 < mo \<or> d < 1 \<or> daysInMonth y mo < d then None
     else if 23 < h \<or> 59 < mi \<or> 59 < sec then None
     else Some (timegmUtc y mo d h mi sec)
   }"

fun lookup_hid :: "lookup \<Rightarrow> string \<Rightarrow> int option" where
  "lookup_hid [] val = None"
| "lookup_hid (e # es) val = (if snd e = val then Some (fst e) else lookup_hid es val)"

definition encode_battery_date :: "string \<Rightarrow> int option" where
  "encode_battery_date p = do {
     (y, p) \<leftarrow> parseDigits p 4 4;
     p \<leftarrow> expect (CHR ''/'') p;
     (m, p) \<leftarrow> parseDigits p 2 2;
     p \<leftarrow> expect (CHR ''/'') p;
     (d, p) \<leftarrow> parseDigits p 2 2;
     if p \<noteq> [] then None
     else if y < 1980 \<or> 127 < y - 1980 \<or> m < 1 \<or> 12 < m \<or> d < 1 \<or> 31 < d then None
     else Some (push_bit 9 (y - 1980) + push_bit 5 m + d)
   }"

definition encode_mge_clock :: "bool \<Rightarrow> string \<Rightarrow> ups_data \<Rightarrow> int option" where
  "encode_mge_clock date val data =
     (let other = ud_get data (if date then ''ups.time'' else ''ups.date'') []
      in if other = [] then None
         else let buf = (if date then val @ '' '' @ other else other @ '' '' @ val)
              in if 64 \<le> length buf then None else parseMgeDateTime buf)"

definition encode :: "hid_info \<Rightarrow> string option \<Rightarrow> nut_context \<Rightarrow> ups_data \<Rightarrow> rat option" where
  "encode info val ctx data =
     (case val of None \<Rightarrow> None
      | Some val \<Rightarrow> (case hi_conv info of
            CvNumber \<Rightarrow> map_option of_int (parseTruncatedNumber (Some val))
          | CvLookup \<Rightarrow> map_option of_int (lookup_hid (hi_lkp info) val)
          | CvNominalVoltage \<Rightarrow> map_option of_int (lookup_hid (hi_lkp info) val)
          | CvPegasusThreshold \<Rightarrow> map_option of_int (lookup_hid (hi_lkp info) val)
          | CvPegasusYesNo \<Rightarrow> Some (if \<not> pegasusValid ctx then 0 else if starts_with val ''yes'' then 1 else 0)
          | CvBatteryDate \<Rightarrow> map_option of_int (encode_battery_date val)
          | CvMgeDate \<Rightarrow> map_option of_int (encode_mge_clock True val data)
          | CvMgeTime \<Rightarrow> map_option of_int (encode_mge_clock False val data)
          | _ \<Rightarrow> None))"

text \<open>LIST ENUM: the lookup values that the conversion accepts.\<close>

fun enum_loop :: "conv \<Rightarrow> lookup \<Rightarrow> nut_context \<Rightarrow> nut_context \<times> string list" where
  "enum_loop c [] ctx = (ctx, [])"
| "enum_loop c (e # es) ctx =
     (let (ctx, ok) = (if c = CvNominalVoltage then nominalVoltageValid (fst e) ctx
                       else if c = CvPegasusThreshold \<or> c = CvPegasusYesNo then (ctx, pegasusValid ctx)
                       else (ctx, True));
          (ctx, out) = enum_loop c es ctx
      in (ctx, if ok then snd e # out else out))"

definition enumValues :: "hid_info \<Rightarrow> nut_context \<Rightarrow> nut_context \<times> string list" where
  "enumValues info ctx =
     (if hi_hidflags info AND HU_FLAG_ENUM = 0 \<or> hi_info_flags info AND ST_FLAG_RW = 0 then (ctx, [])
      else enum_loop (hi_conv info) (hi_lkp info) ctx)"

end
