(* ===== verification/NutDates.thy ===== *)
theory NutDates
  imports NutDecode
begin

text \<open>
  Round trips of the dates of \<open>NutTable.h\<close>: the battery date of a SET VAR, and the clock of the
  MGE units, which \<open>decode\<close> prints with \<open>gmtime\<close> and \<open>encode\<close> reads back with \<open>timegmUtc\<close>.
\<close>

section \<open>Digits\<close>

lemma is_digit_value: "is_digit c \<Longrightarrow> digit_value c < 10 \<and> digit (digit_value c) = c"
proof -
  assume "is_digit c"
  then have b: "48 \<le> ord c" "ord c \<le> 57" by (simp_all add: in_range_def) (simp_all add: ord_def)
  then have "char_of (48 + (ord c - 48)) = c" by (simp add: ord_def)
  with b show ?thesis by (simp add: digit_value_def digit_def)
qed

lemma digit_zero: "digit 0 = CHR ''0''"
proof -
  have "is_digit (CHR ''0'')" "digit_value (CHR ''0'') = 0" by (simp_all add: in_range_def digit_value_def ord_def)
  then show ?thesis using is_digit_value [of "CHR ''0''"] by simp
qed

lemma dec_snoc: "0 < n \<Longrightarrow> d < 10 \<Longrightarrow> dec (10 * n + d) = dec n @ [digit d]"
  by (subst dec.simps) auto

lemma dec_single: "d < 10 \<Longrightarrow> dec d = [digit d]"
  by (subst dec.simps) simp

lemma digits_value_less: "list_all is_digit ds \<Longrightarrow> digits_value ds < 10 ^ length ds"
proof (induction ds rule: rev_induct)
  case (snoc c ds)
  then have "digit_value c < 10" "digits_value ds < 10 ^ length ds" using is_digit_value by auto
  then have "10 * digits_value ds + digit_value c < 10 * 10 ^ length ds" by linarith
  then show ?case by (simp add: digits_value_snoc)
qed (simp add: digits_value_def)

lemma length_dec_le: "n < 10 ^ k \<Longrightarrow> 0 < k \<Longrightarrow> length (dec n) \<le> k"
proof (induction n arbitrary: k rule: dec.induct)
  case (1 n)
  show ?case
  proof (cases "n < 10")
    case True
    then show ?thesis using 1(3) by (simp add: dec_single Suc_le_eq)
  next
    case False
    then obtain j where k: "k = Suc j" "0 < j" using 1(2,3) by (cases k; cases "k - 1") auto
    have "n div 10 < 10 ^ j" using 1(2) k by (simp add: less_mult_imp_div_less mult.commute)
    then have "length (dec (n div 10)) \<le> j" using 1(1) False k by simp
    then show ?thesis using False k by (subst dec.simps) simp
  qed
qed

lemma pad0_dec_digits: "list_all is_digit ds \<Longrightarrow> ds \<noteq> [] \<Longrightarrow> pad0 (length ds) (dec (digits_value ds)) = ds"
proof (induction ds rule: rev_induct)
  case Nil
  then show ?case by simp
next
  case (snoc c ds)
  then have c: "digit_value c < 10" "digit (digit_value c) = c" using is_digit_value by auto
  let ?v = "digits_value ds"
  show ?case
  proof (cases "ds = []")
    case True
    then show ?thesis using c by (simp add: digits_value_def dec_single pad0_def)
  next
    case False
    with snoc have IH: "pad0 (length ds) (dec ?v) = ds" by simp
    show ?thesis
    proof (cases "?v = 0")
      case True
      then have "dec ?v = ''0''" using dec_single [of 0] by (simp add: digit_zero)
      then have "replicate (length ds - 1) (CHR ''0'') @ ''0'' = ds" using IH by (simp add: pad0_def)
      then have "replicate (length ds) (CHR ''0'') = ds"
        using False by (metis Suc_pred' length_greater_0_conv replicate_append_same replicate_Suc)
      then show ?thesis using True c by (simp add: digits_value_snoc dec_single pad0_def)
    next
      case False
      then show ?thesis using IH c by (simp add: digits_value_snoc dec_snoc pad0_def)
    qed
  qed
qed

lemma pad0_digits: "list_all is_digit (pad0 n (dec v))"
  using dec_digits by (auto simp: pad0_def list_all_iff in_range_def ord_def)

lemma digits_value_pad0: "digits_value (pad0 n (dec v)) = v"
proof -
  have "foldl (\<lambda>v c. 10 * v + digit_value c) 0 (replicate k (CHR ''0'')) = 0" for k
    by (induction k) (simp_all add: digit_value_def ord_def)
  then show ?thesis using digits_value_dec [of v] by (simp add: pad0_def digits_value_def)
qed

lemma length_pad0: "v < 10 ^ n \<Longrightarrow> 0 < n \<Longrightarrow> length (pad0 n (dec v)) = n"
  using length_dec_le [of v n] by (simp add: pad0_def)

lemma parseDigits_exact:
  assumes "list_all is_digit ds" "lo \<le> length ds" "length ds \<le> hi" "length ds = hi \<or> rest = [] \<or> \<not> is_digit (hd rest)"
  shows "parseDigits (ds @ rest) lo hi = Some (int (digits_value ds), rest)"
proof -
  have all: "takeWhile is_digit ds = ds" using assms(1) by (simp add: takeWhile_eq_all_conv list_all_iff)
  have "takeWhile is_digit (take (hi - length ds) rest) = []" using assms(4) by (cases rest; cases "hi - length ds") auto
  then have "takeWhile is_digit (take hi (ds @ rest)) = ds"
    using assms(1,3) all by (simp add: takeWhile_append2 list_all_iff)
  then show ?thesis using assms(2) by (simp add: parseDigits_def Let_def)
qed

lemma parseDigits_pad:
  assumes "v < 10 ^ n" "0 < n" "lo \<le> n"
  shows "parseDigits (pad0 n (dec v) @ rest) lo n = Some (int v, rest)"
  using parseDigits_exact [OF pad0_digits, of lo n v n rest] assms by (simp add: length_pad0 digits_value_pad0)

lemma parseDigits_split:
  assumes "parseDigits p n n = Some (v, r)"
  shows "\<exists>ds. p = ds @ r \<and> list_all is_digit ds \<and> length ds = n \<and> v = int (digits_value ds)"
proof -
  define t where "t = take n p"
  have len: "length (takeWhile is_digit t) = n" and r: "r = drop n p" and v: "v = int (digits_value (takeWhile is_digit t))"
    using assms length_takeWhile_le [of is_digit t]
    by (auto simp: parseDigits_def Let_def t_def split: if_splits)
  have tn: "length t = n" using len length_takeWhile_le [of is_digit t] by (simp add: t_def)
  then have all: "takeWhile is_digit t = t"
    using len takeWhile_dropWhile_id [of is_digit t] by (metis append_Nil2 append_eq_conv_conj length_append add_cancel_right_right length_0_conv)
  then have "list_all is_digit t" by (metis list_all_iff set_takeWhileD)
  moreover have "p = t @ r" by (simp add: t_def r)
  ultimately show ?thesis using tn v all by auto
qed

lemma expect_Some: "expect c p = Some r \<longleftrightarrow> p = c # r"
  by (auto simp: expect_def split: list.splits)

lemma div_mult_add: "0 < c \<Longrightarrow> 0 \<le> b \<Longrightarrow> b < c \<Longrightarrow> (c * a + b) div c = (a :: int)"
  by (metis add_0 add.commute div_mult_self2 div_pos_pos_trivial less_irrefl)

lemma div_mult_shift: "0 < c \<Longrightarrow> (a + c * b) div c = a div c + (b :: int)"
  by simp

section \<open>The battery date\<close>

lemma battery_date_fields:
  fixes y m d :: nat
  assumes "y < 128" "m < 16" "d < 32"
  shows "drop_bit 9 (push_bit 9 (int y) + push_bit 5 (int m) + int d) = int y"
    "drop_bit 5 (push_bit 9 (int y) + push_bit 5 (int m) + int d) AND 0x0f = int m"
    "(push_bit 9 (int y) + push_bit 5 (int m) + int d) AND 0x1f = int d"
proof -
  have m4: "(0x0f :: int) = mask 4" and m5: "(0x1f :: int) = mask 5" by (simp_all add: mask_eq_exp_minus_1)
  have sum: "push_bit 9 (int y) + push_bit 5 (int m) + int d = (int y * 16 + int m) * 32 + int d"
    by (simp add: push_bit_eq_mult)
  have q: "((int y * 16 + int m) * 32 + int d) div 32 = int y * 16 + int m" "((int y * 16 + int m) * 32 + int d) mod 32 = int d"
  proof -
    show "((int y * 16 + int m) * 32 + int d) div 32 = int y * 16 + int m"
      using assms(3) div_mult_add [of 32 "int d" "int y * 16 + int m"] by (simp add: mult.commute)
    show "((int y * 16 + int m) * 32 + int d) mod 32 = int d"
      using assms(3) by (simp only: mod_mult_self3) simp
  qed
  show "drop_bit 9 (push_bit 9 (int y) + push_bit 5 (int m) + int d) = int y"
    using assms by (simp add: drop_bit_eq_div push_bit_eq_mult)
  show "drop_bit 5 (push_bit 9 (int y) + push_bit 5 (int m) + int d) AND 0x0f = int m"
    unfolding m4 take_bit_eq_mask [symmetric]
    using assms(2) unfolding sum by (simp add: drop_bit_eq_div take_bit_eq_mod q [simplified])
  show "(push_bit 9 (int y) + push_bit 5 (int m) + int d) AND 0x1f = int d"
    unfolding m5 take_bit_eq_mask [symmetric]
    unfolding sum using q(2) by (simp add: take_bit_eq_mod)
qed

lemma encode_battery_date_text:
  assumes "encode_battery_date text = Some x"
  shows "\<exists>y m d. text = y @ ''/'' @ m @ ''/'' @ d \<and> list_all is_digit y \<and> list_all is_digit m \<and> list_all is_digit d \<and>
    length y = 4 \<and> length m = 2 \<and> length d = 2 \<and> 1980 \<le> digits_value y \<and> digits_value y - 1980 < 128 \<and>
    0 < digits_value m \<and> digits_value m < 16 \<and> digits_value d < 32 \<and>
    x = push_bit 9 (int (digits_value y - 1980)) + push_bit 5 (int (digits_value m)) + int (digits_value d)"
proof -
  note e = assms [unfolded encode_battery_date_def]
  obtain yv p1 where s1: "parseDigits text 4 4 = Some (yv, p1)" using e by (cases "parseDigits text 4 4") auto
  note e = e [unfolded s1, simplified]
  obtain p2 where s2: "expect (CHR ''/'') p1 = Some p2" using e by (cases "expect (CHR ''/'') p1") auto
  note e = e [unfolded s2, simplified]
  obtain mv p3 where s3: "parseDigits p2 2 2 = Some (mv, p3)" using e by (cases "parseDigits p2 2 2") auto
  note e = e [unfolded s3, simplified]
  obtain p4 where s4: "expect (CHR ''/'') p3 = Some p4" using e by (cases "expect (CHR ''/'') p3") auto
  note e = e [unfolded s4, simplified]
  obtain dv p5 where s5: "parseDigits p4 2 2 = Some (dv, p5)" using e by (cases "parseDigits p4 2 2") auto
  note e = e [unfolded s5, simplified]
  have fin: "p5 = []" "1980 \<le> yv" "yv - 1980 \<le> 127" "1 \<le> mv" "mv \<le> 12" "1 \<le> dv" "dv \<le> 31"
      "x = push_bit 9 (yv - 1980) + push_bit 5 mv + dv"
    using e by (simp_all split: if_splits)
  note steps = s1 s2 s3 s4 s5
  from parseDigits_split [OF steps(1)] obtain y where y: "text = y @ p1" "list_all is_digit y" "length y = 4" "yv = int (digits_value y)" by blast
  from parseDigits_split [OF steps(3)] obtain m where m: "p2 = m @ p3" "list_all is_digit m" "length m = 2" "mv = int (digits_value m)" by blast
  from parseDigits_split [OF steps(5)] obtain d where d: "p4 = d @ p5" "list_all is_digit d" "length d = 2" "dv = int (digits_value d)" by blast
  have "text = y @ ''/'' @ m @ ''/'' @ d" using y(1) m(1) d(1) steps(2,4) fin(1) by (simp add: expect_Some)
  moreover have "int (digits_value y) - 1980 = int (digits_value y - 1980)" using fin(2) y(4) by simp
  ultimately show ?thesis using y m d fin by (intro exI [of _ y] exI [of _ m] exI [of _ d]) auto
qed

text \<open>A battery date survives the round trip. When the text of a SET VAR is accepted, reading
  the value back from the UPS publishes exactly that text.\<close>

theorem battery_date_roundtrip:
  assumes "encode (row name flags len path dfl hflags CvBatteryDate lkp) (Some text) ctx data = Some x"
  shows "decode (row name flags len path dfl hflags CvBatteryDate lkp) x ctx' data' = (ctx', DecOk text)"
proof -
  from assms obtain i where x: "x = of_int i" "encode_battery_date text = Some i"
    by (auto simp: encode_def row_def)
  from encode_battery_date_text [OF x(2)] obtain y m d where
    t: "text = y @ ''/'' @ m @ ''/'' @ d" "list_all is_digit y" "list_all is_digit m" "list_all is_digit d"
      "length y = 4" "length m = 2" "length d = 2" "1980 \<le> digits_value y" "digits_value y - 1980 < 128"
      "0 < digits_value m" "digits_value m < 16" "digits_value d < 32"
    and i: "i = push_bit 9 (int (digits_value y - 1980)) + push_bit 5 (int (digits_value m)) + int (digits_value d)"
    by blast
  have ne: "i \<noteq> 0"
    using t(10) unfolding i push_bit_eq_mult by (simp add: add_nonneg_eq_0_iff add_nonneg_nonneg)
  note f = battery_date_fields [OF t(9,11,12), folded i]
  have "nat (1980 + int (digits_value y - 1980)) = digits_value y" using t(8) by simp
  then have "pad_int 4 (1980 + drop_bit 9 i) = y" "pad_int 2 (drop_bit 5 i AND 0x0f) = m" "pad_int 2 (i AND 0x1f) = d"
    unfolding f using pad0_dec_digits [OF t(2)] pad0_dec_digits [OF t(3)] pad0_dec_digits [OF t(4)] t(5-7)
    by (force simp: pad_int_def)+
  then have "decode_battery_date (of_int i) = DecOk (snprintf32 text)"
    using ne unfolding decode_battery_date_def Let_def to_int_of_int t(1) by simp
  moreover have "snprintf32 text = text" using t by (simp add: snprintf32_def)
  ultimately show ?thesis by (simp add: x decode_def row_def)
qed

theorem battery_date_roundtrip_witness:
  "decode (row ''battery.mfr.date'' 3 10 ''UPS.Battery.ManufacturerDate'' None 0 CvBatteryDate []) 22831 initial_context None
     = (initial_context, DecOk ''2024/09/15'')"
proof -
  let ?row = "row ''battery.mfr.date'' 3 10 ''UPS.Battery.ManufacturerDate'' None 0 CvBatteryDate []"
  have "encode_battery_date ''2024/09/15'' = Some 22831" by code_simp
  then have "encode ?row (Some ''2024/09/15'') initial_context ud_new = Some 22831"
    by (simp add: encode_def row_def)
  from battery_date_roundtrip [OF this, of initial_context None] show ?thesis .
qed

section \<open>Days of the calendar\<close>

text \<open>The days up to the March of a year, and the days before a date as \<open>timegmUtc\<close> counts them.\<close>

definition elapsed :: "int \<Rightarrow> int" where
  "elapsed y = 365 * y + y div 4 - y div 100 + y div 400"

definition days_of :: "int \<Rightarrow> int \<Rightarrow> int \<Rightarrow> int" where
  "days_of y m d = elapsed (y - (if m \<le> 2 then 1 else 0)) + (153 * (m + (if 2 < m then -3 else 9)) + 2) div 5 + d - 719469"

lemma floor_era: "(if 0 \<le> y then y div 400 else - ((399 - y) div 400)) = (y :: int) div 400"
proof (cases "0 \<le> y")
  case False
  define k where "k = y div 400"
  define r where "r = y mod 400"
  have y: "y = 400 * k + r" "0 \<le> r" "r < 400" by (simp_all add: k_def r_def)
  then have "399 - y = 400 * (- k) + (399 - r)" by simp
  moreover have "(400 * (- k) + (399 - r)) div 400 = - k" using y(2,3) by (intro div_mult_add) auto
  ultimately have "(399 - y) div 400 = - k" by (simp only:)
  then show ?thesis using False by (simp add: k_def)
qed simp

lemma era_years: "(z - k * 400) div 4 = z div 4 - 100 * k" "(z - k * 400) div 100 = z div 100 - 4 * k" for z k :: int
  using div_mult_shift [of 4 z "- (100 * k)"] div_mult_shift [of 100 z "- (4 * k)"] by (simp_all add: mult.commute)

lemma timegmUtc_days: "timegmUtc y m d h mi s = days_of y m d * 86400 + h * 3600 + mi * 60 + s"
proof -
  have sum: "k * 146097 + ((z - k * 400) * 365 + (a - 100 * k) - (b - 4 * k) + (e + d - 1)) - 719468 =
      365 * z + a - b + k + e + d - 719469" for z k a b e :: int
    by simp
  show ?thesis
    unfolding days_of_def elapsed_def timegmUtc_def Let_def floor_era era_years sum ..
qed

lemma div_step:
  fixes y c :: int
  assumes "0 < c"
  shows "y div c - (y - 1) div c = (if y mod c = 0 then 1 else 0)"
proof (cases "y mod c = 0")
  case True
  define k where "k = y div c"
  have y: "y = c * k" using True mult_div_mod_eq [of c y] by (simp add: k_def)
  have "y - 1 = c * (k - 1) + (c - 1)" unfolding y by (simp add: algebra_simps)
  moreover have "(c * (k - 1) + (c - 1)) div c = k - 1" using assms by (intro div_mult_add) auto
  ultimately have "(y - 1) div c = k - 1" by (simp only:)
  with True show ?thesis by (simp add: k_def)
next
  case False
  define k where "k = y div c"
  define r where "r = y mod c"
  have y: "y = c * k + r" using mult_div_mod_eq [of c y] by (simp add: k_def r_def)
  have "0 \<le> r" "r < c" "r \<noteq> 0" using False assms by (simp_all add: r_def)
  then have "(c * k + (r - 1)) div c = k" using assms by (intro div_mult_add) auto
  moreover have "y - 1 = c * k + (r - 1)" using y by simp
  ultimately have "(y - 1) div c = k" by (simp only:)
  with False show ?thesis by (simp add: k_def)
qed

lemma elapsed_step: "elapsed y = elapsed (y - 1) + int (year_days y)"
proof -
  have "y mod 400 = 0 \<Longrightarrow> y mod 100 = 0" "y mod 100 = 0 \<Longrightarrow> y mod 4 = 0"
    using dvd_trans [of 100 400 y] dvd_trans [of 4 100 y] by (simp_all add: mod_eq_0_iff_dvd)
  then have "(if y mod 4 = 0 then 1 else 0) - (if y mod 100 = 0 then 1 else 0) + (if y mod 400 = 0 then 1 else 0) + 365 = int (year_days y)"
    by (auto simp: year_days_def leap_year_def)
  note days = this
  have sum: "a - a' = i \<Longrightarrow> b - b' = j \<Longrightarrow> c - c' = k \<Longrightarrow> i - j + k + 365 = n \<Longrightarrow>
      365 * y + a - b + c = 365 * (y - 1) + a' - b' + c' + n" for a a' b b' c c' i j k n :: int
    by simp
  show ?thesis
    unfolding elapsed_def by (rule sum [OF div_step div_step div_step days]) simp_all
qed

lemma days_of_next_year: "days_of (y + 1) 1 1 = days_of y 1 1 + int (year_days y)"
  using elapsed_step [of y] by (simp add: days_of_def)

lemma days_of_add: "days_of y m (d + k) = days_of y m d + k"
  by (simp add: days_of_def)

lemma days_of_next_month:
  assumes "1 \<le> m" "m < 12"
  shows "days_of y (int (Suc m)) 1 = days_of y (int m) 1 + int (month_days y m)"
proof -
  have "m = 1 \<or> m = 2 \<or> m = 3 \<or> m = 4 \<or> m = 5 \<or> m = 6 \<or> m = 7 \<or> m = 8 \<or> m = 9 \<or> m = 10 \<or> m = 11"
    using assms by presburger
  then show ?thesis
    using elapsed_step [of y]
    by (elim disjE) (simp_all add: days_of_def month_days_def year_days_def split: if_splits)
qed

lemma cal_year_stop: "d < year_days y \<Longrightarrow> cal_year y d = (y, d)"
  by (subst cal_year.simps) simp

lemma cal_year_go: "\<not> d < year_days y \<Longrightarrow> cal_year y d = cal_year (y + 1) (d - year_days y)"
  by (subst cal_year.simps) simp

lemma cal_year_days:
  "cal_year y d = (y', d') \<Longrightarrow> days_of y 1 1 + int d = days_of y' 1 1 + int d' \<and> d' < year_days y' \<and> y \<le> y'"
proof (induction y d rule: cal_year.induct)
  case (1 y d)
  show ?case
  proof (cases "d < year_days y")
    case True
    with 1(2) show ?thesis by (simp add: cal_year_stop)
  next
    case False
    with 1(2) have "cal_year (y + 1) (d - year_days y) = (y', d')" by (simp add: cal_year_go)
    from 1(1) [OF False this] False show ?thesis by (simp add: days_of_next_year)
  qed
qed

text \<open>The days of the months that are left, December included.\<close>

fun months_left :: "nat \<Rightarrow> int \<Rightarrow> nat" where
  "months_left 0 y = 31"
| "months_left (Suc k) y = month_days y (12 - Suc k) + months_left k y"

lemma cal_month_days:
  "cal_month k y d = (m, d') \<Longrightarrow> k \<le> 11 \<Longrightarrow> d < months_left k y \<Longrightarrow>
     days_of y (int (12 - k)) 1 + int d = days_of y (int m) 1 + int d' \<and> d' < month_days y m \<and> 1 \<le> m \<and> m \<le> 12"
proof (induction k arbitrary: d)
  case 0
  then show ?case by (simp add: month_days_def)
next
  case (Suc k)
  show ?case
  proof (cases "d < month_days y (12 - Suc k)")
    case True
    with Suc.prems show ?thesis by auto
  next
    case False
    with Suc.prems have "cal_month k y (d - month_days y (12 - Suc k)) = (m, d')" by simp
    from Suc.IH [OF this] Suc.prems False have
      "days_of y (int (12 - k)) 1 + int (d - month_days y (12 - Suc k)) = days_of y (int m) 1 + int d'"
      "d' < month_days y m \<and> 1 \<le> m \<and> m \<le> 12" by auto
    moreover have "Suc (12 - Suc k) = 12 - k" using Suc.prems(2) by simp
    ultimately show ?thesis
      using days_of_next_month [of "12 - Suc k" y] Suc.prems(2) False by auto
  qed
qed

lemma months_left_year: "months_left 11 y = year_days y"
  by (simp add: month_days_def year_days_def numeral_eq_Suc)

lemma days_of_epoch: "days_of (1970 + 400 * k) 1 1 = 146097 * k"
proof -
  have "elapsed (1969 + 400 * k) = elapsed 1969 + 146097 * k"
  proof -
    have "(1969 + 400 * k) div 4 = 492 + 100 * k" "(1969 + 400 * k) div 100 = 19 + 4 * k" "(1969 + 400 * k) div 400 = 4 + k"
      using div_mult_shift [of 4 1969 "100 * k"] div_mult_shift [of 100 1969 "4 * k"] div_mult_shift [of 400 1969 k] by simp_all
    moreover have "365 * (1969 + 400 * k) + (492 + 100 * k) - (19 + 4 * k) + (4 + k) = 719162 + 146097 * k" by simp
    ultimately show ?thesis unfolding elapsed_def by (simp only:) simp
  qed
  then show ?thesis by (simp add: days_of_def) (simp add: elapsed_def)
qed

lemma gmtime_days:
  "days_of (c_year (gmtime sec)) (int (c_month (gmtime sec))) (int (c_day (gmtime sec))) = sec div 86400 \<and>
   1 \<le> c_month (gmtime sec) \<and> c_month (gmtime sec) \<le> 12 \<and> 1 \<le> c_day (gmtime sec) \<and>
   c_day (gmtime sec) \<le> month_days (c_year (gmtime sec)) (c_month (gmtime sec)) \<and>
   1970 + 400 * (sec div 86400 div 146097) \<le> c_year (gmtime sec)"
proof -
  let ?days = "sec div 86400"
  obtain y yd where y: "cal_year (1970 + 400 * (?days div 146097)) (nat (?days mod 146097)) = (y, yd)" by fastforce
  obtain m d where m: "cal_month 11 y yd = (m, d)" by fastforce
  have "146097 * (?days div 146097) + int (nat (?days mod 146097)) = ?days" by simp
  from cal_year_days [OF y, unfolded days_of_epoch this] have yy: "?days = days_of y 1 1 + int yd" "yd < year_days y" "1970 + 400 * (?days div 146097) \<le> y"
    by blast+
  from cal_month_days [OF m] yy(2) have mm: "days_of y 1 1 + int yd = days_of y (int m) 1 + int d" "d < month_days y m" "1 \<le> m" "m \<le> 12"
    by (simp_all add: months_left_year)
  have g: "c_year (gmtime sec) = y" "c_month (gmtime sec) = m" "c_day (gmtime sec) = d + 1"
    using y m by (simp_all add: gmtime_def Let_def)
  have "days_of y (int m) (int (d + 1)) = ?days"
    using yy(1) mm(1) days_of_add [of y "int m" 1 "int d"] by (simp add: add.commute)
  with g yy mm show ?thesis by simp
qed

lemma gmtime_time:
  "timegmUtc (c_year (gmtime sec)) (int (c_month (gmtime sec))) (int (c_day (gmtime sec)))
     (int (c_hour (gmtime sec))) (int (c_minute (gmtime sec))) (int (c_second (gmtime sec))) = sec"
proof -
  define r where "r = nat (sec mod 86400)"
  have r: "int r = sec mod 86400" "r < 86400" by (simp_all add: r_def)
  have "c_hour (gmtime sec) = r div 3600" "c_minute (gmtime sec) = r div 60 mod 60" "c_second (gmtime sec) = r mod 60"
    by (simp_all add: gmtime_def Let_def split_beta r_def)
  moreover have "r div 3600 * 3600 + r div 60 mod 60 * 60 + r mod 60 = r"
  proof -
    have "r div 3600 = r div 60 div 60" by (simp add: div_mult2_eq [symmetric])
    moreover have "q * 3600 + q' * 60 = (q * 60 + q') * 60" for q q' :: nat by simp
    ultimately have "r div 3600 * 3600 + r div 60 mod 60 * 60 = r div 60 * 60" by (simp only: div_mult_mod_eq)
    then show ?thesis by (simp only: div_mult_mod_eq)
  qed
  ultimately have "int (c_hour (gmtime sec) * 3600 + c_minute (gmtime sec) * 60 + c_second (gmtime sec)) = int r"
    by (simp only:)
  then have "int (c_hour (gmtime sec)) * 3600 + int (c_minute (gmtime sec)) * 60 + int (c_second (gmtime sec)) = int r"
    by (simp only: of_nat_add of_nat_mult of_nat_numeral)
  moreover have "days_of (c_year (gmtime sec)) (int (c_month (gmtime sec))) (int (c_day (gmtime sec))) = sec div 86400"
    using gmtime_days [of sec] by blast
  moreover have "sec div 86400 * 86400 + sec mod 86400 = sec" by (rule div_mult_mod_eq)
  moreover have "h * 3600 + m * 60 + s = x \<Longrightarrow> d = q \<Longrightarrow> q * 86400 + x = t \<Longrightarrow> d * 86400 + h * 3600 + m * 60 + s = t"
    for h m s x d q t :: int by simp
  ultimately show ?thesis unfolding timegmUtc_days r(1) by blast
qed

section \<open>The clock\<close>

lemma month_days_daysInMonth: "1 \<le> m \<Longrightarrow> m \<le> 12 \<Longrightarrow> daysInMonth y (int m) = int (month_days y m)"
proof -
  assume "1 \<le> m" "m \<le> 12"
  then have "m = 1 \<or> m = 2 \<or> m = 3 \<or> m = 4 \<or> m = 5 \<or> m = 6 \<or> m = 7 \<or> m = 8 \<or> m = 9 \<or> m = 10 \<or> m = 11 \<or> m = 12"
    by presburger
  then show ?thesis by (auto simp: daysInMonth_def month_days_def leap_year_def)
qed

lemma gmtime_hour: "c_hour (gmtime sec) < 24" "c_minute (gmtime sec) < 60" "c_second (gmtime sec) < 60"
  by (auto simp: gmtime_def Let_def split_beta)

text \<open>Until the end of the year 9999.\<close>

lemma gmtime_year_4:
  assumes "0 \<le> sec" "sec < 253402300800"
  shows "1970 \<le> c_year (gmtime sec) \<and> c_year (gmtime sec) < 10000"
proof
  have "0 \<le> sec div 86400 div 146097" using assms(1) by simp
  then show "1970 \<le> c_year (gmtime sec)" using gmtime_days [of sec] by linarith
  show "c_year (gmtime sec) < 10000"
  proof (rule ccontr)
    assume n: "\<not> c_year (gmtime sec) < 10000"
    have mono: "days_of y 1 1 \<le> days_of (y + int k) 1 1" for y k
    proof (induction k)
      case (Suc k)
      have "y + int (Suc k) = (y + int k) + 1" by simp
      then have "days_of (y + int (Suc k)) 1 1 = days_of (y + int k) 1 1 + int (year_days (y + int k))"
        using days_of_next_year [of "y + int k"] by argo
      with Suc show ?case by linarith
    qed simp
    let ?t = "gmtime sec"
    obtain k where k: "c_year ?t = 10000 + int k" using n zle_iff_zadd [of 10000 "c_year ?t"] by auto
    have mono_m: "days_of y 1 1 \<le> days_of y (int m) 1" if "1 \<le> m" "m \<le> 12" for y m
      using that
    proof (induction m rule: nat_induct_at_least)
      case (Suc m)
      then show ?case using days_of_next_month [of m y] by simp
    qed simp
    have "days_of 10000 1 1 \<le> days_of (c_year ?t) 1 1" using mono [of 10000 k] k by simp
    also have "\<dots> \<le> days_of (c_year ?t) (int (c_month ?t)) 1" using gmtime_days [of sec] by (intro mono_m) auto
    also have "\<dots> \<le> days_of (c_year ?t) (int (c_month ?t)) (int (c_day ?t))"
      using gmtime_days [of sec] days_of_add [of "c_year ?t" "int (c_month ?t)" 1 "int (c_day ?t) - 1"] by simp
    also have "\<dots> = sec div 86400" using gmtime_days [of sec] by simp
    finally have "2932897 \<le> sec div 86400" by (simp add: days_of_def elapsed_def)
    with assms(2) show False by linarith
  qed
qed

lemma digit_year:
  assumes "1000 \<le> n" "n < 10000"
  shows "dec n = pad0 4 (dec n)"
proof -
  have "\<not> length (dec n) < 4"
  proof
    assume "length (dec n) < 4"
    then have "length (dec n) \<le> 3" by simp
    then have "(10 :: nat) ^ length (dec n) \<le> 10 ^ 3" by (intro power_increasing) auto
    moreover have "n < 10 ^ length (dec n)"
      using digits_value_less [of "dec n"] dec_digits [of _ n] digits_value_dec [of n] by (simp add: list_all_iff)
    ultimately show False using assms(1) by simp
  qed
  then show ?thesis by (simp add: pad0_def)
qed

lemma parse_clock_text:
  assumes "y < 10000" "1970 \<le> y" "1 \<le> mo" "mo \<le> 12" "1 \<le> d" "d \<le> month_days (int y) mo" "h < 24" "mi < 60" "s < 60"
  shows "parseMgeDateTime (pad0 4 (dec y) @ ''/'' @ two mo @ ''/'' @ two d @ '' '' @ two h @ '':'' @ two mi @ '':'' @ two s) =
    Some (timegmUtc (int y) (int mo) (int d) (int h) (int mi) (int s))"
proof -
  have d31: "d < 100" using assms(6) by (auto simp: month_days_def split: if_splits)
  have two: "v < 100 \<Longrightarrow> parseDigits (two v @ r) 1 2 = Some (int v, r)" "v < 100 \<Longrightarrow> parseDigits (two v) 1 2 = Some (int v, [])" for v r
    using parseDigits_pad [of v 2 1 r] parseDigits_pad [of v 2 1 "[]"] by (simp_all add: two_def)
  have year: "parseDigits (pad0 4 (dec y) @ r) 4 4 = Some (int y, r)" for r
    using parseDigits_pad [of y 4 4 r] assms(1) by simp
  have dsp: "\<not> isSpaceChar c" if "is_digit c" for c
    using that by (auto simp: isSpaceChar_def in_range_def ord_def)
  have "list_all is_digit (two h)" by (simp add: two_def pad0_digits)
  then have "dropWhile isSpaceChar (two h @ r) = two h @ r" for r
    using dsp assms(7) length_pad0 [of h 2] by (cases "two h") (auto simp: two_def)
  then have sp: "skip_spaces (CHR '' '' # two h @ r) = two h @ r" for r
    by (simp add: skip_spaces_def isSpaceChar_def)
  have ex: "expect c (c # r) = Some r" for c r by (simp add: expect_def)
  show ?thesis
    unfolding parseMgeDateTime_def
    using assms d31 month_days_daysInMonth [of mo "int y"]
    by (simp add: year two [simplified] ex sp isSpaceChar_def)
qed

lemma clock_texts:
  assumes "0 \<le> sec" "sec < 253402300800"
  shows "parseMgeDateTime (strftime_date (gmtime sec) @ '' '' @ strftime_time (gmtime sec)) = Some sec"
    and "length (strftime_date (gmtime sec)) = 10" "length (strftime_time (gmtime sec)) = 8"
proof -
  let ?t = "gmtime sec"
  define y where "y = nat (c_year ?t)"
  have y: "c_year ?t = int y" "1970 \<le> y" "y < 10000" using gmtime_year_4 [OF assms] by (auto simp: y_def)
  have ytext: "dec_int (c_year ?t) = pad0 4 (dec y)" using digit_year [of y] y by (simp add: dec_int_def)
  have g: "1 \<le> c_month ?t" "c_month ?t \<le> 12" "1 \<le> c_day ?t" "c_day ?t \<le> month_days (int y) (c_month ?t)"
    using gmtime_days [of sec] y(1) by auto
  have "c_day ?t < 100" using g(4) by (auto simp: month_days_def split: if_splits)
  then have len: "length (pad0 4 (dec y)) = 4" "length (two (c_month ?t)) = 2" "length (two (c_day ?t)) = 2"
    "length (two (c_hour ?t)) = 2" "length (two (c_minute ?t)) = 2" "length (two (c_second ?t)) = 2"
    using g(2) gmtime_hour [of sec] y(3) length_pad0 [of _ 2] length_pad0 [of y 4] by (simp_all add: two_def)
  show "length (strftime_date ?t) = 10" "length (strftime_time ?t) = 8"
    using len by (simp_all add: strftime_date_def strftime_time_def ytext)
  have "strftime_date ?t @ '' '' @ strftime_time ?t = pad0 4 (dec y) @ ''/'' @ two (c_month ?t) @ ''/'' @ two (c_day ?t) @ '' '' @
      two (c_hour ?t) @ '':'' @ two (c_minute ?t) @ '':'' @ two (c_second ?t)"
    by (simp add: strftime_date_def strftime_time_def ytext)
  then show "parseMgeDateTime (strftime_date ?t @ '' '' @ strftime_time ?t) = Some sec"
    using parse_clock_text [OF y(3,2) g gmtime_hour, of sec sec sec] gmtime_time [of sec] y(1) by simp
qed

text \<open>Setting the clock to what it shows changes nothing. For every second until the year
  10000, the date and the time published for it, written back one at a time while the other
  half is published, both encode to that second.\<close>

theorem mge_clock_roundtrip:
  assumes "0 \<le> sec" "sec < 253402300800"
    and "decode (row n1 f1 l1 p1 d1 h1 CvMgeDate k1) (of_int sec) ctx None = (ctx, DecOk date)"
    and "decode (row n2 f2 l2 p2 d2 h2 CvMgeTime k2) (of_int sec) ctx None = (ctx, DecOk time)"
    and "ud_find data ''ups.date'' = Some date" "ud_find data ''ups.time'' = Some time"
  shows "encode (row n1 f1 l1 p1 d1 h1 CvMgeDate k1) (Some date) ctx data = Some (of_int sec) \<and>
    encode (row n2 f2 l2 p2 d2 h2 CvMgeTime k2) (Some time) ctx data = Some (of_int sec)"
proof -
  have t: "date = strftime_date (gmtime sec)" "time = strftime_time (gmtime sec)"
    using assms(3,4) clock_texts(2,3) [OF assms(1,2)] by (simp_all add: decode_def row_def decode_mge_clock_def Let_def)
  have len: "length date = 10" "length time = 8" using clock_texts(2,3) [OF assms(1,2)] t by simp_all
  have other: "ud_get data ''ups.time'' [] = time" "ud_get data ''ups.date'' [] = date"
    using assms(5,6) by (simp_all add: ud_get_def ud_find_def)
  have "encode_mge_clock True date data = Some sec" "encode_mge_clock False time data = Some sec"
    using clock_texts(1) [OF assms(1,2)] len other t by (auto simp: encode_mge_clock_def Let_def)
  then show ?thesis by (simp add: encode_def row_def)
qed

definition clock_sample :: ups_data where
  "clock_sample = ud_set (ud_set ud_new ''ups.date'' ''2024/02/29'') ''ups.time'' ''23:59:58''"

theorem mge_clock_roundtrip_witness:
  "encode (row ''ups.date'' 3 10 ''UPS.Date'' None 0 CvMgeDate []) (Some ''2024/02/29'') initial_context clock_sample = Some 1709251198"
proof -
  have g: "gmtime 1709251198 = \<lparr>c_year = 2024, c_month = 2, c_day = 29, c_hour = 23, c_minute = 59, c_second = 58\<rparr>"
  proof -
    have "cal_year 1970 19782 = (2024, 59)" by (simp add: cal_year.simps year_days_def leap_year_def)
    moreover have "cal_month 11 2024 59 = (2, 28)" by code_simp
    ultimately show ?thesis by (simp add: gmtime_def Let_def)
  qed
  have t: "strftime_date (gmtime 1709251198) = ''2024/02/29''" "strftime_time (gmtime 1709251198) = ''23:59:58''"
    unfolding g by code_simp+
  have "decode (row ''ups.date'' 3 10 ''UPS.Date'' None 0 CvMgeDate []) (of_int 1709251198) initial_context None = (initial_context, DecOk ''2024/02/29'')"
    "decode (row ''ups.time'' 3 10 ''UPS.Time'' None 0 CvMgeTime []) (of_int 1709251198) initial_context None = (initial_context, DecOk ''23:59:58'')"
    using t by (simp_all add: decode_def row_def decode_mge_clock_def to_int_of_int [of 1709251198, simplified])
  moreover have "ud_find clock_sample ''ups.date'' = Some ''2024/02/29''" "ud_find clock_sample ''ups.time'' = Some ''23:59:58''"
    by (simp_all add: clock_sample_def ud_find_def ud_set_def ud_new_def)
  ultimately show ?thesis using mge_clock_roundtrip [of 1709251198] by simp
qed

end
