(* ===== verification/NutStatus.thy ===== *)
theory NutStatus
  imports NutTable
begin

text \<open>
  The status bits of \<open>NutTable.h\<close>: what a token does to them, the invariant that opposite bits
  are never set together, and the \<open>ups.status.*\<close> keys made from them.
\<close>

section \<open>Tokens and bits\<close>

lemma bit_statusBit: "bit (statusBit b) k \<longleftrightarrow> k = b \<and> b < 32"
  by (auto simp: statusBit_def bit_exp_iff possible_bit_def)

lemma statusBit_and: "b < 32 \<Longrightarrow> w AND statusBit b \<noteq> 0 \<longleftrightarrow> bit w b"
proof
  assume b: "b < 32"
  show "bit w b \<Longrightarrow> w AND statusBit b \<noteq> 0"
  proof
    assume "bit w b" and zero: "w AND statusBit b = 0"
    then have "bit (w AND statusBit b) b" using b unfolding bit_and_iff bit_statusBit by simp
    then show False unfolding zero by simp
  qed
  show "w AND statusBit b \<noteq> 0 \<Longrightarrow> bit w b"
  proof (rule ccontr)
    assume "w AND statusBit b \<noteq> 0" "\<not> bit w b"
    moreover from this(2) have "w AND statusBit b = 0"
      by (intro bit_word_eqI) (auto simp: bit_and_iff bit_statusBit)
    ultimately show False by simp
  qed
qed

lemma token_index_name:
  "token_index ts k name = Some b \<Longrightarrow> k \<le> b \<and> b - k < length ts \<and> map lower (ts ! (b - k)) = map lower name"
proof (induction ts arbitrary: k)
  case (Cons t ts)
  show ?case
  proof (cases "equalsIgnoreCase (Some t) (Some name)")
    case True
    with Cons.prems show ?thesis by (auto simp: equalsIgnoreCase_lower)
  next
    case False
    with Cons.prems have "token_index ts (Suc k) name = Some b" by simp
    from Cons.IH [OF this] show ?thesis by (auto simp: nth_Cons' Suc_diff_le)
  qed
qed simp

lemma length_kStatusTokens: "length kStatusTokens = 30"
  by (simp add: kStatusTokens_def)

lemma kStatusTokens_lower: "t \<in> set kStatusTokens \<Longrightarrow> map lower t = t"
proof -
  have "list_all (\<lambda>t. map lower t = t) kStatusTokens"
    by (simp add: kStatusTokens_def lower_def in_range_def ord_def)
  then show "t \<in> set kStatusTokens \<Longrightarrow> map lower t = t" by (simp add: list_all_iff)
qed

definition lower_token :: "string \<Rightarrow> bool" where
  "lower_token t \<longleftrightarrow> map lower t = t"

lemma token_index_exact:
  assumes "token_index kStatusTokens 0 name = Some b" "lower_token name"
  shows "b < 30 \<and> kStatusTokens ! b = name"
proof -
  from token_index_name [OF assms(1)] have "b < 30" "map lower (kStatusTokens ! b) = map lower name"
    by (auto simp: length_kStatusTokens)
  then show ?thesis
    using assms(2) kStatusTokens_lower [of "kStatusTokens ! b"] by (simp add: lower_token_def length_kStatusTokens)
qed

lemma token_index_bound: "token_index kStatusTokens 0 name = Some b \<Longrightarrow> b < 30"
  using token_index_name [of kStatusTokens 0 name b] by (simp add: length_kStatusTokens)

text \<open>The name and the sense of a token.\<close>

definition token_clears :: "string \<Rightarrow> bool" where
  "token_clears t \<longleftrightarrow> (case t of c # r \<Rightarrow> c = CHR ''!'' | [] \<Rightarrow> False)"

definition token_name :: "string \<Rightarrow> string" where
  "token_name t = (if token_clears t then tl t else t)"

lemma applyStatusToken_bit_bits:
  "bit (sb_set (applyStatusToken_bit s t)) k =
     (if token_index kStatusTokens 0 (token_name t) = Some k then \<not> token_clears t else bit (sb_set s) k)"
  "bit (sb_known (applyStatusToken_bit s t)) k =
     (token_index kStatusTokens 0 (token_name t) = Some k \<or> bit (sb_known s) k)"
proof -
  have eq: "(case t of c # r \<Rightarrow> if c = CHR ''!'' then (True, r) else (False, t) | [] \<Rightarrow> (False, t)) = (token_clears t, token_name t)"
    by (simp add: token_clears_def token_name_def split: list.splits)
  show "bit (sb_set (applyStatusToken_bit s t)) k =
     (if token_index kStatusTokens 0 (token_name t) = Some k then \<not> token_clears t else bit (sb_set s) k)"
    "bit (sb_known (applyStatusToken_bit s t)) k =
     (token_index kStatusTokens 0 (token_name t) = Some k \<or> bit (sb_known s) k)"
    unfolding applyStatusToken_bit_def eq
    by (auto simp: bit_and_iff bit_or_iff bit_not_iff bit_statusBit possible_bit_def dest: token_index_bound bit_imp_le_length split: option.splits)
qed

section \<open>Opposite bits\<close>

definition status_ok :: "status_bits \<Rightarrow> bool" where
  "status_ok s \<longleftrightarrow> \<not> (bit (sb_set s) ST_ONLINE \<and> bit (sb_set s) ST_OFFLINE) \<and>
     \<not> (bit (sb_set s) ST_FULLYCHARGED \<and> bit (sb_set s) ST_NOTFULLYCHARGED)"

lemma opposite_indices:
  "token_index kStatusTokens 0 ''online'' = Some ST_ONLINE" "token_index kStatusTokens 0 ''offline'' = Some ST_OFFLINE"
  "token_index kStatusTokens 0 ''fullycharged'' = Some ST_FULLYCHARGED"
  "token_index kStatusTokens 0 ''notfullycharged'' = Some ST_NOTFULLYCHARGED"
  by (simp_all add: kStatusTokens_def equalsIgnoreCase_lower lower_def in_range_def ord_def)

lemma opposite_names:
  "kStatusTokens ! ST_ONLINE = ''online''" "kStatusTokens ! ST_OFFLINE = ''offline''"
  "kStatusTokens ! ST_FULLYCHARGED = ''fullycharged''" "kStatusTokens ! ST_NOTFULLYCHARGED = ''notfullycharged''"
  by (simp_all add: kStatusTokens_def)

lemma token_name_plain: "\<not> token_clears t \<Longrightarrow> token_name t = t"
  by (simp add: token_name_def)

lemma token_name_clear: "token_clears (CHR ''!'' # t)" "token_name (CHR ''!'' # t) = t"
  by (simp_all add: token_name_def token_clears_def)

lemma literal_tokens:
  "\<not> token_clears ''online''" "\<not> token_clears ''offline''" "\<not> token_clears ''fullycharged''" "\<not> token_clears ''notfullycharged''"
  by (simp_all add: token_clears_def)

lemma status_ok_clear: "status_ok s \<Longrightarrow> token_clears t \<Longrightarrow> status_ok (applyStatusToken_bit s t)"
  by (auto simp: status_ok_def applyStatusToken_bit_bits)

lemma status_ok_plain:
  assumes "status_ok s" "\<not> token_clears t" "lower_token t"
    and "t \<notin> {''online'', ''offline'', ''fullycharged'', ''notfullycharged''}"
  shows "status_ok (applyStatusToken_bit s t)"
proof -
  have "b \<notin> {ST_ONLINE, ST_OFFLINE, ST_FULLYCHARGED, ST_NOTFULLYCHARGED}"
    if "token_index kStatusTokens 0 t = Some b" for b
  proof
    assume "b \<in> {ST_ONLINE, ST_OFFLINE, ST_FULLYCHARGED, ST_NOTFULLYCHARGED}"
    then have "kStatusTokens ! b \<in> {''online'', ''offline'', ''fullycharged'', ''notfullycharged''}"
      using opposite_names by auto
    then show False using token_index_exact [OF that assms(3)] assms(4) by simp
  qed
  then show ?thesis
    using assms(1,2) by (auto simp: status_ok_def applyStatusToken_bit_bits token_name_plain)
qed

lemma opposite_tokens_differ:
  "''offline'' \<noteq> ''online''" "''fullycharged'' \<noteq> ''online''" "''notfullycharged'' \<noteq> ''online''"
  "''fullycharged'' \<noteq> ''offline''" "''notfullycharged'' \<noteq> ''offline''" "''notfullycharged'' \<noteq> ''fullycharged''"
  by simp_all

lemma applyStatusToken_ok:
  assumes "status_ok s" "lower_token t"
  shows "status_ok (applyStatusToken s (Some t))"
proof -
  consider "t = ''online''" | "t = ''offline''" | "t = ''fullycharged''" | "t = ''notfullycharged''"
    | "t \<notin> {''online'', ''offline'', ''fullycharged'', ''notfullycharged''}" by blast
  then show ?thesis
  proof cases
    case 5
    then have "applyStatusToken s (Some t) = applyStatusToken_bit s t" by (simp add: applyStatusToken_def Let_def)
    then show ?thesis using assms 5 status_ok_clear status_ok_plain by (cases "token_clears t") auto
  qed (use assms(1) opposite_tokens_differ in \<open>simp_all add: applyStatusToken_def Let_def status_ok_def applyStatusToken_bit_bits
      token_name_clear literal_tokens token_name_plain opposite_indices\<close>)
qed

text \<open>A token leaves its own bit as it says, and its name decides alone.\<close>

lemma applyStatusToken_sets:
  assumes "token_index kStatusTokens 0 (token_name t) = Some b"
  shows "bit (sb_set (applyStatusToken s (Some t))) b = (\<not> token_clears t) \<and> bit (sb_known (applyStatusToken s (Some t))) b"
  using assms by (simp add: applyStatusToken_def Let_def applyStatusToken_bit_bits)

section \<open>The keys\<close>

definition status_value :: "status_bits \<Rightarrow> nat \<Rightarrow> nat \<Rightarrow> string option" where
  "status_value s yes no = (if bit (sb_set s) yes then Some ''1'' else if bit (sb_set s) no then Some ''0'' else None)"

lemma statusKeys_power:
  "(''ups.status.ac_present'', v) \<in> set (statusKeys s) \<longleftrightarrow>
     (bit (sb_known s) ST_ONLINE \<or> bit (sb_known s) ST_OFFLINE) \<and> v = status_value s ST_ONLINE ST_OFFLINE"
proof -
  have mem: "(k, v) \<in> set (concat (map (\<lambda>(b, key). case key of None \<Rightarrow> []
             | Some k \<Rightarrow> if P b then [] else [(k, F b)]) ps)) \<Longrightarrow> Some k \<in> snd ` set ps" for k v P F ps
    by (force split: option.splits if_splits)
  have "Some ''ups.status.ac_present'' \<notin> set status_key_names" by (simp add: status_key_names_def)
  then have none: "Some ''ups.status.ac_present'' \<notin> snd ` set (zip [0..<length status_key_names] status_key_names)"
    by (auto dest: set_zip_rightD simp del: length_map)
  have rest: "(''ups.status.ac_present'', v) \<notin> set (concat (map (\<lambda>(b, key). case key of None \<Rightarrow> []
             | Some k \<Rightarrow> if P b then [] else [(k, F b)]) (zip [0..<length status_key_names] status_key_names)))" for P F
    by (rule notI, drule mem) (simp only: none)
  have known: "sb_known s AND (statusBit ST_ONLINE OR statusBit ST_OFFLINE) \<noteq> 0 \<longleftrightarrow>
      bit (sb_known s) ST_ONLINE \<or> bit (sb_known s) ST_OFFLINE"
    unfolding bit.conj_disj_distrib or_eq_0_iff
    using statusBit_and [of ST_ONLINE "sb_known s"] statusBit_and [of ST_OFFLINE "sb_known s"] by simp
  have hit: "(k, v) \<in> set (if c then [(k, x)] else []) \<longleftrightarrow> c \<and> v = x" for k :: string and v x :: "string option" and c
    by auto
  have miss: "(''ups.status.ac_present'', v) \<notin> set (if c then [(''ups.status.fully_charged'', x)] else [])" for c x
    by simp
  have acval: "(if sb_set s AND statusBit ST_ONLINE \<noteq> 0 then Some ''1''
                 else if sb_set s AND statusBit ST_OFFLINE \<noteq> 0 then Some ''0'' else None) = status_value s ST_ONLINE ST_OFFLINE"
    by (simp add: statusBit_and status_value_def)
  show ?thesis
    unfolding statusKeys_def Let_def set_append Un_iff known hit acval by (simp only: rest miss simp_thms)
qed

end
