(* ===== verification/NutBinding.thy ===== *)
theory NutBinding
  imports NutStatus NutDecode
begin

text \<open>
  The second half of \<open>NutTable.h\<close>: the rows of a table are matched with the usages of the
  attached device (\<open>pathMatches\<close>, \<open>bindRows\<close>), the first row of a variable whose value converts
  wins (\<open>resolve\<close>), values and string descriptors arrive (\<open>onValue\<close>, \<open>onString\<close>), and the
  internal rows keep the status bits (\<open>walkInternalRows\<close>). Every row of the tables has a path, so
  the test for a null path is not modelled; the pointer of a bound row to its usage is its index.
\<close>

section \<open>Paths\<close>

text \<open>\<open>strchr\<close>: the text up to a character, and the text after it when there is one.\<close>

definition upto :: "char \<Rightarrow> string \<Rightarrow> string" where
  "upto c s = takeWhile (\<lambda>x. x \<noteq> c) s"

definition after :: "char \<Rightarrow> string \<Rightarrow> string option" where
  "after c s = (case dropWhile (\<lambda>x. x \<noteq> c) s of [] \<Rightarrow> None | _ # r \<Rightarrow> Some r)"

lemma length_after: "after c s = Some r \<Longrightarrow> length r < length s"
  using length_dropWhile_le [of "\<lambda>x. x \<noteq> c" s] by (auto simp: after_def split: list.splits)

text \<open>The index token after a segment: the index the collection must have, and what follows the
  dot after it. \<open>None\<close> for a token that is not closed, or closes the path.\<close>

definition index_token :: "string \<Rightarrow> (u8 \<times> string) option" where
  "index_token pe =
     (case pe of
        c # r \<Rightarrow>
          if c = CHR ''['' then
            (case after (CHR '']'') r of
               None \<Rightarrow> None
             | Some close \<Rightarrow> (case close of
                   d # rest \<Rightarrow> if d = CHR ''.'' then Some (of_int (atoi r + 1), rest) else None
                 | [] \<Rightarrow> None))
          else Some (0, pe)
      | [] \<Rightarrow> Some (0, pe))"

lemma length_index_token: "index_token pe = Some (want, p) \<Longrightarrow> length p \<le> length pe"
  by (auto simp: index_token_def dest: length_after split: list.splits if_splits option.splits)

function path_loop :: "u8 list \<Rightarrow> nat \<Rightarrow> string \<Rightarrow> string \<Rightarrow> bool" where
  "path_loop coll_index depth p q =
     (let plen = length (upto (CHR ''.'') p); qlen = length (upto (CHR ''.'') q)
      in if plen \<noteq> qlen \<or> \<not> equalsIgnoreCaseN p q plen then False
         else (case after (CHR ''.'') p of
             None \<Rightarrow> after (CHR ''.'') q = None
           | Some pe \<Rightarrow> (case index_token pe of
                 None \<Rightarrow> False
               | Some (want, p') \<Rightarrow> (case after (CHR ''.'') q of
                     None \<Rightarrow> False
                   | Some q' \<Rightarrow>
                       let have = (if depth < 8 then coll_index ! depth else 0)
                       in if have \<noteq> want then False else path_loop coll_index (depth + 1) p' q'))))"
  by pat_completeness auto
termination
  by (relation "measure (\<lambda>(c, d, p, q). length p)") (auto dest!: length_after length_index_token)

declare path_loop.simps [simp del]

definition pathMatches :: "hid_usage_def \<Rightarrow> string \<Rightarrow> bool" where
  "pathMatches u path = path_loop (hu_coll_index u) 0 path (hu_path u)"

definition rowMatches :: "hid_usage_def \<Rightarrow> hid_info \<Rightarrow> bool" where
  "rowMatches u info =
     (if hi_hidflags info AND HU_FLAG_ANY_INDEX \<noteq> 0 then equalsIgnoreCase (Some (hu_path u)) (Some (hi_hidpath info))
      else pathMatches u (hi_hidpath info))"

section \<open>Bound rows\<close>

datatype first_value = FirstUnread | FirstOk | FirstFail

datatype bound_role = RolePending | RoleActive | RoleDead

record bound =
  bd_info :: hid_info
  bd_idx :: nat
  bd_twin_idx :: "nat option"
  bd_value :: string
  bd_has :: bool
  bd_deferred :: bool
  bd_cleared :: bool
  bd_string_index :: u8
  bd_last :: rat
  bd_seen :: bool
  bd_first :: first_value
  bd_role :: bound_role

definition bound_new :: "hid_info \<Rightarrow> nat \<Rightarrow> nat option \<Rightarrow> bound" where
  "bound_new info idx twin = \<lparr>bd_info = info, bd_idx = idx, bd_twin_idx = twin, bd_value = [], bd_has = False,
     bd_deferred = False, bd_cleared = False, bd_string_index = 0, bd_last = 0, bd_seen = False,
     bd_first = FirstUnread, bd_role = RolePending\<rparr>"

abbreviation bd_name :: "bound \<Rightarrow> string" where
  "bd_name b \<equiv> hi_info_type (bd_info b)"

text \<open>The rows outside the rule of the first value.\<close>

definition exempt :: "bound \<Rightarrow> bool" where
  "exempt b \<longleftrightarrow> isInternalRow (bd_info b) \<or> isCommandRow (bd_info b)"

text \<open>The inner loop of \<open>resolve\<close>, over the rows from the first of the group on.\<close>

fun resolve_group :: "string \<Rightarrow> bool \<Rightarrow> bool \<Rightarrow> bound list \<Rightarrow> bound list" where
  "resolve_group name blocked decided [] = []"
| "resolve_group name blocked decided (b # bs) =
     (if exempt b then b # resolve_group name blocked decided bs
      else if bd_name b \<noteq> name then b # resolve_group name blocked decided bs
      else if decided \<or> bd_first b = FirstFail
      then b\<lparr>bd_role := RoleDead\<rparr> # resolve_group name blocked decided bs
      else if bd_first b = FirstUnread
      then b\<lparr>bd_role := RolePending\<rparr> # resolve_group name True decided bs
      else if blocked
      then b\<lparr>bd_role := RolePending\<rparr> # resolve_group name blocked decided bs
      else b\<lparr>bd_role := RoleActive\<rparr> # resolve_group name blocked True bs)"

definition resolve_at :: "nat \<Rightarrow> bound list \<Rightarrow> bound list" where
  "resolve_at i binds =
     (let b = binds ! i
      in if exempt b then binds
         else if bd_name b \<in> set (map bd_name (take i binds)) then binds
         else take i binds @ resolve_group (bd_name b) False False (drop i binds))"

definition resolve :: "bound list \<Rightarrow> bound list" where
  "resolve binds = fold resolve_at [0..<length binds] binds"

section \<open>Binding a table\<close>

definition pathListed :: "string \<Rightarrow> string list \<Rightarrow> bool" where
  "pathListed path listed = list_ex (\<lambda>p. path = p) listed"

text \<open>The index of the first usage that passes the test.\<close>

fun first_usage :: "(nat \<Rightarrow> hid_usage_def \<Rightarrow> bool) \<Rightarrow> nat \<Rightarrow> hid_usage_def list \<Rightarrow> nat option" where
  "first_usage P i [] = None"
| "first_usage P i (u # us) = (if P i u then Some i else first_usage P (i + 1) us)"

definition usage_twin :: "hid_usage_def list \<Rightarrow> nat \<Rightarrow> nat option" where
  "usage_twin usages idx =
     (let a = usages ! idx
      in first_usage (\<lambda>u b. u \<noteq> idx \<and> hu_report_type b \<noteq> 0x02 \<and> hu_report_id b = hu_report_id a \<and>
           hu_report_type b \<noteq> hu_report_type a \<and> hu_path b = hu_path a \<and> hu_coll_index b = hu_coll_index a) 0 usages)"

definition bind_row :: "hid_info \<Rightarrow> hid_usage_def list \<Rightarrow> string list \<Rightarrow> bound option" where
  "bind_row info usages skip =
     (if pathListed (hi_hidpath info) skip then None
      else case first_usage (\<lambda>i u. hu_report_type u \<noteq> 0x02 \<and> rowMatches u info) 0 usages of
             None \<Rightarrow> None
           | Some idx \<Rightarrow>
               let b = bound_new info idx (usage_twin usages idx);
                   b = (if hi_hidflags info AND HU_FLAG_ABSENT \<noteq> 0
                        then b\<lparr>bd_value := (case hi_dfl info of Some t \<Rightarrow> t | None \<Rightarrow> []), bd_has := True, bd_first := FirstOk\<rparr>
                        else b);
                   b = (if isInternalRow info then b\<lparr>bd_role := RoleActive\<rparr> else b)
               in Some b)"

definition bindRows :: "bound list \<Rightarrow> hid_info list \<Rightarrow> hid_usage_def list \<Rightarrow> string list \<Rightarrow> bound list" where
  "bindRows binds table usages skip =
     binds @ concat (map (\<lambda>info. case bind_row info usages skip of None \<Rightarrow> [] | Some b \<Rightarrow> [b]) table)"

definition bind_table :: "hid_info list \<Rightarrow> hid_usage_def list \<Rightarrow> bound list" where
  "bind_table table usages = resolve (bindRows [] table usages [])"

section \<open>Values\<close>

definition on_text :: "bound list \<Rightarrow> nat \<Rightarrow> string \<Rightarrow> bound list" where
  "on_text binds i text =
     (let b = binds ! i;
          b = b\<lparr>bd_value := text, bd_has := True, bd_deferred := False,
                bd_first := (if bd_first b = FirstUnread then FirstOk else bd_first b)\<rparr>
      in resolve (binds[i := b]))"

text \<open>A value for a row that is published.\<close>

definition on_public :: "bound list \<Rightarrow> nat \<Rightarrow> rat \<Rightarrow> nut_context \<Rightarrow> ups_data option \<Rightarrow> bound list \<times> nut_context" where
  "on_public binds i v ctx data =
     (let b = binds ! i;
          b = (if hi_conv (bd_info b) = CvStringId \<and> 1 \<le> v \<and> v \<le> 255 then b\<lparr>bd_string_index := of_int (to_int v)\<rparr> else b);
          static = (if hi_conv (bd_info b) = CvLookup \<or> (hi_conv (bd_info b) = CvAbmStatus \<and> cx_abm ctx = ABM_ENABLED)
                    then staticText (bd_info b) v ctx else None)
      in case static of
           Some text \<Rightarrow> (on_text (binds[i := b]) i text, ctx)
         | None \<Rightarrow>
             (let (ctx, r) = decode (bd_info b) v ctx data;
                  b = (if r = DecClear then b\<lparr>bd_cleared := True, bd_has := False\<rparr> else b);
                  b = b\<lparr>bd_deferred := (r = DecDefer \<or> r = DecClear)\<rparr>
              in if bd_deferred b then (binds[i := b], ctx)
                 else case r of
                     DecOk out \<Rightarrow>
                       (resolve (binds[i := b\<lparr>bd_value := out, bd_has := True,
                          bd_first := (if bd_first b = FirstUnread then FirstOk else bd_first b)\<rparr>]), ctx)
                   | _ \<Rightarrow>
                       (resolve (binds[i := b\<lparr>bd_first := (if bd_first b = FirstUnread then FirstFail else bd_first b)\<rparr>]), ctx)))"

definition internal_apply :: "hid_info \<Rightarrow> rat \<Rightarrow> nut_context \<Rightarrow> ups_data option \<Rightarrow> nut_context" where
  "internal_apply info v ctx data =
     (if hi_info_type info = ''BOOL''
      then ctx\<lparr>cx_status := applyStatusToken (cx_status ctx) (statusToken info v ctx data)\<rparr>
      else applyInternal info v ctx)"

definition onValue :: "bound list \<Rightarrow> nat \<Rightarrow> rat \<Rightarrow> nut_context \<Rightarrow> ups_data option \<Rightarrow> bound list \<times> nut_context" where
  "onValue binds i v ctx data =
     (let b = binds ! i
      in if hi_hidflags (bd_info b) AND HU_FLAG_ABSENT \<noteq> 0 then (binds, ctx)
         else if isCommandRow (bd_info b) then (binds, ctx)
         else if isInternalRow (bd_info b)
         then (binds[i := b\<lparr>bd_last := v, bd_seen := True\<rparr>],
               if isAlarmRow (bd_info b) then ctx else internal_apply (bd_info b) v ctx data)
         else if bd_role b = RoleDead then (binds, ctx)
         else on_public binds i v ctx data)"

fun walkInternalRows :: "bound list \<Rightarrow> nut_context \<Rightarrow> ups_data option \<Rightarrow> nut_context" where
  "walkInternalRows [] ctx data = ctx"
| "walkInternalRows (b # bs) ctx data =
     (if \<not> bd_seen b \<or> \<not> isInternalRow (bd_info b) \<or> isAlarmRow (bd_info b) then walkInternalRows bs ctx data
      else walkInternalRows bs (internal_apply (bd_info b) (bd_last b) ctx data) data)"

fun vendorAlarms :: "bound list \<Rightarrow> string \<Rightarrow> string" where
  "vendorAlarms [] out = out"
| "vendorAlarms (b # bs) out =
     (if \<not> bd_seen b \<or> \<not> isAlarmRow (bd_info b) then vendorAlarms bs out
      else case lookup_text (hi_lkp (bd_info b)) (to_int (bd_last b)) of
             None \<Rightarrow> vendorAlarms bs out
           | Some nut \<Rightarrow> vendorAlarms bs ((if out \<noteq> [] then out @ '' '' else out) @ nut))"

definition onString :: "bound list \<Rightarrow> nat \<Rightarrow> string \<Rightarrow> bound list" where
  "onString binds i text = (if bd_role (binds ! i) = RoleDead then binds else on_text binds i text)"

definition init_failed :: "bound \<Rightarrow> bool" where
  "init_failed b \<longleftrightarrow> \<not> exempt b \<and> bd_first b = FirstUnread \<and> \<not> bd_deferred b"

definition finishInit :: "bound list \<Rightarrow> bound list" where
  "finishInit binds =
     (let bs = map (\<lambda>b. if init_failed b then b\<lparr>bd_first := FirstFail\<rparr> else b) binds
      in if list_ex init_failed binds then resolve bs else bs)"

section \<open>Configured delays\<close>

record delay_paths =
  dp_shutdown :: "string list"
  dp_startup :: "string list"
  dp_any_index :: bool

definition hasAnyPath :: "hid_usage_def list \<Rightarrow> string list \<Rightarrow> bool \<Rightarrow> bool" where
  "hasAnyPath usages paths any_index =
     list_ex (\<lambda>path. list_ex (\<lambda>u. if any_index then equalsIgnoreCase (Some (hu_path u)) (Some path) else pathMatches u path) usages) paths"

definition mgeDelayPaths :: delay_paths where
  "mgeDelayPaths = \<lparr>dp_shutdown = [''UPS.PowerSummary.DelayBeforeShutdown''],
     dp_startup = [''UPS.PowerSummary.DelayBeforeStartup''], dp_any_index = False\<rparr>"

definition apcDelayPaths :: delay_paths where
  "apcDelayPaths = \<lparr>dp_shutdown = [''UPS.PowerSummary.DelayBeforeShutdown'', ''UPS.Output.DelayBeforeShutdown'', ''UPS.0xFF860005.0xFF86007D''],
     dp_startup = [''UPS.PowerSummary.DelayBeforeStartup'', ''UPS.Output.DelayBeforeStartup'', ''UPS.0xFF860005.0xFF86007E''],
     dp_any_index = False\<rparr>"

definition cpsDelayPaths :: delay_paths where
  "cpsDelayPaths = \<lparr>dp_shutdown = [''UPS.Output.DelayBeforeShutdown''],
     dp_startup = [''UPS.Output.DelayBeforeStartup''], dp_any_index = False\<rparr>"

definition powercomDelayPaths :: delay_paths where
  "powercomDelayPaths = \<lparr>dp_shutdown = [''UPS.PowerSummary.DelayBeforeShutdown'', ''UPS.PowerSummary.0x00FF0057''],
     dp_startup = [''UPS.PowerSummary.DelayBeforeStartup''], dp_any_index = False\<rparr>"

definition liebertDelayPaths :: delay_paths where
  "liebertDelayPaths = \<lparr>dp_shutdown = [''UPS.PowerSummary.DelayBeforeShutdown''],
     dp_startup = [''UPS.PowerSummary.DelayBeforeStartup''], dp_any_index = False\<rparr>"

definition legrandDelayPaths :: delay_paths where
  "legrandDelayPaths = \<lparr>dp_shutdown = [''UPS.OutletSystem.Outlet.DelayBeforeShutdown'', ''UPS.Output.DelayBeforeShutdown''],
     dp_startup = [''UPS.OutletSystem.Outlet.DelayBeforeStartup'', ''UPS.Output.DelayBeforeStartup''], dp_any_index = False\<rparr>"

definition genericDelayPaths :: delay_paths where
  "genericDelayPaths = \<lparr>dp_shutdown = [''UPS.PowerSummary.DelayBeforeShutdown'', ''UPS.Output.DelayBeforeShutdown'', ''UPS.0xFF860005.0xFF86007D''],
     dp_startup = [''UPS.PowerSummary.DelayBeforeStartup'', ''UPS.Output.DelayBeforeStartup'', ''UPS.0xFF860005.0xFF86007E''],
     dp_any_index = True\<rparr>"

text \<open>\<open>strtoll\<close> saturates beyond 64 bits: such a text is beyond \<open>INT32_MAX\<close>, or below -1, too.\<close>

definition parseDelayParam :: "string option \<Rightarrow> int option" where
  "parseDelayParam text =
     (case text of
        None \<Rightarrow> None
      | Some t \<Rightarrow>
          let neg = (t \<noteq> [] \<and> hd t = CHR ''-''); p = (if neg then tl t else t)
          in if p = [] \<or> \<not> is_digit (hd p) then None
             else let u = int (digits_value (takeWhile is_digit p)); v = (if neg then - u else u)
                  in if dropWhile is_digit p \<noteq> [] \<or> v < -1 \<or> 2147483647 < v then None else Some v)"

fun saved_delays :: "bool \<Rightarrow> bool \<Rightarrow> (string \<times> string) list \<Rightarrow> int \<times> int \<Rightarrow> int \<times> int" where
  "saved_delays sd st [] (off, on) = (off, on)"
| "saved_delays sd st (kv # kvs) (off, on) =
     saved_delays sd st kvs
       (case parseDelayParam (Some (snd kv)) of
          None \<Rightarrow> (off, on)
        | Some v \<Rightarrow>
            if v < 0 then (off, on)
            else (if sd \<and> fst kv = ''ups.delay.shutdown'' then v else off, if st \<and> fst kv = ''ups.delay.start'' then v else on))"

definition applyDefaultDelays ::
    "ups_data \<Rightarrow> hid_usage_def list \<Rightarrow> int \<Rightarrow> int \<Rightarrow> bool \<Rightarrow> delay_paths option \<Rightarrow> (string \<times> string) list option \<Rightarrow> ups_data" where
  "applyDefaultDelays data usages off_delay on_delay delay_vars paths saved =
     (case paths of
        None \<Rightarrow> data
      | Some paths \<Rightarrow>
          if \<not> delay_vars then data
          else let sd = hasAnyPath usages (dp_shutdown paths) (dp_any_index paths);
                   st = hasAnyPath usages (dp_startup paths) (dp_any_index paths);
                   (off_delay, on_delay) = (case saved of None \<Rightarrow> (off_delay, on_delay)
                                            | Some kvs \<Rightarrow> saved_delays sd st kvs (off_delay, on_delay));
                   data = (if sd then ud_set data ''ups.delay.shutdown'' (dec_int off_delay) else data)
               in if st then ud_set data ''ups.delay.start'' (dec_int on_delay) else data)"

end
