(* ===== verification/NutRoles.thy ===== *)
theory NutRoles
  imports NutBinding
begin

text \<open>
  Which row of a table publishes a variable: the specification of \<open>resolve\<close>, its refinement, and
  the life of a binding under values, strings and the end of the first poll.
\<close>

section \<open>The specification\<close>

text \<open>The rows of one variable, and the row that leads them: the first whose first value did not
  fail. It alone may be active; while it is unread, the rows after it wait.\<close>

definition same_var :: "bound list \<Rightarrow> nat \<Rightarrow> nat \<Rightarrow> bool" where
  "same_var binds i j \<longleftrightarrow> \<not> exempt (binds ! i) \<and> \<not> exempt (binds ! j) \<and> bd_name (binds ! i) = bd_name (binds ! j)"

definition leads :: "bound list \<Rightarrow> nat \<Rightarrow> bool" where
  "leads binds i \<longleftrightarrow> bd_first (binds ! i) \<noteq> FirstFail \<and> (\<forall>j < i. same_var binds i j \<longrightarrow> bd_first (binds ! j) = FirstFail)"

definition role_spec :: "bound list \<Rightarrow> nat \<Rightarrow> bound_role" where
  "role_spec binds i =
     (if leads binds i then (if bd_first (binds ! i) = FirstOk then RoleActive else RolePending)
      else if bd_first (binds ! i) = FirstFail \<or> (\<exists>j < i. same_var binds i j \<and> leads binds j \<and> bd_first (binds ! j) = FirstOk)
      then RoleDead else RolePending)"

text \<open>The rule compares names only, so the rows of one name must be of one kind.\<close>

definition kinds_apart :: "bound list \<Rightarrow> bool" where
  "kinds_apart binds \<longleftrightarrow> (\<forall>a \<in> set binds. \<forall>b \<in> set binds. bd_name a = bd_name b \<longrightarrow> exempt a = exempt b)"

section \<open>The group loop\<close>

lemma exempt_role [simp]: "exempt (b\<lparr>bd_role := r\<rparr>) = exempt b"
  by (simp add: exempt_def)

definition forget_role :: "bound \<Rightarrow> bound" where
  "forget_role b = b\<lparr>bd_role := RolePending\<rparr>"

lemma forget_role_eq:
  "forget_role a = forget_role b \<Longrightarrow> exempt a = exempt b \<and> bd_name a = bd_name b \<and> bd_first a = bd_first b \<and> bd_deferred a = bd_deferred b"
  by (cases a; cases b) (simp add: forget_role_def exempt_def)

lemma resolve_group_forget: "map forget_role (resolve_group name blocked decided bs) = map forget_role bs"
  by (induction bs arbitrary: blocked decided) (auto simp: forget_role_def)

lemma length_resolve_group [simp]: "length (resolve_group name blocked decided bs) = length bs"
  by (induction bs arbitrary: blocked decided) auto

definition in_group :: "string \<Rightarrow> bound \<Rightarrow> bool" where
  "in_group name b \<longleftrightarrow> \<not> exempt b \<and> bd_name b = name"

lemma resolve_group_skip: "\<not> in_group name b \<Longrightarrow> resolve_group name blocked decided (b # bs) = b # resolve_group name blocked decided bs"
  by (auto simp: in_group_def)

lemma resolve_group_step:
  "\<exists>r blocked' decided'. resolve_group name blocked decided (b # bs) = b\<lparr>bd_role := r\<rparr> # resolve_group name blocked' decided' bs"
proof (cases "in_group name b")
  case False
  have "b\<lparr>bd_role := bd_role b\<rparr> = b" by simp
  with resolve_group_skip [OF False] show ?thesis by metis
next
  case True
  then show ?thesis by (cases "bd_first b") (auto simp: in_group_def)
qed

lemma resolve_group_other: "i < length bs \<Longrightarrow> \<not> in_group name (bs ! i) \<Longrightarrow> resolve_group name blocked decided bs ! i = bs ! i"
proof (induction bs arbitrary: i blocked decided)
  case (Cons b bs)
  show ?case
  proof (cases i)
    case 0
    with Cons.prems resolve_group_skip [of name b] show ?thesis by simp
  next
    case (Suc k)
    obtain r bl d where "resolve_group name blocked decided (b # bs) = b\<lparr>bd_role := r\<rparr> # resolve_group name bl d bs"
      using resolve_group_step by blast
    with Suc Cons show ?thesis by (simp del: resolve_group.simps)
  qed
qed simp

text \<open>Once decided the rest is dead; once blocked the rest waits, but for the failed rows.\<close>

lemma resolve_group_decided:
  "i < length bs \<Longrightarrow> in_group name (bs ! i) \<Longrightarrow> bd_role (resolve_group name blocked True bs ! i) = RoleDead"
  by (induction bs arbitrary: i blocked) (auto simp: in_group_def nth_Cons split: nat.splits)

lemma resolve_group_blocked:
  "i < length bs \<Longrightarrow> in_group name (bs ! i) \<Longrightarrow>
     bd_role (resolve_group name True False bs ! i) = (if bd_first (bs ! i) = FirstFail then RoleDead else RolePending)"
  by (induction bs arbitrary: i) (auto simp: in_group_def nth_Cons split: nat.splits)

definition group_role :: "string \<Rightarrow> bound list \<Rightarrow> nat \<Rightarrow> bound_role" where
  "group_role name bs i =
     (if bd_first (bs ! i) = FirstFail then RoleDead
      else if \<forall>j < i. in_group name (bs ! j) \<longrightarrow> bd_first (bs ! j) = FirstFail
      then (if bd_first (bs ! i) = FirstOk then RoleActive else RolePending)
      else if \<exists>j < i. in_group name (bs ! j) \<and> bd_first (bs ! j) = FirstOk \<and>
          (\<forall>k < j. in_group name (bs ! k) \<longrightarrow> bd_first (bs ! k) = FirstFail)
      then RoleDead else RolePending)"

lemma group_role_fail: "bd_first (bs ! i) = FirstFail \<Longrightarrow> group_role name bs i = RoleDead"
  by (simp add: group_role_def)

lemma group_role_Suc:
  "group_role name (b # bs) (Suc i) =
     (if bd_first (bs ! i) = FirstFail then RoleDead
      else if \<not> in_group name b \<or> bd_first b = FirstFail then group_role name bs i
      else if bd_first b = FirstOk then RoleDead else RolePending)"
proof -
  have all: "(\<forall>j < Suc i. P j) \<longleftrightarrow> P 0 \<and> (\<forall>j < i. P (Suc j))" for P i using less_Suc_eq_0_disj by auto
  have ex: "(\<exists>j < Suc i. P j) \<longleftrightarrow> P 0 \<or> (\<exists>j < i. P (Suc j))" for P i using less_Suc_eq_0_disj by auto
  show ?thesis
    by (cases "bd_first b") (auto simp: group_role_def all ex)
qed

lemma resolve_group_role:
  "i < length bs \<Longrightarrow> in_group name (bs ! i) \<Longrightarrow> bd_role (resolve_group name False False bs ! i) = group_role name bs i"
proof (induction bs arbitrary: i)
  case (Cons b bs)
  show ?case
  proof (cases i)
    case 0
    with Cons.prems show ?thesis by (cases "bd_first b") (auto simp: in_group_def group_role_def)
  next
    case (Suc k)
    with Cons.prems have k: "k < length bs" "in_group name (bs ! k)" by auto
    show ?thesis
      using Cons.IH [OF k] resolve_group_decided [OF k] resolve_group_blocked [OF k] k
      by (cases "bd_first b") (auto simp: Suc group_role_Suc in_group_def group_role_fail)
  qed
qed simp

section \<open>The outer loop\<close>

lemma resolve_at_forget: "map forget_role (resolve_at i bs) = map forget_role bs"
proof -
  have "map forget_role (take i bs @ resolve_group name False False (drop i bs)) = map forget_role bs" for name
  proof -
    have "map forget_role (take i bs @ resolve_group name False False (drop i bs)) =
        map forget_role (take i bs) @ map forget_role (drop i bs)" by (simp only: map_append resolve_group_forget)
    also have "\<dots> = map forget_role bs" by (simp only: append_take_drop_id flip: map_append)
    finally show ?thesis .
  qed
  then show ?thesis by (simp add: resolve_at_def Let_def)
qed

lemma fold_resolve_forget: "map forget_role (fold resolve_at is bs) = map forget_role bs"
  by (induction "is" arbitrary: bs) (simp_all add: resolve_at_forget)

lemma resolve_forget: "map forget_role (resolve bs) = map forget_role bs"
  by (simp add: resolve_def fold_resolve_forget)

lemma forget_nth:
  assumes "map forget_role bs = map forget_role cs" "i < length bs"
  shows "exempt (bs ! i) = exempt (cs ! i)" "bd_name (bs ! i) = bd_name (cs ! i)" "bd_first (bs ! i) = bd_first (cs ! i)"
    "bd_deferred (bs ! i) = bd_deferred (cs ! i)"
proof -
  have "length cs = length bs" using map_eq_imp_length_eq [OF assms(1)] by simp
  then have "forget_role (bs ! i) = forget_role (cs ! i)" using assms by (metis nth_map)
  from forget_role_eq [OF this] show "exempt (bs ! i) = exempt (cs ! i)" "bd_name (bs ! i) = bd_name (cs ! i)"
    "bd_first (bs ! i) = bd_first (cs ! i)" "bd_deferred (bs ! i) = bd_deferred (cs ! i)" by auto
qed

text \<open>The specification does not look at the roles.\<close>

lemma role_spec_forget:
  assumes "map forget_role bs = map forget_role cs" "i < length bs"
  shows "role_spec bs i = role_spec cs i"
proof -
  note f = forget_nth [OF assms(1)]
  have sv: "same_var bs i j = same_var cs i j" if "i < length bs" "j < length bs" for i j
    using f that by (simp add: same_var_def)
  have lead: "leads bs i = leads cs i" if "i < length bs" for i
    using that sv f by (auto simp: leads_def)
  show ?thesis using assms(2) sv lead f by (auto simp: role_spec_def)
qed

lemma kinds_apart_forget:
  assumes "map forget_role bs = map forget_role cs" "kinds_apart cs"
  shows "kinds_apart bs"
proof -
  have "length cs = length bs" using map_eq_imp_length_eq [OF assms(1)] by simp
  then show ?thesis
    using assms(2) forget_nth [OF assms(1)] unfolding kinds_apart_def by (metis in_set_conv_nth)
qed

text \<open>The first row of a name.\<close>

definition first_of :: "bound list \<Rightarrow> nat \<Rightarrow> bool" where
  "first_of bs i \<longleftrightarrow> \<not> exempt (bs ! i) \<and> bd_name (bs ! i) \<notin> set (map bd_name (take i bs))"

lemma resolve_at_not_first: "\<not> first_of bs i \<Longrightarrow> resolve_at i bs = bs"
  by (auto simp: resolve_at_def first_of_def Let_def)

lemma nth_resolve_at:
  assumes "first_of bs i" "i < length bs" "j < length bs"
  shows "resolve_at i bs ! j =
    (if i \<le> j then resolve_group (bd_name (bs ! i)) False False (drop i bs) ! (j - i) else bs ! j)"
  using assms by (auto simp: resolve_at_def first_of_def Let_def nth_append)

lemma take_names: "bd_name b \<notin> set (map bd_name (take i bs)) \<Longrightarrow> j < i \<Longrightarrow> i \<le> length bs \<Longrightarrow> bd_name (bs ! j) \<noteq> bd_name b"
proof
  assume a: "bd_name b \<notin> set (map bd_name (take i bs))" "j < i" "i \<le> length bs" "bd_name (bs ! j) = bd_name b"
  then have "take i bs ! j \<in> set (take i bs)" by (intro nth_mem) simp
  then have "bd_name (take i bs ! j) \<in> set (map bd_name (take i bs))" unfolding set_map by (rule imageI)
  with a show False by simp
qed

lemma group_role_spec:
  assumes i: "first_of bs i" and j: "i \<le> j" "j < length bs" "in_group (bd_name (bs ! i)) (bs ! j)"
  shows "group_role (bd_name (bs ! i)) (drop i bs) (j - i) = role_spec bs j"
proof -
  let ?n = "bd_name (bs ! i)"
  have ni: "?n \<notin> set (map bd_name (take i bs))" using i by (simp add: first_of_def)
  have early: "\<not> same_var bs j k" if "k < i" for k
    using take_names [OF ni that] j by (auto simp: same_var_def in_group_def)
  have shift: "(\<forall>k < j - i. P (i + k)) \<longleftrightarrow> (\<forall>k < j. i \<le> k \<longrightarrow> P k)" if "i \<le> j" for P j
  proof safe
    fix k assume "\<forall>k < j - i. P (i + k)" "k < j" "i \<le> k"
    then show "P k" by (metis diff_less_mono le_add_diff_inverse)
  qed auto
  have sv: "same_var bs j' k \<longleftrightarrow> in_group ?n (bs ! k)" if "i \<le> k" "in_group ?n (bs ! j')" for j' k
    using that by (auto simp: same_var_def in_group_def)
  have fails: "(\<forall>k < j' - i. in_group ?n (bs ! (i + k)) \<longrightarrow> bd_first (bs ! (i + k)) = FirstFail) \<longleftrightarrow>
      (\<forall>k < j'. same_var bs j' k \<longrightarrow> bd_first (bs ! k) = FirstFail)" if "i \<le> j'" "in_group ?n (bs ! j')" "j' < length bs" for j'
  proof -
    have "\<not> same_var bs j' k" if "k < i" for k
      using take_names [OF ni that] \<open>in_group ?n (bs ! j')\<close> \<open>i \<le> j'\<close> \<open>j' < length bs\<close> by (auto simp: same_var_def in_group_def)
    then have "same_var bs j' k \<longleftrightarrow> i \<le> k \<and> in_group ?n (bs ! k)" for k
      using sv [of k j'] that(2) by (cases "i \<le> k") auto
    then have "(\<forall>k < j'. same_var bs j' k \<longrightarrow> bd_first (bs ! k) = FirstFail) \<longleftrightarrow>
        (\<forall>k < j'. i \<le> k \<longrightarrow> (in_group ?n (bs ! k) \<longrightarrow> bd_first (bs ! k) = FirstFail))"
      by blast
    then show ?thesis
      using shift [OF that(1), of "\<lambda>k. in_group ?n (bs ! k) \<longrightarrow> bd_first (bs ! k) = FirstFail"] by argo
  qed
  have leadj: "leads bs j \<longleftrightarrow> bd_first (bs ! j) \<noteq> FirstFail \<and>
      (\<forall>k < j - i. in_group ?n (bs ! (i + k)) \<longrightarrow> bd_first (bs ! (i + k)) = FirstFail)"
    using fails [OF j(1,3,2)] by (simp add: leads_def)
  have exj: "(\<exists>k < j - i. in_group ?n (bs ! (i + k)) \<and> bd_first (bs ! (i + k)) = FirstOk \<and>
        (\<forall>m < k. in_group ?n (bs ! (i + m)) \<longrightarrow> bd_first (bs ! (i + m)) = FirstFail)) \<longleftrightarrow>
      (\<exists>k < j. same_var bs j k \<and> leads bs k \<and> bd_first (bs ! k) = FirstOk)" (is "?L \<longleftrightarrow> ?R")
  proof
    assume ?L
    then obtain k where k: "k < j - i" "in_group ?n (bs ! (i + k))" "bd_first (bs ! (i + k)) = FirstOk"
      "\<forall>m < k. in_group ?n (bs ! (i + m)) \<longrightarrow> bd_first (bs ! (i + m)) = FirstFail" by blast
    then have "leads bs (i + k)" using fails [of "i + k"] j(2) by (simp add: leads_def)
    moreover have "same_var bs j (i + k)" using k(2) j(3) sv by simp
    ultimately show ?R using k(1,3) by (intro exI [of _ "i + k"]) simp
  next
    assume ?R
    then obtain k where k: "k < j" "same_var bs j k" "leads bs k" "bd_first (bs ! k) = FirstOk" by blast
    then have ik: "i \<le> k" using early not_le by blast
    then have g: "in_group ?n (bs ! k)" using k(2) j(3) sv by simp
    with k ik fails [of k] j(2) show ?L by (intro exI [of _ "k - i"]) (auto simp: leads_def)
  qed
  have "i \<le> length bs" using j by simp
  then have d: "drop i bs ! k = bs ! (i + k)" for k by simp
  have "i + (j - i) = j" using j by simp
  then show ?thesis
    unfolding group_role_def role_spec_def d leadj exj by auto
qed

text \<open>After the rows up to \<open>m\<close>: the groups that started have their roles, the others are as they were.\<close>

definition started :: "bound list \<Rightarrow> nat \<Rightarrow> nat \<Rightarrow> bool" where
  "started bs m j \<longleftrightarrow> (\<exists>i < m. i \<le> j \<and> same_var bs j i)"

lemma resolve_prefix:
  assumes "kinds_apart bs" "m \<le> length bs" "j < length bs"
  shows "bd_role (fold resolve_at [0..<m] bs ! j) = (if started bs m j then role_spec bs j else bd_role (bs ! j))"
  using assms(2,3)
proof (induction m arbitrary: j)
  case 0
  then show ?case by (simp add: started_def)
next
  case (Suc m)
  let ?cs = "fold resolve_at [0..<m] bs"
  have forget: "map forget_role ?cs = map forget_role bs" by (rule fold_resolve_forget)
  have len: "length ?cs = length bs" using map_eq_imp_length_eq [OF forget] by simp
  note f = forget_nth [OF forget, unfolded len]
  have m: "m < length bs" using Suc.prems by simp
  have IH: "bd_role (?cs ! j) = (if started bs m j then role_spec bs j else bd_role (bs ! j))" if "j < length bs" for j
    using Suc that by simp
  have names: "map bd_name (take m ?cs) = map bd_name (take m bs)"
    using f m len by (intro nth_equalityI) auto
  have first: "first_of ?cs m = first_of bs m" using f m names by (simp add: first_of_def del: take_map)
  have step: "bd_role (resolve_at m ?cs ! j) =
      (if first_of bs m \<and> m \<le> j \<and> same_var bs j m then role_spec bs j else bd_role (?cs ! j))"
  proof (cases "first_of bs m \<and> m \<le> j")
    case True
    then have at: "resolve_at m ?cs ! j = resolve_group (bd_name (bs ! m)) False False (drop m ?cs) ! (j - m)"
      using nth_resolve_at [of ?cs m j] first f m len Suc.prems by simp
    have g: "in_group (bd_name (bs ! m)) (?cs ! j) = same_var bs j m"
      using True f Suc.prems by (auto simp: in_group_def same_var_def first_of_def)
    have jm: "j - m < length (drop m ?cs)" "drop m ?cs ! (j - m) = ?cs ! j" using True len Suc.prems by (simp_all add: diff_less_mono)
    show ?thesis
    proof (cases "same_var bs j m")
      case same: True
      have "bd_role (resolve_at m ?cs ! j) = group_role (bd_name (bs ! m)) (drop m ?cs) (j - m)"
        unfolding at using jm g same by (intro resolve_group_role) simp_all
      also have "\<dots> = group_role (bd_name (?cs ! m)) (drop m ?cs) (j - m)" using f(2) [OF m] by simp
      also have "\<dots> = role_spec ?cs j"
        using True first g same f(2) [OF m] len Suc.prems by (intro group_role_spec) simp_all
      also have "\<dots> = role_spec bs j" using role_spec_forget [OF forget] len Suc.prems by simp
      finally show ?thesis using True same by simp
    next
      case other: False
      have "resolve_group (bd_name (bs ! m)) False False (drop m ?cs) ! (j - m) = ?cs ! j"
        using resolve_group_other [OF jm(1)] jm(2) g other by simp
      with at other show ?thesis by simp
    qed
  next
    case False
    then show ?thesis
      using resolve_at_not_first [of ?cs m] nth_resolve_at [of ?cs m j] first m len Suc.prems by auto
  qed
  have started: "started bs (Suc m) j \<longleftrightarrow> started bs m j \<or> (m \<le> j \<and> same_var bs j m)"
    by (auto simp: started_def less_Suc_eq)
  have "started bs m j" if "m \<le> j" "same_var bs j m" "\<not> first_of bs m"
  proof -
    from that obtain k where k: "k < m" "bd_name (bs ! k) = bd_name (bs ! m)"
      using m by (auto simp: first_of_def same_var_def in_set_conv_nth)
    then have "exempt (bs ! k) = exempt (bs ! m)" using assms(1) m unfolding kinds_apart_def by (metis nth_mem order.strict_trans)
    with k that show ?thesis by (auto simp: started_def same_var_def)
  qed
  then show ?case using step started IH [OF Suc.prems(2)] by auto
qed

lemma resolve_role:
  assumes "kinds_apart bs" "j < length bs"
  shows "bd_role (resolve bs ! j) = (if exempt (bs ! j) then bd_role (bs ! j) else role_spec bs j)"
  using resolve_prefix [OF assms(1) order_refl assms(2)] assms(2)
  by (auto simp: resolve_def started_def same_var_def)

lemma length_resolve [simp]: "length (resolve bs) = length bs"
  using map_eq_imp_length_eq [OF resolve_forget [of bs]] by simp
section \<open>The life of a binding\<close>

datatype bind_event =
    EvValue nat rat "ups_data option"
  | EvString nat string
  | EvPollEnd

definition bind_step :: "bound list \<times> nut_context \<Rightarrow> bind_event \<Rightarrow> bound list \<times> nut_context" where
  "bind_step s e =
     (case e of
        EvValue i v data \<Rightarrow> if i < length (fst s) then onValue (fst s) i v (snd s) data else s
      | EvString i text \<Rightarrow> if i < length (fst s) then (onString (fst s) i text, snd s) else s
      | EvPollEnd \<Rightarrow> (finishInit (fst s), snd s))"

definition roles_ok :: "bound list \<Rightarrow> bool" where
  "roles_ok bs \<longleftrightarrow> kinds_apart bs \<and> (\<forall>j < length bs. \<not> exempt (bs ! j) \<longrightarrow> bd_role (bs ! j) = role_spec bs j)"

text \<open>What a step may do to a row: the first value is decided once.\<close>

definition evolves :: "bound \<Rightarrow> bound \<Rightarrow> bool" where
  "evolves a b \<longleftrightarrow> bd_info b = bd_info a \<and> (bd_first a \<noteq> FirstUnread \<longrightarrow> bd_first b = bd_first a)"

lemma evolves_exempt: "evolves a b \<Longrightarrow> exempt b = exempt a \<and> bd_name b = bd_name a"
  by (simp add: evolves_def exempt_def)

lemma evolves_refl [simp]: "evolves a a"
  by (simp add: evolves_def)

lemma kinds_apart_evolves:
  assumes "list_all2 evolves bs cs" "kinds_apart bs"
  shows "kinds_apart cs"
proof -
  have "exempt (cs ! i) = exempt (bs ! i)" "bd_name (cs ! i) = bd_name (bs ! i)" "length cs = length bs" if "i < length bs" for i
    using evolves_exempt assms(1) that by (auto simp: list_all2_conv_all_nth)
  then show ?thesis using assms unfolding kinds_apart_def by (metis in_set_conv_nth list_all2_lengthD)
qed

lemma resolve_evolves: "list_all2 evolves bs (resolve bs)"
proof -
  have "evolves (bs ! i) (resolve bs ! i)" if "i < length bs" for i
  proof -
    have "forget_role (resolve bs ! i) = forget_role (bs ! i)" using resolve_forget [of bs] that by (metis length_resolve nth_map)
    then show ?thesis by (cases "bs ! i"; cases "resolve bs ! i") (simp add: forget_role_def evolves_def)
  qed
  then show ?thesis by (simp add: list_all2_conv_all_nth)
qed

lemma evolves_trans: "evolves a b \<Longrightarrow> evolves b c \<Longrightarrow> evolves a c"
  by (auto simp: evolves_def)

lemma evolves_update: "i < length bs \<Longrightarrow> evolves (bs ! i) b \<Longrightarrow> list_all2 evolves bs (bs[i := b])"
  by (auto simp: list_all2_conv_all_nth nth_list_update)

lemma list_evolves_trans: "list_all2 evolves xs bs \<Longrightarrow> list_all2 evolves bs cs \<Longrightarrow> list_all2 evolves xs cs"
  by (rule list_all2_trans [OF evolves_trans])

text \<open>A resolved list has its roles; a list whose first values did not change keeps them.\<close>

lemma roles_ok_resolve: "list_all2 evolves bs cs \<Longrightarrow> kinds_apart bs \<Longrightarrow> roles_ok (resolve cs)"
proof -
  assume "list_all2 evolves bs cs" "kinds_apart bs"
  then have k: "kinds_apart cs" by (rule kinds_apart_evolves)
  then show ?thesis
    using resolve_role [OF k] role_spec_forget [OF resolve_forget] forget_nth(1) [OF resolve_forget] kinds_apart_forget [OF resolve_forget k]
    by (simp add: roles_ok_def)
qed

lemma roles_ok_same:
  assumes "roles_ok bs" "i < length bs" "bd_info b = bd_info (bs ! i)" "bd_first b = bd_first (bs ! i)" "bd_role b = bd_role (bs ! i)"
  shows "roles_ok (bs[i := b])"
proof -
  have same: "bd_info (bs[i := b] ! j) = bd_info (bs ! j)" "bd_first (bs[i := b] ! j) = bd_first (bs ! j)"
    "bd_role (bs[i := b] ! j) = bd_role (bs ! j)" if "j < length bs" for j
    using assms that by (simp_all add: nth_list_update)
  have sv: "same_var (bs[i := b]) j k = same_var bs j k" if "j < length bs" "k < length bs" for j k
    using same that by (simp add: same_var_def exempt_def)
  have lead: "leads (bs[i := b]) j = leads bs j" if "j < length bs" for j
    using same sv that by (auto simp: leads_def)
  have "role_spec (bs[i := b]) j = role_spec bs j" if "j < length bs" for j
    using same sv lead that by (auto simp: role_spec_def)
  moreover have "list_all2 evolves bs (bs[i := b])" using assms by (intro evolves_update) (auto simp: evolves_def)
  ultimately show ?thesis
    using assms(1) same kinds_apart_evolves by (auto simp: roles_ok_def exempt_def)
qed

text \<open>Every step is one of these two.\<close>

definition binding_moves :: "bound list \<Rightarrow> bound list \<Rightarrow> bool" where
  "binding_moves bs cs \<longleftrightarrow> list_all2 evolves bs cs \<and> (roles_ok bs \<longrightarrow> roles_ok cs)"

lemma binding_moves_refl [simp]: "binding_moves bs bs"
  by (simp add: binding_moves_def list_all2_refl)

lemma binding_moves_resolve: "list_all2 evolves bs cs \<Longrightarrow> binding_moves bs (resolve cs)"
  using roles_ok_resolve resolve_evolves list_evolves_trans by (auto simp: binding_moves_def roles_ok_def)

lemma binding_moves_same:
  "i < length bs \<Longrightarrow> bd_info b = bd_info (bs ! i) \<Longrightarrow> bd_first b = bd_first (bs ! i) \<Longrightarrow> bd_role b = bd_role (bs ! i) \<Longrightarrow>
     binding_moves bs (bs[i := b])"
  using roles_ok_same by (auto simp: binding_moves_def intro!: evolves_update simp: evolves_def)

lemma on_text_moves: "i < length bs \<Longrightarrow> binding_moves bs (on_text bs i text)"
  by (auto simp: on_text_def Let_def evolves_def intro!: binding_moves_resolve evolves_update)

lemma on_public_moves:
  assumes "i < length bs"
  shows "binding_moves bs (fst (on_public bs i v ctx data))"
proof -
  define b where "b = (if hi_conv (bd_info (bs ! i)) = CvStringId \<and> 1 \<le> v \<and> v \<le> 255
    then (bs ! i)\<lparr>bd_string_index := of_int (to_int v)\<rparr> else bs ! i)"
  have b: "bd_info b = bd_info (bs ! i)" "bd_first b = bd_first (bs ! i)" "bd_role b = bd_role (bs ! i)" by (simp_all add: b_def)
  have textual: "binding_moves bs (on_text (bs[i := b]) i t)" for t
    using assms b by (auto simp: on_text_def Let_def evolves_def intro!: binding_moves_resolve evolves_update)
  have ev: "evolves (bs ! i) c \<Longrightarrow> list_all2 evolves bs (bs[i := c])" for c using assms by (rule evolves_update)
  show ?thesis
    unfolding on_public_def Let_def b_def [symmetric]
    using textual assms b
    by (auto split: option.split prod.split decode_result.split simp: evolves_def intro!: binding_moves_resolve binding_moves_same ev)
qed

lemma onValue_moves: "i < length bs \<Longrightarrow> binding_moves bs (fst (onValue bs i v ctx data))"
  by (simp add: onValue_def Let_def on_public_moves binding_moves_same)

lemma onString_moves: "i < length bs \<Longrightarrow> binding_moves bs (onString bs i text)"
  by (simp add: onString_def on_text_moves)

lemma finishInit_moves: "binding_moves bs (finishInit bs)"
proof (cases "list_ex init_failed bs")
  case True
  have "list_all2 evolves bs (map (\<lambda>b. if init_failed b then b\<lparr>bd_first := FirstFail\<rparr> else b) bs)"
    by (auto simp: list_all2_conv_all_nth evolves_def init_failed_def)
  with True show ?thesis by (simp add: finishInit_def Let_def binding_moves_resolve)
next
  case False
  then have "map (\<lambda>b. if init_failed b then b\<lparr>bd_first := FirstFail\<rparr> else b) bs = bs"
    by (intro map_idI) (auto simp: list_ex_iff)
  with False show ?thesis by (simp add: finishInit_def Let_def)
qed

lemma bind_step_moves: "binding_moves (fst s) (fst (bind_step s e))"
  by (cases e) (simp_all add: bind_step_def onValue_moves onString_moves finishInit_moves)

lemma binding_moves_trans: "binding_moves xs bs \<Longrightarrow> binding_moves bs cs \<Longrightarrow> binding_moves xs cs"
  using list_evolves_trans by (auto simp: binding_moves_def)

lemma bind_steps_move: "binding_moves (fst s) (fst (fold (\<lambda>e s. bind_step s e) es s))"
proof (induction es arbitrary: s)
  case (Cons e es)
  show ?case using binding_moves_trans [OF bind_step_moves Cons.IH] by simp
qed simp

lemma same_var_moves:
  assumes "binding_moves bs cs" "i < length bs" "j < length bs"
  shows "same_var cs i j = same_var bs i j"
proof -
  have "evolves (bs ! i) (cs ! i)" "evolves (bs ! j) (cs ! j)"
    using assms by (auto simp: binding_moves_def list_all2_conv_all_nth)
  from evolves_exempt [OF this(1)] evolves_exempt [OF this(2)] show ?thesis by (simp add: same_var_def)
qed

lemma binding_moves_nth: "binding_moves bs cs \<Longrightarrow> length cs = length bs \<and> (\<forall>i < length bs. evolves (bs ! i) (cs ! i))"
  by (auto simp: binding_moves_def list_all2_conv_all_nth)

section \<open>The rows of one variable\<close>

lemma active_leads: "role_spec bs i = RoleActive \<longleftrightarrow> leads bs i \<and> bd_first (bs ! i) = FirstOk"
  by (simp add: role_spec_def)

lemma leads_unique: "leads bs i \<Longrightarrow> leads bs j \<Longrightarrow> same_var bs i j \<Longrightarrow> i = j"
  by (metis leads_def linorder_neqE_nat same_var_def)

text \<open>C20: \<open>resolve\<close> implements the rule of upstream's INIT walk. A row is active exactly when its
  first value converted and every earlier row of the same variable failed; a row is dead when it
  failed or an active row stands before it; every other row waits.\<close>

theorem resolve_implements_rule:
  assumes "kinds_apart binds" "i < length binds" "\<not> exempt (binds ! i)"
  shows "bd_role (resolve binds ! i) = role_spec binds i"
  using resolve_role [OF assms(1,2)] assms(3) by simp

definition two_charges :: "bound list" where
  "two_charges =
    [bound_new (row ''battery.charge'' 0 0 ''UPS.PowerSummary.RemainingCapacity'' (Some ''%.0f'') 0 CvNumber []) 0 None,
     bound_new (row ''battery.charge'' 0 0 ''UPS.BatterySystem.Battery.RemainingCapacity'' (Some ''%.0f'') 0 CvNumber []) 1 None]"

lemma two_charges_public: "b \<in> set two_charges \<Longrightarrow> \<not> exempt b \<and> bd_name b = ''battery.charge''"
  by (auto simp: two_charges_def exempt_def bound_new_def row_def isInternalRow_def isAlarmRow_def isCommandRow_def)

lemma two_charges_kinds: "kinds_apart two_charges"
  using two_charges_public by (simp add: kinds_apart_def)

definition two_read :: "bound list" where
  "two_read = map (\<lambda>b. b\<lparr>bd_first := FirstOk\<rparr>) two_charges"

lemma two_read_public: "b \<in> set two_read \<Longrightarrow> \<not> exempt b \<and> bd_name b = ''battery.charge'' \<and> bd_first b = FirstOk"
  using two_charges_public by (auto simp: two_read_def exempt_def)

lemma length_two [simp]: "length two_charges = 2" "length two_read = 2"
  by (simp_all add: two_charges_def two_read_def)

lemma two_read_kinds: "kinds_apart two_read"
  using two_read_public by (simp add: kinds_apart_def)

lemma two_read_nth: "i < 2 \<Longrightarrow> \<not> exempt (two_read ! i) \<and> bd_name (two_read ! i) = ''battery.charge'' \<and> bd_first (two_read ! i) = FirstOk"
  using two_read_public nth_mem [of i two_read] by simp

lemma two_read_leads: "leads two_read 0"
  using two_read_nth [of 0] by (simp add: leads_def)

theorem resolve_implements_rule_witness: "bd_role (resolve two_read ! 1) = RoleDead"
proof -
  have "bd_role (resolve two_read ! 1) = role_spec two_read 1"
    using resolve_implements_rule [OF two_read_kinds, of 1] two_read_nth [of 1] by simp
  moreover have "same_var two_read 1 0" using two_read_nth [of 0] two_read_nth [of 1] by (simp add: same_var_def)
  ultimately show ?thesis
    using two_read_leads two_read_nth [of 0] two_read_nth [of 1] by (auto simp: role_spec_def leads_def)
qed

text \<open>Once a row publishes a variable, it publishes it for good. Whatever values, strings and
  ends of a poll follow, an active row stays active, and no other row of its variable ever is.\<close>

theorem active_row_permanent:
  assumes "roles_ok binds" "i < length binds" "\<not> exempt (binds ! i)" "bd_role (binds ! i) = RoleActive"
    and "binds' = fst (fold (\<lambda>e s. bind_step s e) events (binds, ctx))"
  shows "bd_role (binds' ! i) = RoleActive \<and>
    (\<forall>j < length binds'. same_var binds' i j \<and> bd_role (binds' ! j) = RoleActive \<longrightarrow> j = i)"
proof -
  have moves: "binding_moves binds binds'" using bind_steps_move [of "(binds, ctx)"] assms(5) by simp
  note ev = binding_moves_nth [OF moves]
  have ok: "roles_ok binds'" using moves assms(1) by (simp add: binding_moves_def)
  have first: "leads binds i" "bd_first (binds ! i) = FirstOk"
    using assms(1-4) active_leads by (auto simp: roles_ok_def)
  have sv: "same_var binds' i j = same_var binds i j" if "j < length binds" for j
    using same_var_moves [OF moves assms(2) that] .
  have "leads binds' i" "bd_first (binds' ! i) = FirstOk"
    using first ev assms(2) sv unfolding leads_def evolves_def by (auto simp: same_var_def)
  moreover have ex: "\<not> exempt (binds' ! i)" using ev assms(2,3) evolves_exempt by blast
  moreover have "j = i" if "j < length binds'" "same_var binds' i j" "bd_role (binds' ! j) = RoleActive" for j
  proof -
    have "\<not> exempt (binds' ! j)" using that(2) by (simp add: same_var_def)
    then have "leads binds' j" using ok that active_leads by (simp add: roles_ok_def)
    with \<open>leads binds' i\<close> that(2) show ?thesis using leads_unique by blast
  qed
  ultimately show ?thesis
    using ok ev assms(2) active_leads by (simp add: roles_ok_def)
qed

theorem active_row_permanent_witness:
  "bd_role (fst (fold (\<lambda>e s. bind_step s e) [EvValue 1 55 None, EvPollEnd, EvValue 0 99 None]
      (resolve two_read, initial_context)) ! 0) = RoleActive"
proof -
  have ok: "roles_ok (resolve two_read)" by (rule roles_ok_resolve [OF _ two_read_kinds]) (simp add: list_all2_refl)
  have e: "\<not> exempt (resolve two_read ! 0)" using forget_nth(1) [OF resolve_forget, of 0 two_read] two_read_nth [of 0] by simp
  have r: "bd_role (resolve two_read ! 0) = RoleActive"
    using resolve_role [OF two_read_kinds, of 0] two_read_nth [of 0] two_read_leads by (simp add: role_spec_def)
  show ?thesis
    using active_row_permanent [OF ok _ e r refl, of "[EvValue 1 55 None, EvPollEnd, EvValue 0 99 None]" initial_context] by simp
qed

text \<open>The first poll decides. After \<open>finishInit\<close> no variable waits, but for the rows behind
  one whose conversion is deferred.\<close>

theorem finishInit_decides:
  assumes "roles_ok binds" "i < length binds" "\<not> exempt (binds ! i)"
    and "\<forall>j \<le> i. same_var binds i j \<longrightarrow> \<not> bd_deferred (binds ! j)"
  shows "bd_role (finishInit binds ! i) \<noteq> RolePending"
proof -
  let ?cs = "finishInit binds"
  have moves: "binding_moves binds ?cs" by (rule finishInit_moves)
  note ev = binding_moves_nth [OF moves]
  have ok: "roles_ok ?cs" using moves assms(1) by (simp add: binding_moves_def)
  have read: "bd_first (?cs ! j) \<noteq> FirstUnread" if "j \<le> i" "same_var binds i j" for j
  proof -
    let ?m = "map (\<lambda>b. if init_failed b then b\<lparr>bd_first := FirstFail\<rparr> else b) binds"
    have j: "j < length binds" "\<not> bd_deferred (binds ! j)" "\<not> exempt (binds ! j)"
      using that assms by (auto simp: same_var_def)
    then have "bd_first (?m ! j) \<noteq> FirstUnread" by (auto simp: init_failed_def)
    moreover have "bd_first (?cs ! j) = bd_first (?m ! j)"
      using forget_nth(3) [OF resolve_forget, of j ?m] j(1) by (simp add: finishInit_def Let_def)
    ultimately show ?thesis by simp
  qed
  have sv: "same_var ?cs i j = same_var binds i j" if "j < length binds" for j
    using same_var_moves [OF moves assms(2) that] .
  have i: "bd_first (?cs ! i) \<noteq> FirstUnread" using read [of i] assms(3) by (simp add: same_var_def)
  have "role_spec ?cs i \<noteq> RolePending"
  proof (cases "leads ?cs i")
    case True
    with i show ?thesis by (cases "bd_first (?cs ! i)") (simp_all add: role_spec_def leads_def)
  next
    case False
    show ?thesis
    proof (cases "bd_first (?cs ! i) = FirstFail")
      case nofail: False
      define k where "k = (LEAST k. k < i \<and> same_var ?cs i k \<and> bd_first (?cs ! k) \<noteq> FirstFail)"
      have "\<exists>k. k < i \<and> same_var ?cs i k \<and> bd_first (?cs ! k) \<noteq> FirstFail" using False nofail by (auto simp: leads_def)
      then have k: "k < i" "same_var ?cs i k" "bd_first (?cs ! k) \<noteq> FirstFail"
        unfolding k_def by (metis (mono_tags, lifting) LeastI_ex)+
      have "bd_first (?cs ! l) = FirstFail" if "l < k" "same_var ?cs k l" for l
        using not_less_Least [of l "\<lambda>k. k < i \<and> same_var ?cs i k \<and> bd_first (?cs ! k) \<noteq> FirstFail"] that k
        unfolding k_def [symmetric] by (auto simp: same_var_def)
      then have "leads ?cs k" using k by (simp add: leads_def)
      moreover have "bd_first (?cs ! k) = FirstOk"
        using read [of k] k sv assms(2) by (cases "bd_first (?cs ! k)") auto
      ultimately show ?thesis using False k by (auto simp: role_spec_def)
    qed (simp add: role_spec_def False)
  qed
  moreover have "\<not> exempt (?cs ! i)" using ev assms(2,3) evolves_exempt by blast
  ultimately show ?thesis using ok ev assms(2) by (simp add: roles_ok_def)
qed

theorem finishInit_decides_witness:
  "bd_role (finishInit (resolve two_charges) ! 1) \<noteq> RolePending"
proof -
  have ok: "roles_ok (resolve two_charges)" by (rule roles_ok_resolve [OF _ two_charges_kinds]) (simp add: list_all2_refl)
  have e: "\<not> exempt (resolve two_charges ! 1)"
    using forget_nth(1) [OF resolve_forget, of 1 two_charges] two_charges_public [of "two_charges ! 1"] by simp
  have "\<not> bd_deferred (resolve two_charges ! j)" if "j \<le> 1" for j
  proof -
    have "bd_deferred (resolve two_charges ! j) = bd_deferred (two_charges ! j)"
      using forget_nth(4) [OF resolve_forget, of j two_charges] that by simp
    moreover have "j = 0 \<or> j = 1" using that by auto
    ultimately show ?thesis by (auto simp: two_charges_def bound_new_def)
  qed
  then show ?thesis using finishInit_decides [OF ok _ e] by simp
qed

end
