(* ===== verification/NutMatching.thy ===== *)
theory NutMatching
  imports NutRoles
begin

text \<open>
  What the matching of rows and usages means, the status bits after a walk of the internal rows,
  and the delays kept by the firmware.
\<close>

section \<open>Paths and their texts\<close>

definition dot_free :: "string \<Rightarrow> bool" where
  "dot_free s \<longleftrightarrow> CHR ''.'' \<notin> set s"

lemma upto_dot: "c \<notin> set s \<Longrightarrow> upto c (s @ c # r) = s" "c \<notin> set s \<Longrightarrow> upto c s = s"
  by (induction s) (auto simp: upto_def)

lemma after_dot: "c \<notin> set s \<Longrightarrow> after c (s @ c # r) = Some r" "c \<notin> set s \<Longrightarrow> after c s = None"
  by (induction s) (auto simp: after_def)

text \<open>The names of a usage, and a catalog path: names with the index of each collection, 0 for none.\<close>

fun join_dots :: "string list \<Rightarrow> string" where
  "join_dots [] = []"
| "join_dots [s] = s"
| "join_dots (s # ss) = s @ CHR ''.'' # join_dots ss"

fun catalog_path :: "(string \<times> nat) list \<Rightarrow> string" where
  "catalog_path [] = []"
| "catalog_path [(s, k)] = s"
| "catalog_path ((s, k) # xs) =
     s @ CHR ''.'' # (if k = 0 then catalog_path xs else CHR ''['' # dec (k - 1) @ CHR '']'' # CHR ''.'' # catalog_path xs)"

definition name_ok :: "string \<Rightarrow> bool" where
  "name_ok s \<longleftrightarrow> s \<noteq> [] \<and> dot_free s \<and> hd s \<noteq> CHR ''[''"

lemma catalog_path_hd: "xs \<noteq> [] \<Longrightarrow> name_ok (fst (hd xs)) \<Longrightarrow> \<exists>c r. catalog_path xs = c # r \<and> c \<noteq> CHR ''[''"
  by (cases xs rule: catalog_path.cases) (auto simp: name_ok_def neq_Nil_conv)

lemma dec_head: "\<exists>c r. dec n = c # r \<and> is_digit c"
  using dec_nonempty [of n] dec_digits [of _ n] by (cases "dec n") auto

lemma digit_no_space: "is_digit c \<Longrightarrow> \<not> isSpaceChar c \<and> c \<noteq> CHR ''-'' \<and> c \<noteq> CHR ''+''"
  by (auto simp: isSpaceChar_def in_range_def ord_def)

lemma takeWhile_dec: "\<not> is_digit c \<Longrightarrow> takeWhile is_digit (dec n @ c # r) = dec n"
  using dec_digits [of _ n] by (simp add: takeWhile_append2)

lemma atoi_dec: "\<not> is_digit c \<Longrightarrow> atoi (dec n @ c # r) = int n"
proof -
  assume c: "\<not> is_digit c"
  obtain d ds where d: "dec n = d # ds" "is_digit d" using dec_head by blast
  have "skip_spaces (dec n @ c # r) = dec n @ c # r" using d digit_no_space [of d] by (simp add: skip_spaces_def)
  moreover have "read_sign (dec n @ c # r) = (False, dec n @ c # r)" using d digit_no_space [of d] by (simp add: read_sign_def)
  ultimately show ?thesis using takeWhile_dec [OF c] by (simp add: atoi_def)
qed

lemma dec_one: "dec (Suc 0) = ''1''" "dec 1 = ''1''"
  by code_simp+

lemma bracket_no_digit: "\<not> is_digit (CHR '']'')"
  by (simp add: in_range_def ord_def)

lemma index_token_some:
  "0 < k \<Longrightarrow> index_token (CHR ''['' # dec (k - 1) @ CHR '']'' # CHR ''.'' # r) = Some (of_nat k, r)"
proof -
  assume k: "0 < k"
  have "CHR '']'' \<notin> set (dec (k - 1))" using dec_digits bracket_no_digit by blast
  then have "after (CHR '']'') (dec (k - 1) @ CHR '']'' # CHR ''.'' # r) = Some (CHR ''.'' # r)" by (rule after_dot)
  moreover have "(of_int (int (k - 1) + 1) :: u8) = of_nat k" using k by (metis Suc_pred' of_int_of_nat_eq of_nat_Suc add.commute)
  ultimately show ?thesis using atoi_dec [OF bracket_no_digit, of "k - 1"] by (simp add: index_token_def)
qed

lemma index_token_none: "xs \<noteq> [] \<Longrightarrow> name_ok (fst (hd xs)) \<Longrightarrow> index_token (catalog_path xs) = Some (0, catalog_path xs)"
  using catalog_path_hd [of xs] by (auto simp: index_token_def)

lemma same_segment:
  "length s = length t \<Longrightarrow> equalsIgnoreCaseN (s @ p) (t @ q) (length s) \<longleftrightarrow> map lower s = map lower t"
  by (simp add: equalsIgnoreCaseN_take)

definition index_at :: "u8 list \<Rightarrow> nat \<Rightarrow> u8" where
  "index_at coll_index depth = (if depth < 8 then coll_index ! depth else 0)"

text \<open>The names agree but for their case, and the index of every collection is the one of the path.\<close>

fun path_agrees :: "u8 list \<Rightarrow> nat \<Rightarrow> (string \<times> nat) list \<Rightarrow> string list \<Rightarrow> bool" where
  "path_agrees coll depth [(s, k)] [t] \<longleftrightarrow> map lower s = map lower t"
| "path_agrees coll depth ((s, k) # x # xs) (t # u # us) \<longleftrightarrow>
     map lower s = map lower t \<and> index_at coll depth = of_nat k \<and> path_agrees coll (depth + 1) (x # xs) (u # us)"
| "path_agrees coll depth _ _ \<longleftrightarrow> False"

lemma lower_length: "map lower s = map lower t \<Longrightarrow> length s = length t"
  by (rule map_eq_imp_length_eq)

lemma path_loop_agrees:
  assumes "xs \<noteq> []" "qs \<noteq> []" "list_all (\<lambda>x. name_ok (fst x)) xs" "list_all dot_free qs"
  shows "path_loop coll depth (catalog_path xs) (join_dots qs) = path_agrees coll depth xs qs"
  using assms
proof (induction xs arbitrary: depth qs rule: catalog_path.induct)
  case (2 s k)
  obtain t ts where qs: "qs = t # ts" using 2(2) by (cases qs) auto
  have s: "upto (CHR ''.'') s = s" "after (CHR ''.'') s = None" using 2(3) by (simp_all add: upto_dot after_dot name_ok_def dot_free_def)
  show ?case
  proof (cases ts)
    case Nil
    then have t: "upto (CHR ''.'') t = t" "after (CHR ''.'') t = None" using 2(4) qs by (simp_all add: upto_dot after_dot dot_free_def)
    then show ?thesis
      using same_segment [of s t "[]" "[]"] lower_length [of s t] s by (subst path_loop.simps) (auto simp: Let_def qs Nil)
  next
    case (Cons u us)
    have "after (CHR ''.'') (join_dots qs) = Some (join_dots ts)"
      using 2(4) qs Cons by (simp add: after_dot dot_free_def)
    then show ?thesis using s by (subst path_loop.simps) (simp add: Let_def qs Cons)
  qed
next
  case (3 s k x xs)
  let ?p = "catalog_path (x # xs)"
  let ?pe = "if k = 0 then ?p else CHR ''['' # dec (k - 1) @ CHR '']'' # CHR ''.'' # ?p"
  have p: "catalog_path ((s, k) # x # xs) = s @ CHR ''.'' # ?pe" by (cases x) simp
  have s: "upto (CHR ''.'') (s @ CHR ''.'' # r) = s" "after (CHR ''.'') (s @ CHR ''.'' # r) = Some r" for r
    using "3.prems"(3) by (simp_all add: upto_dot after_dot name_ok_def dot_free_def)
  have tok: "index_token ?pe = Some (of_nat k, ?p)"
    using index_token_none [of "x # xs"] index_token_some [of k ?p] "3.prems"(3) by simp
  obtain t ts where qs: "qs = t # ts" using "3.prems"(2) by (cases qs) auto
  show ?case
  proof (cases ts)
    case Nil
    have "after (CHR ''.'') (join_dots qs) = None" using "3.prems"(4) qs Nil by (simp add: after_dot dot_free_def)
    then show ?thesis unfolding p by (subst path_loop.simps) (use tok in \<open>simp add: Let_def s qs Nil\<close>)
  next
    case (Cons u us)
    let ?q = "join_dots (u # us)"
    have q: "join_dots qs = t @ CHR ''.'' # ?q" by (simp add: qs Cons)
    have t: "upto (CHR ''.'') (t @ CHR ''.'' # r) = t" "after (CHR ''.'') (t @ CHR ''.'' # r) = Some r" for r
      using "3.prems"(4) qs by (simp_all add: upto_dot after_dot dot_free_def)
    have IH: "path_loop coll (depth + 1) ?p ?q = path_agrees coll (depth + 1) (x # xs) (u # us)"
      using "3.prems" qs Cons by (cases "k = 0"; intro "3.IH") simp_all
    show ?thesis
      unfolding p q path_loop.simps [of coll depth] s t Let_def tok option.case prod.case
      using same_segment [of s t] lower_length [of s t] IH
      by (auto simp: index_at_def qs Cons)
  qed
qed simp

text \<open>A row is bound to exactly the usages of its path. With the catalog path of the names
  and indices \<open>xs\<close>, a row without \<open>HU_FLAG_ANY_INDEX\<close> matches a usage if and only if the names are
  the same but for their case and every collection has the index of the path.\<close>

theorem row_matches_exactly:
  assumes "hi_hidflags info AND HU_FLAG_ANY_INDEX = 0" "hi_hidpath info = catalog_path xs" "hu_path u = join_dots qs"
    and "xs \<noteq> []" "qs \<noteq> []" "list_all (\<lambda>x. name_ok (fst x)) xs" "list_all dot_free qs"
  shows "rowMatches u info = path_agrees (hu_coll_index u) 0 xs qs"
  using path_loop_agrees [OF assms(4-7)] assms(1-3) by (simp add: rowMatches_def pathMatches_def)

definition outlet_usage :: hid_usage_def where
  "outlet_usage = hu_new\<lparr>hu_path := ''UPS.OutletSystem.Outlet.Status'', hu_coll_index := [0, 0, 2, 0, 0, 0, 0, 0]\<rparr>"

definition outlet_row :: hid_info where
  "outlet_row = row ''outlet.1.status'' 0 0 ''UPS.OutletSystem.Outlet.[1].Status'' None 0 CvLookup kYesNo"

theorem row_matches_exactly_witness: "rowMatches outlet_usage outlet_row"
proof -
  have "rowMatches outlet_usage outlet_row =
      path_agrees (hu_coll_index outlet_usage) 0 [(''UPS'', 0), (''OutletSystem'', 0), (''Outlet'', 2), (''Status'', 0)]
        [''UPS'', ''OutletSystem'', ''Outlet'', ''Status'']"
    by (rule row_matches_exactly)
      (simp_all add: outlet_usage_def outlet_row_def row_def name_ok_def dot_free_def dec_one)
  then show ?thesis by (simp add: outlet_usage_def index_at_def)
qed

section \<open>Status bits after a walk\<close>

definition lower_row :: "hid_info \<Rightarrow> bool" where
  "lower_row info \<longleftrightarrow> list_all (\<lambda>e. lower_token (snd e)) (hi_lkp info)"

lemma lookup_text_member: "lookup_text es v = Some t \<Longrightarrow> \<exists>e \<in> set es. snd e = t"
  by (induction es) (auto split: if_splits)

lemma literal_token_lower:
  "list_all lower_token [''dischrg'', ''!dischrg'', ''chrg'', ''!chrg'', ''online'', ''!online'', ''fanfail'', ''!fanfail'', ''replacebatt'',
     ''!replacebatt'', ''cal'', ''!cal'', ''shutdownimm'', ''!shutdownimm'', ''lowbatt'', ''!lowbatt'', ''trim'', ''!trim'', ''boost'',
     ''!boost'', ''overload'', ''!overload'', ''off'', ''!off'']"
  by (simp add: lower_token_def lower_def in_range_def ord_def)

lemmas literal_tokens_lower = literal_token_lower [unfolded list.pred_inject]

lemma statusToken_lower: "lower_row info \<Longrightarrow> statusToken info v ctx data = Some t \<Longrightarrow> lower_token t"
  using lookup_text_member [of "hi_lkp info" "to_int v" t] literal_tokens_lower
  by (cases "hi_conv info")
    (auto simp: statusToken_def abmToken_def lower_row_def list_all_iff Let_def split: if_splits option.splits)

lemma applyStatusToken_none [simp]: "applyStatusToken s None = s"
  by (simp add: applyStatusToken_def)

lemma applyInternal_status [simp]: "cx_status (applyInternal info v ctx) = cx_status ctx"
  by (simp add: applyInternal_def applyInternal_path_def Let_def split: conv.splits)

definition bool_lower :: "bound \<Rightarrow> bool" where
  "bool_lower b \<longleftrightarrow> (bd_name b = ''BOOL'' \<longrightarrow> lower_row (bd_info b))"

lemma internal_apply_ok:
  "status_ok (cx_status ctx) \<Longrightarrow> (hi_info_type info = ''BOOL'' \<longrightarrow> lower_row info) \<Longrightarrow> status_ok (cx_status (internal_apply info v ctx data))"
  using statusToken_lower [of info v ctx data] applyStatusToken_ok [of "cx_status ctx"]
  by (cases "statusToken info v ctx data") (auto simp: internal_apply_def)

lemma walk_keeps_status_ok:
  "status_ok (cx_status ctx) \<Longrightarrow> \<forall>b \<in> set binds. bool_lower b \<Longrightarrow> status_ok (cx_status (walkInternalRows binds ctx data))"
  by (induction binds arbitrary: ctx) (simp_all add: internal_apply_ok bool_lower_def)

lemma nominalVoltageValid_status: "cx_status (fst (nominalVoltageValid n ctx)) = cx_status ctx"
  by (simp add: nominalVoltageValid_def Let_def)

lemma decode_status: "cx_status (fst (decode info v ctx data)) = cx_status ctx"
proof -
  have cps: "cx_status (fst (decode_cps_voltage v ctx data)) = cx_status ctx" "cx_status (fst (decode_cps_frequency b v ctx data)) = cx_status ctx" for b
    by (simp_all add: decode_cps_voltage_def decode_cps_frequency_def Let_def split_beta)
  have nom: "cx_status (fst (case nominalVoltageValid n ctx of (ctx, ok) \<Rightarrow> (ctx, f ok))) = cx_status ctx" for n and f :: "bool \<Rightarrow> decode_result"
    using nominalVoltageValid_status [of n ctx] by (simp add: split_beta)
  show ?thesis
    by (cases "hi_conv info") (simp_all add: decode_def cps nom)
qed

lemma on_public_status: "cx_status (snd (on_public bs i v ctx data)) = cx_status ctx"
proof -
  have d: "cx_status c = cx_status ctx" if "decode info v ctx data = (c, r)" for info c r
    using decode_status [of info v ctx data] that by simp
  obtain c r where dec: "decode (bd_info (bs ! i)) v ctx data = (c, r)" by (cases "decode (bd_info (bs ! i)) v ctx data")
  define b where "b = (if hi_conv (bd_info (bs ! i)) = CvStringId \<and> 1 \<le> v \<and> v \<le> 255
    then (bs ! i)\<lparr>bd_string_index := of_int (to_int v)\<rparr> else bs ! i)"
  have b: "decode (bd_info b) v ctx data = (c, r)" using dec by (simp add: b_def)
  show ?thesis
    unfolding on_public_def Let_def b_def [symmetric] b
    using d [OF b] by (cases r) (simp_all split: option.split)
qed

lemma onValue_status_ok:
  "status_ok (cx_status ctx) \<Longrightarrow> bool_lower (bs ! i) \<Longrightarrow> status_ok (cx_status (snd (onValue bs i v ctx data)))"
  by (simp add: onValue_def Let_def internal_apply_ok bool_lower_def on_public_status)

section \<open>Delays\<close>

lemma parse_delay_dec:
  assumes "-1 \<le> v" "v \<le> 2147483647"
  shows "parseDelayParam (Some (dec_int v)) = Some v"
proof -
  have digits: "takeWhile is_digit (dec n) = dec n" "dropWhile is_digit (dec n) = []" for n
    using dec_digits [of _ n] by (simp_all add: takeWhile_eq_all_conv)
  show ?thesis
  proof (cases "0 \<le> v")
    case True
    obtain d ds where d: "dec (nat v) = d # ds" "is_digit d" using dec_head by blast
    then have "hd (dec (nat v)) \<noteq> CHR ''-''" "is_digit (hd (dec (nat v)))" using digit_no_space [of d] by simp_all
    then show ?thesis using True assms digits by (simp add: parseDelayParam_def dec_int_def Let_def del: takeWhile_eq_all_conv)
  next
    case False
    with assms have "v = -1" by simp
    then show ?thesis by (simp add: parseDelayParam_def dec_int_def Let_def dec_one digits_value_def digit_value_def ord_def in_range_def)
  qed
qed

lemma parse_delay_bounds: "parseDelayParam t = Some v \<Longrightarrow> -1 \<le> v \<and> v \<le> 2147483647"
  by (auto simp: parseDelayParam_def Let_def split: option.splits if_splits)

text \<open>The last saved value of a variable that is still an integer \<open>\<ge> 0\<close>.\<close>

fun last_saved :: "string \<Rightarrow> (string \<times> string) list \<Rightarrow> int \<Rightarrow> int" where
  "last_saved name [] dflt = dflt"
| "last_saved name (kv # kvs) dflt =
     last_saved name kvs (case parseDelayParam (Some (snd kv)) of Some v \<Rightarrow> if fst kv = name \<and> 0 \<le> v then v else dflt | None \<Rightarrow> dflt)"

lemma saved_delays_last:
  "saved_delays sd st kvs (off, on) =
     (if sd then last_saved ''ups.delay.shutdown'' kvs off else off, if st then last_saved ''ups.delay.start'' kvs on else on)"
  by (induction kvs arbitrary: off on) (auto split: option.splits)

text \<open>What SET VAR saved comes back. When the device has the path of a delay, the variable holds
  the last saved value that is an integer \<open>\<ge> 0\<close>, else the default of the driver, and it parses back
  to that value; no other variable changes.\<close>

theorem saved_delay_restored:
  assumes "ud_ok data" "hasAnyPath usages (dp_shutdown paths) (dp_any_index paths)" "0 \<le> off_delay" "off_delay \<le> 2147483647"
    and "data' = applyDefaultDelays data usages off_delay on_delay True (Some paths) (Some saved)"
  shows "ud_find data' ''ups.delay.shutdown'' = Some (dec_int (last_saved ''ups.delay.shutdown'' saved off_delay)) \<and>
    parseDelayParam (ud_find data' ''ups.delay.shutdown'') = Some (last_saved ''ups.delay.shutdown'' saved off_delay) \<and>
    (\<forall>k. k \<notin> {''ups.delay.shutdown'', ''ups.delay.start''} \<longrightarrow> ud_find data' k = ud_find data k)"
proof -
  have "0 \<le> last_saved name kvs d \<and> last_saved name kvs d \<le> 2147483647" if "0 \<le> d" "d \<le> 2147483647" for name kvs d
    using that parse_delay_bounds by (induction kvs arbitrary: d) (auto split: option.splits)
  then have p: "parseDelayParam (Some (dec_int (last_saved ''ups.delay.shutdown'' saved off_delay))) =
      Some (last_saved ''ups.delay.shutdown'' saved off_delay)"
    using assms(3,4) by (intro parse_delay_dec) (meson le_minus_one_simps(1) order.trans)+
  have f: "ud_find data' ''ups.delay.shutdown'' = Some (dec_int (last_saved ''ups.delay.shutdown'' saved off_delay))"
    using assms(1,2,5) by (simp add: applyDefaultDelays_def saved_delays_last Let_def ud.lookup_put ud.ok_put)
  have "\<forall>k. k \<notin> {''ups.delay.shutdown'', ''ups.delay.start''} \<longrightarrow> ud_find data' k = ud_find data k"
    using assms(1,5) by (simp add: applyDefaultDelays_def saved_delays_last Let_def ud.lookup_put ud.ok_put)
  with f p show ?thesis by simp
qed

theorem saved_delay_restored_witness:
  "ud_find (applyDefaultDelays ud_new [hu_new\<lparr>hu_path := ''UPS.Output.DelayBeforeShutdown''\<rparr>] 20 30 True (Some cpsDelayPaths)
     (Some [(''ups.delay.shutdown'', ''45''), (''ups.delay.shutdown'', ''abc'')])) ''ups.delay.shutdown'' = Some ''45''"
proof -
  let ?us = "[hu_new\<lparr>hu_path := ''UPS.Output.DelayBeforeShutdown''\<rparr>]"
  have "pathMatches (hd ?us) ''UPS.Output.DelayBeforeShutdown''" by code_simp
  then have has: "hasAnyPath ?us (dp_shutdown cpsDelayPaths) (dp_any_index cpsDelayPaths)"
    by (simp add: hasAnyPath_def cpsDelayPaths_def)
  have "last_saved ''ups.delay.shutdown'' [(''ups.delay.shutdown'', ''45''), (''ups.delay.shutdown'', ''abc'')] 20 = 45"
    by code_simp
  moreover have "dec_int 45 = ''45''" by code_simp
  ultimately show ?thesis using saved_delay_restored [OF ud_ok_new has _ _ refl, of 20] by simp
qed

end
