(* ===== verification/NutTablesMge.thy ===== *)
theory NutTablesMge
  imports NutTable
begin

text \<open>
  The rows of \<open>mgeHid2Nut\<close>, in the order of the source. \<open>unmapped\<close> is
  \<open>WITH_UNMAPPED_DATA_POINTS\<close>: the rows under it are in the table only in such a build. A table is
  split in parts of at most 150 source lines.
\<close>

unbundle bit_operations_syntax

section \<open>mge\<close>

definition mge_rows_1 :: "bool \<Rightarrow> hid_info list" where
  "mge_rows_1 unmapped =
    [row ''device.country'' ST_FLAG_STRING 20 ''UPS.PowerSummary.0xFFFF0095'' (Some ''Europe'') HU_FLAG_STATIC CvMgeCountry [],
      row ''device.usb.version'' ST_FLAG_STRING 20 ''UPS.0xFFFF00E5.0xFFFF0005.0xFFFF00F1'' None HU_FLAG_STATIC CvStringId [],
      row ''battery.charge'' 0 0 ''UPS.PowerSummary.RemainingCapacity'' (Some ''%.0f'') 0 CvNumber [],
      row ''battery.charge.low'' (ST_FLAG_RW OR ST_FLAG_STRING) 5 ''UPS.PowerSummary.0xFFFF004D'' (Some ''%.0f'') HU_FLAG_SEMI_STATIC CvNumber [],
      row ''battery.charge.low'' 0 0 ''UPS.PowerSummary.RemainingCapacityLimit'' (Some ''%.0f'') HU_FLAG_STATIC CvNumber [],
      row ''battery.charge.restart'' (ST_FLAG_RW OR ST_FLAG_STRING) 3 ''UPS.PowerSummary.0xFFFF005F'' (Some ''%.0f'') HU_FLAG_SEMI_STATIC CvNumber [],
      row ''battery.capacity'' 0 0 ''UPS.BatterySystem.Battery.DesignCapacity'' (Some ''%s'') HU_FLAG_STATIC CvMgeBatteryCapacity [],
      row ''battery.runtime'' 0 0 ''UPS.PowerSummary.RunTimeToEmpty'' (Some ''%.0f'') 0 CvNumber [],
      row ''battery.runtime.low'' (ST_FLAG_RW OR ST_FLAG_STRING) 10 ''UPS.PowerSummary.RemainingTimeLimit'' (Some ''%.0f'') 0 CvNumber [],
      row ''battery.runtime.elapsed'' 0 0 ''UPS.0xFFFF0004.Input.[1].0xFFFF0003.[1].0xFFFF0097'' (Some ''%.0f'') HU_FLAG_QUICK_POLL CvNumber [],
      row ''battery.runtime.low'' (ST_FLAG_RW OR ST_FLAG_STRING) 10 ''UPS.PowerSummary.RemainingTimeLimit'' (Some ''%.0f'') 0 CvNumber [],
      row ''battery.temperature'' 0 0 ''UPS.BatterySystem.Battery.Temperature'' (Some ''%s'') 0 CvKelvinCelsius [],
      row ''battery.type'' 0 0 ''UPS.PowerSummary.iDeviceChemistry'' (Some ''%s'') HU_FLAG_STATIC CvStringId [],
      row ''battery.voltage'' 0 0 ''UPS.BatterySystem.Voltage'' (Some ''%.1f'') 0 CvNumber [],
      row ''battery.voltage'' 0 0 ''UPS.PowerSummary.Voltage'' (Some ''%s'') 0 CvMgeBatteryVoltage [],
      row ''battery.voltage.nominal'' 0 0 ''UPS.BatterySystem.ConfigVoltage'' (Some ''%.0f'') HU_FLAG_STATIC CvNumber [],
      row ''battery.voltage.nominal'' 0 0 ''UPS.PowerSummary.ConfigVoltage'' (Some ''%s'') HU_FLAG_STATIC CvMgeBatteryVoltageNominal [],
      row ''battery.protection'' (ST_FLAG_RW OR ST_FLAG_STRING) 5 ''UPS.BatterySystem.Battery.0xFFFF0049'' (Some ''%s'') HU_FLAG_SEMI_STATIC CvLookup kYesNo,
      row ''battery.energysave'' (ST_FLAG_RW OR ST_FLAG_STRING) 5 ''UPS.PowerConverter.Input.[3].0xFFFF0046'' (Some ''%s'') HU_FLAG_SEMI_STATIC CvLookup kYesNo,
      row ''battery.energysave.load'' (ST_FLAG_RW OR ST_FLAG_STRING) 5 ''UPS.PowerConverter.Input.[3].ConfigPercentLoad'' (Some ''%.0f'') HU_FLAG_SEMI_STATIC CvNumber [],
      row ''battery.energysave.delay'' (ST_FLAG_RW OR ST_FLAG_STRING) 5 ''UPS.PowerConverter.Input.[3].0xFFFF0046.0xFFFF005D'' (Some ''%.0f'') HU_FLAG_SEMI_STATIC CvNumber [],
      row ''battery.energysave.delay'' (ST_FLAG_RW OR ST_FLAG_STRING) 5 ''UPS.PowerConverter.Input.[3].0xFFFF005D'' (Some ''%.0f'') HU_FLAG_SEMI_STATIC CvNumber [],
      row ''battery.energysave.realpower'' (ST_FLAG_RW OR ST_FLAG_STRING) 5 ''UPS.PowerConverter.Input.[3].ConfigActivePower'' (Some ''%.0f'') HU_FLAG_SEMI_STATIC CvNumber [],
      row ''battery.charger.abm.status'' 0 0 ''UPS.BatterySystem.Charger.0xFFFF0087'' (Some ''%.0f'') HU_FLAG_QUICK_POLL CvAbmEnabled [],
      row ''battery.charger.mode.status'' 0 0 ''UPS.BatterySystem.Charger.0xFFFF0094'' (Some ''%.0f'') HU_FLAG_QUICK_POLL CvAbmPathMode [],
      row ''battery.charger.type.status'' 0 0 ''UPS.BatterySystem.Charger.0xFFFF00E9'' (Some ''%.0f'') HU_FLAG_QUICK_POLL CvAbmPathStatus [],
      row ''battery.charger.status'' 0 0 ''UPS.BatterySystem.Charger.0xFFFF0094'' (Some ''%.0f'') HU_FLAG_QUICK_POLL CvAbmStatus [],
      row ''battery.charger.status'' 0 0 ''UPS.BatterySystem.Charger.0xFFFF00E9'' (Some ''%.0f'') HU_FLAG_QUICK_POLL CvAbmStatus [],
      row ''battery.charger.type'' 0 0 ''UPS.BatterySystem.Charger.0xFFFF006B'' (Some ''%.0f'') HU_FLAG_QUICK_POLL CvLookup kEatonChargerType,
      row ''ups.efficiency'' 0 0 ''UPS.PowerConverter.Output.0xFFFF0086'' (Some ''%.0f'') 0 CvNumber [],
      row ''ups.firmware'' 0 0 ''UPS.PowerSummary.0xFFFF00F1'' (Some ''%s'') HU_FLAG_STATIC CvStringId [],
      row ''ups.load'' 0 0 ''UPS.PowerSummary.PercentLoad'' (Some ''%.0f'') 0 CvNumber [],
      row ''ups.load.high'' (ST_FLAG_RW OR ST_FLAG_STRING) 5 ''UPS.Flow.[4].ConfigPercentLoad'' (Some ''%.0f'') HU_FLAG_SEMI_STATIC CvNumber [],
      row ''ups.timer.start'' 0 0 ''UPS.PowerSummary.DelayBeforeStartup'' (Some ''%.0f'') HU_FLAG_QUICK_POLL CvNumber [],
      row ''ups.timer.shutdown'' 0 0 ''UPS.PowerSummary.DelayBeforeShutdown'' (Some ''%.0f'') HU_FLAG_QUICK_POLL CvNumber [],
      row ''ups.timer.reboot'' 0 0 ''UPS.PowerSummary.DelayBeforeReboot'' (Some ''%.0f'') HU_FLAG_QUICK_POLL CvNumber [],
      row ''ups.test.result'' 0 0 ''UPS.BatterySystem.Battery.Test'' (Some ''%s'') 0 CvLookup kTestRead,
      row ''ups.test.interval'' (ST_FLAG_RW OR ST_FLAG_STRING) 8 ''UPS.BatterySystem.Battery.0xFFFF0045'' (Some ''%.0f'') HU_FLAG_SEMI_STATIC CvNumber [],
      row ''ups.beeper.status'' 0 0 ''UPS.BatterySystem.Battery.AudibleAlarmControl'' (Some ''%s'') HU_FLAG_SEMI_STATIC CvLookup kBeeperInfo,
      row ''ups.beeper.status'' 0 0 ''UPS.PowerSummary.AudibleAlarmControl'' (Some ''%s'') HU_FLAG_SEMI_STATIC CvLookup kBeeperInfo,
      row ''ups.beeper.status'' 0 0 ''UPS.AudibleAlarmControl'' (Some ''%s'') HU_FLAG_SEMI_STATIC CvLookup kBeeperInfo,
      row ''ups.temperature'' 0 0 ''UPS.PowerSummary.Temperature'' (Some ''%s'') 0 CvKelvinCelsius [],
      row ''ups.power'' 0 0 ''UPS.PowerConverter.Output.ApparentPower'' (Some ''%.0f'') 0 CvNumber []]"

definition mge_rows_2 :: "bool \<Rightarrow> hid_info list" where
  "mge_rows_2 unmapped =
    [row ''ups.L1.power'' 0 0 ''UPS.PowerConverter.Output.0xFFFF0010.[1].ApparentPower'' (Some ''%.0f'') 0 CvNumber [],
      row ''ups.L2.power'' 0 0 ''UPS.PowerConverter.Output.0xFFFF0010.[2].ApparentPower'' (Some ''%.0f'') 0 CvNumber [],
      row ''ups.L3.power'' 0 0 ''UPS.PowerConverter.Output.0xFFFF0010.[3].ApparentPower'' (Some ''%.0f'') 0 CvNumber [],
      row ''ups.power.nominal'' 0 0 ''UPS.Flow.[4].ConfigApparentPower'' (Some ''%.0f'') HU_FLAG_STATIC CvNumber [],
      row ''ups.realpower'' 0 0 ''UPS.PowerConverter.Output.ActivePower'' (Some ''%.0f'') 0 CvNumber [],
      row ''ups.realpower'' 0 0 ''UPS.Flow.[4].ConfigApparentPower'' (Some ''-1'') 0 CvEatonComputeRealpower [],
      row ''ups.L1.realpower'' 0 0 ''UPS.PowerConverter.Output.0xFFFF0010.[1].ActivePower'' (Some ''%.0f'') 0 CvNumber [],
      row ''ups.L2.realpower'' 0 0 ''UPS.PowerConverter.Output.0xFFFF0010.[2].ActivePower'' (Some ''%.0f'') 0 CvNumber [],
      row ''ups.L3.realpower'' 0 0 ''UPS.PowerConverter.Output.0xFFFF0010.[3].ActivePower'' (Some ''%.0f'') 0 CvNumber [],
      row ''ups.realpower.nominal'' 0 0 ''UPS.Flow.[4].ConfigActivePower'' (Some ''%.0f'') HU_FLAG_STATIC CvNumber [],
      row ''ups.start.auto'' (ST_FLAG_RW OR ST_FLAG_STRING) 5 ''UPS.PowerConverter.Input.[1].0xFFFF0043'' (Some ''%s'') HU_FLAG_SEMI_STATIC CvLookup kYesNo,
      row ''ups.start.battery'' (ST_FLAG_RW OR ST_FLAG_STRING) 5 ''UPS.PowerConverter.Input.[3].0xFFFF0047'' (Some ''%s'') HU_FLAG_SEMI_STATIC CvLookup kYesNo,
      row ''ups.start.reboot'' (ST_FLAG_RW OR ST_FLAG_STRING) 5 ''UPS.PowerConverter.Output.0xFFFF0044'' (Some ''%s'') HU_FLAG_SEMI_STATIC CvLookup kYesNo,
      row ''ups.shutdown'' (ST_FLAG_RW OR ST_FLAG_STRING) 10 ''UPS.PowerSummary.PresentStatus.Switchable'' (Some ''%s'') (HU_FLAG_SEMI_STATIC OR HU_FLAG_ENUM) CvLookup kEnableDisable,
      row ''ups.date'' (ST_FLAG_RW OR ST_FLAG_STRING) 10 ''UPS.PowerSummary.0xFFFF0097'' (Some ''%s'') 0 CvMgeDate [],
      row ''ups.time'' (ST_FLAG_RW OR ST_FLAG_STRING) 10 ''UPS.PowerSummary.0xFFFF0097'' (Some ''%s'') 0 CvMgeTime [],
      row ''ups.type'' 0 0 ''UPS.PowerConverter.0xFFFF0041'' (Some ''%s'') HU_FLAG_STATIC CvLookup kUpsType,
      row ''BOOL'' 0 0 ''UPS.PowerSummary.PresentStatus.ACPresent'' None HU_FLAG_QUICK_POLL CvLookup kOnlineInfo,
      row ''BOOL'' 0 0 ''UPS.PowerConverter.Input.[3].PresentStatus.Used'' None 0 CvLookup kMgeOnbattInfo,
      row ''BOOL'' 0 0 ''UPS.PowerSummary.PresentStatus.Discharging'' None HU_FLAG_QUICK_POLL CvEatonDischarging [],
      row ''BOOL'' 0 0 ''UPS.PowerSummary.PresentStatus.Charging'' None HU_FLAG_QUICK_POLL CvEatonCharging [],
      row ''BOOL'' 0 0 ''UPS.BatterySystem.Charger.0xFFFF0094'' (Some ''%.0f'') HU_FLAG_QUICK_POLL CvAbmChrgDischrg [],
      row ''BOOL'' 0 0 ''UPS.BatterySystem.Charger.0xFFFF00E9'' (Some ''%.0f'') HU_FLAG_QUICK_POLL CvAbmChrgDischrg [],
      row ''BOOL'' 0 0 ''UPS.PowerSummary.PresentStatus.BelowRemainingCapacityLimit'' None HU_FLAG_QUICK_POLL CvLookup kLowbattInfo,
      row ''BOOL'' 0 0 ''UPS.PowerConverter.Output.Overload.[1].PresentStatus.0xFFFF007E'' None 0 CvLookup kOverloadInfo,
      row ''BOOL'' 0 0 ''UPS.PowerConverter.Output.Overload.[2].PresentStatus.0xFFFF007E'' None 0 CvLookup kOverloadInfo,
      row ''BOOL'' 0 0 ''UPS.PowerSummary.PresentStatus.Overload'' None 0 CvLookup kOverloadInfo,
      row ''BOOL'' 0 0 ''UPS.PowerSummary.PresentStatus.NeedReplacement'' None 0 CvLookup kReplacebattInfo,
      row ''BOOL'' 0 0 ''UPS.0xFFFF0018.0xFFFF001A.[2].PresentStatus.0xFFFF0093'' None 0 CvLookup kReplacebattInfo,
      row ''BOOL'' 0 0 ''UPS.PowerConverter.Input.[1].PresentStatus.Buck'' None 0 CvLookup kTrimInfo,
      row ''BOOL'' 0 0 ''UPS.PowerConverter.Input.[1].PresentStatus.Boost'' None 0 CvLookup kBoostInfo,
      row ''BOOL'' 0 0 ''UPS.PowerConverter.Input.[1].PresentStatus.VoltageOutOfRange'' None 0 CvLookup kVrangeInfo,
      row ''BOOL'' 0 0 ''UPS.PowerConverter.Input.[1].PresentStatus.FrequencyOutOfRange'' None 0 CvLookup kFrangeInfo,
      row ''BOOL'' 0 0 ''UPS.PowerSummary.PresentStatus.Good'' None 0 CvLookup kOffInfo,
      row ''BOOL'' 0 0 ''UPS.PowerConverter.Input.[1].PresentStatus.Used'' None 0 CvEatonConverterOnline [],
      row ''BOOL'' 0 0 ''UPS.PowerConverter.Input.[2].PresentStatus.Used'' None 0 CvLookup kBypassAutoInfo,
      row ''BOOL'' 0 0 ''UPS.PowerConverter.Input.[4].PresentStatus.Used'' None 0 CvLookup kBypassManualInfo,
      row ''BOOL'' 0 0 ''UPS.PowerConverter.Input.[5].PresentStatus.Used'' None 0 CvLookup kEcoModeInfo,
      row ''BOOL'' 0 0 ''UPS.PowerSummary.PresentStatus.0xFFFF0077'' None 0 CvLookup kFanfailInfo,
      row ''BOOL'' 0 0 ''UPS.BatterySystem.Battery.PresentStatus.Present'' None 0 CvLookup kNobatteryInfo,
      row ''BOOL'' 0 0 ''UPS.BatterySystem.Charger.PresentStatus.InternalFailure'' None 0 CvLookup kChargerfailInfo,
      row ''BOOL'' 0 0 ''UPS.BatterySystem.Charger.PresentStatus.0xFFFF0074'' None 0 CvLookup kBattvolthiInfo,
      row ''BOOL'' 0 0 ''UPS.PowerConverter.Input.[1].PresentStatus.0xFFFF0074'' None 0 CvLookup kBattvolthiInfo,
      row ''BOOL'' 0 0 ''UPS.BatterySystem.Battery.PresentStatus.0xFFFF0074'' None 0 CvLookup kBattvolthiInfo,
      row ''BOOL'' 0 0 ''UPS.BatterySystem.Charger.PresentStatus.0xFFFF0075'' None 0 CvLookup kBattvoltloInfo,
      row ''BOOL'' 0 0 ''UPS.PowerConverter.Input.[1].PresentStatus.0xFFFF0075'' None 0 CvLookup kMgeOnbattInfo,
      row ''BOOL'' 0 0 ''UPS.PowerSummary.PresentStatus.InternalFailure'' None 0 CvLookup kCommfaultInfo]"

definition mge_rows_3 :: "bool \<Rightarrow> hid_info list" where
  "mge_rows_3 unmapped =
    [row ''BOOL'' 0 0 ''UPS.PowerSummary.PresentStatus.OverTemperature'' None 0 CvLookup kOverheatInfo,
      row ''BOOL'' 0 0 ''UPS.PowerSummary.PresentStatus.ShutdownImminent'' None 0 CvLookup kShutdownimmInfo,
      row ''ups.alarm'' 0 0 ''UPS.PowerSummary.PresentStatus.0xFFFF0068'' None 0 CvLookup kMgeEmergencyStop,
      row ''ups.alarm'' 0 0 ''UPS.PowerConverter.Input.[1].PresentStatus.0xFFFF0078'' None 0 CvLookup kMgeWiringFault,
      row ''ups.alarm'' 0 0 ''UPS.PowerSummary.PresentStatus.0xFFFF002D'' None 0 CvLookup kMgeConfigFailure,
      row ''ups.alarm'' 0 0 ''UPS.PowerConverter.0xFFFF0014.PresentStatus.0xFFFF0074'' None 0 CvLookup kMgeInverterVolthi,
      row ''ups.alarm'' 0 0 ''UPS.PowerConverter.0xFFFF0014.PresentStatus.0xFFFF0075'' None 0 CvLookup kMgeInverterVoltlo,
      row ''ups.alarm'' 0 0 ''UPS.PowerConverter.Output.PresentStatus.0xFFFF004A'' None 0 CvLookup kMgeShortCircuit,
      row ''input.voltage'' 0 0 ''UPS.PowerConverter.Input.[1].Voltage'' (Some ''%.1f'') 0 CvNumber [],
      row ''input.L1-N.voltage'' 0 0 ''UPS.PowerConverter.Input.[1].0xFFFF0010.[1].Voltage'' (Some ''%.1f'') 0 CvNumber [],
      row ''input.L2-N.voltage'' 0 0 ''UPS.PowerConverter.Input.[1].0xFFFF0010.[2].Voltage'' (Some ''%.1f'') 0 CvNumber [],
      row ''input.L3-N.voltage'' 0 0 ''UPS.PowerConverter.Input.[1].0xFFFF0010.[3].Voltage'' (Some ''%.1f'') 0 CvNumber [],
      row ''input.L1-L2.voltage'' 0 0 ''UPS.PowerConverter.Input.[1].0xFFFF0010.[12].Voltage'' (Some ''%.1f'') 0 CvNumber [],
      row ''input.L2-L3.voltage'' 0 0 ''UPS.PowerConverter.Input.[1].0xFFFF0010.[23].Voltage'' (Some ''%.1f'') 0 CvNumber [],
      row ''input.L3-L1.voltage'' 0 0 ''UPS.PowerConverter.Input.[1].0xFFFF0010.[31].Voltage'' (Some ''%.1f'') 0 CvNumber [],
      row ''input.voltage.nominal'' 0 0 ''UPS.Flow.[1].ConfigVoltage'' (Some ''%.0f'') HU_FLAG_STATIC CvNumber [],
      row ''input.current'' 0 0 ''UPS.PowerConverter.Input.[1].Current'' (Some ''%.2f'') 0 CvNumber [],
      row ''input.L1.current'' 0 0 ''UPS.PowerConverter.Input.[1].0xFFFF0010.[1].Current'' (Some ''%.1f'') 0 CvNumber [],
      row ''input.L2.current'' 0 0 ''UPS.PowerConverter.Input.[1].0xFFFF0010.[2].Current'' (Some ''%.1f'') 0 CvNumber [],
      row ''input.L3.current'' 0 0 ''UPS.PowerConverter.Input.[1].0xFFFF0010.[3].Current'' (Some ''%.1f'') 0 CvNumber [],
      row ''input.current.nominal'' 0 0 ''UPS.Flow.[1].ConfigCurrent'' (Some ''%.2f'') HU_FLAG_STATIC CvNumber [],
      row ''input.frequency'' 0 0 ''UPS.PowerConverter.Input.[1].Frequency'' (Some ''%.1f'') 0 CvNumber [],
      row ''input.frequency.nominal'' 0 0 ''UPS.Flow.[1].ConfigFrequency'' (Some ''%.0f'') HU_FLAG_STATIC CvNumber [],
      row ''input.transfer.low'' (ST_FLAG_RW OR ST_FLAG_STRING) 5 ''UPS.PowerConverter.Output.LowVoltageTransfer'' (Some ''%.0f'') HU_FLAG_SEMI_STATIC CvNumber [],
      row ''input.transfer.eco.low'' (ST_FLAG_RW OR ST_FLAG_STRING) 5 ''UPS.PowerConverter.Output.0xFFFF005A'' (Some ''%.0f'') HU_FLAG_SEMI_STATIC CvNumber [],
      row ''input.transfer.bypass.low'' (ST_FLAG_RW OR ST_FLAG_STRING) 5 ''UPS.PowerConverter.Output.0xFFFF0057'' (Some ''%.0f'') HU_FLAG_SEMI_STATIC CvNumber [],
      row ''input.transfer.boost.low'' (ST_FLAG_RW OR ST_FLAG_STRING) 5 ''UPS.PowerConverter.Output.0xFFFF0050'' (Some ''%.0f'') HU_FLAG_SEMI_STATIC CvNumber [],
      row ''input.transfer.boost.high'' (ST_FLAG_RW OR ST_FLAG_STRING) 5 ''UPS.PowerConverter.Output.0xFFFF0051'' (Some ''%.0f'') HU_FLAG_SEMI_STATIC CvNumber [],
      row ''input.transfer.trim.low'' (ST_FLAG_RW OR ST_FLAG_STRING) 5 ''UPS.PowerConverter.Output.0xFFFF0052'' (Some ''%.0f'') HU_FLAG_SEMI_STATIC CvNumber [],
      row ''input.transfer.high'' (ST_FLAG_RW OR ST_FLAG_STRING) 5 ''UPS.PowerConverter.Output.HighVoltageTransfer'' (Some ''%.0f'') HU_FLAG_SEMI_STATIC CvNumber [],
      row ''input.transfer.eco.high'' (ST_FLAG_RW OR ST_FLAG_STRING) 5 ''UPS.PowerConverter.Output.0xFFFF005B'' (Some ''%.0f'') HU_FLAG_SEMI_STATIC CvNumber [],
      row ''input.transfer.bypass.high'' (ST_FLAG_RW OR ST_FLAG_STRING) 5 ''UPS.PowerConverter.Output.0xFFFF0058'' (Some ''%.0f'') HU_FLAG_SEMI_STATIC CvNumber [],
      row ''input.transfer.frequency.bypass.range'' (ST_FLAG_RW OR ST_FLAG_STRING) 5 ''UPS.PowerConverter.Output.0xFFFF0059'' (Some ''%.0f'') HU_FLAG_SEMI_STATIC CvNumber [],
      row ''input.transfer.frequency.eco.range'' (ST_FLAG_RW OR ST_FLAG_STRING) 5 ''UPS.PowerConverter.Output.0xFFFF005C'' (Some ''%.0f'') HU_FLAG_SEMI_STATIC CvNumber [],
      row ''input.transfer.hysteresis'' (ST_FLAG_RW OR ST_FLAG_STRING) 5 ''UPS.PowerConverter.Output.0xFFFF009C'' (Some ''%.0f'') HU_FLAG_SEMI_STATIC CvNumber [],
      row ''input.transfer.bypass.forced'' (ST_FLAG_RW OR ST_FLAG_STRING) 8 ''UPS.PowerConverter.Input.[2].0xFFFF0056'' (Some ''%.0f'') HU_FLAG_SEMI_STATIC CvLookup kEnableDisable,
      row ''input.transfer.bypass.overload'' (ST_FLAG_RW OR ST_FLAG_STRING) 8 ''UPS.PowerConverter.Input.[2].0xFFFF0054'' (Some ''%.0f'') HU_FLAG_SEMI_STATIC CvLookup kEnableDisable,
      row ''input.transfer.bypass.outlimits'' (ST_FLAG_RW OR ST_FLAG_STRING) 8 ''UPS.PowerConverter.Input.[2].0xFFFF0055'' (Some ''%.0f'') HU_FLAG_SEMI_STATIC CvLookup kEnableDisable,
      row ''input.transfer.trim.high'' (ST_FLAG_RW OR ST_FLAG_STRING) 5 ''UPS.PowerConverter.Output.0xFFFF0053'' (Some ''%.0f'') HU_FLAG_SEMI_STATIC CvNumber [],
      row ''input.sensitivity'' (ST_FLAG_RW OR ST_FLAG_STRING) 10 ''UPS.PowerConverter.Output.0xFFFF004C'' (Some ''%s'') HU_FLAG_SEMI_STATIC CvLookup kMgeSensitivity,
      row ''input.voltage.extended'' (ST_FLAG_RW OR ST_FLAG_STRING) 5 ''UPS.PowerConverter.Output.0xFFFF004B'' (Some ''%s'') HU_FLAG_SEMI_STATIC CvLookup kYesNo,
      row ''input.frequency.extended'' (ST_FLAG_RW OR ST_FLAG_STRING) 5 ''UPS.PowerConverter.Output.0xFFFF004E'' (Some ''%s'') HU_FLAG_SEMI_STATIC CvLookup kYesNo,
      row ''input.bypass.voltage'' 0 0 ''UPS.PowerConverter.Input.[2].Voltage'' (Some ''%.1f'') HU_FLAG_QUICK_POLL CvNumber [],
      row ''input.bypass.L1-N.voltage'' 0 0 ''UPS.PowerConverter.Input.[2].0xFFFF0010.[1].Voltage'' (Some ''%.1f'') 0 CvNumber [],
      row ''input.bypass.L2-N.voltage'' 0 0 ''UPS.PowerConverter.Input.[2].0xFFFF0010.[2].Voltage'' (Some ''%.1f'') 0 CvNumber [],
      row ''input.bypass.L3-N.voltage'' 0 0 ''UPS.PowerConverter.Input.[2].0xFFFF0010.[3].Voltage'' (Some ''%.1f'') 0 CvNumber [],
      row ''input.bypass.L1-L2.voltage'' 0 0 ''UPS.PowerConverter.Input.[2].0xFFFF0010.[12].Voltage'' (Some ''%.1f'') 0 CvNumber []]"

definition mge_rows_4 :: "bool \<Rightarrow> hid_info list" where
  "mge_rows_4 unmapped =
    [row ''input.bypass.L2-L3.voltage'' 0 0 ''UPS.PowerConverter.Input.[2].0xFFFF0010.[23].Voltage'' (Some ''%.1f'') 0 CvNumber [],
      row ''input.bypass.L3-L1.voltage'' 0 0 ''UPS.PowerConverter.Input.[2].0xFFFF0010.[31].Voltage'' (Some ''%.1f'') 0 CvNumber [],
      row ''input.bypass.voltage.nominal'' 0 0 ''UPS.Flow.[2].ConfigVoltage'' (Some ''%.0f'') HU_FLAG_STATIC CvNumber [],
      row ''input.bypass.current'' 0 0 ''UPS.PowerConverter.Input.[2].Current'' (Some ''%.2f'') 0 CvNumber [],
      row ''input.bypass.L1.current'' 0 0 ''UPS.PowerConverter.Input.[2].0xFFFF0010.[1].Current'' (Some ''%.1f'') 0 CvNumber [],
      row ''input.bypass.L2.current'' 0 0 ''UPS.PowerConverter.Input.[2].0xFFFF0010.[2].Current'' (Some ''%.1f'') 0 CvNumber [],
      row ''input.bypass.L3.current'' 0 0 ''UPS.PowerConverter.Input.[2].0xFFFF0010.[3].Current'' (Some ''%.1f'') 0 CvNumber [],
      row ''input.bypass.current.nominal'' 0 0 ''UPS.Flow.[2].ConfigCurrent'' (Some ''%.2f'') HU_FLAG_STATIC CvNumber [],
      row ''input.bypass.frequency'' 0 0 ''UPS.PowerConverter.Input.[2].Frequency'' (Some ''%.1f'') HU_FLAG_QUICK_POLL CvNumber [],
      row ''input.bypass.frequency.nominal'' 0 0 ''UPS.Flow.[2].ConfigFrequency'' (Some ''%.0f'') HU_FLAG_STATIC CvNumber [],
      row ''input.bypass.switchable'' (ST_FLAG_RW OR ST_FLAG_STRING) 8 ''UPS.PowerConverter.Input.[2].Switchable'' (Some ''%.0f'') HU_FLAG_SEMI_STATIC CvLookup kEnableDisable,
      row ''output.voltage'' 0 0 ''UPS.PowerConverter.Output.Voltage'' (Some ''%.1f'') 0 CvNumber [],
      row ''output.L1-N.voltage'' 0 0 ''UPS.PowerConverter.Output.0xFFFF0010.[1].Voltage'' (Some ''%.1f'') 0 CvNumber [],
      row ''output.L2-N.voltage'' 0 0 ''UPS.PowerConverter.Output.0xFFFF0010.[2].Voltage'' (Some ''%.1f'') 0 CvNumber [],
      row ''output.L3-N.voltage'' 0 0 ''UPS.PowerConverter.Output.0xFFFF0010.[3].Voltage'' (Some ''%.1f'') 0 CvNumber [],
      row ''output.L1-L2.voltage'' 0 0 ''UPS.PowerConverter.Output.0xFFFF0010.[12].Voltage'' (Some ''%.1f'') 0 CvNumber [],
      row ''output.L2-L3.voltage'' 0 0 ''UPS.PowerConverter.Output.0xFFFF0010.[23].Voltage'' (Some ''%.1f'') 0 CvNumber [],
      row ''output.L3-L1.voltage'' 0 0 ''UPS.PowerConverter.Output.0xFFFF0010.[31].Voltage'' (Some ''%.1f'') 0 CvNumber [],
      row ''output.voltage.nominal'' (ST_FLAG_RW OR ST_FLAG_STRING) 3 ''UPS.Flow.[4].ConfigVoltage'' (Some ''%.0f'') (HU_FLAG_SEMI_STATIC OR HU_FLAG_ENUM) CvNominalVoltage kNominalOutputVoltage,
      row ''output.current'' 0 0 ''UPS.PowerConverter.Output.Current'' (Some ''%.2f'') 0 CvNumber [],
      row ''output.L1.current'' 0 0 ''UPS.PowerConverter.Output.0xFFFF0010.[1].Current'' (Some ''%.1f'') 0 CvNumber [],
      row ''output.L2.current'' 0 0 ''UPS.PowerConverter.Output.0xFFFF0010.[2].Current'' (Some ''%.1f'') 0 CvNumber [],
      row ''output.L3.current'' 0 0 ''UPS.PowerConverter.Output.0xFFFF0010.[3].Current'' (Some ''%.1f'') 0 CvNumber [],
      row ''output.current.nominal'' 0 0 ''UPS.Flow.[4].ConfigCurrent'' (Some ''%.2f'') 0 CvNumber [],
      row ''output.frequency'' 0 0 ''UPS.PowerConverter.Output.Frequency'' (Some ''%.1f'') 0 CvNumber [],
      row ''output.frequency.nominal'' 0 0 ''UPS.Flow.[4].ConfigFrequency'' (Some ''%.0f'') HU_FLAG_STATIC CvNumber [],
      row ''output.powerfactor'' 0 0 ''UPS.PowerConverter.Output.0xFFFF0069'' (Some ''%s'') 0 CvMgePowerFactor [],
      row ''outlet.id'' 0 0 ''UPS.OutletSystem.Outlet.[1].OutletID'' (Some ''%.0f'') HU_FLAG_STATIC CvNumber [],
      row ''outlet.desc'' (ST_FLAG_RW OR ST_FLAG_STRING) 20 ''UPS.OutletSystem.Outlet.[1].OutletID'' (Some ''Main Outlet'') HU_FLAG_ABSENT CvNumber [],
      row ''outlet.switchable'' 0 0 ''UPS.OutletSystem.Outlet.[1].PresentStatus.Switchable'' (Some ''%s'') HU_FLAG_STATIC CvLookup kYesNo,
      row ''outlet.power'' (ST_FLAG_RW OR ST_FLAG_STRING) 6 ''UPS.OutletSystem.Outlet.[1].ConfigApparentPower'' (Some ''%s'') (HU_FLAG_SEMI_STATIC OR HU_FLAG_ENUM) CvPegasusThreshold kPegasusThreshold,
      row ''outlet.power'' 0 0 ''UPS.OutletSystem.Outlet.[1].ApparentPower'' (Some ''%.0f'') 0 CvNumber [],
      row ''outlet.realpower'' 0 0 ''UPS.OutletSystem.Outlet.[1].ActivePower'' (Some ''%.0f'') 0 CvNumber [],
      row ''outlet.current'' 0 0 ''UPS.OutletSystem.Outlet.[1].Current'' (Some ''%.2f'') 0 CvNumber [],
      row ''outlet.powerfactor'' 0 0 ''UPS.OutletSystem.Outlet.[1].0xFFFF0069'' (Some ''%.2f'') 0 CvNumber [],
      row ''outlet.1.id'' 0 0 ''UPS.OutletSystem.Outlet.[2].OutletID'' (Some ''%.0f'') HU_FLAG_STATIC CvNumber [],
      row ''outlet.1.desc'' (ST_FLAG_RW OR ST_FLAG_STRING) 20 ''UPS.OutletSystem.Outlet.[2].OutletID'' (Some ''PowerShare Outlet 1'') HU_FLAG_ABSENT CvNumber [],
      row ''outlet.1.switchable'' 0 0 ''UPS.OutletSystem.Outlet.[2].PresentStatus.Switchable'' (Some ''%s'') HU_FLAG_STATIC CvLookup kYesNo,
      row ''outlet.1.status'' 0 0 ''UPS.OutletSystem.Outlet.[2].PresentStatus.SwitchOn/Off'' (Some ''%s'') 0 CvLookup kOnOff,
      row ''outlet.1.protect.status'' 0 0 ''UPS.OutletSystem.Outlet.[2].0xFFFF00E9'' (Some ''%s'') 0 CvLookup kOutletProtection,
      row ''outlet.1.designator'' 0 0 ''UPS.OutletSystem.Outlet.[2].0xFFFF00BA'' None HU_FLAG_STATIC CvStringId [],
      row ''outlet.1.status'' 0 0 ''UPS.PowerSummary.PresentStatus.ACPresent'' (Some ''%s'') 0 CvLookup kOnOff,
      row ''outlet.1.autoswitch.charge.low'' (ST_FLAG_RW OR ST_FLAG_STRING) 3 ''UPS.OutletSystem.Outlet.[2].RemainingCapacityLimit'' (Some ''%.0f'') HU_FLAG_SEMI_STATIC CvNumber [],
      row ''outlet.1.delay.shutdown'' (ST_FLAG_RW OR ST_FLAG_STRING) 5 ''UPS.OutletSystem.Outlet.[2].0xFFFF005D'' (Some ''%.0f'') HU_FLAG_SEMI_STATIC CvNumber [],
      row ''outlet.1.delay.start'' (ST_FLAG_RW OR ST_FLAG_STRING) 5 ''UPS.OutletSystem.Outlet.[2].0xFFFF005E'' (Some ''%.0f'') HU_FLAG_SEMI_STATIC CvNumber [],
      row ''outlet.1.power'' 0 0 ''UPS.OutletSystem.Outlet.[2].ApparentPower'' (Some ''%.0f'') 0 CvNumber []]"

definition mge_rows_5 :: "bool \<Rightarrow> hid_info list" where
  "mge_rows_5 unmapped =
    [row ''outlet.1.realpower'' 0 0 ''UPS.OutletSystem.Outlet.[2].ActivePower'' (Some ''%.0f'') 0 CvNumber [],
      row ''outlet.1.current'' 0 0 ''UPS.OutletSystem.Outlet.[2].Current'' (Some ''%.2f'') 0 CvNumber [],
      row ''outlet.1.powerfactor'' 0 0 ''UPS.OutletSystem.Outlet.[2].0xFFFF0069'' (Some ''%.2f'') 0 CvNumber [],
      row ''outlet.1.ecocontrol'' 0 0 ''UPS.OutletSystem.Outlet.[2].0xFFFF0085'' (Some ''%s'') HU_FLAG_SEMI_STATIC CvLookup kOutletEco,
      row ''outlet.2.id'' 0 0 ''UPS.OutletSystem.Outlet.[3].OutletID'' (Some ''%.0f'') HU_FLAG_STATIC CvNumber [],
      row ''outlet.2.desc'' (ST_FLAG_RW OR ST_FLAG_STRING) 20 ''UPS.OutletSystem.Outlet.[3].OutletID'' (Some ''PowerShare Outlet 2'') HU_FLAG_ABSENT CvNumber [],
      row ''outlet.2.switchable'' (ST_FLAG_RW OR ST_FLAG_STRING) 3 ''UPS.OutletSystem.Outlet.[3].PresentStatus.Switchable'' (Some ''%s'') HU_FLAG_SEMI_STATIC CvPegasusYesNo kYesNo,
      row ''outlet.2.switchable'' 0 0 ''UPS.OutletSystem.Outlet.[3].PresentStatus.Switchable'' (Some ''%s'') 0 CvLookup kYesNo,
      row ''outlet.2.status'' 0 0 ''UPS.OutletSystem.Outlet.[3].PresentStatus.SwitchOn/Off'' (Some ''%s'') 0 CvLookup kOnOff,
      row ''outlet.2.protect.status'' 0 0 ''UPS.OutletSystem.Outlet.[3].0xFFFF00E9'' (Some ''%s'') 0 CvLookup kOutletProtection,
      row ''outlet.2.autoswitch.charge.low'' (ST_FLAG_RW OR ST_FLAG_STRING) 3 ''UPS.OutletSystem.Outlet.[3].RemainingCapacityLimit'' (Some ''%.0f'') HU_FLAG_SEMI_STATIC CvNumber [],
      row ''outlet.2.delay.shutdown'' (ST_FLAG_RW OR ST_FLAG_STRING) 5 ''UPS.OutletSystem.Outlet.[3].0xFFFF005D'' (Some ''%.0f'') HU_FLAG_SEMI_STATIC CvNumber [],
      row ''outlet.2.delay.start'' (ST_FLAG_RW OR ST_FLAG_STRING) 5 ''UPS.OutletSystem.Outlet.[3].0xFFFF005E'' (Some ''%.0f'') HU_FLAG_SEMI_STATIC CvNumber [],
      row ''outlet.2.power'' 0 0 ''UPS.OutletSystem.Outlet.[3].ApparentPower'' (Some ''%.0f'') 0 CvNumber [],
      row ''outlet.2.realpower'' 0 0 ''UPS.OutletSystem.Outlet.[3].ActivePower'' (Some ''%.0f'') 0 CvNumber [],
      row ''outlet.2.current'' 0 0 ''UPS.OutletSystem.Outlet.[3].Current'' (Some ''%.2f'') 0 CvNumber [],
      row ''outlet.2.powerfactor'' 0 0 ''UPS.OutletSystem.Outlet.[3].0xFFFF0069'' (Some ''%.2f'') 0 CvNumber [],
      row ''outlet.2.ecocontrol'' 0 0 ''UPS.OutletSystem.Outlet.[3].0xFFFF0085'' (Some ''%s'') HU_FLAG_SEMI_STATIC CvLookup kOutletEco,
      row ''outlet.3.id'' 0 0 ''UPS.OutletSystem.Outlet.[4].OutletID'' (Some ''%.0f'') HU_FLAG_STATIC CvNumber [],
      row ''outlet.3.desc'' (ST_FLAG_RW OR ST_FLAG_STRING) 20 ''UPS.OutletSystem.Outlet.[4].OutletID'' (Some ''PowerShare Outlet 2'') HU_FLAG_ABSENT CvNumber [],
      row ''outlet.3.switchable'' (ST_FLAG_RW OR ST_FLAG_STRING) 3 ''UPS.OutletSystem.Outlet.[4].PresentStatus.Switchable'' (Some ''%s'') HU_FLAG_SEMI_STATIC CvPegasusYesNo kYesNo,
      row ''outlet.3.switchable'' 0 0 ''UPS.OutletSystem.Outlet.[4].PresentStatus.Switchable'' (Some ''%s'') 0 CvLookup kYesNo,
      row ''outlet.3.status'' 0 0 ''UPS.OutletSystem.Outlet.[4].PresentStatus.SwitchOn/Off'' (Some ''%s'') 0 CvLookup kOnOff,
      row ''outlet.3.protect.status'' 0 0 ''UPS.OutletSystem.Outlet.[4].0xFFFF00E9'' (Some ''%s'') 0 CvLookup kOutletProtection,
      row ''outlet.3.autoswitch.charge.low'' (ST_FLAG_RW OR ST_FLAG_STRING) 3 ''UPS.OutletSystem.Outlet.[4].RemainingCapacityLimit'' (Some ''%.0f'') HU_FLAG_SEMI_STATIC CvNumber [],
      row ''outlet.3.delay.shutdown'' (ST_FLAG_RW OR ST_FLAG_STRING) 5 ''UPS.OutletSystem.Outlet.[4].0xFFFF005D'' (Some ''%.0f'') HU_FLAG_SEMI_STATIC CvNumber [],
      row ''outlet.3.delay.start'' (ST_FLAG_RW OR ST_FLAG_STRING) 5 ''UPS.OutletSystem.Outlet.[4].0xFFFF005E'' (Some ''%.0f'') HU_FLAG_SEMI_STATIC CvNumber [],
      row ''outlet.3.power'' 0 0 ''UPS.OutletSystem.Outlet.[4].ApparentPower'' (Some ''%.0f'') 0 CvNumber [],
      row ''outlet.3.realpower'' 0 0 ''UPS.OutletSystem.Outlet.[4].ActivePower'' (Some ''%.0f'') 0 CvNumber [],
      row ''outlet.3.current'' 0 0 ''UPS.OutletSystem.Outlet.[4].Current'' (Some ''%.2f'') 0 CvNumber [],
      row ''outlet.3.powerfactor'' 0 0 ''UPS.OutletSystem.Outlet.[4].0xFFFF0069'' (Some ''%.2f'') 0 CvNumber [],
      row ''outlet.3.ecocontrol'' 0 0 ''UPS.OutletSystem.Outlet.[4].0xFFFF0085'' (Some ''%s'') HU_FLAG_SEMI_STATIC CvLookup kOutletEco,
      row ''test.battery.start.quick'' 0 0 ''UPS.BatterySystem.Battery.Test'' (Some ''1'') HU_TYPE_CMD CvNumber [],
      row ''test.battery.start.deep'' 0 0 ''UPS.BatterySystem.Battery.Test'' (Some ''2'') HU_TYPE_CMD CvNumber [],
      row ''test.battery.stop'' 0 0 ''UPS.BatterySystem.Battery.Test'' (Some ''3'') HU_TYPE_CMD CvNumber [],
      row ''load.off.delay'' 0 0 ''UPS.PowerSummary.DelayBeforeShutdown'' (Some ''20'') HU_TYPE_CMD CvNumber [],
      row ''load.on.delay'' 0 0 ''UPS.PowerSummary.DelayBeforeStartup'' (Some ''30'') HU_TYPE_CMD CvNumber [],
      row ''shutdown.stop'' 0 0 ''UPS.PowerSummary.DelayBeforeShutdown'' (Some ''-1'') HU_TYPE_CMD CvNumber [],
      row ''shutdown.reboot'' 0 0 ''UPS.PowerSummary.DelayBeforeReboot'' (Some ''10'') HU_TYPE_CMD CvNumber [],
      row ''beeper.off'' 0 0 ''UPS.PowerSummary.AudibleAlarmControl'' (Some ''1'') HU_TYPE_CMD CvNumber [],
      row ''beeper.on'' 0 0 ''UPS.PowerSummary.AudibleAlarmControl'' (Some ''2'') HU_TYPE_CMD CvNumber [],
      row ''beeper.mute'' 0 0 ''UPS.BatterySystem.Battery.AudibleAlarmControl'' (Some ''3'') HU_TYPE_CMD CvNumber [],
      row ''beeper.mute'' 0 0 ''UPS.PowerSummary.AudibleAlarmControl'' (Some ''3'') HU_TYPE_CMD CvNumber [],
      row ''beeper.disable'' 0 0 ''UPS.BatterySystem.Battery.AudibleAlarmControl'' (Some ''1'') HU_TYPE_CMD CvNumber [],
      row ''beeper.disable'' 0 0 ''UPS.PowerSummary.AudibleAlarmControl'' (Some ''1'') HU_TYPE_CMD CvNumber [],
      row ''beeper.enable'' 0 0 ''UPS.BatterySystem.Battery.AudibleAlarmControl'' (Some ''2'') HU_TYPE_CMD CvNumber [],
      row ''beeper.enable'' 0 0 ''UPS.PowerSummary.AudibleAlarmControl'' (Some ''2'') HU_TYPE_CMD CvNumber []]"

definition mge_rows_6 :: "bool \<Rightarrow> hid_info list" where
  "mge_rows_6 unmapped =
    [row ''beeper.disable'' 0 0 ''UPS.AudibleAlarmControl'' (Some ''1'') HU_TYPE_CMD CvNumber [],
      row ''beeper.enable'' 0 0 ''UPS.AudibleAlarmControl'' (Some ''2'') HU_TYPE_CMD CvNumber [],
      row ''outlet.1.load.off'' 0 0 ''UPS.OutletSystem.Outlet.[2].DelayBeforeShutdown'' (Some ''0'') HU_TYPE_CMD CvNumber [],
      row ''outlet.1.load.on'' 0 0 ''UPS.OutletSystem.Outlet.[2].DelayBeforeStartup'' (Some ''0'') HU_TYPE_CMD CvNumber [],
      row ''outlet.2.load.off'' 0 0 ''UPS.OutletSystem.Outlet.[3].DelayBeforeShutdown'' (Some ''0'') HU_TYPE_CMD CvNumber [],
      row ''outlet.2.load.on'' 0 0 ''UPS.OutletSystem.Outlet.[3].DelayBeforeStartup'' (Some ''0'') HU_TYPE_CMD CvNumber [],
      row ''outlet.3.load.off'' 0 0 ''UPS.OutletSystem.Outlet.[4].DelayBeforeShutdown'' (Some ''0'') HU_TYPE_CMD CvNumber [],
      row ''outlet.3.load.on'' 0 0 ''UPS.OutletSystem.Outlet.[4].DelayBeforeStartup'' (Some ''0'') HU_TYPE_CMD CvNumber [],
      row ''experimental.ecomode.stop'' 0 0 ''UPS.PowerConverter.Input.[5].Switchable'' (Some ''0'') HU_TYPE_CMD CvNumber [],
      row ''experimental.ecomode.start'' 0 0 ''UPS.PowerConverter.Input.[5].Switchable'' (Some ''1'') HU_TYPE_CMD CvNumber [],
      row ''experimental.essmode.start'' 0 0 ''UPS.PowerConverter.Input.[5].Switchable'' (Some ''2'') HU_TYPE_CMD CvNumber [],
      row ''experimental.essmode.stop'' 0 0 ''UPS.PowerConverter.Input.[5].Switchable'' (Some ''0'') HU_TYPE_CMD CvNumber [],
      row ''bypass.start'' 0 0 ''UPS.PowerConverter.Input.[2].SwitchOnControl'' (Some ''1'') HU_TYPE_CMD CvNumber [],
      row ''bypass.stop'' 0 0 ''UPS.PowerConverter.Input.[2].SwitchOffControl'' (Some ''1'') HU_TYPE_CMD CvNumber []]"

definition mgeHid2Nut :: "bool \<Rightarrow> hid_info list" where
  "mgeHid2Nut unmapped = mge_rows_1 unmapped @ mge_rows_2 unmapped @ mge_rows_3 unmapped @ mge_rows_4 unmapped @ mge_rows_5 unmapped @ mge_rows_6 unmapped"

end
