(* ===== verification/NutTablesVendors.thy ===== *)
theory NutTablesVendors
  imports NutTable
begin

text \<open>
  The rows of \<open>apcHid2Nut\<close>, \<open>cpsHid2Nut\<close>, \<open>ecoflowHid2Nut\<close>, \<open>openupsHid2Nut\<close>, \<open>powercomHid2Nut\<close>, in the order of the source. \<open>unmapped\<close> is
  \<open>WITH_UNMAPPED_DATA_POINTS\<close>: the rows under it are in the table only in such a build. A table is
  split in parts of at most 150 source lines.
\<close>

unbundle bit_operations_syntax

section \<open>apc\<close>

definition apc_rows_1 :: "bool \<Rightarrow> hid_info list" where
  "apc_rows_1 unmapped =
    [row ''battery.charge'' 0 0 ''UPS.PowerSummary.RemainingCapacity'' (Some ''%.0f'') 0 CvNumber [],
      row ''battery.charge.low'' (ST_FLAG_RW OR ST_FLAG_STRING) 10 ''UPS.PowerSummary.RemainingCapacityLimit'' (Some ''%.0f'') HU_FLAG_SEMI_STATIC CvNumber [],
      row ''battery.charge.warning'' 0 0 ''UPS.PowerSummary.WarningCapacityLimit'' (Some ''%.0f'') 0 CvNumber [],
      row ''battery.runtime'' 0 0 ''UPS.Battery.RunTimeToEmpty'' (Some ''%.0f'') 0 CvNumber [],
      row ''battery.runtime'' 0 0 ''UPS.PowerSummary.RunTimeToEmpty'' (Some ''%.0f'') 0 CvNumber [],
      row ''battery.runtime.low'' (ST_FLAG_RW OR ST_FLAG_STRING) 10 ''UPS.Battery.RemainingTimeLimit'' (Some ''%.0f'') HU_FLAG_SEMI_STATIC CvNumber [],
      row ''battery.runtime.low'' (ST_FLAG_RW OR ST_FLAG_STRING) 10 ''UPS.PowerSummary.RemainingTimeLimit'' (Some ''%.0f'') HU_FLAG_SEMI_STATIC CvNumber [],
      row ''battery.voltage'' 0 0 ''UPS.Battery.Voltage'' (Some ''%.1f'') 0 CvNumber [],
      row ''battery.voltage'' 0 0 ''UPS.PowerSummary.Voltage'' (Some ''%.1f'') 0 CvNumber [],
      row ''battery.voltage.nominal'' 0 0 ''UPS.Battery.ConfigVoltage'' (Some ''%.1f'') 0 CvNumber [],
      row ''battery.voltage.nominal'' 0 0 ''UPS.PowerSummary.ConfigVoltage'' (Some ''%.1f'') 0 CvNumber [],
      row ''battery.temperature'' 0 0 ''UPS.Battery.Temperature'' (Some ''%s'') 0 CvKelvinCelsius [],
      row ''battery.type'' 0 0 ''UPS.PowerSummary.iDeviceChemistry'' (Some ''%s'') 0 CvStringId [],
      row ''battery.mfr.date'' (ST_FLAG_RW OR ST_FLAG_STRING) 10 ''UPS.Battery.ManufacturerDate'' (Some ''%s'') HU_FLAG_SEMI_STATIC CvBatteryDate [],
      row ''battery.mfr.date'' 0 0 ''UPS.PowerSummary.APCBattReplaceDate'' (Some ''%s'') 0 CvApcDate [],
      row ''battery.date'' 0 0 ''UPS.Battery.APCBattReplaceDate'' (Some ''%s'') 0 CvApcDate [],
      row ''ups.load'' 0 0 ''UPS.Output.PercentLoad'' (Some ''%.1f'') 0 CvNumber [],
      row ''ups.load'' 0 0 ''UPS.PowerConverter.PercentLoad'' (Some ''%.0f'') 0 CvNumber [],
      row ''ups.timer.start'' 0 0 ''UPS.PowerSummary.DelayBeforeStartup'' (Some ''%.0f'') HU_FLAG_QUICK_POLL CvNumber [],
      row ''ups.timer.shutdown'' 0 0 ''UPS.PowerSummary.DelayBeforeShutdown'' (Some ''%.0f'') HU_FLAG_QUICK_POLL CvNumber [],
      row ''ups.timer.reboot'' 0 0 ''UPS.PowerSummary.DelayBeforeReboot'' (Some ''%.0f'') HU_FLAG_QUICK_POLL CvNumber [],
      row ''ups.timer.start'' 0 0 ''UPS.Output.DelayBeforeStartup'' (Some ''%.0f'') HU_FLAG_QUICK_POLL CvNumber [],
      row ''ups.timer.shutdown'' 0 0 ''UPS.Output.DelayBeforeShutdown'' (Some ''%.0f'') HU_FLAG_QUICK_POLL CvNumber [],
      row ''ups.timer.reboot'' 0 0 ''UPS.Output.DelayBeforeReboot'' (Some ''%.0f'') HU_FLAG_QUICK_POLL CvNumber [],
      row ''ups.timer.start'' 0 0 ''UPS.0xFF860005.0xFF86007E'' (Some ''%.0f'') HU_FLAG_QUICK_POLL CvNumber [],
      row ''ups.timer.shutdown'' 0 0 ''UPS.0xFF860005.0xFF86007D'' (Some ''%.0f'') HU_FLAG_QUICK_POLL CvNumber [],
      row ''ups.timer.reboot'' 0 0 ''UPS.0xFF860005.0xFF86007C'' (Some ''%.0f'') HU_FLAG_QUICK_POLL CvNumber [],
      row ''ups.test.result'' 0 0 ''UPS.Battery.Test'' (Some ''%s'') 0 CvLookup kTestRead,
      row ''ups.beeper.status'' 0 0 ''UPS.PowerSummary.AudibleAlarmControl'' (Some ''%s'') 0 CvLookup kBeeperInfo,
      row ''ups.mfr.date'' 0 0 ''UPS.ManufacturerDate'' (Some ''%s'') 0 CvBatteryDate [],
      row ''ups.mfr.date'' 0 0 ''UPS.PowerSummary.ManufacturerDate'' (Some ''%s'') 0 CvBatteryDate [],
      row ''ups.realpower.nominal'' 0 0 ''UPS.PowerConverter.ConfigActivePower'' (Some ''%.0f'') 0 CvNumber [],
      row ''ups.realpower.nominal'' 0 0 ''UPS.Output.ConfigActivePower'' (Some ''%.0f'') 0 CvNumber [],
      row ''BOOL'' 0 0 ''UPS.PowerSummary.PresentStatus.ACPresent'' None HU_FLAG_QUICK_POLL CvLookup kOnlineInfo,
      row ''BOOL'' 0 0 ''UPS.PowerSummary.PresentStatus.Discharging'' None HU_FLAG_QUICK_POLL CvLookup kDischargingInfo,
      row ''BOOL'' 0 0 ''UPS.PowerSummary.PresentStatus.Charging'' None HU_FLAG_QUICK_POLL CvLookup kChargingInfo,
      row ''BOOL'' 0 0 ''UPS.PowerSummary.PresentStatus.ShutdownImminent'' None 0 CvLookup kShutdownimmInfo,
      row ''BOOL'' 0 0 ''UPS.PowerSummary.PresentStatus.BelowRemainingCapacityLimit'' None HU_FLAG_QUICK_POLL CvLookup kLowbattInfo,
      row ''BOOL'' 0 0 ''UPS.PowerSummary.PresentStatus.Overload'' None 0 CvLookup kOverloadInfo,
      row ''BOOL'' 0 0 ''UPS.PowerSummary.PresentStatus.NeedReplacement'' None 0 CvLookup kReplacebattInfo,
      row ''BOOL'' 0 0 ''UPS.PowerSummary.PresentStatus.RemainingTimeLimitExpired'' None 0 CvLookup kTimelimitexpiredInfo,
      row ''BOOL'' 0 0 ''UPS.PowerSummary.PresentStatus.BatteryPresent'' None 0 CvLookup kNobatteryInfo,
      row ''BOOL'' 0 0 ''UPS.PowerSummary.Charging'' None HU_FLAG_QUICK_POLL CvLookup kChargingInfo]"

definition apc_rows_2 :: "bool \<Rightarrow> hid_info list" where
  "apc_rows_2 unmapped =
    [row ''BOOL'' 0 0 ''UPS.PowerSummary.Discharging'' None HU_FLAG_QUICK_POLL CvLookup kDischargingInfo,
      row ''BOOL'' 0 0 ''UPS.PowerSummary.ACPresent'' None HU_FLAG_QUICK_POLL CvLookup kOnlineInfo,
      row ''BOOL'' 0 0 ''UPS.PowerSummary.BelowRemainingCapacityLimit'' None HU_FLAG_QUICK_POLL CvLookup kLowbattInfo,
      row ''BOOL'' 0 0 ''UPS.PowerSummary.ShutdownImminent'' None 0 CvLookup kShutdownimmInfo,
      row ''BOOL'' 0 0 ''UPS.PowerSummary.0xFF860060'' None HU_FLAG_QUICK_POLL CvLookup kApcStatusFlag,
      row ''BOOL'' 0 0 ''UPS.Input.0xFF860052'' None 0 CvLookup kApcLineFailCauseVrange,
      row ''BOOL'' 0 0 ''UPS.Input.0xFF860052'' None 0 CvLookup kApcLineFailCauseFrange,
      row ''input.voltage'' 0 0 ''UPS.Input.Voltage'' (Some ''%.1f'') 0 CvNumber [],
      row ''input.voltage.nominal'' 0 0 ''UPS.Input.ConfigVoltage'' (Some ''%.0f'') 0 CvNumber [],
      row ''input.transfer.low'' (ST_FLAG_RW OR ST_FLAG_STRING) 10 ''UPS.Output.LowVoltageTransfer'' (Some ''%.0f'') HU_FLAG_SEMI_STATIC CvNumber [],
      row ''input.transfer.high'' (ST_FLAG_RW OR ST_FLAG_STRING) 10 ''UPS.Output.HighVoltageTransfer'' (Some ''%.0f'') HU_FLAG_SEMI_STATIC CvNumber [],
      row ''input.transfer.low'' (ST_FLAG_RW OR ST_FLAG_STRING) 10 ''UPS.Input.LowVoltageTransfer'' (Some ''%.0f'') HU_FLAG_SEMI_STATIC CvNumber [],
      row ''input.transfer.high'' (ST_FLAG_RW OR ST_FLAG_STRING) 10 ''UPS.Input.HighVoltageTransfer'' (Some ''%.0f'') HU_FLAG_SEMI_STATIC CvNumber [],
      row ''input.sensitivity'' (ST_FLAG_RW OR ST_FLAG_STRING) 10 ''UPS.Input.0xFF860061'' (Some ''%s'') HU_FLAG_SEMI_STATIC CvLookup kApcSensitivity,
      row ''output.voltage'' 0 0 ''UPS.Output.Voltage'' (Some ''%.1f'') 0 CvNumber [],
      row ''output.voltage.nominal'' 0 0 ''UPS.Output.ConfigVoltage'' (Some ''%.1f'') 0 CvNumber [],
      row ''output.current'' 0 0 ''UPS.Output.Current'' (Some ''%.2f'') 0 CvNumber [],
      row ''output.frequency'' 0 0 ''UPS.Output.Frequency'' (Some ''%.1f'') 0 CvNumber [],
      row ''ambient.temperature'' 0 0 ''UPS.0xFF860006.0xFF860007.Temperature'' (Some ''%s'') 0 CvKelvinCelsius [],
      row ''ambient.humidity'' 0 0 ''UPS.0xFF860006.0xFF860007.Humidity'' (Some ''%.1f'') 0 CvNumber [],
      row ''test.battery.start.quick'' 0 0 ''UPS.BatterySystem.Battery.Test'' (Some ''1'') HU_TYPE_CMD CvNumber [],
      row ''test.battery.start.quick'' 0 0 ''UPS.Battery.Test'' (Some ''1'') HU_TYPE_CMD CvNumber [],
      row ''test.battery.start.deep'' 0 0 ''UPS.BatterySystem.Battery.Test'' (Some ''2'') HU_TYPE_CMD CvNumber [],
      row ''test.battery.start.deep'' 0 0 ''UPS.Battery.Test'' (Some ''2'') HU_TYPE_CMD CvNumber [],
      row ''test.battery.stop'' 0 0 ''UPS.BatterySystem.Battery.Test'' (Some ''3'') HU_TYPE_CMD CvNumber [],
      row ''test.battery.stop'' 0 0 ''UPS.Battery.Test'' (Some ''3'') HU_TYPE_CMD CvNumber [],
      row ''test.panel.start'' 0 0 ''UPS.0xFF860072'' (Some ''1'') HU_TYPE_CMD CvNumber [],
      row ''test.panel.stop'' 0 0 ''UPS.0xFF860072'' (Some ''0'') HU_TYPE_CMD CvNumber [],
      row ''test.panel.start'' 0 0 ''UPS.PowerSummary.0xFF860072'' (Some ''1'') HU_TYPE_CMD CvNumber [],
      row ''test.panel.stop'' 0 0 ''UPS.PowerSummary.0xFF860072'' (Some ''0'') HU_TYPE_CMD CvNumber [],
      row ''load.off.delay'' 0 0 ''UPS.PowerSummary.DelayBeforeShutdown'' (Some ''20'') HU_TYPE_CMD CvNumber [],
      row ''load.on.delay'' 0 0 ''UPS.PowerSummary.DelayBeforeStartup'' (Some ''30'') HU_TYPE_CMD CvNumber [],
      row ''shutdown.stop'' 0 0 ''UPS.PowerSummary.DelayBeforeShutdown'' (Some ''-1'') HU_TYPE_CMD CvNumber [],
      row ''shutdown.reboot'' 0 0 ''UPS.PowerSummary.DelayBeforeReboot'' (Some ''10'') HU_TYPE_CMD CvNumber [],
      row ''load.off.delay'' 0 0 ''UPS.Output.DelayBeforeShutdown'' (Some ''20'') HU_TYPE_CMD CvNumber [],
      row ''load.on.delay'' 0 0 ''UPS.Output.DelayBeforeStartup'' (Some ''30'') HU_TYPE_CMD CvNumber [],
      row ''shutdown.stop'' 0 0 ''UPS.Output.DelayBeforeShutdown'' (Some ''-1'') HU_TYPE_CMD CvNumber [],
      row ''shutdown.reboot'' 0 0 ''UPS.Output.DelayBeforeReboot'' (Some ''10'') HU_TYPE_CMD CvNumber [],
      row ''load.off.delay'' 0 0 ''UPS.0xFF860005.0xFF86007D'' (Some ''20'') HU_TYPE_CMD CvNumber [],
      row ''load.on.delay'' 0 0 ''UPS.0xFF860005.0xFF86007E'' (Some ''30'') HU_TYPE_CMD CvNumber [],
      row ''shutdown.stop'' 0 0 ''UPS.0xFF860005.0xFF86007D'' (Some ''-1'') HU_TYPE_CMD CvNumber [],
      row ''shutdown.reboot'' 0 0 ''UPS.0xFF860005.0xFF86007C'' (Some ''10'') HU_TYPE_CMD CvNumber [],
      row ''shutdown.return'' 0 0 ''UPS.Output.0xFF86007C'' (Some ''1'') HU_TYPE_CMD CvNumber [],
      row ''beeper.on'' 0 0 ''UPS.PowerSummary.AudibleAlarmControl'' (Some ''2'') HU_TYPE_CMD CvNumber [],
      row ''beeper.off'' 0 0 ''UPS.PowerSummary.AudibleAlarmControl'' (Some ''3'') HU_TYPE_CMD CvNumber []]"

definition apc_rows_3 :: "bool \<Rightarrow> hid_info list" where
  "apc_rows_3 unmapped =
    [row ''beeper.enable'' 0 0 ''UPS.PowerSummary.AudibleAlarmControl'' (Some ''2'') HU_TYPE_CMD CvNumber [],
      row ''beeper.disable'' 0 0 ''UPS.PowerSummary.AudibleAlarmControl'' (Some ''1'') HU_TYPE_CMD CvNumber [],
      row ''beeper.mute'' 0 0 ''UPS.PowerSummary.AudibleAlarmControl'' (Some ''3'') HU_TYPE_CMD CvNumber []]"

definition apcHid2Nut :: "bool \<Rightarrow> hid_info list" where
  "apcHid2Nut unmapped = apc_rows_1 unmapped @ apc_rows_2 unmapped @ apc_rows_3 unmapped"

section \<open>cps\<close>

definition cps_rows_1 :: "bool \<Rightarrow> hid_info list" where
  "cps_rows_1 unmapped =
    (if unmapped then
     [row ''unmapped.ups.powersummary.rechargeable'' 0 0 ''UPS.PowerSummary.Rechargeable'' (Some ''%.0f'') 0 CvNumber [],
      row ''unmapped.ups.powersummary.capacitymode'' 0 0 ''UPS.PowerSummary.CapacityMode'' (Some ''%.0f'') 0 CvNumber [],
      row ''unmapped.ups.powersummary.designcapacity'' 0 0 ''UPS.PowerSummary.DesignCapacity'' (Some ''%.0f'') 0 CvNumber [],
      row ''unmapped.ups.powersummary.capacitygranularity1'' 0 0 ''UPS.PowerSummary.CapacityGranularity1'' (Some ''%.0f'') 0 CvNumber [],
      row ''unmapped.ups.powersummary.capacitygranularity2'' 0 0 ''UPS.PowerSummary.CapacityGranularity2'' (Some ''%.0f'') 0 CvNumber []] else []) @
    [row ''battery.type'' 0 0 ''UPS.PowerSummary.iDeviceChemistry'' (Some ''%s'') 0 CvStringId [],
      row ''battery.mfr.date'' (ST_FLAG_RW OR ST_FLAG_STRING) 10 ''UPS.Battery.ManufacturerDate'' (Some ''%s'') HU_FLAG_SEMI_STATIC CvBatteryDate [],
      row ''battery.mfr.date'' 0 0 ''UPS.PowerSummary.iOEMInformation'' (Some ''%s'') 0 CvStringId [],
      row ''battery.charge.warning'' 0 0 ''UPS.PowerSummary.WarningCapacityLimit'' (Some ''%.0f'') 0 CvNumber [],
      row ''battery.charge.low'' (ST_FLAG_RW OR ST_FLAG_STRING) 10 ''UPS.PowerSummary.RemainingCapacityLimit'' (Some ''%.0f'') HU_FLAG_SEMI_STATIC CvNumber [],
      row ''battery.charge'' 0 0 ''UPS.PowerSummary.RemainingCapacity'' (Some ''%s'') 0 CvCpsBattCharge [],
      row ''battery.runtime'' 0 0 ''UPS.PowerSummary.RunTimeToEmpty'' (Some ''%.0f'') 0 CvNumber [],
      row ''battery.runtime.low'' (ST_FLAG_RW OR ST_FLAG_STRING) 10 ''UPS.PowerSummary.RemainingTimeLimit'' (Some ''%.0f'') HU_FLAG_SEMI_STATIC CvNumber [],
      row ''battery.voltage.nominal'' 0 0 ''UPS.PowerSummary.ConfigVoltage'' (Some ''%.0f'') 0 CvNumber [],
      row ''battery.voltage'' 0 0 ''UPS.PowerSummary.Voltage'' (Some ''%s'') 0 CvCpsBattVolt [],
      row ''battery.status'' 0 0 ''UPS.PowerSummary.FullChargeCapacity'' (Some ''%s'') 0 CvCpsBattStatus [],
      row ''ups.load'' 0 0 ''UPS.Output.PercentLoad'' (Some ''%.0f'') 0 CvNumber [],
      row ''ups.beeper.status'' 0 0 ''UPS.PowerSummary.AudibleAlarmControl'' (Some ''%s'') 0 CvLookup kBeeperInfo,
      row ''ups.test.result'' 0 0 ''UPS.Output.Test'' (Some ''%s'') 0 CvLookup kTestRead,
      row ''ups.power'' 0 0 ''UPS.Output.ApparentPower'' (Some ''%.0f'') 0 CvNumber [],
      row ''ups.power.nominal'' 0 0 ''UPS.Output.ConfigApparentPower'' (Some ''%.0f'') 0 CvNumber [],
      row ''ups.realpower'' 0 0 ''UPS.Output.ActivePower'' (Some ''%.0f'') 0 CvNumber [],
      row ''ups.realpower.nominal'' 0 0 ''UPS.Output.ConfigActivePower'' (Some ''%.0f'') 0 CvNumber [],
      row ''ups.timer.start'' 0 0 ''UPS.Output.DelayBeforeStartup'' (Some ''%.0f'') HU_FLAG_QUICK_POLL CvNumber [],
      row ''ups.timer.shutdown'' 0 0 ''UPS.Output.DelayBeforeShutdown'' (Some ''%.0f'') HU_FLAG_QUICK_POLL CvNumber [],
      row ''ups.timer.reboot'' 0 0 ''UPS.Output.DelayBeforeReboot'' (Some ''%.0f'') HU_FLAG_QUICK_POLL CvNumber [],
      row ''ups.firmware'' 0 0 ''UPS.PowerSummary.0xFF0100D0'' (Some ''%s'') HU_FLAG_STATIC CvStringId [],
      row ''ups.temperature'' 0 0 ''UPS.PowerSummary.Temperature'' (Some ''%s'') 0 CvKelvinCelsius [],
      row ''BOOL'' 0 0 ''UPS.PowerSummary.PresentStatus.ACPresent'' None HU_FLAG_QUICK_POLL CvLookup kOnlineInfo,
      row ''BOOL'' 0 0 ''UPS.PowerSummary.PresentStatus.Charging'' None HU_FLAG_QUICK_POLL CvLookup kChargingInfo,
      row ''BOOL'' 0 0 ''UPS.PowerSummary.PresentStatus.Discharging'' None HU_FLAG_QUICK_POLL CvLookup kDischargingInfo,
      row ''BOOL'' 0 0 ''UPS.PowerSummary.PresentStatus.BelowRemainingCapacityLimit'' None HU_FLAG_QUICK_POLL CvLookup kLowbattInfo,
      row ''BOOL'' 0 0 ''UPS.PowerSummary.PresentStatus.FullyCharged'' None 0 CvLookup kFullychargedInfo,
      row ''BOOL'' 0 0 ''UPS.PowerSummary.PresentStatus.RemainingTimeLimitExpired'' None 0 CvLookup kTimelimitexpiredInfo,
      row ''BOOL'' 0 0 ''UPS.PowerSummary.PresentStatus.NeedReplacement'' None 0 CvLookup kReplacebattInfo,
      row ''BOOL'' 0 0 ''UPS.Output.Boost'' None 0 CvLookup kBoostInfo,
      row ''BOOL'' 0 0 ''UPS.Output.Overload'' None 0 CvLookup kOverloadInfo,
      row ''input.frequency'' 0 0 ''UPS.Input.Frequency'' (Some ''%.1f'') 0 CvCpsInputFreq [],
      row ''input.voltage.nominal'' 0 0 ''UPS.Input.ConfigVoltage'' (Some ''%.0f'') 0 CvNumber [],
      row ''input.voltage'' 0 0 ''UPS.Input.Voltage'' (Some ''%.1f'') 0 CvNumber [],
      row ''input.transfer.low'' (ST_FLAG_RW OR ST_FLAG_STRING) 10 ''UPS.Input.LowVoltageTransfer'' (Some ''%.0f'') HU_FLAG_SEMI_STATIC CvNumber [],
      row ''input.transfer.high'' (ST_FLAG_RW OR ST_FLAG_STRING) 10 ''UPS.Input.HighVoltageTransfer'' (Some ''%.0f'') HU_FLAG_SEMI_STATIC CvNumber [],
      row ''input.transfer.low'' (ST_FLAG_RW OR ST_FLAG_STRING) 10 ''UPS.Output.LowVoltageTransfer'' (Some ''%.0f'') HU_FLAG_SEMI_STATIC CvNumber []]"

definition cps_rows_2 :: "bool \<Rightarrow> hid_info list" where
  "cps_rows_2 unmapped =
    [row ''input.transfer.high'' (ST_FLAG_RW OR ST_FLAG_STRING) 10 ''UPS.Output.HighVoltageTransfer'' (Some ''%.0f'') HU_FLAG_SEMI_STATIC CvNumber [],
      row ''input.sensitivity'' (ST_FLAG_RW OR ST_FLAG_STRING) 0 ''UPS.Output.0xFF010043'' (Some ''%s'') (HU_FLAG_SEMI_STATIC OR HU_FLAG_ENUM) CvLookup kCpsSensitivity,
      row ''output.frequency'' 0 0 ''UPS.Output.Frequency'' (Some ''%.1f'') 0 CvCpsOutputFreq [],
      row ''output.voltage'' 0 0 ''UPS.Output.Voltage'' (Some ''%.1f'') 0 CvNumber [],
      row ''output.voltage.nominal'' 0 0 ''UPS.Output.ConfigVoltage'' (Some ''%.0f'') 0 CvNumber [],
      row ''test.battery.start.quick'' 0 0 ''UPS.Output.Test'' (Some ''1'') HU_TYPE_CMD CvNumber [],
      row ''test.battery.start.deep'' 0 0 ''UPS.Output.Test'' (Some ''2'') HU_TYPE_CMD CvNumber [],
      row ''test.battery.stop'' 0 0 ''UPS.Output.Test'' (Some ''3'') HU_TYPE_CMD CvNumber [],
      row ''load.off.delay'' 0 0 ''UPS.Output.DelayBeforeShutdown'' (Some ''60'') HU_TYPE_CMD CvNumber [],
      row ''load.on.delay'' 0 0 ''UPS.Output.DelayBeforeStartup'' (Some ''120'') HU_TYPE_CMD CvNumber [],
      row ''shutdown.stop'' 0 0 ''UPS.Output.DelayBeforeShutdown'' (Some ''-1'') HU_TYPE_CMD CvNumber [],
      row ''shutdown.reboot'' 0 0 ''UPS.Output.DelayBeforeReboot'' (Some ''10'') HU_TYPE_CMD CvNumber [],
      row ''beeper.on'' 0 0 ''UPS.PowerSummary.AudibleAlarmControl'' (Some ''2'') HU_TYPE_CMD CvNumber [],
      row ''beeper.off'' 0 0 ''UPS.PowerSummary.AudibleAlarmControl'' (Some ''3'') HU_TYPE_CMD CvNumber [],
      row ''beeper.enable'' 0 0 ''UPS.PowerSummary.AudibleAlarmControl'' (Some ''2'') HU_TYPE_CMD CvNumber [],
      row ''beeper.disable'' 0 0 ''UPS.PowerSummary.AudibleAlarmControl'' (Some ''1'') HU_TYPE_CMD CvNumber [],
      row ''beeper.mute'' 0 0 ''UPS.PowerSummary.AudibleAlarmControl'' (Some ''3'') HU_TYPE_CMD CvNumber []]"

definition cpsHid2Nut :: "bool \<Rightarrow> hid_info list" where
  "cpsHid2Nut unmapped = cps_rows_1 unmapped @ cps_rows_2 unmapped"

section \<open>ecoflow\<close>

definition ecoflowHid2Nut :: "bool \<Rightarrow> hid_info list" where
  "ecoflowHid2Nut unmapped =
    [row ''ups.beeper.status'' 0 0 ''UPS.PowerSummary.AudibleAlarmControl'' (Some ''%s'') HU_FLAG_QUICK_POLL CvLookup kBeeperInfo,
      row ''ups.power.nominal'' 0 0 ''UPS.Flow.[4].ConfigActivePower'' (Some ''%.0f'') HU_FLAG_STATIC CvNumber [],
      row ''battery.voltage.nominal'' 0 0 ''UPS.PowerSummary.ConfigVoltage'' (Some ''%.1f'') HU_FLAG_SEMI_STATIC CvNumber [],
      row ''ups.timer.reboot'' 0 0 ''UPS.OutletSystem.Outlet.DelayBeforeReboot'' (Some ''%.0f'') HU_FLAG_QUICK_POLL CvNumber [],
      row ''ups.timer.shutdown'' 0 0 ''UPS.OutletSystem.Outlet.DelayBeforeShutdown'' (Some ''%.0f'') HU_FLAG_QUICK_POLL CvNumber [],
      row ''battery.capacity.nominal'' 0 0 ''UPS.PowerSummary.DesignCapacity'' (Some ''%.0f'') HU_FLAG_SEMI_STATIC CvNumber [],
      row ''battery.capacity'' 0 0 ''UPS.PowerSummary.FullChargeCapacity'' (Some ''%.0f'') HU_FLAG_SEMI_STATIC CvNumber [],
      row ''battery.type'' 0 0 ''UPS.PowerSummary.iDeviceChemistry'' (Some ''%s'') HU_FLAG_STATIC CvStringId [],
      row ''experimental.ups.powersummary.ioeminformation'' 0 0 ''UPS.PowerSummary.iOEMInformation'' (Some ''%s'') HU_FLAG_STATIC CvStringId [],
      row ''ups.mfr.date'' 0 0 ''UPS.PowerSummary.ManufacturerDate'' (Some ''%s'') 0 CvBatteryDate [],
      row ''BOOL'' 0 0 ''UPS.PowerSummary.PresentStatus.ACPresent'' None HU_FLAG_QUICK_POLL CvLookup kOnlineInfo,
      row ''BOOL'' 0 0 ''UPS.PowerSummary.PresentStatus.BatteryPresent'' None HU_FLAG_QUICK_POLL CvLookup kNobatteryInfo,
      row ''BOOL'' 0 0 ''UPS.PowerSummary.PresentStatus.BelowRemainingCapacityLimit'' None HU_FLAG_QUICK_POLL CvLookup kLowbattInfo,
      row ''BOOL'' 0 0 ''UPS.PowerSummary.PresentStatus.CommunicationLost'' None HU_FLAG_QUICK_POLL CvLookup kCommfaultInfo,
      row ''BOOL'' 0 0 ''UPS.PowerSummary.PresentStatus.Charging'' None HU_FLAG_QUICK_POLL CvLookup kChargingInfo,
      row ''BOOL'' 0 0 ''UPS.PowerSummary.PresentStatus.Discharging'' None HU_FLAG_QUICK_POLL CvLookup kDischargingInfo,
      row ''BOOL'' 0 0 ''UPS.PowerSummary.PresentStatus.FullyCharged'' None HU_FLAG_QUICK_POLL CvLookup kFullychargedInfo,
      row ''BOOL'' 0 0 ''UPS.PowerSummary.PresentStatus.FullyDischarged'' None HU_FLAG_QUICK_POLL CvLookup kDepletedInfo,
      row ''BOOL'' 0 0 ''UPS.PowerSummary.PresentStatus.NeedReplacement'' None HU_FLAG_QUICK_POLL CvLookup kReplacebattInfo,
      row ''BOOL'' 0 0 ''UPS.PowerSummary.PresentStatus.Overload'' None HU_FLAG_QUICK_POLL CvLookup kOverloadInfo,
      row ''BOOL'' 0 0 ''UPS.PowerSummary.PresentStatus.RemainingTimeLimitExpired'' None HU_FLAG_QUICK_POLL CvLookup kTimelimitexpiredInfo,
      row ''BOOL'' 0 0 ''UPS.PowerSummary.PresentStatus.ShutdownImminent'' None HU_FLAG_QUICK_POLL CvLookup kShutdownimmInfo,
      row ''experimental.ups.powersummary.presentstatus.shutdownrequested'' 0 0 ''UPS.PowerSummary.PresentStatus.ShutdownRequested'' (Some ''%.0f'') 0 CvNumber [],
      row ''experimental.ups.powersummary.presentstatus.voltagenotregulated'' 0 0 ''UPS.PowerSummary.PresentStatus.VoltageNotRegulated'' (Some ''%.0f'') 0 CvNumber [],
      row ''experimental.ups.powersummary.rechargeable'' 0 0 ''UPS.PowerSummary.Rechargeable'' (Some ''%.0f'') 0 CvNumber [],
      row ''battery.charge'' 0 0 ''UPS.PowerSummary.RemainingCapacity'' (Some ''%.0f'') HU_FLAG_QUICK_POLL CvNumber [],
      row ''battery.charge.low'' (ST_FLAG_RW OR ST_FLAG_STRING) 5 ''UPS.PowerSummary.RemainingCapacityLimit'' (Some ''%.0f'') HU_FLAG_SEMI_STATIC CvNumber [],
      row ''battery.runtime.low'' 0 0 ''UPS.PowerSummary.RemainingTimeLimit'' (Some ''%.0f'') HU_FLAG_SEMI_STATIC CvNumber [],
      row ''battery.runtime'' 0 0 ''UPS.PowerSummary.RunTimeToEmpty'' (Some ''%.0f'') HU_FLAG_QUICK_POLL CvEcoflowRuntime [],
      row ''battery.voltage'' 0 0 ''UPS.PowerSummary.Voltage'' (Some ''%.1f'') HU_FLAG_QUICK_POLL CvNumber [],
      row ''battery.charge.warning'' 0 0 ''UPS.PowerSummary.WarningCapacityLimit'' (Some ''%.0f'') HU_FLAG_SEMI_STATIC CvNumber []] @
    (if unmapped then
     [row ''unmapped.ups.powersummary.averagetimetoempty'' 0 0 ''UPS.PowerSummary.AverageTimeToEmpty'' (Some ''%.0f'') 0 CvNumber [],
      row ''unmapped.ups.powersummary.averagetimetofull'' 0 0 ''UPS.PowerSummary.AverageTimeToFull'' (Some ''%.0f'') 0 CvNumber [],
      row ''unmapped.ups.powersummary.capacitygranularity1'' 0 0 ''UPS.PowerSummary.CapacityGranularity1'' (Some ''%.0f'') 0 CvNumber [],
      row ''unmapped.ups.powersummary.capacitygranularity2'' 0 0 ''UPS.PowerSummary.CapacityGranularity2'' (Some ''%.0f'') 0 CvNumber [],
      row ''unmapped.ups.powersummary.capacitymode'' 0 0 ''UPS.PowerSummary.CapacityMode'' (Some ''%.0f'') 0 CvNumber [],
      row ''unmapped.ups.powersummary.delaybeforereboot'' 0 0 ''UPS.PowerSummary.DelayBeforeReboot'' (Some ''%.0f'') 0 CvNumber [],
      row ''unmapped.ups.powersummary.delaybeforeshutdown'' 0 0 ''UPS.PowerSummary.DelayBeforeShutdown'' (Some ''%.0f'') 0 CvNumber [],
      row ''unmapped.ups.powersummary.idevicechemistry'' 0 0 ''UPS.PowerSummary.iDeviceChemistry'' (Some ''%.0f'') 0 CvNumber [],
      row ''unmapped.ups.powersummary.ioeminformation'' 0 0 ''UPS.PowerSummary.iOEMInformation'' (Some ''%.0f'') 0 CvNumber [],
      row ''unmapped.ups.powersummary.presentstatus.acpresent'' 0 0 ''UPS.PowerSummary.PresentStatus.ACPresent'' (Some ''%.0f'') 0 CvNumber [],
      row ''unmapped.ups.powersummary.presentstatus.batterypresent'' 0 0 ''UPS.PowerSummary.PresentStatus.BatteryPresent'' (Some ''%.0f'') 0 CvNumber [],
      row ''unmapped.ups.powersummary.presentstatus.belowremainingcapacitylimit'' 0 0 ''UPS.PowerSummary.PresentStatus.BelowRemainingCapacityLimit'' (Some ''%.0f'') 0 CvNumber [],
      row ''unmapped.ups.powersummary.presentstatus.charging'' 0 0 ''UPS.PowerSummary.PresentStatus.Charging'' (Some ''%.0f'') 0 CvNumber [],
      row ''unmapped.ups.powersummary.presentstatus.discharging'' 0 0 ''UPS.PowerSummary.PresentStatus.Discharging'' (Some ''%.0f'') 0 CvNumber [],
      row ''unmapped.ups.powersummary.presentstatus.fullycharged'' 0 0 ''UPS.PowerSummary.PresentStatus.FullyCharged'' (Some ''%.0f'') 0 CvNumber [],
      row ''unmapped.ups.powersummary.presentstatus.fullydischarged'' 0 0 ''UPS.PowerSummary.PresentStatus.FullyDischarged'' (Some ''%.0f'') 0 CvNumber [],
      row ''unmapped.ups.powersummary.presentstatus.needreplacement'' 0 0 ''UPS.PowerSummary.PresentStatus.NeedReplacement'' (Some ''%.0f'') 0 CvNumber [],
      row ''unmapped.ups.powersummary.presentstatus.remainingtimelimitexpired'' 0 0 ''UPS.PowerSummary.PresentStatus.RemainingTimeLimitExpired'' (Some ''%.0f'') 0 CvNumber [],
      row ''unmapped.ups.powersummary.presentstatus.shutdownimminent'' 0 0 ''UPS.PowerSummary.PresentStatus.ShutdownImminent'' (Some ''%.0f'') 0 CvNumber []] else [])"

section \<open>openups\<close>

definition openupsHid2Nut :: "bool \<Rightarrow> hid_info list" where
  "openupsHid2Nut unmapped =
    [row ''ups.serial'' 0 0 ''UPS.PowerSummary.iSerialNumber'' (Some ''%s'') 0 CvStringId [],
      row ''battery.type'' 0 0 ''UPS.PowerSummary.iDeviceChemistry'' (Some ''%s'') HU_FLAG_STATIC CvStringId [],
      row ''battery.mfr.date'' 0 0 ''UPS.PowerSummary.iOEMInformation'' (Some ''%s'') HU_FLAG_STATIC CvStringId [],
      row ''battery.voltage'' 0 0 ''UPS.PowerSummary.Voltage'' (Some ''%.2f'') HU_FLAG_QUICK_POLL CvNumber [],
      row ''battery.current'' 0 0 ''UPS.PowerSummary.Current'' (Some ''%.3f'') HU_FLAG_QUICK_POLL CvNumber [],
      row ''battery.capacity'' 0 0 ''UPS.PowerSummary.DesignCapacity'' (Some ''%.0f'') HU_FLAG_STATIC CvNumber [],
      row ''battery.charge'' 0 0 ''UPS.PowerSummary.RemainingCapacity'' (Some ''%.0f'') HU_FLAG_QUICK_POLL CvNumber [],
      row ''battery.charge.low'' 0 0 ''UPS.PowerSummary.RemainingCapacityLimit'' (Some ''%.0f'') HU_FLAG_QUICK_POLL CvNumber [],
      row ''battery.charge.warning'' 0 0 ''UPS.PowerSummary.WarningCapacityLimit'' (Some ''%.0f'') 0 CvNumber [],
      row ''battery.runtime'' 0 0 ''UPS.PowerSummary.RunTimeToEmpty'' (Some ''%.0f'') HU_FLAG_QUICK_POLL CvNumber [],
      row ''battery.temperature'' 0 0 ''UPS.PowerSummary.Temperature'' None HU_FLAG_QUICK_POLL CvOpenupsTemperature [],
      row ''output.voltage'' 0 0 ''UPS.PowerSummary.Output.Voltage'' None HU_FLAG_QUICK_POLL CvOpenupsVout [],
      row ''output.current'' 0 0 ''UPS.PowerSummary.Output.Current'' None HU_FLAG_QUICK_POLL CvOpenupsCdischarge [],
      row ''input.voltage'' 0 0 ''UPS.PowerSummary.Input.Voltage'' None HU_FLAG_QUICK_POLL CvOpenupsVin [],
      row ''input.current'' 0 0 ''UPS.PowerSummary.Input.Current'' None HU_FLAG_QUICK_POLL CvOpenupsCcharge [],
      row ''BOOL'' 0 0 ''UPS.PowerSummary.PresentStatus.Good'' None HU_FLAG_QUICK_POLL CvOpenupsOff [],
      row ''BOOL'' 0 0 ''UPS.PowerSummary.PresentStatus.InternalFailure'' None HU_FLAG_QUICK_POLL CvLookup kCommfaultInfo,
      row ''BOOL'' 0 0 ''UPS.PowerSummary.PresentStatus.Overload'' None HU_FLAG_QUICK_POLL CvLookup kOverloadInfo,
      row ''BOOL'' 0 0 ''UPS.PowerSummary.PresentStatus.OverTemperature'' None HU_FLAG_QUICK_POLL CvLookup kOverheatInfo,
      row ''BOOL'' 0 0 ''UPS.PowerSummary.PresentStatus.ShutdownImminent'' None HU_FLAG_QUICK_POLL CvLookup kShutdownimmInfo,
      row ''BOOL'' 0 0 ''UPS.PowerSummary.PresentStatus.BelowRemainingCapacityLimit'' None HU_FLAG_QUICK_POLL CvLookup kLowbattInfo,
      row ''BOOL'' 0 0 ''UPS.PowerSummary.PresentStatus.RemainingTimeLimitExpired'' None HU_FLAG_QUICK_POLL CvLookup kTimelimitexpiredInfo,
      row ''BOOL'' 0 0 ''UPS.PowerSummary.PresentStatus.Charging'' None HU_FLAG_QUICK_POLL CvOpenupsCharging [],
      row ''BOOL'' 0 0 ''UPS.PowerSummary.PresentStatus.Discharging'' None HU_FLAG_QUICK_POLL CvOpenupsDischarging [],
      row ''BOOL'' 0 0 ''UPS.PowerSummary.PresentStatus.NeedReplacement'' None 0 CvLookup kReplacebattInfo,
      row ''BOOL'' 0 0 ''UPS.PowerSummary.PresentStatus.ACPresent'' None HU_FLAG_QUICK_POLL CvOpenupsOnline [],
      row ''BOOL'' 0 0 ''UPS.PowerSummary.PresentStatus.BatteryPresent'' None HU_FLAG_QUICK_POLL CvLookup kNobatteryInfo]"

section \<open>powercom\<close>

definition powercom_rows_1 :: "bool \<Rightarrow> hid_info list" where
  "powercom_rows_1 unmapped =
    [row ''BOOL'' 0 0 ''UPS.PowerSummary.PresentStatus.ACPresent'' None 0 CvLookup kOnlineInfo,
      row ''BOOL'' 0 0 ''UPS.PowerSummary.PresentStatus.BatteryPresent'' None 0 CvLookup kNobatteryInfo,
      row ''BOOL'' 0 0 ''UPS.PowerSummary.PresentStatus.BelowRemainingCapacityLimit'' None 0 CvLookup kLowbattInfo,
      row ''BOOL'' 0 0 ''UPS.PowerSummary.PresentStatus.Charging'' None 0 CvLookup kChargingInfo,
      row ''BOOL'' 0 0 ''UPS.PowerSummary.PresentStatus.CommunicationLost'' None 0 CvLookup kCommfaultInfo,
      row ''BOOL'' 0 0 ''UPS.PowerSummary.PresentStatus.Discharging'' None 0 CvLookup kDischargingInfo,
      row ''BOOL'' 0 0 ''UPS.PowerSummary.PresentStatus.NeedReplacement'' None 0 CvLookup kReplacebattInfo,
      row ''BOOL'' 0 0 ''UPS.PowerSummary.PresentStatus.Overload'' None 0 CvLookup kOverloadInfo,
      row ''BOOL'' 0 0 ''UPS.PowerSummary.PresentStatus.RemainingTimeLimitExpired'' None 0 CvLookup kTimelimitexpiredInfo,
      row ''BOOL'' 0 0 ''UPS.PowerSummary.PresentStatus.ShutdownImminent'' None 0 CvLookup kShutdownimmInfo,
      row ''BOOL'' 0 0 ''UPS.PresentStatus.ACPresent'' None 0 CvLookup kOnlineInfo,
      row ''BOOL'' 0 0 ''UPS.PresentStatus.BatteryPresent'' None 0 CvLookup kNobatteryInfo,
      row ''BOOL'' 0 0 ''UPS.PresentStatus.BelowRemainingCapacityLimit'' None 0 CvLookup kLowbattInfo,
      row ''BOOL'' 0 0 ''UPS.PresentStatus.Boost'' None 0 CvLookup kBoostInfo,
      row ''BOOL'' 0 0 ''UPS.PresentStatus.Buck'' None 0 CvLookup kTrimInfo,
      row ''BOOL'' 0 0 ''UPS.PresentStatus.Charging'' None 0 CvLookup kChargingInfo,
      row ''BOOL'' 0 0 ''UPS.PresentStatus.CommunicationLost'' None 0 CvLookup kCommfaultInfo,
      row ''BOOL'' 0 0 ''UPS.PresentStatus.Discharging'' None 0 CvLookup kDischargingInfo,
      row ''BOOL'' 0 0 ''UPS.PresentStatus.NeedReplacement'' None 0 CvLookup kReplacebattInfo,
      row ''BOOL'' 0 0 ''UPS.PresentStatus.Overload'' None 0 CvLookup kOverloadInfo,
      row ''BOOL'' 0 0 ''UPS.PresentStatus.RemainingTimeLimitExpired'' None 0 CvLookup kTimelimitexpiredInfo,
      row ''BOOL'' 0 0 ''UPS.PresentStatus.ShutdownImminent'' None 0 CvLookup kShutdownimmInfo,
      row ''battery.voltage'' 0 0 ''UPS.PowerSummary.PresentStatus.ACPresent'' (Some ''%s'') 0 CvPowercomHackVoltage [],
      row ''battery.charge'' 0 0 ''UPS.PowerSummary.RemainingCapacity'' (Some ''%.0f'') 0 CvNumber [],
      row ''battery.charge'' 0 0 ''UPS.Battery.RemainingCapacity'' (Some ''%.0f'') 0 CvNumber [],
      row ''battery.charge.low'' 0 0 ''UPS.PowerSummary.RemainingCapacityLimit'' (Some ''%.0f'') 0 CvNumber [],
      row ''battery.charge.warning'' 0 0 ''UPS.PowerSummary.WarningCapacityLimit'' (Some ''%.0f'') 0 CvNumber [],
      row ''battery.runtime'' 0 0 ''UPS.PowerSummary.RunTimeToEmpty'' (Some ''%.0f'') 0 CvNumber [],
      row ''battery.mfr.date'' 0 0 ''UPS.Battery.ManufacturerDate'' (Some ''%s'') HU_FLAG_STATIC CvBatteryDate [],
      row ''battery.type'' 0 0 ''UPS.PowerSummary.iDeviceChemistry'' (Some ''%s'') HU_FLAG_STATIC CvStringId []] @
    (if unmapped then
     [row ''unmapped.ups.battery.delaybeforestartup'' 0 0 ''UPS.Battery.DelayBeforeStartup'' (Some ''%.0f'') 0 CvNumber [],
      row ''unmapped.ups.battery.initialized'' 0 0 ''UPS.Battery.Initialized'' (Some ''%.0f'') 0 CvNumber []] else []) @
    [row ''ups.beeper.status'' 0 0 ''UPS.PowerSummary.AudibleAlarmControl'' (Some ''%s'') 0 CvLookup kPowercomBeeperInfo,
      row ''ups.beeper.status'' 0 0 ''UPS.AudibleAlarmControl'' (Some ''%s'') 0 CvLookup kPowercomBeeperInfo,
      row ''ups.load'' 0 0 ''UPS.Output.PercentLoad'' (Some ''%.0f'') 0 CvNumber [],
      row ''ups.date'' 0 0 ''UPS.PowerSummary.ManufacturerDate'' (Some ''%s'') HU_FLAG_STATIC CvBatteryDate [],
      row ''ups.test.result'' 0 0 ''UPS.Battery.Test'' (Some ''%s'') 0 CvLookup kTestRead] @
    (if unmapped then
     [row ''unmapped.ups.powersummary.imanufacturer'' 0 0 ''UPS.PowerSummary.iManufacturer'' (Some ''%s'') HU_FLAG_STATIC CvStringId [],
      row ''unmapped.ups.powersummary.iproduct'' 0 0 ''UPS.PowerSummary.iProduct'' (Some ''%s'') HU_FLAG_STATIC CvStringId [],
      row ''unmapped.ups.powersummary.iserialnumber'' 0 0 ''UPS.PowerSummary.iSerialNumber'' (Some ''%s'') HU_FLAG_STATIC CvStringId [],
      row ''unmapped.ups.iname'' 0 0 ''UPS.iName'' (Some ''%s'') HU_FLAG_STATIC CvStringId [],
      row ''unmapped.ups.powersummary.ioeminformation'' 0 0 ''UPS.PowerSummary.iOEMInformation'' (Some ''%s'') HU_FLAG_STATIC CvStringId []] else [])"

definition powercom_rows_2 :: "bool \<Rightarrow> hid_info list" where
  "powercom_rows_2 unmapped =
    [row ''ups.timer.start'' 0 0 ''UPS.PowerSummary.DelayBeforeStartup'' (Some ''%.0f'') 0 CvPowercomStartup [],
      row ''ups.timer.shutdown'' 0 0 ''UPS.PowerSummary.DelayBeforeShutdown'' (Some ''%.0f'') HU_FLAG_QUICK_POLL CvPowercomShutdown [],
      row ''ups.timer.shutdown'' 0 0 ''UPS.PowerSummary.0x00FF0057'' (Some ''%.0f'') HU_FLAG_QUICK_POLL CvPowercomShutdown [],
      row ''input.voltage'' 0 0 ''UPS.Input.Voltage'' (Some ''%.1f'') 0 CvNumber [],
      row ''input.voltage.nominal'' 0 0 ''UPS.Input.ConfigVoltage'' (Some ''%.0f'') HU_FLAG_STATIC CvNumber [],
      row ''input.frequency'' 0 0 ''UPS.Input.Frequency'' (Some ''%.1f'') 0 CvNumber [],
      row ''output.voltage'' 0 0 ''UPS.Output.Voltage'' (Some ''%.1f'') 0 CvNumber [],
      row ''output.voltage.nominal'' 0 0 ''UPS.Output.ConfigVoltage'' (Some ''%.0f'') HU_FLAG_STATIC CvNumber [],
      row ''output.frequency'' 0 0 ''UPS.Output.Frequency'' (Some ''%.1f'') 0 CvNumber []] @
    (if unmapped then
     [row ''unmapped.ups.powercom1'' 0 0 ''UPS.0x0084002F'' (Some ''%.0f'') 0 CvNumber [],
      row ''unmapped.ups.powercom2'' 0 0 ''UPS.0xFF860060'' (Some ''%.0f'') 0 CvNumber [],
      row ''unmapped.ups.powersummary.rechargeable'' 0 0 ''UPS.PowerSummary.Rechargeable'' (Some ''%.0f'') 0 CvNumber [],
      row ''unmapped.ups.shutdownimminent'' 0 0 ''UPS.ShutdownImminent'' (Some ''%.0f'') 0 CvNumber []] else []) @
    [row ''beeper.toggle'' 0 0 ''UPS.PowerSummary.AudibleAlarmControl'' (Some ''1'') HU_TYPE_CMD CvNumber [],
      row ''beeper.enable'' 0 0 ''UPS.PowerSummary.AudibleAlarmControl'' (Some ''1'') HU_TYPE_CMD CvNumber [],
      row ''beeper.disable'' 0 0 ''UPS.PowerSummary.AudibleAlarmControl'' (Some ''0'') HU_TYPE_CMD CvNumber [],
      row ''test.battery.start.quick'' 0 0 ''UPS.Battery.Test'' (Some ''1'') HU_TYPE_CMD CvNumber [],
      row ''load.on.delay'' 0 0 ''UPS.PowerSummary.DelayBeforeStartup'' None HU_TYPE_CMD CvPowercomStartup [],
      row ''shutdown.return'' 0 0 ''UPS.PowerSummary.DelayBeforeShutdown'' None HU_TYPE_CMD CvPowercomShutdown [],
      row ''shutdown.stayoff'' 0 0 ''UPS.PowerSummary.DelayBeforeShutdown'' None HU_TYPE_CMD CvNumber [],
      row ''load.on'' 0 0 ''UPS.PowerSummary.0x00FF0056'' (Some ''0'') HU_TYPE_CMD CvPowercomStartup [],
      row ''load.off'' 0 0 ''UPS.PowerSummary.0x00FF0057'' (Some ''0'') HU_TYPE_CMD CvNumber [],
      row ''shutdown.return'' 0 0 ''UPS.PowerSummary.0x00FF0057'' None HU_TYPE_CMD CvPowercomShutdown [],
      row ''shutdown.stayoff'' 0 0 ''UPS.PowerSummary.0x00FF0057'' None HU_TYPE_CMD CvNumber [],
      row ''ups.serial'' 0 0 ''0x00020004.0x00020086'' (Some ''%s'') 0 CvStringId [],
      row ''ups.mfr'' 0 0 ''0x00020004.0x00020087'' (Some ''%s'') 0 CvStringId []] @
    (if unmapped then
     [row ''UPS.DesignCapacity'' 0 0 ''0x00020004.0x00020083'' (Some ''%.0f'') 0 CvNumber []] else []) @
    [row ''ups.mfr.date'' 0 0 ''0x00020004.0x00020085'' (Some ''%s'') 0 CvBatteryDate [],
      row ''battery.temperature'' 0 0 ''0x00020004.0x00020010.0x00020036'' (Some ''%.0f'') 0 CvNumber [],
      row ''battery.temperature'' 0 0 ''UPS.Battery.Temperature'' (Some ''%.1f'') 0 CvNumber [],
      row ''battery.charge'' 0 0 ''0x00020004.0x00020010.0x00020030'' (Some ''%.0f'') 0 CvNumber []] @
    (if unmapped then
     [row ''UPS.BatterySystem.SpecificationInfo'' 0 0 ''0x00020004.0x00020010.0x00020084'' (Some ''%.0f'') 0 CvNumber []] else []) @
    [row ''input.frequency'' 0 0 ''0x00020004.0x00020016.0x0002001A.0x00020032'' (Some ''%.0f'') 0 CvNumber [],
      row ''input.voltage'' 0 0 ''0x00020004.0x00020016.0x0002001A.0x00020030'' (Some ''%.0f'') 0 CvPowercomVoltage [],
      row ''output.voltage'' 0 0 ''0x00020004.0x00020016.0x0002001C.0x00020030'' (Some ''%.0f'') 0 CvPowercomVoltage [],
      row ''ups.load'' 0 0 ''0x00020004.0x00020016.0x0002001C.0x00020035'' (Some ''%.0f'') 0 CvNumber []] @
    (if unmapped then
     [row ''UPS.PowerConverter.Output.InternalChargeController'' 0 0 ''0x00020004.0x00020016.0x0002001C.0x00020081'' (Some ''%.0f'') 0 CvNumber []] else []) @
    [row ''BOOL'' 0 0 ''0x00020004.0x00020016.0x0002001C.0x00020081'' None HU_FLAG_QUICK_POLL CvPowercomUpsfail [],
      row ''BOOL'' 0 0 ''0x00020004.0x00020016.0x0002001C.0x00020081'' None HU_FLAG_QUICK_POLL CvPowercomReplacebatt [],
      row ''BOOL'' 0 0 ''0x00020004.0x00020016.0x0002001C.0x00020081'' None HU_FLAG_QUICK_POLL CvPowercomTest [],
      row ''BOOL'' 0 0 ''0x00020004.0x00020016.0x0002001C.0x00020081'' None HU_FLAG_QUICK_POLL CvPowercomShutdownimm []] @
    (if unmapped then
     [row ''UPS.PowerConverter.Output.PrimaryBatterySupport'' 0 0 ''0x00020004.0x00020016.0x0002001C.0x00020082'' (Some ''%.0f'') 0 CvNumber []] else []) @
    [row ''BOOL'' 0 0 ''0x00020004.0x00020016.0x0002001C.0x00020082'' None HU_FLAG_QUICK_POLL CvPowercomOnline []]"

definition powercom_rows_3 :: "bool \<Rightarrow> hid_info list" where
  "powercom_rows_3 unmapped =
    [row ''BOOL'' 0 0 ''0x00020004.0x00020016.0x0002001C.0x00020082'' None HU_FLAG_QUICK_POLL CvPowercomLowbatt [],
      row ''BOOL'' 0 0 ''0x00020004.0x00020016.0x0002001C.0x00020082'' None HU_FLAG_QUICK_POLL CvPowercomTrim [],
      row ''BOOL'' 0 0 ''0x00020004.0x00020016.0x0002001C.0x00020082'' None HU_FLAG_QUICK_POLL CvPowercomBoost [],
      row ''BOOL'' 0 0 ''0x00020004.0x00020016.0x0002001C.0x00020082'' None HU_FLAG_QUICK_POLL CvPowercomOverload [],
      row ''output.frequency'' 0 0 ''0x00020004.0x00020016.0x0002001C.0x00020032'' (Some ''%.0f'') 0 CvNumber [],
      row ''ups.test.result'' 0 0 ''0x00020004.0x00020016.0x00020058'' (Some ''%s'') 0 CvLookup kTestRead] @
    (if unmapped then
     [row ''UPS.PowerConverter.ShutdownRequested'' 0 0 ''0x00020004.0x00020016.0x00020068'' (Some ''%.0f'') 0 CvNumber []] else []) @
    [row ''load.off'' 0 0 ''0x00020004.0x00020016.0x00020057'' (Some ''0'') HU_TYPE_CMD CvNumber []]"

definition powercomHid2Nut :: "bool \<Rightarrow> hid_info list" where
  "powercomHid2Nut unmapped = powercom_rows_1 unmapped @ powercom_rows_2 unmapped @ powercom_rows_3 unmapped"

end
