(* ===== verification/NutTablesGeneric.thy ===== *)
theory NutTablesGeneric
  imports NutTable
begin

text \<open>
  The rows of \<open>legrandHid2Nut\<close>, \<open>liebertHid2Nut\<close>, \<open>genericHid2Nut\<close>, in the order of the source. \<open>unmapped\<close> is
  \<open>WITH_UNMAPPED_DATA_POINTS\<close>: the rows under it are in the table only in such a build. A table is
  split in parts of at most 150 source lines.
\<close>

unbundle bit_operations_syntax

section \<open>legrand\<close>

definition legrandHid2Nut :: "bool \<Rightarrow> hid_info list" where
  "legrandHid2Nut unmapped =
    [row ''input.voltage'' 0 0 ''UPS.Input.Voltage'' (Some ''%.0f'') 0 CvNumber [],
      row ''input.voltage'' 0 0 ''UPS.PowerConverter.Input.Voltage'' (Some ''%.1f'') 0 CvNumber [],
      row ''input.transfer.high'' 0 0 ''UPS.Input.HighVoltageTransfer'' (Some ''%.0f'') HU_FLAG_STATIC CvNumber [],
      row ''input.transfer.high'' 0 0 ''UPS.PowerConverter.Output.HighVoltageTransfer'' (Some ''%.1f'') HU_FLAG_STATIC CvNumber [],
      row ''input.transfer.low'' 0 0 ''UPS.Input.LowVoltageTransfer'' (Some ''%.0f'') HU_FLAG_STATIC CvNumber [],
      row ''input.transfer.low'' 0 0 ''UPS.PowerConverter.Output.LowVoltageTransfer'' (Some ''%.0f'') HU_FLAG_STATIC CvNumber [],
      row ''input.voltage.nominal'' 0 0 ''UPS.Input.ConfigVoltage'' (Some ''%.0f'') HU_FLAG_STATIC CvNumber [],
      row ''input.voltage.nominal'' 0 0 ''UPS.Flow.ConfigVoltage'' (Some ''%.0f'') HU_FLAG_STATIC CvNumber [],
      row ''battery.voltage.nominal'' 0 0 ''UPS.PowerSummary.ConfigVoltage'' (Some ''%.1f'') HU_FLAG_STATIC CvNumber [],
      row ''battery.voltage.nominal'' 0 0 ''UPS.BatterySystem.Battery.ConfigVoltage'' (Some ''%.0f'') HU_FLAG_STATIC CvNumber [],
      row ''battery.voltage'' 0 0 ''UPS.PowerSummary.Voltage'' (Some ''%.1f'') 0 CvNumber [],
      row ''battery.voltage'' 0 0 ''UPS.BatterySystem.Battery.Voltage'' (Some ''%.1f'') 0 CvNumber [],
      row ''battery.charge'' 0 0 ''UPS.PowerSummary.RemainingCapacity'' (Some ''%.0f'') 0 CvNumber [],
      row ''battery.runtime'' 0 0 ''UPS.PowerSummary.RuntimeToEmpty'' (Some ''%.0f'') 0 CvNumber [],
      row ''battery.charge.warning'' 0 0 ''UPS.PowerSummary.WarningCapacityLimit'' (Some ''%.0f'') HU_FLAG_STATIC CvNumber [],
      row ''battery.charge.low'' 0 0 ''UPS.PowerSummary.RemainingCapacityLimit'' (Some ''%.0f'') HU_FLAG_STATIC CvNumber [],
      row ''output.voltage'' 0 0 ''UPS.Output.Voltage'' (Some ''%.0f'') 0 CvNumber [],
      row ''output.voltage'' 0 0 ''UPS.PowerConverter.Output.Voltage'' (Some ''%.1f'') 0 CvNumber [],
      row ''output.frequency'' 0 0 ''UPS.Output.Frequency'' (Some ''%.0f'') 0 CvNumber [],
      row ''ups.load'' 0 0 ''UPS.Output.PercentLoad'' (Some ''%.0f'') 0 CvNumber [],
      row ''ups.load'' 0 0 ''UPS.OutletSystem.Outlet.PercentLoad'' (Some ''%.0f'') 0 CvNumber [],
      row ''ups.realpower.nominal'' 0 0 ''UPS.Output.ConfigActivePower'' (Some ''%.0f'') HU_FLAG_STATIC CvNumber [],
      row ''ups.realpower.nominal'' 0 0 ''UPS.Flow.ConfigApparentPower'' (Some ''%.0f'') HU_FLAG_STATIC CvNumber [],
      row ''BOOL'' 0 0 ''UPS.PowerSummary.PresentStatus.ACPresent'' None HU_FLAG_QUICK_POLL CvLookup kOnlineInfo,
      row ''BOOL'' 0 0 ''UPS.PowerSummary.PresentStatus.BelowRemainingCapacityLimit'' None HU_FLAG_QUICK_POLL CvLookup kLowbattInfo,
      row ''BOOL'' 0 0 ''UPS.PowerSummary.PresentStatus.Charging'' None HU_FLAG_QUICK_POLL CvLookup kChargingInfo,
      row ''BOOL'' 0 0 ''UPS.PowerSummary.PresentStatus.Discharging'' None HU_FLAG_QUICK_POLL CvLookup kDischargingInfo,
      row ''BOOL'' 0 0 ''UPS.Output.Overload'' None HU_FLAG_QUICK_POLL CvLookup kOverloadInfo,
      row ''load.off.delay'' 0 0 ''UPS.OutletSystem.Outlet.DelayBeforeShutdown'' (Some ''20'') HU_TYPE_CMD CvNumber [],
      row ''load.on.delay'' 0 0 ''UPS.OutletSystem.Outlet.DelayBeforeStartup'' (Some ''30'') HU_TYPE_CMD CvNumber [],
      row ''load.off.delay'' 0 0 ''UPS.Output.DelayBeforeShutdown'' (Some ''20'') HU_TYPE_CMD CvNumber [],
      row ''load.on.delay'' 0 0 ''UPS.Output.DelayBeforeStartup'' (Some ''30'') HU_TYPE_CMD CvNumber [],
      row ''test.battery.start.quick'' 0 0 ''UPS.BatterySystem.Battery.Test'' (Some ''1'') HU_TYPE_CMD CvNumber [],
      row ''test.battery.start.deep'' 0 0 ''UPS.BatterySystem.Battery.Test'' (Some ''2'') HU_TYPE_CMD CvNumber [],
      row ''test.battery.stop'' 0 0 ''UPS.BatterySystem.Battery.Test'' (Some ''3'') HU_TYPE_CMD CvNumber [],
      row ''test.battery.start.quick'' 0 0 ''UPS.Output.Test'' (Some ''1'') HU_TYPE_CMD CvNumber [],
      row ''test.battery.start.deep'' 0 0 ''UPS.Output.Test'' (Some ''2'') HU_TYPE_CMD CvNumber [],
      row ''test.battery.stop'' 0 0 ''UPS.Output.Test'' (Some ''3'') HU_TYPE_CMD CvNumber [],
      row ''beeper.enable'' 0 0 ''UPS.PowerSummary.AudibleAlarmControl'' (Some ''2'') HU_TYPE_CMD CvNumber [],
      row ''beeper.disable'' 0 0 ''UPS.PowerSummary.AudibleAlarmControl'' (Some ''3'') HU_TYPE_CMD CvNumber []]"

section \<open>liebert\<close>

definition liebert_rows_1 :: "bool \<Rightarrow> hid_info list" where
  "liebert_rows_1 unmapped =
    (if unmapped then
     [row ''unmapped.ups.powersummary.flowid'' 0 0 ''UPS.PowerSummary.FlowID'' (Some ''%.0f'') 0 CvNumber [],
      row ''unmapped.ups.powersummary.powersummaryid'' 0 0 ''UPS.PowerSummary.PowerSummaryID'' (Some ''%.0f'') 0 CvNumber [],
      row ''unmapped.ups.powersummary.capacitygranularity1'' 0 0 ''UPS.PowerSummary.CapacityGranularity1'' (Some ''%.0f'') 0 CvNumber [],
      row ''unmapped.ups.powersummary.capacitymode'' 0 0 ''UPS.PowerSummary.CapacityMode'' (Some ''%.0f'') 0 CvNumber [],
      row ''unmapped.ups.powersummary.rechargeable'' 0 0 ''UPS.PowerSummary.Rechargeable'' (Some ''%.0f'') 0 CvNumber [],
      row ''unmapped.ups.powersummary.iproduct'' 0 0 ''UPS.PowerSummary.iProduct'' (Some ''%.0f'') 0 CvNumber [],
      row ''unmapped.ups.powersummary.product'' 0 0 ''UPS.PowerSummary.iProduct'' (Some ''%s'') 0 CvStringId [],
      row ''unmapped.ups.powersummary.imanufacturer'' 0 0 ''UPS.PowerSummary.iManufacturer'' (Some ''%.0f'') 0 CvNumber [],
      row ''unmapped.ups.powersummary.manufacturer'' 0 0 ''UPS.PowerSummary.iManufacturer'' (Some ''%s'') 0 CvStringId [],
      row ''unmapped.ups.powersummary.iserialnumber'' 0 0 ''UPS.PowerSummary.iSerialNumber'' (Some ''%.0f'') 0 CvNumber [],
      row ''unmapped.ups.powersummary.serialnumber'' 0 0 ''UPS.PowerSummary.iSerialNumber'' (Some ''%s'') 0 CvStringId []] else []) @
    [row ''battery.voltage'' 0 0 ''UPS.PowerSummary.Voltage'' (Some ''%.2f'') 0 CvNumber [],
      row ''battery.charge'' 0 0 ''UPS.PowerSummary.RemainingCapacity'' (Some ''%.0f'') 0 CvNumber [],
      row ''experimental.battery.capacity'' 0 0 ''UPS.PowerSummary.FullChargeCapacity'' (Some ''%.0f'') 0 CvNumber [],
      row ''experimental.battery.capacity.nominal'' 0 0 ''UPS.PowerSummary.DesignCapacity'' (Some ''%.0f'') 0 CvNumber [],
      row ''battery.runtime'' 0 0 ''UPS.PowerSummary.RunTimeToEmpty'' (Some ''%.0f'') 0 CvNumber [],
      row ''battery.type'' 0 0 ''UPS.PowerSummary.iDeviceChemistry'' (Some ''%s'') 0 CvStringId [],
      row ''ups.load'' 0 0 ''UPS.PowerSummary.PercentLoad'' (Some ''%.0f'') 0 CvNumber [],
      row ''ups.power.nominal'' 0 0 ''UPS.Flow.[4].ConfigApparentPower'' (Some ''%.0f'') HU_FLAG_SEMI_STATIC CvNumber [],
      row ''ups.test.result'' 0 0 ''UPS.BatterySystem.Battery.Test'' (Some ''%s'') 0 CvLookup kTestRead,
      row ''ups.beeper.status'' 0 0 ''UPS.PowerSummary.AudibleAlarmControl'' (Some ''%s'') HU_FLAG_SEMI_STATIC CvLookup kBeeperInfo,
      row ''output.voltage'' 0 0 ''UPS.PowerConverter.Output.Voltage'' (Some ''%.1f'') 0 CvNumber [],
      row ''output.voltage.nominal'' 0 0 ''UPS.Flow.[4].ConfigVoltage'' (Some ''%.0f'') HU_FLAG_SEMI_STATIC CvNumber [],
      row ''output.frequency'' 0 0 ''UPS.PowerConverter.Output.Frequency'' (Some ''%.2f'') 0 CvNumber [],
      row ''output.frequency.nominal'' 0 0 ''UPS.Flow.[4].ConfigFrequency'' (Some ''%.0f'') HU_FLAG_SEMI_STATIC CvNumber [],
      row ''output.transfer.high'' 0 0 ''UPS.PowerConverter.Output.HighVoltageTransfer'' (Some ''%.1f'') HU_FLAG_SEMI_STATIC CvNumber [],
      row ''output.transfer.low'' 0 0 ''UPS.PowerConverter.Output.LowVoltageTransfer'' (Some ''%.1f'') HU_FLAG_SEMI_STATIC CvNumber [],
      row ''input.voltage'' 0 0 ''UPS.PowerConverter.Input.[1].Voltage'' (Some ''%.1f'') 0 CvNumber [],
      row ''input.frequency'' 0 0 ''UPS.PowerConverter.Input.[1].Frequency'' (Some ''%.2f'') 0 CvNumber [],
      row ''input.transfer.low'' 0 0 ''UPS.PowerConverter.Output.0xFFFF0057'' (Some ''%.0f'') HU_FLAG_SEMI_STATIC CvNumber [],
      row ''input.transfer.high'' 0 0 ''UPS.PowerConverter.Output.0xFFFF0058'' (Some ''%.0f'') HU_FLAG_SEMI_STATIC CvNumber [],
      row ''input.frequency.transfer.low'' 0 0 ''UPS.PowerConverter.Output.0xFFFF00F9'' (Some ''%.0f'') HU_FLAG_SEMI_STATIC CvNumber [],
      row ''input.frequency.transfer.high'' 0 0 ''UPS.PowerConverter.Output.0xFFFF00F8'' (Some ''%.0f'') HU_FLAG_SEMI_STATIC CvNumber [],
      row ''BOOL'' 0 0 ''UPS.PowerSummary.PresentStatus.ACPresent'' None HU_FLAG_QUICK_POLL CvLookup kOnlineInfo,
      row ''BOOL'' 0 0 ''UPS.PowerSummary.PresentStatus.BelowRemainingCapacityLimit'' None HU_FLAG_QUICK_POLL CvLookup kLowbattInfo,
      row ''BOOL'' 0 0 ''UPS.PowerSummary.PresentStatus.Charging'' None HU_FLAG_QUICK_POLL CvLookup kChargingInfo,
      row ''BOOL'' 0 0 ''UPS.PowerSummary.PresentStatus.Discharging'' None HU_FLAG_QUICK_POLL CvLookup kDischargingInfo,
      row ''BOOL'' 0 0 ''UPS.PowerSummary.PresentStatus.Overload'' None HU_FLAG_QUICK_POLL CvLookup kOverloadInfo,
      row ''BOOL'' 0 0 ''UPS.PowerSummary.PresentStatus.Good'' None HU_FLAG_QUICK_POLL CvLookup kOffInfo,
      row ''BOOL'' 0 0 ''UPS.PowerSummary.PresentStatus.InternalFailure'' None HU_FLAG_QUICK_POLL CvLookup kCommfaultInfo,
      row ''BOOL'' 0 0 ''UPS.PowerSummary.PresentStatus.ShutdownImminent'' None HU_FLAG_QUICK_POLL CvLookup kShutdownimmInfo,
      row ''BOOL'' 0 0 ''UPS.PowerConverter.Input.[1].PresentStatus.Buck'' None 0 CvLookup kTrimInfo,
      row ''BOOL'' 0 0 ''UPS.PowerConverter.Input.[1].PresentStatus.Boost'' None 0 CvLookup kBoostInfo,
      row ''test.battery.start'' 0 0 ''UPS.BatterySystem.Battery.Test'' (Some ''1'') HU_TYPE_CMD CvNumber [],
      row ''load.off.delay'' 0 0 ''UPS.PowerSummary.DelayBeforeShutdown'' (Some ''20'') HU_TYPE_CMD CvNumber [],
      row ''load.on.delay'' 0 0 ''UPS.PowerSummary.DelayBeforeStartup'' (Some ''30'') HU_TYPE_CMD CvNumber [],
      row ''shutdown.stop'' 0 0 ''UPS.PowerSummary.DelayBeforeShutdown'' (Some ''-1'') HU_TYPE_CMD CvNumber []]"

definition liebert_rows_2 :: "bool \<Rightarrow> hid_info list" where
  "liebert_rows_2 unmapped =
    [row ''beeper.toggle'' 0 0 ''UPS.PowerSummary.AudibleAlarmControl'' (Some ''1'') HU_TYPE_CMD CvNumber []]"

definition liebertHid2Nut :: "bool \<Rightarrow> hid_info list" where
  "liebertHid2Nut unmapped = liebert_rows_1 unmapped @ liebert_rows_2 unmapped"

section \<open>generic\<close>

definition generic_rows_1 :: "bool \<Rightarrow> hid_info list" where
  "generic_rows_1 unmapped =
    [row ''BOOL'' 0 0 ''UPS.PowerSummary.PresentStatus.ACPresent'' None (HU_FLAG_QUICK_POLL OR HU_FLAG_ANY_INDEX) CvLookup kOnlineInfo,
      row ''BOOL'' 0 0 ''UPS.PowerSummary.ACPresent'' None (HU_FLAG_QUICK_POLL OR HU_FLAG_ANY_INDEX) CvLookup kOnlineInfo,
      row ''BOOL'' 0 0 ''UPS.PowerSummary.PresentStatus.Discharging'' None (HU_FLAG_QUICK_POLL OR HU_FLAG_ANY_INDEX) CvLookup kDischargingInfo,
      row ''BOOL'' 0 0 ''UPS.PowerSummary.Discharging'' None (HU_FLAG_QUICK_POLL OR HU_FLAG_ANY_INDEX) CvLookup kDischargingInfo,
      row ''BOOL'' 0 0 ''UPS.PowerSummary.PresentStatus.Charging'' None (HU_FLAG_QUICK_POLL OR HU_FLAG_ANY_INDEX) CvLookup kChargingInfo,
      row ''BOOL'' 0 0 ''UPS.PowerSummary.Charging'' None (HU_FLAG_QUICK_POLL OR HU_FLAG_ANY_INDEX) CvLookup kChargingInfo,
      row ''BOOL'' 0 0 ''UPS.PowerSummary.PresentStatus.BelowRemainingCapacityLimit'' None (HU_FLAG_QUICK_POLL OR HU_FLAG_ANY_INDEX) CvLookup kLowbattInfo,
      row ''BOOL'' 0 0 ''UPS.PowerSummary.BelowRemainingCapacityLimit'' None (HU_FLAG_QUICK_POLL OR HU_FLAG_ANY_INDEX) CvLookup kLowbattInfo,
      row ''BOOL'' 0 0 ''UPS.PowerSummary.PresentStatus.NeedReplacement'' None HU_FLAG_ANY_INDEX CvLookup kReplacebattInfo,
      row ''BOOL'' 0 0 ''UPS.PowerSummary.NeedReplacement'' None HU_FLAG_ANY_INDEX CvLookup kReplacebattInfo,
      row ''BOOL'' 0 0 ''UPS.PowerSummary.PresentStatus.Overload'' None HU_FLAG_ANY_INDEX CvLookup kOverloadInfo,
      row ''BOOL'' 0 0 ''UPS.PowerSummary.Overload'' None HU_FLAG_ANY_INDEX CvLookup kOverloadInfo,
      row ''BOOL'' 0 0 ''UPS.PowerSummary.PresentStatus.ShutdownImminent'' None HU_FLAG_ANY_INDEX CvLookup kShutdownimmInfo,
      row ''BOOL'' 0 0 ''UPS.PowerSummary.ShutdownImminent'' None HU_FLAG_ANY_INDEX CvLookup kShutdownimmInfo,
      row ''BOOL'' 0 0 ''UPS.PowerSummary.PresentStatus.CommunicationLost'' None (HU_FLAG_QUICK_POLL OR HU_FLAG_ANY_INDEX) CvLookup kCommfaultInfo,
      row ''BOOL'' 0 0 ''UPS.PowerSummary.CommunicationLost'' None (HU_FLAG_QUICK_POLL OR HU_FLAG_ANY_INDEX) CvLookup kCommfaultInfo,
      row ''BOOL'' 0 0 ''UPS.PowerSummary.PresentStatus.BatteryPresent'' None HU_FLAG_ANY_INDEX CvLookup kNobatteryInfo,
      row ''BOOL'' 0 0 ''UPS.PowerSummary.PresentStatus.RemainingTimeLimitExpired'' None HU_FLAG_ANY_INDEX CvLookup kTimelimitexpiredInfo,
      row ''BOOL'' 0 0 ''UPS.PowerSummary.PresentStatus.FullyCharged'' None HU_FLAG_ANY_INDEX CvLookup kFullychargedInfo,
      row ''BOOL'' 0 0 ''UPS.PowerSummary.PresentStatus.FullyDischarged'' None (HU_FLAG_QUICK_POLL OR HU_FLAG_ANY_INDEX) CvLookup kDepletedInfo,
      row ''input.voltage'' 0 0 ''UPS.PowerConverter.Input.Voltage'' (Some ''%.1f'') HU_FLAG_ANY_INDEX CvNumber [],
      row ''input.voltage'' 0 0 ''UPS.Input.Voltage'' (Some ''%.1f'') HU_FLAG_ANY_INDEX CvNumber [],
      row ''input.voltage'' 0 0 ''UPS.Flow.Voltage'' (Some ''%.1f'') HU_FLAG_ANY_INDEX CvNumber [],
      row ''input.frequency'' 0 0 ''UPS.PowerConverter.Input.Frequency'' (Some ''%.1f'') HU_FLAG_ANY_INDEX CvNumber [],
      row ''input.frequency'' 0 0 ''UPS.Input.Frequency'' (Some ''%.1f'') HU_FLAG_ANY_INDEX CvNumber [],
      row ''input.frequency'' 0 0 ''UPS.Flow.Frequency'' (Some ''%.1f'') HU_FLAG_ANY_INDEX CvNumber [],
      row ''output.voltage'' 0 0 ''UPS.PowerConverter.Output.Voltage'' (Some ''%.1f'') HU_FLAG_ANY_INDEX CvNumber [],
      row ''output.voltage'' 0 0 ''UPS.Output.Voltage'' (Some ''%.1f'') HU_FLAG_ANY_INDEX CvNumber [],
      row ''output.frequency'' 0 0 ''UPS.PowerConverter.Output.Frequency'' (Some ''%.1f'') HU_FLAG_ANY_INDEX CvNumber [],
      row ''output.frequency'' 0 0 ''UPS.Output.Frequency'' (Some ''%.1f'') HU_FLAG_ANY_INDEX CvNumber [],
      row ''ups.realpower'' 0 0 ''UPS.PowerConverter.Output.ActivePower'' (Some ''%.0f'') HU_FLAG_ANY_INDEX CvNumber [],
      row ''ups.realpower'' 0 0 ''UPS.Output.ActivePower'' (Some ''%.0f'') HU_FLAG_ANY_INDEX CvNumber [],
      row ''ups.power'' 0 0 ''UPS.PowerConverter.Output.ApparentPower'' (Some ''%.0f'') HU_FLAG_ANY_INDEX CvNumber [],
      row ''ups.power'' 0 0 ''UPS.Output.ApparentPower'' (Some ''%.0f'') HU_FLAG_ANY_INDEX CvNumber [],
      row ''battery.voltage'' 0 0 ''UPS.PowerSummary.Voltage'' (Some ''%.1f'') HU_FLAG_ANY_INDEX CvNumber [],
      row ''battery.voltage'' 0 0 ''UPS.BatterySystem.Voltage'' (Some ''%.1f'') HU_FLAG_ANY_INDEX CvNumber [],
      row ''battery.voltage'' 0 0 ''UPS.Battery.Voltage'' (Some ''%.1f'') HU_FLAG_ANY_INDEX CvNumber [],
      row ''battery.charge'' 0 0 ''UPS.PowerSummary.RemainingCapacity'' (Some ''%.0f'') HU_FLAG_ANY_INDEX CvNumber [],
      row ''battery.charge.low'' 0 0 ''UPS.PowerSummary.RemainingCapacityLimit'' (Some ''%.0f'') (HU_FLAG_STATIC OR HU_FLAG_ANY_INDEX) CvNumber [],
      row ''battery.runtime'' 0 0 ''UPS.PowerSummary.RunTimeToEmpty'' (Some ''%.0f'') HU_FLAG_ANY_INDEX CvNumber [],
      row ''battery.runtime'' 0 0 ''UPS.Battery.RunTimeToEmpty'' (Some ''%.0f'') HU_FLAG_ANY_INDEX CvNumber [],
      row ''ups.load'' 0 0 ''UPS.PowerSummary.PercentLoad'' (Some ''%.0f'') HU_FLAG_ANY_INDEX CvNumber [],
      row ''ups.mfr.date'' 0 0 ''UPS.PowerSummary.ManufacturerDate'' (Some ''%s'') HU_FLAG_ANY_INDEX CvBatteryDate [],
      row ''ups.mfr.date'' 0 0 ''UPS.ManufacturerDate'' (Some ''%s'') HU_FLAG_ANY_INDEX CvBatteryDate [],
      row ''battery.mfr.date'' 0 0 ''UPS.Battery.ManufacturerDate'' (Some ''%s'') HU_FLAG_ANY_INDEX CvBatteryDate [],
      row ''battery.mfr.date'' 0 0 ''UPS.BatterySystem.Battery.Date'' (Some ''%s'') HU_FLAG_ANY_INDEX CvStringId []]"

definition generic_rows_2 :: "bool \<Rightarrow> hid_info list" where
  "generic_rows_2 unmapped =
    [row ''battery.mfr.date'' 0 0 ''UPS.Battery.Date'' (Some ''%s'') HU_FLAG_ANY_INDEX CvStringId [],
      row ''ups.temperature'' 0 0 ''UPS.PowerSummary.Temperature'' (Some ''%s'') HU_FLAG_ANY_INDEX CvKelvinCelsius [],
      row ''battery.temperature'' 0 0 ''UPS.Battery.Temperature'' (Some ''%s'') HU_FLAG_ANY_INDEX CvKelvinCelsius [],
      row ''ups.load'' 0 0 ''UPS.PowerConverter.Output.PercentLoad'' (Some ''%.0f'') HU_FLAG_ANY_INDEX CvNumber [],
      row ''ups.load'' 0 0 ''UPS.Output.PercentLoad'' (Some ''%.0f'') HU_FLAG_ANY_INDEX CvNumber [],
      row ''battery.capacity'' 0 0 ''UPS.BatterySystem.Battery.DesignCapacity'' (Some ''%s'') (HU_FLAG_STATIC OR HU_FLAG_ANY_INDEX) CvMgeBatteryCapacity [],
      row ''ups.realpower.nominal'' 0 0 ''UPS.Flow.ConfigActivePower'' (Some ''%.0f'') HU_FLAG_ANY_INDEX CvNumber [],
      row ''ups.realpower.nominal'' 0 0 ''UPS.PowerConverter.ConfigActivePower'' (Some ''%.0f'') HU_FLAG_ANY_INDEX CvNumber [],
      row ''ups.realpower.nominal'' 0 0 ''UPS.Output.ConfigActivePower'' (Some ''%.0f'') HU_FLAG_ANY_INDEX CvNumber [],
      row ''ups.power.nominal'' 0 0 ''UPS.Flow.ConfigApparentPower'' (Some ''%.0f'') (HU_FLAG_STATIC OR HU_FLAG_ANY_INDEX) CvNumber [],
      row ''battery.voltage.nominal'' 0 0 ''UPS.PowerSummary.ConfigVoltage'' (Some ''%.0f'') HU_FLAG_ANY_INDEX CvNumber [],
      row ''battery.voltage.nominal'' 0 0 ''UPS.Battery.ConfigVoltage'' (Some ''%.0f'') HU_FLAG_ANY_INDEX CvNumber [],
      row ''input.voltage.nominal'' 0 0 ''UPS.Flow.ConfigVoltage'' (Some ''%.0f'') HU_FLAG_ANY_INDEX CvNumber [],
      row ''input.voltage.nominal'' 0 0 ''UPS.Input.ConfigVoltage'' (Some ''%.0f'') HU_FLAG_ANY_INDEX CvNumber [],
      row ''output.voltage.nominal'' 0 0 ''UPS.PowerConverter.Output.ConfigVoltage'' (Some ''%.0f'') HU_FLAG_ANY_INDEX CvNumber [],
      row ''output.voltage.nominal'' 0 0 ''UPS.Output.ConfigVoltage'' (Some ''%.0f'') HU_FLAG_ANY_INDEX CvNumber [],
      row ''input.transfer.high'' 0 0 ''UPS.PowerConverter.Output.HighVoltageTransfer'' (Some ''%.0f'') (HU_FLAG_STATIC OR HU_FLAG_ANY_INDEX) CvNumber [],
      row ''input.transfer.low'' 0 0 ''UPS.PowerConverter.Output.LowVoltageTransfer'' (Some ''%.0f'') (HU_FLAG_STATIC OR HU_FLAG_ANY_INDEX) CvNumber [],
      row ''ups.test.result'' 0 0 ''UPS.BatterySystem.Battery.Test'' (Some ''%s'') HU_FLAG_ANY_INDEX CvLookup kTestRead,
      row ''ups.test.result'' 0 0 ''UPS.Battery.Test'' (Some ''%s'') HU_FLAG_ANY_INDEX CvLookup kTestRead,
      row ''ups.test.result'' 0 0 ''UPS.Output.Test'' (Some ''%s'') HU_FLAG_ANY_INDEX CvLookup kTestRead,
      row ''ups.timer.shutdown'' 0 0 ''UPS.PowerSummary.DelayBeforeShutdown'' (Some ''%.0f'') (HU_FLAG_QUICK_POLL OR HU_FLAG_ANY_INDEX) CvNumber [],
      row ''input.transfer.low'' 0 0 ''UPS.Output.LowVoltageTransfer'' (Some ''%.0f'') HU_FLAG_ANY_INDEX CvNumber [],
      row ''input.transfer.low'' 0 0 ''UPS.Input.LowVoltageTransfer'' (Some ''%.0f'') HU_FLAG_ANY_INDEX CvNumber [],
      row ''input.transfer.high'' 0 0 ''UPS.Output.HighVoltageTransfer'' (Some ''%.0f'') HU_FLAG_ANY_INDEX CvNumber [],
      row ''input.transfer.high'' 0 0 ''UPS.Input.HighVoltageTransfer'' (Some ''%.0f'') HU_FLAG_ANY_INDEX CvNumber [],
      row ''test.battery.start.quick'' 0 0 ''UPS.BatterySystem.Battery.Test'' (Some ''1'') (HU_TYPE_CMD OR HU_FLAG_ANY_INDEX) CvNumber [],
      row ''test.battery.start.deep'' 0 0 ''UPS.BatterySystem.Battery.Test'' (Some ''2'') (HU_TYPE_CMD OR HU_FLAG_ANY_INDEX) CvNumber [],
      row ''test.battery.stop'' 0 0 ''UPS.BatterySystem.Battery.Test'' (Some ''3'') (HU_TYPE_CMD OR HU_FLAG_ANY_INDEX) CvNumber [],
      row ''test.battery.start.quick'' 0 0 ''UPS.Battery.Test'' (Some ''1'') (HU_TYPE_CMD OR HU_FLAG_ANY_INDEX) CvNumber [],
      row ''test.battery.start.deep'' 0 0 ''UPS.Battery.Test'' (Some ''2'') (HU_TYPE_CMD OR HU_FLAG_ANY_INDEX) CvNumber [],
      row ''test.battery.stop'' 0 0 ''UPS.Battery.Test'' (Some ''3'') (HU_TYPE_CMD OR HU_FLAG_ANY_INDEX) CvNumber [],
      row ''test.battery.start.quick'' 0 0 ''UPS.Output.Test'' (Some ''1'') (HU_TYPE_CMD OR HU_FLAG_ANY_INDEX) CvNumber [],
      row ''test.battery.start.deep'' 0 0 ''UPS.Output.Test'' (Some ''2'') (HU_TYPE_CMD OR HU_FLAG_ANY_INDEX) CvNumber [],
      row ''test.battery.stop'' 0 0 ''UPS.Output.Test'' (Some ''3'') (HU_TYPE_CMD OR HU_FLAG_ANY_INDEX) CvNumber [],
      row ''test.panel.start'' 0 0 ''UPS.0xFF860072'' (Some ''1'') (HU_TYPE_CMD OR HU_FLAG_ANY_INDEX) CvNumber [],
      row ''test.panel.stop'' 0 0 ''UPS.0xFF860072'' (Some ''0'') (HU_TYPE_CMD OR HU_FLAG_ANY_INDEX) CvNumber [],
      row ''test.panel.start'' 0 0 ''UPS.PowerSummary.0xFF860072'' (Some ''1'') (HU_TYPE_CMD OR HU_FLAG_ANY_INDEX) CvNumber [],
      row ''test.panel.stop'' 0 0 ''UPS.PowerSummary.0xFF860072'' (Some ''0'') (HU_TYPE_CMD OR HU_FLAG_ANY_INDEX) CvNumber [],
      row ''load.off.delay'' 0 0 ''UPS.PowerSummary.DelayBeforeShutdown'' (Some ''20'') (HU_TYPE_CMD OR HU_FLAG_ANY_INDEX) CvNumber [],
      row ''load.on.delay'' 0 0 ''UPS.PowerSummary.DelayBeforeStartup'' (Some ''30'') (HU_TYPE_CMD OR HU_FLAG_ANY_INDEX) CvNumber [],
      row ''shutdown.stop'' 0 0 ''UPS.PowerSummary.DelayBeforeShutdown'' (Some ''-1'') (HU_TYPE_CMD OR HU_FLAG_ANY_INDEX) CvNumber [],
      row ''shutdown.reboot'' 0 0 ''UPS.PowerSummary.DelayBeforeReboot'' (Some ''10'') (HU_TYPE_CMD OR HU_FLAG_ANY_INDEX) CvNumber []]"

definition generic_rows_3 :: "bool \<Rightarrow> hid_info list" where
  "generic_rows_3 unmapped =
    [row ''load.off.delay'' 0 0 ''UPS.Output.DelayBeforeShutdown'' (Some ''20'') (HU_TYPE_CMD OR HU_FLAG_ANY_INDEX) CvNumber [],
      row ''load.on.delay'' 0 0 ''UPS.Output.DelayBeforeStartup'' (Some ''30'') (HU_TYPE_CMD OR HU_FLAG_ANY_INDEX) CvNumber [],
      row ''shutdown.stop'' 0 0 ''UPS.Output.DelayBeforeShutdown'' (Some ''-1'') (HU_TYPE_CMD OR HU_FLAG_ANY_INDEX) CvNumber [],
      row ''shutdown.reboot'' 0 0 ''UPS.Output.DelayBeforeReboot'' (Some ''10'') (HU_TYPE_CMD OR HU_FLAG_ANY_INDEX) CvNumber [],
      row ''load.off.delay'' 0 0 ''UPS.0xFF860005.0xFF86007D'' (Some ''20'') (HU_TYPE_CMD OR HU_FLAG_ANY_INDEX) CvNumber [],
      row ''load.on.delay'' 0 0 ''UPS.0xFF860005.0xFF86007E'' (Some ''30'') (HU_TYPE_CMD OR HU_FLAG_ANY_INDEX) CvNumber [],
      row ''shutdown.stop'' 0 0 ''UPS.0xFF860005.0xFF86007D'' (Some ''-1'') (HU_TYPE_CMD OR HU_FLAG_ANY_INDEX) CvNumber [],
      row ''shutdown.reboot'' 0 0 ''UPS.0xFF860005.0xFF86007C'' (Some ''10'') (HU_TYPE_CMD OR HU_FLAG_ANY_INDEX) CvNumber [],
      row ''shutdown.return'' 0 0 ''UPS.Output.0xFF86007C'' (Some ''1'') (HU_TYPE_CMD OR HU_FLAG_ANY_INDEX) CvNumber [],
      row ''beeper.mute'' 0 0 ''UPS.BatterySystem.Battery.AudibleAlarmControl'' (Some ''3'') (HU_TYPE_CMD OR HU_FLAG_ANY_INDEX) CvNumber [],
      row ''beeper.mute'' 0 0 ''UPS.PowerSummary.AudibleAlarmControl'' (Some ''3'') (HU_TYPE_CMD OR HU_FLAG_ANY_INDEX) CvNumber [],
      row ''beeper.disable'' 0 0 ''UPS.BatterySystem.Battery.AudibleAlarmControl'' (Some ''1'') (HU_TYPE_CMD OR HU_FLAG_ANY_INDEX) CvNumber [],
      row ''beeper.disable'' 0 0 ''UPS.PowerSummary.AudibleAlarmControl'' (Some ''1'') (HU_TYPE_CMD OR HU_FLAG_ANY_INDEX) CvNumber [],
      row ''beeper.enable'' 0 0 ''UPS.BatterySystem.Battery.AudibleAlarmControl'' (Some ''2'') (HU_TYPE_CMD OR HU_FLAG_ANY_INDEX) CvNumber [],
      row ''beeper.enable'' 0 0 ''UPS.PowerSummary.AudibleAlarmControl'' (Some ''2'') (HU_TYPE_CMD OR HU_FLAG_ANY_INDEX) CvNumber [],
      row ''beeper.disable'' 0 0 ''UPS.AudibleAlarmControl'' (Some ''1'') (HU_TYPE_CMD OR HU_FLAG_ANY_INDEX) CvNumber [],
      row ''beeper.enable'' 0 0 ''UPS.AudibleAlarmControl'' (Some ''2'') (HU_TYPE_CMD OR HU_FLAG_ANY_INDEX) CvNumber [],
      row ''beeper.mute'' 0 0 ''UPS.AudibleAlarmControl'' (Some ''3'') (HU_TYPE_CMD OR HU_FLAG_ANY_INDEX) CvNumber []]"

definition genericHid2Nut :: "bool \<Rightarrow> hid_info list" where
  "genericHid2Nut unmapped = generic_rows_1 unmapped @ generic_rows_2 unmapped @ generic_rows_3 unmapped"

end
