(* ===== verification/NutTableFacts.thy ===== *)
theory NutTableFacts
  imports NutMatching NutTablesMge NutTablesVendors NutTablesGeneric
begin

text \<open>
  What every row of the nine tables keeps, and what follows for the bindings of any device.
\<close>

unbundle bit_operations_syntax

section \<open>Well-formed rows\<close>

text \<open>The names of the internal and of the command rows: none is the name of a variable.\<close>

definition exempt_names :: "string list" where
  "exempt_names = [''BOOL'', ''ups.alarm'', ''device.country'', ''battery.charger.abm.status'', ''battery.charger.mode.status'',
     ''battery.charger.type.status'', ''beeper.disable'', ''beeper.enable'', ''beeper.mute'', ''beeper.off'', ''beeper.on'',
     ''beeper.toggle'', ''bypass.start'', ''bypass.stop'', ''experimental.ecomode.start'', ''experimental.ecomode.stop'',
     ''experimental.essmode.start'', ''experimental.essmode.stop'', ''load.off'', ''load.off.delay'', ''load.on'', ''load.on.delay'',
     ''outlet.1.load.off'', ''outlet.1.load.on'', ''outlet.2.load.off'', ''outlet.2.load.on'', ''outlet.3.load.off'',
     ''outlet.3.load.on'', ''shutdown.reboot'', ''shutdown.return'', ''shutdown.stayoff'', ''shutdown.stop'', ''test.battery.start'',
     ''test.battery.start.deep'', ''test.battery.start.quick'', ''test.battery.stop'', ''test.panel.start'', ''test.panel.stop'']"

text \<open>The texts of a BOOL row are status tokens, but for \<open>normal\<close> of \<open>kEcoModeInfo\<close>.\<close>

definition token_lookup :: "lookup \<Rightarrow> bool" where
  "token_lookup es \<longleftrightarrow> list_all (\<lambda>e. token_name (snd e) \<in> set (''normal'' # kStatusTokens)) es"

definition lookup_distinct :: "lookup \<Rightarrow> bool" where
  "lookup_distinct es \<longleftrightarrow> es \<noteq> [] \<and> distinct (map fst es) \<and> distinct (map snd es)"

definition row_ok :: "hid_info \<Rightarrow> bool" where
  "row_ok info \<longleftrightarrow>
     (hi_info_type info = ''BOOL'' \<longrightarrow> token_lookup (hi_lkp info)) \<and>
     (hi_info_flags info AND ST_FLAG_RW \<noteq> 0 \<longrightarrow> hi_info_flags info AND ST_FLAG_STRING \<noteq> 0) \<and>
     (hi_info_flags info AND ST_FLAG_RW \<noteq> 0 \<and> hi_conv info = CvLookup \<longrightarrow> lookup_distinct (hi_lkp info)) \<and>
     (hi_hidflags info AND HU_FLAG_ABSENT \<noteq> 0 \<longrightarrow> hi_dfl info \<noteq> None) \<and>
     ((isInternalRow info \<or> isCommandRow info) = (hi_info_type info \<in> set exempt_names))"

lemma token_lookups:
  "token_lookup kApcLineFailCauseFrange" "token_lookup kApcLineFailCauseVrange" "token_lookup kApcStatusFlag" "token_lookup []"
  "token_lookup kBattvolthiInfo" "token_lookup kBattvoltloInfo" "token_lookup kBoostInfo" "token_lookup kBypassAutoInfo"
  "token_lookup kBypassManualInfo" "token_lookup kChargerfailInfo" "token_lookup kChargingInfo" "token_lookup kCommfaultInfo"
  "token_lookup kDepletedInfo" "token_lookup kDischargingInfo" "token_lookup kEcoModeInfo" "token_lookup kFanfailInfo"
  "token_lookup kFrangeInfo" "token_lookup kFullychargedInfo" "token_lookup kLowbattInfo" "token_lookup kMgeOnbattInfo"
  "token_lookup kNobatteryInfo" "token_lookup kOffInfo" "token_lookup kOnlineInfo" "token_lookup kOverheatInfo"
  "token_lookup kOverloadInfo" "token_lookup kReplacebattInfo" "token_lookup kShutdownimmInfo" "token_lookup kTimelimitexpiredInfo"
  "token_lookup kTrimInfo" "token_lookup kVrangeInfo"
  by (simp_all add: token_lookup_def token_name_def token_clears_def kStatusTokens_def
    kApcLineFailCauseFrange_def kApcLineFailCauseVrange_def kApcStatusFlag_def kBattvolthiInfo_def kBattvoltloInfo_def
    kBoostInfo_def kBypassAutoInfo_def kBypassManualInfo_def kChargerfailInfo_def kChargingInfo_def kCommfaultInfo_def
    kDepletedInfo_def kDischargingInfo_def kEcoModeInfo_def kFanfailInfo_def kFrangeInfo_def kFullychargedInfo_def
    kLowbattInfo_def kMgeOnbattInfo_def kNobatteryInfo_def kOffInfo_def kOnlineInfo_def kOverheatInfo_def kOverloadInfo_def
    kReplacebattInfo_def kShutdownimmInfo_def kTimelimitexpiredInfo_def kTrimInfo_def kVrangeInfo_def)

lemma lookups_distinct:
  "lookup_distinct kYesNo" "lookup_distinct kEnableDisable" "lookup_distinct kMgeSensitivity" "lookup_distinct kApcSensitivity"
  "lookup_distinct kCpsSensitivity"
  by (simp_all add: lookup_distinct_def kYesNo_def kEnableDisable_def kMgeSensitivity_def kApcSensitivity_def kCpsSensitivity_def)

lemma row_ok_row:
  "row_ok (row n f l p d h c k) \<longleftrightarrow>
     (n = ''BOOL'' \<longrightarrow> token_lookup k) \<and> (f AND 1 \<noteq> 0 \<longrightarrow> f AND 2 \<noteq> 0) \<and> (f AND 1 \<noteq> 0 \<and> c = CvLookup \<longrightarrow> lookup_distinct k) \<and>
     (h AND 8 \<noteq> 0 \<longrightarrow> d \<noteq> None) \<and>
     ((n = ''BOOL'' \<or> n = ''ups.alarm'' \<or> (case c of CvMgeCountry \<Rightarrow> True | CvAbmEnabled \<Rightarrow> True | CvAbmPathMode \<Rightarrow> True
         | CvAbmPathStatus \<Rightarrow> True | _ \<Rightarrow> False) \<or> h AND 64 \<noteq> 0) = (n \<in> set exempt_names))"
  by (auto simp: row_ok_def row_def isInternalRow_def isAlarmRow_def isCommandRow_def)

lemmas row_facts = row_ok_row token_lookups lookups_distinct exempt_names_def

lemma mge_rows_1_ok: "list_all row_ok (mge_rows_1 unmapped)"
  by (simp add: mge_rows_1_def row_facts)

lemma mge_rows_2_ok: "list_all row_ok (mge_rows_2 unmapped)"
  by (simp add: mge_rows_2_def row_facts)

lemma mge_rows_3_ok: "list_all row_ok (mge_rows_3 unmapped)"
  by (simp add: mge_rows_3_def row_facts)

lemma mge_rows_4_ok: "list_all row_ok (mge_rows_4 unmapped)"
  by (simp add: mge_rows_4_def row_facts)

lemma mge_rows_5_ok: "list_all row_ok (mge_rows_5 unmapped)"
  by (simp add: mge_rows_5_def row_facts)

lemma mge_rows_6_ok: "list_all row_ok (mge_rows_6 unmapped)"
  by (simp add: mge_rows_6_def row_facts)

lemma apc_rows_1_ok: "list_all row_ok (apc_rows_1 unmapped)"
  by (simp add: apc_rows_1_def row_facts)

lemma apc_rows_2_ok: "list_all row_ok (apc_rows_2 unmapped)"
  by (simp add: apc_rows_2_def row_facts)

lemma apc_rows_3_ok: "list_all row_ok (apc_rows_3 unmapped)"
  by (simp add: apc_rows_3_def row_facts)

lemma cps_rows_1_ok: "list_all row_ok (cps_rows_1 unmapped)"
  by (simp add: cps_rows_1_def row_facts)

lemma cps_rows_2_ok: "list_all row_ok (cps_rows_2 unmapped)"
  by (simp add: cps_rows_2_def row_facts)

lemma ecoflowHid2Nut_ok: "list_all row_ok (ecoflowHid2Nut unmapped)"
  by (simp add: ecoflowHid2Nut_def row_facts)

lemma openupsHid2Nut_ok: "list_all row_ok (openupsHid2Nut unmapped)"
  by (simp add: openupsHid2Nut_def row_facts)

lemma powercom_rows_1_ok: "list_all row_ok (powercom_rows_1 unmapped)"
  by (simp add: powercom_rows_1_def row_facts)

lemma powercom_rows_2_ok: "list_all row_ok (powercom_rows_2 unmapped)"
  by (simp add: powercom_rows_2_def row_facts)

lemma powercom_rows_3_ok: "list_all row_ok (powercom_rows_3 unmapped)"
  by (simp add: powercom_rows_3_def row_facts)

lemma legrandHid2Nut_ok: "list_all row_ok (legrandHid2Nut unmapped)"
  by (simp add: legrandHid2Nut_def row_facts)

lemma liebert_rows_1_ok: "list_all row_ok (liebert_rows_1 unmapped)"
  by (simp add: liebert_rows_1_def row_facts)

lemma liebert_rows_2_ok: "list_all row_ok (liebert_rows_2 unmapped)"
  by (simp add: liebert_rows_2_def row_facts)

lemma generic_rows_1_ok: "list_all row_ok (generic_rows_1 unmapped)"
  by (simp add: generic_rows_1_def row_facts)

lemma generic_rows_2_ok: "list_all row_ok (generic_rows_2 unmapped)"
  by (simp add: generic_rows_2_def row_facts)

lemma generic_rows_3_ok: "list_all row_ok (generic_rows_3 unmapped)"
  by (simp add: generic_rows_3_def row_facts)

definition hid_tables :: "bool \<Rightarrow> hid_info list list" where
  "hid_tables unmapped = [mgeHid2Nut unmapped, apcHid2Nut unmapped, cpsHid2Nut unmapped, ecoflowHid2Nut unmapped, openupsHid2Nut unmapped,
     powercomHid2Nut unmapped, legrandHid2Nut unmapped, liebertHid2Nut unmapped, genericHid2Nut unmapped]"

lemmas part_facts = mge_rows_1_ok mge_rows_2_ok mge_rows_3_ok mge_rows_4_ok mge_rows_5_ok mge_rows_6_ok apc_rows_1_ok apc_rows_2_ok
  apc_rows_3_ok cps_rows_1_ok cps_rows_2_ok ecoflowHid2Nut_ok openupsHid2Nut_ok powercom_rows_1_ok powercom_rows_2_ok powercom_rows_3_ok
  legrandHid2Nut_ok liebert_rows_1_ok liebert_rows_2_ok generic_rows_1_ok generic_rows_2_ok generic_rows_3_ok

lemma hid_tables_ok: "table \<in> set (hid_tables unmapped) \<Longrightarrow> info \<in> set table \<Longrightarrow> row_ok info"
proof -
  have "list_all (list_all row_ok) (hid_tables unmapped)"
    by (simp add: hid_tables_def mgeHid2Nut_def apcHid2Nut_def cpsHid2Nut_def powercomHid2Nut_def liebertHid2Nut_def genericHid2Nut_def
        part_facts)
  then show "table \<in> set (hid_tables unmapped) \<Longrightarrow> info \<in> set table \<Longrightarrow> row_ok info" by (simp add: list_all_iff)
qed

section \<open>Bindings of the tables\<close>

definition rows_ok :: "bound list \<Rightarrow> bool" where
  "rows_ok bs \<longleftrightarrow> (\<forall>b \<in> set bs. row_ok (bd_info b))"

lemma bind_row_info: "bind_row info usages skip = Some b \<Longrightarrow> bd_info b = info"
  by (auto simp: bind_row_def bound_new_def Let_def split: if_splits option.splits)

lemma rows_ok_bindRows:
  "rows_ok binds \<Longrightarrow> table \<in> set (hid_tables unmapped) \<Longrightarrow> rows_ok (bindRows binds table usages skip)"
  using bind_row_info [of _ usages skip] hid_tables_ok [of table unmapped]
  by (fastforce simp: rows_ok_def bindRows_def split: option.splits)

lemma rows_ok_kinds: "rows_ok bs \<Longrightarrow> kinds_apart bs"
  by (auto simp: rows_ok_def kinds_apart_def exempt_def row_ok_def)

lemma rows_ok_evolves:
  assumes "list_all2 evolves bs cs" "rows_ok bs"
  shows "rows_ok cs"
proof -
  have "bd_info (cs ! i) = bd_info (bs ! i)" if "i < length bs" for i
    using assms(1) that by (simp add: list_all2_conv_all_nth evolves_def)
  moreover have "length cs = length bs" using assms(1) by (simp add: list_all2_lengthD)
  ultimately show ?thesis using assms(2) unfolding rows_ok_def by (metis in_set_conv_nth)
qed

lemma name_token_lower: "token_name t \<in> set (''normal'' # kStatusTokens) \<Longrightarrow> lower_token t"
proof -
  assume "token_name t \<in> set (''normal'' # kStatusTokens)"
  moreover have "lower_token ''normal''" by (simp add: lower_token_def lower_def in_range_def ord_def)
  ultimately have "lower_token (token_name t)" using kStatusTokens_lower by (auto simp: lower_token_def)
  moreover have "lower (CHR ''!'') = CHR ''!''" by (simp add: lower_def in_range_def ord_def)
  ultimately show ?thesis by (auto simp: lower_token_def token_name_def token_clears_def split: list.splits if_splits)
qed

lemma rows_ok_lower: "rows_ok bs \<Longrightarrow> b \<in> set bs \<Longrightarrow> bool_lower b"
  using name_token_lower
  by (auto simp: rows_ok_def row_ok_def bool_lower_def token_lookup_def lower_row_def list_all_iff)

text \<open>What a driver does with its rows: values and strings come, the first poll ends, the internal
  rows are walked.\<close>

datatype table_event = TeBind bind_event | TeWalk "ups_data option"

definition table_step :: "table_event \<Rightarrow> bound list \<times> nut_context \<Rightarrow> bound list \<times> nut_context" where
  "table_step e s = (case e of TeBind b \<Rightarrow> bind_step s b | TeWalk data \<Rightarrow> (fst s, walkInternalRows (fst s) (snd s) data))"

definition table_inv :: "bound list \<times> nut_context \<Rightarrow> bool" where
  "table_inv s \<longleftrightarrow> rows_ok (fst s) \<and> roles_ok (fst s) \<and> status_ok (cx_status (snd s))"

lemma table_step_inv: "table_inv s \<Longrightarrow> table_inv (table_step e s)"
proof (cases e)
  case (TeBind b)
  assume inv: "table_inv s"
  have "rows_ok (fst (bind_step s b))" "roles_ok (fst (bind_step s b))"
    using bind_step_moves [of s b] inv rows_ok_evolves by (auto simp: table_inv_def binding_moves_def)
  moreover have "status_ok (cx_status (snd (bind_step s b)))"
    using inv rows_ok_lower onValue_status_ok by (cases b) (auto simp: table_inv_def bind_step_def)
  ultimately show "table_inv (table_step e s)" by (simp add: table_inv_def table_step_def TeBind)
next
  case (TeWalk data)
  assume "table_inv s"
  then show "table_inv (table_step e s)"
    by (auto simp: table_inv_def table_step_def TeWalk intro!: walk_keeps_status_ok dest: rows_ok_lower)
qed

lemma table_run_inv: "table_inv s \<Longrightarrow> table_inv (fold table_step es s)"
  by (induction es arbitrary: s) (simp_all add: table_step_inv)

text \<open>As \<open>bindNutTable\<close>: the table of the driver, then the generic rows it does not supersede.\<close>

definition bind_tables :: "hid_info list \<Rightarrow> hid_info list \<Rightarrow> hid_usage_def list \<Rightarrow> string list \<Rightarrow> bound list" where
  "bind_tables table tail usages skip = resolve (bindRows (bindRows [] table usages []) tail usages skip)"

lemma table_inv_bind:
  assumes "table \<in> set (hid_tables unmapped)" "tail \<in> set (hid_tables unmapped)"
  shows "table_inv (bind_tables table tail usages skip, initial_context)"
proof -
  let ?bs = "bindRows (bindRows [] table usages []) tail usages skip"
  have rows: "rows_ok ?bs" using assms by (intro rows_ok_bindRows) (simp_all add: rows_ok_def)
  then have "rows_ok (resolve ?bs)" using rows_ok_evolves [OF resolve_evolves] by blast
  moreover have "roles_ok (resolve ?bs)"
    by (rule roles_ok_resolve [OF _ rows_ok_kinds [OF rows]]) (simp add: list_all2_refl)
  moreover have "status_ok (cx_status initial_context)" by (simp add: initial_context_def status_ok_def)
  ultimately show ?thesis by (simp add: table_inv_def bind_tables_def)
qed

text \<open>C10: for every device and every vendor table, whatever the device answers: a variable is
  published by at most one row, the first that converts, and the status bits online and offline,
  and fully charged and not fully charged, are never set together. A device starts from the context of a
  driver just made.\<close>

theorem device_consistent:
  assumes "table \<in> set (hid_tables unmapped)" "tail \<in> set (hid_tables unmapped)"
    and "(binds, ctx) = fold table_step events (bind_tables table tail usages skip, initial_context)"
  shows "(\<forall>i < length binds. \<not> exempt (binds ! i) \<longrightarrow> bd_role (binds ! i) = role_spec binds i) \<and>
    (\<forall>i < length binds. \<forall>j < length binds. same_var binds i j \<and> bd_role (binds ! i) = RoleActive \<and> bd_role (binds ! j) = RoleActive \<longrightarrow> i = j) \<and>
    status_ok (cx_status ctx)"
proof -
  have inv: "table_inv (binds, ctx)"
    unfolding assms(3) by (rule table_run_inv [OF table_inv_bind [OF assms(1,2)]])
  then have roles: "bd_role (binds ! i) = role_spec binds i" if "i < length binds" "\<not> exempt (binds ! i)" for i
    using that by (simp add: table_inv_def roles_ok_def)
  have "i = j" if "i < length binds" "j < length binds" "same_var binds i j" "bd_role (binds ! i) = RoleActive" "bd_role (binds ! j) = RoleActive" for i j
  proof -
    have "role_spec binds i = RoleActive" "role_spec binds j = RoleActive" using roles that by (auto simp: same_var_def)
    then show ?thesis using leads_unique [OF _ _ that(3)] by (simp add: active_leads)
  qed
  with inv roles show ?thesis by (auto simp: table_inv_def)
qed

theorem device_consistent_witness:
  "status_ok (cx_status (snd (fold table_step [TeBind (EvValue 0 1 None), TeWalk None, TeBind EvPollEnd]
     (bind_tables (openupsHid2Nut False) (genericHid2Nut False) [hu_new] [], initial_context))))"
  using device_consistent [of "openupsHid2Nut False" False "genericHid2Nut False" _ _
      "[TeBind (EvValue 0 1 None), TeWalk None, TeBind EvPollEnd]" "[hu_new]" "[]", OF _ _ prod.collapse]
  by (simp add: hid_tables_def)

section \<open>Values set from a list\<close>

lemma lookup_text_member2: "lookup_text es v = Some t \<Longrightarrow> v \<in> fst ` set es"
  by (induction es) (auto split: if_splits)

lemma lookup_hid_text:
  "distinct (map snd es) \<Longrightarrow> distinct (map fst es) \<Longrightarrow> lookup_hid es t = Some v \<Longrightarrow> lookup_text es v = Some t"
proof (induction es)
  case (Cons e es)
  show ?case
  proof (cases "snd e = t")
    case False
    with Cons.prems have v: "lookup_hid es t = Some v" by simp
    then have "lookup_text es v = Some t" using Cons by simp
    moreover have "fst e \<noteq> v" using lookup_text_member2 Cons.prems(2) calculation by fastforce
    ultimately show ?thesis by simp
  qed (use Cons.prems in simp)
qed simp

lemma lookup_hid_member: "(v, t) \<in> set es \<Longrightarrow> lookup_hid es t \<noteq> None"
  by (induction es) auto

text \<open>The lists of voltages and of thresholds are the same in every table.\<close>

definition list_ok :: "hid_info \<Rightarrow> bool" where
  "list_ok info \<longleftrightarrow> (hi_conv info = CvNominalVoltage \<longrightarrow> hi_lkp info = kNominalOutputVoltage) \<and>
     (hi_conv info = CvPegasusThreshold \<longrightarrow> hi_lkp info = kPegasusThreshold)"

lemma list_ok_row: "list_ok (row n f l p d h c k) \<longleftrightarrow>
    (case c of CvNominalVoltage \<Rightarrow> k = kNominalOutputVoltage | CvPegasusThreshold \<Rightarrow> k = kPegasusThreshold | _ \<Rightarrow> True)"
  by (simp add: list_ok_def row_def split: conv.split)

lemma hid_tables_lists: "table \<in> set (hid_tables unmapped) \<Longrightarrow> info \<in> set table \<Longrightarrow> list_ok info"
proof -
  have "list_all list_ok (mgeHid2Nut unmapped)"
    by (simp add: mgeHid2Nut_def mge_rows_1_def mge_rows_2_def mge_rows_3_def mge_rows_4_def mge_rows_5_def mge_rows_6_def list_ok_row)
  moreover have "list_all list_ok (apcHid2Nut unmapped)" "list_all list_ok (cpsHid2Nut unmapped)"
    by (simp_all add: apcHid2Nut_def apc_rows_1_def apc_rows_2_def apc_rows_3_def cpsHid2Nut_def cps_rows_1_def cps_rows_2_def list_ok_row)
  moreover have "list_all list_ok (ecoflowHid2Nut unmapped)" "list_all list_ok (openupsHid2Nut unmapped)" "list_all list_ok (legrandHid2Nut unmapped)"
    by (simp_all add: ecoflowHid2Nut_def openupsHid2Nut_def legrandHid2Nut_def list_ok_row)
  moreover have "list_all list_ok (powercomHid2Nut unmapped)" "list_all list_ok (liebertHid2Nut unmapped)"
    by (simp_all add: powercomHid2Nut_def powercom_rows_1_def powercom_rows_2_def powercom_rows_3_def liebertHid2Nut_def liebert_rows_1_def
      liebert_rows_2_def list_ok_row)
  moreover have "list_all list_ok (genericHid2Nut unmapped)"
    by (simp add: genericHid2Nut_def generic_rows_1_def generic_rows_2_def generic_rows_3_def list_ok_row)
  ultimately have "list_all (list_all list_ok) (hid_tables unmapped)" by (simp add: hid_tables_def)
  then show "table \<in> set (hid_tables unmapped) \<Longrightarrow> info \<in> set table \<Longrightarrow> list_ok info" by (simp add: list_all_iff)
qed

text \<open>The lists of numbers: distinct, and each text is the one that its number is printed as.\<close>

lemma number_lists: "list_all (\<lambda>es. lookup_distinct es \<and> list_all (\<lambda>e. formatRounded (of_int (fst e)) = snd e) es) [kNominalOutputVoltage, kPegasusThreshold]"
  by code_simp

lemma listed_text:
  assumes "table \<in> set (hid_tables unmapped)" "info \<in> set table" "hi_info_flags info AND ST_FLAG_RW \<noteq> 0"
    and "hi_conv info = CvLookup \<or> hi_conv info = CvNominalVoltage \<or> hi_conv info = CvPegasusThreshold"
    and "lookup_hid (hi_lkp info) t = Some v"
  shows "if hi_conv info = CvLookup then decode info (of_int v) ctx data = (ctx, DecOk t)
    else snd (decode info (of_int v) ctx data) \<in> {DecOk t, DecFail, DecDefer}"
proof (cases "hi_conv info = CvLookup")
  case True
  then have "distinct (map fst (hi_lkp info))" "distinct (map snd (hi_lkp info))"
    using hid_tables_ok [OF assms(1,2)] assms(3) by (auto simp: row_ok_def lookup_distinct_def)
  with lookup_hid_text [OF _ _ assms(5)] True show ?thesis by (simp add: decode_def staticText_def)
next
  case False
  have "lookup_hid es s = Some v \<Longrightarrow> (v, s) \<in> set es" for es s v by (induction es) (auto split: if_splits)
  then have m: "(v, t) \<in> set (hi_lkp info)" using assms(5) by blast
  have "hi_lkp info \<in> {kNominalOutputVoltage, kPegasusThreshold}"
    using hid_tables_lists [OF assms(1,2)] assms(4) False by (auto simp: list_ok_def)
  then have r: "formatRounded (of_int v) = t" using number_lists m by (fastforce simp: list_all_iff)
  show ?thesis
  proof (cases "hi_conv info = CvNominalVoltage")
    case True
    then show ?thesis by (simp add: decode_def split_beta Let_def r)
  next
    case no: False
    then have "hi_conv info = CvPegasusThreshold" using assms(4) False by blast
    then show ?thesis by (simp add: decode_def r)
  qed
qed

text \<open>C23: the writable lists of the tables round trip. A text of the list of a writable row is
  encoded, and the value written reads back as the same text; any other text is refused. A row of nominal
  voltages or of thresholds of the MGE table may also show nothing, on a model that has not the
  value or is not known yet. The rows \<open>outlet.n.switchable\<close> of that table are another kind (\<open>CvPegasusYesNo\<close>): they take any
  text, for 0 unless it starts with \<open>yes\<close>, as the comment of \<open>encode()\<close> says.\<close>

theorem table_enum_roundtrip:
  assumes "table \<in> set (hid_tables unmapped)" "info \<in> set table" "hi_info_flags info AND ST_FLAG_RW \<noteq> 0"
    and "hi_conv info = CvLookup \<or> hi_conv info = CvNominalVoltage \<or> hi_conv info = CvPegasusThreshold"
  shows "(t \<in> snd ` set (hi_lkp info) \<longrightarrow>
      (\<exists>v. encode info (Some t) ctx data = Some v \<and>
         (if hi_conv info = CvLookup then decode info v ctx' data' = (ctx', DecOk t)
          else snd (decode info v ctx' data') \<in> {DecOk t, DecFail, DecDefer}))) \<and>
    (t \<notin> snd ` set (hi_lkp info) \<longrightarrow> encode info (Some t) ctx data = None)"
proof -
  have none: "lookup_hid es t = None" if "t \<notin> snd ` set es" for es using that by (induction es) auto
  have e: "encode info (Some t) ctx data = map_option of_int (lookup_hid (hi_lkp info) t)"
    using assms(4) by (auto simp: encode_def)
  show ?thesis
  proof (intro conjI impI)
    assume "t \<in> snd ` set (hi_lkp info)"
    then obtain v where v: "lookup_hid (hi_lkp info) t = Some v" using lookup_hid_member by fastforce
    with listed_text [OF assms v, of ctx' data'] e show "\<exists>v. encode info (Some t) ctx data = Some v \<and>
         (if hi_conv info = CvLookup then decode info v ctx' data' = (ctx', DecOk t)
          else snd (decode info v ctx' data') \<in> {DecOk t, DecFail, DecDefer})"
      by (intro exI [of _ "of_int v"]) simp
  next
    assume "t \<notin> snd ` set (hi_lkp info)"
    then show "encode info (Some t) ctx data = None" using none e by simp
  qed
qed

lemma cps_sensitivity_row:
  "row ''input.sensitivity'' 3 0 ''UPS.Output.0xFF010043'' (Some ''%s'') 132 CvLookup kCpsSensitivity \<in> set (cpsHid2Nut False)"
  by (simp add: cpsHid2Nut_def cps_rows_1_def cps_rows_2_def row_def)

theorem table_enum_roundtrip_witness:
  "\<exists>v. encode (row ''input.sensitivity'' 3 0 ''UPS.Output.0xFF010043'' (Some ''%s'') 132 CvLookup kCpsSensitivity) (Some ''high'') initial_context ud_new
      = Some v \<and>
    decode (row ''input.sensitivity'' 3 0 ''UPS.Output.0xFF010043'' (Some ''%s'') 132 CvLookup kCpsSensitivity) v initial_context None
      = (initial_context, DecOk ''high'')"
  using table_enum_roundtrip [OF _ cps_sensitivity_row, of False "''high''" initial_context ud_new initial_context None]
  by (simp add: hid_tables_def row_def kCpsSensitivity_def)

text \<open>A flaw of the tables: the text \<open>normal\<close> of \<open>kEcoModeInfo\<close> is no status token, so the value 0 of
  the ECO input clears neither \<open>ecomode\<close> nor \<open>essmode\<close>.\<close>

definition eco_row :: hid_info where
  "eco_row = row ''BOOL'' 0 0 ''UPS.PowerConverter.Input.[5].PresentStatus.Used'' None 0 CvLookup kEcoModeInfo"

lemma ecomode_never_cleared:
  "eco_row \<in> set (mgeHid2Nut unmapped)"
  "applyStatusToken s (statusToken eco_row 0 ctx data) = s"
  "bit (sb_set (applyStatusToken s (statusToken eco_row 1 ctx data))) 12"
proof -
  show "eco_row \<in> set (mgeHid2Nut unmapped)" by (simp add: eco_row_def mgeHid2Nut_def mge_rows_2_def)
  have t: "statusToken eco_row 0 ctx data = Some ''normal''" "statusToken eco_row 1 ctx data = Some ''ecomode''"
    by (simp_all add: statusToken_def eco_row_def row_def kEcoModeInfo_def to_int_def)
  have "token_index kStatusTokens 0 ''normal'' = None" "token_index kStatusTokens 0 ''ecomode'' = Some 12"
    by (simp_all add: kStatusTokens_def equalsIgnoreCase_lower lower_def in_range_def ord_def)
  then show "applyStatusToken s (statusToken eco_row 0 ctx data) = s"
    "bit (sb_set (applyStatusToken s (statusToken eco_row 1 ctx data))) 12"
    unfolding t by (simp_all add: applyStatusToken_def applyStatusToken_bit_def Let_def bit_or_iff bit_statusBit)
qed

end
