(* ===== verification/DriverModel.thy ===== *)
theory DriverModel
  imports NutTableFacts
begin

text \<open>
  The state of \<open>GenericDriver\<close> (\<open>lib/USBHostUPS/src/GenericDriver.h\<close>), the virtual functions
  that a vendor driver overrides (\<open>driver_policy\<close>, with the defaults of the class), and what a
  driver sees of its transport (\<open>IHidTransport.h\<close>). A bitmap of report IDs is the set of its
  IDs, with the slot 0 for INPUT and 1 for FEATURE where there are two. Log lines and the lock
  are not modelled.
\<close>

unbundle bit_operations_syntax

section \<open>The transport\<close>

record hid_transport =
  ht_usages :: "hid_usage_def list"
  ht_beeper :: string
  ht_quirks :: u32
  ht_paused :: bool
  ht_input_age :: "u8 \<Rightarrow> u32 \<Rightarrow> u32"
  ht_expected :: "u8 \<Rightarrow> u8 \<Rightarrow> u16"
  ht_iManufacturer :: u8
  ht_iProduct :: u8
  ht_iSerialNumber :: u8
  ht_pid :: u16

record quirk_def =
  qd_vid :: u16
  qd_pid :: u16
  qd_flags :: u32

abbreviation (input) QUIRK_INVERT_STRINGS :: u32 where "QUIRK_INVERT_STRINGS \<equiv> 1"
abbreviation (input) QUIRK_NO_INTERRUPT_PIPE :: u32 where "QUIRK_NO_INTERRUPT_PIPE \<equiv> 16"

definition UPS_QUIRKS :: "quirk_def list" where
  "UPS_QUIRKS = [\<lparr>qd_vid = 0x0764, qd_pid = 0x0501, qd_flags = QUIRK_INVERT_STRINGS\<rparr>,
     \<lparr>qd_vid = 0x0D9F, qd_pid = 0x0004, qd_flags = 0\<rparr>, \<lparr>qd_vid = 0x051D, qd_pid = 0x0002, qd_flags = 0\<rparr>,
     \<lparr>qd_vid = 0x051D, qd_pid = 0x0003, qd_flags = QUIRK_NO_INTERRUPT_PIPE\<rparr>,
     \<lparr>qd_vid = 0x051D, qd_pid = 0x0004, qd_flags = QUIRK_NO_INTERRUPT_PIPE\<rparr>, \<lparr>qd_vid = 0, qd_pid = 0, qd_flags = 0\<rparr>]"

definition no_interrupt_pipe :: "hid_transport \<Rightarrow> bool" where
  "no_interrupt_pipe host \<longleftrightarrow> ht_quirks host AND QUIRK_NO_INTERRUPT_PIPE \<noteq> 0"

section \<open>Usages\<close>

definition isStatusUsage :: "hid_usage_def \<Rightarrow> bool" where
  "isStatusUsage u \<longleftrightarrow>
     (if hu_usage u \<in> {0x00840035, 0x00840065, 0x00840069, 0x00840073, 0x00850042, 0x00850044, 0x00850045, 0x0085004b,
        0x00850066, 0x00850068, 0x008500d0} then True
      else contains (hu_path u) ''.PresentStatus.'')"

definition isDynamicUsage :: "hid_usage_def \<Rightarrow> bool" where
  "isDynamicUsage u \<longleftrightarrow>
     (if isStatusUsage u then True
      else let page = hu_usage u AND 0xFFFF0000; i = (ucast (hu_usage u) :: u16)
           in if page = 0x00840000 \<and> ((0x30 \<le> i \<and> i \<le> 0x37) \<or> (0x55 \<le> i \<and> i \<le> 0x58) \<or> i = 0x5a \<or> (0x60 \<le> i \<and> i \<le> 0x7f)) then True
              else if page = 0x00850000 \<and> ((0x40 \<le> i \<and> i \<le> 0x4f) \<or> (0x66 \<le> i \<and> i \<le> 0x6b) \<or> (0xd0 \<le> i \<and> i \<le> 0xdf)) then True
              else contains (hu_path u) ''Delay'' \<or> contains (hu_path u) ''Status'' \<or> contains (hu_path u) ''LineFailCause'')"

text \<open>\<open>beeper_info\<close>: a field of one bit is on or off.\<close>

definition decodeBeeperStatus :: "ups_data \<Rightarrow> rat \<Rightarrow> hid_usage_def \<Rightarrow> ups_data" where
  "decodeBeeperStatus data v def =
     (case (if hu_bit_size def = 1 then Some (if v \<noteq> 0 then ''enabled'' else ''disabled'')
            else if v = 1 then Some ''disabled'' else if v = 2 then Some ''enabled'' else if v = 3 then Some ''muted'' else None) of
        None \<Rightarrow> data
      | Some status \<Rightarrow> if ud_valueEquals data ''ups.beeper.status'' status then data else ud_set data ''ups.beeper.status'' status)"

section \<open>What a vendor driver overrides\<close>

record poll_item =
  pi_type :: u8
  pi_id :: u8
  pi_length :: u16

text \<open>\<open>dv_generic\<close>: the table of the driver is \<open>genericHid2Nut\<close> itself. \<open>dv_ownLists\<close>: the lists of a
  driver that overrides \<open>buildPollLists\<close>; \<open>dv_deviceStrings\<close> and \<open>dv_moreStrings\<close>: what an override of
  \<open>collectStringRequests\<close> leaves out and adds.\<close>

record driver_policy =
  dv_name :: string
  dv_table :: "hid_info list"
  dv_generic :: bool
  dv_tail :: "hid_info list"
  dv_superseded :: "string list"
  dv_quickPollMs :: u32
  dv_fullPollMs :: u32
  dv_stepSpacingMs :: u32
  dv_maxReportAgeMs :: u32
  dv_pollStaticOnce :: bool
  dv_isStaticUsage :: "hid_usage_def \<Rightarrow> bool"
  dv_acceptPollReport :: "u8 \<Rightarrow> u8 \<Rightarrow> bool"
  dv_pollInputReports :: bool
  dv_readsFieldOutsideRows :: "hid_usage_def \<Rightarrow> bool"
  dv_requestTableStrings :: "hid_transport \<Rightarrow> bool"
  dv_requestLength :: "u8 \<Rightarrow> u8 \<Rightarrow> u16 \<Rightarrow> u16"
  dv_filterStatus :: "status_bits \<Rightarrow> status_bits"
  dv_decodeBeeper :: "ups_data \<Rightarrow> rat \<Rightarrow> hid_usage_def \<Rightarrow> ups_data"
  dv_delayAux :: u8
  dv_ownLists :: "(hid_transport \<Rightarrow> poll_item list \<times> poll_item list) option"
  dv_deviceStrings :: bool
  dv_moreStrings :: "u8 list"

definition generic_policy :: "bool \<Rightarrow> driver_policy" where
  "generic_policy unmapped = \<lparr>dv_name = ''GenericDriver'', dv_table = genericHid2Nut unmapped, dv_generic = True,
     dv_tail = genericHid2Nut unmapped, dv_superseded = [], dv_quickPollMs = 2000, dv_fullPollMs = 30000, dv_stepSpacingMs = 50,
     dv_maxReportAgeMs = 2000, dv_pollStaticOnce = False, dv_isStaticUsage = (\<lambda>u. \<not> isDynamicUsage u),
     dv_acceptPollReport = (\<lambda>t i. True), dv_pollInputReports = True, dv_readsFieldOutsideRows = (\<lambda>u. False),
     dv_requestTableStrings = (\<lambda>h. True), dv_requestLength = (\<lambda>t i n. n), dv_filterStatus = (\<lambda>s. s),
     dv_decodeBeeper = decodeBeeperStatus, dv_delayAux = 10, dv_ownLists = None, dv_deviceStrings = True,
     dv_moreStrings = []\<rparr>"

section \<open>The state of the driver\<close>

abbreviation (input) STRING_ITEM :: u8 where "STRING_ITEM \<equiv> 0"

record generic_driver =
  gd_active_beeper :: string
  gd_own_rows :: nat
  gd_beeper_row :: bool
  gd_beeper_usages :: "nat list"
  gd_beeper_indexed :: bool
  gd_lists_built :: bool
  gd_lists_pruned :: bool
  gd_input_values_polled :: bool
  gd_active_power_checked :: bool
  gd_quick :: "poll_item list"
  gd_full :: "poll_item list"
  gd_queue :: "poll_item list"
  gd_queue_pos :: nat
  gd_input_twin :: "u8 set"
  gd_static_report :: "(nat \<times> u8) set"
  gd_decoded_report :: "(nat \<times> u8) set"
  gd_semi_static :: "(nat \<times> u8) set"
  gd_semi_classified :: bool
  gd_semi_undecided :: bool
  gd_semi_count :: nat
  gd_data_changed :: bool
  gd_cycle_rereads :: bool
  gd_step_now :: bool
  gd_cycle_full :: bool
  gd_strings_rechecked :: bool
  gd_first_full_done :: bool
  gd_cycle_strings :: "u8 list"
  gd_last_quick :: u32
  gd_last_full :: u32
  gd_last_step :: u32
  gd_rows :: "bound list"
  gd_nut_bound :: bool
  gd_nut_init_done :: bool
  gd_nut_has_realpower :: bool
  gd_nut_usage_count :: nat
  gd_ctx :: nut_context
  gd_absent_overrides :: "(string \<times> string) list"

definition gd_new :: generic_driver where
  "gd_new = \<lparr>gd_active_beeper = [], gd_own_rows = 0, gd_beeper_row = False, gd_beeper_usages = [], gd_beeper_indexed = False,
     gd_lists_built = False, gd_lists_pruned = False, gd_input_values_polled = False, gd_active_power_checked = False,
     gd_quick = [], gd_full = [], gd_queue = [], gd_queue_pos = 0, gd_input_twin = {}, gd_static_report = {},
     gd_decoded_report = {}, gd_semi_static = {}, gd_semi_classified = False, gd_semi_undecided = False, gd_semi_count = 0,
     gd_data_changed = False, gd_cycle_rereads = False, gd_step_now = False, gd_cycle_full = False,
     gd_strings_rechecked = False, gd_first_full_done = False, gd_cycle_strings = [], gd_last_quick = 0, gd_last_full = 0,
     gd_last_step = 0, gd_rows = [], gd_nut_bound = False, gd_nut_init_done = False, gd_nut_has_realpower = False,
     gd_nut_usage_count = 0, gd_ctx = initial_context, gd_absent_overrides = []\<rparr>"

text \<open>\<open>setup\<close> puts every member back to its first value.\<close>

definition gd_setup :: "generic_driver \<Rightarrow> generic_driver" where
  "gd_setup gd = gd_new"

definition typeSlot :: "u8 \<Rightarrow> nat" where
  "typeSlot report_type = (if report_type = 1 then 0 else 1)"

text \<open>The usages of a row: its own and its twin, when the index is still in the list.\<close>

definition row_usages :: "hid_usage_def list \<Rightarrow> bound \<Rightarrow> hid_usage_def list" where
  "row_usages usages b =
     map (\<lambda>i. usages ! i) (filter (\<lambda>i. i < length usages) (bd_idx b # (case bd_twin_idx b of Some t \<Rightarrow> [t] | None \<Rightarrow> [])))"

definition isQuickPollStatusUsage :: "driver_policy \<Rightarrow> hid_usage_def \<Rightarrow> bool" where
  "isQuickPollStatusUsage dv u =
     list_ex (\<lambda>info. hi_hidflags info AND HU_FLAG_QUICK_POLL \<noteq> 0 \<and> (isInternalRow info \<or> hi_conv info = CvAbmStatus) \<and>
       rowMatches u info) (dv_table dv)"

fun featureReportOf :: "hid_usage_def list \<Rightarrow> hid_info \<Rightarrow> u8" where
  "featureReportOf [] info = 0"
| "featureReportOf (u # us) info =
     (if hu_report_type u = 3 \<and> hu_report_id u \<noteq> 0 \<and> rowMatches u info then hu_report_id u else featureReportOf us info)"

definition isReportRead :: "driver_policy \<Rightarrow> hid_transport \<Rightarrow> hid_usage_def \<Rightarrow> bool" where
  "isReportRead dv host u =
     (if hu_report_type u = 1 then \<not> no_interrupt_pipe host
      else hu_report_type u = 3 \<and> dv_acceptPollReport dv (hu_report_type u) (hu_report_id u))"

definition readsActivePower :: "driver_policy \<Rightarrow> hid_transport \<Rightarrow> bool" where
  "readsActivePower dv host =
     list_ex (\<lambda>u. (hu_path u = ''UPS.Output.ActivePower'' \<or> hu_path u = ''UPS.PowerConverter.Output.ActivePower'') \<and> isReportRead dv host u)
       (ht_usages host)"

text \<open>Changes from outside: \<open>noteDataChanged\<close>, \<open>invalidateReport\<close>, \<open>pollSoon\<close>.\<close>

definition noteDataChanged :: "generic_driver \<Rightarrow> generic_driver" where
  "noteDataChanged gd = gd\<lparr>gd_data_changed := True\<rparr>"

definition invalidateReport :: "u8 \<Rightarrow> u8 \<Rightarrow> generic_driver \<Rightarrow> generic_driver" where
  "invalidateReport report_type report_id gd =
     (if report_type = 1 \<or> report_type = 3
      then gd\<lparr>gd_decoded_report := gd_decoded_report gd - {(typeSlot report_type, report_id)}\<rparr> else gd)"

definition pollSoon :: "poll_item \<Rightarrow> generic_driver \<Rightarrow> generic_driver" where
  "pollSoon item gd =
     (if list_ex (\<lambda>q. pi_type q = pi_type item \<and> pi_id q = pi_id item) (drop (gd_queue_pos gd) (gd_queue gd)) then gd
      else gd\<lparr>gd_queue := take (gd_queue_pos gd) (gd_queue gd) @ item # drop (gd_queue_pos gd) (gd_queue gd)\<rparr>)"

definition beeperFieldRead :: "hid_transport option \<Rightarrow> generic_driver \<Rightarrow> bool" where
  "beeperFieldRead host gd =
     (case host of
        None \<Rightarrow> False
      | Some host \<Rightarrow>
          if ht_beeper host = [] then False
          else list_ex (\<lambda>u. (hu_report_type u = 1 \<or> hu_report_type u = 3) \<and> hu_path u = ht_beeper host \<and>
                 (typeSlot (hu_report_type u), hu_report_id u) \<in> gd_decoded_report gd) (ht_usages host))"

end
