(* ===== verification/DriverRows.thy ===== *)
theory DriverRows
  imports DriverModel
begin

text \<open>
  The rows of the attached device in \<open>GenericDriver.cpp\<close>: they are bound (\<open>bindNutTable\<close>), get
  the values of the reports (\<open>decodeReport\<close>, \<open>postDecode\<close>) and of the string descriptors
  (\<open>parseStringDescriptor\<close>), are published (\<open>publishRow\<close>), and decide what a SET VAR writes
  (\<open>writableVariables\<close>, \<open>planSet\<close>).
\<close>

unbundle bit_operations_syntax

section \<open>Binding\<close>

definition override_row :: "string \<Rightarrow> string \<Rightarrow> bound \<Rightarrow> bound" where
  "override_row name value b =
     (if hi_hidflags (bd_info b) AND HU_FLAG_ABSENT \<noteq> 0 \<and> bd_name b = name then b\<lparr>bd_value := value, bd_has := True\<rparr> else b)"

definition applyAbsentOverride :: "string \<Rightarrow> string \<Rightarrow> bound list \<Rightarrow> bound list" where
  "applyAbsentOverride name value bs = map (override_row name value) bs"

definition bound_rows :: "driver_policy \<Rightarrow> hid_usage_def list \<Rightarrow> bound list \<times> nat" where
  "bound_rows dv usages =
     (let own = bindRows [] (dv_table dv) usages [];
          rows = (if dv_generic dv then own else bindRows own (dv_tail dv) usages (dv_superseded dv))
      in (resolve rows, length own))"

text \<open>A row owns \<open>ups.realpower\<close> when its report is read, or when it computes it.\<close>

definition owns_realpower :: "driver_policy \<Rightarrow> hid_transport \<Rightarrow> bound list \<Rightarrow> bool" where
  "owns_realpower dv host bs =
     list_ex (\<lambda>b. bd_name b = ''ups.realpower'' \<and>
       (hi_conv (bd_info b) = CvEatonComputeRealpower \<or> list_ex (isReportRead dv host) (row_usages (ht_usages host) b))) bs"

definition bindNutTable :: "driver_policy \<Rightarrow> hid_transport \<Rightarrow> generic_driver \<Rightarrow> generic_driver" where
  "bindNutTable dv host gd =
     (let usages = ht_usages host
      in if gd_nut_bound gd \<and> gd_nut_usage_count gd = length usages then gd
         else let (rows, own) = bound_rows dv usages
              in gd\<lparr>gd_own_rows := own,
                    gd_beeper_row := list_ex (\<lambda>b. bd_name b = ''ups.beeper.status'') (take own rows),
                    gd_beeper_indexed := False, gd_nut_bound := True, gd_semi_classified := False,
                    gd_nut_has_realpower := owns_realpower dv host rows, gd_nut_init_done := False, gd_lists_pruned := False,
                    gd_nut_usage_count := length usages,
                    gd_rows := fold (\<lambda>ov bs. applyAbsentOverride (fst ov) (snd ov) bs) (gd_absent_overrides gd) rows\<rparr>)"

section \<open>Values of the host\<close>

definition setDriverSideValue :: "string option \<Rightarrow> string option \<Rightarrow> generic_driver \<Rightarrow> generic_driver" where
  "setDriverSideValue name value gd =
     (case (name, value) of
        (Some name, Some value) \<Rightarrow> gd\<lparr>gd_absent_overrides := kv_set (gd_absent_overrides gd) name value,
                                      gd_rows := applyAbsentOverride name value (gd_rows gd)\<rparr>
      | _ \<Rightarrow> gd)"

definition noteHostValue :: "string option \<Rightarrow> string option \<Rightarrow> generic_driver \<Rightarrow> generic_driver" where
  "noteHostValue name value gd =
     (case (name, value) of
        (Some name, Some value) \<Rightarrow>
          gd\<lparr>gd_rows := map (\<lambda>b. if bd_role b \<noteq> RoleActive \<or> isInternalRow (bd_info b) then b
                                 else if bd_name b \<noteq> name then b
                                 else b\<lparr>bd_value := value, bd_has := True\<rparr>) (gd_rows gd)\<rparr>
      | _ \<Rightarrow> gd)"

definition row_default :: "bound \<Rightarrow> string" where
  "row_default b = (case hi_dfl (bd_info b) of Some t \<Rightarrow> t | None \<Rightarrow> [])"

text \<open>The first matching row gives the default in force.\<close>

definition resetDriverSideValue :: "string option \<Rightarrow> generic_driver \<Rightarrow> generic_driver \<times> string option" where
  "resetDriverSideValue name gd =
     (case name of
        None \<Rightarrow> (gd, None)
      | Some name \<Rightarrow>
          let mine = (\<lambda>b. hi_hidflags (bd_info b) AND HU_FLAG_ABSENT \<noteq> 0 \<and> bd_name b = name);
              rows = map (\<lambda>b. if mine b then b\<lparr>bd_value := row_default b, bd_has := True\<rparr> else b) (gd_rows gd)
          in (gd\<lparr>gd_absent_overrides := kv_del (gd_absent_overrides gd) name, gd_rows := rows\<rparr>,
              map_option row_default (find mine (gd_rows gd))))"

section \<open>Publishing\<close>

type_synonym row_state = "bound list \<times> nut_context \<times> ups_data"

text \<open>The recursion goes from the row of \<open>ups.load\<close> to the computed rows of \<open>ups.realpower\<close>, and
  ends there; \<open>depth\<close> is the number of levels still allowed.\<close>

fun publishRow :: "nat \<Rightarrow> bool \<Rightarrow> nat \<Rightarrow> row_state \<Rightarrow> row_state" where
  "publishRow depth has_realpower i (rows, ctx, data) =
     (let b = rows ! i; name = bd_name b
      in if exempt b then (rows, ctx, data)
         else if bd_cleared b
         then (rows[i := b\<lparr>bd_cleared := False\<rparr>], ctx, if ud_find data name \<noteq> None then ud_remove data name else data)
         else if bd_role b \<noteq> RoleActive \<or> \<not> bd_has b then (rows, ctx, data)
         else if ud_valueEquals data name (bd_value b) then (rows, ctx, data)
         else let data = ud_set data name (bd_value b)
              in if \<not> has_realpower
                 then (rows, ctx, if name = ''ups.load'' \<or> name = ''ups.power.nominal'' \<or> name = ''ups.realpower.nominal''
                                  then ud_updateRealPower strtod data else data)
                 else if name \<noteq> ''ups.load'' then (rows, ctx, data)
                 else case depth of
                     0 \<Rightarrow> (rows, ctx, data)
                   | Suc depth' \<Rightarrow>
                       fold (\<lambda>j (rows, ctx, data).
                           if hi_conv (bd_info (rows ! j)) \<noteq> CvEatonComputeRealpower then (rows, ctx, data)
                           else if bd_role (rows ! j) = RoleDead then (rows, ctx, data)
                           else let (rows, ctx) = onValue rows j 0 ctx (Some data)
                                in publishRow depth' has_realpower j (rows, ctx, data))
                         [0..<length rows] (rows, ctx, data))"

declare publishRow.simps [simp del]

definition publish_depth :: nat where
  "publish_depth = 2"

text \<open>The keys of the status bits: a key goes, or is written when it differs.\<close>

definition publish_status_key :: "string \<times> string option \<Rightarrow> ups_data \<Rightarrow> ups_data" where
  "publish_status_key kv data =
     (case snd kv of
        None \<Rightarrow> if ud_find data (fst kv) \<noteq> None then ud_remove data (fst kv) else data
      | Some v \<Rightarrow> if ud_find data (fst kv) = Some v then data else ud_set data (fst kv) v)"

definition publishNutRows :: "driver_policy \<Rightarrow> bool \<Rightarrow> row_state \<Rightarrow> row_state" where
  "publishNutRows dv has_realpower s =
     (let (rows, ctx, data) = fold (publishRow publish_depth has_realpower) [0..<length (fst s)] s
      in (rows, ctx, fold publish_status_key (statusKeys (dv_filterStatus dv (cx_status ctx))) data))"

definition publishAlarms :: "bound list \<Rightarrow> ups_data \<Rightarrow> ups_data" where
  "publishAlarms rows data = ud_applyAlarmVariables data (vendorAlarms rows [])"

section \<open>Reports\<close>

definition completeInitialPoll :: "generic_driver \<Rightarrow> generic_driver" where
  "completeInitialPoll gd =
     (let gd = gd\<lparr>gd_first_full_done := True\<rparr>
      in if gd_nut_init_done gd then gd else gd\<lparr>gd_rows := finishInit (gd_rows gd), gd_nut_init_done := True\<rparr>)"

text \<open>What is not a row: the reports decoded, and the beeper of the drivers without a beeper row.\<close>

definition decodeReport ::
    "driver_policy \<Rightarrow> hid_transport \<Rightarrow> u8 \<Rightarrow> u8 \<Rightarrow> u8 list \<Rightarrow> generic_driver \<times> ups_data \<Rightarrow> generic_driver \<times> ups_data" where
  "decodeReport dv host report_id report_type data s =
     (if data = [] then s
      else let (gd, ups) = s;
               gd = (if report_type = 1 \<or> report_type = 3
                     then gd\<lparr>gd_decoded_report := insert (typeSlot report_type, report_id) (gd_decoded_report gd)\<rparr> else gd);
               gd = (if gd_active_beeper gd = []
                     then gd\<lparr>gd_active_beeper := (if ht_beeper host = [] then ''none'' else ht_beeper host)\<rparr> else gd);
               gd = bindNutTable dv host gd
           in if gd_beeper_row gd then (gd, ups)
              else let usages = ht_usages host;
                       gd = (if gd_beeper_indexed gd then gd
                             else gd\<lparr>gd_beeper_usages := filter (\<lambda>i. hu_path (usages ! i) = gd_active_beeper gd) [0..<length usages],
                                     gd_beeper_indexed := True\<rparr>)
                   in (gd, fold (\<lambda>i ups.
                           if length usages \<le> i then ups
                           else let u = usages ! i
                                in if hu_report_id u \<noteq> report_id \<or> hu_report_type u \<noteq> report_type then ups
                                   else (case extractUsage (Some u) (Some data) of
                                           Some v \<Rightarrow> dv_decodeBeeper dv ups v u
                                         | None \<Rightarrow> ups)) (gd_beeper_usages gd) ups))"

text \<open>One row of a report: the usage of the row, or its twin of the other type.\<close>

definition decode_row :: "hid_usage_def list \<Rightarrow> bool \<Rightarrow> u8 \<Rightarrow> u8 \<Rightarrow> u8 list \<Rightarrow> nat \<Rightarrow> row_state \<Rightarrow> row_state" where
  "decode_row usages has_realpower report_id report_type data i s =
     (let (rows, ctx, ups) = s; b = rows ! i
      in if isCommandRow (bd_info b) then s
         else case find (\<lambda>u. hu_report_id u = report_id \<and> hu_report_type u = report_type) (row_usages usages b) of
             None \<Rightarrow> s
           | Some u \<Rightarrow> (case extractUsage (Some u) (Some data) of
                 None \<Rightarrow> s
               | Some v \<Rightarrow> let (rows, ctx) = onValue rows i v ctx (Some ups)
                            in publishRow publish_depth has_realpower i (rows, ctx, ups)))"

definition postDecode ::
    "driver_policy \<Rightarrow> hid_transport \<Rightarrow> u8 \<Rightarrow> u8 \<Rightarrow> u8 list \<Rightarrow> generic_driver \<times> ups_data \<Rightarrow> generic_driver \<times> ups_data" where
  "postDecode dv host report_id report_type data s =
     (let (gd, ups) = s; gd = bindNutTable dv host gd; hr = gd_nut_has_realpower gd
      in if gd_rows gd = [] then (gd, publishAlarms (gd_rows gd) ups)
         else let (rows, ctx, ups) = (if data = [] then (gd_rows gd, gd_ctx gd, ups)
                    else fold (decode_row (ht_usages host) hr report_id report_type data) [0..<length (gd_rows gd)]
                           (gd_rows gd, gd_ctx gd, ups));
                  finish = (\<not> gd_nut_init_done gd \<and> gd_first_full_done gd);
                  rows = (if finish then finishInit rows else rows);
                  ctx = walkInternalRows rows ctx (Some ups);
                  (rows, ctx, ups) = publishNutRows dv hr (rows, ctx, ups)
              in (gd\<lparr>gd_rows := rows, gd_ctx := ctx, gd_nut_init_done := (finish \<or> gd_nut_init_done gd)\<rparr>,
                  publishAlarms rows ups))"

section \<open>String descriptors\<close>

definition invert_strings :: "hid_transport option \<Rightarrow> u8 list \<Rightarrow> bool" where
  "invert_strings host data =
     (let invert = (case host of Some h \<Rightarrow> ht_quirks h AND QUIRK_INVERT_STRINGS \<noteq> 0 | None \<Rightarrow> False)
      in if 4 \<le> data ! 0 \<and> 4 \<le> length data
         then (if data ! 3 = 0xFF then True else if data ! 3 = 0 then False else invert)
         else invert)"

text \<open>Every second byte from the third on, up to the length byte and the end of the buffer.\<close>

fun string_chars :: "nat \<Rightarrow> bool \<Rightarrow> u8 list \<Rightarrow> string" where
  "string_chars n invert [] = []"
| "string_chars 0 invert (c # r) = []"
| "string_chars (Suc n) invert (c # r) =
     (if c \<noteq> 0 then [char_of (unat (if invert then NOT c else c))] else []) @ string_chars (n - 1) invert (drop 1 r)"

fun strip_line_ends :: "string \<Rightarrow> string" where
  "strip_line_ends [] = []"
| "strip_line_ends (c # r) = (if c = CHR 0x0A \<or> c = CHR 0x0D then strip_line_ends r else c # r)"

definition decodeStringDescriptor :: "hid_transport option \<Rightarrow> u8 list \<Rightarrow> string" where
  "decodeStringDescriptor host data =
     rev (strip_line_ends (rev (string_chars (unat (data ! 0) - 2) (invert_strings host data) (drop 2 data))))"

text \<open>A row waiting for this string gets at most 19 characters of it.\<close>

definition parseStringDescriptor ::
    "driver_policy \<Rightarrow> hid_transport \<Rightarrow> u8 \<Rightarrow> u8 list \<Rightarrow> generic_driver \<times> ups_data \<Rightarrow> generic_driver \<times> ups_data" where
  "parseStringDescriptor dv host index data s =
     (if length data < 2 \<or> data ! 1 \<noteq> 3 then s
      else let (gd, ups) = s; str = decodeStringDescriptor (Some host) data;
               ups = (if index = ht_iManufacturer host then ud_set ups ''ups.mfr'' str
                      else if index = ht_iProduct host then ud_set ups ''ups.model'' str
                      else if 0 < ht_iSerialNumber host \<and> index = ht_iSerialNumber host then ud_set ups ''ups.serial'' str
                      else ups);
               mine = (\<lambda>b. hi_conv (bd_info b) = CvStringId \<and> bd_string_index b = index);
               rows = fold (\<lambda>i rows. if mine (rows ! i) then onString rows i (take 19 str) else rows) [0..<length (gd_rows gd)] (gd_rows gd)
           in if \<not> list_ex mine (gd_rows gd) then (gd, ups)
              else let (rows, ctx, ups) = publishNutRows dv (gd_nut_has_realpower gd) (rows, gd_ctx gd, ups)
                   in (gd\<lparr>gd_rows := rows, gd_ctx := ctx\<rparr>, ups))"

definition collectTableStringRequests :: "generic_driver \<Rightarrow> bool \<Rightarrow> u8 list" where
  "collectTableStringRequests gd own_rows =
     map bd_string_index (filter (\<lambda>b. hi_conv (bd_info b) = CvStringId \<and> 0 < bd_string_index b \<and> \<not> bd_has b \<and> bd_role b \<noteq> RoleDead)
       (drop (if own_rows then 0 else gd_own_rows gd) (gd_rows gd)))"

definition collectStringRequests :: "driver_policy \<Rightarrow> hid_transport \<Rightarrow> generic_driver \<Rightarrow> ups_data \<Rightarrow> u8 list" where
  "collectStringRequests dv host gd data =
     (if \<not> dv_deviceStrings dv then collectTableStringRequests gd True
      else (if \<not> ud_hasKey data ''ups.mfr'' \<and> 0 < ht_iManufacturer host then [ht_iManufacturer host] else []) @
           (if \<not> ud_hasKey data ''ups.model'' \<and> 0 < ht_iProduct host then [ht_iProduct host] else []) @
           (if \<not> ud_hasKey data ''ups.serial'' \<and> 0 < ht_iSerialNumber host then [ht_iSerialNumber host] else []) @
           collectTableStringRequests gd (dv_requestTableStrings dv host)) @
     dv_moreStrings dv"

section \<open>SET VAR\<close>

text \<open>The values of a list change the context that the conversions keep, row after row.\<close>

fun writable_rows :: "bound list \<Rightarrow> nut_context \<Rightarrow> ups_data \<Rightarrow> nut_context \<times> rw_variable list" where
  "writable_rows [] ctx data = (ctx, [])"
| "writable_rows (b # bs) ctx data =
     (if bd_role b \<noteq> RoleActive then writable_rows bs ctx data
      else if hi_info_flags (bd_info b) AND ST_FLAG_RW = 0 then writable_rows bs ctx data
      else if \<not> ud_hasKey data (bd_name b) then writable_rows bs ctx data
      else let driver_side = (hi_hidflags (bd_info b) AND HU_FLAG_ABSENT \<noteq> 0 \<or> starts_with (bd_name b) ''ups.delay.'');
               (ctx, enums) = enumValues (bd_info b) ctx;
               (ctx, out) = writable_rows bs ctx data
           in (ctx, \<lparr>rw_name = bd_name b, rw_aux = hi_info_len (bd_info b), rw_enums = enums, rw_driver_side = driver_side\<rparr> # out))"

definition kDelays :: "string list" where
  "kDelays = [''ups.delay.shutdown'', ''ups.delay.start'']"

definition add_delays :: "driver_policy \<Rightarrow> ups_data \<Rightarrow> rw_variable list \<Rightarrow> rw_variable list" where
  "add_delays dv data out =
     fold (\<lambda>name out.
         if \<not> ud_hasKey data name then out
         else if list_ex (\<lambda>v. rw_name v = name) out then out
         else out @ [\<lparr>rw_name = name, rw_aux = dv_delayAux dv, rw_enums = [], rw_driver_side = True\<rparr>]) kDelays out"

text \<open>\<open>std::sort\<close> may leave equal names in any order; an insertion sort by \<open>compareIgnoreCase\<close> is one.\<close>

fun rw_insert :: "rw_variable \<Rightarrow> rw_variable list \<Rightarrow> rw_variable list" where
  "rw_insert v [] = [v]"
| "rw_insert v (w # ws) = (if compareIgnoreCase (rw_name w) (rw_name v) < 0 then w # rw_insert v ws else v # w # ws)"

definition writableVariables :: "driver_policy \<Rightarrow> generic_driver \<Rightarrow> ups_data \<Rightarrow> generic_driver \<times> rw_variable list" where
  "writableVariables dv gd data =
     (let (ctx, out) = writable_rows (gd_rows gd) (gd_ctx gd) data
      in (gd\<lparr>gd_ctx := ctx\<rparr>, foldr rw_insert (add_delays dv data out) []))"

datatype set_plan =
    PlanHid string hid_usage_def int string
  | PlanDriverSide string string

definition planSet :: "generic_driver \<Rightarrow> ups_data \<Rightarrow> hid_usage_def list \<Rightarrow> string option \<Rightarrow> string option \<Rightarrow> set_status + set_plan" where
  "planSet gd data usages name val =
     (case name of
        None \<Rightarrow> Inl SetUnknown
      | Some name \<Rightarrow>
          if name = [] then Inl SetUnknown
          else case find (\<lambda>b. bd_role b = RoleActive \<and> equalsIgnoreCase (Some (bd_name b)) (Some name)) (gd_rows gd) of
              None \<Rightarrow>
                (case find (\<lambda>d. equalsIgnoreCase (Some d) (Some name) \<and> ud_hasKey data d) kDelays of
                   None \<Rightarrow> Inl SetUnknown
                 | Some d \<Rightarrow> (case parseDelayParam val of
                       None \<Rightarrow> Inl SetConversionFailed
                     | Some v \<Rightarrow> if v < 0 then Inl SetConversionFailed else Inr (PlanDriverSide d (dec_int v))))
            | Some b \<Rightarrow>
                let info = bd_info b
                in if hi_info_flags info AND ST_FLAG_RW = 0 then Inl SetUnknown
                   else if hi_hidflags info AND HU_FLAG_ABSENT \<noteq> 0
                   then (case val of None \<Rightarrow> Inl SetConversionFailed | Some v \<Rightarrow> Inr (PlanDriverSide (bd_name b) v))
                   else case encode info val (gd_ctx gd) data of
                       None \<Rightarrow> Inl SetConversionFailed
                     | Some physical \<Rightarrow>
                         (case find (\<lambda>u. hu_report_type u = 3) (row_usages usages b) of
                            None \<Rightarrow> Inl SetFailed
                          | Some u \<Rightarrow> (case toLogical u physical of
                                None \<Rightarrow> Inl SetConversionFailed
                              | Some raw \<Rightarrow> Inr (PlanHid (bd_name b) u raw (case val of Some v \<Rightarrow> v | None \<Rightarrow> [])))))"

end
