(* ===== verification/DriverPoll.thy ===== *)
theory DriverPoll
  imports DriverRows
begin

text \<open>
  The poll of \<open>GenericDriver.cpp\<close>: which reports the quick and the full poll request
  (\<open>buildPollLists\<close>), which of them may be skipped (INPUT twins, static and semi-static reports),
  and the cycles of \<open>loop\<close>, one request per call. A call of \<open>loop\<close> gives the request it makes.
\<close>

unbundle bit_operations_syntax

section \<open>Reports that are read\<close>

text \<open>The rows that the walk reads: after the INIT walk neither the commands nor the dropped rows.\<close>

definition walks_row :: "generic_driver \<Rightarrow> bound \<Rightarrow> bool" where
  "walks_row gd b \<longleftrightarrow> hi_hidflags (bd_info b) AND HU_FLAG_ABSENT = 0 \<and>
     \<not> (gd_nut_init_done gd \<and> (isCommandRow (bd_info b) \<or> bd_role b = RoleDead))"

definition beeper_path :: "hid_transport \<Rightarrow> generic_driver \<Rightarrow> string" where
  "beeper_path host gd = (if gd_beeper_row gd then [] else ht_beeper host)"

definition featureReportsRead :: "driver_policy \<Rightarrow> hid_transport \<Rightarrow> generic_driver \<Rightarrow> u8 \<Rightarrow> bool" where
  "featureReportsRead dv host gd report_id =
     (if \<not> gd_nut_bound gd then True
      else let usages = ht_usages host; mine = (\<lambda>u. hu_report_type u = 3 \<and> hu_report_id u = report_id); beeper = beeper_path host gd
           in list_ex (\<lambda>b. walks_row gd b \<and> list_ex mine (row_usages usages b)) (gd_rows gd) \<or>
              list_ex (\<lambda>u. ((beeper \<noteq> [] \<and> hu_path u = beeper) \<or> dv_readsFieldOutsideRows dv u) \<and> mine u) usages)"

section \<open>The poll lists\<close>

text \<open>The reports in order of first appearance, with whether they carry a status usage.\<close>

fun note_report :: "u8 \<Rightarrow> u8 \<Rightarrow> bool \<Rightarrow> (u8 \<times> u8 \<times> bool) list \<Rightarrow> (u8 \<times> u8 \<times> bool) list" where
  "note_report t i status [] = [(t, i, status)]"
| "note_report t i status ((t', i', status') # rs) =
     (if t' = t \<and> i' = i then (t', i', status' \<or> status) # rs else (t', i', status') # note_report t i status rs)"

definition poll_reports :: "driver_policy \<Rightarrow> hid_usage_def list \<Rightarrow> (u8 \<times> u8 \<times> bool) list" where
  "poll_reports dv usages =
     fold (\<lambda>u rs.
         if hu_report_type u \<noteq> 1 \<and> hu_report_type u \<noteq> 3 then rs
         else if \<not> dv_acceptPollReport dv (hu_report_type u) (hu_report_id u) then rs
         else note_report (hu_report_type u) (hu_report_id u) (isStatusUsage u \<or> isQuickPollStatusUsage dv u) rs) usages []"

definition poll_skips :: "driver_policy \<Rightarrow> hid_transport \<Rightarrow> (u8 \<times> u8 \<times> bool) list \<Rightarrow> u8 \<times> u8 \<times> bool \<Rightarrow> bool" where
  "poll_skips dv host reports r =
     (case r of (t, i, status) \<Rightarrow>
        t = 1 \<and> (\<not> dv_pollInputReports dv \<or> no_interrupt_pipe host \<or> list_ex (\<lambda>(t', i', _). t' = 3 \<and> i' = i) reports))"

definition poll_entry :: "u8 \<times> u8 \<times> bool \<Rightarrow> poll_item" where
  "poll_entry r = \<lparr>pi_type = fst r, pi_id = fst (snd r), pi_length = 0\<rparr>"

text \<open>The quick list and the full list.\<close>

definition buildPollLists :: "driver_policy \<Rightarrow> hid_transport \<Rightarrow> generic_driver \<Rightarrow> poll_item list \<times> poll_item list" where
  "buildPollLists dv host gd =
     (case dv_ownLists dv of
        Some own \<Rightarrow> own host
      | None \<Rightarrow>
          let reports = poll_reports dv (ht_usages host);
              kept = filter (\<lambda>r. \<not> poll_skips dv host reports r) reports;
              unread = (\<lambda>(t, i, status). t = 3 \<and> \<not> featureReportsRead dv host gd i)
          in (map poll_entry (filter (\<lambda>(t, i, status). status) kept), map poll_entry (filter (\<lambda>r. \<not> unread r) kept)))"

section \<open>Values that depend on the INPUT reports\<close>

definition dependsOnInput :: "(hid_usage_def \<Rightarrow> bool) \<Rightarrow> hid_usage_def list \<Rightarrow> bool" where
  "dependsOnInput isPolled us =
     (let us = filter (\<lambda>u. hu_report_type u = 1 \<or> hu_report_type u = 3) us
      in \<not> list_ex isPolled us \<and> list_ex (\<lambda>u. hu_report_type u = 1) us)"

definition computeInputCoverage :: "driver_policy \<Rightarrow> hid_transport \<Rightarrow> generic_driver \<Rightarrow> generic_driver" where
  "computeInputCoverage dv host gd =
     gd\<lparr>gd_input_values_polled :=
       (if \<not> gd_nut_bound gd then False
        else let usages = ht_usages host;
                 polled = filter (\<lambda>p. pi_type p = 1 \<or> pi_type p = 3) (gd_quick gd @ gd_full gd);
                 isPolled = (\<lambda>u. list_ex (\<lambda>p. pi_type p = hu_report_type u \<and> pi_id p = hu_report_id u) polled);
                 beeper = beeper_path host gd
             in \<not> list_ex (\<lambda>b. walks_row gd b \<and> dependsOnInput isPolled (row_usages usages b)) (gd_rows gd) \<and>
                \<not> list_ex (\<lambda>u. dv_readsFieldOutsideRows dv u \<and> dependsOnInput isPolled [u]) usages \<and>
                \<not> dependsOnInput isPolled (filter (\<lambda>u. beeper \<noteq> [] \<and> hu_path u = beeper) usages))\<rparr>"

section \<open>Reports that may be skipped\<close>

definition findInputTwins :: "hid_transport \<Rightarrow> generic_driver \<Rightarrow> generic_driver" where
  "findInputTwins host gd =
     (let usages = ht_usages host;
          in_input = (\<lambda>f. list_ex (\<lambda>i. hu_report_type i = 1 \<and> hu_report_id i = hu_report_id f \<and> hu_path i = hu_path f) usages);
          features = filter (\<lambda>f. hu_report_type f = 3) usages
      in gd\<lparr>gd_input_twin := hu_report_id ` set (filter in_input features) - hu_report_id ` set (filter (\<lambda>f. \<not> in_input f) features)\<rparr>)"

definition report_slot :: "hid_usage_def \<Rightarrow> nat \<times> u8" where
  "report_slot u = (typeSlot (hu_report_type u), hu_report_id u)"

definition findStaticReports :: "driver_policy \<Rightarrow> hid_transport \<Rightarrow> generic_driver \<Rightarrow> generic_driver" where
  "findStaticReports dv host gd =
     (let us = filter (\<lambda>u. hu_report_type u = 1 \<or> hu_report_type u = 3) (ht_usages host)
      in gd\<lparr>gd_static_report := report_slot ` set (filter (dv_isStaticUsage dv) us) - report_slot ` set (filter (\<lambda>u. \<not> dv_isStaticUsage dv u) us)\<rparr>)"

definition isStaticAndKnown :: "driver_policy \<Rightarrow> generic_driver \<Rightarrow> poll_item \<Rightarrow> bool" where
  "isStaticAndKnown dv gd item =
     (dv_pollStaticOnce dv \<and> (pi_type item = 1 \<or> pi_type item = 3) \<and>
      (typeSlot (pi_type item), pi_id item) \<in> gd_static_report gd \<and> (typeSlot (pi_type item), pi_id item) \<in> gd_decoded_report gd)"

definition static_flag :: "bound \<Rightarrow> bool" where
  "static_flag b \<longleftrightarrow> hi_hidflags (bd_info b) AND (HU_FLAG_STATIC OR HU_FLAG_SEMI_STATIC) \<noteq> 0"

definition undecided_row :: "bound \<Rightarrow> bool" where
  "undecided_row b \<longleftrightarrow> (bd_deferred b \<and> \<not> bd_has b) \<or> bd_role b = RolePending"

definition classifySemiStatic :: "hid_transport \<Rightarrow> generic_driver \<Rightarrow> generic_driver" where
  "classifySemiStatic host gd =
     (let usages = ht_usages host;
          readable = (\<lambda>u. hu_report_type u = 1 \<or> hu_report_type u = 3);
          rows = filter (\<lambda>b. \<not> isCommandRow (bd_info b) \<and> hi_hidflags (bd_info b) AND HU_FLAG_ABSENT = 0 \<and> bd_role b \<noteq> RoleDead) (gd_rows gd);
          marks = (\<lambda>bs. report_slot ` set (filter readable (concat (map (row_usages usages) bs))));
          is_static = (\<lambda>b. \<not> undecided_row b \<and> static_flag b);
          beeper = (if \<not> gd_beeper_row gd \<and> gd_active_beeper gd \<noteq> [] \<and> gd_active_beeper gd \<noteq> ''none''
                    then report_slot ` set (filter (\<lambda>u. readable u \<and> hu_path u = gd_active_beeper gd) usages) else {});
          semi = marks (filter is_static rows) - (marks (filter (\<lambda>b. \<not> is_static b) rows) \<union> beeper);
          count = length (filter (\<lambda>i. (pi_type i = 1 \<or> pi_type i = 3) \<and> (typeSlot (pi_type i), pi_id i) \<in> semi) (gd_full gd))
      in gd\<lparr>gd_semi_static := semi, gd_semi_undecided := list_ex (\<lambda>b. undecided_row b \<and> static_flag b) rows,
            gd_semi_classified := True, gd_semi_count := count\<rparr>)"

definition isSemiStaticAndKnown :: "generic_driver \<Rightarrow> poll_item \<Rightarrow> bool" where
  "isSemiStaticAndKnown gd item =
     (gd_semi_classified gd \<and> (pi_type item = 1 \<or> pi_type item = 3) \<and>
      (typeSlot (pi_type item), pi_id item) \<in> gd_semi_static gd \<and> (typeSlot (pi_type item), pi_id item) \<in> gd_decoded_report gd)"

definition isFreshFromInput :: "driver_policy \<Rightarrow> hid_transport \<Rightarrow> generic_driver \<Rightarrow> poll_item \<Rightarrow> u32 \<Rightarrow> bool" where
  "isFreshFromInput dv host gd item now =
     (if pi_type item = 3 \<and> pi_id item \<notin> gd_input_twin gd then False
      else if pi_type item \<noteq> 3 \<and> pi_type item \<noteq> 1 then False
      else ht_input_age host (pi_id item) now < dv_maxReportAgeMs dv)"

section \<open>Cycles\<close>

definition queue_done :: "generic_driver \<Rightarrow> bool" where
  "queue_done gd \<longleftrightarrow> length (gd_queue gd) \<le> gd_queue_pos gd"

definition append_string :: "u8 \<Rightarrow> generic_driver \<Rightarrow> generic_driver" where
  "append_string idx gd =
     (if idx \<in> set (gd_cycle_strings gd) then gd
      else gd\<lparr>gd_cycle_strings := gd_cycle_strings gd @ [idx],
              gd_queue := gd_queue gd @ [\<lparr>pi_type = STRING_ITEM, pi_id = idx, pi_length = 0\<rparr>]\<rparr>)"

definition appendNewStrings :: "driver_policy \<Rightarrow> hid_transport \<Rightarrow> ups_data \<Rightarrow> generic_driver \<Rightarrow> generic_driver" where
  "appendNewStrings dv host data gd = fold append_string (collectStringRequests dv host gd data) gd"

definition startCycle :: "driver_policy \<Rightarrow> hid_transport \<Rightarrow> ups_data \<Rightarrow> bool \<Rightarrow> u32 \<Rightarrow> generic_driver \<Rightarrow> generic_driver" where
  "startCycle dv host data full now gd =
     (let gd = gd\<lparr>gd_queue := [], gd_queue_pos := 0, gd_cycle_full := full, gd_strings_rechecked := False, gd_cycle_strings := []\<rparr>;
          gd = (if full then appendNewStrings dv host data gd else gd);
          gd = (if full then gd\<lparr>gd_cycle_rereads := gd_data_changed gd, gd_data_changed := False\<rparr> else gd);
          gd = (if full \<and> gd_semi_classified gd \<and> gd_semi_undecided gd then classifySemiStatic host gd else gd);
          skip = (full \<and> \<not> gd_cycle_rereads gd \<and> \<not> no_interrupt_pipe host);
          reports = filter (\<lambda>r. \<not> (skip \<and> isSemiStaticAndKnown gd r)) (if full then gd_full gd else gd_quick gd);
          stamp = (if now \<noteq> 0 then now else 1)
      in gd\<lparr>gd_queue := gd_queue gd @ reports, gd_last_quick := stamp, gd_last_full := (if full then stamp else gd_last_full gd),
            gd_step_now := True\<rparr>)"

definition pruneFullPoll :: "driver_policy \<Rightarrow> hid_transport \<Rightarrow> generic_driver \<Rightarrow> generic_driver" where
  "pruneFullPoll dv host gd =
     (let gd = gd\<lparr>gd_lists_pruned := True\<rparr>; (quick, full) = buildPollLists dv host gd
      in computeInputCoverage dv host (gd\<lparr>gd_quick := quick, gd_full := full\<rparr>))"

section \<open>The loop\<close>

datatype loop_request = ReqNone | ReqString u8 | ReqReport u8 u8 u16

text \<open>The part of \<open>loop\<close> under the lock: the name, and the mark of a measured power.\<close>

definition loop_data :: "driver_policy \<Rightarrow> hid_transport \<Rightarrow> generic_driver \<times> ups_data \<Rightarrow> generic_driver \<times> ups_data" where
  "loop_data dv host s =
     (let (gd, data) = s;
          data = (if ud_get data ''driver.name'' [] \<noteq> dv_name dv then ud_set data ''driver.name'' (dv_name dv) else data)
      in if gd_active_power_checked gd then (gd, data)
         else (gd\<lparr>gd_active_power_checked := True\<rparr>, if readsActivePower dv host then ud_markRealPowerMeasured data else data))"

text \<open>The lists, built at the first call, and what follows the end of a full poll.\<close>

definition loop_lists :: "driver_policy \<Rightarrow> hid_transport \<Rightarrow> generic_driver \<Rightarrow> generic_driver" where
  "loop_lists dv host gd =
     (if gd_lists_built gd then gd
      else let gd = bindNutTable dv host gd; (quick, full) = buildPollLists dv host gd;
               gd = computeInputCoverage dv host (gd\<lparr>gd_quick := quick, gd_full := full\<rparr>)
           in (findStaticReports dv host (findInputTwins host gd))\<lparr>gd_lists_built := True\<rparr>)"

definition loop_full_end :: "driver_policy \<Rightarrow> hid_transport \<Rightarrow> ups_data \<Rightarrow> generic_driver \<Rightarrow> generic_driver" where
  "loop_full_end dv host data gd =
     (let gd = (if queue_done gd \<and> gd_cycle_full gd \<and> \<not> gd_strings_rechecked gd
                then appendNewStrings dv host data (gd\<lparr>gd_strings_rechecked := True\<rparr>) else gd);
          gd = (if queue_done gd \<and> gd_cycle_full gd \<and> gd_strings_rechecked gd then gd\<lparr>gd_first_full_done := True\<rparr> else gd);
          gd = (if gd_lists_built gd \<and> gd_nut_bound gd \<and> gd_nut_init_done gd \<and> \<not> gd_lists_pruned gd then pruneFullPoll dv host gd else gd)
      in if gd_first_full_done gd \<and> gd_nut_bound gd \<and> gd_nut_init_done gd \<and> \<not> gd_semi_classified gd then classifySemiStatic host gd else gd)"

definition full_due :: "driver_policy \<Rightarrow> generic_driver \<Rightarrow> u32 \<Rightarrow> bool" where
  "full_due dv gd now \<longleftrightarrow> gd_last_full gd = 0 \<or> dv_fullPollMs dv \<le> now - gd_last_full gd \<or> gd_data_changed gd"

definition quick_due :: "driver_policy \<Rightarrow> generic_driver \<Rightarrow> u32 \<Rightarrow> bool" where
  "quick_due dv gd now \<longleftrightarrow> 0 < dv_quickPollMs dv \<and> dv_quickPollMs dv \<le> now - gd_last_quick gd"

text \<open>A request is a step of the cycle: skipped items cost none.\<close>

definition skips_item :: "driver_policy \<Rightarrow> hid_transport \<Rightarrow> generic_driver \<Rightarrow> u32 \<Rightarrow> poll_item \<Rightarrow> bool" where
  "skips_item dv host gd now item \<longleftrightarrow> isFreshFromInput dv host gd item now \<or> isStaticAndKnown dv gd item"

definition skip_items :: "driver_policy \<Rightarrow> hid_transport \<Rightarrow> u32 \<Rightarrow> generic_driver \<Rightarrow> generic_driver" where
  "skip_items dv host now gd =
     gd\<lparr>gd_queue_pos := gd_queue_pos gd + length (takeWhile (skips_item dv host gd now) (drop (gd_queue_pos gd) (gd_queue gd)))\<rparr>"

definition loop_step :: "driver_policy \<Rightarrow> hid_transport \<Rightarrow> u32 \<Rightarrow> generic_driver \<Rightarrow> generic_driver \<times> loop_request" where
  "loop_step dv host now gd =
     (if queue_done gd then (gd, ReqNone)
      else if ht_paused host then (gd, ReqNone)
      else if \<not> gd_step_now gd \<and> now - gd_last_step gd < dv_stepSpacingMs dv then (gd, ReqNone)
      else let gd = skip_items dv host now gd
           in if queue_done gd then (gd, ReqNone)
              else let item = gd_queue gd ! gd_queue_pos gd;
                       gd = gd\<lparr>gd_queue_pos := gd_queue_pos gd + 1, gd_last_step := now, gd_step_now := False\<rparr>
                   in (gd, if pi_type item = STRING_ITEM then ReqString (pi_id item)
                           else let len = (if pi_length item \<noteq> 0 then pi_length item else ht_expected host (pi_id item) (pi_type item))
                                in ReqReport (pi_id item) (pi_type item) (dv_requestLength dv (pi_type item) (pi_id item) len)))"

text \<open>What \<open>loop\<close> does once the lock is released, and the whole of it for a driver that overrides no
  \<open>onLoop\<close>.\<close>

definition loop_poll ::
    "driver_policy \<Rightarrow> hid_transport \<Rightarrow> u32 \<Rightarrow> generic_driver \<times> ups_data \<Rightarrow> (generic_driver \<times> ups_data) \<times> loop_request" where
  "loop_poll dv host now s =
     (let (gd, data) = s;
          gd = loop_full_end dv host data (loop_lists dv host gd)
      in if queue_done gd
         then if \<not> full_due dv gd now \<and> \<not> quick_due dv gd now then ((gd, data), ReqNone)
              else let (gd, req) = loop_step dv host now (startCycle dv host data (full_due dv gd now) now gd) in ((gd, data), req)
         else let (gd, req) = loop_step dv host now gd in ((gd, data), req))"

definition driver_loop ::
    "driver_policy \<Rightarrow> hid_transport \<Rightarrow> u32 \<Rightarrow> generic_driver \<times> ups_data \<Rightarrow> (generic_driver \<times> ups_data) \<times> loop_request" where
  "driver_loop dv host now s = loop_poll dv host now (loop_data dv host s)"

end
