(* ===== verification/DriverProofs.thy ===== *)
theory DriverProofs
  imports DriverPoll
begin

text \<open>
  What the poll of \<open>GenericDriver\<close> keeps: only acceptable reports are requested, a cycle ends,
  and a change makes everything read again.
\<close>

unbundle bit_operations_syntax

section \<open>Only acceptable reports\<close>

definition item_ok :: "driver_policy \<Rightarrow> poll_item \<Rightarrow> bool" where
  "item_ok dv item \<longleftrightarrow> pi_type item = STRING_ITEM \<or>
     ((pi_type item = 1 \<or> pi_type item = 3) \<and> dv_acceptPollReport dv (pi_type item) (pi_id item))"

definition poll_inv :: "driver_policy \<Rightarrow> generic_driver \<Rightarrow> bool" where
  "poll_inv dv gd \<longleftrightarrow> (\<forall>item \<in> set (gd_quick gd) \<union> set (gd_full gd) \<union> set (gd_queue gd). item_ok dv item)"

text \<open>The part of the driver that the poll lists and the cycle are: only \<open>loop\<close> changes it, and
  \<open>noteDataChanged\<close>.\<close>

definition poll_part ::
    "generic_driver \<Rightarrow> (poll_item list \<times> poll_item list \<times> poll_item list \<times> nat) \<times> (bool \<times> bool \<times> u8 list \<times> bool \<times> u32 \<times> bool)" where
  "poll_part gd = ((gd_quick gd, gd_full gd, gd_queue gd, gd_queue_pos gd),
     (gd_cycle_full gd, gd_strings_rechecked gd, gd_cycle_strings gd, gd_step_now gd, gd_last_step gd, gd_data_changed gd))"

lemma poll_inv_part: "poll_part gd' = poll_part gd \<Longrightarrow> poll_inv dv gd' = poll_inv dv gd"
  by (simp add: poll_inv_def poll_part_def)

lemma poll_part_keeps [simp]:
  "poll_part (bindNutTable dv host gd) = poll_part gd"
  "poll_part (computeInputCoverage dv host gd) = poll_part gd"
  "poll_part (findInputTwins host gd) = poll_part gd"
  "poll_part (findStaticReports dv host gd) = poll_part gd"
  "poll_part (classifySemiStatic host gd) = poll_part gd"
  "poll_part (invalidateReport t i gd) = poll_part gd"
  "poll_part (setDriverSideValue n v gd) = poll_part gd"
  by (simp_all add: poll_part_def bindNutTable_def computeInputCoverage_def findInputTwins_def findStaticReports_def
      classifySemiStatic_def invalidateReport_def setDriverSideValue_def Let_def split: prod.splits option.splits)

lemma poll_part_decode [simp]: "poll_part (fst (decodeReport dv host i t data s)) = poll_part (fst s)"
proof -
  obtain gd ups where s: "s = (gd, ups)" by fastforce
  define g1 where "g1 = (if t = 1 \<or> t = 3 then gd\<lparr>gd_decoded_report := insert (typeSlot t, i) (gd_decoded_report gd)\<rparr> else gd)"
  define g2 where "g2 = (if gd_active_beeper g1 = [] then g1\<lparr>gd_active_beeper := (if ht_beeper host = [] then ''none'' else ht_beeper host)\<rparr> else g1)"
  have "poll_part g1 = poll_part gd" by (simp add: g1_def poll_part_def)
  then have p: "poll_part (bindNutTable dv host g2) = poll_part gd" unfolding poll_part_keeps by (simp add: g2_def poll_part_def)
  have b: "poll_part (g\<lparr>gd_beeper_usages := x, gd_beeper_indexed := y\<rparr>) = poll_part g" for g x y by (simp add: poll_part_def)
  show ?thesis
    unfolding decodeReport_def s Let_def case_prod_conv fst_conv g1_def [symmetric] g2_def [symmetric]
    using p b by simp
qed

lemma poll_part_post [simp]: "poll_part (fst (postDecode dv host i t data s)) = poll_part (fst s)"
proof -
  obtain gd ups where s: "s = (gd, ups)" by fastforce
  have b: "poll_part (g\<lparr>gd_rows := x, gd_ctx := y, gd_nut_init_done := z\<rparr>) = poll_part g" for g x y z by (simp add: poll_part_def)
  have "poll_part (bindNutTable dv host gd) = poll_part gd" by simp
  then show ?thesis
    unfolding postDecode_def s Let_def case_prod_conv
    by (cases "gd_rows (bindNutTable dv host gd) = []") (simp_all add: b split_beta)
qed

lemma poll_part_string [simp]: "poll_part (fst (parseStringDescriptor dv host i data s)) = poll_part (fst s)"
proof -
  have b: "poll_part (g\<lparr>gd_rows := x, gd_ctx := y\<rparr>) = poll_part g" for g x y by (simp add: poll_part_def)
  show ?thesis unfolding parseStringDescriptor_def Let_def by (simp add: b split: prod.split)
qed

lemma poll_part_data [simp]: "poll_part (fst (loop_data dv host s)) = poll_part (fst s)"
  by (simp add: loop_data_def poll_part_def Let_def split: prod.split)

text \<open>The reports of the lists are of the usages, and accepted.\<close>

lemma set_note_report: "(t', i', st) \<in> set (note_report t i s rs) \<Longrightarrow> (t' = t \<and> i' = i) \<or> (\<exists>st'. (t', i', st') \<in> set rs)"
  by (induction t i s rs rule: note_report.induct) (auto split: if_splits)

lemma poll_reports_ok:
  assumes "(t, i, st) \<in> set (poll_reports dv usages)"
  shows "(t = 1 \<or> t = 3) \<and> dv_acceptPollReport dv t i"
proof -
  define ok where "ok = (\<lambda>rs. \<forall>(t, i, st :: bool) \<in> set rs. (t = 1 \<or> t = 3) \<and> dv_acceptPollReport dv t i)"
  have "ok (fold (\<lambda>u rs.
         if hu_report_type u \<noteq> 1 \<and> hu_report_type u \<noteq> 3 then rs
         else if \<not> dv_acceptPollReport dv (hu_report_type u) (hu_report_id u) then rs
         else note_report (hu_report_type u) (hu_report_id u) (isStatusUsage u \<or> isQuickPollStatusUsage dv u) rs) us rs)"
    if "ok rs" for us rs
    using that
  proof (induction us arbitrary: rs)
    case (Cons u us)
    have "ok (note_report (hu_report_type u) (hu_report_id u) s rs)"
      if "hu_report_type u = 1 \<or> hu_report_type u = 3" "dv_acceptPollReport dv (hu_report_type u) (hu_report_id u)" for s
      using that Cons.prems set_note_report [of _ _ _ "hu_report_type u" "hu_report_id u" s rs] unfolding ok_def by blast
    with Cons show ?case by simp
  qed simp
  from this [of "[]" usages] assms show ?thesis by (auto simp: poll_reports_def ok_def)
qed

text \<open>A driver may poll for another that accepts more: every item of its lists is one the other
  accepts. (A driver whose state changes what it accepts is followed by its laxest state.)\<close>

definition polls_within :: "driver_policy \<Rightarrow> driver_policy \<Rightarrow> bool" where
  "polls_within dv dv' \<longleftrightarrow> (\<forall>t i. dv_acceptPollReport dv t i \<longrightarrow> dv_acceptPollReport dv' t i) \<and>
     (\<forall>f host. dv_ownLists dv = Some f \<longrightarrow> list_all (item_ok dv') (fst (f host)) \<and> list_all (item_ok dv') (snd (f host)))"

lemma buildPollLists_ok:
  assumes within: "polls_within dv dv'"
    and item: "item \<in> set (fst (buildPollLists dv host gd)) \<union> set (snd (buildPollLists dv host gd))"
  shows "item_ok dv' item"
proof (cases "dv_ownLists dv")
  case (Some f)
  then show ?thesis using within item unfolding polls_within_def buildPollLists_def Some option.case by (auto simp: list_all_iff)
next
  case None
  with item obtain r where "r \<in> set (poll_reports dv (ht_usages host))" "item = poll_entry r"
    by (auto simp: buildPollLists_def Let_def)
  moreover obtain t i st where "r = (t, i, st)" by (cases r) auto
  ultimately show ?thesis using poll_reports_ok within by (auto simp: item_ok_def poll_entry_def polls_within_def)
qed

lemma poll_inv_lists:
  "polls_within dv dv' \<Longrightarrow> poll_inv dv' gd \<Longrightarrow> buildPollLists dv host gd' = (quick, full) \<Longrightarrow>
     poll_inv dv' (gd\<lparr>gd_quick := quick, gd_full := full\<rparr>)"
  using buildPollLists_ok [of dv dv' _ host gd'] by (auto simp: poll_inv_def)

lemma poll_inv_prune: "polls_within dv dv' \<Longrightarrow> poll_inv dv' gd \<Longrightarrow> poll_inv dv' (pruneFullPoll dv host gd)"
proof -
  assume w: "polls_within dv dv'" and inv: "poll_inv dv' gd"
  obtain quick full where lists: "buildPollLists dv host (gd\<lparr>gd_lists_pruned := True\<rparr>) = (quick, full)" by fastforce
  have "poll_inv dv' (gd\<lparr>gd_lists_pruned := True\<rparr>)" using inv by (simp add: poll_inv_def)
  from poll_inv_lists [OF w this lists] show ?thesis
    unfolding pruneFullPoll_def Let_def lists case_prod_conv using poll_inv_part [OF poll_part_keeps(2)] by blast
qed

lemma poll_inv_loop_lists: "polls_within dv dv' \<Longrightarrow> poll_inv dv' gd \<Longrightarrow> poll_inv dv' (loop_lists dv host gd)"
proof (cases "gd_lists_built gd")
  case False
  assume w: "polls_within dv dv'" and inv: "poll_inv dv' gd"
  let ?b = "bindNutTable dv host gd"
  obtain quick full where lists: "buildPollLists dv host ?b = (quick, full)" by fastforce
  have "poll_inv dv' ?b" using inv poll_inv_part [OF poll_part_keeps(1)] by blast
  note lists_inv = poll_inv_lists [OF w this lists]
  have "poll_part ((findStaticReports dv host (findInputTwins host (computeInputCoverage dv host g)))\<lparr>gd_lists_built := True\<rparr>) = poll_part g" for g
  proof -
    have "poll_part (h\<lparr>gd_lists_built := True\<rparr>) = poll_part h" for h by (simp add: poll_part_def)
    then show ?thesis by simp
  qed
  with lists_inv show ?thesis
    unfolding loop_lists_def Let_def lists case_prod_conv using False by (simp only: if_False) (rule poll_inv_part [THEN iffD2])
qed (simp add: loop_lists_def)

lemma poll_inv_append: "poll_inv dv' gd \<Longrightarrow> poll_inv dv' (appendNewStrings dv host data gd)"
proof -
  have "poll_inv dv' gd \<Longrightarrow> poll_inv dv' (fold append_string xs gd)" for xs
  proof (induction xs arbitrary: gd)
    case (Cons x xs)
    have "poll_inv dv' (append_string x gd)" using Cons.prems by (auto simp: append_string_def poll_inv_def item_ok_def)
    then show ?case using Cons.IH by simp
  qed simp
  then show "poll_inv dv' gd \<Longrightarrow> poll_inv dv' (appendNewStrings dv host data gd)" by (simp add: appendNewStrings_def)
qed

lemma poll_inv_full_end: "polls_within dv dv' \<Longrightarrow> poll_inv dv' gd \<Longrightarrow> poll_inv dv' (loop_full_end dv host data gd)"
proof -
  assume w: "polls_within dv dv'" and inv: "poll_inv dv' gd"
  have f: "poll_inv dv' g \<Longrightarrow> poll_inv dv' (g\<lparr>gd_strings_rechecked := x\<rparr>)" "poll_inv dv' g \<Longrightarrow> poll_inv dv' (g\<lparr>gd_first_full_done := x\<rparr>)"
    "poll_inv dv' g \<Longrightarrow> poll_inv dv' (classifySemiStatic host g)" for g x
    using poll_inv_part [OF poll_part_keeps(5)] by (simp_all add: poll_inv_def)
  show ?thesis
    unfolding loop_full_end_def Let_def using inv by (simp add: f poll_inv_append poll_inv_prune [OF w])
qed

lemma poll_inv_start:
  assumes "poll_inv dv' gd"
  shows "poll_inv dv' (startCycle dv host data full now gd)"
proof -
  have f: "poll_inv dv' g \<Longrightarrow> poll_inv dv' (g\<lparr>gd_queue := [], gd_queue_pos := 0, gd_cycle_full := a, gd_strings_rechecked := b, gd_cycle_strings := c\<rparr>)"
    "poll_inv dv' g \<Longrightarrow> poll_inv dv' (g\<lparr>gd_cycle_rereads := d, gd_data_changed := b\<rparr>)"
    "poll_inv dv' g \<Longrightarrow> poll_inv dv' (classifySemiStatic host g)"
    "poll_inv dv' g \<Longrightarrow> poll_inv dv' (g\<lparr>gd_queue := gd_queue g @ filter P (if full then gd_full g else gd_quick g),
       gd_last_quick := l, gd_last_full := l', gd_step_now := b\<rparr>)" for g a b c d P l l'
    using poll_inv_part [OF poll_part_keeps(5)] by (auto simp: poll_inv_def)
  show ?thesis
    unfolding startCycle_def Let_def by (intro f(4)) (use assms in \<open>simp add: f(1-3) poll_inv_append\<close>)
qed

definition request_ok :: "driver_policy \<Rightarrow> loop_request \<Rightarrow> bool" where
  "request_ok dv req \<longleftrightarrow> (case req of ReqReport i t n \<Rightarrow> (t = 1 \<or> t = 3) \<and> dv_acceptPollReport dv t i | _ \<Rightarrow> True)"

lemma loop_step_ok:
  assumes "poll_inv dv' gd"
  shows "poll_inv dv' (fst (loop_step dv host now gd)) \<and> request_ok dv' (snd (loop_step dv host now gd))"
proof -
  have s: "poll_inv dv' (skip_items dv host now gd)" using assms by (simp add: skip_items_def poll_inv_def)
  have "item_ok dv' (gd_queue g ! gd_queue_pos g)" if "poll_inv dv' g" "\<not> queue_done g" for g
    using that by (auto simp: poll_inv_def queue_done_def)
  from this [OF s] s assms show ?thesis
    by (auto simp: loop_step_def Let_def item_ok_def request_ok_def poll_inv_def)
qed

lemma loop_poll_ok:
  assumes w: "polls_within dv dv'" and inv: "poll_inv dv' (fst s)"
  shows "poll_inv dv' (fst (fst (loop_poll dv host now s))) \<and> request_ok dv' (snd (loop_poll dv host now s))"
proof -
  obtain gd data where s: "s = (gd, data)" by fastforce
  define gd' where "gd' = loop_full_end dv host data (loop_lists dv host gd)"
  have e: "poll_inv dv' gd'" unfolding gd'_def using inv s by (intro poll_inv_full_end [OF w] poll_inv_loop_lists [OF w]) simp
  note step = loop_step_ok [OF e, of dv host now]
    loop_step_ok [OF poll_inv_start [OF e, of dv host data "full_due dv gd' now" now], of dv host now]
  show ?thesis
    unfolding loop_poll_def s Let_def case_prod_conv gd'_def [symmetric]
    using step e by (simp add: request_ok_def split_beta)
qed

lemma driver_loop_ok:
  assumes "polls_within dv dv'" "poll_inv dv' (fst s)"
  shows "poll_inv dv' (fst (fst (driver_loop dv host now s))) \<and> request_ok dv' (snd (driver_loop dv host now s))"
  unfolding driver_loop_def by (rule loop_poll_ok [OF assms(1)]) (use assms(2) poll_inv_part [OF poll_part_data] in blast)

section \<open>The depth of publishing\<close>

text \<open>Every depth but 0 publishes the same, when no computed row of the real power is one of \<open>ups.load\<close>; the
  rows with that conversion, of the MGE table, are \<open>ups.realpower\<close>.\<close>

lemma infos_update: "bd_info b = bd_info (rows ! i) \<Longrightarrow> map bd_info (rows[i := b]) = map bd_info rows"
  by (cases "i < length rows") (simp_all add: map_update list_update_same_conv list_update_beyond)

lemma publish_depth_any:
  assumes "bd_name (rows ! i) \<noteq> ''ups.load''"
  shows "publishRow d hr i (rows, ctx, data) = publishRow e hr i (rows, ctx, data)"
  using assms by (simp add: publishRow.simps Let_def)

lemma publish_infos:
  assumes "bd_name (rows ! i) \<noteq> ''ups.load''"
  shows "map bd_info (fst (publishRow d hr i (rows, ctx, data))) = map bd_info rows"
  using assms by (simp add: publishRow.simps Let_def infos_update)

lemma fold_invariant_eq:
  assumes "\<And>x s. x \<in> set xs \<Longrightarrow> P s \<Longrightarrow> f x s = g x s \<and> P (g x s)" "P s"
  shows "fold f xs s = fold g xs s"
  using assms by (induction xs arbitrary: s) auto

lemma publish_depth_enough:
  assumes "\<forall>b \<in> set rows. hi_conv (bd_info b) = CvEatonComputeRealpower \<longrightarrow> bd_name b \<noteq> ''ups.load''"
  shows "publishRow (Suc d) hr i (rows, ctx, data) = publishRow 1 hr i (rows, ctx, data)"
proof -
  let ?f = "\<lambda>depth j (rows, ctx, data).
       if hi_conv (bd_info (rows ! j)) \<noteq> CvEatonComputeRealpower then (rows, ctx, data)
       else if bd_role (rows ! j) = RoleDead then (rows, ctx, data)
       else let (rows, ctx) = onValue rows j 0 ctx (Some data) in publishRow depth hr j (rows, ctx, data)"
  have "fold (?f d) [0..<length rows] (rows, ctx, data) = fold (?f 0) [0..<length rows] (rows, ctx, data)" for ctx data
  proof (rule fold_invariant_eq [where P = "\<lambda>s. map bd_info (fst s) = map bd_info rows"])
    fix j and s :: row_state
    assume j: "j \<in> set [0..<length rows]" and p: "map bd_info (fst s) = map bd_info rows"
    obtain r c u where s: "s = (r, c, u)" by (cases s)
    have len: "j < length r" using j p by (simp add: s) (metis length_map)
    have info: "bd_info (r ! j) = bd_info (rows ! j)" using p j len by (simp add: s) (metis nth_map)
    show "?f d j s = ?f 0 j s \<and> map bd_info (fst (?f 0 j s)) = map bd_info rows"
    proof (cases "hi_conv (bd_info (rows ! j)) = CvEatonComputeRealpower")
      case True
      obtain r' c' where o: "onValue r j 0 c (Some u) = (r', c')" by fastforce
      have m: "map bd_info r' = map bd_info r" using onValue_moves [OF len, of 0 c "Some u"] o
        by (auto simp: binding_moves_def evolves_def list_all2_conv_all_nth intro: nth_equalityI)
      have n: "bd_name (r' ! j) \<noteq> ''ups.load''"
        using assms True j m p len by (simp add: s) (metis nth_map nth_mem length_map)
      show ?thesis using publish_depth_any [OF n, of d hr c' u 0] publish_infos [OF n, of 0 hr c' u] m p
        by (simp add: s o info True)
    qed (use p in \<open>simp add: s info\<close>)
  qed simp
  then show ?thesis by (simp add: publishRow.simps Let_def)
qed

end
