(* ===== verification/DriverCycle.thy ===== *)
theory DriverCycle
  imports DriverProofs
begin

text \<open>
  The calls that the host makes to a \<open>GenericDriver\<close> after \<open>setup\<close>, in any order, and what holds over
  every sequence of them: what is requested, and that a change is read again.
\<close>

unbundle bit_operations_syntax

section \<open>The calls of the host\<close>

datatype driver_call =
    CallLoop u32
  | CallReport u8 u8 "u8 list"
  | CallString u8 "u8 list"
  | CallChanged
  | CallInvalidate u8 u8
  | CallDriverSide string string

text \<open>A report is given to \<open>decodeReport\<close> and right after to \<open>postDecode\<close>.\<close>

fun driver_serve ::
    "driver_policy \<Rightarrow> generic_driver \<times> ups_data \<Rightarrow> hid_transport \<times> driver_call \<Rightarrow> (generic_driver \<times> ups_data) \<times> loop_request" where
  "driver_serve dv s (host, CallLoop now) = driver_loop dv host now s"
| "driver_serve dv s (host, CallReport i t data) = (postDecode dv host i t data (decodeReport dv host i t data s), ReqNone)"
| "driver_serve dv s (host, CallString i data) = (parseStringDescriptor dv host i data s, ReqNone)"
| "driver_serve dv s (host, CallChanged) = ((noteDataChanged (fst s), snd s), ReqNone)"
| "driver_serve dv s (host, CallInvalidate t i) = ((invalidateReport t i (fst s), snd s), ReqNone)"
| "driver_serve dv s (host, CallDriverSide n v) = ((setDriverSideValue (Some n) (Some v) (fst s), snd s), ReqNone)"

definition after_calls ::
    "driver_policy \<Rightarrow> generic_driver \<times> ups_data \<Rightarrow> (hid_transport \<times> driver_call) list \<Rightarrow> generic_driver \<times> ups_data" where
  "after_calls dv s cs = fst (run (driver_serve dv) s cs)"

section \<open>What is requested\<close>

text \<open>A request is the answer to a call of \<open>loop\<close> while the poll is not paused, and a report is one
  that the driver accepts.\<close>

definition request_allowed :: "driver_policy \<Rightarrow> hid_transport \<times> driver_call \<Rightarrow> loop_request \<Rightarrow> bool" where
  "request_allowed dv hc req \<longleftrightarrow> request_ok dv req \<and>
     (req = ReqNone \<or> (case snd hc of CallLoop now \<Rightarrow> \<not> ht_paused (fst hc) | _ \<Rightarrow> False))"

lemma loop_step_paused: "ht_paused host \<Longrightarrow> loop_step dv host now gd = (gd, ReqNone)"
  by (simp add: loop_step_def)

lemma driver_loop_paused: "ht_paused host \<Longrightarrow> snd (driver_loop dv host now s) = ReqNone"
  by (simp add: driver_loop_def loop_poll_def loop_step_paused split_beta Let_def)

lemma driver_serve_ok:
  assumes w: "polls_within dv dv'" and inv: "poll_inv dv' (fst s)"
  shows "poll_inv dv' (fst (fst (driver_serve dv s hc))) \<and> request_allowed dv' hc (snd (driver_serve dv s hc))"
proof -
  obtain host c where hc: "hc = (host, c)" by (cases hc)
  have p: "poll_inv dv' gd'" if "poll_part gd' = poll_part (fst s)" for gd' using inv poll_inv_part that by blast
  show ?thesis
  proof (cases c)
    case (CallLoop now)
    show ?thesis unfolding hc CallLoop driver_serve.simps
      using driver_loop_ok [OF w inv, of host now] driver_loop_paused [of host dv now s] by (auto simp: request_allowed_def)
  next
    case CallChanged
    then show ?thesis using inv by (simp add: hc request_allowed_def request_ok_def noteDataChanged_def poll_inv_def)
  qed (simp_all add: hc p request_allowed_def request_ok_def)
qed

text \<open>The driver asks for nothing while the poll is paused, and only for INPUT and FEATURE
  reports that its subdriver accepts, over every sequence of calls after \<open>setup\<close>, whatever the
  reports, strings and changes in between.\<close>

lemma poll_requests_allowed:
  assumes "polls_within dv dv"
  shows "list_all2 (request_allowed dv) cs (snd (run (driver_serve dv) (gd_setup gd, data) cs))"
proof -
  have "list_all2 (request_allowed dv) cs (snd (run (driver_serve dv) s cs))" if "poll_inv dv (fst s)" for s
    using that by (induction cs arbitrary: s) (simp_all add: run_Cons driver_serve_ok [OF assms])
  then show ?thesis by (simp add: gd_setup_def gd_new_def poll_inv_def)
qed

section \<open>A change is read again\<close>

text \<open>The calls of \<open>loop\<close> that may make a request: not paused, and the step is due.\<close>

definition call_due :: "driver_policy \<Rightarrow> generic_driver \<times> ups_data \<Rightarrow> hid_transport \<times> driver_call \<Rightarrow> bool" where
  "call_due dv s hc = (case snd hc of
     CallLoop now \<Rightarrow> \<not> ht_paused (fst hc) \<and> (gd_step_now (fst s) \<or> dv_stepSpacingMs dv \<le> now - gd_last_step (fst s))
   | _ \<Rightarrow> False)"

fun due_calls :: "driver_policy \<Rightarrow> generic_driver \<times> ups_data \<Rightarrow> (hid_transport \<times> driver_call) list \<Rightarrow> nat" where
  "due_calls dv s [] = 0"
| "due_calls dv s (c # cs) = (if call_due dv s c then 1 else 0) + due_calls dv (fst (driver_serve dv s c)) cs"

definition rereads_all :: "generic_driver \<Rightarrow> bool" where
  "rereads_all gd \<longleftrightarrow> gd_cycle_full gd \<and> \<not> gd_data_changed gd \<and> set (gd_full gd) \<subseteq> set (gd_queue gd)"

text \<open>What is left of a cycle: the items of the queue, and the strings not yet in it.\<close>

definition left :: "generic_driver \<Rightarrow> nat" where
  "left gd = (length (gd_queue gd) - gd_queue_pos gd) + card (- set (gd_cycle_strings gd))"

lemma left_part: "poll_part gd' = poll_part gd \<Longrightarrow> left gd' = left gd"
  by (simp add: left_def poll_part_def)

lemma data_changed_part: "poll_part gd' = poll_part gd \<Longrightarrow> gd_data_changed gd' = gd_data_changed gd"
  by (simp add: poll_part_def)

lemma left_append_string: "left (append_string x gd) \<le> left gd"
proof (cases "x \<in> set (gd_cycle_strings gd)")
  case False
  then have "- set (gd_cycle_strings gd) = insert x (- insert x (set (gd_cycle_strings gd)))" by auto
  then have "card (- set (gd_cycle_strings gd)) = Suc (card (- insert x (set (gd_cycle_strings gd))))"
    by (metis ComplD card_insert_disjoint finite insertI1)
  with False show ?thesis by (simp add: append_string_def left_def)
qed (simp add: append_string_def)

text \<open>The fields that decide whether a call is due are only written by \<open>loop_step\<close> and \<open>startCycle\<close>.\<close>

definition step_part :: "generic_driver \<Rightarrow> bool \<times> u32 \<times> bool" where
  "step_part gd = (gd_step_now gd, gd_last_step gd, gd_data_changed gd)"

lemma step_part_poll: "poll_part gd' = poll_part gd \<Longrightarrow> step_part gd' = step_part gd"
  by (simp add: step_part_def poll_part_def)

lemma left_append: "left (appendNewStrings dv host data gd) \<le> left gd \<and> step_part (appendNewStrings dv host data gd) = step_part gd"
proof -
  have "left (fold append_string xs gd) \<le> left gd \<and> step_part (fold append_string xs gd) = step_part gd" for xs
  proof (induction xs arbitrary: gd)
    case (Cons x xs)
    have "step_part (append_string x gd) = step_part gd" by (simp add: append_string_def step_part_def)
    with Cons [of "append_string x gd"] left_append_string [of x gd] show ?case by simp
  qed simp
  then show ?thesis by (simp add: appendNewStrings_def)
qed

lemma left_full_end:
  "left (loop_full_end dv host data gd) \<le> left gd \<and> step_part (loop_full_end dv host data gd) = step_part gd"
proof -
  have f: "left (g\<lparr>gd_strings_rechecked := x\<rparr>) = left g" "left (g\<lparr>gd_first_full_done := x\<rparr>) = left g"
    "step_part (g\<lparr>gd_strings_rechecked := x\<rparr>) = step_part g" "step_part (g\<lparr>gd_first_full_done := x\<rparr>) = step_part g" for g x
    by (simp_all add: left_def step_part_def)
  have prune: "left (pruneFullPoll dv host g) = left g \<and> step_part (pruneFullPoll dv host g) = step_part g" for g
  proof -
    have "left (h\<lparr>gd_quick := q, gd_full := l\<rparr>) = left h \<and> step_part (h\<lparr>gd_quick := q, gd_full := l\<rparr>) = step_part h"
      "left (g\<lparr>gd_lists_pruned := True\<rparr>) = left g \<and> step_part (g\<lparr>gd_lists_pruned := True\<rparr>) = step_part g" for h q l
      by (simp_all add: left_def step_part_def)
    then show ?thesis
      by (simp add: pruneFullPoll_def Let_def split_beta left_part [OF poll_part_keeps(2)] step_part_poll [OF poll_part_keeps(2)])
  qed
  show ?thesis
    unfolding loop_full_end_def Let_def
    using left_append [of dv host data "gd\<lparr>gd_strings_rechecked := True\<rparr>"]
    by (simp add: f prune left_part [OF poll_part_keeps(5)] step_part_poll [OF poll_part_keeps(5)])
qed

lemma left_loop_lists: "left (loop_lists dv host gd) = left gd \<and> step_part (loop_lists dv host gd) = step_part gd"
proof -
  have f: "left (h\<lparr>gd_quick := q, gd_full := l\<rparr>) = left h \<and> step_part (h\<lparr>gd_quick := q, gd_full := l\<rparr>) = step_part h"
    "left (h\<lparr>gd_lists_built := True\<rparr>) = left h \<and> step_part (h\<lparr>gd_lists_built := True\<rparr>) = step_part h" for h q l
    by (simp_all add: left_def step_part_def)
  show ?thesis
    by (simp add: loop_lists_def Let_def split_beta f left_part [OF poll_part_keeps(1)] left_part [OF poll_part_keeps(2)]
        left_part [OF poll_part_keeps(3)] left_part [OF poll_part_keeps(4)] step_part_poll [OF poll_part_keeps(1)]
        step_part_poll [OF poll_part_keeps(2)] step_part_poll [OF poll_part_keeps(3)] step_part_poll [OF poll_part_keeps(4)])
qed

text \<open>A due step takes at least one item off the queue.\<close>

lemma left_step:
  "left (fst (loop_step dv host now gd)) \<le> left gd"
  "\<not> queue_done gd \<Longrightarrow> \<not> ht_paused host \<Longrightarrow> gd_step_now gd \<or> dv_stepSpacingMs dv \<le> now - gd_last_step gd \<Longrightarrow>
     Suc (left (fst (loop_step dv host now gd))) \<le> left gd"
  by (auto simp: loop_step_def Let_def left_def skip_items_def queue_done_def)

lemma step_keeps_flags:
  "gd_data_changed (fst (loop_step dv host now gd)) = gd_data_changed gd"
  "rereads_all gd \<Longrightarrow> rereads_all (fst (loop_step dv host now gd))"
  by (simp_all add: loop_step_def Let_def skip_items_def rereads_all_def)

lemma start_rereads:
  assumes "gd_data_changed gd" shows "rereads_all (startCycle dv host data True now gd)"
proof -
  let ?g0 = "gd\<lparr>gd_queue := [], gd_queue_pos := 0, gd_cycle_full := True, gd_strings_rechecked := False, gd_cycle_strings := []\<rparr>"
  define g1 where "g1 = appendNewStrings dv host data ?g0"
  have "gd_cycle_full (fold append_string xs g) = gd_cycle_full g \<and> gd_data_changed (fold append_string xs g) = gd_data_changed g" for xs g
    by (induction xs arbitrary: g) (simp_all add: append_string_def)
  then have g1: "gd_cycle_full g1" "gd_data_changed g1" using assms by (simp_all add: g1_def appendNewStrings_def)
  show ?thesis
    unfolding startCycle_def Let_def g1_def [symmetric] if_True
    using g1 by (auto simp: rereads_all_def classifySemiStatic_def Let_def)
qed

text \<open>Every call either starts the cycle that reads everything, or leaves less to do.\<close>

lemma serve_progress:
  assumes "gd_data_changed (fst s)"
  shows "rereads_all (fst (fst (driver_serve dv s hc))) \<or>
    (gd_data_changed (fst (fst (driver_serve dv s hc))) \<and>
     left (fst (fst (driver_serve dv s hc))) + (if call_due dv s hc then 1 else 0) \<le> left (fst s))"
proof -
  obtain host c where hc: "hc = (host, c)" by (cases hc)
  have p: "gd_data_changed gd' \<and> left gd' \<le> left (fst s)" if "poll_part gd' = poll_part (fst s)" for gd'
    using assms data_changed_part [OF that] left_part [OF that] by simp
  show ?thesis
  proof (cases c)
    case (CallLoop now)
    obtain gd data where d: "loop_data dv host s = (gd, data)" by fastforce
    define gd' where "gd' = loop_full_end dv host data (loop_lists dv host gd)"
    have "poll_part gd = poll_part (fst s)" using poll_part_data [of dv host s] d by simp
    note same = left_part [OF this] step_part_poll [OF this]
    have le: "left gd' \<le> left (fst s)" and sp: "step_part gd' = step_part (fst s)"
      using left_full_end [of dv host data "loop_lists dv host gd"] left_loop_lists [of dv host gd] same by (auto simp: gd'_def)
    have changed: "gd_data_changed gd'" and
      due: "call_due dv s hc \<longleftrightarrow> \<not> ht_paused host \<and> (gd_step_now gd' \<or> dv_stepSpacingMs dv \<le> now - gd_last_step gd')"
      using sp assms by (simp_all add: step_part_def call_due_def hc CallLoop)
    have res: "fst (fst (driver_serve dv s hc)) = fst (loop_step dv host now (if queue_done gd' then startCycle dv host data True now gd' else gd'))"
      unfolding hc CallLoop driver_serve.simps driver_loop_def loop_poll_def d Let_def case_prod_conv gd'_def [symmetric]
      using changed by (simp add: full_due_def split_beta)
    show ?thesis
    proof (cases "queue_done gd'")
      case True
      with res step_keeps_flags(2) [OF start_rereads [OF changed]] show ?thesis by simp
    next
      case False
      with res le left_step [where dv = dv and host = host and now = now and gd = gd'] changed due show ?thesis
        by (auto simp: step_keeps_flags)
    qed
  next
    case CallChanged
    then show ?thesis using assms by (simp add: hc call_due_def noteDataChanged_def left_def)
  qed (use p in \<open>simp_all add: hc call_due_def\<close>)
qed

text \<open>C27: a SET VAR or a command is followed by a full reread. Once \<open>noteDataChanged\<close> was called, as
  many due calls of \<open>loop\<close> as the cycle has items left, 256 strings and one, reach a call that
  starts a full cycle with every report of the full poll in its queue, semi-static ones too,
  whatever else is called in between.\<close>

theorem change_read_again:
  assumes "gd_data_changed (fst s)" "length (gd_queue (fst s)) - gd_queue_pos (fst s) + 256 < due_calls dv s cs"
  shows "\<exists>pre c post. cs = pre @ c # post \<and> rereads_all (fst (after_calls dv s (pre @ [c])))"
proof -
  have "\<exists>pre c post. cs = pre @ c # post \<and> rereads_all (fst (after_calls dv s (pre @ [c])))"
    if "gd_data_changed (fst s)" "left (fst s) < due_calls dv s cs" for s
    using that
  proof (induction cs arbitrary: s)
    case (Cons c cs)
    let ?s = "fst (driver_serve dv s c)"
    from serve_progress [OF Cons.prems(1), of dv c] show ?case
    proof
      assume "rereads_all (fst ?s)"
      then show ?thesis by (intro exI [of _ "[]"] exI [of _ c] exI [of _ cs]) (simp add: after_calls_def run_Cons)
    next
      assume r: "gd_data_changed (fst ?s) \<and> left (fst ?s) + (if call_due dv s c then 1 else 0) \<le> left (fst s)"
      then have "left (fst ?s) < due_calls dv ?s cs" using Cons.prems(2) by auto
      with r Cons.IH [of ?s] obtain pre d post where "cs = pre @ d # post" "rereads_all (fst (after_calls dv ?s (pre @ [d])))"
        by blast
      then show ?thesis by (intro exI [of _ "c # pre"] exI [of _ d] exI [of _ post]) (simp add: after_calls_def run_Cons)
    qed
  qed simp
  moreover have "card (- set (gd_cycle_strings (fst s))) \<le> 256"
    using card_mono [of UNIV "- set (gd_cycle_strings (fst s))"] by (simp add: card_word)
  ultimately show ?thesis using assms by (simp add: left_def)
qed

definition idle_host :: hid_transport where
  "idle_host = \<lparr>ht_usages = [], ht_beeper = [], ht_quirks = 0, ht_paused = False, ht_input_age = (\<lambda>i now. 0xFFFFFFFF),
     ht_expected = (\<lambda>i t. 0), ht_iManufacturer = 0, ht_iProduct = 0, ht_iSerialNumber = 0, ht_pid = 0\<rparr>"

lemma due_calls_replicate:
  "dv_stepSpacingMs dv = 0 \<Longrightarrow> \<not> ht_paused host \<Longrightarrow> due_calls dv s (replicate n (host, CallLoop now)) = n"
  by (induction n arbitrary: s) (simp_all add: call_due_def)

theorem change_read_again_witness:
  "\<exists>pre c post. replicate 257 (idle_host, CallLoop 1000) = pre @ c # post \<and>
     rereads_all (fst (after_calls ((generic_policy False)\<lparr>dv_stepSpacingMs := 0\<rparr>) (noteDataChanged gd_new, ud_new) (pre @ [c])))"
  by (rule change_read_again)
    (simp_all add: due_calls_replicate idle_host_def noteDataChanged_def gd_new_def)

end
