(* ===== verification/HidControl.thy ===== *)
theory HidControl
  imports DriverCycle
begin

text \<open>
  Commands and SET VAR of the HID drivers (\<open>HidControl.h\<close>). The host is known through its control
  port (\<open>IUpsControlPort.h\<close>, \<open>IHidControlPort.h\<close>): a record of the operations of an unknown state
  \<open>'p\<close>. A number of type \<open>int32_t\<close> is the integer it holds; the pause between two writes and
  the lock are not modelled.
\<close>

section \<open>The control port\<close>

record 'p control_port =
  cp_connected :: "'p \<Rightarrow> bool"
  cp_hid :: "'p \<Rightarrow> bool"
  cp_data :: "'p \<Rightarrow> ups_data"
  cp_usages :: "'p \<Rightarrow> hid_usage_def list"
  cp_table :: "'p \<Rightarrow> hid_info list option"
  cp_beeperFieldRead :: "'p \<Rightarrow> bool"
  cp_supportsBeeperToggle :: "'p \<Rightarrow> bool"
  cp_shutdownSupported :: "'p \<Rightarrow> bool"
  cp_beeperMuteSupported :: "'p \<Rightarrow> bool"
  cp_setBeeperField :: "hid_usage_def \<Rightarrow> bool \<Rightarrow> 'p \<Rightarrow> bool \<times> 'p"
  cp_writeUsage :: "hid_usage_def \<Rightarrow> u32 \<Rightarrow> 'p \<Rightarrow> bool \<times> 'p"
  cp_execute :: "string \<Rightarrow> 'p \<Rightarrow> command_result \<times> 'p"
  cp_noteDefaultShutdown :: "string \<Rightarrow> 'p \<Rightarrow> 'p"
  cp_planSet :: "string \<Rightarrow> string \<Rightarrow> 'p \<Rightarrow> set_status + set_plan"
  cp_saveDriverSide :: "set_plan \<Rightarrow> 'p \<Rightarrow> set_status \<times> 'p"
  cp_writePlanned :: "set_plan \<Rightarrow> 'p \<Rightarrow> set_status \<times> 'p"

section \<open>Fields of the command rows\<close>

definition beeper_commands :: "string list" where
  "beeper_commands = [''beeper.enable'', ''beeper.disable'', ''beeper.toggle'']"

definition cmd_usage :: "bool \<Rightarrow> hid_info \<Rightarrow> hid_usage_def \<Rightarrow> bool" where
  "cmd_usage output_ok r u \<longleftrightarrow> (hu_report_type u = 3 \<or> (output_ok \<and> hu_report_type u = 2)) \<and> rowMatches u r"

text \<open>The first row of the name that has a usage, with the default of the row.\<close>

fun cmd_row :: "hid_info list \<Rightarrow> hid_usage_def list \<Rightarrow> string \<Rightarrow> (hid_usage_def \<times> string option) option" where
  "cmd_row [] usages name = None"
| "cmd_row (r # rs) usages name =
     (if \<not> isCommandRow r \<or> hi_info_type r \<noteq> name then cmd_row rs usages name
      else case find (cmd_usage (name \<in> set beeper_commands) r) usages of
          Some u \<Rightarrow> Some (u, hi_dfl r)
        | None \<Rightarrow> cmd_row rs usages name)"

definition cmdField :: "hid_info list option \<Rightarrow> hid_usage_def list \<Rightarrow> string \<Rightarrow> (hid_usage_def \<times> string option) option" where
  "cmdField table usages name = (case table of None \<Rightarrow> None | Some rs \<Rightarrow> cmd_row rs usages name)"

definition cmdDefault :: "string option \<Rightarrow> int" where
  "cmdDefault dfl = (case dfl of Some s \<Rightarrow> sint (word_of_int (atoi s) :: 32 word) | None \<Rightarrow> 0)"

definition fitsField :: "hid_usage_def \<Rightarrow> int \<Rightarrow> bool" where
  "fitsField field value =
     (if value = -1 then True
      else if value < 0 then False
      else if hu_bit_size field = 0 \<or> 32 \<le> hu_bit_size field then True
      else let m = (if hu_logical_min field < 0 then 2 ^ (unat (hu_bit_size field) - 1) - 1 else 2 ^ unat (hu_bit_size field) - 1)
           in value \<le> m)"

definition cmdValueFits :: "hid_usage_def \<Rightarrow> int \<Rightarrow> bool" where
  "cmdValueFits field value =
     (if \<not> fitsField field value then False
      else let range_declared = hu_logical_min field < hu_logical_max field
           in \<not> range_declared \<or> value = -1 \<or> (hu_logical_min field \<le> value \<and> value \<le> hu_logical_max field))"

section \<open>The commands of a device\<close>

definition command_available ::
    "(string \<Rightarrow> (hid_usage_def \<times> string option) option) \<Rightarrow> bool \<Rightarrow> bool \<Rightarrow> bool \<Rightarrow> bool \<Rightarrow> string \<Rightarrow> bool" where
  "command_available field beeper_available shutdown_cmds mute_allowed beeper_state_known n =
     (let has = (\<lambda>name. field name \<noteq> None);
          shutdown = (shutdown_cmds \<and> has ''load.off.delay'');
          startup = (shutdown_cmds \<and> has ''load.on.delay'');
          stop = (shutdown_cmds \<and> has ''shutdown.stop'');
          reboot = (shutdown_cmds \<and> has ''shutdown.reboot'');
          return_row = (shutdown_cmds \<and> has ''shutdown.return'')
      in if n = ''beeper.mute''
         then mute_allowed \<and> beeper_available \<and> (case field n of Some (f, dfl) \<Rightarrow> cmdValueFits f (cmdDefault dfl) | None \<Rightarrow> False)
         else if n = ''beeper.toggle''
         then beeper_available \<and> beeper_state_known \<and> (has ''beeper.toggle'' \<or> (has ''beeper.enable'' \<and> has ''beeper.disable''))
         else if starts_with n ''beeper.'' then beeper_available \<and> has n
         else if starts_with n ''test.'' then has n
         else if n = ''load.off'' \<or> n = ''load.off.delay'' then shutdown
         else if n = ''load.on'' \<or> n = ''load.on.delay'' then startup
         else if n = ''shutdown.stop'' then stop
         else if n = ''shutdown.return'' then (shutdown \<and> startup) \<or> return_row
         else if n = ''shutdown.stayoff'' then shutdown \<and> startup
         else if n = ''shutdown.reboot'' then reboot
         else if n = ''shutdown.default'' then reboot \<or> shutdown \<or> return_row
         else False)"

definition buildCommands ::
    "hid_usage_def list \<Rightarrow> bool \<Rightarrow> bool \<Rightarrow> bool \<Rightarrow> hid_info list option \<Rightarrow> bool \<Rightarrow> ups_command_info list" where
  "buildCommands usages beeper_available shutdown_cmds mute_allowed table beeper_state_known =
     (case table of
        None \<Rightarrow> []
      | Some rs \<Rightarrow> filter (\<lambda>c. command_available (cmdField table usages) beeper_available shutdown_cmds mute_allowed
          beeper_state_known (ci_name c)) ups_commands)"

definition supportedCommands :: "'p control_port \<Rightarrow> 'p \<Rightarrow> ups_command_info list" where
  "supportedCommands port p =
     (if \<not> cp_connected port p then []
      else if \<not> cp_hid port p then []
      else let known = ud_hasKey (cp_data port p) ''ups.beeper.status'';
               beeper = (cp_supportsBeeperToggle port p \<and> (known \<or> cp_beeperFieldRead port p))
           in buildCommands (cp_usages port p) beeper (cp_shutdownSupported port p) (cp_beeperMuteSupported port p)
                (cp_table port p) known)"

section \<open>What a command writes\<close>

definition resolveWrite :: "string \<Rightarrow> hid_usage_def list \<Rightarrow> hid_info list option \<Rightarrow> (hid_usage_def \<times> u32) option" where
  "resolveWrite name usages table =
     (if table = None then None
      else if name \<noteq> ''beeper.mute'' \<and> \<not> starts_with name ''test.'' then None
      else case cmdField table usages name of
          None \<Rightarrow> None
        | Some (f, dfl) \<Rightarrow> if \<not> cmdValueFits f (cmdDefault dfl) then None else Some (f, word_of_int (cmdDefault dfl)))"

datatype steps_result =
    StepsOk "(hid_usage_def \<times> int) list"
  | StepsNotSupported
  | StepsInvalidArgument

definition kNoDelay :: int where
  "kNoDelay = - 2147483648"

text \<open>One write on a field, with the parameter when the command takes one.\<close>

definition single_step :: "string option \<Rightarrow> hid_usage_def option \<Rightarrow> int \<Rightarrow> bool \<Rightarrow> steps_result" where
  "single_step param field dfl takes_param =
     (case field of
        None \<Rightarrow> StepsNotSupported
      | Some f \<Rightarrow>
          let from_param = (takes_param \<and> param \<noteq> None \<and> param \<noteq> Some []);
              value = (if from_param then parseDelayParam param else Some dfl)
          in (case value of
                None \<Rightarrow> StepsInvalidArgument
              | Some v \<Rightarrow>
                  if from_param \<and> hu_logical_min f < hu_logical_max f \<and> (v < hu_logical_min f \<or> hu_logical_max f < v)
                  then StepsInvalidArgument
                  else if v = kNoDelay then StepsNotSupported
                  else if \<not> fitsField f v then (if from_param then StepsInvalidArgument else StepsNotSupported)
                  else StepsOk [(f, v)]))"

definition resolveShutdownSteps ::
    "string \<Rightarrow> string option \<Rightarrow> hid_usage_def list \<Rightarrow> int \<Rightarrow> int \<Rightarrow> hid_info list option \<Rightarrow> steps_result" where
  "resolveShutdownSteps name param usages off_delay on_delay table =
     (let sd = map_option fst (cmdField table usages ''load.off.delay'');
          st = map_option fst (cmdField table usages ''load.on.delay'');
          single = single_step param
      in if name = ''load.off'' then single sd 0 False
         else if name = ''load.on'' then single st 0 False
         else if name = ''load.off.delay'' then single sd off_delay True
         else if name = ''load.on.delay'' then single st on_delay True
         else if name = ''shutdown.stop'' \<or> name = ''shutdown.reboot''
         then (let f = cmdField table usages name
               in single (map_option fst f) (cmdDefault (case f of Some (u, dfl) \<Rightarrow> dfl | None \<Rightarrow> None)) (name = ''shutdown.reboot''))
         else if name = ''shutdown.return''
         then (case cmdField table usages name of
                 Some (f, dfl) \<Rightarrow> single (Some f) (cmdDefault dfl) True
               | None \<Rightarrow> (case (sd, st) of
                     (Some sd, Some st) \<Rightarrow>
                       if on_delay = kNoDelay \<or> off_delay = kNoDelay then StepsNotSupported
                       else if \<not> fitsField st on_delay \<or> \<not> fitsField sd off_delay then StepsNotSupported
                       else StepsOk [(st, on_delay), (sd, off_delay)]
                   | _ \<Rightarrow> StepsNotSupported))
         else if name = ''shutdown.stayoff''
         then (case (sd, st) of
                 (Some sd, Some st) \<Rightarrow>
                   if off_delay = kNoDelay then StepsNotSupported
                   else if \<not> fitsField sd off_delay then StepsNotSupported
                   else StepsOk [(st, -1), (sd, off_delay)]
               | _ \<Rightarrow> StepsNotSupported)
         else StepsNotSupported)"

definition configuredDelay :: "ups_data \<Rightarrow> string \<Rightarrow> int" where
  "configuredDelay data key =
     (if \<not> ud_hasKey data key then kNoDelay
      else case parseDelayParam (Some (ud_get data key [])) of
          None \<Rightarrow> kNoDelay
        | Some v \<Rightarrow> if v < 0 then kNoDelay else v)"

section \<open>SET VAR\<close>

definition setVariable :: "'p control_port \<Rightarrow> string option \<Rightarrow> string option \<Rightarrow> 'p \<Rightarrow> set_status \<times> 'p" where
  "setVariable port name val p =
     (if \<not> cp_connected port p then (SetNotConnected, p)
      else case name of
          None \<Rightarrow> (SetUnknown, p)
        | Some n \<Rightarrow> (case val of
              None \<Rightarrow> (SetConversionFailed, p)
            | Some v \<Rightarrow>
                if \<not> cp_hid port p then (SetUnknown, p)
                else case cp_planSet port n v p of
                    Inl st \<Rightarrow> (st, p)
                  | Inr (PlanDriverSide k t) \<Rightarrow> cp_saveDriverSide port (PlanDriverSide k t) p
                  | Inr (PlanHid k u raw t) \<Rightarrow> cp_writePlanned port (PlanHid k u raw t) p))"

section \<open>Instant commands\<close>

definition beeper_command :: "'p control_port \<Rightarrow> string \<Rightarrow> 'p \<Rightarrow> command_result \<times> 'p" where
  "beeper_command port name p =
     (let toggle = (name = ''beeper.toggle'');
          enable = (if toggle then ud_get (cp_data port p) ''ups.beeper.status'' [] = ''disabled'' else name = ''beeper.enable'');
          f = cmdField (cp_table port p) (cp_usages port p) (if enable then ''beeper.enable'' else ''beeper.disable'');
          f = (if f = None \<and> toggle then cmdField (cp_table port p) (cp_usages port p) ''beeper.toggle'' else f)
      in case f of
           None \<Rightarrow> (CmdNotSupported, p)
         | Some (u, dfl) \<Rightarrow> (let (ok, p) = cp_setBeeperField port u enable p in (if ok then CmdOk else CmdFailed, p)))"

definition kFallback :: "string list" where
  "kFallback = [''shutdown.return'', ''shutdown.reboot'', ''load.off.delay'', ''shutdown.stayoff'']"

fun default_shutdown :: "'p control_port \<Rightarrow> ups_command_info list \<Rightarrow> string list \<Rightarrow> 'p \<Rightarrow> command_result \<times> 'p" where
  "default_shutdown port available [] p = (CmdFailed, p)"
| "default_shutdown port available (sub # subs) p =
     (if \<not> list_ex (\<lambda>c. ci_name c = sub) available then default_shutdown port available subs p
      else let (r, p) = cp_execute port sub p
           in if r = CmdOk then (CmdOk, cp_noteDefaultShutdown port sub p) else default_shutdown port available subs p)"

fun run_steps :: "'p control_port \<Rightarrow> (hid_usage_def \<times> int) list \<Rightarrow> 'p \<Rightarrow> command_result \<times> 'p" where
  "run_steps port [] p = (CmdOk, p)"
| "run_steps port ((u, v) # steps) p =
     (let (ok, p) = cp_writeUsage port u (word_of_int v) p in if ok then run_steps port steps p else (CmdFailed, p))"

definition power_command :: "'p control_port \<Rightarrow> string \<Rightarrow> string option \<Rightarrow> 'p \<Rightarrow> command_result \<times> 'p" where
  "power_command port name param p =
     (let ret = (name = ''shutdown.return'');
          data = cp_data port p;
          start_auto = ((ret \<or> name = ''shutdown.stayoff'') \<and> ud_hasKey data ''ups.start.auto'')
      in case resolveShutdownSteps name param (cp_usages port p) (configuredDelay data ''ups.delay.shutdown'')
                (configuredDelay data ''ups.delay.start'') (cp_table port p) of
           StepsInvalidArgument \<Rightarrow> (CmdInvalidArgument, p)
         | StepsNotSupported \<Rightarrow> (CmdNotSupported, p)
         | StepsOk steps \<Rightarrow>
             run_steps port steps
               (if start_auto \<and> length steps = 2
                then snd (setVariable port (Some ''ups.start.auto'') (Some (if ret then ''yes'' else ''no'')) p) else p))"

definition hc_executeCommand :: "'p control_port \<Rightarrow> string option \<Rightarrow> string option \<Rightarrow> 'p \<Rightarrow> command_result \<times> 'p" where
  "hc_executeCommand port name param p =
     (case name of
        None \<Rightarrow> (CmdNotSupported, p)
      | Some name \<Rightarrow>
          if \<not> cp_connected port p then (CmdNotConnected, p)
          else if \<not> cp_hid port p then (CmdNotSupported, p)
          else if \<not> list_ex (\<lambda>c. ci_name c = name) (supportedCommands port p) then (CmdNotSupported, p)
          else if name \<in> set beeper_commands then beeper_command port name p
          else if name = ''shutdown.default''
          then default_shutdown port (supportedCommands port p) kFallback (cp_noteDefaultShutdown port [] p)
          else if starts_with name ''load.'' \<or> starts_with name ''shutdown.'' then power_command port name param p
          else case resolveWrite name (cp_usages port p) (cp_table port p) of
              None \<Rightarrow> (CmdNotSupported, p)
            | Some (u, v) \<Rightarrow> (let (ok, p) = cp_writeUsage port u v p in (if ok then CmdOk else CmdFailed, p)))"

section \<open>Delays are written as they are asked\<close>

lemma cmd_row_usage:
  "cmd_row rs usages name = Some (u, dfl) \<Longrightarrow> u \<in> set usages \<and> (hu_report_type u = 3 \<or> (name \<in> set beeper_commands \<and> hu_report_type u = 2))"
proof (induction rs)
  case (Cons r rs)
  have "v \<in> set usages \<and> cmd_usage b r v" if "find (cmd_usage b r) usages = Some v" for b v
    using that by (auto simp: find_Some_iff)
  with Cons show ?case by (fastforce simp: cmd_usage_def split: if_splits option.splits)
qed simp

lemma cmdField_usage:
  "cmdField table usages name = Some (u, dfl) \<Longrightarrow> u \<in> set usages \<and> (hu_report_type u = 3 \<or> (name \<in> set beeper_commands \<and> hu_report_type u = 2))"
  using cmd_row_usage by (auto simp: cmdField_def split: option.splits)

lemma parseDelayParam_range: "parseDelayParam t = Some v \<Longrightarrow> -1 \<le> v \<and> v \<le> 2147483647"
  by (auto simp: parseDelayParam_def Let_def split: option.splits if_splits)

lemma configuredDelay_range: "configuredDelay data key = kNoDelay \<or> (0 \<le> configuredDelay data key \<and> configuredDelay data key \<le> 2147483647)"
  using parseDelayParam_range by (auto simp: configuredDelay_def split: option.splits)

lemma cmdDefault_range: "cmdDefault dfl \<le> 2147483647"
  using sint_lt [of "word_of_int (atoi (the dfl)) :: 32 word"] by (cases dfl) (auto simp: cmdDefault_def)

text \<open>Where the value of a step comes from.\<close>

definition value_asked :: "string \<Rightarrow> string option \<Rightarrow> hid_info list option \<Rightarrow> hid_usage_def list \<Rightarrow> int \<Rightarrow> int \<Rightarrow> int \<Rightarrow> bool" where
  "value_asked name param table usages off_delay on_delay v \<longleftrightarrow>
     v = -1 \<or> v = off_delay \<or> v = on_delay \<or> (name \<in> {''load.off'', ''load.on''} \<and> v = 0) \<or>
     parseDelayParam param = Some v \<or> (case cmdField table usages name of Some (u, dfl) \<Rightarrow> v = cmdDefault dfl | None \<Rightarrow> False)"

text \<open>Every step is a FEATURE field of the device with a value that fits it.\<close>

lemma single_step_value:
  assumes "single_step param field dfl takes_param = StepsOk steps" "(u, v) \<in> set steps"
  shows "field = Some u \<and> fitsField u v \<and> v \<noteq> kNoDelay \<and> (v = dfl \<or> parseDelayParam param = Some v)"
  using assms by (auto simp: single_step_def Let_def split: option.splits if_splits)

lemma steps_value:
  assumes "resolveShutdownSteps name param usages off_delay on_delay table = StepsOk steps" "(u, v) \<in> set steps"
  shows "u \<in> set usages \<and> hu_report_type u = 3 \<and> fitsField u v \<and> v \<noteq> kNoDelay \<and>
    value_asked name param table usages off_delay on_delay v"
proof -
  have f: "u \<in> set usages \<and> hu_report_type u = 3"
    if "map_option fst (cmdField table usages n) = Some u" "n \<in> {''load.off.delay'', ''load.on.delay'', ''shutdown.stop'', ''shutdown.reboot'', ''shutdown.return''}"
    for n u
    using that cmdField_usage [of table usages n u] by (auto simp: beeper_commands_def)
  have one: ?thesis
    if "single_step param (map_option fst (cmdField table usages n)) dfl tp = StepsOk steps"
      "n \<in> {''load.off.delay'', ''load.on.delay'', ''shutdown.stop'', ''shutdown.reboot'', ''shutdown.return''}"
      "value_asked name param table usages off_delay on_delay dfl" for n dfl tp
    using single_step_value [OF that(1) assms(2)] f [OF _ that(2)] that(3) by (auto simp: value_asked_def)
  have row: "value_asked name param table usages off_delay on_delay (cmdDefault dfl)" if "cmdField table usages name = Some (w, dfl)" for w dfl
    using that by (simp add: value_asked_def)
  have cancel: "fitsField w (-1)" "- 1 \<noteq> kNoDelay" for w by (simp_all add: fitsField_def kNoDelay_def)
  have row_step: ?thesis if row: "name = ''shutdown.stop'' \<or> name = ''shutdown.reboot''"
  proof -
    from row have r: "single_step param (map_option fst (cmdField table usages name))
        (cmdDefault (case cmdField table usages name of Some (u, dfl) \<Rightarrow> dfl | None \<Rightarrow> None)) (name = ''shutdown.reboot'') = StepsOk steps"
      using assms(1) by (auto simp: resolveShutdownSteps_def Let_def)
    then obtain w d where w: "cmdField table usages name = Some (w, d)"
      by (cases "cmdField table usages name") (auto simp: single_step_def)
    show ?thesis by (rule one [OF r]) (use row w in \<open>auto simp: value_asked_def\<close>)
  qed
  have "(name = ''load.off'' \<or> name = ''load.on'') \<or> (name = ''load.off.delay'' \<or> name = ''load.on.delay'') \<or>
      (name = ''shutdown.stop'' \<or> name = ''shutdown.reboot'') \<or> name = ''shutdown.return'' \<or> name = ''shutdown.stayoff''"
    using assms(1) by (rule contrapos_pp) (simp add: resolveShutdownSteps_def)
  then show ?thesis
  proof (elim disjE)
    assume off: "name = ''load.off''"
    show ?thesis by (rule one [of "''load.off.delay''" "0" False]) (use assms(1) off in \<open>simp_all add: resolveShutdownSteps_def value_asked_def\<close>)
  next
    assume on: "name = ''load.on''"
    show ?thesis by (rule one [of "''load.on.delay''" "0" False]) (use assms(1) on in \<open>simp_all add: resolveShutdownSteps_def value_asked_def\<close>)
  next
    assume off_delay: "name = ''load.off.delay''"
    show ?thesis by (rule one [of "''load.off.delay''" "off_delay" True]) (use assms(1) off_delay in \<open>simp_all add: resolveShutdownSteps_def value_asked_def\<close>)
  next
    assume on_delay: "name = ''load.on.delay''"
    show ?thesis by (rule one [of "''load.on.delay''" "on_delay" True]) (use assms(1) on_delay in \<open>simp_all add: resolveShutdownSteps_def value_asked_def\<close>)
  next
    assume "name = ''shutdown.stop''"
    then show ?thesis by (intro row_step disjI1)
  next
    assume "name = ''shutdown.reboot''"
    then show ?thesis by (intro row_step disjI2)
  next
    assume ret: "name = ''shutdown.return''"
    show ?thesis
    proof (cases "cmdField table usages name")
      case (Some p)
      with ret assms(1) one [of name] show ?thesis
        by (cases p) (auto simp: resolveShutdownSteps_def value_asked_def)
    next
      case None
      with ret assms f [of "''load.off.delay''"] f [of "''load.on.delay''"] show ?thesis
        by (auto simp: resolveShutdownSteps_def value_asked_def split: option.splits if_splits)
    qed
  next
    assume stay: "name = ''shutdown.stayoff''"
    with assms f [of "''load.off.delay''"] f [of "''load.on.delay''"] cancel show ?thesis
      by (auto simp: resolveShutdownSteps_def value_asked_def split: option.splits if_splits)
  qed
qed

text \<open>The field holds the value, or all ones for a cancel.\<close>

lemma field_value:
  assumes "n \<le> 32" "0 \<le> v" "v < 2 ^ n"
  shows "take_bit n (ucast (word_of_int v :: u32)) = (word_of_int v :: 64 word)"
proof (rule bit_word_eqI)
  fix j assume "j < LENGTH(64)"
  have "bit v j \<longleftrightarrow> j < n \<and> bit v j" using take_bit_int_eq_self [OF assms(2,3)] bit_take_bit_iff [of n v j] by simp
  with assms(1) \<open>j < LENGTH(64)\<close> show "bit (take_bit n (ucast (word_of_int v :: u32)) :: 64 word) j = bit (word_of_int v :: 64 word) j"
    by (auto simp: bit_take_bit_iff bit_ucast_iff bit_word_of_int_iff)
qed

lemma field_all_ones: "n \<le> 32 \<Longrightarrow> take_bit n (ucast (-1 :: u32)) = (mask n :: 64 word)"
  by (rule bit_word_eqI) (auto simp: bit_take_bit_iff bit_ucast_iff bit_mask_iff)

lemma fits_below:
  assumes "fitsField u v" "v \<noteq> -1" "0 < hu_bit_size u" "v < 2147483648"
  shows "0 \<le> v \<and> v < 2 ^ unat (hu_bit_size u)"
proof (cases "32 \<le> hu_bit_size u")
  case True
  then have "32 \<le> unat (hu_bit_size u)" by (simp add: word_le_nat_alt)
  then have "(2::int) ^ 32 \<le> 2 ^ unat (hu_bit_size u)" by (intro power_increasing) simp_all
  with assms show ?thesis by (auto simp: fitsField_def split: if_splits)
next
  case False
  have "v < 2 ^ unat (hu_bit_size u)" if "v < 2 ^ (unat (hu_bit_size u) - Suc 0)"
    using that by (rule less_le_trans) (intro power_increasing, simp_all)
  with False assms show ?thesis by (auto simp: fitsField_def Let_def split: if_splits)
qed

text \<open>What each command has to write, in its order: the row whose field takes the value, and the value. A
  command that takes a parameter writes it, when there is one; the two delays of a composite command are
  the configured ones, the start first.\<close>

definition given :: "string option \<Rightarrow> int \<Rightarrow> int option" where
  "given param v = (if param = None \<or> param = Some [] then Some v else parseDelayParam param)"

definition sequence_asked :: "string \<Rightarrow> string option \<Rightarrow> (string \<Rightarrow> int option) \<Rightarrow> int \<Rightarrow> int \<Rightarrow> (string \<times> int option) list" where
  "sequence_asked name param dfl off_delay on_delay =
     (if name = ''load.off'' then [(''load.off.delay'', Some 0)]
      else if name = ''load.on'' then [(''load.on.delay'', Some 0)]
      else if name = ''load.off.delay'' then [(name, given param off_delay)]
      else if name = ''load.on.delay'' then [(name, given param on_delay)]
      else if name = ''shutdown.stop'' then [(name, dfl name)]
      else if name = ''shutdown.reboot'' \<or> name = ''shutdown.return'' \<and> dfl name \<noteq> None
      then [(name, Option.bind (dfl name) (given param))]
      else if name = ''shutdown.return'' then [(''load.on.delay'', Some on_delay), (''load.off.delay'', Some off_delay)]
      else [(''load.on.delay'', Some (-1)), (''load.off.delay'', Some off_delay)])"

lemma single_step_given:
  "single_step param field dfl takes_param = StepsOk steps \<Longrightarrow>
     \<exists>u v. steps = [(u, v)] \<and> field = Some u \<and> Some v = (if takes_param then given param dfl else Some dfl)"
  by (auto simp: single_step_def given_def Let_def split: option.splits if_splits)

text \<open>The steps are that sequence.\<close>

lemma steps_sequence:
  assumes "resolveShutdownSteps name param usages off_delay on_delay table = StepsOk steps"
  shows "map (\<lambda>(u, v). (Some u, Some v)) steps = map (\<lambda>(r, v). (map_option fst (cmdField table usages r), v))
     (sequence_asked name param (\<lambda>r. map_option (cmdDefault \<circ> snd) (cmdField table usages r)) off_delay on_delay)"
proof -
  have one: "map (\<lambda>(u, v). (Some u, Some v)) steps = [(field, if takes_param then given param dfl else Some dfl)]"
    if "single_step param field dfl takes_param = StepsOk steps" for field dfl takes_param
    using single_step_given [OF that] by auto
  have present: "cmdField table usages name \<noteq> None" if "single_step param (map_option fst (cmdField table usages name)) dfl tp = StepsOk steps" for dfl tp
    using single_step_given [OF that] by auto
  have "name = ''load.off'' \<or> name = ''load.on'' \<or> name = ''load.off.delay'' \<or> name = ''load.on.delay'' \<or>
      name = ''shutdown.stop'' \<or> name = ''shutdown.reboot'' \<or> name = ''shutdown.return'' \<or> name = ''shutdown.stayoff''"
    using assms by (rule contrapos_pp) (simp add: resolveShutdownSteps_def)
  then show ?thesis
  proof (elim disjE)
    assume n: "name = ''shutdown.return''"
    show ?thesis
    proof (cases "cmdField table usages name")
      case None
      with n assms show ?thesis
        by (auto simp: resolveShutdownSteps_def sequence_asked_def split: option.splits if_splits)
    next
      case (Some p)
      with n assms have "single_step param (map_option fst (cmdField table usages name)) (cmdDefault (snd p)) True = StepsOk steps"
        by (cases p) (simp add: resolveShutdownSteps_def)
      from one [OF this] n Some show ?thesis by (simp add: sequence_asked_def)
    qed
  next
    assume n: "name = ''shutdown.stayoff''"
    with assms show ?thesis by (auto simp: resolveShutdownSteps_def sequence_asked_def split: option.splits if_splits)
  next
    assume n: "name = ''shutdown.stop''"
    with assms have s: "single_step param (map_option fst (cmdField table usages name))
        (cmdDefault (case cmdField table usages name of Some (u, dfl) \<Rightarrow> dfl | None \<Rightarrow> None)) False = StepsOk steps"
      by (simp add: resolveShutdownSteps_def Let_def)
    from present [OF s] obtain u d where "cmdField table usages name = Some (u, d)" by auto
    with one [OF s] n show ?thesis by (simp add: sequence_asked_def)
  next
    assume n: "name = ''shutdown.reboot''"
    with assms have s: "single_step param (map_option fst (cmdField table usages name))
        (cmdDefault (case cmdField table usages name of Some (u, dfl) \<Rightarrow> dfl | None \<Rightarrow> None)) True = StepsOk steps"
      by (simp add: resolveShutdownSteps_def Let_def)
    from present [OF s] obtain u d where "cmdField table usages name = Some (u, d)" by auto
    with one [OF s] n show ?thesis by (simp add: sequence_asked_def)
  next
    assume n: "name = ''load.off''"
    with assms have s: "single_step param (map_option fst (cmdField table usages ''load.off.delay'')) 0 False = StepsOk steps"
      by (simp add: resolveShutdownSteps_def)
    from one [OF s] n show ?thesis by (simp add: sequence_asked_def)
  next
    assume n: "name = ''load.on''"
    with assms have s: "single_step param (map_option fst (cmdField table usages ''load.on.delay'')) 0 False = StepsOk steps"
      by (simp add: resolveShutdownSteps_def)
    from one [OF s] n show ?thesis by (simp add: sequence_asked_def)
  next
    assume n: "name = ''load.off.delay''"
    with assms have s: "single_step param (map_option fst (cmdField table usages name)) off_delay True = StepsOk steps"
      by (simp add: resolveShutdownSteps_def)
    from one [OF s] n show ?thesis by (simp add: sequence_asked_def)
  next
    assume n: "name = ''load.on.delay''"
    with assms have s: "single_step param (map_option fst (cmdField table usages name)) on_delay True = StepsOk steps"
      by (simp add: resolveShutdownSteps_def)
    from one [OF s] n show ?thesis by (simp add: sequence_asked_def)
  qed
qed

text \<open>A step that is written holds its value.\<close>

lemma step_in_full:
  assumes "resolveShutdownSteps name param usages (configuredDelay data ''ups.delay.shutdown'') (configuredDelay data ''ups.delay.start'')
      table = StepsOk steps"
    and "(u, v) \<in> set steps" "field_ok u" "max n (requiredLength u) \<le> length buffer"
  shows "u \<in> set usages \<and> hu_report_type u = 3 \<and>
    value_asked name param table usages (configuredDelay data ''ups.delay.shutdown'') (configuredDelay data ''ups.delay.start'') v \<and>
    extractRaw u (fst (writeField u (word_of_int v) buffer n)) = (if v = -1 then mask (unat (hu_bit_size u)) else word_of_int v) \<and>
    (extractRaw u (fst (writeField u (word_of_int v) buffer n)) = 0) = (v = 0)"
proof -
  note st = steps_value [OF assms(1,2)]
  have z: "0 < hu_bit_size u" "unat (hu_bit_size u) \<le> 32" using assms(3) by (auto simp: field_ok_def)
  then have z0: "0 < unat (hu_bit_size u)" by (simp add: unat_gt_0)
  from st have "v = -1 \<or> v = configuredDelay data ''ups.delay.shutdown'' \<or> v = configuredDelay data ''ups.delay.start'' \<or> v = 0 \<or>
      parseDelayParam param = Some v \<or> (\<exists>dfl. v = cmdDefault dfl)"
    unfolding value_asked_def by (cases "cmdField table usages name") auto
  moreover have "configuredDelay data k \<le> 2147483647" for k
    using configuredDelay_range [of data k] by (elim disjE) (simp_all add: kNoDelay_def)
  ultimately have "v \<le> 2147483647"
    using cmdDefault_range parseDelayParam_range [of param v] by (elim disjE exE) simp_all
  then have "v < 2147483648" by simp
  with st fits_below [of u v] z(1) have v: "v \<noteq> -1 \<Longrightarrow> 0 \<le> v \<and> v < 2 ^ unat (hu_bit_size u)" by blast
  have raw: "extractRaw u (fst (writeField u (word_of_int v) buffer n)) = (if v = -1 then mask (unat (hu_bit_size u)) else word_of_int v)"
    using field_roundtrip [OF assms(3,4), of "word_of_int v"] field_value [OF z(2), of v] field_all_ones [OF z(2)] v by simp
  have "mask (unat (hu_bit_size u)) \<noteq> (0 :: 64 word)"
  proof
    assume "mask (unat (hu_bit_size u)) = (0 :: 64 word)"
    then have "bit (mask (unat (hu_bit_size u)) :: 64 word) 0 = False" by simp
    with z0 show False by (simp add: bit_mask_iff)
  qed
  moreover have "(word_of_int v = (0 :: 64 word)) = (v = 0)" if "0 \<le> v"
  proof -
    have "uint (word_of_int v :: 64 word) = v"
      using that \<open>v < 2147483648\<close> by (simp add: uint_word_of_int take_bit_int_eq_self)
    then show ?thesis by auto
  qed
  ultimately show ?thesis using st raw v by (cases "v = -1") simp_all
qed

text \<open>C2: a load or shutdown command writes what was asked, in full. Its writes are those of the command,
  in its order: the field of the off delay takes the off delay, that of the on delay the on delay, that of
  a row the parameter or its default, and a cancel is all ones. Each of them is a FEATURE field of the device,
  and when it can be written at all (\<open>field_ok\<close>: at most 32 bits from the start of its first byte, in a report of
  at most 256 bytes; see \<open>writeField_wide_field\<close> for the others) the report then holds exactly that
  value: no delay is truncated, so the field is 0 only when 0 was asked.\<close>

theorem delay_written_in_full:
  assumes "resolveShutdownSteps name param usages (configuredDelay data ''ups.delay.shutdown'') (configuredDelay data ''ups.delay.start'')
      table = StepsOk steps"
    and "(u, v) \<in> set steps" "field_ok u" "max n (requiredLength u) \<le> length buffer"
  shows "map (\<lambda>(u, v). (Some u, Some v)) steps = map (\<lambda>(r, v). (map_option fst (cmdField table usages r), v))
      (sequence_asked name param (\<lambda>r. map_option (cmdDefault \<circ> snd) (cmdField table usages r))
        (configuredDelay data ''ups.delay.shutdown'') (configuredDelay data ''ups.delay.start'')) \<and>
    u \<in> set usages \<and> hu_report_type u = 3 \<and>
    extractRaw u (fst (writeField u (word_of_int v) buffer n)) = (if v = -1 then mask (unat (hu_bit_size u)) else word_of_int v) \<and>
    (extractRaw u (fst (writeField u (word_of_int v) buffer n)) = 0) = (v = 0)"
  using steps_sequence [OF assms(1)] step_in_full [OF assms] by blast

text \<open>A CyberPower delay field of 16 bits, and the command with the parameter 300.\<close>

definition cps_off_delay :: hid_usage_def where
  "cps_off_delay = hu_new\<lparr>hu_report_id := 21, hu_report_type := 3, hu_bit_size := 16, hu_found := True,
     hu_logical_min := -32768, hu_logical_max := 32767, hu_path := ''UPS.Output.DelayBeforeShutdown''\<rparr>"

definition cps_off_table :: "hid_info list" where
  "cps_off_table = [row ''load.off.delay'' 0 0 ''UPS.Output.DelayBeforeShutdown'' (Some ''60'') HU_TYPE_CMD CvNumber []]"

lemma cps_off_steps:
  "resolveShutdownSteps ''load.off.delay'' (Some ''300'') [cps_off_delay] kNoDelay kNoDelay (Some cps_off_table) = StepsOk [(cps_off_delay, 300)]"
  by code_simp

theorem delay_written_in_full_witness:
  "extractRaw cps_off_delay (fst (writeField cps_off_delay (word_of_int 300) [21, 0xFF, 0xFF] 3)) = 300 \<and>
   sequence_asked ''load.off.delay'' (Some ''300'') (\<lambda>r. None) kNoDelay kNoDelay = [(''load.off.delay'', Some 300)]"
proof -
  have d: "configuredDelay ud_new k = kNoDelay" for k by (simp add: configuredDelay_def ud_new_def ud_hasKey_find ud_find_def)
  have ok: "field_ok cps_off_delay" and "requiredLength cps_off_delay = 3"
    by (simp_all add: field_ok_def cps_off_delay_def hu_new_def requiredLength_def)
  then have "max 3 (requiredLength cps_off_delay) \<le> length [21, 0xFF, 0xFF :: u8]" by simp
  have "resolveShutdownSteps ''load.off.delay'' (Some ''300'') [cps_off_delay] (configuredDelay ud_new ''ups.delay.shutdown'')
      (configuredDelay ud_new ''ups.delay.start'') (Some cps_off_table) = StepsOk [(cps_off_delay, 300)]"
    unfolding d by (rule cps_off_steps)
  note w = delay_written_in_full [OF this _ ok \<open>max 3 _ \<le> _\<close>, of 300]
  have "sequence_asked ''load.off.delay'' (Some ''300'') (\<lambda>r. None) kNoDelay kNoDelay = [(''load.off.delay'', Some 300)]" by code_simp
  then show ?thesis using w by simp
qed

section \<open>Refused commands\<close>

lemma run_steps_result: "fst (run_steps port steps p) = CmdOk \<or> fst (run_steps port steps p) = CmdFailed"
  by (induction port steps p rule: run_steps.induct) (auto split: prod.splits)

lemma default_shutdown_result:
  "fst (default_shutdown port available subs p) = CmdOk \<or> fst (default_shutdown port available subs p) = CmdFailed"
  by (induction port available subs p rule: default_shutdown.induct) (auto split: prod.splits)

text \<open>The answers a command can give for a connected UPS, and the port after it.\<close>

definition refused_or_run :: "'p \<Rightarrow> command_result \<times> 'p \<Rightarrow> bool" where
  "refused_or_run p r \<longleftrightarrow> fst r = CmdOk \<or> fst r = CmdFailed \<or>
     (snd r = p \<and> (fst r = CmdNotSupported \<or> fst r = CmdInvalidArgument))"

lemma refused_or_run_if: "(c \<Longrightarrow> refused_or_run p a) \<Longrightarrow> (\<not> c \<Longrightarrow> refused_or_run p b) \<Longrightarrow> refused_or_run p (if c then a else b)"
  by simp

lemma refused_or_run_not: "refused_or_run p (CmdNotSupported, p)" "refused_or_run p (CmdInvalidArgument, p)"
  by (simp_all add: refused_or_run_def)

lemma beeper_command_refused: "refused_or_run p (beeper_command port name p)"
proof -
  have "refused_or_run p (case f of None \<Rightarrow> (CmdNotSupported, p)
      | Some (u, dfl) \<Rightarrow> (case cp_setBeeperField port u e p of (ok, p) \<Rightarrow> (if ok then CmdOk else CmdFailed, p)))" for f e
    by (cases f) (simp_all add: refused_or_run_not split_beta refused_or_run_def)
  then show ?thesis unfolding beeper_command_def Let_def .
qed

lemma power_command_refused: "refused_or_run p (power_command port name param p)"
proof -
  have "refused_or_run p (case r of StepsInvalidArgument \<Rightarrow> (CmdInvalidArgument, p) | StepsNotSupported \<Rightarrow> (CmdNotSupported, p)
      | StepsOk steps \<Rightarrow> run_steps port steps (q steps))" for r q
  proof (cases r)
    case (StepsOk steps)
    then show ?thesis using run_steps_result [of port steps "q steps"] by (auto simp: refused_or_run_def)
  qed (simp_all add: refused_or_run_not)
  then show ?thesis unfolding power_command_def Let_def .
qed

lemma hc_refused:
  assumes "name \<noteq> None" "cp_connected port p"
  shows "refused_or_run p (hc_executeCommand port name param p)"
proof -
  have w: "refused_or_run p (case resolveWrite n (cp_usages port p) (cp_table port p) of None \<Rightarrow> (CmdNotSupported, p)
      | Some (u, v) \<Rightarrow> (case cp_writeUsage port u v p of (ok, p) \<Rightarrow> (if ok then CmdOk else CmdFailed, p)))" for n
    by (cases "resolveWrite n (cp_usages port p) (cp_table port p)") (simp_all add: refused_or_run_not split_beta refused_or_run_def)
  have d: "refused_or_run p (default_shutdown port available subs q)" for available subs q
    using default_shutdown_result [of port available subs q] by (auto simp: refused_or_run_def)
  from assms obtain n where n: "name = Some n" by auto
  show ?thesis
    unfolding hc_executeCommand_def n option.case Let_def
    by (intro refused_or_run_if refused_or_run_not beeper_command_refused power_command_refused w d) (use assms in simp)
qed

lemma hc_unchanged:
  assumes "fst (hc_executeCommand port name param p) \<noteq> CmdOk" "fst (hc_executeCommand port name param p) \<noteq> CmdFailed"
  shows "snd (hc_executeCommand port name param p) = p"
proof (cases "name \<noteq> None \<and> cp_connected port p")
  case True
  with hc_refused [of name port p param] assms show ?thesis by (auto simp: refused_or_run_def)
qed (auto simp: hc_executeCommand_def split: option.splits)

text \<open>C11: a refused command does nothing. Whatever the port, a command that answers anything but
  \<open>OK\<close> or \<open>FAILED\<close> leaves it as it was, no step of a sequence having been written; and the
  answer is \<open>NOT_CONNECTED\<close> exactly when a command was named and no UPS is connected.\<close>

theorem refused_command_writes_nothing:
  "(fst (hc_executeCommand port name param p) = CmdOk \<or> fst (hc_executeCommand port name param p) = CmdFailed \<or>
      snd (hc_executeCommand port name param p) = p) \<and>
   (fst (hc_executeCommand port name param p) = CmdNotConnected) = (name \<noteq> None \<and> \<not> cp_connected port p)"
proof (cases "name \<noteq> None \<and> cp_connected port p")
  case True
  with hc_refused [of name port p param] show ?thesis by (auto simp: refused_or_run_def)
qed (auto simp: hc_executeCommand_def split: option.splits)

end
