(* ===== verification/VendorTables.thy ===== *)
theory VendorTables
  imports NutTableFacts
begin

text \<open>
  The rows of \<open>genericHid2Nut\<close> that each vendor driver leaves to its own table: the arrays
  \<open>kSupersededGenericPaths\<close> of the driver files in \<open>lib/USBHostUPS/src\<close>, in their order.
\<close>

definition mge_superseded :: "string list" where
  "mge_superseded = [
    ''UPS.PowerSummary.PresentStatus.ACPresent'', ''UPS.PowerSummary.ACPresent'', ''UPS.PowerSummary.PresentStatus.Discharging'',
    ''UPS.PowerSummary.Discharging'', ''UPS.PowerSummary.PresentStatus.Charging'', ''UPS.PowerSummary.Charging'',
    ''UPS.PowerSummary.PresentStatus.BelowRemainingCapacityLimit'', ''UPS.PowerSummary.BelowRemainingCapacityLimit'',
    ''UPS.PowerSummary.PresentStatus.NeedReplacement'', ''UPS.PowerSummary.NeedReplacement'',
    ''UPS.PowerSummary.PresentStatus.Overload'', ''UPS.PowerSummary.Overload'',
    ''UPS.PowerSummary.PresentStatus.ShutdownImminent'', ''UPS.PowerSummary.ShutdownImminent'',
    ''UPS.PowerSummary.PresentStatus.CommunicationLost'', ''UPS.PowerSummary.CommunicationLost'',
    ''UPS.PowerSummary.PresentStatus.BatteryPresent'', ''UPS.PowerSummary.PresentStatus.RemainingTimeLimitExpired'',
    ''UPS.PowerSummary.PresentStatus.FullyCharged'', ''UPS.PowerSummary.PresentStatus.FullyDischarged'',
    ''UPS.PowerSummary.Voltage'', ''UPS.BatterySystem.Voltage'', ''UPS.Battery.Voltage'', ''UPS.PowerSummary.RemainingCapacity'',
    ''UPS.PowerSummary.RemainingCapacityLimit'', ''UPS.PowerSummary.RunTimeToEmpty'', ''UPS.Battery.RunTimeToEmpty'',
    ''UPS.PowerSummary.PercentLoad'', ''UPS.PowerConverter.Output.PercentLoad'', ''UPS.Output.PercentLoad'',
    ''UPS.PowerSummary.Temperature'', ''UPS.Battery.Temperature'', ''UPS.BatterySystem.Battery.DesignCapacity'',
    ''UPS.BatterySystem.Battery.FullChargeCapacity'', ''UPS.PowerSummary.ConfigVoltage'', ''UPS.Battery.ConfigVoltage'',
    ''UPS.BatterySystem.Battery.Test'', ''UPS.Battery.Test'', ''UPS.Output.Test'', ''UPS.PowerSummary.DelayBeforeShutdown'',
    ''UPS.PowerConverter.Input.Voltage'', ''UPS.Input.Voltage'', ''UPS.Flow.Voltage'', ''UPS.PowerConverter.Input.Frequency'',
    ''UPS.Input.Frequency'', ''UPS.Flow.Frequency'', ''UPS.PowerConverter.Output.Voltage'', ''UPS.Output.Voltage'',
    ''UPS.PowerConverter.Output.Frequency'', ''UPS.Output.Frequency'', ''UPS.PowerConverter.Output.ActivePower'',
    ''UPS.Output.ActivePower'', ''UPS.PowerConverter.Output.ApparentPower'', ''UPS.Output.ApparentPower'',
    ''UPS.Flow.ConfigActivePower'', ''UPS.PowerConverter.ConfigActivePower'', ''UPS.Output.ConfigActivePower'',
    ''UPS.Flow.ConfigApparentPower'', ''UPS.Flow.ConfigVoltage'', ''UPS.Input.ConfigVoltage'',
    ''UPS.PowerConverter.Output.ConfigVoltage'', ''UPS.Output.ConfigVoltage'', ''UPS.PowerConverter.Output.HighVoltageTransfer'',
    ''UPS.PowerConverter.Output.LowVoltageTransfer'', ''UPS.Output.LowVoltageTransfer'', ''UPS.Input.LowVoltageTransfer'',
    ''UPS.Output.HighVoltageTransfer'', ''UPS.Input.HighVoltageTransfer'', ''UPS.PowerSummary.AudibleAlarmControl'',
    ''UPS.BatterySystem.Battery.AudibleAlarmControl'', ''UPS.AudibleAlarmControl'']"

definition apc_superseded :: "string list" where
  "apc_superseded = [
    ''UPS.PowerSummary.PresentStatus.ACPresent'', ''UPS.PowerSummary.ACPresent'', ''UPS.PowerSummary.PresentStatus.Discharging'',
    ''UPS.PowerSummary.Discharging'', ''UPS.PowerSummary.PresentStatus.Charging'', ''UPS.PowerSummary.Charging'',
    ''UPS.PowerSummary.PresentStatus.BelowRemainingCapacityLimit'', ''UPS.PowerSummary.BelowRemainingCapacityLimit'',
    ''UPS.PowerSummary.PresentStatus.NeedReplacement'', ''UPS.PowerSummary.NeedReplacement'',
    ''UPS.PowerSummary.PresentStatus.Overload'', ''UPS.PowerSummary.Overload'',
    ''UPS.PowerSummary.PresentStatus.ShutdownImminent'', ''UPS.PowerSummary.ShutdownImminent'',
    ''UPS.PowerSummary.PresentStatus.CommunicationLost'', ''UPS.PowerSummary.CommunicationLost'',
    ''UPS.PowerSummary.PresentStatus.BatteryPresent'', ''UPS.PowerSummary.PresentStatus.RemainingTimeLimitExpired'',
    ''UPS.PowerSummary.PresentStatus.FullyCharged'', ''UPS.PowerSummary.PresentStatus.FullyDischarged'',
    ''UPS.PowerConverter.Input.Voltage'', ''UPS.Input.Voltage'', ''UPS.Flow.Voltage'', ''UPS.PowerConverter.Output.Voltage'',
    ''UPS.Output.Voltage'', ''UPS.PowerConverter.Output.Frequency'', ''UPS.Output.Frequency'', ''UPS.PowerSummary.Voltage'',
    ''UPS.BatterySystem.Voltage'', ''UPS.Battery.Voltage'', ''UPS.PowerSummary.RemainingCapacity'',
    ''UPS.PowerSummary.RemainingCapacityLimit'', ''UPS.PowerSummary.RunTimeToEmpty'', ''UPS.Battery.RunTimeToEmpty'',
    ''UPS.PowerSummary.PercentLoad'', ''UPS.PowerConverter.Output.PercentLoad'', ''UPS.Output.PercentLoad'',
    ''UPS.PowerSummary.ManufacturerDate'', ''UPS.ManufacturerDate'', ''UPS.Battery.ManufacturerDate'',
    ''UPS.BatterySystem.Battery.Date'', ''UPS.Battery.Date'', ''UPS.Battery.Temperature'',
    ''UPS.BatterySystem.Battery.FullChargeCapacity'', ''UPS.Flow.ConfigActivePower'', ''UPS.PowerConverter.ConfigActivePower'',
    ''UPS.Output.ConfigActivePower'', ''UPS.PowerSummary.ConfigVoltage'', ''UPS.Battery.ConfigVoltage'',
    ''UPS.Flow.ConfigVoltage'', ''UPS.Input.ConfigVoltage'', ''UPS.PowerConverter.Output.ConfigVoltage'',
    ''UPS.Output.ConfigVoltage'', ''UPS.PowerConverter.Output.HighVoltageTransfer'',
    ''UPS.PowerConverter.Output.LowVoltageTransfer'', ''UPS.Output.LowVoltageTransfer'', ''UPS.Input.LowVoltageTransfer'',
    ''UPS.Output.HighVoltageTransfer'', ''UPS.Input.HighVoltageTransfer'', ''UPS.PowerSummary.AudibleAlarmControl'',
    ''UPS.BatterySystem.Battery.AudibleAlarmControl'', ''UPS.AudibleAlarmControl'', ''UPS.BatterySystem.Battery.Test'',
    ''UPS.Battery.Test'', ''UPS.Output.Test'', ''UPS.PowerSummary.DelayBeforeShutdown'']"

definition cps_superseded :: "string list" where
  "cps_superseded = [
    ''UPS.PowerSummary.PresentStatus.ACPresent'', ''UPS.PowerSummary.ACPresent'', ''UPS.PowerSummary.PresentStatus.Discharging'',
    ''UPS.PowerSummary.Discharging'', ''UPS.PowerSummary.PresentStatus.Charging'', ''UPS.PowerSummary.Charging'',
    ''UPS.PowerSummary.PresentStatus.BelowRemainingCapacityLimit'', ''UPS.PowerSummary.BelowRemainingCapacityLimit'',
    ''UPS.PowerSummary.PresentStatus.NeedReplacement'', ''UPS.PowerSummary.NeedReplacement'',
    ''UPS.PowerSummary.PresentStatus.Overload'', ''UPS.PowerSummary.Overload'',
    ''UPS.PowerSummary.PresentStatus.ShutdownImminent'', ''UPS.PowerSummary.ShutdownImminent'',
    ''UPS.PowerSummary.PresentStatus.CommunicationLost'', ''UPS.PowerSummary.CommunicationLost'',
    ''UPS.PowerSummary.PresentStatus.BatteryPresent'', ''UPS.PowerSummary.PresentStatus.RemainingTimeLimitExpired'',
    ''UPS.PowerSummary.PresentStatus.FullyCharged'', ''UPS.PowerSummary.PresentStatus.FullyDischarged'',
    ''UPS.PowerConverter.Input.Voltage'', ''UPS.Input.Voltage'', ''UPS.Flow.Voltage'', ''UPS.PowerConverter.Input.Frequency'',
    ''UPS.Input.Frequency'', ''UPS.Flow.Frequency'', ''UPS.PowerConverter.Output.Voltage'', ''UPS.Output.Voltage'',
    ''UPS.PowerConverter.Output.Frequency'', ''UPS.Output.Frequency'', ''UPS.PowerConverter.Output.ActivePower'',
    ''UPS.Output.ActivePower'', ''UPS.PowerConverter.Output.ApparentPower'', ''UPS.Output.ApparentPower'',
    ''UPS.PowerSummary.Voltage'', ''UPS.BatterySystem.Voltage'', ''UPS.Battery.Voltage'', ''UPS.PowerSummary.RemainingCapacity'',
    ''UPS.PowerSummary.RemainingCapacityLimit'', ''UPS.PowerSummary.RunTimeToEmpty'', ''UPS.Battery.RunTimeToEmpty'',
    ''UPS.PowerSummary.PercentLoad'', ''UPS.PowerConverter.Output.PercentLoad'', ''UPS.Output.PercentLoad'',
    ''UPS.Battery.ManufacturerDate'', ''UPS.BatterySystem.Battery.Date'', ''UPS.Battery.Date'', ''UPS.PowerSummary.Temperature'',
    ''UPS.BatterySystem.Battery.FullChargeCapacity'', ''UPS.Flow.ConfigActivePower'', ''UPS.PowerConverter.ConfigActivePower'',
    ''UPS.Output.ConfigActivePower'', ''UPS.Flow.ConfigApparentPower'', ''UPS.PowerSummary.ConfigVoltage'',
    ''UPS.Battery.ConfigVoltage'', ''UPS.Flow.ConfigVoltage'', ''UPS.Input.ConfigVoltage'',
    ''UPS.PowerConverter.Output.ConfigVoltage'', ''UPS.Output.ConfigVoltage'', ''UPS.PowerConverter.Output.HighVoltageTransfer'',
    ''UPS.PowerConverter.Output.LowVoltageTransfer'', ''UPS.Output.LowVoltageTransfer'', ''UPS.Input.LowVoltageTransfer'',
    ''UPS.Output.HighVoltageTransfer'', ''UPS.Input.HighVoltageTransfer'', ''UPS.PowerSummary.AudibleAlarmControl'',
    ''UPS.BatterySystem.Battery.AudibleAlarmControl'', ''UPS.AudibleAlarmControl'', ''UPS.BatterySystem.Battery.Test'',
    ''UPS.Battery.Test'', ''UPS.Output.Test'', ''UPS.PowerSummary.DelayBeforeShutdown'']"

definition ecoflow_superseded :: "string list" where
  "ecoflow_superseded = [
    ''UPS.PowerSummary.PresentStatus.ACPresent'', ''UPS.PowerSummary.ACPresent'', ''UPS.PowerSummary.PresentStatus.Discharging'',
    ''UPS.PowerSummary.Discharging'', ''UPS.PowerSummary.PresentStatus.Charging'', ''UPS.PowerSummary.Charging'',
    ''UPS.PowerSummary.PresentStatus.BelowRemainingCapacityLimit'', ''UPS.PowerSummary.BelowRemainingCapacityLimit'',
    ''UPS.PowerSummary.PresentStatus.NeedReplacement'', ''UPS.PowerSummary.NeedReplacement'',
    ''UPS.PowerSummary.PresentStatus.Overload'', ''UPS.PowerSummary.Overload'',
    ''UPS.PowerSummary.PresentStatus.ShutdownImminent'', ''UPS.PowerSummary.ShutdownImminent'',
    ''UPS.PowerSummary.PresentStatus.CommunicationLost'', ''UPS.PowerSummary.CommunicationLost'',
    ''UPS.PowerSummary.PresentStatus.BatteryPresent'', ''UPS.PowerSummary.PresentStatus.RemainingTimeLimitExpired'',
    ''UPS.PowerSummary.PresentStatus.FullyCharged'', ''UPS.PowerSummary.PresentStatus.FullyDischarged'',
    ''UPS.PowerSummary.Voltage'', ''UPS.BatterySystem.Voltage'', ''UPS.Battery.Voltage'', ''UPS.PowerSummary.RemainingCapacity'',
    ''UPS.PowerSummary.RemainingCapacityLimit'', ''UPS.PowerSummary.RunTimeToEmpty'', ''UPS.Battery.RunTimeToEmpty'',
    ''UPS.PowerSummary.ManufacturerDate'', ''UPS.ManufacturerDate'', ''UPS.BatterySystem.Battery.DesignCapacity'',
    ''UPS.BatterySystem.Battery.FullChargeCapacity'', ''UPS.Flow.ConfigApparentPower'', ''UPS.PowerSummary.ConfigVoltage'',
    ''UPS.Battery.ConfigVoltage'', ''UPS.PowerSummary.AudibleAlarmControl'', ''UPS.BatterySystem.Battery.AudibleAlarmControl'',
    ''UPS.AudibleAlarmControl'', ''UPS.PowerSummary.DelayBeforeShutdown'']"

definition powercom_superseded :: "string list" where
  "powercom_superseded = [
    ''UPS.PowerSummary.PresentStatus.ACPresent'', ''UPS.PowerSummary.ACPresent'', ''UPS.PowerSummary.PresentStatus.Discharging'',
    ''UPS.PowerSummary.Discharging'', ''UPS.PowerSummary.PresentStatus.Charging'', ''UPS.PowerSummary.Charging'',
    ''UPS.PowerSummary.PresentStatus.BelowRemainingCapacityLimit'', ''UPS.PowerSummary.BelowRemainingCapacityLimit'',
    ''UPS.PowerSummary.PresentStatus.NeedReplacement'', ''UPS.PowerSummary.NeedReplacement'',
    ''UPS.PowerSummary.PresentStatus.Overload'', ''UPS.PowerSummary.Overload'',
    ''UPS.PowerSummary.PresentStatus.ShutdownImminent'', ''UPS.PowerSummary.ShutdownImminent'',
    ''UPS.PowerSummary.PresentStatus.CommunicationLost'', ''UPS.PowerSummary.CommunicationLost'',
    ''UPS.PowerSummary.PresentStatus.BatteryPresent'', ''UPS.PowerSummary.PresentStatus.RemainingTimeLimitExpired'',
    ''UPS.PowerSummary.PresentStatus.FullyCharged'', ''UPS.PowerSummary.PresentStatus.FullyDischarged'',
    ''UPS.PowerConverter.Input.Voltage'', ''UPS.Input.Voltage'', ''UPS.Flow.Voltage'', ''UPS.PowerConverter.Input.Frequency'',
    ''UPS.Input.Frequency'', ''UPS.Flow.Frequency'', ''UPS.PowerConverter.Output.Voltage'', ''UPS.Output.Voltage'',
    ''UPS.PowerConverter.Output.Frequency'', ''UPS.Output.Frequency'', ''UPS.PowerSummary.Voltage'',
    ''UPS.BatterySystem.Voltage'', ''UPS.Battery.Voltage'', ''UPS.PowerSummary.RemainingCapacity'',
    ''UPS.PowerSummary.RemainingCapacityLimit'', ''UPS.PowerSummary.RunTimeToEmpty'', ''UPS.Battery.RunTimeToEmpty'',
    ''UPS.PowerSummary.PercentLoad'', ''UPS.PowerConverter.Output.PercentLoad'', ''UPS.Output.PercentLoad'',
    ''UPS.PowerSummary.ManufacturerDate'', ''UPS.ManufacturerDate'', ''UPS.Battery.ManufacturerDate'',
    ''UPS.BatterySystem.Battery.Date'', ''UPS.Battery.Date'', ''UPS.Battery.Temperature'',
    ''UPS.BatterySystem.Battery.FullChargeCapacity'', ''UPS.PowerSummary.ConfigVoltage'', ''UPS.Battery.ConfigVoltage'',
    ''UPS.Flow.ConfigVoltage'', ''UPS.Input.ConfigVoltage'', ''UPS.PowerConverter.Output.ConfigVoltage'',
    ''UPS.Output.ConfigVoltage'', ''UPS.PowerSummary.AudibleAlarmControl'', ''UPS.BatterySystem.Battery.AudibleAlarmControl'',
    ''UPS.AudibleAlarmControl'', ''UPS.BatterySystem.Battery.Test'', ''UPS.Battery.Test'', ''UPS.Output.Test'',
    ''UPS.PowerSummary.DelayBeforeShutdown'']"

definition openups_superseded :: "string list" where
  "openups_superseded = [
    ''UPS.PowerSummary.PresentStatus.ACPresent'', ''UPS.PowerSummary.ACPresent'', ''UPS.PowerSummary.PresentStatus.Discharging'',
    ''UPS.PowerSummary.Discharging'', ''UPS.PowerSummary.PresentStatus.Charging'', ''UPS.PowerSummary.Charging'',
    ''UPS.PowerSummary.PresentStatus.BelowRemainingCapacityLimit'', ''UPS.PowerSummary.BelowRemainingCapacityLimit'',
    ''UPS.PowerSummary.PresentStatus.NeedReplacement'', ''UPS.PowerSummary.NeedReplacement'',
    ''UPS.PowerSummary.PresentStatus.Overload'', ''UPS.PowerSummary.Overload'',
    ''UPS.PowerSummary.PresentStatus.ShutdownImminent'', ''UPS.PowerSummary.ShutdownImminent'',
    ''UPS.PowerSummary.PresentStatus.CommunicationLost'', ''UPS.PowerSummary.CommunicationLost'',
    ''UPS.PowerSummary.PresentStatus.BatteryPresent'', ''UPS.PowerSummary.PresentStatus.RemainingTimeLimitExpired'',
    ''UPS.PowerSummary.PresentStatus.FullyCharged'', ''UPS.PowerSummary.PresentStatus.FullyDischarged'',
    ''UPS.PowerConverter.Input.Voltage'', ''UPS.Input.Voltage'', ''UPS.Flow.Voltage'', ''UPS.PowerConverter.Output.Voltage'',
    ''UPS.Output.Voltage'', ''UPS.PowerSummary.Voltage'', ''UPS.BatterySystem.Voltage'', ''UPS.Battery.Voltage'',
    ''UPS.PowerSummary.RemainingCapacity'', ''UPS.PowerSummary.RemainingCapacityLimit'', ''UPS.PowerSummary.RunTimeToEmpty'',
    ''UPS.Battery.RunTimeToEmpty'', ''UPS.Battery.ManufacturerDate'', ''UPS.BatterySystem.Battery.Date'', ''UPS.Battery.Date'',
    ''UPS.PowerSummary.Temperature'', ''UPS.Battery.Temperature'', ''UPS.BatterySystem.Battery.DesignCapacity'',
    ''UPS.BatterySystem.Battery.FullChargeCapacity'']"

definition legrand_superseded :: "string list" where
  "legrand_superseded = [
    ''UPS.PowerSummary.PresentStatus.ACPresent'', ''UPS.PowerSummary.ACPresent'', ''UPS.PowerSummary.PresentStatus.Discharging'',
    ''UPS.PowerSummary.Discharging'', ''UPS.PowerSummary.PresentStatus.Charging'', ''UPS.PowerSummary.Charging'',
    ''UPS.PowerSummary.PresentStatus.BelowRemainingCapacityLimit'', ''UPS.PowerSummary.BelowRemainingCapacityLimit'',
    ''UPS.PowerSummary.PresentStatus.Overload'', ''UPS.PowerSummary.Overload'', ''UPS.PowerConverter.Input.Voltage'',
    ''UPS.Input.Voltage'', ''UPS.Flow.Voltage'', ''UPS.PowerConverter.Output.HighVoltageTransfer'',
    ''UPS.PowerConverter.Output.LowVoltageTransfer'', ''UPS.Output.LowVoltageTransfer'', ''UPS.Input.LowVoltageTransfer'',
    ''UPS.Output.HighVoltageTransfer'', ''UPS.Input.HighVoltageTransfer'', ''UPS.Flow.ConfigVoltage'',
    ''UPS.Input.ConfigVoltage'', ''UPS.PowerSummary.Voltage'', ''UPS.BatterySystem.Voltage'', ''UPS.Battery.Voltage'',
    ''UPS.PowerSummary.ConfigVoltage'', ''UPS.Battery.ConfigVoltage'', ''UPS.PowerSummary.RemainingCapacity'',
    ''UPS.PowerSummary.RemainingCapacityLimit'', ''UPS.PowerSummary.RunTimeToEmpty'', ''UPS.Battery.RunTimeToEmpty'',
    ''UPS.PowerConverter.Output.Voltage'', ''UPS.Output.Voltage'', ''UPS.PowerConverter.Output.Frequency'',
    ''UPS.Output.Frequency'', ''UPS.PowerSummary.PercentLoad'', ''UPS.PowerConverter.Output.PercentLoad'',
    ''UPS.Output.PercentLoad'', ''UPS.Flow.ConfigActivePower'', ''UPS.PowerConverter.ConfigActivePower'',
    ''UPS.Output.ConfigActivePower'', ''UPS.PowerSummary.AudibleAlarmControl'',
    ''UPS.BatterySystem.Battery.AudibleAlarmControl'', ''UPS.AudibleAlarmControl'',
    ''UPS.BatterySystem.Battery.FullChargeCapacity'']"

definition liebert_superseded :: "string list" where
  "liebert_superseded = [
    ''UPS.PowerSummary.PresentStatus.ACPresent'', ''UPS.PowerSummary.ACPresent'', ''UPS.PowerSummary.PresentStatus.Discharging'',
    ''UPS.PowerSummary.Discharging'', ''UPS.PowerSummary.PresentStatus.Charging'', ''UPS.PowerSummary.Charging'',
    ''UPS.PowerSummary.PresentStatus.BelowRemainingCapacityLimit'', ''UPS.PowerSummary.BelowRemainingCapacityLimit'',
    ''UPS.PowerSummary.PresentStatus.Overload'', ''UPS.PowerSummary.Overload'',
    ''UPS.PowerSummary.PresentStatus.ShutdownImminent'', ''UPS.PowerSummary.ShutdownImminent'', ''UPS.PowerSummary.Voltage'',
    ''UPS.BatterySystem.Voltage'', ''UPS.Battery.Voltage'', ''UPS.PowerSummary.RemainingCapacity'',
    ''UPS.PowerSummary.RunTimeToEmpty'', ''UPS.Battery.RunTimeToEmpty'', ''UPS.PowerSummary.PercentLoad'',
    ''UPS.PowerConverter.Output.PercentLoad'', ''UPS.Output.PercentLoad'', ''UPS.Flow.ConfigApparentPower'',
    ''UPS.BatterySystem.Battery.Test'', ''UPS.Battery.Test'', ''UPS.Output.Test'', ''UPS.PowerSummary.AudibleAlarmControl'',
    ''UPS.BatterySystem.Battery.AudibleAlarmControl'', ''UPS.AudibleAlarmControl'', ''UPS.PowerConverter.Output.Voltage'',
    ''UPS.Output.Voltage'', ''UPS.Flow.ConfigVoltage'', ''UPS.PowerConverter.Output.ConfigVoltage'',
    ''UPS.Output.ConfigVoltage'', ''UPS.PowerConverter.Output.Frequency'', ''UPS.Output.Frequency'',
    ''UPS.PowerConverter.Input.Voltage'', ''UPS.Input.Voltage'', ''UPS.Flow.Voltage'', ''UPS.PowerConverter.Input.Frequency'',
    ''UPS.Input.Frequency'', ''UPS.Flow.Frequency'', ''UPS.PowerConverter.Output.HighVoltageTransfer'',
    ''UPS.PowerConverter.Output.LowVoltageTransfer'', ''UPS.Output.LowVoltageTransfer'', ''UPS.Input.LowVoltageTransfer'',
    ''UPS.Output.HighVoltageTransfer'', ''UPS.Input.HighVoltageTransfer'', ''UPS.BatterySystem.Battery.FullChargeCapacity'']"

end
