(* ===== verification/VendorDrivers.thy ===== *)
theory VendorDrivers
  imports DriverCycle VendorTables
begin

text \<open>
  The vendor drivers of \<open>lib/USBHostUPS/src\<close> (\<open>APCDriver\<close>, \<open>CyberPowerDriver\<close>, \<open>EatonDriver\<close>,
  \<open>EcoFlowDriver\<close>, \<open>LegrandDriver\<close>, \<open>LiebertDriver\<close>, \<open>OpenUPSDriver\<close>, \<open>PowercomDriver\<close>) and
  \<open>DriverRegistry\<close>. A driver is the state of its own class (\<open>vendor\<close>) beside the state of
  \<open>GenericDriver\<close>; \<open>policy_of\<close> is what it overrides in that state, and the operations
  \<open>vendor_loop\<close>, \<open>vendor_decode\<close>, \<open>vendor_post\<close>, \<open>vendor_string\<close> call those of \<open>GenericDriver\<close>
  where the code does. Log lines are not modelled; \<open>unmapped\<close> is \<open>NUTTABLE_UNMAPPED\<close>, as in the tables.
\<close>

unbundle bit_operations_syntax

section \<open>The state of each class\<close>

record eaton =
  ea_iModelUsages :: "nat list"
  ea_apparentPowerUsages :: "nat list"
  ea_contextIndexed :: bool
  ea_iModelIdx :: u8
  ea_iModelIdxSeen :: bool
  ea_iModelSeen :: bool
  ea_iModel :: string
  ea_apparentPowerSeen :: bool
  ea_apparentPower :: int

definition eaton_new :: eaton where
  "eaton_new = \<lparr>ea_iModelUsages = [], ea_apparentPowerUsages = [], ea_contextIndexed = False, ea_iModelIdx = 0,
     ea_iModelIdxSeen = False, ea_iModelSeen = False, ea_iModel = [], ea_apparentPowerSeen = False, ea_apparentPower = 0\<rparr>"

text \<open>\<open>Apc\<close>: a Back-UPS BX. \<open>CyberPower\<close>: the layout with vendor reports. \<open>Powercom\<close>: the last
  content of report 0x0A.\<close>

datatype vendor = Generic | Apc bool | CyberPower bool | Eaton eaton | EcoFlow | Legrand | Liebert | OpenUps | Powercom "u8 list"

section \<open>The registry\<close>

abbreviation (input) ANY_PID :: u16 where "ANY_PID \<equiv> 0xFFFF"

definition names_it :: "string option \<Rightarrow> string \<Rightarrow> bool" where
  "names_it s what = (case s of None \<Rightarrow> False | Some s \<Rightarrow> contains s what)"

definition createPhoenixtec :: "string option \<Rightarrow> string option \<Rightarrow> vendor" where
  "createPhoenixtec mfr product =
     (if names_it mfr ''AEG'' \<or> names_it product ''AEG'' then Eaton eaton_new
      else if names_it mfr ''BMS'' \<or> names_it product ''Smart-Battery'' then Generic
      else Liebert)"

definition DRIVERS :: "(u16 \<times> u16 \<times> vendor) list" where
  "DRIVERS = [(0x051D, ANY_PID, Apc False), (0x0764, ANY_PID, CyberPower True), (0x0463, ANY_PID, Eaton eaton_new),
     (0x3746, ANY_PID, EcoFlow), (0x0D9F, ANY_PID, Powercom []), (0x1CB0, 0x0038, Legrand), (0x1CB0, 0x0032, Legrand),
     (0x04D8, 0xD004, OpenUps), (0x04D8, 0xD005, OpenUps)]"

definition registry_create :: "u16 \<Rightarrow> u16 \<Rightarrow> string option \<Rightarrow> string option \<Rightarrow> vendor" where
  "registry_create vid pid mfr product =
     (if vid = 0x06DA \<and> pid = 0xFFFF then createPhoenixtec mfr product
      else case find (\<lambda>(v, p, _). v = vid \<and> (p = ANY_PID \<or> p = pid)) DRIVERS of
             Some (_, _, d) \<Rightarrow> d
           | None \<Rightarrow> Generic)"

section \<open>APC\<close>

abbreviation (input) BX_QUICK_POLL_MS :: u32 where "BX_QUICK_POLL_MS \<equiv> 10000"
abbreviation (input) BX_MIN_REQUEST_LENGTH :: u16 where "BX_MIN_REQUEST_LENGTH \<equiv> 8"

definition isBackUpsBX :: "string \<Rightarrow> bool" where
  "isBackUpsBX model = starts_with model ''Back-UPS BX''"

definition apc_requestLength :: "bool \<Rightarrow> u8 \<Rightarrow> u8 \<Rightarrow> u16 \<Rightarrow> u16" where
  "apc_requestLength bx report_type report_id expected =
     (if bx \<and> expected < BX_MIN_REQUEST_LENGTH then BX_MIN_REQUEST_LENGTH else expected)"

text \<open>\<open>String::indexOf\<close>, and the parts of a product string.\<close>

definition indexOf :: "string \<Rightarrow> string \<Rightarrow> nat option" where
  "indexOf s what = find (\<lambda>i. starts_with (drop i s) what) [0..<Suc (length s)]"

definition splitProduct :: "string \<Rightarrow> (string \<times> string \<times> string) option" where
  "splitProduct product =
     (case indexOf product ''FW:'' of
        None \<Rightarrow> None
      | Some fw \<Rightarrow>
          let model = take (if 0 < fw then fw - 1 else 0) product;
              rest = drop (fw + 3) product;
              (firmware, aux) = (case indexOf rest ''USB FW:'' of
                  Some usb \<Rightarrow> (take (if 0 < usb then usb - 1 else 0) rest, drop (usb + 7) rest)
                | None \<Rightarrow> (rest, []))
          in Some (trim model, trim firmware, trim aux))"

definition set_filled :: "string \<Rightarrow> string \<Rightarrow> ups_data \<Rightarrow> ups_data" where
  "set_filled key value data = (if value \<noteq> [] then ud_set data key value else data)"

definition apc_formatDeviceStrings :: "ups_data \<Rightarrow> ups_data" where
  "apc_formatDeviceStrings data =
     (case splitProduct (ud_get data ''ups.model'' []) of
        None \<Rightarrow> data
      | Some (model, firmware, aux) \<Rightarrow>
          set_filled ''ups.firmware.aux'' aux (set_filled ''ups.firmware'' firmware (set_filled ''ups.model'' model data)))"

definition apc_onLoop :: "ups_data \<Rightarrow> bool" where
  "apc_onLoop data = isBackUpsBX (ud_get data ''ups.model'' [])"

section \<open>CyberPower\<close>

abbreviation (input) FIRST_VENDOR_REPORT :: u8 where "FIRST_VENDOR_REPORT \<equiv> 130"

definition cps_acceptPollReport :: "bool \<Rightarrow> u8 \<Rightarrow> u8 \<Rightarrow> bool" where
  "cps_acceptPollReport vendor_layout report_type report_id \<longleftrightarrow>
     \<not> (FIRST_VENDOR_REPORT \<le> report_id \<or> report_id = 6 \<or> (report_id = 4 \<and> vendor_layout))"

definition hasVendorReports :: "hid_transport \<Rightarrow> bool" where
  "hasVendorReports host = list_ex (\<lambda>u. FIRST_VENDOR_REPORT \<le> hu_report_id u) (ht_usages host)"

section \<open>Eaton\<close>

definition hasUsagePath :: "hid_usage_def list \<Rightarrow> string \<Rightarrow> bool" where
  "hasUsagePath usages path = list_ex (\<lambda>u. pathMatches u path) usages"

definition kIModelPath :: string where "kIModelPath = ''UPS.PowerSummary.0xFFFF00F0''"
definition kCountryPath :: string where "kCountryPath = ''UPS.PowerSummary.0xFFFF0095''"
definition kApparentPowerPath :: string where "kApparentPowerPath = ''UPS.Flow.[4].ConfigApparentPower''"

text \<open>\<open>mge_type\<close> is decided once the model, the country and the product are known, or at the end of
  the first full poll.\<close>

definition ea_model :: "eaton \<Rightarrow> string" where
  "ea_model e = (if ea_iModel e = [] \<and> ea_apparentPowerSeen e then dec_int (ea_apparentPower e) else ea_iModel e)"

definition ea_model_known :: "eaton \<Rightarrow> hid_usage_def list \<Rightarrow> bool" where
  "ea_model_known e usages =
     (if hasUsagePath usages kIModelPath \<and> (\<not> ea_iModelIdxSeen e \<or> (0 < ea_iModelIdx e \<and> \<not> ea_iModelSeen e)) then False
      else if ea_iModel e \<noteq> [] then True
      else if hasUsagePath usages kApparentPowerPath then ea_apparentPowerSeen e
      else True)"

definition updateNutContext :: "eaton \<Rightarrow> hid_transport \<Rightarrow> ups_data \<Rightarrow> generic_driver \<Rightarrow> generic_driver" where
  "updateNutContext e host data gd =
     (let ctx = gd_ctx gd; usages = ht_usages host;
          country_known = (\<not> hasUsagePath usages kCountryPath \<or> cx_country_seen ctx);
          product_known = (ud_hasKey data ''ups.model'' \<or> ht_iProduct host = 0)
      in if cx_ready ctx then gd
         else if (ea_model_known e usages \<and> country_known \<and> product_known) \<or> gd_first_full_done gd
         then gd\<lparr>gd_ctx := ctx\<lparr>cx_mge_type := mgeModelType (Some (ud_get data ''ups.model'' ''unknown'')) (Some (ea_model e)),
                                cx_ready := True\<rparr>\<rparr>
         else gd)"

definition mge_acceptPollReport :: "u8 \<Rightarrow> u8 \<Rightarrow> bool" where
  "mge_acceptPollReport report_type report_id \<longleftrightarrow> report_id \<noteq> 254 \<and> report_id \<noteq> 255"

definition mge_readsFieldOutsideRows :: "hid_usage_def \<Rightarrow> bool" where
  "mge_readsFieldOutsideRows u \<longleftrightarrow> hu_path u = kIModelPath \<or> pathMatches u kApparentPowerPath"

definition mge_moreStrings :: "eaton \<Rightarrow> u8 list" where
  "mge_moreStrings e = (if 0 < ea_iModelIdx e \<and> \<not> ea_iModelSeen e then [ea_iModelIdx e] else [])"

text \<open>What \<open>decodeReport\<close> reads for the context, after the rows.\<close>

definition ea_index :: "hid_usage_def list \<Rightarrow> eaton \<Rightarrow> eaton" where
  "ea_index usages e =
     (if ea_contextIndexed e then e
      else e\<lparr>ea_iModelUsages := ea_iModelUsages e @ filter (\<lambda>i. hu_path (usages ! i) = kIModelPath) [0..<length usages],
             ea_apparentPowerUsages := ea_apparentPowerUsages e @
               filter (\<lambda>i. pathMatches (usages ! i) kApparentPowerPath) [0..<length usages],
             ea_contextIndexed := True\<rparr>)"

definition usage_value :: "hid_usage_def list \<Rightarrow> u8 \<Rightarrow> u8 \<Rightarrow> u8 list \<Rightarrow> nat \<Rightarrow> rat option" where
  "usage_value usages report_id report_type data i =
     (if length usages \<le> i then None
      else let u = usages ! i
           in if hu_report_id u \<noteq> report_id \<or> hu_report_type u \<noteq> report_type then None
              else extractUsage (Some u) (Some data))"

definition ea_decode :: "hid_usage_def list \<Rightarrow> u8 \<Rightarrow> u8 \<Rightarrow> u8 list \<Rightarrow> eaton \<Rightarrow> eaton" where
  "ea_decode usages report_id report_type data e =
     (let e = ea_index usages e;
          value = usage_value usages report_id report_type data;
          e = fold (\<lambda>i e. case value i of
                Some v \<Rightarrow> e\<lparr>ea_iModelIdx := of_int (to_int v), ea_iModelIdxSeen := True\<rparr> | None \<Rightarrow> e) (ea_iModelUsages e) e
      in fold (\<lambda>i e. case value i of
             Some v \<Rightarrow> e\<lparr>ea_apparentPower := to_int v, ea_apparentPowerSeen := True\<rparr> | None \<Rightarrow> e) (ea_apparentPowerUsages e) e)"

definition ea_string :: "u8 \<Rightarrow> u8 list \<Rightarrow> eaton \<Rightarrow> eaton" where
  "ea_string index data e =
     (if length data < 2 \<or> data ! 1 \<noteq> 3 then e
      else if 0 < ea_iModelIdx e \<and> index = ea_iModelIdx e
      then e\<lparr>ea_iModel := string_chars (unat (data ! 0) - 2) False (drop 2 data), ea_iModelSeen := True\<rparr> else e)"

section \<open>Manufacturer strings\<close>

text \<open>\<open>liebert_format_mfr\<close> and the like: an empty string counts as missing. Powercom keeps an empty
  one.\<close>

definition default_mfr :: "string \<Rightarrow> ups_data \<Rightarrow> ups_data" where
  "default_mfr name data = (if ud_get data ''ups.mfr'' [] = [] then ud_set data ''ups.mfr'' name else data)"

definition powercom_formatDeviceStrings :: "ups_data \<Rightarrow> ups_data" where
  "powercom_formatDeviceStrings data = (if \<not> ud_hasKey data ''ups.mfr'' then ud_set data ''ups.mfr'' ''PowerCOM'' else data)"

section \<open>Legrand\<close>

definition legrand_encodeBeeperValue :: "bool \<Rightarrow> u16 \<Rightarrow> u8" where
  "legrand_encodeBeeperValue enable bit_size =
     (if bit_size = 1 then if enable then 1 else 0 else if enable then 2 else 3)"

definition legrand_decodeBeeperStatus :: "ups_data \<Rightarrow> rat \<Rightarrow> hid_usage_def \<Rightarrow> ups_data" where
  "legrand_decodeBeeperStatus data v def =
     (case (if hu_bit_size def = 1 then Some (if v \<noteq> 0 then ''enabled'' else ''disabled'')
            else if v = 2 then Some ''enabled'' else if v = 1 \<or> v = 3 then Some ''disabled'' else None) of
        None \<Rightarrow> data
      | Some status \<Rightarrow> if ud_valueEquals data ''ups.beeper.status'' status then data else ud_set data ''ups.beeper.status'' status)"

section \<open>OpenUPS\<close>

text \<open>\<open>get_voltage_multiplier\<close>: the scales stay as they are for any other product.\<close>

definition openups_scale_of :: "u16 \<Rightarrow> openups_scale \<Rightarrow> openups_scale" where
  "openups_scale_of pid scale =
     (if pid = 0xD004 then \<lparr>os_vin = 3.545, os_vout = 2.571, os_ccharge = 0.08274, os_cdischarge = 1.6113\<rparr>
      else if pid = 0xD005 then \<lparr>os_vin = 0.1, os_vout = 0.1, os_ccharge = 0.1, os_cdischarge = 0.1\<rparr>
      else scale)"

definition openups_filterStatus :: "status_bits \<Rightarrow> status_bits" where
  "openups_filterStatus s = \<lparr>sb_set = sb_set s AND NOT (statusBit ST_NOBATTERY), sb_known = sb_known s AND NOT (statusBit ST_NOBATTERY)\<rparr>"

definition round_away :: "rat \<Rightarrow> int" where
  "round_away q = (if 0 \<le> q then floor (q + 1/2) else - floor (- q + 1/2))"

definition openups_nominal :: "ups_data \<Rightarrow> int" where
  "openups_nominal data =
     (let product = ud_get data ''ups.model'' [];
          n = (if ud_hasKey data ''ups.model''
               then (case indexOf product ''W'' of Some i \<Rightarrow> atoi (drop (i + 1) product) | None \<Rightarrow> 0) else 0)
      in if n \<le> 0 then 150 else n)"

definition set_changed :: "string \<Rightarrow> string \<Rightarrow> ups_data \<times> bool \<Rightarrow> ups_data \<times> bool" where
  "set_changed key value s = (if ud_valueEquals (fst s) key value then s else (ud_set (fst s) key value, True))"

definition openups_load :: "ups_data \<Rightarrow> ups_data" where
  "openups_load data =
     (if \<not> ud_hasKey data ''output.voltage'' \<or> \<not> ud_hasKey data ''output.current'' then data
      else let power = ud_getFloat strtod data ''output.voltage'' 0 * ud_getFloat strtod data ''output.current'' 0;
               nominalPower = openups_nominal data;
               loadPct = max 0 (min 100 (power / of_int nominalPower * 100));
               (data, changed) = set_changed ''ups.load'' (dec_int (round_away loadPct))
                 (set_changed ''ups.realpower.nominal'' (dec_int nominalPower) (data, False))
           in if changed then ud_updateRealPower strtod data else data)"

section \<open>Powercom\<close>

definition appendTableReports ::
    "hid_info list \<Rightarrow> hid_usage_def list \<Rightarrow> (hid_info \<Rightarrow> nat \<Rightarrow> bool) \<Rightarrow> poll_item list \<Rightarrow> poll_item list" where
  "appendTableReports table usages keep out =
     fold (\<lambda>i out.
         if \<not> keep (table ! i) i then out
         else let rid = featureReportOf usages (table ! i)
              in if rid = 0 \<or> list_ex (\<lambda>p. pi_type p = 3 \<and> pi_id p = rid) out then out
                 else out @ [\<lparr>pi_type = 3, pi_id = rid, pi_length = 0\<rparr>]) [0..<length table] out"

definition bool_row :: "hid_info \<Rightarrow> nat \<Rightarrow> bool" where
  "bool_row info i \<longleftrightarrow> hi_info_type info = ''BOOL''"

definition value_row :: "hid_info \<Rightarrow> bool" where
  "value_row info \<longleftrightarrow> \<not> isInternalRow info \<and> \<not> isCommandRow info \<and> hi_hidflags info AND HU_FLAG_ABSENT = 0"

definition powercom_keeps :: "hid_info list \<Rightarrow> hid_usage_def list \<Rightarrow> hid_info \<Rightarrow> nat \<Rightarrow> bool" where
  "powercom_keeps table usages info i \<longleftrightarrow> value_row info \<and>
     \<not> list_ex (\<lambda>r. value_row r \<and> hi_info_type r = hi_info_type info \<and> list_ex (\<lambda>u. pathMatches u (hi_hidpath r)) usages) (take i table)"

definition powercom_buildPollLists :: "hid_info list \<Rightarrow> hid_transport \<Rightarrow> poll_item list \<times> poll_item list" where
  "powercom_buildPollLists table host =
     (let usages = ht_usages host;
          quick = appendTableReports table usages bool_row [\<lparr>pi_type = 3, pi_id = 0x0A, pi_length = 8\<rparr>];
          full = appendTableReports table usages (powercom_keeps table usages) quick;
          full = map (\<lambda>item. if pi_id item = 0x1D \<or> pi_id item = 0x1F \<or> pi_id item = 0x21 then item\<lparr>pi_length := 8\<rparr> else item) full
      in (quick, full @ [\<lparr>pi_type = 3, pi_id = 0xA4, pi_length = 8\<rparr>]))"

definition powercom_isStaticUsage :: "hid_info list \<Rightarrow> hid_usage_def \<Rightarrow> bool" where
  "powercom_isStaticUsage table u =
     list_all (\<lambda>r. isCommandRow r \<or> \<not> pathMatches u (hi_hidpath r) \<or> hi_hidflags r AND HU_FLAG_STATIC \<noteq> 0) table"

text \<open>The text of report 0xA4: its first number, when it has a point.\<close>

definition number_char :: "char \<Rightarrow> bool" where
  "number_char c \<longleftrightarrow> is_digit c \<or> c = CHR ''.''"

definition powercom_voltage :: "u8 list \<Rightarrow> string option" where
  "powercom_voltage data =
     (let bytes = take (8 - (if hd data = 0xA4 then 1 else 0)) (drop (if hd data = 0xA4 then 1 else 0) data);
          msg = map (\<lambda>b. char_of (unat b)) (takeWhile (\<lambda>b. b \<noteq> 0) bytes);
          number = takeWhile number_char (dropWhile (\<lambda>c. \<not> number_char c) msg)
      in if number \<noteq> [] \<and> CHR ''.'' \<in> set number then Some number else None)"

definition powercom_encodeBeeperValue :: "bool \<Rightarrow> u16 \<Rightarrow> u8" where
  "powercom_encodeBeeperValue enable bit_size = (if enable then 1 else 0)"

text \<open>A status that changes puts the other status reports at the head of the queue.\<close>

definition powercom_status :: "hid_info list \<Rightarrow> hid_transport \<Rightarrow> u8 list \<Rightarrow> u8 list \<Rightarrow> generic_driver \<Rightarrow> u8 list \<times> generic_driver" where
  "powercom_status table host data previous gd =
     (let report = take 8 data
      in (report, if previous \<noteq> [] \<and> report \<noteq> previous
                  then fold (\<lambda>item gd. if pi_id item \<noteq> 0x0A then pollSoon item gd else gd)
                         (rev (appendTableReports table (ht_usages host) bool_row [])) gd
                  else gd))"

end
