(* ===== verification/VendorPolicies.thy ===== *)
theory VendorPolicies
  imports VendorDrivers
begin

text \<open>
  What each vendor driver overrides (\<open>policy_of\<close>, \<open>driver_class\<close>) and its operations, with the hooks
  of its class around those of \<open>GenericDriver\<close>.
\<close>

unbundle bit_operations_syntax

section \<open>Policies\<close>

text \<open>A driver with its own table: what it does not override is \<open>GenericDriver\<close>'s.\<close>

definition own_table :: "bool \<Rightarrow> string \<Rightarrow> hid_info list \<Rightarrow> string list \<Rightarrow> driver_policy" where
  "own_table unmapped name table superseded =
     (generic_policy unmapped)\<lparr>dv_name := name, dv_table := table, dv_generic := False, dv_superseded := superseded\<rparr>"

definition apc_policy :: "bool \<Rightarrow> bool \<Rightarrow> driver_policy" where
  "apc_policy unmapped bx =
     (let p = own_table unmapped ''APCDriver'' (apcHid2Nut unmapped) apc_superseded
      in p\<lparr>dv_requestLength := apc_requestLength bx, dv_quickPollMs := (if bx then BX_QUICK_POLL_MS else dv_quickPollMs p),
           dv_maxReportAgeMs := (if bx then BX_QUICK_POLL_MS else dv_maxReportAgeMs p), dv_pollStaticOnce := bx\<rparr>)"

definition cps_policy :: "bool \<Rightarrow> bool \<Rightarrow> driver_policy" where
  "cps_policy unmapped vendor_layout =
     (own_table unmapped ''CyberPowerDriver'' (cpsHid2Nut unmapped) cps_superseded)
       \<lparr>dv_quickPollMs := 0, dv_fullPollMs := 30000, dv_acceptPollReport := cps_acceptPollReport vendor_layout,
        dv_pollInputReports := False, dv_requestTableStrings := (\<lambda>host. \<not> hasVendorReports host)\<rparr>"

definition mge_policy :: "bool \<Rightarrow> eaton \<Rightarrow> driver_policy" where
  "mge_policy unmapped e =
     (own_table unmapped ''EatonDriver'' (mgeHid2Nut unmapped) mge_superseded)
       \<lparr>dv_acceptPollReport := mge_acceptPollReport, dv_readsFieldOutsideRows := mge_readsFieldOutsideRows,
        dv_moreStrings := mge_moreStrings e\<rparr>"

definition legrand_policy :: "bool \<Rightarrow> driver_policy" where
  "legrand_policy unmapped =
     (own_table unmapped ''LegrandDriver'' (legrandHid2Nut unmapped) legrand_superseded)\<lparr>dv_decodeBeeper := legrand_decodeBeeperStatus\<rparr>"

definition openups_policy :: "bool \<Rightarrow> driver_policy" where
  "openups_policy unmapped =
     (own_table unmapped ''OpenUPSDriver'' (openupsHid2Nut unmapped) openups_superseded)\<lparr>dv_filterStatus := openups_filterStatus\<rparr>"

definition powercom_policy :: "bool \<Rightarrow> driver_policy" where
  "powercom_policy unmapped =
     (own_table unmapped ''PowercomDriver'' (powercomHid2Nut unmapped) powercom_superseded)
       \<lparr>dv_stepSpacingMs := 800, dv_ownLists := Some (powercom_buildPollLists (powercomHid2Nut unmapped)), dv_pollStaticOnce := True,
        dv_isStaticUsage := powercom_isStaticUsage (powercomHid2Nut unmapped), dv_deviceStrings := False, dv_delayAux := 8\<rparr>"

definition policy_of :: "bool \<Rightarrow> vendor \<Rightarrow> driver_policy" where
  "policy_of unmapped v = (case v of
     Generic \<Rightarrow> generic_policy unmapped
   | Apc bx \<Rightarrow> apc_policy unmapped bx
   | CyberPower layout \<Rightarrow> cps_policy unmapped layout
   | Eaton e \<Rightarrow> mge_policy unmapped e
   | EcoFlow \<Rightarrow> own_table unmapped ''EcoFlowDriver'' (ecoflowHid2Nut unmapped) ecoflow_superseded
   | Legrand \<Rightarrow> legrand_policy unmapped
   | Liebert \<Rightarrow> own_table unmapped ''LiebertDriver'' (liebertHid2Nut unmapped) liebert_superseded
   | OpenUps \<Rightarrow> openups_policy unmapped
   | Powercom r \<Rightarrow> powercom_policy unmapped)"

text \<open>\<open>formatDeviceStrings\<close> of each class.\<close>

definition formatDeviceStrings :: "vendor \<Rightarrow> ups_data \<Rightarrow> ups_data" where
  "formatDeviceStrings v = (case v of
     Apc bx \<Rightarrow> apc_formatDeviceStrings
   | EcoFlow \<Rightarrow> default_mfr ''EcoFlow''
   | Legrand \<Rightarrow> default_mfr ''Legrand''
   | Liebert \<Rightarrow> default_mfr ''Liebert''
   | OpenUps \<Rightarrow> default_mfr ''openUPS''
   | Powercom r \<Rightarrow> powercom_formatDeviceStrings
   | _ \<Rightarrow> (\<lambda>data. data))"

text \<open>The side of \<open>IUPSDriver.h\<close> that is not the poll: the class of the driver of the device.\<close>

record driver_class =
  dc_unmapped :: bool
  dc_vendor :: vendor

definition dc_policy :: "driver_class \<Rightarrow> driver_policy" where
  "dc_policy c = policy_of (dc_unmapped c) (dc_vendor c)"

definition dc_commandTable :: "driver_class \<Rightarrow> hid_info list" where
  "dc_commandTable c = dv_table (dc_policy c)"

definition dc_encodeBeeper :: "driver_class \<Rightarrow> bool \<Rightarrow> u16 \<Rightarrow> u8" where
  "dc_encodeBeeper c = (case dc_vendor c of
     Legrand \<Rightarrow> legrand_encodeBeeperValue | Powercom r \<Rightarrow> powercom_encodeBeeperValue | _ \<Rightarrow> encodeBeeperValue)"

definition dc_beeperControllable :: "driver_class \<Rightarrow> bool" where
  "dc_beeperControllable c \<longleftrightarrow> dc_vendor c \<noteq> EcoFlow"

definition dc_beeperMuteSupported :: "driver_class \<Rightarrow> bool" where
  "dc_beeperMuteSupported c \<longleftrightarrow> dc_vendor c \<noteq> Legrand"

definition dc_shutdownSupported :: "driver_class \<Rightarrow> bool" where
  "dc_shutdownSupported c = (case dc_vendor c of EcoFlow \<Rightarrow> False | OpenUps \<Rightarrow> False | Powercom r \<Rightarrow> False | _ \<Rightarrow> True)"

definition dc_delayVariables :: "driver_class \<Rightarrow> bool" where
  "dc_delayVariables c = (case dc_vendor c of Powercom r \<Rightarrow> True | _ \<Rightarrow> dc_shutdownSupported c)"

definition dc_offDelay :: "driver_class \<Rightarrow> int" where
  "dc_offDelay c = (case dc_vendor c of CyberPower l \<Rightarrow> 60 | _ \<Rightarrow> 20)"

definition dc_onDelay :: "driver_class \<Rightarrow> int" where
  "dc_onDelay c = (case dc_vendor c of CyberPower l \<Rightarrow> 120 | Powercom r \<Rightarrow> 60 | _ \<Rightarrow> 30)"

definition dc_delayPaths :: "driver_class \<Rightarrow> delay_paths option" where
  "dc_delayPaths c = Some (case dc_vendor c of
     Apc bx \<Rightarrow> apcDelayPaths | CyberPower l \<Rightarrow> cpsDelayPaths | Eaton e \<Rightarrow> mgeDelayPaths | Legrand \<Rightarrow> legrandDelayPaths
   | Liebert \<Rightarrow> liebertDelayPaths | Powercom r \<Rightarrow> powercomDelayPaths | _ \<Rightarrow> genericDelayPaths)"

definition dc_formatStrings :: "driver_class \<Rightarrow> ups_data \<Rightarrow> ups_data" where
  "dc_formatStrings c = formatDeviceStrings (dc_vendor c)"

section \<open>Operations\<close>

type_synonym driver_object = "vendor \<times> generic_driver"

text \<open>\<open>setup\<close>: the layout noted by \<open>CyberPowerDriver\<close> is not put back.\<close>

definition vendor_setup :: "driver_object \<Rightarrow> driver_object" where
  "vendor_setup o1 =
     (let gd = gd_setup (snd o1) in case fst o1 of
        Apc bx \<Rightarrow> (Apc False, gd)
      | Eaton e \<Rightarrow> (Eaton eaton_new, gd\<lparr>gd_ctx := (gd_ctx gd)\<lparr>cx_ready := False\<rparr>\<rparr>)
      | Powercom r \<Rightarrow> (Powercom [], gd)
      | v \<Rightarrow> (v, gd))"

text \<open>The lists of \<open>CyberPowerDriver\<close> note the layout first: the rows are bound before that.\<close>

definition cps_notes_layout :: "hid_transport \<Rightarrow> bool \<Rightarrow> generic_driver \<Rightarrow> bool" where
  "cps_notes_layout host layout gd =
     (if \<not> gd_lists_built gd \<or> (gd_nut_bound gd \<and> gd_nut_init_done gd \<and> \<not> gd_lists_pruned gd)
      then hasVendorReports host else layout)"

definition vendor_onLoop :: "bool \<Rightarrow> hid_transport \<Rightarrow> ups_data \<Rightarrow> driver_object \<Rightarrow> driver_object" where
  "vendor_onLoop unmapped host data o1 =
     (case o1 of
        (Apc bx, gd) \<Rightarrow> (Apc (apc_onLoop data), gd)
      | (Eaton e, gd) \<Rightarrow> (Eaton e, updateNutContext e host data gd)
      | (CyberPower layout, gd) \<Rightarrow>
          (let gd = (if gd_lists_built gd then gd else bindNutTable (cps_policy unmapped layout) host gd)
           in (CyberPower (cps_notes_layout host layout gd), gd))
      | _ \<Rightarrow> o1)"

definition vendor_loop ::
    "bool \<Rightarrow> hid_transport \<Rightarrow> u32 \<Rightarrow> driver_object \<times> ups_data \<Rightarrow> (driver_object \<times> ups_data) \<times> loop_request" where
  "vendor_loop unmapped host now s =
     (let ((v, gd), data) = s;
          (gd, data) = loop_data (policy_of unmapped v) host (gd, data);
          (v, gd) = vendor_onLoop unmapped host data (v, gd);
          ((gd, data), req) = loop_poll (policy_of unmapped v) host now (gd, data)
      in (((v, gd), data), req))"

text \<open>What a class does around \<open>GenericDriver::decodeReport\<close>.\<close>

definition cps_note_pid :: "u16 \<Rightarrow> generic_driver \<Rightarrow> generic_driver" where
  "cps_note_pid pid gd = gd\<lparr>gd_ctx := (gd_ctx gd)\<lparr>cx_cps := (cx_cps (gd_ctx gd))\<lparr>cs_might_need_scale := (pid = 0x0501)\<rparr>\<rparr>\<rparr>"

definition openups_note_pid :: "u16 \<Rightarrow> generic_driver \<Rightarrow> generic_driver" where
  "openups_note_pid pid gd = gd\<lparr>gd_ctx := (gd_ctx gd)\<lparr>cx_openups := openups_scale_of pid (cx_openups (gd_ctx gd))\<rparr>\<rparr>"

definition powercom_note_voltage :: "u8 list \<Rightarrow> generic_driver \<Rightarrow> generic_driver" where
  "powercom_note_voltage data gd =
     (case powercom_voltage data of
        None \<Rightarrow> gd
      | Some text \<Rightarrow> gd\<lparr>gd_ctx := (gd_ctx gd)\<lparr>cx_powercom_battery_voltage := take 31 text\<rparr>\<rparr>)"

definition vendor_decode ::
    "bool \<Rightarrow> hid_transport \<Rightarrow> u8 \<Rightarrow> u8 \<Rightarrow> u8 list \<Rightarrow> driver_object \<times> ups_data \<Rightarrow> driver_object \<times> ups_data" where
  "vendor_decode unmapped host report_id report_type data s =
     (let ((v, gd), ups) = s;
          base = (\<lambda>v gd. let (gd, ups) = decodeReport (policy_of unmapped v) host report_id report_type data (gd, ups) in ((v, gd), ups))
      in case v of
           CyberPower layout \<Rightarrow> base v (cps_note_pid (ht_pid host) gd)
         | OpenUps \<Rightarrow> base v (openups_note_pid (ht_pid host) gd)
         | Eaton e \<Rightarrow> if data = [] then s
                      else let ((_, gd), ups) = base v gd
                           in ((Eaton (ea_decode (ht_usages host) report_id report_type data e), gd), ups)
         | Powercom previous \<Rightarrow>
             if data = [] then s
             else if report_id = 0xA4 \<and> report_type = 3 then ((v, powercom_note_voltage data gd), ups)
             else if report_id = 0x0A
             then let (report, gd) = powercom_status (powercomHid2Nut unmapped) host data previous gd in base (Powercom report) gd
             else base v gd
         | _ \<Rightarrow> base v gd)"

definition vendor_post ::
    "bool \<Rightarrow> hid_transport \<Rightarrow> u8 \<Rightarrow> u8 \<Rightarrow> u8 list \<Rightarrow> driver_object \<times> ups_data \<Rightarrow> driver_object \<times> ups_data" where
  "vendor_post unmapped host report_id report_type data s =
     (let ((v, gd), ups) = s;
          (gd, ups) = postDecode (policy_of unmapped v) host report_id report_type data (gd, ups)
      in ((v, gd), if v = OpenUps then openups_load ups else ups))"

definition vendor_string ::
    "bool \<Rightarrow> hid_transport \<Rightarrow> u8 \<Rightarrow> u8 list \<Rightarrow> driver_object \<times> ups_data \<Rightarrow> driver_object \<times> ups_data" where
  "vendor_string unmapped host index data s =
     (let ((v, gd), ups) = s;
          (gd, ups) = parseStringDescriptor (policy_of unmapped v) host index data (gd, ups)
      in ((case v of Eaton e \<Rightarrow> Eaton (ea_string index data e) | _ \<Rightarrow> v, gd), ups))"

text \<open>The calls of the host (\<open>driver_call\<close>), as \<open>driver_serve\<close> answers them for \<open>GenericDriver\<close>.\<close>

fun vendor_serve ::
    "bool \<Rightarrow> driver_object \<times> ups_data \<Rightarrow> hid_transport \<times> driver_call \<Rightarrow> (driver_object \<times> ups_data) \<times> loop_request" where
  "vendor_serve unmapped s (host, CallLoop now) = vendor_loop unmapped host now s"
| "vendor_serve unmapped s (host, CallReport i t data) =
     (vendor_post unmapped host i t data (vendor_decode unmapped host i t data s), ReqNone)"
| "vendor_serve unmapped s (host, CallString i data) = (vendor_string unmapped host i data s, ReqNone)"
| "vendor_serve unmapped s (host, CallChanged) = (((fst (fst s), noteDataChanged (snd (fst s))), snd s), ReqNone)"
| "vendor_serve unmapped s (host, CallInvalidate t i) = (((fst (fst s), invalidateReport t i (snd (fst s))), snd s), ReqNone)"
| "vendor_serve unmapped s (host, CallDriverSide n v) =
     (((fst (fst s), setDriverSideValue (Some n) (Some v) (snd (fst s))), snd s), ReqNone)"

end
