(* ===== verification/DiagSweep.thy ===== *)
theory DiagSweep
  imports HidReports "HOL-Library.Sublist"
begin

text \<open>
  The on-demand read behind the diagnostics export (\<open>lib/USBHostUPS/src/DiagSweep.h\<close>): every FEATURE
  report of the descriptor that is not cached and that the driver accepts, one after the other.
\<close>

unbundle bit_operations_syntax

datatype diag_state = DiagIdle | DiagReading | DiagDone | DiagInterrupted

datatype diag_result = DiagRead | DiagEmpty | DiagFailed

record diag_entry =
  de_type :: u8
  de_id :: u8
  de_empty :: bool
  de_data :: "u8 list"

record diag_sweep =
  dg_items :: "(u8 \<times> u8) list"
  dg_results :: "diag_entry list"
  dg_pos :: nat
  dg_read :: u16
  dg_empty :: u16
  dg_failed :: u16
  dg_state :: diag_state

abbreviation (input) FEATURE :: u8 where "FEATURE \<equiv> 3"

definition report_key :: "u8 \<Rightarrow> u8 \<Rightarrow> u16" where
  "report_key report_type report_id = push_bit 8 (ucast report_type) OR ucast report_id"

definition dg_clear :: diag_sweep where
  "dg_clear = \<lparr>dg_items = [], dg_results = [], dg_pos = 0, dg_read = 0, dg_empty = 0, dg_failed = 0, dg_state = DiagIdle\<rparr>"

definition dg_item :: "u16 set \<Rightarrow> (u8 \<Rightarrow> u8 \<Rightarrow> bool) \<Rightarrow> hid_usage_def \<Rightarrow> (u8 \<times> u8) list \<Rightarrow> (u8 \<times> u8) list" where
  "dg_item cached accept u items =
     (if hu_report_type u \<noteq> FEATURE then items
      else if report_key (hu_report_type u) (hu_report_id u) \<in> cached then items
      else if list_ex (\<lambda>it. snd it = hu_report_id u) items then items
      else if \<not> accept (hu_report_type u) (hu_report_id u) then items
      else items @ [(hu_report_type u, hu_report_id u)])"

definition dg_start :: "hid_usage_def list \<Rightarrow> u16 set \<Rightarrow> (u8 \<Rightarrow> u8 \<Rightarrow> bool) \<Rightarrow> diag_sweep" where
  "dg_start usages cached accept =
     (let items = fold (dg_item cached accept) usages []
      in dg_clear\<lparr>dg_items := items, dg_state := (if items = [] then DiagDone else DiagReading)\<rparr>)"

definition dg_next :: "diag_sweep \<Rightarrow> (u8 \<times> u8) option" where
  "dg_next d = (if dg_state d \<noteq> DiagReading \<or> length (dg_items d) \<le> dg_pos d then None else Some (dg_items d ! dg_pos d))"

definition dg_record :: "u8 \<Rightarrow> diag_result \<Rightarrow> u8 list \<Rightarrow> diag_sweep \<Rightarrow> diag_sweep" where
  "dg_record report_id r bytes d =
     (if dg_state d \<noteq> DiagReading \<or> length (dg_items d) \<le> dg_pos d \<or> snd (dg_items d ! dg_pos d) \<noteq> report_id then d
      else let it = dg_items d ! dg_pos d;
               r = (if r = DiagRead \<and> bytes = [] then DiagEmpty else r);
               d = (case r of
                  DiagRead \<Rightarrow> d\<lparr>dg_read := dg_read d + 1, dg_results := dg_results d @
                    [\<lparr>de_type = fst it, de_id = snd it, de_empty = False, de_data = bytes\<rparr>]\<rparr>
                | DiagEmpty \<Rightarrow> d\<lparr>dg_empty := dg_empty d + 1, dg_results := dg_results d @
                    [\<lparr>de_type = fst it, de_id = snd it, de_empty = True, de_data = []\<rparr>]\<rparr>
                | DiagFailed \<Rightarrow> d\<lparr>dg_failed := dg_failed d + 1\<rparr>);
               d = d\<lparr>dg_pos := dg_pos d + 1\<rparr>
           in if length (dg_items d) \<le> dg_pos d then d\<lparr>dg_state := DiagDone\<rparr> else d)"

definition dg_interrupt :: "diag_sweep \<Rightarrow> diag_sweep" where
  "dg_interrupt d = (if dg_state d = DiagReading then d\<lparr>dg_state := DiagInterrupted\<rparr> else d)"

section \<open>What a read keeps\<close>

text \<open>The counters add up to the position, the results are those of the reports answered, in order,
  and a read runs exactly while reports are left.\<close>

definition dg_wf :: "diag_sweep \<Rightarrow> bool" where
  "dg_wf d \<longleftrightarrow> distinct (map snd (dg_items d)) \<and> dg_pos d \<le> length (dg_items d) \<and>
     dg_read d + dg_empty d + dg_failed d = of_nat (dg_pos d) \<and>
     (dg_state d = DiagReading \<longrightarrow> dg_pos d < length (dg_items d)) \<and>
     (dg_state d = DiagDone \<longrightarrow> dg_pos d = length (dg_items d)) \<and>
     subseq (map (\<lambda>e. (de_type e, de_id e)) (dg_results d)) (take (dg_pos d) (dg_items d))"

lemma dg_clear_wf: "dg_wf dg_clear"
  by (simp add: dg_wf_def dg_clear_def)

definition items_ok :: "u16 set \<Rightarrow> (u8 \<Rightarrow> u8 \<Rightarrow> bool) \<Rightarrow> (u8 \<times> u8) list \<Rightarrow> bool" where
  "items_ok cached accept items \<longleftrightarrow>
     (\<forall>it \<in> set items. fst it = FEATURE \<and> accept (fst it) (snd it) \<and> report_key (fst it) (snd it) \<notin> cached) \<and> distinct (map snd items)"

lemma dg_item_ok: "items_ok cached accept items \<Longrightarrow> items_ok cached accept (dg_item cached accept u items)"
  by (auto simp: items_ok_def dg_item_def list_ex_iff)

lemma dg_items_ok: "items_ok cached accept (dg_items (dg_start usages cached accept))"
proof -
  have "items_ok cached accept items \<Longrightarrow> items_ok cached accept (fold (dg_item cached accept) us items)" for us items
    by (induction us arbitrary: items) (simp_all add: dg_item_ok)
  moreover have "items_ok cached accept []" by (simp add: items_ok_def)
  ultimately have "items_ok cached accept (fold (dg_item cached accept) usages [])" by blast
  moreover have "dg_items (dg_start usages cached accept) = fold (dg_item cached accept) usages []" by (simp add: dg_start_def Let_def)
  ultimately show ?thesis by simp
qed

lemma dg_start_wf: "dg_wf (dg_start usages cached accept)"
  using dg_items_ok [of cached accept usages] by (simp add: dg_start_def dg_wf_def dg_clear_def Let_def items_ok_def)

lemma dg_next_ok:
  assumes "dg_next (dg_start usages cached accept) = Some it \<or> it \<in> set (dg_items (dg_start usages cached accept))"
  shows "fst it = FEATURE \<and> accept (fst it) (snd it) \<and> report_key (fst it) (snd it) \<notin> cached"
proof -
  have "it \<in> set (dg_items (dg_start usages cached accept))"
    using assms by (auto simp: dg_next_def split: if_splits)
  then show ?thesis using dg_items_ok [of cached accept usages] by (auto simp: items_ok_def)
qed

lemma dg_record_wf:
  assumes "dg_wf d"
  shows "dg_wf (dg_record i r bytes d)"
proof (cases "dg_state d \<noteq> DiagReading \<or> length (dg_items d) \<le> dg_pos d \<or> snd (dg_items d ! dg_pos d) \<noteq> i")
  case False
  let ?ids = "map (\<lambda>e. (de_type e, de_id e))" let ?it = "dg_items d ! dg_pos d"
  have n: "dg_pos d < length (dg_items d)" using False by simp
  have t: "take (Suc (dg_pos d)) (dg_items d) = take (dg_pos d) (dg_items d) @ [?it]" using n by (rule take_Suc_conv_app_nth)
  have s: "subseq (?ids (dg_results d)) (take (dg_pos d) (dg_items d))" using assms by (simp add: dg_wf_def)
  then have "subseq (?ids (dg_results d)) (take (Suc (dg_pos d)) (dg_items d))"
    "subseq (?ids (dg_results d) @ [?it]) (take (Suc (dg_pos d)) (dg_items d))"
    unfolding t by (rule subseq_rev_drop_many) (use s in \<open>simp add: subseq_append\<close>)
  moreover have "distinct (map snd (dg_items d))" "dg_read d + dg_empty d + dg_failed d = of_nat (dg_pos d)"
    using assms by (simp_all add: dg_wf_def)
  ultimately show ?thesis using n False
    by (cases r) (auto simp: dg_wf_def dg_record_def Let_def algebra_simps)
qed (use assms in \<open>auto simp: dg_record_def\<close>)

lemma dg_interrupt_wf: "dg_wf d \<Longrightarrow> dg_wf (dg_interrupt d)"
  by (simp add: dg_wf_def dg_interrupt_def)

end
