(* ===== verification/DeviceStrings.thy ===== *)
theory DeviceStrings
  imports CLib
begin

text \<open>
  The USB strings of a device as text (\<open>lib/USBHostUPS/src/DeviceStrings.h\<close>), with the inverted
  strings of some CyberPower firmwares turned back.
\<close>

unbundle bit_operations_syntax

text \<open>The inversion is seen from the first unit; the quirk decides when that says nothing.\<close>

definition inverted :: "bool \<Rightarrow> u32 list \<Rightarrow> bool" where
  "inverted invert src =
     (let first = hd src AND 0xFFFF
      in if drop_bit 8 first = 0xFF then True
         else if first \<noteq> 0 \<and> drop_bit 8 first = 0 then False
         else invert)"

definition ascii_unit :: "bool \<Rightarrow> u32 \<Rightarrow> u8" where
  "ascii_unit invert c =
     (let u = c AND 0xFFFF
      in if invert \<and> drop_bit 8 u = 0xFF then ucast (NOT u) else if u < 0x80 then ucast u else 0x3F)"

definition printable :: "u8 \<Rightarrow> bool" where
  "printable c \<longleftrightarrow> \<not> (c < 0x20 \<or> 0x7F \<le> c)"

text \<open>The loop over the units: it stops at NUL, at \<open>max_units\<close> and when the buffer is full.\<close>

fun ascii_loop :: "bool \<Rightarrow> nat \<Rightarrow> u32 list \<Rightarrow> u8 list \<Rightarrow> u8 list" where
  "ascii_loop invert room [] out = out"
| "ascii_loop invert room (c # cs) out =
     (if c = 0 \<or> room \<le> length out + 1 then out
      else let b = ascii_unit invert c in ascii_loop invert room cs (if printable b then out @ [b] else out))"

definition toAscii :: "u32 list option \<Rightarrow> nat \<Rightarrow> bool \<Rightarrow> nat \<Rightarrow> string" where
  "toAscii src max_units invert dst_size =
     (case src of
        None \<Rightarrow> []
      | Some src \<Rightarrow>
          if dst_size = 0 \<or> max_units = 0 \<or> src = [] then []
          else map (\<lambda>b. char_of (unat b))
                 (rev (dropWhile (\<lambda>b. b = 0x20) (rev (ascii_loop (inverted invert src) dst_size (take max_units src) [])))))"

section \<open>What comes out\<close>

lemma ascii_loop_out:
  "list_all printable out \<Longrightarrow> list_all printable (ascii_loop invert room cs out)"
  "length out < room \<Longrightarrow> length (ascii_loop invert room cs out) < room"
  by (induction invert room cs out rule: ascii_loop.induct) (simp_all add: Let_def)

lemma toAscii_fits: "0 < dst_size \<Longrightarrow> length (toAscii src max_units invert dst_size) < dst_size"
proof -
  assume room: "0 < dst_size"
  have "length (dropWhile P (rev (ascii_loop b dst_size cs []))) < dst_size" for P b cs
    using length_dropWhile_le [of P "rev (ascii_loop b dst_size cs [])"] ascii_loop_out(2) [of "[]" dst_size b cs] room by simp
  then show ?thesis using room by (simp add: toAscii_def split: option.split)
qed

text \<open>An inverted string of ASCII characters gives the text it stands for.\<close>

definition invert_unit :: "u8 \<Rightarrow> u32" where
  "invert_unit c = 0xFF00 OR ucast (NOT c)"

lemma unit_masks: "(0xFF00 :: u32) = push_bit 8 (mask 8)" "(0xFFFF :: u32) = mask 16" "(0xFF :: u32) = mask 8"
  by (simp_all add: mask_eq_exp_minus_1)

lemma inverted_unit:
  "invert_unit c AND 0xFFFF = invert_unit c" "drop_bit 8 (invert_unit c) = 0xFF" "ucast (NOT (invert_unit c)) = c"
  unfolding invert_unit_def unit_masks by (rule bit_word_eqI; auto simp: bit_simps)+

lemma inverted_unit_ascii: "ascii_unit True (invert_unit c) = c" "invert_unit c \<noteq> 0" "drop_bit 8 (invert_unit c AND 0xFFFF) = 0xFF"
proof -
  show "ascii_unit True (invert_unit c) = c" "drop_bit 8 (invert_unit c AND 0xFFFF) = 0xFF"
    by (simp_all only: ascii_unit_def Let_def inverted_unit simp_thms if_True)
  show "invert_unit c \<noteq> 0" using inverted_unit(2) [of c] by force
qed

lemma plain_unit:
  assumes "printable c"
  shows "ascii_unit b (ucast c) = c" "(ucast c :: u32) \<noteq> 0" "(ucast c :: u32) AND 0xFFFF \<noteq> 0" "drop_bit 8 ((ucast c :: u32) AND 0xFFFF) = 0"
proof -
  have n: "unat c < 0x7F" "unat c \<noteq> 0" using assms by (auto simp: printable_def word_less_nat_alt word_le_nat_alt)
  have a: "(ucast c :: u32) AND 0xFFFF = ucast c" unfolding unit_masks by (rule bit_word_eqI) (auto simp: bit_simps dest: bit_imp_le_length)
  have d: "drop_bit 8 (ucast c :: u32) = 0" by (rule bit_word_eqI) (auto simp: bit_simps dest: bit_imp_le_length)
  have u: "unat (ucast c :: u32) = unat c"
    unfolding unsigned_ucast_eq by (rule take_bit_nat_eq_self) (use n(1) in simp)
  have l: "(ucast c :: u32) < 0x80" using n(1) by (simp add: word_less_nat_alt u)
  show z: "(ucast c :: u32) \<noteq> 0" using n(2) u by force
  then show "(ucast c :: u32) AND 0xFFFF \<noteq> 0" unfolding a .
  show "drop_bit 8 ((ucast c :: u32) AND 0xFFFF) = 0" by (simp only: a d)
  have "ucast (ucast c :: u32) = c" by (rule bit_word_eqI) (auto simp: bit_simps)
  then show "ascii_unit b (ucast c) = c" using l by (simp add: ascii_unit_def Let_def a d)
qed

lemma ascii_loop_map:
  "list_all (\<lambda>c. f c \<noteq> 0 \<and> ascii_unit b (f c) = c) cs \<Longrightarrow> list_all (\<lambda>c. g c \<noteq> 0 \<and> ascii_unit b' (g c) = c) cs \<Longrightarrow>
   ascii_loop b room (map f cs) out = ascii_loop b' room (map g cs) out"
  by (induction cs arbitrary: out) simp_all

lemma inverted_reads_back:
  assumes "list_all printable cs"
  shows "toAscii (Some (map invert_unit cs)) max_units invert dst_size = toAscii (Some (map ucast cs)) max_units invert dst_size"
proof (cases cs)
  case (Cons c r)
  then have "inverted invert (map invert_unit cs)" "\<not> inverted invert (map ucast cs)"
    using assms inverted_unit_ascii(3) [of c] plain_unit(3,4) [of c] by (auto simp: inverted_def Let_def)
  moreover have "ascii_loop True room (map invert_unit ds) [] = ascii_loop False room (map ucast ds) []" if "list_all printable ds" for room ds
    using that inverted_unit_ascii plain_unit by (intro ascii_loop_map) (auto simp: list_all_iff)
  moreover have "list_all printable (take max_units cs)" using assms by (auto simp: list_all_iff dest: in_set_takeD)
  ultimately show ?thesis using Cons by (simp add: toAscii_def take_map del: list.map)
qed (simp add: toAscii_def)

end
