(* ===== verification/UsbHost.thy ===== *)
theory UsbHost
  imports HidControl LinkMonitor InputWatchdog VendorPolicies DiagSweep DeviceStrings
begin

text \<open>
  The side of \<open>USBHostUPS.cpp\<close> that talks to the claimed interface: control requests, reports and
  string descriptors, the writes of a field, the beeper, SET VAR and the commands. The device
  and the flash store are the operations \<open>usb_device\<close> on an unknown state \<open>'d\<close>; \<open>uh_sent\<close> and
  \<open>uh_asked\<close> are kept by the model alone, the reports that went out and that were asked for, in order. The clock is read once per operation.
  The mutexes, the task, the log lines and the counters are not modelled.
\<close>

section \<open>The device\<close>

datatype usb_err = UsbOk | UsbInvalidResponse | UsbInvalidSize | UsbFailed

text \<open>\<open>hid_class_request_get_report\<close>: at most the bytes asked, and no byte on an error.\<close>

record 'd usb_device =
  dio_get :: "u8 \<Rightarrow> u8 \<Rightarrow> nat \<Rightarrow> 'd \<Rightarrow> (usb_err + u8 list) \<times> 'd"
  dio_set :: "u8 \<Rightarrow> u8 \<Rightarrow> u8 list \<Rightarrow> 'd \<Rightarrow> usb_err \<times> 'd"
  dio_string :: "u8 \<Rightarrow> u16 \<Rightarrow> 'd \<Rightarrow> (usb_err + u8 list) \<times> 'd"
  dio_save :: "string \<Rightarrow> string \<Rightarrow> 'd \<Rightarrow> bool \<times> 'd"
  dio_erase :: "string \<Rightarrow> 'd \<Rightarrow> bool \<times> 'd"

record 'd usb_host =
  uh_ready :: bool
  uh_link :: link_monitor
  uh_wd :: input_watchdog
  uh_reasm :: input_reassembler
  uh_mps :: nat
  uh_uses_ids :: bool
  uh_input_ts :: "u8 \<Rightarrow> u32 option"
  uh_input_length :: "u8 \<Rightarrow> nat"
  uh_transport :: hid_transport
  uh_driver :: "(driver_class \<times> generic_driver) option"
  uh_data :: ups_data
  uh_has_store :: bool
  uh_saved :: "(string \<times> string) list"
  uh_lang :: u16
  uh_failed :: "u8 set"
  uh_product :: string
  uh_default_via :: string
  uh_dev :: 'd
  uh_sent :: "(u8 \<times> u8 \<times> u8 list) list"
  uh_first_data :: bool
  uh_restart :: bool
  uh_cached :: "u16 \<Rightarrow> u8 list option"
  uh_get_ok :: u32
  uh_last_ctrl :: u32
  uh_asked :: "(u8 \<times> u8) list"

definition inputReportAgeMs :: "'d usb_host \<Rightarrow> u8 \<Rightarrow> u32 \<Rightarrow> u32" where
  "inputReportAgeMs h report_id now =
     (case uh_input_ts h report_id of
        None \<Rightarrow> 0xFFFFFFFF
      | Some ts \<Rightarrow> let age = now - ts in if 0 < sint age then age else 0)"

text \<open>The host as its driver sees it.\<close>

definition host_transport :: "'d usb_host \<Rightarrow> u32 \<Rightarrow> hid_transport" where
  "host_transport h now =
     (uh_transport h)\<lparr>ht_paused := \<not> lm_canPoll (uh_link h) now, ht_input_age := inputReportAgeMs h\<rparr>"

abbreviation (input) uh_usages :: "'d usb_host \<Rightarrow> hid_usage_def list" where
  "uh_usages h \<equiv> ht_usages (uh_transport h)"

section \<open>Control requests\<close>

definition noteControlResult :: "usb_err \<Rightarrow> u32 \<Rightarrow> 'd usb_host \<Rightarrow> 'd usb_host" where
  "noteControlResult err now h =
     (if err = UsbOk \<or> err = UsbInvalidResponse \<or> err = UsbInvalidSize
      then h\<lparr>uh_last_ctrl := now, uh_link := lm_onAlive (uh_link h) now\<rparr>
      else h\<lparr>uh_last_ctrl := now, uh_link := lm_onLinkFailure (uh_link h) now\<rparr>)"

definition host_request ::
    "'d usb_device \<Rightarrow> u8 \<Rightarrow> u8 \<Rightarrow> nat \<Rightarrow> u32 \<Rightarrow> 'd usb_host \<Rightarrow> (usb_err + u8 list) \<times> 'd usb_host" where
  "host_request io report_type report_id len now h =
     (let (r, dev) = dio_get io report_type report_id len (uh_dev h);
          h = h\<lparr>uh_dev := dev, uh_asked := uh_asked h @ [(report_type, report_id)]\<rparr>
      in case r of
           Inl err \<Rightarrow> (Inl err, noteControlResult err now h)
         | Inr bytes \<Rightarrow> (Inr (take len bytes), noteControlResult UsbOk now h))"

definition host_get :: "'d usb_device \<Rightarrow> u8 \<Rightarrow> u8 \<Rightarrow> nat \<Rightarrow> u32 \<Rightarrow> 'd usb_host \<Rightarrow> u8 list \<times> 'd usb_host" where
  "host_get io report_type report_id len now h =
     (let (r, h) = host_request io report_type report_id len now h in (case r of Inl err \<Rightarrow> [] | Inr bytes \<Rightarrow> bytes, h))"

definition host_set :: "'d usb_device \<Rightarrow> u8 \<Rightarrow> u8 \<Rightarrow> u8 list \<Rightarrow> u32 \<Rightarrow> 'd usb_host \<Rightarrow> bool \<times> 'd usb_host" where
  "host_set io report_type report_id bytes now h =
     (let (err, dev) = dio_set io report_type report_id bytes (uh_dev h)
      in (err = UsbOk, noteControlResult err now (h\<lparr>uh_dev := dev, uh_sent := uh_sent h @ [(report_type, report_id, bytes)]\<rparr>)))"

text \<open>A report goes to the driver, that decodes it.\<close>

definition host_decode :: "u8 \<Rightarrow> u8 \<Rightarrow> u8 list \<Rightarrow> u32 \<Rightarrow> 'd usb_host \<Rightarrow> 'd usb_host" where
  "host_decode report_id report_type bytes now h =
     (case uh_driver h of
        None \<Rightarrow> h
      | Some (c, gd) \<Rightarrow>
          let t = host_transport h now;
              ((v, gd), data) = vendor_post (dc_unmapped c) t report_id report_type bytes
                (vendor_decode (dc_unmapped c) t report_id report_type bytes ((dc_vendor c, gd), uh_data h))
          in h\<lparr>uh_driver := Some (c\<lparr>dc_vendor := v\<rparr>, gd), uh_data := data\<rparr>)"

text \<open>The last bytes of each report are kept for the diagnostics.\<close>

definition note_report_bytes :: "u8 \<Rightarrow> u8 \<Rightarrow> u8 list \<Rightarrow> 'd usb_host \<Rightarrow> 'd usb_host" where
  "note_report_bytes report_type report_id bytes h =
     h\<lparr>uh_cached := (uh_cached h)(report_key report_type report_id := Some bytes)\<rparr>"

definition requestReport :: "'d usb_device \<Rightarrow> u8 \<Rightarrow> u8 \<Rightarrow> nat \<Rightarrow> u32 \<Rightarrow> 'd usb_host \<Rightarrow> bool \<times> 'd usb_host" where
  "requestReport io report_id report_type expected_length now h =
     (if \<not> uh_ready h then (False, h)
      else if \<not> lm_canPoll (uh_link h) now then (False, h)
      else let (bytes, h) = host_get io report_type report_id (min 256 (if 0 < expected_length then expected_length else 255)) now h
           in if bytes \<noteq> []
              then (True, host_decode report_id report_type bytes now
                      (note_report_bytes report_type report_id bytes (h\<lparr>uh_get_ok := uh_get_ok h + 1\<rparr>)))
              else (False, h))"

section \<open>INPUT reports\<close>

definition processInputReport :: "u8 list \<Rightarrow> u32 \<Rightarrow> u32 \<Rightarrow> 'd usb_host \<Rightarrow> 'd usb_host" where
  "processInputReport packet ts now h =
     (if uh_driver h = None then h
      else if no_interrupt_pipe (uh_transport h) then h
      else let h = h\<lparr>uh_wd := iw_onInput (uh_wd h) ts\<rparr>;
               expected = (if packet \<noteq> [] then uh_input_length h (if uh_uses_ids h then hd packet else 0) else 0);
               (reasm, complete) = ir_feed (uh_reasm h) packet ts (uh_mps h) expected;
               h = h\<lparr>uh_reasm := reasm\<rparr>
           in case complete of
                None \<Rightarrow> h
              | Some bytes \<Rightarrow>
                  let report_id = (if bytes \<noteq> [] then hd bytes else 0);
                      h = h\<lparr>uh_input_ts := (uh_input_ts h)(report_id := Some ts)\<rparr>
                  in host_decode report_id 1 bytes now (if bytes \<noteq> [] then note_report_bytes 1 report_id bytes h else h))"

section \<open>String descriptors\<close>

definition host_applyDefaultDelays :: "'d usb_host \<Rightarrow> 'd usb_host" where
  "host_applyDefaultDelays h =
     (case uh_driver h of
        None \<Rightarrow> h
      | Some (c, gd) \<Rightarrow>
          h\<lparr>uh_data := applyDefaultDelays (uh_data h) (uh_usages h) (dc_offDelay c) (dc_onDelay c) (dc_delayVariables c)
             (dc_delayPaths c) (Some (uh_saved h))\<rparr>)"

text \<open>The language first; a string that failed is not asked again.\<close>

definition read_language :: "'d usb_device \<Rightarrow> u8 \<Rightarrow> u32 \<Rightarrow> 'd usb_host \<Rightarrow> bool \<times> 'd usb_host" where
  "read_language io string_index now h =
     (if uh_lang h \<noteq> 0 then (True, h)
      else let (r, dev) = dio_string io 0 0 (uh_dev h); h = h\<lparr>uh_dev := dev\<rparr>
           in case r of
                Inr bytes \<Rightarrow>
                  (True, (noteControlResult UsbOk now h)\<lparr>uh_lang :=
                     (if 4 \<le> length bytes \<and> bytes ! 1 = 3 then ucast (bytes ! 2) OR push_bit 8 (ucast (bytes ! 3)) else 0x0409)\<rparr>)
              | Inl UsbInvalidResponse \<Rightarrow> (True, (noteControlResult UsbInvalidResponse now h)\<lparr>uh_lang := 0x0409\<rparr>)
              | Inl err \<Rightarrow> (False, (noteControlResult err now h)\<lparr>uh_failed := insert string_index (uh_failed h)\<rparr>))"

definition requestStringDescriptor :: "'d usb_device \<Rightarrow> u8 \<Rightarrow> u32 \<Rightarrow> 'd usb_host \<Rightarrow> bool \<times> 'd usb_host" where
  "requestStringDescriptor io string_index now h =
     (if \<not> uh_ready h \<or> string_index = 0 then (False, h)
      else if string_index \<in> uh_failed h then (False, h)
      else if \<not> lm_canPoll (uh_link h) now then (False, h)
      else let (ok, h) = read_language io string_index now h
           in if \<not> ok then (False, h)
              else let (r, dev) = dio_string io string_index (uh_lang h) (uh_dev h);
                       bytes = (case r of Inl err \<Rightarrow> [] | Inr bytes \<Rightarrow> bytes);
                       h = noteControlResult (case r of Inl err \<Rightarrow> err | Inr b \<Rightarrow> UsbOk) now (h\<lparr>uh_dev := dev\<rparr>)
                   in if length bytes < 2 then (False, h\<lparr>uh_failed := insert string_index (uh_failed h)\<rparr>)
                      else case uh_driver h of
                          None \<Rightarrow> (True, h)
                        | Some (c, gd) \<Rightarrow>
                            let t = host_transport h now;
                                ((v, gd), data) = vendor_string (dc_unmapped c) t string_index bytes ((dc_vendor c, gd), uh_data h);
                                c = c\<lparr>dc_vendor := v\<rparr>;
                                product = (if string_index = ht_iProduct t then ud_get data ''ups.model'' [] else uh_product h)
                            in (True, host_applyDefaultDelays
                                  (h\<lparr>uh_driver := Some (c, gd), uh_data := dc_formatStrings c data, uh_product := product\<rparr>)))"

section \<open>Writing a field\<close>

definition request_buffer :: "u8 list \<Rightarrow> u8 list" where
  "request_buffer bytes = take 256 (bytes @ replicate 256 0)"

text \<open>The report is read, the field changed, and the report written, as \<open>setBeeperLocked\<close> and
  \<open>writeUsageLocked\<close> do: a report with other fields only when it could be read up to the field.\<close>

definition write_report ::
    "'d usb_device \<Rightarrow> u8 \<Rightarrow> hid_usage_def \<Rightarrow> u32 \<Rightarrow> nat \<Rightarrow> nat \<Rightarrow> u32 \<Rightarrow> 'd usb_host \<Rightarrow> bool \<times> 'd usb_host" where
  "write_report io report_type def val expected request now h =
     (let shared_report = reportHasOtherFields (uh_usages h) def;
          (bytes, h) = host_get io report_type (hu_report_id def) request now h;
          fetched = (bytes \<noteq> [])
      in if \<not> canWriteBack shared_report def fetched (length bytes) then (False, h)
         else if \<not> fetched \<and> \<not> lm_canPoll (uh_link h) now then (False, h)
         else let buffer = (if fetched then request_buffer bytes
                            else if hu_report_id def \<noteq> 0 then (request_buffer [])[0 := hu_report_id def] else request_buffer []);
                  (buffer, len) = writeField def val buffer (if fetched then length bytes else expected)
              in if len = 0 then (False, h) else host_set io report_type (hu_report_id def) (take len buffer) now h)"

definition writeUsageLocked :: "'d usb_device \<Rightarrow> hid_usage_def \<Rightarrow> u32 \<Rightarrow> u32 \<Rightarrow> 'd usb_host \<Rightarrow> bool \<times> 'd usb_host" where
  "writeUsageLocked io def val now h =
     (if \<not> uh_ready h then (False, h)
      else if \<not> lm_canPoll (uh_link h) now then (False, h)
      else let expected = ht_expected (uh_transport h) (hu_report_id def) 3;
               request = (case uh_driver h of Some (c, gd) \<Rightarrow> dv_requestLength (dc_policy c) 3 (hu_report_id def) expected | None \<Rightarrow> expected)
           in write_report io 3 def val (min 256 (unat expected)) (min 256 (unat request)) now h)"

definition beeper_paths :: "string set" where
  "beeper_paths = {''UPS.PowerSummary.AudibleAlarmControl'', ''UPS.BatterySystem.Battery.AudibleAlarmControl'',
     ''UPS.AudibleAlarmControl''}"

text \<open>The writable item of the beeper path, or the INPUT item when there is none.\<close>

definition activeBeeper :: "hid_usage_def list \<Rightarrow> hid_usage_def option" where
  "activeBeeper usages =
     (case find (\<lambda>u. hu_path u \<in> beeper_paths) usages of
        None \<Rightarrow> None
      | Some f \<Rightarrow> (case find (\<lambda>u. hu_path u = hu_path f \<and> (hu_report_type u = 3 \<or> hu_report_type u = 2)) usages of
            Some u \<Rightarrow> Some u
          | None \<Rightarrow> Some f))"

text \<open>The item of the command row, then any FEATURE or OUTPUT item of its path.\<close>

definition beeper_item :: "hid_usage_def list \<Rightarrow> hid_usage_def \<Rightarrow> hid_usage_def option" where
  "beeper_item usages field =
     (let same = (\<lambda>u. hu_path u = hu_path field \<and> hu_coll_index u = hu_coll_index field \<and> (hu_report_type u = 3 \<or> hu_report_type u = 2))
      in case find (\<lambda>u. same u \<and> hu_report_type u = hu_report_type field \<and> hu_report_id u = hu_report_id field) usages of
           Some u \<Rightarrow> Some u
         | None \<Rightarrow> find same usages)"

definition setBeeperLocked :: "'d usb_device \<Rightarrow> bool \<Rightarrow> hid_usage_def option \<Rightarrow> u32 \<Rightarrow> 'd usb_host \<Rightarrow> bool \<times> 'd usb_host" where
  "setBeeperLocked io enable field now h =
     (if \<not> uh_ready h then (False, h)
      else if (case uh_driver h of Some (c, gd) \<Rightarrow> \<not> dc_beeperControllable c | None \<Rightarrow> False) then (False, h)
      else if \<not> lm_canPoll (uh_link h) now then (False, h)
      else case (case field of Some f \<Rightarrow> beeper_item (uh_usages h) f | None \<Rightarrow> activeBeeper (uh_usages h)) of
          None \<Rightarrow> (False, h)
        | Some def \<Rightarrow>
            let rep_type = (if hu_report_type def = 2 then 2 else 3);
                expected = min 256 (unat (ht_expected (uh_transport h) (hu_report_id def) rep_type));
                encode = (case uh_driver h of Some (c, gd) \<Rightarrow> dc_encodeBeeper c | None \<Rightarrow> encodeBeeperValue);
                (ok, h) = write_report io rep_type def (ucast (encode enable (hu_bit_size def))) expected expected now h;
                text = (if enable then ''enabled'' else ''disabled'')
            in if \<not> ok then (False, h)
               else (True, h\<lparr>uh_data := ud_set (uh_data h) ''ups.beeper.status'' text,
                        uh_driver := map_option (\<lambda>(c, gd). (c, noteHostValue (Some ''ups.beeper.status'') (Some text) gd)) (uh_driver h)\<rparr>))"

section \<open>SET VAR\<close>

definition on_driver :: "(generic_driver \<Rightarrow> generic_driver) \<Rightarrow> 'd usb_host \<Rightarrow> 'd usb_host" where
  "on_driver f h = h\<lparr>uh_driver := map_option (\<lambda>(c, gd). (c, f gd)) (uh_driver h)\<rparr>"

definition host_planSet :: "string \<Rightarrow> string \<Rightarrow> 'd usb_host \<Rightarrow> set_status + set_plan" where
  "host_planSet name val h =
     (case uh_driver h of
        None \<Rightarrow> Inl SetNotConnected
      | Some (c, gd) \<Rightarrow> planSet gd (uh_data h) (uh_usages h) (Some name) (Some val))"

definition saveDriverSideValue :: "'d usb_device \<Rightarrow> set_plan \<Rightarrow> 'd usb_host \<Rightarrow> set_status \<times> 'd usb_host" where
  "saveDriverSideValue io plan h =
     (let (name, val) = (case plan of PlanDriverSide n v \<Rightarrow> (n, v) | PlanHid n u raw v \<Rightarrow> (n, v))
      in if \<not> uh_has_store h then (SetFailed, h)
         else let (ok, dev) = dio_save io name val (uh_dev h); h = h\<lparr>uh_dev := dev\<rparr>
              in if \<not> ok then (SetFailed, h)
                 else let h = h\<lparr>uh_saved := dvs_upsert (uh_saved h) (Some name) (Some val)\<rparr>
                      in if uh_driver h = None \<or> \<not> uh_ready h then (SetOk, h)
                         else let h = (if starts_with name ''ups.delay.'' then h else on_driver (setDriverSideValue (Some name) (Some val)) h)
                              in (SetOk, h\<lparr>uh_data := ud_set (uh_data h) name val\<rparr>))"

definition writePlannedValue :: "'d usb_device \<Rightarrow> set_plan \<Rightarrow> u32 \<Rightarrow> 'd usb_host \<Rightarrow> set_status \<times> 'd usb_host" where
  "writePlannedValue io plan now h =
     (case plan of
        PlanDriverSide n v \<Rightarrow> (SetFailed, h)
      | PlanHid n def raw v \<Rightarrow>
          let (ok, h) = writeUsageLocked io def (word_of_int raw) now h
          in if \<not> ok then (SetFailed, h)
             else let h = on_driver noteDataChanged h;
                      expected = ht_expected (uh_transport h) (hu_report_id def) 3;
                      request = (case uh_driver h of Some (c, gd) \<Rightarrow> dv_requestLength (dc_policy c) 3 (hu_report_id def) expected | None \<Rightarrow> expected);
                      (read, h) = requestReport io (hu_report_id def) 3 (unat request) now h
                  in (SetOk, if read then h else on_driver (invalidateReport 3 (hu_report_id def)) h))"

definition host_resetDriverSideValue :: "'d usb_device \<Rightarrow> string \<Rightarrow> 'd usb_host \<Rightarrow> (set_status \<times> string) \<times> 'd usb_host" where
  "host_resetDriverSideValue io name h =
     (case uh_driver h of
        None \<Rightarrow> ((SetNotConnected, []), h)
      | Some (c, gd) \<Rightarrow>
          let (gd, vars) = (if uh_ready h then writableVariables (dc_policy c) gd (uh_data h) else (gd, []));
              h = h\<lparr>uh_driver := Some (c, gd)\<rparr>
          in case find (\<lambda>v. rw_driver_side v \<and> equalsIgnoreCase (Some (rw_name v)) (Some name)) vars of
               None \<Rightarrow> ((SetUnknown, []), h)
             | Some v \<Rightarrow>
                 let n = rw_name v
                 in if n = [] then ((SetUnknown, []), h)
                    else if \<not> uh_has_store h then ((SetFailed, []), h)
                    else let (ok, dev) = dio_erase io n (uh_dev h); h = h\<lparr>uh_dev := dev\<rparr>
                         in if \<not> ok then ((SetFailed, []), h)
                            else let h = h\<lparr>uh_saved := fst (dvs_remove (uh_saved h) (Some n))\<rparr>
                                 in if \<not> uh_ready h then ((SetOk, []), h)
                                    else if starts_with n ''ups.delay.''
                                    then let h = host_applyDefaultDelays h in ((SetOk, ud_get (uh_data h) n []), h)
                                    else (case resetDriverSideValue (Some n) gd of
                                            (gd, None) \<Rightarrow> ((SetOk, []), h\<lparr>uh_driver := Some (c, gd)\<rparr>)
                                          | (gd, Some t) \<Rightarrow> ((SetOk, t), h\<lparr>uh_driver := Some (c, gd), uh_data := ud_set (uh_data h) n t\<rparr>)))"

definition resetVariable :: "'d usb_device \<Rightarrow> string option \<Rightarrow> 'd usb_host \<Rightarrow> (set_status \<times> string) \<times> 'd usb_host" where
  "resetVariable io name h =
     (if \<not> uh_ready h then ((SetNotConnected, []), h)
      else case name of None \<Rightarrow> ((SetUnknown, []), h) | Some n \<Rightarrow> host_resetDriverSideValue io n h)"

section \<open>The host as a control port\<close>

definition getActiveBeeperPath :: "hid_usage_def list \<Rightarrow> string" where
  "getActiveBeeperPath usages =
     (case find (\<lambda>u. hu_path u \<in> beeper_paths) usages of
        Some u \<Rightarrow> hu_path u
      | None \<Rightarrow> [])"

definition driver_says :: "(driver_class \<Rightarrow> bool) \<Rightarrow> 'd usb_host \<Rightarrow> bool" where
  "driver_says f h = (case uh_driver h of Some (c, gd) \<Rightarrow> f c | None \<Rightarrow> True)"

definition supportsBeeperToggle :: "'d usb_host \<Rightarrow> bool" where
  "supportsBeeperToggle h = (if \<not> driver_says dc_beeperControllable h then False else getActiveBeeperPath (uh_usages h) \<noteq> [])"

text \<open>The command of \<open>shutdown.default\<close> is another one, so the port below runs it with a port that
  has none of its own.\<close>

definition host_port_of :: "'d usb_device \<Rightarrow> u32 \<Rightarrow> (string \<Rightarrow> 'd usb_host \<Rightarrow> command_result \<times> 'd usb_host) \<Rightarrow> 'd usb_host control_port" where
  "host_port_of io now execute = \<lparr>cp_connected = uh_ready, cp_hid = (\<lambda>h. True), cp_data = uh_data, cp_usages = (\<lambda>h. uh_usages h),
     cp_table = (\<lambda>h. map_option (\<lambda>(c, gd). dc_commandTable c) (uh_driver h)),
     cp_beeperFieldRead = (\<lambda>h. case uh_driver h of Some (c, gd) \<Rightarrow> beeperFieldRead (Some (host_transport h now)) gd | None \<Rightarrow> False),
     cp_supportsBeeperToggle = supportsBeeperToggle, cp_shutdownSupported = driver_says dc_shutdownSupported,
     cp_beeperMuteSupported = driver_says dc_beeperMuteSupported,
     cp_setBeeperField = (\<lambda>u enable. setBeeperLocked io enable (Some u) now),
     cp_writeUsage = (\<lambda>u v. writeUsageLocked io u v now), cp_execute = execute,
     cp_noteDefaultShutdown = (\<lambda>via h. h\<lparr>uh_default_via := via\<rparr>), cp_planSet = host_planSet,
     cp_saveDriverSide = saveDriverSideValue io, cp_writePlanned = (\<lambda>plan. writePlannedValue io plan now)\<rparr>"

definition note_command :: "command_result \<times> 'd usb_host \<Rightarrow> command_result \<times> 'd usb_host" where
  "note_command r = (if fst r = CmdOk then (CmdOk, on_driver noteDataChanged (snd r)) else r)"

definition sub_port :: "'d usb_device \<Rightarrow> u32 \<Rightarrow> 'd usb_host control_port" where
  "sub_port io now = host_port_of io now (\<lambda>sub h. (CmdFailed, h))"

definition host_port :: "'d usb_device \<Rightarrow> u32 \<Rightarrow> 'd usb_host control_port" where
  "host_port io now = host_port_of io now (\<lambda>sub h. note_command (hc_executeCommand (sub_port io now) (Some sub) None h))"

definition host_executeCommand :: "'d usb_device \<Rightarrow> string option \<Rightarrow> string option \<Rightarrow> u32 \<Rightarrow> 'd usb_host \<Rightarrow> command_result \<times> 'd usb_host" where
  "host_executeCommand io name param now h = note_command (hc_executeCommand (host_port io now) name param h)"

definition host_setVariable :: "'d usb_device \<Rightarrow> string option \<Rightarrow> string option \<Rightarrow> u32 \<Rightarrow> 'd usb_host \<Rightarrow> set_status \<times> 'd usb_host" where
  "host_setVariable io name val now h = setVariable (host_port io now) name val h"

section \<open>The host as a source\<close>

definition getUPSStatusString :: "(string \<Rightarrow> rat) \<Rightarrow> 'd usb_host \<Rightarrow> string" where
  "getUPSStatusString toFloat h =
     (let status = computeUPSStatusString toFloat (uh_data h) in if status = [] then ''UNKNOWN'' else status)"

definition isDataStale :: "'d usb_host \<Rightarrow> u32 \<Rightarrow> bool" where
  "isDataStale h now =
     (if \<not> uh_ready h then True
      else if \<not> uh_first_data h then True
      else if uh_restart h then True
      else lm_isStale (uh_link h) now \<or> iw_isStale (uh_wd h) now)"

definition getWritableVariables :: "'d usb_host \<Rightarrow> rw_variable list \<times> 'd usb_host" where
  "getWritableVariables h =
     (case uh_driver h of None \<Rightarrow> ([], h)
      | Some (c, gd) \<Rightarrow>
          if \<not> uh_ready h then ([], h)
          else let (gd, out) = writableVariables (dc_policy c) gd (uh_data h) in (out, h\<lparr>uh_driver := Some (c, gd)\<rparr>))"

end
