(* ===== verification/HostSafety.thy ===== *)
theory HostSafety
  imports UsbHost
begin

text \<open>
  What the commands and SET VAR send to the device: a relation that every operation of a control
  port keeps holds from before a command to after it (\<open>port_relation\<close>), and the host keeps the
  relation that no report loses a field it was not asked to change.
\<close>

section \<open>Relations that a port keeps\<close>

locale port_relation =
  fixes port :: "'p control_port"
    and R :: "'p \<Rightarrow> 'p \<Rightarrow> bool"
  assumes refl: "R p p"
    and trans: "R p q \<Longrightarrow> R q r \<Longrightarrow> R p r"
    and usages: "R p q \<Longrightarrow> cp_usages port q = cp_usages port p"
    and beeper: "u \<in> set (cp_usages port p) \<Longrightarrow> R p (snd (cp_setBeeperField port u enable p))"
    and writes: "u \<in> set (cp_usages port p) \<Longrightarrow> R p (snd (cp_writeUsage port u v p))"
    and executes: "R p (snd (cp_execute port sub p))"
    and noted: "R p (cp_noteDefaultShutdown port via p)"
    and saves: "R p (snd (cp_saveDriverSide port plan p))"
    and writes_plan: "cp_planSet port n t p = Inr (PlanHid k u raw s) \<Longrightarrow> R p (snd (cp_writePlanned port (PlanHid k u raw s) p))"
begin

lemma setVariable: "R p (snd (setVariable port name val p))"
proof -
  have "R p (snd (case cp_planSet port n v p of Inl st \<Rightarrow> (st, p)
      | Inr (PlanDriverSide k t) \<Rightarrow> cp_saveDriverSide port (PlanDriverSide k t) p
      | Inr (PlanHid k u raw t) \<Rightarrow> cp_writePlanned port (PlanHid k u raw t) p))" for n v
    using writes_plan by (auto simp: refl saves split: sum.split set_plan.split)
  then show ?thesis by (auto simp: setVariable_def refl split: option.splits)
qed

lemma run_steps: "fst ` set steps \<subseteq> set (cp_usages port p) \<Longrightarrow> R p (snd (run_steps port steps p))"
proof (induction steps arbitrary: p)
  case (Cons s steps)
  obtain u v where s: "s = (u, v)" by (cases s)
  obtain ok q where q: "cp_writeUsage port u (word_of_int v) p = (ok, q)" by fastforce
  have "R p q" using writes [of u p "word_of_int v"] Cons.prems q by (simp add: s)
  moreover from this have "R q (snd (run_steps port steps q))" using Cons usages [of p q] by simp
  ultimately show ?case using trans by (auto simp: s q)
qed (simp add: refl)

lemma default_shutdown: "R p (snd (default_shutdown port available subs p))"
proof (induction subs arbitrary: p)
  case (Cons sub subs)
  obtain r q where q: "cp_execute port sub p = (r, q)" by fastforce
  have "R p q" using executes [of p sub] q by simp
  then have "R p (snd (default_shutdown port available subs q))" "R p (cp_noteDefaultShutdown port sub q)"
    using Cons.IH noted trans by blast+
  with Cons.IH [of p] show ?case by (simp add: q)
qed (simp add: refl)

lemma beeper_command: "R p (snd (beeper_command port name p))"
proof -
  have "R p (snd (case f of None \<Rightarrow> (CmdNotSupported, p)
      | Some (u, dfl) \<Rightarrow> (case cp_setBeeperField port u e p of (ok, p) \<Rightarrow> (if ok then CmdOk else CmdFailed, p))))"
    if "\<forall>u dfl. f = Some (u, dfl) \<longrightarrow> u \<in> set (cp_usages port p)" for f e
    using that beeper by (cases f) (auto simp: refl split_beta)
  note cases = this
  show ?thesis
    unfolding beeper_command_def Let_def by (rule cases) (auto dest: cmdField_usage split: if_splits)
qed

lemma power_command: "R p (snd (power_command port name param p))"
proof -
  have "R p (snd (case r of StepsInvalidArgument \<Rightarrow> (CmdInvalidArgument, p) | StepsNotSupported \<Rightarrow> (CmdNotSupported, p)
      | StepsOk steps \<Rightarrow> run_steps port steps
          (if c steps then snd (setVariable port n t p) else p)))"
    if res: "r = resolveShutdownSteps name param (cp_usages port p) off_delay on_delay (cp_table port p)" for r c n t off_delay on_delay
  proof (cases r)
    case (StepsOk steps)
    let ?q = "if c steps then snd (setVariable port n t p) else p"
    have q: "R p ?q" using setVariable refl by simp
    have "u \<in> set (cp_usages port p)" if "(u, v) \<in> set steps" for u v
      using steps_value [OF _ that] StepsOk res by metis
    then have "fst ` set steps \<subseteq> set (cp_usages port p)" by auto
    then have "R ?q (snd (run_steps port steps ?q))" using run_steps usages [OF q] by simp
    with trans [OF q] show ?thesis by (simp add: StepsOk)
  qed (simp_all add: refl)
  note steps = this
  show ?thesis unfolding power_command_def Let_def by (rule steps) (rule HOL.refl)
qed

lemma executeCommand: "R p (snd (hc_executeCommand port name param p))"
proof (cases name)
  case (Some n)
  have R_if: "R p (snd (if c then a else b))" if "R p (snd a)" "R p (snd b)" for c and a b :: "'b \<times> 'p"
    using that by simp
  have w: "R p (snd (case resolveWrite n (cp_usages port p) (cp_table port p) of None \<Rightarrow> (CmdNotSupported, p)
      | Some (u, v) \<Rightarrow> (case cp_writeUsage port u v p of (ok, p) \<Rightarrow> (if ok then CmdOk else CmdFailed, p))))"
    using writes by (auto simp: refl resolveWrite_def split_beta dest: cmdField_usage split: option.splits if_splits)
  have d: "R p (snd (default_shutdown port available subs (cp_noteDefaultShutdown port via p)))" for available subs via
    using trans [OF noted default_shutdown] .
  show ?thesis
    unfolding hc_executeCommand_def Some option.case Let_def
    by (intro R_if beeper_command power_command w d) (simp_all add: refl)
qed (simp add: hc_executeCommand_def refl)

end

section \<open>What is sent\<close>

text \<open>The report \<open>after\<close> is \<open>before\<close> but for the bits of a field.\<close>

definition only_field :: "hid_usage_def \<Rightarrow> u8 list \<Rightarrow> u8 list \<Rightarrow> bool" where
  "only_field def before after' \<longleftrightarrow> length after' = length before \<and>
     (\<forall>k < 8 * length before. \<not> (fieldStart def \<le> k \<and> k < fieldStart def + unat (hu_bit_size def)) \<longrightarrow>
        buf_bit after' k = buf_bit before k)"

text \<open>A report that carries one field of the device, and that is, when the report has other fields, a
  report just read with that field changed.\<close>

definition report_ok :: "'d usb_device \<Rightarrow> hid_usage_def list \<Rightarrow> u8 \<times> u8 \<times> u8 list \<Rightarrow> bool" where
  "report_ok io usages r = (case r of (t, i, report) \<Rightarrow> \<exists>def val.
     def \<in> set usages \<and> hu_report_id def = i \<and> extractRaw def report = take_bit (unat (hu_bit_size def)) (ucast (val :: u32)) \<and>
     (reportHasOtherFields usages def \<longrightarrow>
        (\<exists>d len answer. fst (dio_get io t i len d) = Inr answer \<and> only_field def (take len answer) report)))"

definition sends_ok :: "'d usb_device \<Rightarrow> 'd usb_host \<Rightarrow> 'd usb_host \<Rightarrow> bool" where
  "sends_ok io h h' \<longleftrightarrow> uh_transport h' = uh_transport h \<and>
     (\<exists>reports. uh_sent h' = uh_sent h @ reports \<and>
        ((\<forall>u \<in> set (uh_usages h). field_ok u) \<longrightarrow> list_all (report_ok io (uh_usages h)) reports))"

lemma sends_ok_none: "uh_transport h' = uh_transport h \<Longrightarrow> uh_sent h' = uh_sent h \<Longrightarrow> sends_ok io h h'"
  by (simp add: sends_ok_def)

lemma sends_ok_trans: "sends_ok io h h' \<Longrightarrow> sends_ok io h' h'' \<Longrightarrow> sends_ok io h h''"
  by (auto simp: sends_ok_def)

text \<open>The operations that send nothing.\<close>

definition sends_part :: "'d usb_host \<Rightarrow> hid_transport \<times> (u8 \<times> u8 \<times> u8 list) list" where
  "sends_part h = (uh_transport h, uh_sent h)"

lemma sends_ok_part: "sends_part h' = sends_part h \<Longrightarrow> sends_ok io h h'"
  by (simp add: sends_part_def sends_ok_none)

lemma sends_part_keeps [simp]:
  "sends_part (noteControlResult err now h) = sends_part h"
  "sends_part (snd (host_get io t i len now h)) = sends_part h"
  "sends_part (host_decode i t bytes now h) = sends_part h"
  "sends_part (on_driver f h) = sends_part h"
proof -
  show n: "sends_part (noteControlResult err now h) = sends_part h" for err now and h :: "'d usb_host"
    by (simp add: noteControlResult_def sends_part_def)
  have d: "sends_part (h\<lparr>uh_dev := d, uh_asked := a\<rparr>) = sends_part h" for h :: "'d usb_host" and d a by (simp add: sends_part_def)
  show "sends_part (snd (host_get io t i len now h)) = sends_part h"
    by (simp add: host_get_def host_request_def split_beta Let_def n d split: sum.split)
  show "sends_part (host_decode i t bytes now h) = sends_part h"
    by (auto simp: host_decode_def sends_part_def Let_def split_beta split: option.split)
  show "sends_part (on_driver f h) = sends_part h" by (simp add: on_driver_def sends_part_def)
qed

lemma sends_part_request [simp]: "sends_part (snd (requestReport io i t n now h)) = sends_part h"
proof -
  obtain bytes g where g: "host_get io t i (min 256 (if 0 < n then n else 255)) now h = (bytes, g)" by fastforce
  have "sends_part g = sends_part h" using sends_part_keeps(2) [of io t i "min 256 (if 0 < n then n else 255)" now h] unfolding g by simp
  moreover have "sends_part (note_report_bytes a b c f) = sends_part f" "sends_part (f\<lparr>uh_get_ok := x\<rparr>) = sends_part f"
    for a b c x and f :: "'a usb_host" by (simp_all add: note_report_bytes_def sends_part_def)
  ultimately show ?thesis unfolding requestReport_def g by simp
qed

text \<open>The bytes of a request are the answer of the device.\<close>

lemma host_get_answer:
  assumes "host_get io t i len now h = (bytes, g)" "bytes \<noteq> []"
  shows "\<exists>d answer. fst (dio_get io t i len d) = Inr answer \<and> bytes = take len answer"
  using assms by (cases "fst (dio_get io t i len (uh_dev h))") (auto simp: host_get_def host_request_def split_beta Let_def intro!: exI [of _ "uh_dev h"])

lemma host_get_length: "host_get io t i len now h = (bytes, g) \<Longrightarrow> length bytes \<le> len"
  by (auto simp: host_get_def host_request_def split_beta Let_def split: sum.splits)

lemma buf_bit_take: "k < 8 * m \<Longrightarrow> buf_bit (take m b) k = buf_bit b k"
  by (simp add: buf_bit_def)

lemma extractRaw_take:
  assumes "field_ok def" "requiredLength def \<le> m" "m \<le> length b"
  shows "extractRaw def (take m b) = extractRaw def b"
proof (rule bit_word_eqI)
  fix j
  have "fieldStart def + j < 8 * m" if "j < unat (hu_bit_size def)"
    using that fieldStart_requiredLength [of def] assms(2) by simp
  then show "bit (extractRaw def (take m b)) j = bit (extractRaw def b) j"
    using extractRaw_bits [OF assms(1), of "take m b" j] extractRaw_bits [OF assms(1), of b j] assms(2,3) buf_bit_take by auto
qed

text \<open>A field written into a buffer, cut to the length to send.\<close>

lemma written_report:
  assumes "field_ok def" "length buffer = 256" "n \<le> 256" "writeField def val buffer n = (buffer', len)"
  shows "extractRaw def (take len buffer') = take_bit (unat (hu_bit_size def)) (ucast val)"
    and "requiredLength def \<le> n \<Longrightarrow> only_field def (take n buffer) (take len buffer')"
proof -
  have r: "requiredLength def \<le> 256" using assms(1) by (simp add: field_ok_def)
  have m: "max n (requiredLength def) \<le> length buffer" using assms(2,3) r by simp
  note rt = field_roundtrip [OF assms(1) m, of val]
  have len: "len = max n (requiredLength def)" "length buffer' = 256"
    using rt writeField_length(2) [OF assms(1), of val buffer n] assms(2) by (simp_all add: assms(4))
  show "extractRaw def (take len buffer') = take_bit (unat (hu_bit_size def)) (ucast val)"
    using extractRaw_take [OF assms(1), of len buffer'] rt len m assms(2) by (simp add: assms(4))
  show "only_field def (take n buffer) (take len buffer')" if "requiredLength def \<le> n"
  proof -
    have "len = n" using len that by simp
    then show ?thesis
      using rt assms(2,3) len by (auto simp: only_field_def assms(4) buf_bit_take)
  qed
qed

lemma write_report_ok:
  assumes "def \<in> set (uh_usages h)" "request \<le> 256" "expected \<le> 256"
  shows "sends_ok io h (snd (write_report io t def val expected request now h))"
proof -
  let ?i = "hu_report_id def"
  obtain bytes g where g: "host_get io t ?i request now h = (bytes, g)" by fastforce
  have part: "sends_part g = sends_part h" using sends_part_keeps(2) [of io t ?i request now h] unfolding g by simp
  define buffer where "buffer = (if bytes \<noteq> [] then request_buffer bytes
    else if ?i \<noteq> 0 then (request_buffer [])[0 := ?i] else request_buffer [])"
  define n where "n = (if bytes \<noteq> [] then length bytes else expected)"
  obtain buffer' len where w: "writeField def val buffer n = (buffer', len)" by fastforce
  have n: "n \<le> 256" "length buffer = 256"
    using host_get_length [OF g] assms(2,3) by (auto simp: n_def buffer_def request_buffer_def)
  define sent where "sent = host_set io t ?i (take len buffer') now g"
  have res: "snd (write_report io t def val expected request now h) =
    (if \<not> canWriteBack (reportHasOtherFields (uh_usages h) def) def (bytes \<noteq> []) (length bytes) then g
     else if bytes = [] \<and> \<not> lm_canPoll (uh_link g) now then g else if len = 0 then g else snd sent)"
    unfolding write_report_def g Let_def case_prod_conv buffer_def [symmetric] n_def [symmetric] w sent_def by simp
  have sent: "sends_part (snd sent) = (uh_transport h, uh_sent h @ [(t, ?i, take len buffer')])"
  proof -
    have "sends_part (k\<lparr>uh_dev := x, uh_sent := ys\<rparr>) = (uh_transport k, ys)" for k :: "'a usb_host" and x ys
      by (simp add: sends_part_def)
    then show ?thesis using part by (simp add: sent_def host_set_def split_beta sends_part_def [of g] sends_part_def [of h])
  qed
  have ok: "report_ok io (uh_usages h) (t, ?i, take len buffer')"
    if c: "canWriteBack (reportHasOtherFields (uh_usages h) def) def (bytes \<noteq> []) (length bytes)" and f: "field_ok def"
  proof -
    have "\<exists>d l answer. fst (dio_get io t ?i l d) = Inr answer \<and> only_field def (take l answer) (take len buffer')"
      if "reportHasOtherFields (uh_usages h) def"
    proof -
      have "bytes \<noteq> []" "requiredLength def \<le> length bytes" using c that by (auto simp: canWriteBack_def)
      moreover have "take n buffer = bytes" if "bytes \<noteq> []" using that n by (simp add: n_def buffer_def request_buffer_def)
      ultimately have "only_field def bytes (take len buffer')"
        using written_report(2) [OF f n(2,1) w] by (simp add: n_def)
      with host_get_answer [OF g \<open>bytes \<noteq> []\<close>] show ?thesis by blast
    qed
    with assms(1) written_report(1) [OF f n(2,1) w] show ?thesis unfolding report_ok_def by blast
  qed
  show ?thesis
  proof (cases "canWriteBack (reportHasOtherFields (uh_usages h) def) def (bytes \<noteq> []) (length bytes)
      \<and> \<not> (bytes = [] \<and> \<not> lm_canPoll (uh_link g) now) \<and> len \<noteq> 0")
    case True
    with ok assms(1) sent show ?thesis
      unfolding res sends_ok_def by (auto simp: sends_part_def)
  next
    case False
    with part show ?thesis unfolding res by (auto intro: sends_ok_part)
  qed
qed

section \<open>The operations of the host\<close>

lemma writeUsage_ok: "def \<in> set (uh_usages h) \<Longrightarrow> sends_ok io h (snd (writeUsageLocked io def val now h))"
  using write_report_ok [of "def" h] by (auto simp: writeUsageLocked_def Let_def sends_ok_none)

lemma find_member: "find P xs = Some x \<Longrightarrow> x \<in> set xs"
  by (auto simp: find_Some_iff)

lemma beeper_item_member: "beeper_item usages f = Some u \<Longrightarrow> u \<in> set usages"
  by (auto simp: beeper_item_def Let_def split: option.splits dest: find_member)

lemma activeBeeper_member: "activeBeeper usages = Some u \<Longrightarrow> u \<in> set usages"
  by (auto simp: activeBeeper_def split: option.splits dest: find_member)

lemma setBeeper_ok: "sends_ok io h (snd (setBeeperLocked io enable field now h))"
proof -
  have "sends_ok io h (snd (let rep_type = r; (ok, h) = write_report io rep_type u v e e now h in
      if \<not> ok then (False, h) else (True, h\<lparr>uh_data := d h, uh_driver := c h\<rparr>)))"
    if "u \<in> set (uh_usages h)" "e \<le> 256" for u r v e d c
  proof -
    obtain ok g where g: "write_report io r u v e e now h = (ok, g)" by fastforce
    have "sends_ok io h g" using write_report_ok [OF that(1,2,2), of io r v now] g by simp
    moreover have "sends_ok io g (g\<lparr>uh_data := d g, uh_driver := c g\<rparr>)" by (simp add: sends_ok_none)
    ultimately show ?thesis by (simp add: g Let_def sends_ok_trans)
  qed
  note sent = this [unfolded Let_def]
  show ?thesis
  proof (cases "case field of Some f \<Rightarrow> beeper_item (uh_usages h) f | None \<Rightarrow> activeBeeper (uh_usages h)")
    case (Some u)
    then have "u \<in> set (uh_usages h)" by (auto split: option.splits dest: beeper_item_member activeBeeper_member)
    note s = sent [OF this]
    show ?thesis
      unfolding setBeeperLocked_def Some option.case Let_def
      by (simp only: if_split [of "\<lambda>x. sends_ok io h (snd x)"] snd_conv) (intro conjI impI s sends_ok_none, simp_all)
  qed (simp add: setBeeperLocked_def sends_ok_none)
qed

lemma save_ok: "sends_ok io h (snd (saveDriverSideValue io plan h))"
  by (cases plan) (auto simp: saveDriverSideValue_def on_driver_def Let_def split_beta intro!: sends_ok_none)

lemma planSet_usage: "planSet gd data usages name val = Inr (PlanHid k u raw t) \<Longrightarrow> u \<in> set usages"
  by (auto simp: planSet_def Let_def row_usages_def split: option.splits if_splits dest!: find_member)

lemma writePlanned_ok:
  assumes "host_planSet n s h = Inr (PlanHid k u raw t)"
  shows "sends_ok io h (snd (writePlannedValue io (PlanHid k u raw t) now h))"
proof -
  have u: "u \<in> set (uh_usages h)" using assms planSet_usage by (auto simp: host_planSet_def split: option.splits)
  obtain ok g where g: "writeUsageLocked io u (word_of_int raw) now h = (ok, g)" by fastforce
  have w: "sends_ok io h g" using writeUsage_ok [OF u, of io "word_of_int raw" now] g by simp
  have "sends_part (snd (let (read, h) = requestReport io i 3 m now (on_driver noteDataChanged g)
      in (SetOk, if read then h else on_driver f h))) = sends_part g" for i m f
    using sends_part_request [of io i 3 m now "on_driver noteDataChanged g"] by (simp add: split_beta)
  note after_write = sends_ok_trans [OF w sends_ok_part [OF this [unfolded Let_def]]]
  show ?thesis
    unfolding writePlannedValue_def set_plan.case g Let_def case_prod_conv
    by (simp only: if_split [of "\<lambda>x. sends_ok io h (snd x)"] snd_conv) (intro conjI impI after_write, simp add: w)
qed

lemma host_port_relation:
  assumes "\<And>sub h. sends_ok io h (snd (execute sub h))"
  shows "port_relation (host_port_of io now execute) (sends_ok io)"
proof
  fix p q :: "'a usb_host" and u enable v sub via plan n t k raw s
  show "sends_ok io p p" by (simp add: sends_ok_none)
  show "sends_ok io p q \<Longrightarrow> cp_usages (host_port_of io now execute) q = cp_usages (host_port_of io now execute) p"
    by (simp add: host_port_of_def sends_ok_def)
  show "sends_ok io p (snd (cp_setBeeperField (host_port_of io now execute) u enable p))" by (simp add: host_port_of_def setBeeper_ok)
  show "u \<in> set (cp_usages (host_port_of io now execute) p) \<Longrightarrow> sends_ok io p (snd (cp_writeUsage (host_port_of io now execute) u v p))"
    by (simp add: host_port_of_def writeUsage_ok)
  show "sends_ok io p (snd (cp_execute (host_port_of io now execute) sub p))" by (simp add: host_port_of_def assms)
  show "sends_ok io p (cp_noteDefaultShutdown (host_port_of io now execute) via p)" by (simp add: host_port_of_def sends_ok_none)
  show "sends_ok io p (snd (cp_saveDriverSide (host_port_of io now execute) plan p))" by (simp add: host_port_of_def save_ok)
  show "cp_planSet (host_port_of io now execute) n t p = Inr (PlanHid k u raw s) \<Longrightarrow>
      sends_ok io p (snd (cp_writePlanned (host_port_of io now execute) (PlanHid k u raw s) p))"
    by (simp add: host_port_of_def writePlanned_ok)
qed (rule sends_ok_trans)

lemma note_command_ok:
  assumes "sends_ok io h (snd r)" shows "sends_ok io h (snd (note_command r))"
proof (cases "fst r = CmdOk")
  case True
  have "sends_ok io (snd r) (on_driver noteDataChanged (snd r))" by (rule sends_ok_part) simp
  with sends_ok_trans [OF assms this] True show ?thesis by (simp add: note_command_def)
qed (simp add: note_command_def assms)

interpretation sub: port_relation "sub_port io now" "sends_ok io" for io now
  unfolding sub_port_def by (rule host_port_relation) (simp add: sends_ok_none)

interpretation host: port_relation "host_port io now" "sends_ok io" for io now
  unfolding host_port_def by (rule host_port_relation) (intro note_command_ok sub.executeCommand)

text \<open>C1: a report with other fields is never written from scratch. Over every instant command (the
  whole of \<open>shutdown.default\<close> included) and every SET VAR, whatever the device answers, each
  report sent carries exactly the value of one field of the device, and when the report has
  other fields it is, in length and in all its other bits, a report that the device just gave. The fields of the
  device are ones that can be written (\<open>field_ok\<close>: at most 32 bits from the start of their first byte, in a
  report of at most 256 bytes).\<close>

theorem writes_keep_other_fields:
  assumes "\<forall>u \<in> set (uh_usages h). field_ok u"
  shows "(\<exists>reports. uh_sent (snd (host_executeCommand io name param now h)) = uh_sent h @ reports \<and>
      list_all (report_ok io (uh_usages h)) reports) \<and>
    (\<exists>reports. uh_sent (snd (host_setVariable io name val now h)) = uh_sent h @ reports \<and>
      list_all (report_ok io (uh_usages h)) reports)"
proof -
  have "sends_ok io h (snd (host_executeCommand io name param now h))"
    unfolding host_executeCommand_def by (intro note_command_ok host.executeCommand)
  moreover have "sends_ok io h (snd (host_setVariable io name val now h))"
    unfolding host_setVariable_def by (rule host.setVariable)
  ultimately show ?thesis using assms by (simp add: sends_ok_def)
qed

end
