(* ===== verification/SetVariable.thy ===== *)
theory SetVariable
  imports HostSafety
begin

text \<open>
  SET VAR from its name and text to the report that goes out: the row that owns the name, the value
  of the text, the field that holds it, and what the poll reads from it.
\<close>

unbundle bit_operations_syntax

section \<open>A value in a field\<close>



section \<open>The plan\<close>




section \<open>The report\<close>





text \<open>A variable of the driver.\<close>





text \<open>An Eaton UPS with its automatic start, and a device that answers every request.\<close>

definition echo_device :: "unit usb_device" where
  "echo_device = \<lparr>dio_get = (\<lambda>t i n d. (Inr [i, 0], d)), dio_set = (\<lambda>t i bytes d. (UsbOk, d)),
     dio_string = (\<lambda>i l d. (Inl UsbFailed, d)), dio_save = (\<lambda>k v d. (True, d)), dio_erase = (\<lambda>k d. (True, d))\<rparr>"

definition auto_usage :: hid_usage_def where
  "auto_usage = hu_new\<lparr>hu_usage := 0xFFFF0043, hu_report_id := 30, hu_report_type := 3, hu_bit_size := 8, hu_found := True,
     hu_logical_max := 1, hu_path := ''UPS.PowerConverter.Input.[1].0xFFFF0043''\<rparr>"

definition auto_row :: hid_info where
  "auto_row = row ''ups.start.auto'' (ST_FLAG_RW OR ST_FLAG_STRING) 5 ''UPS.PowerConverter.Input.[1].0xFFFF0043'' (Some ''%s'')
     HU_FLAG_SEMI_STATIC CvLookup kYesNo"

definition auto_host :: "unit usb_host" where
  "auto_host = \<lparr>uh_ready = True, uh_link = lm_new lm_defaultConfig, uh_wd = iw_new iw_defaultConfig [], uh_reasm = ir_new 500,
     uh_mps = 8, uh_uses_ids = True, uh_input_ts = (\<lambda>i. None), uh_input_length = (\<lambda>i. 0),
     uh_transport = idle_host\<lparr>ht_usages := [auto_usage], ht_expected := (\<lambda>i t. 2)\<rparr>,
     uh_driver = Some (\<lparr>dc_unmapped = False, dc_vendor = Generic\<rparr>, gd_new\<lparr>gd_nut_bound := True, gd_nut_usage_count := 1,
       gd_rows := [(bound_new auto_row 0 None)\<lparr>bd_role := RoleActive\<rparr>]\<rparr>),
     uh_data = ud_new, uh_has_store = False, uh_saved = [], uh_lang = 0, uh_failed = {}, uh_product = [], uh_default_via = [],
     uh_dev = (), uh_sent = [], uh_first_data = True, uh_restart = False, uh_cached = (\<lambda>k. None), uh_get_ok = 0, uh_last_ctrl = 0,
     uh_asked = []\<rparr>"



lemma auto_field: "field_ok auto_usage" "\<not> (1 < hu_bit_size auto_usage \<and> unitExponent auto_usage \<noteq> 0)"
  by (simp_all add: field_ok_def auto_usage_def hu_new_def requiredLength_def unitExponent_def)



theorem writes_keep_other_fields_witness:
  "\<exists>reports. uh_sent (snd (host_setVariable echo_device (Some ''ups.start.auto'') (Some ''yes'') 1000 auto_host)) = reports \<and>
     list_all (report_ok echo_device [auto_usage]) reports"
proof -
  have "ht_usages (uh_transport auto_host) = [auto_usage]" "uh_sent auto_host = []" by (simp_all add: auto_host_def)
  with writes_keep_other_fields [of auto_host echo_device "Some ''ups.start.auto''" None 1000 "Some ''yes''"] auto_field(1) show ?thesis
    by simp
qed

end
