(* ===== verification/Json.thy ===== *)
theory Json
  imports Prelude
begin

text \<open>
  Documents of ArduinoJson as the code reads and builds them. The library itself is not part of
  the source: the operations that parse or print text take it as an argument. A number without a sign
  is \<open>JNat\<close>, a negative one \<open>JInt\<close>, text put in as it is \<open>JRaw\<close>, and \<open>JOther\<close> any other value.
\<close>

datatype json = JArray "json list" | JObject "(string \<times> json) list" | JString string | JBool bool | JNat nat
  | JInt int | JNull | JRaw string | JOther

fun json_member :: "json \<Rightarrow> string \<Rightarrow> json option" where
  "json_member (JObject ms) k = map_of ms k"
| "json_member _ k = None"

fun json_string :: "json option \<Rightarrow> string option" where
  "json_string (Some (JString s)) = Some s"
| "json_string _ = None"

fun json_bool :: "json option \<Rightarrow> bool option" where
  "json_bool (Some (JBool b)) = Some b"
| "json_bool _ = None"

end
