(* ===== verification/NutOverrides.thy ===== *)
theory NutOverrides
  imports Json
begin

text \<open>
  The custom variables of the NUT Server page, \<open>lib/NUTServer/src/NutOverrides.h\<close>: the checks of a
  key, of an entry and of the whole list, the lookup that ignores case and the saved form. The
  JSON library is not part of the source: \<open>print_json\<close> and \<open>parse_json\<close> are parameters.
\<close>

section \<open>Strings\<close>

record nut_override =
  no_key :: string
  no_value :: string
  no_description :: string

definition MAX_COUNT :: nat where "MAX_COUNT = 16"
definition MAX_KEY_LENGTH :: nat where "MAX_KEY_LENGTH = 63"
definition MAX_VALUE_LENGTH :: nat where "MAX_VALUE_LENGTH = 64"
definition MAX_DESCRIPTION_LENGTH :: nat where "MAX_DESCRIPTION_LENGTH = 64"

datatype override_check =
    OvOk | OvInvalidKey | OvProtectedKey | OvInvalidValue | OvInvalidDescription | OvDuplicateKey | OvTooMany

text \<open>The loop \<open>while (*a && *b)\<close>, then \<open>*a == *b\<close>: both strings at their end.\<close>

fun no_equals_loop :: "string \<Rightarrow> string \<Rightarrow> bool" where
  "no_equals_loop (a # as) (b # bs) = (if lower a \<noteq> lower b then False else no_equals_loop as bs)"
| "no_equals_loop [] [] = True"
| "no_equals_loop _ _ = False"

definition no_equalsIgnoreCase :: "string option \<Rightarrow> string option \<Rightarrow> bool" where
  "no_equalsIgnoreCase a b = (case (a, b) of (Some a, Some b) \<Rightarrow> no_equals_loop a b | _ \<Rightarrow> False)"

fun no_prefix_loop :: "string \<Rightarrow> string \<Rightarrow> bool" where
  "no_prefix_loop s [] = True"
| "no_prefix_loop [] (p # ps) = False"
| "no_prefix_loop (c # s) (p # ps) = (if lower c \<noteq> lower p then False else no_prefix_loop s ps)"

definition startsWithIgnoreCase :: "string option \<Rightarrow> string option \<Rightarrow> bool" where
  "startsWithIgnoreCase s p = (case (s, p) of (Some s, Some p) \<Rightarrow> no_prefix_loop s p | _ \<Rightarrow> False)"

definition isPrintableText :: "string option \<Rightarrow> nat \<Rightarrow> bool" where
  "isPrintableText s max_len =
     (case s of None \<Rightarrow> False
      | Some s \<Rightarrow> if list_ex (\<lambda>c. ord c < 0x20 \<or> 0x7E < ord c) s then False else length s \<le> max_len)"

section \<open>The checks\<close>

definition isProtectedKey :: "string option \<Rightarrow> bool" where
  "isProtectedKey key \<longleftrightarrow>
     no_equalsIgnoreCase key (Some ''ups.status'') \<or> startsWithIgnoreCase key (Some ''ups.status.'') \<or>
     no_equalsIgnoreCase key (Some ''device.type'') \<or> startsWithIgnoreCase key (Some ''driver.parameter.'')"

definition key_char :: "char \<Rightarrow> bool" where
  "key_char c \<longleftrightarrow> in_range (CHR ''a'') (CHR ''z'') c \<or> in_range (CHR ''A'') (CHR ''Z'') c \<or> is_digit c \<or> c = CHR ''_'' \<or> c = CHR ''-''"

text \<open>The scan of the key: the parts so far and the length of the current one, or \<open>None\<close> when it
  stops at an empty part or at a character that is not allowed.\<close>

fun key_scan :: "string \<Rightarrow> nat \<Rightarrow> nat \<Rightarrow> (nat \<times> nat) option" where
  "key_scan [] parts part_len = Some (parts, part_len)"
| "key_scan (c # cs) parts part_len =
     (if c = CHR ''.'' then (if part_len = 0 then None else key_scan cs (parts + 1) 0)
      else if \<not> key_char c then None
      else key_scan cs parts (part_len + 1))"

definition checkKey :: "string option \<Rightarrow> override_check" where
  "checkKey key =
     (case key of None \<Rightarrow> OvInvalidKey
      | Some k \<Rightarrow>
          if length k = 0 \<or> MAX_KEY_LENGTH < length k then OvInvalidKey
          else (case key_scan k 1 0 of None \<Rightarrow> OvInvalidKey
            | Some (parts, part_len) \<Rightarrow>
                if part_len = 0 \<or> parts < 2 then OvInvalidKey
                else if isProtectedKey (Some k) then OvProtectedKey else OvOk))"

definition checkEntry :: "nut_override \<Rightarrow> override_check" where
  "checkEntry v =
     (let c = checkKey (Some (no_key v))
      in if c \<noteq> OvOk then c
         else if \<not> isPrintableText (Some (no_value v)) MAX_VALUE_LENGTH then OvInvalidValue
         else if \<not> isPrintableText (Some (no_description v)) MAX_DESCRIPTION_LENGTH then OvInvalidDescription
         else OvOk)"

text \<open>The first entry refused, then the first one whose key another before it has.\<close>

fun first_bad :: "nat \<Rightarrow> nut_override list \<Rightarrow> (override_check \<times> nat) option" where
  "first_bad i [] = None"
| "first_bad i (v # vs) = (if checkEntry v \<noteq> OvOk then Some (checkEntry v, i) else first_bad (i + 1) vs)"

definition same_key :: "nut_override \<Rightarrow> nut_override \<Rightarrow> bool" where
  "same_key a b = no_equalsIgnoreCase (Some (no_key a)) (Some (no_key b))"

definition first_duplicate :: "nut_override list \<Rightarrow> nat option" where
  "first_duplicate vs = find (\<lambda>i. list_ex (\<lambda>j. same_key (vs ! i) (vs ! j)) [0..<i]) [1..<length vs]"

definition checkList :: "nut_override list \<Rightarrow> override_check \<times> nat" where
  "checkList vs =
     (if MAX_COUNT < length vs then (OvTooMany, MAX_COUNT)
      else case first_bad 0 vs of Some r \<Rightarrow> r
        | None \<Rightarrow> (case first_duplicate vs of Some i \<Rightarrow> (OvDuplicateKey, i) | None \<Rightarrow> (OvOk, 0)))"

definition no_errorMessage :: "override_check \<Rightarrow> string \<Rightarrow> string" where
  "no_errorMessage c key =
     (case c of
        OvInvalidKey \<Rightarrow> ''Invalid key '' @ [CHR 0x22] @ key @ [CHR 0x22] @ '': use dot-separated parts of letters, digits, '' @
          [CHR 0x27] @ ''_'' @ [CHR 0x27] @ '' and '' @ [CHR 0x27] @ ''-'' @ [CHR 0x27] @ '' (e.g. battery.date)''
      | OvProtectedKey \<Rightarrow> key @ '' cannot be overridden''
      | OvInvalidValue \<Rightarrow> ''Invalid value for '' @ key @ '': printable ASCII only, at most 64 characters''
      | OvInvalidDescription \<Rightarrow> ''Invalid description for '' @ key @ '': printable ASCII only, at most 64 characters''
      | OvDuplicateKey \<Rightarrow> ''Duplicate key: '' @ key
      | OvTooMany \<Rightarrow> ''At most 16 custom variables''
      | OvOk \<Rightarrow> [])"

text \<open>A missing list is \<open>None\<close>.\<close>

fun no_find_in :: "nut_override list \<Rightarrow> string option \<Rightarrow> nut_override option" where
  "no_find_in [] key = None"
| "no_find_in (v # vs) key = (if no_equalsIgnoreCase (Some (no_key v)) key then Some v else no_find_in vs key)"

definition no_find :: "nut_override list option \<Rightarrow> string option \<Rightarrow> nut_override option" where
  "no_find vs key = (case vs of None \<Rightarrow> None | Some vs \<Rightarrow> no_find_in vs key)"

section \<open>The saved form\<close>

definition override_json :: "nut_override \<Rightarrow> json" where
  "override_json v = JObject [(''k'', JString (no_key v)), (''v'', JString (no_value v)), (''d'', JString (no_description v))]"

definition no_toJson :: "(json \<Rightarrow> string) \<Rightarrow> nut_override list \<Rightarrow> string" where
  "no_toJson print_json vs = print_json (JArray (map override_json vs))"

text \<open>One item read: the entry, or \<open>None\<close> when it is not an object with two strings.\<close>

definition override_item :: "json \<Rightarrow> nut_override option" where
  "override_item item =
     (case (json_string (json_member item ''k''), json_string (json_member item ''v'')) of
        (Some k, Some v) \<Rightarrow> Some \<lparr>no_key = k, no_value = v,
          no_description = (case json_string (json_member item ''d'') of Some d \<Rightarrow> d | None \<Rightarrow> [])\<rparr>
      | _ \<Rightarrow> None)"

fun no_read :: "json list \<Rightarrow> nut_override list \<Rightarrow> bool \<Rightarrow> bool \<times> nut_override list" where
  "no_read [] out all_kept = (all_kept, out)"
| "no_read (item # items) out all_kept =
     (case override_item item of None \<Rightarrow> no_read items out False
      | Some v \<Rightarrow>
          if MAX_COUNT \<le> length out \<or> checkEntry v \<noteq> OvOk \<or> no_find_in out (Some (no_key v)) \<noteq> None
          then no_read items out False
          else no_read items (out @ [v]) all_kept)"

definition no_fromJson :: "(string \<Rightarrow> json option) \<Rightarrow> string \<Rightarrow> bool \<times> nut_override list" where
  "no_fromJson parse_json s =
     (case parse_json s of Some (JArray items) \<Rightarrow> no_read items [] True | _ \<Rightarrow> (False, []))"

section \<open>Properties\<close>

lemma no_equals_lower: "no_equalsIgnoreCase (Some a) (Some b) \<longleftrightarrow> map lower a = map lower b"
proof -
  have "no_equals_loop a b \<longleftrightarrow> map lower a = map lower b"
    by (induction a b rule: no_equals_loop.induct) auto
  then show ?thesis by (simp add: no_equalsIgnoreCase_def)
qed

lemma startsWith_lower: "startsWithIgnoreCase (Some s) (Some p) \<longleftrightarrow> map lower (take (length p) s) = map lower p"
proof -
  have "no_prefix_loop s p \<longleftrightarrow> map lower (take (length p) s) = map lower p"
    by (induction s p rule: no_prefix_loop.induct) auto
  then show ?thesis by (simp add: startsWithIgnoreCase_def)
qed

text \<open>The entries of a list have different keys, whatever their case.\<close>

definition lower_keys :: "nut_override list \<Rightarrow> string list" where
  "lower_keys vs = map (\<lambda>v. map lower (no_key v)) vs"

lemma lower_keys_simps [simp]:
  "lower_keys [] = []" "lower_keys (v # vs) = map lower (no_key v) # lower_keys vs"
  "lower_keys (vs @ ws) = lower_keys vs @ lower_keys ws"
  by (simp_all add: lower_keys_def)

lemma no_find_in_map_of:
  "no_find_in vs (Some key) = map_of (zip (lower_keys vs) vs) (map lower key)"
  by (induction vs) (auto simp: no_equals_lower)

lemma no_find_in_None: "no_find_in vs (Some key) = None \<longleftrightarrow> map lower key \<notin> set (lower_keys vs)"
  by (induction vs) (auto simp: no_equals_lower)

lemma no_find_in_SomeD: "no_find_in vs (Some key) = Some v \<Longrightarrow> v \<in> set vs \<and> map lower (no_key v) = map lower key"
  by (induction vs) (auto simp: no_equals_lower split: if_splits)

lemma in_lower_keys: "v \<in> set vs \<Longrightarrow> map lower (no_key v) \<in> set (lower_keys vs)"
  by (simp add: lower_keys_def)

lemma no_find_in_self:
  "distinct (lower_keys vs) \<Longrightarrow> v \<in> set vs \<Longrightarrow> map lower (no_key v) = map lower key \<Longrightarrow> no_find_in vs (Some key) = Some v"
proof (induction vs)
  case Nil
  then show ?case by simp
next
  case (Cons w vs)
  then have "w = v" if "map lower (no_key w) = map lower key"
    using that in_lower_keys [of v vs] by auto
  with Cons show ?case by (auto simp: no_equals_lower)
qed

lemma first_bad_None: "first_bad i vs = None \<longleftrightarrow> list_all (\<lambda>v. checkEntry v = OvOk) vs"
  by (induction vs arbitrary: i) auto

lemma first_bad_index: "first_bad i vs = Some (c, n) \<Longrightarrow> i \<le> n \<and> n < i + length vs \<and> checkEntry (vs ! (n - i)) = c \<and> c \<noteq> OvOk"
proof (induction vs arbitrary: i)
  case Nil
  then show ?case by simp
next
  case (Cons v vs)
  show ?case
  proof (cases "checkEntry v = OvOk")
    case True
    with Cons.prems have "first_bad (i + 1) vs = Some (c, n)" by simp
    from Cons.IH [OF this] show ?thesis by (auto simp: nth_Cons' Suc_le_eq)
  next
    case False
    with Cons.prems show ?thesis by simp
  qed
qed

lemma first_duplicate_None: "first_duplicate vs = None \<longleftrightarrow> distinct (lower_keys vs)"
proof -
  have "first_duplicate vs = None \<longleftrightarrow> (\<forall>i\<in>{1..<length vs}. \<forall>j<i. lower_keys vs ! i \<noteq> lower_keys vs ! j)"
    by (auto simp: first_duplicate_def find_None_iff list_ex_iff same_key_def no_equals_lower lower_keys_def)
  also have "\<dots> \<longleftrightarrow> (\<forall>i<length vs. \<forall>j<i. lower_keys vs ! i \<noteq> lower_keys vs ! j)"
    by (auto simp: Suc_le_eq)
  also have "\<dots> \<longleftrightarrow> (\<forall>i<length vs. \<forall>j<length vs. i \<noteq> j \<longrightarrow> lower_keys vs ! i \<noteq> lower_keys vs ! j)"
  proof (intro iffI allI impI)
    fix i j
    assume all: "\<forall>i<length vs. \<forall>j<i. lower_keys vs ! i \<noteq> lower_keys vs ! j" and ij: "i < length vs" "j < length vs" "i \<noteq> j"
    show "lower_keys vs ! i \<noteq> lower_keys vs ! j"
    proof (cases "j < i")
      case False
      with ij all have "lower_keys vs ! j \<noteq> lower_keys vs ! i" by simp
      then show ?thesis by (rule not_sym)
    qed (use all ij in simp)
  qed simp
  also have "\<dots> \<longleftrightarrow> distinct (lower_keys vs)"
    unfolding distinct_conv_nth by (simp add: lower_keys_def)
  finally show ?thesis .
qed

lemma checkList_ok:
  "fst (checkList vs) = OvOk \<longleftrightarrow>
     length vs \<le> MAX_COUNT \<and> list_all (\<lambda>v. checkEntry v = OvOk) vs \<and> distinct (lower_keys vs)"
proof (cases "first_bad 0 vs")
  case None
  with first_bad_None [of 0 vs] show ?thesis
    by (cases "first_duplicate vs") (auto simp: checkList_def first_duplicate_None [symmetric])
next
  case (Some r)
  obtain c n where r: "r = (c, n)" by fastforce
  from first_bad_index [OF Some [unfolded r]] first_bad_None [of 0 vs] show ?thesis
    by (simp add: checkList_def Some r)
qed

lemma checkEntry_key: "checkEntry v = OvOk \<Longrightarrow> checkKey (Some (no_key v)) = OvOk"
  by (simp add: checkEntry_def Let_def split: if_splits)

lemma checkKey_unprotected: "checkKey (Some k) = OvOk \<Longrightarrow> \<not> isProtectedKey (Some k)"
  by (simp add: checkKey_def split: if_splits option.splits prod.splits)

lemma key_scan_chars: "key_scan k p n = Some r \<Longrightarrow> list_all (\<lambda>c. c = CHR ''.'' \<or> key_char c) k"
  by (induction k p n rule: key_scan.induct) (auto split: if_splits)

lemma checkKey_chars: "checkKey (Some k) = OvOk \<Longrightarrow> list_all (\<lambda>c. c = CHR ''.'' \<or> key_char c) k"
  by (auto simp: checkKey_def split: if_splits option.splits prod.splits dest: key_scan_chars)

text \<open>What was saved is read back, and what is read is a list that \<open>checkList\<close> accepts.\<close>

lemma override_item_json: "override_item (override_json v) = Some v"
  by (simp add: override_item_def override_json_def)

lemma no_read_ok:
  "length (out @ vs) \<le> MAX_COUNT \<Longrightarrow> list_all (\<lambda>v. checkEntry v = OvOk) vs \<Longrightarrow> distinct (lower_keys (out @ vs)) \<Longrightarrow>
   no_read (map override_json vs) out kept = (kept, out @ vs)"
proof (induction vs arbitrary: out)
  case Nil
  then show ?case by simp
next
  case (Cons v vs)
  have "no_find_in out (Some (no_key v)) = None" using Cons.prems(3) by (auto simp: no_find_in_None)
  then show ?case
    using Cons.IH [of "out @ [v]"] Cons.prems by (simp add: override_item_json)
qed

lemma overrides_saved_and_read:
  assumes "fst (checkList vs) = OvOk" and "\<And>j. parse_json (print_json j) = Some j"
  shows "no_fromJson parse_json (no_toJson print_json vs) = (True, vs)"
  using assms by (simp add: no_fromJson_def no_toJson_def checkList_ok no_read_ok)

lemma no_read_accepted:
  "length out \<le> MAX_COUNT \<Longrightarrow> list_all (\<lambda>v. checkEntry v = OvOk) out \<Longrightarrow> distinct (lower_keys out) \<Longrightarrow>
   fst (checkList (snd (no_read items out kept))) = OvOk"
proof (induction items arbitrary: out kept)
  case Nil
  then show ?case by (simp add: checkList_ok)
next
  case (Cons item items)
  then show ?case
    by (auto split: option.splits simp: no_find_in_None intro!: Cons.IH)
qed

lemma overrides_read_are_valid: "fst (checkList (snd (no_fromJson parse_json s))) = OvOk"
  by (auto simp: no_fromJson_def checkList_ok [of "[]"] intro: no_read_accepted split: option.splits json.splits)

end
