(* ===== verification/NutTracking.thy ===== *)
theory NutTracking
  imports UpsVariables
begin

text \<open>
  The outcomes kept for \<open>GET TRACKING\<close>, \<open>lib/NUTServer/src/NutTracking.h\<close>: sixteen entries shared by
  every client, with the time each was added. The four numbers of one \<open>newId\<close> are its
  argument, since \<open>esp_random\<close> is not part of the source.
\<close>

section \<open>The table\<close>

record tracking_entry =
  te_id :: string
  te_status :: set_status
  te_created_ms :: u32
  te_used :: bool

definition TRACKING_CAPACITY :: nat where "TRACKING_CAPACITY = 16"
definition TRACKING_MAX_AGE_MS :: u32 where "TRACKING_MAX_AGE_MS = 3600000"
definition ID_LEN :: nat where "ID_LEN = 37"

definition tracking_clear :: "tracking_entry list" where
  "tracking_clear = replicate TRACKING_CAPACITY \<lparr>te_id = [], te_status = SetUnknown, te_created_ms = 0, te_used = False\<rparr>"

text \<open>\<open>%02X\<close>\<close>

definition hex_digit :: "nat \<Rightarrow> char" where
  "hex_digit d = (if d < 10 then char_of (48 + d) else char_of (55 + d))"

definition hex2 :: "u8 \<Rightarrow> string" where
  "hex2 b = [hex_digit (unat b div 16), hex_digit (unat b mod 16)]"

definition random_bytes :: "u32 \<Rightarrow> u8 list" where
  "random_bytes r = [ucast (drop_bit 24 r), ucast (drop_bit 16 r), ucast (drop_bit 8 r), ucast r]"

definition newId :: "u32 list \<Rightarrow> string" where
  "newId rs =
     (let b = concat (map random_bytes rs);
          b = b[6 := or (and (b ! 6) 0x0F) 0x40];
          b = b[8 := or (and (b ! 8) 0x3F) 0x80];
          group = (\<lambda>i n. concat (map hex2 (take n (drop i b))))
      in take (ID_LEN - 1) (group 0 4 @ ''-'' @ group 4 2 @ ''-'' @ group 6 2 @ ''-'' @ group 8 2 @ ''-'' @ group 10 6))"

text \<open>The slot of the oldest entry: the last one of the greatest age.\<close>

fun oldest_slot :: "u32 \<Rightarrow> tracking_entry list \<Rightarrow> nat \<Rightarrow> u32 \<Rightarrow> nat \<Rightarrow> nat" where
  "oldest_slot now [] i oldest slot = slot"
| "oldest_slot now (e # es) i oldest slot =
     (let age = now - te_created_ms e
      in if oldest \<le> age then oldest_slot now es (i + 1) age i else oldest_slot now es (i + 1) oldest slot)"

definition free_slot :: "tracking_entry list \<Rightarrow> nat option" where
  "free_slot es = find (\<lambda>i. \<not> te_used (es ! i)) [0..<length es]"

definition tracking_add :: "string option \<Rightarrow> set_status \<Rightarrow> u32 \<Rightarrow> tracking_entry list \<Rightarrow> tracking_entry list" where
  "tracking_add ident st now es =
     (case ident of None \<Rightarrow> es
      | Some ident \<Rightarrow>
          let slot = (case free_slot es of Some i \<Rightarrow> i | None \<Rightarrow> oldest_slot now es 0 0 0)
          in es[slot := \<lparr>te_id = take (ID_LEN - 1) ident, te_status = st, te_created_ms = now, te_used = True\<rparr>])"

definition tracking_cleanup :: "u32 \<Rightarrow> tracking_entry list \<Rightarrow> tracking_entry list" where
  "tracking_cleanup now es =
     map (\<lambda>e. if te_used e \<and> TRACKING_MAX_AGE_MS < now - te_created_ms e then e\<lparr>te_used := False\<rparr> else e) es"

definition statusText :: "set_status \<Rightarrow> string" where
  "statusText st =
     (case st of SetOk \<Rightarrow> ''SUCCESS'' | SetConversionFailed \<Rightarrow> ''ERR INVALID-ARGUMENT'' | SetFailed \<Rightarrow> ''ERR FAILED''
      | SetNotConnected \<Rightarrow> ''ERR FAILED'' | SetUnknown \<Rightarrow> ''ERR UNKNOWN'')"

fun tracking_get_loop :: "tracking_entry list \<Rightarrow> string \<Rightarrow> u32 \<Rightarrow> string" where
  "tracking_get_loop [] ident now = ''ERR UNKNOWN''"
| "tracking_get_loop (e # es) ident now =
     (if \<not> te_used e \<or> \<not> equalsIgnoreCase (Some (te_id e)) (Some ident) then tracking_get_loop es ident now
      else if TRACKING_MAX_AGE_MS < now - te_created_ms e then ''ERR UNKNOWN''
      else statusText (te_status e))"

definition tracking_get :: "string option \<Rightarrow> u32 \<Rightarrow> tracking_entry list \<Rightarrow> string" where
  "tracking_get ident now es = (case ident of None \<Rightarrow> ''ERR UNKNOWN'' | Some ident \<Rightarrow> tracking_get_loop es ident now)"

section \<open>Properties\<close>

definition tracking_ok :: "tracking_entry list \<Rightarrow> bool" where
  "tracking_ok es \<longleftrightarrow> length es = TRACKING_CAPACITY \<and> list_all (\<lambda>e. length (te_id e) < ID_LEN) es"

lemma tracking_ok_clear: "tracking_ok tracking_clear"
  by (simp add: tracking_ok_def tracking_clear_def list_all_iff ID_LEN_def)

lemma tracking_ok_cleanup: "tracking_ok es \<Longrightarrow> tracking_ok (tracking_cleanup now es)"
  by (auto simp: tracking_ok_def tracking_cleanup_def list_all_iff)

lemma tracking_ok_add: "tracking_ok es \<Longrightarrow> tracking_ok (tracking_add ident st now es)"
  by (auto simp: tracking_ok_def tracking_add_def Let_def list_all_iff ID_LEN_def
      split: option.splits dest!: set_update_subset_insert [THEN subsetD])

lemma oldest_slot_bound: "slot < m \<Longrightarrow> i + length es \<le> m \<Longrightarrow> oldest_slot now es i age slot < m"
proof (induction es arbitrary: i age slot)
  case Nil
  then show ?case by simp
next
  case (Cons e es)
  then have "i < m" "i + 1 + length es \<le> m" by simp_all
  with Cons show ?case by (simp only: oldest_slot.simps Let_def split: if_split) blast
qed

lemma slot_bound:
  assumes "es \<noteq> []"
  shows "(case free_slot es of Some i \<Rightarrow> i | None \<Rightarrow> oldest_slot now es 0 0 0) < length es"
  using oldest_slot_bound [of 0 "length es" 0 es now 0] assms
  by (auto simp: free_slot_def find_Some_iff split: option.splits)

definition holds_id :: "string \<Rightarrow> tracking_entry \<Rightarrow> bool" where
  "holds_id ident e \<longleftrightarrow> te_used e \<and> map lower (te_id e) = map lower ident"

lemma tracking_get_find:
  "tracking_get (Some ident) now es =
     (case find (holds_id ident) es of None \<Rightarrow> ''ERR UNKNOWN''
      | Some e \<Rightarrow> if TRACKING_MAX_AGE_MS < now - te_created_ms e then ''ERR UNKNOWN'' else statusText (te_status e))"
  by (induction es) (auto simp: tracking_get_def holds_id_def equalsIgnoreCase_lower)

lemma find_update_new:
  "i < length es \<Longrightarrow> P e \<Longrightarrow> \<not> list_ex P es \<Longrightarrow> find P (es[i := e]) = Some e"
  by (induction es arbitrary: i) (auto simp: nth_Cons' split: nat.splits)

text \<open>An outcome just added is what its id answers for one hour, when no other entry has the id.\<close>

lemma tracking_add_get:
  assumes "tracking_ok es" "length ident < ID_LEN" "\<not> list_ex (holds_id ident) es" "later - now \<le> TRACKING_MAX_AGE_MS"
  shows "tracking_get (Some ident) later (tracking_add (Some ident) st now es) = statusText st"
proof -
  have "es \<noteq> []" using assms(1) by (auto simp: tracking_ok_def TRACKING_CAPACITY_def)
  from slot_bound [OF this, of now] assms(2,3,4) show ?thesis
    by (auto simp: tracking_get_find tracking_add_def Let_def find_update_new holds_id_def ID_LEN_def dest: leD)
qed

text \<open>\<open>cleanup\<close> drops entries the lookup no longer answers.\<close>

lemma tracking_cleanup_get:
  assumes "distinct (map (map lower \<circ> te_id) (filter te_used es))"
  shows "tracking_get (Some ident) now (tracking_cleanup now es) = tracking_get (Some ident) now es"
  using assms
proof (induction es)
  case Nil
  then show ?case by (simp add: tracking_cleanup_def)
next
  case (Cons e es)
  let ?old = "TRACKING_MAX_AGE_MS < now - te_created_ms e"
  have clean: "tracking_cleanup now (e # es) = (if te_used e \<and> ?old then e\<lparr>te_used := False\<rparr> else e) # tracking_cleanup now es"
    by (simp add: tracking_cleanup_def)
  have IH: "tracking_get (Some ident) now (tracking_cleanup now es) = tracking_get (Some ident) now es"
    using Cons by (auto split: if_splits)
  show ?case
  proof (cases "te_used e \<and> ?old \<and> holds_id ident e")
    case True
    then have "\<not> list_ex (holds_id ident) es" using Cons.prems by (auto simp: holds_id_def list_ex_iff image_iff)
    then have "find (holds_id ident) es = None" by (auto simp: find_None_iff list_ex_iff)
    with True IH show ?thesis by (simp add: clean tracking_get_find holds_id_def)
  next
    case False
    with IH show ?thesis by (auto simp: clean tracking_get_find holds_id_def)
  qed
qed

end
