(* ===== verification/NUTServer.thy ===== *)
theory NUTServer
  imports NutOverrides NutTracking UpsData
begin

text \<open>
  The NUT server of \<open>lib/NUTServer/src/NUTServer.cpp\<close>: the words of a request line, the sessions, the
  checks of upsd and every command of the protocol. The UPS behind it is an \<open>ups_source\<close>
  (\<open>IUpsSource.h\<close>): operations on an unknown state. The text a client receives is returned, the
  lines of the System Log are kept in \<open>ns_log\<close>. Two fields are kept by the model alone: \<open>ns_calls\<close>,
  the commands and the writes passed to the source, each with the requests its session had sent,
  and \<open>cs_lines\<close>, the requests of a session. The clock is read once per operation;
  the random numbers of the tracking ids are drawn from \<open>ns_random\<close>. The sockets, \<open>Serial\<close> and
  the locks are not modelled.
\<close>

section \<open>Words and values\<close>

definition quote :: "string \<Rightarrow> string" where
  "quote s = CHR 0x22 # s @ [CHR 0x22]"

definition msg :: "string \<Rightarrow> string" where
  "msg s = s @ [CHR 0x0A]"

definition escaped :: "char \<Rightarrow> bool" where
  "escaped c \<longleftrightarrow> c = CHR ''#'' \<or> c = CHR 0x5C \<or> c = CHR 0x22"

definition encodeValue :: "string option \<Rightarrow> string" where
  "encodeValue raw = (case raw of None \<Rightarrow> [] | Some s \<Rightarrow> concat (map (\<lambda>c. if escaped c then [CHR 0x5C, c] else [c]) s))"

fun split_loop :: "string \<Rightarrow> string \<Rightarrow> bool \<Rightarrow> bool \<Rightarrow> string list" where
  "split_loop [] current in_quotes quoted = (if current \<noteq> [] \<or> quoted then [current] else [])"
| "split_loop (c # cs) current in_quotes quoted =
     (if c = CHR 0x5C then (case cs of [] \<Rightarrow> split_loop [] current in_quotes quoted
                            | d # ds \<Rightarrow> split_loop ds (current @ [d]) in_quotes quoted)
      else if c = CHR 0x22 then split_loop cs current (\<not> in_quotes) (if in_quotes then True else quoted)
      else if c = CHR '' '' \<and> \<not> in_quotes
      then (if current \<noteq> [] \<or> quoted then current # split_loop cs [] in_quotes False
            else split_loop cs current in_quotes False)
      else split_loop cs (current @ [c]) in_quotes quoted)"

definition splitTokens :: "string \<Rightarrow> string list" where
  "splitTokens input = split_loop input [] False False"

definition defaultUpsName :: string where
  "defaultUpsName = ''ups''"

definition normalizeUpsName :: "string \<Rightarrow> string" where
  "normalizeUpsName name = (if length name = 0 then defaultUpsName else name)"

definition isValidUpsName :: "string \<Rightarrow> bool" where
  "isValidUpsName name \<longleftrightarrow>
     name \<noteq> [] \<and> list_all (\<lambda>c. \<not> (ord c < 0x21 \<or> 0x7E < ord c) \<and>
       \<not> (c = CHR 0x22 \<or> c = CHR 0x5C \<or> c = CHR ''#'' \<or> c = CHR ''@'')) name"

section \<open>The source and the state of the server\<close>

record 's ups_source =
  us_data :: "'s \<Rightarrow> ups_data"
  us_status :: "'s \<Rightarrow> string"
  us_connected :: "'s \<Rightarrow> bool"
  us_stale :: "'s \<Rightarrow> bool"
  us_commands :: "'s \<Rightarrow> ups_command_info list"
  us_execute :: "string option \<Rightarrow> string option \<Rightarrow> 's \<Rightarrow> command_result \<times> 's"
  us_writable :: "'s \<Rightarrow> rw_variable list \<times> 's"
  us_set :: "string option \<Rightarrow> string option \<Rightarrow> 's \<Rightarrow> set_status \<times> 's"

definition NUT_MAX_CLIENTS :: nat where "NUT_MAX_CLIENTS = 8"
definition NUT_TIMEOUT_MS :: u32 where "NUT_TIMEOUT_MS = 300000"
definition NUT_LOG_INTERVAL_MS :: u32 where "NUT_LOG_INTERVAL_MS = 60000"

record nut_config =
  nc_username :: string
  nc_password :: string
  nc_ups_name :: string

record nut_session =
  cs_active :: bool
  cs_authenticated :: bool
  cs_lastActivity :: u32
  cs_buffer :: string
  cs_username :: string
  cs_usernameSet :: bool
  cs_passwordSet :: bool
  cs_tracking :: bool
  cs_peer :: string
  cs_lines :: "string list"

definition session_closed :: nut_session where
  "session_closed = \<lparr>cs_active = False, cs_authenticated = False, cs_lastActivity = 0, cs_buffer = [], cs_username = [],
     cs_usernameSet = False, cs_passwordSet = False, cs_tracking = False, cs_peer = [], cs_lines = []\<rparr>"

datatype source_call = CallExecute string "string option" | CallSet string string

record 's nut_server =
  ns_config :: nut_config
  ns_ups :: "'s ups_source option"
  ns_source :: 's
  ns_initialized :: bool
  ns_version :: string
  ns_sessions :: "nut_session list"
  ns_lastSummary :: string
  ns_lastSummaryMs :: u32
  ns_rejectLogged :: bool
  ns_lastRejectLogMs :: u32
  ns_rejectsSinceLog :: u32
  ns_tracking :: "tracking_entry list"
  ns_overrides :: "nut_override list option"
  ns_random :: "nat \<Rightarrow> u32"
  ns_drawn :: nat
  ns_logging :: bool
  ns_log :: "(string \<times> string) list"
  ns_calls :: "(string list \<times> source_call) list"

text \<open>\<open>FIRMWARE_VERSION\<close> is set by the build, and the random source and the UPS by the caller.\<close>

definition server_new :: "string \<Rightarrow> (nat \<Rightarrow> u32) \<Rightarrow> 's \<Rightarrow> 's nut_server" where
  "server_new version random source = \<lparr>ns_config = \<lparr>nc_username = [], nc_password = [], nc_ups_name = []\<rparr>, ns_ups = None,
     ns_source = source, ns_initialized = False, ns_version = version, ns_sessions = replicate NUT_MAX_CLIENTS session_closed,
     ns_lastSummary = [], ns_lastSummaryMs = 0, ns_rejectLogged = False, ns_lastRejectLogMs = 0, ns_rejectsSinceLog = 0,
     ns_tracking = tracking_clear, ns_overrides = None, ns_random = random, ns_drawn = 0, ns_logging = False, ns_log = [],
     ns_calls = []\<rparr>"

definition server_begin :: "nut_config \<Rightarrow> 's ups_source option \<Rightarrow> 's nut_server \<Rightarrow> 's nut_server" where
  "server_begin config ups s =
     s\<lparr>ns_config := config\<lparr>nc_ups_name := normalizeUpsName (nc_ups_name config)\<rparr>, ns_ups := ups, ns_initialized := True\<rparr>"

definition session :: "'s nut_server \<Rightarrow> nat \<Rightarrow> nut_session" where
  "session s slot = ns_sessions s ! slot"

definition on_session :: "nat \<Rightarrow> (nut_session \<Rightarrow> nut_session) \<Rightarrow> 's nut_server \<Rightarrow> 's nut_server" where
  "on_session slot f s = s\<lparr>ns_sessions := (ns_sessions s)[slot := f (ns_sessions s ! slot)]\<rparr>"

text \<open>A line of the System Log, cut by the buffer of 320 bytes.\<close>

definition say :: "string \<Rightarrow> string \<Rightarrow> 's nut_server \<Rightarrow> 's nut_server" where
  "say level line s = (if \<not> ns_logging s then s else s\<lparr>ns_log := ns_log s @ [(level, take 319 line)]\<rparr>)"

section \<open>Variables\<close>

definition NUT_UPS_DESCRIPTION :: string where "NUT_UPS_DESCRIPTION = ''ESP32-S3 UPS Bridge''"
definition NUT_PROTOCOL_VERSION :: string where "NUT_PROTOCOL_VERSION = ''1.3''"
definition NUT_DESC_UNAVAILABLE :: string where "NUT_DESC_UNAVAILABLE = ''Description unavailable''"
definition OVERRIDE_PARAM_PREFIX :: string where "OVERRIDE_PARAM_PREFIX = ''driver.parameter.override.''"

definition device_aliases :: "(string \<times> string) list" where
  "device_aliases = [(''device.mfr'', ''ups.mfr''), (''device.model'', ''ups.model''), (''device.serial'', ''ups.serial'')]"

definition deviceAliasOf :: "string \<Rightarrow> string option" where
  "deviceAliasOf var = map_of device_aliases var"

definition isInternalStatusKey :: "string \<Rightarrow> bool" where
  "isInternalStatusKey key = starts_with key ''ups.status.''"

definition findOverride :: "'s nut_server \<Rightarrow> string \<Rightarrow> nut_override option" where
  "findOverride s name = no_find (ns_overrides s) (Some name)"

definition status_text :: "'s nut_server \<Rightarrow> string" where
  "status_text s = (case ns_ups s of None \<Rightarrow> [] | Some u \<Rightarrow> us_status u (ns_source s))"

definition resolveVar :: "'s nut_server \<Rightarrow> ups_data \<Rightarrow> string \<Rightarrow> string option" where
  "resolveVar s data var =
     (if isInternalStatusKey var then None
      else if var = ''ups.status'' then Some (status_text s)
      else if var = ''device.type'' then Some ''ups''
      else if starts_with var OVERRIDE_PARAM_PREFIX
      then map_option no_value (findOverride s (drop (length OVERRIDE_PARAM_PREFIX) var))
      else case findOverride s var of Some v \<Rightarrow> Some (no_value v)
        | None \<Rightarrow>
            (case deviceAliasOf var of Some a \<Rightarrow>
               (case findOverride s a of Some v \<Rightarrow> Some (no_value v)
                | None \<Rightarrow> if ud_hasKey data a then Some (ud_get data a []) else None)
             | None \<Rightarrow> if ud_hasKey data var then Some (ud_get data var []) else None))"

fun findWritable :: "rw_variable list \<Rightarrow> string \<Rightarrow> rw_variable option" where
  "findWritable [] var = None"
| "findWritable (v # vs) var = (if equalsIgnoreCase (Some (rw_name v)) (Some var) then Some v else findWritable vs var)"

definition same_ups :: "'s nut_server \<Rightarrow> string \<Rightarrow> bool" where
  "same_ups s name \<longleftrightarrow> map lower name = map lower (nc_ups_name (ns_config s))"

definition source_stale :: "'s nut_server \<Rightarrow> bool" where
  "source_stale s = (case ns_ups s of None \<Rightarrow> False | Some u \<Rightarrow> us_stale u (ns_source s))"

definition writable :: "'s nut_server \<Rightarrow> rw_variable list \<times> 's nut_server" where
  "writable s =
     (case ns_ups s of None \<Rightarrow> ([], s)
      | Some u \<Rightarrow> let (rw, src) = us_writable u (ns_source s) in (rw, s\<lparr>ns_source := src\<rparr>))"

section \<open>Credentials and the outcome of a write\<close>

definition auth_required :: "'s nut_server \<Rightarrow> bool" where
  "auth_required s \<longleftrightarrow> 0 < length (nc_username (ns_config s)) \<and> 0 < length (nc_password (ns_config s))"

definition missingCredentials :: "'s nut_server \<Rightarrow> nat \<Rightarrow> string option" where
  "missingCredentials s slot =
     (if \<not> auth_required s then None
      else if \<not> cs_usernameSet (session s slot) then Some ''USERNAME-REQUIRED''
      else if \<not> cs_passwordSet (session s slot) then Some ''PASSWORD-REQUIRED''
      else None)"

definition rejectSet :: "nat \<Rightarrow> string \<Rightarrow> string \<Rightarrow> string \<Rightarrow> 's nut_server \<Rightarrow> string \<times> 's nut_server" where
  "rejectSet slot var value err s =
     (let user = (if 0 < length (cs_username (session s slot)) then cs_username (session s slot) else ''-'')
      in (msg (''ERR '' @ err),
          say ''WARN'' (''SET '' @ var @ '' '' @ quote value @ '' from '' @ user @ '': ERR '' @ err) s))"

definition replyTracking :: "u32 \<Rightarrow> set_status \<Rightarrow> 's nut_server \<Rightarrow> string \<times> 's nut_server" where
  "replyTracking now st s =
     (let tid = newId (map (\<lambda>i. ns_random s (ns_drawn s + i)) [0..<4])
      in (msg (''OK TRACKING '' @ tid),
          s\<lparr>ns_drawn := ns_drawn s + 4, ns_tracking := tracking_add (Some tid) st now (ns_tracking s)\<rparr>))"

definition instcmdTrackingStatus :: "command_result \<Rightarrow> set_status option" where
  "instcmdTrackingStatus r =
     (case r of CmdOk \<Rightarrow> Some SetOk | CmdFailed \<Rightarrow> Some SetFailed | CmdInvalidArgument \<Rightarrow> Some SetConversionFailed
      | CmdNotSupported \<Rightarrow> None | CmdNotConnected \<Rightarrow> None)"

definition source_set :: "nat \<Rightarrow> 's ups_source \<Rightarrow> string \<Rightarrow> string \<Rightarrow> 's nut_server \<Rightarrow> set_status \<times> 's nut_server" where
  "source_set slot u name value s =
     (let (st, src) = us_set u (Some name) (Some value) (ns_source s)
      in (st, s\<lparr>ns_source := src, ns_calls := ns_calls s @ [(cs_lines (session s slot), CallSet name value)]\<rparr>))"

definition source_execute :: "nat \<Rightarrow> 's ups_source \<Rightarrow> string \<Rightarrow> string option \<Rightarrow> 's nut_server \<Rightarrow> command_result \<times> 's nut_server" where
  "source_execute slot u name param s =
     (let (r, src) = us_execute u (Some name) param (ns_source s)
      in (r, s\<lparr>ns_source := src, ns_calls := ns_calls s @ [(cs_lines (session s slot), CallExecute name param)]\<rparr>))"

definition setVar_checked :: "u32 \<Rightarrow> nat \<Rightarrow> 's ups_source \<Rightarrow> string \<Rightarrow> string \<Rightarrow> 's nut_server \<Rightarrow> string \<times> 's nut_server" where
  "setVar_checked now slot u name value s =
     (let (st, s) = source_set slot u name value s
      in if cs_tracking (session s slot) then replyTracking now st s
         else (msg (if st = SetOk then ''OK'' else ''ERR SET-FAILED''), s))"

text \<open>\<open>v->name\<close>: \<open>checkSetValue\<close> finds a variable in the cases that read it.\<close>

definition found_name :: "rw_variable option \<Rightarrow> string" where
  "found_name v = (case v of Some v \<Rightarrow> rw_name v | None \<Rightarrow> [])"

definition setVar :: "u32 \<Rightarrow> nat \<Rightarrow> string \<Rightarrow> string \<Rightarrow> string \<Rightarrow> 's nut_server \<Rightarrow> string \<times> 's nut_server" where
  "setVar now slot upsName var value s =
     (if \<not> same_ups s upsName then rejectSet slot var value ''UNKNOWN-UPS'' s
      else case ns_ups s of None \<Rightarrow> rejectSet slot var value ''DRIVER-NOT-CONNECTED'' s
      | Some u \<Rightarrow>
          if \<not> us_connected u (ns_source s) then rejectSet slot var value ''DRIVER-NOT-CONNECTED'' s
          else if us_stale u (ns_source s) then rejectSet slot var value ''DATA-STALE'' s
          else if auth_required s \<and> \<not> cs_authenticated (session s slot) then rejectSet slot var value ''ACCESS-DENIED'' s
          else if resolveVar s (us_data u (ns_source s)) (map lower var) = None then rejectSet slot var value ''VAR-NOT-SUPPORTED'' s
          else if findOverride s var \<noteq> None then rejectSet slot var value ''READONLY'' s
          else
            (let (rw, s) = writable s; (check, v) = checkSetValue rw (Some var) (Some value)
             in (case check of
                   CheckOk \<Rightarrow> setVar_checked now slot u (found_name v) value s
                 | CheckNotWritable \<Rightarrow> rejectSet slot var value ''READONLY'' s
                 | CheckInvalidAux \<Rightarrow>
                     rejectSet slot var value ''SET-FAILED'' (say ''WARN'' (''auxdata for '' @ found_name v @ '' is invalid'') s)
                 | CheckTooLong \<Rightarrow> rejectSet slot var value ''TOO-LONG'' s
                 | CheckInvalidValue \<Rightarrow> rejectSet slot var value ''INVALID-VALUE'' s)))"

section \<open>Sessions\<close>

datatype close_reason = PeerClosed | Logout | Inactivity

fun comma_list :: "string list \<Rightarrow> string \<Rightarrow> string" where
  "comma_list [] out = out"
| "comma_list (p # ps) out = comma_list ps ((if 0 < length out then out @ '', '' else out) @ p)"

definition slotSummary :: "'s nut_server \<Rightarrow> string" where
  "slotSummary s = comma_list (map cs_peer (filter cs_active (ns_sessions s))) []"

definition logClientsSummary :: "u32 \<Rightarrow> 's nut_server \<Rightarrow> 's nut_server" where
  "logClientsSummary now s =
     (if now - ns_lastSummaryMs s < NUT_LOG_INTERVAL_MS then s
      else let s = s\<lparr>ns_lastSummaryMs := now\<rparr>; summary = slotSummary s
           in if summary = ns_lastSummary s then s
              else let s = s\<lparr>ns_lastSummary := summary\<rparr>; in_use = length (filter cs_active (ns_sessions s))
                   in say ''INFO'' (''[NUT] Clients: '' @ dec in_use @ ''/'' @ dec NUT_MAX_CLIENTS @ '' in use'' @
                        (if in_use \<noteq> 0 then '' - '' else []) @ summary) s)"

text \<open>\<open>linked\<close> tells which sockets are still open. The slot, or \<open>None\<close> when every one is taken.\<close>

definition openSession :: "(nat \<Rightarrow> bool) \<Rightarrow> string \<Rightarrow> u32 \<Rightarrow> 's nut_server \<Rightarrow> nat option \<times> 's nut_server" where
  "openSession linked peerIp now s =
     (case find (\<lambda>i. \<not> cs_active (session s i) \<or> \<not> linked i) [0..<NUT_MAX_CLIENTS] of
        None \<Rightarrow>
          if \<not> ns_rejectLogged s \<or> NUT_LOG_INTERVAL_MS \<le> now - ns_lastRejectLogMs s
          then let others = (if 0 < ns_rejectsSinceLog s
                             then '' ('' @ dec (unat (ns_rejectsSinceLog s)) @ '' more rejected since the last report)'' else [])
               in (None, (say ''WARN'' (''[NUT] Connection from '' @ peerIp @ '' rejected: all '' @ dec NUT_MAX_CLIENTS @
                      '' slots in use ('' @ slotSummary s @ '')'' @ others) s)
                    \<lparr>ns_rejectLogged := True, ns_lastRejectLogMs := now, ns_rejectsSinceLog := 0\<rparr>)
          else (None, s\<lparr>ns_rejectsSinceLog := ns_rejectsSinceLog s + 1\<rparr>)
      | Some slot \<Rightarrow>
          (Some slot, on_session slot (\<lambda>c. session_closed\<lparr>cs_active := True, cs_lastActivity := now, cs_peer := peerIp\<rparr>) s))"

definition closeSession :: "nat \<Rightarrow> close_reason \<Rightarrow> 's nut_server \<Rightarrow> 's nut_server" where
  "closeSession slot reason s =
     (if slot < NUT_MAX_CLIENTS
      then on_session slot (\<lambda>c. session_closed)
             (if reason = Inactivity
              then say ''INFO'' (''[NUT] Client '' @ cs_peer (session s slot) @ '' on slot '' @ dec slot @
                     '' disconnected after '' @ dec (unat NUT_TIMEOUT_MS div 1000) @ '' s of inactivity'') s
              else s)
      else s)"

definition resetSessions :: "u32 \<Rightarrow> 's nut_server \<Rightarrow> 's nut_server" where
  "resetSessions now s =
     (fold (\<lambda>i s. if cs_active (session s i) then closeSession i PeerClosed s else s) [0..<NUT_MAX_CLIENTS] s)
       \<lparr>ns_lastSummary := [], ns_lastSummaryMs := now, ns_rejectLogged := False, ns_lastRejectLogMs := 0, ns_rejectsSinceLog := 0\<rparr>"

definition clearTracking :: "'s nut_server \<Rightarrow> 's nut_server" where
  "clearTracking s = s\<lparr>ns_tracking := tracking_clear, ns_sessions := map (\<lambda>c. c\<lparr>cs_tracking := False\<rparr>) (ns_sessions s)\<rparr>"

definition setOverrides :: "nut_override list option \<Rightarrow> 's nut_server \<Rightarrow> 's nut_server" where
  "setOverrides vs s = s\<lparr>ns_overrides := vs\<rparr>"

end
