(* ===== verification/NUTCommands.thy ===== *)
theory NUTCommands
  imports NUTServer
begin

text \<open>
  The requests of a client: \<open>NUTServer::processCommand\<close> with every command of the protocol, the
  bytes of a session and one pass of \<open>NUTServer::loop\<close>.
\<close>

section \<open>LIST\<close>

text \<open>The checks every list starts with: the words, the name of the UPS and the age of the data.\<close>

definition list_refused :: "nat \<Rightarrow> bool \<Rightarrow> string list \<Rightarrow> 's nut_server \<Rightarrow> string option" where
  "list_refused need fresh tokens s =
     (if length tokens < need then Some ''ERR INVALID-ARGUMENT''
      else if \<not> same_ups s (tokens ! 2) then Some ''ERR UNKNOWN-UPS''
      else if fresh \<and> source_stale s then Some ''ERR DATA-STALE''
      else None)"

definition answer :: "string option \<Rightarrow> string \<times> 's nut_server \<Rightarrow> 's nut_server \<Rightarrow> string \<times> 's nut_server" where
  "answer refused r s = (case refused of Some e \<Rightarrow> (msg e, s) | None \<Rightarrow> r)"

definition list_ups :: "'s nut_server \<Rightarrow> string" where
  "list_ups s = msg ''BEGIN LIST UPS'' @ msg (''UPS '' @ nc_ups_name (ns_config s) @ '' '' @ quote NUT_UPS_DESCRIPTION) @ msg ''END LIST UPS''"

text \<open>The variables of LIST VAR, with their values, in the order they are printed.\<close>

definition alias_vars :: "'s nut_server \<Rightarrow> ups_data \<Rightarrow> (string \<times> string) list" where
  "alias_vars s data =
     concat (map (\<lambda>(a, b). case resolveVar s data a of Some v \<Rightarrow> [(a, v)] | None \<Rightarrow> []) device_aliases)"

definition data_vars :: "'s nut_server \<Rightarrow> ups_data \<Rightarrow> (string \<times> string) list" where
  "data_vars s data =
     map (\<lambda>(k, v). case findOverride s k of Some w \<Rightarrow> (no_key w, no_value w) | None \<Rightarrow> (k, v))
       (filter (\<lambda>(k, v). \<not> isInternalStatusKey k) (ud_parameters data))"

definition override_vars :: "'s nut_server \<Rightarrow> ups_data \<Rightarrow> (string \<times> string) list" where
  "override_vars s data =
     (case ns_overrides s of None \<Rightarrow> []
      | Some vs \<Rightarrow>
          map (\<lambda>w. (no_key w, no_value w))
            (filter (\<lambda>w. let k = map lower (no_key w) in \<not> (ud_hasKey data k \<or> deviceAliasOf k \<noteq> None)) vs) @
          map (\<lambda>w. (OVERRIDE_PARAM_PREFIX @ no_key w, no_value w)) vs)"

definition list_vars :: "'s ups_source \<Rightarrow> 's nut_server \<Rightarrow> (string \<times> string) list" where
  "list_vars u s =
     (let data = us_data u (ns_source s)
      in [(''ups.status'', us_status u (ns_source s)), (''device.type'', ''ups'')] @
         alias_vars s data @ data_vars s data @ override_vars s data)"

definition var_line :: "string \<Rightarrow> string \<Rightarrow> string \<times> string \<Rightarrow> string" where
  "var_line kind ups v = msg (kind @ '' '' @ ups @ '' '' @ fst v @ '' '' @ quote (encodeValue (Some (snd v))))"

definition list_body :: "string \<Rightarrow> string \<Rightarrow> string \<Rightarrow> string" where
  "list_body what args body = msg (''BEGIN LIST '' @ what @ '' '' @ args) @ body @ msg (''END LIST '' @ what @ '' '' @ args)"

definition list_var :: "string list \<Rightarrow> 's nut_server \<Rightarrow> string \<times> 's nut_server" where
  "list_var tokens s =
     answer (list_refused 3 True tokens s)
       (let ups = tokens ! 2
        in (list_body ''VAR'' ups
              (case ns_ups s of None \<Rightarrow> [] | Some u \<Rightarrow> concat (map (var_line ''VAR'' ups) (list_vars u s))), s)) s"

definition rw_vars :: "'s nut_server \<Rightarrow> ups_data \<Rightarrow> rw_variable list \<Rightarrow> (string \<times> string) list" where
  "rw_vars s data rw =
     map (\<lambda>v. (rw_name v, ud_get data (rw_name v) []))
       (filter (\<lambda>v. ud_hasKey data (rw_name v) \<and> findOverride s (rw_name v) = None) rw)"

definition list_rw :: "string list \<Rightarrow> 's nut_server \<Rightarrow> string \<times> 's nut_server" where
  "list_rw tokens s =
     answer (list_refused 3 True tokens s)
       (let ups = tokens ! 2; (rw, s) = writable s
        in (list_body ''RW'' ups
              (case ns_ups s of None \<Rightarrow> []
               | Some u \<Rightarrow> concat (map (var_line ''RW'' ups) (rw_vars s (us_data u (ns_source s)) rw))), s)) s"

definition list_cmd :: "string \<Rightarrow> string list \<Rightarrow> 's nut_server \<Rightarrow> string \<times> 's nut_server" where
  "list_cmd sub tokens s =
     answer (list_refused 3 (sub = ''CMD'') tokens s)
       (let ups = tokens ! 2
        in (list_body sub ups
              (case ns_ups s of None \<Rightarrow> []
               | Some u \<Rightarrow> if sub = ''CMD''
                           then concat (map (\<lambda>c. msg (''CMD '' @ ups @ '' '' @ ci_name c)) (us_commands u (ns_source s)))
                           else []), s)) s"

definition list_enum :: "string \<Rightarrow> string list \<Rightarrow> 's nut_server \<Rightarrow> string \<times> 's nut_server" where
  "list_enum sub tokens s =
     answer (list_refused 4 True tokens s)
       (let ups = tokens ! 2; var = tokens ! 3;
            present = (case ns_ups s of None \<Rightarrow> False
                       | Some u \<Rightarrow> resolveVar s (us_data u (ns_source s)) (map lower var) \<noteq> None)
        in if \<not> present then (msg ''ERR VAR-NOT-SUPPORTED'', s)
           else if sub = ''ENUM''
           then (let (rw, s) = writable s
                 in (list_body sub (ups @ '' '' @ var)
                       (case findWritable rw var of None \<Rightarrow> []
                        | Some v \<Rightarrow> concat (map (\<lambda>e. var_line ''ENUM'' ups (var, e)) (rw_enums v))), s))
           else (list_body sub (ups @ '' '' @ var) [], s)) s"

definition cmd_list :: "string list \<Rightarrow> 's nut_server \<Rightarrow> string \<times> 's nut_server" where
  "cmd_list tokens s =
     (if length tokens < 2 then (msg ''ERR INVALID-ARGUMENT'', s)
      else let sub = map upper (tokens ! 1)
           in if sub = ''UPS'' then (list_ups s, s)
              else if sub = ''VAR'' then list_var tokens s
              else if sub = ''RW'' then list_rw tokens s
              else if sub = ''CMD'' \<or> sub = ''CLIENT'' then list_cmd sub tokens s
              else if sub = ''ENUM'' \<or> sub = ''RANGE'' then list_enum sub tokens s
              else (msg ''ERR INVALID-ARGUMENT'', s))"

section \<open>INSTCMD and SET\<close>

definition cmd_instcmd :: "u32 \<Rightarrow> nat \<Rightarrow> string list \<Rightarrow> 's nut_server \<Rightarrow> string \<times> 's nut_server" where
  "cmd_instcmd now slot tokens s =
     (if auth_required s \<and> \<not> cs_authenticated (session s slot) then (msg ''ERR ACCESS-DENIED'', s)
      else if length tokens < 3 then (msg ''ERR INVALID-ARGUMENT'', s)
      else if \<not> same_ups s (tokens ! 1) then (msg ''ERR UNKNOWN-UPS'', s)
      else case ns_ups s of None \<Rightarrow> (msg ''ERR DRIVER-NOT-CONNECTED'', s)
      | Some u \<Rightarrow>
          (let (r, s) = source_execute slot u (tokens ! 2) (if 3 < length tokens then Some (tokens ! 3) else None) s
           in (case (if cs_tracking (session s slot) then instcmdTrackingStatus r else None) of
                 Some st \<Rightarrow> replyTracking now st s
               | None \<Rightarrow>
                   (msg (case r of CmdOk \<Rightarrow> ''OK'' | CmdNotSupported \<Rightarrow> ''ERR CMD-NOT-SUPPORTED''
                         | CmdNotConnected \<Rightarrow> ''ERR DRIVER-NOT-CONNECTED'' | CmdFailed \<Rightarrow> ''ERR INSTCMD-FAILED''
                         | CmdInvalidArgument \<Rightarrow> ''ERR INVALID-ARGUMENT''), s))))"

definition cmd_set :: "u32 \<Rightarrow> nat \<Rightarrow> string list \<Rightarrow> 's nut_server \<Rightarrow> string \<times> 's nut_server" where
  "cmd_set now slot tokens s =
     (if length tokens < 3 then (msg ''ERR INVALID-ARGUMENT'', s)
      else let sub = map upper (tokens ! 1)
           in if sub = ''VAR''
              then (if length tokens < 5 then (msg ''ERR INVALID-ARGUMENT'', s)
                    else setVar now slot (tokens ! 2) (tokens ! 3) (tokens ! 4) s)
              else if sub = ''TRACKING''
              then (let mode = map upper (tokens ! 2)
                    in if mode = ''ON'' then (msg ''OK'', on_session slot (\<lambda>c. c\<lparr>cs_tracking := True\<rparr>) s)
                       else if mode = ''OFF'' then (msg ''OK'', on_session slot (\<lambda>c. c\<lparr>cs_tracking := False\<rparr>) s)
                       else (msg ''ERR INVALID-ARGUMENT'', s))
              else (msg ''ERR INVALID-ARGUMENT'', s))"

section \<open>GET\<close>

definition get_tracking :: "u32 \<Rightarrow> nat \<Rightarrow> string list \<Rightarrow> 's nut_server \<Rightarrow> string" where
  "get_tracking now slot tokens s =
     msg (if length tokens = 2 then (if cs_tracking (session s slot) then ''ON'' else ''OFF'')
          else if cs_tracking (session s slot) then tracking_get (Some (tokens ! 2)) now (ns_tracking s)
          else ''ERR FEATURE-NOT-CONFIGURED'')"

definition get_var :: "string list \<Rightarrow> 's nut_server \<Rightarrow> string" where
  "get_var tokens s =
     (if length tokens < 4 then msg ''ERR INVALID-ARGUMENT''
      else if \<not> same_ups s (tokens ! 2) then msg ''ERR UNKNOWN-UPS''
      else case ns_ups s of None \<Rightarrow> msg ''ERR VAR-NOT-SUPPORTED''
      | Some u \<Rightarrow>
          if us_stale u (ns_source s) then msg ''ERR DATA-STALE''
          else (case resolveVar s (us_data u (ns_source s)) (map lower (tokens ! 3)) of
                  None \<Rightarrow> msg ''ERR VAR-NOT-SUPPORTED''
                | Some v \<Rightarrow> var_line ''VAR'' (tokens ! 2) (tokens ! 3, v)))"

definition get_type :: "string list \<Rightarrow> 's nut_server \<Rightarrow> string \<times> 's nut_server" where
  "get_type tokens s =
     (let (rw, s) = writable s; head = ''TYPE '' @ tokens ! 2 @ '' '' @ tokens ! 3
      in (case findWritable rw (tokens ! 3) of
            Some v \<Rightarrow>
              if findOverride s (tokens ! 3) = None
              then (msg (head @ '' RW'' @ (if rw_enums v = [] then [] else '' ENUM'') @ '' STRING:'' @ dec (unat (rw_aux v))), s)
              else (msg (head @ '' STRING:64''), s)
          | None \<Rightarrow> (msg (head @ '' STRING:64''), s)))"

definition get_desc :: "string \<Rightarrow> string list \<Rightarrow> 's nut_server \<Rightarrow> string" where
  "get_desc sub tokens s =
     (let var = tokens ! 3;
          desc = (if sub = ''CMDDESC'' then map_option ci_description (command_find (Some var))
                  else case describe (Some var) of Some d \<Rightarrow> Some d
                    | None \<Rightarrow> (case findOverride s var of None \<Rightarrow> None
                              | Some w \<Rightarrow> if 0 < length (no_description w) then Some (no_description w) else None))
      in msg (sub @ '' '' @ tokens ! 2 @ '' '' @ var @ '' '' @ quote (case desc of Some d \<Rightarrow> d | None \<Rightarrow> NUT_DESC_UNAVAILABLE)))"

definition cmd_get :: "u32 \<Rightarrow> nat \<Rightarrow> string list \<Rightarrow> 's nut_server \<Rightarrow> string \<times> 's nut_server" where
  "cmd_get now slot tokens s =
     (if length tokens < 2 then (msg ''ERR INVALID-ARGUMENT'', s)
      else let sub = map upper (tokens ! 1)
           in if sub = ''TRACKING'' then (get_tracking now slot tokens s, s)
              else if sub = ''VAR'' then (get_var tokens s, s)
              else if sub = ''DESC'' \<or> sub = ''CMDDESC'' \<or> sub = ''TYPE''
              then answer (list_refused 4 False tokens s)
                     (if sub = ''TYPE'' then get_type tokens s else (get_desc sub tokens s, s)) s
              else if sub = ''UPSDESC'' \<or> sub = ''NUMLOGINS''
              then answer (list_refused 3 False tokens s)
                     (msg (if sub = ''UPSDESC'' then ''UPSDESC '' @ tokens ! 2 @ '' '' @ quote NUT_UPS_DESCRIPTION
                           else ''NUMLOGINS '' @ tokens ! 2 @ '' 0''), s) s
              else (msg ''ERR INVALID-ARGUMENT'', s))"

section \<open>A request\<close>

definition cmd_password :: "nat \<Rightarrow> string list \<Rightarrow> 's nut_server \<Rightarrow> string \<times> 's nut_server" where
  "cmd_password slot tokens s =
     (if length tokens < 2 then (msg ''ERR INVALID-ARGUMENT'', s)
      else let s = on_session slot (\<lambda>c. c\<lparr>cs_passwordSet := True\<rparr>) s
           in if cs_username (session s slot) = nc_username (ns_config s) \<and> tokens ! 1 = nc_password (ns_config s)
              then (msg ''OK'', on_session slot (\<lambda>c. c\<lparr>cs_authenticated := True\<rparr>) s)
              else (msg ''ERR ACCESS-DENIED'', s))"

definition cmd_login :: "nat \<Rightarrow> string list \<Rightarrow> 's nut_server \<Rightarrow> string" where
  "cmd_login slot tokens s =
     msg (if length tokens < 2 then ''ERR INVALID-ARGUMENT''
          else if \<not> same_ups s (tokens ! 1) then ''ERR UNKNOWN-UPS''
          else if auth_required s \<and> \<not> cs_authenticated (session s slot) then ''ERR ACCESS-DENIED''
          else ''OK'')"

definition credentials_missing :: "string \<Rightarrow> nat \<Rightarrow> 's nut_server \<Rightarrow> string option" where
  "credentials_missing cmd slot s =
     (if cmd = ''LOGIN'' \<or> cmd = ''SET'' \<or> cmd = ''INSTCMD'' then missingCredentials s slot else None)"

definition dispatch :: "u32 \<Rightarrow> nat \<Rightarrow> string \<Rightarrow> string list \<Rightarrow> 's nut_server \<Rightarrow> string \<times> 's nut_server" where
  "dispatch now slot cmd tokens s =
     (if cmd = ''VER'' then (msg (''Network UPS Tools esp32-nut '' @ ns_version s), s)
      else if cmd = ''NETVER'' then (msg NUT_PROTOCOL_VERSION, s)
      else if cmd = ''USERNAME''
      then (if length tokens < 2 then (msg ''ERR INVALID-ARGUMENT'', s)
            else (msg ''OK'', on_session slot (\<lambda>c. c\<lparr>cs_username := tokens ! 1, cs_usernameSet := True\<rparr>) s))
      else if cmd = ''PASSWORD'' then cmd_password slot tokens s
      else if cmd = ''LOGIN'' then (cmd_login slot tokens s, s)
      else if cmd = ''LOGOUT'' then (msg ''OK Goodbye'', closeSession slot Logout s)
      else if cmd = ''LIST'' then cmd_list tokens s
      else if cmd = ''INSTCMD'' then cmd_instcmd now slot tokens s
      else if cmd = ''SET'' then cmd_set now slot tokens s
      else if cmd = ''GET'' then cmd_get now slot tokens s
      else (msg ''ERR UNKNOWN-COMMAND'', s))"

definition processCommand :: "u32 \<Rightarrow> nat \<Rightarrow> string \<Rightarrow> 's nut_server \<Rightarrow> string \<times> 's nut_server" where
  "processCommand now slot line s =
     (let s = on_session slot (\<lambda>c. c\<lparr>cs_lines := cs_lines c @ [line]\<rparr>) s; tokens = splitTokens line
      in if tokens = [] then ([], s)
         else let cmd = map upper (tokens ! 0)
              in case credentials_missing cmd slot s of
                   Some missing \<Rightarrow>
                     (let sub = map upper (if 1 < length tokens then tokens ! 1 else [])
                      in if cmd = ''SET'' \<and> sub = ''VAR'' \<and> 5 \<le> length tokens
                         then rejectSet slot (tokens ! 3) (tokens ! 4) missing s
                         else (msg (''ERR '' @ missing), s))
                 | None \<Rightarrow> dispatch now slot cmd tokens s)"

section \<open>Bytes and passes\<close>

text \<open>One byte of a socket; the reply is empty until a line ends.\<close>

definition readByte :: "u32 \<Rightarrow> nat \<Rightarrow> char \<Rightarrow> 's nut_server \<Rightarrow> string \<times> 's nut_server" where
  "readByte now slot c s =
     (let s = on_session slot (\<lambda>d. d\<lparr>cs_lastActivity := now\<rparr>) s; buffer = cs_buffer (session s slot)
      in if c = CHR 0x0A \<or> c = CHR 0x0D
         then (if 0 < length buffer
               then (let (out, s) = processCommand now slot buffer s in (out, on_session slot (\<lambda>d. d\<lparr>cs_buffer := []\<rparr>) s))
               else ([], s))
         else if 32 \<le> ord c \<and> ord c \<le> 126
         then (if length buffer < 256 then ([], on_session slot (\<lambda>d. d\<lparr>cs_buffer := buffer @ [c]\<rparr>) s) else ([], s))
         else ([], s))"

text \<open>A socket closed by LOGOUT has nothing left to read.\<close>

fun readBytes :: "u32 \<Rightarrow> nat \<Rightarrow> string \<Rightarrow> 's nut_server \<Rightarrow> string \<times> 's nut_server" where
  "readBytes now slot [] s = ([], s)"
| "readBytes now slot (c # cs) s =
     (let (out, s) = readByte now slot c s
      in if \<not> cs_active (session s slot) then (out, s)
         else let (rest, s) = readBytes now slot cs s in (out @ rest, s))"

text \<open>A slot of the loop: whether its socket is open, and the bytes waiting in it.\<close>

definition serve_slot :: "u32 \<Rightarrow> nat \<Rightarrow> bool \<times> string \<Rightarrow> 's nut_server \<Rightarrow> string \<times> 's nut_server" where
  "serve_slot now slot socket s =
     (let (linked, waiting) = socket
      in if \<not> cs_active (session s slot) then ([], s)
         else if \<not> linked \<and> waiting = [] then ([], closeSession slot PeerClosed s)
         else if NUT_TIMEOUT_MS < now - cs_lastActivity (session s slot)
         then (msg ''ERR ACCESS-DENIED'', closeSession slot Inactivity s)
         else readBytes now slot (take 128 waiting) s)"

fun serve_slots :: "u32 \<Rightarrow> (nat \<Rightarrow> bool \<times> string) \<Rightarrow> nat list \<Rightarrow> 's nut_server \<Rightarrow> (nat \<times> string) list \<times> 's nut_server" where
  "serve_slots now sockets [] s = ([], s)"
| "serve_slots now sockets (i # is) s =
     (let (out, s) = serve_slot now i (sockets i) s; (outs, s) = serve_slots now sockets is s in ((i, out) # outs, s))"

text \<open>One pass: the sockets open before it, a client that waits to be accepted, and the sockets after
  that. What a client that finds no slot receives is the first reply.\<close>

definition server_loop :: "u32 \<Rightarrow> (nat \<Rightarrow> bool) \<Rightarrow> string option \<Rightarrow> (nat \<Rightarrow> bool \<times> string) \<Rightarrow> 's nut_server
    \<Rightarrow> (string \<times> (nat \<times> string) list) \<times> 's nut_server" where
  "server_loop now linked client sockets s =
     (if \<not> ns_initialized s then (([], []), s)
      else let s = logClientsSummary now (s\<lparr>ns_tracking := tracking_cleanup now (ns_tracking s)\<rparr>);
               (rejected, s) = (case client of None \<Rightarrow> ([], s)
                 | Some ip \<Rightarrow> (case openSession linked ip now s of
                     (None, s) \<Rightarrow> (msg ''ERR FAILED - Max clients reached'', s)
                   | (Some slot, s) \<Rightarrow> ([], s)));
               (outs, s) = serve_slots now sockets [0..<NUT_MAX_CLIENTS] s
           in ((rejected, outs), s))"

end
