(* ===== verification/NUTReplies.thy ===== *)
theory NUTReplies
  imports NUTCommands
begin

text \<open>
  What the replies say: the words of a line, the value of a variable read back by the client, and
  the agreement of LIST VAR with GET VAR.
\<close>

section \<open>Words\<close>

text \<open>A line as a client writes it: each word as it is, or in quotes and escaped.\<close>

definition plain_word :: "string \<Rightarrow> bool" where
  "plain_word w \<longleftrightarrow> w \<noteq> [] \<and> list_all (\<lambda>c. c \<noteq> CHR 0x5C \<and> c \<noteq> CHR 0x22 \<and> c \<noteq> CHR '' '') w"

definition written_word :: "bool \<times> string \<Rightarrow> string" where
  "written_word w = (if fst w then quote (encodeValue (Some (snd w))) else snd w)"

fun written_line :: "(bool \<times> string) list \<Rightarrow> string" where
  "written_line [] = []"
| "written_line [w] = written_word w"
| "written_line (w # ws) = written_word w @ CHR '' '' # written_line ws"

definition word_ok :: "bool \<times> string \<Rightarrow> bool" where
  "word_ok w \<longleftrightarrow> fst w \<or> plain_word (snd w)"

lemma split_encoded:
  "split_loop (encodeValue (Some v) @ rest) current True quoted = split_loop rest (current @ v) True quoted"
proof (induction v arbitrary: current)
  case Nil
  then show ?case by (simp add: encodeValue_def)
next
  case (Cons c v)
  then show ?case by (auto simp: encodeValue_def escaped_def)
qed

lemma split_plain:
  "list_all (\<lambda>c. c \<noteq> CHR 0x5C \<and> c \<noteq> CHR 0x22 \<and> c \<noteq> CHR '' '') w \<Longrightarrow>
   split_loop (w @ rest) current False quoted = split_loop rest (current @ w) False quoted"
  by (induction w arbitrary: current) simp_all

lemma split_word:
  assumes "word_ok w"
  shows "split_loop (written_word w @ rest) [] False False = split_loop rest (snd w) False (fst w)"
proof (cases "fst w")
  case True
  then show ?thesis using split_encoded [of "snd w" "CHR 0x22 # rest" "[]" False]
    by (simp add: written_word_def quote_def)
next
  case False
  with assms show ?thesis using split_plain [of "snd w" rest "[]" False]
    by (simp add: written_word_def word_ok_def plain_word_def)
qed

lemma split_written: "list_all word_ok ws \<Longrightarrow> splitTokens (written_line ws) = map snd ws"
proof (induction ws rule: written_line.induct)
  case 1
  then show ?case by (simp add: splitTokens_def)
next
  case (2 w)
  then have "snd w \<noteq> [] \<or> fst w" by (auto simp: word_ok_def plain_word_def)
  then show ?case using 2 split_word [of w "[]"] by (auto simp: splitTokens_def)
next
  case (3 w v ws)
  then have "snd w \<noteq> [] \<or> fst w" by (auto simp: word_ok_def plain_word_def)
  then show ?case using 3 split_word [of w "CHR '' '' # written_line (v # ws)"] by (auto simp: splitTokens_def)
qed

text \<open>Processing a line is the dispatch of its words, once the credentials are there.\<close>

definition noted :: "nat \<Rightarrow> string \<Rightarrow> 's nut_server \<Rightarrow> 's nut_server" where
  "noted slot line s = on_session slot (\<lambda>c. c\<lparr>cs_lines := cs_lines c @ [line]\<rparr>) s"

lemma noted_simps [simp]:
  "ns_config (noted slot line s) = ns_config s" "ns_ups (noted slot line s) = ns_ups s" "ns_source (noted slot line s) = ns_source s"
  "ns_overrides (noted slot line s) = ns_overrides s" "ns_calls (noted slot line s) = ns_calls s"
  "ns_tracking (noted slot line s) = ns_tracking s"
  by (simp_all add: noted_def on_session_def)

lemma noted_same [simp]:
  "same_ups (noted slot line s) = same_ups s" "resolveVar (noted slot line s) = resolveVar s"
  by (simp_all add: same_ups_def resolveVar_def findOverride_def status_text_def fun_eq_iff cong: option.case_cong)

lemma processCommand_dispatch:
  assumes "splitTokens line = cmd # args" "credentials_missing (map upper cmd) slot (noted slot line s) = None"
  shows "processCommand now slot line s = dispatch now slot (map upper cmd) (cmd # args) (noted slot line s)"
  using assms by (simp add: processCommand_def noted_def Let_def)

text \<open>C25: the value of a variable arrives as it is. When GET VAR has an answer, the client that
  splits the reply into words as the server splits a request finds the word \<open>VAR\<close>, the names
  it sent and the value itself, blanks, quotes and backslashes included; and asking changed
  nothing but the record of the session's requests.\<close>

theorem get_var_reads_back:
  assumes "ns_ups s = Some u" "\<not> us_stale u (ns_source s)" "same_ups s ups"
    and "resolveVar s (us_data u (ns_source s)) (map lower var) = Some v"
    and "plain_word ups" "plain_word var"
  shows "\<exists>reply. processCommand now slot (written_line [(False, ''GET''), (False, ''VAR''), (q, ups), (r, var)]) s
       = (msg reply, noted slot (written_line [(False, ''GET''), (False, ''VAR''), (q, ups), (r, var)]) s) \<and>
     splitTokens reply = [''VAR'', ups, var, v]"
proof -
  define line where "line = written_line [(False, ''GET''), (False, ''VAR''), (q, ups), (r, var)]"
  have ok: "word_ok (q, ups)" "word_ok (r, var)" "word_ok (False, ''GET'')" "word_ok (False, ''VAR'')"
    using assms(5,6) by (simp_all add: word_ok_def plain_word_def)
  then have t: "splitTokens line = [''GET'', ''VAR'', ups, var]"
    using split_written [of "[(False, ''GET''), (False, ''VAR''), (q, ups), (r, var)]"] by (simp add: line_def)
  have up: "map upper ''GET'' = ''GET''" "map upper ''VAR'' = ''VAR''" by code_simp+
  define reply where "reply = written_line [(False, ''VAR''), (False, ups), (False, var), (True, v)]"
  have "get_var [''GET'', ''VAR'', ups, var] (noted slot line s) = msg reply"
    using assms(1-4) by (simp add: get_var_def var_line_def reply_def written_word_def)
  then have "processCommand now slot line s = (msg reply, noted slot line s)"
    using processCommand_dispatch [OF t, of slot s now] up by (simp add: credentials_missing_def dispatch_def cmd_get_def Let_def)
  moreover have "splitTokens reply = [''VAR'', ups, var, v]"
    using split_written [of "[(False, ''VAR''), (False, ups), (False, var), (True, v)]"] ok(4) assms(5,6)
    by (simp add: reply_def word_ok_def)
  ultimately show ?thesis unfolding line_def by blast
qed

section \<open>LIST VAR and GET VAR\<close>

text \<open>What the driver publishes under a name, whatever its case: one key, in lower case, and none of those the server makes
  itself.\<close>

definition own_var :: "string \<Rightarrow> bool" where
  "own_var k \<longleftrightarrow> k = ''ups.status'' \<or> k = ''device.type'' \<or> starts_with k OVERRIDE_PARAM_PREFIX"

definition reported_at :: "string \<Rightarrow> ups_data \<Rightarrow> bool" where
  "reported_at x d \<longleftrightarrow> ud_ok d \<and>
     list_all (\<lambda>k. map lower k \<noteq> x \<or> k = x \<and> \<not> own_var k \<and> deviceAliasOf k = None) (kv_keys (ud_parameters d))"

definition overrides_ok :: "'s nut_server \<Rightarrow> bool" where
  "overrides_ok s \<longleftrightarrow> (case ns_overrides s of None \<Rightarrow> True | Some vs \<Rightarrow> fst (checkList vs) = OvOk)"

definition overrides :: "'s nut_server \<Rightarrow> nut_override list" where
  "overrides s = (case ns_overrides s of None \<Rightarrow> [] | Some vs \<Rightarrow> vs)"

lemma in_params: "ud_ok d \<Longrightarrow> (k, v) \<in> set (ud_parameters d) \<longleftrightarrow> ud_find d k = Some v"
proof -
  have "distinct (kv_keys ps) \<Longrightarrow> (k, v) \<in> set ps \<longleftrightarrow> kv_find ps k = Some v" for ps
  proof (induction ps)
    case (Cons p ps)
    then show ?case by (cases p) (auto simp: kv_keys_def image_iff)
  qed simp
  then show "ud_ok d \<Longrightarrow> ?thesis" by (simp add: ud_ok_def ud_find_def)
qed

lemma reported_name: "reported_at x d \<Longrightarrow> ud_find d k = Some v \<Longrightarrow> map lower k = x \<Longrightarrow> k = x \<and> \<not> own_var k \<and> deviceAliasOf k = None"
  using kv_find_None [of "ud_parameters d" k] by (auto simp: reported_at_def list_all_iff ud_find_def)

lemma find_override: "overrides_ok s \<Longrightarrow> findOverride s k = Some w \<longleftrightarrow> w \<in> set (overrides s) \<and> map lower (no_key w) = map lower k"
proof (cases "ns_overrides s")
  case (Some vs)
  assume "overrides_ok s"
  then have "distinct (lower_keys vs)" by (simp add: Some overrides_ok_def checkList_ok)
  then show ?thesis
    unfolding findOverride_def no_find_def overrides_def Some option.case
    using no_find_in_self [of vs w k] no_find_in_SomeD [of vs k w] by blast
qed (simp add: findOverride_def no_find_def overrides_def)

lemma starts_lower: "starts_with (map lower k) p \<Longrightarrow> map lower p = p \<Longrightarrow> startsWithIgnoreCase (Some k) (Some p)"
  by (simp add: startsWith_lower starts_with_def take_map)

lemma lower_names:
  "map lower ''ups.status'' = ''ups.status''" "map lower ''ups.status.'' = ''ups.status.''"
  "map lower ''device.type'' = ''device.type''" "map lower OVERRIDE_PARAM_PREFIX = OVERRIDE_PARAM_PREFIX"
  "map lower ''driver.parameter.'' = ''driver.parameter.''"
  by code_simp+

lemma prefix_parameter: "starts_with k OVERRIDE_PARAM_PREFIX \<Longrightarrow> starts_with k ''driver.parameter.''"
proof -
  assume "starts_with k OVERRIDE_PARAM_PREFIX"
  then obtain t where "k = ''driver.parameter.'' @ ''override.'' @ t"
    by (elim starts_withE) (simp add: OVERRIDE_PARAM_PREFIX_def)
  then show ?thesis by (simp only: starts_with_append)
qed

lemma override_key:
  assumes "overrides_ok s" "w \<in> set (overrides s)"
  shows "\<not> own_var (map lower (no_key w)) \<and> \<not> isInternalStatusKey (map lower (no_key w))"
proof -
  have "checkEntry w = OvOk"
    using assms by (auto simp: overrides_ok_def overrides_def checkList_ok list_all_iff split: option.splits)
  then have "\<not> isProtectedKey (Some (no_key w))" by (simp add: checkEntry_key checkKey_unprotected)
  then show ?thesis
    unfolding isProtectedKey_def own_var_def isInternalStatusKey_def
    using starts_lower [OF _ lower_names(2)] starts_lower [OF _ lower_names(5)] prefix_parameter lower_names(1,3)
    by (auto simp: no_equals_lower)
qed

lemma listed_data:
  assumes "reported_at x d" "overrides_ok s" "map lower x = x"
  shows "(\<exists>n. map lower n = x \<and> (n, v) \<in> set (data_vars s d)) \<longleftrightarrow>
    \<not> isInternalStatusKey x \<and> (\<exists>y. ud_find d x = Some y \<and> v = (case findOverride s x of Some w \<Rightarrow> no_value w | None \<Rightarrow> y))"
    (is "?l \<longleftrightarrow> ?r")
proof
  assume ?l
  then obtain n k y where n: "map lower n = x" "(k, y) \<in> set (ud_parameters d)" "\<not> isInternalStatusKey k"
      and e: "(n, v) = (case findOverride s k of Some w \<Rightarrow> (no_key w, no_value w) | None \<Rightarrow> (k, y))"
    by (auto simp: data_vars_def)
  have k: "ud_find d k = Some y" using n(2) assms(1) by (simp add: in_params reported_at_def)
  have "map lower k = x"
  proof (cases "findOverride s k")
    case (Some w)
    with find_override [OF assms(2), of k w] e n(1) show ?thesis by simp
  qed (use e n(1) in simp)
  then have "k = x" using reported_name [OF assms(1) k] by simp
  with k e n(3) show ?r by (auto split: option.splits)
next
  assume ?r
  then obtain y where y: "\<not> isInternalStatusKey x" "(x, y) \<in> set (ud_parameters d)"
      and v: "v = (case findOverride s x of Some w \<Rightarrow> no_value w | None \<Rightarrow> y)"
    using assms(1) by (auto simp: in_params reported_at_def)
  then have "(case findOverride s x of Some w \<Rightarrow> (no_key w, no_value w) | None \<Rightarrow> (x, y)) \<in> set (data_vars s d)"
    by (force simp: data_vars_def)
  then show ?l
  proof (cases "findOverride s x")
    case None
    with \<open>_ \<in> set (data_vars s d)\<close> v assms(3) show ?l by (intro exI [of _ x]) simp
  next
    case (Some w)
    with find_override [OF assms(2), of x w] assms(3) \<open>_ \<in> set (data_vars s d)\<close> v show ?l
      by (intro exI [of _ "no_key w"]) simp
  qed
qed

lemma listed_overrides:
  assumes "overrides_ok s" "map lower x = x"
  shows "(\<exists>n. map lower n = x \<and> (n, v) \<in> set (override_vars s d)) \<longleftrightarrow>
    ((\<exists>w. findOverride s x = Some w \<and> v = no_value w) \<and> \<not> ud_hasKey d x \<and> deviceAliasOf x = None) \<or>
    (\<exists>k w. x = OVERRIDE_PARAM_PREFIX @ k \<and> map lower k = k \<and> findOverride s k = Some w \<and> v = no_value w)" (is "?l \<longleftrightarrow> ?r")
proof -
  have set: "set (override_vars s d) =
      {(no_key w, no_value w) | w. w \<in> set (overrides s) \<and> \<not> ud_hasKey d (map lower (no_key w)) \<and> deviceAliasOf (map lower (no_key w)) = None} \<union>
      {(OVERRIDE_PARAM_PREFIX @ no_key w, no_value w) | w. w \<in> set (overrides s)}"
    by (auto simp: override_vars_def overrides_def Let_def split: option.splits)
  have pre: "map lower (OVERRIDE_PARAM_PREFIX @ k) = OVERRIDE_PARAM_PREFIX @ map lower k" for k
    by (simp add: lower_names)
  have one: "(\<exists>w. w \<in> set (overrides s) \<and> map lower (no_key w) = x \<and> v = no_value w) \<longleftrightarrow> (\<exists>w. findOverride s x = Some w \<and> v = no_value w)"
    using find_override [OF assms(1), of x] assms(2) by auto
  have two: "(\<exists>w. w \<in> set (overrides s) \<and> OVERRIDE_PARAM_PREFIX @ map lower (no_key w) = x \<and> v = no_value w) \<longleftrightarrow>
      (\<exists>k w. x = OVERRIDE_PARAM_PREFIX @ k \<and> map lower k = k \<and> findOverride s k = Some w \<and> v = no_value w)" (is "?a \<longleftrightarrow> ?b")
  proof
    assume ?a
    then obtain w where "w \<in> set (overrides s)" "OVERRIDE_PARAM_PREFIX @ map lower (no_key w) = x" "v = no_value w" by blast
    with find_override [OF assms(1), of "map lower (no_key w)" w] show ?b
      by (intro exI [of _ "map lower (no_key w)"] exI [of _ w]) (simp add: comp_def)
  next
    assume ?b
    then show ?a using find_override [OF assms(1)] by fastforce
  qed
  have "?l \<longleftrightarrow> (\<exists>w. w \<in> set (overrides s) \<and> map lower (no_key w) = x \<and> v = no_value w) \<and> \<not> ud_hasKey d x \<and> deviceAliasOf x = None \<or>
      (\<exists>w. w \<in> set (overrides s) \<and> OVERRIDE_PARAM_PREFIX @ map lower (no_key w) = x \<and> v = no_value w)"
  proof (intro iffI; elim disjE exE conjE)
    fix w
    assume "w \<in> set (overrides s)" "OVERRIDE_PARAM_PREFIX @ map lower (no_key w) = x" "v = no_value w"
    then show ?l unfolding set by (intro exI [of _ "OVERRIDE_PARAM_PREFIX @ no_key w"]) (auto simp only: pre)
  qed (unfold set, auto simp only: pre)
  then show ?thesis unfolding one two .
qed

lemma alias_names: "deviceAliasOf a = Some b \<longleftrightarrow> (a, b) \<in> set device_aliases"
  by (auto simp: deviceAliasOf_def device_aliases_def)

lemma listed_aliases: "(n, v) \<in> set (alias_vars s d) \<longleftrightarrow> deviceAliasOf n \<noteq> None \<and> resolveVar s d n = Some v"
  by (auto simp: alias_vars_def alias_names split: option.splits)

lemma alias_lower: "deviceAliasOf n \<noteq> None \<Longrightarrow> map lower n = n"
proof -
  have "list_all (\<lambda>p. map lower (fst p) = fst p) device_aliases" by code_simp
  then show "deviceAliasOf n \<noteq> None \<Longrightarrow> ?thesis" by (auto simp: list_all_iff alias_names)
qed

lemma status_names:
  "\<not> isInternalStatusKey ''ups.status''" "\<not> isInternalStatusKey ''device.type''"
  "\<not> starts_with ''ups.status'' OVERRIDE_PARAM_PREFIX" "\<not> starts_with ''device.type'' OVERRIDE_PARAM_PREFIX"
  "deviceAliasOf ''ups.status'' = None" "deviceAliasOf ''device.type'' = None"
  by code_simp+

lemma alias_own: "deviceAliasOf x \<noteq> None \<Longrightarrow> \<not> own_var x \<and> \<not> isInternalStatusKey x"
proof -
  have "list_all (\<lambda>p. \<not> own_var (fst p) \<and> \<not> isInternalStatusKey (fst p)) device_aliases" by code_simp
  then show "deviceAliasOf x \<noteq> None \<Longrightarrow> ?thesis" by (auto simp: list_all_iff alias_names)
qed

lemma prefix_not_internal: "\<not> isInternalStatusKey (OVERRIDE_PARAM_PREFIX @ k)"
  by (simp add: isInternalStatusKey_def starts_with_def OVERRIDE_PARAM_PREFIX_def)

text \<open>The sources of a line of LIST VAR, and what GET VAR makes of each of them.\<close>

lemma listed_parts:
  assumes "ns_ups s = Some u" "d = us_data u (ns_source s)" "map lower y = y"
  shows "(\<exists>n. map lower n = y \<and> (n, v) \<in> set (list_vars u s)) \<longleftrightarrow>
      (y = ''ups.status'' \<and> v = status_text s) \<or> (y = ''device.type'' \<and> v = ''ups'') \<or>
      (deviceAliasOf y \<noteq> None \<and> resolveVar s d y = Some v) \<or>
      (\<exists>n. map lower n = y \<and> (n, v) \<in> set (data_vars s d)) \<or> (\<exists>n. map lower n = y \<and> (n, v) \<in> set (override_vars s d))" (is "_ \<longleftrightarrow> ?l")
proof -
  have st: "status_text s = us_status u (ns_source s)" by (simp add: status_text_def assms(1))
  have al: "(\<exists>n. map lower n = y \<and> (n, v) \<in> set (alias_vars s d)) \<longleftrightarrow> deviceAliasOf y \<noteq> None \<and> resolveVar s d y = Some v"
    unfolding listed_aliases
  proof (intro iffI; elim exE conjE)
    fix n
    assume "map lower n = y" "deviceAliasOf n \<noteq> None" "resolveVar s d n = Some v"
    with alias_lower [of n] show "deviceAliasOf y \<noteq> None \<and> resolveVar s d y = Some v" by simp
  qed (use assms(3) in blast)
  have "(\<exists>n. map lower n = y \<and> (n, v) \<in> set (list_vars u s)) \<longleftrightarrow>
      (\<exists>n. map lower n = y \<and> (n = ''ups.status'' \<and> v = status_text s \<or> n = ''device.type'' \<and> v = ''ups'')) \<or>
      (\<exists>n. map lower n = y \<and> (n, v) \<in> set (alias_vars s d)) \<or>
      (\<exists>n. map lower n = y \<and> (n, v) \<in> set (data_vars s d)) \<or> (\<exists>n. map lower n = y \<and> (n, v) \<in> set (override_vars s d))"
    unfolding list_vars_def Let_def assms(2) [symmetric] st by auto
  also have "(\<exists>n. map lower n = y \<and> (n = ''ups.status'' \<and> v = status_text s \<or> n = ''device.type'' \<and> v = ''ups'')) \<longleftrightarrow>
      (y = ''ups.status'' \<and> v = status_text s) \<or> (y = ''device.type'' \<and> v = ''ups'')"
    using lower_names(1,3) by metis
  finally show ?thesis unfolding al disj_assoc .
qed

lemma resolved_parts:
  assumes "overrides_ok s" "reported_at y d" "map lower y = y"
  shows "((y = ''ups.status'' \<and> v = status_text s) \<or> (y = ''device.type'' \<and> v = ''ups'') \<or>
      (deviceAliasOf y \<noteq> None \<and> resolveVar s d y = Some v) \<or>
      (\<exists>n. map lower n = y \<and> (n, v) \<in> set (data_vars s d)) \<or> (\<exists>n. map lower n = y \<and> (n, v) \<in> set (override_vars s d))) \<longleftrightarrow> resolveVar s d y = Some v"
proof -
  note data = listed_data [OF assms(2,1,3), of v]
  note over = listed_overrides [OF assms(1,3), of v d]
  have none: "ud_find d y = None" if "own_var y \<or> deviceAliasOf y \<noteq> None"
    using reported_name [OF assms(2), of y] assms(3) that by (cases "ud_find d y") auto
  have free: "findOverride s y = None" if "own_var y \<or> isInternalStatusKey y"
  proof (cases "findOverride s y")
    case (Some w)
    with find_override [OF assms(1), of y w] override_key [OF assms(1), of w] that assms(3) show ?thesis by simp
  qed
  consider (internal) "isInternalStatusKey y" | (status) "y = ''ups.status''" | (type) "y = ''device.type''"
    | (param) k where "y = OVERRIDE_PARAM_PREFIX @ k" "\<not> isInternalStatusKey y" "y \<noteq> ''ups.status''" "y \<noteq> ''device.type''"
    | (other) "\<not> isInternalStatusKey y" "\<not> own_var y"
    by (auto simp: own_var_def elim: starts_withE)
  then show ?thesis
  proof cases
    case internal
    then have "\<nexists>k. y = OVERRIDE_PARAM_PREFIX @ k" using prefix_not_internal by blast
    with internal show ?thesis
      unfolding data over using free status_names(1,2) by (auto simp: resolveVar_def)
  next
    case status
    then have "own_var y" by (simp add: own_var_def)
    then show ?thesis
      unfolding data over using none free status_names status by (auto simp: resolveVar_def)
  next
    case type
    then have "own_var y" by (simp add: own_var_def)
    then show ?thesis
      unfolding data over using none free status_names type by (auto simp: resolveVar_def)
  next
    case param
    then have o: "own_var y" by (simp add: own_var_def)
    have k: "map lower k = k" using assms(3) param(1) lower_names(4) by simp
    from o have "deviceAliasOf y = None" using alias_own by blast
    then show ?thesis
      unfolding data over using none free o param k by (auto simp: resolveVar_def)
  next
    case other
    then have "\<nexists>k. y = OVERRIDE_PARAM_PREFIX @ k" "y \<noteq> ''ups.status''" "y \<noteq> ''device.type''" "\<not> starts_with y OVERRIDE_PARAM_PREFIX"
      by (auto simp: own_var_def)
    then show ?thesis
      unfolding data over using none other
      by (auto simp: resolveVar_def ud_hasKey_find ud_get_def ud_find_def split: option.splits)
  qed
qed

text \<open>C9: LIST VAR and GET VAR agree on a name. With overrides the page accepts, and when what the UPS publishes
  under the name is published once, in lower case, and is not a name of the server's own, LIST VAR prints a value
  under the name, whatever its case, exactly when GET VAR answers that value for it: it is not
  listed and unreadable, nor readable and left out, overrides, aliases and the driver parameters of the
  overrides included. A name published in capitals, as some of the MGE table, is listed and not answered
  (\<open>capital_name_unanswered\<close>); it does not disturb the others.\<close>

theorem list_var_agrees:
  assumes "overrides_ok s" "reported_at (map lower x) (us_data u (ns_source s))" "ns_ups s = Some u"
  shows "(\<exists>n. map lower n = map lower x \<and> (n, v) \<in> set (list_vars u s)) \<longleftrightarrow>
    resolveVar s (us_data u (ns_source s)) (map lower x) = Some v"
proof -
  define d where "d = us_data u (ns_source s)"
  have "map lower (map lower x) = map lower x" by (simp add: comp_def)
  then show ?thesis
    using listed_parts [OF assms(3) d_def, of "map lower x" v] resolved_parts [OF assms(1), of "map lower x" d v] assms(2)
    by (simp add: d_def)
qed

text \<open>A server with an override of the model and a variable of its own, before a UPS with two values.\<close>

definition sample_source :: "ups_data ups_source" where
  "sample_source = \<lparr>us_data = (\<lambda>d. d), us_status = (\<lambda>d. ''OL''), us_connected = (\<lambda>d. True), us_stale = (\<lambda>d. False),
     us_commands = (\<lambda>d. []), us_execute = (\<lambda>n p d. (CmdNotSupported, d)), us_writable = (\<lambda>d. ([], d)),
     us_set = (\<lambda>n v d. (SetUnknown, d))\<rparr>"

definition sample_data :: ups_data where
  "sample_data = ud_set (ud_set ud_new ''ups.model'' ''Pro 900'') ''battery.charge'' ''100''"

definition sample_server :: "ups_data nut_server" where
  "sample_server = setOverrides (Some [\<lparr>no_key = ''Ups.Model'', no_value = [CHR 0x22] @ ''Rack'' @ [CHR 0x22, CHR 0x5C] @ ''A'', no_description = []\<rparr>,
       \<lparr>no_key = ''battery.date'', no_value = ''2026-01-01'', no_description = []\<rparr>])
     (server_begin \<lparr>nc_username = ''admin'', nc_password = ''secret'', nc_ups_name = []\<rparr> (Some sample_source)
       (server_new ''dev'' (\<lambda>n. 0) sample_data))"

lemma sample_ok: "overrides_ok sample_server" "reported_at ''ups.model'' sample_data" "ns_ups sample_server = Some sample_source"
    "us_data sample_source (ns_source sample_server) = sample_data"
proof -
  show "overrides_ok sample_server" by code_simp
  show "reported_at ''ups.model'' sample_data" by code_simp
  show "ns_ups sample_server = Some sample_source" by (simp add: sample_server_def setOverrides_def server_begin_def)
  show "us_data sample_source (ns_source sample_server) = sample_data"
    by (simp add: sample_server_def setOverrides_def server_begin_def server_new_def sample_source_def)
qed

theorem list_var_agrees_witness:
  "(''Ups.Model'', [CHR 0x22] @ ''Rack'' @ [CHR 0x22, CHR 0x5C] @ ''A'') \<in> set (list_vars sample_source sample_server) \<and>
   resolveVar sample_server sample_data ''device.model'' = Some ([CHR 0x22] @ ''Rack'' @ [CHR 0x22, CHR 0x5C] @ ''A'') \<and>
   (\<exists>n. map lower n = ''ups.model'' \<and> (n, [CHR 0x22] @ ''Rack'' @ [CHR 0x22, CHR 0x5C] @ ''A'') \<in> set (list_vars sample_source sample_server))"
proof -
  have 1: "(''Ups.Model'', [CHR 0x22] @ ''Rack'' @ [CHR 0x22, CHR 0x5C] @ ''A'') \<in> set (list_vars sample_source sample_server)"
    and 2: "resolveVar sample_server sample_data ''device.model'' = Some ([CHR 0x22] @ ''Rack'' @ [CHR 0x22, CHR 0x5C] @ ''A'')"
    and 3: "resolveVar sample_server sample_data (map lower ''ups.model'') = Some ([CHR 0x22] @ ''Rack'' @ [CHR 0x22, CHR 0x5C] @ ''A'')"
    and 4: "map lower ''ups.model'' = ''ups.model''"
    by code_simp+
  show ?thesis
    using list_var_agrees [of sample_server "''ups.model''" sample_source "[CHR 0x22] @ ''Rack'' @ [CHR 0x22, CHR 0x5C] @ ''A''"]
    unfolding sample_ok 4 using sample_ok 1 2 3 [unfolded 4] by blast
qed

theorem get_var_reads_back_witness:
  "\<exists>reply. processCommand 0 0 (written_line [(False, ''GET''), (False, ''VAR''), (False, ''ups''), (True, ''ups.model'')]) sample_server
       = (msg reply, noted 0 (written_line [(False, ''GET''), (False, ''VAR''), (False, ''ups''), (True, ''ups.model'')]) sample_server) \<and>
     splitTokens reply = [''VAR'', ''ups'', ''ups.model'', [CHR 0x22] @ ''Rack'' @ [CHR 0x22, CHR 0x5C] @ ''A'']"
proof -
  have 1: "\<not> us_stale sample_source (ns_source sample_server)" "same_ups sample_server ''ups''"
    "plain_word ''ups''" "plain_word ''ups.model''"
    "resolveVar sample_server sample_data (map lower ''ups.model'') = Some ([CHR 0x22] @ ''Rack'' @ [CHR 0x22, CHR 0x5C] @ ''A'')"
    by code_simp+
  show ?thesis
    by (rule get_var_reads_back [OF sample_ok(3) 1(1,2) _ 1(3,4)]) (use 1(5) sample_ok(4) in simp)
qed

text \<open>A name published with capital letters is listed, and GET VAR does not know it.\<close>

lemma capital_name_unanswered:
  assumes "map lower k \<noteq> k" "deviceAliasOf (map lower k) = None" "findOverride s (map lower k) = None"
    and "ud_find d (map lower k) = None" "\<not> own_var (map lower k)" "(k, v) \<in> set (ud_parameters d)" "\<not> isInternalStatusKey k"
    and "findOverride s k = None"
  shows "(k, v) \<in> set (data_vars s d) \<and> resolveVar s d (map lower k) = None"
  using assms by (force simp: data_vars_def resolveVar_def own_var_def ud_hasKey_find)

end
