(* ===== verification/NUTAccess.thy ===== *)
theory NUTAccess
  imports NUTReplies
begin

text \<open>
  The server over time: the states it can reach, what a session always satisfies, and that no call
  ever reaches the UPS without the credentials.
\<close>

section \<open>The states it can reach\<close>

text \<open>The source changes by itself between the passes, and the page may replace the overrides.\<close>

inductive served :: "'s nut_server \<Rightarrow> 's nut_server \<Rightarrow> bool" for s0 where
  start: "served s0 s0"
| pass: "served s0 s \<Longrightarrow> served s0 (snd (server_loop now linked client sockets s))"
| source: "served s0 s \<Longrightarrow> served s0 (s\<lparr>ns_source := src\<rparr>)"
| page: "served s0 s \<Longrightarrow> served s0 (setOverrides vs s)"
| forget: "served s0 s \<Longrightarrow> served s0 (clearTracking s)"
| reset: "served s0 s \<Longrightarrow> served s0 (resetSessions now s)"

section \<open>What a session satisfies\<close>

text \<open>A request that carries the word after its command.\<close>

definition said :: "string \<Rightarrow> string \<Rightarrow> string \<Rightarrow> bool" where
  "said cmd arg line \<longleftrightarrow> (let t = splitTokens line in 2 \<le> length t \<and> map upper (t ! 0) = cmd \<and> t ! 1 = arg)"

definition logged_in :: "nut_config \<Rightarrow> string list \<Rightarrow> bool" where
  "logged_in cfg ls \<longleftrightarrow> list_ex (said ''PASSWORD'' (nc_password cfg)) ls \<and>
     (nc_username cfg \<noteq> [] \<longrightarrow> list_ex (said ''USERNAME'' (nc_username cfg)) ls)"

definition line_char :: "char \<Rightarrow> bool" where
  "line_char c \<longleftrightarrow> 32 \<le> ord c \<and> ord c \<le> 126"

definition session_ok :: "nut_config \<Rightarrow> nut_session \<Rightarrow> bool" where
  "session_ok cfg c \<longleftrightarrow> length (cs_buffer c) \<le> 256 \<and> list_all line_char (cs_buffer c) \<and>
     (cs_active c \<or> c = session_closed) \<and>
     (cs_username c \<noteq> [] \<longrightarrow> list_ex (said ''USERNAME'' (cs_username c)) (cs_lines c)) \<and>
     (cs_authenticated c \<longrightarrow> cs_passwordSet c \<and> logged_in cfg (cs_lines c))"

definition server_ok :: "'s nut_server \<Rightarrow> bool" where
  "server_ok s \<longleftrightarrow> length (ns_sessions s) = NUT_MAX_CLIENTS \<and> list_all (session_ok (ns_config s)) (ns_sessions s) \<and>
     tracking_ok (ns_tracking s) \<and>
     (auth_required s \<longrightarrow> list_all (\<lambda>(ls, c). logged_in (ns_config s) ls) (ns_calls s))"

lemma logged_in_more: "logged_in cfg ls \<Longrightarrow> logged_in cfg (ls @ ms)"
  by (auto simp: logged_in_def)

lemma session_ok_closed: "session_ok cfg session_closed"
  by (simp add: session_ok_def session_closed_def)

lemma server_ok_session: "server_ok s \<Longrightarrow> slot < NUT_MAX_CLIENTS \<Longrightarrow> session_ok (ns_config s) (session s slot)"
  by (simp add: server_ok_def session_def list_all_length)

lemma server_ok_on_session:
  assumes "server_ok s" "slot < NUT_MAX_CLIENTS" "session_ok (ns_config s) (f (session s slot))"
  shows "server_ok (on_session slot f s)"
  using assms
  by (auto simp: server_ok_def on_session_def session_def auth_required_def list_all_length nth_list_update)

text \<open>Most operations change neither the sessions nor the calls.\<close>

definition keeps :: "'s nut_server \<Rightarrow> 's nut_server \<Rightarrow> bool" where
  "keeps s t \<longleftrightarrow> ns_config t = ns_config s \<and> ns_ups t = ns_ups s \<and> ns_sessions t = ns_sessions s \<and> ns_calls t = ns_calls s \<and>
     (tracking_ok (ns_tracking s) \<longrightarrow> tracking_ok (ns_tracking t))"

lemma keeps_refl [simp, intro]: "keeps s s"
  by (simp add: keeps_def)

lemma keeps_trans: "keeps s t \<Longrightarrow> keeps t u \<Longrightarrow> keeps s u"
  by (simp add: keeps_def)

lemma keeps_ok: "keeps s t \<Longrightarrow> server_ok s \<Longrightarrow> server_ok t"
  by (simp add: keeps_def server_ok_def auth_required_def)

lemma keeps_session: "keeps s t \<Longrightarrow> session t slot = session s slot"
  by (simp add: keeps_def session_def)

lemma keeps_basic [simp, intro]:
  "keeps s (say level line s)" "keeps s (s\<lparr>ns_source := src\<rparr>)" "keeps s (setOverrides vs s)"
  "keeps s (snd (writable s))" "keeps s (snd (rejectSet slot var value err s))" "keeps s (snd (replyTracking now st s))"
  by (auto simp: keeps_def say_def setOverrides_def writable_def rejectSet_def replyTracking_def Let_def split_beta
      tracking_ok_add split: option.splits)

lemma keeps_answer: "keeps s (snd r) \<Longrightarrow> keeps s (snd (answer refused r s))"
  by (simp add: answer_def split: option.split)

lemma keeps_list: "keeps s (snd (cmd_list tokens s))"
proof -
  have w: "keeps s (snd (let (rw, t) = writable s in (f rw t, t)))" for f :: "rw_variable list \<Rightarrow> 's nut_server \<Rightarrow> string" and s :: "'s nut_server"
    using keeps_basic(4) [of s] by (simp add: split_beta Let_def)
  have "keeps s (snd (list_var tokens s))" "keeps s (snd (list_cmd sub tokens s))" for sub
    unfolding list_var_def list_cmd_def Let_def by (intro keeps_answer; simp)+
  moreover have "keeps s (snd (list_rw tokens s))" "keeps s (snd (list_enum sub tokens s))" for sub
    unfolding list_rw_def list_enum_def Let_def
    by (intro keeps_answer; use keeps_basic(4) [of s] in \<open>simp add: split_beta\<close>)+
  ultimately show ?thesis by (simp add: cmd_list_def Let_def)
qed

lemma keeps_get: "keeps s (snd (cmd_get now slot tokens s))"
proof -
  have "keeps s (snd (get_type tokens s))"
    using keeps_basic(4) [of s] by (simp add: get_type_def Let_def split_beta split: option.split)
  then show ?thesis unfolding cmd_get_def Let_def by (auto intro!: keeps_answer)
qed

section \<open>Every operation keeps it\<close>

text \<open>A call is recorded with the requests of its session, which is allowed to make it.\<close>

definition allowed :: "'s nut_server \<Rightarrow> nat \<Rightarrow> bool" where
  "allowed s slot \<longleftrightarrow> \<not> (auth_required s \<and> \<not> cs_authenticated (session s slot))"

lemma server_ok_call:
  assumes "server_ok s" "slot < NUT_MAX_CLIENTS" "allowed s slot"
  shows "server_ok (snd (source_set slot u name value s))" "server_ok (snd (source_execute slot u name param s))"
proof -
  have "auth_required s \<longrightarrow> logged_in (ns_config s) (cs_lines (session s slot))"
    using server_ok_session [OF assms(1,2)] assms(3) by (simp add: allowed_def session_ok_def)
  with assms(1) show "server_ok (snd (source_set slot u name value s))" "server_ok (snd (source_execute slot u name param s))"
    by (auto simp: server_ok_def source_set_def source_execute_def split_beta Let_def auth_required_def)
qed

lemma server_ok_tracked: "server_ok s \<Longrightarrow> server_ok (snd (if b then replyTracking now st s else (m, s)))"
  using keeps_ok [OF keeps_basic(6) [of s now st]] by simp

lemma server_ok_setVar:
  assumes "server_ok s" "slot < NUT_MAX_CLIENTS"
  shows "server_ok (snd (setVar now slot upsName var value s))"
proof -
  have reject: "server_ok (snd (rejectSet slot var value err t))" if "server_ok t" for err t
    using keeps_ok [OF keeps_basic(5) that] .
  obtain rw t where w: "writable s = (rw, t)" by fastforce
  have k: "keeps s t" using keeps_basic(4) [of s] by (simp add: w)
  then have t: "server_ok t" "allowed t slot = allowed s slot"
    using keeps_ok assms(1) keeps_session [OF k] by (auto simp: allowed_def auth_required_def keeps_def)
  have sent: "server_ok (snd (setVar_checked now slot u name value t))" if "allowed s slot" for u name
    using server_ok_tracked [OF server_ok_call(1) [OF t(1) assms(2), of u name "value"]] t(2) that
    by (simp add: setVar_checked_def Let_def split_beta)
  have say: "server_ok (say level line t)" for level line
    using keeps_ok [OF keeps_basic(1) t(1)] .
  show ?thesis
    unfolding setVar_def w Let_def case_prod_conv split_beta
    by (auto simp: allowed_def intro!: reject sent say assms(1) t(1) split: option.split override_check.split set_check.split)
qed

lemma server_ok_instcmd:
  assumes "server_ok s" "slot < NUT_MAX_CLIENTS"
  shows "server_ok (snd (cmd_instcmd now slot tokens s))"
proof (cases "allowed s slot")
  case True
  note call = server_ok_call(2) [OF assms True]
  show ?thesis
    using assms(1) keeps_ok [OF keeps_basic(6) call] call
    by (auto simp: cmd_instcmd_def Let_def split_beta split: option.split)
next
  case False
  then show ?thesis using assms(1) by (simp add: cmd_instcmd_def allowed_def)
qed

text \<open>The other requests change the session alone.\<close>

lemma session_onI: "slot < length (ns_sessions s) \<Longrightarrow> session (on_session slot f s) slot = f (session s slot)"
  by (simp add: session_def on_session_def)

lemma on_session_config [simp]: "ns_config (on_session slot f s) = ns_config s"
  by (simp add: on_session_def)

lemma server_ok_length: "server_ok s \<Longrightarrow> length (ns_sessions s) = NUT_MAX_CLIENTS"
  by (simp add: server_ok_def)

text \<open>While a request is served its line is the last one of an open session.\<close>

definition serving :: "nat \<Rightarrow> string \<Rightarrow> 's nut_server \<Rightarrow> bool" where
  "serving slot line s \<longleftrightarrow> server_ok s \<and> slot < NUT_MAX_CLIENTS \<and> cs_active (session s slot) \<and> line \<in> set (cs_lines (session s slot))"

lemma serving_ok: "serving slot line s \<Longrightarrow> server_ok s \<and> slot < NUT_MAX_CLIENTS"
  by (simp add: serving_def)

lemma serving_on_session:
  assumes "serving slot line s" "session_ok (ns_config s) (f (session s slot))"
    and "cs_active (f (session s slot))" "cs_lines (f (session s slot)) = cs_lines (session s slot)"
  shows "serving slot line (on_session slot f s)"
  using assms server_ok_on_session [of s slot f] server_ok_length [of s] by (simp add: serving_def session_onI)

lemma serving_session: "serving slot line s \<Longrightarrow> session_ok (ns_config s) (session s slot)"
  using server_ok_session by (auto simp: serving_def)

lemma server_ok_username:
  assumes "serving slot line s" "splitTokens line = tokens" "2 \<le> length tokens" "map upper (tokens ! 0) = ''USERNAME''"
  shows "server_ok (on_session slot (\<lambda>c. c\<lparr>cs_username := tokens ! 1, cs_usernameSet := True\<rparr>) s)"
proof (rule server_ok_on_session)
  have "said ''USERNAME'' (tokens ! 1) line" using assms(2-4) by (simp add: said_def)
  then have "list_ex (said ''USERNAME'' (tokens ! 1)) (cs_lines (session s slot))"
    using assms(1) by (auto simp: serving_def list_ex_iff)
  with serving_session [OF assms(1)] assms(1)
  show "session_ok (ns_config s) ((session s slot)\<lparr>cs_username := tokens ! 1, cs_usernameSet := True\<rparr>)"
    by (simp add: session_ok_def serving_def)
qed (use serving_ok [OF assms(1)] in simp_all)

lemma server_ok_password:
  assumes "serving slot line s" "splitTokens line = tokens" "map upper (tokens ! 0) = ''PASSWORD''"
  shows "server_ok (snd (cmd_password slot tokens s))"
proof (cases "length tokens < 2")
  case False
  define t where "t = on_session slot (\<lambda>c. c\<lparr>cs_passwordSet := True\<rparr>) s"
  have active: "cs_active (session s slot)" using assms(1) by (simp add: serving_def)
  have t: "serving slot line t"
    unfolding t_def by (rule serving_on_session [OF assms(1)])
      (use serving_session [OF assms(1)] active in \<open>simp_all add: session_ok_def\<close>)
  have set: "cs_passwordSet (session t slot)"
    using serving_ok [OF assms(1)] server_ok_length [of s] by (simp add: t_def session_onI)
  have in_session: "server_ok (on_session slot (\<lambda>c. c\<lparr>cs_authenticated := True\<rparr>) t)"
    if right: "cs_username (session t slot) = nc_username (ns_config t)" "tokens ! 1 = nc_password (ns_config t)"
  proof (rule server_ok_on_session)
    have "said ''PASSWORD'' (nc_password (ns_config t)) line" using assms(2,3) False right(2) by (simp add: said_def)
    then have "list_ex (said ''PASSWORD'' (nc_password (ns_config t))) (cs_lines (session t slot))"
      using t by (auto simp: serving_def list_ex_iff)
    with serving_session [OF t] right(1) t set
    show "session_ok (ns_config t) ((session t slot)\<lparr>cs_authenticated := True\<rparr>)"
      by (auto simp: session_ok_def serving_def logged_in_def)
  qed (use serving_ok [OF t] in simp_all)
  then show ?thesis
    using False serving_ok [OF t] by (simp add: cmd_password_def t_def [symmetric] Let_def)
qed (use serving_ok [OF assms(1)] in \<open>simp add: cmd_password_def\<close>)

lemma server_ok_close: "server_ok s \<Longrightarrow> server_ok (closeSession slot reason s)"
  unfolding closeSession_def
  by (auto intro!: server_ok_on_session session_ok_closed keeps_ok [OF keeps_basic(1)])

lemma server_ok_tracking_flag:
  assumes "serving slot line s"
  shows "server_ok (on_session slot (\<lambda>c. c\<lparr>cs_tracking := b\<rparr>) s)"
  by (rule server_ok_on_session) (use serving_ok [OF assms] serving_session [OF assms] assms in \<open>simp_all add: session_ok_def serving_def\<close>)

lemma server_ok_set:
  assumes "serving slot line s"
  shows "server_ok (snd (cmd_set now slot tokens s))"
  using serving_ok [OF assms] server_ok_tracking_flag [OF assms] server_ok_setVar [of s slot]
  by (simp add: cmd_set_def Let_def)

lemma server_ok_dispatch:
  assumes "serving slot line s" "splitTokens line = tokens" "cmd = map upper (tokens ! 0)"
  shows "server_ok (snd (dispatch now slot cmd tokens s))"
proof -
  have ok: "server_ok s" "slot < NUT_MAX_CLIENTS" using serving_ok [OF assms(1)] by simp_all
  have user: "server_ok (on_session slot (\<lambda>c. c\<lparr>cs_username := tokens ! 1, cs_usernameSet := True\<rparr>) s)"
    if "cmd = ''USERNAME''" "\<not> length tokens < 2"
    using server_ok_username [OF assms(1,2)] that assms(3) by simp
  have password: "server_ok (snd (cmd_password slot tokens s))" if "cmd = ''PASSWORD''"
    using server_ok_password [OF assms(1,2)] that assms(3) by simp
  have cases: "server_ok (snd (if c then a else b))"
    if "c \<Longrightarrow> server_ok (snd a)" "\<not> c \<Longrightarrow> server_ok (snd b)" for c and a b :: "string \<times> 'a nut_server"
    using that by simp
  have reply: "server_ok (snd (m, s))" for m :: string using ok(1) by simp
  show ?thesis
    unfolding dispatch_def
  proof (intro cases reply)
    show "server_ok (snd (msg ''OK Goodbye'', closeSession slot Logout s))" using server_ok_close [OF ok(1)] by simp
    show "server_ok (snd (cmd_list tokens s))" "server_ok (snd (cmd_get now slot tokens s))"
      using keeps_ok [OF _ ok(1)] keeps_list keeps_get by blast+
    show "server_ok (snd (cmd_instcmd now slot tokens s))" by (rule server_ok_instcmd [OF ok])
    show "server_ok (snd (cmd_set now slot tokens s))" by (rule server_ok_set [OF assms(1)])
  qed (use user password in simp_all)
qed

lemma serving_noted:
  assumes "server_ok s" "slot < NUT_MAX_CLIENTS" "cs_active (session s slot)"
  shows "serving slot line (noted slot line s)"
proof -
  have "session_ok (ns_config s) (session s slot)" by (rule server_ok_session [OF assms(1,2)])
  then have "session_ok (ns_config s) ((session s slot)\<lparr>cs_lines := cs_lines (session s slot) @ [line]\<rparr>)"
    using assms(3) by (auto simp: session_ok_def logged_in_more)
  then show ?thesis
    using assms server_ok_on_session [OF assms(1,2)] server_ok_length [OF assms(1)] by (simp add: serving_def noted_def session_onI)
qed

lemma server_ok_request:
  assumes "server_ok s" "slot < NUT_MAX_CLIENTS" "cs_active (session s slot)"
  shows "server_ok (snd (processCommand now slot line s))"
proof -
  note s = serving_noted [OF assms, of line]
  have reject: "server_ok (snd (rejectSet slot var val err (noted slot line s)))" for var val err
    using keeps_ok [OF keeps_basic(5)] serving_ok [OF s] by blast
  show ?thesis
    unfolding processCommand_def Let_def noted_def [symmetric]
    using serving_ok [OF s] reject server_ok_dispatch [OF s refl refl] by (simp split: option.split)
qed

section \<open>The bytes and the passes\<close>

lemma server_ok_session_edit:
  assumes "server_ok s" "slot < NUT_MAX_CLIENTS"
    and "\<And>c. session_ok (ns_config s) c \<Longrightarrow> c = session s slot \<Longrightarrow> session_ok (ns_config s) (f c)"
  shows "server_ok (on_session slot f s)"
  using server_ok_on_session [OF assms(1,2)] assms(3) server_ok_session [OF assms(1,2)] by blast

lemma server_ok_byte:
  assumes "server_ok s" "slot < NUT_MAX_CLIENTS" "cs_active (session s slot)"
  shows "server_ok (snd (readByte now slot c s))"
proof -
  define t where "t = on_session slot (\<lambda>d. d\<lparr>cs_lastActivity := now\<rparr>) s"
  have active: "cs_active (session t slot)"
    using assms server_ok_length [OF assms(1)] by (simp add: t_def session_onI)
  have t: "server_ok t"
    unfolding t_def by (rule server_ok_session_edit [OF assms(1,2)]) (use assms(3) in \<open>auto simp: session_ok_def\<close>)
  have cleared: "server_ok (on_session slot (\<lambda>d. d\<lparr>cs_buffer := []\<rparr>) r)" if "server_ok r" for r :: "'a nut_server"
    by (rule server_ok_session_edit [OF that assms(2)]) (auto simp: session_ok_def session_closed_def)
  have added: "server_ok (on_session slot (\<lambda>d. d\<lparr>cs_buffer := cs_buffer (session t slot) @ [c]\<rparr>) t)"
    if "length (cs_buffer (session t slot)) < 256" "32 \<le> ord c" "ord c \<le> 126"
    by (rule server_ok_session_edit [OF t assms(2)]) (use that active in \<open>auto simp: session_ok_def line_char_def\<close>)
  show ?thesis
    unfolding readByte_def t_def [symmetric] Let_def
    using t added cleared [OF server_ok_request [OF t assms(2) active]] by (auto simp: split_beta)
qed

lemma server_ok_bytes:
  "server_ok s \<Longrightarrow> slot < NUT_MAX_CLIENTS \<Longrightarrow> cs_active (session s slot) \<Longrightarrow> server_ok (snd (readBytes now slot cs s))"
proof (induction cs arbitrary: s)
  case (Cons c cs)
  obtain r t where b: "readByte now slot c s = (r, t)" by fastforce
  with server_ok_byte [OF Cons.prems, of now c] have "server_ok t" by simp
  with Cons.IH [of t] Cons.prems(2) b show ?case by (simp add: split_beta)
qed simp

lemma server_ok_slot: "server_ok s \<Longrightarrow> slot < NUT_MAX_CLIENTS \<Longrightarrow> server_ok (snd (serve_slot now slot socket s))"
  by (auto simp: serve_slot_def Let_def split_beta intro: server_ok_close server_ok_bytes)

lemma server_ok_slots:
  "server_ok s \<Longrightarrow> \<forall>i \<in> set slots. i < NUT_MAX_CLIENTS \<Longrightarrow> server_ok (snd (serve_slots now sockets slots s))"
proof (induction slots arbitrary: s)
  case (Cons i slots)
  obtain r t where b: "serve_slot now i (sockets i) s = (r, t)" by fastforce
  with server_ok_slot [of s i now "sockets i"] Cons.prems have "server_ok t" by simp
  with Cons.IH [of t] Cons.prems(2) b show ?case by (simp add: split_beta)
qed simp

lemma server_ok_open:
  assumes "server_ok s"
  shows "server_ok (snd (openSession linked ip now s))"
proof (cases "find (\<lambda>i. \<not> cs_active (session s i) \<or> \<not> linked i) [0..<NUT_MAX_CLIENTS]")
  case None
  have "server_ok (s\<lparr>ns_rejectsSinceLog := x\<rparr>)" "server_ok ((say level line s)\<lparr>ns_rejectLogged := b, ns_lastRejectLogMs := y, ns_rejectsSinceLog := x\<rparr>)" for x b y level line
    using assms keeps_ok [OF keeps_basic(1) assms, of level line] by (simp_all add: server_ok_def auth_required_def)
  then show ?thesis unfolding openSession_def None option.case by (simp add: Let_def)
next
  case (Some slot)
  then have "slot < NUT_MAX_CLIENTS" by (auto simp: find_Some_iff)
  then show ?thesis
    using assms unfolding openSession_def Some option.case
    by (auto simp: session_ok_def session_closed_def intro!: server_ok_on_session)
qed

lemma server_ok_summary: "server_ok s \<Longrightarrow> server_ok (logClientsSummary now s)"
proof -
  assume s: "server_ok s"
  have t: "server_ok (s\<lparr>ns_lastSummaryMs := x\<rparr>)" "server_ok (s\<lparr>ns_lastSummaryMs := x, ns_lastSummary := y\<rparr>)" for x y
    using s by (simp_all add: server_ok_def auth_required_def)
  from this(1) keeps_ok [OF keeps_basic(1) this(2)] s show ?thesis by (simp add: logClientsSummary_def Let_def)
qed

lemma server_ok_loop:
  assumes "server_ok s"
  shows "server_ok (snd (server_loop now linked client sockets s))"
proof -
  define t where "t = logClientsSummary now (s\<lparr>ns_tracking := tracking_cleanup now (ns_tracking s)\<rparr>)"
  have t: "server_ok t"
    unfolding t_def using assms by (intro server_ok_summary) (simp add: server_ok_def auth_required_def tracking_ok_cleanup)
  define r where "r = (case client of None \<Rightarrow> ([], t)
      | Some ip \<Rightarrow> (case openSession linked ip now t of (None, u) \<Rightarrow> (msg ''ERR FAILED - Max clients reached'', u) | (Some slot, u) \<Rightarrow> ([], u)))"
  have "server_ok (snd r)"
    using t server_ok_open [OF t, of linked _ now] by (auto simp: r_def split: option.split prod.split) (metis snd_conv)+
  then have "server_ok (snd (serve_slots now sockets [0..<NUT_MAX_CLIENTS] (snd r)))" by (rule server_ok_slots) simp
  then show ?thesis
    using assms by (simp add: server_loop_def Let_def t_def [symmetric] r_def [symmetric] split_beta)
qed

lemma server_ok_reset: "server_ok s \<Longrightarrow> server_ok (resetSessions now s)"
proof -
  have "server_ok (fold (\<lambda>i s. if cs_active (session s i) then closeSession i PeerClosed s else s) is s)" if "server_ok s" for s :: "'a nut_server" and "is"
    using that by (induction "is" arbitrary: s) (simp_all add: server_ok_close)
  then show "server_ok s \<Longrightarrow> ?thesis" by (simp add: resetSessions_def server_ok_def auth_required_def)
qed

lemma server_ok_forget: "server_ok s \<Longrightarrow> server_ok (clearTracking s)"
  by (auto simp: clearTracking_def server_ok_def auth_required_def tracking_ok_clear list_all_iff session_ok_def session_closed_def)

lemma server_ok_new: "server_ok (server_begin cfg ups (server_new version random src))"
  by (simp add: server_begin_def server_new_def server_ok_def tracking_ok_clear list_all_iff session_ok_closed)

lemma served_ok: "served s0 s \<Longrightarrow> server_ok s0 \<Longrightarrow> server_ok s"
  by (induction rule: served.induct)
    (simp_all add: server_ok_loop keeps_ok [OF keeps_basic(2)] keeps_ok [OF keeps_basic(3)] server_ok_forget server_ok_reset)

section \<open>The configuration stays\<close>

lemma config_answer: "ns_config (snd r) = ns_config s \<Longrightarrow> ns_config (snd (answer refused r s)) = ns_config s"
  by (simp add: answer_def split: option.split)

lemma config_basic [simp]:
  "ns_config (say level line s) = ns_config s" "ns_config (snd (writable s)) = ns_config s"
  "ns_config (snd (rejectSet slot var v err s)) = ns_config s" "ns_config (snd (replyTracking now st s)) = ns_config s"
  "ns_config (snd (source_set slot u name v s)) = ns_config s" "ns_config (snd (source_execute slot u name p s)) = ns_config s"
  "ns_config (snd (cmd_list tokens s)) = ns_config s" "ns_config (snd (cmd_get now slot tokens s)) = ns_config s"
  using keeps_basic(1,4,5,6) keeps_list keeps_get unfolding keeps_def
  by (blast | simp add: source_set_def source_execute_def split_beta Let_def)+

lemma config_setVar [simp]: "ns_config (snd (setVar now slot ups var v s)) = ns_config s"
proof -
  have "ns_config (snd (setVar_checked now slot u name v t)) = ns_config t" for u name and t :: "'a nut_server"
    by (simp add: setVar_checked_def Let_def split_beta)
  then show ?thesis
    by (simp add: setVar_def Let_def split_beta split: option.split set_check.split)
qed

lemma config_request [simp]: "ns_config (snd (processCommand now slot line s)) = ns_config s"
proof -
  have "ns_config (snd (cmd_password slot tokens t)) = ns_config t" "ns_config (closeSession slot r t) = ns_config t"
    "ns_config (snd (cmd_set now slot tokens t)) = ns_config t" "ns_config (snd (cmd_instcmd now slot tokens t)) = ns_config t"
    for tokens r and t :: "'a nut_server"
    by (simp_all add: cmd_password_def closeSession_def cmd_set_def cmd_instcmd_def Let_def split_beta split: option.split)
  then have "ns_config (snd (dispatch now slot cmd tokens t)) = ns_config t" for cmd tokens and t :: "'a nut_server"
    by (simp add: dispatch_def)
  then show ?thesis by (simp add: processCommand_def Let_def split: option.split)
qed

lemma config_close [simp]: "ns_config (closeSession slot r s) = ns_config s"
  by (simp add: closeSession_def)

lemma config_bytes [simp]: "ns_config (snd (readBytes now slot cs s)) = ns_config s"
proof (induction cs arbitrary: s)
  case (Cons c cs)
  have "ns_config (snd (readByte now slot c s)) = ns_config s"
    by (auto simp: readByte_def Let_def split_beta)
  with Cons show ?case by (simp add: split_beta Let_def)
qed simp

lemma config_slots [simp]: "ns_config (snd (serve_slots now sockets slots s)) = ns_config s"
proof (induction slots arbitrary: s)
  case (Cons i slots)
  have "ns_config (snd (serve_slot now i (sockets i) s)) = ns_config s"
    by (simp add: serve_slot_def split_beta Let_def)
  with Cons show ?case by (simp add: split_beta Let_def)
qed simp

lemma config_loop [simp]: "ns_config (snd (server_loop now linked client sockets s)) = ns_config s"
proof -
  have summary: "ns_config (logClientsSummary now t) = ns_config t" for t :: "'a nut_server"
    by (simp add: logClientsSummary_def Let_def)
  have "ns_config (snd (openSession linked ip now t)) = ns_config t" for ip and t :: "'a nut_server"
    unfolding openSession_def by (simp add: Let_def split: option.split)
  then have "ns_config (snd (case client of None \<Rightarrow> ([], t) | Some ip \<Rightarrow> (case openSession linked ip now t of
      (None, u) \<Rightarrow> (msg ''ERR FAILED - Max clients reached'', u) | (Some slot, u) \<Rightarrow> ([], u)))) = ns_config t" for t :: "'a nut_server"
    by (auto split: option.split prod.split) (metis snd_conv)+
  then show ?thesis by (simp add: server_loop_def Let_def split_beta summary)
qed

lemma config_others [simp]: "ns_config (clearTracking s) = ns_config s" "ns_config (resetSessions now s) = ns_config s"
proof -
  have "ns_config (fold (\<lambda>i s. if cs_active (session s i) then closeSession i PeerClosed s else s) is s) = ns_config s" for "is" and s :: "'a nut_server"
    by (induction "is" arbitrary: s) simp_all
  then show "ns_config (resetSessions now s) = ns_config s" by (simp add: resetSessions_def)
qed (simp add: clearTracking_def)

lemma served_config: "served s0 s \<Longrightarrow> ns_config s = ns_config s0"
  by (induction rule: served.induct) (simp_all add: setOverrides_def)

section \<open>Properties\<close>

text \<open>C19: nothing of a client outlives its session, and no request outgrows its buffer. In every state the
  server can reach there are eight slots; a slot that is free holds no credentials, no user name,
  no flag and no bytes; the bytes of a slot in use are at most 256 and printable; and a session
  counts as authenticated only after a PASSWORD request carried the configured password.\<close>

theorem sessions_hold_nothing:
  assumes "served (server_begin cfg ups (server_new version rnd src)) s" "slot < NUT_MAX_CLIENTS"
  shows "length (ns_sessions s) = 8 \<and>
    (\<not> cs_active (session s slot) \<longrightarrow> session s slot = session_closed) \<and>
    length (cs_buffer (session s slot)) \<le> 256 \<and> list_all line_char (cs_buffer (session s slot)) \<and>
    (cs_authenticated (session s slot) \<longrightarrow>
      cs_active (session s slot) \<and> list_ex (said ''PASSWORD'' (nc_password cfg)) (cs_lines (session s slot)))"
proof -
  have c: "nc_password (ns_config s) = nc_password cfg" using served_config [OF assms(1)] by (simp add: server_begin_def)
  have ok: "server_ok s" by (rule served_ok [OF assms(1) server_ok_new])
  from server_ok_session [OF this assms(2)] server_ok_length [OF this] show ?thesis
    by (auto simp: session_ok_def logged_in_def c session_closed_def NUT_MAX_CLIENTS_def)
qed

text \<open>C4: without the credentials nothing reaches the UPS. When a user name and a password are
  configured, every command and every write that the server ever passed to the UPS came from a
  session that had sent both of them, in whatever order clients connected, sent bytes, timed
  out and came back.\<close>

theorem calls_need_credentials:
  assumes "served (server_begin cfg ups (server_new version rnd src)) s"
    and "nc_username cfg \<noteq> []" "nc_password cfg \<noteq> []"
  shows "list_all (\<lambda>(ls, call). list_ex (said ''USERNAME'' (nc_username cfg)) ls \<and>
    list_ex (said ''PASSWORD'' (nc_password cfg)) ls) (ns_calls s)"
proof -
  have c: "ns_config s = cfg\<lparr>nc_ups_name := normalizeUpsName (nc_ups_name cfg)\<rparr>"
    using served_config [OF assms(1)] by (simp add: server_begin_def)
  have "server_ok s" by (rule served_ok [OF assms(1) server_ok_new])
  then show ?thesis
    using assms(2,3) by (auto simp: server_ok_def auth_required_def logged_in_def c list_all_iff)
qed

text \<open>A client logs in and mutes the beeper, in one pass over its bytes.\<close>

definition login_bytes :: string where
  "login_bytes = ''USERNAME admin'' @ [CHR 0x0A] @ ''PASSWORD secret'' @ [CHR 0x0A] @ ''INSTCMD ups beeper.mute'' @ [CHR 0x0A] @ ''VER''"

definition login_server :: "ups_data nut_server" where
  "login_server = snd (server_loop 1000 (\<lambda>i. False) (Some ''192.168.1.2'') (\<lambda>i. (i = 0, if i = 0 then login_bytes else []))
     (server_begin \<lparr>nc_username = ''admin'', nc_password = ''secret'', nc_ups_name = []\<rparr> (Some sample_source)
       (server_new ''dev'' (\<lambda>n. 0) sample_data)))"

lemma login_served: "served (server_begin \<lparr>nc_username = ''admin'', nc_password = ''secret'', nc_ups_name = []\<rparr> (Some sample_source)
       (server_new ''dev'' (\<lambda>n. 0) sample_data)) login_server"
  unfolding login_server_def by (intro served.pass served.start)

theorem sessions_hold_nothing_witness:
  "cs_buffer (session login_server 0) = ''VER'' \<and> cs_authenticated (session login_server 0) \<and>
   list_ex (said ''PASSWORD'' ''secret'') (cs_lines (session login_server 0))"
proof -
  have "cs_buffer (session login_server 0) = ''VER''" "cs_authenticated (session login_server 0)" by code_simp+
  with sessions_hold_nothing [OF login_served, of 0] show ?thesis by (simp add: NUT_MAX_CLIENTS_def)
qed

theorem calls_need_credentials_witness:
  "\<exists>ls. ns_calls login_server = [(ls, CallExecute ''beeper.mute'' None)] \<and>
     list_ex (said ''USERNAME'' ''admin'') ls \<and> list_ex (said ''PASSWORD'' ''secret'') ls"
proof -
  have "ns_calls login_server = [([''USERNAME admin'', ''PASSWORD secret'', ''INSTCMD ups beeper.mute''], CallExecute ''beeper.mute'' None)]"
    by code_simp
  with calls_need_credentials [OF login_served] show ?thesis by simp
qed

end
