(* ===== verification/HostServer.thy ===== *)
theory HostServer
  imports NUTAccess SetVariable
begin

text \<open>
  The NUT server in front of the USB host: what the server relies on of its source as a locale, the
  host as one, and what a refused request leaves on the bus.
\<close>

section \<open>What a source promises\<close>

text \<open>\<open>sent\<close> is what went out to the device. A command the source refuses sends nothing, and neither
  does listing the writable variables.\<close>

locale quiet_source =
  fixes u :: "'s ups_source"
    and sent :: "'s \<Rightarrow> 'r"
  assumes execute_refused: "fst (us_execute u n p s) \<noteq> CmdOk \<Longrightarrow> fst (us_execute u n p s) \<noteq> CmdFailed \<Longrightarrow>
      sent (snd (us_execute u n p s)) = sent s"
    and writable_sent: "sent (snd (us_writable u s)) = sent s"
begin

definition quiet :: "'s nut_server \<Rightarrow> 's nut_server \<Rightarrow> bool" where
  "quiet s t \<longleftrightarrow> sent (ns_source t) = sent (ns_source s) \<and> ns_ups t = ns_ups s"

lemma quiet_same: "ns_source t = ns_source s \<Longrightarrow> ns_ups t = ns_ups s \<Longrightarrow> quiet s t"
  by (simp add: quiet_def)

lemma quiet_basic [simp, intro]:
  "quiet s s" "quiet s (say level line s)" "quiet s (snd (rejectSet slot var v err s))" "quiet s (snd (replyTracking now st s))"
  "quiet s (on_session slot f s)" "quiet s (closeSession slot r s)" "quiet s (noted slot line s)"
  by (rule quiet_same; simp add: say_def rejectSet_def replyTracking_def on_session_def closeSession_def Let_def)+

lemma quiet_trans: "quiet s t \<Longrightarrow> quiet t r \<Longrightarrow> quiet s r"
  by (simp add: quiet_def)

lemma quiet_writable: "ns_ups s = Some u \<Longrightarrow> quiet s (snd (writable s))"
  by (simp add: quiet_def writable_def Let_def split_beta writable_sent)

lemma quiet_answer: "quiet s (snd r) \<Longrightarrow> quiet s (snd (answer refused r s))"
  by (simp add: answer_def split: option.split)

lemma quiet_list: "ns_ups s = Some u \<Longrightarrow> quiet s (snd (cmd_list tokens s))"
proof -
  assume u: "ns_ups s = Some u"
  have "quiet s (snd (list_var tokens s))" "quiet s (snd (list_cmd sub tokens s))" for sub
    unfolding list_var_def list_cmd_def Let_def by (intro quiet_answer; simp)+
  moreover have "quiet s (snd (list_rw tokens s))" "quiet s (snd (list_enum sub tokens s))" for sub
    unfolding list_rw_def list_enum_def Let_def
    by (intro quiet_answer; use quiet_writable [OF u] in \<open>simp add: split_beta\<close>)+
  ultimately show ?thesis by (simp add: cmd_list_def Let_def)
qed

lemma quiet_get: "ns_ups s = Some u \<Longrightarrow> quiet s (snd (cmd_get now slot tokens s))"
proof -
  assume u: "ns_ups s = Some u"
  have "quiet s (snd (get_type tokens s))"
    using quiet_writable [OF u] by (simp add: get_type_def Let_def split_beta split: option.split)
  then show ?thesis unfolding cmd_get_def Let_def by (auto intro!: quiet_answer)
qed

text \<open>A reply that refuses a request, whatever the reason but a failed command or write.\<close>

definition refuses :: "string \<Rightarrow> bool" where
  "refuses out \<longleftrightarrow> (\<exists>e. out = msg (''ERR '' @ e) \<and> e \<noteq> ''INSTCMD-FAILED'' \<and> e \<noteq> ''SET-FAILED'')"

definition honest :: "'s nut_server \<Rightarrow> string \<times> 's nut_server \<Rightarrow> bool" where
  "honest s r \<longleftrightarrow> (refuses (fst r) \<longrightarrow> quiet s (snd r))"

lemma msg_inject [simp]: "msg a = msg b \<longleftrightarrow> a = b"
  by (simp add: msg_def)

lemma not_refuses [simp]: "\<not> refuses (msg ''OK'')" "\<not> refuses (msg ''ERR SET-FAILED'')" "\<not> refuses (msg ''ERR INSTCMD-FAILED'')"
    "\<not> refuses (fst (replyTracking now st s))"
  by (auto simp: refuses_def replyTracking_def Let_def)

lemma honest_quiet: "quiet s (snd r) \<Longrightarrow> honest s r"
  by (simp add: honest_def)

lemma honest_if: "(c \<Longrightarrow> honest s a) \<Longrightarrow> (\<not> c \<Longrightarrow> honest s b) \<Longrightarrow> honest s (if c then a else b)"
  by simp

lemma honest_setVar:
  assumes "ns_ups s = Some u"
  shows "honest s (setVar now slot ups var value s)"
proof -
  obtain rw t where w: "writable s = (rw, t)" by fastforce
  have t: "quiet s t" using quiet_writable [OF assms] by (simp add: w)
  have checked: "honest s (setVar_checked now slot u n v t)" for n v
    by (simp add: honest_def setVar_checked_def Let_def split_beta)
  have "honest s (rejectSet slot var value err s)" for err by (rule honest_quiet) simp
  moreover have "honest s (rejectSet slot var value err t)" "honest s (rejectSet slot var value err (say l m t))" for err l m
    by (rule honest_quiet, use t quiet_trans quiet_basic(2,3) in blast)+
  ultimately show ?thesis
    unfolding setVar_def assms option.case w Let_def split_beta fst_conv snd_conv
    using checked by (auto split: set_check.split)
qed

lemma honest_instcmd:
  assumes "ns_ups s = Some u"
  shows "honest s (cmd_instcmd now slot tokens s)"
proof -
  define p where "p = (if 3 < length tokens then Some (tokens ! 3) else None)"
  obtain r t where e: "source_execute slot u (tokens ! 2) p s = (r, t)" by fastforce
  have q: "quiet s t" if "r \<noteq> CmdOk" "r \<noteq> CmdFailed"
    using e that execute_refused [of "Some (tokens ! 2)" p "ns_source s"]
    by (auto simp: source_execute_def quiet_def Let_def split_beta)
  have "honest s (case (if b then instcmdTrackingStatus r else None) of Some st \<Rightarrow> replyTracking now st t
      | None \<Rightarrow> (msg (case r of CmdOk \<Rightarrow> ''OK'' | CmdNotSupported \<Rightarrow> ''ERR CMD-NOT-SUPPORTED''
                         | CmdNotConnected \<Rightarrow> ''ERR DRIVER-NOT-CONNECTED'' | CmdFailed \<Rightarrow> ''ERR INSTCMD-FAILED''
                         | CmdInvalidArgument \<Rightarrow> ''ERR INVALID-ARGUMENT''), t))" for b
    using q by (cases r) (auto simp: honest_def instcmdTrackingStatus_def)
  moreover have "honest s (msg m, s)" for m by (rule honest_quiet) simp
  ultimately show ?thesis
    unfolding cmd_instcmd_def p_def [symmetric] e assms option.case Let_def case_prod_conv by simp
qed

lemma honest_request:
  assumes "ns_ups s = Some u"
  shows "honest s (processCommand now slot line s)"
proof -
  define t where "t = noted slot line s"
  have t: "quiet s t" "ns_ups t = Some u" by (simp_all add: t_def assms)
  have from_t: "honest s r" if "honest t r" for r using that t(1) quiet_trans by (auto simp: honest_def)
  have reply: "honest t (m, t)" "honest t (m, on_session slot f t)" "honest t (m, closeSession slot reason t)" for m f reason
    by (rule honest_quiet; simp)+
  have "quiet t (snd (cmd_password slot tokens t))" for tokens
    using quiet_trans [OF quiet_basic(5) quiet_basic(5)] by (simp add: cmd_password_def Let_def)
  then have "honest t (cmd_password slot tokens t)" for tokens by (rule honest_quiet)
  moreover have "honest t (cmd_set now slot tokens t)" for tokens
    unfolding cmd_set_def Let_def by (intro honest_if reply honest_setVar t(2))
  moreover have "honest t (cmd_list tokens t)" "honest t (cmd_get now slot tokens t)" for tokens
    by (rule honest_quiet, use quiet_list quiet_get t(2) in blast)+
  ultimately have d: "honest t (dispatch now slot cmd tokens t)" for cmd tokens
    unfolding dispatch_def by (intro honest_if reply honest_instcmd t(2))
  have "honest t (rejectSet slot var v err t)" for var v err by (rule honest_quiet) simp
  then show ?thesis
    unfolding processCommand_def Let_def t_def [symmetric] noted_def [symmetric]
    using d reply(1) by (auto intro!: from_t split: option.split)
qed

end

section \<open>The USB host as the source\<close>

definition host_source :: "(string \<Rightarrow> rat) \<Rightarrow> 'd usb_device \<Rightarrow> u32 \<Rightarrow> 'd usb_host ups_source" where
  "host_source toFloat io now = \<lparr>us_data = uh_data, us_status = getUPSStatusString toFloat, us_connected = uh_ready,
     us_stale = (\<lambda>h. isDataStale h now), us_commands = supportedCommands (host_port io now),
     us_execute = (\<lambda>n p. host_executeCommand io n p now), us_writable = getWritableVariables,
     us_set = (\<lambda>n v. host_setVariable io n v now)\<rparr>"

interpretation host_quiet: quiet_source "host_source toFloat io now" uh_sent
proof unfold_locales
  fix n p and s :: "'a usb_host"
  assume "fst (us_execute (host_source toFloat io now) n p s) \<noteq> CmdOk" "fst (us_execute (host_source toFloat io now) n p s) \<noteq> CmdFailed"
  then show "uh_sent (snd (us_execute (host_source toFloat io now) n p s)) = uh_sent s"
    using hc_unchanged [of "host_port io now" n p s]
    by (auto simp: host_source_def host_executeCommand_def note_command_def split: if_splits)
next
  fix s :: "'a usb_host"
  show "uh_sent (snd (us_writable (host_source toFloat io now) s)) = uh_sent s"
    by (auto simp: host_source_def getWritableVariables_def Let_def split_beta split: option.split)
qed

text \<open>C13: a refusal is the truth. When the server answers a request with an error other than a failed
  command or a failed write, whatever the request, the session and the state of the host, no
  report has gone out to the UPS for it.\<close>

theorem refused_request_sends_nothing:
  assumes "ns_ups s = Some (host_source toFloat io now)"
    and "fst (processCommand now slot line s) = msg (''ERR '' @ e)" "e \<noteq> ''INSTCMD-FAILED''" "e \<noteq> ''SET-FAILED''"
  shows "uh_sent (ns_source (snd (processCommand now slot line s))) = uh_sent (ns_source s)"
proof -
  have "host_quiet.refuses (fst (processCommand now slot line s))" using assms(2-4) by (auto simp: host_quiet.refuses_def)
  with host_quiet.honest_request [OF assms(1)] show ?thesis by (auto simp: host_quiet.honest_def host_quiet.quiet_def)
qed

text \<open>The host with one writable row is sent a text too long for the row.\<close>

definition auto_server :: "unit usb_host nut_server" where
  "auto_server = server_begin \<lparr>nc_username = [], nc_password = [], nc_ups_name = []\<rparr> (Some (host_source (\<lambda>t. 0) echo_device 1000))
     (server_new ''dev'' (\<lambda>n. 0) (auto_host\<lparr>uh_data := ud_set ud_new ''ups.start.auto'' ''no''\<rparr>))"

theorem refused_request_sends_nothing_witness:
  "fst (processCommand 1000 0 ''SET VAR ups ups.start.auto perhaps'' auto_server) = msg ''ERR TOO-LONG'' \<and>
   uh_sent (ns_source (snd (processCommand 1000 0 ''SET VAR ups ups.start.auto perhaps'' auto_server))) = []"
proof -
  have 1: "fst (processCommand 1000 0 ''SET VAR ups ups.start.auto perhaps'' auto_server) = msg (''ERR '' @ ''TOO-LONG'')" by code_simp
  have 2: "ns_ups auto_server = Some (host_source (\<lambda>t. 0) echo_device 1000)" "uh_sent (ns_source auto_server) = []"
    by (simp_all add: auto_server_def server_begin_def server_new_def auto_host_def)
  from refused_request_sends_nothing [OF 2(1) 1] 1 2(2) show ?thesis by simp
qed

end
