(* ===== verification/WebSessions.thy ===== *)
theory WebSessions
  imports Prelude
begin

text \<open>
  Sessions of the Web UI, \<open>lib/WebAuth/src/SessionTable.cpp\<close>: eight volatile slots with a timeout of
  thirty minutes and eight persistent ones kept in flash. Only the digest of a token is stored.
  The primitives and the flash store (\<open>AuthPlatform.h\<close>) are the operations \<open>auth_io\<close> on an unknown
  state \<open>'p\<close>.
\<close>

section \<open>The platform\<close>

record credential_record =
  cr_username :: string
  cr_salt :: "u8 list"
  cr_hash :: "u8 list"
  cr_iterations :: u32

record persistent_session =
  ps_hash :: "u8 list"
  ps_seq :: u32

text \<open>\<open>deriveKey\<close> fails with \<open>None\<close>, and so does a read of the store.\<close>

record 'p auth_io =
  ai_derive :: "string \<Rightarrow> u8 list \<Rightarrow> u32 \<Rightarrow> 'p \<Rightarrow> u8 list option \<times> 'p"
  ai_sha256 :: "u8 list \<Rightarrow> u8 list"
  ai_random :: "nat \<Rightarrow> 'p \<Rightarrow> u8 list \<times> 'p"
  ai_loadCredentials :: "'p \<Rightarrow> credential_record option"
  ai_saveCredentials :: "credential_record \<Rightarrow> 'p \<Rightarrow> bool \<times> 'p"
  ai_loadSessions :: "nat \<Rightarrow> 'p \<Rightarrow> persistent_session list option"
  ai_saveSessions :: "persistent_session list \<Rightarrow> 'p \<Rightarrow> bool \<times> 'p"

definition constantTimeEquals :: "u8 list \<Rightarrow> u8 list \<Rightarrow> nat \<Rightarrow> bool" where
  "constantTimeEquals a b len = (fold (\<lambda>i diff. or diff (xor (a ! i) (b ! i))) [0..<len] 0 = 0)"

section \<open>The table\<close>

definition kMaxSessions :: nat where "kMaxSessions = 8"
definition kMaxPersistentSessions :: nat where "kMaxPersistentSessions = 8"
definition kIdleTimeoutMs :: u32 where "kIdleTimeoutMs = 30 * 60 * 1000"
definition kTokenBytes :: nat where "kTokenBytes = 16"
definition kTokenLength :: nat where "kTokenLength = kTokenBytes * 2"

record session_slot =
  sl_hash :: "u8 list"
  sl_last_seen_ms :: u32
  sl_used :: bool

record persistent_slot =
  pl_hash :: "u8 list"
  pl_seq :: u32
  pl_used :: bool

record session_table =
  st_slots :: "session_slot list"
  st_persistent :: "persistent_slot list"
  st_next_seq :: u32

definition slot_zero :: session_slot where
  "slot_zero = \<lparr>sl_hash = replicate 32 0, sl_last_seen_ms = 0, sl_used = False\<rparr>"

definition persistent_zero :: persistent_slot where
  "persistent_zero = \<lparr>pl_hash = replicate 32 0, pl_seq = 0, pl_used = False\<rparr>"

definition st_new :: session_table where
  "st_new = \<lparr>st_slots = replicate kMaxSessions slot_zero, st_persistent = replicate kMaxPersistentSessions persistent_zero, st_next_seq = 1\<rparr>"

definition savePersistent :: "'p auth_io \<Rightarrow> session_table \<Rightarrow> 'p \<Rightarrow> bool \<times> 'p" where
  "savePersistent io t p =
     ai_saveSessions io (map (\<lambda>s. \<lparr>ps_hash = pl_hash s, ps_seq = pl_seq s\<rparr>) (filter pl_used (st_persistent t))) p"

text \<open>The renumbering: the first of the slots left with the lowest sequence number, one after the other.\<close>

definition pick_undone :: "bool list \<Rightarrow> persistent_slot list \<Rightarrow> nat \<Rightarrow> nat" where
  "pick_undone done ps count =
     fold (\<lambda>i pick. if done ! i then pick else if pick = count \<or> pl_seq (ps ! i) < pl_seq (ps ! pick) then i else pick) [0..<count] count"

definition renumber :: "nat \<Rightarrow> persistent_slot list \<Rightarrow> persistent_slot list" where
  "renumber count ps =
     snd (fold (\<lambda>n (done, ps). let pick = pick_undone done ps count
                               in (done[pick := True], ps[pick := (ps ! pick)\<lparr>pl_seq := of_nat n\<rparr>])) [1..<count + 1]
            (replicate kMaxPersistentSessions False, ps))"

definition loaded_slot :: "persistent_session \<Rightarrow> persistent_slot" where
  "loaded_slot s = \<lparr>pl_hash = ps_hash s, pl_seq = ps_seq s, pl_used = True\<rparr>"

definition st_begin :: "'p auth_io \<Rightarrow> session_table \<Rightarrow> 'p \<Rightarrow> session_table \<times> 'p" where
  "st_begin io t p =
     (let loaded = take kMaxPersistentSessions (case ai_loadSessions io kMaxPersistentSessions p of None \<Rightarrow> [] | Some l \<Rightarrow> l);
          count = length loaded;
          persistent = map loaded_slot loaded @ replicate (kMaxPersistentSessions - count) persistent_zero;
          max_seq = fold (\<lambda>s m. if m < ps_seq s then ps_seq s else m) loaded 0;
          duplicate = list_ex (\<lambda>i. list_ex (\<lambda>j. ps_seq (loaded ! j) = ps_seq (loaded ! i)) [0..<i]) [0..<count]
      in if max_seq = 0xFFFFFFFF \<or> duplicate
         then let t = t\<lparr>st_persistent := renumber count persistent, st_next_seq := of_nat count + 1\<rparr>
              in (t, snd (savePersistent io t p))
         else (t\<lparr>st_persistent := persistent, st_next_seq := max_seq + 1\<rparr>, p))"

definition isExpired :: "session_slot \<Rightarrow> u32 \<Rightarrow> bool" where
  "isExpired slot now \<longleftrightarrow> kIdleTimeoutMs \<le> now - sl_last_seen_ms slot"

definition pickPersistentSlot :: "persistent_slot list \<Rightarrow> nat" where
  "pickPersistentSlot ps =
     (case find (\<lambda>i. \<not> pl_used (ps ! i)) [0..<kMaxPersistentSessions] of
        Some i \<Rightarrow> i
      | None \<Rightarrow> fold (\<lambda>i target. if pl_seq (ps ! i) < pl_seq (ps ! target) then i else target) [1..<kMaxPersistentSessions] 0)"

text \<open>A free or expired slot, else the last one of the greatest age.\<close>

definition pickSlot :: "session_slot list \<Rightarrow> u32 \<Rightarrow> nat" where
  "pickSlot ss now =
     (case find (\<lambda>i. \<not> sl_used (ss ! i) \<or> isExpired (ss ! i) now) [0..<kMaxSessions] of
        Some i \<Rightarrow> i
      | None \<Rightarrow> snd (fold (\<lambda>i (oldest, target). let age = now - sl_last_seen_ms (ss ! i)
                                              in if oldest \<le> age then (age, i) else (oldest, target)) [0..<kMaxSessions] (0, 0)))"

definition hex_char :: "nat \<Rightarrow> char" where
  "hex_char d = (if d < 10 then char_of (48 + d) else char_of (87 + d))"

definition token_bytes :: "string \<Rightarrow> u8 list" where
  "token_bytes s = map (\<lambda>c. of_nat (ord c)) s"

definition token_hash :: "'p auth_io \<Rightarrow> string \<Rightarrow> u8 list" where
  "token_hash io s = ai_sha256 io (token_bytes s)"

definition generateToken :: "'p auth_io \<Rightarrow> 'p \<Rightarrow> (string \<times> u8 list) \<times> 'p" where
  "generateToken io p =
     (let (raw, p) = ai_random io kTokenBytes p;
          hex = concat (map (\<lambda>b. [hex_char (unat (drop_bit 4 b)), hex_char (unat (and b 0x0F))]) raw)
      in ((hex, token_hash io hex), p))"

definition st_create :: "'p auth_io \<Rightarrow> u32 \<Rightarrow> bool \<Rightarrow> session_table \<Rightarrow> 'p \<Rightarrow> string \<times> session_table \<times> 'p" where
  "st_create io now persistent t p =
     (let ((hex, hash), p) = generateToken io p
      in if persistent
         then let t = t\<lparr>st_persistent := (st_persistent t)[pickPersistentSlot (st_persistent t) :=
                          \<lparr>pl_hash = hash, pl_seq = st_next_seq t, pl_used = True\<rparr>], st_next_seq := st_next_seq t + 1\<rparr>
              in (hex, t, snd (savePersistent io t p))
         else (hex, t\<lparr>st_slots := (st_slots t)[pickSlot (st_slots t) now :=
                          \<lparr>sl_hash = hash, sl_last_seen_ms = now, sl_used = True\<rparr>]\<rparr>, p))"

text \<open>Every slot is compared; the last one that matches is found. The persistent ones come after.\<close>

definition findSlot :: "'p auth_io \<Rightarrow> string \<Rightarrow> session_table \<Rightarrow> nat option" where
  "findSlot io token t =
     (if length token \<noteq> kTokenLength then None
      else let hash = token_hash io token;
               found = fold (\<lambda>i found. let match = constantTimeEquals hash (sl_hash (st_slots t ! i)) 32
                                       in if sl_used (st_slots t ! i) \<and> match then Some i else found) [0..<kMaxSessions] None
           in fold (\<lambda>i found. let match = constantTimeEquals hash (pl_hash (st_persistent t ! i)) 32
                              in if pl_used (st_persistent t ! i) \<and> match then Some (kMaxSessions + i) else found)
                [0..<kMaxPersistentSessions] found)"

definition st_validate :: "'p auth_io \<Rightarrow> string \<Rightarrow> u32 \<Rightarrow> session_table \<Rightarrow> bool \<times> session_table" where
  "st_validate io token now t =
     (case findSlot io token t of
        None \<Rightarrow> (False, t)
      | Some idx \<Rightarrow>
          if kMaxSessions \<le> idx then (True, t)
          else if isExpired (st_slots t ! idx) now then (False, t\<lparr>st_slots := (st_slots t)[idx := slot_zero]\<rparr>)
          else (True, t\<lparr>st_slots := (st_slots t)[idx := (st_slots t ! idx)\<lparr>sl_last_seen_ms := now\<rparr>]\<rparr>))"

definition st_remove :: "'p auth_io \<Rightarrow> string \<Rightarrow> session_table \<Rightarrow> 'p \<Rightarrow> bool \<times> session_table \<times> 'p" where
  "st_remove io token t p =
     (case findSlot io token t of
        None \<Rightarrow> (True, t, p)
      | Some idx \<Rightarrow>
          if kMaxSessions \<le> idx
          then let t = t\<lparr>st_persistent := (st_persistent t)[idx - kMaxSessions := persistent_zero]\<rparr>;
                   (ok, p) = savePersistent io t p
               in (ok, t, p)
          else (True, t\<lparr>st_slots := (st_slots t)[idx := slot_zero]\<rparr>, p))"

definition st_emptied :: "session_table \<Rightarrow> session_table" where
  "st_emptied t = t\<lparr>st_slots := replicate kMaxSessions slot_zero, st_persistent := replicate kMaxPersistentSessions persistent_zero\<rparr>"

definition st_clear :: "'p auth_io \<Rightarrow> session_table \<Rightarrow> 'p \<Rightarrow> bool \<times> session_table \<times> 'p" where
  "st_clear io t p =
     (let (ok, p) = ai_saveSessions io [] p in if \<not> ok then (False, t, p) else (True, st_emptied t, p))"

definition persistentCount :: "session_table \<Rightarrow> nat" where
  "persistentCount t = length (filter pl_used (st_persistent t))"

definition activeCount :: "u32 \<Rightarrow> session_table \<Rightarrow> nat" where
  "activeCount now t = length (filter (\<lambda>s. sl_used s \<and> \<not> isExpired s now) (st_slots t)) + persistentCount t"

text \<open>The new token, empty when there is none, then \<open>ok\<close> and \<open>persistent\<close>.\<close>

definition rotateExclusive :: "'p auth_io \<Rightarrow> string \<Rightarrow> u32 \<Rightarrow> session_table \<Rightarrow> 'p \<Rightarrow> (string \<times> bool \<times> bool) \<times> session_table \<times> 'p" where
  "rotateExclusive io token now t p =
     (case findSlot io token t of
        None \<Rightarrow> (let (ok, t, p) = st_clear io t p in (([], ok, False), t, p))
      | Some idx \<Rightarrow>
          let persistent = (kMaxSessions \<le> idx);
              ((hex, hash), p) = generateToken io p;
              (ok, p) = (if persistent then ai_saveSessions io [\<lparr>ps_hash = hash, ps_seq = st_next_seq t\<rparr>] p
                         else if persistentCount t \<noteq> 0 then ai_saveSessions io [] p
                         else (True, p))
          in if \<not> ok then (([], False, persistent), t, p)
             else let t = st_emptied t
                  in ((hex, True, persistent),
                      if persistent
                      then t\<lparr>st_persistent := (st_persistent t)[0 := \<lparr>pl_hash = hash, pl_seq = st_next_seq t, pl_used = True\<rparr>],
                             st_next_seq := st_next_seq t + 1\<rparr>
                      else t\<lparr>st_slots := (st_slots t)[0 := \<lparr>sl_hash = hash, sl_last_seen_ms = now, sl_used = True\<rparr>]\<rparr>, p))"

end
