(* ===== verification/WebAuth.thy ===== *)
theory WebAuth
  imports WebSessions Json
begin

text \<open>
  Access to the Web UI, \<open>lib/WebAuth/src\<close>: the credentials (\<open>CredentialStore.cpp\<close>), the limit to
  failed logins (\<open>LoginThrottle.cpp\<close>), the recovery window (\<open>RecoveryWindow.h\<close>), the decision for
  every route (\<open>AuthPolicy.cpp\<close>) and the API of the logins (\<open>AuthService.cpp\<close>). The parser, which
  keeps the fields it is given, and the printer of JSON are arguments.
\<close>

section \<open>Credentials\<close>

record credential_store =
  kc_record :: credential_record
  kc_configured :: bool

definition kDefaultIterations :: u32 where "kDefaultIterations = 10000"

datatype create_result = CreateOk | CreateInvalidUsername | CreateInvalidPassword | CreateAlreadyConfigured | CreateStorageError
datatype replace_result = ReplaceOk | ReplaceInvalidUsername | ReplaceInvalidPassword | ReplaceStorageError

definition kc_new :: credential_store where
  "kc_new = \<lparr>kc_record = \<lparr>cr_username = [], cr_salt = replicate 16 0, cr_hash = replicate 32 0, cr_iterations = 0\<rparr>, kc_configured = False\<rparr>"

definition kc_begin :: "'p auth_io \<Rightarrow> credential_store \<Rightarrow> 'p \<Rightarrow> credential_store" where
  "kc_begin io c p =
     (case ai_loadCredentials io p of
        Some r \<Rightarrow> if 0 < cr_iterations r then c\<lparr>kc_record := r, kc_configured := True\<rparr> else c\<lparr>kc_configured := False\<rparr>
      | None \<Rightarrow> c\<lparr>kc_configured := False\<rparr>)"

definition validateUsername :: "string \<Rightarrow> bool" where
  "validateUsername username \<longleftrightarrow>
     (if length username < 1 \<or> 32 < length username then False
      else list_all (\<lambda>c. \<not> (ord c < 0x20 \<or> 0x7E < ord c)) username)"

definition validatePassword :: "string \<Rightarrow> bool" where
  "validatePassword password \<longleftrightarrow> 8 \<le> length password \<and> length password \<le> 64"

text \<open>A new record with a new salt, saved; \<open>None\<close> when the key or the store fails.\<close>

definition new_record :: "'p auth_io \<Rightarrow> string \<Rightarrow> string \<Rightarrow> 'p \<Rightarrow> credential_record option \<times> 'p" where
  "new_record io username password p =
     (let (salt, p) = ai_random io 16 p; (hash, p) = ai_derive io password salt kDefaultIterations p
      in case hash of None \<Rightarrow> (None, p)
         | Some hash \<Rightarrow>
             let rec = \<lparr>cr_username = username, cr_salt = salt, cr_hash = hash, cr_iterations = kDefaultIterations\<rparr>;
                 (saved, p) = ai_saveCredentials io rec p
             in (if saved then Some rec else None, p))"

definition kc_create :: "'p auth_io \<Rightarrow> string \<Rightarrow> string \<Rightarrow> credential_store \<Rightarrow> 'p \<Rightarrow> create_result \<times> credential_store \<times> 'p" where
  "kc_create io username password c p =
     (if kc_configured c then (CreateAlreadyConfigured, c, p)
      else if \<not> validateUsername username then (CreateInvalidUsername, c, p)
      else if \<not> validatePassword password then (CreateInvalidPassword, c, p)
      else case new_record io username password p of
          (None, p) \<Rightarrow> (CreateStorageError, c, p)
        | (Some rec, p) \<Rightarrow> (CreateOk, c\<lparr>kc_record := rec, kc_configured := True\<rparr>, p))"

definition kc_replace :: "'p auth_io \<Rightarrow> string \<Rightarrow> string \<Rightarrow> credential_store \<Rightarrow> 'p \<Rightarrow> replace_result \<times> credential_store \<times> 'p" where
  "kc_replace io username password c p =
     (if \<not> validateUsername username then (ReplaceInvalidUsername, c, p)
      else if \<not> validatePassword password then (ReplaceInvalidPassword, c, p)
      else case new_record io username password p of
          (None, p) \<Rightarrow> (ReplaceStorageError, c, p)
        | (Some rec, p) \<Rightarrow> (ReplaceOk, c\<lparr>kc_record := rec, kc_configured := True\<rparr>, p))"

text \<open>The difference of the user names, gathered over the whole stored one.\<close>

definition name_diff :: "string \<Rightarrow> string \<Rightarrow> u8" where
  "name_diff stored given =
     fold (\<lambda>i diff. or diff (xor (of_nat (ord (stored ! i))) (if i < length given then of_nat (ord (given ! i)) else 0)))
       [0..<length stored] (if length stored = length given then 0 else 1)"

definition kc_verify :: "'p auth_io \<Rightarrow> string \<Rightarrow> string \<Rightarrow> credential_store \<Rightarrow> 'p \<Rightarrow> bool \<times> 'p" where
  "kc_verify io username password c p =
     (if \<not> kc_configured c then (False, p)
      else let r = kc_record c; diff = name_diff (cr_username r) username;
               (computed, p) = ai_derive io password (cr_salt r) (cr_iterations r) p
           in (case computed of None \<Rightarrow> False | Some h \<Rightarrow> diff = 0 \<and> constantTimeEquals h (cr_hash r) 32, p))"

section \<open>Failed logins and the recovery window\<close>

record login_throttle =
  th_failures :: u32
  th_last_failure_ms :: u32

definition kFreeAttempts :: u32 where "kFreeAttempts = 5"
definition kBaseDelayMs :: u32 where "kBaseDelayMs = 1000"
definition kMaxDelayMs :: u32 where "kMaxDelayMs = 60000"

definition th_new :: login_throttle where
  "th_new = \<lparr>th_failures = 0, th_last_failure_ms = 0\<rparr>"

definition throttle_delay :: "login_throttle \<Rightarrow> u32" where
  "throttle_delay t =
     (let exponent = th_failures t - kFreeAttempts
      in if exponent < 16
         then let shifted = push_bit (unat exponent) kBaseDelayMs in if shifted < kMaxDelayMs then shifted else kMaxDelayMs
         else kMaxDelayMs)"

definition retryAfterMs :: "u32 \<Rightarrow> login_throttle \<Rightarrow> u32" where
  "retryAfterMs now t =
     (if th_failures t < kFreeAttempts then 0
      else let delay = throttle_delay t; elapsed = now - th_last_failure_ms t
           in if delay \<le> elapsed then 0 else delay - elapsed)"

definition recordFailure :: "u32 \<Rightarrow> login_throttle \<Rightarrow> login_throttle" where
  "recordFailure now t =
     t\<lparr>th_failures := (if th_failures t < 0xFFFFFFFF then th_failures t + 1 else th_failures t), th_last_failure_ms := now\<rparr>"

definition recordSuccess :: "login_throttle \<Rightarrow> login_throttle" where
  "recordSuccess t = t\<lparr>th_failures := 0, th_last_failure_ms := 0\<rparr>"

record recovery_window =
  rw_durationMs :: u32
  rw_openedAt :: u32
  rw_open :: bool

definition rw_new :: "u32 \<Rightarrow> recovery_window" where
  "rw_new duration_ms = \<lparr>rw_durationMs = duration_ms, rw_openedAt = 0, rw_open = False\<rparr>"

definition rw_openWindow :: "u32 \<Rightarrow> recovery_window \<Rightarrow> recovery_window" where
  "rw_openWindow now w = w\<lparr>rw_openedAt := now, rw_open := True\<rparr>"

definition rw_isOpen :: "u32 \<Rightarrow> recovery_window \<Rightarrow> bool" where
  "rw_isOpen now w \<longleftrightarrow> rw_open w \<and> now - rw_openedAt w < rw_durationMs w"

definition rw_remainingMs :: "u32 \<Rightarrow> recovery_window \<Rightarrow> u32" where
  "rw_remainingMs now w = (if rw_isOpen now w then rw_durationMs w - (now - rw_openedAt w) else 0)"

definition rw_markUsed :: "recovery_window \<Rightarrow> recovery_window" where
  "rw_markUsed w = w\<lparr>rw_open := False\<rparr>"

text \<open>Whether it has just expired.\<close>

definition rw_update :: "u32 \<Rightarrow> recovery_window \<Rightarrow> recovery_window \<times> bool" where
  "rw_update now w = (if rw_open w \<and> rw_durationMs w \<le> now - rw_openedAt w then (w\<lparr>rw_open := False\<rparr>, True) else (w, False))"

section \<open>Routes and cookies\<close>

datatype auth_decision = Allow | RedirectLogin | Unauthorized | SetupRequired

definition isPublicRoute :: "string \<Rightarrow> bool \<Rightarrow> bool" where
  "isPublicRoute path is_get \<longleftrightarrow>
     (if is_get then path = ''/login'' \<or> path = ''/api/auth/status''
      else path = ''/api/auth/login'' \<or> path = ''/api/auth/credentials'' \<or> path = ''/api/auth/logout'')"

definition decide :: "string \<Rightarrow> bool \<Rightarrow> bool \<Rightarrow> bool \<Rightarrow> bool \<Rightarrow> auth_decision" where
  "decide path is_get ap_mode configured authenticated =
     (if ap_mode then Allow
      else if isPublicRoute path is_get then Allow
      else if authenticated then Allow
      else if is_get \<and> \<not> starts_with path ''/api/'' then RedirectLogin
      else if configured then Unauthorized else SetupRequired)"

definition strip_blanks :: "string \<Rightarrow> string" where
  "strip_blanks s = rev (dropWhile (\<lambda>c. c = CHR '' '') (rev (dropWhile (\<lambda>c. c = CHR '' '') s)))"

text \<open>One segment: its key and its value, when it has an equals sign.\<close>

definition cookie_pair :: "string \<Rightarrow> (string \<times> string) option" where
  "cookie_pair seg =
     (let seg = dropWhile (\<lambda>c. c = CHR '' '') seg; key = takeWhile (\<lambda>c. c \<noteq> CHR ''='') seg
      in if length key < length seg
         then Some (rev (dropWhile (\<lambda>c. c = CHR '' '') (rev key)), strip_blanks (drop (length key + 1) seg))
         else None)"

function cookie_scan :: "string \<Rightarrow> string \<Rightarrow> string" where
  "cookie_scan header name =
     (if header = [] then []
      else let seg = takeWhile (\<lambda>c. c \<noteq> CHR '';'') header
           in case cookie_pair seg of
                Some (k, v) \<Rightarrow> if k = name then v else cookie_scan (drop (length seg + 1) header) name
              | None \<Rightarrow> cookie_scan (drop (length seg + 1) header) name)"
  by pat_completeness auto

termination by (relation "measure (length \<circ> fst)") (auto simp: length_greater_0_conv)

declare cookie_scan.simps [simp del]

definition extractCookie :: "string \<Rightarrow> string option \<Rightarrow> string" where
  "extractCookie header name = (case name of None \<Rightarrow> [] | Some n \<Rightarrow> cookie_scan header n)"

section \<open>The service\<close>

record auth_response =
  ar_status :: nat
  ar_body :: string
  ar_set_cookie :: string
  ar_retry_after_s :: u32

record 'p web_auth =
  wa_credentials :: credential_store
  wa_sessions :: session_table
  wa_throttle :: login_throttle
  wa_platform :: 'p

record json_io =
  ji_parse :: "string list \<Rightarrow> string \<Rightarrow> json option"
  ji_print :: "json \<Rightarrow> string"

definition kMaxBodyLength :: nat where "kMaxBodyLength = 256"
definition kRememberMaxAgeS :: nat where "kRememberMaxAgeS = 2592000"
definition kSessionCookie :: string where "kSessionCookie = ''sid''"
definition kCookieAttributes :: string where "kCookieAttributes = ''Path=/; HttpOnly; SameSite=Strict''"

definition parseCredentials :: "json_io \<Rightarrow> string \<Rightarrow> (string \<times> string \<times> bool) option" where
  "parseCredentials ji body =
     (if kMaxBodyLength < length body then None
      else case ji_parse ji [''username'', ''password'', ''remember''] body of None \<Rightarrow> None
      | Some req \<Rightarrow>
          (case (json_string (json_member req ''username''), json_string (json_member req ''password'')) of
             (Some u, Some p) \<Rightarrow> Some (u, p, json_bool (json_member req ''remember'') = Some True)
           | _ \<Rightarrow> None))"

text \<open>The current password, when there is one, and the new credentials.\<close>

definition parseUpdate :: "json_io \<Rightarrow> string \<Rightarrow> (string option \<times> string \<times> string) option" where
  "parseUpdate ji body =
     (if kMaxBodyLength < length body then None
      else case ji_parse ji [''current_password'', ''username'', ''password''] body of
        Some (JObject ms) \<Rightarrow>
          (let req = JObject ms; current = json_member req ''current_password''
           in case (json_string (json_member req ''username''), json_string (json_member req ''password'')) of
                (Some u, Some p) \<Rightarrow>
                  if current \<noteq> None \<and> json_string current = None then None else Some (json_string current, u, p)
              | _ \<Rightarrow> None)
      | _ \<Rightarrow> None)"

definition sessionCookie :: "string \<Rightarrow> bool \<Rightarrow> string" where
  "sessionCookie token remember =
     kSessionCookie @ ''='' @ token @ ''; '' @ kCookieAttributes @
       (if remember then ''; Max-Age='' @ dec kRememberMaxAgeS else [])"

definition clearCookie :: string where
  "clearCookie = kSessionCookie @ ''=; Path=/; Max-Age=0; HttpOnly; SameSite=Strict''"

definition successBody :: "json_io \<Rightarrow> string \<Rightarrow> string" where
  "successBody ji username = ji_print ji (JObject [(''success'', JBool True), (''username'', JString username)])"

definition updatedBody :: "json_io \<Rightarrow> string \<Rightarrow> bool \<Rightarrow> string" where
  "updatedBody ji username closed =
     ji_print ji (JObject [(''success'', JBool True), (''username'', JString username), (''sessions_closed'', JBool closed)])"

definition json_quoted :: "string \<Rightarrow> string" where
  "json_quoted s = CHR 0x22 # s @ [CHR 0x22]"

definition auth_error :: "nat \<Rightarrow> string \<Rightarrow> auth_response" where
  "auth_error status code = \<lparr>ar_status = status, ar_body = ''{'' @ json_quoted ''error'' @ '':'' @ json_quoted code @ ''}'',
     ar_set_cookie = [], ar_retry_after_s = 0\<rparr>"

definition tooManyAttempts :: "u32 \<Rightarrow> auth_response" where
  "tooManyAttempts wait_ms =
     (let wait_s = wait_ms div 1000 + (if wait_ms mod 1000 \<noteq> 0 then 1 else 0)
      in \<lparr>ar_status = 429, ar_body = ''{'' @ json_quoted ''error'' @ '':'' @ json_quoted ''too_many_attempts'' @ '','' @
            json_quoted ''retry_after'' @ '':'' @ dec (unat wait_s) @ ''}'', ar_set_cookie = [], ar_retry_after_s = wait_s\<rparr>)"

definition replaceError :: "replace_result \<Rightarrow> auth_response" where
  "replaceError r =
     (case r of ReplaceInvalidUsername \<Rightarrow> auth_error 400 ''invalid_username''
      | ReplaceInvalidPassword \<Rightarrow> auth_error 400 ''invalid_password''
      | _ \<Rightarrow> auth_error 500 ''storage_error'')"

definition ok_response :: "string \<Rightarrow> string \<Rightarrow> auth_response" where
  "ok_response body cookie = \<lparr>ar_status = 200, ar_body = body, ar_set_cookie = cookie, ar_retry_after_s = 0\<rparr>"

text \<open>A new session for the caller.\<close>

definition open_session :: "'p auth_io \<Rightarrow> u32 \<Rightarrow> bool \<Rightarrow> 'p web_auth \<Rightarrow> string \<times> 'p web_auth" where
  "open_session io now persistent s =
     (let (token, t, p) = st_create io now persistent (wa_sessions s) (wa_platform s)
      in (token, s\<lparr>wa_sessions := t, wa_platform := p\<rparr>))"

definition checked :: "'p auth_io \<Rightarrow> string \<Rightarrow> string \<Rightarrow> u32 \<Rightarrow> 'p web_auth \<Rightarrow> bool \<times> 'p web_auth" where
  "checked io username password now s =
     (let (ok, p) = kc_verify io username password (wa_credentials s) (wa_platform s)
      in (ok, s\<lparr>wa_platform := p, wa_throttle := (if ok then recordSuccess (wa_throttle s) else recordFailure now (wa_throttle s))\<rparr>))"

definition login :: "'p auth_io \<Rightarrow> json_io \<Rightarrow> string \<Rightarrow> u32 \<Rightarrow> 'p web_auth \<Rightarrow> auth_response \<times> 'p web_auth" where
  "login io ji body now s =
     (case parseCredentials ji body of None \<Rightarrow> (auth_error 400 ''invalid_request'', s)
      | Some (username, password, remember) \<Rightarrow>
          if \<not> kc_configured (wa_credentials s) then (auth_error 409 ''setup_required'', s)
          else let wait_ms = retryAfterMs now (wa_throttle s)
               in if 0 < wait_ms then (tooManyAttempts wait_ms, s)
                  else let (ok, s) = checked io username password now s
                       in if \<not> ok then (auth_error 401 ''invalid_credentials'', s)
                          else let (token, s) = open_session io now remember s
                               in (ok_response (successBody ji (cr_username (kc_record (wa_credentials s)))) (sessionCookie token remember), s))"

definition createInitialCredentials :: "'p auth_io \<Rightarrow> json_io \<Rightarrow> string \<Rightarrow> u32 \<Rightarrow> 'p web_auth \<Rightarrow> auth_response \<times> 'p web_auth" where
  "createInitialCredentials io ji body now s =
     (case parseCredentials ji body of None \<Rightarrow> (auth_error 400 ''invalid_request'', s)
      | Some (username, password, remember) \<Rightarrow>
          let (result, c, p) = kc_create io username password (wa_credentials s) (wa_platform s);
              s = s\<lparr>wa_credentials := c, wa_platform := p\<rparr>
          in case result of
               CreateOk \<Rightarrow>
                 let (token, s) = open_session io now False s
                 in (ok_response (successBody ji (cr_username (kc_record (wa_credentials s)))) (sessionCookie token False), s)
             | CreateAlreadyConfigured \<Rightarrow> (auth_error 409 ''already_configured'', s)
             | CreateInvalidUsername \<Rightarrow> (auth_error 400 ''invalid_username'', s)
             | CreateInvalidPassword \<Rightarrow> (auth_error 400 ''invalid_password'', s)
             | CreateStorageError \<Rightarrow> (auth_error 500 ''storage_error'', s))"

definition isAuthenticated :: "'p auth_io \<Rightarrow> string \<Rightarrow> u32 \<Rightarrow> 'p web_auth \<Rightarrow> bool \<times> 'p web_auth" where
  "isAuthenticated io token now s =
     (if \<not> kc_configured (wa_credentials s) \<or> length token = 0 then (False, s)
      else let (ok, t) = st_validate io token now (wa_sessions s) in (ok, s\<lparr>wa_sessions := t\<rparr>))"

definition replaced :: "'p auth_io \<Rightarrow> string \<Rightarrow> string \<Rightarrow> 'p web_auth \<Rightarrow> replace_result \<times> 'p web_auth" where
  "replaced io username password s =
     (let (r, c, p) = kc_replace io username password (wa_credentials s) (wa_platform s)
      in (r, s\<lparr>wa_credentials := c, wa_platform := p\<rparr>))"

definition updated :: "json_io \<Rightarrow> bool \<Rightarrow> string \<Rightarrow> 'p web_auth \<Rightarrow> auth_response \<times> 'p web_auth" where
  "updated ji closed cookie s = (ok_response (updatedBody ji (cr_username (kc_record (wa_credentials s))) closed) cookie, s)"

text \<open>The two ways: with no current password, from the access point or the recovery window, and from
  a session with the current password.\<close>

definition reset_credentials :: "'p auth_io \<Rightarrow> json_io \<Rightarrow> string \<Rightarrow> string \<Rightarrow> bool \<Rightarrow> u32 \<Rightarrow> 'p web_auth \<Rightarrow> auth_response \<times> 'p web_auth" where
  "reset_credentials io ji username password ap_mode now s =
     (let (r, s) = replaced io username password s
      in if r \<noteq> ReplaceOk then (replaceError r, s)
         else let (closed, t, p) = st_clear io (wa_sessions s) (wa_platform s);
                  s = s\<lparr>wa_sessions := t, wa_platform := p\<rparr>
              in if \<not> ap_mode
                 then let (token, s) = open_session io now False s in updated ji closed (sessionCookie token False) s
                 else updated ji closed [] s)"

definition change_credentials :: "'p auth_io \<Rightarrow> json_io \<Rightarrow> string \<Rightarrow> string option \<Rightarrow> string \<Rightarrow> string \<Rightarrow> u32 \<Rightarrow> 'p web_auth \<Rightarrow> auth_response \<times> 'p web_auth" where
  "change_credentials io ji token current username password now s =
     (let (ok, s) = isAuthenticated io token now s
      in if \<not> ok then (auth_error 401 ''unauthorized'', s)
         else let wait_ms = retryAfterMs now (wa_throttle s)
              in if 0 < wait_ms then (tooManyAttempts wait_ms, s)
                 else let (right, s) = (case current of
                          None \<Rightarrow> (False, s\<lparr>wa_throttle := recordFailure now (wa_throttle s)\<rparr>)
                        | Some pw \<Rightarrow> checked io (cr_username (kc_record (wa_credentials s))) pw now s)
                      in if \<not> right then (auth_error 401 ''invalid_current_password'', s)
                         else let (r, s) = replaced io username password s
                              in if r \<noteq> ReplaceOk then (replaceError r, s)
                                 else let ((fresh, closed, persistent), t, p) = rotateExclusive io token now (wa_sessions s) (wa_platform s);
                                          s = s\<lparr>wa_sessions := t, wa_platform := p\<rparr>
                                      in updated ji closed (if closed \<and> 0 < length fresh then sessionCookie fresh persistent else []) s)"

definition updateCredentials :: "'p auth_io \<Rightarrow> json_io \<Rightarrow> string \<Rightarrow> string \<Rightarrow> bool \<Rightarrow> u32 \<Rightarrow> bool \<Rightarrow> 'p web_auth \<Rightarrow> auth_response \<times> 'p web_auth" where
  "updateCredentials io ji body token ap_mode now recovery s =
     (case parseUpdate ji body of None \<Rightarrow> (auth_error 400 ''invalid_request'', s)
      | Some (current, username, password) \<Rightarrow>
          if \<not> kc_configured (wa_credentials s) then createInitialCredentials io ji body now s
          else if ap_mode \<or> recovery then reset_credentials io ji username password ap_mode now s
          else change_credentials io ji token current username password now s)"

definition auth_status :: "'p auth_io \<Rightarrow> json_io \<Rightarrow> string \<Rightarrow> bool \<Rightarrow> u32 \<Rightarrow> bool \<Rightarrow> nat \<Rightarrow> 'p web_auth \<Rightarrow> auth_response \<times> 'p web_auth" where
  "auth_status io ji token ap_mode now recovery remaining_s s =
     (let (authenticated, s) = isAuthenticated io token now s
      in (ok_response (ji_print ji (JObject
            ([(''configured'', JBool (kc_configured (wa_credentials s))), (''authenticated'', JBool authenticated), (''ap_mode'', JBool ap_mode)] @
             (if authenticated then [(''username'', JString (cr_username (kc_record (wa_credentials s))))] else []) @
             (if recovery then [(''recovery'', JBool True), (''recovery_remaining_s'', JNat remaining_s)] else [])))) [], s))"

definition logout :: "'p auth_io \<Rightarrow> string \<Rightarrow> 'p web_auth \<Rightarrow> auth_response \<times> 'p web_auth" where
  "logout io token s =
     (let s = (if 0 < length token
               then let (ok, t, p) = st_remove io token (wa_sessions s) (wa_platform s) in s\<lparr>wa_sessions := t, wa_platform := p\<rparr>
               else s)
      in (ok_response (''{'' @ json_quoted ''success'' @ '':true}'') clearCookie, s))"

definition logoutAll :: "'p auth_io \<Rightarrow> 'p web_auth \<Rightarrow> auth_response \<times> 'p web_auth" where
  "logoutAll io s =
     (let (ok, t, p) = st_clear io (wa_sessions s) (wa_platform s); s = s\<lparr>wa_sessions := t, wa_platform := p\<rparr>
      in if \<not> ok then (auth_error 500 ''storage_error'', s)
         else (ok_response (''{'' @ json_quoted ''success'' @ '':true}'') clearCookie, s))"

end
