(* ===== verification/WebSessionProofs.thy ===== *)
theory WebSessionProofs
  imports WebSessions
begin

text \<open>
  Which sessions exist: the digests the table holds, how every operation changes them, and that a
  token is accepted only while its session has not been closed.
\<close>

section \<open>Comparisons and searches\<close>

lemma or_zero: "or a b = 0 \<longleftrightarrow> a = 0 \<and> b = (0 :: u8)"
  by (auto simp: bit_eq_iff bit_simps)

lemma fold_or_zero: "fold (\<lambda>i d. or d (f i)) xs (d :: u8) = 0 \<longleftrightarrow> d = 0 \<and> (\<forall>i \<in> set xs. f i = 0)"
  by (induction xs arbitrary: d) (auto simp: or_zero)

lemma xor_zero: "xor a b = 0 \<longleftrightarrow> a = (b :: u8)"
proof
  assume "xor a b = 0"
  then have "xor (xor a b) b = b" by simp
  then show "a = b" by (simp add: xor.assoc)
qed simp

lemma constantTimeEquals_iff:
  "n \<le> length a \<Longrightarrow> n \<le> length b \<Longrightarrow> constantTimeEquals a b n \<longleftrightarrow> take n a = take n b"
  by (auto simp: constantTimeEquals_def fold_or_zero xor_zero list_eq_iff_nth_eq)

lemma fold_last:
  "fold (\<lambda>i found. if P i then Some (f i) else found) [0..<n] a = Some x \<longleftrightarrow>
     (\<exists>i<n. P i \<and> x = f i \<and> (\<forall>j<n. i < j \<longrightarrow> \<not> P j)) \<or> (a = Some x \<and> (\<forall>i<n. \<not> P i))"
proof (induction n)
  case (Suc n)
  show ?case
  proof (cases "P n")
    case True
    then show ?thesis by (auto simp: less_Suc_eq)
  next
    case False
    then show ?thesis using Suc by (auto simp: less_Suc_eq)
  qed
qed simp

lemma fold_last_None:
  "fold (\<lambda>i found. if P i then Some (f i) else found) [0..<n] a = None \<longleftrightarrow> a = None \<and> (\<forall>i<n. \<not> P i)"
  by (induction n) (auto simp: less_Suc_eq)

section \<open>The digests held\<close>

definition held :: "session_table \<Rightarrow> u8 list list" where
  "held t = map sl_hash (filter sl_used (st_slots t)) @ map pl_hash (filter pl_used (st_persistent t))"

definition hash_length :: nat where "hash_length = 32"

definition table_ok :: "session_table \<Rightarrow> bool" where
  "table_ok t \<longleftrightarrow> length (st_slots t) = kMaxSessions \<and> length (st_persistent t) = kMaxPersistentSessions \<and>
     list_all (\<lambda>s. length (sl_hash s) = hash_length) (st_slots t) \<and>
     list_all (\<lambda>s. length (pl_hash s) = hash_length) (st_persistent t) \<and> distinct (held t)"

definition digests :: "'p auth_io \<Rightarrow> bool" where
  "digests io \<longleftrightarrow> (\<forall>x. length (ai_sha256 io x) = hash_length)"

text \<open>Where a digest is held.\<close>

definition holds_at :: "session_table \<Rightarrow> nat \<Rightarrow> u8 list \<Rightarrow> bool" where
  "holds_at t idx h \<longleftrightarrow>
     (idx < kMaxSessions \<and> sl_used (st_slots t ! idx) \<and> sl_hash (st_slots t ! idx) = h) \<or>
     (kMaxSessions \<le> idx \<and> idx < kMaxSessions + kMaxPersistentSessions \<and>
        pl_used (st_persistent t ! (idx - kMaxSessions)) \<and> pl_hash (st_persistent t ! (idx - kMaxSessions)) = h)"

lemma holds_at_held: "table_ok t \<Longrightarrow> holds_at t idx h \<Longrightarrow> h \<in> set (held t)"
  by (auto simp: holds_at_def table_ok_def held_def kMaxSessions_def kMaxPersistentSessions_def)

lemma held_holds_at:
  assumes "table_ok t" "h \<in> set (held t)"
  shows "\<exists>idx. holds_at t idx h"
proof -
  from assms(2) consider (volatile) s where "s \<in> set (st_slots t)" "sl_used s" "sl_hash s = h"
    | (persistent) s where "s \<in> set (st_persistent t)" "pl_used s" "pl_hash s = h" by (auto simp: held_def)
  then show ?thesis
  proof cases
    case volatile
    then obtain i where "i < length (st_slots t)" "st_slots t ! i = s" by (auto simp: in_set_conv_nth)
    with volatile assms(1) show ?thesis by (intro exI [of _ i]) (simp add: holds_at_def table_ok_def)
  next
    case persistent
    then obtain i where "i < length (st_persistent t)" "st_persistent t ! i = s" by (auto simp: in_set_conv_nth)
    with persistent assms(1) show ?thesis by (intro exI [of _ "kMaxSessions + i"]) (simp add: holds_at_def table_ok_def)
  qed
qed

lemma findSlot_Some:
  assumes "table_ok t" "digests io" "findSlot io token t = Some idx"
  shows "length token = kTokenLength" "holds_at t idx (token_hash io token)"
proof -
  have len: "length (token_hash io token) = 32" using assms(2) by (simp add: digests_def token_hash_def hash_length_def)
  have eq: "constantTimeEquals (token_hash io token) h 32 \<longleftrightarrow> token_hash io token = h" if "length h = 32" for h
    using constantTimeEquals_iff [of 32 "token_hash io token" h] len that by simp
  show "length token = kTokenLength" using assms(3) by (simp add: findSlot_def split: if_splits)
  then show "holds_at t idx (token_hash io token)"
    using assms(1,3) unfolding findSlot_def Let_def
    by (auto simp: fold_last fold_last_None eq holds_at_def table_ok_def list_all_length hash_length_def kMaxSessions_def kMaxPersistentSessions_def)
qed

lemma findSlot_None:
  assumes "table_ok t" "digests io" "findSlot io token t = None" "length token = kTokenLength"
  shows "token_hash io token \<notin> set (held t)"
proof
  assume "token_hash io token \<in> set (held t)"
  then obtain idx where idx: "holds_at t idx (token_hash io token)" using held_holds_at assms(1) by blast
  have "fold (\<lambda>i d. d) is (0 :: u8) = 0" for "is" :: "nat list" by (induction "is") simp_all
  then have "constantTimeEquals h h 32" for h by (simp add: constantTimeEquals_def)
  then have none: "i < kMaxSessions \<Longrightarrow> sl_used (st_slots t ! i) \<Longrightarrow> sl_hash (st_slots t ! i) \<noteq> token_hash io token"
      "i < kMaxPersistentSessions \<Longrightarrow> pl_used (st_persistent t ! i) \<Longrightarrow> pl_hash (st_persistent t ! i) \<noteq> token_hash io token" for i
    using assms(3,4) by (auto simp: findSlot_def Let_def fold_last_None)
  show False
  proof (cases "idx < kMaxSessions")
    case True
    with idx none(1) [of idx] show ?thesis by (simp add: holds_at_def)
  next
    case False
    with idx have "idx < kMaxSessions + kMaxPersistentSessions" "pl_used (st_persistent t ! (idx - kMaxSessions))"
        "pl_hash (st_persistent t ! (idx - kMaxSessions)) = token_hash io token" by (auto simp: holds_at_def)
    moreover from this(1) False have "idx - kMaxSessions < kMaxPersistentSessions" by linarith
    ultimately show ?thesis using none(2) by blast
  qed
qed

section \<open>Slots written and freed\<close>

text \<open>What a list of slots holds when one of them is replaced: the same digests but the old one, and
  the new one.\<close>

definition slot_split :: "('a \<Rightarrow> 'b) \<Rightarrow> ('a \<Rightarrow> bool) \<Rightarrow> 'a list \<Rightarrow> nat \<Rightarrow> 'b list \<times> 'b list" where
  "slot_split f P xs i = (map f (filter P (take i xs)), map f (filter P (drop (Suc i) xs)))"

lemma slot_split_update:
  assumes "i < length xs" "slot_split f P xs i = (a, b)"
  shows "map f (filter P (xs[i := x])) = a @ (if P x then [f x] else []) @ b"
    "map f (filter P xs) = a @ (if P (xs ! i) then [f (xs ! i)] else []) @ b"
proof -
  show "map f (filter P (xs[i := x])) = a @ (if P x then [f x] else []) @ b"
    using assms by (auto simp: slot_split_def upd_conv_take_nth_drop)
  show "map f (filter P xs) = a @ (if P (xs ! i) then [f (xs ! i)] else []) @ b"
    using assms(2) by (subst id_take_nth_drop [OF assms(1)]) (auto simp: slot_split_def)
qed

lemma list_all_update: "list_all Q xs \<Longrightarrow> Q x \<Longrightarrow> list_all Q (xs[i := x])"
  by (auto simp: list_all_iff dest: set_update_subset_insert [THEN subsetD])

lemma volatile_replaced:
  assumes "table_ok t" "i < kMaxSessions" "length (sl_hash x) = hash_length"
    and "sl_used x \<Longrightarrow> sl_hash x \<in> set (held t) \<Longrightarrow> sl_used (st_slots t ! i) \<and> sl_hash x = sl_hash (st_slots t ! i)"
  shows "table_ok (t\<lparr>st_slots := (st_slots t)[i := x]\<rparr>)"
    "set (held (t\<lparr>st_slots := (st_slots t)[i := x]\<rparr>)) \<subseteq>
       (if sl_used x then {sl_hash x} else {}) \<union> (set (held t) - (if sl_used (st_slots t ! i) then {sl_hash (st_slots t ! i)} else {}))"
proof -
  obtain a b where ab: "slot_split sl_hash sl_used (st_slots t) i = (a, b)" by fastforce
  have i: "i < length (st_slots t)" using assms(1,2) by (simp add: table_ok_def)
  define c where "c = map pl_hash (filter pl_used (st_persistent t))"
  have new: "held (t\<lparr>st_slots := (st_slots t)[i := x]\<rparr>) = a @ (if sl_used x then [sl_hash x] else []) @ b @ c"
    using slot_split_update(1) [OF i ab] by (simp add: held_def c_def)
  have old: "held t = a @ (if sl_used (st_slots t ! i) then [sl_hash (st_slots t ! i)] else []) @ b @ c"
    using slot_split_update(2) [OF i ab] by (simp add: held_def c_def)
  have d: "distinct (held t)" using assms(1) by (simp add: table_ok_def)
  have "distinct (held (t\<lparr>st_slots := (st_slots t)[i := x]\<rparr>))"
    using d assms(4) unfolding new old by (auto split: if_splits)
  then show "table_ok (t\<lparr>st_slots := (st_slots t)[i := x]\<rparr>)"
    using assms(1,3) by (auto simp: table_ok_def intro: list_all_update)
  show "set (held (t\<lparr>st_slots := (st_slots t)[i := x]\<rparr>)) \<subseteq>
       (if sl_used x then {sl_hash x} else {}) \<union> (set (held t) - (if sl_used (st_slots t ! i) then {sl_hash (st_slots t ! i)} else {}))"
    using d unfolding new old by auto
qed

lemma persistent_replaced:
  assumes "table_ok t" "i < kMaxPersistentSessions" "length (pl_hash x) = hash_length"
    and "pl_used x \<Longrightarrow> pl_hash x \<notin> set (held t)"
  shows "table_ok (t\<lparr>st_persistent := (st_persistent t)[i := x]\<rparr>)"
    "set (held (t\<lparr>st_persistent := (st_persistent t)[i := x]\<rparr>)) \<subseteq>
       (if pl_used x then {pl_hash x} else {}) \<union> (set (held t) - (if pl_used (st_persistent t ! i) then {pl_hash (st_persistent t ! i)} else {}))"
proof -
  obtain a b where ab: "slot_split pl_hash pl_used (st_persistent t) i = (a, b)" by fastforce
  have i: "i < length (st_persistent t)" using assms(1,2) by (simp add: table_ok_def)
  define c where "c = map sl_hash (filter sl_used (st_slots t))"
  have new: "held (t\<lparr>st_persistent := (st_persistent t)[i := x]\<rparr>) = c @ a @ (if pl_used x then [pl_hash x] else []) @ b"
    using slot_split_update(1) [OF i ab] by (simp add: held_def c_def)
  have old: "held t = c @ a @ (if pl_used (st_persistent t ! i) then [pl_hash (st_persistent t ! i)] else []) @ b"
    using slot_split_update(2) [OF i ab] by (simp add: held_def c_def)
  have d: "distinct (held t)" using assms(1) by (simp add: table_ok_def)
  have "distinct (held (t\<lparr>st_persistent := (st_persistent t)[i := x]\<rparr>))"
    using d assms(4) unfolding new old by (auto split: if_splits)
  then show "table_ok (t\<lparr>st_persistent := (st_persistent t)[i := x]\<rparr>)"
    using assms(1,3) by (auto simp: table_ok_def intro: list_all_update)
  show "set (held (t\<lparr>st_persistent := (st_persistent t)[i := x]\<rparr>)) \<subseteq>
       (if pl_used x then {pl_hash x} else {}) \<union> (set (held t) - (if pl_used (st_persistent t ! i) then {pl_hash (st_persistent t ! i)} else {}))"
    using d unfolding new old by auto
qed

section \<open>The operations\<close>

lemma table_ok_seq [simp]: "table_ok (t\<lparr>st_next_seq := n\<rparr>) = table_ok t" "held (t\<lparr>st_next_seq := n\<rparr>) = held t"
  by (simp_all add: table_ok_def held_def)

lemma pickSlot_bound: "pickSlot ss now < kMaxSessions"
proof (cases "find (\<lambda>i. \<not> sl_used (ss ! i) \<or> isExpired (ss ! i) now) [0..<kMaxSessions]")
  case None
  have "snd (fold (\<lambda>i (oldest, target). let age = now - sl_last_seen_ms (ss ! i) in if oldest \<le> age then (age, i) else (oldest, target)) is r) < n"
    if "\<forall>i \<in> set is. i < n" "snd r < n" for "is" r and n :: nat
    using that by (induction "is" arbitrary: r) (auto simp: Let_def split: prod.splits)
  from this [of "[0..<kMaxSessions]" kMaxSessions "(0, 0)"] show ?thesis
    unfolding pickSlot_def None option.case by (simp add: kMaxSessions_def)
next
  case (Some i)
  then have "i < kMaxSessions" by (auto simp: find_Some_iff)
  then show ?thesis unfolding pickSlot_def Some option.case .
qed

lemma pickPersistentSlot_bound: "pickPersistentSlot ps < kMaxPersistentSessions"
proof (cases "find (\<lambda>i. \<not> pl_used (ps ! i)) [0..<kMaxPersistentSessions]")
  case None
  have "fold (\<lambda>i target. if pl_seq (ps ! i) < pl_seq (ps ! target) then i else target) is r < n"
    if "\<forall>i \<in> set is. i < n" "r < n" for "is" r and n :: nat
    using that by (induction "is" arbitrary: r) auto
  from this [of "[1..<kMaxPersistentSessions]" kMaxPersistentSessions 0] show ?thesis
    unfolding pickPersistentSlot_def None option.case by (simp add: kMaxPersistentSessions_def)
next
  case (Some i)
  then have "i < kMaxPersistentSessions" by (auto simp: find_Some_iff)
  then show ?thesis unfolding pickPersistentSlot_def Some option.case .
qed

lemma generateToken_hash: "generateToken io p = ((hex, hash), q) \<Longrightarrow> hash = token_hash io hex"
  by (auto simp: generateToken_def Let_def split: prod.splits)

lemma token_hash_length: "digests io \<Longrightarrow> length (token_hash io token) = hash_length"
  by (simp add: digests_def token_hash_def)

lemma create_held:
  assumes "table_ok t" "digests io" "st_create io now persistent t p = (token, t', p')" "token_hash io token \<notin> set (held t)"
  shows "table_ok t' \<and> set (held t') \<subseteq> insert (token_hash io token) (set (held t))"
proof -
  obtain hex hash q where g: "generateToken io p = ((hex, hash), q)" by (metis surj_pair)
  then have h: "hash = token_hash io hex" by (rule generateToken_hash)
  have hex: "hex = token" using assms(3) by (auto simp: st_create_def g Let_def split: if_splits)
  note v = volatile_replaced [OF assms(1) pickSlot_bound [of "st_slots t" now], of "\<lparr>sl_hash = hash, sl_last_seen_ms = now, sl_used = True\<rparr>"]
    and w = persistent_replaced [OF assms(1) pickPersistentSlot_bound [of "st_persistent t"], of "\<lparr>pl_hash = hash, pl_seq = st_next_seq t, pl_used = True\<rparr>"]
  show ?thesis
  proof (cases persistent)
    case True
    then have "t' = t\<lparr>st_persistent := (st_persistent t)[pickPersistentSlot (st_persistent t) :=
        \<lparr>pl_hash = hash, pl_seq = st_next_seq t, pl_used = True\<rparr>], st_next_seq := st_next_seq t + 1\<rparr>"
      using assms(3) by (simp add: st_create_def g Let_def)
    with w assms(2,4) h hex show ?thesis by (auto simp: token_hash_length)
  next
    case False
    then have "t' = t\<lparr>st_slots := (st_slots t)[pickSlot (st_slots t) now := \<lparr>sl_hash = hash, sl_last_seen_ms = now, sl_used = True\<rparr>]\<rparr>"
      using assms(3) by (simp add: st_create_def g Let_def)
    with v assms(2,4) h hex show ?thesis by (auto simp: token_hash_length)
  qed
qed

lemma slot_zero_simps [simp]: "\<not> sl_used slot_zero" "length (sl_hash slot_zero) = hash_length"
    "\<not> pl_used persistent_zero" "length (pl_hash persistent_zero) = hash_length"
  by (simp_all add: slot_zero_def persistent_zero_def hash_length_def)

lemma validate_held:
  assumes "table_ok t" "digests io"
  shows "table_ok (snd (st_validate io token now t)) \<and> set (held (snd (st_validate io token now t))) \<subseteq> set (held t)"
proof (cases "findSlot io token t")
  case None
  then show ?thesis using assms(1) by (simp add: st_validate_def)
next
  case (Some idx)
  from findSlot_Some(2) [OF assms Some] have at: "holds_at t idx (token_hash io token)" .
  have zero: "table_ok (t\<lparr>st_slots := (st_slots t)[idx := slot_zero]\<rparr>)"
      "set (held (t\<lparr>st_slots := (st_slots t)[idx := slot_zero]\<rparr>)) \<subseteq> set (held t)" if "idx < kMaxSessions"
    using volatile_replaced [OF assms(1) that, of slot_zero] by auto
  have seen: "table_ok (t\<lparr>st_slots := (st_slots t)[idx := (st_slots t ! idx)\<lparr>sl_last_seen_ms := now\<rparr>]\<rparr>)"
      "set (held (t\<lparr>st_slots := (st_slots t)[idx := (st_slots t ! idx)\<lparr>sl_last_seen_ms := now\<rparr>]\<rparr>)) \<subseteq> set (held t)" if "idx < kMaxSessions"
  proof -
    have s: "sl_used (st_slots t ! idx)" "length (sl_hash (st_slots t ! idx)) = hash_length"
      using at that assms(1) by (auto simp: holds_at_def table_ok_def list_all_length)
    have "sl_hash (st_slots t ! idx) \<in> set (held t)"
      using at that holds_at_held [OF assms(1)] by (auto simp: holds_at_def)
    note r = volatile_replaced [OF assms(1) that, of "(st_slots t ! idx)\<lparr>sl_last_seen_ms := now\<rparr>"]
    show "table_ok (t\<lparr>st_slots := (st_slots t)[idx := (st_slots t ! idx)\<lparr>sl_last_seen_ms := now\<rparr>]\<rparr>)"
      by (rule r(1)) (use s in simp_all)
    have "set (held (t\<lparr>st_slots := (st_slots t)[idx := (st_slots t ! idx)\<lparr>sl_last_seen_ms := now\<rparr>]\<rparr>)) \<subseteq>
        {sl_hash (st_slots t ! idx)} \<union> (set (held t) - {sl_hash (st_slots t ! idx)})"
      using r(2) s by simp
    with \<open>sl_hash (st_slots t ! idx) \<in> set (held t)\<close>
    show "set (held (t\<lparr>st_slots := (st_slots t)[idx := (st_slots t ! idx)\<lparr>sl_last_seen_ms := now\<rparr>]\<rparr>)) \<subseteq> set (held t)" by blast
  qed
  show ?thesis using Some assms(1) zero seen by (simp add: st_validate_def)
qed

lemma remove_held:
  assumes "table_ok t" "digests io" "length token = kTokenLength"
  shows "table_ok (fst (snd (st_remove io token t p))) \<and> set (held (fst (snd (st_remove io token t p)))) \<subseteq> set (held t) - {token_hash io token}"
proof (cases "findSlot io token t")
  case None
  with findSlot_None [OF assms(1,2) None assms(3)] show ?thesis using assms(1) by (auto simp: st_remove_def)
next
  case (Some idx)
  from findSlot_Some(2) [OF assms(1,2) Some] have at: "holds_at t idx (token_hash io token)" .
  show ?thesis
  proof (cases "idx < kMaxSessions")
    case True
    with at have "sl_used (st_slots t ! idx)" "sl_hash (st_slots t ! idx) = token_hash io token" by (auto simp: holds_at_def)
    with volatile_replaced [OF assms(1) True, of slot_zero] Some True show ?thesis by (auto simp: st_remove_def)
  next
    case False
    with at have i: "idx - kMaxSessions < kMaxPersistentSessions"
      and u: "pl_used (st_persistent t ! (idx - kMaxSessions))" "pl_hash (st_persistent t ! (idx - kMaxSessions)) = token_hash io token"
      by (auto simp: holds_at_def)
    from persistent_replaced [OF assms(1) i, of persistent_zero] u Some False show ?thesis
      by (simp add: st_remove_def Let_def split_beta)
  qed
qed

lemma emptied_held [simp]: "table_ok (st_emptied t)" "held (st_emptied t) = []"
  by (simp_all add: table_ok_def st_emptied_def held_def list_all_iff)

lemma clear_held:
  assumes "table_ok t" "st_clear io t p = (ok, t', p')"
  shows "table_ok t' \<and> (if ok then held t' = [] else t' = t)"
  using assms by (auto simp: st_clear_def Let_def split: prod.splits if_splits)

lemma rotate_held:
  assumes "table_ok t" "digests io" "rotateExclusive io token now t p = ((fresh, ok, persistent), t', p')"
  shows "table_ok t' \<and> (if \<not> ok then t' = t else if findSlot io token t = None then held t' = [] else held t' = [token_hash io fresh])"
proof (cases "findSlot io token t")
  case None
  obtain k u q where c: "st_clear io t p = (k, u, q)" by (metis surj_pair)
  with assms(3) None have "k = ok" "u = t'" by (auto simp: rotateExclusive_def)
  with clear_held [OF assms(1) c] None show ?thesis by (auto split: if_splits)
next
  case (Some idx)
  obtain hex hash q where g: "generateToken io p = ((hex, hash), q)" by (metis surj_pair)
  note h = generateToken_hash [OF g]
  have one: "table_ok (e\<lparr>st_persistent := (st_persistent e)[0 := \<lparr>pl_hash = hash, pl_seq = n, pl_used = True\<rparr>]\<rparr>)"
      "table_ok (e\<lparr>st_slots := (st_slots e)[0 := \<lparr>sl_hash = hash, sl_last_seen_ms = now, sl_used = True\<rparr>]\<rparr>)"
      if "e = st_emptied t" for e n
    using that volatile_replaced(1) [of e 0 "\<lparr>sl_hash = hash, sl_last_seen_ms = now, sl_used = True\<rparr>"]
      persistent_replaced(1) [of e 0 "\<lparr>pl_hash = hash, pl_seq = n, pl_used = True\<rparr>"] h assms(2)
    by (auto simp: token_hash_length kMaxSessions_def kMaxPersistentSessions_def)
  have held: "held (e\<lparr>st_persistent := (st_persistent e)[0 := \<lparr>pl_hash = hash, pl_seq = n, pl_used = True\<rparr>]\<rparr>) = [hash]"
      "held (e\<lparr>st_slots := (st_slots e)[0 := \<lparr>sl_hash = hash, sl_last_seen_ms = now, sl_used = True\<rparr>]\<rparr>) = [hash]"
      if "e = st_emptied t" for e n
    using that by (simp_all add: held_def st_emptied_def kMaxSessions_def kMaxPersistentSessions_def eval_nat_numeral)
  from assms(3) Some g h one [OF refl] held [OF refl] assms(1) show ?thesis
    by (auto simp: rotateExclusive_def Let_def split: prod.splits if_splits)
qed

text \<open>The start: the sessions found in flash, whatever their numbers.\<close>

definition in_flash :: "'p auth_io \<Rightarrow> 'p \<Rightarrow> persistent_session list" where
  "in_flash io p = take kMaxPersistentSessions (case ai_loadSessions io kMaxPersistentSessions p of None \<Rightarrow> [] | Some l \<Rightarrow> l)"

lemma renumber_same: "map (\<lambda>s. (pl_hash s, pl_used s)) (renumber count ps) = map (\<lambda>s. (pl_hash s, pl_used s)) ps"
proof -
  have "map (\<lambda>s. (pl_hash s, pl_used s)) (snd (fold (\<lambda>n (done, ps). let pick = pick_undone done ps count
        in (done[pick := True], ps[pick := (ps ! pick)\<lparr>pl_seq := of_nat n\<rparr>])) ns (done, ps))) = map (\<lambda>s. (pl_hash s, pl_used s)) ps"
    for ns "done" ps
  proof (induction ns arbitrary: "done" ps)
    case (Cons n ns)
    have "map (\<lambda>s. (pl_hash s, pl_used s)) (ps[i := (ps ! i)\<lparr>pl_seq := m\<rparr>]) = map (\<lambda>s. (pl_hash s, pl_used s)) ps" for i m
      by (cases "i < length ps") (auto simp: list_update_beyond nth_list_update intro!: nth_equalityI)
    with Cons show ?case by (simp add: Let_def)
  qed simp
  then show ?thesis by (simp add: renumber_def)
qed

lemma hashes_used:
  assumes "map (\<lambda>s. (pl_hash s, pl_used s)) ps = map (\<lambda>s. (pl_hash s, pl_used s)) qs"
  shows "map pl_hash (filter pl_used ps) = map pl_hash (filter pl_used qs)" "map pl_hash ps = map pl_hash qs"
proof -
  let ?pair = "\<lambda>s. (pl_hash s, pl_used s)"
  have used: "map pl_hash (filter pl_used rs) = map fst (filter snd (map ?pair rs))" for rs
    by (induction rs) auto
  show "map pl_hash (filter pl_used ps) = map pl_hash (filter pl_used qs)" unfolding used assms ..
  have all: "map pl_hash rs = map fst (map ?pair rs)" for rs by (simp add: comp_def)
  show "map pl_hash ps = map pl_hash qs" unfolding all assms ..
qed

lemma begin_held:
  assumes "distinct (map ps_hash (in_flash io p))" "list_all (\<lambda>s. length (ps_hash s) = hash_length) (in_flash io p)"
    and "st_begin io st_new p = (t, p')"
  shows "table_ok t \<and> held t = map ps_hash (in_flash io p)"
proof -
  define ps where "ps = map loaded_slot (in_flash io p) @ replicate (kMaxPersistentSessions - length (in_flash io p)) persistent_zero"
  have n: "length (in_flash io p) \<le> kMaxPersistentSessions" by (simp add: in_flash_def)
  have used: "map pl_hash (filter pl_used ps) = map ps_hash (in_flash io p)"
    by (simp add: ps_def filter_map comp_def loaded_slot_def filter_replicate)
  have lengths: "list_all (\<lambda>h. length h = hash_length) (map pl_hash ps)"
    using assms(2) by (auto simp: ps_def list_all_iff loaded_slot_def)
  have t: "st_slots t = replicate kMaxSessions slot_zero"
      "map (\<lambda>s. (pl_hash s, pl_used s)) (st_persistent t) = map (\<lambda>s. (pl_hash s, pl_used s)) ps"
    using assms(3) unfolding st_begin_def in_flash_def [symmetric] ps_def [symmetric] Let_def
    by (auto simp: st_new_def renumber_same split: if_splits)
  have held: "held t = map ps_hash (in_flash io p)"
    using hashes_used(1) [OF t(2)] used by (simp add: held_def t(1) filter_replicate)
  have "length (st_persistent t) = length ps" using t(2) map_eq_imp_length_eq by blast
  then have "length (st_persistent t) = kMaxPersistentSessions" using n by (simp add: ps_def)
  moreover have "list_all (\<lambda>s. length (pl_hash s) = hash_length) (st_persistent t)"
    using lengths unfolding hashes_used(2) [OF t(2), symmetric] by (simp add: list.pred_map comp_def)
  ultimately show ?thesis using held assms(1) t(1) by (simp add: table_ok_def list_all_iff)
qed

section \<open>The sessions that exist\<close>

text \<open>The digests of the sessions that were opened and not closed since: those found in flash at the
  start, those given to a client, without the ones closed by a logout, a logout of all or a
  rotation. A failed rotation or clear closes nothing. The platform changes by itself. The
  random source never gives a token in use.\<close>

inductive web_run :: "'p auth_io \<Rightarrow> session_table \<Rightarrow> 'p \<Rightarrow> u8 list set \<Rightarrow> bool" for io where
  start: "in_flash io p = loaded \<Longrightarrow> distinct (map ps_hash loaded) \<Longrightarrow> list_all (\<lambda>s. length (ps_hash s) = hash_length) loaded \<Longrightarrow>
     st_begin io st_new p = (t, p') \<Longrightarrow> web_run io t p' (set (map ps_hash loaded))"
| create: "web_run io t p live \<Longrightarrow> st_create io now persistent t p = (token, t', p') \<Longrightarrow> token_hash io token \<notin> set (held t) \<Longrightarrow>
     web_run io t' p' (insert (token_hash io token) live)"
| validate: "web_run io t p live \<Longrightarrow> web_run io (snd (st_validate io token now t)) p live"
| remove: "web_run io t p live \<Longrightarrow> st_remove io token t p = (ok, t', p') \<Longrightarrow> length token = kTokenLength \<Longrightarrow>
     web_run io t' p' (live - {token_hash io token})"
| clear: "web_run io t p live \<Longrightarrow> st_clear io t p = (ok, t', p') \<Longrightarrow> web_run io t' p' (if ok then {} else live)"
| rotate: "web_run io t p live \<Longrightarrow> rotateExclusive io token now t p = ((fresh, ok, persistent), t', p') \<Longrightarrow>
     web_run io t' p' (if \<not> ok then live else if findSlot io token t = None then {} else {token_hash io fresh})"
| platform: "web_run io t p live \<Longrightarrow> web_run io t p' live"

lemma web_run_held:
  assumes "digests io" "web_run io t p live"
  shows "table_ok t \<and> set (held t) \<subseteq> live"
  using assms(2)
proof (induction rule: web_run.induct)
  case (create t p live now persistent token t' p')
  then show ?case using create_held [OF _ assms(1) create.hyps(2,3)] by blast
next
  case (validate t p live token now)
  then show ?case using validate_held [OF _ assms(1), of t token now] by blast
next
  case (remove t p live token ok t' p')
  then show ?case using remove_held [OF _ assms(1) remove.hyps(3), of t p] by auto
next
  case (clear t p live ok t' p')
  then show ?case using clear_held [OF _ clear.hyps(2)] by (auto split: if_splits)
next
  case (rotate t p live token now fresh ok persistent t' p')
  then show ?case using rotate_held [OF _ assms(1) rotate.hyps(2)] by (auto split: if_splits)
next
  case (start p loaded t p')
  then show ?case using begin_held [of io p t p'] by auto
qed auto

text \<open>C8: a session that was closed is gone. Whatever was opened, closed and restored before, a token is
  accepted only when it is as long as one and its session still exists: it came from flash at the
  start or was given to a client, and since then no logout closed it, no change of the
  credentials and no logout of all sessions that succeeded; and a session kept in memory is
  accepted only within thirty minutes of its last request.\<close>

theorem closed_session_refused:
  assumes "web_run io t p live" "digests io" "fst (st_validate io token now t)"
  shows "length token = kTokenLength \<and> token_hash io token \<in> live \<and>
    (\<exists>idx. findSlot io token t = Some idx \<and> (idx < kMaxSessions \<longrightarrow> now - sl_last_seen_ms (st_slots t ! idx) < kIdleTimeoutMs))"
proof -
  obtain idx where idx: "findSlot io token t = Some idx" and
      "idx < kMaxSessions \<longrightarrow> now - sl_last_seen_ms (st_slots t ! idx) < kIdleTimeoutMs"
    using assms(3) by (auto simp: st_validate_def isExpired_def split: option.splits if_splits)
  moreover have "table_ok t \<and> set (held t) \<subseteq> live" by (rule web_run_held [OF assms(2,1)])
  ultimately show ?thesis using findSlot_Some [OF _ assms(2) idx] holds_at_held by blast
qed

text \<open>A platform with a weak digest, enough to follow a session from its start to its logout.\<close>

definition plain_io :: "unit auth_io" where
  "plain_io = \<lparr>ai_derive = (\<lambda>pw salt n p. (Some (take 32 (token_bytes pw @ replicate 32 0)), p)),
     ai_sha256 = (\<lambda>x. take 32 (x @ replicate 32 0)), ai_random = (\<lambda>n p. (replicate n 0xA7, p)),
     ai_loadCredentials = (\<lambda>p. None), ai_saveCredentials = (\<lambda>c p. (True, p)), ai_loadSessions = (\<lambda>n p. Some []),
     ai_saveSessions = (\<lambda>ss p. (True, p))\<rparr>"

lemma plain_digests: "digests plain_io"
  by (simp add: digests_def plain_io_def hash_length_def min_def)

definition plain_token :: string where
  "plain_token = ''a7a7a7a7a7a7a7a7a7a7a7a7a7a7a7a7''"

lemma plain_opened:
  "\<exists>t. web_run plain_io t () {token_hash plain_io plain_token} \<and> fst (st_validate plain_io plain_token 2000 t)"
proof -
  obtain t where b: "st_begin plain_io st_new () = (t, ())" by (metis surj_pair unit.exhaust)
  then have t: "t = fst (st_begin plain_io st_new ())" by simp
  have "in_flash plain_io () = []" by (simp add: in_flash_def plain_io_def)
  from web_run.start [OF this _ _ b] have run: "web_run plain_io t () {}" by simp
  obtain token t' where c: "st_create plain_io 1000 False t () = (token, t', ())" by (metis surj_pair unit.exhaust)
  have "fst (st_create plain_io 1000 False (fst (st_begin plain_io st_new ())) ()) = plain_token" by code_simp
  with c t have token: "token = plain_token" by simp
  have "held (fst (st_begin plain_io st_new ())) = []" by code_simp
  then have "web_run plain_io t' () {token_hash plain_io plain_token}"
    using web_run.create [OF run c] t token by simp
  moreover have "fst (st_validate plain_io plain_token 2000 (fst (snd (st_create plain_io 1000 False (fst (st_begin plain_io st_new ())) ()))))"
    by code_simp
  ultimately show ?thesis using c t by auto
qed

theorem closed_session_refused_witness:
  "\<exists>t. fst (st_validate plain_io plain_token 2000 t) \<and> length plain_token = kTokenLength \<and>
     (\<exists>idx. findSlot plain_io plain_token t = Some idx)"
proof -
  obtain t where "web_run plain_io t () {token_hash plain_io plain_token}" "fst (st_validate plain_io plain_token 2000 t)"
    using plain_opened by blast
  with closed_session_refused [OF this(1) plain_digests this(2)] show ?thesis by blast
qed

end
