(* ===== verification/WebAuthProofs.thy ===== *)
theory WebAuthProofs
  imports WebAuth WebSessionProofs
begin

text \<open>
  What the API of the logins promises: no session without the credentials, no session left behind
  by a change of them, and a bound on the guesses.
\<close>

section \<open>The check of the credentials\<close>








section \<open>Logins\<close>





section \<open>The guesses\<close>

lemma long_delay:
  assumes "11 \<le> th_failures t"
  shows "throttle_delay t = 60000"
proof (cases "th_failures t - kFreeAttempts < 16")
  case True
  define e where "e = unat (th_failures t - kFreeAttempts)"
  have "unat (th_failures t - 5) = unat (th_failures t) - 5"
    using assms unat_sub [of 5 "th_failures t"] by (simp add: word_le_nat_alt)
  then have "6 \<le> e" using assms by (simp add: e_def kFreeAttempts_def word_le_nat_alt)
  moreover have "e < 16" using True by (simp add: e_def word_less_nat_alt)
  ultimately have "e \<in> set [6..<16]" unfolding set_upt by simp
  moreover have "list_all (\<lambda>e. \<not> push_bit e kBaseDelayMs < kMaxDelayMs) [6..<16]" by code_simp
  ultimately have "\<not> push_bit e kBaseDelayMs < kMaxDelayMs" unfolding list_all_iff by blast
  then show ?thesis by (simp add: throttle_delay_def Let_def e_def kMaxDelayMs_def)
next
  case False
  then show ?thesis by (simp add: throttle_delay_def kMaxDelayMs_def)
qed

text \<open>The clock wraps: a difference of words never exceeds the time that passed.\<close>

lemma word_elapsed: "y \<le> x \<Longrightarrow> unat (of_nat x - of_nat y :: u32) \<le> x - y"
  by (metis mod_less_eq_dividend of_nat_diff unat_of_nat)

lemma wait_over:
  assumes "retryAfterMs (of_nat x) t = 0" "11 \<le> th_failures t" "th_last_failure_ms t = of_nat y" "y \<le> x"
  shows "y + 60000 \<le> x"
proof -
  have "kFreeAttempts \<le> th_failures t" using assms(2) by (simp add: kFreeAttempts_def order_trans [OF _ assms(2)])
  with assms(1) long_delay [OF assms(2)] have "60000 \<le> of_nat x - th_last_failure_ms t"
    by (auto simp: retryAfterMs_def Let_def not_less split: if_splits)
  then have "60000 \<le> unat (of_nat x - of_nat y :: u32)" by (simp add: assms(3) word_le_nat_alt)
  with word_elapsed [OF assms(4)] show ?thesis using assms(4) by linarith
qed

lemma recordFailure_more:
  "th_last_failure_ms (recordFailure now t) = now"
  "unat (th_failures t) \<ge> j \<Longrightarrow> j < 2 ^ 32 - 1 \<Longrightarrow> Suc j \<le> unat (th_failures (recordFailure now t))"
proof -
  assume j: "unat (th_failures t) \<ge> j" "j < 2 ^ 32 - 1"
  show "Suc j \<le> unat (th_failures (recordFailure now t))"
  proof (cases "th_failures t < 0xFFFFFFFF")
    case True
    then have "unat (th_failures t) < 4294967295" by (simp add: word_less_nat_alt)
    then have "unat (th_failures t + 1) = Suc (unat (th_failures t))" by (simp add: unat_word_ariths)
    with True j show ?thesis by (simp add: recordFailure_def)
  next
    case False
    then have "unat (th_failures t) \<ge> 4294967295" by (simp add: word_less_nat_alt)
    with False j show ?thesis by (simp add: recordFailure_def)
  qed
qed (simp add: recordFailure_def)

text \<open>The status of the reply to each login, a body at a time of a clock that does not wrap.\<close>

definition login_step :: "'p auth_io \<Rightarrow> json_io \<Rightarrow> 'p web_auth \<Rightarrow> string \<times> nat \<Rightarrow> 'p web_auth \<times> nat" where
  "login_step io ji s a = (let (r, s) = login io ji (fst a) (of_nat (snd a)) s in (s, ar_status r))"

abbreviation wrong_logins :: "'p auth_io \<Rightarrow> json_io \<Rightarrow> 'p web_auth \<Rightarrow> (string \<times> nat) list \<Rightarrow> nat" where
  "wrong_logins io ji s as \<equiv> length (filter (\<lambda>st. st = 401) (takeWhile (\<lambda>st. st \<noteq> 200) (snd (run (login_step io ji) s as))))"

lemma login_cases:
  assumes "login_step io ji s (body, x) = (s', st)"
  shows "st = 401 \<Longrightarrow> retryAfterMs (of_nat x) (wa_throttle s) = 0 \<and> wa_throttle s' = recordFailure (of_nat x) (wa_throttle s)"
    "st \<noteq> 401 \<Longrightarrow> st \<noteq> 200 \<Longrightarrow> wa_throttle s' = wa_throttle s"
  using assms
  by (auto simp: login_step_def login_def checked_def auth_error_def tooManyAttempts_def ok_response_def Let_def word_gt_0
      split: option.splits prod.splits if_splits)

lemma wrong_Cons:
  assumes "login_step io ji s a = (s', st)"
  shows "wrong_logins io ji s (a # as) = (if st = 200 then 0 else (if st = 401 then 1 else 0) + wrong_logins io ji s' as)"
  using assms by (simp add: run_Cons)

lemma spaced_logins:
  assumes "11 \<le> unat (th_failures (wa_throttle s))" "th_last_failure_ms (wa_throttle s) = of_nat y" "sorted (y # map snd as)"
    "\<forall>x \<in> snd ` set as. x < y + 60000 * Suc k"
  shows "wrong_logins io ji s as \<le> k"
  using assms
proof (induction as arbitrary: s y k)
  case (Cons a as)
  obtain body x where a: "a = (body, x)" by fastforce
  obtain s' st where l: "login_step io ji s (body, x) = (s', st)" by fastforce
  note c = login_cases [OF l] and w = wrong_Cons [OF l, of as]
  show ?case
  proof (cases "st = 401")
    case False
    then show ?thesis using Cons.IH [of s' y k] Cons.prems c(2) by (cases "st = 200") (simp_all add: a w del: run_Cons)
  next
    case True
    note t = c(1) [OF True]
    have x: "y + 60000 \<le> x"
      using wait_over [OF conjunct1 [OF t] _ Cons.prems(2)] Cons.prems(1,3) by (simp add: word_le_nat_alt a)
    with Cons.prems(4) obtain n where k: "k = Suc n" by (cases k) (auto simp: a)
    have "wrong_logins io ji s' as \<le> n"
    proof (rule Cons.IH)
      show "11 \<le> unat (th_failures (wa_throttle s'))"
        using recordFailure_more(2) [of 10 "wa_throttle s" "of_nat x"] Cons.prems(1) t by simp
      show "sorted (x # map snd as)" using Cons.prems(3) by (simp add: a)
      show "\<forall>z \<in> snd ` set as. z < x + 60000 * Suc n" using Cons.prems(4) x k by (auto simp: a)
    qed (simp add: t recordFailure_more)
    then show ?thesis using True k by (simp add: a w)
  qed
qed simp

lemma logins_bounded:
  assumes "j \<le> unat (th_failures (wa_throttle s))" "sorted (map snd as)" "\<forall>x \<in> snd ` set as. b \<le> x \<and> x < b + 60000 * Suc k"
  shows "wrong_logins io ji s as \<le> k + 1 + (10 - j)"
  using assms
proof (induction as arbitrary: s j)
  case (Cons a as)
  obtain body x where a: "a = (body, x)" by fastforce
  obtain s' st where l: "login_step io ji s (body, x) = (s', st)" by fastforce
  note c = login_cases [OF l] and w = wrong_Cons [OF l, of as]
  show ?case
  proof (cases "st = 401")
    case False
    then show ?thesis using Cons.IH [of j s'] Cons.prems c(2) by (cases "st = 200") (simp_all add: a w)
  next
    case True
    note t = c(1) [OF True]
    show ?thesis
    proof (cases "10 \<le> j")
      case late: True
      have "wrong_logins io ji s' as \<le> k"
      proof (rule spaced_logins [where y = x])
        show "11 \<le> unat (th_failures (wa_throttle s'))"
          using recordFailure_more(2) [of 10 "wa_throttle s" "of_nat x"] Cons.prems(1) late t by simp
        show "\<forall>z \<in> snd ` set as. z < x + 60000 * Suc k" using Cons.prems(3) by (fastforce simp: a)
      qed (use Cons.prems(2) t in \<open>simp_all add: recordFailure_more a\<close>)
      then show ?thesis using True by (simp add: a w)
    next
      case early: False
      then have "Suc j \<le> unat (th_failures (wa_throttle s'))"
        using recordFailure_more(2) [of j "wa_throttle s" "of_nat x"] Cons.prems(1) t by simp
      from Cons.IH [OF this] Cons.prems(2,3) early True show ?thesis by (simp add: a w)
    qed
  qed
qed simp

text \<open>C15: the guesses are few. Whatever logins come in, with whatever bodies, at whatever times and however often,
  at most \<open>m + 10\<close> of them in \<open>m\<close> minutes are told that the password is wrong (401) before one succeeds,
  from any state of the board and across the wrap of the clock; a login with the right password starts
  the count again. The others are answered 429, or 400 and 409 for a body without credentials and a
  board without a user.\<close>

theorem wrong_guesses_bounded:
  assumes "sorted (map snd attempts)" "0 < m" "\<forall>(body, x) \<in> set attempts. b \<le> x \<and> x < b + 60000 * m"
  shows "length (filter (\<lambda>st. st = 401) (takeWhile (\<lambda>st. st \<noteq> 200) (snd (run (login_step io ji) s attempts)))) \<le> m + 10"
proof -
  obtain k where "m = Suc k" using assms(2) by (cases m) auto
  with logins_bounded [of 0 s attempts b k io ji] assms(1,3) show ?thesis by (auto simp: split_beta)
qed

text \<open>A board with the user \<open>admin\<close>, logins with the right password and a wrong one, and one after four failures.\<close>

definition plain_auth :: "unit web_auth" where
  "plain_auth = \<lparr>wa_credentials = \<lparr>kc_record = \<lparr>cr_username = ''admin'', cr_salt = replicate 16 0,
       cr_hash = take 32 (token_bytes ''password1'' @ replicate 32 0), cr_iterations = 10000\<rparr>, kc_configured = True\<rparr>,
     wa_sessions = st_new, wa_throttle = th_new, wa_platform = ()\<rparr>"

definition plain_json :: json_io where
  "plain_json = \<lparr>ji_parse = (\<lambda>fields body. Some (JObject [(''username'', JString ''admin''), (''password'', JString body)])), ji_print = (\<lambda>j. [])\<rparr>"



definition tried_auth :: "unit web_auth" where
  "tried_auth = plain_auth\<lparr>wa_throttle := \<lparr>th_failures = 4, th_last_failure_ms = 40\<rparr>\<rparr>"

theorem wrong_guesses_bounded_witness:
  "snd (run (login_step plain_io plain_json) tried_auth [(''guess'', 50), (''guess'', 60), (''password1'', 70)]) = [401, 429, 429] \<and>
   length (filter (\<lambda>st. st = 401) (takeWhile (\<lambda>st. st \<noteq> 200)
     (snd (run (login_step plain_io plain_json) tried_auth [(''guess'', 50), (''guess'', 60), (''password1'', 70)])))) \<le> 1 + 10"
proof -
  have "snd (run (login_step plain_io plain_json) tried_auth [(''guess'', 50), (''guess'', 60), (''password1'', 70)]) = [401, 429, 429]"
    by code_simp
  with wrong_guesses_bounded [of "[(''guess'', 50), (''guess'', 60), (''password1'', 70)]" 1 50 plain_io plain_json tried_auth]
  show ?thesis by simp
qed

end
