(* ===== verification/VendorValues.thy ===== *)
theory VendorValues
  imports VendorPolicies
begin

text \<open>
  The values that the vendor drivers compute outside the tables: device strings that stay as they
  are once formatted (as \<open>IUPSDriver.h\<close> requires), beeper encodings that read back, and the load of
  OpenUPS.
\<close>

section \<open>Product strings\<close>

lemma starts_with_iff: "starts_with s p \<longleftrightarrow> (\<exists>r. s = p @ r)"
  by (metis append_take_drop_id starts_with_def append_eq_conv_conj)

lemma indexOf_None: "indexOf s p = None \<longleftrightarrow> (\<forall>a r. s \<noteq> a @ p @ r)"
proof -
  have "indexOf s p = None \<longleftrightarrow> (\<forall>i \<le> length s. \<not> starts_with (drop i s) p)"
    by (auto simp: indexOf_def find_None_iff less_Suc_eq_le simp del: upt_Suc)
  also have "\<dots> \<longleftrightarrow> (\<forall>a r. s \<noteq> a @ p @ r)"
  proof
    assume none: "\<forall>i \<le> length s. \<not> starts_with (drop i s) p"
    show "\<forall>a r. s \<noteq> a @ p @ r"
    proof (intro allI notI)
      fix a r assume "s = a @ p @ r"
      then show False using none [rule_format, of "length a"] by (simp add: starts_with_iff)
    qed
  next
    assume "\<forall>a r. s \<noteq> a @ p @ r"
    then show "\<forall>i \<le> length s. \<not> starts_with (drop i s) p"
      by (metis append_take_drop_id starts_with_iff)
  qed
  finally show ?thesis .
qed

lemma indexOf_first:
  assumes "indexOf s p = Some i" "s = a @ p @ r"
  shows "i \<le> length a"
proof (rule ccontr)
  assume "\<not> i \<le> length a"
  moreover have "starts_with (drop (length a) s) p" using assms(2) by (simp add: starts_with_iff)
  moreover obtain j where "j < Suc (length s)" "i = [0..<Suc (length s)] ! j" "\<forall>k < j. \<not> starts_with (drop ([0..<Suc (length s)] ! k) s) p"
    using assms(1) unfolding indexOf_def find_Some_iff by auto
  ultimately show False by (auto simp del: upt_Suc)
qed

lemma trim_inside: "\<exists>x y. s = x @ trim s @ y"
proof -
  have "\<exists>y. t = rev (dropWhile P (rev t)) @ y" for P and t :: string
    by (metis rev_append rev_rev_ident takeWhile_dropWhile_id)
  then obtain y where "dropWhile is_space s = trim s @ y" unfolding trim_def by blast
  then show ?thesis by (metis takeWhile_dropWhile_id)
qed

text \<open>The model of a split product has no firmware left in it.\<close>

lemma model_not_split:
  assumes "splitProduct product = Some (model, firmware, aux)"
  shows "splitProduct model = None"
proof -
  obtain fw where fw: "indexOf product ''FW:'' = Some fw" using assms by (auto simp: splitProduct_def split: option.splits)
  define n where "n = (if 0 < fw then fw - 1 else 0)"
  have m: "model = trim (take n product)" using assms by (auto simp: splitProduct_def fw n_def Let_def split: prod.splits)
  obtain x y where t: "take n product = x @ model @ y" using trim_inside [of "take n product"] m by blast
  have "indexOf model ''FW:'' = None"
    unfolding indexOf_None
  proof (intro allI notI)
    fix a r assume model: "model = a @ ''FW:'' @ r"
    have "product = take n product @ drop n product" by simp
    then have "product = (x @ a) @ ''FW:'' @ (r @ y @ drop n product)" unfolding t model by simp
    then have "fw \<le> length (x @ a)" by (rule indexOf_first [OF fw])
    moreover have "length (x @ a) + 3 \<le> n" using arg_cong [OF t, of length] by (simp add: model)
    ultimately show False by (simp add: n_def split: if_splits)
  qed
  then show ?thesis by (simp add: splitProduct_def)
qed

lemma kv_set_same: "kv_find ps k = Some v \<Longrightarrow> kv_set ps k v = ps"
  by (induction ps) (auto split: if_splits)

lemma set_filled_parameters:
  "ud_parameters (set_filled k v d) = (if v \<noteq> [] then kv_set (ud_parameters d) k v else ud_parameters d)"
  by (simp add: set_filled_def ud_set_def)

lemma apc_format_twice:
  "ud_parameters (apc_formatDeviceStrings (apc_formatDeviceStrings d)) = ud_parameters (apc_formatDeviceStrings d)"
proof (cases "splitProduct (ud_get d ''ups.model'' [])")
  case None
  then show ?thesis by (simp add: apc_formatDeviceStrings_def)
next
  case (Some parts)
  obtain model firmware aux where parts: "parts = (model, firmware, aux)" by (cases parts) auto
  define f where "f = (\<lambda>d. set_filled ''ups.firmware.aux'' aux (set_filled ''ups.firmware'' firmware (set_filled ''ups.model'' model d)))"
  have once: "apc_formatDeviceStrings d = f d" unfolding apc_formatDeviceStrings_def Some parts f_def by simp
  show ?thesis
  proof (cases "model = []")
    case True
    then have "ud_get (f d) ''ups.model'' [] = ud_get d ''ups.model'' []"
      by (simp add: f_def ud_get_def set_filled_parameters kv_find_set)
    then have "apc_formatDeviceStrings (f d) = f (f d)" unfolding apc_formatDeviceStrings_def f_def using Some parts by simp
    moreover have "ud_parameters (f (f d)) = ud_parameters (f d)"
      using True by (simp add: f_def set_filled_parameters kv_find_set kv_set_same)
    ultimately show ?thesis by (simp add: once)
  next
    case False
    then have "ud_get (f d) ''ups.model'' [] = model" by (simp add: f_def ud_get_def set_filled_parameters kv_find_set)
    then have "apc_formatDeviceStrings (f d) = f d"
      unfolding apc_formatDeviceStrings_def using model_not_split Some parts by simp
    then show ?thesis by (simp add: once)
  qed
qed

lemma default_mfr_twice: "name \<noteq> [] \<Longrightarrow> default_mfr name (default_mfr name d) = default_mfr name d"
  by (simp add: default_mfr_def ud_get_def ud_set_def kv_find_set)

lemma powercom_format_twice:
  "powercom_formatDeviceStrings (powercom_formatDeviceStrings d) = powercom_formatDeviceStrings d"
  by (simp add: powercom_formatDeviceStrings_def ud_hasKey_def ud_set_def kv_find_set)

text \<open>C28: \<open>formatDeviceStrings\<close> is idempotent for every driver, as \<open>IUPSDriver.h\<close> requires: the host
  calls it after every string descriptor.\<close>

theorem formatted_strings_stay:
  "ud_parameters (formatDeviceStrings v (formatDeviceStrings v d)) = ud_parameters (formatDeviceStrings v d)"
  by (simp add: formatDeviceStrings_def apc_format_twice default_mfr_twice powercom_format_twice split: vendor.split)

section \<open>The beeper\<close>

text \<open>The value written by beeper.enable and beeper.disable reads back as its state, in the encoding
  of the brand, for the drivers that decode the field themselves.\<close>

lemma decodeBeeper_of:
  "dv_decodeBeeper (policy_of unmapped v) = (case v of Legrand \<Rightarrow> legrand_decodeBeeperStatus | _ \<Rightarrow> decodeBeeperStatus)"
  by (simp add: policy_of_def apc_policy_def mge_policy_def cps_policy_def legrand_policy_def openups_policy_def powercom_policy_def
      own_table_def generic_policy_def Let_def split: vendor.split)

lemma status_written:
  "ud_valueEquals d k w \<Longrightarrow> ud_get d k [] = w" "ud_get (ud_set d k w) k [] = w"
  by (simp_all add: ud_valueEquals_def ud_find_def ud_get_def ud_set_def kv_find_set split: option.splits)

lemma beeper_reads_back:
  assumes "dc_vendor c \<in> {Generic, Legrand, Liebert, OpenUps}"
  shows "ud_get (dv_decodeBeeper (dc_policy c) d (of_nat (unat (dc_encodeBeeper c enable (hu_bit_size def)))) def)
     ''ups.beeper.status'' [] = (if enable then ''enabled'' else ''disabled'')"
proof -
  have "ud_get (decodeBeeperStatus d (of_nat (unat (encodeBeeperValue enable (hu_bit_size def)))) def) ''ups.beeper.status'' [] =
      (if enable then ''enabled'' else ''disabled'')"
    unfolding decodeBeeperStatus_def encodeBeeperValue_def
    by (cases enable; cases "hu_bit_size def = 1") (simp_all add: status_written)
  moreover have "ud_get (legrand_decodeBeeperStatus d (of_nat (unat (legrand_encodeBeeperValue enable (hu_bit_size def)))) def)
      ''ups.beeper.status'' [] = (if enable then ''enabled'' else ''disabled'')"
    unfolding legrand_decodeBeeperStatus_def legrand_encodeBeeperValue_def
    by (cases enable; cases "hu_bit_size def = 1") (simp_all add: status_written)
  ultimately show ?thesis using assms by (auto simp: decodeBeeper_of dc_policy_def dc_encodeBeeper_def)
qed

section \<open>The load of OpenUPS\<close>

lemma round_away_mono: "p \<le> q \<Longrightarrow> round_away p \<le> round_away q"
proof -
  assume le: "p \<le> q"
  have up: "0 \<le> x \<Longrightarrow> 0 \<le> round_away x" and down: "x < 0 \<Longrightarrow> round_away x \<le> 0" for x by (simp_all add: round_away_def)
  show ?thesis
  proof (cases "0 \<le> p \<or> q < 0")
    case True
    have "\<lfloor>- q + 1 / 2\<rfloor> \<le> \<lfloor>- p + 1 / 2\<rfloor>" "\<lfloor>p + 1 / 2\<rfloor> \<le> \<lfloor>q + 1 / 2\<rfloor>" using le by (auto intro: floor_mono)
    then show ?thesis using True le by (auto simp: round_away_def)
  next
    case False
    then show ?thesis using up [of q] down [of p] by auto
  qed
qed

text \<open>The load is a whole percentage from 0 to 100, whatever the voltage, the current and the
  name of the model.\<close>

lemma openups_load_bounds:
  assumes "ud_hasKey d ''output.voltage''" "ud_hasKey d ''output.current''"
  shows "\<exists>n. 0 \<le> n \<and> n \<le> 100 \<and> ud_find (openups_load d) ''ups.load'' = Some (dec_int n)"
proof -
  define power where "power = ud_getFloat strtod d ''output.voltage'' 0 * ud_getFloat strtod d ''output.current'' 0"
  define pct where "pct = max 0 (min 100 (power / of_int (openups_nominal d) * 100))"
  define n where "n = round_away pct"
  have "0 \<le> pct" "pct \<le> 100" by (simp_all add: pct_def)
  then have n: "0 \<le> n" "n \<le> 100"
    using round_away_mono [of 0 pct] round_away_mono [of pct 100] by (simp_all add: n_def round_away_def)
  have set: "ud_find (fst (set_changed k val s)) k = Some val" for k val s
    by (simp add: set_changed_def ud_valueEquals_def ud_find_def ud_set_def kv_find_set split: option.splits)
  have power_keeps: "ud_find (ud_updateRealPower strtod e) ''ups.load'' = ud_find e ''ups.load''" for e
    by (simp add: ud_updateRealPower_def ud_find_def ud_set_def kv_find_set Let_def)
  have "ud_find (openups_load d) ''ups.load'' = Some (dec_int n)"
    using assms power_keeps set
    unfolding openups_load_def Let_def power_def [symmetric] pct_def [symmetric] n_def [symmetric] by (simp add: split_beta)
  then show ?thesis using n by blast
qed

end
