(* ===== verification/UsbService.thy ===== *)
theory UsbService
  imports UsbHost HidParser RecoveryPolicies
begin

text \<open>
  The poll task of \<open>USBHostUPS.cpp\<close>: the events of the HID task, the claim of an interface, the
  recovery of the link and of the INPUT pipe, the poll and the on-demand read. The HID driver, the
  USB Host library and the clock are the operations \<open>hid_io\<close> on the unknown state of the device.
  Events that arrive while the task runs are those of its next turn. The log lines, the counters
  behind them, the mutexes and the test builds are not modelled.
\<close>

unbundle bit_operations_syntax

section \<open>The state of the task\<close>

record dev_info =
  di_vid :: u16
  di_pid :: u16
  di_mfr :: "u32 list"
  di_product :: "u32 list"
  di_serial :: "u32 list"

record 'd hid_io =
  hio_dev :: "'d usb_device"
  hio_millis :: "'d \<Rightarrow> u32"
  hio_delay :: "nat \<Rightarrow> 'd \<Rightarrow> 'd"
  hio_descriptor :: "nat \<Rightarrow> 'd \<Rightarrow> u8 list option \<times> 'd"
  hio_close :: "nat \<Rightarrow> 'd \<Rightarrow> 'd"
  hio_stuck :: "nat \<Rightarrow> 'd \<Rightarrow> bool"
  hio_info :: "nat \<Rightarrow> 'd \<Rightarrow> dev_info option"
  hio_mps :: "nat \<Rightarrow> 'd \<Rightarrow> nat"
  hio_indices :: "nat \<Rightarrow> 'd \<Rightarrow> u8 \<times> u8 \<times> u8"
  hio_start :: "nat \<Rightarrow> 'd \<Rightarrow> bool \<times> 'd"
  hio_stop :: "nat \<Rightarrow> 'd \<Rightarrow> 'd"
  hio_clear_halt :: "nat \<Rightarrow> 'd \<Rightarrow> usb_err \<times> 'd"
  hio_devices :: "'d \<Rightarrow> nat"
  hio_port_power :: "bool \<Rightarrow> 'd \<Rightarrow> bool \<times> 'd"

datatype hid_event = EvConnected nat | EvOpenFailed nat | EvInput nat "u8 list" u32 | EvDisconnected nat | EvTransferError nat

text \<open>\<open>sv_hung\<close> is the model's: the parser of the report descriptor does not return, and the task with it.\<close>

record 'd usb_service =
  sv_host :: "'d usb_host"
  sv_unmapped :: bool
  sv_handle :: "nat option"
  sv_desc_handle :: "nat option"
  sv_desc :: descriptor_retry
  sv_enum :: enum_watchdog
  sv_enum_seen :: bool
  sv_ports :: port_cycle_policy
  sv_in_pending :: bool
  sv_in_attempts :: u8
  sv_in_at :: u32
  sv_in_recoveries :: u8
  sv_reason :: string
  sv_claimed_at :: u32
  sv_od :: online_discharge_log
  sv_od_checked :: u32
  sv_diag :: diag_sweep
  sv_diag_requested :: bool
  sv_diag_last_at :: u32
  sv_descriptor :: "u8 list"
  sv_queue :: "hid_event list"
  sv_dropped :: u32
  sv_hung :: bool

definition EVENT_QUEUE_LEN :: nat where "EVENT_QUEUE_LEN = 48"
definition EVENT_QUEUE_RESERVED :: nat where "EVENT_QUEUE_RESERVED = 2"
definition MAX_IN_RECOVERIES :: u8 where "MAX_IN_RECOVERIES = 3"
definition MAX_IN_START_ATTEMPTS :: u8 where "MAX_IN_START_ATTEMPTS = 40"
definition FIRST_DATA_MAX_MS :: u32 where "FIRST_DATA_MAX_MS = 30000"
definition NOT_ENUMERATED_REASON :: string where
  "NOT_ENUMERATED_REASON = ''UPS not enumerated after the automatic restart''"

text \<open>An operation of the host, one of the device, and the clock.\<close>

definition on_host :: "('d usb_host \<Rightarrow> 'd usb_host) \<Rightarrow> 'd usb_service \<Rightarrow> 'd usb_service" where
  "on_host f s = s\<lparr>sv_host := f (sv_host s)\<rparr>"

definition on_dev :: "('d \<Rightarrow> 'd) \<Rightarrow> 'd usb_service \<Rightarrow> 'd usb_service" where
  "on_dev f = on_host (\<lambda>h. h\<lparr>uh_dev := f (uh_dev h)\<rparr>)"

definition sv_millis :: "'d hid_io \<Rightarrow> 'd usb_service \<Rightarrow> u32" where
  "sv_millis io s = hio_millis io (uh_dev (sv_host s))"

section \<open>Events\<close>

definition postEvent :: "hid_event \<Rightarrow> bool \<Rightarrow> 'd usb_service \<Rightarrow> 'd usb_service" where
  "postEvent ev reserved_slot s =
     (if \<not> reserved_slot \<and> EVENT_QUEUE_LEN - length (sv_queue s) \<le> EVENT_QUEUE_RESERVED then s\<lparr>sv_dropped := sv_dropped s + 1\<rparr>
      else if length (sv_queue s) < EVENT_QUEUE_LEN then s\<lparr>sv_queue := sv_queue s @ [ev]\<rparr>
      else s\<lparr>sv_dropped := sv_dropped s + 1\<rparr>)"

text \<open>INPUT reports leave the reserved slots to the others.\<close>

definition hid_task_event :: "hid_event \<Rightarrow> 'd usb_service \<Rightarrow> 'd usb_service" where
  "hid_task_event ev = postEvent ev (case ev of EvInput h bytes ts \<Rightarrow> False | _ \<Rightarrow> True)"

definition closeInterface :: "'d hid_io \<Rightarrow> nat \<Rightarrow> 'd usb_service \<Rightarrow> 'd usb_service" where
  "closeInterface io handle = on_dev (\<lambda>d. hio_close io handle (hio_close io handle d))"

definition requestRestart :: "string \<Rightarrow> 'd usb_service \<Rightarrow> 'd usb_service" where
  "requestRestart why s =
     (if uh_restart (sv_host s) then s
      else on_host (\<lambda>h. h\<lparr>uh_restart := True\<rparr>) (s\<lparr>sv_reason := why\<rparr>))"

section \<open>Claiming an interface\<close>

definition clearDeferredClaim :: "nat \<Rightarrow> 'd usb_service \<Rightarrow> 'd usb_service" where
  "clearDeferredClaim handle s =
     (if sv_desc_handle s \<noteq> Some handle then s else s\<lparr>sv_desc_handle := None, sv_desc := dr_clear\<rparr>)"

definition deferClaim :: "nat \<Rightarrow> u32 \<Rightarrow> 'd usb_service \<Rightarrow> bool \<times> 'd usb_service" where
  "deferClaim handle now s =
     (if sv_desc_handle s \<noteq> None \<and> sv_desc_handle s \<noteq> Some handle then (False, s)
      else let (r, again) = dr_onFailure (sv_desc s) now
           in (again, s\<lparr>sv_desc := r, sv_desc_handle := (if again then Some handle else None)\<rparr>))"

definition quirks_of :: "u16 \<Rightarrow> u16 \<Rightarrow> u32" where
  "quirks_of vid pid =
     fold (\<lambda>q flags. if qd_vid q = vid \<and> (qd_pid q = 0xFFFF \<or> qd_pid q = pid) then flags OR qd_flags q else flags)
       (takeWhile (\<lambda>q. qd_vid q \<noteq> 0) UPS_QUIRKS) 0"

definition is_ups :: "hid_usage_def list \<Rightarrow> bool" where
  "is_ups usages = list_ex (\<lambda>u. hu_usage u AND 0xFFFF0000 = 0x00840000 \<or> hu_usage u AND 0xFFFF0000 = 0x00850000) usages"

definition applySavedDriverValues :: "'d usb_host \<Rightarrow> 'd usb_host" where
  "applySavedDriverValues h =
     fold (\<lambda>(name, val) h. if starts_with name ''ups.delay.'' then h else on_driver (setDriverSideValue (Some name) (Some val)) h)
       (uh_saved h) h"

definition populateStringsFromDeviceInfo :: "dev_info \<Rightarrow> u32 \<Rightarrow> ups_data \<Rightarrow> ups_data" where
  "populateStringsFromDeviceInfo info quirks data =
     (let text = (\<lambda>src. toAscii (Some src) 64 (quirks AND QUIRK_INVERT_STRINGS \<noteq> 0) 65);
          data = (if text (di_mfr info) \<noteq> [] then ud_set data ''ups.mfr'' (text (di_mfr info)) else data);
          data = (if text (di_product info) \<noteq> [] then ud_set data ''ups.model'' (text (di_product info)) else data)
      in if text (di_serial info) \<noteq> [] \<and> text (di_serial info) \<noteq> ''Blank''
         then ud_set data ''ups.serial'' (text (di_serial info)) else data)"

text \<open>The driver of the device, set up, with the strings and the delays of the device.\<close>

definition create_driver :: "bool \<Rightarrow> dev_info \<Rightarrow> 'd usb_host \<Rightarrow> 'd usb_host" where
  "create_driver unmapped info h =
     (let quirks = quirks_of (di_vid info) (di_pid info);
          text = (\<lambda>src. toAscii (Some src) 64 (quirks AND QUIRK_INVERT_STRINGS \<noteq> 0) 65);
          v = registry_create (di_vid info) (di_pid info) (Some (text (di_mfr info))) (Some (text (di_product info)));
          (v, gd) = vendor_setup (v, gd_new);
          h = h\<lparr>uh_transport := (uh_transport h)\<lparr>ht_quirks := quirks, ht_pid := di_pid info\<rparr>,
                uh_driver := Some (\<lparr>dc_unmapped = unmapped, dc_vendor = v\<rparr>, gd)\<rparr>;
          h = applySavedDriverValues h;
          data = populateStringsFromDeviceInfo info quirks (uh_data h)
      in host_applyDefaultDelays (h\<lparr>uh_product := ud_get data ''ups.model'' [], uh_data := formatDeviceStrings v data\<rparr>))"

text \<open>What the parsed descriptor gives the host.\<close>

definition note_descriptor :: "hid_state \<Rightarrow> hid_transport \<Rightarrow> hid_transport" where
  "note_descriptor hs t = t\<lparr>ht_usages := hs_usages hs, ht_beeper := getActiveBeeperPath (hs_usages hs),
     ht_expected := (\<lambda>i t. of_nat (getExpectedLength hs i t))\<rparr>"

definition claim_link :: "'d hid_io \<Rightarrow> nat \<Rightarrow> hid_state \<Rightarrow> 'd usb_host \<Rightarrow> 'd usb_host" where
  "claim_link io handle hs h =
     (let now = hio_millis io (uh_dev h); (mfr, product, serial) = hio_indices io handle (uh_dev h)
      in h\<lparr>uh_link := lm_reset (uh_link h) now, uh_wd := iw_reset (uh_wd h) now, uh_reasm := ir_reset (uh_reasm h),
           uh_mps := hio_mps io handle (uh_dev h), uh_uses_ids := usesReportIds hs,
           uh_transport := (uh_transport h)\<lparr>ht_iManufacturer := mfr, ht_iProduct := product, ht_iSerialNumber := serial\<rparr>,
           uh_lang := 0, uh_failed := {}, uh_input_ts := (\<lambda>i. None), uh_first_data := False, uh_get_ok := 0,
           uh_restart := False\<rparr>)"

definition start_claimed :: "'d hid_io \<Rightarrow> nat \<Rightarrow> 'd usb_service \<Rightarrow> 'd usb_service" where
  "start_claimed io handle s =
     (let (ok, d) = hio_start io handle (uh_dev (sv_host s));
          s = on_dev (\<lambda>_. d) s;
          s = (if ok then s else s\<lparr>sv_in_pending := True, sv_in_attempts := 0, sv_in_at := sv_millis io s + 50\<rparr>)
      in on_host (\<lambda>h. h\<lparr>uh_ready := True\<rparr>) s)"

definition bind_interface :: "'d hid_io \<Rightarrow> nat \<Rightarrow> u8 list \<Rightarrow> hid_state \<Rightarrow> 'd usb_service \<Rightarrow> 'd usb_service" where
  "bind_interface io handle desc hs s =
     (let s = (case sv_handle s of Some old \<Rightarrow> (if old \<noteq> handle then closeInterface io old s else s) | None \<Rightarrow> s);
          s = s\<lparr>sv_handle := Some handle, sv_diag := dg_clear, sv_diag_requested := False, sv_descriptor := desc\<rparr>;
          s = on_host (\<lambda>h. h\<lparr>uh_transport := note_descriptor hs (uh_transport h), uh_input_length := getInputLength hs,
                             uh_cached := (\<lambda>k. None)\<rparr>) s;
          s = (case hio_info io handle (uh_dev (sv_host s)) of
                 Some info \<Rightarrow> on_host (create_driver (sv_unmapped s) info) s
               | None \<Rightarrow> s);
          restart = uh_restart (sv_host s);
          s = on_host (claim_link io handle hs) s;
          s = s\<lparr>sv_in_pending := False, sv_in_recoveries := 0, sv_claimed_at := sv_millis io s,
                sv_reason := (if restart then [] else sv_reason s)\<rparr>
      in start_claimed io handle s)"

definition claimInterface :: "'d hid_io \<Rightarrow> nat \<Rightarrow> 'd usb_service \<Rightarrow> 'd usb_service" where
  "claimInterface io handle s =
     (let (desc, d) = hio_descriptor io handle (uh_dev (sv_host s)); s = on_dev (\<lambda>_. d) s
      in case desc of
           None \<Rightarrow>
             let (deferred, s) = deferClaim handle (sv_millis io s) s
             in if deferred then s
                else let ctrl_stuck = hio_stuck io handle (uh_dev (sv_host s));
                         s = closeInterface io handle s
                     in if ctrl_stuck \<and> sv_handle s = None then requestRestart ''report descriptor not available'' s else s
         | Some desc \<Rightarrow>
             let s = clearDeferredClaim handle s
             in case parseReportDescriptor desc of
                  None \<Rightarrow> s\<lparr>sv_hung := True\<rparr>
                | Some hs \<Rightarrow>
                    if \<not> is_ups (hs_usages hs) then closeInterface io handle s
                    else bind_interface io handle desc hs s)"

section \<open>Disconnection and recovery\<close>

definition handleDisconnected :: "'d hid_io \<Rightarrow> nat \<Rightarrow> 'd usb_service \<Rightarrow> 'd usb_service" where
  "handleDisconnected io handle s =
     (let s = clearDeferredClaim handle (on_dev (hio_close io handle) s)
      in if sv_handle s \<noteq> Some handle then s
         else on_host (\<lambda>h. h\<lparr>uh_ready := False, uh_data := ud_new, uh_product := [], uh_driver := None,
                            uh_transport := note_descriptor hid_initial (uh_transport h), uh_input_length := getInputLength hid_initial,
                            uh_cached := (\<lambda>k. None)\<rparr>)
                (s\<lparr>sv_handle := None, sv_in_pending := False, sv_diag := dg_clear, sv_diag_requested := False, sv_od := od_new\<rparr>))"

text \<open>The interface of a null handle is no interface: the HID driver refuses it.\<close>

definition on_interface :: "'d usb_service \<Rightarrow> (nat \<Rightarrow> 'd \<Rightarrow> 'd) \<Rightarrow> 'd usb_service" where
  "on_interface s f = (case sv_handle s of None \<Rightarrow> s | Some handle \<Rightarrow> on_dev (f handle) s)"

definition setup_driver :: "'d usb_host \<Rightarrow> 'd usb_host" where
  "setup_driver h =
     (case uh_driver h of
        None \<Rightarrow> h
      | Some (c, gd) \<Rightarrow>
          let (v, gd) = vendor_setup (dc_vendor c, gd)
          in applySavedDriverValues (h\<lparr>uh_driver := Some (c\<lparr>dc_vendor := v\<rparr>, gd)\<rparr>))"

definition clear_in_halt :: "'d hid_io \<Rightarrow> 'd usb_service \<Rightarrow> 'd usb_service" where
  "clear_in_halt io s =
     (let (err, d) = (case sv_handle s of
            None \<Rightarrow> (UsbFailed, uh_dev (sv_host s)) | Some handle \<Rightarrow> hio_clear_halt io handle (uh_dev (sv_host s)));
          s = on_dev (\<lambda>_. d) s
      in on_host (noteControlResult err (sv_millis io s)) s)"

definition recoverInterface :: "'d hid_io \<Rightarrow> u32 \<Rightarrow> bool \<Rightarrow> 'd usb_service \<Rightarrow> 'd usb_service" where
  "recoverInterface io now clear_halt s =
     (let s = on_interface s (hio_stop io);
          s = on_host (\<lambda>h. h\<lparr>uh_reasm := ir_reset (uh_reasm h)\<rparr>) s;
          s = (if clear_halt then clear_in_halt io s else s);
          s = on_host setup_driver s
      in s\<lparr>sv_in_pending := True, sv_in_attempts := 0, sv_in_at := now + 50\<rparr>)"

definition retryInterfaceStart :: "'d hid_io \<Rightarrow> u32 \<Rightarrow> 'd usb_service \<Rightarrow> 'd usb_service" where
  "retryInterfaceStart io now s =
     (if sint (now - sv_in_at s) < 0 then s
      else let (ok, d) = (case sv_handle s of
                 None \<Rightarrow> (False, uh_dev (sv_host s)) | Some handle \<Rightarrow> hio_start io handle (uh_dev (sv_host s)));
               s = on_dev (\<lambda>_. d) s
           in if ok then s\<lparr>sv_in_pending := False\<rparr>
              else let s = s\<lparr>sv_in_attempts := sv_in_attempts s + 1\<rparr>
                   in if MAX_IN_START_ATTEMPTS \<le> sv_in_attempts s
                      then requestRestart ''HID interface restart failed'' (s\<lparr>sv_in_pending := False\<rparr>)
                      else s\<lparr>sv_in_at := now + 50\<rparr>)"

definition transfer_error :: "'d hid_io \<Rightarrow> nat \<Rightarrow> 'd usb_service \<Rightarrow> 'd usb_service" where
  "transfer_error io handle s =
     (if sv_handle s = Some handle \<and> no_interrupt_pipe (uh_transport (sv_host s)) then s
      else if sv_handle s = Some handle \<and> uh_ready (sv_host s) \<and> \<not> sv_in_pending s \<and> \<not> uh_restart (sv_host s)
      then let s = s\<lparr>sv_in_recoveries := sv_in_recoveries s + 1\<rparr>
           in if MAX_IN_RECOVERIES < sv_in_recoveries s then requestRestart ''INPUT transfer keeps failing'' s
              else recoverInterface io (sv_millis io s) True s
      else s)"

definition input_event :: "'d hid_io \<Rightarrow> nat \<Rightarrow> u8 list \<Rightarrow> u32 \<Rightarrow> 'd usb_service \<Rightarrow> 'd usb_service" where
  "input_event io handle bytes ts s =
     (if sv_handle s \<noteq> Some handle \<or> uh_driver (sv_host s) = None then s
      else if no_interrupt_pipe (uh_transport (sv_host s)) then s
      else on_host (processInputReport bytes ts (sv_millis io s)) (s\<lparr>sv_in_recoveries := 0\<rparr>))"

fun process_event :: "'d hid_io \<Rightarrow> hid_event \<Rightarrow> 'd usb_service \<Rightarrow> 'd usb_service" where
  "process_event io (EvConnected handle) s = claimInterface io handle (s\<lparr>sv_enum_seen := True\<rparr>)"
| "process_event io (EvOpenFailed handle) s = s\<lparr>sv_enum_seen := True\<rparr>"
| "process_event io (EvInput handle bytes ts) s = input_event io handle bytes ts s"
| "process_event io (EvDisconnected handle) s = handleDisconnected io handle s"
| "process_event io (EvTransferError handle) s = transfer_error io handle s"

text \<open>A task that hangs takes no more events.\<close>

definition processEvents :: "'d hid_io \<Rightarrow> 'd usb_service \<Rightarrow> 'd usb_service" where
  "processEvents io s =
     fold (\<lambda>ev s. if sv_hung s then s else process_event io ev s) (take EVENT_QUEUE_LEN (sv_queue s))
       (s\<lparr>sv_queue := drop EVENT_QUEUE_LEN (sv_queue s)\<rparr>)"

section \<open>The port\<close>

definition cycleRootPort :: "'d hid_io \<Rightarrow> 'd \<Rightarrow> 'd" where
  "cycleRootPort io d =
     (let (ok, d) = hio_port_power io False d
      in if \<not> ok then d else snd (hio_port_power io True (hio_delay io 500 d)))"

definition serviceEnumWatchdog :: "'d hid_io \<Rightarrow> u32 \<Rightarrow> 'd usb_service \<Rightarrow> 'd usb_service" where
  "serviceEnumWatchdog io now s =
     (if \<not> ew_armed (sv_enum s) then s
      else let enumerated = (sv_enum_seen s \<or> 0 < hio_devices io (uh_dev (sv_host s)));
               (w, act) = ew_tick (sv_enum s) enumerated now;
               s = s\<lparr>sv_enum := w\<rparr>
           in case act of
                EwCyclePort \<Rightarrow> on_dev (cycleRootPort io) s
              | EwRequestRestart \<Rightarrow> requestRestart NOT_ENUMERATED_REASON s
              | EwNone \<Rightarrow> s)"

definition recoverStuckTransfer :: "'d hid_io \<Rightarrow> u32 \<Rightarrow> 'd usb_service \<Rightarrow> 'd usb_service" where
  "recoverStuckTransfer io now s =
     (let (p, decision) = pc_onStuck (sv_ports s) now; s = s\<lparr>sv_ports := p\<rparr>
      in case decision of
           PcRestart \<Rightarrow> requestRestart (case pc_lastRestartReason p of Some why \<Rightarrow> why | None \<Rightarrow> []) s
         | PcCyclePort \<Rightarrow> on_dev (cycleRootPort io) (on_host (\<lambda>h. h\<lparr>uh_ready := False, uh_link := lm_reset (uh_link h) now\<rparr>) s))"

definition isControlPipeProven :: "'d usb_host \<Rightarrow> bool" where
  "isControlPipeProven h \<longleftrightarrow> uh_ready h \<and> uh_first_data h \<and> 0 < uh_get_ok h \<and> lm_failures (uh_link h) = 0"

definition servicePortCycleWait :: "u32 \<Rightarrow> 'd usb_service \<Rightarrow> bool \<times> 'd usb_service" where
  "servicePortCycleWait now s =
     (if \<not> pc_waiting (sv_ports s) then (False, s)
      else if isControlPipeProven (sv_host s) then (False, s\<lparr>sv_ports := pc_onProven (sv_ports s)\<rparr>)
      else let (p, late) = pc_backTimedOut (sv_ports s) now; s = s\<lparr>sv_ports := p\<rparr>
           in if late then (True, requestRestart pc_NOT_BACK_REASON s) else (False, s))"

section \<open>The on-demand read\<close>

definition requestDiagRead :: "'d usb_service \<Rightarrow> bool \<times> 'd usb_service" where
  "requestDiagRead s =
     (if \<not> uh_ready (sv_host s) \<or> uh_driver (sv_host s) = None then (False, s)
      else if dg_state (sv_diag s) = DiagReading then (True, s)
      else (True, s\<lparr>sv_diag_requested := True\<rparr>))"

definition interruptDiagRead :: "'d usb_service \<Rightarrow> 'd usb_service" where
  "interruptDiagRead s = s\<lparr>sv_diag := dg_interrupt (sv_diag s)\<rparr>"

definition readReportRaw ::
    "'d usb_device \<Rightarrow> u8 \<Rightarrow> u8 \<Rightarrow> nat \<Rightarrow> u32 \<Rightarrow> 'd usb_host \<Rightarrow> (diag_result \<times> u8 list) \<times> 'd usb_host" where
  "readReportRaw io report_id report_type expected_length now h =
     (let (r, h) = host_request io report_type report_id (min 256 (if 0 < expected_length then expected_length else 255)) now h
      in case r of
           Inl err \<Rightarrow> ((DiagFailed, []), h)
         | Inr bytes \<Rightarrow> if bytes \<noteq> [] then ((DiagRead, bytes), h\<lparr>uh_get_ok := uh_get_ok h + 1\<rparr>) else ((DiagEmpty, []), h))"

definition start_diag :: "driver_policy \<Rightarrow> 'd usb_service \<Rightarrow> 'd usb_service" where
  "start_diag dv s =
     (if \<not> sv_diag_requested s then s
      else s\<lparr>sv_diag_requested := False,
             sv_diag := dg_start (uh_usages (sv_host s)) {k. uh_cached (sv_host s) k \<noteq> None} (dv_acceptPollReport dv)\<rparr>)"

definition diag_step :: "'d hid_io \<Rightarrow> driver_policy \<Rightarrow> 'd usb_service \<Rightarrow> 'd usb_service" where
  "diag_step io dv s =
     (let now = sv_millis io s; h = sv_host s
      in if \<not> lm_canPoll (uh_link h) now then interruptDiagRead s
         else if now - uh_last_ctrl h < dv_stepSpacingMs dv then s
         else case dg_next (sv_diag s) of
                None \<Rightarrow> s
              | Some (report_type, report_id) \<Rightarrow>
                  let expected = ht_expected (uh_transport h) report_id report_type;
                      ((r, bytes), h) = readReportRaw (hio_dev io) report_id report_type
                        (unat (dv_requestLength dv report_type report_id expected)) now h;
                      s = s\<lparr>sv_host := h\<rparr>
                  in s\<lparr>sv_diag_last_at := sv_millis io s, sv_diag := dg_record report_id r bytes (sv_diag s)\<rparr>)"

definition serviceDiagRead :: "'d hid_io \<Rightarrow> 'd usb_service \<Rightarrow> 'd usb_service" where
  "serviceDiagRead io s =
     (case uh_driver (sv_host s) of
        None \<Rightarrow> s
      | Some (c, gd) \<Rightarrow>
          let s = start_diag (dc_policy c) s
          in if dg_state (sv_diag s) \<noteq> DiagReading then s else diag_step io (dc_policy c) s)"

section \<open>The poll\<close>

text \<open>The \<open>loop\<close> of the driver, and the request it ends with.\<close>

definition poll_request :: "'d usb_device \<Rightarrow> u32 \<Rightarrow> loop_request \<Rightarrow> 'd usb_host \<Rightarrow> 'd usb_host" where
  "poll_request io now req h = (case req of
     ReqNone \<Rightarrow> h
   | ReqString i \<Rightarrow> snd (requestStringDescriptor io i now h)
   | ReqReport i t n \<Rightarrow> snd (requestReport io i t (unat n) now h))"

definition poll_driver :: "'d usb_device \<Rightarrow> u32 \<Rightarrow> 'd usb_host \<Rightarrow> 'd usb_host" where
  "poll_driver io now h =
     (case uh_driver h of
        None \<Rightarrow> h
      | Some (c, gd) \<Rightarrow>
          let (((v, gd), data), req) = vendor_loop (dc_unmapped c) (host_transport h now) now ((dc_vendor c, gd), uh_data h)
          in poll_request io now req (h\<lparr>uh_driver := Some (c\<lparr>dc_vendor := v\<rparr>, gd), uh_data := data\<rparr>))"

definition logOnlineDischarge :: "u32 \<Rightarrow> 'd usb_service \<Rightarrow> 'd usb_service" where
  "logOnlineDischarge now s =
     (if now - sv_od_checked s < 2000 then s
      else let s = s\<lparr>sv_od_checked := now\<rparr>; data = uh_data (sv_host s)
           in if \<not> ud_hasKey data ''ups.status.ac_present'' then s
              else let served = (if ud_hasKey data ''battery.charge'' then lround (ud_getFloat strtod data ''battery.charge'' (-1)) else -1)
                   in s\<lparr>sv_od := fst (od_update (sv_od s) (ud_getBool data ''ups.status.ac_present'' False)
                          (ud_getBool data ''ups.status.discharging'' False) served)\<rparr>)"

definition initial_poll_done :: "'d usb_host \<Rightarrow> bool" where
  "initial_poll_done h =
     (case uh_driver h of None \<Rightarrow> True | Some (c, gd) \<Rightarrow> gd_first_full_done gd)"

definition note_first_data :: "u32 \<Rightarrow> 'd usb_service \<Rightarrow> 'd usb_service" where
  "note_first_data now s =
     (let h = sv_host s in
      if uh_first_data h then s
      else if (initial_poll_done h \<and> computeUPSStatusString strtod (uh_data h) \<noteq> ''Unknown'') \<or> FIRST_DATA_MAX_MS \<le> now - sv_claimed_at s
      then on_host (\<lambda>h. h\<lparr>uh_first_data := True\<rparr>) s
      else s)"

definition service_poll :: "'d hid_io \<Rightarrow> u32 \<Rightarrow> 'd usb_service \<Rightarrow> 'd usb_service" where
  "service_poll io now s =
     (case uh_driver (sv_host s) of
        None \<Rightarrow> s
      | Some (c, gd) \<Rightarrow>
          let diag_spacing = (dg_state (sv_diag s) = DiagReading \<and> now - sv_diag_last_at s < dv_stepSpacingMs (dc_policy c));
              s = (if diag_spacing then s else on_host (poll_driver (hio_dev io) now) s)
          in note_first_data now (serviceDiagRead io (logOnlineDischarge now s)))"

section \<open>One turn of the task\<close>

definition service_input :: "'d hid_io \<Rightarrow> u32 \<Rightarrow> bool \<Rightarrow> 'd usb_service \<Rightarrow> 'd usb_service" where
  "service_input io now polled s =
     (let (wd, act) = iw_tick (iw_setValuesPolled (uh_wd (sv_host s)) polled) now;
          s = on_host (\<lambda>h. h\<lparr>uh_wd := wd\<rparr>) s
      in case act of
           ActRecover \<Rightarrow> recoverInterface io now True s
         | ActRestart \<Rightarrow> requestRestart ''INPUT reports stopped after recovery'' s
         | ActNone \<Rightarrow> service_poll io now (on_host (\<lambda>h. h\<lparr>uh_wd := fst (iw_takeSilenceNotice (uh_wd h) now)\<rparr>) s))"

definition service_link :: "'d hid_io \<Rightarrow> u32 \<Rightarrow> 'd usb_service \<Rightarrow> 'd usb_service" where
  "service_link io now s =
     (case uh_driver (sv_host s) of
        None \<Rightarrow> s
      | Some (c, gd) \<Rightarrow>
          let ctrl_stuck = (0 < lm_failures (uh_link (sv_host s)) \<and>
                (case sv_handle s of None \<Rightarrow> False | Some handle \<Rightarrow> hio_stuck io handle (uh_dev (sv_host s))));
              (m, act) = lm_tick (uh_link (sv_host s)) now ctrl_stuck;
              s = on_host (\<lambda>h. h\<lparr>uh_link := m\<rparr>) s
          in case act of
               ActRecover \<Rightarrow> recoverInterface io now False s
             | ActRestart \<Rightarrow> if ctrl_stuck then recoverStuckTransfer io now s
                             else requestRestart ''control pipe not answering after recovery'' s
             | ActNone \<Rightarrow> service_input io now (gd_input_values_polled gd) s)"

definition service_rest :: "'d hid_io \<Rightarrow> u32 \<Rightarrow> 'd usb_service \<Rightarrow> 'd usb_service" where
  "service_rest io now s =
     (let s = serviceEnumWatchdog io now s;
          s = (if uh_restart (sv_host s) \<or> sv_in_pending s then interruptDiagRead s else s)
      in if uh_restart (sv_host s) then s
         else if sv_in_pending s then retryInterfaceStart io now s
         else let (stop, s) = servicePortCycleWait now s
              in if stop \<or> \<not> uh_ready (sv_host s) \<or> uh_driver (sv_host s) = None then s
                 else service_link io now s)"

text \<open>The time is taken again after a claim, that may block.\<close>

definition service :: "'d hid_io \<Rightarrow> 'd usb_service \<Rightarrow> 'd usb_service" where
  "service io s =
     (if sv_hung s then s
      else let s = processEvents io s
           in if sv_hung s then s
              else if dr_due (sv_desc s) (sv_millis io s)
              then let s = (case sv_desc_handle s of None \<Rightarrow> s | Some handle \<Rightarrow> claimInterface io handle s)
                   in if sv_hung s then s else service_rest io (sv_millis io s) s
              else service_rest io (sv_millis io s) s)"

end
