(* ===== verification/VendorTableFacts.thy ===== *)
theory VendorTableFacts
  imports VendorTables
begin

text \<open>
  The variables that the generic rows still give beside the table of a brand, and that the table
  of the brand does not give itself.
\<close>

definition tail_name :: "string list \<Rightarrow> string list \<Rightarrow> hid_info \<Rightarrow> bool" where
  "tail_name skip kept i \<longleftrightarrow> hi_hidpath i \<in> set skip \<or> hi_info_type i \<in> set exempt_names \<or> hi_info_type i \<in> set kept"

definition own_name :: "string list \<Rightarrow> hid_info \<Rightarrow> bool" where
  "own_name kept i \<longleftrightarrow> hi_info_type i \<notin> set kept"

lemma tail_name_row: "tail_name skip kept (row n f l p d h c k) \<longleftrightarrow> p \<in> set skip \<or> n \<in> set exempt_names \<or> n \<in> set kept"
  by (simp add: tail_name_def row_def)

lemma all_self: "list_all (\<lambda>x. x \<in> set xs) xs"
  by (simp add: list_all_iff)

text \<open>The members of a list, one fact for each.\<close>

lemmas exempt_members = subst [where P = "list_all (\<lambda>x. x \<in> set exempt_names)", OF exempt_names_def all_self, unfolded list.pred_inject(2)]

lemma own_name_row: "own_name kept (row n f l p d h c k) \<longleftrightarrow> n \<notin> set kept"
  by (simp add: own_name_def row_def)

definition mge_kept :: "string list" where
  "mge_kept = [
     ''ups.mfr.date'', ''battery.mfr.date'']"

lemmas mge_members =
  subst [where P = "list_all (\<lambda>x. x \<in> set mge_superseded)", OF mge_superseded_def all_self, unfolded list.pred_inject(2)]
  subst [where P = "list_all (\<lambda>x. x \<in> set mge_kept)", OF mge_kept_def all_self, unfolded list.pred_inject(2)]

lemma mge_kept_1: "list_all (tail_name mge_superseded mge_kept) (generic_rows_1 unmapped)"
  by (simp add: generic_rows_1_def tail_name_row mge_members exempt_members)

lemma mge_kept_2: "list_all (tail_name mge_superseded mge_kept) (generic_rows_2 unmapped)"
  by (simp add: generic_rows_2_def tail_name_row mge_members exempt_members)

lemma mge_kept_3: "list_all (tail_name mge_superseded mge_kept) (generic_rows_3 unmapped)"
  by (simp add: generic_rows_3_def tail_name_row mge_members exempt_members)

lemma mge_own_mge_rows_1: "list_all (own_name mge_kept) (mge_rows_1 unmapped)"
  by (simp add: mge_rows_1_def own_name_row mge_kept_def)

lemma mge_own_mge_rows_2: "list_all (own_name mge_kept) (mge_rows_2 unmapped)"
  by (simp add: mge_rows_2_def own_name_row mge_kept_def)

lemma mge_own_mge_rows_3: "list_all (own_name mge_kept) (mge_rows_3 unmapped)"
  by (simp add: mge_rows_3_def own_name_row mge_kept_def)

lemma mge_own_mge_rows_4: "list_all (own_name mge_kept) (mge_rows_4 unmapped)"
  by (simp add: mge_rows_4_def own_name_row mge_kept_def)

lemma mge_own_mge_rows_5: "list_all (own_name mge_kept) (mge_rows_5 unmapped)"
  by (simp add: mge_rows_5_def own_name_row mge_kept_def)

lemma mge_own_mge_rows_6: "list_all (own_name mge_kept) (mge_rows_6 unmapped)"
  by (simp add: mge_rows_6_def own_name_row mge_kept_def)

definition apc_kept :: "string list" where
  "apc_kept = [
     ''input.frequency'', ''ups.realpower'', ''ups.power'', ''ups.temperature'', ''battery.capacity'', ''ups.power.nominal'']"

lemmas apc_members =
  subst [where P = "list_all (\<lambda>x. x \<in> set apc_superseded)", OF apc_superseded_def all_self, unfolded list.pred_inject(2)]
  subst [where P = "list_all (\<lambda>x. x \<in> set apc_kept)", OF apc_kept_def all_self, unfolded list.pred_inject(2)]

lemma apc_kept_1: "list_all (tail_name apc_superseded apc_kept) (generic_rows_1 unmapped)"
  by (simp add: generic_rows_1_def tail_name_row apc_members exempt_members)

lemma apc_kept_2: "list_all (tail_name apc_superseded apc_kept) (generic_rows_2 unmapped)"
  by (simp add: generic_rows_2_def tail_name_row apc_members exempt_members)

lemma apc_kept_3: "list_all (tail_name apc_superseded apc_kept) (generic_rows_3 unmapped)"
  by (simp add: generic_rows_3_def tail_name_row apc_members exempt_members)

lemma apc_own_apc_rows_1: "list_all (own_name apc_kept) (apc_rows_1 unmapped)"
  by (simp add: apc_rows_1_def own_name_row apc_kept_def)

lemma apc_own_apc_rows_2: "list_all (own_name apc_kept) (apc_rows_2 unmapped)"
  by (simp add: apc_rows_2_def own_name_row apc_kept_def)

lemma apc_own_apc_rows_3: "list_all (own_name apc_kept) (apc_rows_3 unmapped)"
  by (simp add: apc_rows_3_def own_name_row apc_kept_def)

definition cps_kept :: "string list" where
  "cps_kept = [
     ''ups.mfr.date'', ''battery.temperature'', ''battery.capacity'']"

lemmas cps_members =
  subst [where P = "list_all (\<lambda>x. x \<in> set cps_superseded)", OF cps_superseded_def all_self, unfolded list.pred_inject(2)]
  subst [where P = "list_all (\<lambda>x. x \<in> set cps_kept)", OF cps_kept_def all_self, unfolded list.pred_inject(2)]

lemma cps_kept_1: "list_all (tail_name cps_superseded cps_kept) (generic_rows_1 unmapped)"
  by (simp add: generic_rows_1_def tail_name_row cps_members exempt_members)

lemma cps_kept_2: "list_all (tail_name cps_superseded cps_kept) (generic_rows_2 unmapped)"
  by (simp add: generic_rows_2_def tail_name_row cps_members exempt_members)

lemma cps_kept_3: "list_all (tail_name cps_superseded cps_kept) (generic_rows_3 unmapped)"
  by (simp add: generic_rows_3_def tail_name_row cps_members exempt_members)

lemma cps_own_cps_rows_1: "list_all (own_name cps_kept) (cps_rows_1 unmapped)"
  by (simp add: cps_rows_1_def own_name_row cps_kept_def)

lemma cps_own_cps_rows_2: "list_all (own_name cps_kept) (cps_rows_2 unmapped)"
  by (simp add: cps_rows_2_def own_name_row cps_kept_def)

definition ecoflow_kept :: "string list" where
  "ecoflow_kept = [
     ''input.voltage'', ''input.frequency'', ''output.voltage'', ''output.frequency'', ''ups.realpower'', ''ups.power'',
     ''ups.load'', ''battery.mfr.date'', ''ups.temperature'', ''battery.temperature'', ''ups.realpower.nominal'',
     ''input.voltage.nominal'', ''output.voltage.nominal'', ''input.transfer.high'', ''input.transfer.low'', ''ups.test.result'']"

lemmas ecoflow_members =
  subst [where P = "list_all (\<lambda>x. x \<in> set ecoflow_superseded)", OF ecoflow_superseded_def all_self, unfolded list.pred_inject(2)]
  subst [where P = "list_all (\<lambda>x. x \<in> set ecoflow_kept)", OF ecoflow_kept_def all_self, unfolded list.pred_inject(2)]

lemma ecoflow_kept_1: "list_all (tail_name ecoflow_superseded ecoflow_kept) (generic_rows_1 unmapped)"
  by (simp add: generic_rows_1_def tail_name_row ecoflow_members exempt_members)

lemma ecoflow_kept_2: "list_all (tail_name ecoflow_superseded ecoflow_kept) (generic_rows_2 unmapped)"
  by (simp add: generic_rows_2_def tail_name_row ecoflow_members exempt_members)

lemma ecoflow_kept_3: "list_all (tail_name ecoflow_superseded ecoflow_kept) (generic_rows_3 unmapped)"
  by (simp add: generic_rows_3_def tail_name_row ecoflow_members exempt_members)

lemma ecoflow_own_ecoflowHid2Nut: "list_all (own_name ecoflow_kept) (ecoflowHid2Nut unmapped)"
  by (simp add: ecoflowHid2Nut_def own_name_row ecoflow_kept_def)

definition powercom_kept :: "string list" where
  "powercom_kept = [
     ''ups.realpower'', ''ups.power'', ''ups.temperature'', ''battery.capacity'', ''ups.realpower.nominal'',
     ''ups.power.nominal'', ''input.transfer.high'', ''input.transfer.low'']"

lemmas powercom_members =
  subst [where P = "list_all (\<lambda>x. x \<in> set powercom_superseded)", OF powercom_superseded_def all_self, unfolded list.pred_inject(2)]
  subst [where P = "list_all (\<lambda>x. x \<in> set powercom_kept)", OF powercom_kept_def all_self, unfolded list.pred_inject(2)]

lemma powercom_kept_1: "list_all (tail_name powercom_superseded powercom_kept) (generic_rows_1 unmapped)"
  by (simp add: generic_rows_1_def tail_name_row powercom_members exempt_members)

lemma powercom_kept_2: "list_all (tail_name powercom_superseded powercom_kept) (generic_rows_2 unmapped)"
  by (simp add: generic_rows_2_def tail_name_row powercom_members exempt_members)

lemma powercom_kept_3: "list_all (tail_name powercom_superseded powercom_kept) (generic_rows_3 unmapped)"
  by (simp add: generic_rows_3_def tail_name_row powercom_members exempt_members)

lemma powercom_own_powercom_rows_1: "list_all (own_name powercom_kept) (powercom_rows_1 unmapped)"
  by (simp add: powercom_rows_1_def own_name_row powercom_kept_def)

lemma powercom_own_powercom_rows_2: "list_all (own_name powercom_kept) (powercom_rows_2 unmapped)"
  by (simp add: powercom_rows_2_def own_name_row powercom_kept_def)

lemma powercom_own_powercom_rows_3: "list_all (own_name powercom_kept) (powercom_rows_3 unmapped)"
  by (simp add: powercom_rows_3_def own_name_row powercom_kept_def)

definition openups_kept :: "string list" where
  "openups_kept = [
     ''input.frequency'', ''output.frequency'', ''ups.realpower'', ''ups.power'', ''ups.load'', ''ups.mfr.date'',
     ''ups.realpower.nominal'', ''ups.power.nominal'', ''battery.voltage.nominal'', ''input.voltage.nominal'',
     ''output.voltage.nominal'', ''input.transfer.high'', ''input.transfer.low'', ''ups.test.result'', ''ups.timer.shutdown'']"

lemmas openups_members =
  subst [where P = "list_all (\<lambda>x. x \<in> set openups_superseded)", OF openups_superseded_def all_self, unfolded list.pred_inject(2)]
  subst [where P = "list_all (\<lambda>x. x \<in> set openups_kept)", OF openups_kept_def all_self, unfolded list.pred_inject(2)]

lemma openups_kept_1: "list_all (tail_name openups_superseded openups_kept) (generic_rows_1 unmapped)"
  by (simp add: generic_rows_1_def tail_name_row openups_members exempt_members)

lemma openups_kept_2: "list_all (tail_name openups_superseded openups_kept) (generic_rows_2 unmapped)"
  by (simp add: generic_rows_2_def tail_name_row openups_members exempt_members)

lemma openups_kept_3: "list_all (tail_name openups_superseded openups_kept) (generic_rows_3 unmapped)"
  by (simp add: generic_rows_3_def tail_name_row openups_members exempt_members)

lemma openups_own_openupsHid2Nut: "list_all (own_name openups_kept) (openupsHid2Nut unmapped)"
  by (simp add: openupsHid2Nut_def own_name_row openups_kept_def)

definition legrand_kept :: "string list" where
  "legrand_kept = [
     ''input.frequency'', ''ups.realpower'', ''ups.power'', ''ups.mfr.date'', ''battery.mfr.date'', ''ups.temperature'',
     ''battery.temperature'', ''battery.capacity'', ''ups.power.nominal'', ''output.voltage.nominal'', ''ups.test.result'',
     ''ups.timer.shutdown'']"

lemmas legrand_members =
  subst [where P = "list_all (\<lambda>x. x \<in> set legrand_superseded)", OF legrand_superseded_def all_self, unfolded list.pred_inject(2)]
  subst [where P = "list_all (\<lambda>x. x \<in> set legrand_kept)", OF legrand_kept_def all_self, unfolded list.pred_inject(2)]

lemma legrand_kept_1: "list_all (tail_name legrand_superseded legrand_kept) (generic_rows_1 unmapped)"
  by (simp add: generic_rows_1_def tail_name_row legrand_members exempt_members)

lemma legrand_kept_2: "list_all (tail_name legrand_superseded legrand_kept) (generic_rows_2 unmapped)"
  by (simp add: generic_rows_2_def tail_name_row legrand_members exempt_members)

lemma legrand_kept_3: "list_all (tail_name legrand_superseded legrand_kept) (generic_rows_3 unmapped)"
  by (simp add: generic_rows_3_def tail_name_row legrand_members exempt_members)

lemma legrand_own_legrandHid2Nut: "list_all (own_name legrand_kept) (legrandHid2Nut unmapped)"
  by (simp add: legrandHid2Nut_def own_name_row legrand_kept_def)

definition liebert_kept :: "string list" where
  "liebert_kept = [
     ''ups.realpower'', ''ups.power'', ''battery.charge.low'', ''ups.mfr.date'', ''battery.mfr.date'', ''ups.temperature'',
     ''battery.temperature'', ''battery.capacity'', ''ups.realpower.nominal'', ''battery.voltage.nominal'',
     ''input.voltage.nominal'', ''ups.timer.shutdown'']"

lemmas liebert_members =
  subst [where P = "list_all (\<lambda>x. x \<in> set liebert_superseded)", OF liebert_superseded_def all_self, unfolded list.pred_inject(2)]
  subst [where P = "list_all (\<lambda>x. x \<in> set liebert_kept)", OF liebert_kept_def all_self, unfolded list.pred_inject(2)]

lemma liebert_kept_1: "list_all (tail_name liebert_superseded liebert_kept) (generic_rows_1 unmapped)"
  by (simp add: generic_rows_1_def tail_name_row liebert_members exempt_members)

lemma liebert_kept_2: "list_all (tail_name liebert_superseded liebert_kept) (generic_rows_2 unmapped)"
  by (simp add: generic_rows_2_def tail_name_row liebert_members exempt_members)

lemma liebert_kept_3: "list_all (tail_name liebert_superseded liebert_kept) (generic_rows_3 unmapped)"
  by (simp add: generic_rows_3_def tail_name_row liebert_members exempt_members)

lemma liebert_own_liebert_rows_1: "list_all (own_name liebert_kept) (liebert_rows_1 unmapped)"
  by (simp add: liebert_rows_1_def own_name_row liebert_kept_def)

lemma liebert_own_liebert_rows_2: "list_all (own_name liebert_kept) (liebert_rows_2 unmapped)"
  by (simp add: liebert_rows_2_def own_name_row liebert_kept_def)

end
