(* ===== verification/VendorProofs.thy ===== *)
theory VendorProofs
  imports VendorPolicies VendorTableFacts
begin

text \<open>
  What the vendor drivers keep: one owner for each variable, no request for a report that freezes
  the device, device strings that stay as they are once formatted, and the ranges of the computed
  values.
\<close>

unbundle bit_operations_syntax

section \<open>One owner for each variable\<close>

text \<open>The driver of a brand has a table of its own beside the generic rows.\<close>

lemma brand_table:
  assumes "v \<noteq> Generic"
  shows "\<exists>kept. list_all (own_name kept) (dv_table (policy_of unmapped v)) \<and>
    list_all (tail_name (dv_superseded (policy_of unmapped v)) kept) (genericHid2Nut unmapped) \<and> \<not> dv_generic (policy_of unmapped v) \<and>
    dv_tail (policy_of unmapped v) = genericHid2Nut unmapped"
proof (cases v)
  case (Apc bx)
  then show ?thesis by (intro exI [of _ apc_kept]) (simp add: policy_of_def apc_policy_def own_table_def generic_policy_def Let_def
      genericHid2Nut_def apcHid2Nut_def apc_kept_1 apc_kept_2 apc_kept_3 apc_own_apc_rows_1 apc_own_apc_rows_2 apc_own_apc_rows_3)
next
  case (CyberPower layout)
  then show ?thesis by (intro exI [of _ cps_kept]) (simp add: policy_of_def cps_policy_def own_table_def generic_policy_def
      genericHid2Nut_def cpsHid2Nut_def cps_kept_1 cps_kept_2 cps_kept_3 cps_own_cps_rows_1 cps_own_cps_rows_2)
next
  case (Eaton e)
  then show ?thesis by (intro exI [of _ mge_kept]) (simp add: policy_of_def mge_policy_def own_table_def generic_policy_def
      genericHid2Nut_def mgeHid2Nut_def mge_kept_1 mge_kept_2 mge_kept_3 mge_own_mge_rows_1 mge_own_mge_rows_2 mge_own_mge_rows_3
      mge_own_mge_rows_4 mge_own_mge_rows_5 mge_own_mge_rows_6)
next
  case EcoFlow
  then show ?thesis by (intro exI [of _ ecoflow_kept]) (simp add: policy_of_def own_table_def generic_policy_def
      genericHid2Nut_def ecoflow_kept_1 ecoflow_kept_2 ecoflow_kept_3 ecoflow_own_ecoflowHid2Nut)
next
  case Legrand
  then show ?thesis by (intro exI [of _ legrand_kept]) (simp add: policy_of_def legrand_policy_def own_table_def generic_policy_def
      genericHid2Nut_def legrand_kept_1 legrand_kept_2 legrand_kept_3 legrand_own_legrandHid2Nut)
next
  case Liebert
  then show ?thesis by (intro exI [of _ liebert_kept]) (simp add: policy_of_def own_table_def generic_policy_def
      genericHid2Nut_def liebertHid2Nut_def liebert_kept_1 liebert_kept_2 liebert_kept_3 liebert_own_liebert_rows_1 liebert_own_liebert_rows_2)
next
  case OpenUps
  then show ?thesis by (intro exI [of _ openups_kept]) (simp add: policy_of_def openups_policy_def own_table_def generic_policy_def
      genericHid2Nut_def openups_kept_1 openups_kept_2 openups_kept_3 openups_own_openupsHid2Nut)
next
  case (Powercom r)
  then show ?thesis by (intro exI [of _ powercom_kept]) (simp add: policy_of_def powercom_policy_def own_table_def generic_policy_def
      genericHid2Nut_def powercomHid2Nut_def powercom_kept_1 powercom_kept_2 powercom_kept_3 powercom_own_powercom_rows_1
      powercom_own_powercom_rows_2 powercom_own_powercom_rows_3)
qed (simp add: assms)

lemma resolve_info: "map bd_info (resolve bs) = map bd_info bs"
proof -
  have "map (bd_info \<circ> forget_role) (resolve bs) = map (bd_info \<circ> forget_role) bs"
    using arg_cong [OF resolve_forget, of "map bd_info" bs] by simp
  moreover have "bd_info \<circ> forget_role = bd_info" by (rule ext) (simp add: forget_role_def)
  ultimately show ?thesis by simp
qed

lemma bind_row_listed: "bind_row info usages skip = Some b \<Longrightarrow> bd_info b = info \<and> hi_hidpath info \<notin> set skip"
  using bind_row_info [of info usages skip b] by (auto simp: bind_row_def pathListed_def list_ex_iff split: if_splits)

lemma bindRows_new:
  "\<exists>new. bindRows bs table usages skip = bs @ new \<and> (\<forall>b \<in> set new. bd_info b \<in> set table \<and> hi_hidpath (bd_info b) \<notin> set skip)"
proof (intro exI conjI)
  let ?new = "concat (map (\<lambda>info. case bind_row info usages skip of None \<Rightarrow> [] | Some b \<Rightarrow> [b]) table)"
  show "bindRows bs table usages skip = bs @ ?new" by (simp add: bindRows_def)
  show "\<forall>b \<in> set ?new. bd_info b \<in> set table \<and> hi_hidpath (bd_info b) \<notin> set skip"
    using bind_row_listed [OF sym, of _ _ usages skip] bind_row_listed [of _ usages skip] by (auto split: option.splits)
qed

definition value_names :: "bound list \<Rightarrow> string set" where
  "value_names bs = set (map bd_name (filter (\<lambda>b. \<not> exempt b) bs))"

lemma value_names_info: "map bd_info bs = map bd_info cs \<Longrightarrow> value_names bs = value_names cs"
proof -
  have v: "value_names ds = hi_info_type ` {i \<in> set (map bd_info ds). \<not> isInternalRow i \<and> \<not> isCommandRow i}" for ds
    by (auto simp: value_names_def exempt_def)
  show "map bd_info bs = map bd_info cs \<Longrightarrow> value_names bs = value_names cs" by (simp only: v)
qed

text \<open>C26: whatever the device declares, no variable is given both by a row of the table of the
  brand and by a row of the generic table that the driver keeps beside it (ADR 0011): the lists of superseded
  rows are complete, for every driver of the registry.\<close>

theorem one_owner_per_variable:
  "case bound_rows (policy_of unmapped v) usages of (rows, own) \<Rightarrow> value_names (take own rows) \<inter> value_names (drop own rows) = {}"
proof (cases "v = Generic")
  case True
  then show ?thesis by (simp add: bound_rows_def policy_of_def generic_policy_def Let_def value_names_def)
next
  case False
  let ?dv = "policy_of unmapped v"
  obtain kept where t: "list_all (own_name kept) (dv_table ?dv)" "list_all (tail_name (dv_superseded ?dv) kept) (dv_tail ?dv)"
    "\<not> dv_generic ?dv" "dv_tail ?dv = genericHid2Nut unmapped" using brand_table [OF False, of unmapped] by metis
  obtain own where own: "bindRows [] (dv_table ?dv) usages [] = own" "\<forall>b \<in> set own. bd_info b \<in> set (dv_table ?dv)"
    using bindRows_new [of "[]" "dv_table ?dv" usages "[]"] by auto
  obtain new where new: "bindRows own (dv_tail ?dv) usages (dv_superseded ?dv) = own @ new"
    "\<forall>b \<in> set new. bd_info b \<in> set (dv_tail ?dv) \<and> hi_hidpath (bd_info b) \<notin> set (dv_superseded ?dv)"
    using bindRows_new by metis
  have "value_names own \<inter> set kept = {}" using own(2) t(1) by (auto simp: value_names_def list_all_iff own_name_def)
  moreover have "value_names new \<subseteq> set kept"
  proof
    fix n assume "n \<in> value_names new"
    then obtain b where b: "b \<in> set new" "\<not> exempt b" "n = bd_name b" by (auto simp: value_names_def)
    have "bd_info b \<in> set (genericHid2Nut unmapped)" using b(1) new(2) t(4) by auto
    then have "row_ok (bd_info b)" using hid_tables_ok [of "genericHid2Nut unmapped" unmapped] by (simp add: hid_tables_def)
    with b(2) have "bd_name b \<notin> set exempt_names" by (auto simp: row_ok_def exempt_def)
    with b new(2) t(2) show "n \<in> set kept" by (auto simp: list_all_iff tail_name_def)
  qed
  moreover have "value_names (take (length own) (resolve (own @ new))) = value_names own"
    "value_names (drop (length own) (resolve (own @ new))) = value_names new"
    by (intro value_names_info; simp add: take_map [symmetric] drop_map [symmetric] resolve_info)+
  ultimately show ?thesis using t(3) by (auto simp: bound_rows_def own(1) new(1))
qed

section \<open>Requests that freeze a device\<close>

text \<open>Eaton: NUT never asks for 254 and 255. CyberPower: 6 and the vendor reports, and 4 on the
  layout that has them (issue 40).\<close>

definition vendor_reports :: "hid_usage_def list \<Rightarrow> bool" where
  "vendor_reports us \<longleftrightarrow> list_ex (\<lambda>u. 130 \<le> hu_report_id u) us"

definition freezes :: "hid_usage_def list \<Rightarrow> vendor \<Rightarrow> u8 \<Rightarrow> bool" where
  "freezes us v i \<longleftrightarrow> (case v of
     Eaton e \<Rightarrow> i = 254 \<or> i = 255
   | CyberPower layout \<Rightarrow> i = 6 \<or> 130 \<le> i \<or> (i = 4 \<and> vendor_reports us)
   | _ \<Rightarrow> False)"

definition may_request :: "hid_usage_def list \<Rightarrow> vendor \<Rightarrow> hid_transport \<times> driver_call \<Rightarrow> loop_request \<Rightarrow> bool" where
  "may_request us v hc req \<longleftrightarrow>
     (req = ReqNone \<or> (case snd hc of CallLoop now \<Rightarrow> \<not> ht_paused (fst hc) | _ \<Rightarrow> False)) \<and>
     (case req of ReqReport i t n \<Rightarrow> (t = 1 \<or> t = 3) \<and> \<not> freezes us v i | _ \<Rightarrow> True)"

text \<open>The state of a driver once it has seen the device, as far as the poll goes.\<close>

definition settled :: "hid_usage_def list \<Rightarrow> vendor \<Rightarrow> vendor" where
  "settled us v = (case v of
     Apc bx \<Rightarrow> Apc False | Eaton e \<Rightarrow> Eaton eaton_new | Powercom r \<Rightarrow> Powercom []
   | CyberPower layout \<Rightarrow> CyberPower (vendor_reports us) | v \<Rightarrow> v)"

definition layout_ok :: "hid_usage_def list \<Rightarrow> vendor \<Rightarrow> bool" where
  "layout_ok us v \<longleftrightarrow> (case v of CyberPower layout \<Rightarrow> vendor_reports us \<longrightarrow> layout | _ \<Rightarrow> True)"

lemma table_reports_types:
  "list_all (\<lambda>p. pi_type p = 3) out \<Longrightarrow> list_all (\<lambda>p. pi_type p = 3) (appendTableReports table us keep out)"
proof -
  have "list_all (\<lambda>p. pi_type p = 3) out \<Longrightarrow> list_all (\<lambda>p. pi_type p = 3) (fold (\<lambda>i out.
         if \<not> keep (table ! i) i then out
         else let rid = featureReportOf us (table ! i)
              in if rid = 0 \<or> list_ex (\<lambda>p. pi_type p = 3 \<and> pi_id p = rid) out then out
                 else out @ [\<lparr>pi_type = 3, pi_id = rid, pi_length = 0\<rparr>]) is out)" for "is"
    by (induction "is" arbitrary: out) (simp_all add: Let_def)
  then show "list_all (\<lambda>p. pi_type p = 3) out \<Longrightarrow> ?thesis" by (simp add: appendTableReports_def)
qed

lemma powercom_lists_types:
  "list_all (\<lambda>p. pi_type p = 3) (fst (powercom_buildPollLists table host)) \<and>
   list_all (\<lambda>p. pi_type p = 3) (snd (powercom_buildPollLists table host))"
  using table_reports_types [of "[\<lparr>pi_type = 3, pi_id = 0x0A, pi_length = 8\<rparr>]" table "ht_usages host" bool_row]
    table_reports_types [of "appendTableReports table (ht_usages host) bool_row [\<lparr>pi_type = 3, pi_id = 0x0A, pi_length = 8\<rparr>]"
      table "ht_usages host" "powercom_keeps table (ht_usages host)"]
  by (auto simp: powercom_buildPollLists_def Let_def list_all_iff)

lemma accept_of:
  "dv_acceptPollReport (policy_of unmapped v) =
     (case v of Eaton e \<Rightarrow> mge_acceptPollReport | CyberPower layout \<Rightarrow> cps_acceptPollReport layout | _ \<Rightarrow> (\<lambda>t i. True))"
  by (simp add: policy_of_def apc_policy_def mge_policy_def cps_policy_def legrand_policy_def openups_policy_def powercom_policy_def
      own_table_def generic_policy_def Let_def split: vendor.split)

lemma own_lists_of:
  "dv_ownLists (policy_of unmapped v) =
     (case v of Powercom r \<Rightarrow> Some (powercom_buildPollLists (powercomHid2Nut unmapped)) | _ \<Rightarrow> None)"
  by (simp add: policy_of_def apc_policy_def mge_policy_def cps_policy_def legrand_policy_def openups_policy_def powercom_policy_def
      own_table_def generic_policy_def Let_def split: vendor.split)

lemma within_settled: "layout_ok us v \<Longrightarrow> polls_within (policy_of unmapped v) (policy_of unmapped (settled us v))"
  using powercom_lists_types
  by (auto simp: polls_within_def accept_of own_lists_of settled_def layout_ok_def item_ok_def list_all_iff cps_acceptPollReport_def
      split: vendor.splits)

lemma accepts_settled: "dv_acceptPollReport (policy_of unmapped (settled us v)) t i \<Longrightarrow> \<not> freezes us v i"
  by (auto simp: accept_of settled_def freezes_def mge_acceptPollReport_def cps_acceptPollReport_def split: vendor.splits)

definition vendor_inv :: "bool \<Rightarrow> hid_usage_def list \<Rightarrow> vendor \<Rightarrow> driver_object \<Rightarrow> bool" where
  "vendor_inv unmapped us k o1 \<longleftrightarrow>
     settled us (fst o1) = k \<and> layout_ok us (fst o1) \<and> poll_inv (policy_of unmapped k) (snd o1)"

lemma vendor_inv_part:
  "vendor_inv unmapped us k (v, gd) \<Longrightarrow> poll_part gd' = poll_part gd \<Longrightarrow> settled us v' = settled us v \<Longrightarrow>
   layout_ok us v' = layout_ok us v \<Longrightarrow> vendor_inv unmapped us k (v', gd')"
  using poll_inv_part [of gd' gd "policy_of unmapped k"] by (simp add: vendor_inv_def)

lemma vendor_inv_onLoop:
  assumes "vendor_inv unmapped us k (v, gd)" "ht_usages host = us"
  shows "vendor_inv unmapped us k (vendor_onLoop unmapped host data (v, gd))"
proof (cases v)
  case (Apc bx)
  then show ?thesis using vendor_inv_part [OF assms(1), of gd] by (simp add: vendor_onLoop_def settled_def layout_ok_def)
next
  case (Eaton e)
  have "poll_part (updateNutContext e host data gd) = poll_part gd" by (simp add: updateNutContext_def Let_def poll_part_def)
  then show ?thesis using vendor_inv_part [OF assms(1), of _ v] by (simp add: Eaton vendor_onLoop_def)
next
  case (CyberPower layout)
  have r: "hasVendorReports host = vendor_reports us" using assms(2) by (simp add: hasVendorReports_def vendor_reports_def)
  have "layout_ok us (CyberPower (cps_notes_layout host layout g))" for g
    using assms(1) CyberPower by (simp add: vendor_inv_def layout_ok_def cps_notes_layout_def r)
  moreover have "settled us (CyberPower l) = settled us v" for l by (simp add: CyberPower settled_def)
  moreover define gd1 where "gd1 = (if gd_lists_built gd then gd else bindNutTable (cps_policy unmapped layout) host gd)"
  moreover have "poll_part gd1 = poll_part gd" by (simp add: gd1_def)
  then have "poll_inv (policy_of unmapped k) gd1" using assms(1) poll_inv_part [of gd1 gd "policy_of unmapped k"] by (simp add: vendor_inv_def)
  ultimately show ?thesis
    using assms(1) unfolding CyberPower vendor_onLoop_def prod.case vendor.case gd1_def [symmetric] Let_def vendor_inv_def fst_conv snd_conv
    by blast
qed (use assms in \<open>simp_all add: vendor_onLoop_def\<close>)

lemma vendor_loop_inv:
  assumes "vendor_inv unmapped us k (fst s)" "ht_usages host = us"
  shows "vendor_inv unmapped us k (fst (fst (vendor_loop unmapped host now s))) \<and>
    request_ok (policy_of unmapped k) (snd (vendor_loop unmapped host now s))"
proof -
  obtain v gd data where s: "s = ((v, gd), data)" by (metis prod.exhaust)
  obtain gd1 data1 where l: "loop_data (policy_of unmapped v) host (gd, data) = (gd1, data1)" by fastforce
  then have "poll_part gd1 = poll_part gd" using poll_part_data [of "policy_of unmapped v" host "(gd, data)"] by simp
  then have i1: "vendor_inv unmapped us k (v, gd1)" using vendor_inv_part [of unmapped us k v gd gd1 v] assms(1) s by simp
  obtain v2 gd2 where o2: "vendor_onLoop unmapped host data1 (v, gd1) = (v2, gd2)" by fastforce
  then have i2: "vendor_inv unmapped us k (v2, gd2)" using vendor_inv_onLoop [OF i1 assms(2), of data1] by simp
  then have w: "polls_within (policy_of unmapped v2) (policy_of unmapped k)" using within_settled by (auto simp: vendor_inv_def)
  show ?thesis
    using loop_poll_ok [OF w, of "(gd2, data1)" host now] i2
    unfolding vendor_loop_def s Let_def case_prod_conv l o2 by (simp add: vendor_inv_def split_beta)
qed

lemma vendor_loop_paused: "ht_paused host \<Longrightarrow> snd (vendor_loop unmapped host now s) = ReqNone"
  by (simp add: vendor_loop_def loop_poll_def loop_step_paused split_beta Let_def)

lemma vendor_inv_status:
  assumes "vendor_inv unmapped us k (Powercom previous, gd)"
  shows "vendor_inv unmapped us k (Powercom report, snd (powercom_status table host data previous gd))"
proof -
  have soon: "poll_inv dv g \<Longrightarrow> item_ok dv item \<Longrightarrow> poll_inv dv (pollSoon item g)" for dv g item
    using set_take_subset [of "gd_queue_pos g" "gd_queue g"] set_drop_subset [of "gd_queue_pos g" "gd_queue g"]
    by (auto simp: poll_inv_def pollSoon_def)
  have "poll_inv dv g \<Longrightarrow> list_all (item_ok dv) items \<Longrightarrow>
      poll_inv dv (fold (\<lambda>item gd. if pi_id item \<noteq> 0x0A then pollSoon item gd else gd) items g)" for dv g items
    by (induction items arbitrary: g) (simp_all add: soon)
  moreover have "list_all (item_ok (policy_of unmapped k)) (rev (appendTableReports table (ht_usages host) bool_row []))"
    using table_reports_types [of "[]" table "ht_usages host" bool_row] assms
    by (auto simp: vendor_inv_def settled_def list_all_iff item_ok_def accept_of)
  ultimately show ?thesis using assms by (simp add: vendor_inv_def settled_def layout_ok_def powercom_status_def Let_def)
qed

lemma vendor_decode_inv:
  assumes "vendor_inv unmapped us k (fst s)"
  shows "vendor_inv unmapped us k (fst (vendor_decode unmapped host i t data s))"
proof -
  obtain v gd ups where s: "s = ((v, gd), ups)" by (metis prod.exhaust)
  note inv = assms [unfolded s fst_conv]
  have base: "vendor_inv unmapped us k (fst (case decodeReport p host j t data (g, ups) of (gd, ups) \<Rightarrow> ((w, gd), ups)))"
    if "vendor_inv unmapped us k (w, g)" for p w g j
    using vendor_inv_part [OF that, of _ w] poll_part_decode [of p host j t data "(g, ups)"] by (simp add: split_beta)
  have ctx: "vendor_inv unmapped us k (w, g\<lparr>gd_ctx := c\<rparr>)" if "vendor_inv unmapped us k (w, g)" for w g c
    by (rule vendor_inv_part [OF that]) (simp_all add: poll_part_def)
  have eaton: "vendor_inv unmapped us k (Eaton e', g)" if "vendor_inv unmapped us k (Eaton e, g)" for e e' g
    by (rule vendor_inv_part [OF that]) (simp_all add: settled_def layout_ok_def)
  show ?thesis
  proof (cases v)
    case (Powercom previous)
    have volt: "vendor_inv unmapped us k (v, powercom_note_voltage data gd)"
      using inv ctx by (simp add: powercom_note_voltage_def split: option.split)
    show ?thesis
      using base [OF inv] volt inv base [OF vendor_inv_status [OF inv [unfolded Powercom]]]
      by (simp add: vendor_decode_def s Powercom Let_def split_beta)
  next
    case (Eaton e)
    then show ?thesis using inv base [OF inv] eaton [of e] by (simp add: vendor_decode_def s Let_def split_beta)
  qed (use inv base ctx in \<open>simp_all add: vendor_decode_def s Let_def cps_note_pid_def openups_note_pid_def\<close>)
qed

lemma vendor_serve_inv:
  assumes "vendor_inv unmapped us k (fst s)" "ht_usages host = us" "settled us v0 = k"
  shows "vendor_inv unmapped us k (fst (fst (vendor_serve unmapped s (host, c)))) \<and>
    may_request us v0 (host, c) (snd (vendor_serve unmapped s (host, c)))"
proof -
  obtain v gd ups where s: "s = ((v, gd), ups)" by (metis prod.exhaust)
  note inv = assms(1) [unfolded s fst_conv]
  have part: "vendor_inv unmapped us k (v, g)" if "poll_part g = poll_part gd" for g
    by (rule vendor_inv_part [OF inv that]) simp_all
  show ?thesis
  proof (cases c)
    case (CallLoop now)
    have "\<not> freezes us v0 i" if "dv_acceptPollReport (policy_of unmapped k) t i" for t i
      using accepts_settled [of unmapped us v0 t i] that assms(3) by simp
    then show ?thesis using vendor_loop_inv [OF assms(1,2), of now] vendor_loop_paused [of host unmapped now s]
      by (auto simp: CallLoop may_request_def request_ok_def split: loop_request.splits)
  next
    case (CallReport i t data)
    have "vendor_inv unmapped us k (fst (vendor_post unmapped host i t data s))" if "vendor_inv unmapped us k (fst s)" for s
    proof -
      obtain v gd ups where s: "s = ((v, gd), ups)" by (metis prod.exhaust)
      show ?thesis using vendor_inv_part [of unmapped us k v gd _ v] that by (simp add: s vendor_post_def split_beta)
    qed
    then show ?thesis using vendor_decode_inv [OF assms(1)] by (simp add: CallReport may_request_def)
  next
    case (CallString i data)
    have "vendor_inv unmapped us k (case v of Eaton e \<Rightarrow> Eaton (ea_string i data e) | _ \<Rightarrow> v, g)" if "poll_part g = poll_part gd" for g
      by (rule vendor_inv_part [OF inv that]) (simp_all add: settled_def layout_ok_def split: vendor.split)
    from this [of "fst (parseStringDescriptor (policy_of unmapped v) host i data (gd, ups))"] show ?thesis
      by (cases v) (simp_all add: CallString may_request_def s vendor_string_def split_beta)
  next
    case CallChanged
    show ?thesis using inv by (simp add: CallChanged may_request_def s noteDataChanged_def vendor_inv_def poll_inv_def)
  qed (simp_all add: may_request_def s part)
qed

text \<open>C7: whatever device is attached and whatever the calls, reports, strings and times, the driver
  that the registry creates for it never requests a report known to freeze it, requests only INPUT
  and FEATURE reports, and requests nothing while the poll is paused.\<close>

theorem freezing_reports_never_requested:
  "let v = registry_create vid pid mfr product;
       calls = map (\<lambda>(host, c). (host\<lparr>ht_usages := us\<rparr>, c)) cs
   in list_all2 (may_request us v) calls (snd (run (vendor_serve unmapped) (vendor_setup (v, gd), data) calls))"
proof -
  let ?v = "registry_create vid pid mfr product"
  let ?device = "\<lambda>(host, c). (host\<lparr>ht_usages := us\<rparr>, c)"
  have "layout_ok us ?v"
    by (simp add: registry_create_def createPhoenixtec_def DRIVERS_def layout_ok_def split: vendor.split)
  then have start: "vendor_inv unmapped us (settled us ?v) (vendor_setup (?v, gd))"
    by (auto simp: vendor_inv_def vendor_setup_def settled_def layout_ok_def gd_setup_def gd_new_def poll_inv_def Let_def split: vendor.splits)
  have "list_all2 (may_request us ?v) (map ?device cs) (snd (run (vendor_serve unmapped) s (map ?device cs)))"
    if "vendor_inv unmapped us (settled us ?v) (fst s)" for s
    using that
  proof (induction cs arbitrary: s)
    case (Cons hc cs)
    obtain host c where hc: "hc = (host, c)" by fastforce
    show ?case
      using Cons.IH vendor_serve_inv [OF Cons.prems, of "host\<lparr>ht_usages := us\<rparr>" ?v c] by (simp add: hc run_Cons)
  qed simp
  from this [of "(vendor_setup (?v, gd), data)"] start show ?thesis by (simp add: Let_def)
qed

end
