(* ===== verification/UsbServiceSafety.thy ===== *)
theory UsbServiceSafety
  imports UsbService HostSafety VendorProofs
begin

text \<open>
  What the poll task asks the device: every operation of the host keeps the driver of the device
  within the poll of its class (\<open>keeps_driver\<close>), and the requests of a turn are few and harmless.
\<close>

section \<open>The driver of the device\<close>

lemma freezes_settled: "freezes us (settled us v) i = freezes us v i"
  by (simp add: freezes_def settled_def split: vendor.split)

definition attached :: "'d usb_host \<Rightarrow> (bool \<times> vendor) option" where
  "attached h = map_option (\<lambda>(c, gd). (dc_unmapped c, settled (uh_usages h) (dc_vendor c))) (uh_driver h)"

definition driver_ok :: "'d usb_host \<Rightarrow> bool" where
  "driver_ok h = (case uh_driver h of None \<Rightarrow> True
     | Some (c, gd) \<Rightarrow> vendor_inv (dc_unmapped c) (uh_usages h) (settled (uh_usages h) (dc_vendor c)) (dc_vendor c, gd))"

definition keeps_driver :: "'d usb_host \<Rightarrow> 'd usb_host \<Rightarrow> bool" where
  "keeps_driver h h' \<longleftrightarrow> uh_usages h' = uh_usages h \<and> uh_ready h' = uh_ready h \<and> (uh_driver h' = None \<longleftrightarrow> uh_driver h = None) \<and>
     (uh_driver h = None \<and> \<not> uh_ready h \<longrightarrow> uh_data h' = uh_data h) \<and> (driver_ok h \<longrightarrow> driver_ok h' \<and> attached h' = attached h)"

lemma same_driver_refl [simp]: "keeps_driver h h"
  by (simp add: keeps_driver_def)

lemma same_driver_trans: "keeps_driver h h' \<Longrightarrow> keeps_driver h' h'' \<Longrightarrow> keeps_driver h h''"
  by (simp add: keeps_driver_def)

text \<open>The part of the host that this is about.\<close>

definition driver_part :: "'d usb_host \<Rightarrow> (hid_usage_def list \<times> bool) \<times> (driver_class \<times> generic_driver) option \<times> ups_data" where
  "driver_part h = ((uh_usages h, uh_ready h), uh_driver h, uh_data h)"

lemma keeps_part: "driver_part h' = driver_part h \<Longrightarrow> keeps_driver h h'"
proof -
  assume "driver_part h' = driver_part h"
  then have u: "uh_usages h' = uh_usages h" and o1: "uh_ready h' = uh_ready h" "uh_driver h' = uh_driver h" "uh_data h' = uh_data h"
    by (simp_all add: driver_part_def)
  show ?thesis unfolding keeps_driver_def driver_ok_def attached_def u o1 by simp
qed

text \<open>An operation that changes the object of the driver, within its class.\<close>

lemma keeps_object:
  assumes "uh_usages h' = uh_usages h" "uh_ready h' = uh_ready h" "uh_driver h = Some (c, gd)" "uh_driver h' = Some (c', gd')"
    "dc_unmapped c' = dc_unmapped c"
    "\<And>k. vendor_inv (dc_unmapped c) (uh_usages h) k (dc_vendor c, gd) \<Longrightarrow> vendor_inv (dc_unmapped c) (uh_usages h) k (dc_vendor c', gd')"
  shows "keeps_driver h h'"
proof -
  have "settled (uh_usages h) (dc_vendor c') = settled (uh_usages h) (dc_vendor c)" if "driver_ok h"
    using assms(6) [of "settled (uh_usages h) (dc_vendor c)"] that assms(3) by (simp add: driver_ok_def vendor_inv_def)
  then show ?thesis using assms by (auto simp: keeps_driver_def driver_ok_def attached_def)
qed

lemma keeps_data: "uh_driver h \<noteq> None \<Longrightarrow> uh_usages h' = uh_usages h \<Longrightarrow> uh_ready h' = uh_ready h \<Longrightarrow>
    uh_driver h' = uh_driver h \<Longrightarrow> keeps_driver h h'"
  by (auto simp: keeps_driver_def driver_ok_def attached_def)

lemma driver_part_keeps [simp]:
  "driver_part (noteControlResult err now h) = driver_part h"
  "driver_part (snd (host_request io t i len now h)) = driver_part h"
  "driver_part (snd (host_get io t i len now h)) = driver_part h"
  "driver_part (snd (host_set io t i bytes now h)) = driver_part h"
  "driver_part (note_report_bytes t i bytes h) = driver_part h"
proof -
  show n: "driver_part (noteControlResult err now h) = driver_part h" for err now and h :: "'d usb_host"
    by (simp add: noteControlResult_def driver_part_def)
  have d: "driver_part (h\<lparr>uh_dev := d, uh_asked := a\<rparr>) = driver_part h" "driver_part (h\<lparr>uh_dev := d, uh_sent := b\<rparr>) = driver_part h"
    for h :: "'d usb_host" and d a b by (simp_all add: driver_part_def)
  show r: "driver_part (snd (host_request io t i len now h)) = driver_part h"
    by (simp add: host_request_def split_beta Let_def n d split: sum.split)
  show "driver_part (snd (host_get io t i len now h)) = driver_part h" by (simp add: host_get_def split_beta r)
  show "driver_part (snd (host_set io t i bytes now h)) = driver_part h" by (simp add: host_set_def split_beta n d)
  show "driver_part (note_report_bytes t i bytes h) = driver_part h" by (simp add: note_report_bytes_def driver_part_def)
qed

lemma transport_usages [simp]: "ht_usages (host_transport h now) = uh_usages h"
  by (simp add: host_transport_def)

lemma keeps_decode: "keeps_driver h (host_decode i t bytes now h)"
proof (cases "uh_driver h")
  case (Some d)
  obtain c gd where d: "d = (c, gd)" by fastforce
  define r where "r = vendor_post (dc_unmapped c) (host_transport h now) i t bytes
    (vendor_decode (dc_unmapped c) (host_transport h now) i t bytes ((dc_vendor c, gd), uh_data h))"
  have "vendor_inv (dc_unmapped c) (uh_usages h) k (fst r)" if "vendor_inv (dc_unmapped c) (uh_usages h) k (dc_vendor c, gd)" for k
  proof -
    have "settled (uh_usages h) (dc_vendor c) = k" using that by (simp add: vendor_inv_def)
    then show ?thesis
      using vendor_serve_inv [of "dc_unmapped c" "uh_usages h" k "((dc_vendor c, gd), uh_data h)" "host_transport h now" "dc_vendor c"
        "CallReport i t bytes"] that by (simp add: r_def)
  qed
  moreover obtain v' gd' data' where r: "r = ((v', gd'), data')" by (metis prod.exhaust)
  moreover have "host_decode i t bytes now h = h\<lparr>uh_driver := Some (c\<lparr>dc_vendor := v'\<rparr>, gd'), uh_data := data'\<rparr>"
    using r unfolding host_decode_def Some d r_def option.case prod.case Let_def by simp
  ultimately show ?thesis
    using Some d by (intro keeps_object [of _ h c gd "c\<lparr>dc_vendor := v'\<rparr>" gd']) simp_all
qed (simp add: host_decode_def same_driver_refl)

lemma keeps_on_driver:
  assumes "\<And>v gd us k u. vendor_inv u us k (v, gd) \<Longrightarrow> vendor_inv u us k (v, f gd)"
  shows "keeps_driver h (on_driver f h)"
proof (cases "uh_driver h")
  case (Some d)
  obtain c gd where "d = (c, gd)" by fastforce
  with Some assms show ?thesis by (intro keeps_object [of _ h c gd c "f gd"]) (simp_all add: on_driver_def)
qed (simp add: on_driver_def keeps_part driver_part_def)

lemma inv_parts:
  "vendor_inv u us k (v, gd) \<Longrightarrow> vendor_inv u us k (v, noteDataChanged gd)"
  "vendor_inv u us k (v, gd) \<Longrightarrow> vendor_inv u us k (v, invalidateReport t i gd)"
  "vendor_inv u us k (v, gd) \<Longrightarrow> vendor_inv u us k (v, setDriverSideValue n x gd)"
  "vendor_inv u us k (v, gd) \<Longrightarrow> vendor_inv u us k (v, noteHostValue n x gd)"
  "vendor_inv u us k (v, gd) \<Longrightarrow> vendor_inv u us k (v, fst (resetDriverSideValue n gd))"
  "vendor_inv u us k (v, gd) \<Longrightarrow> vendor_inv u us k (v, fst (writableVariables dv gd data))"
proof -
  have part: "vendor_inv u us k (v, g)" if "vendor_inv u us k (v, gd)" "poll_part g = poll_part gd" for g
    by (rule vendor_inv_part [OF that]) simp_all
  show "vendor_inv u us k (v, gd) \<Longrightarrow> vendor_inv u us k (v, noteDataChanged gd)"
    by (simp add: noteDataChanged_def vendor_inv_def poll_inv_def)
  show "vendor_inv u us k (v, gd) \<Longrightarrow> vendor_inv u us k (v, invalidateReport t i gd)" by (rule part) simp_all
  show "vendor_inv u us k (v, gd) \<Longrightarrow> vendor_inv u us k (v, setDriverSideValue n x gd)" by (rule part) simp_all
  show "vendor_inv u us k (v, gd) \<Longrightarrow> vendor_inv u us k (v, noteHostValue n x gd)"
    by (rule part) (simp_all add: noteHostValue_def poll_part_def split: option.split)
  show "vendor_inv u us k (v, gd) \<Longrightarrow> vendor_inv u us k (v, fst (resetDriverSideValue n gd))"
    by (rule part) (simp_all add: resetDriverSideValue_def poll_part_def Let_def split: option.split)
  show "vendor_inv u us k (v, gd) \<Longrightarrow> vendor_inv u us k (v, fst (writableVariables dv gd data))"
    by (rule part) (simp_all add: writableVariables_def poll_part_def split_beta Let_def)
qed

lemmas keeps_note = keeps_on_driver [of noteDataChanged, OF inv_parts(1)]

lemma vendor_setup_inv: "layout_ok us v \<Longrightarrow> vendor_inv u us (settled us v) (vendor_setup (v, gd))"
  by (auto simp: vendor_inv_def vendor_setup_def settled_def layout_ok_def gd_setup_def gd_new_def poll_inv_def Let_def split: vendor.splits)

lemma settled_setup: "settled us (fst (vendor_setup (v, gd))) = settled us v"
  by (simp add: vendor_setup_def settled_def Let_def split: vendor.split)

lemma registry_layout: "layout_ok us (registry_create vid pid mfr product)"
  by (simp add: registry_create_def createPhoenixtec_def DRIVERS_def layout_ok_def split: vendor.split)

section \<open>The operations of the host\<close>

lemma keeps_delays: "keeps_driver h (host_applyDefaultDelays h)"
  by (cases "uh_driver h") (auto simp: host_applyDefaultDelays_def same_driver_refl intro!: keeps_data)

lemma driver_part_simps [simp]:
  "driver_part (h\<lparr>uh_dev := d\<rparr>) = driver_part h" "driver_part (h\<lparr>uh_failed := f\<rparr>) = driver_part h"
  "driver_part (h\<lparr>uh_lang := l\<rparr>) = driver_part h" "driver_part (h\<lparr>uh_get_ok := n\<rparr>) = driver_part h"
  "driver_part (h\<lparr>uh_saved := v\<rparr>) = driver_part h" "driver_part (h\<lparr>uh_default_via := via\<rparr>) = driver_part h"
  by (simp_all add: driver_part_def)

lemma keeps_request: "keeps_driver h (snd (requestReport io i t n now h))"
proof -
  obtain bytes g where g: "host_get io t i (min 256 (if 0 < n then n else 255)) now h = (bytes, g)" by fastforce
  have k: "keeps_driver h g" using driver_part_keeps(3) [of io t i "min 256 (if 0 < n then n else 255)" now h] by (intro keeps_part) (simp add: g)
  have "keeps_driver g (host_decode i t bytes now (note_report_bytes t i bytes (g\<lparr>uh_get_ok := uh_get_ok g + 1\<rparr>)))"
    by (rule same_driver_trans [OF keeps_part keeps_decode]) simp
  with same_driver_trans [OF k] k same_driver_refl show ?thesis by (simp add: requestReport_def g)
qed

lemma keeps_language: "driver_part (snd (read_language io i now h)) = driver_part h"
  by (auto simp: read_language_def Let_def split_beta split: sum.split usb_err.split)

lemma keeps_string: "keeps_driver h (snd (requestStringDescriptor io i now h))"
proof -
  obtain ok g where l: "read_language io i now h = (ok, g)" by fastforce
  have g: "driver_part g = driver_part h" using keeps_language [of io i now h] l by simp
  define r where "r = dio_string io i (uh_lang g) (uh_dev g)"
  define g1 where "g1 = noteControlResult (case fst r of Inl err \<Rightarrow> err | Inr b \<Rightarrow> UsbOk) now (g\<lparr>uh_dev := snd r\<rparr>)"
  define bytes where "bytes = (case fst r of Inl err \<Rightarrow> [] | Inr bytes \<Rightarrow> bytes)"
  have k1: "keeps_driver h g1" using g by (intro keeps_part) (simp add: g1_def)
  define f where "f = g1\<lparr>uh_failed := insert i (uh_failed g1)\<rparr>"
  have kf: "keeps_driver h f" by (rule same_driver_trans [OF k1 keeps_part]) (simp add: f_def)
  define rest where "rest = (case uh_driver g1 of None \<Rightarrow> (True, g1)
    | Some (c, gd) \<Rightarrow>
        let t = host_transport g1 now;
            ((v, gd), data) = vendor_string (dc_unmapped c) t i bytes ((dc_vendor c, gd), uh_data g1);
            c = c\<lparr>dc_vendor := v\<rparr>;
            product = (if i = ht_iProduct t then ud_get data ''ups.model'' [] else uh_product g1)
        in (True, host_applyDefaultDelays (g1\<lparr>uh_driver := Some (c, gd), uh_data := dc_formatStrings c data, uh_product := product\<rparr>)))"
  have "keeps_driver g1 (snd rest)"
  proof (cases "uh_driver g1")
    case (Some d)
    obtain c gd where d: "d = (c, gd)" by fastforce
    obtain v' gd' data' where s: "vendor_string (dc_unmapped c) (host_transport g1 now) i bytes ((dc_vendor c, gd), uh_data g1) = ((v', gd'), data')"
      by (metis prod.exhaust)
    have "vendor_inv (dc_unmapped c) (uh_usages g1) k (v', gd')" if "vendor_inv (dc_unmapped c) (uh_usages g1) k (dc_vendor c, gd)" for k
    proof -
      have "settled (uh_usages g1) (dc_vendor c) = k" using that by (simp add: vendor_inv_def)
      then show ?thesis
        using vendor_serve_inv [of "dc_unmapped c" "uh_usages g1" k "((dc_vendor c, gd), uh_data g1)" "host_transport g1 now" "dc_vendor c"
          "CallString i bytes"] that by (simp add: s)
    qed
    then have "keeps_driver g1 (g1\<lparr>uh_driver := Some (c\<lparr>dc_vendor := v'\<rparr>, gd'), uh_data := a, uh_product := b\<rparr>)" for a b
      using Some d by (intro keeps_object [of _ g1 c gd "c\<lparr>dc_vendor := v'\<rparr>" gd']) simp_all
    then show ?thesis
      unfolding rest_def Some d option.case prod.case Let_def s snd_conv by (rule same_driver_trans [OF _ keeps_delays])
  qed (simp add: rest_def same_driver_refl)
  note rest_ok = same_driver_trans [OF k1 this]
  have "requestStringDescriptor io i now h =
    (if \<not> uh_ready h \<or> i = 0 then (False, h) else if i \<in> uh_failed h then (False, h) else if \<not> lm_canPoll (uh_link h) now then (False, h)
     else if \<not> ok then (False, g) else if length bytes < 2 then (False, f) else rest)"
    by (simp only: requestStringDescriptor_def l rest_def bytes_def f_def g1_def r_def Let_def split_beta fst_conv snd_conv not_not)
  then show ?thesis using rest_ok kf same_driver_refl g by (simp add: keeps_part)
qed

lemma keeps_write: "driver_part (snd (write_report io t u v a b now h)) = driver_part h"
proof -
  obtain bytes g where g: "host_get io t (hu_report_id u) b now h = (bytes, g)" by fastforce
  have "driver_part g = driver_part h" using driver_part_keeps(3) [of io t "hu_report_id u" b now h] by (simp add: g)
  then show ?thesis by (simp add: write_report_def g Let_def split_beta)
qed

lemma keeps_usage: "keeps_driver h (snd (writeUsageLocked io u v now h))"
  by (rule keeps_part) (simp add: writeUsageLocked_def Let_def keeps_write)

lemma keeps_beeper_note:
  assumes "driver_part g = driver_part h" "uh_ready h"
  shows "keeps_driver h (g\<lparr>uh_data := x, uh_driver := map_option (\<lambda>(c, gd). (c, noteHostValue a b gd)) (uh_driver g)\<rparr>)"
proof (cases "uh_driver h")
  case (Some d)
  obtain c gd where "uh_driver h = Some (c, gd)" using Some by (cases d) simp
  with assms show ?thesis by (intro keeps_object [of _ h c gd c "noteHostValue a b gd"]) (simp_all add: inv_parts driver_part_def)
next
  case None
  with assms show ?thesis by (auto simp: keeps_driver_def driver_part_def driver_ok_def attached_def)
qed

lemma keeps_beeper: "keeps_driver h (snd (setBeeperLocked io enable field now h))"
proof -
  have set: "keeps_driver h (snd (case write_report io t u v e r now h of (ok, g) \<Rightarrow> if \<not> ok then (False, g)
      else (True, g\<lparr>uh_data := x g, uh_driver := map_option (\<lambda>(c, gd). (c, noteHostValue a b gd)) (uh_driver g)\<rparr>)))"
    if "uh_ready h" for t u v e r x a b
  proof -
    obtain ok g where "write_report io t u v e r now h = (ok, g)" by fastforce
    with keeps_write [of io t u v e r now h] keeps_beeper_note [OF _ that] show ?thesis by (simp add: keeps_part)
  qed
  show ?thesis
  proof (cases "uh_ready h")
    case True
    note set = set [OF this]
    have s: "keeps_driver h (snd (case u of None \<Rightarrow> (False, h) | Some u \<Rightarrow>
      (case write_report io (t u) u (v u) (e u) (e u) now h of (ok, g) \<Rightarrow> if \<not> ok then (False, g)
        else (True, g\<lparr>uh_data := x g, uh_driver := map_option (\<lambda>(c, gd). (c, noteHostValue a b gd)) (uh_driver g)\<rparr>))))" for u t v e x a b
      using set by (cases u) simp_all
    show ?thesis
      unfolding setBeeperLocked_def Let_def
      by (simp only: if_split [of "\<lambda>x. keeps_driver h (snd x)"] snd_conv) (intro conjI impI s same_driver_refl)
  qed (simp add: setBeeperLocked_def)
qed

lemma keeps_save: "keeps_driver h (snd (saveDriverSideValue io plan h))"
proof -
  have set: "keeps_driver h ((if starts_with n ''ups.delay.'' then g else on_driver (setDriverSideValue (Some n) (Some x)) g)\<lparr>uh_data := d\<rparr>)"
    if g: "driver_part g = driver_part h" and dr: "uh_driver h \<noteq> None" for g :: "'a usb_host" and n x d
  proof -
    obtain c gd where c: "uh_driver h = Some (c, gd)" using dr by auto
    have same: "uh_driver g = uh_driver h" "uh_usages g = uh_usages h" "uh_ready g = uh_ready h" using g by (simp_all add: driver_part_def)
    show ?thesis
      using c same inv_parts(3)
      by (cases "starts_with n ''ups.delay.''")
        (intro keeps_object [of _ h c gd c gd], simp_all, intro keeps_object [of _ h c gd c "setDriverSideValue (Some n) (Some x) gd"],
         simp_all add: on_driver_def)
  qed
  note cases = set [of "h\<lparr>uh_dev := d, uh_saved := v\<rparr>" for d v]
  have p: "keeps_driver h (h\<lparr>uh_dev := d\<rparr>)" "keeps_driver h (h\<lparr>uh_dev := d, uh_saved := v\<rparr>)" for d v by (intro keeps_part; simp)+
  show ?thesis
    unfolding saveDriverSideValue_def Let_def split_beta
    by (simp only: if_split [of "\<lambda>x. keeps_driver h (snd x)"] snd_conv) (intro conjI impI cases p same_driver_refl; simp)
qed

lemma keeps_planned: "keeps_driver h (snd (writePlannedValue io plan now h))"
proof (cases plan)
  case (PlanHid n u raw v)
  obtain ok g where g: "writeUsageLocked io u (word_of_int raw) now h = (ok, g)" by fastforce
  have w: "keeps_driver h g" using keeps_usage [of h io u "word_of_int raw" now] g by simp
  have n: "keeps_driver g (on_driver noteDataChanged g)" by (rule keeps_note)
  have "keeps_driver g (snd (let (read, h) = requestReport io i 3 m now (on_driver noteDataChanged g)
      in (SetOk, if read then h else on_driver (invalidateReport 3 i) h))) " for i m
    using same_driver_trans [OF n keeps_request] same_driver_trans [OF same_driver_trans [OF n keeps_request] keeps_on_driver [of "invalidateReport 3 i"]] inv_parts(2)
    by (simp add: split_beta)
  note after_write = same_driver_trans [OF w this [unfolded Let_def]]
  show ?thesis
    unfolding writePlannedValue_def PlanHid set_plan.case g Let_def case_prod_conv
    by (simp only: if_split [of "\<lambda>x. keeps_driver h (snd x)"] snd_conv) (intro conjI impI after_write, simp add: w)
qed (simp add: writePlannedValue_def)

lemma keeps_writables: "keeps_driver h (snd (getWritableVariables h))"
proof (cases "uh_driver h")
  case (Some d)
  obtain c gd where c: "uh_driver h = Some (c, gd)" using Some by (cases d) simp
  then have "keeps_driver h (h\<lparr>uh_driver := Some (c, fst (writableVariables dv gd data))\<rparr>)" for dv data
    using inv_parts(6) by (intro keeps_object [of _ h c gd c "fst (writableVariables dv gd data)"]) simp_all
  with c show ?thesis by (simp add: getWritableVariables_def split_beta)
qed (simp add: getWritableVariables_def)

text \<open>The commands and SET VAR, over the control port of the host.\<close>

lemma keeps_port_relation:
  assumes "\<And>sub h. keeps_driver h (snd (execute sub h))"
  shows "port_relation (host_port_of io now execute) keeps_driver"
proof
  fix p q r :: "'a usb_host" and u enable v sub via plan n t k raw s
  show "keeps_driver p q \<Longrightarrow> cp_usages (host_port_of io now execute) q = cp_usages (host_port_of io now execute) p"
    by (simp add: host_port_of_def keeps_driver_def)
  show "keeps_driver p (snd (cp_setBeeperField (host_port_of io now execute) u enable p))" by (simp add: host_port_of_def keeps_beeper)
  show "keeps_driver p (snd (cp_writeUsage (host_port_of io now execute) u v p))" by (simp add: host_port_of_def keeps_usage)
  show "keeps_driver p (snd (cp_execute (host_port_of io now execute) sub p))" by (simp add: host_port_of_def assms)
  show "keeps_driver p (cp_noteDefaultShutdown (host_port_of io now execute) via p)" by (simp add: host_port_of_def keeps_part)
  show "keeps_driver p (snd (cp_saveDriverSide (host_port_of io now execute) plan p))" by (simp add: host_port_of_def keeps_save)
  show "keeps_driver p (snd (cp_writePlanned (host_port_of io now execute) (PlanHid k u raw s) p))"
    by (simp add: host_port_of_def keeps_planned)
  show "keeps_driver p q \<Longrightarrow> keeps_driver q r \<Longrightarrow> keeps_driver p r" by (rule same_driver_trans)
qed simp

lemma keeps_note_command: "keeps_driver h (snd r) \<Longrightarrow> keeps_driver h (snd (note_command r))"
  using same_driver_trans [OF _ keeps_note, of h "snd r"] by (simp add: note_command_def)

interpretation sub_driver: port_relation "sub_port io now" keeps_driver for io now
  unfolding sub_port_def by (rule keeps_port_relation) simp

interpretation host_driver: port_relation "host_port io now" keeps_driver for io now
  unfolding host_port_def by (rule keeps_port_relation) (intro keeps_note_command sub_driver.executeCommand)

lemma keeps_command: "keeps_driver h (snd (host_executeCommand io name param now h))"
  unfolding host_executeCommand_def by (intro keeps_note_command host_driver.executeCommand)

lemma keeps_setVariable: "keeps_driver h (snd (host_setVariable io name val now h))"
  unfolding host_setVariable_def by (rule host_driver.setVariable)

lemma keeps_reset: "keeps_driver h (snd (resetVariable io name h))"
proof (cases "uh_driver h = None \<or> name = None")
  case True
  then show ?thesis by (auto simp: resetVariable_def host_resetDriverSideValue_def split: option.split)
next
  case False
  obtain c gd n where c: "uh_driver h = Some (c, gd)" and n: "name = Some n" using False by auto
  obtain g1 vars where g1: "(if uh_ready h then writableVariables (dc_policy c) gd (uh_data h) else (gd, [])) = (g1, vars)" by fastforce
  have inv: "vendor_inv u us k (dc_vendor c, g1)" "vendor_inv u us k (dc_vendor c, fst (resetDriverSideValue m g1))"
    if "vendor_inv u us k (dc_vendor c, gd)" for u us k m
    using inv_parts(6) [OF that, of "dc_policy c" "uh_data h"] inv_parts(5) that g1 by (auto split: if_splits)
  have obj: "keeps_driver h g" if "uh_usages g = uh_usages h" "uh_ready g = uh_ready h" "uh_driver g \<noteq> None" "fst (the (uh_driver g)) = c"
    "\<And>u us k. vendor_inv u us k (dc_vendor c, gd) \<Longrightarrow> vendor_inv u us k (dc_vendor c, snd (the (uh_driver g)))" for g :: "'a usb_host"
    using that c by (intro keeps_object [of _ h c gd c "snd (the (uh_driver g))"]) auto
  have delays: "keeps_driver h (host_applyDefaultDelays g)" if "keeps_driver h g" for g using same_driver_trans [OF that keeps_delays] .
  show ?thesis
    unfolding resetVariable_def n host_resetDriverSideValue_def c option.case prod.case g1
    by (simp add: Let_def split_beta obj inv delays split: option.split)
qed

section \<open>What the poll asks\<close>

definition harmless :: "'d usb_host \<Rightarrow> u8 \<times> u8 \<Rightarrow> bool" where
  "harmless h r \<longleftrightarrow> (fst r = 1 \<or> fst r = 3) \<and>
     (case attached h of None \<Rightarrow> False | Some (u, v) \<Rightarrow> \<not> freezes (uh_usages h) v (snd r))"

definition asks :: "nat \<Rightarrow> 'd usb_host \<Rightarrow> 'd usb_host \<Rightarrow> bool" where
  "asks n h h' \<longleftrightarrow> keeps_driver h h' \<and>
     (driver_ok h \<longrightarrow> (\<exists>new. uh_asked h' = uh_asked h @ new \<and> length new \<le> n \<and> list_all (harmless h) new))"

lemma harmless_keeps: "keeps_driver h h' \<Longrightarrow> driver_ok h \<Longrightarrow> harmless h' = harmless h"
  by (rule ext) (auto simp: harmless_def keeps_driver_def split: option.split)

lemma asks_none: "keeps_driver h h' \<Longrightarrow> uh_asked h' = uh_asked h \<Longrightarrow> asks n h h'"
  by (simp add: asks_def)

lemma asks_trans:
  assumes "asks n h h'" "asks m h' h''"
  shows "asks (n + m) h h''"
proof -
  have k: "keeps_driver h h'" "keeps_driver h' h''" using assms by (simp_all add: asks_def)
  have "\<exists>new. uh_asked h'' = uh_asked h @ new \<and> length new \<le> n + m \<and> list_all (harmless h) new" if d: "driver_ok h"
  proof -
    have d': "driver_ok h'" using k(1) d by (simp add: keeps_driver_def)
    obtain a where a: "uh_asked h' = uh_asked h @ a" "length a \<le> n" "list_all (harmless h) a" using assms(1) d by (auto simp: asks_def)
    obtain b where b: "uh_asked h'' = uh_asked h' @ b" "length b \<le> m" "list_all (harmless h') b" using assms(2) d' by (auto simp: asks_def)
    show ?thesis using a b harmless_keeps [OF k(1) d] by (intro exI [of _ "a @ b"]) simp
  qed
  with same_driver_trans [OF k] show ?thesis by (simp add: asks_def)
qed

lemma asked_keeps [simp]:
  "uh_asked (noteControlResult err now h) = uh_asked h"
  "uh_asked (note_report_bytes t i bytes h) = uh_asked h"
  "uh_asked (host_decode i t bytes now h) = uh_asked h"
  "uh_asked (host_applyDefaultDelays h) = uh_asked h"
  "uh_asked (on_driver f h) = uh_asked h"
  "uh_asked (snd (host_request io t i len now h)) = uh_asked h @ [(t, i)]"
  "uh_asked (snd (host_get io t i len now h)) = uh_asked h @ [(t, i)]"
proof -
  show n: "uh_asked (noteControlResult err now h) = uh_asked h" for err now and h :: "'d usb_host" by (simp add: noteControlResult_def)
  show "uh_asked (note_report_bytes t i bytes h) = uh_asked h" by (simp add: note_report_bytes_def)
  show "uh_asked (host_decode i t bytes now h) = uh_asked h"
    unfolding host_decode_def Let_def split_beta by (simp split: option.split)
  show "uh_asked (host_applyDefaultDelays h) = uh_asked h" by (auto simp: host_applyDefaultDelays_def split: option.split)
  show "uh_asked (on_driver f h) = uh_asked h" by (simp add: on_driver_def)
  show r: "uh_asked (snd (host_request io t i len now h)) = uh_asked h @ [(t, i)]"
    by (simp add: host_request_def split_beta Let_def n split: sum.split)
  show "uh_asked (snd (host_get io t i len now h)) = uh_asked h @ [(t, i)]" by (simp add: host_get_def split_beta r)
qed

lemma asked_request:
  "uh_asked (snd (requestReport io i t n now h)) = uh_asked h \<or> uh_asked (snd (requestReport io i t n now h)) = uh_asked h @ [(t, i)]"
proof -
  obtain bytes g where g: "host_get io t i (min 256 (if 0 < n then n else 255)) now h = (bytes, g)" by fastforce
  then have "uh_asked g = uh_asked h @ [(t, i)]" using asked_keeps(7) [of io t i "min 256 (if 0 < n then n else 255)" now h] by simp
  then show ?thesis by (simp add: requestReport_def g)
qed

lemma asked_language [simp]: "uh_asked (snd (read_language io i now h)) = uh_asked h"
  by (auto simp: read_language_def Let_def split_beta split: sum.split usb_err.split)

lemma asked_string: "uh_asked (snd (requestStringDescriptor io i now h)) = uh_asked h"
proof -
  obtain ok g where l: "read_language io i now h = (ok, g)" by fastforce
  then have "uh_asked g = uh_asked h" using asked_language [of io i now h] by simp
  then show ?thesis unfolding requestStringDescriptor_def l Let_def split_beta by (simp split: option.split)
qed

lemma accepts_safe: "layout_ok us v \<Longrightarrow> dv_acceptPollReport (policy_of u v) t i \<Longrightarrow> \<not> freezes us v i"
  by (auto simp: accept_of layout_ok_def freezes_def mge_acceptPollReport_def cps_acceptPollReport_def split: vendor.splits)

lemma asks_poll: "asks 1 h (poll_driver io now h)"
proof (cases "uh_driver h")
  case (Some d)
  obtain c gd where c: "uh_driver h = Some (c, gd)" using Some by (cases d) simp
  obtain v gd' data req where l: "vendor_loop (dc_unmapped c) (host_transport h now) now ((dc_vendor c, gd), uh_data h) = (((v, gd'), data), req)"
    by (metis prod.exhaust)
  let ?h = "h\<lparr>uh_driver := Some (c\<lparr>dc_vendor := v\<rparr>, gd'), uh_data := data\<rparr>"
  have inv: "vendor_inv (dc_unmapped c) (uh_usages h) k (v, gd') \<and> request_ok (policy_of (dc_unmapped c) k) req"
    if "vendor_inv (dc_unmapped c) (uh_usages h) k (dc_vendor c, gd)" for k
    using vendor_loop_inv [of "dc_unmapped c" "uh_usages h" k "((dc_vendor c, gd), uh_data h)" "host_transport h now" now] that by (simp add: l)
  then have k: "keeps_driver h ?h" using c by (intro keeps_object [of _ h c gd "c\<lparr>dc_vendor := v\<rparr>" gd']) simp_all
  have ok: "harmless h (t, i)" if "req = ReqReport i t n" "driver_ok h" for i t n
  proof -
    have "request_ok (policy_of (dc_unmapped c) (settled (uh_usages h) (dc_vendor c))) req" using inv that(2) c by (simp add: driver_ok_def)
    then have "\<not> freezes (uh_usages h) (dc_vendor c) i \<and> (t = 1 \<or> t = 3)" using accepts_settled that(1) by (auto simp: request_ok_def)
    then show ?thesis by (simp add: harmless_def attached_def c freezes_settled)
  qed
  have p: "poll_driver io now h = poll_request io now req ?h" by (simp add: poll_driver_def c l)
  show ?thesis
  proof (cases req)
    case (ReqReport i t n)
    have "keeps_driver h (poll_driver io now h)" unfolding p ReqReport poll_request_def using same_driver_trans [OF k keeps_request] by simp
    moreover have "uh_asked (poll_driver io now h) = uh_asked h \<or> uh_asked (poll_driver io now h) = uh_asked h @ [(t, i)]"
      using asked_request [of io i t "unat n" now ?h] by (simp add: p ReqReport poll_request_def)
    ultimately show ?thesis using ok [OF ReqReport] unfolding asks_def by auto
  next
    case (ReqString i)
    show ?thesis unfolding p ReqString poll_request_def using same_driver_trans [OF k keeps_string] by (intro asks_none) (simp_all add: asked_string)
  next
    case ReqNone
    show ?thesis unfolding p ReqNone poll_request_def using k by (intro asks_none) simp_all
  qed
qed (simp add: poll_driver_def asks_none)

section \<open>The on-demand read\<close>

definition diag_ok :: "'d usb_service \<Rightarrow> bool" where
  "diag_ok s \<longleftrightarrow> list_all (harmless (sv_host s)) (dg_items (sv_diag s))"

definition safe :: "'d usb_service \<Rightarrow> bool" where
  "safe s \<longleftrightarrow> driver_ok (sv_host s) \<and> diag_ok s"

lemma diag_items [simp]:
  "dg_items dg_clear = []" "dg_items (dg_interrupt d) = dg_items d" "dg_items (dg_record i r bytes d) = dg_items d"
  by (simp_all add: dg_clear_def dg_interrupt_def dg_record_def Let_def split: diag_result.split)

lemma start_diag_ok:
  assumes "safe s" "uh_driver (sv_host s) = Some (c, gd)"
  shows "safe (start_diag (dc_policy c) s) \<and> sv_host (start_diag (dc_policy c) s) = sv_host s"
proof -
  let ?h = "sv_host s"
  have l: "layout_ok (uh_usages ?h) (dc_vendor c)" using assms by (simp add: safe_def driver_ok_def vendor_inv_def)
  have "harmless ?h it" if "it \<in> set (dg_items (dg_start (uh_usages ?h) cached (dv_acceptPollReport (dc_policy c))))" for it cached
    using dg_next_ok [of "uh_usages ?h" cached "dv_acceptPollReport (dc_policy c)" it] that accepts_safe [OF l]
    by (auto simp: harmless_def attached_def assms(2) freezes_settled dc_policy_def)
  then show ?thesis using assms(1) by (simp add: start_diag_def safe_def diag_ok_def list_all_iff)
qed

lemma keeps_raw: "keeps_driver h (snd (readReportRaw io i t n now h))"
proof -
  obtain r g where g: "host_request io t i (min 256 (if 0 < n then n else 255)) now h = (r, g)" by fastforce
  then have "driver_part g = driver_part h" using driver_part_keeps(2) [of io t i "min 256 (if 0 < n then n else 255)" now h] by simp
  then show ?thesis unfolding readReportRaw_def g by (intro keeps_part) (simp split: sum.split)
qed

lemma asked_raw: "uh_asked (snd (readReportRaw io i t n now h)) = uh_asked h @ [(t, i)]"
proof -
  obtain r g where g: "host_request io t i (min 256 (if 0 < n then n else 255)) now h = (r, g)" by fastforce
  then have "uh_asked g = uh_asked h @ [(t, i)]" using asked_keeps(6) [of io t i "min 256 (if 0 < n then n else 255)" now h] by simp
  then show ?thesis unfolding readReportRaw_def g by (simp split: sum.split)
qed

section \<open>A turn of the task\<close>

text \<open>A stage that asks nothing, and one that asks for at most \<open>n\<close> harmless reports.\<close>

definition quiet_stage :: "'d usb_service \<Rightarrow> 'd usb_service \<Rightarrow> bool" where
  "quiet_stage s s' \<longleftrightarrow> uh_asked (sv_host s') = uh_asked (sv_host s) \<and> (safe s \<longrightarrow> safe s')"

definition asking_stage :: "nat \<Rightarrow> 'd usb_service \<Rightarrow> 'd usb_service \<Rightarrow> bool" where
  "asking_stage n s s' \<longleftrightarrow> (safe s \<longrightarrow> safe s' \<and> harmless (sv_host s') = harmless (sv_host s) \<and>
     (\<exists>new. uh_asked (sv_host s') = uh_asked (sv_host s) @ new \<and> length new \<le> n \<and> list_all (harmless (sv_host s')) new))"

lemma quiet_stage_refl [simp]: "quiet_stage s s"
  by (simp add: quiet_stage_def)

lemma quiet_stage_trans: "quiet_stage s s' \<Longrightarrow> quiet_stage s' s'' \<Longrightarrow> quiet_stage s s''"
  by (simp add: quiet_stage_def)

lemma asking_trans: "asking_stage n s s' \<Longrightarrow> asking_stage m s' s'' \<Longrightarrow> asking_stage (n + m) s s''"
  by (fastforce simp: asking_stage_def)

lemma asking_refl [simp]: "asking_stage n s s"
  by (simp add: asking_stage_def)

lemma sv_host_on [simp]:
  "sv_host (on_host f s) = f (sv_host s)" "sv_diag (on_host f s) = sv_diag s" "sv_handle (on_host f s) = sv_handle s"
  by (simp_all add: on_host_def)

lemma driver_same:
  assumes "uh_usages h' = uh_usages h" "uh_driver h' = uh_driver h"
  shows "driver_ok h' = driver_ok h" "harmless h' = harmless h"
  by (simp_all only: driver_ok_def harmless_def [abs_def] attached_def assms)

lemma quiet_host:
  assumes "keeps_driver (sv_host s) (sv_host s')" "uh_asked (sv_host s') = uh_asked (sv_host s)" "dg_items (sv_diag s') = dg_items (sv_diag s)"
  shows "quiet_stage s s'"
proof -
  have "safe s'" if "safe s"
    using that assms harmless_keeps [OF assms(1)] by (simp add: safe_def diag_ok_def keeps_driver_def)
  with assms(2) show ?thesis by (simp add: quiet_stage_def)
qed

lemma quiet_dev [simp]: "quiet_stage s (on_dev f s)"
  unfolding on_dev_def by (rule quiet_host) (simp_all add: keeps_part)

lemma asking_host:
  assumes "keeps_driver (sv_host s) (sv_host s')" "uh_asked (sv_host s') = uh_asked (sv_host s)" "dg_items (sv_diag s') = dg_items (sv_diag s)"
  shows "asking_stage n s s'"
  using assms harmless_keeps [OF assms(1)] by (simp add: asking_stage_def safe_def diag_ok_def keeps_driver_def)

text \<open>The fields of the task that \<open>safe\<close> does not read.\<close>

definition safe_part :: "'d usb_service \<Rightarrow> 'd usb_host \<times> (u8 \<times> u8) list" where
  "safe_part s = (sv_host s, dg_items (sv_diag s))"

lemma quiet_part: "safe_part s' = safe_part s \<Longrightarrow> quiet_stage s s'"
  by (rule quiet_host) (simp_all add: safe_part_def)

lemma quiet_flag: "quiet_stage s (on_host (\<lambda>h. h\<lparr>uh_restart := b\<rparr>) s)" "quiet_stage s (on_host (\<lambda>h. h\<lparr>uh_first_data := b\<rparr>) s)"
  "quiet_stage s (on_host (\<lambda>h. h\<lparr>uh_link := m\<rparr>) s)" "quiet_stage s (on_host (\<lambda>h. h\<lparr>uh_wd := w h\<rparr>) s)"
  by (rule quiet_host; simp add: keeps_part driver_part_def)+

lemma quiet_restart: "quiet_stage s (requestRestart why s)"
proof -
  have "quiet_stage s (s\<lparr>sv_reason := why\<rparr>)" by (rule quiet_part) (simp add: safe_part_def)
  with quiet_stage_trans [OF this quiet_flag(1)] show ?thesis by (simp add: requestRestart_def)
qed

lemma quiet_close: "quiet_stage s (closeInterface io handle s)"
  by (simp add: closeInterface_def)

lemma quiet_clear: "quiet_stage s (clearDeferredClaim handle s)"
  by (rule quiet_part) (simp add: clearDeferredClaim_def safe_part_def)

lemma quiet_defer: "quiet_stage s (snd (deferClaim handle now s))"
  by (rule quiet_part) (simp add: deferClaim_def safe_part_def split_beta Let_def)

text \<open>A claim: the driver of the new device starts within its class.\<close>

lemma keeps_saved: "keeps_driver h (applySavedDriverValues h)"
proof -
  have "keeps_driver h (fold (\<lambda>(name, val) h. if starts_with name ''ups.delay.'' then h
      else on_driver (setDriverSideValue (Some name) (Some val)) h) vs h)" for vs
  proof (induction vs arbitrary: h)
    case (Cons v vs)
    obtain n x where v: "v = (n, x)" by fastforce
    have "keeps_driver h (if starts_with n ''ups.delay.'' then h else on_driver (setDriverSideValue (Some n) (Some x)) h)"
      using keeps_on_driver [of "setDriverSideValue (Some n) (Some x)" h] inv_parts(3) by simp
    from same_driver_trans [OF this Cons.IH] show ?case by (simp add: v)
  qed simp
  then show ?thesis by (simp add: applySavedDriverValues_def)
qed

lemma asked_saved [simp]: "uh_asked (applySavedDriverValues h) = uh_asked h"
proof -
  have "uh_asked (fold (\<lambda>(name, val) h. if starts_with name ''ups.delay.'' then h
      else on_driver (setDriverSideValue (Some name) (Some val)) h) vs h) = uh_asked h" for vs
    by (induction vs arbitrary: h) (simp_all add: split_beta)
  then show ?thesis by (simp add: applySavedDriverValues_def)
qed

lemma create_driver_ok: "driver_ok (create_driver unmapped info h) \<and> uh_asked (create_driver unmapped info h) = uh_asked h \<and>
    uh_driver (create_driver unmapped info h) \<noteq> None \<and> uh_usages (create_driver unmapped info h) = uh_usages h \<and>
    uh_ready (create_driver unmapped info h) = uh_ready h"
proof -
  define q where "q = quirks_of (di_vid info) (di_pid info)"
  define v0 where "v0 = registry_create (di_vid info) (di_pid info) (Some (toAscii (Some (di_mfr info)) 64 (q AND QUIRK_INVERT_STRINGS \<noteq> 0) 65))
    (Some (toAscii (Some (di_product info)) 64 (q AND QUIRK_INVERT_STRINGS \<noteq> 0) 65))"
  obtain v gd where v: "vendor_setup (v0, gd_new) = (v, gd)" by fastforce
  define h1 where "h1 = h\<lparr>uh_transport := (uh_transport h)\<lparr>ht_quirks := q, ht_pid := di_pid info\<rparr>,
    uh_driver := Some (\<lparr>dc_unmapped = unmapped, dc_vendor = v\<rparr>, gd)\<rparr>"
  have "vendor_inv unmapped (uh_usages h) (settled (uh_usages h) v0) (v, gd)" using vendor_setup_inv [OF registry_layout] v v0_def by metis
  then have ok: "driver_ok h1" by (simp add: driver_ok_def h1_def vendor_inv_def)
  define h2 where "h2 = applySavedDriverValues h1"
  have k: "keeps_driver h1 h2" unfolding h2_def by (rule keeps_saved)
  then have d2: "uh_driver h2 \<noteq> None" by (simp add: keeps_driver_def h1_def)
  have r: "\<exists>a b. create_driver unmapped info h = host_applyDefaultDelays (h2\<lparr>uh_product := a, uh_data := b\<rparr>)"
    unfolding create_driver_def Let_def q_def [symmetric] v0_def [symmetric] v prod.case h1_def [symmetric] h2_def [symmetric] by blast
  then obtain a b where r: "create_driver unmapped info h = host_applyDefaultDelays (h2\<lparr>uh_product := a, uh_data := b\<rparr>)" by blast
  have k2: "keeps_driver h2 (h2\<lparr>uh_product := a, uh_data := b\<rparr>)" using d2 by (rule keeps_data) simp_all
  have "keeps_driver h1 (create_driver unmapped info h)" unfolding r by (rule same_driver_trans [OF same_driver_trans [OF k k2] keeps_delays])
  moreover have "uh_asked (create_driver unmapped info h) = uh_asked h" by (simp add: r h2_def h1_def)
  ultimately show ?thesis using ok by (simp add: keeps_driver_def h1_def)
qed

lemma claim_start_ok: "quiet_stage s (start_claimed io handle s)"
proof -
  have p: "quiet_stage t (t\<lparr>sv_in_pending := a, sv_in_attempts := b, sv_in_at := c\<rparr>)" for t :: "'a usb_service" and a b c
    by (rule quiet_part) (simp add: safe_part_def)
  have r: "quiet_stage t (on_host (\<lambda>h. h\<lparr>uh_ready := True\<rparr>) t)" for t :: "'a usb_service"
    using driver_same [of "(sv_host t)\<lparr>uh_ready := True\<rparr>" "sv_host t"] by (simp add: quiet_stage_def safe_def diag_ok_def)
  show ?thesis
    unfolding start_claimed_def Let_def split_beta
    by (rule quiet_stage_trans [OF _ r]) (auto intro: quiet_stage_trans [OF quiet_dev p])
qed

lemma bind_ok:
  assumes info: "\<And>handle d. hio_info io handle d \<noteq> None"
  shows "quiet_stage s (bind_interface io handle desc hs s)"
proof -
  define s1 where "s1 = (case sv_handle s of Some old \<Rightarrow> (if old \<noteq> handle then closeInterface io old s else s) | None \<Rightarrow> s)"
  have q1: "quiet_stage s s1" by (simp add: s1_def quiet_close split: option.split)
  define s2 where "s2 = on_host (\<lambda>h. h\<lparr>uh_transport := note_descriptor hs (uh_transport h), uh_input_length := getInputLength hs,
      uh_cached := (\<lambda>k. None)\<rparr>) (s1\<lparr>sv_handle := Some handle, sv_diag := dg_clear, sv_diag_requested := False, sv_descriptor := desc\<rparr>)"
  have a2: "uh_asked (sv_host s2) = uh_asked (sv_host s1)" "sv_diag s2 = dg_clear" by (simp_all add: s2_def)
  obtain dev where i: "hio_info io handle (uh_dev (sv_host s2)) = Some dev" using info by auto
  define s3 where "s3 = on_host (create_driver (sv_unmapped s2) dev) s2"
  note c = create_driver_ok [of "sv_unmapped s2" dev "sv_host s2"]
  have q3: "quiet_stage s1 s3" using c a2 by (simp add: s3_def quiet_stage_def safe_def diag_ok_def)
  have k4: "keeps_driver h (claim_link io handle hs h)" if "uh_driver h \<noteq> None" for h
    by (rule keeps_data) (use that in \<open>simp_all add: claim_link_def Let_def split_beta\<close>)
  have "quiet_stage s3 (on_host (claim_link io handle hs) s3)"
    by (rule quiet_host) (use k4 [of "sv_host s3"] c in \<open>simp_all add: s3_def claim_link_def Let_def split_beta\<close>)
  moreover have "quiet_stage t (t\<lparr>sv_in_pending := a, sv_in_recoveries := b, sv_claimed_at := c, sv_reason := d\<rparr>)" for t :: "'a usb_service" and a b c d
    by (rule quiet_part) (simp add: safe_part_def)
  ultimately have "quiet_stage s (start_claimed io handle ((on_host (claim_link io handle hs) s3)\<lparr>sv_in_pending := a, sv_in_recoveries := b, sv_claimed_at := c, sv_reason := d\<rparr>))" for a b c d
    using quiet_stage_trans [OF quiet_stage_trans [OF quiet_stage_trans [OF quiet_stage_trans [OF q1 q3]]] claim_start_ok] by blast
  then show ?thesis
    unfolding bind_interface_def Let_def s1_def [symmetric] s2_def [symmetric] i option.case s3_def [symmetric] .
qed

lemma claim_ok:
  assumes "\<And>handle d. hio_info io handle d \<noteq> None"
  shows "quiet_stage s (claimInterface io handle s)"
proof -
  obtain desc d where desc: "hio_descriptor io handle (uh_dev (sv_host s)) = (desc, d)" by fastforce
  have dev: "quiet_stage s (on_dev (\<lambda>_. d) s)" by simp
  show ?thesis
  proof (cases desc)
    case None
    let ?s = "on_dev (\<lambda>_. d) s"
    obtain deferred t where t: "deferClaim handle (sv_millis io ?s) ?s = (deferred, t)" by fastforce
    have q: "quiet_stage s t" using quiet_stage_trans [OF dev quiet_defer [of ?s handle "sv_millis io ?s"]] by (simp add: t)
    have qc: "quiet_stage s (closeInterface io handle t)" by (rule quiet_stage_trans [OF q quiet_close])
    show ?thesis
      using q qc quiet_stage_trans [OF qc quiet_restart] by (simp add: claimInterface_def desc None t Let_def)
  next
    case (Some bytes)
    let ?t = "clearDeferredClaim handle (on_dev (\<lambda>_. d) s)"
    have q: "quiet_stage s ?t" by (rule quiet_stage_trans [OF dev quiet_clear])
    have h: "quiet_stage ?t (?t\<lparr>sv_hung := True\<rparr>)" by (rule quiet_part) (simp add: safe_part_def)
    show ?thesis
      using quiet_stage_trans [OF q h] quiet_stage_trans [OF q quiet_close] quiet_stage_trans [OF q bind_ok [OF assms]]
      by (simp add: claimInterface_def desc Some Let_def split: option.split)
  qed
qed

text \<open>Disconnection and recovery.\<close>

lemma disconnected_ok: "quiet_stage s (handleDisconnected io handle s)"
proof -
  define t where "t = clearDeferredClaim handle (on_dev (hio_close io handle) s)"
  have q: "quiet_stage s t" unfolding t_def by (rule quiet_stage_trans [OF quiet_dev quiet_clear])
  have "quiet_stage t (on_host (\<lambda>h. h\<lparr>uh_ready := False, uh_data := ud_new, uh_product := [], uh_driver := None,
      uh_transport := note_descriptor hid_initial (uh_transport h), uh_input_length := getInputLength hid_initial,
      uh_cached := (\<lambda>k. None)\<rparr>) (t\<lparr>sv_handle := None, sv_in_pending := False, sv_diag := dg_clear, sv_diag_requested := False, sv_od := od_new\<rparr>))"
    by (simp add: quiet_stage_def safe_def driver_ok_def diag_ok_def)
  with quiet_stage_trans [OF q] q show ?thesis
    unfolding handleDisconnected_def Let_def t_def [symmetric] by (simp only: if_split) simp
qed

lemma setup_keeps: "keeps_driver h (setup_driver h)"
proof (cases "uh_driver h")
  case (Some d)
  obtain c gd where c: "uh_driver h = Some (c, gd)" using Some by (cases d) simp
  obtain v gd' where v: "vendor_setup (dc_vendor c, gd) = (v, gd')" by fastforce
  have "vendor_inv u us k (v, gd')" if "vendor_inv u us k (dc_vendor c, gd)" for u us k
    using vendor_setup_inv [of us "dc_vendor c" u gd] that v by (auto simp: vendor_inv_def)
  then have "keeps_driver h (h\<lparr>uh_driver := Some (c\<lparr>dc_vendor := v\<rparr>, gd')\<rparr>)"
    using c by (intro keeps_object [of _ _ c gd "c\<lparr>dc_vendor := v\<rparr>" gd']) simp_all
  from same_driver_trans [OF this keeps_saved] show ?thesis by (simp add: setup_driver_def c v)
qed (simp add: setup_driver_def)

lemma quiet_setup: "quiet_stage s (on_host setup_driver s)"
proof (rule quiet_host)
  show "uh_asked (sv_host (on_host setup_driver s)) = uh_asked (sv_host s)"
    unfolding sv_host_on setup_driver_def Let_def split_beta by (simp split: option.split)
qed (simp_all add: setup_keeps)

lemma quiet_halt: "quiet_stage s (clear_in_halt io s)"
proof -
  have "quiet_stage t (on_host (noteControlResult err now) t)" for t :: "'a usb_service" and err now by (rule quiet_host) (simp_all add: keeps_part)
  note n = quiet_stage_trans [OF quiet_dev this]
  show ?thesis unfolding clear_in_halt_def split_beta Let_def by (rule n)
qed

lemma quiet_recover: "quiet_stage s (recoverInterface io now halt s)"
proof -
  have i: "quiet_stage s (on_interface s f)" for f by (simp add: on_interface_def split: option.split)
  have r: "quiet_stage t (on_host (\<lambda>h. h\<lparr>uh_reasm := ir_reset (uh_reasm h)\<rparr>) t)" for t :: "'a usb_service"
    by (rule quiet_host) (simp_all add: keeps_part driver_part_def)
  have p: "quiet_stage t (t\<lparr>sv_in_pending := a, sv_in_attempts := b, sv_in_at := c\<rparr>)" for t :: "'a usb_service" and a b c
    by (rule quiet_part) (simp add: safe_part_def)
  note ir = quiet_stage_trans [OF i r]
  show ?thesis
    unfolding recoverInterface_def Let_def
    by (cases halt) (simp_all add: quiet_stage_trans [OF quiet_stage_trans [OF quiet_stage_trans [OF ir quiet_halt] quiet_setup] p]
      quiet_stage_trans [OF quiet_stage_trans [OF ir quiet_setup] p])
qed

lemma quiet_retry: "quiet_stage s (retryInterfaceStart io now s)"
proof -
  have p: "quiet_stage t (t\<lparr>sv_in_pending := False\<rparr>)" "quiet_stage t (t\<lparr>sv_in_attempts := a\<rparr>)" "quiet_stage t (t\<lparr>sv_in_at := b\<rparr>)"
    for t :: "'a usb_service" and a b by (rule quiet_part, simp add: safe_part_def)+
  have a: "quiet_stage s (t\<lparr>sv_in_attempts := b\<rparr>)" if "quiet_stage s t" for t b by (rule quiet_stage_trans [OF that p(2)])
  show ?thesis
    unfolding retryInterfaceStart_def Let_def split_beta
    by (simp only: if_split [of "\<lambda>x. quiet_stage s x"])
      (intro conjI impI quiet_stage_refl quiet_stage_trans [OF quiet_dev p(1)] quiet_stage_trans [OF a [OF quiet_dev] p(3)]
        quiet_stage_trans [OF quiet_stage_trans [OF a [OF quiet_dev] p(1)] quiet_restart])
qed

lemma keeps_input: "keeps_driver h (processInputReport p ts now h)" "uh_asked (processInputReport p ts now h) = uh_asked h"
proof -
  have "keeps_driver h (processInputReport p ts now h) \<and> uh_asked (processInputReport p ts now h) = uh_asked h"
  proof -
    obtain reasm complete where f: "ir_feed (uh_reasm h) p ts (uh_mps h)
      (if p \<noteq> [] then uh_input_length h (if uh_uses_ids h then hd p else 0) else 0) = (reasm, complete)" by fastforce
    let ?h = "h\<lparr>uh_wd := iw_onInput (uh_wd h) ts, uh_reasm := reasm\<rparr>"
    have k1: "keeps_driver h ?h" by (simp add: keeps_part driver_part_def)
    have k2: "keeps_driver h (host_decode i t b now (?h\<lparr>uh_input_ts := x\<rparr>))"
      "keeps_driver h (host_decode i t b now (note_report_bytes t' i' b' (?h\<lparr>uh_input_ts := x\<rparr>)))" for i t b x t' i' b'
      by (rule same_driver_trans [OF keeps_part keeps_decode]; simp add: driver_part_def note_report_bytes_def)+
    show ?thesis
      using k1 k2 f by (auto simp: processInputReport_def Let_def split: option.split)
  qed
  then show "keeps_driver h (processInputReport p ts now h)" "uh_asked (processInputReport p ts now h) = uh_asked h" by simp_all
qed

lemma quiet_input: "quiet_stage s (input_event io handle bytes ts s)"
proof -
  have "quiet_stage s (s\<lparr>sv_in_recoveries := 0\<rparr>)" by (rule quiet_part) (simp add: safe_part_def)
  moreover have "quiet_stage t (on_host (processInputReport p ts now) t)" for t :: "'a usb_service" and p now
    by (rule quiet_host) (simp_all add: keeps_input)
  ultimately have "quiet_stage s (on_host (processInputReport bytes ts (sv_millis io s)) (s\<lparr>sv_in_recoveries := 0\<rparr>))"
    using quiet_stage_trans by blast
  then show ?thesis by (simp add: input_event_def)
qed

lemma quiet_error: "quiet_stage s (transfer_error io handle s)"
proof -
  have r: "quiet_stage s (s\<lparr>sv_in_recoveries := a\<rparr>)" for a by (rule quiet_part) (simp add: safe_part_def)
  show ?thesis
    unfolding transfer_error_def Let_def
    by (simp only: if_split [of "\<lambda>x. quiet_stage s x"])
      (intro conjI impI quiet_stage_refl quiet_stage_trans [OF r quiet_restart] quiet_stage_trans [OF r quiet_recover])
qed

lemma quiet_events:
  assumes info: "\<And>handle d. hio_info io handle d \<noteq> None"
  shows "quiet_stage s (processEvents io s)"
proof -
  have e: "quiet_stage s (process_event io ev s)" for ev and s :: "'a usb_service"
  proof (cases ev)
    case (EvConnected handle)
    have "quiet_stage s (s\<lparr>sv_enum_seen := True\<rparr>)" by (rule quiet_part) (simp add: safe_part_def)
    from quiet_stage_trans [OF this claim_ok [OF info]] show ?thesis by (simp add: EvConnected)
  next
    case (EvOpenFailed handle)
    have "quiet_stage s (s\<lparr>sv_enum_seen := True\<rparr>)" by (rule quiet_part) (simp add: safe_part_def)
    then show ?thesis by (simp add: EvOpenFailed)
  qed (simp_all add: quiet_input disconnected_ok quiet_error)
  have "quiet_stage s (fold (\<lambda>ev s. if sv_hung s then s else process_event io ev s) evs s)" for evs and s :: "'a usb_service"
  proof (induction evs arbitrary: s)
    case (Cons ev evs)
    have "quiet_stage s (if sv_hung s then s else process_event io ev s)" by (simp add: e)
    from quiet_stage_trans [OF this Cons.IH] show ?case by simp
  qed simp
  note f = this
  have "quiet_stage s (s\<lparr>sv_queue := drop EVENT_QUEUE_LEN (sv_queue s)\<rparr>)" by (rule quiet_part) (simp add: safe_part_def)
  from quiet_stage_trans [OF this f] show ?thesis by (simp add: processEvents_def)
qed

lemma quiet_enum: "quiet_stage s (serviceEnumWatchdog io now s)"
proof -
  have w: "quiet_stage s (s\<lparr>sv_enum := w\<rparr>)" for w by (rule quiet_part) (simp add: safe_part_def)
  note w_dev = quiet_stage_trans [OF w quiet_dev] and w_restart = quiet_stage_trans [OF w quiet_restart]
  show ?thesis by (simp add: serviceEnumWatchdog_def Let_def split_beta w w_dev w_restart split: enum_action.split)
qed

lemma quiet_wait: "quiet_stage s (snd (servicePortCycleWait now s))"
proof -
  have p: "quiet_stage s (s\<lparr>sv_ports := p\<rparr>)" for p by (rule quiet_part) (simp add: safe_part_def)
  show ?thesis by (simp add: servicePortCycleWait_def Let_def split_beta p quiet_stage_trans [OF p quiet_restart])
qed

lemma quiet_interrupt: "quiet_stage s (interruptDiagRead s)"
  by (rule quiet_part) (simp add: interruptDiagRead_def safe_part_def)

lemma quiet_stuck: "quiet_stage s (recoverStuckTransfer io now s)"
proof -
  have p: "quiet_stage s (s\<lparr>sv_ports := p\<rparr>)" for p by (rule quiet_part) (simp add: safe_part_def)
  have r: "quiet_stage t (on_host (\<lambda>h. h\<lparr>uh_ready := False, uh_link := lm_reset (uh_link h) now\<rparr>) t)" for t :: "'a usb_service"
    using driver_same [of "(sv_host t)\<lparr>uh_ready := False, uh_link := lm_reset (uh_link (sv_host t)) now\<rparr>" "sv_host t"]
    by (simp add: quiet_stage_def safe_def diag_ok_def)
  show ?thesis
    unfolding recoverStuckTransfer_def Let_def split_beta
    by (cases "snd (pc_onStuck (sv_ports s) now)")
      (simp_all add: quiet_stage_trans [OF p quiet_restart] quiet_stage_trans [OF quiet_stage_trans [OF p r] quiet_dev])
qed

text \<open>The poll and the read.\<close>

lemma asking_poll: "asking_stage 1 s (on_host (poll_driver io now) s)"
proof -
  have a: "asks 1 (sv_host s) (poll_driver io now (sv_host s))" by (rule asks_poll)
  then have k: "keeps_driver (sv_host s) (poll_driver io now (sv_host s))" by (simp add: asks_def)
  show ?thesis
    using a harmless_keeps [OF k] k by (simp add: asking_stage_def asks_def safe_def diag_ok_def keeps_driver_def)
qed

lemma asking_diag:
  assumes "uh_driver (sv_host s) = Some (c, gd)"
  shows "asking_stage 1 s (diag_step io (dc_policy c) s)"
proof (cases "dg_next (sv_diag s) = None \<or> \<not> lm_canPoll (uh_link (sv_host s)) (sv_millis io s) \<or>
    sv_millis io s - uh_last_ctrl (sv_host s) < dv_stepSpacingMs (dc_policy c)")
  case True
  moreover have "asking_stage 1 s (interruptDiagRead s)" by (rule asking_host) (simp_all add: interruptDiagRead_def)
  ultimately show ?thesis by (auto simp: diag_step_def Let_def)
next
  case False
  then obtain t i where n: "dg_next (sv_diag s) = Some (t, i)" by auto
  let ?h = "sv_host s" and ?n = "unat (dv_requestLength (dc_policy c) t i (ht_expected (uh_transport (sv_host s)) i t))"
  obtain r bytes g where g: "readReportRaw (hio_dev io) i t ?n (sv_millis io s) ?h = ((r, bytes), g)" by (metis prod.exhaust)
  have k: "keeps_driver ?h g" and a: "uh_asked g = uh_asked ?h @ [(t, i)]"
    using keeps_raw [of ?h "hio_dev io" i t ?n "sv_millis io s"] asked_raw [of "hio_dev io" i t ?n "sv_millis io s" ?h] by (simp_all add: g)
  obtain now d where s': "diag_step io (dc_policy c) s = s\<lparr>sv_host := g, sv_diag_last_at := now, sv_diag := d\<rparr>" "dg_items d = dg_items (sv_diag s)"
    using False by (simp add: diag_step_def Let_def n g)
  have "(t, i) \<in> set (dg_items (sv_diag s))" 
  proof -
    have "dg_pos (sv_diag s) < length (dg_items (sv_diag s))" "dg_items (sv_diag s) ! dg_pos (sv_diag s) = (t, i)"
      using n by (auto simp: dg_next_def split: if_splits)
    then show ?thesis by (metis nth_mem)
  qed
  then have "harmless ?h (t, i)" if "safe s" using that by (auto simp: safe_def diag_ok_def list_all_iff)
  then show ?thesis
    using a k harmless_keeps [OF k] s' by (auto simp: asking_stage_def safe_def diag_ok_def keeps_driver_def)
qed

lemma asking_read:
  assumes "uh_driver (sv_host s) = Some (c, gd)"
  shows "asking_stage 1 s (serviceDiagRead io s)"
proof -
  let ?t = "start_diag (dc_policy c) s"
  have t: "sv_host ?t = sv_host s" by (simp add: start_diag_def)
  have "asking_stage 0 s ?t" using start_diag_ok [OF _ assms] by (simp add: asking_stage_def t)
  from asking_trans [OF this asking_diag [of ?t c gd io]] asking_trans [OF this asking_refl [of 1 ?t]] assms show ?thesis
    by (simp add: serviceDiagRead_def t Let_def)
qed

lemma asking_tail: "asking_stage 0 s (logOnlineDischarge now s)" "asking_stage 0 s (note_first_data now s)"
proof -
  show "asking_stage 0 s (logOnlineDischarge now s)" by (rule asking_host) (simp_all add: logOnlineDischarge_def Let_def)
  show "asking_stage 0 s (note_first_data now s)"
    by (rule asking_host) (simp_all add: note_first_data_def Let_def keeps_part driver_part_def)
qed

lemma poll_driver_kept: "keeps_driver h (poll_driver io now h)"
  using asks_poll [of h io now] by (simp add: asks_def)

lemma asking_service_poll: "asking_stage 2 s (service_poll io now s)"
proof (cases "uh_driver (sv_host s)")
  case (Some d)
  obtain c gd where c: "uh_driver (sv_host s) = Some (c, gd)" using Some by (cases d) simp
  define spacing where "spacing \<longleftrightarrow> dg_state (sv_diag s) = DiagReading \<and> now - sv_diag_last_at s < dv_stepSpacingMs (dc_policy c)"
  define s1 where "s1 = logOnlineDischarge now (if spacing then s else on_host (poll_driver (hio_dev io) now) s)"
  have a1: "asking_stage (1 + 0) s s1" unfolding s1_def
    by (rule asking_trans [OF _ asking_tail(1)]) (use asking_poll in auto)
  have "uh_driver (sv_host s1) \<noteq> None"
    using c poll_driver_kept [of "sv_host s" "hio_dev io" now] by (auto simp: s1_def logOnlineDischarge_def Let_def keeps_driver_def)
  then obtain c1 gd1 where "uh_driver (sv_host s1) = Some (c1, gd1)" by auto
  from asking_trans [OF asking_trans [OF a1 asking_read [OF this]] asking_tail(2)] show ?thesis
    by (simp add: service_poll_def c spacing_def [symmetric] s1_def [symmetric] numeral_2_eq_2)
qed (simp add: service_poll_def)

text \<open>What a turn does once the events are handled.\<close>

definition turn_ok :: "nat \<Rightarrow> 'd usb_service \<Rightarrow> 'd usb_service \<Rightarrow> bool" where
  "turn_ok n s s' \<longleftrightarrow> (safe s \<longrightarrow> safe s' \<and>
     (\<exists>new. uh_asked (sv_host s') = uh_asked (sv_host s) @ new \<and> length new \<le> n \<and> list_all (harmless (sv_host s')) new)) \<and>
     (uh_restart (sv_host s') \<longrightarrow> uh_asked (sv_host s') = uh_asked (sv_host s))"

lemma turn_quiet: "quiet_stage s s' \<Longrightarrow> turn_ok n s s'"
  by (auto simp: turn_ok_def quiet_stage_def)

lemma quiet_turn: "quiet_stage s s' \<Longrightarrow> turn_ok n s' s'' \<Longrightarrow> turn_ok n s s''"
  by (auto simp: turn_ok_def quiet_stage_def)

text \<open>The poll and the read do not ask for a restart.\<close>

lemma restart_keeps [simp]:
  "uh_restart (noteControlResult err now h) = uh_restart h"
  "uh_restart (note_report_bytes t i bytes h) = uh_restart h"
  "uh_restart (host_decode i t bytes now h) = uh_restart h"
  "uh_restart (host_applyDefaultDelays h) = uh_restart h"
  "uh_restart (snd (host_request io t i len now h)) = uh_restart h"
  "uh_restart (snd (host_get io t i len now h)) = uh_restart h"
proof -
  show n: "uh_restart (noteControlResult err now h) = uh_restart h" for err now and h :: "'d usb_host" by (simp add: noteControlResult_def)
  show "uh_restart (note_report_bytes t i bytes h) = uh_restart h" by (simp add: note_report_bytes_def)
  show "uh_restart (host_decode i t bytes now h) = uh_restart h"
    unfolding host_decode_def Let_def split_beta by (simp split: option.split)
  show "uh_restart (host_applyDefaultDelays h) = uh_restart h" by (auto simp: host_applyDefaultDelays_def split: option.split)
  show r: "uh_restart (snd (host_request io t i len now h)) = uh_restart h"
    by (simp add: host_request_def split_beta Let_def n split: sum.split)
  show "uh_restart (snd (host_get io t i len now h)) = uh_restart h" by (simp add: host_get_def split_beta r)
qed

lemma restart_request [simp]: "uh_restart (snd (requestReport io i t n now h)) = uh_restart h"
proof -
  obtain bytes g where g: "host_get io t i (min 256 (if 0 < n then n else 255)) now h = (bytes, g)" by fastforce
  then have "uh_restart g = uh_restart h" using restart_keeps(6) [of io t i "min 256 (if 0 < n then n else 255)" now h] by simp
  then show ?thesis by (simp add: requestReport_def g)
qed

lemma restart_string [simp]: "uh_restart (snd (requestStringDescriptor io i now h)) = uh_restart h"
proof -
  have l: "uh_restart (snd (read_language io i now h)) = uh_restart h"
    by (auto simp: read_language_def Let_def split_beta split: sum.split usb_err.split)
  obtain ok g where g: "read_language io i now h = (ok, g)" by fastforce
  then have "uh_restart g = uh_restart h" using l by simp
  then show ?thesis unfolding requestStringDescriptor_def g Let_def split_beta by (simp split: option.split)
qed

lemma restart_raw [simp]: "uh_restart (snd (readReportRaw io i t n now h)) = uh_restart h"
proof -
  obtain r g where g: "host_request io t i (min 256 (if 0 < n then n else 255)) now h = (r, g)" by fastforce
  then have "uh_restart g = uh_restart h" using restart_keeps(5) [of io t i "min 256 (if 0 < n then n else 255)" now h] by simp
  then show ?thesis unfolding readReportRaw_def g by (simp split: sum.split)
qed

lemma restart_poll [simp]: "uh_restart (poll_driver io now h) = uh_restart h"
  unfolding poll_driver_def poll_request_def Let_def split_beta by (simp split: option.split loop_request.split)

lemma restart_service_poll [simp]: "uh_restart (sv_host (service_poll io now s)) = uh_restart (sv_host s)"
proof -
  have d: "uh_restart (sv_host (diag_step io dv s)) = uh_restart (sv_host s)" for dv and s :: "'a usb_service"
    unfolding diag_step_def Let_def split_beta by (simp add: interruptDiagRead_def split: option.split prod.split)
  have r: "uh_restart (sv_host (serviceDiagRead io s)) = uh_restart (sv_host s)" for s :: "'a usb_service"
    unfolding serviceDiagRead_def Let_def by (simp add: d start_diag_def split: option.split)
  have o1: "sv_host (logOnlineDischarge now s) = sv_host s" for s :: "'a usb_service" by (simp add: logOnlineDischarge_def Let_def)
  have f: "uh_restart (sv_host (note_first_data now s)) = uh_restart (sv_host s)" for s :: "'a usb_service" by (simp add: note_first_data_def Let_def)
  show ?thesis unfolding service_poll_def Let_def by (simp add: f r o1 split: option.split)
qed

lemma asking_turn: "asking_stage n s s' \<Longrightarrow> \<not> uh_restart (sv_host s') \<Longrightarrow> turn_ok n s s'"
  by (auto simp: asking_stage_def turn_ok_def)

lemma turn_poll: "\<not> uh_restart (sv_host s) \<Longrightarrow> turn_ok 2 s (service_poll io now s)"
  by (rule asking_turn [OF asking_service_poll]) simp

lemma turn_input: "\<not> uh_restart (sv_host s) \<Longrightarrow> turn_ok 2 s (service_input io now polled s)"
proof -
  assume r: "\<not> uh_restart (sv_host s)"
  obtain wd act where w: "iw_tick (iw_setValuesPolled (uh_wd (sv_host s)) polled) now = (wd, act)" by fastforce
  have q: "quiet_stage s (on_host (\<lambda>h. h\<lparr>uh_wd := wd\<rparr>) s)" by (rule quiet_flag)
  show ?thesis
    unfolding service_input_def w Let_def prod.case
    by (cases act) (auto intro!: turn_quiet [OF quiet_stage_trans [OF q quiet_recover]] turn_quiet [OF quiet_stage_trans [OF q quiet_restart]]
      quiet_turn [OF q quiet_turn [OF quiet_flag(4) turn_poll]] simp: r)
qed

lemma turn_link: "\<not> uh_restart (sv_host s) \<Longrightarrow> turn_ok 2 s (service_link io now s)"
proof (cases "uh_driver (sv_host s)")
  case (Some d)
  assume r: "\<not> uh_restart (sv_host s)"
  obtain c gd where c: "uh_driver (sv_host s) = Some (c, gd)" using Some by (cases d) simp
  have t: "turn_ok 2 s (let s = on_host (\<lambda>h. h\<lparr>uh_link := fst x\<rparr>) s in case snd x of
       ActRecover \<Rightarrow> recoverInterface io now False s
     | ActRestart \<Rightarrow> if stuck then recoverStuckTransfer io now s else requestRestart why s
     | ActNone \<Rightarrow> service_input io now polled s)" for x stuck why polled
    unfolding Let_def
    by (cases "snd x") (auto intro!: turn_quiet [OF quiet_stage_trans [OF quiet_flag(3) quiet_recover]] turn_quiet [OF quiet_stage_trans [OF quiet_flag(3) quiet_restart]]
      turn_quiet [OF quiet_stage_trans [OF quiet_flag(3) quiet_stuck]] quiet_turn [OF quiet_flag(3) turn_input] simp: r)
  show ?thesis unfolding service_link_def c option.case prod.case Let_def split_beta by (rule t [unfolded Let_def])
qed (simp add: service_link_def turn_quiet)

lemma turn_rest: "turn_ok 2 s (service_rest io now s)"
proof -
  define s1 where "s1 = serviceEnumWatchdog io now s"
  define s2 where "s2 = (if uh_restart (sv_host s1) \<or> sv_in_pending s1 then interruptDiagRead s1 else s1)"
  have q: "quiet_stage s s2"
    using quiet_stage_trans [OF quiet_enum [of s io now] quiet_interrupt] quiet_enum [of s io now] by (simp add: s2_def s1_def)
  obtain stop s3 where w: "servicePortCycleWait now s2 = (stop, s3)" by fastforce
  have q3: "quiet_stage s s3" using quiet_stage_trans [OF q quiet_wait [of s2 now]] by (simp add: w)
  have r: "uh_restart (sv_host s3) = uh_restart (sv_host s2) \<or> stop"
    using w by (auto simp: servicePortCycleWait_def Let_def split_beta split: if_splits)
  show ?thesis
    unfolding service_rest_def Let_def s1_def [symmetric] s2_def [symmetric] w prod.case
    using turn_quiet [OF q] turn_quiet [OF quiet_stage_trans [OF q quiet_retry]] turn_quiet [OF q3] quiet_turn [OF q3 turn_link] r by auto
qed

theorem turn_service:
  assumes "\<And>handle d. hio_info io handle d \<noteq> None"
  shows "turn_ok 2 s (service io s)"
proof -
  let ?p = "processEvents io s"
  have p: "quiet_stage s ?p" by (rule quiet_events [OF assms])
  have c: "quiet_stage s (case sv_desc_handle ?p of None \<Rightarrow> ?p | Some handle \<Rightarrow> claimInterface io handle ?p)"
    using p quiet_stage_trans [OF p claim_ok [OF assms]] by (simp split: option.split)
  show ?thesis
    unfolding service_def Let_def
    using turn_quiet [OF p] turn_quiet [OF c] quiet_turn [OF p turn_rest] quiet_turn [OF c turn_rest] turn_quiet [OF quiet_stage_refl] by auto
qed

end
