(* ===== verification/UsbTask.thy ===== *)
theory UsbTask
  imports UsbServiceSafety
begin

text \<open>
  The poll task together with the others: the HID task that posts the events, the device, and the tasks
  of the NUT server and of the web pages, that take turns on the host (\<open>task_call\<close>). From the
  boot on, no turn requests a report known to freeze the device, and no data outlives its device.
\<close>

section \<open>Calls\<close>

definition idle_transport :: hid_transport where
  "idle_transport = \<lparr>ht_usages = [], ht_beeper = [], ht_quirks = 0, ht_paused = False, ht_input_age = (\<lambda>i now. 0xFFFFFFFF),
     ht_expected = (\<lambda>i t. 64), ht_iManufacturer = 0, ht_iProduct = 0, ht_iSerialNumber = 0, ht_pid = 0\<rparr>"

text \<open>The host and the task before the first turn. \<open>samples\<close> are the values of the ring of the watchdog
  and \<open>stamps\<close> those of the port cycles, that no constructor writes.\<close>

definition usb_host_new :: "u32 list \<Rightarrow> bool \<Rightarrow> (string \<times> string) list \<Rightarrow> 'd \<Rightarrow> 'd usb_host" where
  "usb_host_new samples has_store saved dev = \<lparr>uh_ready = False, uh_link = lm_new lm_defaultConfig,
     uh_wd = iw_new iw_defaultConfig samples, uh_reasm = ir_new 500, uh_mps = 0, uh_uses_ids = False, uh_input_ts = (\<lambda>i. None),
     uh_input_length = (\<lambda>i. 0), uh_transport = idle_transport, uh_driver = None, uh_data = ud_new, uh_has_store = has_store,
     uh_saved = saved, uh_lang = 0, uh_failed = {}, uh_product = [], uh_default_via = [], uh_dev = dev, uh_sent = [],
     uh_first_data = False, uh_restart = False, uh_cached = (\<lambda>k. None), uh_get_ok = 0, uh_last_ctrl = 0, uh_asked = []\<rparr>"

definition usb_service_new :: "'d hid_io \<Rightarrow> bool \<Rightarrow> u8 \<Rightarrow> u32 list \<Rightarrow> 'd usb_host \<Rightarrow> 'd usb_service" where
  "usb_service_new io unmapped auto_restarts stamps h = \<lparr>sv_host = h, sv_unmapped = unmapped, sv_handle = None, sv_desc_handle = None,
     sv_desc = dr_clear, sv_enum = (if 0 < auto_restarts then ew_arm (hio_millis io (uh_dev h)) else ew_new), sv_enum_seen = False,
     sv_ports = pc_new stamps, sv_in_pending = False, sv_in_attempts = 0, sv_in_at = 0, sv_in_recoveries = 0, sv_reason = [],
     sv_claimed_at = 0, sv_od = od_new, sv_od_checked = 0, sv_diag = dg_clear, sv_diag_requested = False, sv_diag_last_at = 0,
     sv_descriptor = [], sv_queue = [], sv_dropped = 0, sv_hung = False\<rparr>"

datatype 'd task_call =
    TaskTurn
  | HidTask hid_event
  | DeviceMoves "'d \<Rightarrow> 'd"
  | ExportRequest
  | NutCommand "string option" "string option"
  | NutSetVar "string option" "string option"
  | WebReset "string option"
  | ListRw

fun task_step :: "'d hid_io \<Rightarrow> 'd task_call \<Rightarrow> 'd usb_service \<Rightarrow> 'd usb_service" where
  "task_step io TaskTurn s = service io s"
| "task_step io (HidTask ev) s = hid_task_event ev s"
| "task_step io (DeviceMoves f) s = on_dev f s"
| "task_step io ExportRequest s = snd (requestDiagRead s)"
| "task_step io (NutCommand name param) s = on_host (\<lambda>h. snd (host_executeCommand (hio_dev io) name param (sv_millis io s) h)) s"
| "task_step io (NutSetVar name val) s = on_host (\<lambda>h. snd (host_setVariable (hio_dev io) name val (sv_millis io s) h)) s"
| "task_step io (WebReset name) s = on_host (\<lambda>h. snd (resetVariable (hio_dev io) name h)) s"
| "task_step io ListRw s = on_host (\<lambda>h. snd (getWritableVariables h)) s"

section \<open>No request freezes the device\<close>

lemma safe_host: "keeps_driver (sv_host s) (f (sv_host s)) \<Longrightarrow> safe s \<Longrightarrow> safe (on_host f s)"
  using harmless_keeps [of "sv_host s" "f (sv_host s)"] by (simp add: safe_def diag_ok_def keeps_driver_def)

lemma safe_step:
  assumes "\<And>handle d. hio_info io handle d \<noteq> None" "safe s"
  shows "safe (task_step io c s)"
proof (cases c)
  case TaskTurn
  then show ?thesis using turn_service [OF assms(1), of s] assms(2) by (simp add: turn_ok_def)
next
  case (HidTask ev)
  have "quiet_stage s (hid_task_event ev s)" by (rule quiet_part) (simp add: hid_task_event_def postEvent_def safe_part_def)
  then show ?thesis using assms(2) by (simp add: HidTask quiet_stage_def)
next
  case (DeviceMoves f)
  have "quiet_stage s (on_dev f s)" by simp
  then show ?thesis using assms(2) by (simp add: DeviceMoves quiet_stage_def)
next
  case ExportRequest
  have "quiet_stage s (snd (requestDiagRead s))" by (rule quiet_part) (simp add: requestDiagRead_def safe_part_def)
  then show ?thesis using assms(2) by (simp add: ExportRequest quiet_stage_def)
qed (simp_all add: safe_host [OF _ assms(2)] keeps_command keeps_setVariable keeps_reset keeps_writables)

lemma safe_new: "safe (usb_service_new io unmapped restarts stamps (usb_host_new samples has_store saved dev))"
  by (simp add: safe_def driver_ok_def diag_ok_def usb_service_new_def usb_host_new_def)

lemma safe_run:
  assumes "\<And>handle d. hio_info io handle d \<noteq> None"
  shows "safe s \<Longrightarrow> safe (fold (task_step io) calls s)"
  by (induction calls arbitrary: s) (simp_all add: safe_step [OF assms])

text \<open>C5: from the boot on, whatever is plugged, unplugged, answered and asked for, a turn of the poll task makes at most two
  GET_REPORT requests, none when it ends with a restart requested, and all of them for INPUT or FEATURE
  reports of the attached device that are not known to freeze it. The HID driver must give the information of
  every device whose interface is claimed (\<open>hio_info\<close>, that is \<open>hid_host_get_device_info\<close>): without it the
  driver of a device that is replaced would poll the new one (\<open>unknown_device_keeps_driver\<close>).\<close>

theorem turn_asks_harmless:
  assumes "\<And>handle d. hio_info io handle d \<noteq> None"
  shows "let s = fold (task_step io) calls (usb_service_new io unmapped restarts stamps (usb_host_new samples has_store saved dev));
             h = sv_host (service io s)
         in \<exists>new. uh_asked h = uh_asked (sv_host s) @ new \<and> length new \<le> (if uh_restart h then 0 else 2) \<and>
              list_all (\<lambda>(t, i). (t = 1 \<or> t = 3) \<and> (case uh_driver h of None \<Rightarrow> False
                | Some (c, gd) \<Rightarrow> \<not> freezes (uh_usages h) (dc_vendor c) i)) new"
proof -
  let ?s = "fold (task_step io) calls (usb_service_new io unmapped restarts stamps (usb_host_new samples has_store saved dev))"
  let ?h = "sv_host (service io ?s)"
  have s: "safe ?s" by (rule safe_run [OF assms safe_new])
  note t = turn_service [OF assms, of ?s]
  obtain new where n: "uh_asked ?h = uh_asked (sv_host ?s) @ new" "length new \<le> 2" "list_all (harmless ?h) new"
    using t s by (auto simp: turn_ok_def)
  have "length new \<le> (if uh_restart ?h then 0 else 2)" using t n by (auto simp: turn_ok_def)
  moreover have "harmless ?h (t, i) \<Longrightarrow> (t = 1 \<or> t = 3) \<and> (case uh_driver ?h of None \<Rightarrow> False
      | Some (c, gd) \<Rightarrow> \<not> freezes (uh_usages ?h) (dc_vendor c) i)" for t i
    by (auto simp: harmless_def attached_def freezes_settled split: option.splits)
  then have "list_all (\<lambda>(t, i). (t = 1 \<or> t = 3) \<and> (case uh_driver ?h of None \<Rightarrow> False
      | Some (c, gd) \<Rightarrow> \<not> freezes (uh_usages ?h) (dc_vendor c) i)) new" using n(3) by (auto simp: list_all_iff)
  ultimately show ?thesis using n(1) by (auto simp: Let_def)
qed

section \<open>No data without its device\<close>

text \<open>\<open>known\<close>: the HID driver always gives the information of a device.\<close>

definition bound_ok :: "bool \<Rightarrow> 'd usb_service \<Rightarrow> bool" where
  "bound_ok known s \<longleftrightarrow> (case sv_handle s of
     None \<Rightarrow> \<not> uh_ready (sv_host s) \<and> uh_driver (sv_host s) = None \<and> uh_data (sv_host s) = ud_new \<and> \<not> sv_in_pending s
   | Some handle \<Rightarrow> known \<longrightarrow> uh_driver (sv_host s) \<noteq> None) \<and> (dr_pending (sv_desc s) \<longrightarrow> sv_desc_handle s \<noteq> None)"

definition bound_stage :: "bool \<Rightarrow> 'd usb_service \<Rightarrow> 'd usb_service \<Rightarrow> bool" where
  "bound_stage known s s' \<longleftrightarrow> (bound_ok known s \<longrightarrow> bound_ok known s')"

lemma bound_refl [simp]: "bound_stage known s s"
  by (simp add: bound_stage_def)

lemma bound_trans: "bound_stage known s s' \<Longrightarrow> bound_stage known s' s'' \<Longrightarrow> bound_stage known s s''"
  by (simp add: bound_stage_def)

lemma bound_host:
  assumes "keeps_driver (sv_host s) (sv_host s')" "sv_handle s' = sv_handle s" "sv_in_pending s' \<longrightarrow> sv_in_pending s"
    "sv_desc s' = sv_desc s" "sv_desc_handle s' = sv_desc_handle s"
  shows "bound_stage known s s'"
  using assms by (auto simp: bound_stage_def bound_ok_def keeps_driver_def split: option.splits)

lemma on_host_same [simp]:
  "sv_in_pending (on_host f s) = sv_in_pending s" "sv_desc (on_host f s) = sv_desc s" "sv_desc_handle (on_host f s) = sv_desc_handle s"
  by (simp_all add: on_host_def)

text \<open>The fields that \<open>bound_ok known\<close> does not read.\<close>

lemma bound_part:
  assumes "sv_host s' = sv_host s" "sv_handle s' = sv_handle s" "sv_in_pending s' \<longrightarrow> sv_in_pending s"
    "sv_desc s' = sv_desc s" "sv_desc_handle s' = sv_desc_handle s"
  shows "bound_stage known s s'"
  using assms by (intro bound_host) simp_all

lemma bound_dev [simp]: "bound_stage known s (on_dev f s)"
  unfolding on_dev_def by (rule bound_host) (simp_all add: keeps_part)

lemma bound_flag: "bound_stage known s (on_host (\<lambda>h. h\<lparr>uh_restart := b\<rparr>) s)" "bound_stage known s (on_host (\<lambda>h. h\<lparr>uh_first_data := b\<rparr>) s)"
  "bound_stage known s (on_host (\<lambda>h. h\<lparr>uh_link := m\<rparr>) s)" "bound_stage known s (on_host (\<lambda>h. h\<lparr>uh_wd := w h\<rparr>) s)"
  by (rule bound_host; simp add: keeps_part driver_part_def)+

lemma bound_restart: "bound_stage known s (requestRestart why s)"
proof -
  have "bound_stage known s (s\<lparr>sv_reason := why\<rparr>)" by (rule bound_part) simp_all
  with bound_trans [OF this bound_flag(1)] show ?thesis by (simp add: requestRestart_def)
qed

lemma bound_close: "bound_stage known s (closeInterface io handle s)"
  by (simp add: closeInterface_def)

lemma bound_clear: "bound_stage known s (clearDeferredClaim handle s)"
  by (auto simp: clearDeferredClaim_def bound_stage_def bound_ok_def dr_clear_def split: option.splits)

lemma bound_defer: "bound_stage known s (snd (deferClaim handle now s))"
  by (auto simp: deferClaim_def bound_stage_def bound_ok_def dr_onFailure_def dr_clear_def split_beta Let_def split: option.splits)

lemma bound_bind:
  assumes info: "\<And>handle d. known \<Longrightarrow> hio_info io handle d \<noteq> None"
  shows "bound_stage known s (bind_interface io handle desc hs s)"
proof -
  define s1 where "s1 = (case sv_handle s of Some old \<Rightarrow> (if old \<noteq> handle then closeInterface io old s else s) | None \<Rightarrow> s)"
  have q1: "bound_stage known s s1" by (simp add: s1_def bound_close split: option.split)
  define s2 where "s2 = on_host (\<lambda>h. h\<lparr>uh_transport := note_descriptor hs (uh_transport h), uh_input_length := getInputLength hs,
      uh_cached := (\<lambda>k. None)\<rparr>) (s1\<lparr>sv_handle := Some handle, sv_diag := dg_clear, sv_diag_requested := False, sv_descriptor := desc\<rparr>)"
  define s3 where "s3 = (case hio_info io handle (uh_dev (sv_host s2)) of
      Some dev \<Rightarrow> on_host (create_driver (sv_unmapped s2) dev) s2 | None \<Rightarrow> s2)"
  have h2: "sv_handle s2 = Some handle" "sv_desc s2 = sv_desc s1" "sv_desc_handle s2 = sv_desc_handle s1" by (simp_all add: s2_def on_host_def)
  then have h3: "sv_handle s3 = Some handle" "sv_desc s3 = sv_desc s1" "sv_desc_handle s3 = sv_desc_handle s1"
    by (simp_all add: s3_def split: option.split)
  have "known \<longrightarrow> uh_driver (sv_host s3) \<noteq> None"
  proof (cases "hio_info io handle (uh_dev (sv_host s2))")
    case None
    then show ?thesis using info by blast
  next
    case (Some dev)
    then show ?thesis using create_driver_ok [of "sv_unmapped s2" dev "sv_host s2"] by (simp add: s3_def)
  qed
  then have d4: "known \<longrightarrow> uh_driver (sv_host (on_host (claim_link io handle hs) s3)) \<noteq> None" by (simp add: claim_link_def Let_def split_beta)
  have k: "sv_handle (start_claimed io handle t) = sv_handle t \<and> sv_desc (start_claimed io handle t) = sv_desc t \<and>
      sv_desc_handle (start_claimed io handle t) = sv_desc_handle t \<and> uh_driver (sv_host (start_claimed io handle t)) = uh_driver (sv_host t)"
    for t :: "'a usb_service" by (simp add: start_claimed_def Let_def split_beta on_dev_def)
  have "bound_ok known s1 \<longrightarrow> bound_ok known (start_claimed io handle ((on_host (claim_link io handle hs) s3)\<lparr>sv_in_pending := a, sv_in_recoveries := b,
      sv_claimed_at := c, sv_reason := d\<rparr>))" for a b c d
    using d4 h3 by (auto simp: bound_ok_def k split: option.splits)
  then have "bound_stage known s (start_claimed io handle ((on_host (claim_link io handle hs) s3)\<lparr>sv_in_pending := a, sv_in_recoveries := b,
      sv_claimed_at := c, sv_reason := d\<rparr>))" for a b c d
    using q1 by (simp add: bound_stage_def)
  then show ?thesis
    unfolding bind_interface_def Let_def s1_def [symmetric] s2_def [symmetric] s3_def [symmetric] .
qed

lemma bound_claim:
  assumes "\<And>handle d. known \<Longrightarrow> hio_info io handle d \<noteq> None"
  shows "bound_stage known s (claimInterface io handle s)"
proof -
  obtain desc d where desc: "hio_descriptor io handle (uh_dev (sv_host s)) = (desc, d)" by fastforce
  have dev: "bound_stage known s (on_dev (\<lambda>_. d) s)" by simp
  show ?thesis
  proof (cases desc)
    case None
    let ?s = "on_dev (\<lambda>_. d) s"
    obtain deferred t where t: "deferClaim handle (sv_millis io ?s) ?s = (deferred, t)" by fastforce
    have q: "bound_stage known s t" using bound_trans [OF dev bound_defer [of known ?s handle "sv_millis io ?s"]] by (simp add: t)
    have qc: "bound_stage known s (closeInterface io handle t)" by (rule bound_trans [OF q bound_close])
    show ?thesis using q qc bound_trans [OF qc bound_restart] by (simp add: claimInterface_def desc None t Let_def)
  next
    case (Some bytes)
    let ?t = "clearDeferredClaim handle (on_dev (\<lambda>_. d) s)"
    have q: "bound_stage known s ?t" by (rule bound_trans [OF dev bound_clear])
    have h: "bound_stage known ?t (?t\<lparr>sv_hung := True\<rparr>)" by (rule bound_part) simp_all
    show ?thesis
      using bound_trans [OF q h] bound_trans [OF q bound_close] bound_trans [OF q bound_bind [OF assms]]
      by (simp add: claimInterface_def desc Some Let_def split: option.split)
  qed
qed

lemma bound_disconnected: "bound_stage known s (handleDisconnected io handle s)"
proof -
  define t where "t = clearDeferredClaim handle (on_dev (hio_close io handle) s)"
  have q: "bound_stage known s t" unfolding t_def by (rule bound_trans [OF bound_dev bound_clear])
  have "bound_stage known t (on_host (\<lambda>h. h\<lparr>uh_ready := False, uh_data := ud_new, uh_product := [], uh_driver := None,
      uh_transport := note_descriptor hid_initial (uh_transport h), uh_input_length := getInputLength hid_initial,
      uh_cached := (\<lambda>k. None)\<rparr>) (t\<lparr>sv_handle := None, sv_in_pending := False, sv_diag := dg_clear, sv_diag_requested := False, sv_od := od_new\<rparr>))"
    by (simp add: bound_stage_def bound_ok_def on_host_def)
  with bound_trans [OF q] q show ?thesis
    unfolding handleDisconnected_def Let_def t_def [symmetric] by (simp only: if_split) simp
qed

text \<open>A recovery needs an interface.\<close>

lemma bound_recover:
  assumes "sv_handle s \<noteq> None"
  shows "bound_stage known s (recoverInterface io now halt s)"
proof -
  define s1 where "s1 = (let s = on_host (\<lambda>h. h\<lparr>uh_reasm := ir_reset (uh_reasm h)\<rparr>) (on_interface s (hio_stop io));
    s = (if halt then clear_in_halt io s else s) in on_host setup_driver s)"
  have i: "bound_stage known t (on_interface t f)" "sv_handle (on_interface t f) = sv_handle t" for t :: "'a usb_service" and f
    by (simp_all add: on_interface_def on_dev_def bound_dev [unfolded on_dev_def] split: option.split)
  have r: "bound_stage known t (on_host (\<lambda>h. h\<lparr>uh_reasm := ir_reset (uh_reasm h)\<rparr>) t)" for t :: "'a usb_service"
    by (rule bound_host) (simp_all add: keeps_part driver_part_def)
  have n: "bound_stage known t (on_host (noteControlResult err m) t)" for t :: "'a usb_service" and err m by (rule bound_host) (simp_all add: keeps_part)
  have h: "bound_stage known t (clear_in_halt io t)" for t unfolding clear_in_halt_def split_beta Let_def by (rule bound_trans [OF bound_dev n])
  have u: "bound_stage known t (on_host setup_driver t)" for t :: "'a usb_service" by (rule bound_host) (simp_all add: setup_keeps)
  have q: "bound_stage known s s1"
    unfolding s1_def Let_def by (cases halt) (simp_all add: bound_trans [OF bound_trans [OF bound_trans [OF i(1) r] h] u] bound_trans [OF bound_trans [OF i(1) r] u])
  have "sv_handle s1 = sv_handle s" by (simp add: s1_def Let_def i clear_in_halt_def split_beta on_dev_def)
  then have "bound_stage known s1 (s1\<lparr>sv_in_pending := a, sv_in_attempts := b, sv_in_at := c\<rparr>)" for a b c
    using assms by (auto simp: bound_stage_def bound_ok_def split: option.splits)
  from bound_trans [OF q this] show ?thesis unfolding recoverInterface_def s1_def Let_def .
qed

lemma bound_retry: "bound_stage known s (retryInterfaceStart io now s)"
proof -
  have p: "bound_stage known t (t\<lparr>sv_in_pending := False\<rparr>)" "bound_stage known t (t\<lparr>sv_in_attempts := a\<rparr>)" "bound_stage known t (t\<lparr>sv_in_at := b\<rparr>)"
    for t :: "'a usb_service" and a b by (rule bound_part; simp)+
  have a: "bound_stage known s (t\<lparr>sv_in_attempts := b\<rparr>)" if "bound_stage known s t" for t b by (rule bound_trans [OF that p(2)])
  show ?thesis
    unfolding retryInterfaceStart_def Let_def split_beta
    by (simp only: if_split [of "\<lambda>x. bound_stage known s x"])
      (intro conjI impI bound_refl bound_trans [OF bound_dev p(1)] bound_trans [OF a [OF bound_dev] p(3)]
        bound_trans [OF bound_trans [OF a [OF bound_dev] p(1)] bound_restart])
qed

lemma bound_input_event: "bound_stage known s (input_event io handle bytes ts s)"
proof -
  have "bound_stage known s (s\<lparr>sv_in_recoveries := 0\<rparr>)" by (rule bound_part) simp_all
  moreover have "bound_stage known t (on_host (processInputReport p ts now) t)" for t :: "'a usb_service" and p now
    by (rule bound_host) (simp_all add: keeps_input)
  ultimately have "bound_stage known s (on_host (processInputReport bytes ts (sv_millis io s)) (s\<lparr>sv_in_recoveries := 0\<rparr>))"
    using bound_trans by blast
  then show ?thesis by (simp add: input_event_def)
qed

lemma bound_error: "bound_stage known s (transfer_error io handle s)"
proof -
  have r: "bound_stage known s (s\<lparr>sv_in_recoveries := a\<rparr>)" for a by (rule bound_part) simp_all
  have v: "bound_stage known s (recoverInterface io now True (s\<lparr>sv_in_recoveries := a\<rparr>))" if "sv_handle s = Some handle" for a now
    by (rule bound_trans [OF r bound_recover]) (simp add: that)
  show ?thesis
    unfolding transfer_error_def Let_def
    by (simp only: if_split [of "\<lambda>x. bound_stage known s x"]) (intro conjI impI bound_refl bound_trans [OF r bound_restart] v; simp)
qed

lemma bound_events:
  assumes info: "\<And>handle d. known \<Longrightarrow> hio_info io handle d \<noteq> None"
  shows "bound_stage known s (processEvents io s)"
proof -
  have e: "bound_stage known s (process_event io ev s)" for ev and s :: "'a usb_service"
  proof (cases ev)
    case (EvConnected handle)
    have "bound_stage known s (s\<lparr>sv_enum_seen := True\<rparr>)" by (rule bound_part) simp_all
    from bound_trans [OF this bound_claim [OF info]] show ?thesis by (simp add: EvConnected)
  next
    case (EvOpenFailed handle)
    have "bound_stage known s (s\<lparr>sv_enum_seen := True\<rparr>)" by (rule bound_part) simp_all
    then show ?thesis by (simp add: EvOpenFailed)
  qed (simp_all add: bound_input_event bound_disconnected bound_error)
  have f: "bound_stage known s (fold (\<lambda>ev s. if sv_hung s then s else process_event io ev s) evs s)" for evs and s :: "'a usb_service"
  proof (induction evs arbitrary: s)
    case (Cons ev evs)
    have "bound_stage known s (if sv_hung s then s else process_event io ev s)" by (simp add: e)
    from bound_trans [OF this Cons.IH] show ?case by simp
  qed simp
  have "bound_stage known s (s\<lparr>sv_queue := drop EVENT_QUEUE_LEN (sv_queue s)\<rparr>)" by (rule bound_part) simp_all
  from bound_trans [OF this f] show ?thesis by (simp add: processEvents_def)
qed

lemma bound_enum: "bound_stage known s (serviceEnumWatchdog io now s)"
proof -
  have w: "bound_stage known s (s\<lparr>sv_enum := w\<rparr>)" for w by (rule bound_part) simp_all
  note w_dev = bound_trans [OF w bound_dev] and w_restart = bound_trans [OF w bound_restart]
  show ?thesis by (simp add: serviceEnumWatchdog_def Let_def split_beta w w_dev w_restart split: enum_action.split)
qed

lemma bound_wait: "bound_stage known s (snd (servicePortCycleWait now s))"
proof -
  have p: "bound_stage known s (s\<lparr>sv_ports := p\<rparr>)" for p by (rule bound_part) simp_all
  show ?thesis by (simp add: servicePortCycleWait_def Let_def split_beta p bound_trans [OF p bound_restart])
qed

lemma bound_interrupt: "bound_stage known s (interruptDiagRead s)"
  by (rule bound_part) (simp_all add: interruptDiagRead_def)

lemma bound_stuck: "bound_stage known s (recoverStuckTransfer io now s)"
proof -
  have p: "bound_stage known s (s\<lparr>sv_ports := p\<rparr>)" for p by (rule bound_part) simp_all
  have r: "bound_stage known t (on_host (\<lambda>h. h\<lparr>uh_ready := False, uh_link := lm_reset (uh_link h) now\<rparr>) t)" for t :: "'a usb_service"
    by (auto simp: bound_stage_def bound_ok_def split: option.splits)
  show ?thesis
    unfolding recoverStuckTransfer_def Let_def split_beta
    by (cases "snd (pc_onStuck (sv_ports s) now)")
      (simp_all add: bound_trans [OF p bound_restart] bound_trans [OF bound_trans [OF p r] bound_dev])
qed

lemma bound_poll: "bound_stage known s (service_poll io now s)"
proof -
  have d: "bound_stage known s (diag_step io dv s)" for dv and s :: "'a usb_service"
    unfolding diag_step_def Let_def split_beta
    by (auto intro!: bound_host simp: keeps_raw interruptDiagRead_def split: option.split)
  have st: "bound_stage known s (start_diag dv s)" for dv and s :: "'a usb_service" by (rule bound_part) (simp_all add: start_diag_def)
  have r: "bound_stage known s (serviceDiagRead io s)" for s :: "'a usb_service"
    unfolding serviceDiagRead_def Let_def using st bound_trans [OF st d] by (simp split: option.split)
  have o1: "bound_stage known s (logOnlineDischarge now s)" for s :: "'a usb_service" by (rule bound_part) (simp_all add: logOnlineDischarge_def Let_def)
  have f: "bound_stage known s (note_first_data now s)" for s :: "'a usb_service" by (simp add: note_first_data_def Let_def bound_flag(2))
  have p: "bound_stage known s (on_host (poll_driver (hio_dev io) now) s)" for s :: "'a usb_service"
    by (rule bound_host) (simp_all add: poll_driver_kept)
  note tail = bound_trans [OF o1 bound_trans [OF r f]]
  show ?thesis
    unfolding service_poll_def Let_def using tail bound_trans [OF p tail] by (simp split: option.split)
qed

lemma bound_rest:
  shows "bound_stage known s (service_rest io now s)"
proof -
  have handle: "sv_handle t \<noteq> None" if "bound_ok known t" "uh_driver (sv_host t) \<noteq> None" for t :: "'a usb_service"
    using that by (auto simp: bound_ok_def split: option.splits)
  have wd: "bound_ok known (service_input io now polled t)" if "bound_ok known t" "sv_handle t \<noteq> None" for polled t
  proof -
    obtain wd act where w: "iw_tick (iw_setValuesPolled (uh_wd (sv_host t)) polled) now = (wd, act)" by fastforce
    have b: "bound_ok known (on_host (\<lambda>h. h\<lparr>uh_wd := wd\<rparr>) t)" using bound_flag(4) [of known t "\<lambda>h. wd"] that by (simp add: bound_stage_def)
    then show ?thesis
      using bound_recover [of "on_host (\<lambda>h. h\<lparr>uh_wd := wd\<rparr>) t" known io now True] that(2)
      unfolding service_input_def w Let_def prod.case bound_stage_def
      by (cases act) (simp_all add: bound_restart [unfolded bound_stage_def, rule_format]
        bound_trans [OF bound_flag(4) bound_poll, unfolded bound_stage_def, rule_format])
  qed
  have link: "bound_ok known (service_link io now t)" if ok: "bound_ok known t" and dr: "uh_driver (sv_host t) \<noteq> None" for t
  proof -
    obtain c gd where c: "uh_driver (sv_host t) = Some (c, gd)" using dr by auto
    have b: "bound_ok known (on_host (\<lambda>h. h\<lparr>uh_link := m\<rparr>) t)" for m using bound_flag(3) [of known t m] ok by (simp add: bound_stage_def)
    have hd: "sv_handle (on_host (\<lambda>h. h\<lparr>uh_link := m\<rparr>) t) \<noteq> None" for m using handle [OF ok dr] by simp
    have cases: "bound_ok known (case a of ActRecover \<Rightarrow> recoverInterface io now False (on_host (\<lambda>h. h\<lparr>uh_link := m\<rparr>) t)
       | ActRestart \<Rightarrow> if stuck then recoverStuckTransfer io now (on_host (\<lambda>h. h\<lparr>uh_link := m\<rparr>) t)
                       else requestRestart why (on_host (\<lambda>h. h\<lparr>uh_link := m\<rparr>) t)
       | ActNone \<Rightarrow> service_input io now polled (on_host (\<lambda>h. h\<lparr>uh_link := m\<rparr>) t))" for a m stuck why polled
      using b [of m] bound_recover [OF hd, of known m io now False] wd [OF b hd]
      by (cases a) (simp_all add: bound_stage_def bound_stuck [unfolded bound_stage_def, rule_format] bound_restart [unfolded bound_stage_def, rule_format])
    show ?thesis unfolding service_link_def c option.case prod.case Let_def split_beta by (rule cases)
  qed
  define s1 where "s1 = serviceEnumWatchdog io now s"
  define s2 where "s2 = (if uh_restart (sv_host s1) \<or> sv_in_pending s1 then interruptDiagRead s1 else s1)"
  have q: "bound_stage known s s2" using bound_trans [OF bound_enum [of known s io now] bound_interrupt] bound_enum [of known s io now] by (simp add: s2_def s1_def)
  obtain stop s3 where w: "servicePortCycleWait now s2 = (stop, s3)" by fastforce
  have q3: "bound_stage known s s3" using bound_trans [OF q bound_wait [of known s2 now]] by (simp add: w)
  have "bound_stage known s (if stop \<or> \<not> uh_ready (sv_host s3) \<or> uh_driver (sv_host s3) = None then s3 else service_link io now s3)"
    using q3 link by (simp add: bound_stage_def)
  then show ?thesis
    unfolding service_rest_def Let_def s1_def [symmetric] s2_def [symmetric] w prod.case
    using q bound_trans [OF q bound_retry] by simp
qed

lemma bound_service:
  assumes "\<And>handle d. known \<Longrightarrow> hio_info io handle d \<noteq> None"
  shows "bound_stage known s (service io s)"
proof -
  let ?p = "processEvents io s"
  have p: "bound_stage known s ?p" by (rule bound_events [OF assms])
  have c: "bound_stage known s (case sv_desc_handle ?p of None \<Rightarrow> ?p | Some handle \<Rightarrow> claimInterface io handle ?p)"
    using p bound_trans [OF p bound_claim [OF assms]] by (simp split: option.split)
  show ?thesis
    unfolding service_def Let_def using p c bound_trans [OF p bound_rest] bound_trans [OF c bound_rest] by auto
qed

lemma bound_step:
  assumes "\<And>handle d. known \<Longrightarrow> hio_info io handle d \<noteq> None"
  shows "bound_stage known s (task_step io c s)"
proof (cases c)
  case TaskTurn
  then show ?thesis using bound_service [OF assms] by simp
next
  case (HidTask ev)
  then show ?thesis by (simp add: hid_task_event_def postEvent_def bound_part)
next
  case ExportRequest
  then show ?thesis by (simp add: requestDiagRead_def bound_part)
qed (auto intro!: bound_host simp: keeps_command keeps_setVariable keeps_reset keeps_writables)

text \<open>C6: no data outlives its device. From the boot on, whatever happens on the bus and whatever the
  clients ask for, while no interface is claimed no driver is there, the data are empty and they are
  stale, and no restart of a pipe is pending. While one is claimed there is a driver, so that no request goes
  without one, on a board whose HID driver always gives the information of a device.\<close>

theorem no_data_without_device:
  shows "let s = fold (task_step io) calls (usb_service_new io unmapped restarts stamps (usb_host_new samples has_store saved dev)); h = sv_host s
         in case sv_handle s of
              None \<Rightarrow> uh_driver h = None \<and> uh_data h = ud_new \<and> isDataStale h now \<and> \<not> sv_in_pending s
            | Some handle \<Rightarrow> (\<forall>handle d. hio_info io handle d \<noteq> None) \<longrightarrow> uh_driver h \<noteq> None"
proof -
  let ?s0 = "usb_service_new io unmapped restarts stamps (usb_host_new samples has_store saved dev)"
  let ?known = "\<forall>handle d. hio_info io handle d \<noteq> None"
  have "bound_ok ?known ?s0" by (simp add: bound_ok_def usb_service_new_def usb_host_new_def dr_clear_def)
  moreover have "bound_stage ?known s (fold (task_step io) calls s)" for s :: "'a usb_service"
  proof (induction calls arbitrary: s)
    case (Cons c calls)
    have "bound_stage ?known s (task_step io c s)" by (rule bound_step) blast
    from bound_trans [OF this Cons.IH] show ?case by simp
  qed simp
  ultimately have "bound_ok ?known (fold (task_step io) calls ?s0)" by (simp add: bound_stage_def)
  then show ?thesis by (auto simp: bound_ok_def isDataStale_def Let_def split: option.splits)
qed

text \<open>What happens when it does not: an interface claimed while another one is bound goes on with the driver and
  the values of the device before, over the descriptor of its own.\<close>

lemma unknown_device_keeps_driver:
  assumes "\<And>d. hio_info io handle d = None" "sv_handle s = Some old" "old \<noteq> handle"
  shows "let s' = bind_interface io handle desc hs s in
    sv_handle s' = Some handle \<and> uh_driver (sv_host s') = uh_driver (sv_host s) \<and> uh_data (sv_host s') = uh_data (sv_host s) \<and> uh_ready (sv_host s')"
  using assms
  by (simp add: bind_interface_def start_claimed_def claim_link_def closeInterface_def on_host_def on_dev_def Let_def split_beta)

section \<open>A pipe that does not start\<close>

text \<open>The retries are 50 ms apart at least, \<open>g\<close> ms late each.\<close>

fun retry_times :: "u32 \<Rightarrow> u32 list \<Rightarrow> u32 list" where
  "retry_times start [] = []"
| "retry_times start (g # gs) = (start + g) # retry_times (start + g + 50) gs"

lemma retry_fails:
  assumes "\<And>handle d. \<not> fst (hio_start io handle d)" "0 \<le> sint (now - sv_in_at s)"
  shows "let s' = retryInterfaceStart io now s in
    if MAX_IN_START_ATTEMPTS \<le> sv_in_attempts s + 1 then uh_restart (sv_host s') \<and> \<not> sv_in_pending s'
    else sv_in_attempts s' = sv_in_attempts s + 1 \<and> sv_in_at s' = now + 50 \<and> sv_in_pending s' = sv_in_pending s"
  using assms
  by (auto simp: retryInterfaceStart_def Let_def split_beta requestRestart_def on_dev_def on_host_def split: option.split)

lemma starts_run_out:
  assumes "\<And>handle d. \<not> fst (hio_start io handle d)"
  shows "unat (sv_in_attempts s) + length gs = 40 \<Longrightarrow> gs \<noteq> [] \<Longrightarrow> list_all (\<lambda>g. 0 \<le> sint g) gs \<Longrightarrow>
    uh_restart (sv_host (fold (retryInterfaceStart io) (retry_times (sv_in_at s) gs) s))"
proof (induction gs arbitrary: s)
  case (Cons g gs)
  let ?s = "retryInterfaceStart io (sv_in_at s + g) s"
  have d: "0 \<le> sint (sv_in_at s + g - sv_in_at s)" using Cons.prems(3) by simp
  note f = retry_fails [OF assms d]
  have n: "unat (sv_in_attempts s + 1) = unat (sv_in_attempts s) + 1" using Cons.prems(1) by (simp add: unat_word_ariths)
  show ?case
  proof (cases "gs = []")
    case True
    then have "MAX_IN_START_ATTEMPTS \<le> sv_in_attempts s + 1" using n Cons.prems(1) by (simp add: word_le_nat_alt MAX_IN_START_ATTEMPTS_def)
    with f True show ?thesis by (simp add: Let_def)
  next
    case False
    then have "unat (sv_in_attempts s) < 39" using Cons.prems(1) by (cases gs) auto
    then have "\<not> MAX_IN_START_ATTEMPTS \<le> sv_in_attempts s + 1" using n Cons.prems(1) by (simp add: word_le_nat_alt MAX_IN_START_ATTEMPTS_def)
    with f have s': "sv_in_attempts ?s = sv_in_attempts s + 1" "sv_in_at ?s = sv_in_at s + g + 50" by (simp_all add: Let_def)
    have "uh_restart (sv_host (fold (retryInterfaceStart io) (retry_times (sv_in_at ?s) gs) ?s))"
      by (rule Cons.IH) (use Cons.prems s' n False in simp_all)
    then show ?thesis by (simp add: s')
  qed
qed simp

section \<open>An example\<close>

text \<open>A device with one field of the UPS page, on an interface that does not start.\<close>

definition example_io :: "nat hid_io" where
  "example_io = \<lparr>hio_dev = \<lparr>dio_get = (\<lambda>t i n d. (Inr [i, 0], d)), dio_set = (\<lambda>t i b d. (UsbOk, d)), dio_string = (\<lambda>i l d. (Inl UsbFailed, d)),
       dio_save = (\<lambda>n v d. (False, d)), dio_erase = (\<lambda>n d. (False, d))\<rparr>,
     hio_millis = of_nat, hio_delay = (\<lambda>ms d. d + ms),
     hio_descriptor = (\<lambda>h d. (Some [0x05, 0x84, 0x09, 0x04, 0xA1, 0x01, 0x85, 0x01, 0x75, 0x08, 0x95, 0x01, 0x09, 0x56, 0xB1, 0x02, 0xC0], d)),
     hio_close = (\<lambda>h d. d), hio_stuck = (\<lambda>h d. False),
     hio_info = (\<lambda>h d. Some \<lparr>di_vid = 0x0764, di_pid = 0x0501, di_mfr = [], di_product = [], di_serial = []\<rparr>),
     hio_mps = (\<lambda>h d. 8), hio_indices = (\<lambda>h d. (0, 0, 0)), hio_start = (\<lambda>h d. (False, d)), hio_stop = (\<lambda>h d. d),
     hio_clear_halt = (\<lambda>h d. (UsbOk, d)), hio_devices = (\<lambda>d. 1), hio_port_power = (\<lambda>on d. (True, d))\<rparr>"

definition example_service :: "nat usb_service" where
  "example_service = usb_service_new example_io False 0 [] (usb_host_new [] False [] 0)"

lemma example_info: "hio_info example_io handle d \<noteq> None"
  by (simp add: example_io_def)

theorem turn_asks_harmless_witness:
  "let s = fold (task_step example_io) [HidTask (EvConnected 7), TaskTurn] example_service; h = sv_host (service example_io s)
   in \<exists>new. uh_asked h = uh_asked (sv_host s) @ new \<and> length new \<le> (if uh_restart h then 0 else 2)"
  using turn_asks_harmless [OF example_info, of "[HidTask (EvConnected 7), TaskTurn]" False 0 "[]" "[]" False "[]" 0]
  by (auto simp: Let_def example_service_def)

theorem no_data_without_device_witness:
  "let s = fold (task_step example_io) [HidTask (EvConnected 7), TaskTurn] example_service
   in sv_handle s = Some 7 \<and> uh_driver (sv_host s) \<noteq> None"
proof -
  have "sv_handle (fold (task_step example_io) [HidTask (EvConnected 7), TaskTurn] example_service) = Some 7" by code_simp
  with no_data_without_device [of example_io "[HidTask (EvConnected 7), TaskTurn]" False 0 "[]" "[]" False "[]" 0 0] example_info
  show ?thesis by (simp add: Let_def example_service_def)
qed

end
