(* ===== verification/LogCore.thy ===== *)
theory LogCore
  imports CLib
begin

text \<open>
  The remote logging (\<open>lib/LogCore/src\<close>): the levels, the minimum level and the rate limit of an
  output, the delivery of a line to every output, and the settings of the syslog output with
  what is logged when they change. A level, a protocol and a facility are the bytes that the flash may hold.
\<close>

section \<open>Levels\<close>

type_synonym log_level = u8

abbreviation (input) LvInfo :: log_level where "LvInfo \<equiv> 0"
abbreviation (input) LvWarn :: log_level where "LvWarn \<equiv> 1"
abbreviation (input) LvError :: log_level where "LvError \<equiv> 2"

definition strcaseeq :: "string \<Rightarrow> string \<Rightarrow> bool" where
  "strcaseeq a b \<longleftrightarrow> map lower a = map lower b"

definition logLevelName :: "log_level \<Rightarrow> string" where
  "logLevelName l = (if l = LvWarn then ''WARN'' else if l = LvError then ''ERROR'' else ''INFO'')"

definition parseLogLevel :: "string option \<Rightarrow> log_level option" where
  "parseLogLevel name = (case name of None \<Rightarrow> None | Some s \<Rightarrow> find (\<lambda>l. strcaseeq s (logLevelName l)) [0, 1, 2])"

definition logLevelOf :: "string option \<Rightarrow> log_level" where
  "logLevelOf name =
     (case parseLogLevel name of
        Some l \<Rightarrow> l
      | None \<Rightarrow> (case name of None \<Rightarrow> LvInfo | Some s \<Rightarrow> if strcaseeq s ''WARNING'' then LvWarn else LvInfo))"

definition syslogSeverity :: "log_level \<Rightarrow> u8" where
  "syslogSeverity l = (if l = LvError then 3 else if l = LvWarn then 4 else 6)"

section \<open>Minimum level and rate limit\<close>

datatype filter_decision = FilterSend | FilterBelowLevel | FilterRateLimited

record log_filter =
  lf_min :: log_level
  lf_rate :: u16
  lf_tokens :: u32
  lf_last :: u32
  lf_started :: bool
  lf_suppressed :: u32

definition MIN_RATE :: u16 where "MIN_RATE = 1"
definition MAX_RATE :: u16 where "MAX_RATE = 100"
definition DEFAULT_RATE :: u16 where "DEFAULT_RATE = 10"

definition rate_burst :: "u16 \<Rightarrow> u16" where
  "rate_burst rate = (if rate * 4 < 20 then 20 else rate * 4)"

definition lf_configure :: "log_level \<Rightarrow> u16 \<Rightarrow> log_filter \<Rightarrow> log_filter" where
  "lf_configure min_level rate f =
     (let rate = (if rate < MIN_RATE then MIN_RATE else rate);
          rate = (if MAX_RATE < rate then MAX_RATE else rate)
      in f\<lparr>lf_min := min_level, lf_rate := rate, lf_tokens := ucast (rate_burst rate) * 1000, lf_last := 0, lf_started := False\<rparr>)"

definition lf_new :: log_filter where
  "lf_new = lf_configure LvInfo DEFAULT_RATE
     \<lparr>lf_min = LvInfo, lf_rate = DEFAULT_RATE, lf_tokens = 0, lf_last = 0, lf_started = False, lf_suppressed = 0\<rparr>"

definition lf_refill :: "u32 \<Rightarrow> log_filter \<Rightarrow> log_filter" where
  "lf_refill now f =
     (if \<not> lf_started f then f\<lparr>lf_started := True, lf_last := now\<rparr>
      else let elapsed = now - lf_last f;
               add = (ucast elapsed :: 64 word) * ucast (lf_rate f);
               cap = (ucast (rate_burst (lf_rate f)) :: 64 word) * 1000;
               t = ucast (lf_tokens f) + add
           in f\<lparr>lf_last := now, lf_tokens := ucast (if cap < t then cap else t)\<rparr>)"

definition lf_check :: "log_level \<Rightarrow> u32 \<Rightarrow> log_filter \<Rightarrow> filter_decision \<times> log_filter" where
  "lf_check lv now f =
     (if lv < lf_min f then (FilterBelowLevel, f)
      else let f = lf_refill now f
           in if lf_tokens f < 1000 then (FilterRateLimited, f\<lparr>lf_suppressed := lf_suppressed f + 1\<rparr>)
              else (FilterSend, f\<lparr>lf_tokens := lf_tokens f - 1000\<rparr>))"

definition lf_takeSuppressed :: "log_filter \<Rightarrow> u32 \<times> log_filter" where
  "lf_takeSuppressed f = (lf_suppressed f, f\<lparr>lf_suppressed := 0\<rparr>)"

section \<open>Lines and outputs\<close>

definition LOG_RECORD_MSG :: nat where "LOG_RECORD_MSG = 240"

record log_record =
  lr_uptime :: u32
  lr_level :: log_level
  lr_notice :: bool
  lr_msg :: string

record log_stats =
  ls_sent :: u32
  ls_failed :: u32
  ls_rate_limited :: u32
  ls_not_ready :: u32

record 'o log_output =
  lo_object :: 'o
  lo_filter :: log_filter
  lo_stats :: log_stats
  lo_enabled_at :: u32

text \<open>What an output implements. \<open>op_deliver\<close> and \<open>op_poll\<close> may change its object, and \<open>op_poll\<close>
  all of it.\<close>

record 'o output_ops =
  op_tag :: "'o \<Rightarrow> string option"
  op_enabled :: "'o \<Rightarrow> bool"
  op_ready :: "'o \<Rightarrow> bool"
  op_poll :: "u32 \<Rightarrow> 'o log_output \<Rightarrow> 'o log_output"
  op_deliver :: "log_record \<Rightarrow> 'o \<Rightarrow> bool \<times> 'o"

definition MAX_OUTPUTS :: nat where "MAX_OUTPUTS = 4"
definition HOLD_MS :: u32 where "HOLD_MS = 60000"

definition fan_add :: "'o log_output option \<Rightarrow> 'o log_output list \<Rightarrow> bool \<times> 'o log_output list" where
  "fan_add out outs =
     (case out of None \<Rightarrow> (False, outs)
      | Some o1 \<Rightarrow> if MAX_OUTPUTS \<le> length outs then (False, outs) else (True, outs @ [o1]))"

definition fan_poll :: "'o output_ops \<Rightarrow> u32 \<Rightarrow> 'o log_output list \<Rightarrow> 'o log_output list" where
  "fan_poll ops now = map (op_poll ops now)"

definition shouldHold :: "'o output_ops \<Rightarrow> u32 \<Rightarrow> 'o log_output list \<Rightarrow> bool" where
  "shouldHold ops now outs =
     list_ex (\<lambda>o1. op_enabled ops (lo_object o1) \<and> \<not> op_ready ops (lo_object o1) \<and> sint (now - lo_enabled_at o1) < sint HOLD_MS) outs"

definition isOwnLine :: "'o output_ops \<Rightarrow> log_record \<Rightarrow> 'o \<Rightarrow> bool" where
  "isOwnLine ops r obj =
     (case op_tag ops obj of None \<Rightarrow> False | Some tag \<Rightarrow> if tag = [] then False else starts_with (lr_msg r) tag)"

definition fan_send :: "'o output_ops \<Rightarrow> log_record \<Rightarrow> 'o log_output \<Rightarrow> 'o log_output" where
  "fan_send ops r o1 =
     (let (ok, obj) = op_deliver ops r (lo_object o1); st = lo_stats o1
      in o1\<lparr>lo_object := obj,
            lo_stats := (if ok then st\<lparr>ls_sent := ls_sent st + 1\<rparr> else st\<lparr>ls_failed := ls_failed st + 1\<rparr>)\<rparr>)"

definition rate_summary :: "log_record \<Rightarrow> u32 \<Rightarrow> u16 \<Rightarrow> log_record" where
  "rate_summary r missed rate = \<lparr>lr_uptime = lr_uptime r, lr_level = LvWarn, lr_notice = False,
     lr_msg = ''[LOG] '' @ dec (unat missed) @ '' lines not sent (rate limit '' @ dec (unat rate) @ ''/s)''\<rparr>"

text \<open>One line for one output, the body of the loop of \<open>deliver\<close>.\<close>

definition fan_deliver_to :: "'o output_ops \<Rightarrow> log_record \<Rightarrow> u32 \<Rightarrow> 'o log_output \<Rightarrow> 'o log_output" where
  "fan_deliver_to ops r now o1 =
     (let st = lo_stats o1 in
      if \<not> op_enabled ops (lo_object o1) then o1
      else if \<not> lr_notice r \<and> isOwnLine ops r (lo_object o1) then o1
      else if \<not> op_ready ops (lo_object o1) then o1\<lparr>lo_stats := st\<lparr>ls_not_ready := ls_not_ready st + 1\<rparr>\<rparr>
      else if lr_notice r then fan_send ops r o1
      else let (d, f) = lf_check (lr_level r) now (lo_filter o1); o1 = o1\<lparr>lo_filter := f\<rparr>
           in case d of
                FilterBelowLevel \<Rightarrow> o1
              | FilterRateLimited \<Rightarrow> o1\<lparr>lo_stats := st\<lparr>ls_rate_limited := ls_rate_limited st + 1\<rparr>\<rparr>
              | FilterSend \<Rightarrow>
                  let (missed, f) = lf_takeSuppressed f; o1 = o1\<lparr>lo_filter := f\<rparr>;
                      o1 = (if 0 < missed then fan_send ops (rate_summary r missed (lf_rate f)) o1 else o1)
                  in fan_send ops r o1)"

definition fan_deliver :: "'o output_ops \<Rightarrow> log_record \<Rightarrow> u32 \<Rightarrow> 'o log_output list \<Rightarrow> 'o log_output list" where
  "fan_deliver ops r now = map (fan_deliver_to ops r now)"

section \<open>Settings\<close>

definition SYSLOG_FACILITIES :: "(string \<times> u8) list" where
  "SYSLOG_FACILITIES = [(''user'', 1), (''daemon'', 3), (''local0'', 16), (''local1'', 17), (''local2'', 18),
     (''local3'', 19), (''local4'', 20), (''local5'', 21), (''local6'', 22), (''local7'', 23)]"

definition syslogFacilityName :: "u8 \<Rightarrow> string option" where
  "syslogFacilityName code = map_option fst (find (\<lambda>f. snd f = code) SYSLOG_FACILITIES)"

definition parseSyslogFacility :: "string option \<Rightarrow> u8 option" where
  "parseSyslogFacility name =
     (case name of None \<Rightarrow> None | Some s \<Rightarrow> map_option snd (find (\<lambda>f. strcaseeq s (fst f)) SYSLOG_FACILITIES))"

abbreviation (input) RFC3164 :: u8 where "RFC3164 \<equiv> 0"
abbreviation (input) RFC5424 :: u8 where "RFC5424 \<equiv> 1"

definition syslogProtocolName :: "u8 \<Rightarrow> string" where
  "syslogProtocolName p = (if p = RFC5424 then ''rfc5424'' else ''rfc3164'')"

definition parseSyslogProtocol :: "string option \<Rightarrow> u8 option" where
  "parseSyslogProtocol name =
     (case name of None \<Rightarrow> None
      | Some s \<Rightarrow> if strcaseeq s ''rfc3164'' then Some RFC3164 else if strcaseeq s ''rfc5424'' then Some RFC5424 else None)"

record syslog_settings =
  sy_enabled :: bool
  sy_host :: string
  sy_port :: u16
  sy_protocol :: u8
  sy_facility :: u8
  sy_min_level :: log_level
  sy_rate :: u16

definition SYSLOG_DEFAULT_PORT :: u16 where "SYSLOG_DEFAULT_PORT = 514"
definition SYSLOG_DEFAULT_FACILITY :: u8 where "SYSLOG_DEFAULT_FACILITY = 16"
definition SYSLOG_HOST_MAX :: nat where "SYSLOG_HOST_MAX = 63"

definition syslogDefaults :: syslog_settings where
  "syslogDefaults = \<lparr>sy_enabled = False, sy_host = [], sy_port = SYSLOG_DEFAULT_PORT, sy_protocol = RFC3164,
     sy_facility = SYSLOG_DEFAULT_FACILITY, sy_min_level = LvInfo, sy_rate = DEFAULT_RATE\<rparr>"

definition host_char :: "char \<Rightarrow> bool" where
  "host_char c \<longleftrightarrow> in_range (CHR ''a'') (CHR ''z'') c \<or> in_range (CHR ''A'') (CHR ''Z'') c \<or> is_digit c \<or> c = CHR ''-'' \<or> c = CHR ''.''"

definition validSyslogHost :: "string \<Rightarrow> bool" where
  "validSyslogHost host =
     (if host = [] \<or> SYSLOG_HOST_MAX < length host then False
      else if \<not> list_all host_char host then False
      else hd host \<noteq> CHR ''.'' \<and> hd host \<noteq> CHR ''-'' \<and> List.last host \<noteq> CHR ''.'')"

definition sanitize_syslog :: "syslog_settings \<Rightarrow> syslog_settings" where
  "sanitize_syslog s =
     (let d = syslogDefaults;
          s = (if sy_port s = 0 then s\<lparr>sy_port := sy_port d\<rparr> else s);
          s = (if sy_protocol s \<noteq> RFC3164 \<and> sy_protocol s \<noteq> RFC5424 then s\<lparr>sy_protocol := sy_protocol d\<rparr> else s);
          s = (if syslogFacilityName (sy_facility s) = None then s\<lparr>sy_facility := sy_facility d\<rparr> else s);
          s = (if 3 \<le> sy_min_level s then s\<lparr>sy_min_level := sy_min_level d\<rparr> else s);
          s = (if sy_rate s < MIN_RATE \<or> MAX_RATE < sy_rate s then s\<lparr>sy_rate := sy_rate d\<rparr> else s);
          s = (if sy_host s \<noteq> [] \<and> \<not> validSyslogHost (sy_host s) then s\<lparr>sy_host := []\<rparr> else s);
          s = (if sy_host s = [] then s\<lparr>sy_enabled := False\<rparr> else s)
      in s)"

section \<open>Changes of the settings\<close>

record syslog_change =
  sc_to_old :: string
  sc_to_new :: string
  sc_local :: string

text \<open>The text of a facility; \<open>sanitize\<close> leaves no other code.\<close>

definition facility_text :: "u8 \<Rightarrow> string" where
  "facility_text code = (case syslogFacilityName code of Some n \<Rightarrow> n | None \<Rightarrow> [])"

definition syslogSummary :: "syslog_settings \<Rightarrow> string" where
  "syslogSummary s = sy_host s @ '':'' @ dec (unat (sy_port s)) @ '', '' @ (if sy_protocol s = RFC5424 then ''RFC 5424'' else ''RFC 3164'') @
     '', facility '' @ facility_text (sy_facility s) @ '', '' @ logLevelName (sy_min_level s) @ '' and above, max '' @
     dec (unat (sy_rate s)) @ '' lines/s''"

definition add_change :: "string \<Rightarrow> string \<Rightarrow> string" where
  "add_change item changes = (if changes \<noteq> [] then changes @ '', '' @ item else item)"

definition setting_changes :: "syslog_settings \<Rightarrow> syslog_settings \<Rightarrow> string" where
  "setting_changes a b =
     (let c = [];
          c = (if sy_min_level a \<noteq> sy_min_level b
               then add_change (''minimum level '' @ logLevelName (sy_min_level a) @ '' -> '' @ logLevelName (sy_min_level b)) c else c);
          c = (if sy_protocol a \<noteq> sy_protocol b
               then add_change (''format '' @ syslogProtocolName (sy_protocol a) @ '' -> '' @ syslogProtocolName (sy_protocol b)) c else c);
          c = (if sy_facility a \<noteq> sy_facility b
               then add_change (''facility '' @ facility_text (sy_facility a) @ '' -> '' @ facility_text (sy_facility b)) c else c);
          c = (if sy_rate a \<noteq> sy_rate b
               then add_change (''max lines/s '' @ dec (unat (sy_rate a)) @ '' -> '' @ dec (unat (sy_rate b))) c else c)
      in c)"

definition planSyslogChange :: "syslog_settings \<Rightarrow> syslog_settings \<Rightarrow> string \<Rightarrow> syslog_change" where
  "planSyslogChange old_s new_s who =
     (let none = \<lparr>sc_to_old = [], sc_to_new = [], sc_local = []\<rparr>;
          by_who = (if who = [] then [] else '' by '' @ [CHR 0x27] @ who @ [CHR 0x27])
      in if who = [] then
           (if sy_enabled new_s then none\<lparr>sc_local := ''[SYSLOG] Remote logging on: '' @ syslogSummary new_s\<rparr> else none)
         else if \<not> sy_enabled old_s \<and> \<not> sy_enabled new_s then
           none\<lparr>sc_local := ''[SYSLOG] Settings saved'' @ by_who @ '' (remote logging off)''\<rparr>
         else if sy_enabled old_s \<and> \<not> sy_enabled new_s then
           (let line = ''[SYSLOG] Remote logging disabled'' @ by_who in none\<lparr>sc_to_old := line, sc_local := line\<rparr>)
         else if \<not> sy_enabled old_s then
           none\<lparr>sc_to_new := ''[SYSLOG] Remote logging enabled'' @ by_who @ '': '' @ syslogSummary new_s\<rparr>
         else if sy_host old_s \<noteq> sy_host new_s \<or> sy_port old_s \<noteq> sy_port new_s then
           none\<lparr>sc_to_old := ''[SYSLOG] Remote logging moved to '' @ sy_host new_s @ '':'' @ dec (unat (sy_port new_s)) @ by_who,
                sc_to_new := ''[SYSLOG] Remote logging moved here from '' @ sy_host old_s @ '':'' @ dec (unat (sy_port old_s)) @ by_who @
                  '': '' @ syslogSummary new_s\<rparr>
         else let changes = setting_changes old_s new_s
              in if changes \<noteq> [] then none\<lparr>sc_to_new := ''[SYSLOG] Settings changed'' @ by_who @ '': '' @ changes\<rparr> else none)"

datatype syslog_state = SyDisabled | SyWaiting | SyReady | SyActive | SyError

definition syslogStateName :: "syslog_state \<Rightarrow> string" where
  "syslogStateName s = (case s of SyWaiting \<Rightarrow> ''waiting'' | SyReady \<Rightarrow> ''ready'' | SyActive \<Rightarrow> ''active'' | SyError \<Rightarrow> ''error''
     | SyDisabled \<Rightarrow> ''disabled'')"

end
