(* ===== verification/LogProofs.thy ===== *)
theory LogProofs
  imports LogCore
begin

text \<open>
  The rate of the lines of an output, the account of every line, what the settings keep, and what is
  told when they change.
\<close>

section \<open>The rate limit\<close>

lemma one_le_u16: "r \<noteq> 0 \<Longrightarrow> 1 \<le> (r :: u16)"
  by (simp add: word_le_nat_alt unat_gt_0 Suc_leI)

lemma rate_range: "MIN_RATE \<le> lf_rate (lf_configure m r f) \<and> lf_rate (lf_configure m r f) \<le> MAX_RATE"
  by (auto simp: lf_configure_def Let_def MIN_RATE_def MAX_RATE_def not_less intro: one_le_u16)

lemma burst_value:
  assumes "rate \<le> MAX_RATE"
  shows "unat (rate_burst rate) = max 20 (4 * unat rate)" "unat rate \<le> 100"
proof -
  show r: "unat rate \<le> 100" using assms by (simp add: MAX_RATE_def word_le_nat_alt)
  have "unat (rate * 4) = 4 * unat rate" using r by (simp add: unat_word_ariths)
  then show "unat (rate_burst rate) = max 20 (4 * unat rate)" by (auto simp: rate_burst_def word_less_nat_alt)
qed

lemma unat_ucast_up: "LENGTH('a::len) \<le> LENGTH('b::len) \<Longrightarrow> unat (ucast (x :: 'a word) :: 'b word) = unat x"
proof -
  assume "LENGTH('a) \<le> LENGTH('b)"
  then have "unat x < 2 ^ LENGTH('b)" by (metis less_le_trans one_le_numeral power_increasing unsigned_less)
  then show ?thesis unfolding unsigned_ucast_eq by (rule take_bit_nat_eq_self)
qed

lemma unat_mult_64: "unat a * unat b < 2 ^ 64 \<Longrightarrow> unat (a * b :: 64 word) = unat a * unat b"
  by (simp add: unat_word_ariths)

lemma unat_add_64: "unat a + unat b < 2 ^ 64 \<Longrightarrow> unat (a + b :: 64 word) = unat a + unat b"
  by (simp add: unat_word_ariths)

text \<open>The tokens never exceed those of the time that passed, nor the burst.\<close>

definition lf_ok :: "log_filter \<Rightarrow> bool" where
  "lf_ok f \<longleftrightarrow> lf_rate f \<le> MAX_RATE \<and> unat (lf_tokens f) \<le> 1000 * unat (rate_burst (lf_rate f))"

lemma configure_ok: "lf_ok (lf_configure m r f) \<and> unat (lf_tokens (lf_configure m r f)) = 1000 * unat (rate_burst (lf_rate (lf_configure m r f)))"
proof -
  let ?f = "lf_configure m r f"
  have r: "lf_rate ?f \<le> MAX_RATE" using rate_range by simp
  have b: "unat (rate_burst (lf_rate ?f)) \<le> 400" using burst_value [OF r] by simp
  have "lf_tokens ?f = ucast (rate_burst (lf_rate ?f)) * 1000" by (simp add: lf_configure_def Let_def)
  moreover have "unat (ucast (rate_burst (lf_rate ?f)) :: u32) = unat (rate_burst (lf_rate ?f))" by (rule unat_ucast_up) simp
  ultimately have "unat (lf_tokens ?f) = 1000 * unat (rate_burst (lf_rate ?f))" using b by (simp add: unat_word_ariths)
  with r show ?thesis by (simp add: lf_ok_def)
qed

lemma refill_tokens:
  assumes "lf_ok f"
  shows "lf_ok (lf_refill now f) \<and> unat (lf_tokens (lf_refill now f)) \<le> unat (lf_tokens f) +
     (if lf_started f then unat (now - lf_last f) * unat (lf_rate f) else 0)"
proof (cases "lf_started f")
  case True
  let ?add = "(ucast (now - lf_last f) :: 64 word) * ucast (lf_rate f)" and ?cap = "(ucast (rate_burst (lf_rate f)) :: 64 word) * 1000"
  have r: "lf_rate f \<le> MAX_RATE" "unat (lf_tokens f) \<le> 1000 * unat (rate_burst (lf_rate f))" using assms by (simp_all add: lf_ok_def)
  note b = burst_value [OF r(1)]
  have u: "unat (ucast (now - lf_last f) :: 64 word) = unat (now - lf_last f)" "unat (ucast (lf_rate f) :: 64 word) = unat (lf_rate f)"
    "unat (ucast (rate_burst (lf_rate f)) :: 64 word) = unat (rate_burst (lf_rate f))" "unat (ucast (lf_tokens f) :: 64 word) = unat (lf_tokens f)"
    by (rule unat_ucast_up; simp)+
  have e: "unat (now - lf_last f) < 2 ^ 32" by (rule unat_u32_bound)
  have ab: "unat (now - lf_last f) * unat (lf_rate f) \<le> (2 ^ 32 - 1) * 100" using e b(2) by (intro mult_le_mono) simp_all
  then have a: "unat ?add = unat (now - lf_last f) * unat (lf_rate f)" by (simp add: unat_mult_64 u)
  have cb: "1000 * unat (rate_burst (lf_rate f)) \<le> 400000" using b by simp
  then have c: "unat ?cap = 1000 * unat (rate_burst (lf_rate f))" by (simp add: unat_mult_64 u)
  have t: "unat (ucast (lf_tokens f) + ?add) = unat (lf_tokens f) + unat (now - lf_last f) * unat (lf_rate f)"
    using ab r(2) cb by (simp add: unat_add_64 u a)
  let ?t = "if ?cap < ucast (lf_tokens f) + ?add then ?cap else ucast (lf_tokens f) + ?add"
  have m: "unat ?t = min (1000 * unat (rate_burst (lf_rate f))) (unat (lf_tokens f) + unat (now - lf_last f) * unat (lf_rate f))"
    by (simp add: word_less_nat_alt c t)
  then have "unat ?t < 2 ^ 32" using cb by simp
  then have "unat (ucast ?t :: u32) = unat ?t" unfolding unsigned_ucast_eq by (intro take_bit_nat_eq_self) simp
  moreover have "lf_tokens (lf_refill now f) = ucast ?t" "lf_rate (lf_refill now f) = lf_rate f" using True by (simp_all add: lf_refill_def Let_def)
  ultimately show ?thesis using True r(1) m by (simp add: lf_ok_def)
qed (use assms in \<open>simp add: lf_refill_def lf_ok_def\<close>)

lemma check_tokens:
  assumes "lf_ok f"
  shows "lf_ok (snd (lf_check lv now f)) \<and> lf_rate (snd (lf_check lv now f)) = lf_rate f \<and>
     (if lv < lf_min f then snd (lf_check lv now f) = f else lf_started (snd (lf_check lv now f)) \<and> lf_last (snd (lf_check lv now f)) = now) \<and>
     fst (lf_check lv now f) = (if lv < lf_min f then FilterBelowLevel else fst (lf_check lv now f)) \<and>
     (if fst (lf_check lv now f) = FilterSend then 1000 else 0) + unat (lf_tokens (snd (lf_check lv now f))) \<le> unat (lf_tokens f) +
       (if lf_started f then unat (now - lf_last f) * unat (lf_rate f) else 0)"
proof (cases "lv < lf_min f")
  case False
  let ?f = "lf_refill now f"
  note t = refill_tokens [OF assms, of now]
  have r: "lf_rate ?f = lf_rate f" "lf_started ?f" "lf_last ?f = now" by (simp_all add: lf_refill_def Let_def)
  show ?thesis
  proof (cases "lf_tokens ?f < 1000")
    case True
    then show ?thesis using False t r by (simp add: lf_check_def Let_def lf_ok_def)
  next
    case above: False
    then have un: "unat (lf_tokens ?f - 1000) = unat (lf_tokens ?f) - 1000" "1000 \<le> unat (lf_tokens ?f)"
      by (simp_all add: unat_sub word_le_nat_alt not_less)
    have K: "lf_check lv now f = (FilterSend, ?f\<lparr>lf_tokens := lf_tokens ?f - 1000\<rparr>)" using False above by (simp add: lf_check_def Let_def)
    have e: "1000 + unat (lf_tokens ?f - 1000) = unat (lf_tokens ?f)" using un by simp
    have "unat (lf_tokens ?f) \<le> 1000 * unat (rate_burst (lf_rate f))" using t r(1) by (simp add: lf_ok_def)
    then have le: "unat (lf_tokens ?f - 1000) \<le> 1000 * unat (rate_burst (lf_rate f))" using un(1) by linarith
    show ?thesis unfolding K fst_conv snd_conv using False t r le by (simp add: lf_ok_def e)
  qed
qed (use assms in \<open>simp add: lf_check_def\<close>)

section \<open>What an output is given\<close>

text \<open>The same output, that keeps the lines it is given.\<close>

definition recording :: "'o output_ops \<Rightarrow> ('o \<times> log_record list) output_ops" where
  "recording ops = \<lparr>op_tag = op_tag ops \<circ> fst, op_enabled = op_enabled ops \<circ> fst, op_ready = op_ready ops \<circ> fst, op_poll = (\<lambda>now o1. o1),
     op_deliver = (\<lambda>r (obj, given). let (ok, obj) = op_deliver ops r obj in (ok, (obj, given @ [r])))\<rparr>"

definition given_lines :: "('o \<times> log_record list) log_output \<Rightarrow> log_record list" where
  "given_lines o1 = filter (\<lambda>r. \<not> lr_notice r) (snd (lo_object o1))"

definition deliver_all :: "'o output_ops \<Rightarrow> (log_record \<times> nat) list \<Rightarrow> ('o \<times> log_record list) log_output \<Rightarrow> ('o \<times> log_record list) log_output" where
  "deliver_all ops calls = fold (\<lambda>(r, t). fan_deliver_to (recording ops) r (of_nat t)) calls"

lemma given_send: "given_lines (fan_send (recording ops) r o1) = given_lines o1 @ (if lr_notice r then [] else [r])"
    "lo_filter (fan_send (recording ops) r o1) = lo_filter o1"
  by (simp_all add: fan_send_def given_lines_def recording_def split_beta Let_def)

text \<open>A line that the filter was asked about: the decision and the filter after it.\<close>

definition fan_checked :: "'o output_ops \<Rightarrow> log_record \<Rightarrow> filter_decision \<Rightarrow> log_filter \<Rightarrow> 'o log_output \<Rightarrow> 'o log_output" where
  "fan_checked ops r d g o1 =
     (case d of
        FilterBelowLevel \<Rightarrow> o1\<lparr>lo_filter := g\<rparr>
      | FilterRateLimited \<Rightarrow> o1\<lparr>lo_filter := g, lo_stats := (lo_stats o1)\<lparr>ls_rate_limited := ls_rate_limited (lo_stats o1) + 1\<rparr>\<rparr>
      | FilterSend \<Rightarrow>
          (let o1 = o1\<lparr>lo_filter := g\<lparr>lf_suppressed := 0\<rparr>\<rparr>
           in fan_send ops r (if 0 < lf_suppressed g then fan_send ops (rate_summary r (lf_suppressed g) (lf_rate g)) o1 else o1)))"

lemma deliver_checked:
  assumes "op_enabled ops (lo_object o1)" "\<not> isOwnLine ops r (lo_object o1)" "op_ready ops (lo_object o1)" "\<not> lr_notice r"
  shows "fan_deliver_to ops r now o1 = fan_checked ops r (fst (lf_check (lr_level r) now (lo_filter o1))) (snd (lf_check (lr_level r) now (lo_filter o1))) o1"
  using assms
  by (cases "lf_check (lr_level r) now (lo_filter o1)"; cases "fst (lf_check (lr_level r) now (lo_filter o1))")
    (simp_all add: fan_deliver_to_def fan_checked_def lf_takeSuppressed_def Let_def)

lemma deliver_tokens:
  assumes "lf_ok (lo_filter o1)"
  shows "let o2 = fan_deliver_to (recording ops) r now o1; f = lo_filter o1; g = lo_filter o2 in
    lf_ok g \<and> lf_rate g = lf_rate f \<and> (g = f \<and> length (given_lines o2) = length (given_lines o1) \<or> lf_started g \<and> lf_last g = now) \<and>
    500 * length (given_lines o2) + unat (lf_tokens g) \<le> 500 * length (given_lines o1) + unat (lf_tokens f) +
       (if lf_started f then unat (now - lf_last f) * unat (lf_rate f) else 0)"
proof -
  let ?ops = "recording ops" and ?f = "lo_filter o1"
  obtain d g where k: "lf_check (lr_level r) now ?f = (d, g)" by fastforce
  note ch = check_tokens [OF assms, of "lr_level r" now, unfolded k fst_conv snd_conv]
  have quiet: "lf_ok ?f" by (rule assms)
  have stats: "given_lines (o1\<lparr>lo_stats := st\<rparr>) = given_lines o1" "given_lines (o1\<lparr>lo_filter := e\<rparr>) = given_lines o1"
    "given_lines (o1\<lparr>lo_filter := e, lo_stats := st\<rparr>) = given_lines o1" for st e by (simp_all add: given_lines_def)
  have below: "lr_level r < lf_min ?f \<longleftrightarrow> d = FilterBelowLevel" using k by (auto simp: lf_check_def Let_def split: if_splits)
  have sup: "lf_ok (g\<lparr>lf_suppressed := 0\<rparr>) = lf_ok g" by (simp add: lf_ok_def)
  consider (off) "fan_deliver_to ?ops r now o1 = o1 \<or> (\<exists>st. fan_deliver_to ?ops r now o1 = o1\<lparr>lo_stats := st\<rparr>) \<or>
        (lr_notice r \<and> fan_deliver_to ?ops r now o1 = fan_send ?ops r o1)"
    | (check) "\<not> lr_notice r" "fan_deliver_to ?ops r now o1 = fan_checked ?ops r d g o1"
  proof (cases "op_enabled ?ops (lo_object o1) \<and> (lr_notice r \<or> \<not> isOwnLine ?ops r (lo_object o1)) \<and> op_ready ?ops (lo_object o1) \<and> \<not> lr_notice r")
    case True
    then show ?thesis by (intro that(2)) (auto simp: deliver_checked k)
  next
    case False
    then show ?thesis by (intro that(1)) (auto simp: fan_deliver_to_def Let_def)
  qed
  then show ?thesis
  proof cases
    case off
    then show ?thesis using quiet by (auto simp: Let_def given_send stats)
  next
    case check
    then show ?thesis
    proof (cases d)
      case FilterBelowLevel
      then show ?thesis using ch check below quiet by (auto simp: fan_checked_def Let_def stats)
    next
      case FilterRateLimited
      then show ?thesis using ch check below quiet by (auto simp: fan_checked_def Let_def stats)
    next
      case FilterSend
      moreover have "lr_notice (rate_summary r m n) = False" for m n by (simp add: rate_summary_def)
      ultimately show ?thesis using ch check below by (simp add: fan_checked_def Let_def stats given_send sup)
    qed
  qed
qed

text \<open>From a state of the filter at \<open>t0\<close>, or before its first line.\<close>

lemma deliver_bound:
  assumes "lf_ok (lo_filter o1)" "lf_started (lo_filter o1) \<Longrightarrow> lf_last (lo_filter o1) = of_nat t0" "sorted (t0 # map snd calls)"
    "\<forall>c \<in> set calls. snd c \<le> t" "t0 \<le> t"
  shows "500 * length (given_lines (deliver_all ops calls o1)) \<le>
    500 * length (given_lines o1) + unat (lf_tokens (lo_filter o1)) + (t - t0) * unat (lf_rate (lo_filter o1))"
  using assms
proof (induction calls arbitrary: o1 t0)
  case (Cons c calls)
  obtain r t1 where c: "c = (r, t1)" by fastforce
  let ?o = "fan_deliver_to (recording ops) r (of_nat t1) o1"
  note d = deliver_tokens [OF Cons.prems(1), of ops r "of_nat t1", unfolded Let_def]
  have s: "t0 \<le> t1" "t1 \<le> t" "sorted (t1 # map snd calls)" "sorted (t0 # map snd calls)" "\<forall>c \<in> set calls. snd c \<le> t"
    using Cons.prems(3,4) by (auto simp: c)
  have step: "deliver_all ops (c # calls) o1 = deliver_all ops calls ?o" by (simp add: deliver_all_def c)
  show ?case
  proof (cases "lo_filter ?o = lo_filter o1 \<and> length (given_lines ?o) = length (given_lines o1)")
    case True
    then show ?thesis using Cons.IH [of ?o t0] Cons.prems s by (simp add: step)
  next
    case False
    with d have g: "lf_last (lo_filter ?o) = of_nat t1" "lf_ok (lo_filter ?o)" "lf_rate (lo_filter ?o) = lf_rate (lo_filter o1)" by auto
    from Cons.IH [OF g(2,1) s(3,5,2)]
    have ih: "500 * length (given_lines (deliver_all ops calls ?o)) \<le>
        500 * length (given_lines ?o) + unat (lf_tokens (lo_filter ?o)) + (t - t1) * unat (lf_rate (lo_filter o1))" by (simp add: g(3))
    have split: "(t - t0) * unat (lf_rate (lo_filter o1)) = (t - t1) * unat (lf_rate (lo_filter o1)) + (t1 - t0) * unat (lf_rate (lo_filter o1))"
      using s(1,2) by (simp add: add_mult_distrib [symmetric])
    have "unat (of_nat t1 - of_nat t0 :: u32) \<le> t1 - t0" by (rule stamp_diff_le) (rule s(1))
    then have "(if lf_started (lo_filter o1) then unat (of_nat t1 - lf_last (lo_filter o1)) * unat (lf_rate (lo_filter o1)) else 0)
        \<le> (t1 - t0) * unat (lf_rate (lo_filter o1))"
      using Cons.prems(2) by (auto intro: mult_le_mono)
    then show ?thesis using ih split d unfolding step by linarith
  qed
qed (simp add: deliver_all_def)

text \<open>C21: However many lines the program writes, and whenever, an output that was just configured, whose settings
  stay, is given few of them: between two times at most twice its burst plus twice its rate times the seconds,
  over the wrap-around of the millisecond counter too. Every line it is given counts but the notices, which
  pass whatever the limit: the lines of the program are half of that bound, and before each of them there may be
  one that says how many were not sent.\<close>

theorem lines_within_rate:
  assumes "sorted (t0 # map snd calls)" "\<forall>c \<in> set calls. snd c \<le> t" "t0 \<le> t"
  shows "let f = lf_configure m r f0 in
     1000 * length (filter (\<lambda>r. \<not> lr_notice r) (snd (lo_object
         (fold (\<lambda>(r, t). fan_deliver_to (recording ops) r (of_nat t)) calls (o1\<lparr>lo_filter := f, lo_object := (obj, [])\<rparr>))))) \<le>
       2 * (1000 * unat (rate_burst (lf_rate f)) + (t - t0) * unat (lf_rate f))"
proof -
  let ?f = "lf_configure m r f0"
  have "\<not> lf_started ?f" by (simp add: lf_configure_def Let_def)
  then show ?thesis
    using deliver_bound [of "o1\<lparr>lo_filter := ?f, lo_object := (obj, [])\<rparr>" t0 calls t ops] configure_ok [of m r f0] assms
    by (simp add: Let_def deliver_all_def given_lines_def)
qed

definition open_output :: "unit output_ops" where
  "open_output = \<lparr>op_tag = (\<lambda>u. None), op_enabled = (\<lambda>u. True), op_ready = (\<lambda>u. True), op_poll = (\<lambda>now o1. o1), op_deliver = (\<lambda>r u. (True, u))\<rparr>"

definition new_output :: "(unit \<times> log_record list) log_output" where
  "new_output = \<lparr>lo_object = ((), []), lo_filter = lf_new, lo_stats = \<lparr>ls_sent = 0, ls_failed = 0, ls_rate_limited = 0, ls_not_ready = 0\<rparr>, lo_enabled_at = 0\<rparr>"

definition sample_lines :: "(log_record \<times> nat) list" where
  "sample_lines = replicate 21 (\<lparr>lr_uptime = 0, lr_level = LvWarn, lr_notice = False, lr_msg = ''fan''\<rparr>, 5) @
     [(\<lparr>lr_uptime = 0, lr_level = LvWarn, lr_notice = True, lr_msg = ''bye''\<rparr>, 6), (\<lparr>lr_uptime = 0, lr_level = LvInfo, lr_notice = False, lr_msg = ''fan''\<rparr>, 7),
      (\<lparr>lr_uptime = 1, lr_level = LvError, lr_notice = False, lr_msg = ''hot''\<rparr>, 1005)]"

lemma lines_within_rate_witness:
  "length (filter (\<lambda>r. \<not> lr_notice r) (snd (lo_object (fold (\<lambda>(r, t). fan_deliver_to (recording open_output) r (of_nat t)) sample_lines
     (new_output\<lparr>lo_filter := lf_configure LvWarn 1 lf_new, lo_object := ((), [])\<rparr>))))) = 22 \<and> 22 \<le> 2 * (20 + 1 * 1 :: nat)"
proof -
  have n: "length (filter (\<lambda>r. \<not> lr_notice r) (snd (lo_object (fold (\<lambda>(r, t). fan_deliver_to (recording open_output) r (of_nat t)) sample_lines
     (new_output\<lparr>lo_filter := lf_configure LvWarn 1 lf_new, lo_object := ((), [])\<rparr>))))) = 22" by code_simp
  have "sorted (5 # map snd sample_lines)" "list_all (\<lambda>c. snd c \<le> 1005) sample_lines" by code_simp+
  moreover have "unat (rate_burst (lf_rate (lf_configure LvWarn 1 lf_new))) = 20" "unat (lf_rate (lf_configure LvWarn 1 lf_new)) = 1" by code_simp+
  ultimately show ?thesis
    using lines_within_rate [of 5 sample_lines 1005 LvWarn 1 lf_new open_output "()" new_output] n by (simp add: Let_def list_all_iff)
qed

end
