(* ===== verification/SyslogFormat.thy ===== *)
theory SyslogFormat
  imports LogCore
begin

text \<open>
  The syslog message of a line (\<open>lib/LogCore/src/SyslogFormat.cpp\<close>), in the two formats, with and without
  the time, and what every receiver can rely on.
\<close>

section \<open>Fields\<close>

definition isPrintUsAscii :: "char \<Rightarrow> bool" where
  "isPrintUsAscii c \<longleftrightarrow> 33 \<le> ord c \<and> ord c \<le> 126"

definition isTagChar :: "char \<Rightarrow> bool" where
  "isTagChar c \<longleftrightarrow> in_range (CHR ''a'') (CHR ''z'') c \<or> in_range (CHR ''A'') (CHR ''Z'') c \<or> is_digit c \<or> c = CHR ''-'' \<or> c = CHR ''_''"

text \<open>The characters of a name that \<open>keep\<close> accepts, at most \<open>mx\<close>, as \<open>copyToken\<close>.\<close>

definition copyToken :: "nat \<Rightarrow> string option \<Rightarrow> nat \<Rightarrow> (char \<Rightarrow> bool) \<Rightarrow> string" where
  "copyToken cap inp mx keep =
     (let out = (case inp of None \<Rightarrow> [] | Some s \<Rightarrow> take (min mx (cap - 1)) (filter keep s))
      in if out = [] \<and> 1 < cap then ''-'' else out)"

definition clampField :: "int \<Rightarrow> int \<Rightarrow> int \<Rightarrow> int" where
  "clampField v lo hi = (if v < lo then lo else if hi < v then hi else v)"

text \<open>\<open>struct tm\<close>, and the time of a line.\<close>

record tm =
  tm_year :: int
  tm_mon :: int
  tm_mday :: int
  tm_hour :: int
  tm_min :: int
  tm_sec :: int

record syslog_time =
  st_local :: tm
  st_utc :: tm
  st_ms :: u16

definition MONTHS :: "string list" where
  "MONTHS = [''Jan'', ''Feb'', ''Mar'', ''Apr'', ''May'', ''Jun'', ''Jul'', ''Aug'', ''Sep'', ''Oct'', ''Nov'', ''Dec'']"

text \<open>\<open>%2d\<close> and \<open>%0nd\<close> of a number that is not negative.\<close>

definition space2 :: "nat \<Rightarrow> string" where
  "space2 n = replicate (2 - length (dec n)) (CHR '' '') @ dec n"

definition padded :: "nat \<Rightarrow> int \<Rightarrow> string" where
  "padded n v = pad0 n (dec (nat v))"

definition clock_text :: "tm \<Rightarrow> string" where
  "clock_text t = padded 2 (clampField (tm_hour t) 0 23) @ '':'' @ padded 2 (clampField (tm_min t) 0 59) @ '':'' @
     padded 2 (clampField (tm_sec t) 0 60)"

definition stamp5424 :: "syslog_time \<Rightarrow> string" where
  "stamp5424 time =
     (let t = st_utc time in
      padded 4 (clampField (tm_year t + 1900) 0 9999) @ ''-'' @ padded 2 (clampField (tm_mon t) 0 11 + 1) @ ''-'' @
      padded 2 (clampField (tm_mday t) 1 31) @ ''T'' @ clock_text t @ ''.'' @
      padded 3 (int (unat (if 999 < st_ms time then 999 else st_ms time))) @ ''Z'')"

definition stamp3164 :: "syslog_time \<Rightarrow> string" where
  "stamp3164 time =
     (let t = st_local time in
      MONTHS ! nat (clampField (tm_mon t) 0 11) @ '' '' @ space2 (nat (clampField (tm_mday t) 1 31)) @ '' '' @ clock_text t)"

section \<open>The message\<close>

definition syslog_pri :: "u8 \<Rightarrow> u8 \<Rightarrow> nat" where
  "syslog_pri facility severity =
     (let facility = (if 23 < facility then 1 else facility); severity = (if 7 < severity then 6 else severity)
      in unat facility * 8 + unat severity)"

definition syslog_header :: "u8 \<Rightarrow> nat \<Rightarrow> string option \<Rightarrow> string option \<Rightarrow> syslog_time option \<Rightarrow> string" where
  "syslog_header protocol pri hostname app time =
     (if protocol = RFC5424 then
        let host = copyToken 64 hostname 63 isPrintUsAscii; tag = copyToken 49 app 48 isPrintUsAscii
        in case time of
             Some t \<Rightarrow> ''<'' @ dec pri @ ''>1 '' @ stamp5424 t @ '' '' @ host @ '' '' @ tag @ '' - - - ''
           | None \<Rightarrow> ''<'' @ dec pri @ ''>1 - '' @ host @ '' '' @ tag @ '' - - - ''
      else
        let tag = copyToken 49 app 32 isTagChar
        in case time of
             Some t \<Rightarrow> let host = copyToken 64 hostname 63 isPrintUsAscii
               in ''<'' @ dec pri @ ''>'' @ stamp3164 t @ '' '' @ host @ '' '' @ tag @ '': ''
           | None \<Rightarrow> ''<'' @ dec pri @ ''>'' @ tag @ '': '')"

definition clean_char :: "char \<Rightarrow> char" where
  "clean_char c = (if ord c < 32 \<or> ord c = 127 then CHR '' '' else c)"

definition drop_blanks :: "string \<Rightarrow> string" where
  "drop_blanks s = rev (dropWhile (\<lambda>c. c = CHR '' '') (rev s))"

text \<open>The text written into a buffer of \<open>cap\<close> bytes; its length is what the function returns. A line
  without text also loses the blank that ends its header.\<close>

definition formatSyslogSeverity ::
  "nat \<Rightarrow> u8 \<Rightarrow> u8 \<Rightarrow> u8 \<Rightarrow> string option \<Rightarrow> string option \<Rightarrow> string option \<Rightarrow> syslog_time option \<Rightarrow> string" where
  "formatSyslogSeverity cap protocol facility severity hostname app msg time =
     (if cap = 0 then []
      else let header = syslog_header protocol (syslog_pri facility severity) hostname app time
           in if cap \<le> length header then []
              else let body = (case msg of None \<Rightarrow> [] | Some m \<Rightarrow> map clean_char (take (cap - 1 - length header) m));
                       body = drop_blanks body
                   in if body = [] \<and> header \<noteq> [] \<and> List.last header = CHR '' '' then butlast header else header @ body)"

definition formatSyslog ::
  "nat \<Rightarrow> u8 \<Rightarrow> u8 \<Rightarrow> log_level \<Rightarrow> string option \<Rightarrow> string option \<Rightarrow> string option \<Rightarrow> syslog_time option \<Rightarrow> string" where
  "formatSyslog cap protocol facility level hostname app msg time =
     formatSyslogSeverity cap protocol facility (syslogSeverity level) hostname app msg time"

section \<open>One line\<close>

definition syslog_char :: "char \<Rightarrow> bool" where
  "syslog_char c \<longleftrightarrow> 32 \<le> ord c \<and> ord c \<noteq> 127"

lemma clean_line_char [simp]: "syslog_char (clean_char c)"
  by (simp add: syslog_char_def clean_char_def ord_def)

lemma digit_line_char: "is_digit c \<Longrightarrow> syslog_char c"
  by (simp add: syslog_char_def in_range_def ord_def)

lemma list_all_replicate: "list_all P (replicate n x) \<longleftrightarrow> n = 0 \<or> P x"
  by (cases n) (auto simp: list_all_iff)

lemma dec_line [simp]: "list_all syslog_char (dec n)"
  by (auto simp: list_all_iff intro: digit_line_char dec_digits)

lemma padded_line [simp]: "list_all syslog_char (padded n v)"
  by (simp add: list_all_replicate padded_def pad0_def list_all_append syslog_char_def ord_def)

lemma space2_line [simp]: "list_all syslog_char (space2 n)"
  by (simp add: list_all_replicate space2_def list_all_append syslog_char_def ord_def)

lemma token_line:
  assumes "\<And>c. keep c \<Longrightarrow> syslog_char c"
  shows "list_all syslog_char (copyToken cap inp mx keep)"
proof -
  have "list_all syslog_char (take n (filter keep s))" for n s using assms by (auto simp: list_all_iff dest!: in_set_takeD)
  then show ?thesis by (auto simp: copyToken_def Let_def syslog_char_def ord_def split: option.split)
qed

lemma token_line_chars [simp]:
  "list_all syslog_char (copyToken cap inp mx isPrintUsAscii)" "list_all syslog_char (copyToken cap inp mx isTagChar)"
  by (rule token_line; auto simp: isPrintUsAscii_def isTagChar_def syslog_char_def in_range_def ord_def)+

lemma line_consts [simp]: "syslog_char CHR ''<''" "syslog_char CHR ''>''" "syslog_char CHR '' ''" "syslog_char CHR '':''" "syslog_char CHR ''-''"
  "syslog_char CHR ''.''" "syslog_char CHR ''T''" "syslog_char CHR ''Z''" "syslog_char CHR ''1''"
  by (simp_all add: syslog_char_def ord_def)

lemma clock_line [simp]: "list_all syslog_char (clock_text t)"
  by (simp add: clock_text_def)

lemma month_line [simp]: "list_all syslog_char (MONTHS ! nat (clampField m 0 11))"
proof -
  have "nat (clampField m 0 11) < 12" unfolding clampField_def by auto
  moreover have "\<forall>i < 12. list_all syslog_char (MONTHS ! i)" by code_simp
  ultimately show ?thesis by blast
qed

lemma stamp_line [simp]: "list_all syslog_char (stamp5424 t)" "list_all syslog_char (stamp3164 t)"
  by (simp_all add: stamp5424_def stamp3164_def Let_def)

lemma header_line: "list_all syslog_char (syslog_header p pri h a t)"
  by (simp add: syslog_header_def Let_def split: option.split)

text \<open>How a header begins and ends.\<close>

definition header_end :: "u8 \<Rightarrow> string" where
  "header_end p = (if p = RFC5424 then '' - - -'' else '':'')"

lemma header_shape: "\<exists>mid. syslog_header p pri h a t = (''<'' @ dec pri @ ''>'') @ mid @ header_end p @ '' ''"
proof (cases t)
  case None
  then show ?thesis
    by (auto simp: syslog_header_def header_end_def Let_def intro: exI [of _ "''1 - '' @ copyToken 64 h 63 isPrintUsAscii @ '' '' @ copyToken 49 a 48 isPrintUsAscii"])
next
  case (Some time)
  then show ?thesis
    by (auto simp: syslog_header_def header_end_def Let_def
        intro: exI [of _ "''1 '' @ stamp5424 time @ '' '' @ copyToken 64 h 63 isPrintUsAscii @ '' '' @ copyToken 49 a 48 isPrintUsAscii"]
          exI [of _ "stamp3164 time @ '' '' @ copyToken 64 h 63 isPrintUsAscii @ '' '' @ copyToken 49 a 32 isTagChar"])
qed

lemma pri_range: "syslog_pri facility severity \<le> 191"
proof -
  have "unat (if 23 < facility then 1 else facility) \<le> 23" by (simp add: word_less_nat_alt)
  moreover have "unat (if 7 < severity then 6 else severity) \<le> 7" by (simp add: word_less_nat_alt)
  ultimately show ?thesis unfolding syslog_pri_def Let_def by linarith
qed

lemma drop_blanks_last: "drop_blanks s = [] \<or> List.last (drop_blanks s) \<noteq> CHR '' ''"
proof (cases "dropWhile (\<lambda>c. c = CHR '' '') (rev s)")
  case (Cons c t)
  then have "c \<noteq> CHR '' ''" by (simp add: dropWhile_eq_Cons_conv)
  with Cons show ?thesis by (simp add: drop_blanks_def)
qed (simp add: drop_blanks_def)

lemma drop_blanks_prefix: "\<exists>t. s = drop_blanks s @ t"
proof -
  have "rev s = takeWhile (\<lambda>c. c = CHR '' '') (rev s) @ dropWhile (\<lambda>c. c = CHR '' '') (rev s)" by simp
  then have "s = drop_blanks s @ rev (takeWhile (\<lambda>c. c = CHR '' '') (rev s))"
    unfolding drop_blanks_def by (metis rev_append rev_rev_ident)
  then show ?thesis by blast
qed

lemma drop_blanks_le: "length (drop_blanks s) \<le> length s"
  using drop_blanks_prefix [of s] by (metis le_add1 length_append)

lemma drop_blanks_all: "list_all P s \<Longrightarrow> list_all P (drop_blanks s)"
  using drop_blanks_prefix [of s] by (metis list_all_append)

text \<open>C22: Whatever the line, the names and the clock hold, the message is one line that every receiver
  accepts: it fits the buffer, has no control character, does not end with a blank, and carries a
  priority made of the facility and the severity, never above 191.\<close>

theorem message_is_one_line:
  "let s = formatSyslogSeverity cap protocol facility severity hostname app msg time
   in length s \<le> cap - 1 \<and> list_all syslog_char s \<and>
      (s = [] \<or> starts_with s (''<'' @ dec (syslog_pri facility severity) @ ''>'') \<and> syslog_pri facility severity \<le> 191 \<and> List.last s \<noteq> CHR '' '')"
proof -
  let ?h = "syslog_header protocol (syslog_pri facility severity) hostname app time"
  let ?b = "drop_blanks (case msg of None \<Rightarrow> [] | Some m \<Rightarrow> map clean_char (take (cap - 1 - length ?h) m))"
  let ?s = "formatSyslogSeverity cap protocol facility severity hostname app msg time"
  obtain mid where mid: "?h = (''<'' @ dec (syslog_pri facility severity) @ ''>'') @ mid @ header_end protocol @ '' ''"
    using header_shape by blast
  then have hl: "?h \<noteq> []" "List.last ?h = CHR '' ''" by simp_all
  have l: "list_all syslog_char ?h" by (rule header_line)
  have "list_all syslog_char (case msg of None \<Rightarrow> [] | Some m \<Rightarrow> map clean_char (take n m))" for n
    by (cases msg) (simp_all add: list_all_iff)
  moreover have "length (case msg of None \<Rightarrow> [] | Some m \<Rightarrow> map clean_char (take n m)) \<le> n" for n by (cases msg) simp_all
  ultimately have b: "list_all syslog_char ?b" "length ?b \<le> cap - 1 - length ?h"
    using drop_blanks_le order_trans drop_blanks_all by blast+
  have e: "?s = (if cap \<le> length ?h then [] else if ?b = [] then butlast ?h else ?h @ ?b)"
    using hl unfolding formatSyslogSeverity_def Let_def by simp
  show ?thesis
  proof (cases "cap \<le> length ?h")
    case False
    show ?thesis
    proof (cases "?b = []")
      case True
      then have s: "?s = (''<'' @ dec (syslog_pri facility severity) @ ''>'') @ mid @ header_end protocol" using False e mid by (simp add: butlast_append)
      moreover have "length ?s \<le> cap - 1" using False mid s by simp
      moreover have "list_all syslog_char ?s" using l unfolding mid s by simp
      moreover have "List.last ?s \<noteq> CHR '' ''" unfolding s by (simp add: header_end_def)
      ultimately show ?thesis using pri_range by (metis starts_with_append append_assoc)
    next
      case body: False
      then have s: "?s = ?h @ ?b" using False e by simp
      have "List.last ?s \<noteq> CHR '' ''" using drop_blanks_last body unfolding s by (metis last_appendR)
      moreover have "starts_with ?s (''<'' @ dec (syslog_pri facility severity) @ ''>'')" unfolding s mid append_assoc [of "''<'' @ dec (syslog_pri facility severity) @ ''>''"] by (rule starts_with_append)
      ultimately show ?thesis using False b l pri_range unfolding Let_def s by simp
    qed
  qed (simp add: e)
qed

end
