(* ===== verification/TimeCore.thy ===== *)
theory TimeCore
  imports SyslogFormat "HOL-Library.Signed_Division"
begin

text \<open>
  The network time (\<open>lib/TimeCore/src\<close>): the clock kept from one reference, the time of a line of the
  System Log with the offset of the time zone, the zones, the settings, and the lines about the time
  itself. \<open>struct tm\<close> is that of the syslog messages.
\<close>

section \<open>The clock\<close>

record wall_clock =
  wc_valid :: bool
  wc_epoch_ms :: int
  wc_uptime_ms :: u32

definition wc_new :: wall_clock where
  "wc_new = \<lparr>wc_valid = False, wc_epoch_ms = 0, wc_uptime_ms = 0\<rparr>"

definition setSynced :: "int \<Rightarrow> u32 \<Rightarrow> wall_clock \<Rightarrow> wall_clock" where
  "setSynced epoch_ms uptime_ms c = c\<lparr>wc_epoch_ms := epoch_ms, wc_uptime_ms := uptime_ms, wc_valid := True\<rparr>"

definition wc_clear :: "wall_clock \<Rightarrow> wall_clock" where
  "wc_clear c = c\<lparr>wc_valid := False\<rparr>"

definition epochMsAt :: "wall_clock \<Rightarrow> u32 \<Rightarrow> int option" where
  "epochMsAt c uptime_ms =
     (if \<not> wc_valid c then None else Some (wc_epoch_ms c + sint (uptime_ms - wc_uptime_ms c)))"

definition boardEpochMs :: "int \<Rightarrow> u32 \<Rightarrow> u32 \<Rightarrow> int" where
  "boardEpochMs list_epoch_ms list_uptime_ms row_uptime_ms = list_epoch_ms - uint (list_uptime_ms - row_uptime_ms)"

section \<open>The offset from UTC\<close>

text \<open>Days from 1970-01-01; the month and the day are unsigned in C, and its division truncates.\<close>

definition daysFromCivil :: "int \<Rightarrow> u32 \<Rightarrow> u32 \<Rightarrow> int" where
  "daysFromCivil y m d =
     (let y = (if m \<le> 2 then y - 1 else y);
          era = (if 0 \<le> y then y else y - 399) sdiv 400;
          yoe = (of_int (y - era * 400) :: u32);
          doy = (153 * (if 2 < m then m - 3 else m + 9) + 2) div 5 + d - 1;
          doe = yoe * 365 + yoe div 4 - yoe div 100 + doy
      in era * 146097 + uint doe - 719468)"

definition secondsOf :: "tm \<Rightarrow> int" where
  "secondsOf t =
     (let days = daysFromCivil (tm_year t + 1900) (of_int (tm_mon t + 1)) (of_int (tm_mday t))
      in days * 86400 + tm_hour t * 3600 + tm_min t * 60 + tm_sec t)"

definition utcOffsetSeconds :: "tm \<Rightarrow> tm \<Rightarrow> int" where
  "utcOffsetSeconds lt utc = sint (of_int (secondsOf lt - secondsOf utc) :: u32)"

definition BOARD_TIME_LEN :: nat where "BOARD_TIME_LEN = 29"

text \<open>\<open>%0nd\<close> of any number, the sign included.\<close>

definition signed0 :: "nat \<Rightarrow> int \<Rightarrow> string" where
  "signed0 n v = (if v < 0 then CHR ''-'' # pad0 (n - 1) (dec (nat (- v))) else pad0 n (dec (nat v)))"

definition formatBoardTime :: "tm \<Rightarrow> tm \<Rightarrow> u16 \<Rightarrow> nat \<Rightarrow> string" where
  "formatBoardTime lt utc ms len =
     (if len < BOARD_TIME_LEN + 1 then []
      else let offset = utcOffsetSeconds lt utc;
               sign = (if offset < 0 then CHR ''-'' else CHR ''+'');
               off_min = \<bar>offset\<bar> div 60;
               text = signed0 4 (tm_year lt + 1900) @ ''-'' @ signed0 2 (tm_mon lt + 1) @ ''-'' @ signed0 2 (tm_mday lt) @ ''T'' @
                 signed0 2 (tm_hour lt) @ '':'' @ signed0 2 (tm_min lt) @ '':'' @ signed0 2 (tm_sec lt) @ ''.'' @
                 pad0 3 (dec (unat ms mod 1000)) @ [sign] @ signed0 2 (off_min div 60) @ '':'' @ signed0 2 (off_min mod 60)
           in if length text \<noteq> BOARD_TIME_LEN then [] else text)"

section \<open>Time zones\<close>

definition TIME_ZONES :: "(string \<times> string) list" where
  "TIME_ZONES =
    [(''UTC'', ''UTC0''),
     (''Atlantic/Azores'', ''<-01>1<+00>,M3.5.0/0,M10.5.0/1''),
     (''Atlantic/Reykjavik'', ''GMT0''),
     (''Atlantic/Canary'', ''WET0WEST,M3.5.0/1,M10.5.0''),
     (''Europe/Lisbon'', ''WET0WEST,M3.5.0/1,M10.5.0''),
     (''Europe/London'', ''GMT0BST,M3.5.0/1,M10.5.0''),
     (''Europe/Dublin'', ''GMT0IST,M3.5.0/1,M10.5.0''),
     (''Europe/Madrid'', ''CET-1CEST,M3.5.0,M10.5.0/3''),
     (''Europe/Paris'', ''CET-1CEST,M3.5.0,M10.5.0/3''),
     (''Europe/Brussels'', ''CET-1CEST,M3.5.0,M10.5.0/3''),
     (''Europe/Amsterdam'', ''CET-1CEST,M3.5.0,M10.5.0/3''),
     (''Europe/Berlin'', ''CET-1CEST,M3.5.0,M10.5.0/3''),
     (''Europe/Zurich'', ''CET-1CEST,M3.5.0,M10.5.0/3''),
     (''Europe/Rome'', ''CET-1CEST,M3.5.0,M10.5.0/3''),
     (''Europe/Vienna'', ''CET-1CEST,M3.5.0,M10.5.0/3''),
     (''Europe/Copenhagen'', ''CET-1CEST,M3.5.0,M10.5.0/3''),
     (''Europe/Oslo'', ''CET-1CEST,M3.5.0,M10.5.0/3''),
     (''Europe/Stockholm'', ''CET-1CEST,M3.5.0,M10.5.0/3''),
     (''Europe/Prague'', ''CET-1CEST,M3.5.0,M10.5.0/3''),
     (''Europe/Warsaw'', ''CET-1CEST,M3.5.0,M10.5.0/3''),
     (''Europe/Budapest'', ''CET-1CEST,M3.5.0,M10.5.0/3''),
     (''Europe/Zagreb'', ''CET-1CEST,M3.5.0,M10.5.0/3''),
     (''Europe/Belgrade'', ''CET-1CEST,M3.5.0,M10.5.0/3''),
     (''Europe/Athens'', ''EET-2EEST,M3.5.0/3,M10.5.0/4''),
     (''Europe/Sofia'', ''EET-2EEST,M3.5.0/3,M10.5.0/4''),
     (''Europe/Bucharest'', ''EET-2EEST,M3.5.0/3,M10.5.0/4''),
     (''Europe/Helsinki'', ''EET-2EEST,M3.5.0/3,M10.5.0/4''),
     (''Europe/Tallinn'', ''EET-2EEST,M3.5.0/3,M10.5.0/4''),
     (''Europe/Riga'', ''EET-2EEST,M3.5.0/3,M10.5.0/4''),
     (''Europe/Vilnius'', ''EET-2EEST,M3.5.0/3,M10.5.0/4''),
     (''Europe/Kyiv'', ''EET-2EEST,M3.5.0/3,M10.5.0/4''),
     (''Europe/Istanbul'', ''<+03>-3''),
     (''Europe/Minsk'', ''<+03>-3''),
     (''Europe/Moscow'', ''MSK-3''),
     (''Africa/Casablanca'', ''<+01>-1''),
     (''Africa/Lagos'', ''WAT-1''),
     (''Africa/Algiers'', ''CET-1''),
     (''Africa/Cairo'', ''EET-2EEST,M4.5.5/0,M10.5.4/24''),
     (''Africa/Johannesburg'', ''SAST-2''),
     (''Africa/Nairobi'', ''EAT-3''),
     (''Asia/Jerusalem'', ''IST-2IDT,M3.4.4/26,M10.5.0''),
     (''Asia/Baghdad'', ''<+03>-3''),
     (''Asia/Riyadh'', ''<+03>-3''),
     (''Asia/Tehran'', ''<+0330>-3:30''),
     (''Asia/Dubai'', ''<+04>-4''),
     (''Asia/Karachi'', ''PKT-5''),
     (''Asia/Tashkent'', ''<+05>-5''),
     (''Asia/Almaty'', ''<+05>-5''),
     (''Asia/Kolkata'', ''IST-5:30''),
     (''Asia/Kathmandu'', ''<+0545>-5:45''),
     (''Asia/Dhaka'', ''<+06>-6''),
     (''Asia/Bangkok'', ''<+07>-7''),
     (''Asia/Ho_Chi_Minh'', ''<+07>-7''),
     (''Asia/Jakarta'', ''WIB-7''),
     (''Asia/Singapore'', ''<+08>-8''),
     (''Asia/Kuala_Lumpur'', ''<+08>-8''),
     (''Asia/Manila'', ''PST-8''),
     (''Asia/Shanghai'', ''CST-8''),
     (''Asia/Hong_Kong'', ''HKT-8''),
     (''Asia/Taipei'', ''CST-8''),
     (''Asia/Seoul'', ''KST-9''),
     (''Asia/Tokyo'', ''JST-9''),
     (''Australia/Perth'', ''AWST-8''),
     (''Australia/Darwin'', ''ACST-9:30''),
     (''Australia/Adelaide'', ''ACST-9:30ACDT,M10.1.0,M4.1.0/3''),
     (''Australia/Brisbane'', ''AEST-10''),
     (''Australia/Sydney'', ''AEST-10AEDT,M10.1.0,M4.1.0/3''),
     (''Australia/Melbourne'', ''AEST-10AEDT,M10.1.0,M4.1.0/3''),
     (''Australia/Hobart'', ''AEST-10AEDT,M10.1.0,M4.1.0/3''),
     (''Pacific/Fiji'', ''<+12>-12''),
     (''Pacific/Auckland'', ''NZST-12NZDT,M9.5.0,M4.1.0/3''),
     (''Pacific/Honolulu'', ''HST10''),
     (''America/Anchorage'', ''AKST9AKDT,M3.2.0,M11.1.0''),
     (''America/Los_Angeles'', ''PST8PDT,M3.2.0,M11.1.0''),
     (''America/Vancouver'', ''PST8PDT,M3.2.0,M11.1.0''),
     (''America/Phoenix'', ''MST7''),
     (''America/Denver'', ''MST7MDT,M3.2.0,M11.1.0''),
     (''America/Edmonton'', ''MST7MDT,M3.2.0,M11.1.0''),
     (''America/Mexico_City'', ''CST6''),
     (''America/Chicago'', ''CST6CDT,M3.2.0,M11.1.0''),
     (''America/Winnipeg'', ''CST6CDT,M3.2.0,M11.1.0''),
     (''America/Bogota'', ''<-05>5''),
     (''America/Lima'', ''<-05>5''),
     (''America/New_York'', ''EST5EDT,M3.2.0,M11.1.0''),
     (''America/Toronto'', ''EST5EDT,M3.2.0,M11.1.0''),
     (''America/Caracas'', ''<-04>4''),
     (''America/Puerto_Rico'', ''AST4''),
     (''America/Halifax'', ''AST4ADT,M3.2.0,M11.1.0''),
     (''America/Santiago'', ''<-04>4<-03>,M9.1.6/24,M4.1.6/24''),
     (''America/St_Johns'', ''NST3:30NDT,M3.2.0,M11.1.0''),
     (''America/Argentina/Buenos_Aires'', ''<-03>3''),
     (''America/Sao_Paulo'', ''<-03>3''),
     (''America/Montevideo'', ''<-03>3'')]"

definition TIME_ZONE_DEFAULT :: string where "TIME_ZONE_DEFAULT = ''UTC''"

definition findTimeZone :: "string option \<Rightarrow> (string \<times> string) option" where
  "findTimeZone name =
     (case name of None \<Rightarrow> None | Some n \<Rightarrow> if n = [] then None else find (\<lambda>z. fst z = n) TIME_ZONES)"

definition timeZoneCount :: nat where "timeZoneCount = length TIME_ZONES"

definition timeZoneAt :: "nat \<Rightarrow> (string \<times> string) option" where
  "timeZoneAt i = (if i < length TIME_ZONES then Some (TIME_ZONES ! i) else None)"

section \<open>Settings\<close>

record time_settings =
  ts_ntp :: bool
  ts_server :: string
  ts_zone :: string

definition NTP_SERVER_MAX :: nat where "NTP_SERVER_MAX = 63"

definition timeDefaults :: time_settings where
  "timeDefaults = \<lparr>ts_ntp = True, ts_server = ''pool.ntp.org'', ts_zone = TIME_ZONE_DEFAULT\<rparr>"

definition validNtpServer :: "string \<Rightarrow> bool" where
  "validNtpServer host =
     (if host = [] \<or> NTP_SERVER_MAX < length host then False
      else if \<not> list_all host_char host then False
      else hd host \<noteq> CHR ''.'' \<and> hd host \<noteq> CHR ''-'' \<and> List.last host \<noteq> CHR ''.'')"

definition sanitize_time :: "time_settings \<Rightarrow> time_settings" where
  "sanitize_time s =
     (let s = (if findTimeZone (Some (ts_zone s)) = None then s\<lparr>ts_zone := TIME_ZONE_DEFAULT\<rparr> else s);
          s = (if ts_server s \<noteq> [] \<and> \<not> validNtpServer (ts_server s) then s\<lparr>ts_server := []\<rparr> else s);
          s = (if ts_server s = [] then s\<lparr>ts_ntp := False\<rparr> else s)
      in s)"

section \<open>Lines about the time\<close>

datatype time_state = TsDisabled | TsWaiting | TsSynchronized | TsNoAnswer

definition timeStateName :: "time_state \<Rightarrow> string" where
  "timeStateName s = (case s of TsWaiting \<Rightarrow> ''waiting'' | TsSynchronized \<Rightarrow> ''synchronized'' | TsNoAnswer \<Rightarrow> ''no_answer''
     | TsDisabled \<Rightarrow> ''disabled'')"

datatype time_line = TlNone | TlSynchronized | TlNoAnswer

record time_policy =
  tp_waiting :: bool
  tp_no_answer :: bool
  tp_synced_once :: bool
  tp_started :: u32

definition tp_new :: time_policy where
  "tp_new = \<lparr>tp_waiting = False, tp_no_answer = False, tp_synced_once = False, tp_started = 0\<rparr>"

definition NO_ANSWER_MS :: u32 where "NO_ANSWER_MS = 60000"

definition tp_restart :: "u32 \<Rightarrow> time_policy \<Rightarrow> time_policy" where
  "tp_restart now p = p\<lparr>tp_waiting := True, tp_started := now, tp_no_answer := False, tp_synced_once := False\<rparr>"

definition tp_stop :: "time_policy \<Rightarrow> time_policy" where
  "tp_stop p = p\<lparr>tp_waiting := False, tp_no_answer := False\<rparr>"

definition tp_tick :: "u32 \<Rightarrow> bool \<Rightarrow> time_policy \<Rightarrow> time_line \<times> time_policy" where
  "tp_tick now network_up p =
     (if \<not> tp_waiting p then (TlNone, p)
      else if \<not> network_up then (TlNone, p\<lparr>tp_started := now\<rparr>)
      else if tp_no_answer p \<or> now - tp_started p < NO_ANSWER_MS then (TlNone, p)
      else (TlNoAnswer, p\<lparr>tp_no_answer := True\<rparr>))"

definition tp_onSynced :: "time_policy \<Rightarrow> time_line \<times> time_policy" where
  "tp_onSynced p =
     (let log = (\<not> tp_synced_once p \<or> tp_no_answer p);
          p = p\<lparr>tp_waiting := False, tp_synced_once := True, tp_no_answer := False\<rparr>
      in ((if log then TlSynchronized else TlNone), p))"

end
