(* ===== verification/TimeProofs.thy ===== *)
theory TimeProofs
  imports TimeCore
begin

text \<open>
  The day count against the calendar, the offset of a time zone from two broken-down times, the time
  of a line across the wrap-around of the uptime, the zones, and the lines of a failure period.
\<close>

section \<open>The day count is the calendar's\<close>

text \<open>Howard Hinnant's count without words: the year starts in March.\<close>

definition march_days :: "int \<Rightarrow> int" where
  "march_days y = 365 * y + y div 4 - y div 100 + y div 400"

definition civil :: "int \<Rightarrow> int \<Rightarrow> int \<Rightarrow> int" where
  "civil y m d =
     (let y = (if m \<le> 2 then y - 1 else y)
      in march_days y + (153 * (if 2 < m then m - 3 else m + 9) + 2) div 5 + d - 1 - 719468)"

lemma sdiv_floor: "(if 0 \<le> y then y else y - 399) sdiv 400 = (y :: int) div 400"
proof (cases "0 \<le> y")
  case True
  then show ?thesis by (cases "y = 0") (simp_all add: signed_divide_int_eq_divide_int)
next
  case False
  then have "(y - 399) sdiv 400 = - ((399 - y) div 400)" by (simp add: signed_divide_int_def abs_if sgn_if)
  also have "\<dots> = y div 400"
  proof -
    define e r where "e = y div 400" and "r = y mod 400"
    have y: "y = 400 * e + r" "0 \<le> r" "r < 400" by (simp_all add: e_def r_def)
    have "399 - y = 400 * (- e) + (399 - r)" using y(1) by simp
    then have "(399 - y) div 400 = - e" using y(2,3) by (simp only: div_mult_self4)
    then show ?thesis by (simp add: e_def)
  qed
  finally show ?thesis using False by simp
qed

lemma era_split:
  fixes y :: int
  defines "e \<equiv> y div 400" and "r \<equiv> y mod 400"
  shows "e * 146097 + (r * 365 + r div 4 - r div 100) = 365 * y + y div 4 - y div 100 + y div 400"
proof -
  have y: "y = 400 * e + r" "0 \<le> r" "r < 400" by (simp_all add: e_def r_def)
  have "y div 4 = 100 * e + r div 4" "y div 100 = 4 * e + r div 100" unfolding y(1) using y(2,3) by simp_all
  moreover have "y div 400 = e" by (simp add: e_def)
  ultimately show ?thesis using y(1) by linarith
qed

lemma u32_add: "unat a + unat b < 2 ^ 32 \<Longrightarrow> unat (a + b :: u32) = unat a + unat b"
  by (simp add: unat_word_ariths)

lemma u32_mult: "unat a * unat b < 2 ^ 32 \<Longrightarrow> unat (a * b :: u32) = unat a * unat b"
  by (simp add: unat_word_ariths)

lemma u32_sub: "unat b \<le> unat a \<Longrightarrow> unat (a - b :: u32) = unat a - unat b"
  by (simp add: unat_sub word_le_nat_alt)

lemma month_word: "unat w \<le> 11 \<Longrightarrow> unat (153 * w + 2 :: u32) = 153 * unat w + 2"
  using u32_mult [of 153 w] u32_add [of "153 * w" 2] by simp

lemma year_word:
  assumes "unat r < 400"
  shows "unat (r * 365 + r div 4 - r div 100 :: u32) = unat r * 365 + unat r div 4 - unat r div 100"
proof -
  have d: "unat (r div 4) = unat r div 4" "unat (r div 100) = unat r div 100" by (simp_all add: unat_div)
  have m: "unat (r * 365) = unat r * 365" using u32_mult [of r 365] assms by simp
  have a: "unat (r * 365 + r div 4) = unat r * 365 + unat r div 4"
    using u32_add [of "r * 365" "r div 4"] assms unfolding d m by simp
  have "unat r div 100 \<le> unat r" by (rule div_le_dividend)
  then have "unat r div 100 \<le> unat r * 365 + unat r div 4" by linarith
  then show ?thesis using u32_sub [of "r div 100" "r * 365 + r div 4"] unfolding a d by blast
qed

lemma unat_small: "n < 400 \<Longrightarrow> unat (of_nat n :: u32) = n"
  by (simp add: take_bit_nat_eq_self unsigned_of_nat)

lemma day_word:
  assumes "unat w \<le> 1685" "1 \<le> unat d" "unat d \<le> 400"
  shows "unat (w div 5 + d - 1 :: u32) = unat w div 5 + unat d - 1"
proof -
  have v: "unat (w div 5) = unat w div 5" by (simp add: unat_div)
  have "unat w div 5 \<le> unat w" by (rule div_le_dividend)
  then have "unat (w div 5 + d) = unat w div 5 + unat d" using u32_add [of "w div 5" d] assms unfolding v by simp
  then show ?thesis using u32_sub [of 1 "w div 5 + d"] assms(2) by simp
qed

lemma year_small: "(r :: nat) < 400 \<Longrightarrow> r * 365 + r div 4 - r div 100 \<le> 400 * 366"
  using div_le_dividend [of r 4] by linarith

lemma day_small: "(m :: nat) \<le> 11 \<Longrightarrow> d \<le> 400 \<Longrightarrow> (153 * m + 2) div 5 + d - 1 \<le> 2100"
  using div_le_dividend [of "153 * m + 2" 5] by linarith

lemma daysFromCivil_civil:
  assumes "1 \<le> m" "m \<le> 12" "1 \<le> d" "d \<le> 400"
  shows "daysFromCivil y (of_nat m) (of_nat d) = civil y (int m) (int d)"
proof -
  let ?y = "if m \<le> 2 then y - 1 else y"
  let ?r = "nat (?y mod 400)" and ?mm = "if 2 < m then m - 3 else m + 9"
  let ?M = "of_nat m :: u32" and ?D = "of_nat d :: u32"
  have r: "?r < 400" "int ?r = ?y mod 400" by simp_all
  have um: "unat ?M = m" "unat ?D = d" using assms by (simp_all add: take_bit_nat_eq_self unsigned_of_nat)
  have mm: "unat (if 2 < ?M then ?M - 3 else ?M + 9) = ?mm" "?mm \<le> 11"
    using assms by (auto simp: word_less_nat_alt um u32_sub u32_add)
  have "unat (153 * (if 2 < ?M then ?M - 3 else ?M + 9) + 2) = 153 * ?mm + 2"
    using month_word [of "if 2 < ?M then ?M - 3 else ?M + 9"] unfolding mm(1) using mm(2) .
  then have doy: "unat ((153 * (if 2 < ?M then ?M - 3 else ?M + 9) + 2) div 5 + ?D - 1) = (153 * ?mm + 2) div 5 + d - 1"
    using day_word [of "153 * (if 2 < ?M then ?M - 3 else ?M + 9) + 2" ?D] mm(2) assms(3,4) unfolding um by simp
  have "?y - ?y div 400 * 400 = int ?r" unfolding r(2) by (rule minus_div_mult_eq_mod)
  then have "(of_int (?y - ?y div 400 * 400) :: u32) = of_nat ?r" by (simp only: of_int_of_nat_eq)
  then have yoe: "unat (of_int (?y - ?y div 400 * 400) :: u32) = ?r"
    by (simp only: unat_small [OF r(1)])
  let ?R = "of_int (?y - ?y div 400 * 400) :: u32"
  let ?Y = "?r * 365 + ?r div 4 - ?r div 100" and ?Dd = "(153 * ?mm + 2) div 5 + d - 1"
  have "?Y \<le> 400 * 366" by (rule year_small [OF r(1)])
  moreover have "?Dd \<le> 2100" by (rule day_small [OF mm(2) assms(4)])
  ultimately have lt: "?Y + ?Dd < 2 ^ 32" by simp
  let ?A = "?R * 365 + ?R div 4 - ?R div 100" and ?B = "(153 * (if 2 < ?M then ?M - 3 else ?M + 9) + 2) div 5 + ?D - 1"
  have S: "unat ?A + unat ?B = ?Y + ?Dd" by (simp only: year_word [of ?R, unfolded yoe, OF r(1)] doy)
  have "unat ?A + unat ?B < 2 ^ 32" unfolding S by (rule lt)
  from u32_add [OF this] S have "unat (?A + ?B) = ?Y + ?Dd" by (rule trans)
  then have u: "uint (?A + ?B) = int ?Y + int ?Dd" by (simp only: uint_nat of_nat_add)
  have "?r div 100 \<le> ?r" by (rule div_le_dividend)
  then have Y: "int ?Y = (?y mod 400) * 365 + (?y mod 400) div 4 - (?y mod 400) div 100"
    using r(2) by (simp add: of_nat_diff zdiv_int)
  have D: "int ?Dd = (153 * (if 2 < int m then int m - 3 else int m + 9) + 2) div 5 + int d - 1"
    using assms by (simp add: of_nat_diff zdiv_int)
  have le: "(?M \<le> 2) = (m \<le> 2)" by (simp add: word_le_nat_alt um)
  have "daysFromCivil y ?M ?D = ?y div 400 * 146097 + (int ?Y + int ?Dd) - 719468"
    unfolding daysFromCivil_def Let_def le sdiv_floor u by (rule refl)
  also have "\<dots> = march_days ?y + int ?Dd - 719468"
    unfolding Y march_days_def era_split [symmetric] by (simp only: add.assoc)
  also have "\<dots> = civil y (int m) (int d)" unfolding D civil_def Let_def by simp
  finally show ?thesis .
qed

text \<open>The calendar counted month by month and year by year.\<close>

lemma civil_day: "civil y m (d + e) = civil y m d + e"
  by (simp add: civil_def Let_def)

lemma year_div_step: "0 < k \<Longrightarrow> (y :: int) div k = (y - 1) div k + (if k dvd y then 1 else 0)"
proof -
  assume k: "0 < k"
  have y: "y = k * (y div k) + y mod k" "0 \<le> y mod k" "y mod k < k" using k by simp_all
  show ?thesis
  proof (cases "k dvd y")
    case True
    then have "y - 1 = k * (y div k - 1) + (k - 1)" using y(1) by (simp add: algebra_simps)
    then have "(y - 1) div k = y div k - 1" using k by (intro int_div_pos_eq [of _ _ _ "k - 1"]) simp_all
    with True show ?thesis by simp
  next
    case False
    then have "0 < y mod k" using y(2) by (simp add: dvd_eq_mod_eq_0 le_less)
    then have "(y - 1) div k = y div k" using y by (intro int_div_pos_eq [of _ _ _ "y mod k - 1"]) simp_all
    with False show ?thesis by simp
  qed
qed

lemma leap_count: "int (year_days y) = 365 + (if 4 dvd y then 1 else 0) - (if 100 dvd y then 1 else 0) + (if 400 dvd y then 1 else 0)"
proof -
  have "400 dvd y \<Longrightarrow> 100 dvd y" "100 dvd y \<Longrightarrow> 4 dvd y" by (auto intro: dvd_trans [of _ 400] dvd_trans [of _ 100])
  then show ?thesis unfolding year_days_def leap_year_def dvd_eq_mod_eq_0 [symmetric] by simp
qed

lemma leap_step: "march_days y = march_days (y - 1) + int (year_days y)"
proof -
  have g: "q4 = p4 + a \<Longrightarrow> q100 = p100 + b \<Longrightarrow> q400 = p400 + c \<Longrightarrow> n = 365 + a - b + c \<Longrightarrow>
      365 * y + q4 - q100 + q400 = 365 * (y - 1) + p4 - p100 + p400 + n" for q4 p4 a q100 p100 b q400 p400 c n :: int
    by simp
  show ?thesis unfolding march_days_def by (rule g [OF year_div_step year_div_step year_div_step leap_count]) simp_all
qed

lemma civil_month:
  assumes "m < 11"
  shows "civil y (int (Suc m) + 1) 1 = civil y (int (Suc m)) 1 + int (month_days y (Suc m))"
proof -
  have "m = 0 \<or> m = 1 \<or> m = 2 \<or> m = 3 \<or> m = 4 \<or> m = 5 \<or> m = 6 \<or> m = 7 \<or> m = 8 \<or> m = 9 \<or> m = 10" using assms by arith
  then show ?thesis using leap_step [of y] by (elim disjE) (simp_all add: civil_def month_days_def year_days_def)
qed

lemma civil_year: "civil (y + 1) 1 1 = civil y 1 1 + int (year_days y)"
  using leap_step [of y] by (simp add: civil_def)

lemma cal_year_civil: "(y', d') = cal_year y d \<Longrightarrow> civil y' 1 1 + int d' = civil y 1 1 + int d \<and> d' < year_days y'"
proof (induction y d rule: cal_year.induct)
  case (1 y d)
  then show ?case
    using civil_year [of y] by (cases "d < year_days y") (auto simp: cal_year.simps [of y d])
qed

lemma cal_month_civil:
  "(m', d') = cal_month k y d \<Longrightarrow> k \<le> 11 \<Longrightarrow>
     civil y (int m') 1 + int d' = civil y (int (12 - k)) 1 + int d \<and> 1 \<le> m' \<and> m' \<le> 12 \<and> d' \<le> d"
proof (induction k y d rule: cal_month.induct)
  case (2 k y d)
  have m: "Suc (11 - Suc k) = 12 - Suc k" "int (12 - k) = int (12 - Suc k) + 1" using 2(3) by simp_all
  show ?case
    using 2 civil_month [of "11 - Suc k" y] unfolding m by (cases "d < month_days y (12 - Suc k)") force+
qed simp

lemma civil_cycle: "civil (1970 + 400 * q) 1 1 = 146097 * q"
proof -
  have "march_days (1969 + 400 * q) = 365 * (1969 + 400 * q) + (100 * q + 492) - (4 * q + 19) + (q + 4)"
  proof -
    have "(1969 + 400 * q) div 4 = 100 * q + 492" "(1969 + 400 * q) div 100 = 4 * q + 19" "(1969 + 400 * q) div 400 = q + 4"
      by (simp_all add: int_div_pos_eq [where r = 1] int_div_pos_eq [where r = 69])
    then show ?thesis by (simp only: march_days_def)
  qed
  then show ?thesis by (simp add: civil_def)
qed

section \<open>The offset of a time zone\<close>

text \<open>The broken-down time of \<open>gmtime_r\<close> as \<open>struct tm\<close>.\<close>

definition tm_of :: "int \<Rightarrow> tm" where
  "tm_of sec =
     (let c = gmtime sec
      in \<lparr>tm_year = c_year c - 1900, tm_mon = int (c_month c) - 1, tm_mday = int (c_day c),
          tm_hour = int (c_hour c), tm_min = int (c_minute c), tm_sec = int (c_second c)\<rparr>)"

lemma clock_split: "0 \<le> n \<Longrightarrow> int (nat n div 3600) * 3600 + int (nat n div 60 mod 60) * 60 + int (nat n mod 60) = n"
proof -
  assume n: "0 \<le> n"
  have a: "k div 3600 * 3600 + k div 60 mod 60 * 60 + k mod 60 = k" for k :: nat
  proof -
    have "k div 3600 = k div 60 div 60" by (simp add: div_mult2_eq [symmetric])
    moreover have mult_60: "q * 3600 = q * 60 * 60" for q :: nat by simp
    moreover have "k div 60 div 60 * 60 + k div 60 mod 60 = k div 60" "k div 60 * 60 + k mod 60 = k" by (rule div_mult_mod_eq)+
    ultimately show ?thesis by (simp only: mult_60 flip: add_mult_distrib)
  qed
  have "int (nat n div 3600 * 3600 + nat n div 60 mod 60 * 60 + nat n mod 60) = int (nat n)" unfolding a by (rule refl)
  then show ?thesis using n unfolding of_nat_add of_nat_mult by simp
qed

lemma secondsOf_tm_of: "secondsOf (tm_of sec) = sec"
proof -
  let ?days = "sec div 86400"
  obtain y yday where y: "(y, yday) = cal_year (1970 + 400 * (?days div 146097)) (nat (?days mod 146097))" by (metis surj_pair)
  obtain m d where m: "(m, d) = cal_month 11 y yday" by (metis surj_pair)
  note cy = cal_year_civil [OF y] and cm = cal_month_civil [OF m order_refl]
  have "d \<le> 366" using cy cm by (auto simp: year_days_def split: if_splits)
  then have "daysFromCivil y (of_nat m) (of_nat (d + 1)) = civil y (int m) (int (d + 1))"
    using cm by (intro daysFromCivil_civil) simp_all
  also have "\<dots> = civil y (int m) 1 + int d" using civil_day [of y "int m" 1 "int d"] by (simp add: add.commute)
  also have "\<dots> = 146097 * (?days div 146097) + int (nat (?days mod 146097))" using cy cm by (simp add: civil_cycle)
  also have "\<dots> = ?days" by simp
  finally have "daysFromCivil y (of_nat m) (of_nat (d + 1)) = ?days" .
  then have d: "daysFromCivil y (of_int (int m)) (of_int (int (d + 1))) = ?days" by simp
  have g: "gmtime sec = \<lparr>c_year = y, c_month = m, c_day = d + 1, c_hour = nat (sec mod 86400) div 3600,
      c_minute = nat (sec mod 86400) div 60 mod 60, c_second = nat (sec mod 86400) mod 60\<rparr>"
    unfolding gmtime_def Let_def y [symmetric] prod.case m [symmetric] by (rule refl)
  have c: "int (nat (sec mod 86400) div 3600) * 3600 + int (nat (sec mod 86400) div 60 mod 60) * 60 + int (nat (sec mod 86400) mod 60) = sec mod 86400"
    by (rule clock_split) simp
  have "secondsOf (tm_of sec) = ?days * 86400 + (int (nat (sec mod 86400) div 3600) * 3600 +
      int (nat (sec mod 86400) div 60 mod 60) * 60 + int (nat (sec mod 86400) mod 60))"
    unfolding secondsOf_def tm_of_def Let_def g calendar.simps tm.simps diff_add_cancel d by (simp only: add.assoc)
  then show ?thesis unfolding c by (simp only: div_mult_mod_eq)
qed

text \<open>C38: The offset is read back from the local and the UTC time of the same instant, over any change of
  day, month or year between them and for every instant of the calendar.\<close>

theorem offset_read_back:
  assumes "- 2147483648 \<le> off" "off < 2147483648"
  shows "utcOffsetSeconds (tm_of (sec + off)) (tm_of sec) = off"
proof -
  have "sint (of_int off :: u32) = off" using assms unfolding sint_sbintrunc' by (simp add: signed_take_bit_int_eq_self)
  then show ?thesis by (simp add: utcOffsetSeconds_def secondsOf_tm_of)
qed

lemma offset_read_back_witness: "utcOffsetSeconds (tm_of (1709251199 + 3600)) (tm_of 1709251199) = 3600"
  using offset_read_back [of 3600 1709251199] by simp

section \<open>The time of a line\<close>

text \<open>Uptimes that differ by less than half the range of the counter, in either order; then by less than
  the whole range, for the lines of the list.\<close>

lemma stamp_sint:
  assumes "- (2 ^ 31) \<le> int u - int v" "int u - int v < 2 ^ 31"
  shows "sint (of_nat u - of_nat v :: u32) = int u - int v"
proof -
  have "(of_nat u - of_nat v :: u32) = of_int (int u - int v)" by simp
  then show ?thesis using assms by (simp only: sint_sbintrunc') (simp add: signed_take_bit_int_eq_self)
qed

text \<open>The time of a line is that at which it was written, whatever the order of the line and of the
  synchronization and over the wrap-around of the uptime: with the clock set at a true uptime, up to
  24 days before and after it, and counted back from the list, for every line of 49 days.\<close>

theorem line_time_exact:
  assumes "- (2 ^ 31) \<le> int row - int synced" "int row - int synced < 2 ^ 31" "row \<le> shown" "shown - row < 2 ^ 32"
  shows "epochMsAt (setSynced (boot + int synced) (of_nat synced) c) (of_nat row) = Some (boot + int row) \<and>
     boardEpochMs (boot + int shown) (of_nat shown) (of_nat row) = boot + int row"
proof -
  have "uint (of_nat shown - of_nat row :: u32) = int (shown - row)"
    using stamp_diff_exact [OF assms(3,4)] by (simp add: uint_nat)
  then show ?thesis
    using stamp_sint [OF assms(1,2)] assms(3) by (simp add: epochMsAt_def setSynced_def boardEpochMs_def of_nat_diff)
qed

lemma line_time_exact_witness:
  "epochMsAt (setSynced (1700000000000 + int 4294967300) (of_nat 4294967300) wc_new) (of_nat 4294960000) = Some (1700000000000 + int 4294960000) \<and>
     boardEpochMs (1700000000000 + int 4294968000) (of_nat 4294968000) (of_nat 4294960000) = 1700000000000 + int 4294960000"
  by (rule line_time_exact) simp_all

section \<open>Zones and settings\<close>

lemma zone_names: "distinct (map fst TIME_ZONES) \<and> [] \<notin> set (map fst TIME_ZONES)"
  by (simp add: TIME_ZONES_def)

lemma zone_roundtrip: "i < timeZoneCount \<Longrightarrow> findTimeZone (Some (fst (TIME_ZONES ! i))) = timeZoneAt i"
proof -
  assume i: "i < timeZoneCount"
  have d: "distinct (map fst zs) \<Longrightarrow> j < length zs \<Longrightarrow> find (\<lambda>z. fst z = fst (zs ! j)) zs = Some (zs ! j)" for zs :: "(string \<times> string) list" and j
    by (induction zs arbitrary: j) (auto simp: nth_Cons split: nat.split)
  have "fst (TIME_ZONES ! i) \<in> set (map fst TIME_ZONES)" using i by (simp add: timeZoneCount_def)
  then have "fst (TIME_ZONES ! i) \<noteq> []" using zone_names by metis
  then show ?thesis using i zone_names d [of TIME_ZONES i] by (simp add: findTimeZone_def timeZoneAt_def timeZoneCount_def)
qed

lemma sanitized_time:
  "let s' = sanitize_time s in
     findTimeZone (Some (ts_zone s')) \<noteq> None \<and> (ts_server s' = [] \<or> validNtpServer (ts_server s')) \<and> (ts_ntp s' \<longrightarrow> ts_server s' \<noteq> []) \<and>
     sanitize_time s' = s'"
proof -
  have z: "findTimeZone (Some TIME_ZONE_DEFAULT) \<noteq> None" by code_simp
  show ?thesis
    using z by (cases "findTimeZone (Some (ts_zone s))"; cases "ts_server s = []"; cases "validNtpServer (ts_server s)")
      (simp_all add: sanitize_time_def Let_def)
qed

section \<open>Lines about the time\<close>

datatype time_event = TeRestart u32 | TeStop | TeTick u32 bool | TeSynced

fun time_step :: "time_policy \<Rightarrow> time_event \<Rightarrow> time_policy \<times> time_line" where
  "time_step p (TeRestart now) = (tp_restart now p, TlNone)"
| "time_step p TeStop = (tp_stop p, TlNone)"
| "time_step p (TeTick now up) = (let (l, p) = tp_tick now up p in (p, l))"
| "time_step p TeSynced = (let (l, p) = tp_onSynced p in (p, l))"

text \<open>A failure period is reported once: between two reports there is an answer of the server, or new
  settings.\<close>

lemma failure_reported_once:
  "length (filter (\<lambda>l. l = TlNoAnswer) (snd (run time_step p es))) \<le>
     length (filter (\<lambda>e. e = TeSynced \<or> e = TeStop \<or> (\<exists>t. e = TeRestart t)) es) + (if tp_no_answer p then 0 else 1)"
proof (induction es arbitrary: p)
  case (Cons e es)
  show ?case
    using Cons.IH [of "fst (time_step p e)"] unfolding run_Cons
    by (cases e) (auto simp: tp_restart_def tp_stop_def tp_tick_def tp_onSynced_def Let_def split: if_splits)
qed simp

end
