(* ===== verification/UsbDiagJson.thy ===== *)
theory UsbDiagJson
  imports DiagSweep
begin

text \<open>
  The diagnostics export (\<open>lib/WebApi/src/UsbDiagJson.cpp\<close>, \<open>ChunkWriter.h\<close>, \<open>UsbDiagSnapshot.h\<close>): the JSON
  text of a snapshot written in blocks of a fixed size, and the reports of the on-demand read merged
  with those of the poll. \<open>cw_out\<close> are the blocks that the sink was given, in order.
\<close>

section \<open>The writer\<close>

record chunk_writer =
  cw_cap :: nat
  cw_buf :: string
  cw_out :: "string list"
  cw_total :: nat

definition cw_new :: "nat \<Rightarrow> chunk_writer" where
  "cw_new cap = \<lparr>cw_cap = cap, cw_buf = [], cw_out = [], cw_total = 0\<rparr>"

definition cw_flush :: "chunk_writer \<Rightarrow> chunk_writer" where
  "cw_flush w = (if cw_buf w = [] then w else w\<lparr>cw_out := cw_out w @ [cw_buf w], cw_buf := []\<rparr>)"

definition cw_putc :: "char \<Rightarrow> chunk_writer \<Rightarrow> chunk_writer" where
  "cw_putc c w =
     (let w = w\<lparr>cw_buf := cw_buf w @ [c], cw_total := cw_total w + 1\<rparr>
      in if length (cw_buf w) = cw_cap w then cw_flush w else w)"

text \<open>One turn of the loop of \<open>write\<close> takes what fits. The buffer is never full between two calls, and
  the constructor asks for a capacity; with a full buffer the loop would not end, the model stops.\<close>

function cw_loop :: "string \<Rightarrow> chunk_writer \<Rightarrow> chunk_writer" where
  "cw_loop s w =
     (if s = [] \<or> cw_cap w \<le> length (cw_buf w) then w
      else let n = min (length s) (cw_cap w - length (cw_buf w));
               w = w\<lparr>cw_buf := cw_buf w @ take n s\<rparr>
           in cw_loop (drop n s) (if length (cw_buf w) = cw_cap w then cw_flush w else w))"
  by pat_completeness auto
termination by (relation "measure (\<lambda>(s, w). length s)") auto

declare cw_loop.simps [simp del]

definition cw_write :: "string \<Rightarrow> chunk_writer \<Rightarrow> chunk_writer" where
  "cw_write s w = (let w = cw_loop s w in w\<lparr>cw_total := cw_total w + length s\<rparr>)"

section \<open>The snapshot\<close>

record diag_report =
  rp_id :: u8
  rp_type :: u8
  rp_data :: "u8 list"
  rp_on_demand :: bool
  rp_empty :: bool

record diag_status =
  ds_state :: diag_state
  ds_total :: u16
  ds_done :: u16
  ds_read :: u16
  ds_empty :: u16
  ds_failed :: u16

record diag_snapshot =
  sn_firmware_version :: string
  sn_vid :: string
  sn_pid :: string
  sn_manufacturer :: string
  sn_product :: string
  sn_serial_number :: string
  sn_descriptor_hex :: string
  sn_quirks :: u32
  sn_driver :: string
  sn_link_failures :: u8
  sn_link_recoveries :: u8
  sn_stale :: bool
  sn_dropped :: u32
  sn_input_period :: u32
  sn_input_recoveries :: u8
  sn_input_watchdog :: bool
  sn_port_cycles :: u32
  sn_incomplete :: u32
  sn_ep_in_mps :: u16
  sn_export_read :: diag_status
  sn_reports :: "diag_report list"
  sn_ups_data :: "(string \<times> string) list"

text \<open>\<open>DiagSweep::status\<close>.\<close>

definition dg_status :: "diag_sweep \<Rightarrow> diag_status" where
  "dg_status d = \<lparr>ds_state = dg_state d, ds_total = of_nat (length (dg_items d)), ds_done = of_nat (dg_pos d),
     ds_read = dg_read d, ds_empty = dg_empty d, ds_failed = dg_failed d\<rparr>"

definition rp_key :: "diag_report \<Rightarrow> u16" where
  "rp_key r = report_key (rp_type r) (rp_id r)"

fun insert_on_demand :: "diag_entry \<Rightarrow> diag_report list \<Rightarrow> diag_report list" where
  "insert_on_demand e rs =
     (let k = report_key (de_type e) (de_id e);
          r = \<lparr>rp_id = de_id e, rp_type = de_type e, rp_data = de_data e, rp_on_demand = True, rp_empty = de_empty e\<rparr>;
          low = takeWhile (\<lambda>r. rp_key r < k) rs; high = dropWhile (\<lambda>r. rp_key r < k) rs
      in if high \<noteq> [] \<and> rp_key (hd high) = k then rs else low @ r # high)"

definition addOnDemandReports :: "diag_report list \<Rightarrow> diag_entry list \<Rightarrow> diag_report list" where
  "addOnDemandReports reports results = fold insert_on_demand results reports"

section \<open>JSON text on the writer\<close>

definition CRLF :: string where "CRLF = [CHR 0x0D, CHR 0x0A]"
definition LF :: string where "LF = [CHR 0x0A]"
definition QUOTE :: char where "QUOTE = CHR 0x22"

definition uj_newline :: "nat \<Rightarrow> chunk_writer \<Rightarrow> chunk_writer" where
  "uj_newline level w = (cw_write ''  '' ^^ level) (cw_write CRLF w)"

definition uj_escape :: "char \<Rightarrow> string option" where
  "uj_escape c =
     (if c = QUOTE then Some [CHR 0x5C, QUOTE]
      else if c = CHR 0x5C then Some [CHR 0x5C, CHR 0x5C]
      else if c = CHR 0x08 then Some [CHR 0x5C, CHR ''b'']
      else if c = CHR 0x0C then Some [CHR 0x5C, CHR ''f'']
      else if c = CHR 0x0A then Some [CHR 0x5C, CHR ''n'']
      else if c = CHR 0x0D then Some [CHR 0x5C, CHR ''r'']
      else if c = CHR 0x09 then Some [CHR 0x5C, CHR ''t'']
      else if c = CHR 0x00 then Some (CHR 0x5C # ''u0000'')
      else None)"

definition uj_char :: "char \<Rightarrow> chunk_writer \<Rightarrow> chunk_writer" where
  "uj_char c w = (case uj_escape c of Some esc \<Rightarrow> cw_write esc w | None \<Rightarrow> cw_putc c w)"

definition uj_str :: "string \<Rightarrow> chunk_writer \<Rightarrow> chunk_writer" where
  "uj_str s w = cw_putc QUOTE (fold uj_char s (cw_putc QUOTE w))"

definition uj_num :: "nat \<Rightarrow> chunk_writer \<Rightarrow> chunk_writer" where
  "uj_num v w = cw_write (dec v) w"

definition uj_key :: "nat \<Rightarrow> string \<Rightarrow> bool \<Rightarrow> chunk_writer \<Rightarrow> chunk_writer" where
  "uj_key level k first w =
     (let w = (if first then w else cw_putc (CHR '','') w)
      in cw_write (QUOTE # '': '') (cw_write k (cw_putc QUOTE (uj_newline level w))))"

fun uj_descriptor_from :: "nat \<Rightarrow> string \<Rightarrow> chunk_writer \<Rightarrow> chunk_writer" where
  "uj_descriptor_from i [] w = w"
| "uj_descriptor_from i (c # hex) w =
     (let w = (if 0 < i \<and> i mod 10 = 0 then cw_write ('','' @ LF @ ''    '') w
               else if 0 < i then cw_write '', '' w else cw_write ''    '' w);
          w = cw_write (QUOTE # ''0x'') w;
          w = cw_putc (upper c) w
      in case hex of
           [] \<Rightarrow> cw_putc QUOTE w
         | c2 # hex2 \<Rightarrow> uj_descriptor_from (Suc i) hex2 (cw_putc QUOTE (cw_putc (upper c2) w)))"

definition uj_descriptor :: "string \<Rightarrow> chunk_writer \<Rightarrow> chunk_writer" where
  "uj_descriptor hex w = cw_write (LF @ ''  ]'') (uj_descriptor_from 0 hex (cw_write (''['' @ LF) w))"

fun uj_data_from :: "bool \<Rightarrow> u8 list \<Rightarrow> chunk_writer \<Rightarrow> chunk_writer" where
  "uj_data_from first [] w = w"
| "uj_data_from first (b # bs) w = uj_data_from False bs (uj_num (unat b) (if first then w else cw_write '', '' w))"

definition uj_reportData :: "u8 list \<Rightarrow> chunk_writer \<Rightarrow> chunk_writer" where
  "uj_reportData bytes w = cw_putc (CHR '']'') (uj_data_from True bytes (cw_putc (CHR ''['') w))"

definition exportReadState :: "diag_state \<Rightarrow> string" where
  "exportReadState st = QUOTE # (case st of DiagReading \<Rightarrow> ''reading'' | DiagDone \<Rightarrow> ''done'' | DiagInterrupted \<Rightarrow> ''interrupted''
     | DiagIdle \<Rightarrow> ''not_requested'') @ [QUOTE]"

definition bool_text :: "bool \<Rightarrow> string" where
  "bool_text b = (if b then ''true'' else ''false'')"

definition uj_report :: "diag_report \<Rightarrow> chunk_writer \<Rightarrow> chunk_writer" where
  "uj_report r w =
     (let w = cw_putc (CHR ''{'') (uj_newline 4 w);
          w = uj_num (unat (rp_id r)) (uj_key 5 ''id'' True w);
          w = uj_num (unat (rp_type r)) (uj_key 5 ''type'' False w);
          w = uj_reportData (rp_data r) (uj_key 5 ''data'' False w);
          w = (if rp_on_demand r then cw_write ''true'' (uj_key 5 ''on_demand'' False w) else w);
          w = (if rp_empty r then cw_write ''true'' (uj_key 5 ''empty'' False w) else w)
      in cw_putc (CHR ''}'') (uj_newline 4 w))"

fun uj_reports_from :: "bool \<Rightarrow> diag_report list \<Rightarrow> chunk_writer \<Rightarrow> chunk_writer" where
  "uj_reports_from first [] w = w"
| "uj_reports_from first (r # rs) w = uj_reports_from False rs (uj_report r (if first then w else cw_putc (CHR '','') w))"

fun uj_vars_from :: "bool \<Rightarrow> (string \<times> string) list \<Rightarrow> chunk_writer \<Rightarrow> chunk_writer" where
  "uj_vars_from first [] w = w"
| "uj_vars_from first (p # ps) w =
     uj_vars_from False ps (uj_str (snd p) (cw_write '': '' (uj_str (fst p) (uj_newline 4 (if first then w else cw_putc (CHR '','') w)))))"

text \<open>The members of the document, in the order of the code, in three parts.\<close>

definition uj_device :: "diag_snapshot \<Rightarrow> chunk_writer \<Rightarrow> chunk_writer" where
  "uj_device s w =
     (let w = cw_putc (CHR ''{'') w;
          w = uj_str (sn_firmware_version s) (uj_key 1 ''firmware_version'' True w);
          w = uj_str (sn_vid s) (uj_key 1 ''vid'' False w);
          w = uj_str (sn_pid s) (uj_key 1 ''pid'' False w);
          w = uj_str (sn_manufacturer s) (uj_key 1 ''manufacturer'' False w);
          w = uj_str (sn_product s) (uj_key 1 ''product'' False w);
          w = uj_str (sn_serial_number s) (uj_key 1 ''serial_number'' False w);
          w = uj_descriptor (sn_descriptor_hex s) (uj_key 1 ''report_descriptor_hex'' False w);
          w = uj_num (unat (sn_quirks s)) (uj_key 1 ''quirks'' False w)
      in uj_str (sn_driver s) (uj_key 1 ''driver'' False w))"

definition uj_link :: "diag_snapshot \<Rightarrow> chunk_writer \<Rightarrow> chunk_writer" where
  "uj_link s w =
     (let w = cw_putc (CHR ''{'') (uj_key 1 ''link'' False w);
          w = uj_num (unat (sn_link_failures s)) (uj_key 2 ''failures'' True w);
          w = uj_num (unat (sn_link_recoveries s)) (uj_key 2 ''recoveries'' False w);
          w = cw_write (bool_text (sn_stale s)) (uj_key 2 ''stale'' False w);
          w = uj_num (unat (sn_dropped s)) (uj_key 2 ''dropped_input_reports'' False w);
          w = uj_num (unat (sn_input_period s)) (uj_key 2 ''input_period_ms'' False w);
          w = uj_num (unat (sn_input_recoveries s)) (uj_key 2 ''input_recoveries'' False w);
          w = cw_write (bool_text (sn_input_watchdog s)) (uj_key 2 ''input_watchdog'' False w);
          w = uj_num (unat (sn_port_cycles s)) (uj_key 2 ''port_cycles'' False w);
          w = uj_num (unat (sn_incomplete s)) (uj_key 2 ''incomplete_input_reports'' False w);
          w = uj_num (unat (sn_ep_in_mps s)) (uj_key 2 ''ep_in_mps'' False w)
      in cw_putc (CHR ''}'') (uj_newline 1 w))"

definition uj_export_read :: "diag_status \<Rightarrow> chunk_writer \<Rightarrow> chunk_writer" where
  "uj_export_read d w =
     (let w = cw_putc (CHR ''{'') (uj_key 1 ''export_read'' False w);
          w = cw_write (exportReadState (ds_state d)) (uj_key 2 ''state'' True w);
          w = uj_num (unat (ds_total d)) (uj_key 2 ''requested'' False w);
          w = uj_num (unat (ds_read d)) (uj_key 2 ''read'' False w);
          w = uj_num (unat (ds_empty d)) (uj_key 2 ''empty'' False w);
          w = uj_num (unat (ds_failed d)) (uj_key 2 ''failed'' False w)
      in cw_putc (CHR ''}'') (uj_newline 1 w))"

definition uj_reports :: "diag_report list \<Rightarrow> chunk_writer \<Rightarrow> chunk_writer" where
  "uj_reports rs w =
     (if rs = [] then cw_write ''[]'' w
      else cw_putc (CHR '']'') (uj_newline 3 (uj_reports_from True rs (cw_putc (CHR ''['') w))))"

definition uj_vars :: "(string \<times> string) list \<Rightarrow> chunk_writer \<Rightarrow> chunk_writer" where
  "uj_vars ps w =
     (if ps = [] then cw_write ''{}'' w
      else cw_putc (CHR ''}'') (uj_newline 3 (uj_vars_from True ps (cw_putc (CHR ''{'') w))))"

definition usb_diag_write :: "diag_snapshot \<Rightarrow> chunk_writer \<Rightarrow> chunk_writer" where
  "usb_diag_write s w =
     (let w = uj_export_read (sn_export_read s) (uj_link s (uj_device s w));
          w = cw_putc (CHR ''['') (uj_key 1 ''scenarios'' False w);
          w = cw_putc (CHR ''{'') (uj_newline 2 w);
          w = cw_write (QUOTE # ''Live ESP32 dump'' @ [QUOTE]) (uj_key 3 ''description'' True w);
          w = uj_reports (sn_reports s) (uj_key 3 ''reports'' False w);
          w = uj_vars (sn_ups_data s) (uj_key 3 ''expected_ups_data'' False w);
          w = cw_putc (CHR ''}'') (uj_newline 2 w);
          w = cw_putc (CHR '']'') (uj_newline 1 w)
      in cw_putc (CHR ''}'') (uj_newline 0 w))"

end
