(* ===== verification/UsbDiagProofs.thy ===== *)
theory UsbDiagProofs
  imports UsbDiagJson
begin

text \<open>
  The text of the export is that of ArduinoJson's pretty printer on the same document, in blocks that
  an HTTP answer in chunks can carry, and the merged reports keep the order of the report cache.
\<close>

section \<open>What the writer was given\<close>

definition cw_sent :: "chunk_writer \<Rightarrow> string" where
  "cw_sent w = concat (cw_out w) @ cw_buf w"

definition cw_ok :: "chunk_writer \<Rightarrow> bool" where
  "cw_ok w \<longleftrightarrow> length (cw_buf w) < cw_cap w \<and> (\<forall>c \<in> set (cw_out w). length c = cw_cap w) \<and> cw_total w = length (cw_sent w)"

lemma cw_ok_new [simp]: "0 < cap \<Longrightarrow> cw_ok (cw_new cap)" "cw_sent (cw_new cap) = []"
  by (simp_all add: cw_ok_def cw_new_def cw_sent_def)

lemma cw_putc_ok [simp]:
  assumes "cw_ok w"
  shows "cw_ok (cw_putc c w)" "cw_sent (cw_putc c w) = cw_sent w @ [c]"
  using assms by (auto simp: cw_ok_def cw_sent_def cw_putc_def cw_flush_def Let_def)

lemma cw_cap_flush [simp]: "cw_cap (cw_flush w) = cw_cap w" "cw_total (cw_flush w) = cw_total w" "cw_sent (cw_flush w) = cw_sent w"
  by (simp_all add: cw_flush_def cw_sent_def)

lemma cw_loop_sent:
  assumes "length (cw_buf w) < cw_cap w" "\<forall>c \<in> set (cw_out w). length c = cw_cap w"
  shows "length (cw_buf (cw_loop s w)) < cw_cap w \<and> (\<forall>c \<in> set (cw_out (cw_loop s w)). length c = cw_cap w) \<and>
     cw_cap (cw_loop s w) = cw_cap w \<and> cw_total (cw_loop s w) = cw_total w \<and> cw_sent (cw_loop s w) = cw_sent w @ s"
  using assms
proof (induction s w rule: cw_loop.induct)
  case (1 s w)
  let ?n = "min (length s) (cw_cap w - length (cw_buf w))"
  let ?v = "w\<lparr>cw_buf := cw_buf w @ take ?n s\<rparr>"
  let ?u = "if length (cw_buf ?v) = cw_cap ?v then cw_flush ?v else ?v"
  show ?case
  proof (cases "s = []")
    case False
    have ne: "\<not> (s = [] \<or> cw_cap w \<le> length (cw_buf w))" using False 1(2) by simp
    have u: "cw_cap ?u = cw_cap w" "cw_total ?u = cw_total w" "cw_sent ?u = cw_sent w @ take ?n s" by (simp_all add: cw_sent_def cw_flush_def)
    have o: "length (cw_buf ?u) < cw_cap ?u" "\<forall>c \<in> set (cw_out ?u). length c = cw_cap ?u"
      using 1(2,3) by (auto simp: cw_flush_def)
    have L: "cw_loop s w = cw_loop (drop ?n s) ?u" using ne by (subst cw_loop.simps) (simp add: Let_def)
    show ?thesis using 1(1) [OF ne refl refl o] unfolding L u append_assoc append_take_drop_id .
  qed (use 1(2,3) in \<open>simp add: cw_loop.simps\<close>)
qed

lemma cw_write_ok [simp]:
  assumes "cw_ok w"
  shows "cw_ok (cw_write s w)" "cw_sent (cw_write s w) = cw_sent w @ s"
  using assms cw_loop_sent [of w s] by (simp_all add: cw_ok_def cw_write_def Let_def cw_sent_def)

section \<open>The pretty printer\<close>

text \<open>The rules of ArduinoJson: an item for each line, two blanks for each level, CRLF; a raw value as it is.\<close>

datatype doc = DStr string | DRaw string | DObj "(string \<times> doc) list" | DArr "doc list"

definition nl :: "nat \<Rightarrow> string" where
  "nl n = CRLF @ concat (replicate n ''  '')"

definition quoted :: "string \<Rightarrow> string" where
  "quoted s = [QUOTE] @ concat (map (\<lambda>c. case uj_escape c of Some esc \<Rightarrow> esc | None \<Rightarrow> [c]) s) @ [QUOTE]"

fun commas :: "string list \<Rightarrow> string" where
  "commas [] = []"
| "commas [x] = x"
| "commas (x # xs) = x @ '','' @ commas xs"

fun pretty :: "nat \<Rightarrow> doc \<Rightarrow> string" where
  "pretty n (DStr s) = quoted s"
| "pretty n (DRaw s) = s"
| "pretty n (DObj ms) = (if ms = [] then ''{}''
     else ''{'' @ commas (map (\<lambda>m. nl (Suc n) @ quoted (fst m) @ '': '' @ pretty (Suc n) (snd m)) ms) @ nl n @ ''}'')"
| "pretty n (DArr ds) = (if ds = [] then ''[]''
     else ''['' @ commas (map (\<lambda>d. nl (Suc n) @ pretty (Suc n) d) ds) @ nl n @ '']'')"

section \<open>The document\<close>

abbreviation num_doc :: "nat \<Rightarrow> doc" where "num_doc n \<equiv> DRaw (dec n)"

text \<open>The descriptor and the bytes of a report keep their own layout.\<close>

fun hex_text :: "nat \<Rightarrow> string \<Rightarrow> string" where
  "hex_text i [] = []"
| "hex_text i (c # hex) =
     (if 0 < i \<and> i mod 10 = 0 then '','' @ LF @ ''    '' else if 0 < i then '', '' else ''    '') @ [QUOTE] @ ''0x'' @ [upper c] @
     (case hex of [] \<Rightarrow> [QUOTE] | c2 # hex2 \<Rightarrow> [upper c2, QUOTE] @ hex_text (Suc i) hex2)"

fun data_text :: "bool \<Rightarrow> u8 list \<Rightarrow> string" where
  "data_text first [] = []"
| "data_text first (b # bs) = (if first then [] else '', '') @ dec (unat b) @ data_text False bs"

definition report_doc :: "diag_report \<Rightarrow> doc" where
  "report_doc r = DObj ([(''id'', num_doc (unat (rp_id r))), (''type'', num_doc (unat (rp_type r))),
     (''data'', DRaw (''['' @ data_text True (rp_data r) @ '']''))] @
     (if rp_on_demand r then [(''on_demand'', DRaw ''true'')] else []) @ (if rp_empty r then [(''empty'', DRaw ''true'')] else []))"

definition diag_doc :: "diag_snapshot \<Rightarrow> doc" where
  "diag_doc s = DObj
    [(''firmware_version'', DStr (sn_firmware_version s)), (''vid'', DStr (sn_vid s)), (''pid'', DStr (sn_pid s)),
     (''manufacturer'', DStr (sn_manufacturer s)), (''product'', DStr (sn_product s)),
     (''serial_number'', DStr (sn_serial_number s)),
     (''report_descriptor_hex'', DRaw (''['' @ LF @ hex_text 0 (sn_descriptor_hex s) @ LF @ ''  ]'')),
     (''quirks'', num_doc (unat (sn_quirks s))), (''driver'', DStr (sn_driver s)),
     (''link'', DObj
       [(''failures'', num_doc (unat (sn_link_failures s))), (''recoveries'', num_doc (unat (sn_link_recoveries s))),
        (''stale'', DRaw (bool_text (sn_stale s))), (''dropped_input_reports'', num_doc (unat (sn_dropped s))),
        (''input_period_ms'', num_doc (unat (sn_input_period s))), (''input_recoveries'', num_doc (unat (sn_input_recoveries s))),
        (''input_watchdog'', DRaw (bool_text (sn_input_watchdog s))), (''port_cycles'', num_doc (unat (sn_port_cycles s))),
        (''incomplete_input_reports'', num_doc (unat (sn_incomplete s))), (''ep_in_mps'', num_doc (unat (sn_ep_in_mps s)))]),
     (''export_read'', DObj
       [(''state'', DRaw (exportReadState (ds_state (sn_export_read s)))),
        (''requested'', num_doc (unat (ds_total (sn_export_read s)))), (''read'', num_doc (unat (ds_read (sn_export_read s)))),
        (''empty'', num_doc (unat (ds_empty (sn_export_read s)))), (''failed'', num_doc (unat (ds_failed (sn_export_read s))))]),
     (''scenarios'', DArr [DObj
       [(''description'', DStr ''Live ESP32 dump''), (''reports'', DArr (map report_doc (sn_reports s))),
        (''expected_ups_data'', DObj (map (\<lambda>p. (fst p, DStr (snd p))) (sn_ups_data s)))]])]"

section \<open>The writer prints the document\<close>

lemma uj_newline_ok [simp]:
  assumes "cw_ok w"
  shows "cw_ok (uj_newline n w)" "cw_sent (uj_newline n w) = cw_sent w @ nl n"
proof -
  have "cw_ok v \<Longrightarrow> cw_ok ((cw_write ''  '' ^^ n) v) \<and> cw_sent ((cw_write ''  '' ^^ n) v) = cw_sent v @ concat (replicate n ''  '')" for v
    by (induction n arbitrary: v) (simp_all add: funpow_Suc_right del: funpow.simps)
  then show "cw_ok (uj_newline n w)" "cw_sent (uj_newline n w) = cw_sent w @ nl n"
    using assms by (simp_all add: uj_newline_def nl_def)
qed

lemma uj_chars_ok:
  "cw_ok w \<Longrightarrow> cw_ok (fold uj_char s w) \<and>
     cw_sent (fold uj_char s w) = cw_sent w @ concat (map (\<lambda>c. case uj_escape c of Some esc \<Rightarrow> esc | None \<Rightarrow> [c]) s)"
  by (induction s arbitrary: w) (auto simp: uj_char_def split: option.split)

lemma uj_str_ok [simp]:
  assumes "cw_ok w"
  shows "cw_ok (uj_str s w)" "cw_sent (uj_str s w) = cw_sent w @ quoted s"
  using assms uj_chars_ok [of "cw_putc QUOTE w" s] by (simp_all add: uj_str_def quoted_def)

lemma uj_num_ok [simp]: "cw_ok w \<Longrightarrow> cw_ok (uj_num v w)" "cw_ok w \<Longrightarrow> cw_sent (uj_num v w) = cw_sent w @ dec v"
  by (simp_all add: uj_num_def)

lemma uj_key_ok [simp]:
  assumes "cw_ok w"
  shows "cw_ok (uj_key n k first w)"
    "cw_sent (uj_key n k first w) = cw_sent w @ (if first then [] else '','') @ nl n @ [QUOTE] @ k @ [QUOTE] @ '': ''"
  using assms by (simp_all add: uj_key_def Let_def)

lemma uj_descriptor_from_ok:
  "cw_ok w \<Longrightarrow> cw_ok (uj_descriptor_from i hex w) \<and> cw_sent (uj_descriptor_from i hex w) = cw_sent w @ hex_text i hex"
  by (induction i hex arbitrary: w rule: hex_text.induct) (auto simp: Let_def split: list.split)

lemma uj_descriptor_ok [simp]:
  assumes "cw_ok w"
  shows "cw_ok (uj_descriptor hex w)" "cw_sent (uj_descriptor hex w) = cw_sent w @ ''['' @ LF @ hex_text 0 hex @ LF @ ''  ]''"
  using assms uj_descriptor_from_ok [of "cw_write (''['' @ LF) w" 0 hex] by (simp_all add: uj_descriptor_def)

lemma uj_data_from_ok:
  "cw_ok w \<Longrightarrow> cw_ok (uj_data_from first bs w) \<and> cw_sent (uj_data_from first bs w) = cw_sent w @ data_text first bs"
  by (induction first bs arbitrary: w rule: data_text.induct) simp_all

lemma uj_reportData_ok [simp]:
  assumes "cw_ok w"
  shows "cw_ok (uj_reportData bs w)" "cw_sent (uj_reportData bs w) = cw_sent w @ ''['' @ data_text True bs @ '']''"
  using assms uj_data_from_ok [of "cw_putc (CHR ''['') w" True bs] by (simp_all add: uj_reportData_def)

lemma uj_plain_keys:
  "list_all (\<lambda>k. quoted k = [QUOTE] @ k @ [QUOTE])
    [''id'', ''type'', ''data'', ''on_demand'', ''empty'', ''firmware_version'', ''vid'', ''pid'', ''manufacturer'', ''product'', ''serial_number'', ''report_descriptor_hex'', ''quirks'', ''driver'', ''link'', ''failures'', ''recoveries'', ''stale'', ''dropped_input_reports'', ''input_period_ms'', ''input_recoveries'', ''input_watchdog'', ''port_cycles'', ''incomplete_input_reports'', ''ep_in_mps'', ''export_read'', ''state'', ''requested'', ''read'', ''failed'', ''scenarios'', ''description'', ''reports'', ''expected_ups_data'', ''Live ESP32 dump'']"
  by code_simp

lemmas plain = uj_plain_keys [simplified]

lemma commas_Cons: "commas (x # xs) = x @ concat (map (\<lambda>y. '','' @ y) xs)"
  by (induction xs arbitrary: x) simp_all

lemma uj_report_ok [simp]:
  assumes "cw_ok w"
  shows "cw_ok (uj_report r w)" "cw_sent (uj_report r w) = cw_sent w @ nl 4 @ pretty 4 (report_doc r)"
  using assms by (simp_all add: uj_report_def report_doc_def Let_def plain numeral_eq_Suc)

lemma uj_reports_from_ok:
  "cw_ok w \<Longrightarrow> cw_ok (uj_reports_from first rs w) \<and>
     cw_sent (uj_reports_from first rs w) = cw_sent w @
       (if first then commas (map (\<lambda>r. nl 4 @ pretty 4 (report_doc r)) rs) else concat (map (\<lambda>r. '','' @ nl 4 @ pretty 4 (report_doc r)) rs))"
  by (induction rs arbitrary: w first) (simp_all add: commas_Cons comp_def)

lemma uj_reports_ok [simp]:
  assumes "cw_ok w"
  shows "cw_ok (uj_reports rs w)" "cw_sent (uj_reports rs w) = cw_sent w @ pretty 3 (DArr (map report_doc rs))"
  using assms uj_reports_from_ok [of "cw_putc (CHR ''['') w" True rs] by (simp_all add: uj_reports_def comp_def numeral_eq_Suc)

lemma uj_vars_from_ok:
  "cw_ok w \<Longrightarrow> cw_ok (uj_vars_from first ps w) \<and>
     cw_sent (uj_vars_from first ps w) = cw_sent w @
       (if first then commas (map (\<lambda>p. nl 4 @ quoted (fst p) @ '': '' @ quoted (snd p)) ps)
        else concat (map (\<lambda>p. '','' @ nl 4 @ quoted (fst p) @ '': '' @ quoted (snd p)) ps))"
  by (induction ps arbitrary: w first) (simp_all add: commas_Cons comp_def)

lemma uj_vars_ok [simp]:
  assumes "cw_ok w"
  shows "cw_ok (uj_vars ps w)" "cw_sent (uj_vars ps w) = cw_sent w @ pretty 3 (DObj (map (\<lambda>p. (fst p, DStr (snd p))) ps))"
  using assms uj_vars_from_ok [of "cw_putc (CHR ''{'') w" True ps] by (simp_all add: uj_vars_def comp_def numeral_eq_Suc)

lemma uj_device_ok [simp]:
  assumes "cw_ok w"
  shows "cw_ok (uj_device s w)"
    "cw_sent (uj_device s w) = cw_sent w @ ''{'' @ commas (map (\<lambda>m. nl 1 @ quoted (fst m) @ '': '' @ pretty 1 (snd m))
       [(''firmware_version'', DStr (sn_firmware_version s)), (''vid'', DStr (sn_vid s)), (''pid'', DStr (sn_pid s)),
        (''manufacturer'', DStr (sn_manufacturer s)), (''product'', DStr (sn_product s)),
        (''serial_number'', DStr (sn_serial_number s)),
        (''report_descriptor_hex'', DRaw (''['' @ LF @ hex_text 0 (sn_descriptor_hex s) @ LF @ ''  ]'')),
        (''quirks'', num_doc (unat (sn_quirks s))), (''driver'', DStr (sn_driver s))])"
  using assms by (simp_all add: uj_device_def Let_def plain)

lemma uj_link_ok [simp]:
  assumes "cw_ok w"
  shows "cw_ok (uj_link s w)"
    "cw_sent (uj_link s w) = cw_sent w @ '','' @ nl 1 @ quoted ''link'' @ '': '' @ pretty 1 (DObj
       [(''failures'', num_doc (unat (sn_link_failures s))), (''recoveries'', num_doc (unat (sn_link_recoveries s))),
        (''stale'', DRaw (bool_text (sn_stale s))), (''dropped_input_reports'', num_doc (unat (sn_dropped s))),
        (''input_period_ms'', num_doc (unat (sn_input_period s))), (''input_recoveries'', num_doc (unat (sn_input_recoveries s))),
        (''input_watchdog'', DRaw (bool_text (sn_input_watchdog s))), (''port_cycles'', num_doc (unat (sn_port_cycles s))),
        (''incomplete_input_reports'', num_doc (unat (sn_incomplete s))), (''ep_in_mps'', num_doc (unat (sn_ep_in_mps s)))])"
  using assms by (simp_all add: uj_link_def Let_def plain numeral_eq_Suc)

lemma uj_export_read_ok [simp]:
  assumes "cw_ok w"
  shows "cw_ok (uj_export_read d w)"
    "cw_sent (uj_export_read d w) = cw_sent w @ '','' @ nl 1 @ quoted ''export_read'' @ '': '' @ pretty 1 (DObj
       [(''state'', DRaw (exportReadState (ds_state d))), (''requested'', num_doc (unat (ds_total d))), (''read'', num_doc (unat (ds_read d))),
        (''empty'', num_doc (unat (ds_empty d))), (''failed'', num_doc (unat (ds_failed d)))])"
  using assms by (simp_all add: uj_export_read_def Let_def plain numeral_eq_Suc)

lemma export_text:
  assumes "cw_ok w"
  shows "cw_ok (usb_diag_write s w)" "cw_sent (usb_diag_write s w) = cw_sent w @ pretty 0 (diag_doc s)"
proof -
  have n: "(2 :: nat) = Suc 1" "(3 :: nat) = Suc 2" by simp_all
  show "cw_ok (usb_diag_write s w)" using assms by (simp add: usb_diag_write_def Let_def)
  show "cw_sent (usb_diag_write s w) = cw_sent w @ pretty 0 (diag_doc s)"
    using assms by (simp add: usb_diag_write_def diag_doc_def Let_def plain n [symmetric] del: pretty.simps(3,4))
      (simp add: plain numeral_eq_Suc)
qed

lemma export_cap [simp]: "cw_cap (usb_diag_write s w) = cw_cap w"
proof -
  have l [simp]: "cw_cap (cw_loop t v) = cw_cap v" for t v
    by (induction t v rule: cw_loop.induct) (subst cw_loop.simps, simp add: Let_def)
  have p [simp]: "cw_cap (cw_putc c v) = cw_cap v" "cw_cap (cw_write t v) = cw_cap v" for c t v
    by (simp_all add: cw_putc_def cw_write_def Let_def)
  have i [simp]: "cw_cap ((cw_write t ^^ k) v) = cw_cap v" for t k v by (induction k) simp_all
  have [simp]: "cw_cap (uj_newline k v) = cw_cap v" for k v by (simp add: uj_newline_def)
  have "cw_cap (fold uj_char t v) = cw_cap v" for t v
    by (induction t arbitrary: v) (simp_all add: uj_char_def split: option.split)
  then have [simp]: "cw_cap (uj_str t v) = cw_cap v" for t v by (simp add: uj_str_def)
  have [simp]: "cw_cap (uj_num m v) = cw_cap v" "cw_cap (uj_key k t b v) = cw_cap v" for m k t b v
    by (simp_all add: uj_num_def uj_key_def Let_def)
  have "cw_cap (uj_descriptor_from j t v) = cw_cap v" for j t v
    by (induction j t arbitrary: v rule: hex_text.induct) (auto simp: Let_def split: list.split)
  then have [simp]: "cw_cap (uj_descriptor t v) = cw_cap v" for t v by (simp add: uj_descriptor_def)
  have "cw_cap (uj_data_from b bs v) = cw_cap v" for b bs v by (induction b bs v rule: uj_data_from.induct) simp_all
  then have r: "cw_cap (uj_report r v) = cw_cap v" for r v by (simp add: uj_report_def uj_reportData_def Let_def)
  have "cw_cap (uj_reports_from b rs v) = cw_cap v" for b rs v by (induction b rs v rule: uj_reports_from.induct) (simp_all add: r)
  then have [simp]: "cw_cap (uj_reports rs v) = cw_cap v" for rs v by (simp add: uj_reports_def)
  have "cw_cap (uj_vars_from b ps v) = cw_cap v" for b ps v by (induction b ps v rule: uj_vars_from.induct) simp_all
  then have [simp]: "cw_cap (uj_vars ps v) = cw_cap v" for ps v by (simp add: uj_vars_def)
  show ?thesis
    by (simp add: usb_diag_write_def uj_device_def uj_link_def uj_export_read_def Let_def)
qed

text \<open>C17: The export, written piece by piece through a buffer of any size, is byte for byte what
  ArduinoJson's pretty printer gives for its document; and its blocks, the last one flushed, are those
  an answer in chunks needs: none empty, all of the size of the buffer but the last.\<close>

theorem export_is_pretty_print:
  "let w = cw_flush (usb_diag_write s (cw_new (Suc n)))
   in concat (cw_out w) = pretty 0 (diag_doc s) \<and> [] \<notin> set (cw_out w) \<and>
      list_all (\<lambda>c. length c = Suc n) (butlast (cw_out w)) \<and> list_all (\<lambda>c. length c \<le> Suc n) (cw_out w) \<and>
      cw_total w = length (pretty 0 (diag_doc s))"
proof -
  let ?v = "usb_diag_write s (cw_new (Suc n))"
  have v: "cw_ok ?v" "cw_sent ?v = pretty 0 (diag_doc s)" using export_text [of "cw_new (Suc n)" s] by simp_all
  have cap: "cw_cap ?v = Suc n" by (simp add: export_cap cw_new_def)
  have f: "cw_sent (cw_flush ?v) = pretty 0 (diag_doc s)" "cw_buf (cw_flush ?v) = []"
    using v(2) by (auto simp: cw_flush_def cw_sent_def)
  have b: "\<forall>c \<in> set (cw_out ?v). length c = Suc n" "length (cw_buf ?v) < Suc n" "cw_total ?v = length (pretty 0 (diag_doc s))"
    using v cap by (simp_all add: cw_ok_def)
  have "concat (cw_out (cw_flush ?v)) = pretty 0 (diag_doc s)" using f by (simp add: cw_sent_def)
  moreover have "[] \<notin> set (cw_out (cw_flush ?v))" using b(1) by (auto simp: cw_flush_def)
  moreover have "\<forall>c \<in> set (butlast (cw_out (cw_flush ?v))). length c = Suc n"
    using b(1) by (auto simp: cw_flush_def dest: in_set_butlastD)
  moreover have "\<forall>c \<in> set (cw_out (cw_flush ?v)). length c \<le> Suc n" using b by (auto simp: cw_flush_def)
  ultimately show ?thesis using b(3) by (simp add: Let_def list_all_iff)
qed

section \<open>The reports of the on-demand read\<close>

lemma takeWhile_le: "sorted (map rp_key rs) \<Longrightarrow> r \<in> set (dropWhile (\<lambda>r. rp_key r < k) rs) \<Longrightarrow> k \<le> rp_key r"
proof (induction rs)
  case (Cons a rs)
  then show ?case by (cases "rp_key a < k") (auto simp: not_less intro: order_trans)
qed simp

lemma insert_on_demand_keys:
  fixes e :: diag_entry
  assumes "sorted (map rp_key rs)" "distinct (map rp_key rs)"
  defines "k \<equiv> report_key (de_type e) (de_id e)"
  shows "sorted (map rp_key (insert_on_demand e rs)) \<and> distinct (map rp_key (insert_on_demand e rs)) \<and>
     set rs \<subseteq> set (insert_on_demand e rs) \<and> rp_key ` set (insert_on_demand e rs) = insert k (rp_key ` set rs) \<and>
     (\<forall>r \<in> set (insert_on_demand e rs) - set rs. rp_on_demand r)"
proof -
  let ?low = "takeWhile (\<lambda>r. rp_key r < k) rs" and ?high = "dropWhile (\<lambda>r. rp_key r < k) rs"
  have rs: "rs = ?low @ ?high" by simp
  have low: "\<forall>r \<in> set ?low. rp_key r < k" by (auto dest: set_takeWhileD)
  have high: "\<forall>r \<in> set ?high. k \<le> rp_key r" using takeWhile_le [OF assms(1)] by blast
  show ?thesis
  proof (cases "?high \<noteq> [] \<and> rp_key (hd ?high) = k")
    case True
    then have "k \<in> rp_key ` set ?high" by (metis hd_in_set imageI)
    then have "k \<in> rp_key ` set rs" by (metis rs UnI2 image_Un set_append)
    then show ?thesis using True assms(1,2) by (auto simp: k_def Let_def)
  next
    case False
    have sh: "sorted (map rp_key ?high)" "sorted (map rp_key ?low)" using assms(1) rs by (metis map_append sorted_append)+
    have d: "distinct (map rp_key ?low @ map rp_key ?high)" using assms(2) by (simp flip: map_append)
    have "k \<noteq> rp_key r" if r: "r \<in> set ?high" for r
    proof
      assume "k = rp_key r"
      moreover obtain a as where a: "?high = a # as" using r by (cases ?high) auto
      ultimately show False using False high sh(1) r by (auto dest: order_antisym)
    qed
    then have hk: "\<forall>r \<in> set ?high. k < rp_key r" using high by (auto simp: less_le)
    let ?r = "\<lparr>rp_id = de_id e, rp_type = de_type e, rp_data = de_data e, rp_on_demand = True, rp_empty = de_empty e\<rparr>"
    have i: "insert_on_demand e rs = ?low @ ?r # ?high" "rp_key ?r = k" using False by (auto simp: k_def Let_def rp_key_def)
    have "set rs = set ?low \<union> set ?high" by (metis rs set_append)
    then have st: "set (?low @ ?r # ?high) = insert ?r (set rs)" by auto
    have lh: "\<forall>a \<in> set ?low. \<forall>b \<in> set ?high. rp_key a < rp_key b" using low hk by (meson less_trans)
    have "sorted (map rp_key ?low @ k # map rp_key ?high)"
      unfolding sorted_append sorted_simps list.set(2) set_map using sh lh low hk by (auto intro: less_imp_le)
    moreover have "distinct (map rp_key ?low @ k # map rp_key ?high)"
      using d low hk by (auto simp del: map_append)
    moreover have "map rp_key (?low @ ?r # ?high) = map rp_key ?low @ k # map rp_key ?high" using i(2) by simp
    moreover have "rp_key ` insert ?r (set rs) = insert k (rp_key ` set rs)" using i(2) by simp
    moreover have "\<forall>r \<in> insert ?r (set rs) - set rs. rp_on_demand r"
    proof
      fix r assume "r \<in> insert ?r (set rs) - set rs"
      then have "r = ?r" by blast
      then show "rp_on_demand r" by simp
    qed
    ultimately show ?thesis unfolding i(1) st by (simp only: simp_thms) blast
  qed
qed

text \<open>The reports of the poll are kept as they are, those of the on-demand read fill the gaps, in key order.\<close>

lemma merged_reports:
  assumes "sorted (map rp_key rs)" "distinct (map rp_key rs)"
  shows "sorted (map rp_key (addOnDemandReports rs es)) \<and> distinct (map rp_key (addOnDemandReports rs es)) \<and>
     set rs \<subseteq> set (addOnDemandReports rs es) \<and>
     rp_key ` set (addOnDemandReports rs es) = rp_key ` set rs \<union> (\<lambda>e. report_key (de_type e) (de_id e)) ` set es \<and>
     (\<forall>r \<in> set (addOnDemandReports rs es) - set rs. rp_on_demand r)"
  using assms unfolding addOnDemandReports_def
proof (induction es arbitrary: rs)
  case (Cons e es)
  note k = insert_on_demand_keys [OF Cons.prems, of e]
  show ?case using Cons.IH [of "insert_on_demand e rs"] k by auto
qed simp

end
