(* ===== verification/BoardLed.thy ===== *)
theory BoardLed
  imports Prelude
begin

text \<open>
  The status LED (\<open>lib/DiagnosticLED/src/DiagnosticLED.cpp\<close>): its patterns by the clock. \<open>dl_pixel\<close> and
  \<open>dl_brightness\<close> are what the NeoPixel was given last.
\<close>

unbundle bit_operations_syntax

datatype led_state = LED_CONNECTING | LED_OPERATIONAL | LED_ERROR | LED_AP_MODE

text \<open>\<open>Adafruit_NeoPixel::Color\<close> packs red, green and blue.\<close>

definition pixel_color :: "u8 \<Rightarrow> u8 \<Rightarrow> u8 \<Rightarrow> u32" where
  "pixel_color r g b = push_bit 16 (ucast r) OR push_bit 8 (ucast g) OR ucast b"

definition COLOR_CONNECTING :: u32 where "COLOR_CONNECTING = pixel_color 255 255 0"
definition COLOR_OPERATIONAL :: u32 where "COLOR_OPERATIONAL = pixel_color 0 255 0"
definition COLOR_ERROR :: u32 where "COLOR_ERROR = pixel_color 255 0 0"
definition COLOR_AP_MODE_BLUE :: u32 where "COLOR_AP_MODE_BLUE = pixel_color 0 0 255"
definition COLOR_AP_MODE_RED :: u32 where "COLOR_AP_MODE_RED = pixel_color 255 0 0"
definition COLOR_OFF :: u32 where "COLOR_OFF = 0"
definition LED_BLINK_SLOW_MS :: u32 where "LED_BLINK_SLOW_MS = 1000"
definition LED_BLINK_FAST_MS :: u32 where "LED_BLINK_FAST_MS = 125"

record diagnostic_led =
  dl_enabled :: bool
  dl_userOn :: bool
  dl_state :: led_state
  dl_ledOn :: bool
  dl_previous :: u32
  dl_color :: u32
  dl_pixel :: u32
  dl_brightness :: u8

definition dl_new :: diagnostic_led where
  "dl_new = \<lparr>dl_enabled = False, dl_userOn = True, dl_state = LED_CONNECTING, dl_ledOn = False, dl_previous = 0,
     dl_color = 0, dl_pixel = 0, dl_brightness = 0\<rparr>"

definition setPixelColorAndShow :: "u32 \<Rightarrow> diagnostic_led \<Rightarrow> diagnostic_led" where
  "setPixelColorAndShow color l =
     (let l = l\<lparr>dl_color := color\<rparr> in if \<not> dl_enabled l \<or> \<not> dl_userOn l then l else l\<lparr>dl_pixel := color\<rparr>)"

definition dl_begin :: "int \<Rightarrow> u32 \<Rightarrow> diagnostic_led \<Rightarrow> diagnostic_led" where
  "dl_begin pin now l =
     (let l = l\<lparr>dl_enabled := 0 \<le> pin, dl_ledOn := False, dl_state := LED_CONNECTING, dl_previous := now\<rparr>
      in if \<not> dl_enabled l then l else l\<lparr>dl_brightness := 10, dl_pixel := 0\<rparr>)"

definition setUserEnabled :: "bool \<Rightarrow> diagnostic_led \<Rightarrow> diagnostic_led" where
  "setUserEnabled on l =
     (if on = dl_userOn l then l
      else let l = l\<lparr>dl_userOn := on\<rparr>
           in if \<not> dl_enabled l then l else l\<lparr>dl_pixel := (if on then dl_color l else 0)\<rparr>)"

definition setBrightness :: "u8 \<Rightarrow> diagnostic_led \<Rightarrow> diagnostic_led" where
  "setBrightness value l =
     (if \<not> dl_enabled l then l else l\<lparr>dl_brightness := value, dl_pixel := (if dl_userOn l then dl_color l else 0)\<rparr>)"

definition setLedState :: "led_state \<Rightarrow> u32 \<Rightarrow> diagnostic_led \<Rightarrow> diagnostic_led" where
  "setLedState state now l =
     (if dl_state l = state then l
      else setPixelColorAndShow COLOR_OFF (l\<lparr>dl_state := state, dl_previous := now, dl_ledOn := False\<rparr>))"

text \<open>One step of a pattern that is on for a colour after a time, and off again after another.\<close>

definition led_toggle :: "u32 \<Rightarrow> u32 \<Rightarrow> u32 \<Rightarrow> diagnostic_led \<Rightarrow> diagnostic_led" where
  "led_toggle period color now l =
     (if period \<le> now - dl_previous l
      then setPixelColorAndShow (if \<not> dl_ledOn l then color else COLOR_OFF) (l\<lparr>dl_previous := now, dl_ledOn := \<not> dl_ledOn l\<rparr>)
      else l)"

definition show_if_new :: "u32 \<Rightarrow> diagnostic_led \<Rightarrow> diagnostic_led" where
  "show_if_new color l = (if dl_color l \<noteq> color then setPixelColorAndShow color l else l)"

definition dl_update :: "u32 \<Rightarrow> diagnostic_led \<Rightarrow> diagnostic_led" where
  "dl_update now l =
     (case dl_state l of
        LED_CONNECTING \<Rightarrow> led_toggle (LED_BLINK_SLOW_MS div 2) COLOR_CONNECTING now l
      | LED_OPERATIONAL \<Rightarrow> led_toggle (if dl_ledOn l then 100 else 5000) COLOR_OPERATIONAL now l
      | LED_AP_MODE \<Rightarrow>
          (let phase = (now - dl_previous l) mod 8000
           in if phase < 4000
              then show_if_new (if (phase div 125) mod 2 = 0 then COLOR_AP_MODE_BLUE else COLOR_AP_MODE_RED) l
              else show_if_new COLOR_OFF l)
      | LED_ERROR \<Rightarrow> led_toggle (LED_BLINK_FAST_MS div 2) COLOR_ERROR now l)"

section \<open>Off means dark\<close>

text \<open>What the pixel shows is the colour of the pattern, or nothing when the user turned it off; and a
  board without a LED is never driven.\<close>

definition led_ok :: "diagnostic_led \<Rightarrow> bool" where
  "led_ok l \<longleftrightarrow> dl_pixel l = (if dl_enabled l \<and> dl_userOn l then dl_color l else 0)"

datatype led_call = LcState led_state u32 | LcUser bool | LcBrightness u8 | LcUpdate u32

fun led_step :: "diagnostic_led \<Rightarrow> led_call \<Rightarrow> diagnostic_led \<times> unit" where
  "led_step l (LcState st now) = (setLedState st now l, ())"
| "led_step l (LcUser on) = (setUserEnabled on l, ())"
| "led_step l (LcBrightness v) = (setBrightness v l, ())"
| "led_step l (LcUpdate now) = (dl_update now l, ())"

lemma led_toggle_ok: "led_ok l \<Longrightarrow> led_ok (led_toggle p c now l)"
  by (auto simp: led_ok_def led_toggle_def setPixelColorAndShow_def Let_def split: if_splits)

lemma show_if_new_ok: "led_ok l \<Longrightarrow> led_ok (show_if_new c l)"
  by (auto simp: led_ok_def show_if_new_def setPixelColorAndShow_def Let_def split: if_splits)

lemma led_step_ok: "led_ok l \<Longrightarrow> led_ok (fst (led_step l c))"
proof (cases c)
  case (LcUpdate now)
  assume "led_ok l"
  then show ?thesis
    by (cases "dl_state l") (simp_all add: LcUpdate dl_update_def Let_def led_toggle_ok show_if_new_ok)
qed (auto simp: led_ok_def setLedState_def setUserEnabled_def setBrightness_def setPixelColorAndShow_def Let_def split: if_splits)

lemma led_shows_state: "led_ok (fst (run led_step (dl_begin pin now dl_new) cs))"
proof -
  have "led_ok l \<Longrightarrow> led_ok (fst (run led_step l cs))" for l
    by (induction cs arbitrary: l) (simp_all add: run_Cons led_step_ok)
  moreover have "led_ok (dl_begin pin now dl_new)" by (simp add: led_ok_def dl_begin_def dl_new_def Let_def)
  ultimately show ?thesis by blast
qed

end
