(* ===== verification/AutoShutdown.thy ===== *)
theory AutoShutdown
  imports UsbHost
begin

text \<open>
  The shutdown that the board sends by itself (\<open>include/core/auto_shutdown.h\<close> and \<open>checkAutoShutdown\<close> of
  \<open>src/core/main.cpp\<close>), over the USB host: one command for each low-battery event.
\<close>

section \<open>The decision\<close>

record auto_shutdown =
  as_enabled :: bool
  as_armed :: bool

definition as_new :: auto_shutdown where
  "as_new = \<lparr>as_enabled = False, as_armed = True\<rparr>"

definition as_setEnabled :: "bool \<Rightarrow> auto_shutdown \<Rightarrow> auto_shutdown" where
  "as_setEnabled enabled a = a\<lparr>as_enabled := enabled\<rparr>"

abbreviation (input) blank :: "char \<Rightarrow> bool" where "blank \<equiv> (\<lambda>c. c = CHR '' '')"

function token_loop :: "string \<Rightarrow> string \<Rightarrow> bool" where
  "token_loop token p =
     (if p = [] then False
      else let p1 = dropWhile blank p; w = takeWhile (\<lambda>c. \<not> blank c) p1
           in if w = token then True else token_loop token (dropWhile (\<lambda>c. \<not> blank c) p1))"
  by pat_completeness auto
termination
proof (relation "measure (\<lambda>(token, p). length p)")
  fix token p :: string and p1 w
  assume p: "p \<noteq> []" "p1 = dropWhile blank p"
  have "length (dropWhile (\<lambda>c. \<not> blank c) p1) < length p"
  proof (cases p)
    case (Cons c r)
    have "length (dropWhile P (dropWhile Q xs)) \<le> length xs" for P Q and xs :: string
      by (rule order_trans [OF length_dropWhile_le length_dropWhile_le])
    then show ?thesis using Cons p(2) length_dropWhile_le [of "\<lambda>c. \<not> blank c" r] by (auto simp: less_Suc_eq_le)
  qed (use p in simp)
  then show "((token, dropWhile (\<lambda>c. \<not> blank c) p1), token, p) \<in> measure (\<lambda>(token, p). length p)" by simp
qed simp

declare token_loop.simps [simp del]

definition hasToken :: "string option \<Rightarrow> string option \<Rightarrow> bool" where
  "hasToken status token =
     (case (status, token) of (Some s, Some t) \<Rightarrow> if t = [] then False else token_loop t s | _ \<Rightarrow> False)"

definition onBatteryLow :: "string option \<Rightarrow> bool" where
  "onBatteryLow status \<longleftrightarrow> hasToken status (Some ''OB'') \<and> hasToken status (Some ''LB'')"

definition offersShutdownDefault :: "ups_command_info list \<Rightarrow> bool" where
  "offersShutdownDefault commands = list_ex (\<lambda>c. ci_name c = ''shutdown.default'') commands"

definition as_update :: "bool \<Rightarrow> bool \<Rightarrow> string option \<Rightarrow> bool \<Rightarrow> auto_shutdown \<Rightarrow> bool \<times> auto_shutdown" where
  "as_update conn stale status available a =
     (if \<not> conn \<or> stale then (False, a)
      else if hasToken status (Some ''OL'') then (False, a\<lparr>as_armed := True\<rparr>)
      else if onBatteryLow status \<and> as_armed a \<and> as_enabled a \<and> available then (True, a\<lparr>as_armed := False\<rparr>)
      else (False, a))"

definition restoreArm :: "auto_shutdown \<Rightarrow> auto_shutdown" where
  "restoreArm a = a\<lparr>as_armed := True\<rparr>"

datatype shutdown_availability = AVAILABLE | NO_UPS | NO_COMMAND

definition autoShutdownAvailability :: "bool \<Rightarrow> bool \<Rightarrow> shutdown_availability" where
  "autoShutdownAvailability conn has_command = (if \<not> conn then NO_UPS else if has_command then AVAILABLE else NO_COMMAND)"

section \<open>The check of the main loop\<close>

text \<open>What was sent: nothing, or the result of the command.\<close>

definition checkAutoShutdown ::
  "'d usb_device \<Rightarrow> (string \<Rightarrow> rat) \<Rightarrow> u32 \<Rightarrow> 'd usb_host \<Rightarrow> auto_shutdown \<Rightarrow> command_result option \<times> 'd usb_host \<times> auto_shutdown" where
  "checkAutoShutdown io toFloat now h a =
     (let status = Some (getUPSStatusString toFloat h);
          available = (onBatteryLow status \<and> offersShutdownDefault (supportedCommands (host_port io now) h));
          (due, a) = as_update (uh_ready h) (isDataStale h now) status available a
      in if \<not> due then (None, h, a)
         else let (r, h) = host_executeCommand io (Some ''shutdown.default'') None now h
              in if r = CmdOk then (Some r, h, a)
                 else if r = CmdNotConnected then (Some r, h, restoreArm a)
                 else (Some r, h, a))"

text \<open>The web page turns the option on and off between two checks; between them the poll task and the
  NUT clients change the host, so that each check brings its own.\<close>

datatype 'd auto_event = SetAuto bool | CheckAuto u32 "'d usb_host"

fun auto_step :: "'d usb_device \<Rightarrow> (string \<Rightarrow> rat) \<Rightarrow> auto_shutdown \<Rightarrow> 'd auto_event \<Rightarrow> auto_shutdown \<times> command_result option" where
  "auto_step io toFloat a (SetAuto b) = (as_setEnabled b a, None)"
| "auto_step io toFloat a (CheckAuto now h) = (let (r, h', a') = checkAutoShutdown io toFloat now h a in (a', r))"

section \<open>What the status has to say\<close>

lemma token_loop_words:
  assumes "\<forall>c \<in> set p. is_space c \<longrightarrow> c = CHR '' ''" "t \<noteq> []"
  shows "token_loop t p \<longleftrightarrow> t \<in> set (words p)"
  using assms
proof (induction t p rule: token_loop.induct)
  case (1 t p)
  have e: "dropWhile is_space q = dropWhile blank q" "takeWhile (\<lambda>c. \<not> is_space c) q = takeWhile (\<lambda>c. \<not> blank c) q"
    "dropWhile (\<lambda>c. \<not> is_space c) q = dropWhile (\<lambda>c. \<not> blank c) q" if "set q \<subseteq> set p" for q
    using that 1(2) by (auto intro!: dropWhile_cong takeWhile_cong)
  let ?q = "dropWhile blank p"
  have q: "set ?q \<subseteq> set p" by (auto dest: set_dropWhileD)
  show ?case
  proof (cases "?q = []")
    case True
    moreover have "\<not> token_loop t []" by (simp add: token_loop.simps)
    ultimately show ?thesis using 1(3) unfolding token_loop.simps [of t p] words.simps [of p] e(1) [OF subset_refl] Let_def True by simp
  next
    case False
    then have ne: "p \<noteq> []" by auto
    have "\<forall>c \<in> set (dropWhile (\<lambda>c. \<not> blank c) ?q). is_space c \<longrightarrow> c = CHR '' ''"
      using 1(2) q by (auto dest!: set_dropWhileD)
    then have ih: "takeWhile (\<lambda>c. \<not> blank c) ?q \<noteq> t \<Longrightarrow>
        token_loop t (dropWhile (\<lambda>c. \<not> blank c) ?q) = (t \<in> set (words (dropWhile (\<lambda>c. \<not> blank c) ?q)))"
      using 1(1) [OF ne refl refl _ _ 1(3)] by blast
    show ?thesis
      using False ne ih unfolding token_loop.simps [of t p] words.simps [of p] by (auto simp: Let_def e(1) e(2,3) [OF q])
  qed
qed

lemma status_blanks: "c \<in> set (computeUPSStatusString toFloat d) \<Longrightarrow> is_space c \<Longrightarrow> c = CHR '' ''"
proof -
  have t: "c \<in> set (trim s) \<Longrightarrow> c \<in> set s" for s by (auto simp: trim_def dest!: set_dropWhileD)
  have b: "c \<in> set (blanked ts) \<Longrightarrow> is_space c \<Longrightarrow> c = CHR '' ''" if "list_all word ts" for ts
    using that by (induction ts) (auto simp: word_def list_all_iff)
  assume "c \<in> set (computeUPSStatusString toFloat d)" "is_space c"
  then have "c \<in> set (trim (blanked (ud_tokens toFloat d))) \<or> c = CHR '' ''"
    by (auto simp: computeUPSStatusString_tokens Let_def is_space_def ord_def split: if_splits)
  with \<open>is_space c\<close> show ?thesis using t b [OF words_tokens] by blast
qed

lemma status_token: "t \<noteq> [] \<Longrightarrow> hasToken (Some (getUPSStatusString toFloat h)) (Some t) \<longleftrightarrow> t \<in> set (words (computeUPSStatusString toFloat (uh_data h)))"
proof -
  have "computeUPSStatusString toFloat (uh_data h) \<noteq> []"
    by (simp add: computeUPSStatusString_tokens Let_def)
  moreover assume "t \<noteq> []"
  ultimately show ?thesis
    by (simp add: hasToken_def getUPSStatusString_def Let_def token_loop_words status_blanks)
qed

lemma word_of_status:
  assumes "x \<noteq> ''Unknown''" "x \<noteq> ''ALARM''"
  shows "x \<in> set (words (computeUPSStatusString toFloat d)) \<longleftrightarrow> list_ex (\<lambda>c. fst c \<and> snd c = x) (ud_conditions toFloat d)"
proof -
  have "x \<in> set (ud_tokens toFloat d) \<longleftrightarrow> list_ex (\<lambda>c. fst c \<and> snd c = x) (ud_conditions toFloat d)"
    by (auto simp: ud_tokens_def list_ex_iff)
  moreover have "x \<in> set (words (computeUPSStatusString toFloat d)) \<longleftrightarrow> x \<in> set (ud_tokens toFloat d)"
    using assms unfolding words_status by (cases "ud_find d ''ups.alarm''"; cases "ud_tokens toFloat d") simp_all
  ultimately show ?thesis by simp
qed

lemma status_conditions:
  "hasToken (Some (getUPSStatusString toFloat h)) (Some ''OL'') \<longleftrightarrow> ud_online (uh_data h)"
  "onBatteryLow (Some (getUPSStatusString toFloat h)) \<longleftrightarrow> ud_onbatt (uh_data h) \<and> ud_lowbatt (uh_data h)"
  by (simp_all add: onBatteryLow_def status_token word_of_status ud_conditions_def)

text \<open>C37: The check runs \<open>shutdown.default\<close>, and nothing else, exactly when the UPS is there with fresh data, runs on
  battery, its battery is low, the option is on, the event was not handled and the command is offered. The
  event is then handled, unless the command found no UPS. Otherwise the host is left as it was, and a UPS back on line
  with fresh data arms the next event.\<close>

theorem sends_when_low:
  "checkAutoShutdown io toFloat now h a =
     (if uh_ready h \<and> \<not> isDataStale h now \<and> ud_onbatt (uh_data h) \<and> ud_lowbatt (uh_data h) \<and> as_enabled a \<and> as_armed a \<and>
         offersShutdownDefault (supportedCommands (host_port io now) h)
      then let (r, h') = host_executeCommand io (Some ''shutdown.default'') None now h
           in (Some r, h', a\<lparr>as_armed := r = CmdNotConnected\<rparr>)
      else (None, h, a\<lparr>as_armed := as_armed a \<or> uh_ready h \<and> \<not> isDataStale h now \<and> ud_online (uh_data h)\<rparr>))"
  using ud_exclusive [of "uh_data h"]
  by (auto simp: checkAutoShutdown_def as_update_def status_conditions restoreArm_def Let_def split: prod.splits if_splits)

section \<open>One command for each event\<close>

text \<open>A check that reads fresh data with the UPS back on line.\<close>

definition back_on_line :: "(string \<Rightarrow> rat) \<Rightarrow> 'd auto_event \<Rightarrow> bool" where
  "back_on_line toFloat e =
     (case e of SetAuto b \<Rightarrow> False
      | CheckAuto now h \<Rightarrow> uh_ready h \<and> \<not> isDataStale h now \<and> hasToken (Some (getUPSStatusString toFloat h)) (Some ''OL''))"

definition reached_ups :: "command_result option \<Rightarrow> bool" where
  "reached_ups r \<longleftrightarrow> (\<exists>x. r = Some x \<and> x \<noteq> CmdNotConnected)"

lemma check_arm:
  "as_armed (fst (auto_step io tf a e)) =
     (if back_on_line tf e then True else if reached_ups (snd (auto_step io tf a e)) then False else as_armed a)"
  by (cases e) (auto simp: Let_def as_setEnabled_def checkAutoShutdown_def as_update_def restoreArm_def back_on_line_def reached_ups_def
      split: prod.splits if_splits)

lemma sent_armed: "snd (auto_step io tf a e) \<noteq> None \<Longrightarrow> as_armed a \<and> as_enabled a \<and> \<not> back_on_line tf e"
  by (cases e) (auto simp: Let_def checkAutoShutdown_def as_update_def back_on_line_def split: prod.splits if_splits)

text \<open>C12: The board shuts the UPS down once for each low-battery event: whatever the poll task, the clients
  and the web page do between the checks, the commands that reach the UPS are at most one more than
  the checks that read fresh data with the UPS back on line, and none when the event at the start was
  already handled.\<close>

theorem one_shutdown_per_event:
  "length (filter reached_ups (snd (run (auto_step io toFloat) a es))) \<le>
     length (filter (back_on_line toFloat) es) + (if as_armed a then 1 else 0)"
proof (induction es arbitrary: a)
  case (Cons e es)
  let ?a = "fst (auto_step io toFloat a e)" and ?r = "snd (auto_step io toFloat a e)"
  have "reached_ups ?r \<Longrightarrow> as_armed a \<and> \<not> back_on_line toFloat e"
    using sent_armed [of io toFloat a e] by (auto simp: reached_ups_def)
  then show ?case
    using Cons.IH [of ?a] check_arm [of io toFloat a e] unfolding run_Cons by (auto split: if_splits)
qed simp

end
