(* ===== verification/NetCore.thy ===== *)
theory NetCore
  imports LogCore
begin

text \<open>
  The network service and the board (\<open>lib/NetCore/src\<close>, \<open>lib/ApIdleTimeout/src\<close>,
  \<open>src/network/network_manager.cpp\<close>, \<open>include/board\<close>): the link of the boot plan kept as the only active
  one, the hostname, the timeout of the access point, and the settings of a board. The link adapters
  are the operations \<open>net_io\<close> on the unknown state \<open>'w\<close> of the platform.
\<close>

section \<open>The board and its settings\<close>

datatype eth_type = EthNone | EthRmii | EthSpi

text \<open>Of the profile, what the code below reads.\<close>

record usb_port =
  up_id :: string
  up_label :: string

record board_config =
  bc_name :: string
  bc_label :: string
  bc_has_wifi :: bool
  bc_has_ethernet :: bool
  bc_eth_type :: eth_type
  bc_led_pin :: int
  bc_ports :: "usb_port list"
  bc_ap_ssid :: string
  bc_ap_password :: string
  bc_led_enabled :: bool
  bc_led_level :: u8
  bc_usb_port :: u8

record board_settings =
  bs_led_on :: bool
  bs_led_level :: u8
  bs_usb_port :: u8
  bs_auto_shutdown :: bool

definition LED_LEVELS :: u8 where "LED_LEVELS = 5"
definition LED_DEFAULT_LEVEL :: u8 where "LED_DEFAULT_LEVEL = 3"

definition ledBrightness :: "u8 \<Rightarrow> u8" where
  "ledBrightness level =
     (let level = (if level < 1 \<or> LED_LEVELS < level then LED_DEFAULT_LEVEL else level)
      in [3, 5, 10, 20, 40] ! unat (level - 1))"

definition hasLed :: "board_config \<Rightarrow> bool" where
  "hasLed b \<longleftrightarrow> 0 \<le> bc_led_pin b"

definition hasUsbChoice :: "board_config \<Rightarrow> bool" where
  "hasUsbChoice b \<longleftrightarrow> 1 < length (bc_ports b)"

definition defaultsFor :: "board_config \<Rightarrow> board_settings" where
  "defaultsFor b = \<lparr>bs_led_on = bc_led_enabled b, bs_led_level = bc_led_level b, bs_usb_port = bc_usb_port b, bs_auto_shutdown = False\<rparr>"

definition sanitize_board :: "board_config \<Rightarrow> board_settings \<Rightarrow> board_settings" where
  "sanitize_board b s =
     (let d = defaultsFor b;
          s = (if bs_led_level s < 1 \<or> LED_LEVELS < bs_led_level s then s\<lparr>bs_led_level := bs_led_level d\<rparr> else s)
      in if length (bc_ports b) \<le> unat (bs_usb_port s) then s\<lparr>bs_usb_port := bs_usb_port d\<rparr> else s)"

section \<open>The boot plan\<close>

datatype boot_link = WIFI_STATION | WIFI_ACCESS_POINT | ETHERNET_LINK | NO_LINK

record boot_plan =
  np_link :: boot_link
  np_captive_portal :: bool
  np_ap_idle_timeout :: bool
  np_recovery_window :: bool
  np_default_config :: bool

definition planNetwork :: "bool \<Rightarrow> bool \<Rightarrow> bool \<Rightarrow> bool \<Rightarrow> boot_plan" where
  "planNetwork has_wifi has_ethernet config_valid manual_trigger =
     (let plan = \<lparr>np_link = NO_LINK, np_captive_portal = False, np_ap_idle_timeout = False, np_recovery_window = False, np_default_config = False\<rparr>
      in if has_wifi then
           (if \<not> config_valid \<or> manual_trigger
            then plan\<lparr>np_link := WIFI_ACCESS_POINT, np_captive_portal := True, np_ap_idle_timeout := manual_trigger \<and> config_valid\<rparr>
            else plan\<lparr>np_link := WIFI_STATION\<rparr>)
         else let plan = (if has_ethernet then plan\<lparr>np_link := ETHERNET_LINK\<rparr> else plan)
              in plan\<lparr>np_recovery_window := manual_trigger, np_default_config := \<not> config_valid\<rparr>)"

section \<open>The hostname\<close>

definition HOSTNAME_MAX :: nat where "HOSTNAME_MAX = 32"

definition isAsciiAlnum :: "char \<Rightarrow> bool" where
  "isAsciiAlnum c \<longleftrightarrow> in_range (CHR ''a'') (CHR ''z'') c \<or> in_range (CHR ''A'') (CHR ''Z'') c \<or> is_digit c"

definition validHostname :: "string option \<Rightarrow> bool" where
  "validHostname name =
     (case name of None \<Rightarrow> False
      | Some n \<Rightarrow>
          if n = [] \<or> HOSTNAME_MAX < length n then False
          else if \<not> list_all (\<lambda>c. isAsciiAlnum c \<or> c = CHR ''-'') n then False
          else hd n \<noteq> CHR ''-'' \<and> List.last n \<noteq> CHR ''-'')"

definition hex_lower :: "nat \<Rightarrow> char" where
  "hex_lower d = (if d < 10 then digit d else char_of (87 + d))"

definition hex2_lower :: "u8 \<Rightarrow> string" where
  "hex2_lower b = [hex_lower (unat b div 16), hex_lower (unat b mod 16)]"

text \<open>A MAC address is a list of six bytes.\<close>

definition defaultHostname :: "u8 list \<Rightarrow> string" where
  "defaultHostname mac = ''esp32-nut-'' @ hex2_lower (mac ! 3) @ hex2_lower (mac ! 4) @ hex2_lower (mac ! 5)"

definition effectiveHostname :: "string \<Rightarrow> u8 list \<Rightarrow> string" where
  "effectiveHostname saved mac = (if validHostname (Some saved) then saved else defaultHostname mac)"

section \<open>Links\<close>

datatype link_kind = STATION | ACCESS_POINT | ETHERNET

definition link_typeName :: "link_kind \<Rightarrow> string" where
  "link_typeName k = (if k = ETHERNET then ''ethernet'' else ''wifi'')"

datatype link_state = LS_CONNECTED | LS_CONNECTING | LS_DISCONNECTED | LS_ACCESS_POINT

record link_info =
  li_type :: string
  li_state :: link_state
  li_ip :: string
  li_gateway :: string
  li_mac :: "u8 list"
  li_dhcp :: bool
  li_ssid :: string
  li_rssi :: int
  li_has_rssi :: bool
  li_link_speed :: u16
  li_full_duplex :: bool

definition no_link_info :: link_info where
  "no_link_info = \<lparr>li_type = ''none'', li_state = LS_DISCONNECTED, li_ip = [], li_gateway = [], li_mac = replicate 6 0,
     li_dhcp = False, li_ssid = [], li_rssi = 0, li_has_rssi = False, li_link_speed = 0, li_full_duplex = False\<rparr>"

text \<open>A link is created once for each kind, with what it was created with; the kind stands for it.\<close>

record 'w net_io =
  ni_create :: "link_kind \<Rightarrow> string \<Rightarrow> string \<Rightarrow> string \<Rightarrow> 'w \<Rightarrow> 'w"
  ni_begin :: "link_kind \<Rightarrow> 'w \<Rightarrow> 'w"
  ni_end :: "link_kind \<Rightarrow> 'w \<Rightarrow> 'w"
  ni_loop :: "link_kind \<Rightarrow> u32 \<Rightarrow> 'w \<Rightarrow> 'w"
  ni_connected :: "link_kind \<Rightarrow> 'w \<Rightarrow> bool"
  ni_statusText :: "link_kind \<Rightarrow> 'w \<Rightarrow> string"
  ni_localIP :: "link_kind \<Rightarrow> 'w \<Rightarrow> string"
  ni_mac :: "link_kind \<Rightarrow> 'w \<Rightarrow> u8 list"
  ni_info :: "link_kind \<Rightarrow> 'w \<Rightarrow> link_info"
  ni_hostname :: "link_kind \<Rightarrow> 'w \<Rightarrow> string"
  ni_stations :: "'w \<Rightarrow> u32"

text \<open>\<open>nm_running\<close> is the model's: the links started and not stopped, in order.\<close>

record 'w net_manager =
  nm_active :: "link_kind option"
  nm_created :: "link_kind list"
  nm_savedHostname :: string
  nm_world :: 'w
  nm_running :: "link_kind list"

definition link_begin :: "'w net_io \<Rightarrow> link_kind \<Rightarrow> 'w net_manager \<Rightarrow> 'w net_manager" where
  "link_begin io k m = m\<lparr>nm_world := ni_begin io k (nm_world m), nm_running := nm_running m @ [k]\<rparr>"

definition link_end :: "'w net_io \<Rightarrow> link_kind \<Rightarrow> 'w net_manager \<Rightarrow> 'w net_manager" where
  "link_end io k m = m\<lparr>nm_world := ni_end io k (nm_world m), nm_running := remove1 k (nm_running m)\<rparr>"

definition sel_activate :: "'w net_io \<Rightarrow> link_kind option \<Rightarrow> 'w net_manager \<Rightarrow> 'w net_manager" where
  "sel_activate io link m =
     (if link = nm_active m then m
      else let m = (case nm_active m of Some k \<Rightarrow> link_end io k m | None \<Rightarrow> m);
               m = m\<lparr>nm_active := link\<rparr>
           in case link of Some k \<Rightarrow> link_begin io k m | None \<Rightarrow> m)"

definition sel_loop :: "'w net_io \<Rightarrow> u32 \<Rightarrow> 'w net_manager \<Rightarrow> 'w net_manager" where
  "sel_loop io now m = (case nm_active m of Some k \<Rightarrow> m\<lparr>nm_world := ni_loop io k now (nm_world m)\<rparr> | None \<Rightarrow> m)"

section \<open>The network service\<close>

definition nm_new :: "'w \<Rightarrow> 'w net_manager" where
  "nm_new w = \<lparr>nm_active = None, nm_created = [], nm_savedHostname = [], nm_world = w, nm_running = []\<rparr>"

definition create_link :: "'w net_io \<Rightarrow> link_kind \<Rightarrow> string \<Rightarrow> string \<Rightarrow> string \<Rightarrow> 'w net_manager \<Rightarrow> 'w net_manager" where
  "create_link io k a b c m =
     (if k \<in> set (nm_created m) then m
      else m\<lparr>nm_created := k # nm_created m, nm_world := ni_create io k a b c (nm_world m)\<rparr>)"

definition nm_begin :: "'w net_io \<Rightarrow> board_config \<Rightarrow> boot_plan \<Rightarrow> string \<Rightarrow> string \<Rightarrow> string \<Rightarrow> 'w net_manager \<Rightarrow> 'w net_manager" where
  "nm_begin io board plan ssid password saved_hostname m =
     (let m = m\<lparr>nm_savedHostname := saved_hostname\<rparr> in
      case np_link plan of
        WIFI_STATION \<Rightarrow> sel_activate io (Some STATION) (create_link io STATION ssid password saved_hostname m)
      | WIFI_ACCESS_POINT \<Rightarrow> sel_activate io (Some ACCESS_POINT) (create_link io ACCESS_POINT (bc_ap_ssid board) (bc_ap_password board) [] m)
      | ETHERNET_LINK \<Rightarrow>
          if bc_eth_type board \<noteq> EthNone
          then sel_activate io (Some ETHERNET) (create_link io ETHERNET [] [] saved_hostname m)
          else sel_activate io None m
      | NO_LINK \<Rightarrow> sel_activate io None m)"

definition nm_isConnected :: "'w net_io \<Rightarrow> 'w net_manager \<Rightarrow> bool" where
  "nm_isConnected io m = (case nm_active m of Some k \<Rightarrow> ni_connected io k (nm_world m) | None \<Rightarrow> False)"

definition nm_isApMode :: "'w net_manager \<Rightarrow> bool" where
  "nm_isApMode m \<longleftrightarrow> nm_active m = Some ACCESS_POINT"

definition nm_statusText :: "'w net_io \<Rightarrow> 'w net_manager \<Rightarrow> string" where
  "nm_statusText io m = (case nm_active m of Some k \<Rightarrow> ni_statusText io k (nm_world m) | None \<Rightarrow> ''Disconnected'')"

definition nm_typeName :: "'w net_manager \<Rightarrow> string" where
  "nm_typeName m = (case nm_active m of Some k \<Rightarrow> link_typeName k | None \<Rightarrow> ''none'')"

definition nm_localIP :: "'w net_io \<Rightarrow> 'w net_manager \<Rightarrow> string" where
  "nm_localIP io m = (case nm_active m of Some k \<Rightarrow> ni_localIP io k (nm_world m) | None \<Rightarrow> ''0.0.0.0'')"

definition nm_macAddress :: "'w net_io \<Rightarrow> 'w net_manager \<Rightarrow> u8 list" where
  "nm_macAddress io m = (case nm_active m of Some k \<Rightarrow> ni_mac io k (nm_world m) | None \<Rightarrow> replicate 6 0)"

definition nm_linkInfo :: "'w net_io \<Rightarrow> 'w net_manager \<Rightarrow> link_info" where
  "nm_linkInfo io m = (case nm_active m of Some k \<Rightarrow> ni_info io k (nm_world m) | None \<Rightarrow> no_link_info)"

definition nm_hostname :: "'w net_io \<Rightarrow> 'w net_manager \<Rightarrow> string" where
  "nm_hostname io m =
     (case nm_active m of None \<Rightarrow> []
      | Some k \<Rightarrow> let name = ni_hostname io k (nm_world m)
                 in if name \<noteq> [] then name else effectiveHostname (nm_savedHostname m) (ni_mac io k (nm_world m)))"

definition nm_defaultHostname :: "'w net_io \<Rightarrow> 'w net_manager \<Rightarrow> string" where
  "nm_defaultHostname io m = (case nm_active m of None \<Rightarrow> [] | Some k \<Rightarrow> defaultHostname (ni_mac io k (nm_world m)))"

definition nm_apStationCount :: "'w net_io \<Rightarrow> 'w net_manager \<Rightarrow> u32" where
  "nm_apStationCount io m = (if nm_isApMode m then ni_stations io (nm_world m) else 0)"

text \<open>The destructor.\<close>

definition nm_delete :: "'w net_io \<Rightarrow> 'w net_manager \<Rightarrow> 'w net_manager" where
  "nm_delete io m = (sel_activate io None m)\<lparr>nm_created := []\<rparr>"

section \<open>The timeout of the access point\<close>

record ap_timeout =
  ap_enabled :: bool
  ap_timeout_ms :: u32
  ap_idleSince :: u32
  ap_fired :: bool

definition AP_DEFAULT_TIMEOUT_MS :: u32 where "AP_DEFAULT_TIMEOUT_MS = 600000"

definition ap_new :: "bool \<Rightarrow> u32 \<Rightarrow> ap_timeout" where
  "ap_new enabled timeout_ms = \<lparr>ap_enabled = enabled, ap_timeout_ms = timeout_ms, ap_idleSince = 0, ap_fired = False\<rparr>"

definition ap_begin :: "u32 \<Rightarrow> ap_timeout \<Rightarrow> ap_timeout" where
  "ap_begin now a = a\<lparr>ap_idleSince := now, ap_fired := False\<rparr>"

definition ap_update :: "u32 \<Rightarrow> u32 \<Rightarrow> ap_timeout \<Rightarrow> bool \<times> ap_timeout" where
  "ap_update stations now a =
     (if \<not> ap_enabled a \<or> ap_fired a then (False, a)
      else if 0 < stations then (False, a\<lparr>ap_idleSince := now\<rparr>)
      else if ap_timeout_ms a \<le> now - ap_idleSince a then (True, a\<lparr>ap_fired := True\<rparr>)
      else (False, a))"

definition ap_msRemaining :: "u32 \<Rightarrow> ap_timeout \<Rightarrow> u32" where
  "ap_msRemaining now a =
     (if \<not> ap_enabled a \<or> ap_fired a then 0
      else let idle = now - ap_idleSince a in if ap_timeout_ms a \<le> idle then 0 else ap_timeout_ms a - idle)"

section \<open>Properties\<close>

text \<open>C39: The name the board gives to the network is always one that the DHCP client accepts: whatever
  was saved and whatever the MAC address, 1 to 32 letters, digits and hyphens, none at the ends.\<close>

theorem hostname_always_valid: "validHostname (Some (effectiveHostname saved mac))"
proof -
  have h: "isAsciiAlnum (hex_lower d) \<and> hex_lower d \<noteq> CHR ''-''" if "d < 16" for d
  proof (cases "d < 10")
    case True
    have "\<not> is_digit (CHR ''-'')" by (simp add: in_range_def ord_def)
    then have "digit d \<noteq> CHR ''-''" using is_digit_digit [OF True] by metis
    then show ?thesis using True is_digit_digit [OF True] by (simp add: hex_lower_def isAsciiAlnum_def)
  next
    case False
    then have o: "ord (hex_lower d) = 87 + d" using that by (simp add: hex_lower_def ord_def)
    then have "hex_lower d \<noteq> CHR ''-''" by (auto simp: ord_def)
    then show ?thesis using False that by (simp add: isAsciiAlnum_def in_range_def o) (simp add: ord_def)
  qed
  have b: "unat b div 16 < 16" "unat b mod 16 < 16" for b :: u8
    using unat_u8_bound [of b] by auto
  let ?P = "\<lambda>c. isAsciiAlnum c \<or> c = CHR ''-''"
  have p: "list_all ?P ''esp32-nut-''" by code_simp
  have x: "list_all ?P (hex2_lower b) \<and> length (hex2_lower b) = 2 \<and> hex2_lower b \<noteq> [] \<and> List.last (hex2_lower b) \<noteq> CHR ''-''" for b
    using h [OF b(1) [of b]] h [OF b(2) [of b]] by (simp add: hex2_lower_def)
  have "list_all ?P (defaultHostname mac)" unfolding defaultHostname_def list_all_append using p x by blast
  moreover have "length (defaultHostname mac) = 16" using x by (simp add: defaultHostname_def)
  moreover have "List.last (defaultHostname mac) \<noteq> CHR ''-''" using x [of "mac ! 5"] by (simp add: defaultHostname_def)
  moreover have "hd (defaultHostname mac) = CHR ''e''" by (simp add: defaultHostname_def)
  ultimately have "validHostname (Some (defaultHostname mac))"
    unfolding validHostname_def option.case HOSTNAME_MAX_def by (simp only: if_split) auto
  then show ?thesis by (simp add: effectiveHostname_def)
qed

text \<open>The running links are the active one, after any calls.\<close>

datatype net_call = NcBegin boot_plan string string string | NcLoop u32 | NcDelete

fun net_step :: "'w net_io \<Rightarrow> board_config \<Rightarrow> 'w net_manager \<Rightarrow> net_call \<Rightarrow> 'w net_manager \<times> unit" where
  "net_step io b m (NcBegin plan ssid pw name) = (nm_begin io b plan ssid pw name m, ())"
| "net_step io b m (NcLoop now) = (sel_loop io now m, ())"
| "net_step io b m NcDelete = (nm_delete io m, ())"

definition one_link :: "'w net_manager \<Rightarrow> bool" where
  "one_link m \<longleftrightarrow> nm_running m = (case nm_active m of None \<Rightarrow> [] | Some k \<Rightarrow> [k])"

lemma activate_one_link: "one_link m \<Longrightarrow> one_link (sel_activate io l m)"
  by (auto simp: one_link_def sel_activate_def link_begin_def link_end_def Let_def split: option.splits)

lemma create_one_link: "one_link m \<Longrightarrow> one_link (create_link io k a b c m)"
  by (simp add: one_link_def create_link_def)

lemma step_one_link: "one_link m \<Longrightarrow> one_link (fst (net_step io b m c))"
proof (cases c)
  case (NcBegin plan ssid pw name)
  assume "one_link m"
  then have "one_link (m\<lparr>nm_savedHostname := name\<rparr>)" by (simp add: one_link_def)
  then show ?thesis unfolding NcBegin net_step.simps fst_conv nm_begin_def Let_def
    by (cases "np_link plan") (simp_all add: activate_one_link create_one_link)
next
  case (NcLoop now)
  assume "one_link m"
  then show ?thesis by (simp add: NcLoop one_link_def sel_loop_def split: option.split)
next
  case NcDelete
  assume "one_link m"
  from activate_one_link [OF this, of io None] show ?thesis by (simp add: NcDelete nm_delete_def one_link_def)
qed

text \<open>Exactly one link runs: whatever is started, polled and torn down, the links started and not
  stopped are the active one and no other, so that the servers and the hostname refer to one address.\<close>

theorem one_link_runs: "nm_running (fst (run (net_step io b) (nm_new w) cs)) =
    (case nm_active (fst (run (net_step io b) (nm_new w) cs)) of None \<Rightarrow> [] | Some k \<Rightarrow> [k])"
proof -
  have "one_link m \<Longrightarrow> one_link (fst (run (net_step io b) m cs))" for m
    by (induction cs arbitrary: m) (simp_all add: run_Cons step_one_link)
  moreover have "one_link (nm_new w)" by (simp add: one_link_def nm_new_def)
  ultimately show ?thesis by (simp add: one_link_def)
qed

text \<open>The plan: an access point only with Wi-Fi, its timeout only when there is a configuration to go
  back to, and the recovery window only without Wi-Fi.\<close>

lemma boot_plan_sound:
  "let p = planNetwork wifi eth valid manual in
     (np_link p = WIFI_ACCESS_POINT \<longleftrightarrow> wifi \<and> (\<not> valid \<or> manual)) \<and> (np_link p = WIFI_STATION \<longleftrightarrow> wifi \<and> valid \<and> \<not> manual) \<and>
     (np_link p = ETHERNET_LINK \<longleftrightarrow> \<not> wifi \<and> eth) \<and> (np_ap_idle_timeout p \<longrightarrow> np_link p = WIFI_ACCESS_POINT \<and> valid) \<and>
     (np_recovery_window p \<longrightarrow> \<not> wifi) \<and> (np_default_config p \<longrightarrow> \<not> valid \<and> \<not> wifi)"
  by (cases wifi; cases eth; cases valid; cases manual) (simp_all add: planNetwork_def)

lemma ap_fires_idle: "fst (ap_update n now a) \<Longrightarrow> n = 0 \<and> ap_enabled a \<and> ap_msRemaining now a = 0 \<and> \<not> ap_fired a"
  by (auto simp: ap_update_def ap_msRemaining_def word_gt_0 split: if_splits)

lemma ap_fires_once: "fst (ap_update n now a) \<Longrightarrow> \<not> fst (ap_update n' now' (snd (ap_update n now a)))"
  by (auto simp: ap_update_def split: if_splits)

lemma sanitized_board:
  assumes "1 \<le> bc_led_level b" "bc_led_level b \<le> LED_LEVELS" "unat (bc_usb_port b) < length (bc_ports b)"
  shows "unat (bs_usb_port (sanitize_board b s)) < length (bc_ports b) \<and>
     ledBrightness (bs_led_level (sanitize_board b s)) \<in> {3, 5, 10, 20, 40} \<and> sanitize_board b (sanitize_board b s) = sanitize_board b s"
proof -
  have t: "ledBrightness l \<in> {3, 5, 10, 20, 40}" for l
  proof -
    have "\<forall>i < 5. [3, 5, 10, 20, 40 :: u8] ! i \<in> {3, 5, 10, 20, 40}" by code_simp
    moreover have "unat ((if l < 1 \<or> LED_LEVELS < l then LED_DEFAULT_LEVEL else l) - 1) < 5"
      by (auto simp: LED_LEVELS_def LED_DEFAULT_LEVEL_def word_less_nat_alt unat_sub word_le_nat_alt not_less)
    ultimately show ?thesis unfolding ledBrightness_def Let_def by blast
  qed
  show ?thesis using assms t by (auto simp: sanitize_board_def defaultsFor_def Let_def)
qed

end
