(* ===== verification/WebApi.thy ===== *)
theory WebApi
  imports HostServer WebAuth AutoShutdown NetCore TimeCore UsbDiagJson
begin

text \<open>
  The JSON of the web API (\<open>lib/WebApi/src/WebApiJson.cpp\<close>): the values, commands and variables of the
  UPS, and the bodies and checks of the settings pages. The parser and the printer of JSON are the
  operations \<open>json_io\<close>; a parse with no names keeps every member. A reply is its status and its body.
\<close>

section \<open>Values of a document\<close>

text \<open>\<open>is<int>()\<close>, \<open>isNull()\<close> and \<open>is<JsonObjectConst>()\<close>; a missing member is \<open>None\<close>.\<close>

definition json_int :: "json option \<Rightarrow> int option" where
  "json_int v = (case v of
      Some (JNat n) \<Rightarrow> if n \<le> 2147483647 then Some (int n) else None
    | Some (JInt i) \<Rightarrow> if - 2147483648 \<le> i \<and> i < 0 then Some i else None
    | _ \<Rightarrow> None)"

definition json_isNull :: "json option \<Rightarrow> bool" where
  "json_isNull v \<longleftrightarrow> v = None \<or> v = Some JNull"

definition json_isObject :: "json option \<Rightarrow> bool" where
  "json_isObject v = (case v of Some (JObject ms) \<Rightarrow> True | _ \<Rightarrow> False)"

definition number :: "int \<Rightarrow> json" where
  "number i = (if i < 0 then JInt i else JNat (nat i))"

text \<open>\<open>doc[key] = value\<close>.\<close>

fun json_set :: "(string \<times> json) list \<Rightarrow> string \<Rightarrow> json \<Rightarrow> (string \<times> json) list" where
  "json_set [] k v = [(k, v)]"
| "json_set (p # ps) k v = (if fst p = k then (k, v) # ps else p # json_set ps k v)"

type_synonym web_reply = "nat \<times> string"

definition error_text :: "string \<Rightarrow> string" where
  "error_text message = ''{'' @ json_quoted ''error'' @ '':'' @ json_quoted message @ ''}''"

definition sendError :: "nat \<Rightarrow> string \<Rightarrow> web_reply" where
  "sendError status message = (status, error_text message)"

section \<open>The values of the UPS\<close>

text \<open>Whether a text is taken for a number, and whether it has a dot.\<close>

fun numeric_scan :: "bool \<Rightarrow> bool \<Rightarrow> string \<Rightarrow> bool \<times> bool" where
  "numeric_scan first hasDot [] = (True, hasDot)"
| "numeric_scan first hasDot (c # cs) =
     (if first \<and> c = CHR ''-'' then numeric_scan False hasDot cs
      else if c = CHR ''.'' then (if hasDot then (False, hasDot) else numeric_scan False True cs)
      else if \<not> is_digit c then (False, hasDot) else numeric_scan False hasDot cs)"

text \<open>\<open>String::toInt\<close>, that is \<open>atol\<close>: a \<open>long\<close> of 32 bits, that saturates.\<close>

definition toInt :: "string \<Rightarrow> int" where
  "toInt s = max (- 2147483648) (min 2147483647 (atoi s))"

definition web_value :: "string \<Rightarrow> json" where
  "web_value s =
     (let (isNumeric, hasDot) = (if s = [] then (False, False) else numeric_scan True False s)
      in if isNumeric then (if hasDot then JRaw s else number (toInt s)) else JString s)"

definition generateUpsVars :: "json_io \<Rightarrow> 's ups_source option \<Rightarrow> 's \<Rightarrow> string" where
  "generateUpsVars ji ups s =
     (case ups of
        None \<Rightarrow> ''{'' @ json_quoted ''error'' @ '': '' @ json_quoted ''UPS non inizializzato'' @ ''}''
      | Some u \<Rightarrow>
          ji_print ji (JObject
            (if \<not> us_connected u s then json_set [(''_disconnected'', JBool True)] ''ups.status'' (JString ''Disconnected'')
             else let doc = [(''ups.status'', JString (us_status u s))];
                      doc = (if us_stale u s then json_set doc ''_stale'' (JBool True) else doc)
                  in fold (\<lambda>p doc. if starts_with (fst p) ''ups.status.'' \<and> fst p \<noteq> ''ups.status'' then doc else json_set doc (fst p) (web_value (snd p)))
                       (ud_parameters (us_data u s)) doc)))"

definition source_connected :: "'s ups_source option \<Rightarrow> 's \<Rightarrow> bool" where
  "source_connected ups s = (case ups of None \<Rightarrow> False | Some u \<Rightarrow> us_connected u s)"

definition generateUpsCommands :: "json_io \<Rightarrow> 's ups_source option \<Rightarrow> 's \<Rightarrow> string" where
  "generateUpsCommands ji ups s =
     ji_print ji (JObject [(''connected'', JBool (source_connected ups s)), (''commands'', JArray
       (case ups of Some u \<Rightarrow>
          if us_connected u s
          then map (\<lambda>c. JObject [(''name'', JString (ci_name c)), (''description'', JString (ci_description c)), (''destructive'', JBool (ci_destructive c))])
                 (us_commands u s)
          else []
        | None \<Rightarrow> []))])"

section \<open>Commands\<close>

definition MAX_COMMAND_BODY_LENGTH :: nat where "MAX_COMMAND_BODY_LENGTH = 256"

definition runUpsCommand :: "json_io \<Rightarrow> 's ups_source option \<Rightarrow> string \<Rightarrow> 's \<Rightarrow> web_reply \<times> 's" where
  "runUpsCommand ji ups body s =
     (if MAX_COMMAND_BODY_LENGTH < length body then (sendError 400 ''Invalid request'', s)
      else case Option.bind (ji_parse ji [''name''] body) (\<lambda>req. json_string (json_member req ''name'')) of
        None \<Rightarrow> (sendError 400 ''Invalid request'', s)
      | Some name \<Rightarrow>
          if name = [] then (sendError 400 ''Invalid request'', s)
          else case command_find (Some name) of
            None \<Rightarrow> (sendError 400 ''Command not supported'', s)
          | Some info \<Rightarrow>
              (case ups of
                 None \<Rightarrow> (sendError 503 ''UPS not connected'', s)
               | Some u \<Rightarrow>
                   let (r, s) = us_execute u (Some name) None s
                   in ((case r of
                          CmdOk \<Rightarrow> (200, ''{'' @ json_quoted ''success'' @ '':true}'')
                        | CmdNotSupported \<Rightarrow> sendError 400 ''Command not supported''
                        | CmdNotConnected \<Rightarrow> sendError 503 ''UPS not connected''
                        | CmdInvalidArgument \<Rightarrow> sendError 400 ''Invalid request''
                        | CmdFailed \<Rightarrow> sendError 500 ''Command rejected by the UPS''), s)))"

section \<open>Variables\<close>

definition sendValue :: "json_io \<Rightarrow> 's ups_source \<Rightarrow> string \<Rightarrow> 's \<Rightarrow> web_reply" where
  "sendValue ji u name s =
     (200, ji_print ji (JObject [(''success'', JBool True),
        (''value'', if us_connected u s then JString (ud_get (us_data u s) name []) else JNull)]))"

definition starts_ci :: "string \<Rightarrow> string \<Rightarrow> bool" where
  "starts_ci s pre \<longleftrightarrow> map lower (take (length pre) s) = map lower pre"

definition same_name :: "string \<Rightarrow> string \<Rightarrow> bool" where
  "same_name a b = equalsIgnoreCase (Some a) (Some b)"

text \<open>The name and, when it is asked for, the value.\<close>

definition parseVariableBody :: "json_io \<Rightarrow> string \<Rightarrow> bool \<Rightarrow> (string \<times> string) option" where
  "parseVariableBody ji body with_value =
     (if MAX_COMMAND_BODY_LENGTH < length body then None
      else case ji_parse ji ([''name''] @ (if with_value then [''value''] else [])) body of
        None \<Rightarrow> None
      | Some req \<Rightarrow>
          (case json_string (json_member req ''name'') of
             None \<Rightarrow> None
           | Some name \<Rightarrow>
               if name = [] then None
               else if with_value
               then (case json_string (json_member req ''value'') of None \<Rightarrow> None | Some val \<Rightarrow> Some (name, val))
               else Some (name, [])))"

definition isPrintableAscii :: "string \<Rightarrow> bool" where
  "isPrintableAscii s = list_all (\<lambda>c. \<not> (ord c < 0x20 \<or> 0x7E < ord c)) s"

text \<open>The source of a request that may write, or the error.\<close>

definition checkHost :: "'s ups_source option \<Rightarrow> 's \<Rightarrow> web_reply + 's ups_source" where
  "checkHost ups s =
     (case ups of None \<Rightarrow> Inl (sendError 503 ''UPS not connected'')
      | Some u \<Rightarrow> if \<not> us_connected u s then Inl (sendError 503 ''UPS not connected'')
                 else if us_stale u s then Inl (sendError 503 ''UPS data stale'') else Inr u)"

definition needsConfirmation :: "string option \<Rightarrow> bool" where
  "needsConfirmation name =
     (case name of None \<Rightarrow> False
      | Some n \<Rightarrow>
          if same_name n ''ups.shutdown'' \<or> same_name n ''outlet.switchable'' \<or> same_name n ''input.eco.switchable'' \<or>
             same_name n ''input.transfer.bypass.forced'' then True
          else if starts_ci n ''input.bypass.'' \<and> drop (length ''input.bypass.'') n \<noteq> [] then True
          else if starts_ci n ''outlet.''
          then (let p = drop (length ''outlet.'') n
                in if p = [] \<or> \<not> is_digit (hd p) then False else same_name (dropWhile is_digit p) ''.switchable'')
          else False)"

definition generateUpsVariables :: "json_io \<Rightarrow> 's ups_source option \<Rightarrow> nut_override list option \<Rightarrow> 's \<Rightarrow> string \<times> 's" where
  "generateUpsVariables ji ups ovs s =
     (let (items, s') = (case ups of
          Some u \<Rightarrow>
            if us_connected u s
            then let (rw, s) = us_writable u s
                 in (map (\<lambda>v. JObject ([(''name'', JString (rw_name v)),
                        (''description'', JString (case describe (Some (rw_name v)) of Some d \<Rightarrow> d | None \<Rightarrow> ''Description unavailable'')),
                        (''value'', JString (ud_get (us_data u s) (rw_name v) [])), (''max_length'', JNat (unat (rw_aux v))),
                        (''enum'', JArray (map JString (rw_enums v))), (''driver_side'', JBool (rw_driver_side v)),
                        (''confirm'', JBool (needsConfirmation (Some (rw_name v))))] @
                        (case no_find ovs (Some (rw_name v)) of Some ov \<Rightarrow> [(''override'', JString (no_value ov))] | None \<Rightarrow> []))) rw, s)
            else ([], s)
        | None \<Rightarrow> ([], s))
      in (ji_print ji (JObject [(''connected'', JBool (source_connected ups s)), (''variables'', JArray items)]), s'))"

definition OVERRIDDEN_VARIABLE_ERROR :: string where
  "OVERRIDDEN_VARIABLE_ERROR = ''Variable overridden in the NUT Server tab''"

text \<open>The reply, whether the write of the host was called, and the state.\<close>

definition runUpsVariable ::
    "json_io \<Rightarrow> 's ups_source option \<Rightarrow> string \<Rightarrow> nut_override list option \<Rightarrow> 's \<Rightarrow> (web_reply \<times> bool) \<times> 's" where
  "runUpsVariable ji ups body ovs s =
     (case parseVariableBody ji body True of
        None \<Rightarrow> ((sendError 400 ''Invalid request'', False), s)
      | Some (name, val) \<Rightarrow>
          if \<not> isPrintableAscii val then ((sendError 400 ''Invalid value'', False), s)
          else case checkHost ups s of
            Inl e \<Rightarrow> ((e, False), s)
          | Inr u \<Rightarrow>
              if no_find ovs (Some name) \<noteq> None then ((sendError 400 OVERRIDDEN_VARIABLE_ERROR, False), s)
              else let (rw, s) = us_writable u s
                   in case checkSetValue rw (Some name) (Some val) of
                        (CheckOk, Some var) \<Rightarrow>
                          (let (st, s) = us_set u (Some (rw_name var)) (Some val) s
                           in (((case st of
                                   SetOk \<Rightarrow> sendValue ji u (rw_name var) s
                                 | SetConversionFailed \<Rightarrow> sendError 400 ''Invalid value''
                                 | SetUnknown \<Rightarrow> sendError 400 ''Variable not supported''
                                 | SetNotConnected \<Rightarrow> sendError 503 ''UPS not connected''
                                 | SetFailed \<Rightarrow> sendError 500 ''Rejected by the UPS''), True), s))
                      | (CheckTooLong, Some var) \<Rightarrow>
                          ((sendError 400 (''Value too long (max '' @ dec (unat (rw_aux var)) @ '')''), False), s)
                      | (CheckInvalidValue, var) \<Rightarrow> ((sendError 400 ''Invalid value'', False), s)
                      | _ \<Rightarrow> ((sendError 400 ''Variable not writable'', False), s))"

text \<open>The reset of the host is not among the operations of the NUT server.\<close>

definition resetUpsVariable ::
    "json_io \<Rightarrow> 's ups_source option \<Rightarrow> (string option \<Rightarrow> 's \<Rightarrow> (set_status \<times> string) \<times> 's) \<Rightarrow> string \<Rightarrow> nut_override list option \<Rightarrow> 's \<Rightarrow>
      (web_reply \<times> bool) \<times> 's" where
  "resetUpsVariable ji ups reset body ovs s =
     (case parseVariableBody ji body False of
        None \<Rightarrow> ((sendError 400 ''Invalid request'', False), s)
      | Some (name, _) \<Rightarrow>
          (case checkHost ups s of
             Inl e \<Rightarrow> ((e, False), s)
           | Inr u \<Rightarrow>
               if no_find ovs (Some name) \<noteq> None then ((sendError 400 OVERRIDDEN_VARIABLE_ERROR, False), s)
               else let (rw, s) = us_writable u s
                    in case find (\<lambda>v. rw_driver_side v \<and> same_name (rw_name v) name) rw of
                         None \<Rightarrow> ((sendError 400 ''Not a driver-side variable'', False), s)
                       | Some v \<Rightarrow>
                           if rw_name v = [] then ((sendError 400 ''Not a driver-side variable'', False), s)
                           else let ((st, val), s) = reset (Some (rw_name v)) s
                                in (((case st of
                                        SetOk \<Rightarrow> sendValue ji u (rw_name v) s
                                      | SetUnknown \<Rightarrow> sendError 400 ''Not a driver-side variable''
                                      | SetNotConnected \<Rightarrow> sendError 503 ''UPS not connected''
                                      | _ \<Rightarrow> sendError 500 ''Could not save the setting''), True), s)))"

definition upsNameFromConfig :: "json option \<Rightarrow> string \<times> bool" where
  "upsNameFromConfig val =
     (case json_string val of
        None \<Rightarrow> (defaultUpsName, True)
      | Some name \<Rightarrow> if name = [] then (defaultUpsName, True) else (name, False))"

definition checkNutConfigBody :: "json \<Rightarrow> web_reply option" where
  "checkNutConfigBody body =
     (let name = json_member body ''ups_name''
      in if json_isNull name then None
         else case json_string name of
                Some n \<Rightarrow> if isValidUpsName n then None else Some (sendError 400 ''Invalid UPS name'')
              | None \<Rightarrow> Some (sendError 400 ''Invalid UPS name''))"

end
