(* ===== verification/WebSettings.thy ===== *)
theory WebSettings
  imports WebApi
begin

text \<open>
  The settings pages of the web API (\<open>lib/WebApi/src/WebApiJson.cpp\<close>): what each page is given, and the
  check of what it sends back. A check gives the new settings, or the error of a reply 400.
\<close>

section \<open>The board\<close>

definition boardSettingsJson :: "board_config \<Rightarrow> board_settings \<Rightarrow> shutdown_availability \<Rightarrow> json" where
  "boardSettingsJson board settings auto_sd =
     JObject ([(''id'', JString (bc_name board)), (''label'', JString (bc_label board))] @
       (if hasLed board
        then [(''led'', JObject [(''present'', JBool True), (''on'', JBool (bs_led_on settings)),
          (''level'', JNat (unat (bs_led_level settings))), (''levels'', JNat (unat LED_LEVELS))])]
        else []) @
       [(''usb'', JObject [(''ports'', JArray (map (\<lambda>p. JObject [(''id'', JString (up_id p)), (''label'', JString (up_label p))]) (bc_ports board))),
          (''port'', JString (up_id (bc_ports board ! unat (bs_usb_port settings))))]),
        (''auto_shutdown'', JObject ([(''on'', JBool (bs_auto_shutdown settings)), (''available'', JBool (auto_sd = AVAILABLE))] @
          (if auto_sd = NO_UPS then [(''reason'', JString ''no_ups'')] else []) @
          (if auto_sd = NO_COMMAND then [(''reason'', JString ''no_command'')] else [])))])"

text \<open>A member that may be missing changes the settings, or is refused.\<close>

definition member_step :: "json \<Rightarrow> string \<Rightarrow> (json \<Rightarrow> 's \<Rightarrow> string + 's) \<Rightarrow> string + 's \<Rightarrow> string + 's" where
  "member_step obj k f r = (case r of Inl e \<Rightarrow> Inl e | Inr s \<Rightarrow> (case json_member obj k of None \<Rightarrow> Inr s | Some v \<Rightarrow> f v s))"

definition find_port :: "usb_port list \<Rightarrow> string \<Rightarrow> nat option" where
  "find_port ports port_id = find (\<lambda>i. up_id (ports ! i) = port_id) (rev [0..<length ports])"

text \<open>The second part of the result is whether the board restarts.\<close>

definition checkBoardSettingsBody ::
    "json \<Rightarrow> board_config \<Rightarrow> board_settings \<Rightarrow> shutdown_availability \<Rightarrow> string + (board_settings \<times> bool)" where
  "checkBoardSettingsBody body board current auto_sd =
     (if \<not> json_isObject (Some body) then Inl ''Invalid request''
      else if (json_member body ''led_on'' \<noteq> None \<or> json_member body ''led_level'' \<noteq> None) \<and> \<not> hasLed board
      then Inl ''No status LED on this board''
      else member_step body ''auto_shutdown'' (\<lambda>v (s, restart).
             case json_bool (Some v) of None \<Rightarrow> Inl ''Invalid request''
             | Some on \<Rightarrow> if on \<and> auto_sd = NO_UPS then Inl ''UPS not connected''
                         else if on \<and> auto_sd = NO_COMMAND then Inl ''The UPS offers no shutdown command''
                         else Inr (s\<lparr>bs_auto_shutdown := on\<rparr>, restart))
          (member_step body ''usb_port'' (\<lambda>v (s, restart).
             case json_string (Some v) of None \<Rightarrow> Inl ''Invalid USB port''
             | Some i \<Rightarrow> (case find_port (bc_ports board) i of None \<Rightarrow> Inl ''Invalid USB port''
                          | Some n \<Rightarrow> Inr (s\<lparr>bs_usb_port := of_nat n\<rparr>, of_nat n \<noteq> bs_usb_port current)))
          (member_step body ''led_level'' (\<lambda>v (s, restart).
             case json_int (Some v) of None \<Rightarrow> Inl ''Invalid LED level''
             | Some level \<Rightarrow> if level < 1 \<or> int (unat LED_LEVELS) < level then Inl ''Invalid LED level''
                            else Inr (s\<lparr>bs_led_level := of_int level\<rparr>, restart))
          (member_step body ''led_on'' (\<lambda>v (s, restart).
             case json_bool (Some v) of None \<Rightarrow> Inl ''Invalid request'' | Some on \<Rightarrow> Inr (s\<lparr>bs_led_on := on\<rparr>, restart))
          (Inr (current, False))))))"

section \<open>The network\<close>

definition netStateName :: "link_state \<Rightarrow> string" where
  "netStateName st = (case st of LS_CONNECTED \<Rightarrow> ''connected'' | LS_CONNECTING \<Rightarrow> ''connecting'' | LS_ACCESS_POINT \<Rightarrow> ''ap''
     | LS_DISCONNECTED \<Rightarrow> ''disconnected'')"

definition hasAddress :: "string \<Rightarrow> bool" where
  "hasAddress a \<longleftrightarrow> a \<noteq> [] \<and> a \<noteq> ''0.0.0.0''"

definition mac_text :: "u8 list \<Rightarrow> string" where
  "mac_text mac =
     (let h = (\<lambda>i. map upper (hex2_lower (mac ! i)))
      in h 0 @ '':'' @ h 1 @ '':'' @ h 2 @ '':'' @ h 3 @ '':'' @ h 4 @ '':'' @ h 5)"

definition networkStatusJson :: "link_info \<Rightarrow> (string \<times> json) list" where
  "networkStatusJson info =
     [(''type'', JString (li_type info)), (''state'', JString (netStateName (li_state info)))] @
     (if hasAddress (li_ip info) then [(''ip'', JString (li_ip info))] else []) @
     (if hasAddress (li_gateway info) then [(''gateway'', JString (li_gateway info))] else []) @
     (if list_ex (\<lambda>i. li_mac info ! i \<noteq> 0) [0, 1, 2, 3, 4, 5] then [(''mac'', JString (mac_text (li_mac info)))] else []) @
     (if li_state info \<noteq> LS_ACCESS_POINT then [(''dhcp'', JBool (li_dhcp info))] else []) @
     (if li_type info = ''wifi''
      then (if li_ssid info \<noteq> [] then [(''ssid'', JString (li_ssid info))] else []) @
           (if li_has_rssi info then [(''rssi'', number (li_rssi info))] else [])
      else if li_type info = ''ethernet'' \<and> 0 < li_link_speed info
      then [(''link_speed'', JNat (unat (li_link_speed info))), (''full_duplex'', JBool (li_full_duplex info))]
      else [])"

definition networkLinksJson :: "board_config \<Rightarrow> json list" where
  "networkLinksJson board =
     (if bc_has_wifi board then [JString ''wifi''] else []) @ (if bc_has_ethernet board then [JString ''ethernet''] else [])"

definition INVALID_HOSTNAME_ERROR :: string where
  "INVALID_HOSTNAME_ERROR = ''Invalid hostname: use only letters, digits and hyphens, no hyphen at the start or end, at most 32 characters''"

definition checkHostnameBody :: "json \<Rightarrow> string + string" where
  "checkHostnameBody body =
     (case json_string (json_member body ''hostname'') of None \<Rightarrow> Inl ''Invalid request''
      | Some name \<Rightarrow> if name \<noteq> [] \<and> \<not> validHostname (Some name) then Inl INVALID_HOSTNAME_ERROR else Inr name)"

definition hostnameJson :: "string \<Rightarrow> string \<Rightarrow> string \<Rightarrow> json" where
  "hostnameJson in_use saved def = JObject [(''name'', JString in_use), (''custom'', JString saved), (''default'', JString def)]"

section \<open>Overrides of the NUT server\<close>

definition nutOverridesJson :: "nut_override list \<Rightarrow> 's ups_source option \<Rightarrow> 's \<Rightarrow> json" where
  "nutOverridesJson vs ups s =
     JObject [(''max'', JNat MAX_COUNT), (''max_value_length'', JNat MAX_VALUE_LENGTH), (''max_description_length'', JNat MAX_DESCRIPTION_LENGTH),
       (''overrides'', JArray (map (\<lambda>v. JObject [(''key'', JString (no_key v)), (''value'', JString (no_value v)), (''description'', JString (no_description v)),
          (''ups_value'', case ups of None \<Rightarrow> JNull
             | Some u \<Rightarrow>
                 if \<not> us_connected u s then JNull
                 else let key = map lower (no_key v); src = (case deviceAliasOf key of Some a \<Rightarrow> a | None \<Rightarrow> key)
                      in if ud_hasKey (us_data u s) src then JString (ud_get (us_data u s) src []) else JNull)]) vs))]"

definition MAX_OVERRIDES_BODY_LENGTH :: nat where "MAX_OVERRIDES_BODY_LENGTH = 6144"

definition override_body :: "json \<Rightarrow> nut_override option" where
  "override_body item =
     (let desc = json_member item ''description''
      in case (json_string (json_member item ''key''), json_string (json_member item ''value'')) of
           (Some k, Some v) \<Rightarrow>
             if json_isNull desc \<or> json_string desc \<noteq> None
             then Some \<lparr>no_key = k, no_value = v, no_description = (case json_string desc of Some d \<Rightarrow> d | None \<Rightarrow> [])\<rparr>
             else None
         | _ \<Rightarrow> None)"

definition checkNutOverridesBody :: "json_io \<Rightarrow> string \<Rightarrow> web_reply + nut_override list" where
  "checkNutOverridesBody ji body =
     (if MAX_OVERRIDES_BODY_LENGTH < length body then Inl (sendError 400 ''Invalid request'')
      else case ji_parse ji [] body of
        None \<Rightarrow> Inl (sendError 400 ''Invalid request'')
      | Some req \<Rightarrow>
          (case json_member req ''overrides'' of
             Some (JArray items) \<Rightarrow>
               (case those (map override_body items) of
                  None \<Rightarrow> Inl (sendError 400 ''Invalid request'')
                | Some next \<Rightarrow>
                    let (c, bad) = checkList next
                    in if c \<noteq> OvOk
                       then Inl (400, ji_print ji (JObject [(''error'', JString (no_errorMessage c (if bad < length next then no_key (next ! bad) else []))),
                              (''index'', JNat bad)]))
                       else Inr next)
           | _ \<Rightarrow> Inl (sendError 400 ''Invalid request'')))"

section \<open>The on-demand read\<close>

definition diagReadJson :: "diag_status \<Rightarrow> json" where
  "diagReadJson d = JObject [(''state'', JString (case ds_state d of DiagReading \<Rightarrow> ''reading'' | DiagDone \<Rightarrow> ''done''
       | DiagInterrupted \<Rightarrow> ''interrupted'' | DiagIdle \<Rightarrow> ''idle'')), (''total'', JNat (unat (ds_total d))), (''done'', JNat (unat (ds_done d))),
     (''read'', JNat (unat (ds_read d))), (''empty'', JNat (unat (ds_empty d))), (''failed'', JNat (unat (ds_failed d)))]"

section \<open>Remote logging\<close>

record syslog_status =
  ss_state :: syslog_state
  ss_target :: string
  ss_error :: string
  ss_stats :: log_stats

definition syslog_json :: "syslog_settings \<Rightarrow> json" where
  "syslog_json s = JObject [(''enabled'', JBool (sy_enabled s)), (''host'', JString (sy_host s)), (''port'', JNat (unat (sy_port s))),
     (''protocol'', JString (syslogProtocolName (sy_protocol s))),
     (''facility'', JString (case syslogFacilityName (sy_facility s) of Some f \<Rightarrow> f | None \<Rightarrow> ''local0'')),
     (''min_level'', JString (logLevelName (sy_min_level s))), (''rate'', JNat (unat (sy_rate s)))]"

definition remoteLogJson :: "syslog_settings \<Rightarrow> syslog_status \<Rightarrow> json" where
  "remoteLogJson s st =
     JObject [(''syslog'', syslog_json s),
       (''status'', JObject [(''syslog'', JObject [(''state'', JString (syslogStateName (ss_state st))), (''target'', JString (ss_target st)),
          (''error'', JString (ss_error st)), (''sent'', JNat (unat (ls_sent (ss_stats st)))), (''failed'', JNat (unat (ls_failed (ss_stats st)))),
          (''rate_limited'', JNat (unat (ls_rate_limited (ss_stats st)))), (''not_ready'', JNat (unat (ls_not_ready (ss_stats st))))])]),
       (''options'', JObject [(''protocols'', JArray [JString (syslogProtocolName RFC3164), JString (syslogProtocolName RFC5424)]),
          (''facilities'', JArray (map (\<lambda>f. JString (fst f)) SYSLOG_FACILITIES)),
          (''levels'', JArray (map (\<lambda>l. JString (logLevelName l)) [0, 1, 2])),
          (''rate_min'', JNat (unat MIN_RATE)), (''rate_max'', JNat (unat MAX_RATE))])]"

definition host_member :: "(string \<Rightarrow> bool) \<Rightarrow> (string \<Rightarrow> 's \<Rightarrow> 's) \<Rightarrow> json \<Rightarrow> 's \<Rightarrow> string + 's" where
  "host_member valid put v s =
     (case json_string (Some v) of None \<Rightarrow> Inl ''Invalid server''
      | Some host \<Rightarrow> let host = trim host in if host \<noteq> [] \<and> \<not> valid host then Inl ''Invalid server'' else Inr (put host s))"

definition named_member :: "(string option \<Rightarrow> 'v option) \<Rightarrow> string \<Rightarrow> ('v \<Rightarrow> 's \<Rightarrow> 's) \<Rightarrow> json \<Rightarrow> 's \<Rightarrow> string + 's" where
  "named_member parse err put v s =
     (case json_string (Some v) of None \<Rightarrow> Inl err | Some t \<Rightarrow> (case parse (Some t) of None \<Rightarrow> Inl err | Some x \<Rightarrow> Inr (put x s)))"

definition int_member :: "int \<Rightarrow> int \<Rightarrow> string \<Rightarrow> (int \<Rightarrow> 's \<Rightarrow> 's) \<Rightarrow> json \<Rightarrow> 's \<Rightarrow> string + 's" where
  "int_member lo hi err put v s =
     (case json_int (Some v) of None \<Rightarrow> Inl err | Some i \<Rightarrow> if i < lo \<or> hi < i then Inl err else Inr (put i s))"

definition bool_member :: "(bool \<Rightarrow> 's \<Rightarrow> 's) \<Rightarrow> json \<Rightarrow> 's \<Rightarrow> string + 's" where
  "bool_member put v s = (case json_bool (Some v) of None \<Rightarrow> Inl ''Invalid request'' | Some b \<Rightarrow> Inr (put b s))"

definition checkRemoteLogBody :: "json \<Rightarrow> syslog_settings \<Rightarrow> string + syslog_settings" where
  "checkRemoteLogBody body current =
     (if \<not> json_isObject (Some body) then Inl ''Invalid request''
      else case json_member body ''syslog'' of
        Some (JObject ms) \<Rightarrow>
          (let obj = JObject ms;
               r = member_step obj ''enabled'' (bool_member (\<lambda>b s. s\<lparr>sy_enabled := b\<rparr>)) (Inr current);
               r = member_step obj ''host'' (host_member validSyslogHost (\<lambda>h s. s\<lparr>sy_host := h\<rparr>)) r;
               r = member_step obj ''port'' (int_member 1 65535 ''Invalid port'' (\<lambda>i s. s\<lparr>sy_port := of_int i\<rparr>)) r;
               r = member_step obj ''protocol'' (named_member parseSyslogProtocol ''Invalid protocol'' (\<lambda>p s. s\<lparr>sy_protocol := p\<rparr>)) r;
               r = member_step obj ''facility'' (named_member parseSyslogFacility ''Invalid facility'' (\<lambda>f s. s\<lparr>sy_facility := f\<rparr>)) r;
               r = member_step obj ''min_level'' (named_member parseLogLevel ''Invalid level'' (\<lambda>l s. s\<lparr>sy_min_level := l\<rparr>)) r;
               r = member_step obj ''rate'' (int_member (uint MIN_RATE) (uint MAX_RATE) ''Invalid rate'' (\<lambda>i s. s\<lparr>sy_rate := of_int i\<rparr>)) r
           in case r of
                Inl e \<Rightarrow> Inl e
              | Inr s \<Rightarrow> if sy_enabled s \<and> sy_host s = [] then Inl ''Server required to enable syslog'' else Inr s)
      | _ \<Rightarrow> Inl ''Invalid request'')"

section \<open>Network time\<close>

record time_view =
  tv_state :: time_state
  tv_has_time :: bool
  tv_local :: string
  tv_abbr :: string
  tv_utc :: string
  tv_since_sync_s :: u32

definition time_json :: "time_settings \<Rightarrow> json" where
  "time_json t = JObject [(''ntp'', JBool (ts_ntp t)), (''server'', JString (ts_server t)), (''zone'', JString (ts_zone t))]"

definition timeJson :: "time_settings \<Rightarrow> time_view \<Rightarrow> json" where
  "timeJson t st =
     JObject [(''time'', time_json t),
       (''status'', JObject ([(''state'', JString (timeStateName (tv_state st)))] @
          (if tv_has_time st
           then [(''local'', JString (tv_local st)), (''abbr'', JString (tv_abbr st)), (''utc'', JString (tv_utc st)),
             (''since_sync_s'', JNat (unat (tv_since_sync_s st)))]
           else []))),
       (''options'', JObject [(''zones'', JArray (map (\<lambda>z. JString (fst z)) TIME_ZONES))])]"

definition checkTimeBody :: "json \<Rightarrow> time_settings \<Rightarrow> string + time_settings" where
  "checkTimeBody body current =
     (if \<not> json_isObject (Some body) then Inl ''Invalid request''
      else case json_member body ''time'' of
        Some (JObject ms) \<Rightarrow>
          (let obj = JObject ms;
               r = member_step obj ''ntp'' (bool_member (\<lambda>b s. s\<lparr>ts_ntp := b\<rparr>)) (Inr current);
               r = member_step obj ''server'' (host_member validNtpServer (\<lambda>h s. s\<lparr>ts_server := h\<rparr>)) r;
               r = member_step obj ''zone'' (named_member findTimeZone ''Invalid time zone'' (\<lambda>z s. s\<lparr>ts_zone := fst z\<rparr>)) r
           in case r of
                Inl e \<Rightarrow> Inl e
              | Inr s \<Rightarrow> if ts_ntp s \<and> ts_server s = [] then Inl ''Server required to enable NTP'' else Inr s)
      | _ \<Rightarrow> Inl ''Invalid request'')"

end
