(* ===== verification/WebProofs.thy ===== *)
theory WebProofs
  imports WebSettings
begin

text \<open>
  What a page sends back is what it was given; what a check lets through is what the settings keep when
  they are read back from the flash; and what the web API refuses is not sent to the UPS.
\<close>

section \<open>Remote logging\<close>

lemma find_code: "find (\<lambda>f. snd f = c) xs = Some x \<Longrightarrow> x \<in> set xs \<and> snd x = c"
  by (auto simp: find_Some_iff)

lemma facility_roundtrip: "syslogFacilityName c = Some n \<Longrightarrow> parseSyslogFacility (Some n) = Some c"
proof -
  have a: "\<forall>f \<in> set SYSLOG_FACILITIES. parseSyslogFacility (Some (fst f)) = Some (snd f)" by code_simp
  assume "syslogFacilityName c = Some n"
  then obtain x where "find (\<lambda>f. snd f = c) SYSLOG_FACILITIES = Some x" "n = fst x" by (auto simp: syslogFacilityName_def)
  with a find_code show ?thesis by metis
qed

lemma protocol_roundtrip: "p = RFC3164 \<or> p = RFC5424 \<Longrightarrow> parseSyslogProtocol (Some (syslogProtocolName p)) = Some p"
  by (auto simp: syslogProtocolName_def parseSyslogProtocol_def strcaseeq_def lower_def in_range_def ord_def)

lemma unat_2_u8: "unat (2 :: u8) = 2"
  by simp

lemma level_cases: "l < 3 \<Longrightarrow> l = 0 \<or> l = 1 \<or> l = (2 :: u8)"
proof -
  assume "l < 3"
  then have "unat l < 3" by (simp add: word_less_nat_alt)
  then have "unat l = 0 \<or> unat l = 1 \<or> unat l = 2" by arith
  then show ?thesis by (metis unat_0 unat_1 unat_2_u8 word_unat_eq_iff)
qed

lemma level_roundtrip: "l < 3 \<Longrightarrow> parseLogLevel (Some (logLevelName l)) = Some l"
proof -
  have "\<forall>l \<in> set [0, 1, 2]. parseLogLevel (Some (logLevelName l)) = Some l" by code_simp
  then show "l < 3 \<Longrightarrow> parseLogLevel (Some (logLevelName l)) = Some l" using level_cases [of l] by auto
qed

text \<open>The settings that \<open>sanitize\<close> leaves as they are.\<close>

definition sane_syslog :: "syslog_settings \<Rightarrow> bool" where
  "sane_syslog s \<longleftrightarrow>
     sy_port s \<noteq> 0 \<and> (sy_protocol s = RFC3164 \<or> sy_protocol s = RFC5424) \<and> syslogFacilityName (sy_facility s) \<noteq> None \<and> sy_min_level s < 3 \<and>
     \<not> (sy_rate s < MIN_RATE \<or> MAX_RATE < sy_rate s) \<and> (sy_host s = [] \<or> validSyslogHost (sy_host s)) \<and> (sy_enabled s \<longrightarrow> sy_host s \<noteq> [])"

lemma keep_let: "a = s \<Longrightarrow> f s = s \<Longrightarrow> (let x = a in f x) = s"
  by (simp add: Let_def)

lemma sane_kept:
  assumes "sane_syslog s"
  shows "sanitize_syslog s = s"
proof -
  have c: "\<not> sy_port s = 0" "\<not> (sy_protocol s \<noteq> RFC3164 \<and> sy_protocol s \<noteq> RFC5424)" "\<not> syslogFacilityName (sy_facility s) = None"
    "\<not> 3 \<le> sy_min_level s" "\<not> (sy_rate s < MIN_RATE \<or> MAX_RATE < sy_rate s)" "\<not> (sy_host s \<noteq> [] \<and> \<not> validSyslogHost (sy_host s))"
    using assms by (auto simp: sane_syslog_def not_le)
  have l: "(let d = syslogDefaults in f d) = f syslogDefaults" for f :: "syslog_settings \<Rightarrow> syslog_settings" by (simp add: Let_def)
  show ?thesis unfolding sanitize_syslog_def l
    by (rule keep_let, rule if_not_P [OF c(1)], rule keep_let, rule if_not_P [OF c(2)], rule keep_let, rule if_not_P [OF c(3)],
        rule keep_let, rule if_not_P [OF c(4)], rule keep_let, rule if_not_P [OF c(5)], rule keep_let, rule if_not_P [OF c(6)],
        use assms in \<open>cases s; auto simp: sane_syslog_def\<close>)
qed

lemma sane_let: "P a \<Longrightarrow> (\<And>s. P s \<Longrightarrow> sane_syslog (f s)) \<Longrightarrow> sane_syslog (let s = a in f s)"
  by (simp add: Let_def)

lemma sanitized_syslog: "sane_syslog (sanitize_syslog s)"
proof -
  have d: "syslogFacilityName SYSLOG_DEFAULT_FACILITY \<noteq> None" "SYSLOG_DEFAULT_PORT \<noteq> 0" "\<not> (DEFAULT_RATE < MIN_RATE \<or> MAX_RATE < DEFAULT_RATE)"
    by code_simp+
  define A where "A s \<longleftrightarrow> sy_port s \<noteq> 0" for s :: syslog_settings
  define B where "B s \<longleftrightarrow> A s \<and> (sy_protocol s = RFC3164 \<or> sy_protocol s = RFC5424)" for s :: syslog_settings
  define C where "C s \<longleftrightarrow> B s \<and> syslogFacilityName (sy_facility s) \<noteq> None" for s :: syslog_settings
  define D where "D s \<longleftrightarrow> C s \<and> sy_min_level s < 3" for s :: syslog_settings
  define E where "E s \<longleftrightarrow> D s \<and> \<not> (sy_rate s < MIN_RATE \<or> MAX_RATE < sy_rate s)" for s :: syslog_settings
  define F where "F s \<longleftrightarrow> E s \<and> (sy_host s = [] \<or> validSyslogHost (sy_host s))" for s :: syslog_settings
  show ?thesis unfolding sanitize_syslog_def
    by (rule sane_let [where P = "\<lambda>d. d = syslogDefaults"], rule refl,
        rule sane_let [where P = A], use d in \<open>simp add: A_def syslogDefaults_def\<close>,
        rule sane_let [where P = B], simp add: A_def B_def syslogDefaults_def,
        rule sane_let [where P = C], use d in \<open>simp add: A_def B_def C_def syslogDefaults_def\<close>,
        rule sane_let [where P = D], simp add: A_def B_def C_def D_def syslogDefaults_def not_le,
        rule sane_let [where P = E], use d in \<open>simp add: A_def B_def C_def D_def E_def syslogDefaults_def\<close>,
        rule sane_let [where P = F], simp add: A_def B_def C_def D_def E_def F_def,
        auto simp: A_def B_def C_def D_def E_def F_def sane_syslog_def Let_def)
qed

lemma sane_iff: "sanitize_syslog s = s \<longleftrightarrow> sane_syslog s"
  using sane_kept sanitized_syslog by metis

text \<open>A host name has no blank to trim.\<close>

lemma trim_host: "list_all host_char h \<Longrightarrow> trim h = h"
proof -
  have n: "host_char c \<Longrightarrow> \<not> is_space c" for c by (auto simp: host_char_def is_space_def in_range_def ord_def)
  have d: "list_all host_char xs \<Longrightarrow> dropWhile is_space xs = xs" for xs by (cases xs) (simp_all add: n)
  show "list_all host_char h \<Longrightarrow> trim h = h" by (simp add: trim_def d list_all_rev)
qed

lemma syslog_host_trim: "validSyslogHost h \<Longrightarrow> trim h = h"
  by (rule trim_host) (simp add: validSyslogHost_def split: if_splits)

lemma ntp_host_trim: "validNtpServer h \<Longrightarrow> trim h = h"
  by (rule trim_host) (simp add: validNtpServer_def split: if_splits)

lemma trim_Nil [simp]: "trim [] = []"
  by (simp add: trim_def)

lemma u16_bound: "uint (x :: u16) < 65536"
  using uint_bounded [of x] by simp

lemma u16_number: "json_int (Some (JNat (unat (x :: u16)))) = Some (uint x)"
proof -
  have "unat x < 65536" using unsigned_less [of x, where 'a = nat] by simp
  then show ?thesis by (simp add: json_int_def)
qed

lemma u16_range: "x \<noteq> 0 \<Longrightarrow> 1 \<le> uint (x :: u16) \<and> uint x \<le> 65535"
  using u16_bound [of x] by (simp add: uint_0_iff int_one_le_iff_zero_less order_less_le)

section \<open>Settings given and sent back\<close>

text \<open>C40: What the logging page was given it can send back: saved settings, read by the page and sent
  unchanged, are accepted and give the same settings, whatever those in use.\<close>

theorem remote_log_roundtrip:
  assumes "sanitize_syslog s = s"
  shows "checkRemoteLogBody (JObject [(''syslog'', the (json_member (remoteLogJson s st) ''syslog''))]) current = Inr s"
proof -
  have v: "sane_syslog s" using assms sane_iff by blast
  obtain f where f: "syslogFacilityName (sy_facility s) = Some f" using v by (auto simp: sane_syslog_def)
  have r: "\<not> (uint (sy_rate s) < uint MIN_RATE \<or> uint MAX_RATE < uint (sy_rate s))"
    using v unfolding sane_syslog_def word_less_def by blast
  have h: "sy_host s = [] \<or> validSyslogHost (sy_host s)" "trim (sy_host s) = sy_host s" "sy_enabled s \<longrightarrow> sy_host s \<noteq> []"
    using v by (auto simp: sane_syslog_def syslog_host_trim)
  have p: "1 \<le> uint (sy_port s) \<and> uint (sy_port s) \<le> 65535" using v u16_range by (simp add: sane_syslog_def)
  have m: "sy_min_level s < 3" "sy_protocol s = RFC3164 \<or> sy_protocol s = RFC5424" using v by (simp_all add: sane_syslog_def)
  show ?thesis
    using h r p f facility_roundtrip [OF f] protocol_roundtrip [OF m(2)] level_roundtrip [OF m(1)]
    by (simp add: checkRemoteLogBody_def remoteLogJson_def syslog_json_def json_isObject_def member_step_def bool_member_def host_member_def
        int_member_def named_member_def u16_number Let_def not_less)
qed

lemma remote_log_roundtrip_witness:
  "checkRemoteLogBody (JObject [(''syslog'', the (json_member (remoteLogJson (syslogDefaults\<lparr>sy_enabled := True, sy_host := ''log.lan'', sy_rate := 7\<rparr>)
     \<lparr>ss_state = SyDisabled, ss_target = [], ss_error = [], ss_stats = \<lparr>ls_sent = 0, ls_failed = 0, ls_rate_limited = 0, ls_not_ready = 0\<rparr>\<rparr>) ''syslog''))])
     syslogDefaults = Inr (syslogDefaults\<lparr>sy_enabled := True, sy_host := ''log.lan'', sy_rate := 7\<rparr>)"
proof -
  have "sanitize_syslog (syslogDefaults\<lparr>sy_enabled := True, sy_host := ''log.lan'', sy_rate := 7\<rparr>) =
      syslogDefaults\<lparr>sy_enabled := True, sy_host := ''log.lan'', sy_rate := 7\<rparr>" by code_simp
  then show ?thesis by (rule remote_log_roundtrip)
qed

definition gives :: "('s \<Rightarrow> bool) \<Rightarrow> string + 's \<Rightarrow> bool" where
  "gives P r \<longleftrightarrow> (\<forall>s. r = Inr s \<longrightarrow> P s)"

lemma gives_step: "gives P r \<Longrightarrow> (\<And>v s. P s \<Longrightarrow> gives P (f v s)) \<Longrightarrow> gives P (member_step obj k f r)"
  by (auto simp: gives_def member_step_def split: sum.splits option.splits)

lemma gives_members:
  "(\<And>h. h = [] \<or> valid h \<Longrightarrow> P (put1 h s)) \<Longrightarrow> gives P (host_member valid put1 v s)"
  "(\<And>t x. parse t = Some x \<Longrightarrow> P (put2 x s)) \<Longrightarrow> gives P (named_member parse err put2 v s)"
  "(\<And>i. lo \<le> i \<Longrightarrow> i \<le> hi \<Longrightarrow> P (put3 i s)) \<Longrightarrow> gives P (int_member lo hi err put3 v s)"
  "(\<And>b. P (put4 b s)) \<Longrightarrow> gives P (bool_member put4 v s)"
  by (auto simp: gives_def host_member_def named_member_def int_member_def bool_member_def Let_def split: option.splits)

text \<open>All but the server of the settings switched on, which is checked at the end.\<close>

definition sane_fields :: "syslog_settings \<Rightarrow> bool" where
  "sane_fields s \<longleftrightarrow> sy_port s \<noteq> 0 \<and> (sy_protocol s = RFC3164 \<or> sy_protocol s = RFC5424) \<and> syslogFacilityName (sy_facility s) \<noteq> None \<and> sy_min_level s < 3 \<and>
     \<not> (sy_rate s < MIN_RATE \<or> MAX_RATE < sy_rate s) \<and> (sy_host s = [] \<or> validSyslogHost (sy_host s))"

lemma web_find_member: "find P xs = Some x \<Longrightarrow> x \<in> set xs"
  by (auto simp: find_Some_iff)

lemma parsed_named:
  "parseSyslogProtocol t = Some p \<Longrightarrow> p = RFC3164 \<or> p = RFC5424"
  "parseSyslogFacility t = Some c \<Longrightarrow> syslogFacilityName c \<noteq> None"
  "parseLogLevel t = Some l \<Longrightarrow> l < 3"
proof -
  show "parseSyslogProtocol t = Some p \<Longrightarrow> p = RFC3164 \<or> p = RFC5424"
    by (auto simp: parseSyslogProtocol_def split: option.splits if_splits)
  have f: "\<forall>f \<in> set SYSLOG_FACILITIES. syslogFacilityName (snd f) \<noteq> None" by code_simp
  show "parseSyslogFacility t = Some c \<Longrightarrow> syslogFacilityName c \<noteq> None"
    using f by (auto simp: parseSyslogFacility_def find_Some_iff split: option.splits) (metis nth_mem option.distinct(1) snd_conv)
  show "parseLogLevel t = Some l \<Longrightarrow> l < 3"
    by (auto simp: parseLogLevel_def simp del: find.simps dest!: web_find_member split: option.splits)
qed

lemma u16_of_range: "1 \<le> i \<Longrightarrow> i \<le> 65535 \<Longrightarrow> uint (of_int i :: u16) = i"
  by (simp add: uint_word_of_int)

lemma port_member: "1 \<le> i \<Longrightarrow> i \<le> 65535 \<Longrightarrow> (of_int i :: u16) \<noteq> 0"
  using u16_of_range by fastforce

lemma rate_member:
  assumes "uint MIN_RATE \<le> i" "i \<le> uint MAX_RATE"
  shows "\<not> ((of_int i :: u16) < MIN_RATE \<or> MAX_RATE < (of_int i :: u16))"
proof -
  have "uint (of_int i :: u16) = i" using assms by (intro u16_of_range) (simp_all add: MIN_RATE_def MAX_RATE_def)
  then show ?thesis using assms by (simp add: word_less_def)
qed

text \<open>The members of an accepted body are in range, and the others are those of before.\<close>

lemma accepted_sane:
  assumes "checkRemoteLogBody body current = Inr s" "sane_syslog current"
  shows "sane_syslog s"
proof -
  have c: "sane_fields current" using assms(2) by (simp add: sane_fields_def sane_syslog_def)
  obtain ms r where r: "member_step (JObject ms) ''rate'' (int_member (uint MIN_RATE) (uint MAX_RATE) ''Invalid rate'' (\<lambda>i s. s\<lparr>sy_rate := of_int i\<rparr>)) r = Inr s"
    "r = member_step (JObject ms) ''min_level'' (named_member parseLogLevel ''Invalid level'' (\<lambda>l s. s\<lparr>sy_min_level := l\<rparr>))
       (member_step (JObject ms) ''facility'' (named_member parseSyslogFacility ''Invalid facility'' (\<lambda>f s. s\<lparr>sy_facility := f\<rparr>))
       (member_step (JObject ms) ''protocol'' (named_member parseSyslogProtocol ''Invalid protocol'' (\<lambda>p s. s\<lparr>sy_protocol := p\<rparr>))
       (member_step (JObject ms) ''port'' (int_member 1 65535 ''Invalid port'' (\<lambda>i s. s\<lparr>sy_port := of_int i\<rparr>))
       (member_step (JObject ms) ''host'' (host_member validSyslogHost (\<lambda>h s. s\<lparr>sy_host := h\<rparr>))
       (member_step (JObject ms) ''enabled'' (bool_member (\<lambda>b s. s\<lparr>sy_enabled := b\<rparr>)) (Inr current))))))"
    and e: "\<not> (sy_enabled s \<and> sy_host s = [])"
    using assms(1) by (auto simp: checkRemoteLogBody_def Let_def split: if_splits option.splits json.splits sum.splits)
  have "gives sane_fields (member_step (JObject ms) ''rate'' (int_member (uint MIN_RATE) (uint MAX_RATE) ''Invalid rate'' (\<lambda>i s. s\<lparr>sy_rate := of_int i\<rparr>)) r)"
    unfolding r(2)
    by (intro gives_step gives_members; use c in \<open>auto simp: gives_def sane_fields_def dest!: parsed_named dest: port_member rate_member\<close>)
  then have "sane_fields s" using r(1) by (simp add: gives_def)
  then show ?thesis using e by (auto simp: sane_fields_def sane_syslog_def)
qed

text \<open>C16: What the logging page accepts is what the board keeps: after an accepted body the settings are
  those that \<open>sanitize\<close> leaves as they are, so that they come back from the flash unchanged.\<close>

theorem accepted_settings_kept:
  assumes "checkRemoteLogBody body current = Inr s" "sanitize_syslog current = current"
  shows "sanitize_syslog s = s"
  using accepted_sane [OF assms(1)] assms(2) by (simp add: sane_iff)

definition log_body :: json where
  "log_body = JObject [(''syslog'', JObject [(''enabled'', JBool True), (''host'', JString '' log.lan ''), (''port'', JNat 1514), (''rate'', JNat 7)])]"

theorem accepted_settings_kept_witness:
  "\<exists>s. checkRemoteLogBody log_body syslogDefaults = Inr s \<and> sy_port s = 1514 \<and> sanitize_syslog s = s"
proof -
  have a: "checkRemoteLogBody log_body syslogDefaults = Inr (syslogDefaults\<lparr>sy_enabled := True, sy_host := ''log.lan'', sy_port := 1514, sy_rate := 7\<rparr>)"
    by (simp add: checkRemoteLogBody_def log_body_def json_isObject_def json_int_def member_step_def bool_member_def host_member_def int_member_def
        validSyslogHost_def SYSLOG_HOST_MAX_def trim_def is_space_def host_char_def in_range_def ord_def MIN_RATE_def MAX_RATE_def)
  have b: "sanitize_syslog syslogDefaults = syslogDefaults" by code_simp
  show ?thesis using a accepted_settings_kept [OF a b] by simp
qed

section \<open>What the web API refuses\<close>

context quiet_source
begin

lemma web_command_quiet:
  assumes "fst (fst (runUpsCommand ji (Some u) body s)) \<notin> {200, 500}"
  shows "sent (snd (runUpsCommand ji (Some u) body s)) = sent s"
proof -
  have "sent (snd (us_execute u n p s)) = sent s"
    if "fst (us_execute u n p s) \<in> {CmdNotSupported, CmdNotConnected, CmdInvalidArgument}" for n p
    using execute_refused that by force
  then show ?thesis
    using assms by (auto simp: runUpsCommand_def Let_def split_beta sendError_def split: option.splits if_splits command_result.splits)
qed

lemma web_page_quiet: "sent (snd (generateUpsVariables ji (Some u) ovs s)) = sent s"
  using writable_sent by (simp add: generateUpsVariables_def Let_def split_beta)

end

text \<open>The name that a command page asks for.\<close>

definition asked_command :: "json_io \<Rightarrow> string \<Rightarrow> string option" where
  "asked_command ji body =
     (if MAX_COMMAND_BODY_LENGTH < length body then None
      else Option.bind (ji_parse ji [''name''] body) (\<lambda>req. json_string (json_member req ''name'')))"

lemma set_unchanged:
  assumes "fst (host_setVariable io name val now h) \<noteq> SetOk" "fst (host_setVariable io name val now h) \<noteq> SetFailed"
  shows "snd (host_setVariable io name val now h) = h"
proof -
  have "fst (saveDriverSideValue io p g) = SetFailed" if "fst (saveDriverSideValue io p g) \<noteq> SetOk" for p and g :: "'a usb_host"
    using that
    by (auto simp: saveDriverSideValue_def Let_def split_beta split: if_splits)
  moreover have "fst (writePlannedValue io p now g) = SetFailed" if "fst (writePlannedValue io p now g) \<noteq> SetOk" for p and g :: "'a usb_host"
    using that
    by (auto simp: writePlannedValue_def Let_def split_beta split: set_plan.splits if_splits)
  ultimately show ?thesis
    using assms by (auto simp: host_setVariable_def setVariable_def host_port_def host_port_of_def split: option.splits sum.splits set_plan.splits)
qed

lemma source_parts [simp]:
  "us_connected (host_source toFloat io now) = uh_ready" "us_stale (host_source toFloat io now) = (\<lambda>h. isDataStale h now)"
  "us_writable (host_source toFloat io now) = getWritableVariables"
  "us_set (host_source toFloat io now) = (\<lambda>n v. host_setVariable io n v now)"
  "us_execute (host_source toFloat io now) = (\<lambda>n p. host_executeCommand io n p now)"
  by (simp_all add: host_source_def)

lemma variable_refused:
  "fst (fst (fst (runUpsVariable ji (Some (host_source toFloat io now)) body ovs h))) \<in> {200, 500} \<or>
     uh_sent (snd (runUpsVariable ji (Some (host_source toFloat io now)) body ovs h)) = uh_sent h"
proof -
  have w: "uh_sent (snd (getWritableVariables h)) = uh_sent h" using host_quiet.writable_sent [of toFloat io now h] by simp
  have s: "uh_sent (snd (host_setVariable io n v now g)) = uh_sent g"
    if "fst (host_setVariable io n v now g) \<in> {SetConversionFailed, SetUnknown, SetNotConnected}" for n v and g :: "'a usb_host"
    using set_unchanged [of io n v now g] that by auto
  show ?thesis
    using w s [of _ _ "snd (getWritableVariables h)"]
    by (auto simp: runUpsVariable_def checkHost_def sendError_def sendValue_def Let_def split_beta split: option.split set_check.split set_status.split)
qed

lemma command_refused:
  "fst (fst (runUpsCommand ji (Some (host_source toFloat io now)) body h)) \<in> {200, 500} \<or>
     uh_sent (snd (runUpsCommand ji (Some (host_source toFloat io now)) body h)) = uh_sent h"
  using host_quiet.web_command_quiet by blast

lemma command_checked:
  assumes "fst (host_executeCommand io (Some name) None now h) = r" "r \<noteq> CmdNotConnected" "r \<noteq> CmdNotSupported"
  shows "uh_ready h \<and> list_ex (\<lambda>c. ci_name c = name) (supportedCommands (host_port io now) h)"
  using assms by (auto simp: host_executeCommand_def note_command_def hc_executeCommand_def host_port_def host_port_of_def split: if_splits)

text \<open>C18: What the web API refuses is not sent to the UPS. A page that sets a variable or runs a command and is
  answered with any status but 200 and 500 leaves what went out to the UPS as it was. And it is refused, with
  400 or 503, when it has to be: a value that is not printable, no UPS, stale data, a variable
  that the NUT tab overrides, one that is not writable or a value that is not one of its own; a
  body that names no command, no UPS, or a command that the UPS does not offer.\<close>

theorem web_refusal_sends_nothing:
  "(let ((reply, asked), h') = runUpsVariable ji (Some (host_source toFloat io now)) body ovs h
    in (fst reply \<in> {200, 500} \<or> uh_sent h' = uh_sent h) \<and>
       (case parseVariableBody ji body True of
          None \<Rightarrow> fst reply = 400
        | Some (name, val) \<Rightarrow>
            isPrintableAscii val \<and> uh_ready h \<and> \<not> isDataStale h now \<and> no_find ovs (Some name) = None \<and>
              fst (checkSetValue (fst (getWritableVariables h)) (Some name) (Some val)) = CheckOk \<or>
            fst reply \<in> {400, 503})) \<and>
   (let (reply, h') = runUpsCommand ji (Some (host_source toFloat io now)) body h
    in (fst reply \<in> {200, 500} \<or> uh_sent h' = uh_sent h) \<and>
       (case asked_command ji body of
          None \<Rightarrow> fst reply = 400
        | Some name \<Rightarrow>
            uh_ready h \<and> list_ex (\<lambda>c. ci_name c = name) (supportedCommands (host_port io now) h) \<or>
            fst reply \<in> {400, 503}))"
proof -
  note v = variable_refused [of ji toFloat io now body ovs h] and c = command_refused [of ji toFloat io now body h]
  have v2: "case parseVariableBody ji body True of
          None \<Rightarrow> fst (fst (fst (runUpsVariable ji (Some (host_source toFloat io now)) body ovs h))) = 400
        | Some (name, val) \<Rightarrow>
            isPrintableAscii val \<and> uh_ready h \<and> \<not> isDataStale h now \<and> no_find ovs (Some name) = None \<and>
              fst (checkSetValue (fst (getWritableVariables h)) (Some name) (Some val)) = CheckOk \<or>
            fst (fst (fst (runUpsVariable ji (Some (host_source toFloat io now)) body ovs h))) \<in> {400, 503}"
    by (auto simp: runUpsVariable_def checkHost_def sendError_def Let_def split_beta split: option.split set_check.split)
  have c2: "case asked_command ji body of
          None \<Rightarrow> fst (fst (runUpsCommand ji (Some (host_source toFloat io now)) body h)) = 400
        | Some name \<Rightarrow>
            uh_ready h \<and> list_ex (\<lambda>c. ci_name c = name) (supportedCommands (host_port io now) h) \<or>
            fst (fst (runUpsCommand ji (Some (host_source toFloat io now)) body h)) \<in> {400, 503}"
    using command_checked [of io _ now h CmdOk] command_checked [of io _ now h CmdFailed]
    by (auto simp: runUpsCommand_def asked_command_def sendError_def Let_def split_beta split: option.split command_result.split)
  show ?thesis using v v2 c c2 by (simp add: Let_def split_beta)
qed

section \<open>Texts taken for numbers\<close>

text \<open>The value page takes for a number every text of digits with at most one dot and one sign, and writes
  it as it is when it has a dot: a dot alone goes out raw, which is no JSON value; and a long row of
  digits, as a serial number, becomes the greatest number of 32 bits.\<close>

lemma dot_is_no_number:
  "web_value ''.'' = JRaw ''.''" "web_value ''5.'' = JRaw ''5.''" "web_value ''007'' = JNat 7" "web_value ''9876543210'' = JNat 2147483647"
  by (simp_all add: web_value_def in_range_def ord_def number_def toInt_def atoi_def skip_spaces_def read_sign_def digits_value_def
      isSpaceChar_def digit_value_def)

end
