(* ===== verification/BoardStores.thy ===== *)
theory BoardStores
  imports WebSettings KeyValue
begin

text \<open>
  The settings in the flash: the stores of \<open>src/core\<close> (\<open>board_settings_store.cpp\<close>, \<open>hostname_store.cpp\<close>,
  \<open>log_settings_store.cpp\<close>, \<open>time_settings_store.cpp\<close>, \<open>nut_override_store.cpp\<close>, \<open>driver_var_store.cpp\<close>) and
  the configuration (\<open>config_manager.cpp\<close>). The Preferences library is the operations \<open>prefs_io\<close> on an
  unknown state \<open>'f\<close>; a key holds a value of one type.
\<close>

section \<open>Preferences\<close>

datatype pref = PfBool bool | PfU8 u8 | PfU16 u16 | PfStr string | PfBytes string

text \<open>\<open>begin\<close> of a namespace, read-only or not; the value of a key; a put, with the count it returns; and a
  removal.\<close>

record 'f prefs_io =
  pf_begin :: "string \<Rightarrow> bool \<Rightarrow> 'f \<Rightarrow> bool \<times> 'f"
  pf_get :: "string \<Rightarrow> string \<Rightarrow> 'f \<Rightarrow> pref option"
  pf_put :: "string \<Rightarrow> string \<Rightarrow> pref \<Rightarrow> 'f \<Rightarrow> nat \<times> 'f"
  pf_remove :: "string \<Rightarrow> string \<Rightarrow> 'f \<Rightarrow> bool \<times> 'f"

definition getBool :: "'f prefs_io \<Rightarrow> string \<Rightarrow> string \<Rightarrow> bool \<Rightarrow> 'f \<Rightarrow> bool" where
  "getBool io ns k d f = (case pf_get io ns k f of Some (PfBool b) \<Rightarrow> b | _ \<Rightarrow> d)"

definition getUChar :: "'f prefs_io \<Rightarrow> string \<Rightarrow> string \<Rightarrow> u8 \<Rightarrow> 'f \<Rightarrow> u8" where
  "getUChar io ns k d f = (case pf_get io ns k f of Some (PfU8 b) \<Rightarrow> b | _ \<Rightarrow> d)"

definition getUShort :: "'f prefs_io \<Rightarrow> string \<Rightarrow> string \<Rightarrow> u16 \<Rightarrow> 'f \<Rightarrow> u16" where
  "getUShort io ns k d f = (case pf_get io ns k f of Some (PfU16 b) \<Rightarrow> b | _ \<Rightarrow> d)"

definition getString :: "'f prefs_io \<Rightarrow> string \<Rightarrow> string \<Rightarrow> string \<Rightarrow> 'f \<Rightarrow> string" where
  "getString io ns k d f = (case pf_get io ns k f of Some (PfStr s) \<Rightarrow> s | _ \<Rightarrow> d)"

definition isKey :: "'f prefs_io \<Rightarrow> string \<Rightarrow> string \<Rightarrow> 'f \<Rightarrow> bool" where
  "isKey io ns k f \<longleftrightarrow> pf_get io ns k f \<noteq> None"

text \<open>A chain of puts joined with \<open>&&\<close>: it stops at the first that writes nothing.\<close>

fun put_all :: "'f prefs_io \<Rightarrow> string \<Rightarrow> (string \<times> pref) list \<Rightarrow> 'f \<Rightarrow> bool \<times> 'f" where
  "put_all io ns [] f = (True, f)"
| "put_all io ns (kv # kvs) f =
     (let (n, f) = pf_put io ns (fst kv) (snd kv) f in if 0 < n then put_all io ns kvs f else (False, f))"

section \<open>The Board page\<close>

definition load_board :: "'f prefs_io \<Rightarrow> board_config \<Rightarrow> 'f \<Rightarrow> board_settings \<times> 'f" where
  "load_board io board f =
     (let s = defaultsFor board; (ok, f) = pf_begin io ''board'' True f
      in if \<not> ok then (s, f)
         else (sanitize_board board
                 \<lparr>bs_led_on = getBool io ''board'' ''led_on'' (bs_led_on s) f,
                  bs_led_level = getUChar io ''board'' ''led_level'' (bs_led_level s) f,
                  bs_usb_port = getUChar io ''board'' ''usb_port'' (bs_usb_port s) f,
                  bs_auto_shutdown = getBool io ''board'' ''auto_sd'' (bs_auto_shutdown s) f\<rparr>, f))"

definition save_board :: "'f prefs_io \<Rightarrow> board_settings \<Rightarrow> 'f \<Rightarrow> bool \<times> 'f" where
  "save_board io s f =
     (let (ok, f) = pf_begin io ''board'' False f
      in if \<not> ok then (False, f)
         else put_all io ''board'' [(''led_on'', PfBool (bs_led_on s)), (''led_level'', PfU8 (bs_led_level s)),
                (''usb_port'', PfU8 (bs_usb_port s)), (''auto_sd'', PfBool (bs_auto_shutdown s))] f)"

section \<open>Remote logging and network time\<close>

definition loadSyslog :: "'f prefs_io \<Rightarrow> 'f \<Rightarrow> syslog_settings \<times> 'f" where
  "loadSyslog io f =
     (let s = syslogDefaults; (ok, f) = pf_begin io ''logout'' True f
      in if \<not> ok then (s, f)
         else (sanitize_syslog
                 \<lparr>sy_enabled = getBool io ''logout'' ''sl_on'' (sy_enabled s) f,
                  sy_host = getString io ''logout'' ''sl_host'' (sy_host s) f,
                  sy_port = getUShort io ''logout'' ''sl_port'' (sy_port s) f,
                  sy_protocol = getUChar io ''logout'' ''sl_proto'' (sy_protocol s) f,
                  sy_facility = getUChar io ''logout'' ''sl_fac'' (sy_facility s) f,
                  sy_min_level = getUChar io ''logout'' ''sl_lvl'' (sy_min_level s) f,
                  sy_rate = getUShort io ''logout'' ''sl_rate'' (sy_rate s) f\<rparr>, f))"

definition saveSyslog :: "'f prefs_io \<Rightarrow> syslog_settings \<Rightarrow> 'f \<Rightarrow> bool \<times> 'f" where
  "saveSyslog io s f =
     (let (ok, f) = pf_begin io ''logout'' False f
      in if \<not> ok then (False, f)
         else let (n, f) = pf_put io ''logout'' ''sl_host'' (PfStr (sy_host s)) f
              in if getString io ''logout'' ''sl_host'' [] f \<noteq> sy_host s then (False, f)
                 else put_all io ''logout'' [(''sl_on'', PfBool (sy_enabled s)), (''sl_port'', PfU16 (sy_port s)),
                        (''sl_proto'', PfU8 (sy_protocol s)), (''sl_fac'', PfU8 (sy_facility s)),
                        (''sl_lvl'', PfU8 (sy_min_level s)), (''sl_rate'', PfU16 (sy_rate s))] f)"

definition loadTime :: "'f prefs_io \<Rightarrow> 'f \<Rightarrow> time_settings \<times> 'f" where
  "loadTime io f =
     (let s = timeDefaults; (ok, f) = pf_begin io ''time'' True f
      in if \<not> ok then (s, f)
         else (sanitize_time
                 \<lparr>ts_ntp = getBool io ''time'' ''ntp'' (ts_ntp s) f, ts_server = getString io ''time'' ''server'' (ts_server s) f,
                  ts_zone = getString io ''time'' ''zone'' (ts_zone s) f\<rparr>, f))"

definition saveTime :: "'f prefs_io \<Rightarrow> time_settings \<Rightarrow> 'f \<Rightarrow> bool \<times> 'f" where
  "saveTime io s f =
     (let (ok, f) = pf_begin io ''time'' False f
      in if \<not> ok then (False, f)
         else let (n, f) = pf_put io ''time'' ''server'' (PfStr (ts_server s)) f;
                  (n, f) = pf_put io ''time'' ''zone'' (PfStr (ts_zone s)) f
              in if getString io ''time'' ''server'' [] f \<noteq> ts_server s \<or> getString io ''time'' ''zone'' [] f \<noteq> ts_zone s then (False, f)
                 else put_all io ''time'' [(''ntp'', PfBool (ts_ntp s))] f)"

section \<open>The hostname\<close>

text \<open>With the line it writes when the saved name is not valid.\<close>

definition loadHostname :: "'f prefs_io \<Rightarrow> 'f \<Rightarrow> (string \<times> string list) \<times> 'f" where
  "loadHostname io f =
     (let (ok, f) = pf_begin io ''net'' True f
      in if \<not> ok then (([], []), f)
         else let name = getString io ''net'' ''hostname'' [] f
              in if name \<noteq> [] \<and> \<not> validHostname (Some name)
                 then (([], [''[NETWORK] Saved hostname '' @ json_quoted name @ '' not valid: using the default'']), f)
                 else ((name, []), f))"

definition saveHostname :: "'f prefs_io \<Rightarrow> string \<Rightarrow> 'f \<Rightarrow> bool \<times> 'f" where
  "saveHostname io name f =
     (let (ok, f) = pf_begin io ''net'' False f
      in if \<not> ok then (False, f)
         else if name = []
              then (if \<not> isKey io ''net'' ''hostname'' f then (True, f) else pf_remove io ''net'' ''hostname'' f)
              else let (n, f) = pf_put io ''net'' ''hostname'' (PfStr name) f in (0 < n, f))"

section \<open>Overrides and driver variables\<close>

text \<open>Whether every saved entry was kept, and the list.\<close>

definition loadOverrides :: "'f prefs_io \<Rightarrow> json_io \<Rightarrow> 'f \<Rightarrow> (bool \<times> nut_override list) \<times> 'f" where
  "loadOverrides io ji f =
     (let (ok, f) = pf_begin io ''nutovr'' True f
      in if \<not> ok then ((True, []), f)
         else let txt = (case pf_get io ''nutovr'' ''list'' f of Some (PfBytes b) \<Rightarrow> takeWhile (\<lambda>c. c \<noteq> CHR 0x00) b | _ \<Rightarrow> [])
              in if txt = [] then ((True, []), f) else (no_fromJson (ji_parse ji []) txt, f))"

definition saveOverrides :: "'f prefs_io \<Rightarrow> json_io \<Rightarrow> nut_override list \<Rightarrow> 'f \<Rightarrow> bool \<times> 'f" where
  "saveOverrides io ji vs f =
     (let (ok, f) = pf_begin io ''nutovr'' False f
      in if \<not> ok then (False, f)
         else if vs = []
              then (if \<not> isKey io ''nutovr'' ''list'' f then (True, f) else pf_remove io ''nutovr'' ''list'' f)
              else let txt = no_toJson (ji_print ji) vs; (n, f) = pf_put io ''nutovr'' ''list'' (PfBytes txt) f in (n = length txt, f))"

definition read_vars :: "'f prefs_io \<Rightarrow> 'f \<Rightarrow> string" where
  "read_vars io f = (if isKey io ''nutrw'' ''vars'' f then getString io ''nutrw'' ''vars'' [] f else [])"

type_synonym obj_io = "((string \<times> string) list \<Rightarrow> string) \<times> (string \<Rightarrow> (string \<times> string option) list option)"

definition loadVars :: "'f prefs_io \<Rightarrow> obj_io \<Rightarrow> 'f \<Rightarrow> ((string \<times> string) list \<times> bool) \<times> 'f" where
  "loadVars io oj f =
     (let (ok, f) = pf_begin io ''nutrw'' True f
      in if \<not> ok then (([], True), f)
         else let txt = read_vars io f in if txt = [] then (([], True), f) else (dvs_fromJson (snd oj) txt, f))"

definition saveVar :: "'f prefs_io \<Rightarrow> obj_io \<Rightarrow> string option \<Rightarrow> string option \<Rightarrow> 'f \<Rightarrow> bool \<times> 'f" where
  "saveVar io oj name val f =
     (if name = None \<or> val = None then (False, f)
      else let (ok, f) = pf_begin io ''nutrw'' False f
           in if \<not> ok then (False, f)
              else let vars = dvs_upsert (fst (dvs_fromJson (snd oj) (read_vars io f))) name val;
                       (n, f) = pf_put io ''nutrw'' ''vars'' (PfStr (dvs_toJson (fst oj) vars)) f
                   in (0 < n, f))"

definition eraseVar :: "'f prefs_io \<Rightarrow> obj_io \<Rightarrow> string option \<Rightarrow> 'f \<Rightarrow> bool \<times> 'f" where
  "eraseVar io oj name f =
     (if name = None then (False, f)
      else let (ok, f) = pf_begin io ''nutrw'' False f
           in if \<not> ok then (False, f)
              else let (vars, removed) = dvs_remove (fst (dvs_fromJson (snd oj) (read_vars io f))) name
                   in if vars = [] then (if isKey io ''nutrw'' ''vars'' f then pf_remove io ''nutrw'' ''vars'' f else (True, f))
                      else if removed
                           then let (n, f) = pf_put io ''nutrw'' ''vars'' (PfStr (dvs_toJson (fst oj) vars)) f in (0 < n, f)
                           else (True, f))"

section \<open>The configuration\<close>

record wifi_config =
  wf_ssid :: string
  wf_password :: string

record config_manager =
  cm_wifi :: wifi_config
  cm_nut :: nut_config
  cm_valid :: bool

definition cm_new :: config_manager where
  "cm_new = \<lparr>cm_wifi = \<lparr>wf_ssid = [], wf_password = []\<rparr>, cm_nut = \<lparr>nc_username = [], nc_password = [], nc_ups_name = []\<rparr>, cm_valid = False\<rparr>"

text \<open>\<open>as<String>()\<close>: a text as it is, any other value printed.\<close>

definition as_String :: "json_io \<Rightarrow> json option \<Rightarrow> string" where
  "as_String ji v = (case json_string v of Some s \<Rightarrow> s | None \<Rightarrow> ji_print ji (case v of Some j \<Rightarrow> j | None \<Rightarrow> JNull))"

definition config_json :: "config_manager \<Rightarrow> json" where
  "config_json c = JObject [(''wifi'', JObject [(''ssid'', JString (wf_ssid (cm_wifi c))), (''password'', JString (wf_password (cm_wifi c)))]),
     (''nut'', JObject [(''username'', JString (nc_username (cm_nut c))), (''password'', JString (nc_password (cm_nut c))),
        (''ups_name'', JString (nc_ups_name (cm_nut c)))])]"

text \<open>The library's print of nothing is a length of 0; \<open>begin\<close> of the namespace is not checked here.\<close>

definition cm_save :: "'f prefs_io \<Rightarrow> json_io \<Rightarrow> config_manager \<Rightarrow> 'f \<Rightarrow> bool \<times> config_manager \<times> 'f" where
  "cm_save io ji c f =
     (let c = c\<lparr>cm_nut := (cm_nut c)\<lparr>nc_ups_name := normalizeUpsName (nc_ups_name (cm_nut c))\<rparr>\<rparr>;
          txt = ji_print ji (config_json c)
      in if txt = [] then (False, c, f)
         else let (ok, f) = pf_begin io ''nutos'' False f; (n, f) = pf_put io ''nutos'' ''config_json'' (PfStr txt) f
              in (n \<noteq> 0, c, f))"

definition cm_begin :: "'f prefs_io \<Rightarrow> json_io \<Rightarrow> config_manager \<Rightarrow> 'f \<Rightarrow> bool \<times> config_manager \<times> 'f" where
  "cm_begin io ji c f =
     (let c = c\<lparr>cm_valid := False\<rparr>; (ok, f) = pf_begin io ''nutos'' False f; txt = getString io ''nutos'' ''config_json'' [] f
      in if txt = [] then (False, c, f)
         else case ji_parse ji [] txt of None \<Rightarrow> (False, c, f)
         | Some doc \<Rightarrow>
             (case json_member doc ''wifi'' of
                Some (JObject w) \<Rightarrow>
                  (let c = c\<lparr>cm_wifi := \<lparr>wf_ssid = as_String ji (map_of w ''ssid''), wf_password = as_String ji (map_of w ''password'')\<rparr>\<rparr>
                   in case json_member doc ''nut'' of
                        Some (JObject n) \<Rightarrow>
                          (let (name, migrate) = upsNameFromConfig (map_of n ''ups_name'');
                               c = c\<lparr>cm_nut := \<lparr>nc_username = as_String ji (map_of n ''username''),
                                      nc_password = as_String ji (map_of n ''password''), nc_ups_name = name\<rparr>, cm_valid := True\<rparr>
                           in if migrate then let (saved, c, f) = cm_save io ji c f in (True, c, f) else (True, c, f))
                      | _ \<Rightarrow> (False, c, f))
              | _ \<Rightarrow> (False, c, f)))"

end
