(* ===== verification/StoreProofs.thy ===== *)
theory StoreProofs
  imports BoardStores WebProofs TimeProofs
begin

text \<open>
  What was saved comes back: the contract of the flash (\<open>flash_ok\<close>, the documented behaviour of Preferences),
  the stores over it, and the pages that save what they accept.
\<close>

section \<open>The contract of the flash\<close>

text \<open>A put that wrote something is read back, and touches no other key; a namespace opened for writing
  can be opened for reading from then on.\<close>

definition flash_ok :: "'f prefs_io \<Rightarrow> bool" where
  "flash_ok io \<longleftrightarrow>
     (\<forall>ns k v f. 0 < fst (pf_put io ns k v f) \<longrightarrow> pf_get io ns k (snd (pf_put io ns k v f)) = Some v) \<and>
     (\<forall>ns k v f k'. k' \<noteq> k \<longrightarrow> pf_get io ns k' (snd (pf_put io ns k v f)) = pf_get io ns k' f) \<and>
     (\<forall>ns k ns' ro f. pf_get io ns k (snd (pf_begin io ns' ro f)) = pf_get io ns k f) \<and>
     (\<forall>ns f. fst (pf_begin io ns False f) \<longrightarrow> fst (pf_begin io ns True (snd (pf_begin io ns False f)))) \<and>
     (\<forall>ns k v f. fst (pf_begin io ns True f) \<longrightarrow> fst (pf_begin io ns True (snd (pf_put io ns k v f)))) \<and>
     (\<forall>ns k f. fst (pf_remove io ns k f) \<longrightarrow> pf_get io ns k (snd (pf_remove io ns k f)) = None) \<and>
     (\<forall>ns k f. fst (pf_begin io ns True f) \<longrightarrow> fst (pf_begin io ns True (snd (pf_remove io ns k f))))"

lemma flash_laws:
  assumes "flash_ok io"
  shows "0 < fst (pf_put io ns k v f) \<Longrightarrow> pf_get io ns k (snd (pf_put io ns k v f)) = Some v"
    "k' \<noteq> k \<Longrightarrow> pf_get io ns k' (snd (pf_put io ns k v f)) = pf_get io ns k' f"
    "pf_get io ns k (snd (pf_begin io ns' ro f)) = pf_get io ns k f"
    "fst (pf_begin io ns False f) \<Longrightarrow> fst (pf_begin io ns True (snd (pf_begin io ns False f)))"
    "fst (pf_begin io ns True f) \<Longrightarrow> fst (pf_begin io ns True (snd (pf_put io ns k v f)))"
    "fst (pf_remove io ns k f) \<Longrightarrow> pf_get io ns k (snd (pf_remove io ns k f)) = None"
    "fst (pf_begin io ns True f) \<Longrightarrow> fst (pf_begin io ns True (snd (pf_remove io ns k f)))"
  using assms unfolding flash_ok_def by metis+

lemma put_all_kept:
  assumes "fst (put_all io ns kvs f)" "distinct (map fst kvs)" and fl: "flash_ok io"
  shows "(\<forall>kv \<in> set kvs. pf_get io ns (fst kv) (snd (put_all io ns kvs f)) = Some (snd kv)) \<and>
     (\<forall>k. k \<notin> fst ` set kvs \<longrightarrow> pf_get io ns k (snd (put_all io ns kvs f)) = pf_get io ns k f) \<and>
     (fst (pf_begin io ns True f) \<longrightarrow> fst (pf_begin io ns True (snd (put_all io ns kvs f))))"
  using assms(1,2)
proof (induction kvs arbitrary: f)
  case (Cons kv kvs)
  note put_get = flash_laws(1) [OF fl] and put_other = flash_laws(2) [OF fl] and put_open = flash_laws(5) [OF fl]
  obtain n g where p: "pf_put io ns (fst kv) (snd kv) f = (n, g)" by fastforce
  have n: "0 < n" "fst (put_all io ns kvs g)" using Cons.prems(1) p by (simp_all split: if_splits)
  have g: "pf_get io ns (fst kv) g = Some (snd kv)" "\<And>k. k \<noteq> fst kv \<Longrightarrow> pf_get io ns k g = pf_get io ns k f"
    using put_get [of ns "fst kv" "snd kv" f] put_other [of _ "fst kv" ns "snd kv" f] n(1) p by simp_all
  have o: "fst (pf_begin io ns True f) \<Longrightarrow> fst (pf_begin io ns True g)" using put_open [of ns f "fst kv" "snd kv"] p by simp
  note i = Cons.IH [OF n(2)]
  show ?case using Cons.prems(2) i g o by (auto simp: p n(1))
qed simp

section \<open>The stores\<close>

lemma sane_defaults: "sane_syslog syslogDefaults"
  unfolding sane_iff [symmetric] by code_simp

text \<open>What is read after a chain of puts in an open namespace.\<close>

lemma puts_read:
  assumes "fst (pf_begin io ns True g)" "put_all io ns kvs g = (True, h)" "distinct (map fst kvs)" and fl: "flash_ok io"
  obtains h' where "pf_begin io ns True h = (True, h')" "\<forall>kv \<in> set kvs. pf_get io ns (fst kv) h' = Some (snd kv)"
    "\<And>k. k \<notin> fst ` set kvs \<Longrightarrow> pf_get io ns k h' = pf_get io ns k g"
proof -
  note begin_get = flash_laws(3) [OF fl]
  have k: "\<forall>kv \<in> set kvs. pf_get io ns (fst kv) h = Some (snd kv)" "\<And>k. k \<notin> fst ` set kvs \<Longrightarrow> pf_get io ns k h = pf_get io ns k g"
    "fst (pf_begin io ns True h)"
    using put_all_kept [of io ns kvs g] assms by auto
  then obtain h' where "pf_begin io ns True h = (True, h')" by (cases "pf_begin io ns True h") auto
  then show thesis using that [of h'] k begin_get [of ns _ ns True h] by simp
qed

text \<open>A namespace opened for writing, after a put of a text.\<close>

lemma text_open: "flash_ok io \<Longrightarrow> pf_begin io ns False f = (True, f1) \<Longrightarrow> fst (pf_begin io ns True f1) \<and> fst (pf_begin io ns True (snd (pf_put io ns k v f1)))"
  using flash_laws(4) [of io ns f] flash_laws(5) [of io ns f1 k v] by simp

lemma syslog_saved:
  assumes "sane_syslog s" "fst (saveSyslog io s f)" and fl: "flash_ok io"
  shows "fst (loadSyslog io (snd (saveSyslog io s f))) = s"
proof -
  obtain f1 where b: "pf_begin io ''logout'' False f = (True, f1)"
    using assms(2) by (cases "pf_begin io ''logout'' False f") (auto simp: saveSyslog_def split: if_splits)
  obtain n f2 where p: "pf_put io ''logout'' ''sl_host'' (PfStr (sy_host s)) f1 = (n, f2)" by fastforce
  let ?kvs = "[(''sl_on'', PfBool (sy_enabled s)), (''sl_port'', PfU16 (sy_port s)), (''sl_proto'', PfU8 (sy_protocol s)),
     (''sl_fac'', PfU8 (sy_facility s)), (''sl_lvl'', PfU8 (sy_min_level s)), (''sl_rate'', PfU16 (sy_rate s))]"
  obtain ok f3 where a: "put_all io ''logout'' ?kvs f2 = (ok, f3)" by fastforce
  have h: "getString io ''logout'' ''sl_host'' [] f2 = sy_host s" "ok" "saveSyslog io s f = (True, f3)"
    using assms(2) b p a by (auto simp: saveSyslog_def simp del: put_all.simps split: if_splits)
  have o: "fst (pf_begin io ''logout'' True f2)" using text_open [OF fl b, of "''sl_host''" "PfStr (sy_host s)"] p by simp
  obtain f4 where f4: "pf_begin io ''logout'' True f3 = (True, f4)" "\<forall>kv \<in> set ?kvs. pf_get io ''logout'' (fst kv) f4 = Some (snd kv)"
    "pf_get io ''logout'' ''sl_host'' f4 = pf_get io ''logout'' ''sl_host'' f2"
    by (rule puts_read [OF o a [unfolded h(2) [THEN eqTrueI]] _ fl]) simp_all
  have "getString io ''logout'' ''sl_host'' [] f4 = sy_host s" using h(1) f4(3) by (simp add: getString_def)
  then have "fst (loadSyslog io f3) = sanitize_syslog s"
    using f4(1,2) by (simp add: loadSyslog_def getBool_def getUChar_def getUShort_def syslogDefaults_def)
      (cases s, simp)
  then show ?thesis using sane_kept [OF assms(1)] h(3) by simp
qed

lemma syslog_loaded: "sane_syslog (fst (loadSyslog io f))"
  using sanitized_syslog sane_defaults by (auto simp: loadSyslog_def Let_def split: prod.split)

lemma time_saved:
  assumes "sanitize_time s = s" "ts_server s \<noteq> []" "fst (saveTime io s f)" and fl: "flash_ok io"
  shows "fst (loadTime io (snd (saveTime io s f))) = s"
proof -
  note put_open = flash_laws(5) [OF fl]
  obtain f1 where b: "pf_begin io ''time'' False f = (True, f1)"
    using assms(3) by (cases "pf_begin io ''time'' False f") (auto simp: saveTime_def split: if_splits)
  obtain n f2 where p: "pf_put io ''time'' ''server'' (PfStr (ts_server s)) f1 = (n, f2)" by fastforce
  obtain m f3 where q: "pf_put io ''time'' ''zone'' (PfStr (ts_zone s)) f2 = (m, f3)" by fastforce
  let ?kvs = "[(''ntp'', PfBool (ts_ntp s))]"
  obtain ok f4 where a: "put_all io ''time'' ?kvs f3 = (ok, f4)" by fastforce
  have h: "getString io ''time'' ''server'' [] f3 = ts_server s" "getString io ''time'' ''zone'' [] f3 = ts_zone s" "ok" "saveTime io s f = (True, f4)"
    using assms(3) b p q a by (auto simp: saveTime_def simp del: put_all.simps split: if_splits)
  have o: "fst (pf_begin io ''time'' True f3)"
    using text_open [OF fl b, of "''server''" "PfStr (ts_server s)"] put_open [of "''time''" f2 "''zone''" "PfStr (ts_zone s)"] p q by simp
  obtain f5 where f5: "pf_begin io ''time'' True f4 = (True, f5)" "\<forall>kv \<in> set ?kvs. pf_get io ''time'' (fst kv) f5 = Some (snd kv)"
    "pf_get io ''time'' ''server'' f5 = pf_get io ''time'' ''server'' f3" "pf_get io ''time'' ''zone'' f5 = pf_get io ''time'' ''zone'' f3"
    by (rule puts_read [OF o a [unfolded h(3) [THEN eqTrueI]] _ fl]) simp_all
  have z: "ts_zone s \<noteq> []" using sanitized_time [of s] assms(1) by (auto simp: findTimeZone_def Let_def)
  have "getString io ''time'' ''server'' d f5 = ts_server s" "getString io ''time'' ''zone'' d f5 = ts_zone s" for d
    using h(1,2) f5(3,4) assms(2) z by (auto simp: getString_def split: option.splits pref.splits)
  then have "fst (loadTime io f4) = sanitize_time s"
    using f5(1,2) by (simp add: loadTime_def getBool_def) (cases s, simp)
  then show ?thesis using assms(1) h(4) by simp
qed

lemma board_saved:
  assumes "sanitize_board b s = s" "fst (save_board io s f)" and fl: "flash_ok io"
  shows "fst (load_board io b (snd (save_board io s f))) = s"
proof -
  obtain f1 where f1: "pf_begin io ''board'' False f = (True, f1)"
    using assms(2) by (cases "pf_begin io ''board'' False f") (auto simp: save_board_def split: if_splits)
  let ?kvs = "[(''led_on'', PfBool (bs_led_on s)), (''led_level'', PfU8 (bs_led_level s)),
                (''usb_port'', PfU8 (bs_usb_port s)), (''auto_sd'', PfBool (bs_auto_shutdown s))]"
  obtain ok f2 where a: "put_all io ''board'' ?kvs f1 = (ok, f2)" by fastforce
  have h: "ok" "save_board io s f = (True, f2)" using assms(2) f1 a by (auto simp: save_board_def simp del: put_all.simps)
  obtain f3 where f3: "pf_begin io ''board'' True f2 = (True, f3)" "\<forall>kv \<in> set ?kvs. pf_get io ''board'' (fst kv) f3 = Some (snd kv)"
    by (rule puts_read [OF conjunct1 [OF text_open [OF fl f1]] a [unfolded h(1) [THEN eqTrueI]] _ fl]) simp_all
  have "fst (load_board io b f2) = sanitize_board b s"
    using f3 by (simp add: load_board_def getBool_def getUChar_def) (cases s, simp)
  then show ?thesis using assms(1) h(2) by simp
qed

lemma hostname_saved:
  assumes "n = [] \<or> validHostname (Some n)" "fst (saveHostname io n f)" and fl: "flash_ok io"
  shows "fst (fst (loadHostname io (snd (saveHostname io n f)))) = n"
proof -
  note put_get = flash_laws(1) [OF fl] and begin_get = flash_laws(3) [OF fl] and begin_created = flash_laws(4) [OF fl] and put_open = flash_laws(5) [OF fl] and remove_get = flash_laws(6) [OF fl] and remove_open = flash_laws(7) [OF fl]
  obtain f1 where f1: "pf_begin io ''net'' False f = (True, f1)"
    using assms(2) by (cases "pf_begin io ''net'' False f") (auto simp: saveHostname_def split: if_splits)
  note o = begin_created [of "''net''" f, unfolded f1, simplified] and g = begin_get [of "''net''" "''hostname''" "''net''" True]
  obtain m f2 where p: "pf_put io ''net'' ''hostname'' (PfStr n) f1 = (m, f2)" by fastforce
  obtain ok f3 where r: "pf_remove io ''net'' ''hostname'' f1 = (ok, f3)" by fastforce
  show ?thesis
  proof (cases "n = []")
    case True
    then show ?thesis
      using assms(2) f1 r remove_get [of "''net''" "''hostname''" f1] remove_open [of "''net''" f1 "''hostname''"] o g [of f1] g [of f3]
      by (auto simp: saveHostname_def loadHostname_def isKey_def getString_def Let_def split: prod.splits)
  next
    case False
    then show ?thesis
      using assms f1 p put_get [of "''net''" "''hostname''" "PfStr n" f1] put_open [of "''net''" f1 "''hostname''" "PfStr n"] o g [of f2]
      by (auto simp: saveHostname_def loadHostname_def getString_def Let_def split: prod.splits)
  qed
qed

text \<open>A page that is given what is saved, checks what it is sent against it, and saves what it accepts: the
  settings it accepted are those that are in use from the next start on.\<close>

lemma logging_page_kept:
  assumes "checkRemoteLogBody doc (fst (loadSyslog io f)) = Inr s" "fst (saveSyslog io s g)" "flash_ok io"
  shows "fst (loadSyslog io (snd (saveSyslog io s g))) = s"
  by (rule syslog_saved [OF accepted_sane [OF assms(1) syslog_loaded] assms(2,3)])

end
