(* ===== verification/NetClock.thy ===== *)
theory NetClock
  imports TimeProofs
begin

text \<open>
  The network time (\<open>src/network/ntp_clock.cpp\<close>): the settings that wait for the next turn of the loop,
  the SNTP client started once a link is up, the reference pair stored when the server answers, and the
  state shown. SNTP and the C library are what they were given: the server, the time zone, and whether
  the client runs; \<open>when\<close> is the text of an instant in the local time.
\<close>

section \<open>State and operations\<close>

record ntp_clock =
  tk_pending :: time_settings
  tk_pending_who :: string
  tk_has_pending :: bool
  tk_clock :: wall_clock
  tk_state :: time_state
  tk_shown :: time_settings
  tk_synced :: bool
  tk_active :: time_settings
  tk_policy :: time_policy
  tk_sntp_running :: bool
  tk_server :: string
  tk_tz :: string

definition tk_new :: ntp_clock where
  "tk_new = \<lparr>tk_pending = timeDefaults, tk_pending_who = [], tk_has_pending = False, tk_clock = wc_new, tk_state = TsDisabled,
     tk_shown = timeDefaults, tk_synced = False, tk_active = timeDefaults, tk_policy = tp_new, tk_sntp_running = False,
     tk_server = [], tk_tz = []\<rparr>"

definition tk_configure :: "time_settings \<Rightarrow> string \<Rightarrow> ntp_clock \<Rightarrow> ntp_clock" where
  "tk_configure settings who c = c\<lparr>tk_pending := sanitize_time settings, tk_pending_who := who, tk_has_pending := True\<rparr>"

text \<open>The callback of the lwIP task: no line is written there.\<close>

definition tk_onSync :: "int \<Rightarrow> int \<Rightarrow> u32 \<Rightarrow> ntp_clock \<Rightarrow> ntp_clock" where
  "tk_onSync sec usec ms c = c\<lparr>tk_clock := setSynced (sec * 1000 + usec sdiv 1000) ms (tk_clock c), tk_synced := True\<rparr>"

type_synonym log_lines = "(string \<times> string) list"

definition time_changed_line :: "time_settings \<Rightarrow> string \<Rightarrow> log_lines" where
  "time_changed_line s who =
     (if who = [] then []
      else [(''INFO'', ''[TIME] Settings changed by '' @ [CHR 0x27] @ who @ [CHR 0x27] @
        (if ts_ntp s then '': NTP on, '' @ ts_server s @ '', '' @ ts_zone s else '': NTP off, '' @ ts_zone s))])"

definition tk_apply :: "time_settings \<Rightarrow> string \<Rightarrow> u32 \<Rightarrow> ntp_clock \<Rightarrow> log_lines \<times> ntp_clock" where
  "tk_apply s who now c =
     (let c = c\<lparr>tk_sntp_running := False, tk_tz := (case findTimeZone (Some (ts_zone s)) of Some z \<Rightarrow> snd z | None \<Rightarrow> ''UTC0'')\<rparr>;
          c = (if ts_ntp s then c\<lparr>tk_server := take NTP_SERVER_MAX (ts_server s), tk_policy := tp_restart now (tk_policy c)\<rparr>
               else c\<lparr>tk_policy := tp_stop (tk_policy c), tk_clock := wc_clear (tk_clock c)\<rparr>);
          c = c\<lparr>tk_synced := False, tk_active := s\<rparr>
      in (time_changed_line s who, c))"

definition tk_epochMsAt :: "u32 \<Rightarrow> ntp_clock \<Rightarrow> int option" where
  "tk_epochMsAt uptime c = epochMsAt (tk_clock c) uptime"

definition tk_reference :: "ntp_clock \<Rightarrow> wall_clock option" where
  "tk_reference c = (if wc_valid (tk_clock c) then Some (tk_clock c) else None)"

definition publishState :: "ntp_clock \<Rightarrow> ntp_clock" where
  "publishState c =
     c\<lparr>tk_shown := tk_active c,
       tk_state := (if \<not> ts_ntp (tk_active c) then TsDisabled
                    else if wc_valid (tk_clock c) then TsSynchronized
                    else if tp_no_answer (tk_policy c) then TsNoAnswer else TsWaiting)\<rparr>"

text \<open>What a turn does about an answer of the server, and about its silence. \<open>ms\<close> is the uptime read again.\<close>

definition take_synced :: "(string \<Rightarrow> int \<Rightarrow> string) \<Rightarrow> u32 \<Rightarrow> ntp_clock \<Rightarrow> log_lines \<times> ntp_clock" where
  "take_synced when ms c =
     (if \<not> tk_synced c then ([], c)
      else let (line, p) = tp_onSynced (tk_policy c); c = c\<lparr>tk_synced := False, tk_policy := p\<rparr>
           in (case tk_epochMsAt ms c of
                 Some t \<Rightarrow> if line = TlSynchronized
                           then [(''INFO'', ''[TIME] Synchronized with '' @ ts_server (tk_active c) @ '': '' @ when (tk_tz c) t)] else []
               | None \<Rightarrow> [], c))"

definition take_silence :: "u32 \<Rightarrow> bool \<Rightarrow> ntp_clock \<Rightarrow> log_lines \<times> ntp_clock" where
  "take_silence now up c =
     (if \<not> ts_ntp (tk_active c) then ([], c)
      else let (line, p) = tp_tick now up (tk_policy c)
           in (if line = TlNoAnswer
               then [(''WARN'', ''[TIME] No answer from '' @ ts_server (tk_active c) @ '' for '' @ dec (unat (NO_ANSWER_MS div 1000)) @ '' s, retrying'')]
               else [], c\<lparr>tk_policy := p\<rparr>))"

definition tk_poll :: "(string \<Rightarrow> int \<Rightarrow> string) \<Rightarrow> bool \<Rightarrow> u32 \<Rightarrow> u32 \<Rightarrow> ntp_clock \<Rightarrow> log_lines \<times> ntp_clock" where
  "tk_poll when up now ms c =
     (let (l1, c) = (if tk_has_pending c then tk_apply (tk_pending c) (tk_pending_who c) now (c\<lparr>tk_has_pending := False\<rparr>) else ([], c));
          c = (if ts_ntp (tk_active c) \<and> up \<and> \<not> tk_sntp_running c then c\<lparr>tk_sntp_running := True\<rparr> else c);
          (l2, c) = take_synced when ms c;
          (l3, c) = take_silence now up c
      in (l1 @ l2 @ l3, publishState c))"

text \<open>\<open>NtpClock::Status\<close> at an uptime.\<close>

record ntp_status =
  nt_state :: time_state
  nt_settings :: time_settings
  nt_has_time :: bool
  nt_epoch_ms :: int
  nt_since_sync_s :: u32

definition tk_status :: "u32 \<Rightarrow> ntp_clock \<Rightarrow> ntp_status" where
  "tk_status now c =
     (case tk_epochMsAt now c of
        None \<Rightarrow> \<lparr>nt_state = tk_state c, nt_settings = tk_shown c, nt_has_time = False, nt_epoch_ms = 0, nt_since_sync_s = 0\<rparr>
      | Some t \<Rightarrow> \<lparr>nt_state = tk_state c, nt_settings = tk_shown c, nt_has_time = True, nt_epoch_ms = t,
          nt_since_sync_s = (now - wc_uptime_ms (tk_clock c)) div 1000\<rparr>)"

section \<open>The time is there only with NTP on\<close>

text \<open>The tasks around the clock: the Web UI changes the settings, the loop polls, and the server answers
  while the client runs.\<close>

datatype clock_event = CkConfigure time_settings string | CkSync int int u32 | CkPoll bool u32 u32

fun clock_step :: "(string \<Rightarrow> int \<Rightarrow> string) \<Rightarrow> ntp_clock \<Rightarrow> clock_event \<Rightarrow> ntp_clock \<times> log_lines" where
  "clock_step when c (CkConfigure s who) = (tk_configure s who c, [])"
| "clock_step when c (CkSync sec usec ms) = (if tk_sntp_running c then tk_onSync sec usec ms c else c, [])"
| "clock_step when c (CkPoll up now ms) = (let (l, c) = tk_poll when up now ms c in (c, l))"

definition clock_ok :: "ntp_clock \<Rightarrow> bool" where
  "clock_ok c \<longleftrightarrow> (wc_valid (tk_clock c) \<or> tk_sntp_running c \<longrightarrow> ts_ntp (tk_active c)) \<and>
     (tk_synced c \<longrightarrow> wc_valid (tk_clock c)) \<and> (ts_ntp (tk_active c) \<longrightarrow> ts_server (tk_active c) \<noteq> []) \<and>
     (tk_has_pending c \<longrightarrow> ts_ntp (tk_pending c) \<longrightarrow> ts_server (tk_pending c) \<noteq> [])"

lemma apply_ok:
  assumes "clock_ok c" "ts_ntp s \<longrightarrow> ts_server s \<noteq> []"
  shows "clock_ok (snd (tk_apply s who now (c\<lparr>tk_has_pending := False\<rparr>)))"
  using assms by (auto simp: clock_ok_def tk_apply_def wc_clear_def Let_def)

lemma take_ok:
  "clock_ok c \<Longrightarrow> clock_ok (snd (take_synced when ms c))" "clock_ok c \<Longrightarrow> clock_ok (snd (take_silence now up c))" "clock_ok (publishState c) = clock_ok c"
  by (auto simp: clock_ok_def take_synced_def take_silence_def publishState_def tk_epochMsAt_def Let_def split_beta)

lemma poll_ok: "clock_ok c \<Longrightarrow> clock_ok (snd (tk_poll when up now ms c))"
proof -
  assume c: "clock_ok c"
  define a where "a = (if tk_has_pending c then tk_apply (tk_pending c) (tk_pending_who c) now (c\<lparr>tk_has_pending := False\<rparr>) else ([], c))"
  have "clock_ok (snd a)" using c apply_ok [OF c] by (auto simp: a_def clock_ok_def)
  then have "clock_ok (if ts_ntp (tk_active (snd a)) \<and> up \<and> \<not> tk_sntp_running (snd a) then snd a\<lparr>tk_sntp_running := True\<rparr> else snd a)"
    by (auto simp: clock_ok_def)
  then show ?thesis unfolding tk_poll_def a_def [symmetric] by (simp add: Let_def split_beta take_ok)
qed

lemma step_ok: "clock_ok c \<Longrightarrow> clock_ok (fst (clock_step when c e))"
proof (cases e)
  case (CkConfigure s who)
  assume "clock_ok c"
  then show ?thesis using sanitized_time [of s] by (auto simp: CkConfigure clock_ok_def tk_configure_def Let_def)
next
  case (CkSync sec usec ms)
  assume "clock_ok c"
  then show ?thesis by (auto simp: CkSync clock_ok_def tk_onSync_def setSynced_def)
next
  case (CkPoll up now ms)
  assume "clock_ok c"
  then show ?thesis using poll_ok by (simp add: CkPoll split_beta)
qed

lemma run_ok: "clock_ok c \<Longrightarrow> clock_ok (fst (run (clock_step when) c es))"
  by (induction es arbitrary: c) (simp_all add: run_Cons step_ok)

text \<open>The time is shown and written only when it is known: over any changes of the settings, answers and
  turns of the loop, the board has the time only with NTP on and a server set, the client runs only
  then, and after a turn the state shown tells whether there is a time.\<close>

theorem time_only_with_ntp:
  "let c = fst (run (clock_step when) tk_new es); s = tk_status now (snd (tk_poll when up now ms c))
   in (nt_has_time s = (nt_state s = TsSynchronized)) \<and>
      (if ts_ntp (nt_settings s) then ts_server (nt_settings s) \<noteq> [] \<and> nt_state s \<noteq> TsDisabled
       else nt_state s = TsDisabled \<and> \<not> tk_sntp_running (snd (tk_poll when up now ms c)))"
proof -
  define c where "c = snd (tk_poll when up now ms (fst (run (clock_step when) tk_new es)))"
  have "clock_ok tk_new" by (simp add: clock_ok_def tk_new_def wc_new_def timeDefaults_def)
  then have k: "clock_ok c" unfolding c_def by (intro poll_ok run_ok)
  have s: "tk_shown c = tk_active c" "tk_state c = (if \<not> ts_ntp (tk_active c) then TsDisabled
      else if wc_valid (tk_clock c) then TsSynchronized else if tp_no_answer (tk_policy c) then TsNoAnswer else TsWaiting)"
    by (simp_all add: c_def tk_poll_def publishState_def Let_def split_beta)
  have "nt_has_time (tk_status now c) = wc_valid (tk_clock c)" "nt_state (tk_status now c) = tk_state c" "nt_settings (tk_status now c) = tk_active c"
    by (simp_all add: tk_status_def tk_epochMsAt_def epochMsAt_def s(1))
  then show ?thesis unfolding Let_def c_def [symmetric] using k s(2) by (auto simp: clock_ok_def)
qed

end
