(* ===== verification/SystemLog.thy ===== *)
theory SystemLog
  imports NetClock SyslogFormat WebAuth
begin

text \<open>
  The System Log (\<open>src/core/app_logger.cpp\<close>): the last fifty lines in a ring, and their list for the web
  page; and the queue of the log task (\<open>src/core/log_dispatcher.cpp\<close>). The lines written to the serial
  port are left out.
\<close>

section \<open>The ring\<close>

record log_message =
  lg_id :: u32
  lg_time :: u32
  lg_level :: string
  lg_msg :: string

definition MAX_LOGS :: nat where "MAX_LOGS = 50"

record app_logger =
  al_buffer :: "log_message list"
  al_head :: nat
  al_count :: nat
  al_nextId :: u32

definition al_new :: app_logger where
  "al_new = \<lparr>al_buffer = replicate MAX_LOGS \<lparr>lg_id = 0, lg_time = 0, lg_level = [], lg_msg = []\<rparr>, al_head = 0, al_count = 0, al_nextId = 1\<rparr>"

definition al_store :: "u32 \<Rightarrow> string \<Rightarrow> string \<Rightarrow> app_logger \<Rightarrow> app_logger" where
  "al_store now level message l =
     l\<lparr>al_buffer := (al_buffer l)[al_head l := \<lparr>lg_id = al_nextId l, lg_time = now, lg_level = level, lg_msg = message\<rparr>],
       al_nextId := al_nextId l + 1, al_head := (al_head l + 1) mod MAX_LOGS,
       al_count := (if al_count l < MAX_LOGS then al_count l + 1 else al_count l)\<rparr>"

text \<open>The rows in the order of \<open>getLogsJSON\<close>.\<close>

definition al_rows :: "app_logger \<Rightarrow> log_message list" where
  "al_rows l =
     (let start = (if al_count l < MAX_LOGS then 0 else al_head l)
      in map (\<lambda>i. al_buffer l ! ((start + i) mod MAX_LOGS)) [0..<al_count l])"

text \<open>\<open>board_time\<close> gives the time of a row from its uptime and that of the list.\<close>

definition row_json :: "(u32 \<Rightarrow> u32 \<Rightarrow> string option) \<Rightarrow> u32 \<Rightarrow> log_message \<Rightarrow> json" where
  "row_json board_time list_uptime m =
     JObject ([(''id'', JNat (unat (lg_id m))), (''time'', JNat (unat (lg_time m))), (''level'', JString (lg_level m)), (''msg'', JString (lg_msg m))] @
       (case board_time (lg_time m) list_uptime of Some t \<Rightarrow> [(''board_time'', JString t)] | None \<Rightarrow> []))"

definition getLogsJSON :: "json_io \<Rightarrow> (u32 \<Rightarrow> u32 \<Rightarrow> string option) \<Rightarrow> u32 \<Rightarrow> app_logger \<Rightarrow> string" where
  "getLogsJSON ji board_time list_uptime l = ji_print ji (JArray (map (row_json board_time list_uptime) (al_rows l)))"

section \<open>The queue of the log task\<close>

definition QUEUE_LENGTH :: nat where "QUEUE_LENGTH = 40"

record 'o log_dispatcher =
  ld_queue :: "log_record list option"
  ld_outputs :: "'o log_output list"
  ld_drops :: u32
  ld_reported :: u32

definition ld_new :: "'o log_dispatcher" where
  "ld_new = \<lparr>ld_queue = None, ld_outputs = [], ld_drops = 0, ld_reported = 0\<rparr>"

text \<open>\<open>init\<close>, with what the creation of the queue gives.\<close>

definition ld_init :: "bool \<Rightarrow> 'o log_dispatcher \<Rightarrow> bool \<times> 'o log_dispatcher" where
  "ld_init created d = (if ld_queue d \<noteq> None then (True, d) else if created then (True, d\<lparr>ld_queue := Some []\<rparr>) else (False, d))"

definition ld_addOutput :: "'o log_output option \<Rightarrow> 'o log_dispatcher \<Rightarrow> bool \<times> 'o log_dispatcher" where
  "ld_addOutput out d = (let (ok, outs) = fan_add out (ld_outputs d) in (ok, d\<lparr>ld_outputs := outs\<rparr>))"

definition ld_submit :: "string option \<Rightarrow> string option \<Rightarrow> bool \<Rightarrow> u32 \<Rightarrow> 'o log_dispatcher \<Rightarrow> 'o log_dispatcher" where
  "ld_submit level message notice uptime d =
     (case ld_queue d of None \<Rightarrow> d
      | Some q \<Rightarrow>
          let r = \<lparr>lr_uptime = uptime, lr_level = logLevelOf level, lr_notice = notice,
                   lr_msg = take (LOG_RECORD_MSG - 1) (case message of Some m \<Rightarrow> m | None \<Rightarrow> [])\<rparr>
          in if length q < QUEUE_LENGTH then d\<lparr>ld_queue := Some (q @ [r])\<rparr> else d\<lparr>ld_drops := ld_drops d + 1\<rparr>)"

text \<open>\<open>AppLogger::write\<close>: into the ring, and to the log task.\<close>

definition log_write :: "u32 \<Rightarrow> string \<Rightarrow> string \<Rightarrow> bool \<Rightarrow> app_logger \<times> 'o log_dispatcher \<Rightarrow> app_logger \<times> 'o log_dispatcher" where
  "log_write now level message notice s = (al_store now level message (fst s), ld_submit (Some level) (Some message) notice now (snd s))"

definition lost_line :: "u32 \<Rightarrow> u32 \<Rightarrow> log_record" where
  "lost_line now lost = \<lparr>lr_uptime = now, lr_level = LvWarn, lr_notice = False, lr_msg = ''[LOG] '' @ dec (unat lost) @ '' lines lost: log queue full''\<rparr>"

text \<open>One turn of the task: the outputs are polled, the lines lost on a full queue reported, and one line
  taken, unless they are to be held.\<close>

definition ld_turn :: "'o output_ops \<Rightarrow> u32 \<Rightarrow> u32 \<Rightarrow> 'o log_dispatcher \<Rightarrow> 'o log_dispatcher" where
  "ld_turn ops now later d =
     (let d = d\<lparr>ld_outputs := fan_poll ops now (ld_outputs d)\<rparr>;
          d = (if ld_drops d \<noteq> ld_reported d
               then d\<lparr>ld_outputs := fan_deliver ops (lost_line now (ld_drops d - ld_reported d)) now (ld_outputs d), ld_reported := ld_drops d\<rparr>
               else d)
      in if shouldHold ops now (ld_outputs d) then d
         else case ld_queue d of
                Some (r # q) \<Rightarrow> d\<lparr>ld_queue := Some q, ld_outputs := fan_deliver ops r later (ld_outputs d)\<rparr>
              | _ \<Rightarrow> d)"

section \<open>The ring is the tail of the log\<close>

text \<open>The log as it was written: the lines, numbered from 1 with 32 bits.\<close>

fun all_rows :: "u32 \<Rightarrow> (u32 \<times> string \<times> string) list \<Rightarrow> log_message list" where
  "all_rows n [] = []"
| "all_rows n ((now, level, message) # ls) = \<lparr>lg_id = n, lg_time = now, lg_level = level, lg_msg = message\<rparr> # all_rows (n + 1) ls"

definition last_rows :: "nat \<Rightarrow> 'a list \<Rightarrow> 'a list" where
  "last_rows n xs = drop (length xs - n) xs"

definition ring_holds :: "app_logger \<Rightarrow> log_message list \<Rightarrow> bool" where
  "ring_holds l xs \<longleftrightarrow> length (al_buffer l) = MAX_LOGS \<and> al_count l = min (length xs) MAX_LOGS \<and> al_head l = length xs mod MAX_LOGS \<and>
     (\<forall>j < length xs. length xs \<le> j + MAX_LOGS \<longrightarrow> al_buffer l ! (j mod MAX_LOGS) = xs ! j)"

lemma mod_apart: "j < n \<Longrightarrow> n < j + m \<Longrightarrow> j mod m \<noteq> n mod (m :: nat)"
proof
  assume a: "j < n" "n < j + m" "j mod m = n mod m"
  then have "m dvd n - j" by (metis mod_eq_dvd_iff_nat less_imp_le)
  then show False using a(1,2) by (auto dest: dvd_imp_le)
qed

lemma ring_store:
  assumes "ring_holds l xs"
  shows "ring_holds (al_store now level message l) (xs @ [\<lparr>lg_id = al_nextId l, lg_time = now, lg_level = level, lg_msg = message\<rparr>])"
proof -
  have m: "0 < MAX_LOGS" by (simp add: MAX_LOGS_def)
  have h: "length (al_buffer l) = MAX_LOGS" "al_head l = length xs mod MAX_LOGS" "al_count l = min (length xs) MAX_LOGS" using assms by (auto simp: ring_holds_def)
  have "al_buffer l ! (j mod MAX_LOGS) = xs ! j \<and> length xs mod MAX_LOGS \<noteq> j mod MAX_LOGS"
    if "j < length xs" "Suc (length xs) \<le> j + MAX_LOGS" for j
    using assms that mod_apart [of j "length xs" MAX_LOGS] by (auto simp: ring_holds_def)
  then show ?thesis using h m by (auto simp: ring_holds_def al_store_def nth_append less_Suc_eq mod_Suc_eq nth_list_update)
qed

lemma ring_rows:
  assumes "ring_holds l xs"
  shows "al_rows l = last_rows MAX_LOGS xs"
proof (rule nth_equalityI)
  have c: "al_count l = min (length xs) MAX_LOGS" "al_head l = length xs mod MAX_LOGS" using assms by (auto simp: ring_holds_def)
  show "length (al_rows l) = length (last_rows MAX_LOGS xs)" using c by (auto simp: al_rows_def last_rows_def Let_def)
  fix i assume "i < length (al_rows l)"
  then have i: "i < al_count l" by (simp add: al_rows_def Let_def)
  define j where "j = length xs - MAX_LOGS + i"
  have j: "j < length xs" "length xs \<le> j + MAX_LOGS" using i c(1) by (auto simp: j_def)
  have "((if al_count l < MAX_LOGS then 0 else al_head l) + i) mod MAX_LOGS = j mod MAX_LOGS"
  proof (cases "length xs < MAX_LOGS")
    case False
    then have "(length xs + i) mod MAX_LOGS = (MAX_LOGS + j) mod MAX_LOGS" by (simp add: j_def)
    then show ?thesis using False c by (simp add: mod_add_left_eq)
  qed (use c in \<open>simp add: j_def\<close>)
  then show "al_rows l ! i = last_rows MAX_LOGS xs ! i"
    using assms i j by (simp add: al_rows_def last_rows_def Let_def ring_holds_def j_def)
qed

text \<open>The System Log is the end of the log: after any lines the page is given the last fifty in the order
  they were written, each with its number, time, level and text, and fewer only when fewer were written.\<close>

theorem log_page_is_tail:
  "al_rows (fold (\<lambda>(now, level, message). al_store now level message) ls al_new) = last_rows MAX_LOGS (all_rows 1 ls)"
proof -
  have "ring_holds l xs \<Longrightarrow> ring_holds (fold (\<lambda>(now, level, message). al_store now level message) ls l) (xs @ all_rows (al_nextId l) ls)" for l xs
  proof (induction ls arbitrary: l xs)
    case (Cons e ls)
    obtain now level message where e: "e = (now, level, message)" by (cases e) auto
    have n: "al_nextId (al_store now level message l) = al_nextId l + 1" by (simp add: al_store_def)
    show ?case using Cons.IH [OF ring_store [OF Cons.prems, of now level message]] by (simp add: e n)
  qed simp
  from this [of al_new "[]"] have "ring_holds (fold (\<lambda>(now, level, message). al_store now level message) ls al_new) (all_rows 1 ls)"
    by (simp add: ring_holds_def al_new_def MAX_LOGS_def)
  then show ?thesis by (rule ring_rows)
qed

text \<open>A line that finds the queue full is counted, none that found room is lost before it is taken.\<close>

lemma submit_counts:
  assumes "ld_queue d = Some q"
  shows "(if length q < QUEUE_LENGTH then ld_drops (ld_submit level message notice up d) = ld_drops d \<and> (\<exists>r. ld_queue (ld_submit level message notice up d) = Some (q @ [r]))
     else ld_drops (ld_submit level message notice up d) = ld_drops d + 1 \<and> ld_queue (ld_submit level message notice up d) = Some q)"
  using assms by (simp add: ld_submit_def Let_def)

end
