(* ===== verification/SyslogOutput.thy ===== *)
theory SyslogOutput
  imports SystemLog WebSettings
begin

text \<open>
  The syslog output (\<open>src/network/syslog_output.cpp\<close>) as an output of the log fanout: settings that wait
  for the log task, a host name resolved again and again, datagrams tried again a few times, and the
  state shown. The network and the clock are the operations \<open>syslog_io\<close>; \<open>so_log\<close> are the lines the
  output writes about itself, the notices marked.
\<close>

section \<open>State\<close>

definition RESOLVE_REFRESH_MS :: u32 where "RESOLVE_REFRESH_MS = 10 * 60 * 1000"
definition RESOLVE_RETRY_MS :: u32 where "RESOLVE_RETRY_MS = 30 * 1000"
definition SEND_RETRY_MS :: "u32 list" where "SEND_RETRY_MS = [20, 60, 120]"
definition SYSLOG_MAX_MESSAGE :: nat where "SYSLOG_MAX_MESSAGE = 480"
definition SYSLOG_SEVERITY_NOTICE :: u8 where "SYSLOG_SEVERITY_NOTICE = 5"
definition kAppName :: string where "kAppName = ''esp32-nut''"

text \<open>\<open>IPAddress::fromString\<close> and \<open>toString\<close>, \<open>hostByName\<close> with an address other than 0, one datagram, a
  pause, the uptime, the network service and the clock with the C library's broken-down times.\<close>

record 'u syslog_io =
  si_parse :: "string \<Rightarrow> u32 option"
  si_ip_text :: "u32 \<Rightarrow> string"
  si_resolve :: "string \<Rightarrow> 'u \<Rightarrow> u32 option \<times> 'u"
  si_send :: "u32 \<Rightarrow> u16 \<Rightarrow> string \<Rightarrow> 'u \<Rightarrow> bool \<times> 'u"
  si_delay :: "u32 \<Rightarrow> 'u \<Rightarrow> 'u"
  si_millis :: "'u \<Rightarrow> u32"
  si_up :: "'u \<Rightarrow> bool"
  si_hostname :: "'u \<Rightarrow> string"
  si_clock :: "'u \<Rightarrow> ntp_clock option"
  si_localtime :: "int \<Rightarrow> tm"
  si_gmtime :: "int \<Rightarrow> tm"

record 'u syslog_output =
  so_hostname :: string
  so_pending :: syslog_settings
  so_pending_who :: string
  so_has_pending :: bool
  so_status :: syslog_status
  so_active :: syslog_settings
  so_ip :: u32
  so_resolved :: bool
  so_is_literal :: bool
  so_resolve_failing :: bool
  so_next_resolve :: u32
  so_send_failing :: bool
  so_shown_state :: syslog_state
  so_shown_error :: string
  so_world :: 'u
  so_log :: "(bool \<times> string \<times> string) list"

definition no_log_stats :: log_stats where
  "no_log_stats = \<lparr>ls_sent = 0, ls_failed = 0, ls_rate_limited = 0, ls_not_ready = 0\<rparr>"

definition so_new :: "'u \<Rightarrow> 'u syslog_output" where
  "so_new w = \<lparr>so_hostname = [], so_pending = syslogDefaults, so_pending_who = [], so_has_pending = False,
     so_status = \<lparr>ss_state = SyDisabled, ss_target = [], ss_error = [], ss_stats = no_log_stats\<rparr>, so_active = syslogDefaults,
     so_ip = 0, so_resolved = False, so_is_literal = False, so_resolve_failing = False, so_next_resolve = 0,
     so_send_failing = False, so_shown_state = SyDisabled, so_shown_error = [], so_world = w, so_log = []\<rparr>"

definition so_configure :: "syslog_settings \<Rightarrow> string \<Rightarrow> 'u syslog_output \<Rightarrow> 'u syslog_output" where
  "so_configure settings who o1 = o1\<lparr>so_pending := sanitize_syslog settings, so_pending_who := who, so_has_pending := True\<rparr>"

definition so_setState :: "syslog_state \<Rightarrow> string \<Rightarrow> 'u syslog_output \<Rightarrow> 'u syslog_output" where
  "so_setState st err o1 =
     (if st = so_shown_state o1 \<and> err = so_shown_error o1 then o1
      else o1\<lparr>so_shown_state := st, so_shown_error := err, so_status := (so_status o1)\<lparr>ss_state := st, ss_error := err\<rparr>\<rparr>)"

text \<open>The printf of the logger writes at most 255 characters.\<close>

definition so_write :: "bool \<Rightarrow> string \<Rightarrow> string \<Rightarrow> 'u syslog_output \<Rightarrow> 'u syslog_output" where
  "so_write notice level line o1 = o1\<lparr>so_log := so_log o1 @ [(notice, level, take 255 line)]\<rparr>"

definition so_ready :: "'u syslog_io \<Rightarrow> 'u syslog_output \<Rightarrow> bool" where
  "so_ready io o1 \<longleftrightarrow> so_resolved o1 \<and> si_up io (so_world o1)"

section \<open>Datagrams\<close>

definition sendOnce :: "'u syslog_io \<Rightarrow> string \<Rightarrow> 'u syslog_output \<Rightarrow> bool \<times> 'u syslog_output" where
  "sendOnce io buf o1 =
     (if buf = [] then (False, o1)
      else let (ok, w) = si_send io (so_ip o1) (sy_port (so_active o1)) buf (so_world o1) in (ok, o1\<lparr>so_world := w\<rparr>))"

fun send_again :: "'u syslog_io \<Rightarrow> string \<Rightarrow> u32 list \<Rightarrow> 'u syslog_output \<Rightarrow> bool \<times> 'u syslog_output" where
  "send_again io buf [] o1 = (False, o1)"
| "send_again io buf (pause # pauses) o1 =
     (let (ok, o1) = sendOnce io buf (o1\<lparr>so_world := si_delay io pause (so_world o1)\<rparr>)
      in if ok then (True, o1) else send_again io buf pauses o1)"

definition sendDatagram :: "'u syslog_io \<Rightarrow> string \<Rightarrow> 'u syslog_output \<Rightarrow> bool \<times> 'u syslog_output" where
  "sendDatagram io buf o1 =
     (let (ok, o1) = sendOnce io buf o1
      in if ok then (True, o1)
         else if so_send_failing o1 \<or> buf = [] then (False, o1)
         else send_again io buf SEND_RETRY_MS o1)"

text \<open>\<open>localTm\<close> and \<open>utcTm\<close> of the clock drop the milliseconds.\<close>

definition timeOf :: "'u syslog_io \<Rightarrow> u32 \<Rightarrow> 'u syslog_output \<Rightarrow> syslog_time option" where
  "timeOf io uptime o1 =
     (case Option.bind (si_clock io (so_world o1)) (tk_epochMsAt uptime) of
        None \<Rightarrow> None
      | Some ms \<Rightarrow> Some \<lparr>st_local = si_localtime io (ms sdiv 1000), st_utc = si_gmtime io (ms sdiv 1000), st_ms = of_int (ms mod 1000)\<rparr>)"

definition so_message :: "'u syslog_io \<Rightarrow> u8 \<Rightarrow> string \<Rightarrow> u32 \<Rightarrow> 'u syslog_output \<Rightarrow> string" where
  "so_message io severity line uptime o1 =
     formatSyslogSeverity SYSLOG_MAX_MESSAGE (sy_protocol (so_active o1)) (sy_facility (so_active o1)) severity
       (Some (so_hostname o1)) (Some kAppName) (Some line) (timeOf io uptime o1)"

text \<open>A notice straight to the server, with the statistics of the output.\<close>

definition sendNow :: "'u syslog_io \<Rightarrow> string \<Rightarrow> 'u syslog_output log_output \<Rightarrow> 'u syslog_output log_output" where
  "sendNow io line lo =
     (let o1 = lo_object lo; (ok, o1) = sendDatagram io (so_message io SYSLOG_SEVERITY_NOTICE line (si_millis io (so_world o1)) o1) o1;
          st = lo_stats lo
      in lo\<lparr>lo_object := o1, lo_stats := (if ok then st\<lparr>ls_sent := ls_sent st + 1\<rparr> else st\<lparr>ls_failed := ls_failed st + 1\<rparr>)\<rparr>)"

section \<open>The turns of the log task\<close>

definition so_apply :: "'u syslog_io \<Rightarrow> syslog_settings \<Rightarrow> string \<Rightarrow> 'u syslog_output log_output \<Rightarrow> 'u syslog_output log_output" where
  "so_apply io s who lo =
     (let change = planSyslogChange (so_active (lo_object lo)) s who;
          lo = (if sc_to_old change \<noteq> [] \<and> sy_enabled (so_active (lo_object lo)) \<and> so_ready io (lo_object lo) then sendNow io (sc_to_old change) lo else lo);
          o1 = lo_object lo; now = si_millis io (so_world o1);
          ip = si_parse io (sy_host s);
          o1 = o1\<lparr>so_active := s, so_resolved := False, so_resolve_failing := False, so_send_failing := False, so_next_resolve := now,
                  so_is_literal := ip \<noteq> None, so_ip := (case ip of Some a \<Rightarrow> a | None \<Rightarrow> so_ip o1),
                  so_status := (so_status o1)\<lparr>ss_target := (if sy_enabled s then sy_host s @ '':'' @ dec (unat (sy_port s)) else [])\<rparr>\<rparr>;
          o1 = so_setState (if sy_enabled s then SyWaiting else SyDisabled) [] o1;
          o1 = (if sc_to_new change \<noteq> [] then so_write True ''INFO'' (sc_to_new change) o1 else o1);
          o1 = (if sc_local change \<noteq> [] then so_write False ''INFO'' (sc_local change) o1 else o1)
      in lo\<lparr>lo_object := o1, lo_enabled_at := now, lo_filter := lf_configure (sy_min_level s) (sy_rate s) (lo_filter lo)\<rparr>)"

definition so_resolve :: "'u syslog_io \<Rightarrow> u32 \<Rightarrow> 'u syslog_output \<Rightarrow> 'u syslog_output" where
  "so_resolve io now o1 =
     (if so_is_literal o1 then o1\<lparr>so_resolved := True\<rparr>
      else if sint (now - so_next_resolve o1) < 0 then o1
      else let (ip, w) = si_resolve io (sy_host (so_active o1)) (so_world o1); o1 = o1\<lparr>so_world := w\<rparr>
           in case ip of
                Some a \<Rightarrow>
                  (let o1 = (if \<not> so_resolved o1 \<or> a \<noteq> so_ip o1
                             then o1\<lparr>so_status := (so_status o1)\<lparr>ss_target := sy_host (so_active o1) @ '' ('' @ si_ip_text io a @ ''):'' @
                                    dec (unat (sy_port (so_active o1)))\<rparr>\<rparr>
                             else o1)
                   in o1\<lparr>so_ip := a, so_resolved := True, so_resolve_failing := False, so_next_resolve := now + RESOLVE_REFRESH_MS\<rparr>)
              | None \<Rightarrow>
                  let o1 = o1\<lparr>so_next_resolve := now + RESOLVE_RETRY_MS\<rparr>
                  in if so_resolved o1 \<or> so_resolve_failing o1 then o1
                     else so_write False ''WARN'' (''[SYSLOG] Cannot resolve '' @ sy_host (so_active o1) @ '', retrying every '' @
                            dec (unat (RESOLVE_RETRY_MS div 1000)) @ '' s'')
                          (so_setState SyWaiting (''Cannot resolve '' @ sy_host (so_active o1)) (o1\<lparr>so_resolve_failing := True\<rparr>)))"

definition so_name :: "'u syslog_io \<Rightarrow> 'u syslog_output \<Rightarrow> 'u syslog_output" where
  "so_name io o1 =
     (if so_hostname o1 = []
      then let name = si_hostname io (so_world o1) in o1\<lparr>so_hostname := (if name = [] then kAppName else name)\<rparr>
      else o1)"

definition so_poll :: "'u syslog_io \<Rightarrow> u32 \<Rightarrow> 'u syslog_output log_output \<Rightarrow> 'u syslog_output log_output" where
  "so_poll io now lo =
     (let o1 = lo_object lo;
          lo = (if so_has_pending o1 then so_apply io (so_pending o1) (so_pending_who o1) (lo\<lparr>lo_object := o1\<lparr>so_has_pending := False\<rparr>\<rparr>) else lo);
          o1 = lo_object lo; o1 = o1\<lparr>so_status := (so_status o1)\<lparr>ss_stats := lo_stats lo\<rparr>\<rparr>
      in lo\<lparr>lo_object :=
           (if \<not> sy_enabled (so_active o1) then o1
            else if \<not> si_up io (so_world o1)
            then (if so_shown_state o1 \<noteq> SyError then so_setState SyWaiting ''No network connection'' o1 else o1)
            else let o1 = so_resolve io now (so_name io o1)
                 in if so_resolved o1 \<and> so_shown_state o1 = SyWaiting then so_setState SyReady [] o1 else o1)\<rparr>)"

definition so_deliver :: "'u syslog_io \<Rightarrow> log_record \<Rightarrow> 'u syslog_output \<Rightarrow> bool \<times> 'u syslog_output" where
  "so_deliver io r o1 =
     (let severity = (if lr_notice r then SYSLOG_SEVERITY_NOTICE else syslogSeverity (lr_level r));
          (ok, o1) = sendDatagram io (so_message io severity (lr_msg r) (lr_uptime r) o1) o1
      in if ok then (True, so_setState SyActive [] (o1\<lparr>so_send_failing := False\<rparr>))
         else if so_send_failing o1 then (False, o1)
         else (False, so_write False ''WARN'' (''[SYSLOG] Send to '' @ si_ip_text io (so_ip o1) @ '':'' @ dec (unat (sy_port (so_active o1))) @ '' failed'')
                 (so_setState SyError (''Send to '' @ si_ip_text io (so_ip o1) @ '' failed'') (o1\<lparr>so_send_failing := True\<rparr>))))"

definition syslog_ops :: "'u syslog_io \<Rightarrow> 'u syslog_output output_ops" where
  "syslog_ops io = \<lparr>op_tag = (\<lambda>o1. Some ''[SYSLOG]''), op_enabled = (\<lambda>o1. sy_enabled (so_active o1)), op_ready = so_ready io,
     op_poll = so_poll io, op_deliver = so_deliver io\<rparr>"

end
