(* ===== verification/SyslogOutputProofs.thy ===== *)
theory SyslogOutputProofs
  imports SyslogOutput LogProofs
begin

text \<open>
  The syslog output does not feed itself: what it writes about itself starts with its tag, so that the
  fanout never gives it back.
\<close>

definition own_line :: "bool \<times> string \<times> string \<Rightarrow> bool" where
  "own_line e \<longleftrightarrow> fst e \<or> starts_with (snd (snd e)) ''[SYSLOG]''"

definition own_log :: "'u syslog_output \<Rightarrow> bool" where
  "own_log o1 \<longleftrightarrow> list_all own_line (so_log o1)"

lemma starts_take: "starts_with s p \<Longrightarrow> length p \<le> n \<Longrightarrow> starts_with (take n s) p"
  by (erule starts_withE) simp

lemma log_kept [simp]:
  "so_log (snd (sendOnce io buf o1)) = so_log o1" "so_log (so_setState st err o1) = so_log o1" "so_log (so_name io o1) = so_log o1"
  by (simp_all add: sendOnce_def so_setState_def so_name_def Let_def split_beta)

lemma log_kept_again [simp]: "so_log (snd (send_again io buf ps o1)) = so_log o1"
proof (induction ps arbitrary: o1)
  case (Cons p ps)
  let ?o = "o1\<lparr>so_world := si_delay io p (so_world o1)\<rparr>"
  have "so_log (snd (sendOnce io buf ?o)) = so_log o1" by simp
  then show ?case using Cons.IH [of "snd (sendOnce io buf ?o)"] by (simp add: Let_def split_beta)
qed simp

lemma log_kept_send [simp]:
  "so_log (snd (sendDatagram io buf o1)) = so_log o1" "so_log (lo_object (sendNow io line lo)) = so_log (lo_object lo)"
  by (simp_all add: sendDatagram_def sendNow_def Let_def split_beta)

lemma own_write: "own_log o1 \<Longrightarrow> notice \<or> starts_with line ''[SYSLOG]'' \<Longrightarrow> own_log (so_write notice level line o1)"
  by (auto simp: own_log_def so_write_def own_line_def starts_take)

lemma own_log_cong: "so_log a = so_log b \<Longrightarrow> own_log a = own_log b"
  by (simp add: own_log_def)

lemma tagged [simp]: "starts_with (CHR ''['' # CHR ''S'' # CHR ''Y'' # CHR ''S'' # CHR ''L'' # CHR ''O'' # CHR ''G'' # CHR '']'' # s) ''[SYSLOG]''"
  using starts_with_append [of "''[SYSLOG]''" s] by simp

lemma change_tagged: "sc_local (planSyslogChange a b who) \<noteq> [] \<Longrightarrow> starts_with (sc_local (planSyslogChange a b who)) ''[SYSLOG]''"
  by (auto simp: planSyslogChange_def Let_def split: if_splits)

lemma own_apply: "own_log (lo_object lo) \<Longrightarrow> own_log (lo_object (so_apply io s who lo))"
  using change_tagged
  by (auto simp: so_apply_def Let_def split_beta intro!: own_write) (auto simp: own_log_def)

lemma own_resolve: "own_log o1 \<Longrightarrow> own_log (so_resolve io now o1)"
  by (auto simp: so_resolve_def Let_def split_beta split: option.split intro!: own_write) (auto simp: own_log_def)

lemma own_poll:
  assumes "own_log (lo_object lo)"
  shows "own_log (lo_object (so_poll io now lo))"
proof -
  have a: "own_log (lo_object (if so_has_pending (lo_object lo)
      then so_apply io (so_pending (lo_object lo)) (so_pending_who (lo_object lo)) (lo\<lparr>lo_object := (lo_object lo)\<lparr>so_has_pending := False\<rparr>\<rparr>) else lo))"
    (is "own_log (lo_object ?a)")
    using assms own_apply [of "lo\<lparr>lo_object := (lo_object lo)\<lparr>so_has_pending := False\<rparr>\<rparr>"] by (simp add: own_log_def)
  have "own_log (so_resolve io now (so_name io ((lo_object ?a)\<lparr>so_status := st\<rparr>)))" for st
    using a by (intro own_resolve) (simp add: own_log_def)
  then show ?thesis using a unfolding so_poll_def Let_def by (simp add: own_log_def)
qed

lemma own_deliver: "own_log o1 \<Longrightarrow> own_log (snd (so_deliver io r o1))"
  by (auto simp: so_deliver_def Let_def split_beta intro!: own_write) (auto simp: own_log_def)

lemma own_fan_send: "own_log (lo_object lo) \<Longrightarrow> own_log (lo_object (fan_send (syslog_ops io) r lo))"
  using own_deliver by (simp add: fan_send_def syslog_ops_def Let_def split_beta)

lemma own_fan_deliver: "own_log (lo_object lo) \<Longrightarrow> own_log (lo_object (fan_deliver_to (syslog_ops io) r now lo))"
  by (auto simp: fan_deliver_to_def Let_def split_beta intro!: own_fan_send split: filter_decision.split)

datatype syslog_event = SoConfigure syslog_settings string | SoPoll u32 | SoDeliver log_record u32

fun syslog_step :: "'u syslog_io \<Rightarrow> 'u syslog_output log_output \<Rightarrow> syslog_event \<Rightarrow> 'u syslog_output log_output \<times> unit" where
  "syslog_step io lo (SoConfigure s who) = (lo\<lparr>lo_object := so_configure s who (lo_object lo)\<rparr>, ())"
| "syslog_step io lo (SoPoll now) = (op_poll (syslog_ops io) now lo, ())"
| "syslog_step io lo (SoDeliver r now) = (fan_deliver_to (syslog_ops io) r now lo, ())"

lemma own_run: "own_log (lo_object lo) \<Longrightarrow> own_log (lo_object (fst (run (syslog_step io) lo es)))"
proof (induction es arbitrary: lo)
  case (Cons e es)
  have "own_log (lo_object (fst (syslog_step io lo e)))"
    using Cons.prems own_poll own_fan_deliver by (cases e) (auto simp: syslog_ops_def so_configure_def own_log_def)
  then show ?case using Cons.IH by (simp add: run_Cons)
qed simp

text \<open>No line goes round: whatever the settings, the network and the lines, every line the syslog output
  wrote about itself, a failed send included, is one that the fanout does not give back to it: handed
  back as the logger would, it sends nothing and changes no counter. Only the notices are sent.\<close>

theorem own_lines_stay:
  "list_all (\<lambda>(notice, level, line). notice \<or>
       fan_deliver_to (syslog_ops io) \<lparr>lr_uptime = up, lr_level = logLevelOf (Some level), lr_notice = False, lr_msg = take (LOG_RECORD_MSG - 1) line\<rparr> now lo = lo)
     (so_log (lo_object (fst (run (syslog_step io) \<lparr>lo_object = so_new w, lo_filter = f, lo_stats = st, lo_enabled_at = t0\<rparr> es))))"
proof -
  have "own_log (so_new w)" by (simp add: own_log_def so_new_def)
  then have "list_all own_line (so_log (lo_object (fst (run (syslog_step io) \<lparr>lo_object = so_new w, lo_filter = f, lo_stats = st, lo_enabled_at = t0\<rparr> es))))"
    using own_run [of "\<lparr>lo_object = so_new w, lo_filter = f, lo_stats = st, lo_enabled_at = t0\<rparr>" io es] by (simp add: own_log_def)
  moreover have "fan_deliver_to (syslog_ops io) \<lparr>lr_uptime = up, lr_level = l, lr_notice = False, lr_msg = take (LOG_RECORD_MSG - 1) m\<rparr> now lo = lo"
    if "starts_with m ''[SYSLOG]''" for l m
    using starts_take [OF that, of "LOG_RECORD_MSG - 1"] by (simp add: fan_deliver_to_def isOwnLine_def syslog_ops_def LOG_RECORD_MSG_def Let_def)
  ultimately show ?thesis by (auto simp: own_line_def elim!: list.pred_mono_strong)
qed

end
