(* ===== verification/WebServer.thy ===== *)
theory WebServer
  imports BoardStores SyslogOutput UsbDiagProofs BoardLed
begin

text \<open>
  The web server (\<open>src/network/web_config_server.cpp\<close>): its state, the guard of every route, the pages of
  the login and those of the UPS. A request holds what the code reads of it; a handler gives one response.
  The parts of the board it works on are the models of the other theories; the flash, the network, the
  UPS, the JSON library, the C library and the firmware update are the operations \<open>web_env\<close>.
\<close>

section \<open>Requests and responses\<close>

datatype http_method = HTTP_GET | HTTP_POST | HTTP_OTHER

record http_request =
  rq_method :: http_method
  rq_uri :: string
  rq_content_type :: string
  rq_cookie :: string
  rq_body :: "string option"
  rq_host :: string
  rq_now :: u32

record http_response =
  hr_status :: nat
  hr_type :: string
  hr_body :: string
  hr_headers :: "(string \<times> string) list"

definition send_with :: "(string \<times> string) list \<Rightarrow> nat \<Rightarrow> string \<Rightarrow> string \<Rightarrow> http_response" where
  "send_with headers status ctype body = \<lparr>hr_status = status, hr_type = ctype, hr_body = body, hr_headers = headers\<rparr>"

definition send_json :: "nat \<Rightarrow> string \<Rightarrow> http_response" where
  "send_json status body = send_with [] status ''application/json'' body"

text \<open>\<open>{"error":"..."}\<close>, and the form with a blank after the colon that some handlers write.\<close>

definition json_error :: "nat \<Rightarrow> string \<Rightarrow> http_response" where
  "json_error status message = send_json status (error_text message)"

definition json_error_spaced :: "nat \<Rightarrow> string \<Rightarrow> http_response" where
  "json_error_spaced status message = send_json status (''{'' @ json_quoted ''error'' @ '': '' @ json_quoted message @ ''}'')"

definition success_text :: string where "success_text = ''{'' @ json_quoted ''success'' @ '':true}''"

section \<open>The server\<close>

text \<open>What the server works with: the pages embedded in the firmware, the source of the UPS with what the
  diagnostics ask of the host, and the update of the firmware.\<close>

record ('p, 's, 'f, 'n, 'o) web_env =
  we_auth :: "'p auth_io"
  we_json :: json_io
  we_source :: "'s ups_source"
  we_reset :: "string option \<Rightarrow> 's \<Rightarrow> (set_status \<times> string) \<times> 's"
  we_waiting_first :: "'s \<Rightarrow> bool"
  we_snapshot :: "'s \<Rightarrow> diag_snapshot"
  we_request_read :: "'s \<Rightarrow> bool \<times> 's"
  we_read_status :: "'s \<Rightarrow> diag_status"
  we_prefs :: "'f prefs_io"
  we_net :: "'n net_io"
  we_board :: board_config
  we_asset :: "string \<Rightarrow> string"
  we_version :: string
  we_chip :: string
  we_diagnostics :: "(string \<times> json) list"
  we_localtime :: "int \<Rightarrow> tm"
  we_gmtime :: "int \<Rightarrow> tm"
  we_strftime :: "string \<Rightarrow> tm \<Rightarrow> string"
  we_up_begin :: "'o \<Rightarrow> bool \<times> 'o"
  we_up_write :: "string \<Rightarrow> 'o \<Rightarrow> nat \<times> 'o"
  we_up_end :: "'o \<Rightarrow> bool \<times> 'o"
  we_up_abort :: "'o \<Rightarrow> 'o"
  we_up_error :: "'o \<Rightarrow> bool"

text \<open>A pointer that the setup may not have set is an option, or a flag for a store.\<close>

record ('p, 's, 'f, 'n, 'u, 'o) web_server =
  wv_ap_mode :: bool
  wv_auth :: "'p web_auth"
  wv_throttle_logged :: u32
  wv_recovery :: recovery_window
  wv_ups :: bool
  wv_source :: 's
  wv_network :: "'n net_manager option"
  wv_flash :: 'f
  wv_config :: config_manager
  wv_board_store :: bool
  wv_board_settings :: board_settings
  wv_led :: "diagnostic_led option"
  wv_auto_shutdown :: "auto_shutdown option"
  wv_hostname_store :: bool
  wv_saved_hostname :: string
  wv_override_store :: bool
  wv_overrides :: "nut_override list option"
  wv_log_store :: bool
  wv_syslog :: "'u syslog_output option"
  wv_time_store :: bool
  wv_clock :: "ntp_clock option"
  wv_restart :: bool
  wv_restart_time :: u32
  wv_ota_rejected :: bool
  wv_ota_started :: bool
  wv_ota_start_ms :: u32
  wv_update :: 'o
  wv_logger :: app_logger

text \<open>A line of the System Log; the printf of the logger keeps 255 characters.\<close>

definition web_log :: "u32 \<Rightarrow> string \<Rightarrow> string \<Rightarrow> ('p, 's, 'f, 'n, 'u, 'o) web_server \<Rightarrow> ('p, 's, 'f, 'n, 'u, 'o) web_server" where
  "web_log now level line s = s\<lparr>wv_logger := al_store now level line (wv_logger s)\<rparr>"

definition web_logf :: "u32 \<Rightarrow> string \<Rightarrow> string \<Rightarrow> ('p, 's, 'f, 'n, 'u, 'o) web_server \<Rightarrow> ('p, 's, 'f, 'n, 'u, 'o) web_server" where
  "web_logf now level line = web_log now level (take 255 line)"

definition web_quoted :: "string \<Rightarrow> string" where
  "web_quoted t = [CHR 0x27] @ t @ [CHR 0x27]"

text \<open>\<open>should_restart\<close>: the loop restarts the board a second later.\<close>

definition ask_restart :: "u32 \<Rightarrow> ('p, 's, 'f, 'n, 'u, 'o) web_server \<Rightarrow> ('p, 's, 'f, 'n, 'u, 'o) web_server" where
  "ask_restart now s = s\<lparr>wv_restart := True, wv_restart_time := now\<rparr>"

definition web_source :: "('p, 's, 'f, 'n, 'o) web_env \<Rightarrow> ('p, 's, 'f, 'n, 'u, 'o) web_server \<Rightarrow> 's ups_source option" where
  "web_source e s = (if wv_ups s then Some (we_source e) else None)"

section \<open>The guard\<close>

definition sessionToken :: "http_request \<Rightarrow> string" where
  "sessionToken rq = extractCookie (rq_cookie rq) (Some kSessionCookie)"

definition evaluateRequest ::
    "('p, 's, 'f, 'n, 'o) web_env \<Rightarrow> http_request \<Rightarrow> ('p, 's, 'f, 'n, 'u, 'o) web_server \<Rightarrow> auth_decision \<times> ('p, 's, 'f, 'n, 'u, 'o) web_server" where
  "evaluateRequest e rq s =
     (let (ok, a) = (if wv_ap_mode s then (False, wv_auth s) else isAuthenticated (we_auth e) (sessionToken rq) (rq_now rq) (wv_auth s));
          s = s\<lparr>wv_auth := a\<rparr>
      in (decide (rq_uri rq) (rq_method rq = HTTP_GET) (wv_ap_mode s) (kc_configured (wa_credentials (wv_auth s))) ok, s))"

text \<open>The answer of a refused request; \<open>None\<close> lets it through.\<close>

definition refusal :: "auth_decision \<Rightarrow> http_response option" where
  "refusal d =
     (case d of Allow \<Rightarrow> None
      | RedirectLogin \<Rightarrow> Some (send_with [(''Location'', ''/login''), (''Cache-Control'', ''no-store'')] 302 ''text/plain'' [])
      | SetupRequired \<Rightarrow> Some (json_error 401 ''setup_required'')
      | Unauthorized \<Rightarrow> Some (json_error 401 ''unauthorized''))"

definition guarded ::
    "('p, 's, 'f, 'n, 'o) web_env \<Rightarrow> (http_request \<Rightarrow> ('p, 's, 'f, 'n, 'u, 'o) web_server \<Rightarrow> http_response \<times> ('p, 's, 'f, 'n, 'u, 'o) web_server) \<Rightarrow>
      http_request \<Rightarrow> ('p, 's, 'f, 'n, 'u, 'o) web_server \<Rightarrow> http_response \<times> ('p, 's, 'f, 'n, 'u, 'o) web_server" where
  "guarded e h rq s = (let (d, s) = evaluateRequest e rq s in case refusal d of Some r \<Rightarrow> (r, s) | None \<Rightarrow> h rq s)"

definition isJson :: "http_request \<Rightarrow> bool" where
  "isJson rq \<longleftrightarrow> starts_with (map lower (rq_content_type rq)) ''application/json''"

definition requireJson ::
    "(http_request \<Rightarrow> ('p, 's, 'f, 'n, 'u, 'o) web_server \<Rightarrow> http_response \<times> ('p, 's, 'f, 'n, 'u, 'o) web_server) \<Rightarrow>
      http_request \<Rightarrow> ('p, 's, 'f, 'n, 'u, 'o) web_server \<Rightarrow> http_response \<times> ('p, 's, 'f, 'n, 'u, 'o) web_server" where
  "requireJson h rq s = (if \<not> isJson rq then (json_error 415 ''Unsupported content type'', s) else h rq s)"

definition body_text :: "http_request \<Rightarrow> string" where
  "body_text rq = (case rq_body rq of Some b \<Rightarrow> b | None \<Rightarrow> [])"

definition body_json :: "('p, 's, 'f, 'n, 'o) web_env \<Rightarrow> http_request \<Rightarrow> json option" where
  "body_json e rq = Option.bind (rq_body rq) (ji_parse (we_json e) [])"

section \<open>Pages\<close>

definition no_cache :: "(string \<times> string) list" where
  "no_cache = [(''Cache-Control'', ''no-cache, no-store, must-revalidate''), (''Pragma'', ''no-cache''), (''Expires'', ''-1'')]"

definition handleIndex :: "('p, 's, 'f, 'n, 'o) web_env \<Rightarrow> http_request \<Rightarrow> ('p, 's, 'f, 'n, 'u, 'o) web_server \<Rightarrow> http_response \<times> ('p, 's, 'f, 'n, 'u, 'o) web_server" where
  "handleIndex e rq s = (send_with (no_cache @ [(''Content-Encoding'', ''gzip'')]) 200 ''text/html'' (we_asset e ''index_inlined_html''), s)"

definition handleIndexHtml :: "http_request \<Rightarrow> ('p, 's, 'f, 'n, 'u, 'o) web_server \<Rightarrow> http_response \<times> ('p, 's, 'f, 'n, 'u, 'o) web_server" where
  "handleIndexHtml rq s = (send_with [(''Location'', ''/'')] 301 ''text/plain'' [], s)"

definition handleLoginPage :: "('p, 's, 'f, 'n, 'o) web_env \<Rightarrow> http_request \<Rightarrow> ('p, 's, 'f, 'n, 'u, 'o) web_server \<Rightarrow> http_response \<times> ('p, 's, 'f, 'n, 'u, 'o) web_server" where
  "handleLoginPage e rq s = (send_with (no_cache @ [(''Content-Encoding'', ''gzip'')]) 200 ''text/html'' (we_asset e ''login_inlined_html''), s)"

section \<open>The login\<close>

definition loggableText :: "string \<Rightarrow> nat \<Rightarrow> string" where
  "loggableText raw max_len = map (\<lambda>c. if 0x20 \<le> ord c \<and> ord c \<le> 0x7E then c else CHR ''?'') (take max_len raw)"

definition loggableUsername :: "json_io \<Rightarrow> string \<Rightarrow> string" where
  "loggableUsername ji body =
     (if kMaxBodyLength < length body then ''?''
      else case Option.bind (ji_parse ji [''username''] body) (\<lambda>req. json_string (json_member req ''username'')) of
        None \<Rightarrow> ''?'' | Some u \<Rightarrow> loggableText u 32)"

definition sendAuth :: "auth_response \<Rightarrow> http_response" where
  "sendAuth r = send_with ((if ar_set_cookie r \<noteq> [] then [(''Set-Cookie'', ar_set_cookie r)] else []) @
     (if 0 < ar_retry_after_s r then [(''Retry-After'', dec (unat (ar_retry_after_s r)))] else []) @ [(''Cache-Control'', ''no-store'')])
     (ar_status r) ''application/json'' (ar_body r)"

definition web_user :: "('p, 's, 'f, 'n, 'u, 'o) web_server \<Rightarrow> string" where
  "web_user s = cr_username (kc_record (wa_credentials (wv_auth s)))"

definition webUiUser :: "('p, 's, 'f, 'n, 'u, 'o) web_server \<Rightarrow> string" where
  "webUiUser s = (if wv_ap_mode s then ''(AP mode)'' else web_user s)"

definition handleAuthLogin :: "('p, 's, 'f, 'n, 'o) web_env \<Rightarrow> http_request \<Rightarrow> ('p, 's, 'f, 'n, 'u, 'o) web_server \<Rightarrow> http_response \<times> ('p, 's, 'f, 'n, 'u, 'o) web_server" where
  "handleAuthLogin e = requireJson (\<lambda>rq s.
     (let body = body_text rq; now = rq_now rq;
          (r, a) = login (we_auth e) (we_json e) body now (wv_auth s); s = s\<lparr>wv_auth := a\<rparr>;
          s = (if ar_status r = 200
               then web_log now ''INFO'' (''[AUTH] Login succeeded for user '' @ web_quoted (web_user s)) (s\<lparr>wv_throttle_logged := 0\<rparr>)
               else if ar_status r = 401
               then web_log now ''INFO'' (''[AUTH] Login failed for user '' @ web_quoted (loggableUsername (we_json e) body)) s
               else if ar_status r = 429 \<and> th_failures (wa_throttle (wv_auth s)) \<noteq> wv_throttle_logged s
               then web_log now ''WARN'' (''[AUTH] Login throttled for user '' @ web_quoted (loggableUsername (we_json e) body) @ '': retry after '' @
                      dec (unat (ar_retry_after_s r)) @ '' s'') (s\<lparr>wv_throttle_logged := th_failures (wa_throttle (wv_auth s))\<rparr>)
               else s)
      in (sendAuth r, s)))"

definition handleAuthStatus :: "('p, 's, 'f, 'n, 'o) web_env \<Rightarrow> http_request \<Rightarrow> ('p, 's, 'f, 'n, 'u, 'o) web_server \<Rightarrow> http_response \<times> ('p, 's, 'f, 'n, 'u, 'o) web_server" where
  "handleAuthStatus e rq s =
     (let now = rq_now rq; is_open = rw_isOpen now (wv_recovery s);
          (r, a) = auth_status (we_auth e) (we_json e) (sessionToken rq) (wv_ap_mode s) now is_open
                     (if is_open then unat ((rw_remainingMs now (wv_recovery s) + 999) div 1000) else 0) (wv_auth s)
      in (sendAuth r, s\<lparr>wv_auth := a\<rparr>))"

text \<open>\<open>indexOf\<close> finds a text somewhere in another.\<close>

fun has_text :: "string \<Rightarrow> string \<Rightarrow> bool" where
  "has_text [] t = (t = [])"
| "has_text (c # cs) t = (starts_with (c # cs) t \<or> has_text cs t)"

definition handleAuthCredentials :: "('p, 's, 'f, 'n, 'o) web_env \<Rightarrow> http_request \<Rightarrow> ('p, 's, 'f, 'n, 'u, 'o) web_server \<Rightarrow> http_response \<times> ('p, 's, 'f, 'n, 'u, 'o) web_server" where
  "handleAuthCredentials e = requireJson (\<lambda>rq s.
     (let body = body_text rq; now = rq_now rq; in_recovery = rw_isOpen now (wv_recovery s);
          creating = (\<not> kc_configured (wa_credentials (wv_auth s)));
          action = (if creating then ''created'' else if wv_ap_mode s \<or> in_recovery then ''reset'' else ''changed'');
          (r, a) = updateCredentials (we_auth e) (we_json e) body (sessionToken rq) (wv_ap_mode s) now in_recovery (wv_auth s);
          s = s\<lparr>wv_auth := a\<rparr>
      in if ar_status r = 200
         then let s = web_log now ''INFO'' (''[AUTH] Web UI credentials '' @ action @ '' for user '' @ web_quoted (web_user s)) s;
                  not_closed = has_text (ar_body r) (json_quoted ''sessions_closed'' @ '':false'')
              in if in_recovery
                 then let s = s\<lparr>wv_recovery := rw_markUsed (wv_recovery s)\<rparr>;
                          s = (if not_closed
                               then web_log now ''ERROR'' ''[AUTH] Web credentials replaced from the recovery window, but the sessions could not be closed'' s
                               else web_log now ''WARN'' ''[AUTH] Web credentials replaced from the recovery window, all sessions closed'' s)
                      in (sendAuth r, web_log now ''INFO'' ''[AUTH] Recovery window closed: used'' s)
                 else if not_closed
                 then (sendAuth r, web_log now ''ERROR'' ''[AUTH] Credentials changed but other sessions could not be closed'' s)
                 else (sendAuth r, s)
         else if ar_status r \<noteq> 429 \<or> th_failures (wa_throttle (wv_auth s)) \<noteq> wv_throttle_logged s
         then let s = (if ar_status r = 429 then s\<lparr>wv_throttle_logged := th_failures (wa_throttle (wv_auth s))\<rparr> else s)
              in (sendAuth r, web_log now ''WARN'' (''[AUTH] Credentials '' @ (if creating then ''creation'' else ''change'') @
                    '' refused (HTTP '' @ dec (ar_status r) @ '')'') s)
         else (sendAuth r, s)))"

definition handleAuthLogout :: "('p, 's, 'f, 'n, 'o) web_env \<Rightarrow> http_request \<Rightarrow> ('p, 's, 'f, 'n, 'u, 'o) web_server \<Rightarrow> http_response \<times> ('p, 's, 'f, 'n, 'u, 'o) web_server" where
  "handleAuthLogout e = requireJson (\<lambda>rq s.
     (let (r, a) = logout (we_auth e) (sessionToken rq) (wv_auth s) in (sendAuth r, s\<lparr>wv_auth := a\<rparr>)))"

definition handleAuthLogoutAll :: "('p, 's, 'f, 'n, 'o) web_env \<Rightarrow> http_request \<Rightarrow> ('p, 's, 'f, 'n, 'u, 'o) web_server \<Rightarrow> http_response \<times> ('p, 's, 'f, 'n, 'u, 'o) web_server" where
  "handleAuthLogoutAll e = requireJson (\<lambda>rq s.
     (if wv_ap_mode s then (json_error 403 ''Not available in Access Point mode'', s)
      else let (r, a) = logoutAll (we_auth e) (wv_auth s); s = s\<lparr>wv_auth := a\<rparr>
           in (sendAuth r,
               if ar_status r = 200 then web_log (rq_now rq) ''INFO'' (''[AUTH] All sessions closed by '' @ web_quoted (web_user s)) s
               else web_log (rq_now rq) ''ERROR'' ''[AUTH] Logout of all sessions failed: storage not cleared'' s)))"

end
