(* ===== verification/WebPages.thy ===== *)
theory WebPages
  imports WebServer
begin

text \<open>
  The pages of the web server (\<open>src/network/web_config_server.cpp\<close>): the UPS, the diagnostics, the settings
  and the configuration, the update of the firmware, the table of the routes, and a turn of the server.
\<close>

type_synonym ('p, 's, 'f, 'n, 'u, 'o) web_handler =
  "http_request \<Rightarrow> ('p, 's, 'f, 'n, 'u, 'o) web_server \<Rightarrow> http_response \<times> ('p, 's, 'f, 'n, 'u, 'o) web_server"

section \<open>The UPS\<close>

definition handleUpsVars :: "('p, 's, 'f, 'n, 'o) web_env \<Rightarrow> ('p, 's, 'f, 'n, 'u, 'o) web_handler" where
  "handleUpsVars e rq s =
     (case web_source e s of None \<Rightarrow> (json_error_spaced 503 ''UPS non inizializzato'', s)
      | Some u \<Rightarrow> (send_json 200 (generateUpsVars (we_json e) (Some u) (wv_source s)), s))"

definition handleUpsCommands :: "('p, 's, 'f, 'n, 'o) web_env \<Rightarrow> ('p, 's, 'f, 'n, 'u, 'o) web_handler" where
  "handleUpsCommands e rq s = (send_json 200 (generateUpsCommands (we_json e) (web_source e s) (wv_source s)), s)"

definition destructive_name :: "json_io \<Rightarrow> string \<Rightarrow> string option" where
  "destructive_name ji body =
     (case Option.bind (ji_parse ji [''name''] body) (\<lambda>req. command_find (json_string (json_member req ''name''))) of
        Some info \<Rightarrow> if ci_destructive info then Some (ci_name info) else None
      | None \<Rightarrow> None)"

definition handleUpsCommand :: "('p, 's, 'f, 'n, 'o) web_env \<Rightarrow> ('p, 's, 'f, 'n, 'u, 'o) web_handler" where
  "handleUpsCommand e = requireJson (\<lambda>rq s.
     (let body = body_text rq; ((status, response), h) = runUpsCommand (we_json e) (web_source e s) body (wv_source s);
          s = s\<lparr>wv_source := h\<rparr>;
          s = (if status = 200
               then (case destructive_name (we_json e) body of
                       Some name \<Rightarrow> web_log (rq_now rq) ''WARN'' (''[CMD] Destructive command '' @ web_quoted name @ '' run from the Web UI by '' @
                                      web_quoted (webUiUser s)) s
                     | None \<Rightarrow> s)
               else s)
      in (send_json status response, s)))"

definition handleUpsVariables :: "('p, 's, 'f, 'n, 'o) web_env \<Rightarrow> ('p, 's, 'f, 'n, 'u, 'o) web_handler" where
  "handleUpsVariables e rq s =
     (let (txt, h) = generateUpsVariables (we_json e) (web_source e s) (wv_overrides s) (wv_source s)
      in (send_json 200 txt, s\<lparr>wv_source := h\<rparr>))"

definition rejected_line :: "json_io \<Rightarrow> string \<Rightarrow> bool \<Rightarrow> string \<Rightarrow> string \<Rightarrow> string" where
  "rejected_line ji body with_value response user =
     (let req = (if length body \<le> MAX_COMMAND_BODY_LENGTH then ji_parse ji ([''name''] @ (if with_value then [''value''] else [])) body else None);
          field = (\<lambda>k. Option.bind req (\<lambda>r. json_string (json_member r k)));
          name = (case field ''name'' of Some raw \<Rightarrow> if raw \<noteq> [] then loggableText raw 48 else ''?'' | None \<Rightarrow> ''?'');
          val = (case (if with_value then field ''value'' else None) of
                   Some raw \<Rightarrow> loggableText raw 32 @ (if 32 < length raw then ''...'' else []) | None \<Rightarrow> ''?'');
          reason = (case Option.bind (ji_parse ji [] response) (\<lambda>r. json_string (json_member r ''error'')) of Some t \<Rightarrow> t | None \<Rightarrow> ''rejected'')
      in ''Variable '' @ name @ (if with_value then '' = '' @ json_quoted val else '' reset'') @ '' from the Web UI by '' @ web_quoted user @
         '': '' @ reason)"

definition handleUpsVariable :: "('p, 's, 'f, 'n, 'o) web_env \<Rightarrow> ('p, 's, 'f, 'n, 'u, 'o) web_handler" where
  "handleUpsVariable e = requireJson (\<lambda>rq s.
     (let body = body_text rq;
          (((status, response), called), h) = runUpsVariable (we_json e) (web_source e s) body (wv_overrides s) (wv_source s);
          s = s\<lparr>wv_source := h\<rparr>
      in (send_json status response,
          if status \<noteq> 200 \<and> \<not> called then web_log (rq_now rq) ''WARN'' (rejected_line (we_json e) body True response (webUiUser s)) s else s)))"

definition handleUpsVariableReset :: "('p, 's, 'f, 'n, 'o) web_env \<Rightarrow> ('p, 's, 'f, 'n, 'u, 'o) web_handler" where
  "handleUpsVariableReset e = requireJson (\<lambda>rq s.
     (let body = body_text rq;
          (((status, response), called), h) = resetUpsVariable (we_json e) (web_source e s) (we_reset e) body (wv_overrides s) (wv_source s);
          s = s\<lparr>wv_source := h\<rparr>
      in (send_json status response,
          if status \<noteq> 200 \<and> \<not> called then web_log (rq_now rq) ''WARN'' (rejected_line (we_json e) body False response (webUiUser s)) s else s)))"

section \<open>Diagnostics\<close>

text \<open>The chunks go out as they are written; the body is all of them.\<close>

definition handleUsbDump :: "('p, 's, 'f, 'n, 'o) web_env \<Rightarrow> ('p, 's, 'f, 'n, 'u, 'o) web_handler" where
  "handleUsbDump e rq s =
     (if \<not> wv_ups s then (json_error_spaced 503 ''UPS non inizializzato'', s)
      else (send_with [(''Content-Disposition'', ''attachment; filename='' @ json_quoted ''usb_diagnostics.json'')] 200 ''application/json''
              (concat (cw_out (cw_flush (usb_diag_write (we_snapshot e (wv_source s)) (cw_new 1024))))), s))"

definition handleDumpRead :: "('p, 's, 'f, 'n, 'o) web_env \<Rightarrow> ('p, 's, 'f, 'n, 'u, 'o) web_handler" where
  "handleDumpRead e rq s =
     (if \<not> wv_ups s then (json_error 503 ''UPS not ready'', s)
      else let (ok, h) = we_request_read e (wv_source s); s = s\<lparr>wv_source := h\<rparr>
           in if \<not> ok then (json_error 503 ''UPS not ready'', s)
              else (send_with [(''Cache-Control'', ''no-store'')] 202 ''application/json''
                      (ji_print (we_json e) (diagReadJson (we_read_status e (wv_source s)))), s))"

definition no_read_status :: diag_status where
  "no_read_status = \<lparr>ds_state = DiagIdle, ds_total = 0, ds_done = 0, ds_read = 0, ds_empty = 0, ds_failed = 0\<rparr>"

definition handleDumpReadStatus :: "('p, 's, 'f, 'n, 'o) web_env \<Rightarrow> ('p, 's, 'f, 'n, 'u, 'o) web_handler" where
  "handleDumpReadStatus e rq s =
     (send_with [(''Cache-Control'', ''no-store'')] 200 ''application/json''
        (ji_print (we_json e) (diagReadJson (if wv_ups s then we_read_status e (wv_source s) else no_read_status))), s)"

definition web_boardTime :: "('p, 's, 'f, 'n, 'o) web_env \<Rightarrow> wall_clock option \<Rightarrow> u32 \<Rightarrow> u32 \<Rightarrow> string option" where
  "web_boardTime e ref row_uptime list_uptime =
     (case Option.bind ref (\<lambda>c. epochMsAt c list_uptime) of None \<Rightarrow> None
      | Some list_ms \<Rightarrow>
          let ms = boardEpochMs list_ms list_uptime row_uptime;
              t = formatBoardTime (we_localtime e (ms sdiv 1000)) (we_gmtime e (ms sdiv 1000)) (of_int (ms smod 1000)) 40
          in if t = [] then None else Some t)"

definition handleLogs :: "('p, 's, 'f, 'n, 'o) web_env \<Rightarrow> ('p, 's, 'f, 'n, 'u, 'o) web_handler" where
  "handleLogs e rq s =
     (send_with [(''X-Uptime-Ms'', dec (unat (rq_now rq)))] 200 ''application/json''
        (getLogsJSON (we_json e) (web_boardTime e (Option.bind (wv_clock s) tk_reference)) (rq_now rq) (wv_logger s)), s)"

section \<open>Status and configuration\<close>

definition up_mac :: "u8 list \<Rightarrow> string" where
  "up_mac mac = map upper (hex2_lower (mac ! 3) @ hex2_lower (mac ! 4) @ hex2_lower (mac ! 5))"

definition status_json :: "('p, 's, 'f, 'n, 'o) web_env \<Rightarrow> ('p, 's, 'f, 'n, 'u, 'o) web_server \<Rightarrow> json" where
  "status_json e s =
     (let h = wv_source s; con = (case web_source e s of Some u \<Rightarrow> us_connected u h | None \<Rightarrow> False); u = we_source e;
          mac = (case wv_network s of Some m \<Rightarrow> nm_macAddress (we_net e) m | None \<Rightarrow> replicate 6 0)
      in JObject [(''version'', JString (we_version e)), (''device_id'', JString (take 31 (we_chip e @ ''-'' @ up_mac mac))),
           (''wifi'', JObject [(''status'', JString (case wv_network s of Some m \<Rightarrow> nm_statusText (we_net e) m | None \<Rightarrow> ''Disconnected''))]),
           (''network'', JObject (networkStatusJson (case wv_network s of Some m \<Rightarrow> nm_linkInfo (we_net e) m | None \<Rightarrow> no_link_info))),
           (''ups'', JObject ([(''status'', JString
               (if con then (if ud_hasKey (us_data u h) ''ups.model'' then ud_get (us_data u h) ''ups.model'' [] else ''Unknown Model'') else ''Disconnected''))] @
             (if con \<and> us_stale u h \<and> \<not> we_waiting_first e h then [(''stale'', JBool True)] else []))),
           (''diagnostics'', JObject (we_diagnostics e))])"

definition handleSystemStatus :: "('p, 's, 'f, 'n, 'o) web_env \<Rightarrow> ('p, 's, 'f, 'n, 'u, 'o) web_handler" where
  "handleSystemStatus e rq s = (send_json 200 (ji_print (we_json e) (status_json e s)), s)"

definition handleGetConfig :: "('p, 's, 'f, 'n, 'o) web_env \<Rightarrow> ('p, 's, 'f, 'n, 'u, 'o) web_handler" where
  "handleGetConfig e rq s =
     (send_json 200 (ji_print (we_json e) (JObject
        [(''wifi'', JObject [(''ssid'', JString (wf_ssid (cm_wifi (wv_config s)))), (''mode'', JString (if wv_ap_mode s then ''AP'' else ''STA''))]),
         (''network'', JObject [(''type'', JString (if bc_has_wifi (we_board e) then ''wifi'' else ''ethernet'')),
            (''links'', JArray (networkLinksJson (we_board e))),
            (''hostname'', hostnameJson (case wv_network s of Some m \<Rightarrow> nm_hostname (we_net e) m | None \<Rightarrow> []) (wv_saved_hostname s)
               (case wv_network s of Some m \<Rightarrow> nm_defaultHostname (we_net e) m | None \<Rightarrow> []))]),
         (''nut'', JObject [(''username'', JString (nc_username (cm_nut (wv_config s)))), (''ups_name'', JString (nc_ups_name (cm_nut (wv_config s))))])])), s)"

definition saved_config :: "('p, 's, 'f, 'n, 'o) web_env \<Rightarrow> config_manager \<Rightarrow> ('p, 's, 'f, 'n, 'u, 'o) web_server \<Rightarrow> bool \<times> ('p, 's, 'f, 'n, 'u, 'o) web_server" where
  "saved_config e c s = (let (ok, c, f) = cm_save (we_prefs e) (we_json e) c (wv_flash s) in (ok, s\<lparr>wv_config := c, wv_flash := f\<rparr>))"

definition success_spaced :: string where "success_spaced = ''{'' @ json_quoted ''success'' @ '': true}''"

definition handleConnect :: "('p, 's, 'f, 'n, 'o) web_env \<Rightarrow> ('p, 's, 'f, 'n, 'u, 'o) web_handler" where
  "handleConnect e = requireJson (\<lambda>rq s.
     (if rq_body rq = None then (json_error_spaced 400 ''Body not received'', s)
      else case body_json e rq of None \<Rightarrow> (json_error_spaced 400 ''Invalid JSON'', s)
      | Some doc \<Rightarrow>
          let wc = \<lparr>wf_ssid = as_String (we_json e) (json_member doc ''ssid''), wf_password = as_String (we_json e) (json_member doc ''password'')\<rparr>;
              (ok, s) = saved_config e ((wv_config s)\<lparr>cm_wifi := wc\<rparr>) s
          in if ok then (send_json 200 success_spaced, ask_restart (rq_now rq) s)
             else (json_error_spaced 500 ''Failed to save config'', s)))"

definition handleNutConfig :: "('p, 's, 'f, 'n, 'o) web_env \<Rightarrow> ('p, 's, 'f, 'n, 'u, 'o) web_handler" where
  "handleNutConfig e = requireJson (\<lambda>rq s.
     (if rq_body rq = None then (json_error_spaced 400 ''Body not received'', s)
      else case body_json e rq of None \<Rightarrow> (json_error_spaced 400 ''Invalid JSON'', s)
      | Some doc \<Rightarrow>
          (case checkNutConfigBody doc of Some (status, body) \<Rightarrow> (send_json status body, s)
           | None \<Rightarrow>
               let text_or = (\<lambda>k d. case json_string (json_member doc k) of Some t \<Rightarrow> t | None \<Rightarrow> d); nc = cm_nut (wv_config s);
                   nc = \<lparr>nc_username = text_or ''username'' (nc_username nc), nc_password = text_or ''password'' (nc_password nc),
                         nc_ups_name = text_or ''ups_name'' (nc_ups_name nc)\<rparr>;
                   (ok, s) = saved_config e ((wv_config s)\<lparr>cm_nut := nc\<rparr>) s
               in if ok then (send_json 200 success_spaced, ask_restart (rq_now rq) (web_log (rq_now rq) ''INFO'' ''[WEB] NUT configuration updated'' s))
                  else (json_error_spaced 500 ''Failed to save config'', s))))"

section \<open>The Board page\<close>

definition web_availability :: "('p, 's, 'f, 'n, 'o) web_env \<Rightarrow> ('p, 's, 'f, 'n, 'u, 'o) web_server \<Rightarrow> shutdown_availability" where
  "web_availability e s =
     (case web_source e s of None \<Rightarrow> autoShutdownAvailability False False
      | Some u \<Rightarrow> let con = us_connected u (wv_source s)
                 in autoShutdownAvailability con (con \<and> offersShutdownDefault (us_commands u (wv_source s))))"

definition handleGetBoard :: "('p, 's, 'f, 'n, 'o) web_env \<Rightarrow> ('p, 's, 'f, 'n, 'u, 'o) web_handler" where
  "handleGetBoard e rq s = (send_json 200 (ji_print (we_json e) (boardSettingsJson (we_board e) (wv_board_settings s) (web_availability e s))), s)"

text \<open>What the saved settings change at once: the automatic shutdown and the LED.\<close>

definition apply_board :: "u32 \<Rightarrow> board_settings \<Rightarrow> ('p, 's, 'f, 'n, 'u, 'o) web_server \<Rightarrow> ('p, 's, 'f, 'n, 'u, 'o) web_server" where
  "apply_board now next_s s =
     (let old = wv_board_settings s; s = s\<lparr>wv_board_settings := next_s\<rparr>;
          s = (if bs_auto_shutdown next_s \<noteq> bs_auto_shutdown old
               then web_logf now ''INFO'' (''[BOARD] Automatic shutdown '' @ (if bs_auto_shutdown next_s then ''enabled'' else ''disabled''))
                      (s\<lparr>wv_auto_shutdown := map_option (as_setEnabled (bs_auto_shutdown next_s)) (wv_auto_shutdown s)\<rparr>)
               else s)
      in if bs_led_on next_s \<noteq> bs_led_on old \<or> bs_led_level next_s \<noteq> bs_led_level old
         then web_logf now ''INFO'' (''[BOARD] Status LED '' @ (if bs_led_on next_s then ''on'' else ''off'') @ '', brightness level '' @ dec (unat (bs_led_level next_s)))
                (s\<lparr>wv_led := map_option (setUserEnabled (bs_led_on next_s) \<circ> setBrightness (ledBrightness (bs_led_level next_s))) (wv_led s)\<rparr>)
         else s)"

definition handleSetBoard :: "('p, 's, 'f, 'n, 'o) web_env \<Rightarrow> ('p, 's, 'f, 'n, 'u, 'o) web_handler" where
  "handleSetBoard e = requireJson (\<lambda>rq s.
     (case body_json e rq of None \<Rightarrow> (json_error 400 ''Invalid request'', s)
      | Some doc \<Rightarrow>
          (case checkBoardSettingsBody doc (we_board e) (wv_board_settings s) (web_availability e s) of
             Inl err \<Rightarrow> (json_error 400 err, s)
           | Inr (next_s, restart) \<Rightarrow>
               let (ok, f) = (if wv_board_store s then save_board (we_prefs e) next_s (wv_flash s) else (False, wv_flash s)); s = s\<lparr>wv_flash := f\<rparr>
               in if \<not> ok then (json_error 500 ''Failed to save settings'', s)
                  else let s = apply_board (rq_now rq) next_s s;
                           r = send_json 200 (''{'' @ json_quoted ''success'' @ '':true,'' @ json_quoted ''restart'' @ '':'' @ bool_text restart @ ''}'')
                       in if restart
                          then (r, ask_restart (rq_now rq) (web_logf (rq_now rq) ''WARN'' (''[BOARD] UPS USB port set to '' @
                                     up_label (bc_ports (we_board e) ! unat (bs_usb_port next_s)) @ '': restarting'') s))
                          else (r, s))))"

section \<open>Overrides and hostname\<close>

definition handleGetNutOverrides :: "('p, 's, 'f, 'n, 'o) web_env \<Rightarrow> ('p, 's, 'f, 'n, 'u, 'o) web_handler" where
  "handleGetNutOverrides e rq s =
     (send_json 200 (ji_print (we_json e) (nutOverridesJson (case wv_overrides s of Some l \<Rightarrow> l | None \<Rightarrow> []) (web_source e s) (wv_source s))), s)"

definition handleSetNutOverrides :: "('p, 's, 'f, 'n, 'o) web_env \<Rightarrow> ('p, 's, 'f, 'n, 'u, 'o) web_handler" where
  "handleSetNutOverrides e = requireJson (\<lambda>rq s.
     (if \<not> wv_override_store s \<or> wv_overrides s = None then (json_error 503 ''Not available'', s)
      else case checkNutOverridesBody (we_json e) (body_text rq) of Inl (status, body) \<Rightarrow> (send_json status body, s)
      | Inr next_l \<Rightarrow>
          let (ok, f) = saveOverrides (we_prefs e) (we_json e) next_l (wv_flash s); s = s\<lparr>wv_flash := f\<rparr>
          in if \<not> ok then (json_error 500 ''Failed to save'', web_log (rq_now rq) ''ERROR'' ''[NUT] Cannot save the custom variables to NVS'' s)
             else let s = web_logf (rq_now rq) ''INFO'' (''[NUT] Custom variables saved ('' @ dec (length next_l) @ '') by '' @ web_quoted (webUiUser s))
                            (s\<lparr>wv_overrides := Some next_l\<rparr>)
                  in (send_json 200 (ji_print (we_json e) (nutOverridesJson next_l (web_source e s) (wv_source s))), s)))"

definition handleSetHostname :: "('p, 's, 'f, 'n, 'o) web_env \<Rightarrow> ('p, 's, 'f, 'n, 'u, 'o) web_handler" where
  "handleSetHostname e = requireJson (\<lambda>rq s.
     (let reply = (\<lambda>b. send_json 200 (''{'' @ json_quoted ''success'' @ '':true,'' @ json_quoted ''restart'' @ '':'' @ bool_text b @ ''}'')) in
      case body_json e rq of None \<Rightarrow> (json_error 400 ''Invalid request'', s)
      | Some doc \<Rightarrow>
          (case checkHostnameBody doc of Inl err \<Rightarrow> (json_error 400 err, s)
           | Inr name \<Rightarrow>
               if name = wv_saved_hostname s then (reply False, s)
               else let (ok, f) = (if wv_hostname_store s then saveHostname (we_prefs e) name (wv_flash s) else (False, wv_flash s)); s = s\<lparr>wv_flash := f\<rparr>
                    in if \<not> ok then (json_error 500 ''Failed to save the hostname'', s)
                       else let s = s\<lparr>wv_saved_hostname := name\<rparr>;
                                line = (if name \<noteq> [] then ''[NETWORK] Hostname set to '' @ name @ '': restarting''
                                        else ''[NETWORK] Hostname reset to the default '' @
                                          (case wv_network s of Some m \<Rightarrow> nm_defaultHostname (we_net e) m | None \<Rightarrow> []) @ '': restarting'')
                            in (reply True, ask_restart (rq_now rq) (web_logf (rq_now rq) ''INFO'' line s)))))"

section \<open>Remote logging and time\<close>

definition handleGetLogging :: "('p, 's, 'f, 'n, 'o) web_env \<Rightarrow> ('p, 's, 'f, 'n, 'u, 'o) web_handler" where
  "handleGetLogging e rq s =
     (if \<not> wv_log_store s then (json_error 503 ''Remote logging not available'', s)
      else case wv_syslog s of None \<Rightarrow> (json_error 503 ''Remote logging not available'', s)
      | Some o1 \<Rightarrow>
          let (settings, f) = loadSyslog (we_prefs e) (wv_flash s)
          in (send_with [(''Cache-Control'', ''no-store'')] 200 ''application/json''
                (ji_print (we_json e) (remoteLogJson settings (so_status o1))), s\<lparr>wv_flash := f\<rparr>))"

definition who_changed :: "('p, 's, 'f, 'n, 'u, 'o) web_server \<Rightarrow> string" where
  "who_changed s = (if webUiUser s \<noteq> [] then webUiUser s else ''Web UI'')"

definition handleSetLogging :: "('p, 's, 'f, 'n, 'o) web_env \<Rightarrow> ('p, 's, 'f, 'n, 'u, 'o) web_handler" where
  "handleSetLogging e = requireJson (\<lambda>rq s.
     (if \<not> wv_log_store s then (json_error 503 ''Remote logging not available'', s)
      else case wv_syslog s of None \<Rightarrow> (json_error 503 ''Remote logging not available'', s)
      | Some o1 \<Rightarrow>
          (case body_json e rq of None \<Rightarrow> (json_error 400 ''Invalid request'', s)
           | Some doc \<Rightarrow>
               let (current, f) = loadSyslog (we_prefs e) (wv_flash s); s = s\<lparr>wv_flash := f\<rparr>
               in case checkRemoteLogBody doc current of Inl err \<Rightarrow> (json_error 400 err, s)
                  | Inr next_s \<Rightarrow>
                      let (ok, f) = saveSyslog (we_prefs e) next_s (wv_flash s); s = s\<lparr>wv_flash := f\<rparr>
                      in if \<not> ok then (json_error 500 ''Failed to save settings'', s)
                         else (send_json 200 success_text, s\<lparr>wv_syslog := Some (so_configure next_s (who_changed s) o1)\<rparr>))))"

definition time_view_of :: "('p, 's, 'f, 'n, 'o) web_env \<Rightarrow> ntp_status \<Rightarrow> time_view" where
  "time_view_of e n =
     (if nt_has_time n
      then let lt = we_localtime e (nt_epoch_ms n sdiv 1000); ut = we_gmtime e (nt_epoch_ms n sdiv 1000)
           in \<lparr>tv_state = nt_state n, tv_has_time = True, tv_local = we_strftime e ''%Y-%m-%d %H:%M:%S'' lt, tv_abbr = we_strftime e ''%Z'' lt,
               tv_utc = we_strftime e ''%Y-%m-%dT%H:%M:%SZ'' ut, tv_since_sync_s = nt_since_sync_s n\<rparr>
      else \<lparr>tv_state = nt_state n, tv_has_time = False, tv_local = [], tv_abbr = [], tv_utc = [], tv_since_sync_s = nt_since_sync_s n\<rparr>)"

definition handleGetTime :: "('p, 's, 'f, 'n, 'o) web_env \<Rightarrow> ('p, 's, 'f, 'n, 'u, 'o) web_handler" where
  "handleGetTime e rq s =
     (if \<not> wv_time_store s then (json_error 503 ''Time not available'', s)
      else case wv_clock s of None \<Rightarrow> (json_error 503 ''Time not available'', s)
      | Some c \<Rightarrow>
          let (settings, f) = loadTime (we_prefs e) (wv_flash s)
          in (send_with [(''Cache-Control'', ''no-store'')] 200 ''application/json''
                (ji_print (we_json e) (timeJson settings (time_view_of e (tk_status (rq_now rq) c)))), s\<lparr>wv_flash := f\<rparr>))"

definition handleSetTime :: "('p, 's, 'f, 'n, 'o) web_env \<Rightarrow> ('p, 's, 'f, 'n, 'u, 'o) web_handler" where
  "handleSetTime e = requireJson (\<lambda>rq s.
     (if \<not> wv_time_store s then (json_error 503 ''Time not available'', s)
      else case wv_clock s of None \<Rightarrow> (json_error 503 ''Time not available'', s)
      | Some c \<Rightarrow>
          (case body_json e rq of None \<Rightarrow> (json_error 400 ''Invalid request'', s)
           | Some doc \<Rightarrow>
               let (current, f) = loadTime (we_prefs e) (wv_flash s); s = s\<lparr>wv_flash := f\<rparr>
               in case checkTimeBody doc current of Inl err \<Rightarrow> (json_error 400 err, s)
                  | Inr next_s \<Rightarrow>
                      let (ok, f) = saveTime (we_prefs e) next_s (wv_flash s); s = s\<lparr>wv_flash := f\<rparr>
                      in if \<not> ok then (json_error 500 ''Failed to save settings'', s)
                         else (send_json 200 success_text, s\<lparr>wv_clock := Some (tk_configure next_s (who_changed s) c)\<rparr>))))"

section \<open>The update of the firmware\<close>

definition handleOTAPage :: "('p, 's, 'f, 'n, 'o) web_env \<Rightarrow> ('p, 's, 'f, 'n, 'u, 'o) web_handler" where
  "handleOTAPage e rq s = (send_with [(''Cache-Control'', ''no-cache, no-store, must-revalidate''), (''Content-Encoding'', ''gzip'')] 200 ''text/html''
     (we_asset e ''update_inlined_html''), s)"

definition handleOTADone :: "('p, 's, 'f, 'n, 'o) web_env \<Rightarrow> ('p, 's, 'f, 'n, 'u, 'o) web_handler" where
  "handleOTADone e rq s =
     (if \<not> wv_ota_started s
      then (send_with [(''Connection'', ''close'')] 400 ''application/json'' (error_text ''multipart upload required''), s)
      else let s = s\<lparr>wv_ota_started := False\<rparr>; bad = we_up_error e (wv_update s)
           in (send_with [(''Connection'', ''close'')] 200 ''text/plain'' (if bad then ''FAIL'' else ''OK''), if bad then s else ask_restart (rq_now rq) s))"

text \<open>The parts of an upload, with the size received before a chunk.\<close>

datatype upload = UPLOAD_FILE_START string | UPLOAD_FILE_WRITE nat string | UPLOAD_FILE_END nat | UPLOAD_FILE_ABORTED

definition ota_chunk :: "('p, 's, 'f, 'n, 'o) web_env \<Rightarrow> u32 \<Rightarrow> nat \<Rightarrow> string \<Rightarrow> ('p, 's, 'f, 'n, 'u, 'o) web_server \<Rightarrow> ('p, 's, 'f, 'n, 'u, 'o) web_server" where
  "ota_chunk e now before buf s =
     (if before = 0 \<and> buf \<noteq> [] \<and> ord (hd buf) \<noteq> 0xE9
      then (web_log now ''ERROR'' ''[OTA] Invalid magic byte'' s)\<lparr>wv_update := we_up_abort e (wv_update s)\<rparr>
      else s\<lparr>wv_update := snd (we_up_write e buf (wv_update s))\<rparr>)"

definition handleOTAUpload ::
    "('p, 's, 'f, 'n, 'o) web_env \<Rightarrow> http_request \<Rightarrow> upload \<Rightarrow> ('p, 's, 'f, 'n, 'u, 'o) web_server \<Rightarrow> ('p, 's, 'f, 'n, 'u, 'o) web_server" where
  "handleOTAUpload e rq up s =
     (if \<not> starts_with (rq_content_type rq) ''multipart/'' then s
      else case up of
        UPLOAD_FILE_START filename \<Rightarrow>
          (let (d, s) = evaluateRequest e rq s; s = s\<lparr>wv_ota_rejected := d \<noteq> Allow, wv_ota_started := d = Allow\<rparr>
           in if d \<noteq> Allow then web_log (rq_now rq) ''WARN'' ''[OTA] Upload rejected: not authenticated'' s
              else let s = web_log (rq_now rq) ''INFO'' (''[OTA] Upload started: '' @ filename) s
                   in s\<lparr>wv_ota_start_ms := rq_now rq, wv_update := snd (we_up_begin e (wv_update s))\<rparr>)
      | UPLOAD_FILE_WRITE before buf \<Rightarrow> if wv_ota_rejected s then s else ota_chunk e (rq_now rq) before buf s
      | UPLOAD_FILE_END received \<Rightarrow>
          if wv_ota_rejected s then s\<lparr>wv_ota_rejected := False\<rparr>
          else (let (ok, upd) = we_up_end e (wv_update s); s = s\<lparr>wv_update := upd\<rparr>
                in if ok then web_log (rq_now rq) ''INFO'' (''[OTA] Success: '' @ dec received @ '' bytes in '' @ dec (unat (rq_now rq - wv_ota_start_ms s)) @ '' ms'') s
                   else web_log (rq_now rq) ''ERROR'' ''[OTA] Error at the end'' s)
      | UPLOAD_FILE_ABORTED \<Rightarrow>
          if wv_ota_rejected s then s\<lparr>wv_ota_rejected := False\<rparr>
          else web_log (rq_now rq) ''ERROR'' ''[OTA] Upload aborted'' (s\<lparr>wv_update := we_up_abort e (wv_update s), wv_ota_started := False\<rparr>))"

section \<open>Routes\<close>

text \<open>The routes as \<open>begin\<close> registers them; each goes through the guard.\<close>

definition web_routes :: "('p, 's, 'f, 'n, 'o) web_env \<Rightarrow> ((string \<times> http_method) \<times> ('p, 's, 'f, 'n, 'u, 'o) web_handler) list" where
  "web_routes e =
     [((''/'', HTTP_GET), handleIndex e), ((''/index.html'', HTTP_GET), handleIndexHtml)] @
     (if bc_has_wifi (we_board e) then [((''/api/wifi/connect'', HTTP_POST), handleConnect e)] else []) @
     [((''/api/nut/config'', HTTP_POST), handleNutConfig e),
      ((''/api/nut/overrides'', HTTP_GET), handleGetNutOverrides e), ((''/api/nut/overrides'', HTTP_POST), handleSetNutOverrides e),
      ((''/api/board'', HTTP_GET), handleGetBoard e), ((''/api/board'', HTTP_POST), handleSetBoard e),
      ((''/api/network/hostname'', HTTP_POST), handleSetHostname e),
      ((''/api/logging'', HTTP_GET), handleGetLogging e), ((''/api/logging'', HTTP_POST), handleSetLogging e),
      ((''/api/time'', HTTP_GET), handleGetTime e), ((''/api/time'', HTTP_POST), handleSetTime e),
      ((''/api/logs'', HTTP_GET), handleLogs e), ((''/api/config'', HTTP_GET), handleGetConfig e),
      ((''/api/ups-vars'', HTTP_GET), handleUpsVars e), ((''/api/system-status'', HTTP_GET), handleSystemStatus e),
      ((''/api/ups/commands'', HTTP_GET), handleUpsCommands e), ((''/api/ups/command'', HTTP_POST), handleUpsCommand e),
      ((''/api/ups/variables'', HTTP_GET), handleUpsVariables e), ((''/api/ups/variable'', HTTP_POST), handleUpsVariable e),
      ((''/api/ups/variable/reset'', HTTP_POST), handleUpsVariableReset e),
      ((''/api/usb/dump'', HTTP_GET), handleUsbDump e), ((''/api/usb/dump/read'', HTTP_POST), handleDumpRead e),
      ((''/api/usb/dump/read'', HTTP_GET), handleDumpReadStatus e),
      ((''/login'', HTTP_GET), handleLoginPage e), ((''/api/auth/login'', HTTP_POST), handleAuthLogin e),
      ((''/api/auth/status'', HTTP_GET), handleAuthStatus e), ((''/api/auth/credentials'', HTTP_POST), handleAuthCredentials e),
      ((''/api/auth/logout'', HTTP_POST), handleAuthLogout e), ((''/api/auth/logout-all'', HTTP_POST), handleAuthLogoutAll e),
      ((''/update'', HTTP_GET), handleOTAPage e), ((''/update'', HTTP_POST), handleOTADone e)]"

text \<open>Any other request: to the captive portal on the access point, else not found.\<close>

definition web_notFound :: "('p, 's, 'f, 'n, 'o) web_env \<Rightarrow> ('p, 's, 'f, 'n, 'u, 'o) web_handler" where
  "web_notFound e rq s =
     (case (if wv_ap_mode s then wv_network s else None) of
        Some m \<Rightarrow> if rq_host rq \<noteq> nm_localIP (we_net e) m
                  then (send_with [(''Location'', ''http://'' @ nm_localIP (we_net e) m @ ''/'')] 302 ''text/plain'' [], s)
                  else (send_with [] 404 ''text/plain'' ''Not found'', s)
      | None \<Rightarrow> (send_with [] 404 ''text/plain'' ''Not found'', s))"

definition web_handle :: "('p, 's, 'f, 'n, 'o) web_env \<Rightarrow> ('p, 's, 'f, 'n, 'u, 'o) web_handler" where
  "web_handle e rq s = guarded e (case map_of (web_routes e) (rq_uri rq, rq_method rq) of Some h \<Rightarrow> h | None \<Rightarrow> web_notFound e) rq s"

text \<open>A request with the parts of its upload, that only the route of the update takes; an aborted upload
  has no answer.\<close>

definition web_request :: "('p, 's, 'f, 'n, 'o) web_env \<Rightarrow> http_request \<Rightarrow> upload list \<Rightarrow> ('p, 's, 'f, 'n, 'u, 'o) web_server \<Rightarrow>
    http_response option \<times> ('p, 's, 'f, 'n, 'u, 'o) web_server" where
  "web_request e rq ups s =
     (let s = (if rq_uri rq = ''/update'' \<and> rq_method rq = HTTP_POST then fold (handleOTAUpload e rq) ups s else s)
      in if ups \<noteq> [] \<and> List.last ups = UPLOAD_FILE_ABORTED then (None, s) else let (r, s) = web_handle e rq s in (Some r, s))"

section \<open>Start and turn\<close>

definition openRecoveryWindow :: "u32 \<Rightarrow> ('p, 's, 'f, 'n, 'u, 'o) web_server \<Rightarrow> ('p, 's, 'f, 'n, 'u, 'o) web_server" where
  "openRecoveryWindow now s =
     (let w = rw_openWindow now (wv_recovery s)
      in web_logf now ''INFO'' (''[AUTH] Recovery window open for '' @ dec (unat (rw_durationMs w div 60000)) @
           '' min: new web credentials can be created without the current password'') (s\<lparr>wv_recovery := w\<rparr>))"

text \<open>\<open>begin\<close> before the routes; the DNS of the captive portal is left out.\<close>

definition web_begin :: "('p, 's, 'f, 'n, 'o) web_env \<Rightarrow> bool \<Rightarrow> u32 \<Rightarrow> ('p, 's, 'f, 'n, 'u, 'o) web_server \<Rightarrow> ('p, 's, 'f, 'n, 'u, 'o) web_server" where
  "web_begin e ap now s =
     (let a = wv_auth s; c = kc_begin (we_auth e) (wa_credentials a) (wa_platform a); (t, p) = st_begin (we_auth e) (wa_sessions a) (wa_platform a);
          s = s\<lparr>wv_ap_mode := ap, wv_auth := a\<lparr>wa_credentials := c, wa_sessions := t, wa_platform := p\<rparr>\<rparr>;
          s = web_log now ''INFO'' (if kc_configured c then ''[AUTH] Web UI credentials configured'' else ''[AUTH] No Web UI credentials: first-use setup required'') s;
          n = length (filter pl_used (st_persistent t));
          s = (if 0 < n then web_logf now ''INFO'' (''[AUTH] Persistent sessions restored: '' @ dec n) s else s);
          s = (if wv_network s = None then web_log now ''ERROR'' ''[WEB] No network service set: captive portal disabled'' s else s)
      in web_log now ''INFO'' ''[WEB] Server started on port 80'' s)"

text \<open>A turn after the request, if there was one: the end of the recovery window, and whether the board
  restarts now.\<close>

definition web_turn :: "u32 \<Rightarrow> ('p, 's, 'f, 'n, 'u, 'o) web_server \<Rightarrow> bool \<times> ('p, 's, 'f, 'n, 'u, 'o) web_server" where
  "web_turn now s =
     (let (w, expired) = rw_update now (wv_recovery s); s = s\<lparr>wv_recovery := w\<rparr>;
          s = (if expired then web_log now ''INFO'' ''[AUTH] Recovery window closed: expired, the current credentials stay valid'' s else s)
      in (wv_restart s \<and> 1000 \<le> now - wv_restart_time s, s))"

end
