(* ===== verification/WebPagesProofs.thy ===== *)
theory WebPagesProofs
  imports WebPages
begin

text \<open>
  The guard over the whole table of routes: which pages answer without a session, what a refused
  request changes, and that a refused upload writes no firmware.
\<close>

section \<open>Without a session\<close>

lemma public_routes:
  "filter (\<lambda>(uri, m). decide uri (m = HTTP_GET) False configured False = Allow) (map fst (web_routes e)) =
     [(''/login'', HTTP_GET), (''/api/auth/login'', HTTP_POST), (''/api/auth/status'', HTTP_GET),
      (''/api/auth/credentials'', HTTP_POST), (''/api/auth/logout'', HTTP_POST)]"
  by (simp add: web_routes_def decide_def isPublicRoute_def starts_with_def)

text \<open>Any other request is sent to the login or refused, and changes nothing but the age of the sessions.\<close>

lemma closed_page:
  assumes "\<not> wv_ap_mode s" "\<not> fst (isAuthenticated (we_auth e) (sessionToken rq) (rq_now rq) (wv_auth s))"
    "\<not> isPublicRoute (rq_uri rq) (rq_method rq = HTTP_GET)"
  shows "hr_status (fst (web_handle e rq s)) \<in> {302, 401} \<and> (\<exists>a. snd (web_handle e rq s) = s\<lparr>wv_auth := a\<rparr>)"
  using assms
  by (auto simp: web_handle_def guarded_def evaluateRequest_def refusal_def json_error_def send_json_def send_with_def decide_def Let_def split_beta
    split: auth_decision.splits)

section \<open>The update of the firmware\<close>

lemma rejected_writes:
  assumes "wv_ota_rejected s" "list_all (\<lambda>u. \<exists>n b. u = UPLOAD_FILE_WRITE n b) ups"
  shows "fold (handleOTAUpload e rq) ups s = s"
  using assms(2) by (induction ups) (auto simp: handleOTAUpload_def assms(1))

text \<open>The parts of an upload come before the guard of the page: without a session none of them is written,
  and the next upload is looked at anew.\<close>

lemma refused_upload:
  assumes "\<not> wv_ap_mode s" "\<not> fst (isAuthenticated (we_auth e) (sessionToken rq) (rq_now rq) (wv_auth s))"
    "rq_uri rq = ''/update''" "rq_method rq = HTTP_POST" "starts_with (rq_content_type rq) ''multipart/''"
    "list_all (\<lambda>u. \<exists>n b. u = UPLOAD_FILE_WRITE n b) ups" "done = UPLOAD_FILE_ABORTED \<or> (\<exists>n. done = UPLOAD_FILE_END n)"
  shows "let s' = fold (handleOTAUpload e rq) (UPLOAD_FILE_START name # ups @ [done]) s
    in wv_update s' = wv_update s \<and> wv_flash s' = wv_flash s \<and> wv_source s' = wv_source s \<and> \<not> wv_ota_started s' \<and> \<not> wv_ota_rejected s'"
proof -
  define d where "d = decide (rq_uri rq) (rq_method rq = HTTP_GET) False (kc_configured (wa_credentials (snd (isAuthenticated (we_auth e) (sessionToken rq) (rq_now rq) (wv_auth s))))) False"
  have d: "d \<noteq> Allow" by (simp add: d_def assms decide_def isPublicRoute_def)
  define s1 where "s1 = handleOTAUpload e rq (UPLOAD_FILE_START name) s"
  have s1: "wv_ota_rejected s1" "\<not> wv_ota_started s1" "wv_update s1 = wv_update s" "wv_flash s1 = wv_flash s" "wv_source s1 = wv_source s"
    using assms(1,2,5) d by (simp_all add: s1_def handleOTAUpload_def evaluateRequest_def web_log_def d_def split_beta Let_def)
  have f: "fold (handleOTAUpload e rq) (UPLOAD_FILE_START name # ups @ [done]) s = handleOTAUpload e rq done s1"
    by (simp add: s1_def [symmetric] rejected_writes [OF s1(1) assms(6)])
  show ?thesis unfolding f using assms(7) s1 assms(5) by (auto simp: handleOTAUpload_def)
qed
end
