(* ===== verification/Spec2Isabelle.thy ===== *)
theory Spec2Isabelle
  imports LinkMonitor InputWatchdog RecoveryPolicies UpsData HidParser UpsVariables NutDates NutMatching SetVariable HostServer WebAuthProofs VendorValues UsbTask LogProofs TimeProofs UsbDiagProofs BoardLed WebProofs StoreProofs SyslogOutputProofs WebPagesProofs
begin

text \<open>
  esp32-nut is a firmware for the ESP32-S3 and the ESP32-P4 that reads a UPS on its USB host port and
  serves it on the network: to NUT clients (upsc, upsmon) on port 3493, and to a browser as a Web UI with
  a JSON API. This development models the logic of the firmware under \<open>src/lib\<close>, with the parts of
  \<open>src/src\<close> and \<open>src/include\<close> that decide something, and proves what makes it correct.

  \<^bold>\<open>The parts and how they meet.\<close> A HID task hands the events of the USB library to the poll task
  (\<open>USBHostUPS.cpp\<close>). The poll task claims the interface of a device, parses its report descriptor
  (\<open>HIDParser.cpp\<close>), picks the driver of the vendor (\<open>DriverRegistry.cpp\<close>), and has the driver bind the rows of
  its HID to NUT table (\<open>NutTable.h\<close>) to the fields of the device. From then on each turn handles the events,
  requests the reports the driver wants (\<open>GenericDriver.cpp\<close>), decodes them into the variables of the UPS
  (\<open>UPSData.h\<close>) and recovers a link that does not answer (\<open>LinkMonitor.h\<close>, \<open>RestartPolicy.h\<close>,
  \<open>PortCyclePolicy.h\<close>). The NUT server (\<open>NUTServer.cpp\<close>), the web API (\<open>WebApiJson.cpp\<close>) and the automatic
  shutdown (\<open>main.cpp\<close>) read those variables, and call the host for a command or a SET VAR; the host
  writes fields of reports through \<open>HidControl.h\<close>. The Web UI has sessions and logins of its own
  (\<open>lib/WebAuth\<close>) and a server that guards every page (\<open>web_config_server.cpp\<close>). The network, the clock, the LED,
  the System Log with its syslog output, and the settings in the flash stand beside.
\<close>

text \<open>
  \<^bold>\<open>Theories and sources.\<close> Paths are under \<open>src/\<close>; a theory named \<open>...Proofs\<close>, \<open>...Facts\<close> or \<open>...Safety\<close>
  holds lemmas on the definitions of the theories before it. A definition has the name of its function where
  HOL has no constant of that name, else with a prefix of two or three letters.

  \<^item> \<open>Prelude\<close>: machine integers, wrapping time stamps, C strings, the locales \<open>machine\<close> (steps that keep an
    invariant) and \<open>ladder\<close> (a machine with a count of recoveries that only some steps raise).
    \<open>KeyValue\<close>: vectors of key and value, with the locale \<open>kv_store\<close>. \<open>CLib\<close>: \<open>printf\<close>, \<open>strtod\<close>, \<open>gmtime\<close> as far
    as the code uses them. \<open>Json\<close>: documents of ArduinoJson.
  \<^item> \<open>lib/USBHostUPS/src\<close>, values: \<open>UpsData\<close> (\<open>UPSData.h\<close>, the vector of variables and \<open>ups.status\<close>), \<open>UpsVariables\<close>
    (\<open>UpsVariables.h\<close>, \<open>UpsCommands.h\<close>: the checks of a SET VAR), \<open>DeviceStrings\<close> (\<open>DeviceStrings.h\<close>).
  \<^item> Reports: \<open>HidReports\<close> (\<open>HIDUsages.h\<close>, \<open>BeeperLogic.h\<close>, \<open>InputReassembler.h\<close>, the values of \<open>HIDParser.cpp\<close>),
    \<open>HidParser\<close> (\<open>HIDParser.cpp\<close>, \<open>NUTUsages.h\<close>).
  \<^item> Tables: \<open>NutTable\<close> (rows and lookups of \<open>NutTable.h\<close>), \<open>NutTablesMge\<close>, \<open>NutTablesVendors\<close>, \<open>NutTablesGeneric\<close> (the nine
    tables), \<open>NutStatus\<close> (status bits), \<open>NutDecode\<close> (conversions), \<open>NutBinding\<close> (rows bound to a device), with
    \<open>NutDates\<close>, \<open>NutRoles\<close>, \<open>NutMatching\<close>, \<open>NutTableFacts\<close>.
  \<^item> Drivers: \<open>DriverModel\<close>, \<open>DriverRows\<close>, \<open>DriverPoll\<close> (\<open>GenericDriver.cpp\<close>), \<open>DriverProofs\<close>, \<open>DriverCycle\<close>; \<open>HidControl\<close>
    (\<open>HidControl.h\<close>: commands and SET VAR); \<open>VendorTables\<close>, \<open>VendorDrivers\<close>, \<open>VendorPolicies\<close> (the eight vendor
    drivers and \<open>DriverRegistry.cpp\<close>), \<open>VendorTableFacts\<close>, \<open>VendorProofs\<close>, \<open>VendorValues\<close>.
  \<^item> Health: \<open>LinkMonitor\<close>, \<open>InputWatchdog\<close> (both of \<open>LinkMonitor.h\<close>), \<open>RecoveryPolicies\<close> (\<open>RestartPolicy.h\<close>,
    \<open>PortCyclePolicy.h\<close>, \<open>EnumWatchdog.h\<close>, \<open>DescriptorRetry.h\<close>, \<open>OnlineDischargeLog.h\<close>), \<open>DiagSweep\<close> (\<open>DiagSweep.h\<close>).
  \<^item> The host: \<open>UsbHost\<close> (the operations of \<open>USBHostUPS.cpp\<close> on a claimed interface), \<open>UsbService\<close> (its poll task),
    \<open>HostSafety\<close>, \<open>SetVariable\<close>, \<open>UsbServiceSafety\<close>, \<open>UsbTask\<close> (the poll task together with the other tasks).
  \<^item> \<open>lib/NUTServer/src\<close>: \<open>NutOverrides\<close>, \<open>NutTracking\<close>, \<open>NUTServer\<close> and \<open>NUTCommands\<close> (\<open>NUTServer.cpp\<close>), \<open>NUTReplies\<close>,
    \<open>NUTAccess\<close>; \<open>HostServer\<close> puts the server in front of the host.
  \<^item> \<open>lib/WebAuth/src\<close>: \<open>WebSessions\<close> (\<open>SessionTable.cpp\<close>), \<open>WebAuth\<close> (\<open>CredentialStore.cpp\<close>, \<open>LoginThrottle.cpp\<close>,
    \<open>RecoveryWindow.h\<close>, \<open>AuthPolicy.cpp\<close>, \<open>AuthService.cpp\<close>), \<open>WebSessionProofs\<close>, \<open>WebAuthProofs\<close>.
  \<^item> \<open>lib/WebApi/src\<close>: \<open>WebApi\<close> and \<open>WebSettings\<close> (\<open>WebApiJson.cpp\<close>), \<open>UsbDiagJson\<close> (\<open>UsbDiagJson.cpp\<close>, \<open>ChunkWriter.h\<close>),
    \<open>WebProofs\<close>, \<open>UsbDiagProofs\<close>.
  \<^item> \<open>src/network\<close>, \<open>src/core\<close>: \<open>WebServer\<close>, \<open>WebPages\<close>, \<open>WebPagesProofs\<close> (\<open>web_config_server.cpp\<close>), \<open>BoardStores\<close>,
    \<open>StoreProofs\<close> (the stores of settings and \<open>config_manager.cpp\<close>), \<open>NetClock\<close> (\<open>ntp_clock.cpp\<close>), \<open>SystemLog\<close>
    (\<open>app_logger.cpp\<close>, \<open>log_dispatcher.cpp\<close>), \<open>SyslogOutput\<close>, \<open>SyslogOutputProofs\<close> (\<open>syslog_output.cpp\<close>).
  \<^item> \<open>lib/LogCore/src\<close>: \<open>LogCore\<close> (levels, rate limit, outputs, settings), \<open>SyslogFormat\<close>, \<open>LogProofs\<close>.
    \<open>lib/TimeCore/src\<close>: \<open>TimeCore\<close>, \<open>TimeProofs\<close>. \<open>lib/NetCore/src\<close>, \<open>lib/ApIdleTimeout/src\<close>, \<open>network_manager.cpp\<close>,
    \<open>include/board\<close>: \<open>NetCore\<close>. \<open>lib/DiagnosticLED/src\<close>: \<open>BoardLed\<close>. \<open>auto_shutdown.h\<close> and its check in \<open>main.cpp\<close>:
    \<open>AutoShutdown\<close>.
\<close>

text \<open>
  \<^bold>\<open>How the code is modelled.\<close> A class is a record of its members; a method takes the record and gives the
  new one, with its result. \<open>uint8_t\<close>, \<open>uint16_t\<close>, \<open>uint32_t\<close> are words and wrap as in C; a \<open>size_t\<close> that only counts
  the bytes of a list is a natural number, an \<open>int32_t\<close> whose operations do not overflow an integer.
  Floating point is exact: \<open>double\<close> and \<open>float\<close> are rationals or reals, and no property rests on rounding. A
  refusal or an early return is a constructor of a result type or a reply. Code that is not in the
  repository is an argument: the device and the HID library (\<open>usb_device\<close>, \<open>hid_io\<close>), the digests, the random
  bytes and the flash of the sessions (\<open>auth_io\<close>), the links (\<open>net_io\<close>), the parser and printer of JSON
  (\<open>json_io\<close>), the Preferences library (\<open>prefs_io\<close>), datagrams and names of the network (\<open>syslog_io\<close>), the decimal
  reading of \<open>String::toFloat\<close>. Mutexes are not modelled: an operation under a lock is one
  step, and the tasks of \<open>UsbTask\<close> and the clients of \<open>NUTAccess\<close> interleave step by step in any order. Log lines
  are modelled where a component is about them.

  \<^bold>\<open>What the lemmas show.\<close>
  \<^item> Safety of the device: no report known to freeze a device is requested (\<open>VendorProofs\<close>, \<open>UsbServiceSafety\<close>,
    \<open>UsbTask\<close>); a write changes its own field only (\<open>HostSafety\<close>); a refused command or variable sends nothing
    (\<open>HidControl\<close>, \<open>HostServer\<close>, \<open>WebProofs\<close>); a low battery leads to one shutdown (\<open>AutoShutdown\<close>).
  \<^item> Functional correctness: SET VAR and the commands with a delay write what was asked (\<open>SetVariable\<close>,
    \<open>HidControl\<close>); a field, a report, a listed text, a date, a variable of a reply and a page of settings read
    back (\<open>HidReports\<close>, \<open>NutTableFacts\<close>, \<open>NutDates\<close>, \<open>NUTReplies\<close>, \<open>WebProofs\<close>); the words of \<open>ups.status\<close> mean what
    they say (\<open>UpsData\<close>); the export is the pretty print of its document (\<open>UsbDiagProofs\<close>).
  \<^item> Refinement: the row of a variable that publishes it, against a rule stated apart (\<open>NutRoles\<close>); the calendar
    of \<open>daysFromCivil\<close> (\<open>TimeProofs\<close>); rows against paths (\<open>NutMatching\<close>).
  \<^item> Access: no call of the NUT server without the credentials (\<open>NUTAccess\<close>), no session without a login, none
    after it was closed, few guesses (\<open>WebSessionProofs\<close>, \<open>WebAuthProofs\<close>); five pages are public, any
    other request without a session changes nothing, and no firmware is written for it (\<open>WebPagesProofs\<close>).
  \<^item> Settings and log: what was saved comes back (\<open>StoreProofs\<close>, over the contract \<open>flash_ok\<close>), the page of the
    log is the end of it (\<open>SystemLog\<close>), the syslog output does not feed itself (\<open>SyslogOutputProofs\<close>), the time is
    shown only when it is known (\<open>NetClock\<close>).
  \<^item> Recovery: a dead link escalates, a restart is paced, power cycles are rare, a watchdog acts only on a
    period it has learnt (\<open>LinkMonitor\<close>, \<open>InputWatchdog\<close>, \<open>RecoveryPolicies\<close>).
  \<^item> Interfaces: \<open>kv_store\<close> is interpreted on \<open>UPSData\<close> and on the store of the driver variables; \<open>machine\<close> on the
    reassembler and the restart policy; \<open>ladder\<close> on the two link trackers; \<open>port_relation\<close> (what every operation of
    a control port keeps, a command keeps) on the host, for what it sends and for the driver it holds;
    \<open>quiet_source\<close> (a source whose refusals leave a quantity alone) on the host behind the server.

  \<^bold>\<open>What is assumed.\<close> Each is a premise of the theorems that need it, and is said in their text.
  \<^item> \<open>field_ok\<close>: the bits of a field and their shift within its first byte fit in 32. The code truncates others
    (lemma \<open>writeField_wide_field\<close>).
  \<^item> \<open>hio_info\<close> does not fail while an interface is claimed, for what the driver asks a device. When it
    fails the code goes on with the driver it had (lemma \<open>unknown_device_keeps_driver\<close>).
  \<^item> Digests and keys have 32 bytes (\<open>digests\<close>, \<open>keys_ok\<close>), random bytes come in the number asked (\<open>random_ok\<close>), and
    the flash gives back what a put wrote (\<open>flash_ok\<close>): documented behaviour of mbedtls, the chip and Preferences.

  \<^bold>\<open>Bounds and fuel.\<close> Recursive functions end by structure or by a measure that is given. Three loops do not:
  the expansion of a usage range is a \<open>partial_function\<close>, \<open>None\<close> when the code does not return, and
  \<open>HidParser\<close> proves when it does; \<open>publishRow\<close> has a depth, 2, enough since the row of \<open>ups.load\<close> recomputes the
  rows of \<open>ups.realpower\<close>, which recompute none (lemma \<open>publish_depth_enough\<close>); \<open>cw_loop\<close> stops at a full buffer,
  where the code would not end, and a buffer of one byte or more is never full between two calls.
\<close>

text \<open>
  \<^bold>\<open>What is not modelled.\<close> \<open>web_assets.h\<close> is generated from \<open>data/www\<close>; \<open>lib/usb_host_hid\<close> is the HID class driver
  of Espressif, an argument here. The adapters to the platform hold no decision that the components above do
  not make: \<open>wifi_links.cpp\<close>, \<open>eth_link.cpp\<close>, \<open>auth_platform.cpp\<close>, \<open>setup\<close> and \<open>loop\<close> of \<open>main.cpp\<close>, and the diagnostics of crashes,
  of the USB bus and of the task watchdog. The tests, the tools, the pages under \<open>data/www\<close> and the end to
  end tests are not part of the firmware. Timing within a task, stack and heap are outside a model of
  functions.
\<close>

end
